(* ===== verification/Prelude.thy ===== *)
theory Prelude
  imports Main "HOL-Library.Word" "HOL-Library.AList" "HOL-Library.Sublist"
begin

text \<open>
  Shared vocabulary of the development: Rust's machine integers and \<open>Result\<close>, the string
  operations of \<open>std::str\<close> the sources call, little-endian byte encodings, decimal
  printing and parsing, hash maps as association lists, and the interface \<open>lasting\<close> that carries an
  invariant of single operations to every sequence of them.

  Strings are lists of bytes (\<open>char\<close> has 256 values), that is, the UTF-8 form of a Rust
  \<open>str\<close>. Every separator the sources split on is ASCII, so splitting the bytes and splitting the
  code points give the same pieces.
\<close>

section \<open>Collections of facts\<close>

named_theorems codec_simps \<open>unfolding byte-level encoders and decoders\<close>
named_theorems map_laws \<open>reading a hash map after it was changed\<close>

section \<open>Machine integers and results\<close>

type_synonym u8 = "8 word"
type_synonym u32 = "32 word"
type_synonym u64 = "64 word"
type_synonym bytes = "u8 list"

type_synonym ('a, 'e) result = "'e + 'a"

abbreviation Ok :: "'a \<Rightarrow> ('a, 'e) result" where
  "Ok \<equiv> Inr"

abbreviation Err :: "'e \<Rightarrow> ('a, 'e) result" where
  "Err \<equiv> Inl"

definition is_ok :: "('a, 'e) result \<Rightarrow> bool" where
  "is_ok r = (case r of Ok _ \<Rightarrow> True | Err _ \<Rightarrow> False)"

lemma is_ok_simps [simp]: "is_ok (Ok x)" "\<not> is_ok (Err e)"
  by (simp_all add: is_ok_def)

lemma is_okE: "is_ok r \<Longrightarrow> (\<And>x. r = Ok x \<Longrightarrow> P) \<Longrightarrow> P"
  by (cases r) auto


section \<open>Saturating arithmetic\<close>

text \<open>\<open>saturating_add\<close> and \<open>saturating_sub\<close> of the unsigned integers.\<close>

definition sat_add :: "'a::len word \<Rightarrow> 'a word \<Rightarrow> 'a word" where
  "sat_add a b = (if unat a + unat b < 2 ^ LENGTH('a) then a + b else - 1)"

definition sat_sub :: "'a::len word \<Rightarrow> 'a word \<Rightarrow> 'a word" where
  "sat_sub a b = (if a < b then 0 else a - b)"

lemma unat_sat_add: "unat (sat_add a b) = min (unat a + unat b) (2 ^ LENGTH('a) - 1)"
  for a b :: "'a::len word"
  by (auto simp: sat_add_def unat_word_ariths unsigned_minus_1_eq_mask mask_eq_exp_minus_1 min_def)

lemma unat_sat_sub: "unat (sat_sub a b) = unat a - unat b"
  for a b :: "'a::len word"
  by (auto simp: sat_sub_def word_less_nat_alt unat_sub_if')

lemma sat_add_mono: "a \<le> sat_add a b" for a b :: "'a::len word"
proof -
  have "unat a \<le> 2 ^ LENGTH('a) - 1"
    using unsigned_less [of a, where 'a = nat] by linarith
  then show ?thesis
    by (simp add: word_le_nat_alt unat_sat_add)
qed

section \<open>Strings\<close>

text \<open>\<open>str::split(c)\<close>: the pieces between the separators, always at least one.\<close>

fun split_on :: "char \<Rightarrow> string \<Rightarrow> string list" where
  "split_on c [] = [[]]"
| "split_on c (x # xs) =
     (if x = c then [] # split_on c xs
      else (case split_on c xs of [] \<Rightarrow> [[x]] | s # ss \<Rightarrow> (x # s) # ss))"

fun join_with :: "char \<Rightarrow> string list \<Rightarrow> string" where
  "join_with c [] = []"
| "join_with c [s] = s"
| "join_with c (s # t # ss) = s @ c # join_with c (t # ss)"

lemma split_on_not_Nil [simp]: "split_on c s \<noteq> []"
  by (induction s) (auto split: list.splits)

lemma join_with_Cons: "ss \<noteq> [] \<Longrightarrow> join_with c (s # ss) = s @ c # join_with c ss"
  by (cases ss) auto

lemma join_split_on [simp]: "join_with c (split_on c s) = s"
proof (induction s)
  case Nil
  then show ?case by simp
next
  case (Cons x xs)
  obtain t ts where split: "split_on c xs = t # ts"
    by (cases "split_on c xs") auto
  with Cons.IH show ?case
    by (cases ts) auto
qed

lemma split_on_no_sep: "t \<in> set (split_on c s) \<Longrightarrow> c \<notin> set t"
  by (induction s arbitrary: t) (auto split: list.splits if_splits)

lemma split_on_single: "c \<notin> set s \<Longrightarrow> split_on c s = [s]"
  by (induction s) auto

lemma split_on_append:
  "c \<notin> set s \<Longrightarrow> split_on c (s @ c # t) = s # split_on c t"
  by (induction s) auto

lemma split_on_join:
  "ss \<noteq> [] \<Longrightarrow> \<forall>s \<in> set ss. c \<notin> set s \<Longrightarrow> split_on c (join_with c ss) = ss"
  by (induction c ss rule: join_with.induct) (auto simp: split_on_single split_on_append)

lemma inj_split_on: "split_on c s = split_on c t \<Longrightarrow> s = t"
  by (metis join_split_on)

text \<open>\<open>str::starts_with\<close>, \<open>strip_prefix\<close> and \<open>strip_suffix\<close>.\<close>

definition starts_with :: "string \<Rightarrow> string \<Rightarrow> bool" where
  "starts_with s p = prefix p s"

definition strip_prefix :: "string \<Rightarrow> string \<Rightarrow> string option" where
  "strip_prefix s p = (if prefix p s then Some (drop (length p) s) else None)"

definition strip_suffix :: "string \<Rightarrow> string \<Rightarrow> string option" where
  "strip_suffix s p = (if suffix p s then Some (take (length s - length p) s) else None)"

lemma strip_prefix_append [simp]: "strip_prefix (p @ s) p = Some s"
  by (simp add: strip_prefix_def)

lemma strip_suffix_append [simp]: "strip_suffix (s @ p) p = Some s"
  by (simp add: strip_suffix_def suffix_def)

lemma strip_prefix_SomeD: "strip_prefix s p = Some t \<Longrightarrow> s = p @ t"
  by (auto simp: strip_prefix_def prefix_def split: if_splits)

lemma strip_suffix_SomeD: "strip_suffix s p = Some t \<Longrightarrow> s = t @ p"
  by (auto simp: strip_suffix_def suffix_def split: if_splits)

text \<open>\<open>char::is_ascii_lowercase\<close> and \<open>char::is_ascii_digit\<close>.\<close>

definition is_ascii_lowercase :: "char \<Rightarrow> bool" where
  "is_ascii_lowercase c \<longleftrightarrow> 97 \<le> (of_char c :: nat) \<and> (of_char c :: nat) \<le> 122"

definition is_ascii_digit :: "char \<Rightarrow> bool" where
  "is_ascii_digit c \<longleftrightarrow> 48 \<le> (of_char c :: nat) \<and> (of_char c :: nat) \<le> 57"

text \<open>\<open>eq_ignore_ascii_case\<close> of \<open>str\<close>.\<close>

definition to_ascii_lowercase :: "char \<Rightarrow> char" where
  "to_ascii_lowercase c =
     (if 65 \<le> (of_char c :: nat) \<and> (of_char c :: nat) \<le> 90 then char_of (of_char c + 32 :: nat) else c)"

definition eq_ignore_ascii_case :: "string \<Rightarrow> string \<Rightarrow> bool" where
  "eq_ignore_ascii_case s t \<longleftrightarrow> map to_ascii_lowercase s = map to_ascii_lowercase t"

section \<open>Decimal numbers\<close>

definition digit_char :: "nat \<Rightarrow> char" where
  "digit_char d = char_of (48 + d)"

definition char_digit :: "char \<Rightarrow> nat option" where
  "char_digit c = (if 48 \<le> (of_char c :: nat) \<and> (of_char c :: nat) \<le> 57
     then Some (of_char c - 48) else None)"

lemma char_digit_digit_char [simp]: "d < 10 \<Longrightarrow> char_digit (digit_char d) = Some d"
  by (simp add: char_digit_def digit_char_def of_char_of)

text \<open>\<open>Display\<close> of an unsigned integer, and \<open>{:05}\<close> padding.\<close>

fun show_nat :: "nat \<Rightarrow> string" where
  "show_nat n = (if n < 10 then [digit_char n] else show_nat (n div 10) @ [digit_char (n mod 10)])"

declare show_nat.simps [simp del]

definition pad_left :: "nat \<Rightarrow> char \<Rightarrow> string \<Rightarrow> string" where
  "pad_left w c s = replicate (w - length s) c @ s"

text \<open>Reading a run of digits, most significant first; \<open>None\<close> on any other character.\<close>

fun read_digits :: "nat \<Rightarrow> string \<Rightarrow> nat option" where
  "read_digits acc [] = Some acc"
| "read_digits acc (c # cs) =
     (case char_digit c of None \<Rightarrow> None | Some d \<Rightarrow> read_digits (acc * 10 + d) cs)"

text \<open>
  \<open>str::parse\<close> of an unsigned integer: a leading plus sign is dropped, the rest must be a non-empty
  run of digits, and the value must fit the width.
\<close>

definition parse_uint :: "string \<Rightarrow> 'a::len word option" where
  "parse_uint s =
     (let ds = (case s of [] \<Rightarrow> [] | c # cs \<Rightarrow> if c = CHR ''+'' then cs else s)
      in if ds = [] then None
         else case read_digits 0 ds of
                None \<Rightarrow> None
              | Some n \<Rightarrow> if n < 2 ^ LENGTH('a) then Some (word_of_nat n) else None)"

abbreviation parse_u32 :: "string \<Rightarrow> u32 option" where
  "parse_u32 \<equiv> parse_uint"

abbreviation parse_u64 :: "string \<Rightarrow> u64 option" where
  "parse_u64 \<equiv> parse_uint"

lemma read_digits_append:
  "read_digits acc (s @ t) =
     (case read_digits acc s of None \<Rightarrow> None | Some n \<Rightarrow> read_digits n t)"
  by (induction s arbitrary: acc) (auto split: option.splits)

lemma read_digits_zeros [simp]: "read_digits 0 (replicate k (digit_char 0) @ s) = read_digits 0 s"
  by (induction k) auto

lemma read_show_nat: "read_digits 0 (show_nat n) = Some n"
proof (induction n rule: show_nat.induct)
  case (1 n)
  then show ?case
    by (subst show_nat.simps) (auto simp: read_digits_append)
qed

lemma show_nat_inj [simp]: "show_nat a = show_nat b \<longleftrightarrow> a = b"
  by (metis option.inject read_show_nat)

lemma show_nat_not_Nil [simp]: "show_nat n \<noteq> []"
  by (subst show_nat.simps) simp

lemma hd_show_nat: "\<exists>d < 10. hd (show_nat n) = digit_char d"
proof (induction n rule: show_nat.induct)
  case (1 n)
  then show ?case
    by (subst show_nat.simps) (auto simp: hd_append)
qed

lemma digit_char_not_plus: "d < 10 \<Longrightarrow> digit_char d \<noteq> CHR ''+''"
  by (drule char_digit_digit_char) (auto simp: char_digit_def)

lemma parse_uint_show:
  assumes "n < 2 ^ LENGTH('a::len)"
  shows "(parse_uint :: string \<Rightarrow> 'a word option) (pad_left w (digit_char 0) (show_nat n)) = Some (word_of_nat n)"
proof -
  let ?s = "pad_left w (digit_char 0) (show_nat n)"
  have digits: "read_digits 0 ?s = Some n"
    by (simp add: pad_left_def read_show_nat)
  have ne: "?s \<noteq> []"
    by (simp add: pad_left_def)
  have "\<exists>d < 10. hd ?s = digit_char d"
    using hd_show_nat [of n] by (auto simp: pad_left_def hd_append intro: exI [of _ "0::nat"])
  then have "hd ?s \<noteq> CHR ''+''"
    using digit_char_not_plus by metis
  with ne digits assms show ?thesis
    by (cases ?s) (auto simp: parse_uint_def Let_def)
qed

lemma parse_u32_show: "n < 2 ^ 32 \<Longrightarrow> parse_u32 (pad_left w (digit_char 0) (show_nat n)) = Some (word_of_nat n)"
  using parse_uint_show [where 'a = 32] by simp

lemma parse_u64_show: "parse_u64 (show_nat (unat x)) = Some x"
  using parse_uint_show [where 'a = 64, of "unat x" 0] unsigned_less [of x, where 'a = nat]
  by (simp add: pad_left_def)

section \<open>Little-endian integers\<close>

text \<open>\<open>u32::to_le_bytes\<close> and \<open>u32::from_le_bytes\<close>.\<close>

definition to_le_bytes :: "u32 \<Rightarrow> bytes" where
  "to_le_bytes w = map (\<lambda>i. ucast (drop_bit (8 * i) w)) [0, 1, 2, 3]"

definition from_le_bytes :: "bytes \<Rightarrow> u32" where
  "from_le_bytes bs = foldr (\<lambda>b acc. or (ucast b) (push_bit 8 acc)) bs 0"

lemma length_to_le_bytes [simp]: "length (to_le_bytes w) = 4"
  by (simp add: to_le_bytes_def)

lemma from_to_le_bytes [simp]: "from_le_bytes (to_le_bytes w) = w"
proof (rule bit_word_eqI)
  fix n
  assume "n < LENGTH(32)"
  then have n: "n < 32" by simp
  consider "n < 8" | "8 \<le> n" "n < 16" | "16 \<le> n" "n < 24" | "24 \<le> n" "n < 32"
    using n by linarith
  then show "bit (from_le_bytes (to_le_bytes w)) n = bit w n"
    using n by cases (auto simp: to_le_bytes_def from_le_bytes_def bit_simps algebra_simps)
qed

section \<open>Framed byte streams\<close>

text \<open>
  The contract of a self-delimiting frame format: a reader that finds a valid frame at the front
  of a stream takes exactly that frame.
\<close>

locale framing =
  fixes valid :: "'m \<Rightarrow> bool"
    and frame :: "'m \<Rightarrow> 'b list"
    and unframe :: "'b list \<Rightarrow> ('m \<times> 'b list) option"
  assumes unframe_frame: "valid m \<Longrightarrow> unframe (frame m @ rest) = Some (m, rest)"
begin

fun unframe_many :: "nat \<Rightarrow> 'b list \<Rightarrow> ('m list \<times> 'b list) option" where
  "unframe_many 0 bs = Some ([], bs)"
| "unframe_many (Suc n) bs =
     (case unframe bs of
        None \<Rightarrow> None
      | Some (m, rest) \<Rightarrow> map_option (\<lambda>(ms, r). (m # ms, r)) (unframe_many n rest))"

lemma unframe_many_frames:
  "\<forall>m \<in> set ms. valid m \<Longrightarrow>
     unframe_many (length ms) (concat (map frame ms) @ rest) = Some (ms, rest)"
  by (induction ms) (auto simp: unframe_frame)

lemma frame_prefix_free:
  assumes "valid m" "valid m'" "frame m @ r = frame m' @ r'"
  shows "m = m' \<and> r = r'"
proof -
  have "Some (m, r) = unframe (frame m @ r)"
    by (rule unframe_frame [OF assms(1), symmetric])
  also have "\<dots> = Some (m', r')"
    unfolding assms(3) by (rule unframe_frame [OF assms(2)])
  finally show ?thesis by simp
qed

lemma frames_inj:
  assumes "\<forall>m \<in> set ms. valid m" "\<forall>m \<in> set ms'. valid m" "length ms = length ms'"
    and "concat (map frame ms) = concat (map frame ms')"
  shows "ms = ms'"
proof -
  have "Some (ms, []) = unframe_many (length ms) (concat (map frame ms) @ [])"
    by (rule unframe_many_frames [OF assms(1), symmetric])
  also have "\<dots> = unframe_many (length ms') (concat (map frame ms') @ [])"
    by (simp only: assms(3,4))
  also have "\<dots> = Some (ms', [])"
    by (rule unframe_many_frames [OF assms(2)])
  finally show ?thesis by simp
qed

end

section \<open>Hash maps\<close>

text \<open>
  A \<open>HashMap\<close> is an association list with distinct keys. The order of the list is the
  iteration order of the map, which Rust leaves open: statements that quantify over the list
  quantify over every iteration order.
\<close>

type_synonym ('k, 'v) hash_map = "('k \<times> 'v) list"

definition hm_wf :: "('k, 'v) hash_map \<Rightarrow> bool" where
  "hm_wf m = distinct (map fst m)"

definition hm_get :: "('k, 'v) hash_map \<Rightarrow> 'k \<Rightarrow> 'v option" where
  "hm_get m k = map_of m k"

definition hm_insert :: "'k \<Rightarrow> 'v \<Rightarrow> ('k, 'v) hash_map \<Rightarrow> ('k, 'v) hash_map" where
  "hm_insert k v m = AList.update k v m"

definition hm_remove :: "'k \<Rightarrow> ('k, 'v) hash_map \<Rightarrow> ('k, 'v) hash_map" where
  "hm_remove k m = AList.delete k m"

text \<open>\<open>entry(k).or_insert_with(d)\<close> followed by a change of the value in place.\<close>

definition hm_entry :: "'k \<Rightarrow> 'v \<Rightarrow> ('v \<Rightarrow> 'v) \<Rightarrow> ('k, 'v) hash_map \<Rightarrow> ('k, 'v) hash_map" where
  "hm_entry k d f m = hm_insert k (f (case hm_get m k of None \<Rightarrow> d | Some v \<Rightarrow> v)) m"

text \<open>What a client of a keyed store may rely on.\<close>

locale keyed_store =
  fixes wf :: "'m \<Rightarrow> bool"
    and get :: "'m \<Rightarrow> 'k \<Rightarrow> 'v option"
    and ins :: "'k \<Rightarrow> 'v \<Rightarrow> 'm \<Rightarrow> 'm"
    and rem :: "'k \<Rightarrow> 'm \<Rightarrow> 'm"
  assumes get_ins: "get (ins k v m) k' = (if k' = k then Some v else get m k')"
    and get_rem: "get (rem k m) k' = (if k' = k then None else get m k')"
    and wf_ins: "wf m \<Longrightarrow> wf (ins k v m)"
    and wf_rem: "wf m \<Longrightarrow> wf (rem k m)"
begin

lemma ins_ins_same: "get (ins k v' (ins k v m)) = get (ins k v' m)"
  by (rule ext) (simp add: get_ins)

lemma ins_commute: "k \<noteq> k' \<Longrightarrow> get (ins k v (ins k' v' m)) = get (ins k' v' (ins k v m))"
  by (rule ext) (simp add: get_ins)

lemma rem_ins: "get (rem k (ins k v m)) = get (rem k m)"
  by (rule ext) (simp add: get_ins get_rem)

lemma wf_fold_ins: "wf m \<Longrightarrow> wf (fold (\<lambda>(k, v). ins k v) kvs m)"
  by (induction kvs arbitrary: m) (auto intro: wf_ins)

end

interpretation hm: keyed_store hm_wf hm_get hm_insert hm_remove
  by unfold_locales
    (auto simp: hm_get_def hm_insert_def hm_remove_def hm_wf_def update_conv' delete_conv'
      intro: distinct_update distinct_delete)

lemmas hm_laws [simp, map_laws] = hm.get_ins hm.get_rem hm.wf_ins hm.wf_rem

lemma hm_wf_Nil [simp]: "hm_wf []"
  by (simp add: hm_wf_def)

lemma hm_get_Nil [simp]: "hm_get [] k = None"
  by (simp add: hm_get_def)

lemma hm_get_entry [map_laws]:
  "hm_get (hm_entry k d f m) k' =
     (if k' = k then Some (f (case hm_get m k of None \<Rightarrow> d | Some v \<Rightarrow> v)) else hm_get m k')"
  by (simp add: hm_entry_def)

lemma hm_wf_entry [simp]: "hm_wf m \<Longrightarrow> hm_wf (hm_entry k d f m)"
  by (simp add: hm_entry_def)

lemma hm_get_SomeD: "hm_get m k = Some v \<Longrightarrow> (k, v) \<in> set m"
  by (simp add: hm_get_def map_of_SomeD)

lemma hm_get_iff: "hm_wf m \<Longrightarrow> hm_get m k = Some v \<longleftrightarrow> (k, v) \<in> set m"
  by (simp add: hm_get_def hm_wf_def)

lemma hm_wf_filter: "hm_wf m \<Longrightarrow> hm_wf (filter P m)"
  by (simp add: hm_wf_def distinct_map_filter)

text \<open>A property that a loop body keeps holds after the loop.\<close>

lemma foldl_invariant:
  assumes "P s" "\<And>s x. x \<in> set xs \<Longrightarrow> P s \<Longrightarrow> P (f s x)"
  shows "P (foldl f s xs)"
  using assms by (induction xs arbitrary: s) auto

text \<open>
  What a component promises over its whole life: a property of its state that every operation within a
  guard keeps is kept by every sequence of such operations.
\<close>

locale lasting =
  fixes lasts :: "'s \<Rightarrow> bool"
    and exec :: "'op \<Rightarrow> 's \<Rightarrow> 's"
    and guard :: "'op \<Rightarrow> bool"
  assumes step: "lasts s \<Longrightarrow> guard op \<Longrightarrow> lasts (exec op s)"
begin

lemma run: "lasts s \<Longrightarrow> list_all guard ops \<Longrightarrow> lasts (foldl (\<lambda>s op. exec op s) s ops)"
  by (induction ops arbitrary: s) (simp_all add: step)

end

end
