(* ===== verification/Mailbox.thy ===== *)
theory Mailbox
  imports Main
begin

text \<open>
  The contract the message queues of the system share: every operation hands over in order what it
  accepts and what it delivers, per recipient. The client of a queue relies on one law per
  operation; that nothing is lost, duplicated or reordered in a whole run follows here.
\<close>

text \<open>A run of operations, with everything accepted and delivered, tagged with its recipient.\<close>

fun box_run ::
    "('op \<Rightarrow> 's \<Rightarrow> ('c \<times> 'm) list \<times> ('c \<times> 'm) list \<times> 's) \<Rightarrow> 'op list \<Rightarrow> 's
       \<Rightarrow> ('c \<times> 'm) list \<times> ('c \<times> 'm) list \<times> 's" where
  "box_run stp [] s = ([], [], s)"
| "box_run stp (op # ops) s =
     (case stp op s of (acc, tak, s') \<Rightarrow> (case box_run stp ops s' of (acc', tak', s'') \<Rightarrow>
        (acc @ acc', tak @ tak', s'')))"

definition for_client :: "'c \<Rightarrow> ('c \<times> 'm) list \<Rightarrow> 'm list" where
  "for_client c xs = map snd (filter (\<lambda>(c', _). c' = c) xs)"

lemma for_client_simps [simp]:
  "for_client c [] = []" "for_client c (xs @ ys) = for_client c xs @ for_client c ys"
  "for_client c ((c', m) # xs) = (if c' = c then m # for_client c xs else for_client c xs)"
  "for_client c (map (\<lambda>m. (c', m)) ms) = (if c' = c then ms else [])"
  by (auto simp: for_client_def comp_def filter_map)

lemma box_run_ConsE:
  assumes "box_run stp (op # ops) s = (acc, tak, s')"
  obtains acc1 tak1 s1 acc2 tak2 where "stp op s = (acc1, tak1, s1)"
    "box_run stp ops s1 = (acc2, tak2, s')" "acc = acc1 @ acc2" "tak = tak1 @ tak2"
  using assms by (auto split: prod.splits)

locale mailboxes =
  fixes inv :: "'s \<Rightarrow> bool"
    and stp :: "'op \<Rightarrow> 's \<Rightarrow> ('c \<times> 'm) list \<times> ('c \<times> 'm) list \<times> 's"
    and box :: "'s \<Rightarrow> 'c \<Rightarrow> 'm list"
  assumes inv_stp: "inv s \<Longrightarrow> stp op s = (acc, tak, s') \<Longrightarrow> inv s'"
    and stp_conserves: "inv s \<Longrightarrow> stp op s = (acc, tak, s') \<Longrightarrow>
          for_client c tak @ box s' c = box s c @ for_client c acc"
begin

lemma run_conserves:
  "inv s \<Longrightarrow> box_run stp ops s = (acc, tak, s') \<Longrightarrow>
     inv s' \<and> for_client c tak @ box s' c = box s c @ for_client c acc"
proof (induction ops arbitrary: s acc tak)
  case (Cons op ops)
  from Cons.prems(2) obtain acc1 tak1 s1 acc2 tak2 where st: "stp op s = (acc1, tak1, s1)"
    and run: "box_run stp ops s1 = (acc2, tak2, s')" and eq: "acc = acc1 @ acc2" "tak = tak1 @ tak2"
    by (rule box_run_ConsE)
  have rest: "inv s' \<and> for_client c tak2 @ box s' c = box s1 c @ for_client c acc2"
    by (rule Cons.IH [OF inv_stp [OF Cons.prems(1) st] run])
  note one = stp_conserves [OF Cons.prems(1) st, of c]
  have "for_client c (tak1 @ tak2) @ box s' c = for_client c tak1 @ box s1 c @ for_client c acc2"
    using rest by simp
  also have "\<dots> = box s c @ for_client c (acc1 @ acc2)"
    using one by (metis append.assoc for_client_simps(2))
  finally show ?case
    using rest by (simp add: eq)
qed simp

text \<open>What every operation keeps, a run keeps.\<close>

lemma run_keeps:
  assumes "\<And>s op acc tak s'. inv s \<Longrightarrow> stp op s = (acc, tak, s') \<Longrightarrow> f s' = f s"
  shows "inv s \<Longrightarrow> box_run stp ops s = (acc, tak, s') \<Longrightarrow> f s' = f s"
proof (induction ops arbitrary: s acc tak)
  case (Cons op ops)
  from Cons.prems(2) obtain acc1 tak1 s1 acc2 tak2 where st: "stp op s = (acc1, tak1, s1)"
    and run: "box_run stp ops s1 = (acc2, tak2, s')"
    by (rule box_run_ConsE)
  show ?case
    using Cons.IH [OF inv_stp [OF Cons.prems(1) st] run] assms [OF Cons.prems(1) st] by simp
qed simp

end

end
