(* ===== verification/Topic.thy ===== *)
theory Topic
  imports Prelude
begin

text \<open>
  The topic layer of the event bus, \<^verbatim>\<open>daemoneye-eventbus/src/topic.rs\<close>: topic names and
  their validation, subscription patterns with the wildcards \<open>+\<close> and \<open>#\<close>, the matcher that
  routes a message to subscribers (\<open>TopicMatcher\<close>) and the registry of publish and subscribe
  rights (\<open>TopicRegistry\<close>). The wildcard loop is kept as the two-index loop of the source and
  proved equal to a declarative reading of patterns.
\<close>

section \<open>Data\<close>

datatype TopicDomain = Events | Control | System | Debug

datatype TopicType =
  Process | Network | Filesystem | Performance | Collector | Agent | Health | Generic

datatype PatternSegment = Literal string | SingleWildcard | MultiWildcard

datatype TopicError =
    InvalidFormat string
  | TooDeep nat
  | EmptySegment nat
  | InvalidCharacter char
  | ReservedPrefix string
  | UnknownDomain string

record Topic =
  topic_name :: string
  topic_segments :: "string list"
  topic_domain :: TopicDomain
  topic_type :: TopicType

record TopicPattern =
  pattern_text :: string
  pattern_segments :: "PatternSegment list"

section \<open>Topic names\<close>

definition MAX_DEPTH :: nat where
  "MAX_DEPTH = 5"

definition RESERVED_PREFIXES :: "string list" where
  "RESERVED_PREFIXES = [''system'', ''debug'']"

definition is_topic_char :: "char \<Rightarrow> bool" where
  "is_topic_char ch \<longleftrightarrow>
     is_ascii_lowercase ch \<or> is_ascii_digit ch \<or> ch = CHR ''-'' \<or> ch = CHR ''_''"

fun check_reserved :: "string list \<Rightarrow> string \<Rightarrow> (unit, TopicError) result" where
  "check_reserved [] name = Ok ()"
| "check_reserved (p # ps) name =
     (if starts_with name p then Err (ReservedPrefix p) else check_reserved ps name)"

fun check_chars :: "string \<Rightarrow> (unit, TopicError) result" where
  "check_chars [] = Ok ()"
| "check_chars (ch # chs) =
     (if \<not> is_topic_char ch then Err (InvalidCharacter ch) else check_chars chs)"

fun check_segments :: "nat \<Rightarrow> string list \<Rightarrow> (unit, TopicError) result" where
  "check_segments i [] = Ok ()"
| "check_segments i (s # ss) =
     (if s = [] then Err (EmptySegment i)
      else case check_chars s of
             Err e \<Rightarrow> Err e
           | Ok _ \<Rightarrow> check_segments (Suc i) ss)"

definition validate_topic_name :: "string \<Rightarrow> (unit, TopicError) result" where
  "validate_topic_name name =
     (if name = [] then Err (InvalidFormat ''empty topic name'')
      else case check_reserved RESERVED_PREFIXES name of
             Err e \<Rightarrow> Err e
           | Ok _ \<Rightarrow> check_segments 0 (split_on CHR ''.'' name))"

definition parse_domain :: "string \<Rightarrow> (TopicDomain, TopicError) result" where
  "parse_domain s =
     (if s = ''events'' then Ok Events
      else if s = ''control'' then Ok Control
      else if s = ''system'' then Ok System
      else if s = ''debug'' then Ok Debug
      else Err (UnknownDomain s))"

definition parse_topic_type :: "string list \<Rightarrow> TopicType" where
  "parse_topic_type segs =
     (if length segs < 2 then Generic
      else let s = segs ! 1 in
        if s = ''process'' then Process
        else if s = ''network'' then Network
        else if s = ''filesystem'' then Filesystem
        else if s = ''performance'' then Performance
        else if s = ''collector'' then Collector
        else if s = ''agent'' then Agent
        else if s = ''health'' then Health
        else Generic)"

definition Topic_new :: "string \<Rightarrow> (Topic, TopicError) result" where
  "Topic_new name =
     (case validate_topic_name name of
        Err e \<Rightarrow> Err e
      | Ok _ \<Rightarrow>
          (let segs = split_on CHR ''.'' name in
           if length segs > MAX_DEPTH then Err (TooDeep (length segs))
           else case parse_domain (segs ! 0) of
                  Err e \<Rightarrow> Err e
                | Ok d \<Rightarrow> Ok \<lparr>topic_name = name, topic_segments = segs, topic_domain = d,
                               topic_type = parse_topic_type segs\<rparr>))"

definition is_event_topic :: "Topic \<Rightarrow> bool" where
  "is_event_topic t = (topic_domain t = Events)"

definition is_control_topic :: "Topic \<Rightarrow> bool" where
  "is_control_topic t = (topic_domain t = Control)"

definition topic_depth :: "Topic \<Rightarrow> nat" where
  "topic_depth t = length (topic_segments t)"

section \<open>Patterns\<close>

definition parse_pattern_segment :: "string \<Rightarrow> PatternSegment" where
  "parse_pattern_segment s =
     (if s = ''+'' then SingleWildcard else if s = ''#'' then MultiWildcard else Literal s)"

text \<open>The loop that looks for a \<open>#\<close> before the last segment.\<close>

fun misplaced_multi :: "nat \<Rightarrow> nat \<Rightarrow> PatternSegment list \<Rightarrow> bool" where
  "misplaced_multi last_idx i [] = False"
| "misplaced_multi last_idx i (p # ps) =
     (if p = MultiWildcard \<and> i \<noteq> last_idx then True else misplaced_multi last_idx (Suc i) ps)"

definition TopicPattern_new :: "string \<Rightarrow> (TopicPattern, TopicError) result" where
  "TopicPattern_new pat =
     (let segs = map parse_pattern_segment (split_on CHR ''.'' pat) in
      if misplaced_multi (length segs - 1) 0 segs
      then Err (InvalidFormat ''Multi-level wildcard (#) must be at the end'')
      else Ok \<lparr>pattern_text = pat, pattern_segments = segs\<rparr>)"

text \<open>\<open>matches_segments\<close>: the while loop over a pattern index and a topic index, and its exit.\<close>

function match_loop :: "PatternSegment list \<Rightarrow> string list \<Rightarrow> nat \<Rightarrow> nat \<Rightarrow> bool" where
  "match_loop ps ts i j =
     (if i < length ps \<and> j < length ts then
        (case ps ! i of
           Literal l \<Rightarrow> if l \<noteq> ts ! j then False else match_loop ps ts (i + 1) (j + 1)
         | SingleWildcard \<Rightarrow> match_loop ps ts (i + 1) (j + 1)
         | MultiWildcard \<Rightarrow> True)
      else if j = length ts \<and> i < length ps \<and> ps ! i = MultiWildcard then True
      else i = length ps \<and> j = length ts)"
  by pat_completeness auto
termination
  by (relation "measure (\<lambda>(ps, ts, i, j). length ps - i)") auto

declare match_loop.simps [simp del]

definition matches_segments :: "TopicPattern \<Rightarrow> string list \<Rightarrow> bool" where
  "matches_segments p ts = match_loop (pattern_segments p) ts 0 0"

definition matches :: "TopicPattern \<Rightarrow> Topic \<Rightarrow> bool" where
  "matches p t = matches_segments p (topic_segments t)"

section \<open>Routing: TopicMatcher\<close>

record TopicStats =
  messages_published :: u64
  messages_delivered :: u64
  active_subscribers :: nat

definition TopicStats_default :: TopicStats where
  "TopicStats_default = \<lparr>messages_published = 0, messages_delivered = 0, active_subscribers = 0\<rparr>"

record TopicMatcher =
  subscriptions :: "(string, TopicPattern list) hash_map"
  topic_stats :: "(string, TopicStats) hash_map"

definition TopicMatcher_new :: TopicMatcher where
  "TopicMatcher_new = \<lparr>subscriptions = [], topic_stats = []\<rparr>"

definition add_subscription ::
    "TopicMatcher \<Rightarrow> string \<Rightarrow> string \<Rightarrow> (TopicMatcher, TopicError) result" where
  "add_subscription m sid pat =
     (case TopicPattern_new pat of
        Err e \<Rightarrow> Err e
      | Ok tp \<Rightarrow> Ok (m\<lparr>subscriptions := hm_entry sid [] (\<lambda>ps. ps @ [tp]) (subscriptions m)\<rparr>))"

definition remove_subscriber :: "TopicMatcher \<Rightarrow> string \<Rightarrow> TopicMatcher" where
  "remove_subscriber m sid = m\<lparr>subscriptions := hm_remove sid (subscriptions m)\<rparr>"

text \<open>The inner loop stops at the first pattern of a subscriber that matches.\<close>

fun any_match :: "TopicPattern list \<Rightarrow> Topic \<Rightarrow> bool" where
  "any_match [] t = False"
| "any_match (p # ps) t = (if matches p t then True else any_match ps t)"

fun collect_matching ::
    "(string, TopicPattern list) hash_map \<Rightarrow> Topic \<Rightarrow> string list \<Rightarrow> string list" where
  "collect_matching [] t acc = acc"
| "collect_matching ((sid, ps) # rest) t acc =
     collect_matching rest t (if any_match ps t then acc @ [sid] else acc)"

definition get_matching_subscribers ::
    "TopicMatcher \<Rightarrow> string \<Rightarrow> (string list, TopicError) result" where
  "get_matching_subscribers m topic =
     (case Topic_new topic of
        Err e \<Rightarrow> Err e
      | Ok t \<Rightarrow> Ok (collect_matching (subscriptions m) t []))"

definition record_publication :: "TopicMatcher \<Rightarrow> string \<Rightarrow> TopicMatcher" where
  "record_publication m topic =
     m\<lparr>topic_stats := hm_entry topic TopicStats_default
         (\<lambda>s. s\<lparr>messages_published := sat_add (messages_published s) 1\<rparr>) (topic_stats m)\<rparr>"

definition record_delivery :: "TopicMatcher \<Rightarrow> string \<Rightarrow> TopicMatcher" where
  "record_delivery m topic =
     m\<lparr>topic_stats := hm_entry topic TopicStats_default
         (\<lambda>s. s\<lparr>messages_delivered := sat_add (messages_delivered s) 1\<rparr>) (topic_stats m)\<rparr>"

definition get_topic_stats :: "TopicMatcher \<Rightarrow> string \<Rightarrow> TopicStats option" where
  "get_topic_stats m topic = hm_get (topic_stats m) topic"

definition get_subscriber_count :: "TopicMatcher \<Rightarrow> nat" where
  "get_subscriber_count m = length (subscriptions m)"

definition get_topic_count :: "TopicMatcher \<Rightarrow> nat" where
  "get_topic_count m = length (topic_stats m)"

section \<open>Access rights: TopicRegistry\<close>

datatype TopicAccessLevel = Public | Restricted | Privileged

text \<open>A \<open>HashSet\<close> is a list without repetitions, in iteration order.\<close>

record TopicRegistry =
  publishers :: "(string, string list) hash_map"
  publisher_patterns :: "(string, TopicPattern list) hash_map"
  subscribers :: "(string, TopicPattern list) hash_map"
  access_control :: "(string, TopicAccessLevel) hash_map"

definition default_access_control :: "(string, TopicAccessLevel) hash_map" where
  "default_access_control =
     [(''control.health.+'', Public),
      (''events.+.anomaly'', Public),
      (''events.+.security'', Public),
      (''control.collector.config'', Restricted),
      (''control.agent.orchestration'', Restricted),
      (''events.+.metadata'', Restricted),
      (''control.collector.lifecycle'', Privileged),
      (''control.agent.policy'', Privileged),
      (''control.+.config'', Privileged)]"

definition initialize_default_access_control :: "TopicRegistry \<Rightarrow> TopicRegistry" where
  "initialize_default_access_control r =
     r\<lparr>access_control := fold (\<lambda>(k, v). hm_insert k v) default_access_control (access_control r)\<rparr>"

definition TopicRegistry_new :: TopicRegistry where
  "TopicRegistry_new = initialize_default_access_control
     \<lparr>publishers = [], publisher_patterns = [], subscribers = [], access_control = []\<rparr>"

definition has_wildcard_char :: "string \<Rightarrow> bool" where
  "has_wildcard_char s \<longleftrightarrow> CHR ''+'' \<in> set s \<or> CHR ''#'' \<in> set s"

definition register_exact ::
    "TopicRegistry \<Rightarrow> string \<Rightarrow> string \<Rightarrow> (TopicRegistry, TopicError) result" where
  "register_exact r component topic =
     (case Topic_new topic of
        Err e \<Rightarrow> Err e
      | Ok t \<Rightarrow> Ok (r\<lparr>publishers :=
                  hm_entry component [] (List.insert (topic_name t)) (publishers r)\<rparr>))"

definition register_publisher ::
    "TopicRegistry \<Rightarrow> string \<Rightarrow> string \<Rightarrow> (TopicRegistry, TopicError) result" where
  "register_publisher r component topic =
     (case TopicPattern_new topic of
        Ok p \<Rightarrow>
          if has_wildcard_char topic
          then Ok (r\<lparr>publisher_patterns :=
                 hm_entry component [] (List.insert p) (publisher_patterns r)\<rparr>)
          else register_exact r component topic
      | Err _ \<Rightarrow> register_exact r component topic)"

definition register_subscriber ::
    "TopicRegistry \<Rightarrow> string \<Rightarrow> string \<Rightarrow> (TopicRegistry, TopicError) result" where
  "register_subscriber r component pat =
     (case TopicPattern_new pat of
        Err e \<Rightarrow> Err e
      | Ok p \<Rightarrow> Ok (r\<lparr>subscribers := hm_entry component [] (List.insert p) (subscribers r)\<rparr>))"

definition can_publish :: "TopicRegistry \<Rightarrow> string \<Rightarrow> string \<Rightarrow> bool" where
  "can_publish r component topic =
     (if (case hm_get (publishers r) component of None \<Rightarrow> False | Some ts \<Rightarrow> topic \<in> set ts)
      then True
      else case hm_get (publisher_patterns r) component of
             None \<Rightarrow> False
           | Some ps \<Rightarrow>
               (case Topic_new topic of
                  Err _ \<Rightarrow> False
                | Ok t \<Rightarrow> list_ex (\<lambda>p. matches p t) ps))"

definition can_subscribe :: "TopicRegistry \<Rightarrow> string \<Rightarrow> Topic \<Rightarrow> bool" where
  "can_subscribe r component t =
     (case hm_get (subscribers r) component of
        None \<Rightarrow> False
      | Some ps \<Rightarrow> list_ex (\<lambda>p. matches p t) ps)"

fun first_matching_level ::
    "(string, TopicAccessLevel) hash_map \<Rightarrow> string \<Rightarrow> TopicAccessLevel" where
  "first_matching_level [] topic = Restricted"
| "first_matching_level ((pat, level) # rest) topic =
     (case TopicPattern_new pat of
        Err _ \<Rightarrow> first_matching_level rest topic
      | Ok p \<Rightarrow>
          (case Topic_new topic of
             Err _ \<Rightarrow> first_matching_level rest topic
           | Ok t \<Rightarrow> if matches p t then level else first_matching_level rest topic))"

definition get_access_level :: "TopicRegistry \<Rightarrow> string \<Rightarrow> TopicAccessLevel" where
  "get_access_level r topic =
     (case hm_get (access_control r) topic of
        Some level \<Rightarrow> level
      | None \<Rightarrow> first_matching_level (access_control r) topic)"

section \<open>The accepted topic names\<close>

lemma check_chars_Ok: "check_chars s = Ok () \<longleftrightarrow> (\<forall>c \<in> set s. is_topic_char c)"
  by (induction s) auto

lemma check_segments_Ok:
  "check_segments i ss = Ok () \<longleftrightarrow> (\<forall>s \<in> set ss. s \<noteq> [] \<and> (\<forall>c \<in> set s. is_topic_char c))"
  by (induction ss arbitrary: i) (auto split: sum.splits simp: check_chars_Ok [symmetric])

lemma check_reserved_Ok: "check_reserved ps s = Ok () \<longleftrightarrow> (\<forall>p \<in> set ps. \<not> starts_with s p)"
  by (induction ps) auto

lemma validate_topic_name_Ok:
  "validate_topic_name s = Ok () \<longleftrightarrow>
     s \<noteq> [] \<and> \<not> starts_with s ''system'' \<and> \<not> starts_with s ''debug''
     \<and> (\<forall>seg \<in> set (split_on CHR ''.'' s). seg \<noteq> [] \<and> (\<forall>c \<in> set seg. is_topic_char c))"
  by (auto simp: validate_topic_name_def RESERVED_PREFIXES_def check_segments_Ok
      split: sum.splits simp: check_reserved_Ok [symmetric])

lemma split_on_hd_prefix: "prefix (split_on c s ! 0) s"
  by (induction s) (auto split: list.splits)

lemma parse_domain_Ok:
  "parse_domain s = Ok d \<longleftrightarrow>
     (s = ''events'' \<and> d = Events) \<or> (s = ''control'' \<and> d = Control)
     \<or> (s = ''system'' \<and> d = System) \<or> (s = ''debug'' \<and> d = Debug)"
  by (auto simp: parse_domain_def)

lemma Topic_new_Ok:
  "Topic_new s = Ok t \<longleftrightarrow>
     validate_topic_name s = Ok () \<and> length (split_on CHR ''.'' s) \<le> MAX_DEPTH
     \<and> parse_domain (split_on CHR ''.'' s ! 0) = Ok (topic_domain t)
     \<and> topic_name t = s \<and> topic_segments t = split_on CHR ''.'' s
     \<and> topic_type t = parse_topic_type (split_on CHR ''.'' s)"
  by (cases t) (auto simp: Topic_new_def Let_def split: sum.splits)

lemma starts_with_hd_events:
  assumes "split_on CHR ''.'' s ! 0 = ''events'' \<or> split_on CHR ''.'' s ! 0 = ''control''"
  shows "s \<noteq> []" "\<not> starts_with s ''system''" "\<not> starts_with s ''debug''"
proof -
  have "prefix ''events'' s \<or> prefix ''control'' s"
    using assms split_on_hd_prefix [of "CHR ''.''" s] by metis
  then show "s \<noteq> []" "\<not> starts_with s ''system''" "\<not> starts_with s ''debug''"
    by (auto simp: starts_with_def prefix_def)
qed

lemma parse_domain_first:
  "validate_topic_name s = Ok () \<Longrightarrow> parse_domain (split_on CHR ''.'' s ! 0) = Ok d \<Longrightarrow>
     d = Events \<and> split_on CHR ''.'' s ! 0 = ''events''
     \<or> d = Control \<and> split_on CHR ''.'' s ! 0 = ''control''"
  using split_on_hd_prefix [of "CHR ''.''" s]
  by (auto simp: validate_topic_name_Ok parse_domain_Ok starts_with_def)

text \<open>
  \<open>Topic::new\<close> accepts exactly the names whose first segment is \<open>events\<close> or
  \<open>control\<close>, that have at most five segments, none of them empty, all over lowercase ASCII
  letters, digits, \<open>-\<close> and \<open>_\<close>.
\<close>

lemma Topic_new_language:
  "is_ok (Topic_new s) \<longleftrightarrow>
     (split_on CHR ''.'' s ! 0 = ''events'' \<or> split_on CHR ''.'' s ! 0 = ''control'')
     \<and> length (split_on CHR ''.'' s) \<le> 5
     \<and> list_all (\<lambda>seg. seg \<noteq> [] \<and> list_all is_topic_char seg) (split_on CHR ''.'' s)"
  (is "_ \<longleftrightarrow> ?L")
proof
  assume "is_ok (Topic_new s)"
  then obtain t where "Topic_new s = Ok t" by (rule is_okE)
  then show ?L
    using parse_domain_first
    by (auto simp: Topic_new_Ok validate_topic_name_Ok MAX_DEPTH_def list_all_iff)
next
  assume L: ?L
  then have "validate_topic_name s = Ok ()"
    using starts_with_hd_events by (auto simp: validate_topic_name_Ok list_all_iff)
  moreover obtain d where "parse_domain (split_on CHR ''.'' s ! 0) = Ok d"
    using L by (auto simp: parse_domain_Ok)
  ultimately show "is_ok (Topic_new s)"
    using L by (simp add: Topic_new_def Let_def MAX_DEPTH_def)
qed

text \<open>
  A topic that was constructed is in the \<open>events\<close> or the \<open>control\<close> domain, as its
  first segment says, has between one and five segments, and its name is the dotted join of
  them; the reserved domains are never reached.
\<close>

lemma Topic_new_wellformed:
  assumes "Topic_new s = Ok t"
  shows "topic_name t = s \<and> join_with CHR ''.'' (topic_segments t) = s
     \<and> 1 \<le> topic_depth t \<and> topic_depth t \<le> MAX_DEPTH
     \<and> (topic_domain t = Events \<and> topic_segments t ! 0 = ''events'' \<and> is_event_topic t
        \<or> topic_domain t = Control \<and> topic_segments t ! 0 = ''control'' \<and> is_control_topic t)"
proof -
  have "Suc 0 \<le> length (split_on CHR ''.'' s)"
    using split_on_not_Nil [of "CHR ''.''" s] by (cases "split_on CHR ''.'' s") auto
  then show ?thesis
    using assms parse_domain_first [of s "topic_domain t"]
    by (auto simp: Topic_new_Ok topic_depth_def is_event_topic_def is_control_topic_def)
qed

lemma Topic_new_wellformed_example:
  "Topic_new ''control.health.heartbeat'' =
     Ok \<lparr>topic_name = ''control.health.heartbeat'',
         topic_segments = [''control'', ''health'', ''heartbeat''],
         topic_domain = Control, topic_type = Health\<rparr>
   \<and> is_control_topic \<lparr>topic_name = ''control.health.heartbeat'',
         topic_segments = [''control'', ''health'', ''heartbeat''],
         topic_domain = Control, topic_type = Health\<rparr>"
proof -
  have new: "Topic_new ''control.health.heartbeat'' =
     Ok \<lparr>topic_name = ''control.health.heartbeat'',
         topic_segments = [''control'', ''health'', ''heartbeat''],
         topic_domain = Control, topic_type = Health\<rparr>"
    by code_simp
  show ?thesis
    using new Topic_new_wellformed [OF new] by (auto simp: is_control_topic_def)
qed

section \<open>Wildcard matching\<close>

text \<open>
  The reading of a pattern: a literal stands for itself, \<open>+\<close> for one segment, a final \<open>#\<close>
  for any number of further segments, none included.
\<close>

definition segment_denotes :: "PatternSegment \<Rightarrow> string \<Rightarrow> bool" where
  "segment_denotes p s \<longleftrightarrow> (case p of Literal l \<Rightarrow> l = s | _ \<Rightarrow> True)"

definition pattern_denotes :: "PatternSegment list \<Rightarrow> string list \<Rightarrow> bool" where
  "pattern_denotes ps ts \<longleftrightarrow>
     (if ps \<noteq> [] \<and> last ps = MultiWildcard
      then \<exists>us vs. ts = us @ vs \<and> list_all2 segment_denotes (butlast ps) us
      else list_all2 segment_denotes ps ts)"

text \<open>The loop without its indices.\<close>

fun match_rec :: "PatternSegment list \<Rightarrow> string list \<Rightarrow> bool" where
  "match_rec [] ts = (ts = [])"
| "match_rec (p # ps) ts =
     (p = MultiWildcard \<or>
      (case ts of [] \<Rightarrow> False | t # ts' \<Rightarrow> segment_denotes p t \<and> match_rec ps ts'))"

lemma match_loop_rec:
  "i \<le> length ps \<Longrightarrow> j \<le> length ts \<Longrightarrow>
     match_loop ps ts i j = match_rec (drop i ps) (drop j ts)"
proof (induction ps ts i j rule: match_loop.induct)
  case (1 ps ts i j)
  show ?case
  proof (cases "i < length ps \<and> j < length ts")
    case True
    then have "drop i ps = ps ! i # drop (i + 1) ps" "drop j ts = ts ! j # drop (j + 1) ts"
      by (simp_all add: Cons_nth_drop_Suc)
    with True 1 show ?thesis
      by (cases "ps ! i") (auto simp: match_loop.simps [of ps ts i j] segment_denotes_def)
  next
    case False
    with "1.prems" have "i = length ps \<or> i < length ps \<and> j = length ts"
      by auto
    then show ?thesis
      using "1.prems" by (subst match_loop.simps) (auto simp: Cons_nth_drop_Suc [symmetric])
  qed
qed

lemma match_rec_denotes:
  "MultiWildcard \<notin> set (butlast ps) \<Longrightarrow> match_rec ps ts = pattern_denotes ps ts"
proof (induction ps arbitrary: ts)
  case Nil
  then show ?case by (simp add: pattern_denotes_def)
next
  case (Cons p ps)
  show ?case
  proof (cases "ps = []")
    case True
    then show ?thesis
      by (auto simp: pattern_denotes_def list_all2_Cons1 split: list.splits)
  next
    case False
    with Cons.prems have "p \<noteq> MultiWildcard" "MultiWildcard \<notin> set (butlast ps)"
      by auto
    with Cons.IH False show ?thesis
      by (auto simp: pattern_denotes_def list_all2_Cons1 Cons_eq_append_conv split: list.splits)
  qed
qed

lemma misplaced_multi_iff:
  "misplaced_multi l i ps \<longleftrightarrow> (\<exists>k < length ps. ps ! k = MultiWildcard \<and> i + k \<noteq> l)"
proof (induction ps arbitrary: i)
  case Nil
  then show ?case by simp
next
  case (Cons p ps)
  then show ?case by (auto simp: less_Suc_eq_0_disj)
qed

lemma not_misplaced_multi:
  "\<not> misplaced_multi (length ps - 1) 0 ps \<Longrightarrow> MultiWildcard \<notin> set (butlast ps)"
  by (auto simp: misplaced_multi_iff in_set_conv_nth nth_butlast)

lemma TopicPattern_new_Ok:
  "TopicPattern_new pat = Ok p \<Longrightarrow>
     pattern_segments p = map parse_pattern_segment (split_on CHR ''.'' pat)
     \<and> pattern_text p = pat \<and> MultiWildcard \<notin> set (butlast (pattern_segments p))"
  by (auto simp: TopicPattern_new_def Let_def split: if_splits
      dest: not_misplaced_multi
        [of "map parse_pattern_segment (split_on CHR ''.'' pat)", simplified])

text \<open>
  Claim C27: for every pattern the constructor accepts, the two-index loop of
  \<open>matches_segments\<close> decides the reading of the pattern: literals stand for themselves, \<open>+\<close>
  for exactly one segment, and a final \<open>#\<close> for any remainder, the empty one included. The empty
  remainder is what the comments of the source say; \<^verbatim>\<open>docs/topic-hierarchy.md\<close> asks for at least
  one segment.
\<close>

theorem matches_segments_denotes:
  assumes "TopicPattern_new pat = Ok p"
  shows "matches_segments p ts =
     pattern_denotes (map parse_pattern_segment (split_on CHR ''.'' pat)) ts"
  using TopicPattern_new_Ok [OF assms]
  by (auto simp: matches_segments_def match_loop_rec match_rec_denotes)

theorem matches_segments_denotes_witness:
  "\<exists>p. TopicPattern_new ''events.#'' = Ok p \<and> matches_segments p [''events'']
     \<and> matches_segments p [''events'', ''process'', ''lifecycle'']
     \<and> \<not> matches_segments p [''control'', ''events'']"
proof -
  define p where "p = \<lparr>pattern_text = ''events.#'',
    pattern_segments = [Literal ''events'', MultiWildcard]\<rparr>"
  have new: "TopicPattern_new ''events.#'' = Ok p"
    unfolding p_def by code_simp
  have segs: "map parse_pattern_segment (split_on CHR ''.'' ''events.#'') =
      [Literal ''events'', MultiWildcard]"
    by code_simp
  have "pattern_denotes [Literal ''events'', MultiWildcard] ts \<longleftrightarrow> (\<exists>vs. ts = ''events'' # vs)"
    for ts
    by (auto simp: pattern_denotes_def segment_denotes_def list_all2_Cons1)
  then have "matches_segments p ts \<longleftrightarrow> (\<exists>vs. ts = ''events'' # vs)" for ts
    using matches_segments_denotes [OF new] by (simp only: segs)
  with new show ?thesis
    by auto
qed

section \<open>Routing\<close>

lemma any_match_iff [simp]: "any_match ps t \<longleftrightarrow> (\<exists>p \<in> set ps. matches p t)"
  by (induction ps) auto

lemma collect_matching_filter:
  "collect_matching sm t acc = acc @ map fst (filter (\<lambda>(sid, ps). any_match ps t) sm)"
  by (induction sm t acc rule: collect_matching.induct) auto

text \<open>
  For a valid topic, \<open>get_matching_subscribers\<close> names each subscriber at most once and
  names exactly those that hold a pattern matching the topic, whatever order the subscription
  map is iterated in.
\<close>

lemma get_matching_subscribers_exact:
  assumes "hm_wf (subscriptions m)" and "Topic_new topic = Ok t"
  shows "\<exists>subs. get_matching_subscribers m topic = Ok subs \<and> distinct subs
     \<and> (\<forall>sid. sid \<in> set subs \<longleftrightarrow>
          (\<exists>ps p. hm_get (subscriptions m) sid = Some ps \<and> p \<in> set ps \<and> matches p t))"
proof -
  let ?subs = "map fst (filter (\<lambda>(sid, ps). any_match ps t) (subscriptions m))"
  have "get_matching_subscribers m topic = Ok ?subs"
    using assms(2) by (simp add: get_matching_subscribers_def collect_matching_filter)
  moreover have "distinct ?subs"
    using assms(1) unfolding hm_wf_def by (rule distinct_map_filter)
  moreover have "sid \<in> set ?subs \<longleftrightarrow>
      (\<exists>ps p. hm_get (subscriptions m) sid = Some ps \<and> p \<in> set ps \<and> matches p t)" for sid
    using assms(1) by (force simp: hm_get_iff)
  ultimately show ?thesis by blast
qed

lemma get_matching_subscribers_exact_example:
  "\<exists>m t subs. hm_wf (subscriptions m) \<and> Topic_new ''events.process.start'' = Ok t
     \<and> get_matching_subscribers m ''events.process.start'' = Ok subs \<and> distinct subs
     \<and> ''agent'' \<in> set subs \<and> ''audit'' \<notin> set subs"
proof -
  define t where "t = \<lparr>topic_name = ''events.process.start'',
    topic_segments = [''events'', ''process'', ''start''],
    topic_domain = Events, topic_type = Process\<rparr>"
  define m where "m = \<lparr>subscriptions =
      [(''audit'', [\<lparr>pattern_text = ''control.+'', pattern_segments = [Literal ''control'', SingleWildcard]\<rparr>]),
       (''agent'', [\<lparr>pattern_text = ''events.#'', pattern_segments = [Literal ''events'', MultiWildcard]\<rparr>])],
    topic_stats = []\<rparr>"
  have wf: "hm_wf (subscriptions m)"
    by (simp add: m_def hm_wf_def)
  have new: "Topic_new ''events.process.start'' = Ok t"
    unfolding t_def by code_simp
  have get: "get_matching_subscribers m ''events.process.start'' = Ok [''agent'']"
    unfolding m_def by code_simp
  obtain subs where subs: "get_matching_subscribers m ''events.process.start'' = Ok subs"
      "distinct subs"
    using get_matching_subscribers_exact [OF wf new] by blast
  with get have "subs = [''agent'']" by simp
  with wf new subs show ?thesis
    by (intro exI [of _ m] exI [of _ t] exI [of _ subs]) simp
qed

text \<open>
  The contract of a subscription router over pattern texts: who is reached by a topic after a
  subscription and after the removal of a subscriber.
\<close>

locale subscription_router =
  fixes inv :: "'m \<Rightarrow> bool"
    and init :: 'm
    and subscribe :: "'m \<Rightarrow> 'id \<Rightarrow> 'p \<Rightarrow> 'm"
    and unsubscribe :: "'m \<Rightarrow> 'id \<Rightarrow> 'm"
    and route :: "'m \<Rightarrow> 't \<Rightarrow> 'id set"
    and hit :: "'p \<Rightarrow> 't \<Rightarrow> bool"
  assumes inv_init: "inv init"
    and inv_subscribe: "inv m \<Longrightarrow> inv (subscribe m i p)"
    and inv_unsubscribe: "inv m \<Longrightarrow> inv (unsubscribe m i)"
    and route_init: "route init t = {}"
    and route_subscribe: "inv m \<Longrightarrow> route (subscribe m i p) t = route m t \<union> {j. j = i \<and> hit p t}"
    and route_unsubscribe: "inv m \<Longrightarrow> route (unsubscribe m i) t = route m t - {i}"
begin

definition step :: "'id \<times> 'p option \<Rightarrow> 'm \<Rightarrow> 'm" where
  "step c m = (case c of (i, Some p) \<Rightarrow> subscribe m i p | (i, None) \<Rightarrow> unsubscribe m i)"

definition live :: "'id \<times> 'p option \<Rightarrow> ('id \<Rightarrow> 'p set) \<Rightarrow> 'id \<Rightarrow> 'p set" where
  "live c L = (case c of (i, Some p) \<Rightarrow> L(i := insert p (L i)) | (i, None) \<Rightarrow> L(i := {}))"

lemma inv_run: "inv m \<Longrightarrow> inv (fold step cs m)"
  by (induction cs arbitrary: m)
    (auto simp: step_def inv_subscribe inv_unsubscribe split: prod.splits option.splits)

lemma route_run:
  "inv m \<Longrightarrow> route m t = {i. \<exists>p \<in> L i. hit p t} \<Longrightarrow>
     route (fold step cs m) t = {i. \<exists>p \<in> fold live cs L i. hit p t}"
proof (induction cs arbitrary: m L)
  case Nil
  then show ?case by simp
next
  case (Cons c cs)
  obtain i po where c: "c = (i, po)" by force
  have "inv (step c m)"
    using Cons.prems(1) inv_run [of m "[c]"] by simp
  moreover have "route (step c m) t = {j. \<exists>p \<in> live c L j. hit p t}"
    using Cons.prems c
    by (cases po) (auto simp: step_def live_def route_subscribe route_unsubscribe split: if_splits)
  ultimately show ?case
    using Cons.IH by simp
qed

lemma route_from_init:
  "route (fold step cs init) t = {i. \<exists>p \<in> fold live cs (\<lambda>_. {}) i. hit p t}"
  by (rule route_run) (simp_all add: inv_init route_init)

end

definition matcher_inv :: "TopicMatcher \<Rightarrow> bool" where
  "matcher_inv m = hm_wf (subscriptions m)"

text \<open>The aliases \<open>subscribe\<close> and \<open>unsubscribe\<close>; a rejected pattern leaves the matcher as it was.\<close>

definition matcher_subscribe :: "TopicMatcher \<Rightarrow> string \<Rightarrow> string \<Rightarrow> TopicMatcher" where
  "matcher_subscribe m sid pat = (case add_subscription m sid pat of Ok m' \<Rightarrow> m' | Err _ \<Rightarrow> m)"

definition reached :: "TopicMatcher \<Rightarrow> Topic \<Rightarrow> string set" where
  "reached m t = set (collect_matching (subscriptions m) t [])"

definition pattern_hit :: "string \<Rightarrow> Topic \<Rightarrow> bool" where
  "pattern_hit pat t = (case TopicPattern_new pat of Ok p \<Rightarrow> matches p t | Err _ \<Rightarrow> False)"

definition patterns_of :: "TopicMatcher \<Rightarrow> string \<Rightarrow> TopicPattern list" where
  "patterns_of m sid = (case hm_get (subscriptions m) sid of None \<Rightarrow> [] | Some ps \<Rightarrow> ps)"

lemma reached_patterns_of:
  "matcher_inv m \<Longrightarrow> reached m t = {sid. \<exists>p \<in> set (patterns_of m sid). matches p t}"
  by (force simp: reached_def matcher_inv_def collect_matching_filter patterns_of_def
      hm_get_iff [symmetric] split: option.splits)

lemma patterns_of_subscribe:
  "TopicPattern_new p = Ok tp \<Longrightarrow>
     patterns_of (matcher_subscribe m i p) = (patterns_of m)(i := patterns_of m i @ [tp])"
  by (rule ext)
    (simp add: patterns_of_def matcher_subscribe_def add_subscription_def hm_get_entry
      split: option.splits)

lemma patterns_of_remove: "patterns_of (remove_subscriber m i) = (patterns_of m)(i := [])"
  by (rule ext) (simp add: patterns_of_def remove_subscriber_def)

interpretation tm: subscription_router matcher_inv TopicMatcher_new matcher_subscribe
  remove_subscriber reached pattern_hit
proof unfold_locales
  show "matcher_inv TopicMatcher_new"
    by (simp add: matcher_inv_def TopicMatcher_new_def)
  show inv_sub: "matcher_inv m \<Longrightarrow> matcher_inv (matcher_subscribe m i p)" for m i p
    by (auto simp: matcher_inv_def matcher_subscribe_def add_subscription_def split: sum.splits)
  show inv_rem: "matcher_inv m \<Longrightarrow> matcher_inv (remove_subscriber m i)" for m i
    by (simp add: matcher_inv_def remove_subscriber_def)
  show "reached TopicMatcher_new t = {}" for t
    by (simp add: reached_def TopicMatcher_new_def)
  show "reached (matcher_subscribe m i p) t = reached m t \<union> {j. j = i \<and> pattern_hit p t}"
    if inv: "matcher_inv m" for m i p t
  proof (cases "TopicPattern_new p")
    case (Inl e)
    then show ?thesis
      by (simp add: matcher_subscribe_def add_subscription_def pattern_hit_def)
  next
    case (Inr tp)
    then show ?thesis
      by (auto simp: reached_patterns_of inv inv_sub patterns_of_subscribe pattern_hit_def
          split: if_splits)
  qed
  show "reached (remove_subscriber m i) t = reached m t - {i}" if inv: "matcher_inv m" for m i t
    by (auto simp: reached_patterns_of inv inv_rem patterns_of_remove split: if_splits)
qed

text \<open>
  A run of subscription commands, \<open>(sid, Some pat)\<close> for a subscription and \<open>(sid, None)\<close> for
  the removal of a subscriber, and the patterns each subscriber then holds.
\<close>

definition matcher_step :: "string \<times> string option \<Rightarrow> TopicMatcher \<Rightarrow> TopicMatcher" where
  "matcher_step c m =
     (case c of (sid, Some pat) \<Rightarrow> matcher_subscribe m sid pat
              | (sid, None) \<Rightarrow> remove_subscriber m sid)"

definition live_patterns ::
    "string \<times> string option \<Rightarrow> (string \<Rightarrow> string set) \<Rightarrow> string \<Rightarrow> string set" where
  "live_patterns c L =
     (case c of (sid, Some pat) \<Rightarrow> L(sid := insert pat (L sid)) | (sid, None) \<Rightarrow> L(sid := {}))"

text \<open>
  Claim C26: after any sequence of subscriptions and removals, a valid topic is delivered to
  exactly the subscribers that, since their last removal, subscribed with a well-formed pattern
  matching it.
\<close>

theorem routing_refines_live_patterns:
  assumes "Topic_new topic = Ok t"
  shows "\<exists>subs. get_matching_subscribers (fold matcher_step cs TopicMatcher_new) topic = Ok subs
     \<and> set subs = {sid. \<exists>pat \<in> fold live_patterns cs (\<lambda>_. {}) sid. pattern_hit pat t}"
proof -
  have step: "matcher_step = tm.step"
    by (intro ext) (simp add: matcher_step_def tm.step_def)
  have live: "live_patterns = tm.live"
    by (intro ext) (simp add: live_patterns_def tm.live_def)
  let ?m = "fold matcher_step cs TopicMatcher_new"
  have "get_matching_subscribers ?m topic = Ok (collect_matching (subscriptions ?m) t [])"
    using assms by (simp add: get_matching_subscribers_def)
  moreover have "set (collect_matching (subscriptions ?m) t []) =
      {sid. \<exists>pat \<in> fold live_patterns cs (\<lambda>_. {}) sid. pattern_hit pat t}"
    using tm.route_from_init [of cs t] by (simp add: step live reached_def)
  ultimately show ?thesis by blast
qed

theorem routing_refines_live_patterns_witness:
  "\<exists>t subs. Topic_new ''events.process.start'' = Ok t
     \<and> get_matching_subscribers
         (fold matcher_step [(''a'', Some ''events.#''), (''b'', Some ''events.+.start''), (''a'', None)]
            TopicMatcher_new) ''events.process.start'' = Ok subs
     \<and> set subs = {sid. \<exists>pat \<in> fold live_patterns
         [(''a'', Some ''events.#''), (''b'', Some ''events.+.start''), (''a'', None)]
         (\<lambda>_. {}) sid. pattern_hit pat t}
     \<and> subs = [''b'']"
proof -
  let ?cs = "[(''a'', Some ''events.#''), (''b'', Some ''events.+.start''), (''a'', None)]"
  obtain t where new: "Topic_new ''events.process.start'' = Ok t"
  proof -
    have "is_ok (Topic_new ''events.process.start'')" by code_simp
    then show ?thesis using that by (rule is_okE)
  qed
  have get: "get_matching_subscribers (fold matcher_step ?cs TopicMatcher_new)
      ''events.process.start'' = Ok [''b'']"
    by code_simp
  show ?thesis
    using new get routing_refines_live_patterns [OF new, of ?cs]
    by (intro exI [of _ t] exI [of _ "[''b'']"]) (elim exE conjE, simp only: sum.inject simp_thms)
qed

section \<open>Publish rights\<close>

text \<open>What one registration text lets its component publish to.\<close>

definition grants :: "string \<Rightarrow> string \<Rightarrow> bool" where
  "grants reg topic \<longleftrightarrow>
     (if has_wildcard_char reg \<and> is_ok (TopicPattern_new reg)
      then \<exists>t. Topic_new topic = Ok t \<and> pattern_hit reg t
      else reg = topic \<and> is_ok (Topic_new reg))"

datatype registry_op = RegisterPublisher string string | RegisterSubscriber string string

text \<open>One call on the registry; a rejected registration leaves it as it was.\<close>

definition registry_step :: "registry_op \<Rightarrow> TopicRegistry \<Rightarrow> TopicRegistry" where
  "registry_step c r =
     (case (case c of RegisterPublisher who reg \<Rightarrow> register_publisher r who reg
                    | RegisterSubscriber who pat \<Rightarrow> register_subscriber r who pat)
      of Ok r' \<Rightarrow> r' | Err _ \<Rightarrow> r)"

lemma register_exact_rights:
  "register_exact r who reg = Ok r' \<Longrightarrow>
     can_publish r' c topic \<longleftrightarrow> can_publish r c topic \<or> (c = who \<and> reg = topic)"
  by (auto simp: register_exact_def can_publish_def Topic_new_Ok hm_get_entry
      split: sum.splits option.splits if_splits)

lemma register_pattern_rights:
  assumes "TopicPattern_new reg = Ok p"
    and "r' = r\<lparr>publisher_patterns := hm_entry who [] (List.insert p) (publisher_patterns r)\<rparr>"
  shows "can_publish r' c topic \<longleftrightarrow>
     can_publish r c topic \<or> (c = who \<and> (\<exists>t. Topic_new topic = Ok t \<and> pattern_hit reg t))"
  using assms
  by (auto simp: can_publish_def pattern_hit_def hm_get_entry list_ex_iff
      split: sum.splits option.splits if_splits)

lemma register_exact_Ok_iff: "(\<exists>r'. register_exact r who reg = Ok r') \<longleftrightarrow> is_ok (Topic_new reg)"
  by (cases "Topic_new reg") (auto simp: register_exact_def)

lemma registry_step_rights:
  "can_publish (registry_step op r) c topic \<longleftrightarrow>
     can_publish r c topic \<or> (\<exists>reg. op = RegisterPublisher c reg \<and> grants reg topic)"
proof (cases op)
  case (RegisterSubscriber who pat)
  then show ?thesis
    by (auto simp: registry_step_def register_subscriber_def can_publish_def split: sum.splits)
next
  case (RegisterPublisher who reg)
  show ?thesis
  proof (cases "has_wildcard_char reg \<and> is_ok (TopicPattern_new reg)")
    case True
    then obtain p where p: "TopicPattern_new reg = Ok p" "has_wildcard_char reg"
      by (auto elim: is_okE)
    with RegisterPublisher True show ?thesis
      using register_pattern_rights [OF p(1) refl]
      by (auto simp: registry_step_def register_publisher_def grants_def)
  next
    case False
    then have "register_publisher r who reg = register_exact r who reg"
      by (cases "TopicPattern_new reg") (auto simp: register_publisher_def)
    with RegisterPublisher False show ?thesis
      using register_exact_Ok_iff [of r who reg] register_exact_rights [of r who reg]
      by (cases "register_exact r who reg") (auto simp: registry_step_def grants_def)
  qed
qed

text \<open>
  After any sequence of registrations on a fresh registry, a component may publish to a
  topic exactly when one of its own publisher registrations grants it: a wildcard registration
  whose pattern matches the valid topic, or the very same valid topic name. Registrations of
  other components and subscriber registrations never give publish rights.
\<close>

lemma can_publish_iff_registered:
  "can_publish (fold registry_step ops TopicRegistry_new) c topic \<longleftrightarrow>
     (\<exists>reg. RegisterPublisher c reg \<in> set ops \<and> grants reg topic)"
proof -
  have "can_publish (fold registry_step ops r) c topic \<longleftrightarrow>
      can_publish r c topic \<or> (\<exists>reg. RegisterPublisher c reg \<in> set ops \<and> grants reg topic)" for r
    by (induction ops arbitrary: r) (auto simp: registry_step_rights)
  moreover have "\<not> can_publish TopicRegistry_new c topic"
    by (simp add: can_publish_def TopicRegistry_new_def initialize_default_access_control_def)
  ultimately show ?thesis by simp
qed

text \<open>
  The access level of a topic that two default rules match depends on the iteration
  order of the rule map: with the same nine rules, \<open>control.health.config\<close> is public in one
  order and privileged in another.
\<close>

lemma access_level_depends_on_order:
  "hm_wf default_access_control \<and> hm_wf (rev default_access_control)
   \<and> set (rev default_access_control) = set default_access_control
   \<and> access_control TopicRegistry_new = default_access_control
   \<and> get_access_level TopicRegistry_new ''control.health.config'' = Public
   \<and> get_access_level (TopicRegistry_new\<lparr>access_control := rev default_access_control\<rparr>)
       ''control.health.config'' = Privileged"
proof (intro conjI)
  show "hm_wf default_access_control" by code_simp
  show "hm_wf (rev default_access_control)" by code_simp
  show "set (rev default_access_control) = set default_access_control" by simp
  show "access_control TopicRegistry_new = default_access_control" by code_simp
  show "get_access_level TopicRegistry_new ''control.health.config'' = Public" by code_simp
  show "get_access_level (TopicRegistry_new\<lparr>access_control := rev default_access_control\<rparr>)
       ''control.health.config'' = Privileged" by code_simp
qed

end
