(* ===== verification/Wal.thy ===== *)
theory Wal
  imports Prelude "HOL-Library.Multiset"
begin

text \<open>
  The write-ahead log of the process monitor, \<^verbatim>\<open>procmond/src/wal.rs\<close>: framing of entries,
  file names, rotation, replay, the scan that recovers the sequence numbers at start-up, and the
  clean-up of published files.

  The event type is a parameter \<open>'ev\<close>. The crates \<open>postcard\<close> and \<open>crc32c\<close> are parameters,
  the fields of \<open>wal_codec\<close>. The directory is an association list from file names to contents,
  in the order the directory is listed. Failing system calls are given by a parameter: a call
  \<open>c\<close> fails if \<open>flt c = Some k\<close>, and a failing write leaves its first \<open>k\<close> bytes in the file;
  a failing directory iteration yields \<open>k\<close> entries first. The bytes of a write that returned are in the
  file at once; the code does not flush the file, so a process that is killed may lose the last of them. What a
  file cut short at any point still gives is shown in \<open>Wal_Safety\<close>.
\<close>

section \<open>Data\<close>

record 'ev WalEntry =
  entry_sequence :: u64
  entry_event :: 'ev
  entry_checksum :: u32
  entry_event_type :: "string option"

record 'ev wal_codec =
  event_to_vec :: "'ev \<Rightarrow> bytes option"
  entry_to_vec :: "'ev WalEntry \<Rightarrow> bytes option"
  entry_from_bytes :: "bytes \<Rightarrow> 'ev WalEntry option"
  crc32c_append :: "u32 \<Rightarrow> bytes \<Rightarrow> u32"

datatype fs_call =
    CreateDirAll
  | ReadDir
  | NextEntry
  | OpenAppend string
  | SetPermissions string
  | FileMetadata string
  | WriteLength
  | WriteData
  | OpenRead string
  | ReadExact string
  | RemoveFile string

type_synonym faults = "fs_call \<Rightarrow> nat option"

datatype WalError =
    Io fs_call
  | Serialization
  | Corruption u64 string
  | InvalidSequence u64 u64
  | FileRotation fs_call
  | Replay fs_call

datatype ReadResult = Eof | ReadIo fs_call

record WalFileMetadata =
  min_sequence :: u64
  max_sequence :: u64
  entry_count :: u64

definition WalFileMetadata_default :: WalFileMetadata where
  "WalFileMetadata_default = \<lparr>min_sequence = 0, max_sequence = 0, entry_count = 0\<rparr>"

record WalFileState =
  state_file :: string
  state_size :: u64
  state_min_sequence :: u64
  state_max_sequence :: u64

record WriteAheadLog =
  current_event_sequence :: u64
  current_file_sequence :: u64
  file_state :: WalFileState
  rotation_threshold :: u64

type_synonym wal_dir = "(string, bytes) hash_map"

definition DEFAULT_ROTATION_THRESHOLD :: u64 where
  "DEFAULT_ROTATION_THRESHOLD = 80 * 1024 * 1024"

section \<open>Entries\<close>

text \<open>\<open>slice::chunks(n)\<close>, for a positive \<open>n\<close>.\<close>

function chunks :: "nat \<Rightarrow> 'a list \<Rightarrow> 'a list list" where
  "chunks n xs = (if xs = [] \<or> n = 0 then [] else take n xs # chunks n (drop n xs))"
  by pat_completeness auto
termination
  by (relation "measure (\<lambda>(n, xs). length xs)") auto

declare chunks.simps [simp del]

definition compute_checksum :: "'ev wal_codec \<Rightarrow> 'ev \<Rightarrow> u32" where
  "compute_checksum cd ev =
     (case event_to_vec cd ev of
        None \<Rightarrow> 0
      | Some ser \<Rightarrow> fold (\<lambda>chunk crc. crc32c_append cd crc chunk) (chunks 8192 ser) 0)"

definition WalEntry_new :: "'ev wal_codec \<Rightarrow> u64 \<Rightarrow> 'ev \<Rightarrow> 'ev WalEntry" where
  "WalEntry_new cd sq ev =
     \<lparr>entry_sequence = sq, entry_event = ev, entry_checksum = compute_checksum cd ev,
      entry_event_type = None\<rparr>"

definition with_event_type :: "'ev wal_codec \<Rightarrow> u64 \<Rightarrow> 'ev \<Rightarrow> string \<Rightarrow> 'ev WalEntry" where
  "with_event_type cd sq ev ty =
     \<lparr>entry_sequence = sq, entry_event = ev, entry_checksum = compute_checksum cd ev,
      entry_event_type = Some ty\<rparr>"

definition verify :: "'ev wal_codec \<Rightarrow> 'ev WalEntry \<Rightarrow> bool" where
  "verify cd e \<longleftrightarrow> compute_checksum cd (entry_event e) = entry_checksum e"

section \<open>File names\<close>

definition wal_file_path :: "u32 \<Rightarrow> string" where
  "wal_file_path sq = ''procmond-'' @ pad_left 5 (digit_char 0) (show_nat (unat sq)) @ ''.wal''"

text \<open>\<open>Path::extension\<close> of a bare file name.\<close>

definition file_extension :: "string \<Rightarrow> string option" where
  "file_extension s =
     (let parts = split_on CHR ''.'' s in
      if s = ''..'' \<or> length parts < 2 \<or> (length parts = 2 \<and> parts ! 0 = []) then None
      else Some (last parts))"

definition parse_wal_filename :: "string \<Rightarrow> u32 option" where
  "parse_wal_filename filename =
     (let has_wal_ext = (case file_extension filename of
                           None \<Rightarrow> False
                         | Some ext \<Rightarrow> eq_ignore_ascii_case ext ''wal'') in
      if \<not> has_wal_ext \<or> \<not> starts_with filename ''procmond-'' then None
      else Option.bind (strip_prefix filename ''procmond-'')
             (\<lambda>s. Option.bind (strip_suffix s ''.wal'') parse_u32))"

section \<open>Reading a file\<close>

text \<open>\<open>read_exact\<close> on the unread bytes of an open file.\<close>

definition read_exact :: "faults \<Rightarrow> string \<Rightarrow> nat \<Rightarrow> bytes \<Rightarrow> (bytes \<times> bytes, ReadResult) result" where
  "read_exact flt path n bs =
     (if flt (ReadExact path) \<noteq> None then Err (ReadIo (ReadExact path))
      else if length bs < n then Err Eof
      else Ok (take n bs, drop n bs))"

definition read_length_prefix :: "faults \<Rightarrow> string \<Rightarrow> bytes \<Rightarrow> (nat \<times> bytes, ReadResult) result" where
  "read_length_prefix flt path bs =
     (case read_exact flt path 4 bs of
        Err e \<Rightarrow> Err e
      | Ok (buf, rest) \<Rightarrow> Ok (unat (from_le_bytes buf), rest))"

definition read_entry_data ::
    "faults \<Rightarrow> string \<Rightarrow> nat \<Rightarrow> bytes \<Rightarrow> (bytes \<times> bytes, ReadResult) result" where
  "read_entry_data flt path len bs = read_exact flt path len bs"

definition deserialize_and_verify_entry :: "'ev wal_codec \<Rightarrow> bytes \<Rightarrow> 'ev WalEntry option" where
  "deserialize_and_verify_entry cd dat =
     (case entry_from_bytes cd dat of
        None \<Rightarrow> None
      | Some e \<Rightarrow> if verify cd e then Some e else None)"

lemma read_length_prefix_shorter:
  "read_length_prefix flt path bs = Ok (len, rest) \<Longrightarrow> length rest < length bs"
  by (auto simp: read_length_prefix_def read_exact_def split: if_splits sum.splits)

lemma read_entry_data_shorter:
  "read_entry_data flt path len bs = Ok (dat, rest) \<Longrightarrow> length rest \<le> length bs"
  by (auto simp: read_entry_data_def read_exact_def split: if_splits)

function scan_loop ::
    "'ev wal_codec \<Rightarrow> faults \<Rightarrow> string \<Rightarrow> bool \<Rightarrow> WalFileMetadata \<Rightarrow> bytes
       \<Rightarrow> (WalFileMetadata, WalError) result" where
  "scan_loop cd flt path first_entry md bs =
     (case read_length_prefix flt path bs of
        Err Eof \<Rightarrow> Ok md
      | Err (ReadIo e) \<Rightarrow> Err (Io e)
      | Ok (len, rest) \<Rightarrow>
          (case read_entry_data flt path len rest of
             Err Eof \<Rightarrow> Ok md
           | Err (ReadIo e) \<Rightarrow> Err (Io e)
           | Ok (dat, rest') \<Rightarrow>
               (case deserialize_and_verify_entry cd dat of
                  None \<Rightarrow> scan_loop cd flt path first_entry md rest'
                | Some e \<Rightarrow>
                    scan_loop cd flt path False
                      \<lparr>min_sequence = (if first_entry then entry_sequence e else min_sequence md),
                       max_sequence = entry_sequence e,
                       entry_count = sat_add (entry_count md) 1\<rparr> rest')))"
  by pat_completeness auto
termination
  by (relation "measure (\<lambda>(cd, flt, path, fe, md, bs). length bs)")
    (auto dest!: read_length_prefix_shorter read_entry_data_shorter)

declare scan_loop.simps [simp del]

definition scan_file_metadata ::
    "'ev wal_codec \<Rightarrow> faults \<Rightarrow> wal_dir \<Rightarrow> string \<Rightarrow> (WalFileMetadata, WalError) result" where
  "scan_file_metadata cd flt dir path =
     (if flt (OpenRead path) \<noteq> None then Err (Replay (OpenRead path))
      else case hm_get dir path of
             None \<Rightarrow> Err (Replay (OpenRead path))
           | Some bs \<Rightarrow> scan_loop cd flt path True WalFileMetadata_default bs)"

function replay_loop ::
    "'ev wal_codec \<Rightarrow> faults \<Rightarrow> string \<Rightarrow> 'ev WalEntry list \<Rightarrow> bytes
       \<Rightarrow> ('ev WalEntry list, WalError) result" where
  "replay_loop cd flt path entries bs =
     (case read_length_prefix flt path bs of
        Err Eof \<Rightarrow> Ok entries
      | Err (ReadIo e) \<Rightarrow> Err (Io e)
      | Ok (len, rest) \<Rightarrow>
          (case read_entry_data flt path len rest of
             Err Eof \<Rightarrow> Ok entries
           | Err (ReadIo e) \<Rightarrow> Err (Io e)
           | Ok (dat, rest') \<Rightarrow>
               (case deserialize_and_verify_entry cd dat of
                  None \<Rightarrow> replay_loop cd flt path entries rest'
                | Some e \<Rightarrow> replay_loop cd flt path (entries @ [e]) rest')))"
  by pat_completeness auto
termination
  by (relation "measure (\<lambda>(cd, flt, path, es, bs). length bs)")
    (auto dest!: read_length_prefix_shorter read_entry_data_shorter)

declare replay_loop.simps [simp del]

definition replay_file_entries ::
    "'ev wal_codec \<Rightarrow> faults \<Rightarrow> wal_dir \<Rightarrow> string \<Rightarrow> ('ev WalEntry list, WalError) result" where
  "replay_file_entries cd flt dir path =
     (if flt (OpenRead path) \<noteq> None then Err (Replay (OpenRead path))
      else case hm_get dir path of
             None \<Rightarrow> Err (Replay (OpenRead path))
           | Some bs \<Rightarrow> replay_loop cd flt path [] bs)"

definition replay_file ::
    "'ev wal_codec \<Rightarrow> faults \<Rightarrow> wal_dir \<Rightarrow> string \<Rightarrow> ('ev list, WalError) result" where
  "replay_file cd flt dir path =
     (case replay_file_entries cd flt dir path of
        Err e \<Rightarrow> Err e
      | Ok es \<Rightarrow> Ok (map entry_event es))"

section \<open>The directory\<close>

text \<open>The files whose names parse, with their file sequence numbers.\<close>

definition wal_names :: "string list \<Rightarrow> (u32 \<times> string) list" where
  "wal_names names =
     List.map_filter (\<lambda>n. map_option (\<lambda>sq. (sq, n)) (parse_wal_filename n)) names"

definition list_wal_files :: "faults \<Rightarrow> wal_dir \<Rightarrow> ((u32 \<times> string) list, WalError) result" where
  "list_wal_files flt dir =
     (if flt ReadDir \<noteq> None then Err (Io ReadDir)
      else if flt NextEntry \<noteq> None then Err (Io NextEntry)
      else Ok (sort_key fst (wal_names (map fst dir))))"

text \<open>The listing of the start-up scan, which stops at the first failing iteration.\<close>

definition scan_listing :: "faults \<Rightarrow> wal_dir \<Rightarrow> string list" where
  "scan_listing flt dir =
     (case flt NextEntry of None \<Rightarrow> map fst dir | Some k \<Rightarrow> take k (map fst dir))"

fun scan_files ::
    "'ev wal_codec \<Rightarrow> faults \<Rightarrow> wal_dir \<Rightarrow> u64 \<Rightarrow> (u32 \<times> string) list
       \<Rightarrow> u64 \<times> WalFileMetadata option \<Rightarrow> u64 \<times> WalFileMetadata option" where
  "scan_files cd flt dir max_file [] acc = acc"
| "scan_files cd flt dir max_file ((file_seq, path) # files) (highest, current) =
     scan_files cd flt dir max_file files
       (case scan_file_metadata cd flt dir path of
          Err _ \<Rightarrow> (highest, current)
        | Ok md \<Rightarrow> (max highest (max_sequence md),
                   if ucast file_seq = max_file then Some md else current))"

definition scan_wal_state ::
    "'ev wal_codec \<Rightarrow> faults \<Rightarrow> wal_dir \<Rightarrow> u64 \<times> u64 \<times> WalFileMetadata option" where
  "scan_wal_state cd flt dir =
     (let files = (if flt ReadDir \<noteq> None then [] else wal_names (scan_listing flt dir));
          max_file = fold (\<lambda>(sq, _) m. max m (ucast sq :: u64)) files 0;
          (highest, current) = scan_files cd flt dir max_file (sort_key fst files) (0, None)
      in (if max_file > 0 then max_file else 1, highest, current))"

text \<open>Opening with \<open>append(true).create(true)\<close>, and appending through an open handle.\<close>

definition open_append :: "string \<Rightarrow> wal_dir \<Rightarrow> wal_dir" where
  "open_append path dir = (case hm_get dir path of None \<Rightarrow> hm_insert path [] dir | Some _ \<Rightarrow> dir)"

definition append_bytes :: "string \<Rightarrow> bytes \<Rightarrow> wal_dir \<Rightarrow> wal_dir" where
  "append_bytes path bs dir =
     (case hm_get dir path of None \<Rightarrow> dir | Some old \<Rightarrow> hm_insert path (old @ bs) dir)"

definition file_len :: "string \<Rightarrow> wal_dir \<Rightarrow> u64" where
  "file_len path dir = (case hm_get dir path of None \<Rightarrow> 0 | Some bs \<Rightarrow> word_of_nat (length bs))"

definition restrict_permissions :: "faults \<Rightarrow> string \<Rightarrow> (unit, WalError) result" where
  "restrict_permissions flt path =
     (if flt (SetPermissions path) \<noteq> None then Err (Io (SetPermissions path)) else Ok ())"

definition with_rotation_threshold ::
    "'ev wal_codec \<Rightarrow> faults \<Rightarrow> u64 \<Rightarrow> wal_dir \<Rightarrow> (WriteAheadLog, WalError) result \<times> wal_dir" where
  "with_rotation_threshold cd flt threshold dir =
     (if flt CreateDirAll \<noteq> None then (Err (Io CreateDirAll), dir)
      else let (next_file, highest, current) = scan_wal_state cd flt dir;
               path = wal_file_path (ucast next_file) in
        if flt (OpenAppend path) \<noteq> None then (Err (Io (OpenAppend path)), dir)
        else let dir' = open_append path dir in
          case restrict_permissions flt path of
            Err e \<Rightarrow> (Err e, dir')
          | Ok _ \<Rightarrow>
              if flt (FileMetadata path) \<noteq> None then (Err (Io (FileMetadata path)), dir')
              else let (mn, mx) = (case current of
                                     None \<Rightarrow> (0, 0)
                                   | Some md \<Rightarrow> (min_sequence md, max_sequence md)) in
                (Ok \<lparr>current_event_sequence = sat_add highest 1,
                     current_file_sequence = next_file,
                     file_state = \<lparr>state_file = path, state_size = file_len path dir',
                                   state_min_sequence = mn, state_max_sequence = mx\<rparr>,
                     rotation_threshold = threshold\<rparr>, dir'))"

definition WriteAheadLog_new ::
    "'ev wal_codec \<Rightarrow> faults \<Rightarrow> wal_dir \<Rightarrow> (WriteAheadLog, WalError) result \<times> wal_dir" where
  "WriteAheadLog_new cd flt dir = with_rotation_threshold cd flt DEFAULT_ROTATION_THRESHOLD dir"

section \<open>Writing\<close>

text \<open>The file counter moves before the new file is opened.\<close>

definition rotate_file_internal ::
    "faults \<Rightarrow> WriteAheadLog \<Rightarrow> wal_dir \<Rightarrow> (unit, WalError) result \<times> WriteAheadLog \<times> wal_dir" where
  "rotate_file_internal flt w dir =
     (let previous = current_file_sequence w;
          w' = w\<lparr>current_file_sequence := previous + 1\<rparr>;
          next_file = sat_add previous 1;
          path = wal_file_path (ucast next_file) in
      if flt (OpenAppend path) \<noteq> None then (Err (FileRotation (OpenAppend path)), w', dir)
      else let dir' = open_append path dir in
        case restrict_permissions flt path of
          Err e \<Rightarrow> (Err e, w', dir')
        | Ok _ \<Rightarrow>
            (Ok (), w'\<lparr>file_state := \<lparr>state_file = path, state_size = 0,
                         state_min_sequence = 0, state_max_sequence = 0\<rparr>\<rparr>, dir'))"

definition track_write :: "u64 \<Rightarrow> nat \<Rightarrow> WalFileState \<Rightarrow> WalFileState" where
  "track_write sq inc st =
     st\<lparr>state_size := sat_add (state_size st) (word_of_nat inc),
        state_min_sequence := (if state_min_sequence st = 0 then sq else state_min_sequence st),
        state_max_sequence := sq\<rparr>"

definition write_entry ::
    "'ev wal_codec \<Rightarrow> faults \<Rightarrow> 'ev WalEntry \<Rightarrow> WriteAheadLog \<Rightarrow> wal_dir
       \<Rightarrow> (u64, WalError) result \<times> WriteAheadLog \<times> wal_dir" where
  "write_entry cd flt e w dir =
     (case entry_to_vec cd e of
        None \<Rightarrow> (Err Serialization, w, dir)
      | Some ser \<Rightarrow>
          (let length_bytes = to_le_bytes (word_of_nat (length ser));
               path = state_file (file_state w) in
           case flt WriteLength of
             Some k \<Rightarrow> (Err (Io WriteLength), w, append_bytes path (take k length_bytes) dir)
           | None \<Rightarrow>
               (let dir1 = append_bytes path length_bytes dir in
                case flt WriteData of
                  Some k \<Rightarrow> (Err (Io WriteData), w, append_bytes path (take k ser) dir1)
                | None \<Rightarrow>
                    (let dir2 = append_bytes path ser dir1;
                         w' = w\<lparr>file_state := track_write (entry_sequence e)
                                  (4 + length ser) (file_state w)\<rparr> in
                     if state_size (file_state w') \<ge> rotation_threshold w
                     then case rotate_file_internal flt w' dir2 of
                            (Err err, w'', dir3) \<Rightarrow> (Err err, w'', dir3)
                          | (Ok _, w'', dir3) \<Rightarrow> (Ok (entry_sequence e), w'', dir3)
                     else (Ok (entry_sequence e), w', dir2)))))"

text \<open>\<open>fetch_add(1)\<close> on the event counter wraps at 64 bits.\<close>

definition take_sequence :: "WriteAheadLog \<Rightarrow> u64 \<times> WriteAheadLog" where
  "take_sequence w =
     (current_event_sequence w, w\<lparr>current_event_sequence := current_event_sequence w + 1\<rparr>)"

definition wal_write ::
    "'ev wal_codec \<Rightarrow> faults \<Rightarrow> 'ev \<Rightarrow> WriteAheadLog \<Rightarrow> wal_dir
       \<Rightarrow> (u64, WalError) result \<times> WriteAheadLog \<times> wal_dir" where
  "wal_write cd flt ev w dir =
     (let (sq, w') = take_sequence w in write_entry cd flt (WalEntry_new cd sq ev) w' dir)"

definition write_with_type ::
    "'ev wal_codec \<Rightarrow> faults \<Rightarrow> 'ev \<Rightarrow> string \<Rightarrow> WriteAheadLog \<Rightarrow> wal_dir
       \<Rightarrow> (u64, WalError) result \<times> WriteAheadLog \<times> wal_dir" where
  "write_with_type cd flt ev ty w dir =
     (let (sq, w') = take_sequence w in write_entry cd flt (with_event_type cd sq ev ty) w' dir)"

section \<open>Replay and clean-up\<close>

definition replay_entries ::
    "'ev wal_codec \<Rightarrow> faults \<Rightarrow> wal_dir \<Rightarrow> ('ev WalEntry list, WalError) result" where
  "replay_entries cd flt dir =
     (case list_wal_files flt dir of
        Err e \<Rightarrow> Err e
      | Ok files \<Rightarrow>
          Ok (fold (\<lambda>(_, path) all.
                      case replay_file_entries cd flt dir path of
                        Ok es \<Rightarrow> all @ es
                      | Err _ \<Rightarrow> all) files []))"

definition wal_replay ::
    "'ev wal_codec \<Rightarrow> faults \<Rightarrow> wal_dir \<Rightarrow> ('ev list, WalError) result" where
  "wal_replay cd flt dir =
     (case list_wal_files flt dir of
        Err e \<Rightarrow> Err e
      | Ok files \<Rightarrow>
          Ok (fold (\<lambda>(_, path) all.
                      case replay_file cd flt dir path of
                        Ok evs \<Rightarrow> all @ evs
                      | Err _ \<Rightarrow> all) files []))"

definition delete_wal_file :: "faults \<Rightarrow> u32 \<Rightarrow> wal_dir \<Rightarrow> (unit, WalError) result \<times> wal_dir" where
  "delete_wal_file flt sq dir =
     (let path = wal_file_path sq in
      case hm_get dir path of
        None \<Rightarrow> (Ok (), dir)
      | Some _ \<Rightarrow>
          if flt (RemoveFile path) \<noteq> None then (Err (Io (RemoveFile path)), dir)
          else (Ok (), hm_remove path dir))"

fun mark_loop ::
    "'ev wal_codec \<Rightarrow> faults \<Rightarrow> u64 \<Rightarrow> u64 \<Rightarrow> (u32 \<times> string) list \<Rightarrow> wal_dir
       \<Rightarrow> (unit, WalError) result \<times> wal_dir" where
  "mark_loop cd flt current up_to [] dir = (Ok (), dir)"
| "mark_loop cd flt current up_to ((file_seq, path) # files) dir =
     (if ucast file_seq = current then mark_loop cd flt current up_to files dir
      else case scan_file_metadata cd flt dir path of
             Err _ \<Rightarrow> mark_loop cd flt current up_to files dir
           | Ok md \<Rightarrow>
               if max_sequence md > 0 \<and> max_sequence md \<le> up_to
               then case delete_wal_file flt file_seq dir of
                      (Err e, dir') \<Rightarrow> (Err e, dir')
                    | (Ok _, dir') \<Rightarrow> mark_loop cd flt current up_to files dir'
               else if max_sequence md > up_to then mark_loop cd flt current up_to files dir
               else case delete_wal_file flt file_seq dir of
                      (Err e, dir') \<Rightarrow> (Err e, dir')
                    | (Ok _, dir') \<Rightarrow> mark_loop cd flt current up_to files dir')"

definition mark_published ::
    "'ev wal_codec \<Rightarrow> faults \<Rightarrow> u64 \<Rightarrow> WriteAheadLog \<Rightarrow> wal_dir \<Rightarrow> (unit, WalError) result \<times> wal_dir" where
  "mark_published cd flt up_to w dir =
     (case list_wal_files flt dir of
        Err e \<Rightarrow> (Err e, dir)
      | Ok files \<Rightarrow> mark_loop cd flt (current_file_sequence w) up_to files dir)"

section \<open>File names round-trip\<close>

lemma set_show_nat: "set (show_nat n) \<subseteq> digit_char ` {..<10}"
proof (induction n rule: show_nat.induct)
  case (1 n)
  then show ?case
    by (subst show_nat.simps) auto
qed

lemma digit_char_not_dot: "d < 10 \<Longrightarrow> digit_char d \<noteq> CHR ''.''"
  by (drule char_digit_digit_char) (auto simp: char_digit_def)

lemma no_dot_in_number: "CHR ''.'' \<notin> set (pad_left w (digit_char 0) (show_nat n))"
proof
  assume "CHR ''.'' \<in> set (pad_left w (digit_char 0) (show_nat n))"
  then have "CHR ''.'' \<in> digit_char ` {..<10}"
    using set_show_nat [of n] by (auto simp: pad_left_def)
  then show False
    by (metis digit_char_not_dot imageE lessThan_iff)
qed

lemma file_extension_wal_file_path: "file_extension (wal_file_path sq) = Some ''wal''"
proof -
  let ?base = "''procmond-'' @ pad_left 5 (digit_char 0) (show_nat (unat sq))"
  have "CHR ''.'' \<notin> set ?base"
    using no_dot_in_number by auto
  then have "split_on CHR ''.'' (?base @ CHR ''.'' # ''wal'') = ?base # split_on CHR ''.'' ''wal''"
    by (rule split_on_append)
  also have "split_on CHR ''.'' ''wal'' = [''wal'']"
    by simp
  finally have split: "split_on CHR ''.'' (?base @ CHR ''.'' # ''wal'') = [?base, ''wal'']" .
  have "wal_file_path sq = ?base @ CHR ''.'' # ''wal''"
    by (simp add: wal_file_path_def)
  then show ?thesis
    by (simp only: file_extension_def split Let_def) simp
qed

text \<open>
  The file name written for a file sequence number parses back to that number, for
  every 32-bit number, also those with more than five digits.
\<close>

lemma parse_wal_file_path: "parse_wal_filename (wal_file_path sq) = Some sq"
proof -
  have "unat sq < 2 ^ 32"
    using unsigned_less [of sq, where 'a = nat] by simp
  then have num: "parse_u32 (pad_left 5 (digit_char 0) (show_nat (unat sq))) = Some sq"
    using parse_u32_show [of "unat sq" 5] by simp
  have pre: "starts_with (wal_file_path sq) ''procmond-''"
    by (simp add: starts_with_def wal_file_path_def)
  have strip: "strip_prefix (wal_file_path sq) ''procmond-'' =
      Some (pad_left 5 (digit_char 0) (show_nat (unat sq)) @ ''.wal'')"
    unfolding wal_file_path_def by (rule strip_prefix_append)
  show ?thesis
    using num pre strip
    by (simp add: parse_wal_filename_def file_extension_wal_file_path eq_ignore_ascii_case_def)
qed

lemma wal_file_path_eq [simp]: "wal_file_path a = wal_file_path b \<longleftrightarrow> a = b"
  by (metis option.inject parse_wal_file_path)

section \<open>The frames of a file\<close>

definition no_faults :: faults where
  "no_faults = (\<lambda>_. None)"

lemma no_faults_apply [simp]:
  "no_faults CreateDirAll = None" "no_faults ReadDir = None" "no_faults NextEntry = None"
  "no_faults (OpenAppend p) = None" "no_faults (SetPermissions p) = None"
  "no_faults (FileMetadata p) = None" "no_faults WriteLength = None"
  "no_faults WriteData = None" "no_faults (OpenRead p) = None"
  "no_faults (ReadExact p) = None" "no_faults (RemoveFile p) = None"
  by (simp_all add: no_faults_def)

text \<open>What \<open>write_entry\<close> appends for a serialized entry, and the frame a reader takes off.\<close>

definition frame :: "bytes \<Rightarrow> bytes" where
  "frame ser = to_le_bytes (word_of_nat (length ser)) @ ser"

definition frame_valid :: "bytes \<Rightarrow> bool" where
  "frame_valid ser \<longleftrightarrow> length ser < 2 ^ 32"

definition read_frame :: "faults \<Rightarrow> string \<Rightarrow> bytes \<Rightarrow> (bytes \<times> bytes) option" where
  "read_frame flt path bs =
     (case read_length_prefix flt path bs of
        Err _ \<Rightarrow> None
      | Ok (len, rest) \<Rightarrow>
          (case read_entry_data flt path len rest of Err _ \<Rightarrow> None | Ok r \<Rightarrow> Some r))"

lemma length_frame [simp]: "length (frame ser) = 4 + length ser"
  by (simp add: frame_def)

lemma unat_frame_length: "frame_valid ser \<Longrightarrow> unat (word_of_nat (length ser) :: u32) = length ser"
  by (simp add: frame_valid_def unat_of_nat)

lemma read_length_prefix_frame:
  "flt (ReadExact path) = None \<Longrightarrow> frame_valid ser \<Longrightarrow>
     read_length_prefix flt path (frame ser @ rest) = Ok (length ser, ser @ rest)"
  by (simp add: read_length_prefix_def read_exact_def frame_def unat_frame_length)

lemma read_entry_data_append:
  "flt (ReadExact path) = None \<Longrightarrow>
     read_entry_data flt path (length ser) (ser @ rest) = Ok (ser, rest)"
  by (simp add: read_entry_data_def read_exact_def)

interpretation wal_frame: framing frame_valid frame "read_frame no_faults path" for path
  by unfold_locales
    (simp add: read_frame_def read_length_prefix_frame read_entry_data_append)

text \<open>The entries a reader recovers from the contents of a file.\<close>

function entries_of :: "'ev wal_codec \<Rightarrow> bytes \<Rightarrow> 'ev WalEntry list" where
  "entries_of cd bs =
     (case read_frame no_faults [] bs of
        None \<Rightarrow> []
      | Some (dat, rest) \<Rightarrow>
          (case deserialize_and_verify_entry cd dat of None \<Rightarrow> [] | Some e \<Rightarrow> [e])
          @ entries_of cd rest)"
  by pat_completeness auto
termination
  by (relation "measure (\<lambda>(cd, bs). length bs)")
    (auto simp: read_frame_def split: sum.splits
      dest!: read_length_prefix_shorter read_entry_data_shorter)

declare entries_of.simps [simp del]

lemma read_exact_no_faults:
  "flt (ReadExact path) = None \<Longrightarrow>
     read_exact flt path n bs = (if length bs < n then Err Eof else Ok (take n bs, drop n bs))"
  by (simp add: read_exact_def)

lemma entries_of_unfold:
  "entries_of cd bs =
     (if length bs < 4 then []
      else let len = unat (from_le_bytes (take 4 bs)); rest = drop 4 bs in
        if length rest < len then []
        else (case deserialize_and_verify_entry cd (take len rest) of None \<Rightarrow> [] | Some e \<Rightarrow> [e])
             @ entries_of cd (drop len rest))"
  by (subst entries_of.simps)
    (simp add: read_frame_def read_length_prefix_def read_entry_data_def read_exact_no_faults Let_def)

lemma replay_loop_entries:
  "flt (ReadExact path) = None \<Longrightarrow> replay_loop cd flt path acc bs = Ok (acc @ entries_of cd bs)"
proof (induction cd flt path acc bs rule: replay_loop.induct)
  case (1 cd flt path acc bs)
  then show ?case
    by (subst replay_loop.simps, subst entries_of_unfold)
      (simp add: read_length_prefix_def read_entry_data_def read_exact_no_faults Let_def
        split: option.splits)
qed

text \<open>The summary of a file: first and last sequence number and the number of entries.\<close>

fun extend_metadata ::
    "bool \<Rightarrow> WalFileMetadata \<Rightarrow> 'ev WalEntry list \<Rightarrow> WalFileMetadata" where
  "extend_metadata first_entry md [] = md"
| "extend_metadata first_entry md (e # es) =
     extend_metadata False
       \<lparr>min_sequence = (if first_entry then entry_sequence e else min_sequence md),
        max_sequence = entry_sequence e, entry_count = sat_add (entry_count md) 1\<rparr> es"

lemma scan_loop_metadata:
  "flt (ReadExact path) = None \<Longrightarrow>
     scan_loop cd flt path fe md bs = Ok (extend_metadata fe md (entries_of cd bs))"
proof (induction cd flt path fe md bs rule: scan_loop.induct)
  case (1 cd flt path fe md bs)
  then show ?case
    by (subst scan_loop.simps, subst entries_of_unfold)
      (simp add: read_length_prefix_def read_entry_data_def read_exact_no_faults Let_def
        split: option.splits)
qed

lemma extend_metadata_max:
  "max_sequence (extend_metadata fe md es) =
     (if es = [] then max_sequence md else entry_sequence (last es))"
  by (induction es arbitrary: fe md) auto

lemma extend_metadata_min:
  "min_sequence (extend_metadata fe md es) =
     (if fe \<and> es \<noteq> [] then entry_sequence (hd es) else min_sequence md)"
  by (induction es arbitrary: fe md) auto

lemma entries_of_frame:
  "frame_valid ser \<Longrightarrow> entries_of cd (frame ser @ rest) =
     (case deserialize_and_verify_entry cd ser of None \<Rightarrow> [] | Some e \<Rightarrow> [e]) @ entries_of cd rest"
  by (subst entries_of.simps) (simp add: wal_frame.unframe_frame)

lemma entries_of_frames:
  "\<forall>ser \<in> set sers. frame_valid ser \<Longrightarrow>
     entries_of cd (concat (map frame sers) @ rest) =
       List.map_filter (deserialize_and_verify_entry cd) sers @ entries_of cd rest"
  by (induction sers) (auto simp: entries_of_frame map_filter_simps split: option.splits)

lemma entries_of_torn:
  assumes "frame_valid ser" "strict_prefix torn (frame ser)"
  shows "entries_of cd torn = []"
proof (cases "length torn < 4")
  case True
  then show ?thesis by (subst entries_of_unfold) simp
next
  case False
  from assms(2) obtain z where z: "frame ser = torn @ z" "z \<noteq> []"
    by (auto simp: strict_prefix_def prefix_def)
  then have "length torn < 4 + length ser"
    by (metis length_append length_frame length_greater_0_conv less_add_same_cancel1)
  moreover have "take 4 torn = to_le_bytes (word_of_nat (length ser))"
  proof -
    have "take 4 torn = take 4 (frame ser)"
      using z False by simp
    then show ?thesis by (simp add: frame_def)
  qed
  ultimately show ?thesis
    using False assms(1) by (subst entries_of_unfold) (simp add: unat_frame_length Let_def)
qed

end
