(* ===== verification/Security.thy ===== *)
theory Security
  imports Prelude Complex_Main
begin

text \<open>
  The process events of \<^verbatim>\<open>collector-core/src/event.rs\<close> and what the process monitor removes
  from them before they leave it: \<^verbatim>\<open>procmond/src/security.rs\<close> and \<open>sanitize_event\<close> of
  \<^verbatim>\<open>procmond/src/event_bus_connector/mod.rs\<close>.

  The Unicode tables behind \<open>str::to_lowercase\<close>, \<open>str::to_uppercase\<close> and \<open>str::split_whitespace\<close>
  are parameters, the functions themselves; nothing is assumed of them. JSON values
  (\<open>serde_json::Value\<close>) are a type parameter.
\<close>

section \<open>Process events\<close>

record 'json ProcessEvent =
  pid :: u32
  ppid :: "u32 option"
  name :: string
  executable_path :: "string option"
  command_line :: "string list"
  start_time :: "nat option"
  cpu_usage :: "rat option"
  memory_usage :: "u64 option"
  executable_hash :: "string option"
  hash_algorithm :: "string option"
  user_id :: "string option"
  accessible :: bool
  file_exists :: bool
  event_timestamp :: nat
  platform_metadata :: "'json option"

section \<open>What counts as sensitive\<close>

definition SENSITIVE_FLAGS :: "string list" where
  "SENSITIVE_FLAGS =
     [''--password'', ''--secret'', ''--token'', ''--api-key'', ''--api_key'', ''-p'', ''-s'', ''-t'', ''-k'']"

definition SENSITIVE_ENV_KEYS :: "string list" where
  "SENSITIVE_ENV_KEYS = [''PASSWORD'', ''SECRET'', ''TOKEN'', ''KEY'', ''API_KEY'', ''AUTH'']"

definition SENSITIVE_PATH_SEGMENTS :: "string list" where
  "SENSITIVE_PATH_SEGMENTS =
     [''.ssh'', ''.aws'', ''.gnupg'', ''.kube/config'', ''.docker/config'', ''.npmrc'', ''.netrc'', ''.env'']"

definition REDACTED :: string where
  "REDACTED = ''[REDACTED]''"

definition is_sensitive_flag :: "string \<Rightarrow> bool" where
  "is_sensitive_flag token \<longleftrightarrow> list_ex (eq_ignore_ascii_case token) SENSITIVE_FLAGS"

section \<open>Removing it\<close>

text \<open>\<open>str::split_once('=')\<close>.\<close>

definition split_once_equals :: "string \<Rightarrow> (string \<times> string) option" where
  "split_once_equals s =
     (if CHR ''='' \<in> set s
      then Some (takeWhile (\<lambda>c. c \<noteq> CHR ''='') s, tl (dropWhile (\<lambda>c. c \<noteq> CHR ''='') s)) else None)"

fun sanitize_tokens :: "bool \<Rightarrow> string list \<Rightarrow> string list" where
  "sanitize_tokens redact_next [] = []"
| "sanitize_tokens redact_next (token # tokens) =
     (if redact_next then REDACTED # sanitize_tokens False tokens
      else if is_sensitive_flag token then token # sanitize_tokens True tokens
      else case split_once_equals token of
             Some (flag_part, value) \<Rightarrow>
               (if is_sensitive_flag flag_part then flag_part @ ''=[REDACTED]'' else token)
                 # sanitize_tokens False tokens
           | None \<Rightarrow> token # sanitize_tokens False tokens)"

definition sanitize_command_line :: "(string \<Rightarrow> string list) \<Rightarrow> string \<Rightarrow> string" where
  "sanitize_command_line split_whitespace cmd =
     join_with CHR '' '' (sanitize_tokens False (split_whitespace cmd))"

definition sanitize_env_vars ::
    "(string \<Rightarrow> string) \<Rightarrow> (string, string) hash_map \<Rightarrow> (string, string) hash_map" where
  "sanitize_env_vars to_uppercase env =
     map (\<lambda>(key, val).
            if list_ex (\<lambda>pat. sublist pat (to_uppercase key)) SENSITIVE_ENV_KEYS then (key, REDACTED)
            else (key, val)) env"

definition sanitize_file_path :: "(string \<Rightarrow> string) \<Rightarrow> string \<Rightarrow> string" where
  "sanitize_file_path to_lowercase path =
     (let normalized = map (\<lambda>c. if c = CHR 0x5C then CHR ''/'' else c) path;
          lower = to_lowercase normalized
      in if list_ex (\<lambda>segment. sublist (CHR ''/'' # segment) lower) SENSITIVE_PATH_SEGMENTS
         then REDACTED else path)"

text \<open>The loop of \<open>sanitize_event\<close> over the arguments.\<close>

fun sanitize_args :: "bool \<Rightarrow> string list \<Rightarrow> string list" where
  "sanitize_args redact_next [] = []"
| "sanitize_args redact_next (arg # args) =
     (if redact_next then REDACTED # sanitize_args False args
      else if is_sensitive_flag arg then arg # sanitize_args True args
      else arg # sanitize_args False args)"

definition sanitize_event :: "(string \<Rightarrow> string) \<Rightarrow> 'json ProcessEvent \<Rightarrow> 'json ProcessEvent" where
  "sanitize_event to_lowercase event =
     (let event = (if command_line event \<noteq> []
                   then event\<lparr>command_line := sanitize_args False (command_line event)\<rparr> else event)
      in case executable_path event of
           Some path \<Rightarrow>
             (let sanitized = sanitize_file_path to_lowercase path in
              if sanitized \<noteq> path then event\<lparr>executable_path := Some sanitized\<rparr> else event)
         | None \<Rightarrow> event)"

section \<open>What is removed\<close>

lemma sanitize_args_length [simp]: "length (sanitize_args r args) = length args"
  by (induction r args rule: sanitize_args.induct) auto

lemma REDACTED_not_flag [simp]: "\<not> is_sensitive_flag REDACTED"
  by code_simp

text \<open>The flag carried through the loop is whether the argument just written is sensitive.\<close>

lemma sanitize_args_Cons:
  "sanitize_args r (arg # args) =
     (if r then REDACTED else arg) # sanitize_args (is_sensitive_flag (if r then REDACTED else arg)) args"
  by simp

lemma sanitize_args_nth:
  "i < length args \<Longrightarrow> sanitize_args r args ! i =
     (if (case i of 0 \<Rightarrow> r | Suc j \<Rightarrow> is_sensitive_flag (sanitize_args r args ! j)) then REDACTED else args ! i)"
proof (induction args arbitrary: i r)
  case (Cons arg args)
  show ?case
  proof (cases i)
    case (Suc j)
    let ?r = "is_sensitive_flag (if r then REDACTED else arg)"
    have "j < length args" using Cons.prems Suc by simp
    from Cons.IH [OF this, of ?r] show ?thesis
      unfolding sanitize_args_Cons Suc by (cases j) simp_all
  qed (simp add: sanitize_args_Cons del: sanitize_args.simps)
qed simp

lemma sanitize_event_fields:
  "command_line (sanitize_event lower ev) = sanitize_args False (command_line ev)"
  "executable_path (sanitize_event lower ev) = map_option (sanitize_file_path lower) (executable_path ev)"
  by (auto simp: sanitize_event_def Let_def split: option.splits)

text \<open>
  Claim C31: in a sanitized event every argument that follows a visible sensitive flag is replaced
  by the placeholder, every other argument is unchanged, and the executable path is replaced
  exactly if it contains a sensitive segment.
\<close>

theorem sanitize_event_redacts:
  "length (command_line (sanitize_event lower ev)) = length (command_line ev)
   \<and> (\<forall>i. i < length (command_line ev) \<longrightarrow> command_line (sanitize_event lower ev) ! i =
        (if 0 < i \<and> is_sensitive_flag (command_line (sanitize_event lower ev) ! (i - 1)) then REDACTED
         else command_line ev ! i))
   \<and> executable_path (sanitize_event lower ev) = map_option (\<lambda>path.
        if \<exists>segment \<in> set SENSITIVE_PATH_SEGMENTS.
             sublist (''/'' @ segment) (lower (map (\<lambda>c. if c = CHR 0x5C then CHR ''/'' else c) path))
        then REDACTED else path) (executable_path ev)"
proof -
  have "sanitize_args False args ! i =
      (if 0 < i \<and> is_sensitive_flag (sanitize_args False args ! (i - 1)) then REDACTED else args ! i)"
    if "i < length args" for i args
    using sanitize_args_nth [OF that, of False] by (cases i) simp_all
  then show ?thesis
    by (auto simp: sanitize_event_fields sanitize_file_path_def Let_def list_ex_iff intro: option.map_cong)
qed

text \<open>
  A secret given as \<open>--password=secret\<close> leaves the process monitor as it is, although
  the sanitizer for whole command lines, which the module documents for both forms, redacts it.
\<close>

lemma equals_form_not_redacted:
  "command_line (sanitize_event lower (ev\<lparr>command_line := [''app'', ''--password=secret'']\<rparr>)) =
     [''app'', ''--password=secret'']
   \<and> sanitize_tokens False [''app'', ''--password=secret''] = [''app'', ''--password=[REDACTED]'']"
  by (simp add: sanitize_event_fields is_sensitive_flag_def SENSITIVE_FLAGS_def eq_ignore_ascii_case_def
      to_ascii_lowercase_def split_once_equals_def)

definition app_event :: "string list \<Rightarrow> unit ProcessEvent" where
  "app_event args = \<lparr>pid = 1, ppid = None, name = ''app'', executable_path = Some ''/root/.ssh/run'',
     command_line = args, start_time = None, cpu_usage = None, memory_usage = None,
     executable_hash = None, hash_algorithm = None, user_id = None, accessible = True, file_exists = True,
     event_timestamp = 0, platform_metadata = None\<rparr>"

theorem sanitize_event_redacts_witness:
  "command_line (sanitize_event id (app_event [''app'', ''--TOKEN'', ''abc''])) ! 2 = ''[REDACTED]''"
proof -
  let ?ev = "app_event [''app'', ''--TOKEN'', ''abc'']"
  have sens: "is_sensitive_flag ''--TOKEN''" "\<not> is_sensitive_flag ''app''"
    by code_simp+
  have line: "command_line ?ev = [''app'', ''--TOKEN'', ''abc'']" by (simp add: app_event_def)
  have all: "i < length (command_line ?ev) \<Longrightarrow> command_line (sanitize_event id ?ev) ! i =
      (if 0 < i \<and> is_sensitive_flag (command_line (sanitize_event id ?ev) ! (i - 1)) then REDACTED
       else command_line ?ev ! i)" for i
    by (rule sanitize_event_redacts [of id ?ev, THEN conjunct2, THEN conjunct1, rule_format])
  show ?thesis
    using all [of 0] all [of 1] all [of 2] sens by (simp add: REDACTED_def line)
qed

end
