(* ===== verification/Wal_Safety.thy ===== *)
theory Wal_Safety
  imports Wal Security
begin

text \<open>
  Correctness of the write-ahead log: an invariant of the log and its directory, the effect of a
  write on what replay returns, also when the write or the file is cut short, recovery of the counters
  at start-up, what the clean-up of published files keeps, and the contract the event bus connector
  relies on (\<open>durable_log\<close>). Of \<open>postcard\<close> the properties assume that it reads back an event without
  metadata and fails on one with metadata (\<open>postcard_ok\<close>).
\<close>

section \<open>The log a directory holds\<close>

definition files_in :: "wal_dir \<Rightarrow> string set" where
  "files_in dir = fst ` set dir"

lemma set_keys [simp]: "n \<in> set (map fst dir) \<longleftrightarrow> n \<in> files_in dir"
  by (simp add: files_in_def)

definition file_entries :: "'ev wal_codec \<Rightarrow> wal_dir \<Rightarrow> string \<Rightarrow> 'ev WalEntry list" where
  "file_entries cd dir path = (case hm_get dir path of None \<Rightarrow> [] | Some bs \<Rightarrow> entries_of cd bs)"

definition wal_files :: "wal_dir \<Rightarrow> (u32 \<times> string) list" where
  "wal_files dir = sort_key fst (wal_names (map fst dir))"

definition log_entries :: "'ev wal_codec \<Rightarrow> wal_dir \<Rightarrow> 'ev WalEntry list" where
  "log_entries cd dir = concat (map (\<lambda>(_, path). file_entries cd dir path) (wal_files dir))"

lemma in_wal_names: "(sq, n) \<in> set (wal_names names) \<longleftrightarrow> n \<in> set names \<and> parse_wal_filename n = Some sq"
  by (induction names) (auto simp: wal_names_def map_filter_simps split: option.splits)

lemma in_wal_files:
  "(sq, n) \<in> set (wal_files dir) \<longleftrightarrow> n \<in> files_in dir \<and> parse_wal_filename n = Some sq"
  by (simp add: wal_files_def in_wal_names del: set_map)

lemma list_wal_files_no_faults [simp]: "list_wal_files no_faults dir = Ok (wal_files dir)"
  by (simp add: list_wal_files_def wal_files_def)

lemma hm_get_dom: "n \<in> files_in dir \<longleftrightarrow> (\<exists>bs. hm_get dir n = Some bs)"
  by (metis domIff dom_map_of_conv_image_fst files_in_def hm_get_def option.exhaust_sel
      option.distinct(1))

lemma replay_file_entries_no_faults:
  "n \<in> files_in dir \<Longrightarrow> replay_file_entries cd no_faults dir n = Ok (file_entries cd dir n)"
  by (auto simp: replay_file_entries_def file_entries_def hm_get_dom replay_loop_entries)

lemma scan_file_metadata_no_faults:
  "n \<in> files_in dir \<Longrightarrow> scan_file_metadata cd no_faults dir n =
     Ok (extend_metadata True WalFileMetadata_default (file_entries cd dir n))"
  by (auto simp: scan_file_metadata_def file_entries_def hm_get_dom scan_loop_metadata)

lemma fold_append_concat:
  "(\<And>a b. (a, b) \<in> set xs \<Longrightarrow> f b = Ok (g b)) \<Longrightarrow>
     fold (\<lambda>(_, b) all. case f b of Ok es \<Rightarrow> all @ es | Err _ \<Rightarrow> all) xs acc =
       acc @ concat (map (\<lambda>(_, b). g b) xs)"
proof (induction xs arbitrary: acc)
  case Nil
  then show ?case by simp
next
  case (Cons x xs)
  obtain a b where x: "x = (a, b)" by force
  then have "f b = Ok (g b)" using Cons.prems by auto
  moreover have "f b' = Ok (g b')" if "(a', b') \<in> set xs" for a' b'
    using Cons.prems that by auto
  ultimately show ?case using x Cons.IH by simp
qed

lemma replay_entries_log: "replay_entries cd no_faults dir = Ok (log_entries cd dir)"
  unfolding replay_entries_def log_entries_def
  by (simp, subst fold_append_concat [where g = "file_entries cd dir"])
    (auto simp: in_wal_files replay_file_entries_no_faults)

lemma wal_replay_log: "wal_replay cd no_faults dir = Ok (map entry_event (log_entries cd dir))"
  unfolding wal_replay_def log_entries_def
  by (simp, subst fold_append_concat [where g = "\<lambda>p. map entry_event (file_entries cd dir p)"])
    (auto simp: in_wal_files replay_file_def replay_file_entries_no_faults map_concat comp_def
      intro!: arg_cong [where f = concat] map_cong)

section \<open>The invariant\<close>

definition framed :: "bytes \<Rightarrow> bool" where
  "framed bs \<longleftrightarrow> (\<exists>sers. bs = concat (map frame sers) \<and> (\<forall>ser \<in> set sers. frame_valid ser))"

definition dir_ok :: "wal_dir \<Rightarrow> bool" where
  "dir_ok dir \<longleftrightarrow> hm_wf dir
     \<and> (\<forall>n sq. n \<in> files_in dir \<longrightarrow> parse_wal_filename n = Some sq \<longrightarrow> n = wal_file_path sq)
     \<and> (\<forall>n bs. hm_get dir n = Some bs \<longrightarrow> parse_wal_filename n \<noteq> None \<longrightarrow> framed bs)"

definition active_ok :: "WriteAheadLog \<Rightarrow> wal_dir \<Rightarrow> bool" where
  "active_ok w dir \<longleftrightarrow>
     0 < current_file_sequence w \<and> unat (current_file_sequence w) < 2 ^ 32
     \<and> state_file (file_state w) = wal_file_path (ucast (current_file_sequence w))
     \<and> state_file (file_state w) \<in> files_in dir
     \<and> (\<forall>n sq. n \<in> files_in dir \<longrightarrow> parse_wal_filename n = Some sq \<longrightarrow>
          sq \<le> ucast (current_file_sequence w))"

definition log_ok :: "'ev wal_codec \<Rightarrow> u64 \<Rightarrow> wal_dir \<Rightarrow> bool" where
  "log_ok cd next_seq dir \<longleftrightarrow>
     sorted_wrt (<) (map entry_sequence (log_entries cd dir))
     \<and> (\<forall>e \<in> set (log_entries cd dir). 0 < entry_sequence e \<and> entry_sequence e < next_seq)"

definition wal_inv :: "'ev wal_codec \<Rightarrow> WriteAheadLog \<Rightarrow> wal_dir \<Rightarrow> bool" where
  "wal_inv cd w dir \<longleftrightarrow> dir_ok dir \<and> active_ok w dir \<and> 0 < current_event_sequence w
     \<and> log_ok cd (current_event_sequence w) dir"

lemma framed_append: "framed bs \<Longrightarrow> frame_valid ser \<Longrightarrow> framed (bs @ frame ser)"
proof -
  assume "framed bs" "frame_valid ser"
  then obtain sers where "bs = concat (map frame sers)" "\<forall>s \<in> set sers. frame_valid s"
    by (auto simp: framed_def)
  with \<open>frame_valid ser\<close> show "framed (bs @ frame ser)"
    unfolding framed_def by (intro exI [of _ "sers @ [ser]"]) auto
qed

lemma framed_Nil [simp]: "framed []"
  by (auto simp: framed_def intro!: exI [of _ "[]"])

text \<open>What a reader takes from a frame: nothing when it does not deserialize or fails its checksum.\<close>

definition read_back :: "'ev wal_codec \<Rightarrow> bytes \<Rightarrow> 'ev WalEntry list" where
  "read_back cd ser = (case deserialize_and_verify_entry cd ser of None \<Rightarrow> [] | Some e \<Rightarrow> [e])"

lemma entries_of_Nil [simp]: "entries_of cd [] = []"
  by (subst entries_of_unfold) simp

lemma entries_of_framed_rest:
  assumes "framed bs"
  shows "entries_of cd (bs @ rest) = entries_of cd bs @ entries_of cd rest"
proof -
  obtain sers where s: "bs = concat (map frame sers)" "\<forall>s \<in> set sers. frame_valid s"
    using assms by (auto simp: framed_def)
  from entries_of_frames [OF s(2), of cd "[]"] entries_of_frames [OF s(2), of cd rest] show ?thesis
    by (simp add: s(1))
qed

lemma entries_of_framed_append:
  assumes "framed bs" "frame_valid ser"
  shows "entries_of cd (bs @ frame ser) = entries_of cd bs @ read_back cd ser"
  using entries_of_framed_rest [OF assms(1), of cd "frame ser"] entries_of_frame [OF assms(2), of cd "[]"]
  by (simp add: read_back_def)

text \<open>Whatever is cut off the end of a file, what is read is a prefix of what was read.\<close>

lemma entries_of_cut:
  assumes "framed bs" "prefix head bs"
  shows "prefix (entries_of cd head) (entries_of cd bs)"
proof -
  obtain sers where s: "bs = concat (map frame sers)" "\<forall>s \<in> set sers. frame_valid s"
    using assms(1) by (auto simp: framed_def)
  have "prefix head (concat (map frame sers)) \<Longrightarrow>
      prefix (entries_of cd head) (entries_of cd (concat (map frame sers)))"
    using s(2)
  proof (induction sers arbitrary: head)
    case (Cons ser sers)
    have valid: "frame_valid ser" using Cons.prems(2) by simp
    consider "strict_prefix head (frame ser)"
      | rest where "head = frame ser @ rest" "prefix rest (concat (map frame sers))"
      using Cons.prems(1) by (cases "head = frame ser") (force simp: prefix_append strict_prefix_def)+
    then show ?case
    proof cases
      case 1
      then show ?thesis by (simp add: entries_of_torn [OF valid])
    next
      case 2
      with Cons.IH [OF 2(2)] Cons.prems(2) show ?thesis
        by (simp add: entries_of_frame [OF valid])
    qed
  qed simp
  with assms(2) show ?thesis by (simp add: s(1))
qed

section \<open>The order of the files\<close>

lemma insort_key_snoc: "f x \<le> f y \<Longrightarrow> insort_key f x (zs @ [y]) = insort_key f x zs @ [y]"
  by (induction zs) auto

lemma sort_key_snoc_max: "\<forall>x \<in> set xs. f x \<le> f y \<Longrightarrow> sort_key f (xs @ [y]) = sort_key f xs @ [y]"
  by (induction xs) (auto simp: insort_key_snoc)

lemma wal_names_append: "wal_names (ns @ ms) = wal_names ns @ wal_names ms"
  by (simp add: wal_names_def map_filter_def)

lemma distinct_wal_names:
  "distinct names \<Longrightarrow>
     \<forall>n \<in> set names. \<forall>sq. parse_wal_filename n = Some sq \<longrightarrow> n = wal_file_path sq \<Longrightarrow>
     distinct (map fst (wal_names names))"
proof (induction names)
  case Nil
  then show ?case by (simp add: wal_names_def map_filter_simps)
next
  case (Cons n names)
  then have IH: "distinct (map fst (wal_names names))" by simp
  show ?case
  proof (cases "parse_wal_filename n")
    case None
    with IH show ?thesis by (simp add: wal_names_def map_filter_simps)
  next
    case (Some sq)
    then have n: "n = wal_file_path sq" using Cons.prems by simp
    have "sq \<notin> fst ` set (wal_names names)"
    proof
      assume "sq \<in> fst ` set (wal_names names)"
      then obtain m where "m \<in> set names" "parse_wal_filename m = Some sq"
        by (auto simp: in_wal_names)
      then have "m = wal_file_path sq"
        using Cons.prems(2) by (meson list.set_intros(2))
      then have "m = n" by (simp only: n)
      with \<open>m \<in> set names\<close> Cons.prems show False by simp
    qed
    with IH Some show ?thesis by (simp add: wal_names_def map_filter_simps)
  qed
qed

lemma sorted_wal_files: "sorted (map fst (wal_files dir))"
  by (simp add: wal_files_def)

lemma distinct_wal_files: "dir_ok dir \<Longrightarrow> distinct (map fst (wal_files dir))"
proof -
  assume "dir_ok dir"
  then have "distinct (map fst (wal_names (map fst dir)))"
    by (intro distinct_wal_names) (auto simp: dir_ok_def hm_wf_def simp del: set_map)
  then show ?thesis
    by (simp add: wal_files_def distinct_map inj_on_def)
qed

lemma sorted_keys_last:
  assumes "sorted (map fst xs)" "distinct (map fst xs)" "(k, v) \<in> set xs"
    and "\<forall>x \<in> set xs. fst x \<le> k"
  shows "\<exists>pre. xs = pre @ [(k, v)]"
proof -
  from assms(3) have ne: "xs \<noteq> []" by auto
  then obtain pre y where xs: "xs = pre @ [y]" by (metis append_butlast_last_id)
  show ?thesis
  proof (cases "y = (k, v)")
    case True
    with xs show ?thesis by blast
  next
    case False
    with assms(3) xs have "(k, v) \<in> set pre" by auto
    with assms(1) xs have "k \<le> fst y" by (force simp: sorted_append)
    moreover have "fst y \<le> k" using assms(4) xs by simp
    ultimately have "fst y = k" by simp
    with assms(2) xs \<open>(k, v) \<in> set pre\<close> show ?thesis by (force simp: rev_image_eqI)
  qed
qed

lemma active_file_last:
  assumes "dir_ok dir" "active_ok w dir"
  obtains pre where
    "wal_files dir = pre @ [(ucast (current_file_sequence w), state_file (file_state w))]"
    "\<forall>x \<in> set pre. fst x < ucast (current_file_sequence w) \<and> snd x \<noteq> state_file (file_state w)"
proof -
  let ?k = "ucast (current_file_sequence w) :: u32" and ?p = "state_file (file_state w)"
  have "(?k, ?p) \<in> set (wal_files dir)"
    using assms(2) unfolding active_ok_def in_wal_files by (metis parse_wal_file_path)
  moreover have "\<forall>x \<in> set (wal_files dir). fst x \<le> ?k"
    using assms(2) in_wal_files unfolding active_ok_def by (metis prod.collapse)
  ultimately obtain pre where pre: "wal_files dir = pre @ [(?k, ?p)]"
    using sorted_keys_last [OF sorted_wal_files distinct_wal_files [OF assms(1)]] by blast
  have "fst x < ?k \<and> snd x \<noteq> ?p" if "x \<in> set pre" for x
  proof -
    obtain sq n where x: "x = (sq, n)" by force
    have "sq \<noteq> ?k" using distinct_wal_files [OF assms(1)] that x pre by force
    moreover have "sq \<le> ?k" using sorted_wal_files [of dir] that x pre by (force simp: sorted_append)
    moreover have "parse_wal_filename n = Some sq"
      using that x pre in_wal_files [of sq n dir] by simp
    ultimately show ?thesis
      using x assms(2) by (auto simp: active_ok_def parse_wal_file_path)
  qed
  with pre that show thesis by blast
qed

section \<open>Changing one file\<close>

lemma keys_insert:
  "map fst (hm_insert k v dir) = (if k \<in> files_in dir then map fst dir else map fst dir @ [k])"
  by (simp add: hm_insert_def update_keys files_in_def)

lemma key_set_insert: "files_in (hm_insert k v dir) = insert k (files_in dir)"
  by (simp add: files_in_def hm_insert_def dom_update)

lemma hm_insert_twice [simp]: "hm_insert k v (hm_insert k v' dir) = hm_insert k v dir"
  by (simp add: hm_insert_def update_last)

lemma wal_files_insert_existing:
  "k \<in> files_in dir \<Longrightarrow> wal_files (hm_insert k v dir) = wal_files dir"
  by (simp add: wal_files_def keys_insert)

lemma wal_files_insert_new:
  assumes "wal_file_path sq \<notin> files_in dir" "\<forall>x \<in> set (wal_files dir). fst x \<le> sq"
  shows "wal_files (hm_insert (wal_file_path sq) v dir) = wal_files dir @ [(sq, wal_file_path sq)]"
proof -
  have "wal_names [wal_file_path sq] = [(sq, wal_file_path sq)]"
    by (simp add: wal_names_def map_filter_simps parse_wal_file_path)
  moreover have "\<forall>x \<in> set (wal_names (map fst dir)). fst x \<le> fst (sq, wal_file_path sq)"
    using assms(2) by (simp add: wal_files_def)
  ultimately show ?thesis
    using assms(1) by (simp add: wal_files_def keys_insert wal_names_append sort_key_snoc_max)
qed

lemma file_entries_insert:
  "file_entries cd (hm_insert k v dir) p = (if p = k then entries_of cd v else file_entries cd dir p)"
  by (simp add: file_entries_def)

lemma concat_entries_other:
  "k \<notin> snd ` set fs \<Longrightarrow>
     concat (map (\<lambda>(_, q). file_entries cd (hm_insert k v dir) q) fs) =
     concat (map (\<lambda>(_, q). file_entries cd dir q) fs)"
  by (induction fs) (auto simp: file_entries_insert)

lemma log_entries_active:
  assumes "dir_ok dir" "active_ok w dir" "hm_get dir (state_file (file_state w)) = Some old"
  obtains before where "log_entries cd dir = before @ entries_of cd old"
    "\<And>new. log_entries cd (hm_insert (state_file (file_state w)) new dir) = before @ entries_of cd new"
proof -
  let ?p = "state_file (file_state w)"
  obtain pre where pre: "wal_files dir = pre @ [(ucast (current_file_sequence w), ?p)]"
    "\<forall>x \<in> set pre. fst x < ucast (current_file_sequence w) \<and> snd x \<noteq> ?p"
    using active_file_last [OF assms(1,2)] by blast
  let ?before = "concat (map (\<lambda>(_, p). file_entries cd dir p) pre)"
  have "?p \<in> files_in dir"
    using assms(2) unfolding active_ok_def by blast
  then have files: "wal_files (hm_insert ?p new dir) = wal_files dir" for new
    by (rule wal_files_insert_existing)
  have other: "?p \<notin> snd ` set pre"
    using pre(2) by auto
  have "log_entries cd dir = ?before @ entries_of cd old"
    using assms(3) by (simp add: log_entries_def pre(1) file_entries_def)
  moreover have "log_entries cd (hm_insert ?p new dir) = ?before @ entries_of cd new" for new
    by (simp add: log_entries_def files pre(1) concat_entries_other [OF other]) (simp add: file_entries_insert)
  ultimately show thesis by (rule that)
qed

lemma log_entries_append_active:
  assumes "dir_ok dir" "active_ok w dir" "hm_get dir (state_file (file_state w)) = Some old"
    and "entries_of cd new = entries_of cd old @ es"
  shows "log_entries cd (hm_insert (state_file (file_state w)) new dir) = log_entries cd dir @ es"
  using log_entries_active [OF assms(1-3), of cd] assms(4) by (metis append.assoc)

lemma log_entries_new_file:
  assumes "wal_file_path sq \<notin> files_in dir" "\<forall>x \<in> set (wal_files dir). fst x \<le> sq"
  shows "log_entries cd (hm_insert (wal_file_path sq) [] dir) = log_entries cd dir"
proof -
  have "wal_file_path sq \<notin> snd ` set (wal_files dir)"
    using assms(1) by (auto simp: in_wal_files)
  then show ?thesis
    by (simp add: log_entries_def wal_files_insert_new [OF assms] concat_entries_other)
      (simp add: file_entries_insert)
qed

lemma dir_ok_insert:
  assumes "dir_ok dir" "framed bs"
  shows "dir_ok (hm_insert (wal_file_path sq) bs dir)"
  using assms unfolding dir_ok_def key_set_insert
  by (auto simp: parse_wal_file_path split: if_splits)

section \<open>A write\<close>

lemma unat_ucast_u32: "unat x < 2 ^ 32 \<Longrightarrow> unat (ucast x :: u32) = unat x" for x :: u64
  by (simp add: unsigned_ucast_eq take_bit_eq_mod)

lemma unat_Suc_u64: "unat x + 1 < 2 ^ 64 \<Longrightarrow> unat (x + 1) = unat x + 1" for x :: u64
  by (simp add: unat_word_ariths)

lemma sat_add_one: "unat x + 1 < 2 ^ 64 \<Longrightarrow> sat_add x 1 = x + 1" for x :: u64
  by (simp add: sat_add_def)

lemma append_frame:
  "hm_get dir p = Some old \<Longrightarrow>
     append_bytes p ser (append_bytes p (to_le_bytes (word_of_nat (length ser))) dir) =
     hm_insert p (old @ frame ser) dir"
  by (simp add: append_bytes_def frame_def)

lemma active_ok_insert:
  "active_ok w dir \<Longrightarrow> active_ok (w\<lparr>file_state := track_write sq inc (file_state w)\<rparr>)
     (hm_insert (state_file (file_state w)) bs dir)"
  unfolding active_ok_def key_set_insert by (auto simp: track_write_def)

lemma rotate_ok:
  assumes "dir_ok dir" "active_ok w dir" "unat (current_file_sequence w) + 1 < 2 ^ 32"
  obtains w' dir' where "rotate_file_internal no_faults w dir = (Ok (), w', dir')"
    and "dir_ok dir'" "active_ok w' dir'" "log_entries cd dir' = log_entries cd dir"
    and "current_event_sequence w' = current_event_sequence w"
    and "unat (current_file_sequence w') = unat (current_file_sequence w) + 1"
    and "rotation_threshold w' = rotation_threshold w"
proof -
  let ?f = "current_file_sequence w"
  let ?k = "ucast (?f + 1) :: u32"
  let ?dir = "hm_insert (wal_file_path ?k) [] dir"
  let ?w = "w\<lparr>current_file_sequence := ?f + 1,
              file_state := \<lparr>state_file = wal_file_path ?k, state_size = 0,
                             state_min_sequence = 0, state_max_sequence = 0\<rparr>\<rparr>"
  have suc: "unat (?f + 1) = unat ?f + 1"
    using assms(3) by (intro unat_Suc_u64) simp
  have k: "unat ?k = unat ?f + 1"
    using assms(3) suc by (subst unat_ucast_u32) simp_all
  have bound: "sq < ?k" if "n \<in> files_in dir" "parse_wal_filename n = Some sq" for n sq
  proof -
    have "sq \<le> ucast ?f" using assms(2) that by (simp add: active_ok_def)
    moreover have "unat (ucast ?f :: u32) = unat ?f" using assms(3) by (intro unat_ucast_u32) simp
    ultimately show ?thesis using k by (simp add: word_le_nat_alt word_less_nat_alt)
  qed
  have new: "wal_file_path ?k \<notin> files_in dir"
    using bound parse_wal_file_path by blast
  then have absent: "hm_get dir (wal_file_path ?k) = None"
    by (simp add: hm_get_dom)
  have "rotate_file_internal no_faults w dir = (Ok (), ?w, ?dir)"
    using assms(3) absent
    by (simp add: rotate_file_internal_def Let_def restrict_permissions_def open_append_def
        sat_add_one)
  moreover have "dir_ok ?dir"
    using assms(1) by (intro dir_ok_insert) simp_all
  moreover have "log_entries cd ?dir = log_entries cd dir"
    using new by (intro log_entries_new_file) (auto simp: in_wal_files intro: less_imp_le [OF bound])
  moreover have "active_ok ?w ?dir"
    using suc k assms(3)
    by (auto simp: active_ok_def key_set_insert parse_wal_file_path word_less_nat_alt
        intro: less_imp_le [OF bound])
  ultimately show thesis
    using suc by (intro that [of ?w ?dir]) simp_all
qed

lemma active_framed:
  assumes "dir_ok dir" "active_ok w dir" "hm_get dir (state_file (file_state w)) = Some old"
  shows "framed old"
  using assms parse_wal_file_path unfolding dir_ok_def active_ok_def by (metis option.distinct(1))

lemma write_entry_ok:
  assumes "dir_ok dir" "active_ok w dir" "unat (current_file_sequence w) + 1 < 2 ^ 32"
    and "entry_to_vec cd e = Some ser" "frame_valid ser"
  obtains w' dir' where "write_entry cd no_faults e w dir = (Ok (entry_sequence e), w', dir')"
    and "dir_ok dir'" "active_ok w' dir'" "log_entries cd dir' = log_entries cd dir @ read_back cd ser"
    and "current_event_sequence w' = current_event_sequence w"
    and "unat (current_file_sequence w') \<le> unat (current_file_sequence w) + 1"
    and "rotation_threshold w' = rotation_threshold w"
proof -
  let ?p = "state_file (file_state w)"
  let ?w1 = "w\<lparr>file_state := track_write (entry_sequence e) (4 + length ser) (file_state w)\<rparr>"
  have p: "?p = wal_file_path (ucast (current_file_sequence w))" "?p \<in> files_in dir"
    using assms(2) unfolding active_ok_def by blast+
  obtain old where old: "hm_get dir ?p = Some old"
    using p(2) by (auto simp: hm_get_dom)
  have fr: "framed old"
    by (rule active_framed [OF assms(1,2) old])
  let ?d1 = "hm_insert ?p (old @ frame ser) dir"
  have log1: "log_entries cd ?d1 = log_entries cd dir @ read_back cd ser"
    using assms(1,2) old entries_of_framed_append [OF fr assms(5)]
    by (rule log_entries_append_active)
  have d1: "dir_ok ?d1"
    using dir_ok_insert [OF assms(1) framed_append [OF fr assms(5)]] p(1) by simp
  have a1: "active_ok ?w1 ?d1"
    using assms(2) by (rule active_ok_insert)
  have f1: "unat (current_file_sequence ?w1) + 1 < 2 ^ 32"
    using assms(3) by simp
  obtain w' dir' where rot: "rotate_file_internal no_faults ?w1 ?d1 = (Ok (), w', dir')"
      "dir_ok dir'" "active_ok w' dir'" "log_entries cd dir' = log_entries cd ?d1"
      "current_event_sequence w' = current_event_sequence ?w1"
      "unat (current_file_sequence w') = unat (current_file_sequence ?w1) + 1"
      "rotation_threshold w' = rotation_threshold ?w1"
    using rotate_ok [OF d1 a1 f1] by blast
  have we: "write_entry cd no_faults e w dir =
      (if state_size (file_state ?w1) \<ge> rotation_threshold w
       then (Ok (entry_sequence e), w', dir') else (Ok (entry_sequence e), ?w1, ?d1))"
    using assms(4) rot(1) by (simp add: write_entry_def Let_def append_frame [OF old])
  show thesis
  proof (cases "state_size (file_state ?w1) \<ge> rotation_threshold w")
    case True
    with we rot log1 show thesis by (intro that [of w' dir']) simp_all
  next
    case False
    with we d1 a1 log1 show thesis by (intro that [of ?w1 ?d1]) simp_all
  qed
qed

text \<open>
  The behaviour of \<open>postcard\<close> the log relies on: the entry of an event of a kind it can read is
  deserialized to the same value, and of any other event to an error. \<open>postcard\<close> does not describe itself,
  so it cannot deserialize a \<open>serde_json::Value\<close>, and the metadata of a process event is one
  (\<^verbatim>\<open>collector-core/src/event.rs\<close>): an event with metadata is serialized and not read back. An entry is
  writable if it serializes to fewer than \<open>2 ^ 32\<close> bytes.
\<close>

definition postcard_reads :: "('ev \<Rightarrow> bool) \<Rightarrow> 'ev wal_codec \<Rightarrow> bool" where
  "postcard_reads plain cd \<longleftrightarrow> (\<forall>e bs. entry_to_vec cd e = Some bs \<longrightarrow>
     entry_from_bytes cd bs = (if plain (entry_event e) then Some e else None))"

definition metadata_free :: "'json ProcessEvent \<Rightarrow> bool" where
  "metadata_free event \<longleftrightarrow> platform_metadata event = None"

definition postcard_ok :: "'json ProcessEvent wal_codec \<Rightarrow> bool" where
  "postcard_ok cd \<longleftrightarrow> postcard_reads metadata_free cd"

lemma read_back_serialized:
  "postcard_reads plain cd \<Longrightarrow> entry_to_vec cd e = Some ser \<Longrightarrow> verify cd e \<Longrightarrow>
     read_back cd ser = filter (\<lambda>e. plain (entry_event e)) [e]"
  by (simp add: postcard_reads_def read_back_def deserialize_and_verify_entry_def)

definition writable :: "'ev wal_codec \<Rightarrow> 'ev WalEntry \<Rightarrow> bool" where
  "writable cd e \<longleftrightarrow> (\<exists>ser. entry_to_vec cd e = Some ser \<and> frame_valid ser)"

definition has_room :: "nat \<Rightarrow> WriteAheadLog \<Rightarrow> bool" where
  "has_room n w \<longleftrightarrow> unat (current_file_sequence w) + n < 2 ^ 32
     \<and> unat (current_event_sequence w) + n < 2 ^ 64"

lemma verify_new [simp]: "verify cd (WalEntry_new cd sq ev)"
  by (simp add: verify_def WalEntry_new_def)

lemma verify_with_event_type [simp]: "verify cd (with_event_type cd sq ev ty)"
  by (simp add: verify_def with_event_type_def)

lemma log_ok_snoc:
  assumes "log_ok cd sq dir" "log_entries cd dir' = log_entries cd dir @ filter P [e]"
    and "entry_sequence e = sq" "0 < sq" "unat sq + 1 < 2 ^ 64"
  shows "log_ok cd (sq + 1) dir'"
proof -
  have lt: "sq < sq + 1"
    using assms(5) by (simp add: word_less_nat_alt unat_Suc_u64)
  then have "entry_sequence x < sq + 1" if "x \<in> set (log_entries cd dir)" for x
    using assms(1) that by (auto simp: log_ok_def intro: less_trans)
  with lt assms show ?thesis
    by (auto simp: log_ok_def sorted_wrt_append)
qed

lemma write_entry_inv:
  assumes "postcard_reads plain cd" "wal_inv cd w dir" "has_room 1 w"
    and "writable cd e" "verify cd e" "entry_sequence e = current_event_sequence w"
  obtains w' dir' where
    "write_entry cd no_faults e (snd (take_sequence w)) dir = (Ok (entry_sequence e), w', dir')"
    and "wal_inv cd w' dir'" "log_entries cd dir' = log_entries cd dir @ filter (\<lambda>e. plain (entry_event e)) [e]"
    and "current_event_sequence w' = current_event_sequence w + 1"
    and "unat (current_file_sequence w') \<le> unat (current_file_sequence w) + 1"
proof -
  let ?w = "snd (take_sequence w)"
  obtain ser where ser: "entry_to_vec cd e = Some ser" "frame_valid ser"
    using assms(4) by (auto simp: writable_def)
  have pre: "dir_ok dir" "active_ok ?w dir" "unat (current_file_sequence ?w) + 1 < 2 ^ 32"
    using assms(2,3) by (auto simp: wal_inv_def active_ok_def take_sequence_def has_room_def)
  obtain w' dir' where w': "write_entry cd no_faults e ?w dir = (Ok (entry_sequence e), w', dir')"
    "dir_ok dir'" "active_ok w' dir'" "log_entries cd dir' = log_entries cd dir @ filter (\<lambda>e. plain (entry_event e)) [e]"
    "current_event_sequence w' = current_event_sequence ?w"
    "unat (current_file_sequence w') \<le> unat (current_file_sequence ?w) + 1"
    using write_entry_ok [OF pre ser] unfolding read_back_serialized [OF assms(1) ser(1) assms(5)] by blast
  have room: "unat (current_event_sequence w) + 1 < 2 ^ 64"
    using assms(3) by (simp add: has_room_def)
  have next_seq: "current_event_sequence w' = current_event_sequence w + 1"
    using w'(5) by (simp add: take_sequence_def)
  have "log_ok cd (current_event_sequence w + 1) dir'"
    by (rule log_ok_snoc [OF _ w'(4) assms(6) _ room]) (use assms(2) in \<open>auto simp: wal_inv_def\<close>)
  moreover have "0 < current_event_sequence w + 1"
    using unat_Suc_u64 [OF room] by (simp add: word_less_nat_alt)
  ultimately have "wal_inv cd w' dir'"
    using w'(2,3) next_seq by (simp add: wal_inv_def)
  with w' next_seq that [of w' dir'] show thesis
    by (simp add: take_sequence_def)
qed

text \<open>
  On a well-formed log, \<open>write\<close> returns the next sequence number, keeps the log
  well-formed, and replay afterwards returns what it returned before followed by the new
  entry if it can be read, whether or not the write rotated to a new file.
\<close>

lemma wal_write_appends:
  assumes "postcard_reads plain cd" "wal_inv cd w dir" "has_room 1 w"
    and "writable cd (WalEntry_new cd (current_event_sequence w) ev)"
  shows "\<exists>w' dir' es. wal_write cd no_faults ev w dir = (Ok (current_event_sequence w), w', dir')
     \<and> wal_inv cd w' dir' \<and> current_event_sequence w' = current_event_sequence w + 1
     \<and> replay_entries cd no_faults dir = Ok es
     \<and> replay_entries cd no_faults dir' =
         Ok (es @ (if plain ev then [WalEntry_new cd (current_event_sequence w) ev] else []))"
proof -
  let ?e = "WalEntry_new cd (current_event_sequence w) ev"
  have seq: "entry_sequence ?e = current_event_sequence w" and ev: "entry_event ?e = ev"
    by (simp_all add: WalEntry_new_def)
  obtain w' dir' where "write_entry cd no_faults ?e (snd (take_sequence w)) dir =
        (Ok (entry_sequence ?e), w', dir')" "wal_inv cd w' dir'"
      "log_entries cd dir' = log_entries cd dir @ filter (\<lambda>e. plain (entry_event e)) [?e]"
      "current_event_sequence w' = current_event_sequence w + 1"
    using write_entry_inv [OF assms(1-4) verify_new seq] by blast
  then show ?thesis
    using seq by (simp add: wal_write_def take_sequence_def replay_entries_log ev)
qed

subsection \<open>A crash in the middle of a write\<close>

lemma append_active:
  assumes "wal_inv cd w dir"
  obtains old where "hm_get dir (state_file (file_state w)) = Some old" "framed old"
    "\<And>bs. append_bytes (state_file (file_state w)) bs dir = hm_insert (state_file (file_state w)) (old @ bs) dir"
proof -
  have inv: "dir_ok dir" "active_ok w dir" using assms by (simp_all add: wal_inv_def)
  obtain old where old: "hm_get dir (state_file (file_state w)) = Some old"
    using inv(2) unfolding active_ok_def hm_get_dom by blast
  show thesis
    by (rule that [OF old active_framed [OF inv old]]) (simp add: append_bytes_def old)
qed

text \<open>A write cut short leaves part of a frame at the end of the active file, which is not read.\<close>

lemma log_entries_torn:
  assumes "wal_inv cd w dir" "frame_valid ser" "strict_prefix torn (frame ser)"
  shows "log_entries cd (append_bytes (state_file (file_state w)) torn dir) = log_entries cd dir"
proof -
  have inv: "dir_ok dir" "active_ok w dir" using assms(1) by (simp_all add: wal_inv_def)
  obtain old where old: "hm_get dir (state_file (file_state w)) = Some old" "framed old"
    "\<And>bs. append_bytes (state_file (file_state w)) bs dir = hm_insert (state_file (file_state w)) (old @ bs) dir"
    using append_active [OF assms(1)] by blast
  have "entries_of cd (old @ torn) = entries_of cd old @ []"
    by (simp add: entries_of_framed_rest [OF old(2)] entries_of_torn [OF assms(2,3)])
  from log_entries_append_active [OF inv old(1) this] show ?thesis
    by (simp add: old(3))
qed

text \<open>Bytes of the active file that never reached the disk cost the entries at the end, and no others.\<close>

lemma log_entries_cut:
  assumes "wal_inv cd w dir" "hm_get dir (state_file (file_state w)) = Some bs" "prefix head bs"
  shows "prefix (log_entries cd (hm_insert (state_file (file_state w)) head dir)) (log_entries cd dir)"
proof -
  have inv: "dir_ok dir" "active_ok w dir" using assms(1) by (simp_all add: wal_inv_def)
  have "prefix (entries_of cd head) (entries_of cd bs)"
    by (rule entries_of_cut [OF active_framed [OF inv assms(2)] assms(3)])
  with log_entries_active [OF inv assms(2), of cd] show ?thesis
    by (metis same_prefix_prefix)
qed

section \<open>A run of writes\<close>

text \<open>
  The contract of an append-only log with limited room: an append keeps the invariant, uses up at
  most one unit of room, and adds its argument at the end of what a reader sees, if it can be seen.
\<close>

locale append_log =
  fixes inv :: "'s \<Rightarrow> bool"
    and room :: "nat \<Rightarrow> 's \<Rightarrow> bool"
    and fits :: "'e \<Rightarrow> bool"
    and seen :: "'e \<Rightarrow> bool"
    and app :: "'e \<Rightarrow> 's \<Rightarrow> 's"
    and view :: "'s \<Rightarrow> 'e list"
  assumes app_inv: "inv s \<Longrightarrow> room (Suc n) s \<Longrightarrow> fits e \<Longrightarrow> inv (app e s)"
    and app_room: "inv s \<Longrightarrow> room (Suc n) s \<Longrightarrow> fits e \<Longrightarrow> room n (app e s)"
    and app_view: "inv s \<Longrightarrow> room (Suc n) s \<Longrightarrow> fits e \<Longrightarrow> view (app e s) = view s @ filter seen [e]"
begin

lemma run_log:
  "inv s \<Longrightarrow> room (length es) s \<Longrightarrow> \<forall>e \<in> set es. fits e \<Longrightarrow>
     inv (fold app es s) \<and> view (fold app es s) = view s @ filter seen es"
proof (induction es arbitrary: s)
  case Nil
  then show ?case by simp
next
  case (Cons e es)
  then have "inv (app e s)" "room (length es) (app e s)" "view (app e s) = view s @ filter seen [e]"
    using app_inv [of s "length es" e] app_room [of s "length es" e] app_view [of s "length es" e]
    by simp_all
  with Cons.IH [of "app e s"] Cons.prems show ?case by simp
qed

end

definition wal_step :: "'ev wal_codec \<Rightarrow> 'ev \<Rightarrow> WriteAheadLog \<times> wal_dir \<Rightarrow> WriteAheadLog \<times> wal_dir" where
  "wal_step cd ev s = (case s of (w, dir) \<Rightarrow> snd (wal_write cd no_faults ev w dir))"

definition event_fits :: "'ev wal_codec \<Rightarrow> 'ev \<Rightarrow> bool" where
  "event_fits cd ev \<longleftrightarrow> (\<forall>sq. writable cd (WalEntry_new cd sq ev))"

lemma wal_step_effect:
  assumes "postcard_reads plain cd" "wal_inv cd w dir" "has_room (Suc n) w" "event_fits cd ev"
  obtains w' dir' where "wal_step cd ev (w, dir) = (w', dir')" "wal_inv cd w' dir'"
    and "has_room n w'" "current_event_sequence w' = current_event_sequence w + 1"
    and "log_entries cd dir' = log_entries cd dir
      @ filter (\<lambda>e. plain (entry_event e)) [WalEntry_new cd (current_event_sequence w) ev]"
proof -
  let ?e = "WalEntry_new cd (current_event_sequence w) ev"
  have seq: "entry_sequence ?e = current_event_sequence w"
    by (simp add: WalEntry_new_def)
  have room: "has_room 1 w" using assms(3) by (simp add: has_room_def)
  have wr: "writable cd ?e" using assms(4) by (simp add: event_fits_def)
  obtain w' dir' where w': "write_entry cd no_faults ?e (snd (take_sequence w)) dir =
        (Ok (entry_sequence ?e), w', dir')" "wal_inv cd w' dir'"
      "log_entries cd dir' = log_entries cd dir @ filter (\<lambda>e. plain (entry_event e)) [?e]"
      "current_event_sequence w' = current_event_sequence w + 1"
      "unat (current_file_sequence w') \<le> unat (current_file_sequence w) + 1"
    using write_entry_inv [OF assms(1,2) room wr verify_new seq] by blast
  have "has_room n w'"
    using assms(3) w'(4,5) unat_Suc_u64 [of "current_event_sequence w"] by (simp add: has_room_def)
  with w' show thesis
    by (intro that [of w' dir']) (simp_all add: wal_step_def wal_write_def take_sequence_def)
qed

interpretation wal_log: append_log
  "\<lambda>(w, dir). postcard_reads plain cd \<and> wal_inv cd w dir"
  "\<lambda>n (w, dir). has_room n w"
  "event_fits cd" plain "wal_step cd" "\<lambda>(w, dir). map entry_event (log_entries cd dir)" for plain cd
proof unfold_locales
  fix s :: "WriteAheadLog \<times> wal_dir" and n :: nat and ev :: 'a
  obtain w dir where s: "s = (w, dir)" by force
  assume "case s of (w, dir) \<Rightarrow> postcard_reads plain cd \<and> wal_inv cd w dir"
    and "case s of (w, dir) \<Rightarrow> has_room (Suc n) w" and fits: "event_fits cd ev"
  then have pre: "postcard_reads plain cd" "wal_inv cd w dir" "has_room (Suc n) w"
    by (simp_all add: s)
  obtain w' dir' where step: "wal_step cd ev (w, dir) = (w', dir')" "wal_inv cd w' dir'"
    "has_room n w'"
    "log_entries cd dir' = log_entries cd dir
      @ filter (\<lambda>e. plain (entry_event e)) [WalEntry_new cd (current_event_sequence w) ev]"
    using wal_step_effect [OF pre fits] by blast
  show "case wal_step cd ev s of (w, dir) \<Rightarrow> postcard_reads plain cd \<and> wal_inv cd w dir"
    using pre(1) step by (simp add: s)
  show "case wal_step cd ev s of (w, dir) \<Rightarrow> has_room n w"
    using step by (simp add: s)
  show "(case wal_step cd ev s of (w, dir) \<Rightarrow> map entry_event (log_entries cd dir)) =
      (case s of (w, dir) \<Rightarrow> map entry_event (log_entries cd dir)) @ filter plain [ev]"
    using step by (simp add: s WalEntry_new_def)
qed

text \<open>
  Claim C1: after any number of writes on a well-formed log, through any number of rotations,
  \<open>replay\<close> returns the events that were there followed by all written events without metadata, in the order of
  the writes. This is still so when the next write is cut short by a crash and leaves part of a frame; and
  when the last bytes of the active file are lost, since writes are never flushed, replay returns a
  prefix of it. An event with metadata is acknowledged and never returned.
\<close>

theorem replay_after_writes:
  assumes "postcard_ok cd" "wal_inv cd w dir" "has_room (length evs) w"
    and "\<forall>ev \<in> set evs. event_fits cd ev"
    and "fold (wal_step cd) evs (w, dir) = (w', dir')"
  shows "\<exists>old. wal_replay cd no_faults dir = Ok old
     \<and> wal_replay cd no_faults dir' = Ok (old @ filter metadata_free evs) \<and> wal_inv cd w' dir'
     \<and> (\<forall>ser torn. frame_valid ser \<longrightarrow> strict_prefix torn (frame ser) \<longrightarrow>
          wal_replay cd no_faults (append_bytes (state_file (file_state w')) torn dir') =
            Ok (old @ filter metadata_free evs))
     \<and> (\<forall>bs head. hm_get dir' (state_file (file_state w')) = Some bs \<longrightarrow> prefix head bs \<longrightarrow>
          (\<exists>kept. wal_replay cd no_faults (hm_insert (state_file (file_state w')) head dir') = Ok kept
             \<and> prefix kept (old @ filter metadata_free evs)))"
proof -
  have run: "wal_inv cd w' dir'"
    "map entry_event (log_entries cd dir') = map entry_event (log_entries cd dir) @ filter metadata_free evs"
    using wal_log.run_log [of metadata_free cd "(w, dir)" evs] assms by (simp_all add: postcard_ok_def)
  show ?thesis
    using run(1) log_entries_torn [OF run(1)] log_entries_cut [OF run(1)]
    by (simp add: wal_replay_log run(2) [symmetric] map_mono_prefix)
qed

text \<open>The entries of a run: consecutive sequence numbers, starting with the next one.\<close>

fun numbered :: "'ev wal_codec \<Rightarrow> u64 \<Rightarrow> 'ev list \<Rightarrow> 'ev WalEntry list" where
  "numbered cd sq [] = []"
| "numbered cd sq (ev # evs) = WalEntry_new cd sq ev # numbered cd (sq + 1) evs"

lemma run_entries:
  assumes "postcard_reads plain cd" "wal_inv cd w dir" "has_room (length evs) w"
    and "\<forall>ev \<in> set evs. event_fits cd ev"
    and "fold (wal_step cd) evs (w, dir) = (w', dir')"
  shows "log_entries cd dir' = log_entries cd dir
    @ filter (\<lambda>e. plain (entry_event e)) (numbered cd (current_event_sequence w) evs)"
  using assms
proof (induction evs arbitrary: w dir)
  case Nil
  then show ?case by simp
next
  case (Cons ev evs)
  have pre: "postcard_reads plain cd" "wal_inv cd w dir" "has_room (Suc (length evs)) w" "event_fits cd ev"
    using Cons.prems by simp_all
  obtain w1 dir1 where step: "wal_step cd ev (w, dir) = (w1, dir1)" "wal_inv cd w1 dir1"
    "has_room (length evs) w1" "current_event_sequence w1 = current_event_sequence w + 1"
    "log_entries cd dir1 = log_entries cd dir
      @ filter (\<lambda>e. plain (entry_event e)) [WalEntry_new cd (current_event_sequence w) ev]"
    using wal_step_effect [OF pre] by blast
  have rest: "fold (wal_step cd) evs (w1, dir1) = (w', dir')"
    using Cons.prems(5) step(1) by simp
  have "\<forall>ev \<in> set evs. event_fits cd ev"
    using Cons.prems(4) by simp
  from Cons.IH [OF pre(1) step(2,3) this rest] step(4,5) show ?case by simp
qed

section \<open>Start-up\<close>

definition empty_log :: "u64 \<Rightarrow> WriteAheadLog" where
  "empty_log threshold =
     \<lparr>current_event_sequence = 1, current_file_sequence = 1,
      file_state = \<lparr>state_file = wal_file_path 1, state_size = 0,
                    state_min_sequence = 0, state_max_sequence = 0\<rparr>,
      rotation_threshold = threshold\<rparr>"

lemma max_last_entries:
  "sorted_wrt (<) (map entry_sequence (concat ess)) \<Longrightarrow>
     fold (\<lambda>es m. max m (if es = [] then 0 else entry_sequence (last es))) ess m0 =
       max m0 (if concat ess = [] then 0 else entry_sequence (last (concat ess)))"
proof (induction ess arbitrary: m0)
  case Nil
  then show ?case by (simp add: max_def)
next
  case (Cons es ess)
  let ?last = "\<lambda>xs. if xs = [] then 0 else entry_sequence (last xs)"
  have srt: "sorted_wrt (<) (map entry_sequence (concat ess))"
    using Cons.prems by (simp add: sorted_wrt_append)
  have cross: "\<forall>x \<in> set es. \<forall>y \<in> set (concat ess). entry_sequence x < entry_sequence y"
    using Cons.prems by (simp add: sorted_wrt_append del: set_concat)
  have le: "?last es \<le> ?last (concat ess)" if "concat ess \<noteq> []"
    using cross that last_in_set [of es] last_in_set [of "concat ess"]
    by (auto simp del: set_concat concat_eq_Nil_conv intro: less_imp_le)
  have "max (max m0 (?last es)) (?last (concat ess)) = max m0 (?last (concat (es # ess)))"
  proof (cases "concat ess = []")
    case True
    then have "concat (es # ess) = es" by simp
    with True show ?thesis by (auto simp: max_def simp del: concat_eq_Nil_conv)
  next
    case False
    then have "?last (concat (es # ess)) = ?last (concat ess)" by auto
    with le [OF False] show ?thesis by (simp only: max.assoc max_absorb2)
  qed
  with Cons.IH [OF srt, of "max m0 (?last es)"] show ?case by simp
qed

lemma scan_files_highest:
  "\<forall>f \<in> set files. snd f \<in> files_in dir \<Longrightarrow>
     fst (scan_files cd no_faults dir mf files acc) =
       fold (\<lambda>es m. max m (if es = [] then 0 else entry_sequence (last es)))
         (map (\<lambda>(_, p). file_entries cd dir p) files) (fst acc)"
proof (induction files arbitrary: acc)
  case Nil
  then show ?case by simp
next
  case (Cons f files)
  obtain sq p where f: "f = (sq, p)" by force
  obtain h c where acc: "acc = (h, c)" by force
  from Cons f acc show ?case
    by (simp add: scan_file_metadata_no_faults extend_metadata_max WalFileMetadata_default_def)
qed

lemma fold_max_value:
  fixes K :: u64
  assumes "\<forall>x \<in> set xs. f x \<le> K" "m0 \<le> K" "m0 = K \<or> (\<exists>x \<in> set xs. f x = K)"
  shows "fold (\<lambda>x m. max m (f x)) xs m0 = K"
  using assms
proof (induction xs arbitrary: m0)
  case Nil
  then show ?case by simp
next
  case (Cons x xs)
  then show ?case by (auto simp: max_def)
qed

lemma unat_ucast_u64: "unat (ucast x :: u64) = unat x" for x :: u32
  using unsigned_less [of x, where 'a = nat] by (simp add: unsigned_ucast_eq take_bit_eq_mod)

lemma max_file_active:
  assumes "active_ok w dir"
  shows "fold (\<lambda>(sq, _) m. max m (ucast sq :: u64)) (wal_names (map fst dir)) 0 = current_file_sequence w"
proof -
  let ?c = "current_file_sequence w"
  have c: "unat (ucast ?c :: u32) = unat ?c"
    using assms by (intro unat_ucast_u32) (simp add: active_ok_def)
  have le: "(ucast sq :: u64) \<le> ?c" if "(sq, n) \<in> set (wal_names (map fst dir))" for sq n
  proof -
    have "sq \<le> ucast ?c" using assms that by (auto simp: active_ok_def in_wal_names simp del: set_map)
    then show ?thesis using c by (simp add: word_le_nat_alt unat_ucast_u64)
  qed
  have "(ucast ?c, state_file (file_state w)) \<in> set (wal_names (map fst dir))"
    using assms unfolding active_ok_def in_wal_names by (metis parse_wal_file_path set_keys)
  moreover have "(ucast (ucast ?c :: u32) :: u64) = ?c"
    using c by (simp add: word_unat_eq_iff unat_ucast_u64)
  ultimately have "fold (\<lambda>x m. max m (ucast (fst x))) (wal_names (map fst dir)) 0 = ?c"
    using le by (intro fold_max_value) force+
  then show ?thesis by (simp add: case_prod_beta')
qed

lemma scan_wal_state_inv:
  assumes "wal_inv cd w dir"
  obtains current where "scan_wal_state cd no_faults dir =
    (current_file_sequence w,
     if log_entries cd dir = [] then 0 else entry_sequence (last (log_entries cd dir)), current)"
proof -
  let ?files = "wal_files dir"
  have act: "active_ok w dir" and srt: "sorted_wrt (<) (map entry_sequence (log_entries cd dir))"
    using assms by (simp_all add: wal_inv_def log_ok_def)
  obtain h c where sc: "scan_files cd no_faults dir (current_file_sequence w) ?files (0, None) = (h, c)"
    by force
  have mem: "\<forall>f \<in> set ?files. snd f \<in> files_in dir"
    by (auto simp: in_wal_files)
  have "h = fold (\<lambda>es m. max m (if es = [] then 0 else entry_sequence (last es)))
      (map (\<lambda>(_, p). file_entries cd dir p) ?files) 0"
    using scan_files_highest [OF mem, of cd "current_file_sequence w" "(0, None)"] sc by simp
  also have "\<dots> = (if log_entries cd dir = [] then 0 else entry_sequence (last (log_entries cd dir)))"
    using max_last_entries [of "map (\<lambda>(_, p). file_entries cd dir p) ?files" 0] srt
    by (simp add: log_entries_def)
  finally have "h = (if log_entries cd dir = [] then 0 else entry_sequence (last (log_entries cd dir)))" .
  moreover have "scan_wal_state cd no_faults dir = (current_file_sequence w, h, c)"
    using sc act max_file_active [OF act]
    by (simp add: scan_wal_state_def scan_listing_def Let_def wal_files_def active_ok_def)
  ultimately show thesis using that by simp
qed

lemma reopen_ok:
  assumes "wal_inv cd w dir"
  shows "\<exists>w' es. with_rotation_threshold cd no_faults threshold dir = (Ok w', dir)
     \<and> wal_inv cd w' dir \<and> current_file_sequence w' = current_file_sequence w
     \<and> replay_entries cd no_faults dir = Ok es
     \<and> current_event_sequence w' = (if es = [] then 1 else entry_sequence (last es) + 1)
     \<and> (\<forall>e \<in> set es. entry_sequence e < current_event_sequence w')"
proof -
  let ?es = "log_entries cd dir"
  let ?h = "if ?es = [] then 0 else entry_sequence (last ?es)"
  let ?p = "wal_file_path (ucast (current_file_sequence w))"
  have act: "active_ok w dir" and log: "log_ok cd (current_event_sequence w) dir"
    using assms by (simp_all add: wal_inv_def)
  obtain cur where scan: "scan_wal_state cd no_faults dir = (current_file_sequence w, ?h, cur)"
    using scan_wal_state_inv [OF assms] by blast
  have p: "?p \<in> files_in dir" "state_file (file_state w) = ?p"
    using act unfolding active_ok_def by metis+
  then have open_same: "open_append ?p dir = dir"
    by (auto simp: open_append_def hm_get_dom)
  have lt: "unat ?h + 1 < 2 ^ 64"
  proof (cases "?es = []")
    case False
    then have "entry_sequence (last ?es) < current_event_sequence w"
      using log by (simp add: log_ok_def)
    with False show ?thesis
      using unsigned_less [of "current_event_sequence w", where 'a = nat]
      by (simp add: word_less_nat_alt)
  qed simp
  have next_seq: "unat (sat_add ?h 1) = unat ?h + 1"
    using lt by (simp add: unat_sat_add)
  define w' where "w' = fst (case with_rotation_threshold cd no_faults threshold dir of
      (Ok v, d) \<Rightarrow> (v, d) | (Err _, d) \<Rightarrow> (w, d))"
  have wrt: "with_rotation_threshold cd no_faults threshold dir = (Ok w', dir)"
    and w': "current_file_sequence w' = current_file_sequence w"
      "current_event_sequence w' = sat_add ?h 1" "state_file (file_state w') = ?p"
    by (auto simp: w'_def with_rotation_threshold_def scan Let_def open_same
        restrict_permissions_def split: option.splits)
  have last_max: "entry_sequence e \<le> ?h" if "e \<in> set ?es" for e
  proof -
    have "?es \<noteq> []" using that by auto
    then obtain pre z where es: "?es = pre @ [z]" by (metis append_butlast_last_id)
    then show ?thesis
      using log that by (auto simp: log_ok_def sorted_wrt_append intro: less_imp_le)
  qed
  have below: "entry_sequence e < sat_add ?h 1" if "e \<in> set ?es" for e
    using last_max [OF that] next_seq by (simp add: word_le_nat_alt word_less_nat_alt)
  have "wal_inv cd w' dir"
    using assms w' p below next_seq
    by (auto simp: wal_inv_def active_ok_def log_ok_def word_less_nat_alt)
  moreover have "sat_add ?h 1 = (if ?es = [] then 1 else entry_sequence (last ?es) + 1)"
    using sat_add_one [OF lt] by simp
  ultimately show ?thesis
    using wrt w' below by (auto simp: replay_entries_log)
qed

text \<open>
  Reopening a well-formed log after a restart succeeds without touching the
  directory, continues with the same file, and the next event gets the number after the last
  entry on disk, so no number on disk is used again.
\<close>

lemma restart_continues:
  assumes "wal_inv cd w dir"
  shows "\<exists>w' es. with_rotation_threshold cd no_faults threshold dir = (Ok w', dir)
     \<and> wal_inv cd w' dir \<and> current_file_sequence w' = current_file_sequence w
     \<and> replay_entries cd no_faults dir = Ok es
     \<and> current_event_sequence w' = (if es = [] then 1 else entry_sequence (last es) + 1)
     \<and> (\<forall>e \<in> set es. entry_sequence e < current_event_sequence w')"
  using assms by (rule reopen_ok)

section \<open>Clean-up of published files\<close>

text \<open>The files the clean-up removes: not the active one, and nothing unpublished at their end.\<close>

definition removable :: "'ev wal_codec \<Rightarrow> u64 \<Rightarrow> u64 \<Rightarrow> wal_dir \<Rightarrow> u32 \<times> string \<Rightarrow> bool" where
  "removable cd cur up_to dir f \<longleftrightarrow> ucast (fst f) \<noteq> cur
     \<and> (if file_entries cd dir (snd f) = [] then 0
        else entry_sequence (last (file_entries cd dir (snd f)))) \<le> up_to"

lemma hm_remove_filter: "hm_remove k dir = filter (\<lambda>(n, _). n \<noteq> k) dir"
  by (induction dir) (auto simp: hm_remove_def)

lemma files_in_remove: "files_in (hm_remove k dir) = files_in dir - {k}"
  by (auto simp: hm_remove_filter files_in_def)

lemma mark_loop_step:
  assumes "p = wal_file_path sq" "p \<in> files_in dir"
  shows "mark_loop cd no_faults cur up_to ((sq, p) # files) dir =
    mark_loop cd no_faults cur up_to files
      (if removable cd cur up_to dir (sq, p) then hm_remove p dir else dir)"
proof -
  obtain bs where bs: "hm_get dir p = Some bs"
    using assms(2) by (auto simp: hm_get_dom)
  have del: "delete_wal_file no_faults sq dir = (Ok (), hm_remove p dir)"
    using assms(1) bs by (simp add: delete_wal_file_def)
  show ?thesis
    using assms(2)
    by (auto simp: del scan_file_metadata_no_faults extend_metadata_max removable_def
        WalFileMetadata_default_def)
qed

lemma removable_remove:
  "snd f \<noteq> k \<Longrightarrow> removable cd cur up_to (hm_remove k dir) f = removable cd cur up_to dir f"
  by (simp add: removable_def file_entries_def)

lemma mark_loop_filter:
  "distinct (map snd files) \<Longrightarrow>
     \<forall>f \<in> set files. snd f = wal_file_path (fst f) \<and> snd f \<in> files_in dir \<Longrightarrow>
     mark_loop cd no_faults cur up_to files dir =
       (Ok (), filter (\<lambda>(n, _). n \<notin> snd ` {f \<in> set files. removable cd cur up_to dir f}) dir)"
proof (induction files arbitrary: dir)
  case Nil
  then show ?case by simp
next
  case (Cons f files)
  obtain sq p where f: "f = (sq, p)" by force
  have p: "p = wal_file_path sq" "p \<in> files_in dir" using Cons.prems f by auto
  let ?d = "if removable cd cur up_to dir (sq, p) then hm_remove p dir else dir"
  have dist: "distinct (map snd files)" using Cons.prems(1) by simp
  have other: "snd g \<noteq> p" if "g \<in> set files" for g
    using Cons.prems(1) f that by auto
  then have pre: "\<forall>g \<in> set files. snd g = wal_file_path (fst g) \<and> snd g \<in> files_in ?d"
    using Cons.prems(2) by (auto simp: files_in_remove)
  have rem: "removable cd cur up_to ?d g = removable cd cur up_to dir g" if "g \<in> set files" for g
    using other [OF that] by (simp add: removable_remove)
  let ?R = "snd ` {g \<in> set files. removable cd cur up_to dir g}"
  have R: "snd ` {g \<in> set files. removable cd cur up_to ?d g} = ?R"
    using rem by (intro image_cong) auto
  have R': "snd ` {g \<in> set (f # files). removable cd cur up_to dir g} =
      (if removable cd cur up_to dir (sq, p) then insert p ?R else ?R)"
    using f by (force simp: image_iff)
  have "mark_loop cd no_faults cur up_to (f # files) dir =
      (Ok (), filter (\<lambda>(n, _). n \<notin> snd ` {g \<in> set files. removable cd cur up_to ?d g}) ?d)"
    unfolding f mark_loop_step [OF p] by (rule Cons.IH [OF dist pre])
  also have "filter (\<lambda>(n, _). n \<notin> snd ` {g \<in> set files. removable cd cur up_to ?d g}) ?d =
      filter (\<lambda>(n, _). n \<notin> snd ` {g \<in> set (f # files). removable cd cur up_to dir g}) dir"
    unfolding R R' by (auto simp: hm_remove_filter intro!: filter_cong)
  finally show ?case .
qed

abbreviation without :: "string set \<Rightarrow> wal_dir \<Rightarrow> wal_dir" where
  "without D dir \<equiv> filter (\<lambda>(n, _). n \<notin> D) dir"

lemma hm_get_without: "hm_get (without D dir) p = (if p \<in> D then None else hm_get dir p)"
  by (induction dir) (auto simp: hm_get_def)

lemma files_in_without: "files_in (without D dir) = files_in dir - D"
  by (auto simp: hm_get_dom hm_get_without split: if_splits)

lemma wal_names_without:
  "wal_names (map fst (without D dir)) = filter (\<lambda>(_, n). n \<notin> D) (wal_names (map fst dir))"
  by (induction dir) (auto simp: wal_names_def map_filter_simps split: option.splits)

lemma wal_files_without: "wal_files (without D dir) = filter (\<lambda>(_, n). n \<notin> D) (wal_files dir)"
  by (simp only: wal_files_def wal_names_without filter_sort)

lemma log_entries_without:
  "log_entries cd (without D dir) =
     concat (map (\<lambda>(_, p). file_entries cd dir p) (filter (\<lambda>(_, n). n \<notin> D) (wal_files dir)))"
proof -
  have "map (\<lambda>(_, p). file_entries cd (without D dir) p) (filter (\<lambda>(_, n). n \<notin> D) fs) =
      map (\<lambda>(_, p). file_entries cd dir p) (filter (\<lambda>(_, n). n \<notin> D) fs)"
    for fs :: "(u32 \<times> string) list"
    by (induction fs) (auto simp: file_entries_def hm_get_without)
  then show ?thesis by (simp only: log_entries_def wal_files_without)
qed

lemma sorted_wrt_concat_filter:
  "sorted_wrt R (map f (concat (map g xs))) \<Longrightarrow> sorted_wrt R (map f (concat (map g (filter Q xs))))"
  by (induction xs) (auto simp: sorted_wrt_append)

lemma filter_concat_filter:
  "\<forall>x \<in> set xs. \<not> Q x \<longrightarrow> filter P (g x) = [] \<Longrightarrow>
     filter P (concat (map g (filter Q xs))) = filter P (concat (map g xs))"
  by (induction xs) auto

lemma sorted_wrt_concat_member:
  "sorted_wrt R (map f (concat (map g xs))) \<Longrightarrow> x \<in> set xs \<Longrightarrow> sorted_wrt R (map f (g x))"
  by (induction xs) (auto simp: sorted_wrt_append)

lemma sorted_wrt_last: "sorted_wrt (<) (map f xs) \<Longrightarrow> x \<in> set xs \<Longrightarrow> f x \<le> (f (last xs) :: u64)"
  by (induction xs rule: rev_induct) (auto simp: sorted_wrt_append intro: less_imp_le)

definition removed_names :: "'ev wal_codec \<Rightarrow> WriteAheadLog \<Rightarrow> u64 \<Rightarrow> wal_dir \<Rightarrow> string set" where
  "removed_names cd w up_to dir =
     snd ` {f \<in> set (wal_files dir). removable cd (current_file_sequence w) up_to dir f}"

lemma mark_published_eq:
  assumes "dir_ok dir"
  shows "mark_published cd no_faults up_to w dir = (Ok (), without (removed_names cd w up_to dir) dir)"
proof -
  have canon: "\<forall>f \<in> set (wal_files dir). snd f = wal_file_path (fst f) \<and> snd f \<in> files_in dir"
    using assms by (auto simp: dir_ok_def in_wal_files)
  have "map snd (wal_files dir) = map wal_file_path (map fst (wal_files dir))"
    using canon by simp
  then have "distinct (map snd (wal_files dir))"
    using distinct_wal_files [OF assms] by (simp add: distinct_map inj_on_def)
  then show ?thesis
    using mark_loop_filter [OF _ canon] by (simp add: mark_published_def removed_names_def)
qed

lemma active_not_removed:
  assumes "active_ok w dir"
  shows "state_file (file_state w) \<notin> removed_names cd w up_to dir"
proof
  let ?c = "current_file_sequence w"
  assume "state_file (file_state w) \<in> removed_names cd w up_to dir"
  then obtain sq where sq: "(sq, state_file (file_state w)) \<in> set (wal_files dir)" "ucast sq \<noteq> ?c"
    by (auto simp: removed_names_def removable_def)
  then have "sq = ucast ?c"
    using assms by (auto simp: in_wal_files active_ok_def parse_wal_file_path)
  moreover have "(ucast (ucast ?c :: u32) :: u64) = ?c"
    using assms unat_ucast_u32 [of ?c] by (simp add: active_ok_def word_unat_eq_iff unat_ucast_u64)
  ultimately show False using sq(2) by simp
qed

lemma mark_published_effect:
  assumes "wal_inv cd w dir"
  shows "\<exists>dir' es es'. mark_published cd no_faults up_to w dir = (Ok (), dir') \<and> wal_inv cd w dir'
     \<and> replay_entries cd no_faults dir = Ok es \<and> replay_entries cd no_faults dir' = Ok es'
     \<and> filter (\<lambda>e. up_to < entry_sequence e) es' = filter (\<lambda>e. up_to < entry_sequence e) es
     \<and> set es' \<subseteq> set es"
proof -
  let ?D = "removed_names cd w up_to dir" and ?P = "\<lambda>e. up_to < entry_sequence e"
  let ?g = "\<lambda>(_, p). file_entries cd dir p"
  have inv: "dir_ok dir" "active_ok w dir" "log_ok cd (current_event_sequence w) dir"
    using assms by (simp_all add: wal_inv_def)
  have srt: "sorted_wrt (<) (map entry_sequence (concat (map ?g (wal_files dir))))"
    using inv(3) by (simp add: log_ok_def log_entries_def)
  have gone: "filter ?P (?g f) = []" if f: "f \<in> set (wal_files dir)" "\<not> (case f of (_, n) \<Rightarrow> n \<notin> ?D)" for f
  proof -
    from f(2) have "snd f \<in> ?D" by (cases f) auto
    then obtain g where "snd f = snd g"
        "g \<in> {f \<in> set (wal_files dir). removable cd (current_file_sequence w) up_to dir f}"
      unfolding removed_names_def by (rule imageE)
    then have g: "snd g = snd f" "removable cd (current_file_sequence w) up_to dir g"
      by simp_all
    show ?thesis
      using sorted_wrt_last [OF sorted_wrt_concat_member [OF srt f(1)]] g
      by (cases f) (auto simp: filter_empty_conv removable_def not_less split: if_splits
          intro: order_trans)
  qed
  have log': "log_entries cd (without ?D dir) =
      concat (map ?g (filter (\<lambda>(_, n). n \<notin> ?D) (wal_files dir)))"
    by (rule log_entries_without)
  have filt: "filter ?P (log_entries cd (without ?D dir)) = filter ?P (log_entries cd dir)"
    unfolding log' unfolding log_entries_def using gone by (intro filter_concat_filter) blast
  have sub: "set (log_entries cd (without ?D dir)) \<subseteq> set (log_entries cd dir)"
    unfolding log' unfolding log_entries_def by auto
  have "dir_ok (without ?D dir)"
    using inv(1) by (auto simp: dir_ok_def files_in_without hm_get_without hm_wf_def
        distinct_map_filter split: if_splits)
  moreover have "active_ok w (without ?D dir)"
    using inv(2) active_not_removed [OF inv(2), of cd up_to]
    by (auto simp: active_ok_def files_in_without)
  moreover have "log_ok cd (current_event_sequence w) (without ?D dir)"
    using inv(3) sub sorted_wrt_concat_filter [OF srt, of "\<lambda>(_, n). n \<notin> ?D"]
    by (auto simp: log_ok_def log')
  ultimately have "wal_inv cd w (without ?D dir)"
    using assms by (simp add: wal_inv_def)
  with filt sub mark_published_eq [OF inv(1), of cd up_to w] show ?thesis
    by (auto simp: replay_entries_log)
qed

text \<open>
  Claim C2: on a well-formed log, \<open>mark_published\<close> succeeds and keeps the log well-formed; it
  never removes the active file, every entry above the published number is still replayed, in
  the same order, and nothing is replayed that was not there before.
\<close>

theorem mark_published_keeps_unpublished:
  assumes "wal_inv cd w dir"
  shows "\<exists>dir' es es'. mark_published cd no_faults up_to w dir = (Ok (), dir') \<and> wal_inv cd w dir'
     \<and> replay_entries cd no_faults dir = Ok es \<and> replay_entries cd no_faults dir' = Ok es'
     \<and> filter (\<lambda>e. up_to < entry_sequence e) es' = filter (\<lambda>e. up_to < entry_sequence e) es
     \<and> set es' \<subseteq> set es"
  using assms by (rule mark_published_effect)

section \<open>What a publisher relies on\<close>

text \<open>
  The log keeps its entries in ascending order, and forgetting up to a number loses no entry
  above it.
\<close>

locale durable_log =
  fixes inv :: "'s \<Rightarrow> bool" and entries :: "'s \<Rightarrow> 'e list" and num :: "'e \<Rightarrow> u64"
    and forget :: "u64 \<Rightarrow> 's \<Rightarrow> 's"
  assumes forget_inv: "inv s \<Longrightarrow> inv (forget n s)"
    and forget_sub: "inv s \<Longrightarrow> set (entries (forget n s)) \<subseteq> set (entries s)"
    and forget_above: "inv s \<Longrightarrow> e \<in> set (entries s) \<Longrightarrow> n < num e \<Longrightarrow> e \<in> set (entries (forget n s))"
    and ascending: "inv s \<Longrightarrow> sorted_wrt (<) (map num (entries s))"
begin

lemma forget_safe:
  assumes "inv s" "\<forall>e \<in> set (entries s). num e \<le> n \<longrightarrow> D e" "e \<in> set (entries s)"
  shows "e \<in> set (entries (forget n s)) \<or> D e"
  using assms forget_above [OF assms(1,3), of n] by (meson not_le)

lemma prefix_below:
  assumes "inv s" "entries s = ys @ zs" "ys \<noteq> []" "e \<in> set (entries s)" "num e \<le> num (last ys)"
  shows "e \<in> set ys"
proof (rule ccontr)
  assume "e \<notin> set ys"
  then have "e \<in> set zs" using assms(2,4) by auto
  then have "num (last ys) < num e"
    using ascending [OF assms(1)] assms(2,3) by (auto simp: sorted_wrt_append)
  with assms(5) show False by simp
qed

end

interpretation wal_store: durable_log
  "\<lambda>(w, dir). wal_inv cd w dir" "\<lambda>(w, dir). log_entries cd dir" entry_sequence
  "\<lambda>n (w, dir). (w, snd (mark_published cd no_faults n w dir))" for cd
proof unfold_locales
  fix s :: "WriteAheadLog \<times> wal_dir" and n :: u64 and e :: "'a WalEntry"
  obtain w dir where s: "s = (w, dir)" by force
  assume "case s of (w, dir) \<Rightarrow> wal_inv cd w dir"
  then have inv: "wal_inv cd w dir" by (simp add: s)
  obtain dir' where m: "mark_published cd no_faults n w dir = (Ok (), dir')" "wal_inv cd w dir'"
    "filter (\<lambda>e. n < entry_sequence e) (log_entries cd dir') = filter (\<lambda>e. n < entry_sequence e) (log_entries cd dir)"
    "set (log_entries cd dir') \<subseteq> set (log_entries cd dir)"
    using mark_published_effect [OF inv, of n] by (auto simp: replay_entries_log)
  show "case (case s of (w, dir) \<Rightarrow> (w, snd (mark_published cd no_faults n w dir))) of (w, dir) \<Rightarrow> wal_inv cd w dir"
    "set (case (case s of (w, dir) \<Rightarrow> (w, snd (mark_published cd no_faults n w dir))) of (w, dir) \<Rightarrow> log_entries cd dir)
      \<subseteq> set (case s of (w, dir) \<Rightarrow> log_entries cd dir)"
    using m by (simp_all add: s)
  show "sorted_wrt (<) (map entry_sequence (case s of (w, dir) \<Rightarrow> log_entries cd dir))"
    using inv by (simp add: s wal_inv_def log_ok_def)
  assume "e \<in> set (case s of (w, dir) \<Rightarrow> log_entries cd dir)" "n < entry_sequence e"
  then have "e \<in> set (filter (\<lambda>e. n < entry_sequence e) (log_entries cd dir))" by (simp add: s)
  then show "e \<in> set (case (case s of (w, dir) \<Rightarrow> (w, snd (mark_published cd no_faults n w dir))) of (w, dir) \<Rightarrow> log_entries cd dir)"
    using m(1) unfolding m(3) [symmetric] by (simp add: s)
qed

section \<open>A concrete codec\<close>

text \<open>
  An instance of the codec parameter for one-byte events: the sequence number, the event, the
  checksum and the optional type, one after the other.
\<close>

definition demo_encode :: "u8 WalEntry \<Rightarrow> bytes" where
  "demo_encode e =
     to_le_bytes (ucast (entry_sequence e)) @ to_le_bytes (ucast (drop_bit 32 (entry_sequence e)))
     @ to_le_bytes (entry_checksum e) @ [entry_event e]
     @ (case entry_event_type e of None \<Rightarrow> [] | Some ty \<Rightarrow> 1 # map (\<lambda>c. word_of_nat (of_char c)) ty)"

definition demo_decode :: "bytes \<Rightarrow> u8 WalEntry option" where
  "demo_decode bs =
     (if length bs < 13 then None
      else Some \<lparr>entry_sequence = or (ucast (from_le_bytes (take 4 bs)))
                   (push_bit 32 (ucast (from_le_bytes (take 4 (drop 4 bs))))),
                 entry_event = bs ! 12,
                 entry_checksum = from_le_bytes (take 4 (drop 8 bs)),
                 entry_event_type = (case drop 13 bs of
                    [] \<Rightarrow> None | _ # ty \<Rightarrow> Some (map (\<lambda>b. char_of (unat b)) ty))\<rparr>)"

definition demo_codec :: "u8 wal_codec" where
  "demo_codec =
     \<lparr>event_to_vec = (\<lambda>ev. Some [ev]), entry_to_vec = (\<lambda>e. Some (demo_encode e)),
      entry_from_bytes = demo_decode,
      crc32c_append = (\<lambda>crc bs. fold (\<lambda>b c. c + ucast b) bs crc)\<rparr>"

lemma join_halves:
  "or (ucast (ucast x :: u32)) (push_bit 32 (ucast (ucast (drop_bit 32 x) :: u32))) = x" for x :: u64
proof (rule bit_word_eqI)
  fix n
  assume "n < LENGTH(64)"
  then show "bit (or (ucast (ucast x :: u32))
      (push_bit 32 (ucast (ucast (drop_bit 32 x) :: u32))) :: u64) n = bit x n"
    by (cases "n < 32") (auto simp: bit_simps)
qed

lemma char_byte [simp]: "char_of (unat (word_of_nat (of_char c) :: u8)) = c"
  by (simp add: unat_of_nat)

lemma demo_roundtrip: "demo_decode (demo_encode e) = Some e"
proof -
  have "length (demo_encode e) \<ge> 13"
    by (simp add: demo_encode_def)
  moreover have "take 4 (demo_encode e) = to_le_bytes (ucast (entry_sequence e))"
    "take 4 (drop 4 (demo_encode e)) = to_le_bytes (ucast (drop_bit 32 (entry_sequence e)))"
    "take 4 (drop 8 (demo_encode e)) = to_le_bytes (entry_checksum e)"
    "demo_encode e ! 12 = entry_event e"
    "drop 13 (demo_encode e) = (case entry_event_type e of None \<Rightarrow> []
       | Some ty \<Rightarrow> 1 # map (\<lambda>c. word_of_nat (of_char c)) ty)"
    by (simp_all add: demo_encode_def nth_append)
  ultimately show ?thesis
    by (cases e) (auto simp: demo_decode_def join_halves comp_def split: option.splits)
qed

lemma postcard_demo: "postcard_reads (\<lambda>_. True) demo_codec"
  by (simp add: postcard_reads_def demo_codec_def demo_roundtrip)

lemma event_fits_demo: "event_fits demo_codec ev"
  by (simp add: event_fits_def writable_def demo_codec_def frame_valid_def demo_encode_def
      WalEntry_new_def)

lemma with_rotation_threshold_empty:
  "with_rotation_threshold cd no_faults threshold [] =
     (Ok (empty_log threshold), [(wal_file_path 1, [])])"
proof -
  have scan: "scan_wal_state cd no_faults [] = (1, 0, None)"
    by (simp add: scan_wal_state_def scan_listing_def wal_names_def map_filter_simps Let_def)
  have one: "(ucast (1 :: u64) :: u32) = 1"
    by simp
  show ?thesis
    by (simp add: with_rotation_threshold_def scan Let_def open_append_def restrict_permissions_def
        file_len_def hm_insert_def hm_get_def empty_log_def sat_add_def)
qed

lemma log_entries_empty: "log_entries cd [(wal_file_path 1, [])] = []"
  using log_entries_new_file [of 1 "[]" cd]
  by (simp add: files_in_def wal_files_def wal_names_def map_filter_simps hm_insert_def
      log_entries_def)

lemma wal_inv_empty: "wal_inv cd (empty_log threshold) [(wal_file_path 1, [])]"
proof -
  let ?dir = "[(wal_file_path 1, [])] :: wal_dir"
  have names: "files_in ?dir = {wal_file_path 1}"
    by (simp add: files_in_def)
  have "log_entries cd ?dir = []"
    by (rule log_entries_empty)
  moreover have "(ucast (1 :: u64) :: u32) = 1"
    by simp
  moreover have "dir_ok ?dir"
    by (auto simp: dir_ok_def names hm_wf_def hm_get_def parse_wal_file_path split: if_splits)
  ultimately show ?thesis
    by (auto simp: wal_inv_def names active_ok_def log_ok_def empty_log_def parse_wal_file_path)
qed

lemma has_room_empty: "n < 2 ^ 31 \<Longrightarrow> has_room n (empty_log threshold)"
  by (simp add: has_room_def empty_log_def)

lemma first_sequence [simp]: "current_event_sequence (empty_log threshold) = 1"
  by (simp add: empty_log_def)

lemma wal_write_appends_example:
  "\<exists>w' dir'. wal_write demo_codec no_faults 7 (empty_log 1) [(wal_file_path 1, [])] = (Ok 1, w', dir')
     \<and> replay_entries demo_codec no_faults dir' = Ok [WalEntry_new demo_codec 1 7]"
proof -
  have room: "has_room 1 (empty_log 1)" by (rule has_room_empty) simp
  have wr: "writable demo_codec (WalEntry_new demo_codec (current_event_sequence (empty_log 1)) 7)"
    using event_fits_demo by (simp add: event_fits_def)
  from wal_write_appends [OF postcard_demo wal_inv_empty room wr] show ?thesis
    by (auto simp: replay_entries_log log_entries_empty)
qed

text \<open>A run on an empty log with the demonstration codec.\<close>

lemma demo_run:
  assumes "fold (wal_step demo_codec) evs (empty_log th, [(wal_file_path 1, [])]) = (w, dir)"
    and "length evs < 2 ^ 31"
  shows "wal_inv demo_codec w dir" "log_entries demo_codec dir = numbered demo_codec 1 evs"
proof -
  have room: "has_room (length evs) (empty_log th)" by (rule has_room_empty [OF assms(2)])
  have fits: "\<forall>ev \<in> set evs. event_fits demo_codec ev" by (simp add: event_fits_demo)
  show "wal_inv demo_codec w dir"
    using wal_log.run_log [of "\<lambda>_. True" demo_codec "(empty_log th, [(wal_file_path 1, [])])" evs] assms room fits
    by (simp add: postcard_demo wal_inv_empty)
  show "log_entries demo_codec dir = numbered demo_codec 1 evs"
    using run_entries [OF postcard_demo wal_inv_empty room fits assms(1)]
    by (simp add: log_entries_empty)
qed

text \<open>
  An instance for process events that differ from a given one in their number and their metadata: the
  layout of the demonstration codec with the number in one byte, and nothing readable for an event with
  metadata.
\<close>

definition map_entry :: "('a \<Rightarrow> 'b) \<Rightarrow> 'a WalEntry \<Rightarrow> 'b WalEntry" where
  "map_entry f e = \<lparr>entry_sequence = entry_sequence e, entry_event = f (entry_event e),
     entry_checksum = entry_checksum e, entry_event_type = entry_event_type e\<rparr>"

definition event_of_byte :: "unit ProcessEvent \<Rightarrow> u8 \<Rightarrow> unit ProcessEvent" where
  "event_of_byte base b = base\<lparr>pid := ucast b\<rparr>"

definition event_codec_of :: "unit ProcessEvent \<Rightarrow> unit ProcessEvent wal_codec" where
  "event_codec_of base =
     \<lparr>event_to_vec = (\<lambda>ev. Some [ucast (pid ev)]),
      entry_to_vec = (\<lambda>e. let ev = entry_event e; b = ucast (pid ev) :: u8 in
        if ev \<noteq> (event_of_byte base b)\<lparr>platform_metadata := platform_metadata ev\<rparr> then None
        else if metadata_free ev then Some (demo_encode (map_entry (\<lambda>_. b) e)) else Some []),
      entry_from_bytes = (\<lambda>bs. map_option (map_entry (event_of_byte base)) (demo_decode bs)),
      crc32c_append = crc32c_append demo_codec\<rparr>"

lemma postcard_ok_event_of:
  assumes "metadata_free base"
  shows "postcard_ok (event_codec_of base)"
proof -
  have "event_of_byte base b = ev"
    if "ev = (event_of_byte base b)\<lparr>platform_metadata := platform_metadata ev\<rparr>" "metadata_free ev" for ev b
    using that assms by (cases base) (simp add: metadata_free_def event_of_byte_def)
  then have "map_entry (event_of_byte base) (map_entry (\<lambda>_. b) e) = e"
    if "entry_event e = (event_of_byte base b)\<lparr>platform_metadata := platform_metadata (entry_event e)\<rparr>"
      "metadata_free (entry_event e)" for e b
    using that by (simp add: map_entry_def)
  moreover have "demo_decode [] = None"
    by (simp add: demo_decode_def)
  ultimately show ?thesis
    by (simp add: postcard_ok_def postcard_reads_def event_codec_of_def demo_roundtrip Let_def)
qed

lemma byte_of_pid [simp]: "(ucast (ucast b :: u32) :: u8) = b" for b :: u8
  by (rule bit_word_eqI) (simp add: bit_simps)

definition pid_event :: "u8 \<Rightarrow> unit ProcessEvent" where
  "pid_event b = event_of_byte (app_event []) b"

lemma metadata_free_update [simp]: "metadata_free (ev\<lparr>platform_metadata := m\<rparr>) \<longleftrightarrow> m = None"
  by (simp add: metadata_free_def)

lemma metadata_free_app [simp]: "metadata_free (app_event args)"
  by (simp add: metadata_free_def app_event_def)

lemma metadata_free_pid [simp]: "metadata_free (pid_event b)"
  by (simp add: metadata_free_def pid_event_def event_of_byte_def app_event_def)

lemma event_fits_pid:
  "event_fits (event_codec_of (app_event [])) ((pid_event b)\<lparr>platform_metadata := m\<rparr>)"
  by (auto simp: event_fits_def writable_def event_codec_of_def pid_event_def event_of_byte_def WalEntry_new_def
      frame_valid_def demo_encode_def map_entry_def metadata_free_def app_event_def Let_def)

theorem replay_after_writes_witness:
  "\<exists>w' dir'. fold (wal_step (event_codec_of (app_event [])))
       [pid_event 10, (pid_event 20)\<lparr>platform_metadata := Some ()\<rparr>, pid_event 30]
       (empty_log 1, [(wal_file_path 1, [])]) = (w', dir')
     \<and> wal_replay (event_codec_of (app_event [])) no_faults dir' = Ok [pid_event 10, pid_event 30]
     \<and> wal_replay (event_codec_of (app_event [])) no_faults
         (append_bytes (state_file (file_state w')) [3, 0] dir') = Ok [pid_event 10, pid_event 30]"
proof -
  let ?cd = "event_codec_of (app_event [])" and ?s = "(empty_log 1, [(wal_file_path 1, [])])"
  let ?evs = "[pid_event 10, (pid_event 20)\<lparr>platform_metadata := Some ()\<rparr>, pid_event 30]"
  obtain w' dir' where run: "fold (wal_step ?cd) ?evs ?s = (w', dir')" by force
  have room: "has_room (length ?evs) (empty_log 1)" by (rule has_room_empty) simp
  have same: "(pid_event b)\<lparr>platform_metadata := None\<rparr> = pid_event b" for b
    by (simp add: pid_event_def event_of_byte_def app_event_def)
  have fits: "\<forall>ev \<in> set ?evs. event_fits ?cd ev"
    using event_fits_pid [where m = None] event_fits_pid [where m = "Some ()"] by (simp add: same)
  have seen: "filter metadata_free ?evs = [pid_event 10, pid_event 30]"
    by simp
  have torn: "frame_valid [1, 2, 3]" "strict_prefix [3, 0] (frame [1, 2, 3])"
    by (simp add: frame_valid_def, code_simp)
  have "wal_replay ?cd no_faults [(wal_file_path 1, [])] = Ok []"
    by (simp add: wal_replay_log log_entries_empty)
  with replay_after_writes [OF postcard_ok_event_of wal_inv_empty room fits run] torn run show ?thesis
    by (auto simp: seen)
qed

lemma restart_continues_example:
  "\<exists>w dir w'. fold (wal_step demo_codec) [10, 20, 30] (empty_log 20, [(wal_file_path 1, [])]) = (w, dir)
     \<and> with_rotation_threshold demo_codec no_faults 20 dir = (Ok w', dir)
     \<and> wal_inv demo_codec w' dir \<and> current_event_sequence w' = 4"
proof -
  obtain w dir where run:
      "fold (wal_step demo_codec) [10, 20, 30] (empty_log 20, [(wal_file_path 1, [])]) = (w, dir)"
    by force
  have inv: "wal_inv demo_codec w dir" by (rule demo_run(1) [OF run]) simp
  have log: "log_entries demo_codec dir = numbered demo_codec 1 [10, 20, 30]"
    by (rule demo_run(2) [OF run]) simp
  obtain w' where "with_rotation_threshold demo_codec no_faults 20 dir = (Ok w', dir)"
    "wal_inv demo_codec w' dir" "current_event_sequence w' = 4"
    using restart_continues [OF inv, of 20] by (auto simp: replay_entries_log log WalEntry_new_def)
  with run show ?thesis by blast
qed

theorem mark_published_keeps_unpublished_witness:
  "\<exists>w dir dir' es'. fold (wal_step demo_codec) [10, 20, 30] (empty_log 20, [(wal_file_path 1, [])]) = (w, dir)
     \<and> mark_published demo_codec no_faults 2 w dir = (Ok (), dir') \<and> wal_inv demo_codec w dir'
     \<and> replay_entries demo_codec no_faults dir' = Ok es'
     \<and> map entry_event (filter (\<lambda>e. 2 < entry_sequence e) es') = [30]"
proof -
  obtain w dir where run:
      "fold (wal_step demo_codec) [10, 20, 30] (empty_log 20, [(wal_file_path 1, [])]) = (w, dir)"
    by force
  have inv: "wal_inv demo_codec w dir" by (rule demo_run(1) [OF run]) simp
  have log: "log_entries demo_codec dir = numbered demo_codec 1 [10, 20, 30]"
    by (rule demo_run(2) [OF run]) simp
  obtain dir' es' where "mark_published demo_codec no_faults 2 w dir = (Ok (), dir')"
    "wal_inv demo_codec w dir'" "replay_entries demo_codec no_faults dir' = Ok es'"
    "map entry_event (filter (\<lambda>e. 2 < entry_sequence e) es') = [30]"
    using mark_published_keeps_unpublished [OF inv, of 2]
    by (auto simp: replay_entries_log log WalEntry_new_def)
  with run show ?thesis by - (intro exI conjI; assumption)
qed

section \<open>Damaged files\<close>

text \<open>
  A file that holds complete records followed by a torn one is replayed up to the
  tear: every record that deserializes and passes its checksum is recovered, in order, damaged
  records in between are skipped, and no error is reported.
\<close>

lemma replay_file_recovers:
  assumes "hm_get dir path = Some (concat (map frame sers) @ torn)"
    and "\<forall>ser \<in> set sers. frame_valid ser"
    and "frame_valid lost" "strict_prefix torn (frame lost)"
  shows "replay_file_entries cd no_faults dir path =
     Ok (List.map_filter (deserialize_and_verify_entry cd) sers)"
  using assms entries_of_frames [OF assms(2), of cd torn] entries_of_torn [OF assms(3,4), of cd]
  by (simp add: replay_file_entries_def replay_loop_entries)

lemma replay_file_recovers_example:
  "replay_file_entries demo_codec no_faults
     [(''f'', concat (map frame [demo_encode (WalEntry_new demo_codec 1 7), [9, 9],
                                 demo_encode (WalEntry_new demo_codec 2 8)]) @ [5, 0])] ''f'' =
   Ok [WalEntry_new demo_codec 1 7, WalEntry_new demo_codec 2 8]"
proof -
  let ?sers = "[demo_encode (WalEntry_new demo_codec 1 7), [9, 9],
    demo_encode (WalEntry_new demo_codec 2 8)]"
  let ?dir = "[(''f'', concat (map frame ?sers) @ [5, 0])]"
  have get: "hm_get ?dir ''f'' = Some (concat (map frame ?sers) @ [5, 0])"
    by (simp add: hm_get_def)
  have valid: "\<forall>ser \<in> set ?sers. frame_valid ser"
    by (simp add: frame_valid_def demo_encode_def WalEntry_new_def)
  have lost: "frame_valid [1, 2, 3, 4, 5 :: u8]"
    by (simp add: frame_valid_def)
  have torn: "strict_prefix [5, 0] (frame [1, 2, 3, 4, 5])"
    by code_simp
  have "deserialize_and_verify_entry demo_codec (demo_encode (WalEntry_new demo_codec sq ev)) =
      Some (WalEntry_new demo_codec sq ev)" for sq ev
    using verify_new [of demo_codec sq ev] postcard_demo
    by (simp add: deserialize_and_verify_entry_def postcard_reads_def demo_codec_def)
  moreover have "deserialize_and_verify_entry demo_codec [9, 9] = None"
    by (simp add: deserialize_and_verify_entry_def demo_codec_def demo_decode_def)
  ultimately have "List.map_filter (deserialize_and_verify_entry demo_codec) ?sers =
      [WalEntry_new demo_codec 1 7, WalEntry_new demo_codec 2 8]"
    by (simp add: map_filter_simps)
  with replay_file_recovers [OF get valid lost torn, of demo_codec] show ?thesis
    by simp
qed

end
