(* ===== verification/Wal_Concurrency.thy ===== *)
theory Wal_Concurrency
  imports Wal_Safety
begin

text \<open>
  Concurrent use of the write-ahead log. A call of \<open>write\<close> takes its sequence number from an
  atomic counter before it waits for the file lock, so several calls may hold numbers while one
  of them writes. Any interleaving of the two halves keeps every acknowledged entry without metadata. The rest of
  the theory shows where the guarantees of the log end: numbers written out of order, a
  rotation that fails, a restart after a torn write, and a restart after everything was published.
\<close>

section \<open>Interleaved writers\<close>

datatype 'ev wal_action = Begin 'ev | Commit "'ev WalEntry"

record 'ev wal_state =
  the_log :: WriteAheadLog
  the_dir :: wal_dir
  pending :: "'ev WalEntry list"

inductive wal_conc ::
    "'ev wal_codec \<Rightarrow> 'ev wal_state \<Rightarrow> 'ev wal_action \<Rightarrow> 'ev wal_state \<Rightarrow> bool" for cd where
  take_number: "take_sequence (the_log s) = (sq, w') \<Longrightarrow>
     wal_conc cd s (Begin ev) (s\<lparr>the_log := w', pending := pending s @ [WalEntry_new cd sq ev]\<rparr>)"
| append_entry: "e \<in> set (pending s) \<Longrightarrow>
     write_entry cd no_faults e (the_log s) (the_dir s) = (Ok sq, w', dir') \<Longrightarrow>
     wal_conc cd s (Commit e) (s\<lparr>the_log := w', the_dir := dir', pending := remove1 e (pending s)\<rparr>)"

inductive_cases BeginE: "wal_conc cd s (Begin ev) s'"
inductive_cases CommitE: "wal_conc cd s (Commit e) s'"

inductive wal_run ::
    "'ev wal_codec \<Rightarrow> 'ev wal_state \<Rightarrow> 'ev wal_action list \<Rightarrow> 'ev wal_state \<Rightarrow> bool" for cd where
  run_Nil: "wal_run cd s [] s"
| run_snoc: "wal_run cd s as s' \<Longrightarrow> wal_conc cd s' a s'' \<Longrightarrow> wal_run cd s (as @ [a]) s''"

definition commits :: "'ev wal_action list \<Rightarrow> 'ev WalEntry list" where
  "commits as = List.map_filter (\<lambda>a. case a of Begin _ \<Rightarrow> None | Commit e \<Rightarrow> Some e) as"

definition begins :: "'ev wal_action list \<Rightarrow> 'ev list" where
  "begins as = List.map_filter (\<lambda>a. case a of Begin ev \<Rightarrow> Some ev | Commit _ \<Rightarrow> None) as"

lemma commits_simps [simp]:
  "commits [] = []" "commits (as @ [Begin ev]) = commits as"
  "commits (as @ [Commit e]) = commits as @ [e]"
  by (simp_all add: commits_def map_filter_def)

lemma begins_simps [simp]:
  "begins [] = []" "begins (as @ [Begin ev]) = begins as @ [ev]"
  "begins (as @ [Commit e]) = begins as"
  by (simp_all add: begins_def map_filter_def)

definition conc_ready :: "'ev wal_codec \<Rightarrow> nat \<Rightarrow> 'ev wal_state \<Rightarrow> bool" where
  "conc_ready cd n s \<longleftrightarrow> dir_ok (the_dir s) \<and> active_ok (the_log s) (the_dir s)
     \<and> unat (current_file_sequence (the_log s)) + n < 2 ^ 32"

lemma numbered_snoc: "numbered cd sq (evs @ [ev]) =
    numbered cd sq evs @ [WalEntry_new cd (sq + word_of_nat (length evs)) ev]"
  by (induction evs arbitrary: sq) (auto simp: algebra_simps)

lemma numbered_member: "e \<in> set (numbered cd sq evs) \<Longrightarrow>
    \<exists>k < length evs. e = WalEntry_new cd (sq + word_of_nat k) (evs ! k)"
proof (induction evs arbitrary: sq)
  case (Cons ev evs)
  show ?case
  proof (cases "e = WalEntry_new cd sq ev")
    case True
    then show ?thesis by (intro exI [of _ 0]) simp
  next
    case False
    with Cons obtain k where "k < length evs" "e = WalEntry_new cd (sq + 1 + word_of_nat k) (evs ! k)"
      by force
    then show ?thesis by (intro exI [of _ "Suc k"]) (simp add: algebra_simps)
  qed
qed simp

text \<open>What a run establishes: numbers are handed out in order, and the log grows by the commits that can be read.\<close>

definition run_effect ::
    "('ev \<Rightarrow> bool) \<Rightarrow> 'ev wal_codec \<Rightarrow> 'ev wal_state \<Rightarrow> 'ev wal_action list \<Rightarrow> 'ev wal_state \<Rightarrow> bool" where
  "run_effect plain cd s as s' \<longleftrightarrow>
     log_entries cd (the_dir s') = log_entries cd (the_dir s) @ filter (\<lambda>e. plain (entry_event e)) (commits as)
     \<and> mset (pending s') + mset (commits as) =
         mset (pending s) + mset (numbered cd (current_event_sequence (the_log s)) (begins as))
     \<and> current_event_sequence (the_log s') =
         current_event_sequence (the_log s) + word_of_nat (length (begins as))"

lemma commit_effect:
  assumes "postcard_reads plain cd" "conc_ready cd (Suc n) s" "event_fits cd ev0"
    and "e = WalEntry_new cd sq0 ev0" "wal_conc cd s (Commit e) s'"
  shows "conc_ready cd n s'"
    "log_entries cd (the_dir s') = log_entries cd (the_dir s) @ filter (\<lambda>e. plain (entry_event e)) [e]"
    "pending s' = remove1 e (pending s)" "e \<in> set (pending s)"
    "current_event_sequence (the_log s') = current_event_sequence (the_log s)"
proof -
  obtain ser where ser: "entry_to_vec cd e = Some ser" "frame_valid ser"
    using assms(3,4) by (auto simp: event_fits_def writable_def)
  have read: "read_back cd ser = filter (\<lambda>e. plain (entry_event e)) [e]"
    using assms(1) ser(1) by (rule read_back_serialized) (simp add: assms(4))
  have pre: "dir_ok (the_dir s)" "active_ok (the_log s) (the_dir s)"
      "unat (current_file_sequence (the_log s)) + 1 < 2 ^ 32"
    using assms(2) by (simp_all add: conc_ready_def)
  obtain w' dir' where w': "write_entry cd no_faults e (the_log s) (the_dir s) = (Ok (entry_sequence e), w', dir')"
    "dir_ok dir'" "active_ok w' dir'" "log_entries cd dir' = log_entries cd (the_dir s) @ filter (\<lambda>e. plain (entry_event e)) [e]"
    "current_event_sequence w' = current_event_sequence (the_log s)"
    "unat (current_file_sequence w') \<le> unat (current_file_sequence (the_log s)) + 1"
    using write_entry_ok [OF pre ser] unfolding read by blast
  from assms(5) have s': "s' = s\<lparr>the_log := w', the_dir := dir', pending := remove1 e (pending s)\<rparr>"
      "e \<in> set (pending s)"
    using w'(1) by (auto elim: CommitE)
  show "conc_ready cd n s'"
    using assms(2) w' by (simp add: s' conc_ready_def)
  show "log_entries cd (the_dir s') = log_entries cd (the_dir s) @ filter (\<lambda>e. plain (entry_event e)) [e]"
    "pending s' = remove1 e (pending s)" "e \<in> set (pending s)"
    "current_event_sequence (the_log s') = current_event_sequence (the_log s)"
    using w' s' by simp_all
qed

lemma run_interleaved:
  assumes "wal_run cd s as s'"
    and "postcard_reads plain cd" "pending s = []" "conc_ready cd (length (commits as)) s"
    and "\<forall>ev \<in> set (begins as). event_fits cd ev"
  shows "run_effect plain cd s as s' \<and>
     (\<forall>n. conc_ready cd (length (commits as) + n) s \<longrightarrow> conc_ready cd n s')"
  using assms
proof (induction rule: wal_run.induct)
  case (run_Nil s)
  then show ?case by (simp add: run_effect_def)
next
  case (run_snoc s as s' a s'')
  show ?case
  proof (cases a)
    case (Begin ev)
    have IH: "run_effect plain cd s as s'"
      "\<And>n. conc_ready cd (length (commits as) + n) s \<Longrightarrow> conc_ready cd n s'"
      using run_snoc Begin by simp_all
    from run_snoc.hyps(2) have s'': "s'' = s'\<lparr>the_log := (the_log s')\<lparr>current_event_sequence :=
          current_event_sequence (the_log s') + 1\<rparr>,
        pending := pending s' @ [WalEntry_new cd (current_event_sequence (the_log s')) ev]\<rparr>"
      unfolding Begin by (auto elim!: BeginE simp: take_sequence_def)
    show ?thesis
      using IH run_snoc.prems(2) unfolding s'' Begin
      by (auto simp: run_effect_def numbered_snoc conc_ready_def active_ok_def algebra_simps)
  next
    case (Commit e)
    have len: "length (commits (as @ [a])) = length (commits as) + 1"
      by (simp add: Commit)
    have ready: "conc_ready cd (length (commits as) + 1) s"
      using run_snoc.prems(3) by (simp only: len)
    then have ready0: "conc_ready cd (length (commits as)) s"
      by (simp add: conc_ready_def)
    have IH: "run_effect plain cd s as s'"
      "\<And>n. conc_ready cd (length (commits as) + n) s \<Longrightarrow> conc_ready cd n s'"
      using run_snoc.IH ready0 run_snoc.prems Commit by simp_all
    have "e \<in> set (pending s')"
      using run_snoc.hyps(2) unfolding Commit by (auto elim: CommitE)
    then have "e \<in># mset (pending s') + mset (commits as)"
      by simp
    moreover have "mset (pending s') + mset (commits as) =
        mset (numbered cd (current_event_sequence (the_log s)) (begins as))"
      using IH(1) run_snoc.prems(2) by (simp add: run_effect_def)
    ultimately have "e \<in> set (numbered cd (current_event_sequence (the_log s)) (begins as))"
      by (simp only: set_mset_mset)
    then obtain sq k where e: "e = WalEntry_new cd sq (begins as ! k)" "k < length (begins as)"
      by (blast dest: numbered_member)
    then have fits: "event_fits cd (begins as ! k)"
      using run_snoc.prems(4) Commit by simp
    have step: "wal_conc cd s' (Commit e) s''"
      using run_snoc.hyps(2) by (simp add: Commit)
    note eff = commit_effect [OF run_snoc.prems(1) _ fits e(1) step]
    have ready1: "conc_ready cd (Suc 0) s'"
      using IH(2) ready by simp
    have "mset (pending s') = add_mset e (mset (pending s''))"
      using eff(3,4) [OF ready1] by simp
    then have "run_effect plain cd s (as @ [a]) s''"
      using IH(1) eff(2,5) [OF ready1] unfolding Commit run_effect_def by simp
    moreover have "conc_ready cd n s''" if "conc_ready cd (length (commits (as @ [a])) + n) s" for n
      using that eff(1) [of n] IH(2) [of "Suc n"] unfolding len by (simp add: add.commute add.left_commute)
    ultimately show ?thesis by blast
  qed
qed

text \<open>
  Claim C19: concurrent calls of \<open>write\<close> lose nothing. However the calls interleave between taking
  a number and appending, replay afterwards returns what was there before followed by the
  acknowledged entries of events without metadata in the order of their appends; each entry carries the number its call took,
  numbers are handed out consecutively, and the calls still waiting are exactly the others.
\<close>

theorem interleaved_writes_kept:
  assumes "wal_run cd s as s'" "pending s = []"
    and "postcard_ok cd" "wal_inv cd (the_log s) (the_dir s)" "has_room (length as) (the_log s)"
    and "\<forall>ev \<in> set (begins as). event_fits cd ev"
  shows "\<exists>old. replay_entries cd no_faults (the_dir s) = Ok old
     \<and> replay_entries cd no_faults (the_dir s') = Ok (old @ filter (\<lambda>e. metadata_free (entry_event e)) (commits as))
     \<and> mset (commits as) + mset (pending s') =
         mset (numbered cd (current_event_sequence (the_log s)) (begins as))"
proof -
  have "length (commits as) \<le> length as"
    unfolding commits_def map_filter_def length_map by (rule length_filter_le)
  then have "conc_ready cd (length (commits as)) s"
    using assms(4,5) by (simp add: conc_ready_def wal_inv_def has_room_def)
  with run_interleaved [OF assms(1) assms(3) [unfolded postcard_ok_def] assms(2) _ assms(6)]
  have "run_effect metadata_free cd s as s'"
    by blast
  then show ?thesis
    using assms(2) by (simp add: run_effect_def replay_entries_log add.commute)
qed

section \<open>Numbers written out of order\<close>

text \<open>Evaluation of the log on two small files.\<close>

abbreviation p1 :: string where "p1 \<equiv> wal_file_path 1"
abbreviation p2 :: string where "p2 \<equiv> wal_file_path 2"

definition ev_a :: "u8 WalEntry" where "ev_a = WalEntry_new demo_codec 1 7"
definition ev_b :: "u8 WalEntry" where "ev_b = WalEntry_new demo_codec 2 8"

lemma demo_entries [simp]:
  "entry_to_vec demo_codec e = Some (demo_encode e)"
  "length (demo_encode ev_a) = 13" "length (demo_encode ev_b) = 13"
  "entry_sequence ev_a = 1" "entry_sequence ev_b = 2"
  "deserialize_and_verify_entry demo_codec (demo_encode ev_a) = Some ev_a"
  "deserialize_and_verify_entry demo_codec (demo_encode ev_b) = Some ev_b"
  "frame_valid (demo_encode ev_a)" "frame_valid (demo_encode ev_b)"
  using demo_roundtrip [of ev_a] demo_roundtrip [of ev_b]
  by (simp_all add: demo_codec_def ev_a_def ev_b_def WalEntry_new_def demo_encode_def
      deserialize_and_verify_entry_def verify_def frame_valid_def)

lemma entries_of_single: "frame_valid ser \<Longrightarrow> entries_of cd (frame ser) =
    (case deserialize_and_verify_entry cd ser of None \<Rightarrow> [] | Some e \<Rightarrow> [e])"
  using entries_of_frame [of ser cd "[]"] by simp

lemma wal_files_two: "wal_files [(p1, x), (p2, y)] = [(1, p1), (2, p2)]" "wal_files [(p1, x)] = [(1, p1)]"
    "wal_files [(p2, y)] = [(2, p2)]"
  by (simp_all add: wal_files_def wal_names_def map_filter_simps parse_wal_file_path)

lemma append_frame_p1: "append_bytes p1 ser (append_bytes p1 (to_le_bytes (word_of_nat (length ser))) [(p1, x)]) =
    [(p1, x @ frame ser)]"
  by (simp add: append_bytes_def hm_get_def hm_insert_def frame_def)

lemma demo_write:
  assumes "length (demo_encode e) = 13" "state_file (file_state w) = p1"
    and "unat (state_size (file_state w)) + 17 < unat (rotation_threshold w)"
  shows "write_entry demo_codec no_faults e w [(p1, x)] =
     (Ok (entry_sequence e), w\<lparr>file_state := track_write (entry_sequence e) 17 (file_state w)\<rparr>,
      [(p1, x @ frame (demo_encode e))])"
proof -
  have "unat (rotation_threshold w) < 2 ^ 64"
    using unsigned_less [of "rotation_threshold w", where 'a = nat] by simp
  then have "\<not> rotation_threshold w \<le> sat_add (state_size (file_state w)) 17"
    using assms(3) by (simp add: word_le_nat_alt unat_sat_add)
  then show ?thesis
    using append_frame_p1 [of "demo_encode e" x] assms(1,2)
    by (simp add: write_entry_def Let_def track_write_def)
qed

lemma demo_write_rotates:
  assumes "length (demo_encode e) = 13" "state_file (file_state w) = p1" "current_file_sequence w = 1"
    and "unat (rotation_threshold w) \<le> unat (state_size (file_state w)) + 17"
  shows "write_entry demo_codec no_faults e w [(p1, x)] =
     (Ok (entry_sequence e),
      w\<lparr>current_file_sequence := 2,
        file_state := \<lparr>state_file = p2, state_size = 0, state_min_sequence = 0, state_max_sequence = 0\<rparr>\<rparr>,
      [(p1, x @ frame (demo_encode e)), (p2, [])])"
proof -
  have "unat (rotation_threshold w) < 2 ^ 64"
    using unsigned_less [of "rotation_threshold w", where 'a = nat] by simp
  then have "rotation_threshold w \<le> sat_add (state_size (file_state w)) 17"
    using assms(4) by (simp add: word_le_nat_alt unat_sat_add)
  moreover have "sat_add 1 1 = (2 :: u64)" "(ucast (2 :: u64) :: u32) = 2"
    by (simp_all add: sat_add_def)
  ultimately show ?thesis
    using append_frame_p1 [of "demo_encode e" x] assms(1-3)
    by (simp add: write_entry_def Let_def track_write_def rotate_file_internal_def open_append_def
        restrict_permissions_def hm_get_def hm_insert_def)
qed

definition racing_start :: "u8 wal_state" where
  "racing_start = \<lparr>the_log = empty_log 34, the_dir = [(p1, [])], pending = []\<rparr>"

definition racing_end :: "u8 wal_state" where
  "racing_end =
     \<lparr>the_log = (empty_log 34)\<lparr>current_event_sequence := 3, current_file_sequence := 2,
        file_state := \<lparr>state_file = p2, state_size = 0, state_min_sequence = 0, state_max_sequence = 0\<rparr>\<rparr>,
      the_dir = [(p1, frame (demo_encode ev_b) @ frame (demo_encode ev_a)), (p2, [])], pending = []\<rparr>"

lemma racing_run: "wal_run demo_codec racing_start [Begin 7, Begin 8, Commit ev_b, Commit ev_a] racing_end"
proof -
  let ?d = "[(p1, frame (demo_encode ev_b) @ frame (demo_encode ev_a)), (p2, [])]"
  let ?w1 = "(empty_log 34)\<lparr>current_event_sequence := 2\<rparr>"
  let ?w2 = "?w1\<lparr>current_event_sequence := 3\<rparr>"
  let ?w3 = "?w2\<lparr>file_state := track_write 2 17 (file_state ?w2)\<rparr>"
  let ?w4 = "?w3\<lparr>current_file_sequence := 2, file_state := \<lparr>state_file = p2, state_size = 0,
      state_min_sequence = 0, state_max_sequence = 0\<rparr>\<rparr>"
  let ?s4 = "\<lparr>the_log = ?w4, the_dir = ?d, pending = []\<rparr>"
  have s4: "racing_end = ?s4"
    by (simp add: racing_end_def empty_log_def)
  have b1: "wal_conc demo_codec racing_start (Begin 7)
      \<lparr>the_log = ?w1, the_dir = [(p1, [])], pending = [ev_a]\<rparr>" (is "wal_conc _ _ _ ?s1")
    using take_number [of racing_start 1 ?w1 demo_codec 7]
    by (simp add: racing_start_def take_sequence_def ev_a_def)
  have b2: "wal_conc demo_codec ?s1 (Begin 8)
      \<lparr>the_log = ?w2, the_dir = [(p1, [])], pending = [ev_a, ev_b]\<rparr>" (is "wal_conc _ _ _ ?s2")
    using take_number [of ?s1 2 ?w2 demo_codec 8] by (simp add: take_sequence_def ev_b_def)
  have ne: "ev_a \<noteq> ev_b" by (simp add: ev_a_def ev_b_def WalEntry_new_def)
  have "write_entry demo_codec no_faults ev_b ?w2 [(p1, [])] =
      (Ok 2, ?w3, [(p1, frame (demo_encode ev_b))])"
    using demo_write [of ev_b ?w2 "[]"] by (simp add: empty_log_def)
  then have c1: "wal_conc demo_codec ?s2 (Commit ev_b)
      \<lparr>the_log = ?w3, the_dir = [(p1, frame (demo_encode ev_b))], pending = [ev_a]\<rparr>" (is "wal_conc _ _ _ ?s3")
    using append_entry [of ev_b ?s2 demo_codec 2 ?w3 "[(p1, frame (demo_encode ev_b))]"] ne by simp
  have "write_entry demo_codec no_faults ev_a ?w3 [(p1, frame (demo_encode ev_b))] = (Ok 1, ?w4, ?d)"
    using demo_write_rotates [of ev_a ?w3 "frame (demo_encode ev_b)"]
    by (simp add: empty_log_def track_write_def sat_add_def)
  then have c2: "wal_conc demo_codec ?s3 (Commit ev_a) ?s4"
    using append_entry [of ev_a ?s3 demo_codec 1 ?w4 ?d] by simp
  show ?thesis
    unfolding s4 using run_snoc [OF run_snoc [OF run_snoc [OF run_snoc [OF run_Nil b1] b2] c1] c2] by simp
qed

lemma racing_entries:
  "entries_of demo_codec (frame (demo_encode ev_b) @ frame (demo_encode ev_a)) = [ev_b, ev_a]"
  by (simp add: entries_of_frame entries_of_single)

lemma racing_replay: "replay_entries demo_codec no_faults (the_dir racing_end) = Ok [ev_b, ev_a]"
  by (simp add: racing_end_def replay_entries_log log_entries_def wal_files_two file_entries_def
      hm_get_def racing_entries)

text \<open>Two calls that append in the opposite order, one of an event with metadata.\<close>

lemma conc_commit:
  assumes "conc_ready cd (Suc n) s" "writable cd e" "e \<in> set (pending s)"
  shows "\<exists>s'. wal_conc cd s (Commit e) s' \<and> conc_ready cd n s' \<and> pending s' = remove1 e (pending s)"
proof -
  obtain ser where ser: "entry_to_vec cd e = Some ser" "frame_valid ser"
    using assms(2) by (auto simp: writable_def)
  have pre: "dir_ok (the_dir s)" "active_ok (the_log s) (the_dir s)" "unat (current_file_sequence (the_log s)) + 1 < 2 ^ 32"
    using assms(1) by (simp_all add: conc_ready_def)
  obtain w' dir' where w': "write_entry cd no_faults e (the_log s) (the_dir s) = (Ok (entry_sequence e), w', dir')"
    "dir_ok dir'" "active_ok w' dir'" "unat (current_file_sequence w') \<le> unat (current_file_sequence (the_log s)) + 1"
    using write_entry_ok [OF pre ser] by blast
  show ?thesis
    using append_entry [OF assms(3) w'(1)] w'(2-4) assms(1)
    by (intro exI [of _ "s\<lparr>the_log := w', the_dir := dir', pending := remove1 e (pending s)\<rparr>"])
      (simp add: conc_ready_def)
qed

lemma conc_begin:
  "\<exists>s'. wal_conc cd s (Begin ev) s' \<and> pending s' = pending s @ [WalEntry_new cd (current_event_sequence (the_log s)) ev]
     \<and> current_event_sequence (the_log s') = current_event_sequence (the_log s) + 1
     \<and> (conc_ready cd n s \<longrightarrow> conc_ready cd n s')"
  using take_number [of s "current_event_sequence (the_log s)" _ cd ev, unfolded take_sequence_def]
  by (auto simp: conc_ready_def active_ok_def take_sequence_def intro!: exI)

lemma run_Cons:
  assumes "wal_run cd s' as s''" "wal_conc cd s a s'"
  shows "wal_run cd s (a # as) s''"
  using assms
proof (induction rule: wal_run.induct)
  case (run_Nil s')
  then show ?case using wal_run.run_snoc [OF wal_run.run_Nil] by fastforce
next
  case (run_snoc s' as t b s'')
  then show ?case using wal_run.run_snoc [of cd s "a # as" t b s''] by simp
qed

definition quiet_start :: "unit ProcessEvent wal_state" where
  "quiet_start = \<lparr>the_log = empty_log 1, the_dir = [(p1, [])], pending = []\<rparr>"

theorem interleaved_writes_kept_witness:
  "\<exists>a b s'. wal_run (event_codec_of (app_event [])) quiet_start
       [Begin (pid_event 7), Begin ((pid_event 8)\<lparr>platform_metadata := Some ()\<rparr>), Commit b, Commit a] s'
     \<and> entry_event a = pid_event 7
     \<and> replay_entries (event_codec_of (app_event [])) no_faults (the_dir s') = Ok [a]"
proof -
  let ?cd = "event_codec_of (app_event [])"
  let ?a = "WalEntry_new ?cd 1 (pid_event 7)" and ?b = "WalEntry_new ?cd 2 ((pid_event 8)\<lparr>platform_metadata := Some ()\<rparr>)"
  let ?as = "[Begin (pid_event 7), Begin ((pid_event 8)\<lparr>platform_metadata := Some ()\<rparr>), Commit ?b, Commit ?a]"
  have inv: "wal_inv ?cd (the_log quiet_start) (the_dir quiet_start)" "pending quiet_start = []"
    and room: "has_room (length ?as) (the_log quiet_start)"
    by (simp_all add: quiet_start_def wal_inv_empty has_room_empty)
  have same: "(pid_event 7)\<lparr>platform_metadata := None\<rparr> = pid_event 7"
    by (simp add: pid_event_def event_of_byte_def app_event_def)
  have fits: "event_fits ?cd (pid_event 7)" "event_fits ?cd ((pid_event 8)\<lparr>platform_metadata := Some ()\<rparr>)"
    using event_fits_pid [where b = 7 and m = None] event_fits_pid [where b = 8 and m = "Some ()"] by (simp_all add: same)
  then have wr: "writable ?cd ?a" "writable ?cd ?b" by (simp_all add: event_fits_def)
  have "conc_ready ?cd 2 quiet_start" "current_event_sequence (the_log quiet_start) = 1"
    using inv room by (simp_all add: conc_ready_def wal_inv_def has_room_def) (simp add: quiet_start_def)
  then obtain s1 where s1: "wal_conc ?cd quiet_start (Begin (pid_event 7)) s1" "pending s1 = [?a]" "conc_ready ?cd 2 s1"
    "current_event_sequence (the_log s1) = 2"
    using conc_begin [of ?cd quiet_start "pid_event 7" 2] by (auto simp: inv(2))
  then obtain s2 where s2: "wal_conc ?cd s1 (Begin ((pid_event 8)\<lparr>platform_metadata := Some ()\<rparr>)) s2"
    "pending s2 = [?a, ?b]" "conc_ready ?cd (Suc 1) s2"
    using conc_begin [of ?cd s1 "(pid_event 8)\<lparr>platform_metadata := Some ()\<rparr>" 2] by (auto simp: numeral_2_eq_2)
  have ne: "?a \<noteq> ?b" by (simp add: WalEntry_new_def)
  obtain s3 where s3: "wal_conc ?cd s2 (Commit ?b) s3" "conc_ready ?cd (Suc 0) s3" "pending s3 = [?a]"
    using conc_commit [OF s2(3) wr(2)] s2(2) ne by auto
  obtain s' where "wal_conc ?cd s3 (Commit ?a) s'"
    using conc_commit [OF s3(2) wr(1)] s3(3) by auto
  then have run: "wal_run ?cd quiet_start ?as s'"
    by (rule run_Cons [OF run_Cons [OF run_Cons [OF run_Cons [OF run_Nil] s3(1)] s2(1)] s1(1)])
  have parts: "set (begins ?as) = {pid_event 7, (pid_event 8)\<lparr>platform_metadata := Some ()\<rparr>}" "commits ?as = [?b, ?a]"
    by (simp_all add: begins_def commits_def map_filter_simps)
  have "replay_entries ?cd no_faults (the_dir s') = Ok [?a]"
    using interleaved_writes_kept [OF run inv(2) postcard_ok_event_of inv(1) room] fits
    unfolding parts by (auto simp: quiet_start_def replay_entries_log log_entries_empty WalEntry_new_def)
  with run show ?thesis
    by (intro exI [of _ ?a] exI [of _ ?b] exI [of _ s'] conjI) (simp_all add: WalEntry_new_def)
qed

text \<open>
  Claim C37: the clean-up takes the number of the last entry of a file for the largest. Two calls
  of \<open>write\<close> take the numbers 1 and 2 and append in the other order; both entries are replayed. If
  the file is full and entry 1 is then marked as published, the file is deleted with entry 2 in it,
  which was acknowledged and never published.
\<close>

theorem out_of_order_cleanup_loses:
  "\<exists>s' dir'. wal_run demo_codec racing_start [Begin 7, Begin 8, Commit ev_b, Commit ev_a] s'
     \<and> replay_entries demo_codec no_faults (the_dir s') = Ok [ev_b, ev_a] \<and> entry_sequence ev_b = 2
     \<and> mark_published demo_codec no_faults 1 (the_log s') (the_dir s') = (Ok (), dir')
     \<and> replay_entries demo_codec no_faults dir' = Ok []"
proof -
  have mark: "mark_published demo_codec no_faults 1 (the_log racing_end) (the_dir racing_end) =
      (Ok (), [(p2, [])])"
    by (simp add: racing_end_def mark_published_def wal_files_two scan_file_metadata_no_faults
        files_in_def file_entries_def hm_get_def racing_entries extend_metadata_max
        delete_wal_file_def hm_remove_def)
  have "replay_entries demo_codec no_faults [(p2, [])] = Ok []"
    by (simp add: replay_entries_log log_entries_def wal_files_two file_entries_def hm_get_def)
  with racing_run racing_replay mark show ?thesis
    by (intro exI [of _ racing_end] exI [of _ "[(p2, [])]"]) simp
qed

section \<open>A rotation that fails\<close>

text \<open>
  The file counter moves before the new file is opened. If opening fails, the log keeps
  writing to a file that no longer counts as the active one: the next clean-up deletes it, and a
  later write is acknowledged although replay never returns it.
\<close>

lemma failed_rotation_loses_write:
  "\<exists>w w' dir'. wal_write demo_codec (no_faults(OpenAppend p2 := Some 0)) 7 (empty_log 1) [(p1, [])] =
       (Err (FileRotation (OpenAppend p2)), w, [(p1, frame (demo_encode ev_a))])
     \<and> mark_published demo_codec no_faults 1 w [(p1, frame (demo_encode ev_a))] = (Ok (), [])
     \<and> wal_write demo_codec no_faults 8 w [] = (Ok 2, w', dir')
     \<and> replay_entries demo_codec no_faults dir' = Ok []"
proof -
  let ?w = "\<lparr>current_event_sequence = 2, current_file_sequence = 2,
      file_state = \<lparr>state_file = p1, state_size = 17, state_min_sequence = 1, state_max_sequence = 1\<rparr>,
      rotation_threshold = 1\<rparr>"
  let ?p3 = "wal_file_path 3"
  let ?w' = "\<lparr>current_event_sequence = 3, current_file_sequence = 3,
      file_state = \<lparr>state_file = ?p3, state_size = 0, state_min_sequence = 0, state_max_sequence = 0\<rparr>,
      rotation_threshold = 1\<rparr>"
  have nums: "sat_add 1 1 = (2 :: u64)" "sat_add 2 1 = (3 :: u64)" "sat_add 0 17 = (17 :: u64)"
    "sat_add 17 17 = (34 :: u64)" "(ucast (2 :: u64) :: u32) = 2" "(ucast (3 :: u64) :: u32) = 3"
    by (simp_all add: sat_add_def)
  have "wal_write demo_codec (no_faults(OpenAppend p2 := Some 0)) 7 (empty_log 1) [(p1, [])] =
       (Err (FileRotation (OpenAppend p2)), ?w, [(p1, frame (demo_encode ev_a))])"
    using append_frame_p1 [of "demo_encode ev_a" "[]"]
    by (simp add: wal_write_def take_sequence_def empty_log_def ev_a_def [symmetric] write_entry_def
        Let_def track_write_def rotate_file_internal_def nums)
  moreover have "mark_published demo_codec no_faults 1 ?w [(p1, frame (demo_encode ev_a))] = (Ok (), [])"
    by (simp add: mark_published_def wal_files_two scan_file_metadata_no_faults files_in_def
        file_entries_def hm_get_def entries_of_single extend_metadata_max delete_wal_file_def hm_remove_def)
  moreover have "wal_write demo_codec no_faults 8 ?w [] = (Ok 2, ?w', [(?p3, [])])"
    by (simp add: wal_write_def take_sequence_def ev_b_def [symmetric] write_entry_def Let_def
        track_write_def append_bytes_def rotate_file_internal_def open_append_def
        restrict_permissions_def hm_insert_def nums)
  moreover have "replay_entries demo_codec no_faults [(?p3, [])] = Ok []"
    by (simp add: replay_entries_log log_entries_def wal_files_def wal_names_def map_filter_simps
        parse_wal_file_path file_entries_def hm_get_def)
  ultimately show ?thesis by - (intro exI conjI; assumption)
qed

section \<open>A restart after a torn write\<close>

text \<open>
  Opening the log does not remove what a crash left of a frame at the end of the active file. What is
  written after the restart is appended behind it, acknowledged, and taken by a reader for the rest of the
  torn frame: replay does not return it.
\<close>

lemma torn_restart_hides_write:
  "\<exists>w w' dir'. with_rotation_threshold demo_codec no_faults 80 [(p1, [5, 0])] = (Ok w, [(p1, [5, 0])])
     \<and> wal_write demo_codec no_faults 7 w [(p1, [5, 0])] = (Ok 1, w', dir')
     \<and> replay_entries demo_codec no_faults dir' = Ok []"
proof -
  let ?dir = "[(p1, [5, 0])] :: wal_dir"
  let ?w = "\<lparr>current_event_sequence = 1, current_file_sequence = 1,
      file_state = \<lparr>state_file = p1, state_size = 2, state_min_sequence = 0, state_max_sequence = 0\<rparr>,
      rotation_threshold = 80\<rparr>"
  have one: "(ucast (1 :: u64) :: u32) = 1" "(ucast (1 :: u32) :: u64) = 1" "max 0 1 = (1 :: u64)" "sat_add 0 1 = (1 :: u64)"
    by (simp_all add: sat_add_def)
  have "entries_of demo_codec [5, 0] = []"
    by (subst entries_of_unfold) simp
  then have "scan_wal_state demo_codec no_faults ?dir = (1, 0, Some WalFileMetadata_default)"
    by (simp add: scan_wal_state_def scan_listing_def wal_names_def map_filter_simps parse_wal_file_path Let_def
        scan_file_metadata_no_faults files_in_def file_entries_def hm_get_def one)
      (simp add: WalFileMetadata_default_def)
  then have opened: "with_rotation_threshold demo_codec no_faults 80 ?dir = (Ok ?w, ?dir)"
    by (simp add: with_rotation_threshold_def Let_def open_append_def restrict_permissions_def file_len_def
        hm_get_def one WalFileMetadata_default_def)
  obtain w' where wr: "wal_write demo_codec no_faults 7 ?w ?dir = (Ok 1, w', [(p1, [5, 0] @ frame (demo_encode ev_a))])"
    using demo_write [of ev_a "?w\<lparr>current_event_sequence := 2\<rparr>" "[5, 0]"]
    by (simp add: wal_write_def take_sequence_def ev_a_def [symmetric])
  have "take 4 ([5, 0] @ frame (demo_encode ev_a)) = [5, 0, 13, 0]"
    by (simp add: frame_def to_le_bytes_def)
  then have "entries_of demo_codec ([5, 0] @ frame (demo_encode ev_a)) = []"
    by (subst entries_of_unfold) (simp add: Let_def from_le_bytes_def)
  then have "replay_entries demo_codec no_faults [(p1, [5, 0] @ frame (demo_encode ev_a))] = Ok []"
    by (simp add: replay_entries_log log_entries_def wal_files_two file_entries_def hm_get_def)
  with opened wr show ?thesis by blast
qed

section \<open>A restart after everything was published\<close>

text \<open>
  Sequence numbers survive a restart only through the entries on disk. Once all entries
  are published and the active file is empty, the clean-up removes every entry, and the log that is
  opened next starts again at number 1, below numbers that were already handed out.
\<close>

lemma restart_reuses_numbers:
  assumes "wal_inv cd w dir" "hm_get dir (state_file (file_state w)) = Some []"
    and "replay_entries cd no_faults dir = Ok es" "\<forall>e \<in> set es. entry_sequence e \<le> up_to"
  shows "\<exists>dir' w'. mark_published cd no_faults up_to w dir = (Ok (), dir')
     \<and> replay_entries cd no_faults dir' = Ok []
     \<and> with_rotation_threshold cd no_faults threshold dir' = (Ok w', dir')
     \<and> current_event_sequence w' = 1"
proof -
  let ?D = "removed_names cd w up_to dir"
  have inv: "dir_ok dir" "active_ok w dir"
    using assms(1) by (simp_all add: wal_inv_def)
  have log: "log_entries cd dir = es"
    using assms(3) by (simp add: replay_entries_log)
  obtain dir' where mark: "mark_published cd no_faults up_to w dir = (Ok (), dir')" "wal_inv cd w dir'"
    using mark_published_effect [OF assms(1), of up_to] by blast
  have dir': "dir' = without ?D dir"
    using mark(1) mark_published_eq [OF inv(1), of cd up_to w] by simp
  have "file_entries cd dir n = []" if f: "(sq, n) \<in> set (wal_files dir)" "n \<notin> ?D" for sq n
  proof -
    have keep: "\<not> removable cd (current_file_sequence w) up_to dir (sq, n)"
      using f by (force simp: removed_names_def)
    show ?thesis
    proof (cases "ucast sq = current_file_sequence w")
      case True
      have "unat (ucast sq :: u64) < 2 ^ 32"
        using unsigned_less [of sq, where 'a = nat] by (simp add: unat_ucast_u64)
      then have "(ucast (current_file_sequence w) :: u32) = sq"
        using True [symmetric] by (simp add: word_unat_eq_iff unat_ucast_u32 unat_ucast_u64)
      then have "n = state_file (file_state w)"
        using f(1) inv by (simp add: in_wal_files dir_ok_def active_ok_def)
      then show ?thesis
        using assms(2) by (simp add: file_entries_def)
    next
      case False
      show ?thesis
      proof (rule ccontr)
        assume ne: "file_entries cd dir n \<noteq> []"
        then have "last (file_entries cd dir n) \<in> set es"
          using f(1) unfolding log [symmetric] log_entries_def by force
        then show False
          using keep False ne assms(4) by (simp add: removable_def)
      qed
    qed
  qed
  then have "log_entries cd dir' = []"
    unfolding dir' log_entries_without by auto
  then have empty: "replay_entries cd no_faults dir' = Ok []"
    by (simp add: replay_entries_log)
  with mark(1) reopen_ok [OF mark(2), of threshold] show ?thesis
    by auto
qed

lemma restart_reuses_numbers_example:
  "\<exists>w dir dir' w'. wal_write demo_codec no_faults 7 (empty_log 1) [(p1, [])] = (Ok 1, w, dir)
     \<and> current_event_sequence w = 2
     \<and> mark_published demo_codec no_faults 1 w dir = (Ok (), dir')
     \<and> with_rotation_threshold demo_codec no_faults 1 dir' = (Ok w', dir')
     \<and> current_event_sequence w' = 1"
proof -
  let ?w = "(empty_log 1)\<lparr>current_event_sequence := 2, current_file_sequence := 2,
      file_state := \<lparr>state_file = p2, state_size = 0, state_min_sequence = 0, state_max_sequence = 0\<rparr>\<rparr>"
  let ?d = "[(p1, frame (demo_encode ev_a)), (p2, [])]"
  have wr: "wal_write demo_codec no_faults 7 (empty_log 1) [(p1, [])] = (Ok 1, ?w, ?d)"
    using demo_write_rotates [of ev_a "(empty_log 1)\<lparr>current_event_sequence := 2\<rparr>" "[]"]
    by (simp add: wal_write_def take_sequence_def ev_a_def [symmetric] empty_log_def)
  have "fold (wal_step demo_codec) [7] (empty_log 1, [(p1, [])]) = (?w, ?d)"
    using wr by (simp add: wal_step_def)
  then have inv: "wal_inv demo_codec ?w ?d"
    by (rule demo_run(1)) simp
  have active: "hm_get ?d (state_file (file_state ?w)) = Some []"
    by (simp add: hm_get_def)
  have rep: "replay_entries demo_codec no_faults ?d = Ok [ev_a]"
    by (simp add: replay_entries_log log_entries_def wal_files_two file_entries_def hm_get_def
        entries_of_single)
  have le: "\<forall>e \<in> set [ev_a]. entry_sequence e \<le> 1" by simp
  from restart_reuses_numbers [OF inv active rep le, of 1] wr show ?thesis by auto
qed

end
