(* ===== verification/Event_Bus_Connector.thy ===== *)
theory Event_Bus_Connector
  imports Wal_Safety Security
begin

text \<open>
  The connector that publishes process events reliably, \<^verbatim>\<open>procmond/src/event_bus_connector\<close>
  (\<^verbatim>\<open>mod.rs\<close>, \<^verbatim>\<open>buffered_event.rs\<close>, \<^verbatim>\<open>signal.rs\<close>, \<^verbatim>\<open>error.rs\<close>): every event is written to the
  write-ahead log, then published or buffered in memory; after a reconnection the log is replayed.
  The start-up of \<^verbatim>\<open>procmond/src/main.rs\<close>, which connects and replays, is included.

  The world around the connector holds the log directory, the time in nanoseconds, the environment
  variable with the broker's socket, and the broker: \<open>accepts k\<close> tells whether the \<open>k\<close>-th
  connection or publication attempt succeeds, and \<open>received\<close> is what the broker took, in order.
  The rendering of JSON metadata is the parameter \<open>json_text\<close>, lower case \<open>lower\<close> as in
  \<open>Security\<close>; \<open>flt\<close> are the failing system calls of the log. Only the length of that rendering
  matters, for the estimate of the buffer size.
\<close>

section \<open>Event types, errors and signals\<close>

datatype BackpressureSignal = Activated | Released

datatype ProcessEventType = Start | Stop | Modify

definition type_topic :: "ProcessEventType \<Rightarrow> string" where
  "type_topic ty = (case ty of
       Start \<Rightarrow> ''events.process.start'' | Stop \<Rightarrow> ''events.process.stop''
     | Modify \<Rightarrow> ''events.process.modify'')"

definition to_type_string :: "ProcessEventType \<Rightarrow> string" where
  "to_type_string ty = (case ty of Start \<Rightarrow> ''start'' | Stop \<Rightarrow> ''stop'' | Modify \<Rightarrow> ''modify'')"

datatype EventBusConnectorError =
    Wal_Error WalError
  | EventBus
  | Connection
  | BufferOverflow
  | EnvNotSet
  | Serialization_Error
  | UnknownEventType string

definition from_type_string :: "string \<Rightarrow> (ProcessEventType, EventBusConnectorError) result" where
  "from_type_string s =
     (if s = ''start'' then Ok Start
      else if s = ''stop'' then Ok Stop
      else if s = ''modify'' then Ok Modify
      else Err (UnknownEventType s))"

section \<open>Buffered events\<close>

record 'json BufferedEvent =
  buf_sequence :: u64
  buf_event :: "'json ProcessEvent"
  buf_topic :: string
  buf_size :: nat

text \<open>\<open>usize::saturating_add\<close> and \<open>saturating_mul\<close> on a 64-bit machine.\<close>

definition usat :: "nat \<Rightarrow> nat" where
  "usat n = min n (2 ^ 64 - 1)"

definition estimate_size :: "('json \<Rightarrow> string) \<Rightarrow> 'json ProcessEvent \<Rightarrow> string \<Rightarrow> nat" where
  "estimate_size json_text event topic =
     (let opt = (\<lambda>n s. case s of Some t \<Rightarrow> usat (n + length t) | None \<Rightarrow> n);
          n = usat (64 + length (name event));
          n = opt n (executable_path event);
          n = fold (\<lambda>arg n. usat (n + length arg)) (command_line event) n;
          n = opt n (executable_hash event);
          n = opt n (user_id event);
          n = opt n (map_option json_text (platform_metadata event))
      in usat (n + length topic))"

definition BufferedEvent_new ::
    "('json \<Rightarrow> string) \<Rightarrow> u64 \<Rightarrow> 'json ProcessEvent \<Rightarrow> string \<Rightarrow> 'json BufferedEvent" where
  "BufferedEvent_new json_text sq event topic =
     \<lparr>buf_sequence = sq, buf_event = event, buf_topic = topic, buf_size = estimate_size json_text event topic\<rparr>"

section \<open>State\<close>

definition MAX_BUFFER_SIZE :: nat where
  "MAX_BUFFER_SIZE = 10 * 1024 * 1024"

text \<open>The channel of the signals: what is queued, and whether the receiver still exists.\<close>

record signal_channel =
  signals :: "BackpressureSignal list"
  receiver_open :: bool

record 'json EventBusConnector =
  wal :: WriteAheadLog
  client :: bool
  buffer :: "'json BufferedEvent list"
  buffer_size_bytes :: nat
  max_buffer_size :: nat
  connected :: bool
  backpressure_tx :: signal_channel
  backpressure_rx_template :: bool
  socket_config :: "string option"
  reconnect_attempts :: u32
  last_reconnect_attempt :: "nat option"

text \<open>The event as the event bus carries it; the sequence number travels in its metadata.\<close>

record EventBusProcessEvent =
  bus_pid :: u32
  bus_name :: string
  bus_command_line :: "string option"
  bus_executable_path :: "string option"
  bus_ppid :: "u32 option"
  bus_start_time :: "nat option"
  bus_metadata :: "(string, string) hash_map"

definition convert_to_eventbus_event :: "'json ProcessEvent \<Rightarrow> u64 \<Rightarrow> EventBusProcessEvent" where
  "convert_to_eventbus_event event sq =
     \<lparr>bus_pid = pid event, bus_name = name event,
      bus_command_line = Some (join_with CHR '' '' (command_line event)),
      bus_executable_path = executable_path event, bus_ppid = ppid event,
      bus_start_time = start_time event, bus_metadata = [(''source_seq'', show_nat (unat sq))]\<rparr>"

record world =
  disk :: wal_dir
  now :: nat
  broker_socket :: "string option"
  accepts :: "nat \<Rightarrow> bool"
  attempts :: nat
  received :: "(string \<times> EventBusProcessEvent) list"

text \<open>One attempt to reach the broker, to connect or to publish.\<close>

definition attempt :: "world \<Rightarrow> bool \<times> world" where
  "attempt wd = (accepts wd (attempts wd), wd\<lparr>attempts := Suc (attempts wd)\<rparr>)"

section \<open>Operations\<close>

definition EventBusConnector_new ::
    "'json ProcessEvent wal_codec \<Rightarrow> faults \<Rightarrow> world
       \<Rightarrow> ('json EventBusConnector, EventBusConnectorError) result \<times> world" where
  "EventBusConnector_new cd flt wd =
     (case WriteAheadLog_new cd flt (disk wd) of
        (Err e, dir) \<Rightarrow> (Err (Wal_Error e), wd\<lparr>disk := dir\<rparr>)
      | (Ok w, dir) \<Rightarrow>
          (Ok \<lparr>wal = w, client = False, buffer = [], buffer_size_bytes = 0, max_buffer_size = MAX_BUFFER_SIZE,
               connected = False, backpressure_tx = \<lparr>signals = [], receiver_open = True\<rparr>,
               backpressure_rx_template = True, socket_config = None, reconnect_attempts = 0,
               last_reconnect_attempt = None\<rparr>, wd\<lparr>disk := dir\<rparr>))"

definition connect ::
    "'json EventBusConnector \<Rightarrow> world \<Rightarrow> (unit, EventBusConnectorError) result \<times> 'json EventBusConnector \<times> world" where
  "connect c wd =
     (if connected c then (Ok (), c, wd)
      else case broker_socket wd of
        None \<Rightarrow> (Err EnvNotSet, c, wd)
      | Some path \<Rightarrow>
          (let c = c\<lparr>socket_config := Some path\<rparr>; (ok, wd) = attempt wd
           in if \<not> ok then (Err Connection, c, wd)
              else (Ok (), c\<lparr>client := True, connected := True, reconnect_attempts := 0,
                             last_reconnect_attempt := None\<rparr>, wd)))"

definition publish_to_broker ::
    "'json ProcessEvent \<Rightarrow> string \<Rightarrow> u64 \<Rightarrow> 'json EventBusConnector \<Rightarrow> world
       \<Rightarrow> (unit, EventBusConnectorError) result \<times> world" where
  "publish_to_broker event topic sq c wd =
     (if \<not> client c then (Err Connection, wd)
      else let (ok, wd) = attempt wd in
           if ok then (Ok (), wd\<lparr>received := received wd @ [(topic, convert_to_eventbus_event event sq)]\<rparr>)
           else (Err EventBus, wd))"

definition buffer_usage_percent :: "'json EventBusConnector \<Rightarrow> nat" where
  "buffer_usage_percent c =
     (if max_buffer_size c = 0 then 100
      else min (usat (buffer_size_bytes c * 100) div max_buffer_size c) 100)"

text \<open>\<open>try_send\<close> on a channel for 16 signals.\<close>

definition try_send_signal :: "BackpressureSignal \<Rightarrow> 'json EventBusConnector \<Rightarrow> 'json EventBusConnector" where
  "try_send_signal sig c =
     (let ch = backpressure_tx c in
      if receiver_open ch \<and> length (signals ch) < 16
      then c\<lparr>backpressure_tx := ch\<lparr>signals := signals ch @ [sig]\<rparr>\<rparr> else c)"

definition check_backpressure :: "nat \<Rightarrow> nat \<Rightarrow> 'json EventBusConnector \<Rightarrow> 'json EventBusConnector" where
  "check_backpressure previous_usage current_usage c =
     (let c = (if previous_usage < 70 \<and> current_usage \<ge> 70 then try_send_signal Activated c else c)
      in if previous_usage \<ge> 50 \<and> current_usage < 50 then try_send_signal Released c else c)"

definition add_to_buffer ::
    "'json BufferedEvent \<Rightarrow> 'json EventBusConnector
       \<Rightarrow> (unit, EventBusConnectorError) result \<times> 'json EventBusConnector" where
  "add_to_buffer b c =
     (let new_size = usat (buffer_size_bytes c + buf_size b) in
      if new_size > max_buffer_size c then (Err BufferOverflow, c)
      else let previous_usage = buffer_usage_percent c;
               c = c\<lparr>buffer_size_bytes := new_size, buffer := buffer c @ [b]\<rparr>
           in (Ok (), check_backpressure previous_usage (buffer_usage_percent c) c))"

definition buffer_event ::
    "('json \<Rightarrow> string) \<Rightarrow> u64 \<Rightarrow> 'json ProcessEvent \<Rightarrow> string \<Rightarrow> 'json EventBusConnector
       \<Rightarrow> (unit, EventBusConnectorError) result \<times> 'json EventBusConnector" where
  "buffer_event json_text sq event topic c = add_to_buffer (BufferedEvent_new json_text sq event topic) c"

definition mark_published_with_warning ::
    "'json ProcessEvent wal_codec \<Rightarrow> faults \<Rightarrow> u64 \<Rightarrow> 'json EventBusConnector \<Rightarrow> world \<Rightarrow> world" where
  "mark_published_with_warning cd flt sq c wd =
     wd\<lparr>disk := snd (mark_published cd flt sq (wal c) (disk wd))\<rparr>"

fun flush_loop ::
    "'json ProcessEvent wal_codec \<Rightarrow> faults \<Rightarrow> 'json BufferedEvent list \<Rightarrow> nat \<Rightarrow> 'json EventBusConnector \<Rightarrow> world
       \<Rightarrow> nat \<times> 'json EventBusConnector \<times> world" where
  "flush_loop cd flt [] flushed c wd = (flushed, c\<lparr>buffer := []\<rparr>, wd)"
| "flush_loop cd flt (b # bs) flushed c wd =
     (case publish_to_broker (buf_event b) (buf_topic b) (buf_sequence b) c wd of
        (Ok _, wd) \<Rightarrow>
          (let c = c\<lparr>buffer_size_bytes := buffer_size_bytes c - buf_size b\<rparr>
           in flush_loop cd flt bs (usat (flushed + 1)) c
                (mark_published_with_warning cd flt (buf_sequence b) c wd))
      | (Err _, wd) \<Rightarrow> (flushed, c\<lparr>buffer := b # bs, connected := False\<rparr>, wd))"

definition flush_buffer ::
    "'json ProcessEvent wal_codec \<Rightarrow> faults \<Rightarrow> 'json EventBusConnector \<Rightarrow> world
       \<Rightarrow> nat \<times> 'json EventBusConnector \<times> world" where
  "flush_buffer cd flt c wd =
     (if \<not> connected c \<or> buffer c = [] then (0, c, wd)
      else let previous_usage = buffer_usage_percent c;
               (flushed, c, wd) = flush_loop cd flt (buffer c) 0 c wd
           in (flushed, check_backpressure previous_usage (buffer_usage_percent c) c, wd))"

text \<open>An entry without a type comes from an older version and counts as a start.\<close>

definition entry_type :: "'ev WalEntry \<Rightarrow> (ProcessEventType, EventBusConnectorError) result" where
  "entry_type e = (case entry_event_type e of None \<Rightarrow> Ok Start | Some s \<Rightarrow> from_type_string s)"

fun replay_each ::
    "('json \<Rightarrow> string) \<Rightarrow> 'json ProcessEvent WalEntry list \<Rightarrow> nat \<Rightarrow> u64 \<Rightarrow> 'json EventBusConnector \<Rightarrow> world
       \<Rightarrow> nat \<times> u64 \<times> 'json EventBusConnector \<times> world" where
  "replay_each json_text [] replayed last_seq c wd = (replayed, last_seq, c, wd)"
| "replay_each json_text (e # es) replayed last_seq c wd =
     (case entry_type e of
        Err _ \<Rightarrow> replay_each json_text es replayed last_seq c wd
      | Ok ty \<Rightarrow>
          (let buffered = BufferedEvent_new json_text (entry_sequence e) (entry_event e) (type_topic ty) in
           if connected c
           then case publish_to_broker (entry_event e) (type_topic ty) (entry_sequence e) c wd of
                  (Ok _, wd) \<Rightarrow> replay_each json_text es (usat (replayed + 1)) (entry_sequence e) c wd
                | (Err _, wd) \<Rightarrow>
                    (replayed, last_seq, snd (add_to_buffer buffered (c\<lparr>connected := False\<rparr>)), wd)
           else case add_to_buffer buffered c of
                  (Ok _, c) \<Rightarrow> replay_each json_text es replayed last_seq c wd
                | (Err _, c) \<Rightarrow> (replayed, last_seq, c, wd)))"

definition replay_wal ::
    "'json ProcessEvent wal_codec \<Rightarrow> faults \<Rightarrow> ('json \<Rightarrow> string) \<Rightarrow> 'json EventBusConnector \<Rightarrow> world
       \<Rightarrow> (nat, EventBusConnectorError) result \<times> 'json EventBusConnector \<times> world" where
  "replay_wal cd flt json_text c wd =
     (case replay_entries cd flt (disk wd) of
        Err e \<Rightarrow> (Err (Wal_Error e), c, wd)
      | Ok es \<Rightarrow>
          if es = [] then (Ok 0, c, wd)
          else let (replayed, last_seq, c, wd) = replay_each json_text es 0 0 c wd;
                   wd = (if last_seq > 0 then mark_published_with_warning cd flt last_seq c wd else wd);
                   (flushed, c, wd) = flush_buffer cd flt c wd
               in (Ok (usat (replayed + flushed)), c, wd))"

definition backoff_ms :: "u32 \<Rightarrow> nat" where
  "backoff_ms tries = min (usat (100 * min (2 ^ unat tries) (2 ^ 32 - 1))) 30000"

definition try_reconnect ::
    "'json ProcessEvent wal_codec \<Rightarrow> faults \<Rightarrow> ('json \<Rightarrow> string) \<Rightarrow> 'json EventBusConnector \<Rightarrow> world
       \<Rightarrow> (bool, EventBusConnectorError) result \<times> 'json EventBusConnector \<times> world" where
  "try_reconnect cd flt json_text c wd =
     (if socket_config c = None then (Ok False, c, wd)
      else if (case last_reconnect_attempt c of
                 Some last_attempt \<Rightarrow> (now wd - last_attempt) div 1000000 < backoff_ms (reconnect_attempts c)
               | None \<Rightarrow> False)
      then (Ok False, c, wd)
      else let c = c\<lparr>last_reconnect_attempt := Some (now wd),
                     reconnect_attempts := sat_add (reconnect_attempts c) 1\<rparr>;
               (ok, wd) = attempt wd
           in if ok
              then let c = c\<lparr>client := True, connected := True, reconnect_attempts := 0,
                             last_reconnect_attempt := None\<rparr>;
                       (_, c, wd) = replay_wal cd flt json_text c wd
                   in (Ok True, c, wd)
              else (Err Connection, c, wd))"

definition try_publish_or_buffer ::
    "'json ProcessEvent wal_codec \<Rightarrow> faults \<Rightarrow> ('json \<Rightarrow> string) \<Rightarrow> u64 \<Rightarrow> 'json ProcessEvent \<Rightarrow> string
       \<Rightarrow> 'json EventBusConnector \<Rightarrow> world
       \<Rightarrow> (unit, EventBusConnectorError) result \<times> 'json EventBusConnector \<times> world" where
  "try_publish_or_buffer cd flt json_text sq event topic c wd =
     (case publish_to_broker event topic sq c wd of
        (Ok _, wd) \<Rightarrow> (Ok (), c, mark_published_with_warning cd flt sq c wd)
      | (Err _, wd) \<Rightarrow>
          (let (res, c) = buffer_event json_text sq event topic (c\<lparr>connected := False\<rparr>) in (res, c, wd)))"

definition publish ::
    "'json ProcessEvent wal_codec \<Rightarrow> faults \<Rightarrow> ('json \<Rightarrow> string) \<Rightarrow> (string \<Rightarrow> string)
       \<Rightarrow> 'json ProcessEvent \<Rightarrow> ProcessEventType \<Rightarrow> 'json EventBusConnector \<Rightarrow> world
       \<Rightarrow> (u64, EventBusConnectorError) result \<times> 'json EventBusConnector \<times> world" where
  "publish cd flt json_text lower event event_type c wd =
     (let topic = type_topic event_type; sanitized = sanitize_event lower event in
      case write_with_type cd flt sanitized (to_type_string event_type) (wal c) (disk wd) of
        (Err e, w, dir) \<Rightarrow> (Err (Wal_Error e), c\<lparr>wal := w\<rparr>, wd\<lparr>disk := dir\<rparr>)
      | (Ok sq, w, dir) \<Rightarrow>
          (let c = c\<lparr>wal := w\<rparr>; wd = wd\<lparr>disk := dir\<rparr>;
               (c, wd) = (if \<not> connected c then snd (try_reconnect cd flt json_text c wd) else (c, wd));
               (res, c, wd) =
                 (if connected c then try_publish_or_buffer cd flt json_text sq sanitized topic c wd
                  else let (res, c) = buffer_event json_text sq sanitized topic c in (res, c, wd))
           in case res of Ok _ \<Rightarrow> (Ok sq, c, wd) | Err e \<Rightarrow> (Err e, c, wd)))"

definition take_backpressure_receiver :: "'json EventBusConnector \<Rightarrow> bool \<times> 'json EventBusConnector" where
  "take_backpressure_receiver c = (backpressure_rx_template c, c\<lparr>backpressure_rx_template := False\<rparr>)"

definition shutdown ::
    "'json ProcessEvent wal_codec \<Rightarrow> faults \<Rightarrow> 'json EventBusConnector \<Rightarrow> world
       \<Rightarrow> (unit, EventBusConnectorError) result \<times> 'json EventBusConnector \<times> world" where
  "shutdown cd flt c wd =
     (let (c, wd) = (if connected c then snd (flush_buffer cd flt c wd) else (c, wd))
      in (Ok (), c\<lparr>client := False, connected := False\<rparr>, wd))"

text \<open>The start-up in \<open>main\<close>: a new connector, connected if possible, and the log replayed.\<close>

definition start_up ::
    "'json ProcessEvent wal_codec \<Rightarrow> faults \<Rightarrow> ('json \<Rightarrow> string) \<Rightarrow> world
       \<Rightarrow> ('json EventBusConnector, EventBusConnectorError) result \<times> world" where
  "start_up cd flt json_text wd =
     (case EventBusConnector_new cd flt wd of
        (Err e, wd) \<Rightarrow> (Err e, wd)
      | (Ok c, wd) \<Rightarrow>
          (case connect c wd of
             (Ok _, c, wd) \<Rightarrow> (let (_, c, wd) = replay_wal cd flt json_text c wd in (Ok c, wd))
           | (Err _, c, wd) \<Rightarrow> (Ok c, wd)))"

section \<open>Runs\<close>

text \<open>
  The calls of a process monitor over its lives: \<open>Restart\<close> is the end of one, by a crash or not,
  and the start-up of the next with the same directory. Times come with the calls.
\<close>

datatype 'json conn_call =
    Publish nat "'json ProcessEvent" ProcessEventType
  | Replay_Wal nat
  | Restart nat "string option"
  | Shutdown nat
  | Take_Receiver

definition written_entry ::
    "'json ProcessEvent wal_codec \<Rightarrow> (string \<Rightarrow> string) \<Rightarrow> u64 \<Rightarrow> 'json ProcessEvent \<Rightarrow> ProcessEventType
       \<Rightarrow> 'json ProcessEvent WalEntry" where
  "written_entry cd lower sq event ty = with_event_type cd sq (sanitize_event lower event) (to_type_string ty)"

fun conn_step ::
    "'json ProcessEvent wal_codec \<Rightarrow> faults \<Rightarrow> ('json \<Rightarrow> string) \<Rightarrow> (string \<Rightarrow> string) \<Rightarrow> 'json conn_call
       \<Rightarrow> 'json EventBusConnector \<Rightarrow> world
       \<Rightarrow> 'json ProcessEvent WalEntry list \<times> 'json EventBusConnector \<times> world" where
  "conn_step cd flt jt lower (Publish t event ty) c wd =
     (case publish cd flt jt lower event ty c (wd\<lparr>now := t\<rparr>) of
        (Ok sq, c, wd) \<Rightarrow> ([written_entry cd lower sq event ty], c, wd)
      | (Err _, c, wd) \<Rightarrow> ([], c, wd))"
| "conn_step cd flt jt lower (Replay_Wal t) c wd = ([], snd (replay_wal cd flt jt c (wd\<lparr>now := t\<rparr>)))"
| "conn_step cd flt jt lower (Restart t socket) c wd =
     (case start_up cd flt jt (wd\<lparr>now := t, broker_socket := socket\<rparr>) of
        (Ok c, wd) \<Rightarrow> ([], c, wd)
      | (Err _, wd) \<Rightarrow> ([], c, wd))"
| "conn_step cd flt jt lower (Shutdown t) c wd = ([], snd (shutdown cd flt c (wd\<lparr>now := t\<rparr>)))"
| "conn_step cd flt jt lower Take_Receiver c wd = ([], snd (take_backpressure_receiver c), wd)"

fun conn_run ::
    "'json ProcessEvent wal_codec \<Rightarrow> faults \<Rightarrow> ('json \<Rightarrow> string) \<Rightarrow> (string \<Rightarrow> string) \<Rightarrow> 'json conn_call list
       \<Rightarrow> 'json EventBusConnector \<Rightarrow> world
       \<Rightarrow> 'json ProcessEvent WalEntry list \<times> 'json EventBusConnector \<times> world" where
  "conn_run cd flt jt lower [] c wd = ([], c, wd)"
| "conn_run cd flt jt lower (call # calls) c wd =
     (case conn_step cd flt jt lower call c wd of (acked, c, wd) \<Rightarrow>
        (case conn_run cd flt jt lower calls c wd of (acked', c, wd) \<Rightarrow> (acked @ acked', c, wd)))"

section \<open>Nothing undelivered is forgotten\<close>

definition delivered :: "world \<Rightarrow> 'json ProcessEvent WalEntry \<Rightarrow> bool" where
  "delivered wd e =
     (case entry_type e of
        Ok ty \<Rightarrow> (type_topic ty, convert_to_eventbus_event (entry_event e) (entry_sequence e)) \<in> set (received wd)
      | Err _ \<Rightarrow> False)"

definition settled :: "'json ProcessEvent wal_codec \<Rightarrow> world \<Rightarrow> bool" where
  "settled cd wd \<longleftrightarrow> (\<forall>e \<in> set (log_entries cd (disk wd)). delivered wd e)"

text \<open>
  A step keeps the events if what disappears from the log was delivered, and nothing new appears
  in it.
\<close>

definition keeps :: "'json ProcessEvent wal_codec \<Rightarrow> WriteAheadLog \<Rightarrow> world \<Rightarrow> world \<Rightarrow> bool" where
  "keeps cd w wd wd' \<longleftrightarrow> wal_inv cd w (disk wd') \<and> set (received wd) \<subseteq> set (received wd')
     \<and> set (log_entries cd (disk wd')) \<subseteq> set (log_entries cd (disk wd))
     \<and> (\<forall>e \<in> set (log_entries cd (disk wd)). e \<in> set (log_entries cd (disk wd')) \<or> delivered wd' e)"

lemma delivered_mono: "delivered wd e \<Longrightarrow> set (received wd) \<subseteq> set (received wd') \<Longrightarrow> delivered wd' e"
  by (auto simp: delivered_def split: sum.splits)

lemma delivered_same: "received wd' = received wd \<Longrightarrow> delivered wd' e = delivered wd e"
  by (simp add: delivered_def split: sum.split)

lemma keeps_delivered: "keeps cd w wd wd' \<Longrightarrow> delivered wd e \<Longrightarrow> delivered wd' e"
  using delivered_mono by (auto simp: keeps_def)

lemma keeps_inv: "keeps cd w wd wd' \<Longrightarrow> wal_inv cd w (disk wd')"
  by (simp add: keeps_def)

lemma keeps_trans: "keeps cd w wd wd' \<Longrightarrow> keeps cd w wd' wd'' \<Longrightarrow> keeps cd w wd wd''"
  unfolding keeps_def using delivered_mono by (metis subset_trans)

lemma keeps_same_disk:
  "wal_inv cd w (disk wd) \<Longrightarrow> disk wd' = disk wd \<Longrightarrow> set (received wd) \<subseteq> set (received wd') \<Longrightarrow> keeps cd w wd wd'"
  by (simp add: keeps_def)

lemma settled_keeps: "settled cd wd \<Longrightarrow> keeps cd w wd wd' \<Longrightarrow> settled cd wd'"
  unfolding settled_def by (metis keeps_def keeps_delivered subset_iff)

lemma publish_to_broker_effect:
  assumes "publish_to_broker event topic sq c wd = (res, wd')"
  shows "disk wd' = disk wd" "set (received wd) \<subseteq> set (received wd')"
    "res = Ok () \<Longrightarrow> (topic, convert_to_eventbus_event event sq) \<in> set (received wd')"
  using assms by (auto simp: publish_to_broker_def attempt_def Let_def split: if_splits)

lemma publish_keeps:
  "wal_inv cd w (disk wd) \<Longrightarrow> publish_to_broker event topic sq c wd = (res, wd') \<Longrightarrow> keeps cd w wd wd'"
  using publish_to_broker_effect by (blast intro: keeps_same_disk)

lemma mark_keeps:
  assumes "wal_inv cd (wal c) (disk wd)"
    and "\<forall>e \<in> set (log_entries cd (disk wd)). entry_sequence e \<le> sq \<longrightarrow> delivered wd e"
  shows "keeps cd (wal c) wd (mark_published_with_warning cd no_faults sq c wd)"
proof -
  let ?wd = "mark_published_with_warning cd no_faults sq c wd"
  let ?s = "(wal c, disk wd)"
  have same: "delivered ?wd e = delivered wd e" for e
    by (rule delivered_same) (simp add: mark_published_with_warning_def)
  have "e \<in> set (log_entries cd (disk ?wd)) \<or> delivered wd e" if "e \<in> set (log_entries cd (disk wd))" for e
    using wal_store.forget_safe [of cd ?s sq "delivered wd" e] assms that
    by (simp add: mark_published_with_warning_def)
  moreover have "wal_inv cd (wal c) (disk ?wd)" "set (log_entries cd (disk ?wd)) \<subseteq> set (log_entries cd (disk wd))"
    using wal_store.forget_inv [of cd ?s sq] wal_store.forget_sub [of cd ?s sq] assms(1)
    by (simp_all add: mark_published_with_warning_def)
  ultimately show ?thesis
    unfolding keeps_def same by (simp add: mark_published_with_warning_def)
qed

lemma mark_keeps_settled:
  "wal_inv cd (wal c) (disk wd) \<Longrightarrow> settled cd wd \<Longrightarrow>
     keeps cd (wal c) wd (mark_published_with_warning cd no_faults sq c wd)"
  by (rule mark_keeps) (simp_all add: settled_def)

text \<open>The fields the buffer operations leave alone.\<close>

lemma signal_fields [simp]:
  "wal (check_backpressure p q c) = wal c" "client (check_backpressure p q c) = client c"
  "connected (check_backpressure p q c) = connected c" "buffer (check_backpressure p q c) = buffer c"
  "buffer_size_bytes (check_backpressure p q c) = buffer_size_bytes c"
  "max_buffer_size (check_backpressure p q c) = max_buffer_size c"
  by (simp_all add: check_backpressure_def try_send_signal_def Let_def)

lemma add_to_buffer_fields [simp]:
  "wal (snd (add_to_buffer b c)) = wal c" "client (snd (add_to_buffer b c)) = client c"
  "connected (snd (add_to_buffer b c)) = connected c"
  "max_buffer_size (snd (add_to_buffer b c)) = max_buffer_size c"
  by (simp_all add: add_to_buffer_def Let_def)

lemma add_to_bufferD:
  "add_to_buffer b c = (res, c') \<Longrightarrow> wal c' = wal c \<and> client c' = client c \<and> connected c' = connected c"
  by (metis add_to_buffer_fields(1-3) snd_conv)

lemma flush_loop_keeps:
  assumes "wal_inv cd (wal c) (disk wd)" "settled cd wd"
    and "flush_loop cd no_faults bs n c wd = (m, c', wd')"
  shows "keeps cd (wal c) wd wd' \<and> wal c' = wal c \<and> client c' = client c \<and> (connected c' \<longrightarrow> connected c)"
  using assms
proof (induction bs arbitrary: n c wd)
  case Nil
  then show ?case by (auto intro: keeps_same_disk)
next
  case (Cons b bs)
  obtain res wd1 where pub: "publish_to_broker (buf_event b) (buf_topic b) (buf_sequence b) c wd = (res, wd1)"
    by force
  have k1: "keeps cd (wal c) wd wd1" by (rule publish_keeps [OF Cons.prems(1) pub])
  show ?case
  proof (cases res)
    case (Inl e)
    then show ?thesis using Cons.prems(3) k1 by (auto simp: pub)
  next
    case (Inr x)
    let ?c = "c\<lparr>buffer_size_bytes := buffer_size_bytes c - buf_size b\<rparr>"
    let ?wd = "mark_published_with_warning cd no_faults (buf_sequence b) ?c wd1"
    have k2: "keeps cd (wal c) wd1 ?wd"
      using mark_keeps_settled [of cd ?c wd1 "buf_sequence b"] keeps_inv [OF k1]
        settled_keeps [OF Cons.prems(2) k1] by simp
    have "flush_loop cd no_faults bs (usat (n + 1)) ?c ?wd = (m, c', wd')"
      using Cons.prems(3) by (simp add: pub Inr Let_def)
    from Cons.IH [OF _ _ this] keeps_inv [OF k2] settled_keeps [OF Cons.prems(2) keeps_trans [OF k1 k2]]
    show ?thesis using keeps_trans [OF keeps_trans [OF k1 k2]] by simp
  qed
qed

lemma flush_buffer_keeps:
  assumes "wal_inv cd (wal c) (disk wd)" "connected c \<Longrightarrow> settled cd wd"
    and "flush_buffer cd no_faults c wd = (m, c', wd')"
  shows "keeps cd (wal c) wd wd' \<and> wal c' = wal c \<and> client c' = client c \<and> (connected c' \<longrightarrow> connected c)"
proof (cases "\<not> connected c \<or> buffer c = []")
  case True
  then show ?thesis
    using assms(1,3) by (auto simp: flush_buffer_def intro: keeps_same_disk)
next
  case False
  obtain n c1 wd1 where fl: "flush_loop cd no_faults (buffer c) 0 c wd = (n, c1, wd1)"
    by (metis prod_cases3)
  from flush_loop_keeps [OF assms(1) _ fl] assms(2,3) False fl show ?thesis
    by (auto simp: flush_buffer_def Let_def)
qed

text \<open>
  A replay delivers a prefix of the entries it is given, up to the first failure, and remembers the
  number of the last of them.
\<close>

definition known :: "'ev WalEntry \<Rightarrow> bool" where
  "known e \<longleftrightarrow> is_ok (entry_type e)"

lemma replay_each_offline:
  assumes "replay_each jt es n sq c wd = (n', sq', c', wd')" "\<not> connected c"
  shows "sq' = sq \<and> wd' = wd \<and> \<not> connected c' \<and> wal c' = wal c \<and> client c' = client c"
  using assms
proof (induction es arbitrary: n sq c wd)
  case (Cons e es)
  show ?case
  proof (cases "entry_type e")
    case (Inl err)
    with Cons show ?thesis by simp
  next
    case (Inr ty)
    let ?b = "BufferedEvent_new jt (entry_sequence e) (entry_event e) (type_topic ty)"
    have fields: "wal (snd (add_to_buffer ?b c)) = wal c" "client (snd (add_to_buffer ?b c)) = client c"
      "connected (snd (add_to_buffer ?b c)) = connected c" by simp_all
    obtain res c1 where add: "add_to_buffer ?b c = (res, c1)" by force
    show ?thesis
    proof (cases res)
      case (Inl err)
      with Cons.prems fields show ?thesis by (simp add: Inr add)
    next
      case (Inr x)
      with Cons.prems \<open>entry_type e = Inr ty\<close> have "replay_each jt es n sq c1 wd = (n', sq', c', wd')"
        by (simp add: add)
      from Cons.IH [OF this] Cons.prems(2) fields show ?thesis by (simp add: add)
    qed
  qed
qed simp

lemma replay_each_effect:
  assumes "replay_each jt es n sq c wd = (n', sq', c', wd')" "list_all known es"
  shows "disk wd' = disk wd \<and> set (received wd) \<subseteq> set (received wd') \<and> wal c' = wal c \<and> client c' = client c
     \<and> (\<exists>ys zs. es = ys @ zs \<and> list_all (delivered wd') ys
          \<and> sq' = (if ys = [] then sq else entry_sequence (last ys))
          \<and> (connected c' \<longrightarrow> connected c \<and> zs = []))"
  using assms
proof (induction es arbitrary: n sq c wd)
  case Nil
  then show ?case by auto
next
  case (Cons e es)
  obtain ty where ty: "entry_type e = Ok ty"
    using Cons.prems(2) by (auto simp: known_def elim: is_okE)
  let ?b = "BufferedEvent_new jt (entry_sequence e) (entry_event e) (type_topic ty)"
  show ?case
  proof (cases "connected c")
    case False
    from replay_each_offline [OF Cons.prems(1) this] show ?thesis
      by (intro conjI exI [of _ "[]"] exI [of _ "e # es"]) simp_all
  next
    case True
    obtain res wd1 where pub: "publish_to_broker (entry_event e) (type_topic ty) (entry_sequence e) c wd = (res, wd1)"
      by force
    note eff = publish_to_broker_effect [OF pub]
    show ?thesis
    proof (cases res)
      case (Inl err)
      then have "(n', sq', c', wd') = (n, sq, snd (add_to_buffer ?b (c\<lparr>connected := False\<rparr>)), wd1)"
        using Cons.prems(1) True by (simp add: ty Let_def pub)
      then show ?thesis using eff by (intro conjI exI [of _ "[]"] exI [of _ "e # es"]) simp_all
    next
      case (Inr x)
      then have "replay_each jt es (usat (n + 1)) (entry_sequence e) c wd1 = (n', sq', c', wd')"
        using Cons.prems(1) True by (simp add: ty Let_def pub)
      note IH = Cons.IH [OF this]
      then obtain ys zs where ih: "es = ys @ zs" "list_all (delivered wd') ys"
        "sq' = (if ys = [] then entry_sequence e else entry_sequence (last ys))"
        "connected c' \<longrightarrow> zs = []" "set (received wd1) \<subseteq> set (received wd')"
        using Cons.prems(2) by auto
      have "delivered wd1 e" using eff(3) Inr by (simp add: delivered_def ty)
      then have "delivered wd' e" using ih(5) by (rule delivered_mono)
      with ih IH eff True Cons.prems(2) show ?thesis
        by (intro conjI exI [of _ "e # ys"] exI [of _ zs]) auto
    qed
  qed
qed

definition all_known :: "'json ProcessEvent wal_codec \<Rightarrow> world \<Rightarrow> bool" where
  "all_known cd wd \<longleftrightarrow> list_all known (log_entries cd (disk wd))"

lemma keeps_known: "keeps cd w wd wd' \<Longrightarrow> all_known cd wd \<Longrightarrow> all_known cd wd'"
  by (auto simp: keeps_def all_known_def list_all_iff)

lemma replay_wal_keeps:
  assumes inv: "wal_inv cd (wal c) (disk wd)" and kn: "all_known cd wd"
    and rep: "replay_wal cd no_faults jt c wd = (res, c', wd')"
  shows "keeps cd (wal c) wd wd' \<and> wal c' = wal c \<and> client c' = client c
     \<and> (connected c' \<longrightarrow> connected c \<and> settled cd wd')"
proof (cases "log_entries cd (disk wd) = []")
  case True
  then have "c' = c" "wd' = wd" using rep by (auto simp: replay_wal_def replay_entries_log)
  with inv True show ?thesis by (simp add: keeps_def settled_def)
next
  case False
  let ?es = "log_entries cd (disk wd)"
  obtain n sq c1 wd1 where each: "replay_each jt ?es 0 0 c wd = (n, sq, c1, wd1)"
    by (metis prod_cases4)
  obtain ys zs where eff: "disk wd1 = disk wd" "set (received wd) \<subseteq> set (received wd1)" "wal c1 = wal c"
      "client c1 = client c" "?es = ys @ zs" "list_all (delivered wd1) ys"
      "sq = (if ys = [] then 0 else entry_sequence (last ys))" "connected c1 \<longrightarrow> connected c \<and> zs = []"
    using replay_each_effect [OF each] kn by (auto simp: all_known_def)
  define wd2 where "wd2 = (if sq > 0 then mark_published_with_warning cd no_faults sq c1 wd1 else wd1)"
  obtain m c3 wd3 where fl: "flush_buffer cd no_faults c1 wd2 = (m, c3, wd3)"
    by (metis prod_cases3)
  have fin: "c' = c3" "wd' = wd3"
    using rep False each fl by (auto simp: replay_wal_def replay_entries_log wd2_def Let_def)
  have k1: "keeps cd (wal c) wd wd1" by (rule keeps_same_disk [OF inv eff(1,2)])
  have k2: "keeps cd (wal c) wd1 wd2"
  proof (cases "ys = []")
    case True
    then show ?thesis using eff inv by (simp add: wd2_def keeps_def)
  next
    case False
    have below: "\<forall>e \<in> set (log_entries cd (disk wd1)). entry_sequence e \<le> sq \<longrightarrow> delivered wd1 e"
      using wal_store.prefix_below [of cd "(wal c, disk wd)" ys zs] inv eff False
      by (auto simp: list_all_iff)
    have inv1: "wal_inv cd (wal c1) (disk wd1)" using inv eff by simp
    from mark_keeps [OF inv1 below] show ?thesis
      using inv1 eff by (auto simp: wd2_def keeps_def)
  qed
  have settled2: "settled cd wd2" if "connected c1"
  proof -
    have "settled cd wd1"
      using eff that by (auto simp: settled_def list_all_iff)
    then show ?thesis using settled_keeps k2 by blast
  qed
  have inv2: "wal_inv cd (wal c1) (disk wd2)" using keeps_inv [OF k2] eff by simp
  from flush_buffer_keeps [OF inv2 settled2 fl] have k3: "keeps cd (wal c) wd2 wd3"
    and c3: "wal c3 = wal c" "client c3 = client c" "connected c3 \<longrightarrow> connected c1"
    by (simp_all add: eff)
  have "connected c3 \<longrightarrow> connected c \<and> settled cd wd3"
    using c3(3) eff(8) settled2 settled_keeps [OF _ k3] by blast
  with c3 keeps_trans [OF keeps_trans [OF k1 k2] k3] show ?thesis
    by (simp add: fin)
qed

lemma keeps_refl: "wal_inv cd w (disk wd) \<Longrightarrow> keeps cd w wd wd"
  by (rule keeps_same_disk) auto

lemma attempt_effect:
  "disk (snd (attempt wd)) = disk wd" "received (snd (attempt wd)) = received wd"
  by (simp_all add: attempt_def)

lemma try_reconnect_keeps:
  assumes inv: "wal_inv cd (wal c) (disk wd)" and kn: "all_known cd wd" and off: "\<not> connected c"
    and rec: "try_reconnect cd no_faults jt c wd = (res, c', wd')"
  shows "keeps cd (wal c) wd wd' \<and> wal c' = wal c \<and> (connected c' \<longrightarrow> client c' \<and> settled cd wd')"
proof -
  obtain ok wd1 where att: "attempt wd = (ok, wd1)" by force
  have wd1: "disk wd1 = disk wd" "received wd1 = received wd"
    using attempt_effect [of wd] by (simp_all add: att)
  have k1: "keeps cd (wal c) wd wd1" using inv wd1 by (simp add: keeps_def)
  have kn1: "all_known cd wd1" using kn wd1 by (simp add: all_known_def)
  let ?c = "c\<lparr>client := True, connected := True, reconnect_attempts := 0, last_reconnect_attempt := None\<rparr>"
  obtain r2 c2 wd2 where rep: "replay_wal cd no_faults jt ?c wd1 = (r2, c2, wd2)"
    by (metis prod_cases3)
  have "wal_inv cd (wal ?c) (disk wd1)" using inv wd1 by simp
  from replay_wal_keeps [OF this kn1 rep] have r: "keeps cd (wal c) wd1 wd2" "wal c2 = wal c"
    "client c2" "connected c2 \<longrightarrow> settled cd wd2" by simp_all
  consider "c' = c" "wd' = wd" | "\<not> ok" "\<not> connected c'" "wal c' = wal c" "wd' = wd1" | "c' = c2" "wd' = wd2"
    using rec att rep off by (auto simp: try_reconnect_def Let_def split: if_splits)
  then show ?thesis
  proof cases
    case 1
    then show ?thesis using off keeps_refl [OF inv] by simp
  next
    case 2
    then show ?thesis using k1 by simp
  next
    case 3
    then show ?thesis using r keeps_trans [OF k1 r(1)] by simp
  qed
qed

text \<open>The entry of a published event carries its type.\<close>

lemma entry_type_written [simp]: "entry_type (written_entry cd lower sq event ty) = Ok ty"
  by (cases ty) (simp_all add: entry_type_def written_entry_def with_event_type_def to_type_string_def from_type_string_def)

lemma written_fields [simp]:
  "entry_event (written_entry cd lower sq event ty) = sanitize_event lower event"
  "entry_sequence (written_entry cd lower sq event ty) = sq"
  by (simp_all add: written_entry_def with_event_type_def)

text \<open>The entries the log can give back: redaction leaves the metadata of an event as it is.\<close>

abbreviation readable :: "'json ProcessEvent WalEntry \<Rightarrow> bool" where
  "readable e \<equiv> metadata_free (entry_event e)"

lemma metadata_free_sanitize [simp]: "metadata_free (sanitize_event lower event) = metadata_free event"
  by (simp add: metadata_free_def sanitize_event_def Let_def split: option.split)

lemma try_publish_keeps:
  assumes inv: "wal_inv cd (wal c) (disk wd)" and cl: "client c"
    and rest: "\<forall>e \<in> set (log_entries cd (disk wd)). e = written_entry cd lower sq event ty \<or> delivered wd e"
    and out: "try_publish_or_buffer cd no_faults jt sq (sanitize_event lower event) (type_topic ty) c wd = (res, c', wd')"
  shows "keeps cd (wal c) wd wd' \<and> wal c' = wal c \<and> client c' \<and> (connected c' \<longrightarrow> settled cd wd')"
proof -
  obtain r wd1 where pub: "publish_to_broker (sanitize_event lower event) (type_topic ty) sq c wd = (r, wd1)"
    by force
  have k1: "keeps cd (wal c) wd wd1" by (rule publish_keeps [OF inv pub])
  show ?thesis
  proof (cases r)
    case (Inl e)
    then have "wd' = wd1" "wal c' = wal c" "client c'" "\<not> connected c'"
      using out cl by (auto simp: try_publish_or_buffer_def pub buffer_event_def split: prod.splits dest: add_to_bufferD)
    with k1 show ?thesis by simp
  next
    case (Inr x)
    have "delivered wd1 (written_entry cd lower sq event ty)"
      using publish_to_broker_effect(3) [OF pub] Inr by (simp add: delivered_def)
    then have s1: "settled cd wd1"
      using rest k1 unfolding settled_def by (metis keeps_def keeps_delivered subset_iff)
    have k2: "keeps cd (wal c) wd1 (mark_published_with_warning cd no_faults sq c wd1)"
      by (rule mark_keeps_settled [OF keeps_inv [OF k1] s1])
    have "c' = c" "wd' = mark_published_with_warning cd no_faults sq c wd1"
      using out by (auto simp: try_publish_or_buffer_def pub Inr)
    with cl keeps_trans [OF k1 k2] settled_keeps [OF s1 k2] show ?thesis by simp
  qed
qed

section \<open>Delivery\<close>

definition storable :: "'json ProcessEvent wal_codec \<Rightarrow> (string \<Rightarrow> string) \<Rightarrow> 'json ProcessEvent \<Rightarrow> bool" where
  "storable cd lower event \<longleftrightarrow> (\<forall>sq ty. writable cd (written_entry cd lower sq event ty))"

text \<open>
  The invariant: the log is well-formed with room for \<open>n\<close> more events, a connected connector has
  delivered everything in its log, and the events in \<open>acked\<close> are in the log or delivered.
\<close>

definition conn_inv ::
    "'json ProcessEvent wal_codec \<Rightarrow> nat \<Rightarrow> 'json ProcessEvent WalEntry set \<Rightarrow> 'json EventBusConnector \<Rightarrow> world \<Rightarrow> bool" where
  "conn_inv cd n acked c wd \<longleftrightarrow> wal_inv cd (wal c) (disk wd) \<and> has_room n (wal c) \<and> all_known cd wd
     \<and> (connected c \<longrightarrow> client c \<and> settled cd wd)
     \<and> (\<forall>e \<in> acked. e \<in> set (log_entries cd (disk wd)) \<or> delivered wd e)"

lemma conn_inv_keeps:
  assumes "conn_inv cd n acked c wd" "keeps cd (wal c) wd wd'" "wal c' = wal c"
    and "connected c' \<Longrightarrow> client c' \<and> settled cd wd'"
  shows "conn_inv cd n acked c' wd'"
proof -
  have "e \<in> set (log_entries cd (disk wd')) \<or> delivered wd' e" if "e \<in> acked" for e
    using assms(1,2) that unfolding conn_inv_def by (metis keeps_def keeps_delivered)
  then show ?thesis
    using assms keeps_inv [OF assms(2)] keeps_known [OF assms(2)] by (simp add: conn_inv_def)
qed

lemma write_with_type_inv:
  assumes "postcard_ok cd" "wal_inv cd w dir" "has_room (Suc n) w" "storable cd lower event"
  obtains w' dir' where
    "write_with_type cd no_faults (sanitize_event lower event) (to_type_string ty) w dir =
       (Ok (current_event_sequence w), w', dir')"
    and "wal_inv cd w' dir'" "has_room n w'"
    and "log_entries cd dir' = log_entries cd dir
      @ filter readable [written_entry cd lower (current_event_sequence w) event ty]"
proof -
  let ?e = "written_entry cd lower (current_event_sequence w) event ty"
  have seq: "entry_sequence ?e = current_event_sequence w" by simp
  have room: "has_room 1 w" using assms(3) by (simp add: has_room_def)
  have wr: "writable cd ?e" "verify cd ?e"
    using assms(4) by (auto simp: storable_def written_entry_def)
  obtain w' dir' where w': "write_entry cd no_faults ?e (snd (take_sequence w)) dir =
        (Ok (entry_sequence ?e), w', dir')" "wal_inv cd w' dir'"
      "log_entries cd dir' = log_entries cd dir @ filter readable [?e]"
      "current_event_sequence w' = current_event_sequence w + 1"
      "unat (current_file_sequence w') \<le> unat (current_file_sequence w) + 1"
    using write_entry_inv [OF assms(1) [unfolded postcard_ok_def] assms(2) room wr seq] by blast
  have "has_room n w'"
    using assms(3) w'(4,5) unat_Suc_u64 [of "current_event_sequence w"] by (simp add: has_room_def)
  with w' show thesis
    by (intro that [of w' dir']) (simp_all add: write_with_type_def take_sequence_def written_entry_def
        with_event_type_def)
qed

text \<open>
  Publishing keeps the invariant, and an event without metadata is in the log or delivered, whatever it
  returns.
\<close>

lemma publish_inv:
  assumes post: "postcard_ok cd" and st: "storable cd lower event" and ci: "conn_inv cd (Suc n) acked c wd"
    and pub: "publish cd no_faults jt lower event ty c wd = (res, c', wd')"
  shows "conn_inv cd n (acked \<union> set (filter readable [written_entry cd lower (current_event_sequence (wal c)) event ty])) c' wd'"
    and "res = Ok sq \<Longrightarrow> sq = current_event_sequence (wal c)"
proof -
  let ?sq = "current_event_sequence (wal c)" and ?ev = "sanitize_event lower event"
  let ?e = "written_entry cd lower ?sq event ty" and ?top = "type_topic ty"
  let ?new = "filter readable [?e]"
  have pre: "wal_inv cd (wal c) (disk wd)" "has_room (Suc n) (wal c)"
    using ci by (auto simp: conn_inv_def)
  obtain w dir where wr: "write_with_type cd no_faults ?ev (to_type_string ty) (wal c) (disk wd) = (Ok ?sq, w, dir)"
    "wal_inv cd w dir" "has_room n w" "log_entries cd dir = log_entries cd (disk wd) @ ?new"
    using write_with_type_inv [OF post pre st, of ty] by blast
  define c1 where "c1 = c\<lparr>wal := w\<rparr>"
  define wd1 where "wd1 = wd\<lparr>disk := dir\<rparr>"
  have same: "delivered wd1 e = delivered wd e" for e :: "'a ProcessEvent WalEntry"
    by (rule delivered_same) (simp add: wd1_def)
  have log1: "log_entries cd (disk wd1) = log_entries cd (disk wd) @ ?new" "wal c1 = w" "disk wd1 = dir"
    by (simp_all add: wd1_def c1_def wr(4))
  have kn1: "all_known cd wd1"
    using ci by (simp add: all_known_def conn_inv_def log1(1) known_def)
  have acked1: "\<forall>e \<in> acked \<union> set ?new. e \<in> set (log_entries cd (disk wd1)) \<or> delivered wd1 e"
    using ci by (auto simp: conn_inv_def same log1(1))
  have finish: "conn_inv cd n (acked \<union> set ?new) c' wd'"
    if "keeps cd w wd1 wd'" "wal c' = w" "connected c' \<longrightarrow> client c' \<and> settled cd wd'"
  proof -
    have "conn_inv cd n (acked \<union> set ?new) (c1\<lparr>connected := False\<rparr>) wd1"
      using wr(2,3) log1(2,3) kn1 acked1 by (simp add: conn_inv_def del: filter.simps)
    from conn_inv_keeps [OF this] that log1(2) show ?thesis by simp
  qed
  define p where "p = (if \<not> connected c1 then snd (try_reconnect cd no_faults jt c1 wd1) else (c1, wd1))"
  obtain c2 wd2 where p: "p = (c2, wd2)" by force
  have re: "keeps cd w wd1 wd2 \<and> wal c2 = w \<and> (connected c2 \<longrightarrow> client c2)
      \<and> (connected c2 \<longrightarrow> (\<forall>e \<in> set (log_entries cd (disk wd2)). e = ?e \<or> delivered wd2 e))"
  proof (cases "connected c1")
    case True
    then have "c2 = c1" "wd2 = wd1" using p by (simp_all add: p_def)
    with True ci wr(2) show ?thesis
      by (auto simp: conn_inv_def settled_def same log1 wr(4) c1_def intro: keeps_refl split: if_splits)
  next
    case False
    then obtain r where "try_reconnect cd no_faults jt c1 wd1 = (r, c2, wd2)"
      using p by (cases "try_reconnect cd no_faults jt c1 wd1") (simp add: p_def)
    from try_reconnect_keeps [OF _ kn1 False this] wr(2) show ?thesis
      by (auto simp: log1(2,3) settled_def)
  qed
  have out: "publish cd no_faults jt lower event ty c wd =
     (let (r, c, wd) = (if connected c2 then try_publish_or_buffer cd no_faults jt ?sq ?ev ?top c2 wd2
            else let (r, c) = buffer_event jt ?sq ?ev ?top c2 in (r, c, wd2))
      in case r of Ok _ \<Rightarrow> (Ok ?sq, c, wd) | Err e \<Rightarrow> (Err e, c, wd))"
    unfolding publish_def wr(1) Let_def using p unfolding p_def c1_def wd1_def by simp
  show "conn_inv cd n (acked \<union> set ?new) c' wd'"
  proof (cases "connected c2")
    case True
    obtain r c3 wd3 where t: "try_publish_or_buffer cd no_faults jt ?sq ?ev ?top c2 wd2 = (r, c3, wd3)"
      by (metis prod_cases3)
    have fin: "c' = c3" "wd' = wd3" using pub by (auto simp: out True t split: sum.splits)
    have "keeps cd (wal c2) wd2 wd3 \<and> wal c3 = wal c2 \<and> client c3 \<and> (connected c3 \<longrightarrow> settled cd wd3)"
      using re True keeps_inv by (intro try_publish_keeps [OF _ _ _ t]) auto
    with re show ?thesis by (intro finish) (auto simp: fin intro: keeps_trans)
  next
    case False
    obtain r c3 where b: "add_to_buffer (BufferedEvent_new jt ?sq ?ev ?top) c2 = (r, c3)" by force
    have "c' = c3" "wd' = wd2" using pub by (auto simp: out False buffer_event_def b split: sum.splits)
    with add_to_bufferD [OF b] re False show ?thesis by (intro finish) auto
  qed
  assume "res = Ok sq"
  with pub show "sq = ?sq" by (auto simp: out split: sum.splits prod.splits)
qed

lemma start_up_inv:
  assumes "wal_inv cd w (disk wd)" "has_room n w" "all_known cd wd"
    and "\<forall>e \<in> acked. e \<in> set (log_entries cd (disk wd)) \<or> delivered wd e"
  shows "\<exists>c' wd'. start_up cd no_faults jt wd = (Ok c', wd') \<and> conn_inv cd n acked c' wd'"
proof -
  obtain w' where w': "WriteAheadLog_new cd no_faults (disk wd) = (Ok w', disk wd)" "wal_inv cd w' (disk wd)"
    "current_file_sequence w' = current_file_sequence w"
    "current_event_sequence w' = (if log_entries cd (disk wd) = [] then 1
       else entry_sequence (last (log_entries cd (disk wd))) + 1)"
    using reopen_ok [OF assms(1), of DEFAULT_ROTATION_THRESHOLD] by (auto simp: WriteAheadLog_new_def replay_entries_log)
  have "unat (current_event_sequence w') \<le> unat (current_event_sequence w)"
  proof (cases "log_entries cd (disk wd) = []")
    case True
    then show ?thesis using assms(1) w'(4) by (simp add: wal_inv_def word_less_nat_alt)
  next
    case False
    then have "entry_sequence (last (log_entries cd (disk wd))) < current_event_sequence w"
      using assms(1) last_in_set by (auto simp: wal_inv_def log_ok_def)
    then show ?thesis
      using False w'(4) by (simp add: word_less_nat_alt unat_word_ariths mod_less_eq_dividend [THEN order_trans])
  qed
  then have room: "has_room n w'"
    using assms(2) w'(3) by (simp add: has_room_def)
  obtain c where c: "EventBusConnector_new cd no_faults wd = (Ok c, wd)" "wal c = w'" "\<not> connected c"
    using w'(1) by (simp add: EventBusConnector_new_def)
  have ci: "conn_inv cd n acked c wd"
    using assms w'(2) room c by (simp add: conn_inv_def)
  obtain r c1 wd1 where con: "connect c wd = (r, c1, wd1)" by (metis prod_cases3)
  have k1: "keeps cd (wal c) wd wd1" "wal c1 = wal c" "is_ok r \<longrightarrow> client c1" "\<not> is_ok r \<longrightarrow> \<not> connected c1"
    using con c w'(2) by (auto simp: connect_def attempt_def Let_def keeps_def delivered_def split: option.splits if_splits sum.splits)
  show ?thesis
  proof (cases r)
    case (Inl e)
    with k1 conn_inv_keeps [OF ci k1(1,2)] have "conn_inv cd n acked c1 wd1" by simp
    with Inl c con show ?thesis by (simp add: start_up_def)
  next
    case (Inr x)
    obtain r2 c2 wd2 where rep: "replay_wal cd no_faults jt c1 wd1 = (r2, c2, wd2)" by (metis prod_cases3)
    have "wal_inv cd (wal c1) (disk wd1)" "all_known cd wd1"
      using keeps_inv [OF k1(1)] k1(2) keeps_known [OF k1(1) assms(3)] by simp_all
    from replay_wal_keeps [OF this rep] have "keeps cd (wal c) wd1 wd2" "wal c2 = wal c"
      "client c2 = client c1" "connected c2 \<longrightarrow> settled cd wd2" by (simp_all add: k1)
    with Inr k1 conn_inv_keeps [OF ci keeps_trans [OF k1(1)]] have "conn_inv cd n acked c2 wd2" by simp
    with Inr c con rep show ?thesis by (simp add: start_up_def)
  qed
qed

lemma conn_inv_world:
  assumes "conn_inv cd n acked c wd" "disk wd' = disk wd" "received wd' = received wd"
  shows "conn_inv cd n acked c wd'"
proof -
  have "delivered wd' e = delivered wd e" for e :: "'a ProcessEvent WalEntry"
    using assms(3) by (rule delivered_same)
  then show ?thesis
    using assms(1,2) by (simp add: conn_inv_def settled_def all_known_def)
qed

lemma has_room_less: "has_room (Suc n) w \<Longrightarrow> has_room n w"
  by (simp add: has_room_def)

lemma conn_step_inv:
  assumes post: "postcard_ok cd" and ci: "conn_inv cd (Suc n) acked c wd"
    and st: "\<And>t event ty. call = Publish t event ty \<Longrightarrow> storable cd lower event"
    and step: "conn_step cd no_faults jt lower call c wd = (new, c', wd')"
  shows "conn_inv cd n (acked \<union> set (filter readable new)) c' wd'"
proof (cases call)
  case (Publish t event ty)
  let ?wd = "wd\<lparr>now := t\<rparr>"
  have ci': "conn_inv cd (Suc n) acked c ?wd" by (rule conn_inv_world [OF ci]) simp_all
  obtain res c1 wd1 where pub: "publish cd no_faults jt lower event ty c ?wd = (res, c1, wd1)"
    by (metis prod_cases3)
  note inv = publish_inv [OF post st [OF Publish] ci' pub]
  show ?thesis
  proof (cases res)
    case (Inl e)
    with step Publish pub inv(1) show ?thesis by (auto simp: conn_inv_def)
  next
    case (Inr sq)
    with inv(2) [of sq] step Publish pub inv(1) show ?thesis by auto
  qed
next
  case (Replay_Wal t)
  let ?wd = "wd\<lparr>now := t\<rparr>"
  have ci': "conn_inv cd (Suc n) acked c ?wd" by (rule conn_inv_world [OF ci]) simp_all
  obtain res c1 wd1 where rep: "replay_wal cd no_faults jt c ?wd = (res, c1, wd1)" by (metis prod_cases3)
  have "wal_inv cd (wal c) (disk ?wd)" "all_known cd ?wd" using ci' by (auto simp: conn_inv_def)
  from replay_wal_keeps [OF this rep] ci' have "conn_inv cd (Suc n) acked c1 wd1"
    by (intro conn_inv_keeps [OF ci']) (auto simp: conn_inv_def)
  then show ?thesis
    using step Replay_Wal rep by (auto simp: conn_inv_def intro: has_room_less)
next
  case (Restart t socket)
  let ?wd = "wd\<lparr>now := t, broker_socket := socket\<rparr>"
  have ci': "conn_inv cd (Suc n) acked c ?wd" by (rule conn_inv_world [OF ci]) simp_all
  then obtain c1 wd1 where "start_up cd no_faults jt ?wd = (Ok c1, wd1)" "conn_inv cd (Suc n) acked c1 wd1"
    using start_up_inv [of cd "wal c" ?wd "Suc n" acked jt] by (auto simp: conn_inv_def)
  then show ?thesis
    using step Restart by (auto simp: conn_inv_def intro: has_room_less)
next
  case (Shutdown t)
  let ?wd = "wd\<lparr>now := t\<rparr>"
  have ci': "conn_inv cd (Suc n) acked c ?wd" by (rule conn_inv_world [OF ci]) simp_all
  obtain m c1 wd1 where fl: "flush_buffer cd no_faults c ?wd = (m, c1, wd1)" by (metis prod_cases3)
  have "wal_inv cd (wal c) (disk ?wd)" "connected c \<Longrightarrow> settled cd ?wd" using ci' by (auto simp: conn_inv_def)
  from flush_buffer_keeps [OF this fl] keeps_refl [OF this(1)] have
    "\<exists>c2 wd2. shutdown cd no_faults c ?wd = (Ok (), c2, wd2) \<and> keeps cd (wal c) ?wd wd2 \<and> wal c2 = wal c \<and> \<not> connected c2"
    by (auto simp: shutdown_def fl)
  then obtain c2 wd2 where sh: "shutdown cd no_faults c ?wd = (Ok (), c2, wd2)" "keeps cd (wal c) ?wd wd2"
    "wal c2 = wal c" "\<not> connected c2" by blast
  from conn_inv_keeps [OF ci' sh(2,3)] sh(4) have "conn_inv cd (Suc n) acked c2 wd2" by simp
  then show ?thesis
    using step Shutdown sh(1) by (auto simp: conn_inv_def intro: has_room_less)
next
  case Take_Receiver
  then show ?thesis
    using step ci by (auto simp: conn_inv_def take_backpressure_receiver_def intro: has_room_less)
qed

fun call_storable :: "'json ProcessEvent wal_codec \<Rightarrow> (string \<Rightarrow> string) \<Rightarrow> 'json conn_call \<Rightarrow> bool" where
  "call_storable cd lower (Publish t event ty) = storable cd lower event"
| "call_storable cd lower _ = True"

lemma conn_run_inv:
  assumes "postcard_ok cd" "conn_inv cd (length calls) acked c wd" "list_all (call_storable cd lower) calls"
    and "conn_run cd no_faults jt lower calls c wd = (new, c', wd')"
  shows "conn_inv cd 0 (acked \<union> set (filter readable new)) c' wd'"
  using assms(2-4)
proof (induction calls arbitrary: acked c wd new)
  case (Cons call calls)
  obtain new1 c1 wd1 where step: "conn_step cd no_faults jt lower call c wd = (new1, c1, wd1)"
    by (metis prod_cases3)
  obtain new2 where run: "conn_run cd no_faults jt lower calls c1 wd1 = (new2, c', wd')" "new = new1 @ new2"
    using Cons.prems(3) by (auto simp: step split: prod.splits)
  have "conn_inv cd (length calls) (acked \<union> set (filter readable new1)) c1 wd1"
    using Cons.prems(1,2) by (intro conn_step_inv [OF assms(1) _ _ step]) auto
  from Cons.IH [OF this _ run(1)] Cons.prems(2) run(2) show ?case by (simp add: Un_assoc del: set_filter)
qed simp

text \<open>
  Claim C3: events without metadata are delivered at least once. However the broker behaves, and however often
  the process monitor crashes between two calls and starts again, every event without metadata whose publication
  was acknowledged, and every event found in the log at the first start, is still in the log or was taken by the
  broker under the topic of its type, redacted and with its sequence number. While the connector is
  connected all of them have been taken. What is in the log is still returned by a replay when the next write is
  cut short by a crash. This needs the system calls of the log to succeed, what a returned write wrote to be in
  the file, each event to serialize to less than \<open>2 ^ 32\<close> bytes, room in the counters, and known event types in
  the log found at the start; each start replays the log after it connects.
\<close>

theorem connector_at_least_once:
  assumes "postcard_ok cd" "wal_inv cd w (disk wd)" "has_room (length calls) w"
    and "list_all known (log_entries cd (disk wd))" "list_all (call_storable cd lower) calls"
    and "start_up cd no_faults jt wd = (Ok c, wd1)"
    and "conn_run cd no_faults jt lower calls c wd1 = (acked, c', wd')"
  shows "\<exists>old es. replay_entries cd no_faults (disk wd) = Ok old \<and> replay_entries cd no_faults (disk wd') = Ok es
     \<and> (\<forall>e \<in> set old \<union> set (filter (\<lambda>e. metadata_free (entry_event e)) acked). e \<in> set es \<or> delivered wd' e)
     \<and> (connected c' \<longrightarrow>
          (\<forall>e \<in> set old \<union> set (filter (\<lambda>e. metadata_free (entry_event e)) acked). delivered wd' e))
     \<and> (\<forall>ser torn. frame_valid ser \<longrightarrow> strict_prefix torn (frame ser) \<longrightarrow>
          replay_entries cd no_faults (append_bytes (state_file (file_state (wal c'))) torn (disk wd')) = Ok es)"
proof -
  let ?old = "log_entries cd (disk wd)"
  have "conn_inv cd (length calls) (set ?old) c wd1"
    using start_up_inv [OF assms(2,3), of "set ?old" jt] assms(4,6) by (auto simp: all_known_def)
  from conn_run_inv [OF assms(1) this assms(5,7)]
  have run: "conn_inv cd 0 (set ?old \<union> set (filter readable acked)) c' wd'" .
  then have "wal_inv cd (wal c') (disk wd')" by (simp add: conn_inv_def)
  note torn = log_entries_torn [OF this]
  show ?thesis
    using run torn by (auto simp: conn_inv_def settled_def replay_entries_log)
qed

text \<open>
  The limit of this claim: an event with metadata is written and acknowledged like any other, but replay
  returns the same before and after. While the broker is away it is in memory only.
\<close>

lemma metadata_event_not_replayed:
  assumes "postcard_ok cd" "wal_inv cd w dir" "has_room 1 w" "storable cd lower event" "\<not> metadata_free event"
  shows "\<exists>w' dir'. write_with_type cd no_faults (sanitize_event lower event) (to_type_string ty) w dir =
      (Ok (current_event_sequence w), w', dir') \<and> replay_entries cd no_faults dir' = replay_entries cd no_faults dir"
proof -
  have room: "has_room (Suc 0) w" using assms(3) by simp
  obtain w' dir' where "write_with_type cd no_faults (sanitize_event lower event) (to_type_string ty) w dir =
      (Ok (current_event_sequence w), w', dir')"
    "log_entries cd dir' = log_entries cd dir
      @ filter readable [written_entry cd lower (current_event_sequence w) event ty]"
    using write_with_type_inv [OF assms(1,2) room assms(4)] by blast
  with assms(5) show ?thesis by (auto simp: replay_entries_log)
qed

section \<open>The buffer\<close>

definition buffer_ok :: "'json EventBusConnector \<Rightarrow> bool" where
  "buffer_ok c \<longleftrightarrow> buffer_size_bytes c = sum_list (map buf_size (buffer c))
     \<and> buffer_size_bytes c \<le> max_buffer_size c \<and> max_buffer_size c = MAX_BUFFER_SIZE"

lemma buffer_ok_fields:
  "buffer c' = buffer c \<Longrightarrow> buffer_size_bytes c' = buffer_size_bytes c \<Longrightarrow> max_buffer_size c' = max_buffer_size c \<Longrightarrow>
     buffer_ok c \<Longrightarrow> buffer_ok c'"
  by (simp add: buffer_ok_def)

lemma add_to_buffer_ok: "buffer_ok c \<Longrightarrow> buffer_ok (snd (add_to_buffer b c))"
  by (auto simp: add_to_buffer_def buffer_ok_def Let_def usat_def MAX_BUFFER_SIZE_def)

lemma flush_loop_ok:
  "buffer_size_bytes c = sum_list (map buf_size bs) \<Longrightarrow> buffer_size_bytes c \<le> MAX_BUFFER_SIZE \<Longrightarrow>
     max_buffer_size c = MAX_BUFFER_SIZE \<Longrightarrow> buffer_ok (fst (snd (flush_loop cd flt bs n c wd)))"
proof (induction bs arbitrary: n c wd)
  case (Cons b bs)
  obtain res wd1 where pub: "publish_to_broker (buf_event b) (buf_topic b) (buf_sequence b) c wd = (res, wd1)"
    by force
  show ?case
  proof (cases res)
    case (Inl e)
    with pub Cons.prems show ?thesis by (simp add: buffer_ok_def)
  next
    case (Inr x)
    with pub Cons.prems show ?thesis by (simp add: Let_def Cons.IH)
  qed
qed (simp add: buffer_ok_def)

lemma flush_buffer_ok: "buffer_ok c \<Longrightarrow> buffer_ok (fst (snd (flush_buffer cd flt c wd)))"
proof -
  assume ok: "buffer_ok c"
  obtain m c1 wd1 where fl: "flush_loop cd flt (buffer c) 0 c wd = (m, c1, wd1)" by (metis prod_cases3)
  have "buffer_ok c1"
    using flush_loop_ok [of c "buffer c" cd flt 0 wd] ok by (simp add: fl buffer_ok_def)
  with ok show ?thesis by (auto simp: flush_buffer_def fl buffer_ok_def)
qed

lemma replay_each_ok: "buffer_ok c \<Longrightarrow> buffer_ok (fst (snd (snd (replay_each jt es n sq c wd))))"
proof (induction es arbitrary: n sq c wd)
  case (Cons e es)
  show ?case
  proof (cases "entry_type e")
    case (Inr ty)
    let ?b = "BufferedEvent_new jt (entry_sequence e) (entry_event e) (type_topic ty)"
    have "buffer_ok (c\<lparr>connected := False\<rparr>)" by (rule buffer_ok_fields [OF _ _ _ Cons.prems]) simp_all
    with Cons add_to_buffer_ok [of c ?b] add_to_buffer_ok [of "c\<lparr>connected := False\<rparr>" ?b] Inr show ?thesis
      by (auto simp: Let_def split: sum.splits prod.splits)
  qed (use Cons in simp)
qed simp

lemma replay_wal_ok: "buffer_ok c \<Longrightarrow> buffer_ok (fst (snd (replay_wal cd flt jt c wd)))"
proof -
  assume ok: "buffer_ok c"
  show ?thesis
  proof (cases "replay_entries cd flt (disk wd)")
    case (Inr es)
    have "buffer_ok (fst (snd (snd (replay_each jt es 0 0 c wd))))" by (rule replay_each_ok [OF ok])
    with Inr ok show ?thesis
      by (auto simp: replay_wal_def Let_def case_prod_beta intro: flush_buffer_ok)
  qed (use ok in \<open>simp add: replay_wal_def\<close>)
qed

lemma try_reconnect_ok:
  assumes "buffer_ok c"
  shows "buffer_ok (fst (snd (try_reconnect cd flt jt c wd)))"
proof -
  have up: "buffer_ok (c\<lparr>client := cl, connected := co, reconnect_attempts := n, last_reconnect_attempt := t\<rparr>)"
    "buffer_ok (c\<lparr>last_reconnect_attempt := t, reconnect_attempts := n\<rparr>)" for cl co n t
    by (rule buffer_ok_fields [OF _ _ _ assms]; simp)+
  show ?thesis
    using assms replay_wal_ok [OF up(1)] up(2)
    by (auto simp: try_reconnect_def Let_def case_prod_beta)
qed

lemma try_publish_ok:
  assumes "buffer_ok c"
  shows "buffer_ok (fst (snd (try_publish_or_buffer cd flt jt sq event topic c wd)))"
proof -
  have "buffer_ok (c\<lparr>connected := False\<rparr>)" by (rule buffer_ok_fields [OF _ _ _ assms]) simp_all
  from add_to_buffer_ok [OF this] assms show ?thesis
    by (auto simp: try_publish_or_buffer_def buffer_event_def case_prod_beta split: prod.split sum.split)
qed

lemma publish_ok:
  assumes "buffer_ok c"
  shows "buffer_ok (fst (snd (publish cd flt jt lower event ty c wd)))"
proof -
  have up: "buffer_ok (c\<lparr>wal := w\<rparr>)" for w by (rule buffer_ok_fields [OF _ _ _ assms]) simp_all
  show ?thesis
    using up add_to_buffer_ok [OF up] add_to_buffer_ok [OF try_reconnect_ok [OF up]]
      try_publish_ok [OF up] try_publish_ok [OF try_reconnect_ok [OF up]]
    by (simp add: publish_def Let_def case_prod_beta buffer_event_def split: prod.split sum.split)
qed

lemma start_up_ok:
  assumes "start_up cd flt jt wd = (Ok c, wd')"
  shows "buffer_ok c"
proof -
  obtain c0 wd0 where new: "EventBusConnector_new cd flt wd = (Ok c0, wd0)"
    using assms by (auto simp: start_up_def split: prod.splits sum.splits)
  then have "buffer_ok c0"
    by (auto simp: EventBusConnector_new_def buffer_ok_def split: prod.splits sum.splits)
  obtain r c1 wd1 where con: "connect c0 wd0 = (r, c1, wd1)" by (metis prod_cases3)
  have c1: "buffer_ok c1"
    by (rule buffer_ok_fields [OF _ _ _ \<open>buffer_ok c0\<close>])
      (use con in \<open>auto simp: connect_def Let_def split: if_splits option.splits prod.splits\<close>)
  show ?thesis
    using assms c1 replay_wal_ok [OF c1, of cd flt jt wd1] new con
    by (auto simp: start_up_def split: sum.splits prod.splits)
qed

lemma conn_step_ok:
  assumes "buffer_ok c" "conn_step cd flt jt lower call c wd = (new, c', wd')"
  shows "buffer_ok c'"
proof (cases call)
  case (Publish t event ty)
  then show ?thesis
    using assms publish_ok [OF assms(1), of cd flt jt lower event ty "wd\<lparr>now := t\<rparr>"]
    by (auto split: prod.splits sum.splits)
next
  case (Replay_Wal t)
  then show ?thesis using assms replay_wal_ok [OF assms(1), of cd flt jt "wd\<lparr>now := t\<rparr>"] by simp
next
  case (Restart t socket)
  then show ?thesis using assms start_up_ok by (auto split: prod.splits sum.splits)
next
  case (Shutdown t)
  have fields: "buffer_ok (d\<lparr>client := False, connected := False\<rparr>)" if "buffer_ok d" for d :: "'a EventBusConnector"
    by (rule buffer_ok_fields [OF _ _ _ that]) simp_all
  show ?thesis
    using Shutdown assms fields fields [OF flush_buffer_ok [OF assms(1)]]
    by (auto simp: shutdown_def Let_def case_prod_beta split: if_splits)
next
  case Take_Receiver
  then show ?thesis
    using assms by (auto simp: take_backpressure_receiver_def intro: buffer_ok_fields)
qed

text \<open>
  Claim C30: whatever fails, the memory buffer is bounded. After any start and any sequence of
  calls, with any failing system calls of the log and any behaviour of the broker, the recorded
  size of the buffer is the sum of the sizes of its events, and at most 10 MiB.
\<close>

theorem connector_buffer_bounded:
  assumes "start_up cd flt jt wd = (Ok c, wd1)" "conn_run cd flt jt lower calls c wd1 = (acked, c', wd')"
  shows "buffer_size_bytes c' = sum_list (map buf_size (buffer c')) \<and> buffer_size_bytes c' \<le> 10 * 1024 * 1024"
proof -
  have "conn_run cd flt jt lower calls c wd1 = (acked, c', wd') \<Longrightarrow> buffer_ok c \<Longrightarrow> buffer_ok c'" for c wd1
  proof (induction calls arbitrary: c wd1 acked)
    case (Cons call calls)
    then show ?case using conn_step_ok by (fastforce split: prod.splits)
  qed simp
  from this [OF assms(2) start_up_ok [OF assms(1)]] show ?thesis
    by (simp add: buffer_ok_def MAX_BUFFER_SIZE_def)
qed

section \<open>Examples\<close>

text \<open>
  The codec for process events of the log's examples, for one event and its variants; a world
  with an empty log and a broker that takes everything.
\<close>

definition secret_event :: "unit ProcessEvent" where
  "secret_event = app_event [''app'', ''--token'', ''abc'']"

definition event_codec :: "unit ProcessEvent wal_codec" where
  "event_codec = event_codec_of (sanitize_event id secret_event)"

definition quiet_world :: world where
  "quiet_world = \<lparr>disk = [(wal_file_path 1, [])], now = 0, broker_socket = Some ''/run/broker'',
     accepts = (\<lambda>_. True), attempts = 0, received = []\<rparr>"

lemma postcard_ok_event: "postcard_ok event_codec"
  unfolding event_codec_def by (rule postcard_ok_event_of) (simp add: secret_event_def)

lemma storable_event: "storable event_codec id (secret_event\<lparr>platform_metadata := m\<rparr>)"
proof -
  have "length (to_type_string ty) < 4294967282" for ty
    by (cases ty) (simp_all add: to_type_string_def)
  moreover have "sanitize_event id (secret_event\<lparr>platform_metadata := m\<rparr>) =
      (event_of_byte (sanitize_event id secret_event) 1)\<lparr>platform_metadata := m\<rparr>" for m
    by (simp add: sanitize_event_def secret_event_def app_event_def event_of_byte_def Let_def)
  ultimately show ?thesis
    by (auto simp: storable_def writable_def event_codec_def event_codec_of_def frame_valid_def demo_encode_def
        written_entry_def with_event_type_def map_entry_def event_of_byte_def Let_def)
qed

lemma secret_plain [simp]: "secret_event\<lparr>platform_metadata := None\<rparr> = secret_event" "metadata_free secret_event"
  by (simp_all add: secret_event_def app_event_def metadata_free_def)

lemma storable_secret: "storable event_codec id secret_event"
  using storable_event [of None] by simp

lemma quiet_start:
  obtains c wd where "start_up event_codec no_faults (\<lambda>_. []) quiet_world = (Ok c, wd)"
    and "connected c" "accepts wd = (\<lambda>_. True)"
proof -
  obtain w where w: "WriteAheadLog_new event_codec no_faults (disk quiet_world) = (Ok w, disk quiet_world)"
    using reopen_ok [OF wal_inv_empty, where cd = event_codec and threshold = DEFAULT_ROTATION_THRESHOLD]
    by (auto simp: WriteAheadLog_new_def quiet_world_def)
  have empty: "replay_entries event_codec no_faults (disk quiet_world) = Ok []"
    by (simp add: replay_entries_log quiet_world_def log_entries_empty)
  have fields: "broker_socket quiet_world = Some ''/run/broker''" "accepts quiet_world = (\<lambda>_. True)"
    by (simp_all add: quiet_world_def)
  have "\<exists>c wd. start_up event_codec no_faults (\<lambda>_. []) quiet_world = (Ok c, wd) \<and> connected c
      \<and> accepts wd = (\<lambda>_. True)"
    by (simp add: start_up_def EventBusConnector_new_def w connect_def attempt_def replay_wal_def empty
        fields Let_def)
  with that show thesis by blast
qed

theorem connector_buffer_bounded_witness:
  "\<exists>c wd acked c' wd'. start_up event_codec no_faults (\<lambda>_. []) quiet_world = (Ok c, wd)
     \<and> conn_run event_codec no_faults (\<lambda>_. []) id [Publish 5 secret_event Stop, Shutdown 6] c wd = (acked, c', wd')
     \<and> buffer_size_bytes c' \<le> 10 * 1024 * 1024"
proof -
  obtain c wd where st: "start_up event_codec no_faults (\<lambda>_. []) quiet_world = (Ok c, wd)"
    by (rule quiet_start)
  obtain acked c' wd' where run:
    "conn_run event_codec no_faults (\<lambda>_. []) id [Publish 5 secret_event Stop, Shutdown 6] c wd = (acked, c', wd')"
    by (metis prod_cases3)
  have "buffer_size_bytes c' \<le> 10 * 1024 * 1024"
    using connector_buffer_bounded [OF st run] by simp
  with st run show ?thesis by blast
qed

theorem connector_at_least_once_witness:
  "\<exists>c wd c' wd' e. start_up event_codec no_faults (\<lambda>_. []) quiet_world = (Ok c, wd)
     \<and> conn_run event_codec no_faults (\<lambda>_. []) id [Publish 5 secret_event Stop] c wd = ([e], c', wd')
     \<and> entry_event_type e = Some ''stop'' \<and> connected c' \<and> delivered wd' e"
proof -
  obtain c wd where st: "start_up event_codec no_faults (\<lambda>_. []) quiet_world = (Ok c, wd)"
    and up: "connected c" "accepts wd = (\<lambda>_. True)"
    by (rule quiet_start)
  have inv: "wal_inv event_codec (empty_log 0) (disk quiet_world)"
    and log: "log_entries event_codec (disk quiet_world) = []"
    by (simp_all add: quiet_world_def wal_inv_empty log_entries_empty)
  have room: "has_room (length [Publish 5 secret_event Stop]) (empty_log 0)"
    by (rule has_room_empty) simp
  have ci: "conn_inv event_codec (Suc 0) {} c wd"
    using start_up_inv [OF inv, of "Suc 0" "{}" "\<lambda>_. []"] room st by (auto simp: all_known_def log)
  have pre: "wal_inv event_codec (wal c) (disk wd)" "has_room (Suc 0) (wal c)"
    using ci by (simp_all add: conn_inv_def)
  obtain w dir where wr: "write_with_type event_codec no_faults (sanitize_event id secret_event)
      (to_type_string Stop) (wal c) (disk wd) = (Ok (current_event_sequence (wal c)), w, dir)"
    using write_with_type_inv [OF postcard_ok_event pre storable_secret, of Stop] by blast
  let ?e = "written_entry event_codec id (current_event_sequence (wal c)) secret_event Stop"
  obtain c' wd' where run:
    "conn_run event_codec no_faults (\<lambda>_. []) id [Publish 5 secret_event Stop] c wd = ([?e], c', wd')" "connected c'"
    using wr up ci by (simp add: publish_def Let_def try_publish_or_buffer_def publish_to_broker_def
        attempt_def conn_inv_def)
  have st': "list_all known (log_entries event_codec (disk quiet_world))"
    "list_all (call_storable event_codec id) [Publish 5 secret_event Stop]"
    by (simp_all add: log storable_secret)
  have "delivered wd' ?e"
    using connector_at_least_once [OF postcard_ok_event inv room st' st run(1)] run(2) by auto
  moreover have "entry_event_type ?e = Some ''stop''"
    by (simp add: written_entry_def with_event_type_def to_type_string_def)
  ultimately show ?thesis using st run by blast
qed

end
