(* ===== verification/Lifecycle.thy ===== *)
theory Lifecycle
  imports Security "HOL-Library.Sublist"
begin

text \<open>
  The process lifecycle tracker of the process monitor, \<^verbatim>\<open>procmond/src/lifecycle.rs\<close>: it compares
  each scan of the process table with the one before and reports processes that started, stopped,
  changed or look suspicious.

  Times (\<open>SystemTime\<close>) and durations are nanoseconds. Floating-point numbers are rationals, and every
  operation that rounds applies the rounding function \<open>fl\<close>, a parameter of which nothing is assumed.
  Hash maps are association lists in iteration order.
\<close>

section \<open>Data\<close>

datatype LifecycleTrackingError =
    InvalidProcessData u32 string
  | TimestampValidationFailed u32 string
  | PidReuseDetectionFailed u32 string

datatype SuspiciousEventSeverity = Low | Medium | High | Critical

record 'json ProcessSnapshot =
  pid :: u32
  ppid :: "u32 option"
  name :: string
  executable_path :: "string option"
  command_line :: "string list"
  start_time :: "nat option"
  cpu_usage :: "rat option"
  memory_usage :: "u64 option"
  executable_hash :: "string option"
  hash_algorithm :: "string option"
  user_id :: "string option"
  accessible :: bool
  file_exists :: bool
  snapshot_time :: nat
  platform_metadata :: "'json option"

datatype 'json ProcessLifecycleEvent =
    Start "'json ProcessSnapshot" nat
  | Stop "'json ProcessSnapshot" nat "nat option"
  | Modified "'json ProcessSnapshot" "'json ProcessSnapshot" nat "string list"
  | Suspicious "'json ProcessSnapshot" nat string SuspiciousEventSeverity

definition snapshot_of :: "'json ProcessEvent \<Rightarrow> 'json ProcessSnapshot" where
  "snapshot_of event =
     \<lparr>pid = ProcessEvent.pid event, ppid = ProcessEvent.ppid event, name = ProcessEvent.name event,
      executable_path = ProcessEvent.executable_path event, command_line = ProcessEvent.command_line event,
      start_time = ProcessEvent.start_time event, cpu_usage = ProcessEvent.cpu_usage event,
      memory_usage = ProcessEvent.memory_usage event, executable_hash = ProcessEvent.executable_hash event,
      hash_algorithm = ProcessEvent.hash_algorithm event, user_id = ProcessEvent.user_id event,
      accessible = ProcessEvent.accessible event, file_exists = ProcessEvent.file_exists event,
      snapshot_time = event_timestamp event, platform_metadata = ProcessEvent.platform_metadata event\<rparr>"

definition event_of :: "'json ProcessSnapshot \<Rightarrow> 'json ProcessEvent" where
  "event_of s =
     \<lparr>ProcessEvent.pid = pid s, ppid = ppid s, name = name s,
      executable_path = executable_path s, command_line = command_line s,
      start_time = start_time s, cpu_usage = cpu_usage s, memory_usage = memory_usage s,
      executable_hash = executable_hash s, hash_algorithm = hash_algorithm s, user_id = user_id s,
      accessible = accessible s, file_exists = file_exists s,
      event_timestamp = snapshot_time s, platform_metadata = platform_metadata s\<rparr>"

record LifecycleTrackingConfig =
  max_snapshot_age :: nat
  min_process_lifetime :: nat
  detect_pid_reuse :: bool
  track_command_line_changes :: bool
  track_executable_changes :: bool
  track_memory_changes :: bool
  memory_change_threshold :: rat
  track_cpu_changes :: bool
  cpu_change_threshold :: rat
  max_snapshots :: nat

definition LifecycleTrackingConfig_default :: LifecycleTrackingConfig where
  "LifecycleTrackingConfig_default =
     \<lparr>max_snapshot_age = 300 * 10 ^ 9, min_process_lifetime = 100 * 10 ^ 6, detect_pid_reuse = True,
      track_command_line_changes = True, track_executable_changes = True,
      track_memory_changes = False, memory_change_threshold = 50,
      track_cpu_changes = False, cpu_change_threshold = 25, max_snapshots = 10000\<rparr>"

record LifecycleTrackingStats =
  total_updates :: u64
  start_events :: u64
  stop_events :: u64
  modification_events :: u64
  suspicious_events :: u64
  pid_reuse_events :: u64
  timestamp_anomalies :: u64
  invalid_start_events :: u64
  avg_processes_tracked :: rat

definition LifecycleTrackingStats_default :: LifecycleTrackingStats where
  "LifecycleTrackingStats_default =
     \<lparr>total_updates = 0, start_events = 0, stop_events = 0, modification_events = 0, suspicious_events = 0,
      pid_reuse_events = 0, timestamp_anomalies = 0, invalid_start_events = 0, avg_processes_tracked = 0\<rparr>"

record 'json ProcessLifecycleTracker =
  config :: LifecycleTrackingConfig
  current_snapshots :: "(u32, 'json ProcessSnapshot) hash_map"
  previous_snapshots :: "(u32, 'json ProcessSnapshot) hash_map"
  last_update :: "nat option"
  stats :: LifecycleTrackingStats

definition ProcessLifecycleTracker_new :: "LifecycleTrackingConfig \<Rightarrow> 'json ProcessLifecycleTracker" where
  "ProcessLifecycleTracker_new cfg =
     \<lparr>config = cfg, current_snapshots = [], previous_snapshots = [], last_update = None,
      stats = LifecycleTrackingStats_default\<rparr>"

section \<open>Times\<close>

definition duration_since :: "nat \<Rightarrow> nat \<Rightarrow> nat option" where
  "duration_since later earlier = (if earlier \<le> later then Some (later - earlier) else None)"

text \<open>The \<open>Debug\<close> rendering of a duration: the largest unit, the fraction without trailing zeros.\<close>

definition fmt_decimal :: "nat \<Rightarrow> nat \<Rightarrow> nat \<Rightarrow> string \<Rightarrow> string" where
  "fmt_decimal whole part width unit =
     (let digits = rev (dropWhile (\<lambda>c. c = CHR ''0'') (rev (pad_left width CHR ''0'' (show_nat part)))) in
      show_nat whole @ (if part = 0 then [] else CHR ''.'' # digits) @ unit)"

definition debug_duration :: "nat \<Rightarrow> string" where
  "debug_duration ns =
     (if ns \<ge> 10 ^ 9 then fmt_decimal (ns div 10 ^ 9) (ns mod 10 ^ 9) 9 ''s''
      else if ns \<ge> 10 ^ 6 then fmt_decimal (ns div 10 ^ 6) (ns mod 10 ^ 6) 6 ''ms''
      else if ns \<ge> 10 ^ 3 then fmt_decimal (ns div 10 ^ 3) (ns mod 10 ^ 3) 3 [CHR 0xC2, CHR 0xB5, CHR ''s'']
      else fmt_decimal ns 0 1 ''ns'')"

section \<open>Detection\<close>

definition validate_start_event ::
    "LifecycleTrackingConfig \<Rightarrow> 'json ProcessSnapshot \<Rightarrow> (unit, LifecycleTrackingError) result" where
  "validate_start_event cfg s =
     (case start_time s of None \<Rightarrow> Ok ()
      | Some st \<Rightarrow>
        (case duration_since (snapshot_time s) st of
           None \<Rightarrow> Err (TimestampValidationFailed (pid s) ''Process start time is in the future'')
         | Some lifetime \<Rightarrow>
             if lifetime < min_process_lifetime cfg
             then Err (TimestampValidationFailed (pid s) (''Process lifetime too short: '' @ debug_duration lifetime))
             else Ok ()))"

fun start_loop ::
    "LifecycleTrackingConfig \<Rightarrow> (u32, 'json ProcessSnapshot) hash_map \<Rightarrow> nat \<Rightarrow> (u32, 'json ProcessSnapshot) hash_map
       \<Rightarrow> LifecycleTrackingStats \<Rightarrow> 'json ProcessLifecycleEvent list \<times> LifecycleTrackingStats" where
  "start_loop cfg previous update_time [] st = ([], st)"
| "start_loop cfg previous update_time ((p, s) # rest) st =
     (if hm_get previous p = None then
        (case validate_start_event cfg s of
           Err _ \<Rightarrow> start_loop cfg previous update_time rest
                     (st\<lparr>invalid_start_events := sat_add (invalid_start_events st) 1\<rparr>)
         | Ok _ \<Rightarrow> (case start_loop cfg previous update_time rest st of
             (events, st) \<Rightarrow> (Start s update_time # events, st)))
      else start_loop cfg previous update_time rest st)"

definition detect_start_events ::
    "nat \<Rightarrow> 'json ProcessLifecycleTracker
       \<Rightarrow> ('json ProcessLifecycleEvent list, LifecycleTrackingError) result \<times> 'json ProcessLifecycleTracker" where
  "detect_start_events update_time t =
     (case start_loop (config t) (previous_snapshots t) update_time (current_snapshots t) (stats t) of
        (events, st) \<Rightarrow> (Ok events, t\<lparr>stats := st\<rparr>))"

definition detect_stop_events ::
    "nat \<Rightarrow> 'json ProcessLifecycleTracker \<Rightarrow> ('json ProcessLifecycleEvent list, LifecycleTrackingError) result" where
  "detect_stop_events update_time t =
     Ok (map (\<lambda>(_, s). Stop s update_time (Option.bind (start_time s) (duration_since update_time)))
          (filter (\<lambda>(p, _). hm_get (current_snapshots t) p = None) (previous_snapshots t)))"

definition compare_snapshots ::
    "(rat \<Rightarrow> rat) \<Rightarrow> LifecycleTrackingConfig \<Rightarrow> 'json ProcessSnapshot \<Rightarrow> 'json ProcessSnapshot \<Rightarrow> string list" where
  "compare_snapshots fl cfg previous current =
     (if track_command_line_changes cfg \<and> command_line previous \<noteq> command_line current then [''command_line''] else []) @
     (if track_executable_changes cfg \<and> executable_path previous \<noteq> executable_path current then [''executable_path''] else []) @
     (if track_memory_changes cfg then
        (case (memory_usage previous, memory_usage current) of
           (Some prev_mem, Some curr_mem) \<Rightarrow>
             if prev_mem = 0 then (if curr_mem > 0 then [''memory_usage''] else [])
             else let p = fl (of_nat (unat prev_mem)); c = fl (of_nat (unat curr_mem));
                      change_percent = fl (\<bar>fl (fl (c - p) / p)\<bar> * 100) in
                  if change_percent > memory_change_threshold cfg then [''memory_usage''] else []
         | _ \<Rightarrow> []) else []) @
     (if track_cpu_changes cfg then
        (case (cpu_usage previous, cpu_usage current) of
           (Some prev_cpu, Some curr_cpu) \<Rightarrow>
             if prev_cpu = 0 then (if curr_cpu > 0 then [''cpu_usage''] else [])
             else let change_percent = fl (\<bar>fl (fl (curr_cpu - prev_cpu) / prev_cpu)\<bar> * 100) in
                  if change_percent > cpu_change_threshold cfg then [''cpu_usage''] else []
         | _ \<Rightarrow> []) else []) @
     (if (executable_hash previous, hash_algorithm previous) \<noteq> (executable_hash current, hash_algorithm current)
         \<and> executable_hash previous \<noteq> None \<and> executable_hash current \<noteq> None then [''executable_hash''] else []) @
     (if user_id previous \<noteq> user_id current then [''user_id''] else [])"

definition detect_modification_events ::
    "(rat \<Rightarrow> rat) \<Rightarrow> nat \<Rightarrow> 'json ProcessLifecycleTracker
       \<Rightarrow> ('json ProcessLifecycleEvent list, LifecycleTrackingError) result" where
  "detect_modification_events fl update_time t =
     Ok (List.map_filter (\<lambda>(p, current).
          case hm_get (previous_snapshots t) p of None \<Rightarrow> None
          | Some previous \<Rightarrow>
              (let modified_fields = compare_snapshots fl (config t) previous current in
               if modified_fields = [] then None
               else Some (Modified previous current update_time modified_fields)))
        (current_snapshots t))"

definition quoted :: "string \<Rightarrow> string" where
  "quoted s = CHR 0x27 # s @ [CHR 0x27]"

definition detect_pid_reuse_event ::
    "'json ProcessSnapshot \<Rightarrow> 'json ProcessSnapshot \<Rightarrow> nat
       \<Rightarrow> ('json ProcessLifecycleEvent option, LifecycleTrackingError) result" where
  "detect_pid_reuse_event previous current update_time =
     Ok (if name previous \<noteq> name current \<or> executable_path previous \<noteq> executable_path current
            \<or> start_time previous \<noteq> start_time current
         then Some (Suspicious current update_time
           (''Potential PID reuse detected: previous process '' @ quoted (name previous) @ '' vs current '' @ quoted (name current))
           (if executable_path previous \<noteq> executable_path current then High
            else if name previous \<noteq> name current then Medium else Low))
         else None)"

definition detect_timestamp_anomaly ::
    "'json ProcessSnapshot \<Rightarrow> nat \<Rightarrow> ('json ProcessLifecycleEvent option, LifecycleTrackingError) result" where
  "detect_timestamp_anomaly s update_time =
     (case start_time s of None \<Rightarrow> Ok None
      | Some st \<Rightarrow>
          if st > update_time
          then Ok (Some (Suspicious s update_time ''Process start time is in the future'' High))
          else (case duration_since update_time st of
                  None \<Rightarrow> Err (TimestampValidationFailed (pid s) ''Failed to calculate process age'')
                | Some age \<Rightarrow>
                    if age > 365 * 24 * 3600 * 10 ^ 9
                    then Ok (Some (Suspicious s update_time (''Process age seems unrealistic: '' @ debug_duration age) Medium))
                    else Ok None))"

fun suspicious_loop ::
    "(u32, 'json ProcessSnapshot) hash_map \<Rightarrow> nat \<Rightarrow> (u32, 'json ProcessSnapshot) hash_map
       \<Rightarrow> ('json ProcessLifecycleEvent list, LifecycleTrackingError) result" where
  "suspicious_loop previous update_time [] = Ok []"
| "suspicious_loop previous update_time ((p, current) # rest) =
     (case hm_get previous p of
        None \<Rightarrow> suspicious_loop previous update_time rest
      | Some prev \<Rightarrow>
        (case detect_pid_reuse_event prev current update_time of Err e \<Rightarrow> Err e
         | Ok reuse \<Rightarrow>
           (case detect_timestamp_anomaly current update_time of Err e \<Rightarrow> Err e
            | Ok anomaly \<Rightarrow>
              (case suspicious_loop previous update_time rest of Err e \<Rightarrow> Err e
               | Ok events \<Rightarrow>
                   Ok ((case reuse of None \<Rightarrow> [] | Some e \<Rightarrow> [e]) @ (case anomaly of None \<Rightarrow> [] | Some e \<Rightarrow> [e]) @ events)))))"

definition detect_suspicious_events ::
    "nat \<Rightarrow> 'json ProcessLifecycleTracker \<Rightarrow> ('json ProcessLifecycleEvent list, LifecycleTrackingError) result" where
  "detect_suspicious_events update_time t =
     (if \<not> detect_pid_reuse (config t) then Ok []
      else suspicious_loop (previous_snapshots t) update_time (current_snapshots t))"

section \<open>The update\<close>

definition count_event :: "'json ProcessLifecycleEvent \<Rightarrow> LifecycleTrackingStats \<Rightarrow> LifecycleTrackingStats" where
  "count_event event st =
     (case event of
        Start _ _ \<Rightarrow> st\<lparr>start_events := sat_add (start_events st) 1\<rparr>
      | Stop _ _ _ \<Rightarrow> st\<lparr>stop_events := sat_add (stop_events st) 1\<rparr>
      | Modified _ _ _ _ \<Rightarrow> st\<lparr>modification_events := sat_add (modification_events st) 1\<rparr>
      | Suspicious _ _ reason _ \<Rightarrow>
          (let st = st\<lparr>suspicious_events := sat_add (suspicious_events st) 1\<rparr> in
           if sublist ''PID reuse'' reason then st\<lparr>pid_reuse_events := sat_add (pid_reuse_events st) 1\<rparr>
           else if sublist ''timestamp'' reason \<or> sublist ''time'' reason
           then st\<lparr>timestamp_anomalies := sat_add (timestamp_anomalies st) 1\<rparr>
           else st))"

definition update_statistics ::
    "(rat \<Rightarrow> rat) \<Rightarrow> 'json ProcessLifecycleEvent list \<Rightarrow> 'json ProcessLifecycleTracker \<Rightarrow> 'json ProcessLifecycleTracker" where
  "update_statistics fl events t =
     (let st = (stats t)\<lparr>total_updates := sat_add (total_updates (stats t)) 1\<rparr>;
          st = fold count_event events st;
          current_count = fl (of_nat (length (current_snapshots t)));
          total = fl (of_nat (unat (total_updates st)))
      in t\<lparr>stats := st\<lparr>avg_processes_tracked :=
             fl (fl (avg_processes_tracked st * fl (total - 1) + current_count) / total)\<rparr>\<rparr>)"

definition cleanup_old_snapshots :: "'json ProcessLifecycleTracker \<Rightarrow> 'json ProcessLifecycleTracker" where
  "cleanup_old_snapshots t =
     (if length (current_snapshots t) > max_snapshots (config t)
         \<or> length (previous_snapshots t) > max_snapshots (config t)
      then t\<lparr>previous_snapshots := []\<rparr> else t)"

definition snapshots_of :: "'json ProcessEvent list \<Rightarrow> (u32, 'json ProcessSnapshot) hash_map" where
  "snapshots_of processes = fold (\<lambda>p. hm_insert (ProcessEvent.pid p) (snapshot_of p)) processes []"

definition update_and_detect_changes ::
    "(rat \<Rightarrow> rat) \<Rightarrow> nat \<Rightarrow> 'json ProcessEvent list \<Rightarrow> 'json ProcessLifecycleTracker
       \<Rightarrow> ('json ProcessLifecycleEvent list, LifecycleTrackingError) result \<times> 'json ProcessLifecycleTracker" where
  "update_and_detect_changes fl update_time processes t =
     (let new_snapshots = snapshots_of processes in
      if last_update t = None then
        (Ok [], t\<lparr>current_snapshots := new_snapshots, last_update := Some update_time,
                  stats := (stats t)\<lparr>total_updates := sat_add (total_updates (stats t)) 1,
                     avg_processes_tracked := fl (of_nat (length new_snapshots))\<rparr>\<rparr>)
      else
        (let t = t\<lparr>previous_snapshots := current_snapshots t, current_snapshots := new_snapshots\<rparr> in
         case detect_start_events update_time t of (Err e, t) \<Rightarrow> (Err e, t)
         | (Ok starts, t) \<Rightarrow>
           (case detect_stop_events update_time t of Err e \<Rightarrow> (Err e, t)
            | Ok stops \<Rightarrow>
              (case detect_modification_events fl update_time t of Err e \<Rightarrow> (Err e, t)
               | Ok modifications \<Rightarrow>
                 (case detect_suspicious_events update_time t of Err e \<Rightarrow> (Err e, t)
                  | Ok suspicious \<Rightarrow>
                    (let events = starts @ stops @ modifications @ suspicious;
                         t = update_statistics fl events t;
                         t = t\<lparr>last_update := Some update_time\<rparr>
                     in (Ok events, cleanup_old_snapshots t)))))))"

definition clear :: "'json ProcessLifecycleTracker \<Rightarrow> 'json ProcessLifecycleTracker" where
  "clear t = t\<lparr>current_snapshots := [], previous_snapshots := [], last_update := None\<rparr>"

section \<open>What an update reports\<close>

lemma event_of_snapshot_of [simp]: "event_of (snapshot_of e) = e"
  by (simp add: event_of_def snapshot_of_def)

lemma snapshot_of_event_of [simp]: "snapshot_of (event_of s) = s"
  by (simp add: event_of_def snapshot_of_def)

lemma pid_snapshot_of [simp]: "pid (snapshot_of e) = ProcessEvent.pid e"
  by (simp add: snapshot_of_def)

text \<open>Every table of snapshots is keyed by the process number of its snapshots.\<close>

definition keyed :: "(u32, 'json ProcessSnapshot) hash_map \<Rightarrow> bool" where
  "keyed m \<longleftrightarrow> hm_wf m \<and> (\<forall>(p, s) \<in> set m. pid s = p)"

lemma keyed_getD: "keyed m \<Longrightarrow> hm_get m p = Some s \<Longrightarrow> pid s = p"
  by (auto simp: keyed_def dest: hm_get_SomeD)

lemma keyed_iff: "keyed m \<longleftrightarrow> hm_wf m \<and> (\<forall>p s. hm_get m p = Some s \<longrightarrow> pid s = p)"
  by (auto simp: keyed_def hm_get_iff)

lemma keyed_insert: "keyed m \<Longrightarrow> pid s = p \<Longrightarrow> keyed (hm_insert p s m)"
  by (auto simp: keyed_iff)

lemma keyed_fold:
  "keyed m \<Longrightarrow> keyed (fold (\<lambda>p. hm_insert (ProcessEvent.pid p) (snapshot_of p)) ps m)"
  by (induction ps arbitrary: m) (simp_all add: keyed_insert)

lemma keyed_snapshots_of: "keyed (snapshots_of ps)"
  unfolding snapshots_of_def by (rule keyed_fold) (simp add: keyed_def)

lemma hm_get_fold:
  "hm_get (fold (\<lambda>p. hm_insert (ProcessEvent.pid p) (snapshot_of p)) ps m) q =
     (if q \<in> ProcessEvent.pid ` set ps
      then Some (snapshot_of (last (filter (\<lambda>e. ProcessEvent.pid e = q) ps))) else hm_get m q)"
  by (induction ps arbitrary: m) (auto simp: filter_empty_conv)

text \<open>Of several events with one process number the last one counts.\<close>

lemma hm_get_snapshots_of:
  "hm_get (snapshots_of ps) q =
     (if q \<in> ProcessEvent.pid ` set ps
      then Some (snapshot_of (last (filter (\<lambda>e. ProcessEvent.pid e = q) ps))) else None)"
  by (simp add: snapshots_of_def hm_get_fold)

lemma start_loop_events:
  "fst (start_loop cfg previous now m st) =
     map (\<lambda>(_, s). Start s now) (filter (\<lambda>(p, s). hm_get previous p = None \<and> is_ok (validate_start_event cfg s)) m)"
  by (induction m arbitrary: st) (auto simp: case_prod_beta split: sum.split)

definition suspicions :: "'json ProcessSnapshot \<Rightarrow> 'json ProcessSnapshot \<Rightarrow> nat \<Rightarrow> 'json ProcessLifecycleEvent list" where
  "suspicions previous current now =
     (case detect_pid_reuse_event previous current now of Ok (Some e) \<Rightarrow> [e] | _ \<Rightarrow> []) @
     (case detect_timestamp_anomaly current now of Ok (Some e) \<Rightarrow> [e] | _ \<Rightarrow> [])"

text \<open>Neither check can fail: the age is taken only of a start time that is not in the future.\<close>

lemma detect_timestamp_anomaly_Ok: "is_ok (detect_timestamp_anomaly s now)"
  by (simp add: detect_timestamp_anomaly_def duration_since_def split: option.split)

lemma suspicious_loop_Ok:
  "suspicious_loop previous now m =
     Ok (concat (map (\<lambda>(p, s). case hm_get previous p of None \<Rightarrow> [] | Some q \<Rightarrow> suspicions q s now) m))"
proof (induction m)
  case (Cons x m)
  obtain p s where x: "x = (p, s)" by (rule prod.exhaust)
  obtain r where r: "detect_timestamp_anomaly s now = Ok r"
    using detect_timestamp_anomaly_Ok by (rule is_okE)
  show ?case
    by (simp add: x Cons.IH r suspicions_def detect_pid_reuse_event_def split: option.split)
qed simp

text \<open>The reports of one scan, from the tables of the scan before and of this one.\<close>

definition scan_events ::
    "(rat \<Rightarrow> rat) \<Rightarrow> LifecycleTrackingConfig \<Rightarrow> nat \<Rightarrow> (u32, 'json ProcessSnapshot) hash_map
       \<Rightarrow> (u32, 'json ProcessSnapshot) hash_map \<Rightarrow> 'json ProcessLifecycleEvent list" where
  "scan_events fl cfg now previous current =
     map (\<lambda>(_, s). Start s now)
       (filter (\<lambda>(p, s). hm_get previous p = None \<and> is_ok (validate_start_event cfg s)) current) @
     map (\<lambda>(_, s). Stop s now (Option.bind (start_time s) (duration_since now)))
       (filter (\<lambda>(p, _). hm_get current p = None) previous) @
     List.map_filter (\<lambda>(p, s). case hm_get previous p of None \<Rightarrow> None
       | Some q \<Rightarrow> if compare_snapshots fl cfg q s = [] then None
                   else Some (Modified q s now (compare_snapshots fl cfg q s))) current @
     (if detect_pid_reuse cfg
      then concat (map (\<lambda>(p, s). case hm_get previous p of None \<Rightarrow> [] | Some q \<Rightarrow> suspicions q s now) current)
      else [])"

lemma update_first:
  assumes "last_update t = None"
  obtains t' where "update_and_detect_changes fl now ps t = (Ok [], t')" "config t' = config t"
    "current_snapshots t' = snapshots_of ps" "last_update t' = Some now"
proof -
  have "\<exists>t'. update_and_detect_changes fl now ps t = (Ok [], t') \<and> config t' = config t \<and>
      current_snapshots t' = snapshots_of ps \<and> last_update t' = Some now"
    by (simp add: update_and_detect_changes_def Let_def assms)
  with that show thesis by blast
qed

lemma update_later:
  assumes "last_update t \<noteq> None"
  obtains t' where
    "update_and_detect_changes fl now ps t =
       (Ok (scan_events fl (config t) now (current_snapshots t) (snapshots_of ps)), t')"
    "config t' = config t" "current_snapshots t' = snapshots_of ps" "last_update t' = Some now"
proof -
  let ?t = "t\<lparr>previous_snapshots := current_snapshots t, current_snapshots := snapshots_of ps\<rparr>"
  obtain starts st where st: "start_loop (config t) (current_snapshots t) now (snapshots_of ps) (stats t) = (starts, st)"
    by (rule prod.exhaust)
  have starts: "starts = map (\<lambda>(_, s). Start s now)
      (filter (\<lambda>(p, s). hm_get (current_snapshots t) p = None \<and> is_ok (validate_start_event (config t) s)) (snapshots_of ps))"
    using start_loop_events [of "config t" "current_snapshots t" now "snapshots_of ps" "stats t"] by (simp add: st)
  have fields: "config (?t\<lparr>stats := st\<rparr>) = config t" "previous_snapshots (?t\<lparr>stats := st\<rparr>) = current_snapshots t"
      "current_snapshots (?t\<lparr>stats := st\<rparr>) = snapshots_of ps" by simp_all
  have mods: "detect_modification_events fl now (?t\<lparr>stats := st\<rparr>) =
      Ok (List.map_filter (\<lambda>(p, s). case hm_get (current_snapshots t) p of None \<Rightarrow> None
       | Some q \<Rightarrow> if compare_snapshots fl (config t) q s = [] then None
                   else Some (Modified q s now (compare_snapshots fl (config t) q s))) (snapshots_of ps))"
    unfolding detect_modification_events_def Let_def fields ..
  have run: "update_and_detect_changes fl now ps t =
      (let events = scan_events fl (config t) now (current_snapshots t) (snapshots_of ps) in
       (Ok events, cleanup_old_snapshots (update_statistics fl events (?t\<lparr>stats := st\<rparr>)\<lparr>last_update := Some now\<rparr>)))"
    using assms
    by (cases "last_update t") (simp_all add: update_and_detect_changes_def detect_start_events_def st starts mods
        detect_stop_events_def detect_suspicious_events_def suspicious_loop_Ok scan_events_def Let_def)
  show thesis
    by (rule that [OF run [unfolded Let_def]]) (simp_all add: Let_def cleanup_old_snapshots_def update_statistics_def)
qed

lemma suspicions_about:
  "e \<in> set (suspicions q s now) \<Longrightarrow> \<exists>reason severity. e = Suspicious s now reason severity"
  by (auto simp: suspicions_def detect_pid_reuse_event_def detect_timestamp_anomaly_def duration_since_def
      split: if_splits option.splits sum.splits)

lemma set_map_filter: "set (List.map_filter f xs) = {y. \<exists>x \<in> set xs. f x = Some y}"
  by (force simp: map_filter_def)

lemma Bex_pair: "(\<exists>x \<in> A. P x) \<longleftrightarrow> (\<exists>a b. (a, b) \<in> A \<and> P (a, b))"
  by auto

lemma in_scan_events:
  "e \<in> set (scan_events fl cfg now previous current) \<longleftrightarrow>
     (\<exists>p s. (p, s) \<in> set current \<and> hm_get previous p = None \<and> is_ok (validate_start_event cfg s) \<and> e = Start s now) \<or>
     (\<exists>p s. (p, s) \<in> set previous \<and> hm_get current p = None \<and>
        e = Stop s now (Option.bind (start_time s) (duration_since now))) \<or>
     (\<exists>p s q. (p, s) \<in> set current \<and> hm_get previous p = Some q \<and> compare_snapshots fl cfg q s \<noteq> [] \<and>
        e = Modified q s now (compare_snapshots fl cfg q s)) \<or>
     (detect_pid_reuse cfg \<and> (\<exists>p s q. (p, s) \<in> set current \<and> hm_get previous p = Some q \<and> e \<in> set (suspicions q s now)))"
proof -
  have opt: "(case hm_get previous p of None \<Rightarrow> None
       | Some q \<Rightarrow> if compare_snapshots fl cfg q s = [] then None
                   else Some (Modified q s now (compare_snapshots fl cfg q s))) = Some e \<longleftrightarrow>
     (\<exists>q. hm_get previous p = Some q \<and> compare_snapshots fl cfg q s \<noteq> [] \<and>
        e = Modified q s now (compare_snapshots fl cfg q s))" for p s
    by (cases "hm_get previous p") auto
  have lst: "e \<in> set (case hm_get previous p of None \<Rightarrow> [] | Some q \<Rightarrow> suspicions q s now) \<longleftrightarrow>
     (\<exists>q. hm_get previous p = Some q \<and> e \<in> set (suspicions q s now))" for p s
    by (cases "hm_get previous p") auto
  have mods: "(\<exists>x \<in> set current. (case x of (p, s) \<Rightarrow> case hm_get previous p of None \<Rightarrow> None
       | Some q \<Rightarrow> if compare_snapshots fl cfg q s = [] then None
                   else Some (Modified q s now (compare_snapshots fl cfg q s))) = Some e) \<longleftrightarrow>
     (\<exists>p s q. (p, s) \<in> set current \<and> hm_get previous p = Some q \<and> compare_snapshots fl cfg q s \<noteq> [] \<and>
        e = Modified q s now (compare_snapshots fl cfg q s))"
    unfolding Bex_pair prod.case opt by blast
  have susp: "(\<exists>x \<in> set current. e \<in> set (case x of (p, s) \<Rightarrow> case hm_get previous p of None \<Rightarrow> []
       | Some q \<Rightarrow> suspicions q s now)) \<longleftrightarrow>
     (\<exists>p s q. (p, s) \<in> set current \<and> hm_get previous p = Some q \<and> e \<in> set (suspicions q s now))"
    unfolding Bex_pair prod.case lst by blast
  show ?thesis
    unfolding scan_events_def set_append Un_iff set_map_filter mem_Collect_eq mods
    using susp by auto
qed

lemma scan_events_Start:
  assumes "keyed current"
  shows "Start s d \<in> set (scan_events fl cfg now previous current) \<longleftrightarrow>
    d = now \<and> hm_get current (pid s) = Some s \<and> hm_get previous (pid s) = None \<and> is_ok (validate_start_event cfg s)"
  unfolding in_scan_events using assms suspicions_about [of "Start s d"]
  by (auto simp: keyed_def hm_get_iff)

lemma scan_events_Stop:
  assumes "keyed previous"
  shows "Stop s d r \<in> set (scan_events fl cfg now previous current) \<longleftrightarrow>
    d = now \<and> r = Option.bind (start_time s) (duration_since now) \<and>
    hm_get previous (pid s) = Some s \<and> hm_get current (pid s) = None"
  unfolding in_scan_events using assms suspicions_about [of "Stop s d r"]
  by (auto simp: keyed_def hm_get_iff)

lemma scan_events_Modified:
  assumes "keyed current"
  shows "Modified q s d fs \<in> set (scan_events fl cfg now previous current) \<longleftrightarrow>
    d = now \<and> fs = compare_snapshots fl cfg q s \<and> fs \<noteq> [] \<and>
    hm_get current (pid s) = Some s \<and> hm_get previous (pid s) = Some q"
  unfolding in_scan_events using assms suspicions_about [of "Modified q s d fs"]
  by (auto simp: keyed_def hm_get_iff)

lemma scan_events_Suspicious:
  assumes "keyed current"
  shows "Suspicious s d reason severity \<in> set (scan_events fl cfg now previous current) \<longleftrightarrow>
    detect_pid_reuse cfg \<and> hm_get current (pid s) = Some s \<and>
    (\<exists>q. hm_get previous (pid s) = Some q \<and> Suspicious s d reason severity \<in> set (suspicions q s now))"
  unfolding in_scan_events using assms suspicions_about [of "Suspicious s d reason severity"]
  by (fastforce simp: keyed_def hm_get_iff)

lemmas scan_events_iff = scan_events_Start scan_events_Stop scan_events_Modified scan_events_Suspicious

section \<open>Histories\<close>

text \<open>The process monitor calls the tracker once per scan and takes a failed update for one without reports.\<close>

fun run_scans ::
    "(rat \<Rightarrow> rat) \<Rightarrow> (nat \<times> 'json ProcessEvent list) list \<Rightarrow> 'json ProcessLifecycleTracker
       \<Rightarrow> 'json ProcessLifecycleEvent list \<times> 'json ProcessLifecycleTracker" where
  "run_scans fl [] t = ([], t)"
| "run_scans fl ((now, ps) # scans) t =
     (case update_and_detect_changes fl now ps t of (res, t1) \<Rightarrow>
        (case run_scans fl scans t1 of (events, t2) \<Rightarrow>
           ((case res of Ok evs \<Rightarrow> evs | Err _ \<Rightarrow> []) @ events, t2)))"

definition tracking :: "'json ProcessLifecycleTracker \<Rightarrow> bool" where
  "tracking t \<longleftrightarrow> last_update t \<noteq> None \<and> keyed (current_snapshots t)"

lemma update_tracking:
  assumes "tracking t"
  obtains t' where
    "update_and_detect_changes fl now ps t =
       (Ok (scan_events fl (config t) now (current_snapshots t) (snapshots_of ps)), t')"
    "tracking t'" "config t' = config t" "current_snapshots t' = snapshots_of ps"
proof -
  have "last_update t \<noteq> None" using assms by (simp add: tracking_def)
  then show thesis
    by (rule update_later [where fl = fl and now = now and ps = ps])
      (rule that; simp add: tracking_def keyed_snapshots_of)
qed

lemma run_scans_Cons:
  assumes "tracking t"
  obtains t1 where "tracking t1" "config t1 = config t" "current_snapshots t1 = snapshots_of ps"
    "run_scans fl ((now, ps) # scans) t =
       (case run_scans fl scans t1 of (events, t2) \<Rightarrow>
          (scan_events fl (config t) now (current_snapshots t) (snapshots_of ps) @ events, t2))"
proof -
  obtain t1 where t1: "update_and_detect_changes fl now ps t =
       (Ok (scan_events fl (config t) now (current_snapshots t) (snapshots_of ps)), t1)"
    "tracking t1" "config t1 = config t" "current_snapshots t1 = snapshots_of ps"
    by (rule update_tracking [OF assms])
  show thesis by (rule that [OF t1(2-4)]) (simp add: t1(1))
qed

text \<open>What a reader of the reports takes to be running.\<close>

definition apply_event :: "'json ProcessLifecycleEvent \<Rightarrow> u32 set \<Rightarrow> u32 set" where
  "apply_event e alive =
     (case e of Start s _ \<Rightarrow> insert (pid s) alive | Stop s _ _ \<Rightarrow> alive - {pid s} | _ \<Rightarrow> alive)"

definition pids :: "(u32, 'json ProcessSnapshot) hash_map \<Rightarrow> u32 set" where
  "pids m = {p. hm_get m p \<noteq> None}"

fun start_pid :: "'json ProcessLifecycleEvent \<Rightarrow> u32 set" where
  "start_pid (Start s d) = {pid s}"
| "start_pid _ = {}"

fun stop_pid :: "'json ProcessLifecycleEvent \<Rightarrow> u32 set" where
  "stop_pid (Stop s d r) = {pid s}"
| "stop_pid _ = {}"

definition started :: "'json ProcessLifecycleEvent list \<Rightarrow> u32 set" where
  "started evs = \<Union> (start_pid ` set evs)"

definition stopped :: "'json ProcessLifecycleEvent list \<Rightarrow> u32 set" where
  "stopped evs = \<Union> (stop_pid ` set evs)"

lemma started_simps [simp]:
  "started [] = {}" "started (e # evs) = start_pid e \<union> started evs" "started (xs @ ys) = started xs \<union> started ys"
  by (simp_all add: started_def)

lemma stopped_simps [simp]:
  "stopped [] = {}" "stopped (e # evs) = stop_pid e \<union> stopped evs" "stopped (xs @ ys) = stopped xs \<union> stopped ys"
  by (simp_all add: stopped_def)

lemma in_started: "p \<in> started evs \<longleftrightarrow> (\<exists>s d. Start s d \<in> set evs \<and> pid s = p)"
proof -
  have "p \<in> start_pid e \<longleftrightarrow> (\<exists>s d. e = Start s d \<and> pid s = p)" for e :: "'a ProcessLifecycleEvent"
    by (cases e) auto
  then show ?thesis by (auto simp: started_def)
qed

lemma in_stopped: "p \<in> stopped evs \<longleftrightarrow> (\<exists>s d r. Stop s d r \<in> set evs \<and> pid s = p)"
proof -
  have "p \<in> stop_pid e \<longleftrightarrow> (\<exists>s d r. e = Stop s d r \<and> pid s = p)" for e :: "'a ProcessLifecycleEvent"
    by (cases e) auto
  then show ?thesis by (auto simp: stopped_def)
qed

lemma fold_apply_event:
  "started evs \<inter> stopped evs = {} \<Longrightarrow> fold apply_event evs A = A \<union> started evs - stopped evs"
proof (induction evs rule: rev_induct)
  case (snoc e evs)
  have IH: "fold apply_event evs A = A \<union> started evs - stopped evs"
    by (rule snoc.IH) (use snoc.prems in auto)
  have disj: "(started evs \<union> start_pid e) \<inter> (stopped evs \<union> stop_pid e) = {}"
    using snoc.prems by simp
  have "fold apply_event (evs @ [e]) A = apply_event e (A \<union> started evs - stopped evs)"
    by (simp add: IH)
  also have "\<dots> = A \<union> started (evs @ [e]) - stopped (evs @ [e])"
    using disj by (cases e) (auto simp: apply_event_def)
  finally show ?case .
qed simp

lemma scan_events_started:
  assumes "keyed current"
  shows "started (scan_events fl cfg now previous current) =
    {p. \<exists>s. hm_get current p = Some s \<and> hm_get previous p = None \<and> is_ok (validate_start_event cfg s)}"
  unfolding set_eq_iff in_started scan_events_Start [OF assms] mem_Collect_eq
  using keyed_getD [OF assms] by blast

lemma scan_events_stopped:
  assumes "keyed previous"
  shows "stopped (scan_events fl cfg now previous current) = pids previous - pids current"
  unfolding set_eq_iff in_stopped scan_events_Stop [OF assms] pids_def Diff_iff mem_Collect_eq not_not
  using keyed_getD [OF assms] by blast

definition valid_start :: "LifecycleTrackingConfig \<Rightarrow> 'json ProcessEvent \<Rightarrow> bool" where
  "valid_start cfg e = is_ok (validate_start_event cfg (snapshot_of e))"

text \<open>
  In every scan each process whose number was not in the scan before passes the check of its age;
  of the others nothing is asked.
\<close>

fun newcomers_valid ::
    "LifecycleTrackingConfig \<Rightarrow> u32 set \<Rightarrow> (nat \<times> 'json ProcessEvent list) list \<Rightarrow> bool" where
  "newcomers_valid cfg before [] = True"
| "newcomers_valid cfg before ((_, ps) # scans) =
     (list_all (\<lambda>e. ProcessEvent.pid e \<in> before \<or> valid_start cfg e) ps
      \<and> newcomers_valid cfg (ProcessEvent.pid ` set ps) scans)"

lemma replay_scan:
  assumes "keyed previous" "A \<subseteq> pids previous"
  shows "fold apply_event (scan_events fl cfg now previous (snapshots_of ps)) A \<subseteq> pids (snapshots_of ps)"
    and "A = pids previous \<Longrightarrow> list_all (\<lambda>e. ProcessEvent.pid e \<in> pids previous \<or> valid_start cfg e) ps \<Longrightarrow>
      fold apply_event (scan_events fl cfg now previous (snapshots_of ps)) A = pids (snapshots_of ps)"
proof -
  let ?new = "snapshots_of ps" and ?evs = "scan_events fl cfg now previous (snapshots_of ps)"
  note start = scan_events_started [OF keyed_snapshots_of, of fl cfg now previous ps]
  note stop = scan_events_stopped [OF assms(1), of fl cfg now ?new]
  have eq: "fold apply_event ?evs A = A \<union> started ?evs - stopped ?evs"
    by (rule fold_apply_event) (auto simp: start stop pids_def)
  show "fold apply_event ?evs A \<subseteq> pids ?new"
    unfolding eq using assms(2) by (auto simp: start stop pids_def)
  assume A: "A = pids previous" and ok: "list_all (\<lambda>e. ProcessEvent.pid e \<in> pids previous \<or> valid_start cfg e) ps"
  have "is_ok (validate_start_event cfg s)" if "hm_get ?new p = Some s" "p \<notin> pids previous" for p s
  proof -
    from that(1) have "filter (\<lambda>e. ProcessEvent.pid e = p) ps \<noteq> []"
      and s: "s = snapshot_of (last (filter (\<lambda>e. ProcessEvent.pid e = p) ps))"
      by (auto simp: hm_get_snapshots_of filter_empty_conv split: if_splits)
    then have "last (filter (\<lambda>e. ProcessEvent.pid e = p) ps) \<in> set (filter (\<lambda>e. ProcessEvent.pid e = p) ps)"
      using last_in_set by blast
    with ok that(2) show ?thesis by (auto simp: list_all_iff valid_start_def s)
  qed
  then show "fold apply_event ?evs A = pids ?new"
    unfolding eq by (auto simp: A start stop pids_def)
qed

lemma pids_snapshots_of [simp]: "pids (snapshots_of ps) = ProcessEvent.pid ` set ps"
  by (auto simp: pids_def hm_get_snapshots_of)

lemma run_scans_replay:
  assumes "tracking t" "A \<subseteq> pids (current_snapshots t)" "run_scans fl scans t = (evs, t')"
  shows "fold apply_event evs A \<subseteq> pids (current_snapshots t') \<and>
    current_snapshots t' = (if scans = [] then current_snapshots t else snapshots_of (snd (last scans))) \<and>
    tracking t' \<and> config t' = config t \<and>
    (A = pids (current_snapshots t) \<longrightarrow> newcomers_valid (config t) A scans \<longrightarrow>
       fold apply_event evs A = pids (current_snapshots t'))"
  using assms
proof (induction scans arbitrary: t A evs)
  case (Cons scan scans)
  obtain now ps where scan: "scan = (now, ps)" by (rule prod.exhaust)
  let ?e = "scan_events fl (config t) now (current_snapshots t) (snapshots_of ps)"
  obtain t1 where t1: "tracking t1" "config t1 = config t" "current_snapshots t1 = snapshots_of ps"
    and run1: "run_scans fl (scan # scans) t =
       (case run_scans fl scans t1 of (events, t2) \<Rightarrow> (?e @ events, t2))"
    unfolding scan by (rule run_scans_Cons [OF Cons.prems(1)])
  obtain evs2 where run: "run_scans fl scans t1 = (evs2, t')" and evs: "evs = ?e @ evs2"
    using Cons.prems(3) unfolding run1 by (auto split: prod.splits)
  have k: "keyed (current_snapshots t)" using Cons.prems(1) by (simp add: tracking_def)
  note step = replay_scan [OF k Cons.prems(2), where fl = fl and cfg = "config t" and now = now and ps = ps]
  have "fold apply_event ?e A \<subseteq> pids (current_snapshots t1)" unfolding t1(3) by (rule step(1))
  note IH = Cons.IH [OF t1(1) this run]
  have "fold apply_event evs A = pids (current_snapshots t')"
    if "A = pids (current_snapshots t)" "newcomers_valid (config t) A (scan # scans)"
    using IH step(2) that by (simp add: evs scan t1)
  with IH show ?case by (auto simp: evs t1 scan)
qed simp

lemma kept_not_started:
  assumes "tracking t" "p \<in> pids (current_snapshots t)" "list_all (\<lambda>(_, ps). p \<in> ProcessEvent.pid ` set ps) scans"
    and "run_scans fl scans t = (evs, t')"
  shows "p \<notin> started evs \<and> p \<in> pids (current_snapshots t')"
  using assms
proof (induction scans arbitrary: t evs)
  case (Cons scan scans)
  obtain now ps where scan: "scan = (now, ps)" by (rule prod.exhaust)
  let ?e = "scan_events fl (config t) now (current_snapshots t) (snapshots_of ps)"
  obtain t1 where t1: "tracking t1" "config t1 = config t" "current_snapshots t1 = snapshots_of ps"
    and run1: "run_scans fl (scan # scans) t =
       (case run_scans fl scans t1 of (events, t2) \<Rightarrow> (?e @ events, t2))"
    unfolding scan by (rule run_scans_Cons [OF Cons.prems(1)])
  obtain evs2 where run: "run_scans fl scans t1 = (evs2, t')" and evs: "evs = ?e @ evs2"
    using Cons.prems(4) unfolding run1 by (auto split: prod.splits)
  have "p \<notin> started ?e"
    using Cons.prems(2) by (simp add: scan_events_started [OF keyed_snapshots_of] pids_def)
  moreover have "p \<notin> started evs2 \<and> p \<in> pids (current_snapshots t')"
    using Cons.prems(3) by (intro Cons.IH [OF t1(1) _ _ run]) (simp_all add: t1 scan)
  ultimately show ?case by (simp add: evs)
qed (simp add: started_def)

section \<open>Counters\<close>

fun is_start :: "'json ProcessLifecycleEvent \<Rightarrow> bool" where
  "is_start (Start s d) = True"
| "is_start _ = False"

fun is_stop :: "'json ProcessLifecycleEvent \<Rightarrow> bool" where
  "is_stop (Stop s d r) = True"
| "is_stop _ = False"

fun is_modified :: "'json ProcessLifecycleEvent \<Rightarrow> bool" where
  "is_modified (Modified q s d fs) = True"
| "is_modified _ = False"

fun is_suspicious :: "'json ProcessLifecycleEvent \<Rightarrow> bool" where
  "is_suspicious (Suspicious s d reason severity) = True"
| "is_suspicious _ = False"

lemma count_event_fields:
  "start_events (count_event e st) = (if is_start e then sat_add (start_events st) 1 else start_events st)"
  "stop_events (count_event e st) = (if is_stop e then sat_add (stop_events st) 1 else stop_events st)"
  "modification_events (count_event e st) = (if is_modified e then sat_add (modification_events st) 1 else modification_events st)"
  "suspicious_events (count_event e st) = (if is_suspicious e then sat_add (suspicious_events st) 1 else suspicious_events st)"
  by (cases e; simp add: count_event_def Let_def)+

text \<open>A counter that is raised by one for each event of a kind counts them, up to its width.\<close>

lemma counter_counts:
  fixes field :: "'s \<Rightarrow> u64"
  assumes "\<And>e st. field (step e st) = (if kind e then sat_add (field st) 1 else field st)"
  shows "unat (field (fold step evs st)) = min (unat (field st) + length (filter kind evs)) (2 ^ 64 - 1)"
proof (induction evs arbitrary: st)
  case Nil
  show ?case using unsigned_less [of "field st", where 'a = nat] by simp
qed (simp add: assms unat_sat_add min_def)

lemmas count_events_exact =
  counter_counts [of start_events count_event is_start, OF count_event_fields(1)]
  counter_counts [of stop_events count_event is_stop, OF count_event_fields(2)]
  counter_counts [of modification_events count_event is_modified, OF count_event_fields(3)]
  counter_counts [of suspicious_events count_event is_suspicious, OF count_event_fields(4)]

text \<open>
  The counter of timestamp anomalies goes by the words of the report. That of a process which seems
  too old does not have them: 400 days are counted as suspicious, but not as a timestamp anomaly.
\<close>

lemma old_age_not_counted:
  "detect_timestamp_anomaly (s\<lparr>start_time := Some 0\<rparr>) (400 * 24 * 3600 * 10 ^ 9) =
     Ok (Some (Suspicious (s\<lparr>start_time := Some 0\<rparr>) (400 * 24 * 3600 * 10 ^ 9)
       ''Process age seems unrealistic: 34560000s'' Medium))
   \<and> timestamp_anomalies (count_event (Suspicious r d ''Process age seems unrealistic: 34560000s'' Medium) st) =
     timestamp_anomalies st"
proof -
  have "show_nat 34560000 = ''34560000''" by (simp add: show_nat.simps digit_char_def) code_simp
  then show ?thesis
    by (simp add: detect_timestamp_anomaly_def duration_since_def debug_duration_def fmt_decimal_def
        count_event_def Let_def sublist_Cons_right)
qed

section \<open>Properties\<close>

text \<open>
  Claim C18: the reports determine the process table. Whatever the scans, a reader who starts from the
  processes of the first scan and then follows the reported starts and stops never takes a process to
  be running that the last scan does not show; and he knows exactly the running processes if every
  process passes the check of its age in the scan it appears in, whatever its times are in the scans
  after that. An update never fails.
\<close>

theorem reports_follow_table:
  "case run_scans fl ((t0, first) # scans) (ProcessLifecycleTracker_new cfg) of (evs, t) \<Rightarrow>
     (let alive = fold apply_event evs (ProcessEvent.pid ` set first);
          running = ProcessEvent.pid ` set (snd (last ((t0, first) # scans)))
      in alive \<subseteq> running \<and> pids (current_snapshots t) = running \<and>
         is_ok (fst (update_and_detect_changes fl now ps t)) \<and>
         (newcomers_valid cfg (ProcessEvent.pid ` set first) scans \<longrightarrow> alive = running))"
proof -
  have new: "last_update (ProcessLifecycleTracker_new cfg) = None" "config (ProcessLifecycleTracker_new cfg) = cfg"
    by (simp_all add: ProcessLifecycleTracker_new_def)
  obtain t1 where t1: "update_and_detect_changes fl t0 first (ProcessLifecycleTracker_new cfg) = (Ok [], t1)"
    "config t1 = cfg" "current_snapshots t1 = snapshots_of first" "last_update t1 = Some t0"
    by (rule update_first [OF new(1), of fl t0 first]) (simp add: new(2))
  have "tracking t1" by (simp add: tracking_def t1 keyed_snapshots_of)
  moreover obtain evs t where run: "run_scans fl scans t1 = (evs, t)" by (rule prod.exhaust)
  ultimately have rp: "fold apply_event evs (ProcessEvent.pid ` set first) \<subseteq> pids (current_snapshots t) \<and>
      current_snapshots t = (if scans = [] then snapshots_of first else snapshots_of (snd (last scans))) \<and>
      tracking t \<and> config t = cfg \<and>
      (ProcessEvent.pid ` set first = ProcessEvent.pid ` set first \<longrightarrow>
       newcomers_valid cfg (ProcessEvent.pid ` set first) scans \<longrightarrow>
         fold apply_event evs (ProcessEvent.pid ` set first) = pids (current_snapshots t))"
    using run_scans_replay [OF _ subset_refl, of t1 fl scans evs t, unfolded t1(2,3) pids_snapshots_of] by blast
  have cur: "current_snapshots t = snapshots_of (snd (last ((t0, first) # scans)))"
    using rp [THEN conjunct2, THEN conjunct1] by (cases "scans = []") simp_all
  have "is_ok (fst (update_and_detect_changes fl now ps t))"
    using rp by (metis fst_conv is_ok_simps(1) update_tracking)
  with rp show ?thesis
    unfolding run_scans.simps t1(1) prod.case run Let_def cur pids_snapshots_of sum.case append_Nil
    by blast
qed

text \<open>Two processes of the demonstration: one of unknown age, one that started a nanosecond before the scan.\<close>

definition old_process :: "unit ProcessEvent" where
  "old_process = app_event [''app'']"

definition young_process :: "unit ProcessEvent" where
  "young_process = (app_event [''new''])\<lparr>ProcessEvent.pid := 9, ProcessEvent.start_time := Some 5, event_timestamp := 6\<rparr>"

text \<open>The first of them in a later scan, after the clock stepped back behind its start.\<close>

definition stepped_back :: "unit ProcessEvent" where
  "stepped_back = old_process\<lparr>ProcessEvent.start_time := Some 5, event_timestamp := 3\<rparr>"

theorem reports_follow_table_witness:
  "fold apply_event
     (fst (run_scans id [(0, []), (1, [old_process]), (2, [stepped_back])]
        (ProcessLifecycleTracker_new LifecycleTrackingConfig_default))) {} = {1}
   \<and> \<not> valid_start LifecycleTrackingConfig_default stepped_back"
proof -
  have "valid_start LifecycleTrackingConfig_default old_process"
    "\<not> valid_start LifecycleTrackingConfig_default stepped_back"
    by (simp_all add: valid_start_def validate_start_event_def snapshot_of_def old_process_def stepped_back_def
        app_event_def duration_since_def)
  moreover have "ProcessEvent.pid old_process = 1" "ProcessEvent.pid stepped_back = 1"
    by (simp_all add: old_process_def stepped_back_def app_event_def)
  ultimately show ?thesis
    using reports_follow_table [where fl = id and ?t0.0 = 0 and first = "[]"
      and scans = "[(1, [old_process]), (2, [stepped_back])]"
      and cfg = LifecycleTrackingConfig_default and now = 2 and ps = "[]"]
    by (simp add: case_prod_beta Let_def)
qed

text \<open>
  A process that is younger than the minimum lifetime when it is first seen, or whose start
  time lies in the future then, is never reported as started, however long it runs afterwards; only
  its end is reported.
\<close>

lemma young_process_never_reported:
  assumes "tracking t" "hm_get (current_snapshots t) p = None"
    and "hm_get (snapshots_of ps) p = Some s" "\<not> is_ok (validate_start_event (config t) s)"
    and "list_all (\<lambda>(_, ps). p \<in> ProcessEvent.pid ` set ps) scans"
    and "run_scans fl ((now, ps) # scans) t = (evs, t')" "p \<notin> ProcessEvent.pid ` set gone"
  shows "p \<notin> started evs \<and>
    (\<exists>evs' t''. update_and_detect_changes fl later gone t' = (Ok evs', t'') \<and> p \<in> stopped evs')"
proof -
  let ?e = "scan_events fl (config t) now (current_snapshots t) (snapshots_of ps)"
  obtain t1 where t1: "tracking t1" "config t1 = config t" "current_snapshots t1 = snapshots_of ps"
    and run1: "run_scans fl ((now, ps) # scans) t =
       (case run_scans fl scans t1 of (events, t2) \<Rightarrow> (?e @ events, t2))"
    by (rule run_scans_Cons [OF assms(1)])
  obtain evs2 where run: "run_scans fl scans t1 = (evs2, t')" and evs: "evs = ?e @ evs2"
    using assms(6) unfolding run1 by (auto split: prod.splits)
  have "p \<in> pids (current_snapshots t1)" using assms(3) by (simp add: t1(3) pids_def del: pids_snapshots_of)
  from kept_not_started [OF t1(1) this assms(5) run]
  have later: "p \<notin> started evs2" "p \<in> pids (current_snapshots t')" by simp_all
  have "p \<notin> started ?e" using assms(3,4) by (simp add: scan_events_started [OF keyed_snapshots_of])
  moreover have "tracking t'" using run_scans_replay [OF t1(1) subset_refl run] by simp
  moreover have "keyed (current_snapshots t')" using \<open>tracking t'\<close> by (simp add: tracking_def)
  ultimately show ?thesis
    using later assms(7) update_tracking [of t' fl later gone]
    by (metis DiffI Un_iff evs pids_snapshots_of scan_events_stopped started_simps(3))
qed

lemma young_process_never_reported_example:
  "9 \<notin> started (fst (run_scans id [(6, [young_process]), (7, [young_process])]
     (snd (update_and_detect_changes id 5 [] (ProcessLifecycleTracker_new LifecycleTrackingConfig_default)))))"
proof -
  have new: "last_update (ProcessLifecycleTracker_new LifecycleTrackingConfig_default) = None"
      "config (ProcessLifecycleTracker_new LifecycleTrackingConfig_default) = LifecycleTrackingConfig_default"
    by (simp_all add: ProcessLifecycleTracker_new_def)
  obtain t where t: "update_and_detect_changes id 5 [] (ProcessLifecycleTracker_new LifecycleTrackingConfig_default)
      = (Ok [], t :: unit ProcessLifecycleTracker)"
    "config t = LifecycleTrackingConfig_default" "current_snapshots t = snapshots_of []" "last_update t = Some 5"
    by (rule update_first [OF new(1), of id 5 "[]"]) (simp add: new(2))
  have pid: "ProcessEvent.pid young_process = 9" by (simp add: young_process_def)
  have snap: "hm_get (snapshots_of [young_process]) 9 = Some (snapshot_of young_process)"
    by (simp add: hm_get_snapshots_of pid)
  have "\<not> is_ok (validate_start_event LifecycleTrackingConfig_default (snapshot_of young_process))"
    by (simp add: validate_start_event_def snapshot_of_def young_process_def app_event_def duration_since_def
        LifecycleTrackingConfig_default_def)
  moreover have "tracking t" "hm_get (current_snapshots t) 9 = None"
    by (simp_all add: tracking_def t keyed_snapshots_of hm_get_snapshots_of)
  moreover obtain evs t' where run: "run_scans id [(6, [young_process]), (7, [young_process])] t = (evs, t')"
    by (rule prod.exhaust)
  ultimately have "9 \<notin> started evs"
    using young_process_never_reported [OF _ _ snap _ _ run, of "[]"] by (simp add: t(2) pid)
  with run t(1) show ?thesis by simp
qed

end
