(* ===== verification/Monitor_Collector.thy ===== *)
theory Monitor_Collector
  imports Lifecycle Event_Bus_Connector
begin

text \<open>
  The part of a collection cycle of the process monitor that follows the scan,
  \<open>collect_and_analyze_internal\<close> of \<^verbatim>\<open>procmond/src/monitor_collector.rs\<close>: the scan goes through the
  lifecycle tracker, and the processes with a report are published through the connector. This theory
  joins \<open>Lifecycle\<close> with \<open>Event_Bus_Connector\<close> and the write-ahead log below it.
\<close>

section \<open>The cycle\<close>

text \<open>The counters and fields that this part of the cycle changes.\<close>

record MonitorCollectorStats =
  collection_cycles :: u64
  lifecycle_events :: u64
  analysis_errors :: u64

record 'json Monitor =
  lifecycle_tracker :: "'json ProcessLifecycleTracker"
  monitor_stats :: MonitorCollectorStats
  event_bus_connector :: "'json EventBusConnector option"
  event_bus_connected :: bool
  buffer_level_percent :: "nat option"

fun event_type_entry :: "'json ProcessLifecycleEvent \<Rightarrow> u32 \<times> ProcessEventType" where
  "event_type_entry (ProcessLifecycleEvent.Start process _) = (pid process, ProcessEventType.Start)"
| "event_type_entry (ProcessLifecycleEvent.Stop process _ _) = (pid process, ProcessEventType.Stop)"
| "event_type_entry (Modified _ current _ _) = (pid current, Modify)"
| "event_type_entry (Suspicious process _ _ _) = (pid process, Modify)"

definition pid_to_event_type :: "'json ProcessLifecycleEvent list \<Rightarrow> (u32, ProcessEventType) hash_map" where
  "pid_to_event_type events = fold (\<lambda>e. hm_insert (fst (event_type_entry e)) (snd (event_type_entry e))) events []"

definition publications ::
    "(u32, ProcessEventType) hash_map \<Rightarrow> 'json ProcessEvent list \<Rightarrow> ('json ProcessEvent \<times> ProcessEventType) list" where
  "publications types process_events =
     List.map_filter (\<lambda>e. map_option (Pair e) (hm_get types (ProcessEvent.pid e))) process_events"

fun publish_all ::
    "'json ProcessEvent wal_codec \<Rightarrow> faults \<Rightarrow> ('json \<Rightarrow> string) \<Rightarrow> (string \<Rightarrow> string) \<Rightarrow> (nat \<Rightarrow> nat) \<Rightarrow> nat
       \<Rightarrow> ('json ProcessEvent \<times> ProcessEventType) list \<Rightarrow> 'json EventBusConnector \<Rightarrow> world
       \<Rightarrow> 'json EventBusConnector \<times> world" where
  "publish_all cd flt json_text lower clock i [] c wd = (c, wd)"
| "publish_all cd flt json_text lower clock i ((e, ty) # rest) c wd =
     (case publish cd flt json_text lower e ty c (wd\<lparr>now := clock i\<rparr>) of
        (_, c, wd) \<Rightarrow> publish_all cd flt json_text lower clock (Suc i) rest c wd)"

definition analyze_and_publish ::
    "'json ProcessEvent wal_codec \<Rightarrow> faults \<Rightarrow> (rat \<Rightarrow> rat) \<Rightarrow> ('json \<Rightarrow> string) \<Rightarrow> (string \<Rightarrow> string) \<Rightarrow> nat \<Rightarrow> (nat \<Rightarrow> nat)
       \<Rightarrow> 'json ProcessEvent list \<Rightarrow> 'json Monitor \<Rightarrow> world \<Rightarrow> 'json Monitor \<times> world" where
  "analyze_and_publish cd flt fl json_text lower update_time clock process_events m wd =
     (let (res, tracker) = update_and_detect_changes fl update_time process_events (lifecycle_tracker m);
          m = m\<lparr>lifecycle_tracker := tracker\<rparr>;
          st = monitor_stats m;
          (events, st) = (case res of Ok events \<Rightarrow> (events, st)
                          | Err _ \<Rightarrow> ([], st\<lparr>analysis_errors := analysis_errors st + 1\<rparr>));
          st = st\<lparr>collection_cycles := collection_cycles st + 1,
                  lifecycle_events := lifecycle_events st + word_of_nat (length events)\<rparr>;
          m = m\<lparr>monitor_stats := st\<rparr>;
          types = pid_to_event_type events
      in case event_bus_connector m of
           None \<Rightarrow> (m, wd)
         | Some connector \<Rightarrow>
             (let m = m\<lparr>event_bus_connected := connected connector,
                        buffer_level_percent := Some (buffer_usage_percent connector)\<rparr>;
                  (connector, wd) = publish_all cd flt json_text lower clock 0 (publications types process_events) connector wd
              in (m\<lparr>event_bus_connector := Some connector\<rparr>, wd)))"

section \<open>Which types are published\<close>

lemma hm_get_types:
  "hm_get (fold (\<lambda>e. hm_insert (fst (event_type_entry e)) (snd (event_type_entry e))) evs m) p =
     (let about = filter (\<lambda>e. fst (event_type_entry e) = p) evs in
      if about = [] then hm_get m p else Some (snd (event_type_entry (last about))))"
  by (induction evs arbitrary: m) (auto simp: Let_def)

lemma types_uniform:
  assumes "e \<in> set evs" "fst (event_type_entry e) = p"
    and "\<And>e. e \<in> set evs \<Longrightarrow> fst (event_type_entry e) = p \<Longrightarrow> snd (event_type_entry e) = ty"
  shows "hm_get (pid_to_event_type evs) p = Some ty"
proof -
  let ?about = "filter (\<lambda>e. fst (event_type_entry e) = p) evs"
  have "?about \<noteq> []" using assms(1,2) by (auto simp: filter_empty_conv)
  moreover from this have "last ?about \<in> set ?about" by (rule last_in_set)
  ultimately show ?thesis
    using assms(3) by (simp add: pid_to_event_type_def hm_get_types Let_def)
qed

lemma types_None:
  "(\<And>e. e \<in> set evs \<Longrightarrow> fst (event_type_entry e) \<noteq> p) \<Longrightarrow> hm_get (pid_to_event_type evs) p = None"
  by (auto simp: pid_to_event_type_def hm_get_types Let_def filter_empty_conv)

lemma in_publications: "(e, ty) \<in> set (publications types ps) \<longleftrightarrow> e \<in> set ps \<and> hm_get types (ProcessEvent.pid e) = Some ty"
  by (auto simp: publications_def set_map_filter)

text \<open>The type of a process depends on the tables of the two scans alone.\<close>

lemma scan_event_entry:
  assumes "keyed previous" "keyed current" "e \<in> set (scan_events fl cfg tm previous current)"
    and "event_type_entry e = (p, ty)"
  shows "ty = ProcessEventType.Start \<and> hm_get previous p = None \<and>
      (\<exists>s. hm_get current p = Some s \<and> is_ok (validate_start_event cfg s)) \<or>
    ty = ProcessEventType.Stop \<and> hm_get previous p \<noteq> None \<and> hm_get current p = None \<or>
    ty = Modify \<and> (\<exists>q s. hm_get previous p = Some q \<and> hm_get current p = Some s \<and>
      (compare_snapshots fl cfg q s \<noteq> [] \<or> detect_pid_reuse cfg \<and> suspicions q s tm \<noteq> []))"
proof (cases e)
  case (Start s d)
  with assms(3,4) show ?thesis by (auto simp: scan_events_Start [OF assms(2)])
next
  case (Stop s d r)
  with assms(3,4) show ?thesis by (auto simp: scan_events_Stop [OF assms(1)])
next
  case (Modified q s d fs)
  with assms(3,4) show ?thesis by (auto simp: scan_events_Modified [OF assms(2)])
next
  case (Suspicious s d reason severity)
  with assms(3,4) show ?thesis by (auto simp: scan_events_Suspicious [OF assms(2)])
qed

lemma scan_types:
  assumes "keyed previous" "keyed current"
  shows "hm_get (pid_to_event_type (scan_events fl cfg tm previous current)) p =
    (case (hm_get previous p, hm_get current p) of
       (None, None) \<Rightarrow> None
     | (Some _, None) \<Rightarrow> Some ProcessEventType.Stop
     | (None, Some s) \<Rightarrow> if is_ok (validate_start_event cfg s) then Some ProcessEventType.Start else None
     | (Some q, Some s) \<Rightarrow>
         if compare_snapshots fl cfg q s \<noteq> [] \<or> detect_pid_reuse cfg \<and> suspicions q s tm \<noteq> [] then Some Modify else None)"
    (is "hm_get (pid_to_event_type ?evs) p = ?rhs")
proof (cases "\<exists>e \<in> set ?evs. fst (event_type_entry e) = p")
  case True
  then obtain e where e: "e \<in> set ?evs" "fst (event_type_entry e) = p" by blast
  have entry: "?rhs = Some (snd (event_type_entry e))" if "e \<in> set ?evs" "fst (event_type_entry e) = p" for e
    using scan_event_entry [OF assms that(1), of p "snd (event_type_entry e)"] that(2)
    by (auto simp: prod_eq_iff)
  have "hm_get (pid_to_event_type ?evs) p = Some (snd (event_type_entry e))"
  proof (rule types_uniform [OF e])
    fix e' assume "e' \<in> set ?evs" "fst (event_type_entry e') = p"
    from entry [OF this] entry [OF e] show "snd (event_type_entry e') = snd (event_type_entry e)" by simp
  qed
  then show ?thesis by (simp only: entry [OF e])
next
  case False
  then have notin: "fst (event_type_entry e) = p \<Longrightarrow> e \<notin> set ?evs" for e by blast
  have start: "hm_get previous p \<noteq> None \<or> \<not> is_ok (validate_start_event cfg s)" if "hm_get current p = Some s" for s
    using notin [of "ProcessLifecycleEvent.Start s tm"] that keyed_getD [OF assms(2) that]
    by (auto simp: scan_events_Start [OF assms(2)])
  have stop: "hm_get current p \<noteq> None" if "hm_get previous p = Some s" for s
    using notin [of "ProcessLifecycleEvent.Stop s tm (Option.bind (start_time s) (duration_since tm))"]
      that keyed_getD [OF assms(1) that] by (auto simp: scan_events_Stop [OF assms(1)])
  have mod: "compare_snapshots fl cfg q s = []" if "hm_get previous p = Some q" "hm_get current p = Some s" for q s
    using notin [of "Modified q s tm (compare_snapshots fl cfg q s)"] that keyed_getD [OF assms(2) that(2)]
    by (auto simp: scan_events_Modified [OF assms(2)])
  have susp: "suspicions q s tm = []"
    if "hm_get previous p = Some q" "hm_get current p = Some s" "detect_pid_reuse cfg" for q s
  proof (rule ccontr)
    assume "suspicions q s tm \<noteq> []"
    then obtain e where e: "e \<in> set (suspicions q s tm)" by (cases "suspicions q s tm") auto
    from suspicions_about [OF this] obtain reason severity where "e = Suspicious s tm reason severity" by blast
    with notin [of e] e that keyed_getD [OF assms(2) that(2)] show False
      by (auto simp: scan_events_Suspicious [OF assms(2)])
  qed
  have "hm_get (pid_to_event_type ?evs) p = None" by (rule types_None) (use notin in blast)
  moreover have "?rhs = None"
    using start stop mod susp by (cases "hm_get previous p"; cases "hm_get current p") auto
  ultimately show ?thesis by simp
qed

section \<open>What reaches the log\<close>

text \<open>A process event is kept if it is in the log under its type or was taken by the broker.\<close>

definition kept ::
    "'json ProcessEvent wal_codec \<Rightarrow> (string \<Rightarrow> string) \<Rightarrow> world \<Rightarrow> 'json ProcessEvent \<Rightarrow> ProcessEventType \<Rightarrow> bool" where
  "kept cd lower wd e ty \<longleftrightarrow>
     (\<exists>sq. written_entry cd lower sq e ty \<in> set (log_entries cd (disk wd)) \<or> delivered wd (written_entry cd lower sq e ty))"

lemma delivered_now [simp]: "delivered (wd\<lparr>now := i\<rparr>) e = delivered wd e"
  by (simp add: delivered_def split: sum.split)

lemma conn_inv_now [simp]: "conn_inv cd n acked c (wd\<lparr>now := i\<rparr>) = conn_inv cd n acked c wd"
  by (simp add: conn_inv_def all_known_def settled_def)

lemma publish_all_inv:
  assumes "postcard_ok cd" "conn_inv cd (length pubs) acked c wd" "list_all (\<lambda>(e, _). storable cd lower e) pubs"
    and "publish_all cd no_faults jt lower clock i pubs c wd = (c', wd')"
  shows "\<exists>new. conn_inv cd 0 (acked \<union> new) c' wd' \<and>
    (\<forall>(e, ty) \<in> set pubs. metadata_free e \<longrightarrow> (\<exists>sq. written_entry cd lower sq e ty \<in> new))"
  using assms(2-4)
proof (induction pubs arbitrary: acked c wd i)
  case (Cons x pubs)
  obtain e ty where x: "x = (e, ty)" by (rule prod.exhaust)
  obtain res c1 wd1 where pub: "publish cd no_faults jt lower e ty c (wd\<lparr>now := clock i\<rparr>) = (res, c1, wd1)"
    by (rule prod_cases3)
  let ?e = "written_entry cd lower (current_event_sequence (wal c)) e ty"
  let ?acked = "acked \<union> set (filter readable [?e])"
  have "conn_inv cd (length pubs) ?acked c1 wd1"
    using Cons.prems(1,2) by (intro publish_inv(1) [OF assms(1) _ _ pub]) (simp_all add: x)
  moreover have "publish_all cd no_faults jt lower clock (Suc i) pubs c1 wd1 = (c', wd')"
    using Cons.prems(3) by (simp add: x pub)
  ultimately obtain new where new: "conn_inv cd 0 (?acked \<union> new) c' wd'"
      "\<forall>(e, ty) \<in> set pubs. metadata_free e \<longrightarrow> (\<exists>sq. written_entry cd lower sq e ty \<in> new)"
    using Cons.IH [of ?acked c1 wd1 "Suc i"] Cons.prems(2) by auto
  show ?case
  proof (intro exI [of _ "set (filter readable [?e]) \<union> new"] conjI)
    show "conn_inv cd 0 (acked \<union> (set (filter readable [?e]) \<union> new)) c' wd'"
      using new(1) by (simp only: Un_assoc)
    show "\<forall>(e, ty) \<in> set (x # pubs). metadata_free e \<longrightarrow>
        (\<exists>sq. written_entry cd lower sq e ty \<in> set (filter readable [?e]) \<union> new)"
      using new(2) by (auto simp: x)
  qed
qed (auto intro: exI [of _ "{}"])

lemma length_publications: "length (publications types ps) \<le> length ps"
  by (simp add: publications_def map_filter_def)

lemma conn_inv_less: "conn_inv cd n acked c wd \<Longrightarrow> m \<le> n \<Longrightarrow> conn_inv cd m acked c wd"
  by (auto simp: conn_inv_def has_room_def)

text \<open>
  Claim C14: every detected change of a running process is kept, if its event has no metadata. After a cycle on
  a scan other than the first, whatever the broker does, each process that is new and passes the check of its
  age is in the log or with the broker as a start, and each process of which a tracked field changed, or whose
  number was reused while that is checked, as a modification; all that was kept before is still kept. This
  needs the system calls of the log to succeed, process numbers that occur once in the scan, events that
  serialize to less than \<open>2 ^ 32\<close> bytes, and room in the counters of the log.
\<close>

theorem detected_changes_kept:
  assumes "postcard_ok cd" "tracking (lifecycle_tracker m)" "event_bus_connector m = Some c"
    and "conn_inv cd (length ps) acked c wd" "list_all (storable cd lower) ps" "distinct (map ProcessEvent.pid ps)"
    and "analyze_and_publish cd no_faults fl jt lower update_time clock ps m wd = (m', wd')" "e \<in> set ps"
    and "metadata_free e"
  shows "(\<exists>c'. event_bus_connector m' = Some c' \<and> conn_inv cd 0 acked c' wd') \<and>
    (case hm_get (current_snapshots (lifecycle_tracker m)) (ProcessEvent.pid e) of
       None \<Rightarrow> valid_start (config (lifecycle_tracker m)) e \<longrightarrow> kept cd lower wd' e ProcessEventType.Start
     | Some q \<Rightarrow> compare_snapshots fl (config (lifecycle_tracker m)) q (snapshot_of e) \<noteq> [] \<or>
         detect_pid_reuse (config (lifecycle_tracker m)) \<and> suspicions q (snapshot_of e) update_time \<noteq> []
           \<longrightarrow> kept cd lower wd' e Modify)"
proof -
  let ?t = "lifecycle_tracker m"
  let ?evs = "scan_events fl (config ?t) update_time (current_snapshots ?t) (snapshots_of ps)"
  let ?pubs = "publications (pid_to_event_type ?evs) ps"
  obtain t' where upd: "update_and_detect_changes fl update_time ps ?t = (Ok ?evs, t')"
    by (rule update_tracking [OF assms(2)])
  obtain c' where pub: "publish_all cd no_faults jt lower clock 0 ?pubs c wd = (c', wd')"
    and m': "event_bus_connector m' = Some c'"
    using assms(3,7) by (auto simp: analyze_and_publish_def upd Let_def split: prod.splits)
  have "conn_inv cd (length ?pubs) acked c wd" by (rule conn_inv_less [OF assms(4) length_publications])
  moreover have "list_all (\<lambda>(e, _). storable cd lower e) ?pubs"
    using assms(5) by (auto simp: list_all_iff in_publications)
  ultimately obtain new where new: "conn_inv cd 0 (acked \<union> new) c' wd'"
      "\<forall>(e, ty) \<in> set ?pubs. metadata_free e \<longrightarrow> (\<exists>sq. written_entry cd lower sq e ty \<in> new)"
    using publish_all_inv [OF assms(1) _ _ pub] by blast
  have kept: "kept cd lower wd' e ty" if "hm_get (pid_to_event_type ?evs) (ProcessEvent.pid e) = Some ty" for ty
    using new that assms(8,9) unfolding kept_def conn_inv_def by (fastforce simp: in_publications)
  have "filter (\<lambda>x. ProcessEvent.pid x = ProcessEvent.pid e) ps = [e]"
    using assms(6,8) by (induction ps) (auto simp: filter_empty_conv image_iff)
  then have snap: "hm_get (snapshots_of ps) (ProcessEvent.pid e) = Some (snapshot_of e)"
    using assms(8) by (simp add: hm_get_snapshots_of)
  have "keyed (current_snapshots ?t)" using assms(2) by (simp add: tracking_def)
  note types = scan_types [OF this keyed_snapshots_of, of fl "config ?t" update_time ps "ProcessEvent.pid e"]
  have "conn_inv cd 0 acked c' wd'" using new(1) by (auto simp: conn_inv_def)
  with m' kept types snap show ?thesis
    by (auto simp: valid_start_def split: option.splits)
qed

text \<open>
  The end of a process is never published. A cycle publishes processes of its scan only,
  and a process that ended is not in it: whatever the tracker reports, no publication has the type
  of a stop, and none is about a process that was reported as stopped.
\<close>

lemma stop_never_published:
  assumes "tracking t" "update_and_detect_changes fl update_time ps t = (Ok evs, t')"
  shows "(e, ty) \<in> set (publications (pid_to_event_type evs) ps) \<longrightarrow>
    ty \<noteq> ProcessEventType.Stop \<and> ProcessEvent.pid e \<notin> stopped evs"
proof
  assume pub: "(e, ty) \<in> set (publications (pid_to_event_type evs) ps)"
  have evs: "evs = scan_events fl (config t) update_time (current_snapshots t) (snapshots_of ps)"
    using assms(2) by (metis Inr_inject prod.inject update_tracking [OF assms(1)])
  have k: "keyed (current_snapshots t)" using assms(1) by (simp add: tracking_def)
  have "e \<in> set ps" using pub by (simp add: in_publications)
  then have "hm_get (snapshots_of ps) (ProcessEvent.pid e) \<noteq> None" by (simp add: hm_get_snapshots_of)
  with pub \<open>e \<in> set ps\<close> show "ty \<noteq> ProcessEventType.Stop \<and> ProcessEvent.pid e \<notin> stopped evs"
    by (auto simp: evs in_publications scan_types [OF k keyed_snapshots_of] scan_events_stopped [OF k]
        split: option.splits if_splits)
qed

section \<open>Examples\<close>

text \<open>A tracker after its first scan, and a monitor with it.\<close>

definition first_scan :: "unit ProcessEvent list \<Rightarrow> unit ProcessLifecycleTracker" where
  "first_scan ps =
     snd (update_and_detect_changes id 0 ps (ProcessLifecycleTracker_new LifecycleTrackingConfig_default))"

lemma first_scan: "tracking (first_scan ps)" "current_snapshots (first_scan ps) = snapshots_of ps"
    "config (first_scan ps) = LifecycleTrackingConfig_default"
proof -
  have new: "last_update (ProcessLifecycleTracker_new LifecycleTrackingConfig_default) = None"
      "config (ProcessLifecycleTracker_new LifecycleTrackingConfig_default) = LifecycleTrackingConfig_default"
    by (simp_all add: ProcessLifecycleTracker_new_def)
  show "tracking (first_scan ps)" "current_snapshots (first_scan ps) = snapshots_of ps"
    "config (first_scan ps) = LifecycleTrackingConfig_default"
    by (rule update_first [OF new(1), of id 0 ps]; simp add: first_scan_def tracking_def keyed_snapshots_of new(2))+
qed

definition demo_monitor :: "unit EventBusConnector \<Rightarrow> unit Monitor" where
  "demo_monitor c =
     \<lparr>lifecycle_tracker = first_scan [],
      monitor_stats = \<lparr>collection_cycles = 1, lifecycle_events = 0, analysis_errors = 0\<rparr>,
      event_bus_connector = Some c, event_bus_connected = True, buffer_level_percent = None\<rparr>"

theorem detected_changes_kept_witness:
  "\<exists>c wd m' wd'. start_up event_codec no_faults (\<lambda>_. []) quiet_world = (Ok c, wd) \<and>
     analyze_and_publish event_codec no_faults id (\<lambda>_. []) id 1 (\<lambda>_. 2) [secret_event] (demo_monitor c) wd = (m', wd') \<and>
     kept event_codec id wd' secret_event ProcessEventType.Start"
proof -
  obtain c wd where st: "start_up event_codec no_faults (\<lambda>_. []) quiet_world = (Ok c, wd)"
    by (rule quiet_start)
  have inv: "wal_inv event_codec (empty_log 0) (disk quiet_world)"
    and log: "log_entries event_codec (disk quiet_world) = []"
    by (simp_all add: quiet_world_def wal_inv_empty log_entries_empty)
  have room: "has_room (Suc 0) (empty_log 0)" by (rule has_room_empty) simp
  have ci: "conn_inv event_codec (length [secret_event]) {} c wd"
    using start_up_inv [OF inv, of "Suc 0" "{}" "\<lambda>_. []"] room st by (auto simp: all_known_def log)
  obtain m' wd' where run: "analyze_and_publish event_codec no_faults id (\<lambda>_. []) id 1 (\<lambda>_. 2) [secret_event] (demo_monitor c) wd
      = (m', wd')" by (rule prod.exhaust)
  have fields: "lifecycle_tracker (demo_monitor c) = first_scan []" "event_bus_connector (demo_monitor c) = Some c"
    by (simp_all add: demo_monitor_def)
  have "valid_start LifecycleTrackingConfig_default secret_event"
    by (simp add: valid_start_def validate_start_event_def snapshot_of_def secret_event_def app_event_def)
  then have "kept event_codec id wd' secret_event ProcessEventType.Start"
    using detected_changes_kept [OF postcard_ok_event _ fields(2) ci _ _ run, of secret_event]
    by (simp add: fields first_scan storable_secret hm_get_snapshots_of)
  with st run show ?thesis by blast
qed

lemma stop_never_published_example:
  "\<exists>evs t'. update_and_detect_changes id 1 [old_process\<lparr>ProcessEvent.pid := 2\<rparr>] (first_scan [old_process]) = (Ok evs, t') \<and>
     1 \<in> stopped evs \<and> 2 \<notin> stopped evs \<and>
     (old_process\<lparr>ProcessEvent.pid := 2\<rparr>, ProcessEventType.Start)
       \<in> set (publications (pid_to_event_type evs) [old_process\<lparr>ProcessEvent.pid := 2\<rparr>])"
proof -
  let ?new = "old_process\<lparr>ProcessEvent.pid := 2\<rparr>" and ?t = "first_scan [old_process]"
  let ?evs = "scan_events id LifecycleTrackingConfig_default 1 (snapshots_of [old_process]) (snapshots_of [?new])"
  have pid: "ProcessEvent.pid old_process = 1" by (simp add: old_process_def app_event_def)
  obtain t' where upd: "update_and_detect_changes id 1 [?new] ?t = (Ok ?evs, t')"
    by (rule update_tracking [OF first_scan(1), of id 1 "[?new]" "[old_process]"]) (simp add: first_scan)
  have "1 \<in> stopped ?evs" by (simp add: scan_events_stopped [OF keyed_snapshots_of] pid)
  moreover have "is_ok (validate_start_event LifecycleTrackingConfig_default (snapshot_of ?new))"
    by (simp add: validate_start_event_def snapshot_of_def old_process_def app_event_def)
  then have pub: "(?new, ProcessEventType.Start) \<in> set (publications (pid_to_event_type ?evs) [?new])"
    by (simp add: in_publications scan_types [OF keyed_snapshots_of keyed_snapshots_of] hm_get_snapshots_of pid)
  moreover have "2 \<notin> stopped ?evs"
    using stop_never_published [OF first_scan(1) upd, of ?new ProcessEventType.Start] pub by simp
  ultimately show ?thesis using upd by blast
qed

end
