(* ===== verification/Queue_Manager.thy ===== *)
theory Queue_Manager
  imports Prelude Mailbox
begin

text \<open>
  The queues for clients that are offline, \<^verbatim>\<open>daemoneye-eventbus/src/queue_manager.rs\<close>.

  A bounded tokio channel lives in a store of channels: its buffered messages and whether its
  receiver still exists. A queue entry holds the channel of its sender and, unless a drain has
  taken it, the channel of its receiver. \<open>drain_queue\<close> releases the lock while it empties the
  channel, so it is given as three steps; \<open>drain_queue\<close> itself is their composition.
\<close>

section \<open>Data\<close>

record channel =
  buffered :: "bytes list"
  receiver_alive :: bool

record QueueStats =
  messages_enqueued :: u64
  messages_dequeued :: u64
  current_depth :: u64
  messages_dropped :: u64

definition QueueStats_default :: QueueStats where
  "QueueStats_default =
     \<lparr>messages_enqueued = 0, messages_dequeued = 0, current_depth = 0, messages_dropped = 0\<rparr>"

record QueueInfo =
  sender :: nat
  receiver :: "nat option"
  stats :: QueueStats
  last_message :: "nat option"

record QueueManager =
  queues :: "(string, QueueInfo) hash_map"
  max_queue_size :: nat
  max_messages :: nat
  channels :: "nat \<Rightarrow> channel"
  next_channel :: nat

datatype queue_error = Transport string | Panic string

definition QueueManager_new :: "nat \<Rightarrow> nat \<Rightarrow> QueueManager" where
  "QueueManager_new queue_size messages =
     \<lparr>queues = [], max_queue_size = queue_size, max_messages = messages,
      channels = (\<lambda>_. \<lparr>buffered = [], receiver_alive = False\<rparr>), next_channel = 0\<rparr>"

definition QueueManager_default :: QueueManager where
  "QueueManager_default = QueueManager_new 1000 10000"

section \<open>Channels\<close>

definition open_channel :: "QueueManager \<Rightarrow> nat \<times> QueueManager" where
  "open_channel q =
     (next_channel q,
      q\<lparr>channels := (channels q)(next_channel q := \<lparr>buffered = [], receiver_alive = True\<rparr>),
        next_channel := Suc (next_channel q)\<rparr>)"

text \<open>Dropping a receiver discards what the channel holds.\<close>

definition drop_receiver :: "nat option \<Rightarrow> QueueManager \<Rightarrow> QueueManager" where
  "drop_receiver rx q =
     (case rx of
        None \<Rightarrow> q
      | Some ch \<Rightarrow> q\<lparr>channels := (channels q)(ch := \<lparr>buffered = [], receiver_alive = False\<rparr>)\<rparr>)"

datatype send_result = Sent | Full | Closed

definition try_send :: "nat \<Rightarrow> bytes \<Rightarrow> QueueManager \<Rightarrow> send_result \<times> QueueManager" where
  "try_send ch msg q =
     (if \<not> receiver_alive (channels q ch) then (Closed, q)
      else if length (buffered (channels q ch)) \<ge> max_queue_size q then (Full, q)
      else (Sent, q\<lparr>channels := (channels q)(ch := (channels q ch)
                       \<lparr>buffered := buffered (channels q ch) @ [msg]\<rparr>)\<rparr>))"

definition try_recv :: "nat \<Rightarrow> QueueManager \<Rightarrow> bytes option \<times> QueueManager" where
  "try_recv ch q =
     (case buffered (channels q ch) of
        [] \<Rightarrow> (None, q)
      | m # ms \<Rightarrow> (Some m, q\<lparr>channels := (channels q)(ch := (channels q ch)\<lparr>buffered := ms\<rparr>)\<rparr>))"

section \<open>Operations\<close>

text \<open>\<open>entry(client_id).or_insert_with(...)\<close>; a channel of capacity 0 makes tokio panic.\<close>

definition get_or_create :: "string \<Rightarrow> QueueManager \<Rightarrow> (QueueInfo \<times> QueueManager, queue_error) result" where
  "get_or_create client_id q =
     (case hm_get (queues q) client_id of
        Some info \<Rightarrow> Ok (info, q)
      | None \<Rightarrow>
          if max_queue_size q = 0 then Err (Panic ''mpsc bounded channel requires buffer > 0'')
          else let (ch, q') = open_channel q;
                   info = \<lparr>sender = ch, receiver = Some ch, stats = QueueStats_default, last_message = None\<rparr> in
            Ok (info, q'\<lparr>queues := hm_insert client_id info (queues q')\<rparr>))"

definition enqueue :: "nat \<Rightarrow> string \<Rightarrow> bytes \<Rightarrow> QueueManager \<Rightarrow> (unit, queue_error) result \<times> QueueManager" where
  "enqueue now client_id msg q =
     (if length msg > 1024 * 1024 then (Err (Transport ''Message exceeds 1MB limit''), q)
      else case get_or_create client_id q of
             Err e \<Rightarrow> (Err e, q)
           | Ok (info, q1) \<Rightarrow>
               (case try_send (sender info) msg q1 of
                  (Sent, q2) \<Rightarrow>
                    let st = stats info;
                        info' = info\<lparr>stats := st\<lparr>messages_enqueued := sat_add (messages_enqueued st) 1,
                                               current_depth := sat_add (current_depth st) 1\<rparr>,
                                     last_message := Some now\<rparr> in
                    (Ok (), q2\<lparr>queues := hm_insert client_id info' (queues q2)\<rparr>)
                | (Full, q2) \<Rightarrow>
                    let st = stats info;
                        info' = info\<lparr>stats := st\<lparr>messages_dropped := sat_add (messages_dropped st) 1\<rparr>\<rparr> in
                    (Err (Transport ''Queue full, backpressure''),
                     q2\<lparr>queues := hm_insert client_id info' (queues q2)\<rparr>)
                | (Closed, q2) \<Rightarrow>
                    (Err (Transport ''Queue closed''),
                     drop_receiver (receiver info) (q2\<lparr>queues := hm_remove client_id (queues q2)\<rparr>))))"

definition dequeue :: "string \<Rightarrow> QueueManager \<Rightarrow> (bytes option, queue_error) result" where
  "dequeue client_id q = Ok None"

text \<open>Taking the receiver, or replacing the channel if another drain has it.\<close>

datatype drain_start = NoClient | Replaced | Took nat

definition drain_begin :: "string \<Rightarrow> QueueManager \<Rightarrow> (drain_start, queue_error) result \<times> QueueManager" where
  "drain_begin client_id q =
     (case hm_get (queues q) client_id of
        None \<Rightarrow> (Ok NoClient, q)
      | Some info \<Rightarrow>
          (case receiver info of
             Some ch \<Rightarrow> (Ok (Took ch), q\<lparr>queues := hm_insert client_id (info\<lparr>receiver := None\<rparr>) (queues q)\<rparr>)
           | None \<Rightarrow>
               if max_queue_size q = 0 then (Err (Panic ''mpsc bounded channel requires buffer > 0''), q)
               else let (ch, q') = open_channel q in
                 (Ok Replaced, q'\<lparr>queues := hm_insert client_id
                    (info\<lparr>sender := ch, receiver := Some ch\<rparr>) (queues q')\<rparr>)))"

text \<open>The loop over \<open>try_recv\<close>, on the messages the channel holds.\<close>

function drain_loop :: "nat \<Rightarrow> bytes list \<Rightarrow> QueueManager \<Rightarrow> bytes list \<times> QueueManager" where
  "drain_loop ch messages q =
     (case try_recv ch q of
        (None, q') \<Rightarrow> (messages, q')
      | (Some m, q') \<Rightarrow> drain_loop ch (messages @ [m]) q')"
  by pat_completeness auto
termination
  by (relation "measure (\<lambda>(ch, messages, q). length (buffered (channels q ch)))")
    (auto simp: try_recv_def split: list.splits)

declare drain_loop.simps [simp del]

definition drain_finish :: "string \<Rightarrow> nat \<Rightarrow> bytes list \<Rightarrow> QueueManager \<Rightarrow> QueueManager" where
  "drain_finish client_id ch messages q =
     (case hm_get (queues q) client_id of
        None \<Rightarrow> drop_receiver (Some ch) q
      | Some info \<Rightarrow>
          let st = stats info;
              q' = drop_receiver (receiver info) q;
              info' = info\<lparr>receiver := Some ch,
                stats := st\<lparr>messages_dequeued := sat_add (messages_dequeued st) (word_of_nat (length messages)),
                           current_depth := sat_sub (current_depth st) (word_of_nat (length messages))\<rparr>\<rparr> in
          q'\<lparr>queues := hm_insert client_id info' (queues q')\<rparr>)"

definition drain_queue :: "string \<Rightarrow> QueueManager \<Rightarrow> (bytes list, queue_error) result \<times> QueueManager" where
  "drain_queue client_id q =
     (case drain_begin client_id q of
        (Err e, q') \<Rightarrow> (Err e, q')
      | (Ok NoClient, q') \<Rightarrow> (Ok [], q')
      | (Ok Replaced, q') \<Rightarrow> (Ok [], q')
      | (Ok (Took ch), q') \<Rightarrow>
          (case drain_loop ch [] q' of
             (messages, q'') \<Rightarrow> (Ok messages, drain_finish client_id ch messages q'')))"

definition report_credits :: "string \<Rightarrow> nat \<Rightarrow> QueueManager \<Rightarrow> (unit, queue_error) result" where
  "report_credits client_id available_slots q = Ok ()"

text \<open>An entry is old if its last message is more than \<open>max_age\<close> before now.\<close>

definition is_old :: "nat \<Rightarrow> nat \<Rightarrow> QueueInfo \<Rightarrow> bool" where
  "is_old now max_age info =
     (case last_message info of None \<Rightarrow> False | Some t \<Rightarrow> now - t > max_age)"

definition prune_old_messages :: "nat \<Rightarrow> nat \<Rightarrow> QueueManager \<Rightarrow> (nat, queue_error) result \<times> QueueManager" where
  "prune_old_messages now max_age q =
     (let old = filter (\<lambda>(_, info). is_old now max_age info) (queues q);
          kept = filter (\<lambda>(_, info). \<not> is_old now max_age info) (queues q) in
      (Ok (length old), fold (\<lambda>(_, info). drop_receiver (receiver info)) old (q\<lparr>queues := kept\<rparr>)))"

definition get_stats :: "string \<Rightarrow> QueueManager \<Rightarrow> QueueStats option" where
  "get_stats client_id q = map_option stats (hm_get (queues q) client_id)"

definition remove_client :: "string \<Rightarrow> QueueManager \<Rightarrow> (unit, queue_error) result \<times> QueueManager" where
  "remove_client client_id q =
     (case hm_get (queues q) client_id of
        None \<Rightarrow> (Ok (), q)
      | Some info \<Rightarrow> (Ok (), drop_receiver (receiver info) (q\<lparr>queues := hm_remove client_id (queues q)\<rparr>)))"

section \<open>The invariant between calls\<close>

definition info_ok :: "QueueManager \<Rightarrow> QueueInfo \<Rightarrow> bool" where
  "info_ok q info \<longleftrightarrow> receiver info = Some (sender info) \<and> sender info < next_channel q
     \<and> receiver_alive (channels q (sender info))
     \<and> length (buffered (channels q (sender info))) \<le> max_queue_size q
     \<and> unat (current_depth (stats info)) = length (buffered (channels q (sender info)))"

definition qm_inv :: "QueueManager \<Rightarrow> bool" where
  "qm_inv q \<longleftrightarrow> hm_wf (queues q) \<and> 0 < max_queue_size q \<and> max_queue_size q < 2 ^ 64
     \<and> (\<forall>c info. hm_get (queues q) c = Some info \<longrightarrow> info_ok q info)
     \<and> (\<forall>c c' info info'. hm_get (queues q) c = Some info \<longrightarrow> hm_get (queues q) c' = Some info' \<longrightarrow>
          sender info = sender info' \<longrightarrow> c = c')"

text \<open>The messages waiting for a client.\<close>

definition contents :: "QueueManager \<Rightarrow> string \<Rightarrow> bytes list" where
  "contents q c = (case hm_get (queues q) c of None \<Rightarrow> [] | Some info \<Rightarrow> buffered (channels q (sender info)))"

lemma qm_inv_new: "0 < n \<Longrightarrow> n < 2 ^ 64 \<Longrightarrow> qm_inv (QueueManager_new n k)"
  by (simp add: qm_inv_def QueueManager_new_def)

lemma contents_new [simp]: "contents (QueueManager_new n k) c = []"
  by (simp add: contents_def QueueManager_new_def)

lemma get_or_create_ok:
  assumes "qm_inv q"
  obtains info q1 where "get_or_create c q = Ok (info, q1)" "qm_inv q1"
    and "hm_get (queues q1) c = Some info" "contents q1 = contents q" "max_queue_size q1 = max_queue_size q"
proof (cases "hm_get (queues q) c")
  case (Some info)
  then show thesis
    using assms that [of info q] by (simp add: get_or_create_def)
next
  case None
  let ?ch = "next_channel q"
  let ?info = "\<lparr>sender = ?ch, receiver = Some ?ch, stats = QueueStats_default, last_message = None\<rparr>"
  let ?q = "q\<lparr>channels := (channels q)(?ch := \<lparr>buffered = [], receiver_alive = True\<rparr>),
      next_channel := Suc ?ch, queues := hm_insert c ?info (queues q)\<rparr>"
  have old: "sender i < ?ch" if "hm_get (queues q) k = Some i" for k i
    using assms that by (auto simp: qm_inv_def info_ok_def)
  have "get_or_create c q = Ok (?info, ?q)"
    using assms None by (simp add: get_or_create_def open_channel_def qm_inv_def Let_def)
  moreover have "qm_inv ?q"
    using assms old by (force simp: qm_inv_def info_ok_def QueueStats_default_def)
  moreover have "contents ?q = contents q"
    using old None by (fastforce simp: contents_def fun_eq_iff split: option.splits)
  ultimately show thesis
    by (intro that [of ?info ?q]) simp_all
qed

text \<open>Changing one entry and its channel, consistently, keeps the invariant.\<close>

lemma qm_inv_update:
  assumes "qm_inv q" "hm_get (queues q) c = Some info"
    and "sender info' = sender info" "receiver info' = Some (sender info)"
    and "length buf \<le> max_queue_size q" "unat (current_depth (stats info')) = length buf"
    and "q' = q\<lparr>channels := (channels q)(sender info := \<lparr>buffered = buf, receiver_alive = True\<rparr>),
             queues := hm_insert c info' (queues q)\<rparr>"
  shows "qm_inv q'" "contents q' = (contents q)(c := buf)"
proof -
  have other: "sender i \<noteq> sender info" if "hm_get (queues q) k = Some i" "k \<noteq> c" for k i
    using assms(1,2) that unfolding qm_inv_def by metis
  have "info_ok q info"
    using assms(1,2) by (simp add: qm_inv_def)
  then show "qm_inv q'"
    using assms other by (auto simp: qm_inv_def info_ok_def)
  show "contents q' = (contents q)(c := buf)"
    using assms(3,7) other by (auto simp: contents_def fun_eq_iff split: option.splits)
qed

lemma channel_record: "(channels q ch)\<lparr>buffered := b\<rparr> = \<lparr>buffered = b, receiver_alive = receiver_alive (channels q ch)\<rparr>"
  by (cases "channels q ch") simp

lemma enqueue_effect:
  assumes "qm_inv q"
  shows "qm_inv (snd (enqueue now c m q))"
    and "length m \<le> 1048576 \<Longrightarrow> length (contents q c) < max_queue_size q \<Longrightarrow>
      fst (enqueue now c m q) = Ok () \<and> contents (snd (enqueue now c m q)) = (contents q)(c := contents q c @ [m])"
    and "\<not> (length m \<le> 1048576 \<and> length (contents q c) < max_queue_size q) \<Longrightarrow>
      \<not> is_ok (fst (enqueue now c m q)) \<and> contents (snd (enqueue now c m q)) = contents q"
    and "max_queue_size (snd (enqueue now c m q)) = max_queue_size q"
proof -
  obtain info q1 where q1: "get_or_create c q = Ok (info, q1)" "qm_inv q1"
      "hm_get (queues q1) c = Some info" "contents q1 = contents q" "max_queue_size q1 = max_queue_size q"
    using get_or_create_ok [OF assms] by blast
  let ?buf = "buffered (channels q1 (sender info))"
  have ok: "info_ok q1 info"
    using q1(2,3) by (simp add: qm_inv_def)
  have buf: "contents q c = ?buf"
    using q1(3,4) by (metis contents_def option.simps(5))
  have alive: "receiver_alive (channels q1 (sender info))" "receiver info = Some (sender info)"
    using ok by (simp_all add: info_ok_def)
  have max: "max_queue_size q < 2 ^ 64"
    using assms by (simp add: qm_inv_def)
  consider (big) "length m > 1048576" | (full) "length m \<le> 1048576" "length ?buf \<ge> max_queue_size q"
    | (room) "length m \<le> 1048576" "length ?buf < max_queue_size q"
    by linarith
  then have "qm_inv (snd (enqueue now c m q))
    \<and> (length m \<le> 1048576 \<longrightarrow> length (contents q c) < max_queue_size q \<longrightarrow>
      fst (enqueue now c m q) = Ok () \<and> contents (snd (enqueue now c m q)) = (contents q)(c := contents q c @ [m]))
    \<and> (\<not> (length m \<le> 1048576 \<and> length (contents q c) < max_queue_size q) \<longrightarrow>
      \<not> is_ok (fst (enqueue now c m q)) \<and> contents (snd (enqueue now c m q)) = contents q)
    \<and> max_queue_size (snd (enqueue now c m q)) = max_queue_size q"
  proof cases
    case big
    then show ?thesis using assms by (simp add: enqueue_def)
  next
    case full
    let ?st = "stats info"
    let ?info = "info\<lparr>stats := ?st\<lparr>messages_dropped := sat_add (messages_dropped ?st) 1\<rparr>\<rparr>"
    let ?q = "q1\<lparr>queues := hm_insert c ?info (queues q1)\<rparr>"
    have enq: "enqueue now c m q = (Err (Transport ''Queue full, backpressure''), ?q)"
      using full q1 alive by (simp add: enqueue_def try_send_def Let_def)
    have same: "q1\<lparr>channels := (channels q1)(sender info := \<lparr>buffered = ?buf, receiver_alive = True\<rparr>),
        queues := hm_insert c ?info (queues q1)\<rparr> = ?q"
      using alive(1) channel_record [where q = q1 and ch = "sender info"] by (simp add: fun_upd_idem)
    have "qm_inv ?q" "contents ?q = (contents q1)(c := ?buf)"
      using qm_inv_update [OF q1(2,3), of ?info ?buf, OF _ _ _ _ same [symmetric]] ok
      by (simp_all add: info_ok_def)
    moreover have "(contents q1)(c := ?buf) = contents q"
      using q1(4) buf by auto
    ultimately show ?thesis
      using full enq buf q1(5) by simp
  next
    case room
    let ?st = "stats info"
    let ?info = "info\<lparr>stats := ?st\<lparr>messages_enqueued := sat_add (messages_enqueued ?st) 1,
        current_depth := sat_add (current_depth ?st) 1\<rparr>, last_message := Some now\<rparr>"
    let ?q = "q1\<lparr>channels := (channels q1)(sender info := \<lparr>buffered = ?buf @ [m], receiver_alive = True\<rparr>),
        queues := hm_insert c ?info (queues q1)\<rparr>"
    have enq: "enqueue now c m q = (Ok (), ?q)"
      using room q1 alive by (simp add: enqueue_def try_send_def Let_def channel_record)
    have depth: "unat (sat_add (current_depth ?st) 1) = length (?buf @ [m])"
      using ok room max by (simp add: info_ok_def unat_sat_add)
    have "qm_inv ?q" "contents ?q = (contents q1)(c := ?buf @ [m])"
      using qm_inv_update [OF q1(2,3), of ?info "?buf @ [m]", OF _ _ _ _ refl] depth alive room q1(5)
      by simp_all
    then show ?thesis
      using room enq buf q1(4,5) by simp
  qed
  then show "qm_inv (snd (enqueue now c m q))"
    "length m \<le> 1048576 \<Longrightarrow> length (contents q c) < max_queue_size q \<Longrightarrow>
      fst (enqueue now c m q) = Ok () \<and> contents (snd (enqueue now c m q)) = (contents q)(c := contents q c @ [m])"
    "\<not> (length m \<le> 1048576 \<and> length (contents q c) < max_queue_size q) \<Longrightarrow>
      \<not> is_ok (fst (enqueue now c m q)) \<and> contents (snd (enqueue now c m q)) = contents q"
    "max_queue_size (snd (enqueue now c m q)) = max_queue_size q"
    by blast+
qed

lemma drain_loop_all:
  "drain_loop ch acc q = (acc @ buffered (channels q ch),
     q\<lparr>channels := (channels q)(ch := (channels q ch)\<lparr>buffered := []\<rparr>)\<rparr>)"
proof (induction ch acc q rule: drain_loop.induct)
  case (1 ch acc q)
  show ?case
  proof (cases "buffered (channels q ch)")
    case Nil
    then have "(channels q)(ch := (channels q ch)\<lparr>buffered := []\<rparr>) = channels q"
      by (auto simp: fun_eq_iff channel_record intro: channel.equality)
    with Nil show ?thesis
      by (subst drain_loop.simps) (simp add: try_recv_def)
  next
    case (Cons m ms)
    then have step: "try_recv ch q =
        (Some m, q\<lparr>channels := (channels q)(ch := (channels q ch)\<lparr>buffered := ms\<rparr>)\<rparr>)"
      by (simp add: try_recv_def)
    show ?thesis
      using "1.IH" [OF step [symmetric] refl] Cons by (subst drain_loop.simps) (simp add: step fun_upd_def cong: if_cong)
  qed
qed

lemma drain_effect:
  assumes "qm_inv q"
  shows "fst (drain_queue c q) = Ok (contents q c)" "qm_inv (snd (drain_queue c q))"
    and "contents (snd (drain_queue c q)) = (contents q)(c := [])"
    and "max_queue_size (snd (drain_queue c q)) = max_queue_size q"
proof -
  have "fst (drain_queue c q) = Ok (contents q c) \<and> qm_inv (snd (drain_queue c q))
    \<and> contents (snd (drain_queue c q)) = (contents q)(c := [])
    \<and> max_queue_size (snd (drain_queue c q)) = max_queue_size q"
  proof (cases "hm_get (queues q) c")
    case None
    then have "contents q c = []" by (simp add: contents_def)
    then have "(contents q)(c := []) = contents q" by (metis fun_upd_triv)
    with None assms \<open>contents q c = []\<close> show ?thesis
      by (simp add: drain_queue_def drain_begin_def)
  next
    case (Some info)
    let ?buf = "buffered (channels q (sender info))" and ?st = "stats info"
    have ok: "info_ok q info"
      using assms Some by (simp add: qm_inv_def)
    let ?info = "info\<lparr>receiver := Some (sender info),
      stats := ?st\<lparr>messages_dequeued := sat_add (messages_dequeued ?st) (word_of_nat (length ?buf)),
                  current_depth := sat_sub (current_depth ?st) (word_of_nat (length ?buf))\<rparr>\<rparr>"
    let ?q = "q\<lparr>channels := (channels q)(sender info := \<lparr>buffered = [], receiver_alive = True\<rparr>),
        queues := hm_insert c ?info (queues q)\<rparr>"
    have hm: "hm_insert c x (hm_insert c y m) = hm_insert c x m" for x y :: QueueInfo and m
      by (simp add: hm_insert_def)
    have drain: "drain_queue c q = (Ok ?buf, ?q)"
      using ok Some by (simp add: drain_queue_def drain_begin_def drain_loop_all drain_finish_def
          drop_receiver_def Let_def info_ok_def hm channel_record)
    have lt: "length ?buf < 2 ^ 64"
      using ok assms by (simp add: info_ok_def qm_inv_def)
    then have depth: "unat (sat_sub (current_depth ?st) (word_of_nat (length ?buf))) = length ([] :: bytes list)"
      using ok by (simp add: unat_sat_sub unat_of_nat info_ok_def)
    have "qm_inv ?q" "contents ?q = (contents q)(c := [])"
      using qm_inv_update [OF assms Some, of ?info "[]", OF _ _ _ _ refl] depth by simp_all
    moreover have "contents q c = ?buf"
      using Some by (simp add: contents_def)
    ultimately show ?thesis
      by (simp add: drain)
  qed
  then show "fst (drain_queue c q) = Ok (contents q c)" "qm_inv (snd (drain_queue c q))"
    "contents (snd (drain_queue c q)) = (contents q)(c := [])"
    "max_queue_size (snd (drain_queue c q)) = max_queue_size q"
    by blast+
qed

section \<open>Runs\<close>

datatype queue_call = Enqueue nat string bytes | Drain string

fun qm_step :: "queue_call \<Rightarrow> QueueManager \<Rightarrow> (string \<times> bytes) list \<times> (string \<times> bytes) list \<times> QueueManager" where
  "qm_step (Enqueue now c m) q =
     (case enqueue now c m q of
        (Ok _, q') \<Rightarrow> ([(c, m)], [], q')
      | (Err _, q') \<Rightarrow> ([], [], q'))"
| "qm_step (Drain c) q =
     (case drain_queue c q of
        (Ok ms, q') \<Rightarrow> ([], map (\<lambda>m. (c, m)) ms, q')
      | (Err _, q') \<Rightarrow> ([], [], q'))"

lemma qm_step_effect:
  assumes "qm_inv s" "qm_step call s = (acc, tak, s')"
  shows "qm_inv s'" "for_client c tak @ contents s' c = contents s c @ for_client c acc"
    "max_queue_size s' = max_queue_size s"
proof -
  have "qm_inv s' \<and> for_client c tak @ contents s' c = contents s c @ for_client c acc
    \<and> max_queue_size s' = max_queue_size s"
  proof (cases call)
    case (Enqueue now d m)
    note enq = enqueue_effect [OF assms(1), where now = now and c = d and m = m]
    show ?thesis
      using assms(2) enq
      by (cases "length m \<le> 1048576 \<and> length (contents s d) < max_queue_size s")
        (auto simp: Enqueue split: prod.splits sum.splits)
  next
    case (Drain d)
    with assms(2) drain_effect [OF assms(1), of d] show ?thesis
      by (auto split: prod.splits sum.splits)
  qed
  then show "qm_inv s'" "for_client c tak @ contents s' c = contents s c @ for_client c acc"
    "max_queue_size s' = max_queue_size s"
    by blast+
qed

interpretation qm: mailboxes qm_inv qm_step contents
  by unfold_locales (rule qm_step_effect; assumption)+

text \<open>
  Claim C28: through any sequence of \<open>enqueue\<close> and \<open>drain_queue\<close> calls that do not overlap, every
  client gets exactly the messages that were accepted for it, each once and in order: what it has
  drained, followed by what is still queued, is what was accepted. A queue never exceeds its bound,
  and the depth reported in its statistics is its length.
\<close>

theorem queue_delivers_accepted:
  assumes "0 < cap" "cap < 2 ^ 64"
    and "box_run qm_step ops (QueueManager_new cap msgs) = (acc, tak, q)"
  shows "for_client c acc = for_client c tak @ contents q c \<and> length (contents q c) \<le> cap
     \<and> (case get_stats c q of None \<Rightarrow> contents q c = []
        | Some st \<Rightarrow> unat (current_depth st) = length (contents q c))"
proof -
  have run: "qm_inv q" "for_client c tak @ contents q c = for_client c acc"
    using qm.run_conserves [OF qm_inv_new [OF assms(1,2)] assms(3)] by simp_all
  have "max_queue_size q = cap"
    using qm.run_keeps [where f = max_queue_size, OF qm_step_effect(3) qm_inv_new [OF assms(1,2)] assms(3)]
    by (simp add: QueueManager_new_def)
  then show ?thesis
    using run by (auto simp: contents_def qm_inv_def info_ok_def get_stats_def split: option.splits)
qed

text \<open>One client with one message, and the results of the calls on it.\<close>

definition one_message :: "nat \<Rightarrow> bytes list \<Rightarrow> u64 \<Rightarrow> u64 \<Rightarrow> QueueManager" where
  "one_message cap ms depth dropped =
     (QueueManager_new cap 10)\<lparr>next_channel := 1,
       channels := (channels (QueueManager_new cap 10))(0 := \<lparr>buffered = ms, receiver_alive = True\<rparr>),
       queues := [(''a'', \<lparr>sender = 0, receiver = Some 0,
         stats = \<lparr>messages_enqueued = 1, messages_dequeued = 1 - depth, current_depth = depth,
                  messages_dropped = dropped\<rparr>, last_message = Some 0\<rparr>)]\<rparr>"

lemma enqueue_first:
  "enqueue 0 ''a'' [x] (QueueManager_new 1 10) = (Ok (), one_message 1 [[x]] 1 0)"
  by (simp add: enqueue_def get_or_create_def open_channel_def try_send_def QueueManager_new_def
      one_message_def Let_def hm_insert_def QueueStats_default_def sat_add_def)

lemma enqueue_full:
  "enqueue 0 ''a'' [x] (one_message 1 [[y]] 1 0) =
     (Err (Transport ''Queue full, backpressure''), one_message 1 [[y]] 1 1)"
  by (simp add: enqueue_def get_or_create_def try_send_def QueueManager_new_def
      one_message_def Let_def hm_insert_def hm_get_def sat_add_def)

lemma drain_one: "drain_queue ''a'' (one_message 1 [[y]] 1 1) = (Ok [[y]], one_message 1 [] 0 1)"
  by (simp add: drain_queue_def drain_begin_def drain_loop_all drain_finish_def drop_receiver_def
      QueueManager_new_def one_message_def Let_def hm_insert_def hm_get_def sat_add_def sat_sub_def)

theorem queue_delivers_accepted_witness:
  "\<exists>q. box_run qm_step [Enqueue 0 ''a'' [1], Enqueue 0 ''a'' [2], Drain ''a''] (QueueManager_new 1 10) =
      ([(''a'', [1])], [(''a'', [1])], q) \<and> contents q ''a'' = []"
proof -
  let ?q = "one_message 1 [] 0 1"
  have run: "box_run qm_step [Enqueue 0 ''a'' [1], Enqueue 0 ''a'' [2], Drain ''a''] (QueueManager_new 1 10) =
      ([(''a'', [1])], [(''a'', [1])], ?q)"
    by (simp add: enqueue_first enqueue_full drain_one del: One_nat_def)
  have one: "0 < (1 :: nat)" "(1 :: nat) < 2 ^ 64" by simp_all
  have "contents ?q ''a'' = []"
    using queue_delivers_accepted [OF one run, of "''a''"] by simp
  with run show ?thesis by blast
qed

section \<open>Removing clients\<close>

lemma drop_receiver_other:
  "sender info \<noteq> ch \<Longrightarrow> channels (drop_receiver (Some ch) q) (sender info) = channels q (sender info)"
  by (simp add: drop_receiver_def)

lemma drop_receiver_fields [simp]:
  "queues (drop_receiver rx q) = queues q" "max_queue_size (drop_receiver rx q) = max_queue_size q"
  "next_channel (drop_receiver rx q) = next_channel q"
  by (simp_all add: drop_receiver_def split: option.splits)

text \<open>Dropping receivers that no remaining entry uses changes no remaining mailbox.\<close>

lemma fold_drop_receiver:
  "\<forall>(_, info) \<in> set old. receiver info \<noteq> Some ch \<Longrightarrow>
     channels (fold (\<lambda>(_, info). drop_receiver (receiver info)) old q) ch = channels q ch"
  by (induction old arbitrary: q) (auto simp: drop_receiver_def split: option.splits)

lemma fold_drop_fields [simp]:
  "queues (fold (\<lambda>(_, info). drop_receiver (receiver info)) old q) = queues q"
  "max_queue_size (fold (\<lambda>(_, info). drop_receiver (receiver info)) old q) = max_queue_size q"
  "next_channel (fold (\<lambda>(_, info). drop_receiver (receiver info)) old q) = next_channel q"
  by (induction old arbitrary: q) auto

lemma hm_get_filter:
  "hm_wf m \<Longrightarrow> hm_get (filter (\<lambda>(_, v). P v) m) k =
     (case hm_get m k of Some v \<Rightarrow> if P v then Some v else None | None \<Rightarrow> None)"
  by (induction m) (auto simp: hm_get_def hm_wf_def map_of_eq_None_iff split: option.splits)

text \<open>
  Pruning removes exactly the queues whose last message is older than the limit, and
  reports their number; every other client keeps its messages, and the queues stay consistent.
\<close>

lemma prune_keeps_recent:
  assumes "qm_inv q"
  shows "fst (prune_old_messages now max_age q) =
       Ok (length (filter (\<lambda>(_, info). is_old now max_age info) (queues q)))
     \<and> qm_inv (snd (prune_old_messages now max_age q))
     \<and> contents (snd (prune_old_messages now max_age q)) c =
         (case hm_get (queues q) c of
            Some info \<Rightarrow> if is_old now max_age info then [] else contents q c
          | None \<Rightarrow> [])"
proof -
  let ?old = "filter (\<lambda>(_, info). is_old now max_age info) (queues q)"
  let ?q' = "snd (prune_old_messages now max_age q)"
  have wf: "hm_wf (queues q)" using assms by (simp add: qm_inv_def)
  have q': "?q' = fold (\<lambda>(_, info). drop_receiver (receiver info)) ?old
      (q\<lparr>queues := filter (\<lambda>(_, info). \<not> is_old now max_age info) (queues q)\<rparr>)"
    by (simp add: prune_old_messages_def Let_def)
  have get: "hm_get (queues ?q') k = (case hm_get (queues q) k of
      Some v \<Rightarrow> if is_old now max_age v then None else Some v | None \<Rightarrow> None)" for k
    using hm_get_filter [OF wf, of "\<lambda>v. \<not> is_old now max_age v" k]
    by (auto simp: q' split: option.splits)
  have kept: "channels ?q' (sender info) = channels q (sender info)"
    if info: "hm_get (queues q) k = Some info" "\<not> is_old now max_age info" for k info
  proof -
    have "receiver i \<noteq> Some (sender info)" if "(k', i) \<in> set ?old" for k' i
    proof -
      have i: "hm_get (queues q) k' = Some i" "is_old now max_age i"
        using that hm_get_iff [OF wf] by auto
      then have "receiver i = Some (sender i)"
        using assms by (auto simp: qm_inv_def info_ok_def)
      moreover have "sender i \<noteq> sender info"
        using assms i info unfolding qm_inv_def by (metis option.inject)
      ultimately show ?thesis by simp
    qed
    then have "channels ?q' (sender info) = channels (q\<lparr>queues := filter (\<lambda>(_, info). \<not> is_old now max_age info) (queues q)\<rparr>) (sender info)"
      unfolding q' by (intro fold_drop_receiver) auto
    then show ?thesis by simp
  qed
  have "qm_inv ?q'"
    unfolding qm_inv_def
  proof (intro conjI allI impI)
    show "hm_wf (queues ?q')" using wf by (simp add: q' hm_wf_filter)
    show "0 < max_queue_size ?q'" "max_queue_size ?q' < 2 ^ 64"
      using assms by (simp_all add: q' qm_inv_def)
    fix k info
    assume "hm_get (queues ?q') k = Some info"
    then have "hm_get (queues q) k = Some info" "\<not> is_old now max_age info"
      by (auto simp: get split: option.splits if_splits)
    then show "info_ok ?q' info"
      using assms kept by (simp add: qm_inv_def info_ok_def q')
  next
    fix k k' i i'
    assume "hm_get (queues ?q') k = Some i" "hm_get (queues ?q') k' = Some i'" "sender i = sender i'"
    then show "k = k'"
      using assms unfolding qm_inv_def get by (auto split: option.splits if_splits)
  qed
  moreover have "contents ?q' c = (case hm_get (queues q) c of
      Some info \<Rightarrow> if is_old now max_age info then [] else contents q c | None \<Rightarrow> [])"
    using kept [of c] by (auto simp: contents_def get split: option.splits)
  moreover have "fst (prune_old_messages now max_age q) = Ok (length ?old)"
    by (simp add: prune_old_messages_def Let_def)
  ultimately show ?thesis by blast
qed

lemma qm_inv_one: "qm_inv (one_message 1 [[x]] 1 0)"
  using enqueue_effect(1) [of "QueueManager_new 1 10" 0 "''a''" "[x]"] qm_inv_new [of 1 10]
  by (simp add: enqueue_first del: One_nat_def)

lemma prune_keeps_recent_example:
  "contents (snd (prune_old_messages 100 10 (one_message 1 [[7]] 1 0))) ''a'' = []
   \<and> contents (snd (prune_old_messages 100 200 (one_message 1 [[7]] 1 0))) ''a'' = [[7]]"
  using prune_keeps_recent [OF qm_inv_one [of 7], where now = 100 and max_age = 10 and c = "''a''"]
    prune_keeps_recent [OF qm_inv_one [of 7], where now = 100 and max_age = 200 and c = "''a''"]
  by (simp add: one_message_def is_old_def hm_get_def contents_def)

lemma remove_client_effect:
  assumes "qm_inv q"
  shows "fst (remove_client c q) = Ok () \<and> hm_get (queues (snd (remove_client c q))) c = None
     \<and> (k \<noteq> c \<longrightarrow> contents (snd (remove_client c q)) k = contents q k)"
proof (cases "hm_get (queues q) c")
  case (Some info)
  have "receiver info = Some (sender info)"
    using assms Some by (simp add: qm_inv_def info_ok_def)
  moreover have "sender i \<noteq> sender info" if "hm_get (queues q) k = Some i" "k \<noteq> c" for i
    using assms Some that unfolding qm_inv_def by metis
  ultimately show ?thesis
    using Some by (auto simp: remove_client_def contents_def drop_receiver_def split: option.splits)
qed (auto simp: remove_client_def)

section \<open>Overlapping drains\<close>

text \<open>
  Two calls of \<open>drain_queue\<close> for one client must not overlap. While the first has taken the
  receiver, the second puts a new channel in place; a message that is accepted then sits in the
  new channel, and when the first call puts its receiver back, the new channel loses its receiver:
  the message is gone, and the next \<open>enqueue\<close> fails and discards the queue.
\<close>

lemma overlapping_drains_lose_message:
  "\<exists>q1 q2 q3 q4 q5 q6.
     drain_begin ''a'' (one_message 1 [[7]] 1 0) = (Ok (Took 0), q1)
     \<and> drain_begin ''a'' q1 = (Ok Replaced, q2)
     \<and> enqueue 5 ''a'' [8] q2 = (Ok (), q3)
     \<and> drain_loop 0 [] q3 = ([[7]], q4)
     \<and> drain_queue ''a'' (drain_finish ''a'' 0 [[7]] q4) = (Ok [], q5)
     \<and> enqueue 6 ''a'' [9] q5 = (Err (Transport ''Queue closed''), q6)
     \<and> get_stats ''a'' q6 = None"
proof -
  let ?st = "\<lambda>e d. \<lparr>messages_enqueued = e, messages_dequeued = 0, current_depth = d, messages_dropped = 0\<rparr>"
  let ?rest = "channels (QueueManager_new 1 10)"
  let ?m = "\<lambda>chs n qs. (QueueManager_new 1 10)\<lparr>next_channel := n, channels := chs, queues := qs\<rparr>"
  let ?c0 = "?rest(0 := \<lparr>buffered = [[7]], receiver_alive = True\<rparr>)"
  let ?q1 = "?m ?c0 1 [(''a'', \<lparr>sender = 0, receiver = None, stats = ?st 1 1, last_message = Some 0\<rparr>)]"
  let ?c1 = "?c0(1 := \<lparr>buffered = [], receiver_alive = True\<rparr>)"
  let ?q2 = "?m ?c1 2 [(''a'', \<lparr>sender = 1, receiver = Some 1, stats = ?st 1 1, last_message = Some 0\<rparr>)]"
  let ?c2 = "?c0(1 := \<lparr>buffered = [[8]], receiver_alive = True\<rparr>)"
  let ?q3 = "?m ?c2 2 [(''a'', \<lparr>sender = 1, receiver = Some 1, stats = ?st 2 2, last_message = Some 5\<rparr>)]"
  let ?c4 = "?c2(0 := \<lparr>buffered = [], receiver_alive = True\<rparr>)"
  let ?q4 = "?m ?c4 2 [(''a'', \<lparr>sender = 1, receiver = Some 1, stats = ?st 2 2, last_message = Some 5\<rparr>)]"
  let ?fin = "drain_finish ''a'' 0 [[7]] ?q4"
  have s1: "drain_begin ''a'' (one_message 1 [[7]] 1 0) = (Ok (Took 0), ?q1)"
    by (simp add: drain_begin_def one_message_def hm_get_def hm_insert_def QueueManager_new_def)
  have s2: "drain_begin ''a'' ?q1 = (Ok Replaced, ?q2)"
    by (simp add: drain_begin_def hm_get_def hm_insert_def open_channel_def QueueManager_new_def)
  have s3: "enqueue 5 ''a'' [8] ?q2 = (Ok (), ?q3)"
    by (simp add: enqueue_def get_or_create_def hm_get_def hm_insert_def try_send_def
        QueueManager_new_def Let_def sat_add_def)
  have s4: "drain_loop 0 [] ?q3 = ([[7]], ?q4)"
    by (simp add: drain_loop_all QueueManager_new_def fun_upd_twist)
  have closed: "channels ?fin 1 = \<lparr>buffered = [], receiver_alive = False\<rparr>"
      "channels ?fin 0 = \<lparr>buffered = [], receiver_alive = True\<rparr>"
    and info: "\<exists>st. hm_get (queues ?fin) ''a'' = Some \<lparr>sender = 1, receiver = Some 0, stats = st, last_message = Some 5\<rparr>"
    by (simp_all add: drain_finish_def hm_get_def hm_insert_def drop_receiver_def Let_def)
  obtain st where st: "hm_get (queues ?fin) ''a'' = Some \<lparr>sender = 1, receiver = Some 0, stats = st, last_message = Some 5\<rparr>"
    using info by blast
  define q5 where "q5 = snd (drain_queue ''a'' ?fin)"
  have s5: "drain_queue ''a'' ?fin = (Ok [], q5)"
    using st closed by (simp add: q5_def drain_queue_def drain_begin_def drain_loop_all)
  have q5: "\<not> receiver_alive (channels q5 1)"
    "\<exists>st. hm_get (queues q5) ''a'' = Some \<lparr>sender = 1, receiver = Some 0, stats = st, last_message = Some 5\<rparr>"
    using st closed
    by (simp_all add: q5_def drain_queue_def drain_begin_def drain_loop_all drain_finish_def
        drop_receiver_def Let_def)
  then obtain q6 where "enqueue 6 ''a'' [9] q5 = (Err (Transport ''Queue closed''), q6)" "get_stats ''a'' q6 = None"
    by (auto simp: enqueue_def get_or_create_def try_send_def get_stats_def)
  with s1 s2 s3 s4 s5 show ?thesis by blast
qed

end
