(* ===== verification/Rate_Limiter.thy ===== *)
theory Rate_Limiter
  imports Prelude Complex_Main
begin

text \<open>
  The token bucket rate limiter of the event bus, \<^verbatim>\<open>daemoneye-eventbus/src/rate_limiter.rs\<close>:
  configuration, buckets with refill, the check of a request against the client's, the topic's
  and the combined bucket, and the removal of a client.

  Floating-point numbers are rationals, and every operation that rounds applies the rounding
  function \<open>fl\<close>, a parameter. \<open>rounding fl u\<close> states what IEEE 754 promises of it: relative error
  at most \<open>u\<close>, and exactness on the natural numbers below \<open>2 ^ 53\<close>. Infinities and NaN, which only a
  configuration with such a rate can bring in, are outside the model. An \<open>Instant\<close> is the number of
  nanoseconds since some origin; \<open>duration_since\<close> saturates at zero. Hash maps are association
  lists in iteration order.
\<close>

section \<open>Configuration\<close>

datatype RateLimitConfig = RateLimitConfig
  (capacity: nat)
  (refill_rate: rat)
  (per_client_limits: "(string \<times> RateLimitConfig) list")
  (per_topic_limits: "(string \<times> RateLimitConfig) list")

definition RateLimitConfig_default :: RateLimitConfig where
  "RateLimitConfig_default = RateLimitConfig 1000 1000 [] []"

definition RateLimitConfig_new :: "nat \<Rightarrow> rat \<Rightarrow> RateLimitConfig" where
  "RateLimitConfig_new c r = RateLimitConfig c r [] []"

definition with_client_limit :: "string \<Rightarrow> RateLimitConfig \<Rightarrow> RateLimitConfig \<Rightarrow> RateLimitConfig" where
  "with_client_limit client_id config self =
     RateLimitConfig (capacity self) (refill_rate self)
       (hm_insert client_id config (per_client_limits self)) (per_topic_limits self)"

definition with_topic_limit :: "string \<Rightarrow> RateLimitConfig \<Rightarrow> RateLimitConfig \<Rightarrow> RateLimitConfig" where
  "with_topic_limit topic_prefix config self =
     RateLimitConfig (capacity self) (refill_rate self)
       (per_client_limits self) (hm_insert topic_prefix config (per_topic_limits self))"

section \<open>Buckets\<close>

record TokenBucket =
  tokens :: rat
  bucket_capacity :: rat
  bucket_rate :: rat
  last_update :: nat

definition as_secs_f64 :: "(rat \<Rightarrow> rat) \<Rightarrow> nat \<Rightarrow> rat" where
  "as_secs_f64 fl ns =
     fl (fl (of_nat (ns div 1000000000)) + fl (fl (of_nat (ns mod 1000000000)) / fl 1000000000))"

definition TokenBucket_new :: "(rat \<Rightarrow> rat) \<Rightarrow> nat \<Rightarrow> nat \<Rightarrow> rat \<Rightarrow> TokenBucket" where
  "TokenBucket_new fl now c r =
     (let capacity_f64 = fl (of_nat c) in
      \<lparr>tokens = capacity_f64, bucket_capacity = capacity_f64, bucket_rate = r, last_update = now\<rparr>)"

definition refill :: "(rat \<Rightarrow> rat) \<Rightarrow> nat \<Rightarrow> TokenBucket \<Rightarrow> TokenBucket" where
  "refill fl now b =
     (let elapsed = now - last_update b;
          tokens_to_add = fl (bucket_rate b * as_secs_f64 fl elapsed)
      in b\<lparr>last_update := now, tokens := min (fl (tokens b + tokens_to_add)) (bucket_capacity b)\<rparr>)"

definition try_consume :: "(rat \<Rightarrow> rat) \<Rightarrow> nat \<Rightarrow> nat \<Rightarrow> TokenBucket \<Rightarrow> bool \<times> TokenBucket" where
  "try_consume fl now n b =
     (let b = refill fl now b; tokens_needed = fl (of_nat n) in
      if tokens b \<ge> tokens_needed then (True, b\<lparr>tokens := fl (tokens b - tokens_needed)\<rparr>)
      else (False, b))"

section \<open>The limiter\<close>

type_synonym buckets = "(string, TokenBucket) hash_map"

record RateLimiter =
  default_config :: RateLimitConfig
  client_buckets :: buckets
  topic_buckets :: buckets
  combined_buckets :: buckets

definition RateLimiter_new :: "RateLimitConfig \<Rightarrow> RateLimiter" where
  "RateLimiter_new config =
     \<lparr>default_config = config, client_buckets = [], topic_buckets = [], combined_buckets = []\<rparr>"

definition find_topic_limit :: "RateLimitConfig \<Rightarrow> string \<Rightarrow> (string \<times> RateLimitConfig) option" where
  "find_topic_limit config topic = find (\<lambda>(p, _). prefix p topic) (per_topic_limits config)"

definition find_topic_config :: "RateLimitConfig \<Rightarrow> string \<Rightarrow> RateLimitConfig option" where
  "find_topic_config config topic = map_option snd (find_topic_limit config topic)"

text \<open>The configuration a check uses: per client, else per topic, else the default.\<close>

definition config_for :: "RateLimitConfig \<Rightarrow> string option \<Rightarrow> string option \<Rightarrow> RateLimitConfig" where
  "config_for config client_id topic =
     (case (client_id, topic) of
        (Some cid, Some t) \<Rightarrow>
          (case hm_get (per_client_limits config) cid of
             Some c \<Rightarrow> c
           | None \<Rightarrow> (case find_topic_config config t of Some c \<Rightarrow> c | None \<Rightarrow> config))
      | (Some cid, None) \<Rightarrow>
          (case hm_get (per_client_limits config) cid of Some c \<Rightarrow> c | None \<Rightarrow> config)
      | (None, Some t) \<Rightarrow> (case find_topic_config config t of Some c \<Rightarrow> c | None \<Rightarrow> config)
      | (None, None) \<Rightarrow> config)"

text \<open>\<open>entry(key).or_insert_with(|| TokenBucket::new(..)).try_consume(1)\<close>.\<close>

definition consume_entry ::
    "(rat \<Rightarrow> rat) \<Rightarrow> nat \<Rightarrow> RateLimitConfig \<Rightarrow> string \<Rightarrow> buckets \<Rightarrow> bool \<times> buckets" where
  "consume_entry fl now config key m =
     (let b = (case hm_get m key of
                 Some b \<Rightarrow> b
               | None \<Rightarrow> TokenBucket_new fl now (capacity config) (refill_rate config));
          (allowed, b') = try_consume fl now 1 b
      in (allowed, hm_insert key b' m))"

definition check_client :: "(rat \<Rightarrow> rat) \<Rightarrow> nat \<Rightarrow> RateLimitConfig \<Rightarrow> string option \<Rightarrow> RateLimiter \<Rightarrow> bool \<times> RateLimiter" where
  "check_client fl now config client_id l =
     (case client_id of
        None \<Rightarrow> (True, l)
      | Some cid \<Rightarrow>
          (let (allowed, m) = consume_entry fl now config cid (client_buckets l)
           in (allowed, l\<lparr>client_buckets := m\<rparr>)))"

definition check_topic :: "(rat \<Rightarrow> rat) \<Rightarrow> nat \<Rightarrow> string option \<Rightarrow> RateLimiter \<Rightarrow> bool \<times> RateLimiter" where
  "check_topic fl now topic l =
     (case topic of
        None \<Rightarrow> (True, l)
      | Some t \<Rightarrow>
          (case find_topic_limit (default_config l) t of
             None \<Rightarrow> (True, l)
           | Some (p, topic_config) \<Rightarrow>
               (let (allowed, m) = consume_entry fl now topic_config p (topic_buckets l)
                in (allowed, l\<lparr>topic_buckets := m\<rparr>))))"

definition check_combined ::
    "(rat \<Rightarrow> rat) \<Rightarrow> nat \<Rightarrow> RateLimitConfig \<Rightarrow> string option \<Rightarrow> string option \<Rightarrow> RateLimiter \<Rightarrow> bool \<times> RateLimiter" where
  "check_combined fl now config client_id topic l =
     (case (client_id, topic) of
        (Some cid, Some t) \<Rightarrow>
          (let (allowed, m) = consume_entry fl now config (cid @ '':'' @ t) (combined_buckets l)
           in (allowed, l\<lparr>combined_buckets := m\<rparr>))
      | _ \<Rightarrow> (True, l))"

definition check_rate_limit ::
    "(rat \<Rightarrow> rat) \<Rightarrow> nat \<Rightarrow> string option \<Rightarrow> string option \<Rightarrow> RateLimiter \<Rightarrow> bool \<times> RateLimiter" where
  "check_rate_limit fl now client_id topic l =
     (let config = config_for (default_config l) client_id topic;
          (allowed, l) = check_client fl now config client_id l
      in if \<not> allowed then (False, l)
         else let (allowed, l) = check_topic fl now topic l
              in if \<not> allowed then (False, l)
                 else check_combined fl now config client_id topic l)"

definition remove_client :: "string \<Rightarrow> RateLimiter \<Rightarrow> RateLimiter" where
  "remove_client client_id l =
     l\<lparr>client_buckets := hm_remove client_id (client_buckets l),
       combined_buckets := filter (\<lambda>(key, _). \<not> prefix (client_id @ '':'') key) (combined_buckets l)\<rparr>"

section \<open>Runs\<close>

datatype limiter_call =
    Check nat "string option" "string option"
  | Remove nat string

fun call_time :: "limiter_call \<Rightarrow> nat" where
  "call_time (Check now _ _) = now"
| "call_time (Remove now _) = now"

text \<open>One call, with its answer; a removal counts as not answered.\<close>

fun serve :: "(rat \<Rightarrow> rat) \<Rightarrow> limiter_call \<Rightarrow> RateLimiter \<Rightarrow> bool \<times> RateLimiter" where
  "serve fl (Check now client_id topic) l = check_rate_limit fl now client_id topic l"
| "serve fl (Remove now client_id) l = (False, remove_client client_id l)"

text \<open>How many calls of a sequence succeed.\<close>

fun granted :: "('c \<Rightarrow> 's \<Rightarrow> bool \<times> 's) \<Rightarrow> 'c list \<Rightarrow> 's \<Rightarrow> nat" where
  "granted p [] s = 0"
| "granted p (c # cs) s = (let (g, s') = p c s in of_bool g + granted p cs s')"

definition client_served :: "(rat \<Rightarrow> rat) \<Rightarrow> string \<Rightarrow> limiter_call \<Rightarrow> RateLimiter \<Rightarrow> bool \<times> RateLimiter" where
  "client_served fl c call l =
     (let (allowed, l') = serve fl call l
      in (allowed \<and> (case call of Check _ (Some cid) _ \<Rightarrow> cid = c | _ \<Rightarrow> False), l'))"

definition topic_served :: "(rat \<Rightarrow> rat) \<Rightarrow> string \<Rightarrow> limiter_call \<Rightarrow> RateLimiter \<Rightarrow> bool \<times> RateLimiter" where
  "topic_served fl p call l =
     (let (allowed, l') = serve fl call l
      in (allowed \<and> (case call of
            Check _ _ (Some t) \<Rightarrow> map_option fst (find_topic_limit (default_config l) t) = Some p
          | _ \<Rightarrow> False), l'))"

fun serve_all :: "(rat \<Rightarrow> rat) \<Rightarrow> limiter_call list \<Rightarrow> RateLimiter \<Rightarrow> RateLimiter" where
  "serve_all fl [] l = l"
| "serve_all fl (c # cs) l = serve_all fl cs (snd (serve fl c l))"

section \<open>Rounding\<close>

definition rounding :: "(rat \<Rightarrow> rat) \<Rightarrow> rat \<Rightarrow> bool" where
  "rounding fl u \<longleftrightarrow> 0 \<le> u \<and> u < 1 \<and> (\<forall>x. \<bar>fl x - x\<bar> \<le> u * \<bar>x\<bar>)
     \<and> (\<forall>n. n < 2 ^ 53 \<longrightarrow> fl (of_nat n) = of_nat n)"

lemma rounding_u: "rounding fl u \<Longrightarrow> 0 \<le> u \<and> u < 1"
  by (simp add: rounding_def)

lemma rounding_exact: "rounding fl u \<Longrightarrow> n < 2 ^ 53 \<Longrightarrow> fl (of_nat n) = of_nat n"
  by (simp add: rounding_def)

lemma rounding_small [simp]:
  assumes "rounding fl u"
  shows "fl 0 = 0" "fl 1 = 1" "fl 1000000000 = 1000000000"
  using rounding_exact [OF assms, of 0] rounding_exact [OF assms, of 1]
    rounding_exact [OF assms, of 1000000000] by simp_all

lemma rounding_bounds:
  assumes "rounding fl u" "0 \<le> x"
  shows "fl x \<le> (1 + u) * x" "(1 - u) * x \<le> fl x" "0 \<le> fl x"
proof -
  have err: "\<bar>fl x - x\<bar> \<le> u * x"
    using assms by (simp add: rounding_def) (metis abs_of_nonneg)
  then show "fl x \<le> (1 + u) * x" and low: "(1 - u) * x \<le> fl x"
    by (simp_all add: algebra_simps abs_le_iff)
  moreover have "0 \<le> (1 - u) * x"
    using assms rounding_u [OF assms(1)] by simp
  ultimately show "0 \<le> fl x" by linarith
qed

lemma as_secs_bounds:
  assumes fl: "rounding fl u"
  shows "as_secs_f64 fl ns \<le> (1 + u) ^ 2 * (of_nat ns / 1000000000)"
    and "(1 - u) ^ 2 * (of_nat ns / 1000000000) \<le> as_secs_f64 fl ns"
    and "0 \<le> as_secs_f64 fl ns"
proof -
  let ?s = "of_nat (ns div 1000000000) :: rat"
  let ?n = "of_nat (ns mod 1000000000) / 1000000000 :: rat"
  have u: "0 \<le> u" "u < 1" using rounding_u [OF fl] by simp_all
  have exact: "fl (of_nat (ns mod 1000000000)) = of_nat (ns mod 1000000000)"
    by (rule rounding_exact [OF fl]) (simp add: less_trans [OF mod_less_divisor])
  have "of_nat (ns div 1000000000 * 1000000000 + ns mod 1000000000) = (of_nat ns :: rat)"
    by (simp only: div_mult_mod_eq)
  then have split: "?s + ?n = of_nat ns / 1000000000"
    unfolding of_nat_add of_nat_mult by simp
  have def': "as_secs_f64 fl ns = fl (fl ?s + fl ?n)"
    using fl exact by (simp add: as_secs_f64_def)
  have s: "fl ?s \<le> (1 + u) * ?s" "(1 - u) * ?s \<le> fl ?s" "0 \<le> fl ?s"
    by (rule rounding_bounds [OF fl]; simp)+
  have n: "fl ?n \<le> (1 + u) * ?n" "(1 - u) * ?n \<le> fl ?n" "0 \<le> fl ?n"
    by (rule rounding_bounds [OF fl]; simp)+
  have sum: "fl ?s + fl ?n \<le> (1 + u) * (?s + ?n)" "(1 - u) * (?s + ?n) \<le> fl ?s + fl ?n"
    using s n by (simp_all add: distrib_left)
  have r: "as_secs_f64 fl ns \<le> (1 + u) * (fl ?s + fl ?n)" "(1 - u) * (fl ?s + fl ?n) \<le> as_secs_f64 fl ns"
    "0 \<le> as_secs_f64 fl ns"
    unfolding def' by (rule rounding_bounds [OF fl]; use s n in simp)+
  have "(1 + u) * (fl ?s + fl ?n) \<le> (1 + u) * ((1 + u) * (?s + ?n))"
    using u sum(1) by (intro mult_left_mono) simp_all
  from order_trans [OF r(1) this]
  show "as_secs_f64 fl ns \<le> (1 + u) ^ 2 * (of_nat ns / 1000000000)"
    unfolding split by (simp add: power2_eq_square mult.assoc)
  have "(1 - u) * ((1 - u) * (?s + ?n)) \<le> (1 - u) * (fl ?s + fl ?n)"
    using u sum(2) by (intro mult_left_mono) simp_all
  from order_trans [OF this r(2)]
  show "(1 - u) ^ 2 * (of_nat ns / 1000000000) \<le> as_secs_f64 fl ns"
    unfolding split by (simp add: power2_eq_square mult.assoc)
  show "0 \<le> as_secs_f64 fl ns" by (rule r(3))
qed

section \<open>One bucket\<close>

definition bucket_ok :: "nat \<Rightarrow> rat \<Rightarrow> nat \<Rightarrow> TokenBucket \<Rightarrow> bool" where
  "bucket_ok C R t b \<longleftrightarrow> 0 \<le> tokens b \<and> 0 \<le> bucket_capacity b \<and> bucket_capacity b \<le> of_nat C
     \<and> 0 \<le> bucket_rate b \<and> bucket_rate b \<le> R \<and> last_update b \<le> t"

text \<open>What flows in per nanosecond at most, and what rounding can add per call.\<close>

definition inflow :: "rat \<Rightarrow> rat \<Rightarrow> rat" where
  "inflow u R = (1 + u) ^ 3 * R / 1000000000"

definition slack :: "rat \<Rightarrow> nat \<Rightarrow> rat" where
  "slack u C = 2 * u * of_nat C"

lemma inflow_nonneg: "0 \<le> u \<Longrightarrow> 0 \<le> R \<Longrightarrow> 0 \<le> inflow u R"
  by (simp add: inflow_def)

lemma refill_amount:
  assumes fl: "rounding fl u" and rate: "0 \<le> r" "r \<le> R"
  shows "fl (r * as_secs_f64 fl ns) \<le> inflow u R * of_nat ns" "0 \<le> fl (r * as_secs_f64 fl ns)"
proof -
  have u: "0 \<le> u" using rounding_u [OF fl] by simp
  note secs = as_secs_bounds [OF fl, of ns]
  have "0 \<le> r * as_secs_f64 fl ns" using rate secs by simp
  note amount = rounding_bounds [OF fl this]
  show "0 \<le> fl (r * as_secs_f64 fl ns)" by (rule amount(3))
  have "r * as_secs_f64 fl ns \<le> R * ((1 + u) ^ 2 * (of_nat ns / 1000000000))"
    using rate secs by (intro mult_mono) simp_all
  then have "(1 + u) * (r * as_secs_f64 fl ns) \<le> (1 + u) * (R * ((1 + u) ^ 2 * (of_nat ns / 1000000000)))"
    using u by (intro mult_left_mono) simp_all
  also have "\<dots> = inflow u R * of_nat ns"
    by (simp add: inflow_def power3_eq_cube power2_eq_square)
  finally show "fl (r * as_secs_f64 fl ns) \<le> inflow u R * of_nat ns"
    by (rule order_trans [OF amount(1)])
qed

lemma capped_rounding:
  assumes fl: "rounding fl u" and x: "0 \<le> x" and K: "0 \<le> K" "K \<le> C"
  shows "min (fl x) K \<le> x + u * C"
proof -
  have u: "0 \<le> u" using rounding_u [OF fl] by simp
  then have "0 \<le> u * C" using K by simp
  show ?thesis
  proof (cases "x \<le> K")
    case True
    then have "u * x \<le> u * C" using K u by (intro mult_left_mono) simp_all
    then show ?thesis using rounding_bounds(1) [OF fl x] by (simp add: algebra_simps min_le_iff_disj)
  next
    case False
    with \<open>0 \<le> u * C\<close> show ?thesis by (simp add: min_le_iff_disj)
  qed
qed

lemma refill_step:
  assumes fl: "rounding fl u" and b: "bucket_ok C R t b" and now: "t \<le> now"
  shows "bucket_ok C R now (refill fl now b)"
    and "tokens (refill fl now b) \<le> tokens b + inflow u R * of_nat (now - last_update b) + u * of_nat C"
    and "last_update (refill fl now b) = now"
    and "tokens (refill fl now b) \<le> of_nat C"
proof -
  let ?add = "fl (bucket_rate b * as_secs_f64 fl (now - last_update b))"
  have add: "?add \<le> inflow u R * of_nat (now - last_update b)" "0 \<le> ?add"
    using b by (auto simp: bucket_ok_def intro!: refill_amount [OF fl])
  have sum: "0 \<le> tokens b + ?add" using add b by (simp add: bucket_ok_def)
  have "min (fl (tokens b + ?add)) (bucket_capacity b) \<le> tokens b + ?add + u * of_nat C"
    using b by (intro capped_rounding [OF fl sum]) (auto simp: bucket_ok_def)
  with add show "tokens (refill fl now b) \<le> tokens b + inflow u R * of_nat (now - last_update b) + u * of_nat C"
    by (simp add: refill_def Let_def)
  show "bucket_ok C R now (refill fl now b)"
    using b rounding_bounds(3) [OF fl sum] by (auto simp: bucket_ok_def refill_def Let_def)
qed (use b in \<open>auto simp: refill_def Let_def bucket_ok_def\<close>)

lemma try_consume_step:
  assumes fl: "rounding fl u" and b: "bucket_ok C R t b" and now: "t \<le> now"
    and outcome: "try_consume fl now 1 b = (g, b')"
  shows "bucket_ok C R now b'" "last_update b' = now"
    "of_bool g + tokens b' \<le> tokens b + inflow u R * of_nat (now - last_update b) + slack u C"
proof -
  let ?b = "refill fl now b"
  note re = refill_step [OF fl b now]
  have u: "0 \<le> u" "u < 1" using rounding_u [OF fl] by simp_all
  note cap = re(4)
  have out: "g \<longleftrightarrow> 1 \<le> tokens ?b" "b' = (if g then ?b\<lparr>tokens := fl (tokens ?b - 1)\<rparr> else ?b)"
    using outcome fl by (auto simp: try_consume_def Let_def split: if_splits)
  show "last_update b' = now" using out re(3) by simp
  show "bucket_ok C R now b'"
  proof (cases g)
    case True
    then have pos: "0 \<le> tokens ?b - 1" using out by simp
    show ?thesis
      using True out re(1) rounding_bounds(3) [OF fl pos] by (simp add: bucket_ok_def)
  next
    case False
    then show ?thesis using out re(1) by simp
  qed
  show "of_bool g + tokens b' \<le> tokens b + inflow u R * of_nat (now - last_update b) + slack u C"
  proof (cases g)
    case True
    then have pos: "0 \<le> tokens ?b - 1" using out by simp
    have "fl (tokens ?b - 1) \<le> (1 + u) * (tokens ?b - 1)" by (rule rounding_bounds(1) [OF fl pos])
    moreover have "u * (tokens ?b - 1) \<le> u * of_nat C" using cap u by (intro mult_left_mono) simp_all
    ultimately show ?thesis using True out re(2) by (simp add: slack_def algebra_simps)
  next
    case False
    have "0 \<le> u * of_nat C" using u by simp
    with False out re(2) show ?thesis by (simp add: slack_def algebra_simps)
  qed
qed

section \<open>What a metered service can grant\<close>

text \<open>
  A service is metered if every call pays for what it grants: from the funds at hand, from what
  flows in with time, and from a slack per call.
\<close>

locale metered =
  fixes ok :: "nat \<Rightarrow> 's \<Rightarrow> bool" and funds :: "nat \<Rightarrow> 's \<Rightarrow> rat"
    and income :: rat and extra :: rat
    and perform :: "'c \<Rightarrow> 's \<Rightarrow> bool \<times> 's" and at_time :: "'c \<Rightarrow> nat" and admissible :: "'c \<Rightarrow> bool"
  assumes keeps_ok: "ok t s \<Longrightarrow> t \<le> at_time c \<Longrightarrow> admissible c \<Longrightarrow> ok (at_time c) (snd (perform c s))"
    and pays: "ok t s \<Longrightarrow> t \<le> at_time c \<Longrightarrow> admissible c \<Longrightarrow>
      of_bool (fst (perform c s)) + funds (at_time c) (snd (perform c s))
        \<le> funds t s + income * of_nat (at_time c - t) + extra"
    and funds_nonneg: "ok t s \<Longrightarrow> 0 \<le> funds t s"
begin

lemma granted_bounded:
  assumes "ok t s" "sorted (t # map at_time cs)" "list_all admissible cs"
  shows "of_nat (granted perform cs s)
     \<le> funds t s + income * of_nat (last (t # map at_time cs) - t) + extra * of_nat (length cs)"
  using assms
proof (induction cs arbitrary: t s)
  case Nil
  then show ?case using funds_nonneg by simp
next
  case (Cons c cs)
  let ?e = "last (at_time c # map at_time cs)"
  have tc: "t \<le> at_time c" "admissible c" using Cons.prems by auto
  have ce: "at_time c \<le> ?e"
    using Cons.prems(2) by (cases cs rule: rev_cases) auto
  have "of_nat (granted perform cs (snd (perform c s)))
     \<le> funds (at_time c) (snd (perform c s)) + income * of_nat (?e - at_time c) + extra * of_nat (length cs)"
    using Cons.prems by (intro Cons.IH keeps_ok [OF Cons.prems(1) tc]) auto
  moreover note pays [OF Cons.prems(1) tc]
  moreover have "income * of_nat (?e - t) = income * of_nat (at_time c - t) + income * of_nat (?e - at_time c)"
  proof -
    have "?e - t = (at_time c - t) + (?e - at_time c)" using tc ce by simp
    then show ?thesis by (simp only: of_nat_add distrib_left)
  qed
  ultimately show ?case
    by (simp add: Let_def case_prod_beta algebra_simps)
qed

end

section \<open>Pools of buckets\<close>

definition limits_within :: "nat \<Rightarrow> rat \<Rightarrow> RateLimitConfig \<Rightarrow> bool" where
  "limits_within C R config \<longleftrightarrow> capacity config \<le> C \<and> 0 \<le> refill_rate config \<and> refill_rate config \<le> R"

definition pool_ok :: "nat \<Rightarrow> rat \<Rightarrow> nat \<Rightarrow> string \<Rightarrow> buckets \<Rightarrow> bool" where
  "pool_ok C R t key m \<longleftrightarrow> (\<forall>b. hm_get m key = Some b \<longrightarrow> bucket_ok C R t b)"

definition pool_funds :: "rat \<Rightarrow> nat \<Rightarrow> rat \<Rightarrow> string \<Rightarrow> nat \<Rightarrow> buckets \<Rightarrow> rat" where
  "pool_funds u C R key t m =
     (case hm_get m key of
        None \<Rightarrow> of_nat C
      | Some b \<Rightarrow> tokens b + inflow u R * of_nat (t - last_update b))"

lemma bucket_ok_later: "bucket_ok C R t b \<Longrightarrow> t \<le> t' \<Longrightarrow> bucket_ok C R t' b"
  by (simp add: bucket_ok_def)

lemma pool_ok_later: "pool_ok C R t key m \<Longrightarrow> t \<le> t' \<Longrightarrow> pool_ok C R t' key m"
  by (auto simp: pool_ok_def intro: bucket_ok_later)

lemma pool_funds_nonneg: "0 \<le> u \<Longrightarrow> 0 \<le> R \<Longrightarrow> pool_ok C R t key m \<Longrightarrow> 0 \<le> pool_funds u C R key t m"
  by (auto simp: pool_funds_def pool_ok_def bucket_ok_def inflow_nonneg split: option.splits)

lemma pool_funds_later:
  assumes "pool_ok C R t key m" "t \<le> t'" "0 \<le> u" "0 \<le> R"
  shows "pool_funds u C R key t' m \<le> pool_funds u C R key t m + inflow u R * of_nat (t' - t)"
proof (cases "hm_get m key")
  case None
  then show ?thesis using assms by (simp add: pool_funds_def inflow_nonneg)
next
  case (Some b)
  then have "t' - last_update b = (t - last_update b) + (t' - t)"
    using assms by (simp add: pool_ok_def bucket_ok_def)
  with Some show ?thesis by (simp add: pool_funds_def algebra_simps of_nat_add)
qed

lemma new_bucket_ok:
  assumes "rounding fl u" "limits_within C R config" "C < 2 ^ 53"
  shows "bucket_ok C R now (TokenBucket_new fl now (capacity config) (refill_rate config))"
    and "tokens (TokenBucket_new fl now (capacity config) (refill_rate config)) \<le> of_nat C"
    and "last_update (TokenBucket_new fl now (capacity config) (refill_rate config)) = now"
  using assms rounding_exact [OF assms(1), of "capacity config"]
  by (simp_all add: TokenBucket_new_def Let_def bucket_ok_def limits_within_def)

lemma pool_idle:
  assumes "pool_ok C R t key m" "t \<le> t'" "0 \<le> u" "0 \<le> R" "hm_get m' key = hm_get m key"
  shows "pool_ok C R t' key m'"
    and "pool_funds u C R key t' m' \<le> pool_funds u C R key t m + inflow u R * of_nat (t' - t) + slack u C"
proof -
  have "pool_funds u C R key t' m' = pool_funds u C R key t' m"
    using assms(5) by (simp add: pool_funds_def)
  moreover have "0 \<le> slack u C" using assms by (simp add: slack_def)
  ultimately show "pool_funds u C R key t' m' \<le> pool_funds u C R key t m + inflow u R * of_nat (t' - t) + slack u C"
    using pool_funds_later [OF assms(1-4)] by linarith
  show "pool_ok C R t' key m'"
    using pool_ok_later [OF assms(1,2)] assms(5) by (simp add: pool_ok_def)
qed

text \<open>One request against a pool pays for itself, and leaves the other keys alone.\<close>

lemma consume_entry_other:
  "key' \<noteq> key \<Longrightarrow> hm_get (snd (consume_entry fl now config key m)) key' = hm_get m key'"
  by (simp add: consume_entry_def Let_def case_prod_beta)

lemma consume_entry_pays:
  assumes fl: "rounding fl u" and C: "C < 2 ^ 53" and w: "limits_within C R config"
    and m: "pool_ok C R t key m" and now: "t \<le> now"
  shows "pool_ok C R now key (snd (consume_entry fl now config key m))"
    and "of_bool (fst (consume_entry fl now config key m))
         + pool_funds u C R key now (snd (consume_entry fl now config key m))
       \<le> pool_funds u C R key t m + inflow u R * of_nat (now - t) + slack u C"
proof -
  have u: "0 \<le> u" and R: "0 \<le> R" using rounding_u [OF fl] w by (auto simp: limits_within_def)
  let ?new = "TokenBucket_new fl now (capacity config) (refill_rate config)"
  define b where "b = (case hm_get m key of Some b \<Rightarrow> b | None \<Rightarrow> ?new)"
  obtain g b' where step: "try_consume fl now 1 b = (g, b')" by fastforce
  have out: "consume_entry fl now config key m = (g, hm_insert key b' m)"
    using step by (simp add: consume_entry_def b_def Let_def)
  note new = new_bucket_ok [OF fl w C, of now]
  have b: "bucket_ok C R now b"
    using m now new(1) by (auto simp: b_def pool_ok_def intro: bucket_ok_later split: option.splits)
  note b' = try_consume_step [OF fl b order_refl step]
  have "tokens b + inflow u R * of_nat (now - last_update b) \<le> pool_funds u C R key now m"
    using new by (auto simp: b_def pool_funds_def split: option.splits)
  also have "\<dots> \<le> pool_funds u C R key t m + inflow u R * of_nat (now - t)"
    by (rule pool_funds_later [OF m now u R])
  finally show "of_bool (fst (consume_entry fl now config key m))
         + pool_funds u C R key now (snd (consume_entry fl now config key m))
       \<le> pool_funds u C R key t m + inflow u R * of_nat (now - t) + slack u C"
    using b' by (simp add: out pool_funds_def)
  show "pool_ok C R now key (snd (consume_entry fl now config key m))"
    using b' by (simp add: out pool_ok_def)
qed

lemma consume_entry_pays_for:
  assumes "rounding fl u" "C < 2 ^ 53" "limits_within C R config" "pool_ok C R t key m" "t \<le> now"
    and "g \<Longrightarrow> fst (consume_entry fl now config key m)"
  shows "of_bool g + pool_funds u C R key now (snd (consume_entry fl now config key m))
       \<le> pool_funds u C R key t m + inflow u R * of_nat (now - t) + slack u C"
proof -
  have "of_bool g \<le> (of_bool (fst (consume_entry fl now config key m)) :: rat)"
    using assms(6) by auto
  with consume_entry_pays(2) [OF assms(1-5)] show ?thesis by linarith
qed

section \<open>The limiter, pool by pool\<close>

lemmas check_defs = check_rate_limit_def check_client_def check_topic_def check_combined_def Let_def case_prod_beta

lemma check_rate_limit_clients:
  assumes "check_rate_limit fl now client_id topic l = (a, l')"
  shows "default_config l' = default_config l"
    and "client_buckets l' = (case client_id of
        None \<Rightarrow> client_buckets l
      | Some cid \<Rightarrow> snd (consume_entry fl now (config_for (default_config l) client_id topic) cid (client_buckets l)))"
    and "a \<Longrightarrow> client_id = Some cid \<Longrightarrow>
      fst (consume_entry fl now (config_for (default_config l) client_id topic) cid (client_buckets l))"
  using assms
  by (auto simp: check_defs split: option.splits if_splits)

lemma check_rate_limit_topics:
  assumes "check_rate_limit fl now client_id (Some t) l = (a, l')"
    and "find_topic_limit (default_config l) t = Some (p, cfg)"
  shows "topic_buckets l' = topic_buckets l \<and> \<not> a
     \<or> topic_buckets l' = snd (consume_entry fl now cfg p (topic_buckets l))
        \<and> (a \<longrightarrow> fst (consume_entry fl now cfg p (topic_buckets l)))"
  using assms
  by (auto simp: check_defs split: option.splits if_splits)

lemma check_rate_limit_no_topic:
  assumes "check_rate_limit fl now client_id topic l = (a, l')"
    and "\<And>t. topic = Some t \<Longrightarrow> find_topic_limit (default_config l) t = None"
  shows "topic_buckets l' = topic_buckets l"
  using assms
  by (auto simp: check_defs split: option.splits if_splits)

lemma serve_config: "default_config (snd (serve fl call l)) = default_config l"
proof (cases call)
  case (Check now client_id topic)
  obtain a l' where "check_rate_limit fl now client_id topic l = (a, l')" by fastforce
  with check_rate_limit_clients(1) [OF this] Check show ?thesis by simp
qed (simp add: remove_client_def)

text \<open>A client pays from its own bucket.\<close>

definition client_ok :: "(rat \<Rightarrow> rat) \<Rightarrow> rat \<Rightarrow> nat \<Rightarrow> rat \<Rightarrow> string \<Rightarrow> nat \<Rightarrow> RateLimiter \<Rightarrow> bool" where
  "client_ok fl u C R c t l \<longleftrightarrow> rounding fl u \<and> C < 2 ^ 53
     \<and> (\<forall>topic. limits_within C R (config_for (default_config l) (Some c) topic))
     \<and> pool_ok C R t c (client_buckets l)"

definition not_removed :: "string \<Rightarrow> limiter_call \<Rightarrow> bool" where
  "not_removed c call = (case call of Remove _ c' \<Rightarrow> c' \<noteq> c | _ \<Rightarrow> True)"

lemma client_ok_consts:
  "client_ok fl u C R c t l \<Longrightarrow> 0 \<le> u \<and> 0 \<le> R"
  using rounding_u by (auto simp: client_ok_def limits_within_def intro: order_trans)

lemma client_served_pays:
  assumes ok: "client_ok fl u C R c t l" and t: "t \<le> call_time call" and adm: "not_removed c call"
  shows "client_ok fl u C R c (call_time call) (snd (client_served fl c call l))
     \<and> of_bool (fst (client_served fl c call l))
         + pool_funds u C R c (call_time call) (client_buckets (snd (client_served fl c call l)))
       \<le> pool_funds u C R c t (client_buckets l) + inflow u R * of_nat (call_time call - t) + slack u C"
proof -
  let ?now = "call_time call"
  obtain a l' where sv: "serve fl call l = (a, l')" by fastforce
  have cfg: "default_config l' = default_config l" using serve_config [of fl call l] sv by simp
  have fl: "rounding fl u" and C: "C < 2 ^ 53"
    and lim: "\<And>topic. limits_within C R (config_for (default_config l) (Some c) topic)"
    and pool: "pool_ok C R t c (client_buckets l)"
    using ok by (auto simp: client_ok_def)
  have nonneg: "0 \<le> u" "0 \<le> R" using client_ok_consts [OF ok] by auto
  have idle: ?thesis if "hm_get (client_buckets l') c = hm_get (client_buckets l) c"
    and no: "fst (client_served fl c call l) = False"
  proof -
    have "snd (client_served fl c call l) = l'" by (simp add: client_served_def sv)
    with pool_idle [OF pool t nonneg that(1)] show ?thesis
      using fl C lim cfg unfolding no by (simp add: client_ok_def)
  qed
  show ?thesis
  proof (cases call)
    case (Remove now c')
    with adm sv show ?thesis
      by (intro idle) (auto simp: not_removed_def remove_client_def client_served_def)
  next
    case (Check now client_id topic)
    with sv have chk: "check_rate_limit fl now client_id topic l = (a, l')"
      and ct: "call_time call = now" by simp_all
    note eff = check_rate_limit_clients [OF chk]
    show ?thesis
    proof (cases "client_id = Some c")
      case True
      have now: "t \<le> now" using t Check by simp
      have g: "fst (client_served fl c call l) = a" "snd (client_served fl c call l) = l'"
        using Check True sv by (auto simp: client_served_def)
      let ?cfg = "config_for (default_config l) (Some c) topic"
      have "client_buckets l' = snd (consume_entry fl now ?cfg c (client_buckets l))"
        using eff(2) True by simp
      moreover have "a \<Longrightarrow> fst (consume_entry fl now ?cfg c (client_buckets l))"
        using eff(3) True by simp
      ultimately show ?thesis
        using consume_entry_pays_for [OF fl C lim pool now, of a topic]
          consume_entry_pays(1) [OF fl C lim pool now, of topic] fl C lim
        unfolding g ct client_ok_def cfg by simp
    next
      case False
      then show ?thesis
        using Check sv eff(2)
        by (intro idle) (auto simp: client_served_def consume_entry_other split: option.splits)
    qed
  qed
qed

interpretation client_meter: metered "client_ok fl u C R c"
    "\<lambda>t l. pool_funds u C R c t (client_buckets l)" "inflow u R" "slack u C"
    "client_served fl c" call_time "not_removed c" for fl u C R c
  using client_served_pays client_ok_consts
  by unfold_locales (auto simp: client_ok_def intro: pool_funds_nonneg)

text \<open>A topic with a limit pays from the bucket of its prefix.\<close>

definition topic_ok :: "(rat \<Rightarrow> rat) \<Rightarrow> rat \<Rightarrow> nat \<Rightarrow> rat \<Rightarrow> string \<Rightarrow> nat \<Rightarrow> RateLimiter \<Rightarrow> bool" where
  "topic_ok fl u C R p t l \<longleftrightarrow> rounding fl u \<and> C < 2 ^ 53 \<and> 0 \<le> R
     \<and> (\<forall>cfg. (p, cfg) \<in> set (per_topic_limits (default_config l)) \<longrightarrow> limits_within C R cfg)
     \<and> pool_ok C R t p (topic_buckets l)"

lemma find_topic_limit_mem:
  "find_topic_limit config t = Some (p, cfg) \<Longrightarrow> (p, cfg) \<in> set (per_topic_limits config)"
  by (auto simp: find_topic_limit_def find_Some_iff) (metis nth_mem)

lemma topic_served_pays:
  assumes ok: "topic_ok fl u C R p t l" and t: "t \<le> call_time call"
  shows "topic_ok fl u C R p (call_time call) (snd (topic_served fl p call l))
     \<and> of_bool (fst (topic_served fl p call l))
         + pool_funds u C R p (call_time call) (topic_buckets (snd (topic_served fl p call l)))
       \<le> pool_funds u C R p t (topic_buckets l) + inflow u R * of_nat (call_time call - t) + slack u C"
proof -
  obtain a l' where sv: "serve fl call l = (a, l')" by fastforce
  have l': "snd (topic_served fl p call l) = l'" by (simp add: topic_served_def sv)
  have cfg: "default_config l' = default_config l" using serve_config [of fl call l] sv by simp
  have fl: "rounding fl u" and C: "C < 2 ^ 53" and R: "0 \<le> R"
    and lim: "\<And>cfg. (p, cfg) \<in> set (per_topic_limits (default_config l)) \<Longrightarrow> limits_within C R cfg"
    and pool: "pool_ok C R t p (topic_buckets l)"
    using ok by (auto simp: topic_ok_def)
  have u: "0 \<le> u" using rounding_u [OF fl] by simp
  have idle: ?thesis if "hm_get (topic_buckets l') p = hm_get (topic_buckets l) p"
    and no: "fst (topic_served fl p call l) = False"
    using pool_idle [OF pool t u R that(1)] fl C R lim cfg unfolding no l' by (simp add: topic_ok_def)
  show ?thesis
  proof (cases call)
    case (Remove now c')
    with sv show ?thesis by (intro idle) (auto simp: remove_client_def topic_served_def)
  next
    case (Check now client_id topic)
    with sv have chk: "check_rate_limit fl now client_id topic l = (a, l')"
      and ct: "call_time call = now" by simp_all
    consider (none) "\<And>tp. topic = Some tp \<Longrightarrow> find_topic_limit (default_config l) tp = None"
      | (some) tp q c where "topic = Some tp" "find_topic_limit (default_config l) tp = Some (q, c)"
      by (cases topic) (auto, metis option.exhaust surj_pair)
    then show ?thesis
    proof cases
      case none
      with check_rate_limit_no_topic [OF chk none] Check show ?thesis
        by (intro idle) (auto simp: topic_served_def case_prod_beta split: option.splits)
    next
      case some
      note eff = check_rate_limit_topics [OF chk [unfolded some(1)] some(2)]
      have g: "fst (topic_served fl p call l) = (a \<and> q = p)"
        using Check some chk by (auto simp: topic_served_def)
      show ?thesis
      proof (cases "q = p \<and> topic_buckets l' = snd (consume_entry fl now c p (topic_buckets l))")
        case True
        then have w: "limits_within C R c" using some find_topic_limit_mem by (blast intro: lim)
        have now: "t \<le> now" using t Check by simp
        show ?thesis
        proof (cases "topic_buckets l' = topic_buckets l \<and> \<not> a")
          case True
          then show ?thesis using g by (intro idle) simp_all
        next
          case False
          with eff True have "a \<Longrightarrow> fst (consume_entry fl now c p (topic_buckets l))" by auto
          with True g show ?thesis
            using consume_entry_pays_for [OF fl C w pool now, of a]
              consume_entry_pays(1) [OF fl C w pool now] fl C R lim
            unfolding l' ct topic_ok_def cfg by simp
        qed
      next
        case False
        have "hm_get (topic_buckets l') p = hm_get (topic_buckets l) p"
          using eff False by (cases "q = p") (auto simp: consume_entry_other)
        moreover have "fst (topic_served fl p call l) = False" using eff False g by auto
        ultimately show ?thesis by (rule idle)
      qed
    qed
  qed
qed

interpretation topic_meter: metered "topic_ok fl u C R p"
    "\<lambda>t l. pool_funds u C R p t (topic_buckets l)" "inflow u R" "slack u C"
    "topic_served fl p" call_time "\<lambda>_. True" for fl u C R p
  using topic_served_pays rounding_u
  by unfold_locales (auto simp: topic_ok_def intro: pool_funds_nonneg)

text \<open>What a limit of capacity \<open>C\<close> and rate \<open>R\<close> allows in \<open>ns\<close> nanoseconds and \<open>n\<close> calls.\<close>

definition allowance :: "rat \<Rightarrow> nat \<Rightarrow> rat \<Rightarrow> nat \<Rightarrow> nat \<Rightarrow> rat" where
  "allowance u C R ns n =
     of_nat C + (1 + u) ^ 3 * R * (of_nat ns / 1000000000) + 2 * u * of_nat C * of_nat n"

lemma allowance_eq: "allowance u C R ns n = of_nat C + inflow u R * of_nat ns + slack u C * of_nat n"
  by (simp add: allowance_def inflow_def slack_def)

text \<open>
  Claim C32: the limits hold. In any sequence of checks and removals with times in order, starting
  with a new limiter, a client that is not removed is allowed at most its capacity, plus its rate
  for every second that passes, and the topics under one configured prefix together at most the
  capacity and rate of that prefix, also while clients come and go; up to the rounding error of
  the floating-point numbers. With exact arithmetic (\<open>u = 0\<close>) the bound is \<open>C + R\<close> per second.
\<close>

theorem rate_limit_bounded:
  assumes "rounding fl u" "sorted (t0 # map call_time calls)"
    and ns: "ns = last (t0 # map call_time calls) - t0"
  shows "(\<forall>c C R. C < 2 ^ 53 \<and> (\<forall>topic. limits_within C R (config_for config (Some c) topic))
            \<and> list_all (not_removed c) calls \<longrightarrow>
          of_nat (granted (client_served fl c) calls (RateLimiter_new config))
            \<le> allowance u C R ns (length calls))
     \<and> (\<forall>p C R. C < 2 ^ 53 \<and> 0 \<le> R
            \<and> (\<forall>c. (p, c) \<in> set (per_topic_limits config) \<longrightarrow> limits_within C R c) \<longrightarrow>
          of_nat (granted (topic_served fl p) calls (RateLimiter_new config))
            \<le> allowance u C R ns (length calls))"
proof (intro conjI allI impI)
  fix c C R
  assume h: "C < 2 ^ 53 \<and> (\<forall>topic. limits_within C R (config_for config (Some c) topic))
    \<and> list_all (not_removed c) calls"
  then have "client_ok fl u C R c t0 (RateLimiter_new config)"
    using assms(1) by (simp add: client_ok_def RateLimiter_new_def pool_ok_def)
  from client_meter.granted_bounded [OF this assms(2)] h
  show "of_nat (granted (client_served fl c) calls (RateLimiter_new config)) \<le> allowance u C R ns (length calls)"
    by (simp add: allowance_eq ns RateLimiter_new_def pool_funds_def)
next
  fix p C R
  assume "C < 2 ^ 53 \<and> 0 \<le> R \<and> (\<forall>c. (p, c) \<in> set (per_topic_limits config) \<longrightarrow> limits_within C R c)"
  then have "topic_ok fl u C R p t0 (RateLimiter_new config)"
    using assms(1) by (simp add: topic_ok_def RateLimiter_new_def pool_ok_def)
  from topic_meter.granted_bounded [OF this assms(2)]
  show "of_nat (granted (topic_served fl p) calls (RateLimiter_new config)) \<le> allowance u C R ns (length calls)"
    by (simp add: allowance_eq ns RateLimiter_new_def pool_funds_def list.pred_True)
qed

section \<open>Waiting helps\<close>

definition paced :: "rat \<Rightarrow> nat \<Rightarrow> TokenBucket \<Rightarrow> bool" where
  "paced r t b \<longleftrightarrow> 0 \<le> tokens b \<and> 1 \<le> bucket_capacity b \<and> r \<le> bucket_rate b \<and> last_update b \<le> t"

definition generous :: "rat \<Rightarrow> RateLimitConfig \<Rightarrow> bool" where
  "generous r config \<longleftrightarrow> 1 \<le> capacity config \<and> capacity config < 2 ^ 53 \<and> r \<le> refill_rate config"

definition all_paced :: "rat \<Rightarrow> nat \<Rightarrow> buckets \<Rightarrow> bool" where
  "all_paced r t m \<longleftrightarrow> (\<forall>key b. hm_get m key = Some b \<longrightarrow> paced r t b)"

text \<open>Time enough for one token, rounding included.\<close>

definition long_enough :: "rat \<Rightarrow> rat \<Rightarrow> nat \<Rightarrow> bool" where
  "long_enough u r ns \<longleftrightarrow> 1 \<le> (1 - u) ^ 4 * r * (of_nat ns / 1000000000)"

lemma paced_refill:
  assumes fl: "rounding fl u" and r: "0 \<le> r" and b: "paced r t b" and now: "t \<le> now"
  shows "paced r now (refill fl now b)"
    and "long_enough u r (now - t) \<Longrightarrow> 1 \<le> tokens (refill fl now b)"
proof -
  let ?e = "now - last_update b" and ?secs = "as_secs_f64 fl (now - last_update b)"
  let ?add = "fl (bucket_rate b * ?secs)"
  have u: "0 \<le> 1 - u" using rounding_u [OF fl] by simp
  note secs = as_secs_bounds [OF fl, of ?e]
  have rate: "0 \<le> bucket_rate b" "r \<le> bucket_rate b" using b r by (auto simp: paced_def)
  then have "0 \<le> bucket_rate b * ?secs" using secs by simp
  note add = rounding_bounds [OF fl this]
  have sum: "0 \<le> tokens b + ?add" using add b by (simp add: paced_def)
  note total = rounding_bounds [OF fl sum]
  show "paced r now (refill fl now b)"
    using b total(3) by (auto simp: paced_def refill_def Let_def)
  assume wait: "long_enough u r (now - t)"
  have "(of_nat (now - t) :: rat) / 1000000000 \<le> of_nat ?e / 1000000000"
    using b by (intro divide_right_mono) (auto simp: paced_def intro: diff_le_mono2)
  then have "(1 - u) ^ 2 * ((of_nat (now - t) :: rat) / 1000000000) \<le> (1 - u) ^ 2 * (of_nat ?e / 1000000000)"
    by (intro mult_left_mono) simp_all
  then have "(1 - u) ^ 2 * (of_nat (now - t) / 1000000000) \<le> ?secs"
    using secs(2) by (rule order_trans)
  then have "r * ((1 - u) ^ 2 * (of_nat (now - t) / 1000000000)) \<le> bucket_rate b * ?secs"
    using rate r secs(3) by (intro mult_mono) simp_all
  then have "(1 - u) * (r * ((1 - u) ^ 2 * (of_nat (now - t) / 1000000000))) \<le> (1 - u) * (bucket_rate b * ?secs)"
    using u by (rule mult_left_mono)
  also have "\<dots> \<le> ?add" by (rule add(2))
  also have "\<dots> \<le> tokens b + ?add" using b by (simp add: paced_def)
  finally have "(1 - u) * ((1 - u) * (r * ((1 - u) ^ 2 * (of_nat (now - t) / 1000000000)))) \<le> (1 - u) * (tokens b + ?add)"
    using u by (rule mult_left_mono)
  also have "\<dots> \<le> fl (tokens b + ?add)" by (rule total(2))
  also have "(1 - u) * ((1 - u) * (r * ((1 - u) ^ 2 * (of_nat (now - t) / 1000000000))))
      = (1 - u) ^ 4 * r * (of_nat (now - t) / 1000000000)"
    by (simp add: power4_eq_xxxx power2_eq_square)
  finally have "1 \<le> fl (tokens b + ?add)"
    by (rule order_trans [OF wait [unfolded long_enough_def]])
  then show "1 \<le> tokens (refill fl now b)"
    using b by (simp add: refill_def Let_def paced_def)
qed

lemma try_consume_paced:
  assumes fl: "rounding fl u" and r: "0 \<le> r" and b: "paced r t b" and now: "t \<le> now"
  shows "paced r now (snd (try_consume fl now 1 b))"
    and "1 \<le> tokens (refill fl now b) \<Longrightarrow> fst (try_consume fl now 1 b)"
  using paced_refill(1) [OF assms] rounding_bounds(3) [OF fl, of "tokens (refill fl now b) - 1"] fl
  by (auto simp: try_consume_def Let_def paced_def)

lemma new_bucket_paced:
  assumes fl: "rounding fl u" and "generous r config"
  shows "paced r now (TokenBucket_new fl now (capacity config) (refill_rate config))"
    and "1 \<le> tokens (refill fl now (TokenBucket_new fl now (capacity config) (refill_rate config)))"
  using assms rounding_exact [OF fl, of "capacity config"]
  by (simp_all add: TokenBucket_new_def Let_def paced_def generous_def refill_def as_secs_f64_def)

lemma all_paced_later: "all_paced r t m \<Longrightarrow> t \<le> t' \<Longrightarrow> all_paced r t' m"
  by (auto simp: all_paced_def paced_def intro: order_trans)

lemma consume_entry_paced:
  assumes fl: "rounding fl u" and r: "0 \<le> r" and cfg: "generous r config" and m: "all_paced r t m"
    and now: "t \<le> now"
  shows "all_paced r now (snd (consume_entry fl now config key m))"
    and "long_enough u r (now - t) \<Longrightarrow> fst (consume_entry fl now config key m)"
proof -
  let ?new = "TokenBucket_new fl now (capacity config) (refill_rate config)"
  define b where "b = (case hm_get m key of Some b \<Rightarrow> b | None \<Rightarrow> ?new)"
  have out: "consume_entry fl now config key m =
      (fst (try_consume fl now 1 b), hm_insert key (snd (try_consume fl now 1 b)) m)"
    by (simp add: consume_entry_def b_def Let_def case_prod_beta)
  note new = new_bucket_paced [OF fl cfg, of now]
  have b: "paced r now b"
    using all_paced_later [OF m now] new(1) by (auto simp: b_def all_paced_def split: option.splits)
  show "all_paced r now (snd (consume_entry fl now config key m))"
    using try_consume_paced(1) [OF fl r b order_refl] all_paced_later [OF m now]
    by (auto simp: out all_paced_def)
  assume wait: "long_enough u r (now - t)"
  have "1 \<le> tokens (refill fl now b)"
  proof (cases "hm_get m key")
    case None
    then show ?thesis using new(2) by (simp add: b_def)
  next
    case (Some b')
    then have "paced r t b'" "b = b'" using m by (auto simp: all_paced_def b_def)
    with paced_refill(2) [OF fl r _ now wait] show ?thesis by blast
  qed
  then show "fst (consume_entry fl now config key m)"
    using try_consume_paced(2) [OF fl r b order_refl] by (simp add: out)
qed

definition limiter_paced :: "rat \<Rightarrow> nat \<Rightarrow> RateLimiter \<Rightarrow> bool" where
  "limiter_paced r t l \<longleftrightarrow>
     (\<forall>client_id topic. generous r (config_for (default_config l) client_id topic))
     \<and> all_paced r t (client_buckets l) \<and> all_paced r t (topic_buckets l) \<and> all_paced r t (combined_buckets l)"

lemma topic_limit_generous:
  assumes "\<forall>client_id topic. generous r (config_for config client_id topic)"
    and "find_topic_limit config t = Some (p, c)"
  shows "generous r c"
  using assms(1) [rule_format, of None "Some t"] assms(2)
  by (simp add: config_for_def find_topic_config_def)

lemma all_paced_filter:
  "all_paced r t m \<Longrightarrow> all_paced r t (filter (\<lambda>(key, _). P key) m)"
proof -
  have "hm_get (filter (\<lambda>(key, _). P key) m) k = (if P k then hm_get m k else None)" for k
    by (induction m) (auto simp: hm_get_def)
  then show "all_paced r t m \<Longrightarrow> all_paced r t (filter (\<lambda>(key, _). P key) m)"
    by (auto simp: all_paced_def split: if_splits)
qed

lemma all_paced_remove: "all_paced r t m \<Longrightarrow> all_paced r t (hm_remove key m)"
  by (auto simp: all_paced_def split: if_splits)

lemma check_rate_limit_paced:
  assumes fl: "rounding fl u" and r: "0 \<le> r" and l: "limiter_paced r t l" and now: "t \<le> now"
  shows "limiter_paced r now (snd (check_rate_limit fl now client_id topic l))"
    and "long_enough u r (now - t) \<Longrightarrow> fst (check_rate_limit fl now client_id topic l)"
proof -
  have g: "\<forall>client_id topic. generous r (config_for (default_config l) client_id topic)"
    and pools: "all_paced r t (client_buckets l)" "all_paced r t (topic_buckets l)" "all_paced r t (combined_buckets l)"
    using l by (auto simp: limiter_paced_def)
  note later = pools [THEN all_paced_later, OF now]
  note step = consume_entry_paced [OF fl r _ _ now]
  note tg = topic_limit_generous [OF g]
  show "limiter_paced r now (snd (check_rate_limit fl now client_id topic l))"
    using g pools later
    by (auto simp: check_defs limiter_paced_def intro!: step intro: tg split: option.splits)
  assume wait: "long_enough u r (now - t)"
  show "fst (check_rate_limit fl now client_id topic l)"
    using g pools wait
    by (auto simp: check_defs intro!: step intro: tg split: option.splits)
qed

lemma serve_paced:
  assumes "rounding fl u" "0 \<le> r" "limiter_paced r t l" "t \<le> call_time call"
  shows "limiter_paced r (call_time call) (snd (serve fl call l))"
proof (cases call)
  case (Check now client_id topic)
  then show ?thesis using check_rate_limit_paced(1) [OF assms(1-3)] assms(4) by simp
next
  case (Remove now c)
  then show ?thesis
    using assms(3,4)
    by (auto simp: limiter_paced_def remove_client_def intro!: all_paced_filter all_paced_remove
        intro: all_paced_later)
qed

lemma serve_all_paced:
  assumes "rounding fl u" "0 \<le> r" "limiter_paced r t l" "sorted (t # map call_time calls)"
  shows "limiter_paced r (last (t # map call_time calls)) (serve_all fl calls l)"
  using assms(3,4)
proof (induction calls arbitrary: t l)
  case (Cons call calls)
  then have "limiter_paced r (call_time call) (snd (serve fl call l))"
    by (intro serve_paced [OF assms(1,2)]) auto
  from Cons.IH [OF this] Cons.prems(2) show ?case by simp
qed simp

text \<open>
  Claim C33: nobody is shut out for good. If every configured limit has room for one request and
  refills at least \<open>r\<close> tokens per second, then after any history of checks and removals every
  request made one refill period after the last call, rounding included, is allowed.
\<close>

theorem rate_limit_recovers:
  assumes "rounding fl u" "0 \<le> r" "sorted (t0 # map call_time calls)"
    and "\<forall>client_id topic. generous r (config_for config client_id topic)"
    and "last (t0 # map call_time calls) \<le> now"
    and "1 \<le> (1 - u) ^ 4 * r * (of_nat (now - last (t0 # map call_time calls)) / 1000000000)"
  shows "fst (check_rate_limit fl now client_id topic (serve_all fl calls (RateLimiter_new config)))"
proof -
  have "limiter_paced r t0 (RateLimiter_new config)"
    using assms(4) by (simp add: limiter_paced_def RateLimiter_new_def all_paced_def)
  from serve_all_paced [OF assms(1,2) this assms(3)] show ?thesis
    using assms(5,6) by (intro check_rate_limit_paced(2) [OF assms(1,2)]) (simp_all only: long_enough_def)
qed

section \<open>Examples\<close>

definition two_limits :: RateLimitConfig where
  "two_limits = with_topic_limit ''slow'' (RateLimitConfig_new 1 1) (RateLimitConfig_new 5 1)"

lemma as_secs_id: "as_secs_f64 id 0 = 0"
  by (simp add: as_secs_f64_def)

lemma two_limits_topics:
  "find_topic_limit two_limits ''slow'' = Some (''slow'', RateLimitConfig_new 1 1)"
  "find_topic_limit two_limits ''fast'' = None"
  "per_client_limits two_limits = []" "capacity two_limits = 5" "refill_rate two_limits = 1"
  by (simp_all add: two_limits_def with_topic_limit_def RateLimitConfig_new_def find_topic_limit_def hm_insert_def)

lemma try_consume_now:
  "try_consume id 0 1 \<lparr>tokens = k, bucket_capacity = c, bucket_rate = r, last_update = 0\<rparr> =
     (if 1 \<le> min k c then (True, \<lparr>tokens = min k c - 1, bucket_capacity = c, bucket_rate = r, last_update = 0\<rparr>)
      else (False, \<lparr>tokens = min k c, bucket_capacity = c, bucket_rate = r, last_update = 0\<rparr>))"
  by (simp add: try_consume_def refill_def Let_def as_secs_id)

text \<open>
  Which limit a client without an own limit gets depends on the topic of its first
  message, and it keeps it. With a topic limited to one request and a default of five, a client
  that first uses the limited topic is then refused on every other topic, whereas the same two
  messages in the other order are both allowed.
\<close>

lemma first_topic_sets_client_limit:
  "\<not> fst (check_rate_limit id 0 (Some ''c'') (Some ''fast'')
      (serve_all id [Check 0 (Some ''c'') (Some ''slow'')] (RateLimiter_new two_limits)))
   \<and> fst (check_rate_limit id 0 (Some ''c'') (Some ''slow'')
      (serve_all id [Check 0 (Some ''c'') (Some ''fast'')] (RateLimiter_new two_limits)))"
  by (simp add: check_defs RateLimiter_new_def config_for_def find_topic_config_def two_limits_topics
      RateLimitConfig_new_def consume_entry_def TokenBucket_new_def try_consume_now del: One_nat_def)

lemma rounding_id: "rounding id 0"
  by (simp add: rounding_def)

lemma config_for_plain: "config_for (RateLimitConfig_new c r) client_id topic = RateLimitConfig_new c r"
  by (auto simp: config_for_def RateLimitConfig_new_def find_topic_config_def find_topic_limit_def
      split: option.splits)

theorem rate_limit_bounded_witness:
  "of_nat (granted (client_served id ''c'') [Check 0 (Some ''c'') None, Check 1000000000 (Some ''c'') None]
      (RateLimiter_new (RateLimitConfig_new 1 1))) \<le> (2 :: rat)"
proof -
  let ?calls = "[Check 0 (Some ''c'') None, Check 1000000000 (Some ''c'') None]"
  have "sorted (0 # map call_time ?calls)" "1000000000 = last (0 # map call_time ?calls) - 0" by simp_all
  note bound = rate_limit_bounded [OF rounding_id this, THEN conjunct1, rule_format, of 1 1 _ "''c''"]
  have "limits_within 1 1 (RateLimitConfig_new 1 1)"
    by (simp add: limits_within_def RateLimitConfig_new_def)
  then have "of_nat (granted (client_served id ''c'') ?calls (RateLimiter_new (RateLimitConfig_new 1 1)))
      \<le> allowance 0 1 1 1000000000 (length ?calls)"
    using bound [of "RateLimitConfig_new 1 1"] by (simp add: config_for_plain not_removed_def)
  then show ?thesis by (simp add: allowance_def)
qed

theorem rate_limit_recovers_witness:
  "fst (check_rate_limit id 1000000000 (Some ''c'') None
      (serve_all id [Check 0 (Some ''c'') None] (RateLimiter_new (RateLimitConfig_new 1 1))))"
proof -
  have "\<forall>client_id topic. generous 1 (config_for (RateLimitConfig_new 1 1) client_id topic)"
    unfolding config_for_plain by (simp add: generous_def RateLimitConfig_new_def)
  then show ?thesis
    by (intro rate_limit_recovers [OF rounding_id, of 1 0]) simp_all
qed

end
