(* ===== verification/Trigger_Queue.thy ===== *)
theory Trigger_Queue
  imports Prelude Mailbox Complex_Main
begin

text \<open>
  The priority queue of analysis triggers, \<^verbatim>\<open>collector-core/src/trigger/queue.rs\<close>, with the trigger
  requests of \<^verbatim>\<open>collector-core/src/event.rs\<close> and their validation.

  The threshold of the backpressure is computed in 32-bit floating point; the rounding is the
  parameter \<open>fl\<close>, of which nothing is assumed. The conversion back to \<open>usize\<close> truncates and
  saturates. Lengths (\<open>usize\<close>) are natural numbers; the counters (\<open>u64\<close>) wrap around, as in a
  release build.
\<close>

section \<open>Requests\<close>

datatype AnalysisType =
    BinaryHash
  | MemoryAnalysis
  | YaraScan
  | NetworkAnalysis
  | BehavioralAnalysis
  | Custom string

datatype TriggerPriority = Low | Normal | High | Critical

record TriggerRequest =
  trigger_id :: string
  target_collector :: string
  analysis_type :: AnalysisType
  priority :: TriggerPriority
  target_pid :: "u32 option"
  target_path :: "string option"
  correlation_id :: string
  metadata :: "(string, string) hash_map"
  trigger_time :: nat

datatype TriggerError =
    LockError string
  | ConfigError string
  | EvaluationError string
  | GenerationError string
  | SqlParsingError string
  | CapabilityValidationError string
  | QueueFull string
  | BackpressureActive
  | CollectorNotFound string
  | InvalidPriority TriggerPriority
  | EmissionError string
  | EventBusError string
  | ValidationError string
  | TimeoutError string
  | CorrelationError string

definition validate :: "TriggerRequest \<Rightarrow> (unit, string) result" where
  "validate t =
     (if trigger_id t = [] then Err ''trigger_id must be non-empty''
      else if correlation_id t = [] then Err ''correlation_id must be non-empty''
      else if target_collector t = [] then Err ''target_collector must be non-empty''
      else if target_pid t = None \<and> target_path t = None
      then Err ''at least one of target_pid or target_path must be present''
      else if length (metadata t) > 100
      then Err (''metadata exceeds maximum size of 100 entries (found '' @ show_nat (length (metadata t)) @ '')'')
      else Ok ())"

section \<open>The queue\<close>

record QueueStatistics =
  total_enqueued :: u64
  total_processed :: u64
  dropped_backpressure :: u64
  dropped_queue_full :: u64
  high_priority_depth :: nat
  normal_priority_depth :: nat

definition QueueStatistics_default :: QueueStatistics where
  "QueueStatistics_default =
     \<lparr>total_enqueued = 0, total_processed = 0, dropped_backpressure = 0, dropped_queue_full = 0,
      high_priority_depth = 0, normal_priority_depth = 0\<rparr>"

record PriorityTriggerQueue =
  high_priority :: "TriggerRequest list"
  normal_priority :: "TriggerRequest list"
  max_queue_size :: nat
  backpressure_threshold :: rat
  queue_stats :: QueueStatistics

definition PriorityTriggerQueue_new :: "nat \<Rightarrow> rat \<Rightarrow> PriorityTriggerQueue" where
  "PriorityTriggerQueue_new max_size threshold =
     \<lparr>high_priority = [], normal_priority = [], max_queue_size = max_size,
      backpressure_threshold = threshold, queue_stats = QueueStatistics_default\<rparr>"

definition queue_len :: "PriorityTriggerQueue \<Rightarrow> nat" where
  "queue_len q = length (high_priority q) + length (normal_priority q)"

definition queue_is_empty :: "PriorityTriggerQueue \<Rightarrow> bool" where
  "queue_is_empty q \<longleftrightarrow> high_priority q = [] \<and> normal_priority q = []"

definition f32_to_usize :: "rat \<Rightarrow> nat" where
  "f32_to_usize x = min (nat \<lfloor>x\<rfloor>) (2 ^ 64 - 1)"

definition is_backpressure_active :: "(rat \<Rightarrow> rat) \<Rightarrow> PriorityTriggerQueue \<Rightarrow> bool" where
  "is_backpressure_active fl q =
     (let total_depth = length (high_priority q) + length (normal_priority q);
          threshold = f32_to_usize (fl (fl (of_nat (max_queue_size q)) * backpressure_threshold q))
      in total_depth \<ge> threshold)"

definition enqueue ::
    "(rat \<Rightarrow> rat) \<Rightarrow> TriggerRequest \<Rightarrow> PriorityTriggerQueue \<Rightarrow> (unit, TriggerError) result \<times> PriorityTriggerQueue" where
  "enqueue fl trigger q =
     (let q = q\<lparr>queue_stats := (queue_stats q)\<lparr>total_enqueued := total_enqueued (queue_stats q) + 1\<rparr>\<rparr> in
      if is_backpressure_active fl q \<and> priority trigger = Low
      then (Err BackpressureActive,
            q\<lparr>queue_stats := (queue_stats q)\<lparr>dropped_backpressure := dropped_backpressure (queue_stats q) + 1\<rparr>\<rparr>)
      else if queue_len q \<ge> max_queue_size q
      then (Err (QueueFull (case priority trigger of
                Critical \<Rightarrow> ''high_priority'' | High \<Rightarrow> ''high_priority''
              | Normal \<Rightarrow> ''normal_priority'' | Low \<Rightarrow> ''normal_priority'')),
            q\<lparr>queue_stats := (queue_stats q)\<lparr>dropped_queue_full := dropped_queue_full (queue_stats q) + 1\<rparr>\<rparr>)
      else if priority trigger = Critical \<or> priority trigger = High
      then let high = high_priority q @ [trigger] in
           (Ok (), q\<lparr>high_priority := high,
              queue_stats := (queue_stats q)\<lparr>high_priority_depth := length high\<rparr>\<rparr>)
      else let normal = normal_priority q @ [trigger] in
           (Ok (), q\<lparr>normal_priority := normal,
              queue_stats := (queue_stats q)\<lparr>normal_priority_depth := length normal\<rparr>\<rparr>))"

definition dequeue :: "PriorityTriggerQueue \<Rightarrow> TriggerRequest option \<times> PriorityTriggerQueue" where
  "dequeue q =
     (case high_priority q of
        t # high \<Rightarrow>
          (Some t, q\<lparr>high_priority := high,
             queue_stats := (queue_stats q)\<lparr>total_processed := total_processed (queue_stats q) + 1,
                                             high_priority_depth := length high\<rparr>\<rparr>)
      | [] \<Rightarrow>
          (case normal_priority q of
             t # normal \<Rightarrow>
               (Some t, q\<lparr>normal_priority := normal,
                  queue_stats := (queue_stats q)\<lparr>total_processed := total_processed (queue_stats q) + 1,
                                                  normal_priority_depth := length normal\<rparr>\<rparr>)
           | [] \<Rightarrow> (None, q)))"

definition get_statistics :: "PriorityTriggerQueue \<Rightarrow> QueueStatistics" where
  "get_statistics q =
     (queue_stats q)\<lparr>high_priority_depth := length (high_priority q),
                     normal_priority_depth := length (normal_priority q)\<rparr>"

section \<open>Runs\<close>

datatype lane = HighLane | NormalLane

definition lane_of :: "TriggerRequest \<Rightarrow> lane" where
  "lane_of t = (if priority t = Critical \<or> priority t = High then HighLane else NormalLane)"

definition lane_contents :: "PriorityTriggerQueue \<Rightarrow> lane \<Rightarrow> TriggerRequest list" where
  "lane_contents q l = (case l of HighLane \<Rightarrow> high_priority q | NormalLane \<Rightarrow> normal_priority q)"

datatype trigger_call = Submit TriggerRequest | Fetch

fun tq_step ::
    "(rat \<Rightarrow> rat) \<Rightarrow> trigger_call \<Rightarrow> PriorityTriggerQueue
       \<Rightarrow> (lane \<times> TriggerRequest) list \<times> (lane \<times> TriggerRequest) list \<times> PriorityTriggerQueue" where
  "tq_step fl (Submit t) q =
     (case enqueue fl t q of
        (Ok _, q') \<Rightarrow> ([(lane_of t, t)], [], q')
      | (Err _, q') \<Rightarrow> ([], [], q'))"
| "tq_step fl Fetch q =
     (case dequeue q of
        (Some t, q') \<Rightarrow> ([], [(lane_of t, t)], q')
      | (None, q') \<Rightarrow> ([], [], q'))"

text \<open>
  The lanes hold the triggers of their priorities and stay within the size, and the statistics
  account for them.
\<close>

definition tq_inv :: "PriorityTriggerQueue \<Rightarrow> bool" where
  "tq_inv q \<longleftrightarrow> (\<forall>l. list_all (\<lambda>t. lane_of t = l) (lane_contents q l)) \<and> queue_len q \<le> max_queue_size q
     \<and> total_enqueued (queue_stats q) = total_processed (queue_stats q) + dropped_backpressure (queue_stats q)
         + dropped_queue_full (queue_stats q) + of_nat (queue_len q)
     \<and> high_priority_depth (queue_stats q) = length (high_priority q)
     \<and> normal_priority_depth (queue_stats q) = length (normal_priority q)"

lemma all_lanes: "(\<forall>l. P l) \<longleftrightarrow> P HighLane \<and> P NormalLane"
  by (metis lane.exhaust)

lemmas tq_inv_unfold = tq_inv_def all_lanes lane_contents_def queue_len_def lane.case

lemma enqueue_cases:
  obtains (backpressure) "is_backpressure_active fl q" "priority t = Low"
      "enqueue fl t q = (Err BackpressureActive, q\<lparr>queue_stats := (queue_stats q)
         \<lparr>total_enqueued := total_enqueued (queue_stats q) + 1,
          dropped_backpressure := dropped_backpressure (queue_stats q) + 1\<rparr>\<rparr>)"
    | (full) lane where "max_queue_size q \<le> queue_len q"
      "enqueue fl t q = (Err (QueueFull lane), q\<lparr>queue_stats := (queue_stats q)
         \<lparr>total_enqueued := total_enqueued (queue_stats q) + 1,
          dropped_queue_full := dropped_queue_full (queue_stats q) + 1\<rparr>\<rparr>)"
    | (high) "queue_len q < max_queue_size q" "lane_of t = HighLane"
      "enqueue fl t q = (Ok (), q\<lparr>high_priority := high_priority q @ [t], queue_stats := (queue_stats q)
         \<lparr>total_enqueued := total_enqueued (queue_stats q) + 1,
          high_priority_depth := Suc (length (high_priority q))\<rparr>\<rparr>)"
    | (normal) "queue_len q < max_queue_size q" "lane_of t = NormalLane"
      "enqueue fl t q = (Ok (), q\<lparr>normal_priority := normal_priority q @ [t], queue_stats := (queue_stats q)
         \<lparr>total_enqueued := total_enqueued (queue_stats q) + 1,
          normal_priority_depth := Suc (length (normal_priority q))\<rparr>\<rparr>)"
proof -
  consider "is_backpressure_active fl q \<and> priority t = Low"
    | "\<not> (is_backpressure_active fl q \<and> priority t = Low)" "max_queue_size q \<le> queue_len q"
    | "\<not> (is_backpressure_active fl q \<and> priority t = Low)" "queue_len q < max_queue_size q"
      "priority t = Critical \<or> priority t = High"
    | "\<not> (is_backpressure_active fl q \<and> priority t = Low)" "queue_len q < max_queue_size q"
      "\<not> (priority t = Critical \<or> priority t = High)"
    by linarith
  then show thesis
  proof cases
    case 1
    then show thesis
      by (intro backpressure) (simp_all add: enqueue_def is_backpressure_active_def Let_def)
  next
    case 2
    then show thesis
      by (intro full) (auto simp: enqueue_def is_backpressure_active_def Let_def queue_len_def)
  next
    case 3
    then show thesis
      by (intro high) (auto simp: enqueue_def is_backpressure_active_def Let_def queue_len_def lane_of_def)
  next
    case 4
    then show thesis
      by (intro normal) (auto simp: enqueue_def is_backpressure_active_def Let_def queue_len_def lane_of_def)
  qed
qed

lemma tq_step_effect:
  assumes inv: "tq_inv s" and st: "tq_step fl call s = (acc, tak, s')"
  shows "tq_inv s'" "for_client l tak @ lane_contents s' l = lane_contents s l @ for_client l acc"
    "max_queue_size s' = max_queue_size s"
proof -
  have "tq_inv s' \<and> for_client l tak @ lane_contents s' l = lane_contents s l @ for_client l acc
    \<and> max_queue_size s' = max_queue_size s"
  proof (cases call)
    case (Submit t)
    show ?thesis
    proof (cases rule: enqueue_cases [where fl = fl and q = s and t = t])
      case backpressure
      with Submit inv st show ?thesis by (auto simp: tq_inv_unfold split: lane.splits)
    next
      case (full name)
      with Submit inv st show ?thesis by (auto simp: tq_inv_unfold split: lane.splits)
    next
      case high
      with Submit inv st show ?thesis by (auto simp: tq_inv_unfold split: lane.splits)
    next
      case normal
      with Submit inv st show ?thesis by (auto simp: tq_inv_unfold split: lane.splits)
    qed
  next
    case Fetch
    with inv st show ?thesis
      by (auto simp: tq_inv_unfold dequeue_def split: list.splits lane.splits)
  qed
  then show "tq_inv s'" "for_client l tak @ lane_contents s' l = lane_contents s l @ for_client l acc"
    "max_queue_size s' = max_queue_size s"
    by blast+
qed

interpretation tq: mailboxes tq_inv "tq_step fl" lane_contents for fl
  by unfold_locales (rule tq_step_effect; assumption)+

lemma tq_inv_new: "tq_inv (PriorityTriggerQueue_new n th)"
  by (simp add: tq_inv_unfold PriorityTriggerQueue_new_def QueueStatistics_default_def)

text \<open>
  Through any sequence of submissions and fetches, whatever the rounding, the triggers of
  each lane are fetched exactly as they were accepted, each once and in order; the queue never
  exceeds its size; a fetch returns a trigger of normal or low priority only if no trigger of high
  or critical priority waits, and nothing only if the queue is empty; and the counters account for
  every submission, modulo their 64 bits.
\<close>

lemma trigger_queue_serves_in_order:
  assumes "box_run (tq_step fl) calls (PriorityTriggerQueue_new n th) = (acc, tak, q)"
  shows "for_client l acc = for_client l tak @ lane_contents q l \<and> queue_len q \<le> n
     \<and> (case fst (dequeue q) of
          Some t \<Rightarrow> lane_of t = NormalLane \<longrightarrow> lane_contents q HighLane = []
        | None \<Rightarrow> queue_is_empty q)
     \<and> total_enqueued (get_statistics q) = total_processed (get_statistics q)
         + dropped_backpressure (get_statistics q) + dropped_queue_full (get_statistics q)
         + of_nat (high_priority_depth (get_statistics q) + normal_priority_depth (get_statistics q))"
proof -
  have run: "tq_inv q" "for_client l tak @ lane_contents q l = for_client l acc"
    using tq.run_conserves [OF tq_inv_new assms, of l]
    by (cases l; simp add: PriorityTriggerQueue_new_def lane_contents_def)+
  have "max_queue_size q = n"
    using tq.run_keeps [where f = max_queue_size, OF tq_step_effect(3) tq_inv_new assms]
    by (simp add: PriorityTriggerQueue_new_def)
  moreover have "case fst (dequeue q) of
          Some t \<Rightarrow> lane_of t = NormalLane \<longrightarrow> lane_contents q HighLane = []
        | None \<Rightarrow> queue_is_empty q"
    using run(1) by (auto simp: tq_inv_unfold dequeue_def queue_is_empty_def split: list.splits)
  ultimately show ?thesis
    using run by (auto simp: tq_inv_def get_statistics_def queue_len_def)
qed

text \<open>Two triggers, the more urgent one submitted last and fetched first.\<close>

definition sample :: "TriggerPriority \<Rightarrow> TriggerRequest" where
  "sample p = \<lparr>trigger_id = ''t'', target_collector = ''c'', analysis_type = BinaryHash, priority = p,
     target_pid = Some 1, target_path = None, correlation_id = ''k'', metadata = [], trigger_time = 0\<rparr>"

lemma trigger_queue_serves_in_order_example:
  "\<exists>q. box_run (tq_step id) [Submit (sample Normal), Submit (sample Critical), Submit (sample High), Fetch]
         (PriorityTriggerQueue_new 2 1) =
       ([(NormalLane, sample Normal), (HighLane, sample Critical)], [(HighLane, sample Critical)], q)
     \<and> lane_contents q NormalLane = [sample Normal] \<and> lane_contents q HighLane = []"
proof -
  let ?run = "box_run (tq_step id) [Submit (sample Normal), Submit (sample Critical), Submit (sample High), Fetch]
         (PriorityTriggerQueue_new 2 1)"
  have "fst ?run = [(NormalLane, sample Normal), (HighLane, sample Critical)]"
    "fst (snd ?run) = [(HighLane, sample Critical)]"
    by (simp_all add: sample_def PriorityTriggerQueue_new_def enqueue_def dequeue_def Let_def queue_len_def
        lane_of_def is_backpressure_active_def f32_to_usize_def)
  then obtain q where run: "?run =
      ([(NormalLane, sample Normal), (HighLane, sample Critical)], [(HighLane, sample Critical)], q)"
    by (metis prod.collapse)
  with trigger_queue_serves_in_order [OF run, of NormalLane] trigger_queue_serves_in_order [OF run, of HighLane]
  show ?thesis by simp
qed

end
