(* ===== verification/Audit_Ledger.thy ===== *)
theory Audit_Ledger
  imports Prelude
begin

text \<open>
  The audit ledger, \<^verbatim>\<open>daemoneye-lib/src/crypto.rs\<close>: entries chained by their hashes, the
  canonical hash input of an entry in its current and its legacy format, and the verification of
  a ledger.

  The crates \<open>blake3\<close> and \<open>chrono\<close> are parameters, the fields of \<open>ledger_env\<close>: the hash of a byte
  string in hexadecimal, and the two renderings of a timestamp \<open>'ts\<close>. No property assumes that the
  hash is injective; a collision that an attacker exhibits appears in the conclusion.
\<close>

section \<open>Data\<close>

datatype CryptoError = Hash string | Signature string | Key string

record 'ts ledger_env =
  blake3_hex :: "bytes \<Rightarrow> string"
  to_rfc3339 :: "'ts \<Rightarrow> string"
  epoch_seconds :: "'ts \<Rightarrow> int"

record 'ts AuditEntry =
  sequence :: u64
  timestamp :: 'ts
  actor :: string
  action :: string
  payload_hash :: string
  previous_hash :: "string option"
  entry_hash :: string

record 'ts AuditLedger =
  entries :: "'ts AuditEntry list"
  tree_size :: u64

definition HASH_VERSION :: nat where
  "HASH_VERSION = 2"

section \<open>Hashing\<close>

definition as_bytes :: "string \<Rightarrow> bytes" where
  "as_bytes s = map (\<lambda>c. word_of_nat (of_char c)) s"

definition Blake3_hash :: "'ts ledger_env \<Rightarrow> bytes \<Rightarrow> string" where
  "Blake3_hash env dat = blake3_hex env dat"

definition Blake3_hash_string :: "'ts ledger_env \<Rightarrow> string \<Rightarrow> string" where
  "Blake3_hash_string env s = Blake3_hash env (as_bytes s)"

definition show_int :: "int \<Rightarrow> string" where
  "show_int i = (if i < 0 then CHR ''-'' # show_nat (nat (- i)) else show_nat (nat i))"

definition encode_field :: "string \<Rightarrow> string" where
  "encode_field field = show_nat (length field) @ '':'' @ field"

definition unwrap_or_empty :: "string option \<Rightarrow> string" where
  "unwrap_or_empty h = (case h of None \<Rightarrow> [] | Some s \<Rightarrow> s)"

definition compute_entry_hash_input ::
    "'ts ledger_env \<Rightarrow> u64 \<Rightarrow> 'ts \<Rightarrow> string \<Rightarrow> string \<Rightarrow> string \<Rightarrow> string option \<Rightarrow> string" where
  "compute_entry_hash_input env sq ts act actn ph prev =
     ''v'' @ show_nat HASH_VERSION @ '':'' @ show_nat (unat sq) @ '':''
     @ encode_field (to_rfc3339 env ts) @ encode_field act @ encode_field actn
     @ encode_field ph @ encode_field (unwrap_or_empty prev)"

definition compute_entry_hash_input_v1 ::
    "'ts ledger_env \<Rightarrow> u64 \<Rightarrow> 'ts \<Rightarrow> string \<Rightarrow> string \<Rightarrow> string \<Rightarrow> string option \<Rightarrow> string" where
  "compute_entry_hash_input_v1 env sq ts act actn ph prev =
     show_nat (unat sq) @ '':'' @ show_int (epoch_seconds env ts) @ '':'' @ act @ '':'' @ actn @ '':''
     @ ph @ '':'' @ unwrap_or_empty prev"

definition AuditEntry_new ::
    "'ts ledger_env \<Rightarrow> 'ts \<Rightarrow> u64 \<Rightarrow> string \<Rightarrow> string \<Rightarrow> bytes \<Rightarrow> string option \<Rightarrow> 'ts AuditEntry" where
  "AuditEntry_new env now sq act actn payload prev =
     (let ph = Blake3_hash env payload;
          entry_data = compute_entry_hash_input env sq now act actn ph prev in
      \<lparr>sequence = sq, timestamp = now, actor = act, action = actn, payload_hash = ph,
       previous_hash = prev, entry_hash = Blake3_hash_string env entry_data\<rparr>)"

section \<open>The ledger\<close>

definition AuditLedger_new :: "'ts AuditLedger" where
  "AuditLedger_new = \<lparr>entries = [], tree_size = 0\<rparr>"

definition get_latest_hash :: "'ts AuditLedger \<Rightarrow> string option" where
  "get_latest_hash l = (if entries l = [] then None else Some (entry_hash (last (entries l))))"

definition add_entry ::
    "'ts ledger_env \<Rightarrow> 'ts \<Rightarrow> string \<Rightarrow> string \<Rightarrow> bytes \<Rightarrow> 'ts AuditLedger \<Rightarrow> 'ts AuditEntry \<times> 'ts AuditLedger" where
  "add_entry env now act actn payload l =
     (let prev = (if entries l = [] then None else Some (entry_hash (last (entries l))));
          e = AuditEntry_new env now (tree_size l) act actn payload prev in
      (e, l\<lparr>entries := entries l @ [e], tree_size := sat_add (tree_size l) 1\<rparr>))"

definition generate_inclusion_proof :: "nat \<Rightarrow> string list" where
  "generate_inclusion_proof index = []"

definition hash_v2 :: "'ts ledger_env \<Rightarrow> 'ts AuditEntry \<Rightarrow> string" where
  "hash_v2 env e = Blake3_hash_string env (compute_entry_hash_input env (sequence e) (timestamp e)
     (actor e) (action e) (payload_hash e) (previous_hash e))"

definition hash_v1 :: "'ts ledger_env \<Rightarrow> 'ts AuditEntry \<Rightarrow> string" where
  "hash_v1 env e = Blake3_hash_string env (compute_entry_hash_input_v1 env (sequence e) (timestamp e)
     (actor e) (action e) (payload_hash e) (previous_hash e))"

text \<open>The loop from index \<open>i\<close> on, over the entries from there.\<close>

fun verify_from ::
    "'ts ledger_env \<Rightarrow> 'ts AuditEntry list \<Rightarrow> nat \<Rightarrow> 'ts AuditEntry list \<Rightarrow> (unit, CryptoError) result" where
  "verify_from env all i [] = Ok ()"
| "verify_from env all i (e # es) =
     (if entry_hash e \<noteq> hash_v2 env e \<and> entry_hash e \<noteq> hash_v1 env e
      then Err (Hash (''Hash mismatch at entry '' @ show_nat i))
      else if 0 < i
      then if length all \<le> i - 1 then Err (Hash ''Missing previous entry'')
           else if previous_hash e \<noteq> Some (entry_hash (all ! (i - 1)))
           then Err (Hash (''Chain discontinuity at entry '' @ show_nat i))
           else verify_from env all (Suc i) es
      else verify_from env all (Suc i) es)"

definition verify_integrity :: "'ts ledger_env \<Rightarrow> 'ts AuditLedger \<Rightarrow> (unit, CryptoError) result" where
  "verify_integrity env l = verify_from env (entries l) 0 (entries l)"

section \<open>Fields are self-delimiting\<close>

definition decode_field :: "string \<Rightarrow> (string \<times> string) option" where
  "decode_field s =
     (case read_digits 0 (takeWhile (\<lambda>c. c \<noteq> CHR '':'') s) of
        None \<Rightarrow> None
      | Some n \<Rightarrow> let rest = drop 1 (dropWhile (\<lambda>c. c \<noteq> CHR '':'') s) in Some (take n rest, drop n rest))"

lemma show_nat_digits: "c \<in> set (show_nat n) \<Longrightarrow> char_digit c \<noteq> None"
proof (induction n rule: show_nat.induct)
  case (1 n)
  from "1.prems" have "c \<in> set (if n < 10 then [digit_char n] else show_nat (n div 10) @ [digit_char (n mod 10)])"
    by (subst (asm) show_nat.simps)
  with "1.IH" show ?case
    by (auto split: if_splits)
qed

lemma show_nat_no_colon: "CHR '':'' \<notin> set (show_nat n)"
  using show_nat_digits [of "CHR '':''" n] by (auto simp: char_digit_def)

lemma takeWhile_colon: "takeWhile (\<lambda>c. c \<noteq> CHR '':'') (show_nat n @ CHR '':'' # s) = show_nat n"
  and dropWhile_colon: "dropWhile (\<lambda>c. c \<noteq> CHR '':'') (show_nat n @ CHR '':'' # s) = CHR '':'' # s"
  using show_nat_no_colon [of n]
  by (auto simp: takeWhile_append2 dropWhile_append2 takeWhile_append dropWhile_append)

interpretation field: framing "\<lambda>_. True" encode_field decode_field
  by unfold_locales
    (simp add: encode_field_def decode_field_def takeWhile_colon dropWhile_colon read_show_nat)

lemma number_colon_inj: "show_nat a @ CHR '':'' # s = show_nat b @ CHR '':'' # t \<longleftrightarrow> a = b \<and> s = t"
  by (metis append_Cons append_eq_append_conv list.inject show_nat_inj takeWhile_colon)

lemma hash_input_fields:
  assumes "compute_entry_hash_input env sq ts act actn ph prev =
    compute_entry_hash_input env sq' ts' act' actn' ph' prev'"
  shows "sq = sq' \<and> to_rfc3339 env ts = to_rfc3339 env ts' \<and> act = act' \<and> actn = actn' \<and> ph = ph'
     \<and> unwrap_or_empty prev = unwrap_or_empty prev'"
proof -
  let ?fs = "[to_rfc3339 env ts, act, actn, ph, unwrap_or_empty prev]"
  let ?fs' = "[to_rfc3339 env ts', act', actn', ph', unwrap_or_empty prev']"
  have "unat sq = unat sq' \<and> concat (map encode_field ?fs) = concat (map encode_field ?fs')"
    using assms by (simp add: compute_entry_hash_input_def number_colon_inj)
  moreover from this have "?fs = ?fs'"
    using field.frames_inj [of ?fs ?fs'] by simp
  ultimately show ?thesis by (simp add: word_unat_eq_iff)
qed

text \<open>
  The hash input of an entry determines every field that is hashed, whatever characters
  actors and actions contain: equal inputs come from equal sequence numbers, timestamps (to the
  precision of their rendering), actors, actions, payload hashes and predecessors.
\<close>

lemma hash_input_injective:
  assumes "compute_entry_hash_input env sq ts act actn ph prev =
    compute_entry_hash_input env sq' ts' act' actn' ph' prev'"
  shows "sq = sq' \<and> to_rfc3339 env ts = to_rfc3339 env ts' \<and> act = act' \<and> actn = actn' \<and> ph = ph'
     \<and> unwrap_or_empty prev = unwrap_or_empty prev'"
  using assms by (rule hash_input_fields)

section \<open>A ledger verifies what it recorded\<close>

definition entry_ok :: "'ts ledger_env \<Rightarrow> 'ts AuditEntry \<Rightarrow> bool" where
  "entry_ok env e \<longleftrightarrow> entry_hash e = hash_v2 env e \<or> entry_hash e = hash_v1 env e"

fun chained :: "'ts AuditEntry list \<Rightarrow> bool" where
  "chained (a # b # r) = (previous_hash b = Some (entry_hash a) \<and> chained (b # r))"
| "chained _ = True"

lemma verify_from_iff:
  "verify_from env (pre @ es) (length pre) es = Ok () \<longleftrightarrow>
     (\<forall>e \<in> set es. entry_ok env e) \<and> chained (if pre = [] then es else last pre # es)"
proof (induction es arbitrary: pre)
  case Nil
  then show ?case by simp
next
  case (Cons e es)
  have IH: "verify_from env (pre @ e # es) (Suc (length pre)) es = Ok () \<longleftrightarrow>
     (\<forall>x \<in> set es. entry_ok env x) \<and> chained (e # es)"
    using Cons.IH [of "pre @ [e]"] by simp
  show ?case
  proof (cases "pre = []")
    case True
    with IH show ?thesis by (auto simp: entry_ok_def)
  next
    case False
    then have "(pre @ e # es) ! (length pre - 1) = last pre"
      by (simp add: nth_append last_conv_nth)
    with IH False show ?thesis by (auto simp: entry_ok_def)
  qed
qed

lemma verify_iff:
  "verify_integrity env l = Ok () \<longleftrightarrow> (\<forall>e \<in> set (entries l). entry_ok env e) \<and> chained (entries l)"
  using verify_from_iff [of env "[]" "entries l"] by (simp add: verify_integrity_def)

lemma chained_snoc:
  "chained (es @ [e]) \<longleftrightarrow> chained es \<and> (es = [] \<or> previous_hash e = Some (entry_hash (last es)))"
  by (induction es rule: chained.induct) auto

lemma chained_tl: "chained es \<Longrightarrow> chained (tl es)"
  by (cases es rule: chained.cases) auto

lemma chained_drop: "chained es \<Longrightarrow> chained (drop k es)"
  by (induction k) (auto simp: drop_Suc chained_tl tl_drop [symmetric] simp del: drop_Suc_Cons)

text \<open>A request to the ledger: time, actor, action and payload.\<close>

type_synonym 'ts audit_request = "'ts \<times> string \<times> string \<times> bytes"

definition record_all :: "'ts ledger_env \<Rightarrow> 'ts audit_request list \<Rightarrow> 'ts AuditLedger" where
  "record_all env rs = fold (\<lambda>(now, act, actn, payload) l. snd (add_entry env now act actn payload l)) rs AuditLedger_new"

lemma add_entry_ok:
  "verify_integrity env l = Ok () \<Longrightarrow> verify_integrity env (snd (add_entry env now act actn payload l)) = Ok ()"
  by (auto simp: verify_iff add_entry_def Let_def chained_snoc entry_ok_def AuditEntry_new_def hash_v2_def)

text \<open>
  A ledger that was only written through \<open>add_entry\<close> passes its own verification, has one
  entry per call in the order of the calls with the recorded actor and action, and numbers its
  entries from 0.
\<close>

lemma recorded_ledger_verifies:
  assumes "length rs < 2 ^ 64"
  shows "verify_integrity env (record_all env rs) = Ok ()
     \<and> map (\<lambda>e. (timestamp e, actor e, action e, payload_hash e)) (entries (record_all env rs)) =
         map (\<lambda>(now, act, actn, payload). (now, act, actn, Blake3_hash env payload)) rs
     \<and> map (unat \<circ> sequence) (entries (record_all env rs)) = [0..<length rs]"
proof -
  have "verify_integrity env (record_all env rs) = Ok ()
     \<and> map (\<lambda>e. (timestamp e, actor e, action e, payload_hash e)) (entries (record_all env rs)) =
         map (\<lambda>(now, act, actn, payload). (now, act, actn, Blake3_hash env payload)) rs
     \<and> map (unat \<circ> sequence) (entries (record_all env rs)) = [0..<length rs]
     \<and> unat (tree_size (record_all env rs)) = length rs"
    using assms
  proof (induction rs rule: rev_induct)
    case Nil
    then show ?case
      by (simp add: record_all_def AuditLedger_new_def verify_iff)
  next
    case (snoc r rs)
    obtain now act actn payload where r: "r = (now, act, actn, payload)" by (cases r) auto
    let ?l = "record_all env rs"
    have step: "record_all env (rs @ [r]) = snd (add_entry env now act actn payload ?l)"
      by (simp add: record_all_def r)
    have IH: "verify_integrity env ?l = Ok ()" "unat (tree_size ?l) = length rs"
      using snoc by simp_all
    have "unat (sat_add (tree_size ?l) 1) = Suc (length rs)"
      using IH(2) snoc.prems by (simp add: unat_sat_add)
    with snoc add_entry_ok [OF IH(1)] show ?case
      unfolding step by (simp add: r add_entry_def AuditEntry_new_def Let_def)
  qed
  then show ?thesis by blast
qed

section \<open>Tampering\<close>

text \<open>What is hashed of an entry, in the current format and in the legacy one.\<close>

definition input_v2 :: "'ts ledger_env \<Rightarrow> 'ts AuditEntry \<Rightarrow> string" where
  "input_v2 env e = compute_entry_hash_input env (sequence e) (timestamp e) (actor e) (action e)
     (payload_hash e) (previous_hash e)"

definition input_v1 :: "'ts ledger_env \<Rightarrow> 'ts AuditEntry \<Rightarrow> string" where
  "input_v1 env e = compute_entry_hash_input_v1 env (sequence e) (timestamp e) (actor e) (action e)
     (payload_hash e) (previous_hash e)"

text \<open>
  Two entries exhibit a collision if the input of the first in the current format and an input of the
  second are different strings with the same hash.
\<close>

definition collide :: "'ts ledger_env \<Rightarrow> 'ts AuditEntry \<Rightarrow> 'ts AuditEntry \<Rightarrow> bool" where
  "collide env e e' \<longleftrightarrow>
     list_ex (\<lambda>y. y \<noteq> input_v2 env e \<and> Blake3_hash_string env y = Blake3_hash_string env (input_v2 env e))
       [input_v2 env e', input_v1 env e']"

text \<open>Two entries of one hash record the same, if the hash is of the current format.\<close>

definition same_record :: "'ts ledger_env \<Rightarrow> 'ts AuditEntry \<Rightarrow> 'ts AuditEntry \<Rightarrow> bool" where
  "same_record env e e' \<longleftrightarrow> entry_hash e = entry_hash e'
     \<and> (entry_hash e = hash_v2 env e \<longrightarrow>
          sequence e = sequence e' \<and> to_rfc3339 env (timestamp e) = to_rfc3339 env (timestamp e')
          \<and> actor e = actor e' \<and> action e = action e' \<and> payload_hash e = payload_hash e'
          \<and> unwrap_or_empty (previous_hash e) = unwrap_or_empty (previous_hash e'))"

lemma char_byte_inj: "(word_of_nat (of_char c) :: u8) = word_of_nat (of_char d) \<longleftrightarrow> c = d"
proof
  assume eq: "(word_of_nat (of_char c) :: u8) = word_of_nat (of_char d)"
  have char: "char_of (unat (word_of_nat (of_char x) :: u8)) = x" for x
    by (simp add: unat_of_nat)
  from arg_cong [OF eq, of "\<lambda>w. char_of (unat w)"] show "c = d"
    by (simp only: char)
qed simp

lemma as_bytes_inj: "as_bytes s = as_bytes t \<longleftrightarrow> s = t"
proof -
  have "inj (\<lambda>c. word_of_nat (of_char c) :: u8)"
    by (rule injI) (simp add: char_byte_inj)
  then show ?thesis
    by (simp add: as_bytes_def inj_map_eq_map)
qed

text \<open>The two formats never share an input: one starts with a letter, the other with a digit.\<close>

lemma v1_v2_differ:
  "compute_entry_hash_input env sq ts act actn ph prev \<noteq> compute_entry_hash_input_v1 env sq' ts' act' actn' ph' prev'"
proof
  assume eq: "compute_entry_hash_input env sq ts act actn ph prev = compute_entry_hash_input_v1 env sq' ts' act' actn' ph' prev'"
  obtain c cs where c: "show_nat (unat sq') = c # cs"
    by (cases "show_nat (unat sq')") auto
  then have "char_digit c \<noteq> None"
    using show_nat_digits [of c "unat sq'"] by simp
  moreover have "c = CHR ''v''"
    using eq c by (simp add: compute_entry_hash_input_def compute_entry_hash_input_v1_def)
  ultimately show False by (simp add: char_digit_def)
qed

lemma same_hash_same_record:
  assumes "entry_ok env e'" "entry_hash e = entry_hash e'" "entry_hash e = hash_v2 env e" "\<not> collide env e e'"
  shows "same_record env e e'"
proof -
  have "hash_v2 env e = Blake3_hash_string env (input_v2 env e)" for e
    by (simp add: hash_v2_def input_v2_def)
  moreover have "hash_v1 env e = Blake3_hash_string env (input_v1 env e)" for e
    by (simp add: hash_v1_def input_v1_def)
  ultimately have "input_v2 env e' = input_v2 env e \<or> input_v1 env e' = input_v2 env e"
    using assms by (auto simp: entry_ok_def collide_def)
  then have "input_v2 env e' = input_v2 env e"
    unfolding input_v1_def input_v2_def by (metis v1_v2_differ)
  from hash_input_fields [OF this [symmetric, unfolded input_v2_def]] assms(2) show ?thesis
    by (simp add: same_record_def)
qed

text \<open>
  Equal last hashes propagate to the front through the chain, up to the first pair of entries that
  exhibits a collision.
\<close>

lemma chains_agree:
  assumes "length es = length es'" "es \<noteq> []"
    and "\<forall>e \<in> set es. entry_hash e = hash_v2 env e" "\<forall>e \<in> set es'. entry_ok env e"
    and "chained es" "chained es'" "entry_hash (last es) = entry_hash (last es')"
    and "list_all (\<lambda>(e, e'). \<not> collide env e e') (zip es es')"
  shows "list_all2 (same_record env) es es'"
  using assms
proof (induction es arbitrary: es' rule: rev_induct)
  case Nil
  then show ?case by simp
next
  case (snoc e es)
  then obtain es0 e' where es': "es' = es0 @ [e']" "length es = length es0"
    by (cases es' rule: rev_cases) auto
  have rec: "same_record env e e'"
    using snoc.prems es'(2) by (intro same_hash_same_record) (simp_all add: es')
  have rest: "list_all2 (same_record env) es es0"
  proof (cases "es = []")
    case True
    then show ?thesis using es'(2) by simp
  next
    case False
    then have ne: "es0 \<noteq> []" using es'(2) by auto
    have prev: "previous_hash e = Some (entry_hash (last es))" "previous_hash e' = Some (entry_hash (last es0))"
      using snoc.prems False ne by (auto simp: es' chained_snoc)
    have "entry_hash e = hash_v2 env e"
      using snoc.prems(3) by simp
    then have "entry_hash (last es) = entry_hash (last es0)"
      using rec prev by (simp add: same_record_def unwrap_or_empty_def)
    then show ?thesis
      using snoc.IH [of es0] snoc.prems False es' by (simp add: chained_snoc)
  qed
  show ?case
    using rec rest es' by (simp add: list_all2_appendI)
qed

text \<open>
  Claim C25: the chain is tamper-evident. If somebody presents a ledger of the same length that also
  passes verification and ends in the same hash as a recorded one, then it agrees with it in every
  hashed field of every entry, or the two ledgers exhibit a BLAKE3 collision: at some position the
  hashed text of the recorded entry and that of the presented one are different and have the same hash.
\<close>

theorem ledger_tamper_evident:
  assumes "verify_integrity env forged = Ok ()"
    and "length (entries forged) = length (entries (record_all env rs))"
    and "get_latest_hash forged = get_latest_hash (record_all env rs)"
  shows "list_all2 (same_record env) (entries (record_all env rs)) (entries forged)
     \<or> list_ex (\<lambda>(e, e'). collide env e e') (zip (entries (record_all env rs)) (entries forged))"
proof (cases "rs = []")
  case True
  then show ?thesis
    using assms(2) by (auto simp: record_all_def AuditLedger_new_def)
next
  case False
  let ?l = "record_all env rs"
  have len: "length (entries ?l) = length rs"
    by (induction rs rule: rev_induct)
      (auto simp: record_all_def AuditLedger_new_def add_entry_def Let_def)
  have v2: "\<forall>e \<in> set (entries ?l). entry_hash e = hash_v2 env e" and ch: "chained (entries ?l)"
    by (induction rs rule: rev_induct)
      (auto simp: record_all_def AuditLedger_new_def add_entry_def Let_def AuditEntry_new_def
        hash_v2_def chained_snoc)
  have ne: "entries ?l \<noteq> []" "entries forged \<noteq> []"
    using False len assms(2) by auto
  then have "entry_hash (last (entries ?l)) = entry_hash (last (entries forged))"
    using assms(3) by (simp add: get_latest_hash_def)
  then have "list_all2 (same_record env) (entries ?l) (entries forged)"
    if "list_all (\<lambda>(e, e'). \<not> collide env e e') (zip (entries ?l) (entries forged))"
    using assms(1,2) v2 ch ne(1) that by (intro chains_agree) (simp_all add: verify_iff)
  then show ?thesis
    by (auto simp: list_all_iff list_ex_iff)
qed

text \<open>
  The verification checks neither the sequence numbers nor that the first entry has no
  predecessor: a ledger from which the oldest entries were removed still passes.
\<close>

lemma removed_prefix_undetected:
  assumes "verify_integrity env l = Ok ()"
  shows "verify_integrity env (l\<lparr>entries := drop k (entries l)\<rparr>) = Ok ()"
  using assms chained_drop [of "entries l" k] in_set_dropD [of _ k "entries l"] by (auto simp: verify_iff)

section \<open>Examples\<close>

text \<open>Numbers as timestamps, and the bytes themselves in place of their hash.\<close>

definition plain_env :: "nat ledger_env" where
  "plain_env = \<lparr>blake3_hex = map (\<lambda>b. char_of (unat b)), to_rfc3339 = show_nat, epoch_seconds = int\<rparr>"

text \<open>
  A weak hash of 64 characters, the sum of the bytes: the letters of an actor can be reordered and
  the hash stays the same.
\<close>

definition sum_env :: "nat ledger_env" where
  "sum_env = \<lparr>blake3_hex = (\<lambda>bs. pad_left 64 CHR ''0'' (show_nat (sum_list (map unat bs) mod 10 ^ 6))),
     to_rfc3339 = show_nat, epoch_seconds = int\<rparr>"

definition reordered :: "nat AuditLedger \<Rightarrow> nat AuditLedger" where
  "reordered l = l\<lparr>entries := map (\<lambda>e. e\<lparr>actor := rev (actor e)\<rparr>) (entries l)\<rparr>"

lemma hash_input_injective_example:
  "compute_entry_hash_input plain_env 1 5 ''a:b'' ''c'' ''h'' None = compute_entry_hash_input plain_env 1 5 ''a:b'' ''c'' ''h'' (Some [])
   \<and> unwrap_or_empty None = unwrap_or_empty (Some [])"
proof -
  have eq: "compute_entry_hash_input plain_env 1 5 ''a:b'' ''c'' ''h'' None =
      compute_entry_hash_input plain_env 1 5 ''a:b'' ''c'' ''h'' (Some [])"
    by (simp add: compute_entry_hash_input_def unwrap_or_empty_def)
  from eq hash_input_injective [OF eq] show ?thesis by blast
qed

lemma recorded_ledger_verifies_example:
  "verify_integrity plain_env (record_all plain_env [(5, ''root'', ''login'', [1]), (6, ''root'', ''exit'', [])]) = Ok ()
   \<and> map (unat \<circ> sequence) (entries (record_all plain_env [(5, ''root'', ''login'', [1]), (6, ''root'', ''exit'', [])])) = [0, 1]"
  using recorded_ledger_verifies [of "[(5, ''root'', ''login'', [1]), (6, ''root'', ''exit'', [])]" plain_env]
  by (simp add: upt_rec)

lemma sum_hash_reordered:
  "Blake3_hash_string sum_env (xs @ rev s @ ys) = Blake3_hash_string sum_env (xs @ s @ ys)"
  by (simp add: Blake3_hash_string_def Blake3_hash_def sum_env_def as_bytes_def rev_map [symmetric])

theorem ledger_tamper_evident_witness:
  "let l = record_all sum_env [(5, ''root'', ''login'', [1])] in
     \<not> list_all2 (same_record sum_env) (entries l) (entries (reordered l))
     \<and> list_ex (\<lambda>(e, e'). collide sum_env e e') (zip (entries l) (entries (reordered l)))"
proof -
  let ?l = "record_all sum_env [(5, ''root'', ''login'', [1])]"
  define e where "e = AuditEntry_new sum_env 5 0 ''root'' ''login'' [1] None"
  have l: "entries ?l = [e]" "entries (reordered ?l) = [e\<lparr>actor := ''toor''\<rparr>]"
    by (simp_all add: e_def record_all_def add_entry_def AuditLedger_new_def reordered_def AuditEntry_new_def Let_def)
  have fields: "actor e = ''root''" "entry_hash e = hash_v2 sum_env e"
    by (simp_all add: e_def AuditEntry_new_def hash_v2_def Let_def)
  have "hash_v2 sum_env (e\<lparr>actor := ''toor''\<rparr>) = hash_v2 sum_env e"
    using sum_hash_reordered [of "''v'' @ show_nat HASH_VERSION @ '':'' @ show_nat (unat (sequence e)) @ '':''
        @ encode_field (to_rfc3339 sum_env (timestamp e)) @ show_nat (length ''root'') @ '':''" "''root''"
      "encode_field (action e) @ encode_field (payload_hash e) @ encode_field (unwrap_or_empty (previous_hash e))"]
    by (simp add: hash_v2_def compute_entry_hash_input_def encode_field_def [of "''root''"] encode_field_def [of "''toor''"] fields)
  then have "verify_integrity sum_env (reordered ?l) = Ok ()"
    using fields by (simp add: verify_iff l entry_ok_def)
  moreover have "length (entries (reordered ?l)) = length (entries ?l)" "get_latest_hash (reordered ?l) = get_latest_hash ?l"
    by (simp_all add: l get_latest_hash_def)
  moreover have "\<not> list_all2 (same_record sum_env) (entries ?l) (entries (reordered ?l))"
    using fields by (simp add: l same_record_def)
  ultimately show ?thesis
    using ledger_tamper_evident [of sum_env "reordered ?l"] unfolding Let_def by blast
qed

lemma removed_prefix_undetected_example:
  "\<exists>l. map actor (entries l) = [''b''] \<and> map sequence (entries l) = [1] \<and> verify_integrity plain_env l = Ok ()"
proof -
  let ?l = "record_all plain_env [(5, ''a'', ''x'', []), (6, ''b'', ''y'', [])]"
  have "verify_integrity plain_env ?l = Ok ()"
    unfolding record_all_def by (simp add: add_entry_ok verify_iff AuditLedger_new_def)
  from removed_prefix_undetected [OF this, of 1] show ?thesis
    by (intro exI [of _ "?l\<lparr>entries := drop 1 (entries ?l)\<rparr>"])
      (simp add: record_all_def add_entry_def AuditLedger_new_def AuditEntry_new_def Let_def sat_add_def)
qed

end
