(* ===== verification/Agent_State.thy ===== *)
theory Agent_State
  imports Prelude
begin

text \<open>
  The start-up state machine of the agent, \<^verbatim>\<open>daemoneye-agent/src/broker_manager/state.rs\<close> and
  \<^verbatim>\<open>state_machine.rs\<close>: the readiness tracker, the transitions with their guards, and the wait for
  the collectors.

  The broker is a parameter: whether it is there and how a publication ends. The transition to
  the steady state releases the lock while it broadcasts, so it is given as a begin and an end
  step; \<open>transition_to_steady_state\<close> is their composition. Time in the wait loop is given by the
  elapsed time and the manager seen at each poll; the code takes the locks of a poll one after the other, so
  it may see a report in one place before it sees it in another. Messages of errors are constructors.
\<close>

section \<open>Readiness\<close>

record CollectorReadinessTracker =
  expected_collectors :: "string list"
  ready_collectors :: "string list"

definition tracker_empty :: CollectorReadinessTracker where
  "tracker_empty = \<lparr>expected_collectors = [], ready_collectors = []\<rparr>"

definition tracker_new :: "string list \<Rightarrow> CollectorReadinessTracker" where
  "tracker_new expected = \<lparr>expected_collectors = expected, ready_collectors = []\<rparr>"

definition mark_ready :: "string \<Rightarrow> CollectorReadinessTracker \<Rightarrow> CollectorReadinessTracker" where
  "mark_ready collector_id t =
     (if collector_id \<in> set (expected_collectors t)
      then t\<lparr>ready_collectors := List.insert collector_id (ready_collectors t)\<rparr> else t)"

definition all_ready :: "CollectorReadinessTracker \<Rightarrow> bool" where
  "all_ready t =
     (if expected_collectors t = [] then True
      else list_all (\<lambda>i. i \<in> set (ready_collectors t)) (expected_collectors t))"

definition tracker_pending :: "CollectorReadinessTracker \<Rightarrow> string list" where
  "tracker_pending t = filter (\<lambda>i. i \<notin> set (ready_collectors t)) (expected_collectors t)"

definition expected_count :: "CollectorReadinessTracker \<Rightarrow> nat" where
  "expected_count t = length (expected_collectors t)"

definition ready_count :: "CollectorReadinessTracker \<Rightarrow> nat" where
  "ready_count t = length (ready_collectors t)"

definition set_expected :: "string list \<Rightarrow> CollectorReadinessTracker \<Rightarrow> CollectorReadinessTracker" where
  "set_expected expected t = t\<lparr>expected_collectors := expected\<rparr>"

definition tracker_reset :: "CollectorReadinessTracker \<Rightarrow> CollectorReadinessTracker" where
  "tracker_reset t = t\<lparr>ready_collectors := []\<rparr>"

section \<open>The manager\<close>

datatype AgentState = Loading | Ready | SteadyState | StartupFailed string | ShuttingDown

definition accepts_registrations :: "AgentState \<Rightarrow> bool" where
  "accepts_registrations s = (case s of Loading \<Rightarrow> True | Ready \<Rightarrow> True | SteadyState \<Rightarrow> True | _ \<Rightarrow> False)"

definition is_running :: "AgentState \<Rightarrow> bool" where
  "is_running s = (case s of Loading \<Rightarrow> True | Ready \<Rightarrow> True | SteadyState \<Rightarrow> True | _ \<Rightarrow> False)"

definition is_failed :: "AgentState \<Rightarrow> bool" where
  "is_failed s = (case s of StartupFailed _ \<Rightarrow> True | _ \<Rightarrow> False)"

record CollectorEntry =
  collector_id :: string
  enabled :: bool
  startup_timeout_secs :: u64

type_synonym CollectorsConfig = "CollectorEntry list"

record BrokerManager =
  agent_state :: AgentState
  readiness_tracker :: CollectorReadinessTracker
  collectors_config :: CollectorsConfig

datatype agent_error =
    CollectorsPending "string list"
  | StartupHasFailed string
  | AgentShuttingDown
  | NotReadyYet
  | BrokerNotAvailable
  | PublishFailed string

definition set_collectors_config :: "CollectorsConfig \<Rightarrow> BrokerManager \<Rightarrow> BrokerManager" where
  "set_collectors_config config m =
     (let expected = remdups (map collector_id (filter enabled config)) in
      m\<lparr>readiness_tracker := set_expected expected (readiness_tracker m), collectors_config := config\<rparr>)"

definition mark_collector_ready :: "string \<Rightarrow> BrokerManager \<Rightarrow> bool \<times> BrokerManager" where
  "mark_collector_ready c m =
     (let t = mark_ready c (readiness_tracker m) in (all_ready t, m\<lparr>readiness_tracker := t\<rparr>))"

definition pending_collectors :: "BrokerManager \<Rightarrow> string list" where
  "pending_collectors m = tracker_pending (readiness_tracker m)"

definition all_collectors_ready :: "BrokerManager \<Rightarrow> bool" where
  "all_collectors_ready m = all_ready (readiness_tracker m)"

definition transition_to_ready :: "BrokerManager \<Rightarrow> (unit, agent_error) result \<times> BrokerManager" where
  "transition_to_ready m =
     (case agent_state m of
        Loading \<Rightarrow>
          if \<not> all_ready (readiness_tracker m)
          then (Err (CollectorsPending (tracker_pending (readiness_tracker m))), m)
          else (Ok (), m\<lparr>agent_state := Ready\<rparr>)
      | Ready \<Rightarrow> (Ok (), m)
      | SteadyState \<Rightarrow> (Ok (), m)
      | StartupFailed reason \<Rightarrow> (Err (StartupHasFailed reason), m)
      | ShuttingDown \<Rightarrow> (Err AgentShuttingDown, m))"

text \<open>The broker: absent, or present with the outcome of the publication.\<close>

definition broadcast_begin_monitoring :: "(unit, string) result option \<Rightarrow> (unit, agent_error) result" where
  "broadcast_begin_monitoring broker =
     (case broker of
        None \<Rightarrow> Err BrokerNotAvailable
      | Some (Ok _) \<Rightarrow> Ok ()
      | Some (Err e) \<Rightarrow> Err (PublishFailed e))"

datatype steady_start = Finished "(unit, agent_error) result" | Broadcasting

definition steady_begin :: "BrokerManager \<Rightarrow> steady_start \<times> BrokerManager" where
  "steady_begin m =
     (case agent_state m of
        Ready \<Rightarrow> (Broadcasting, m\<lparr>agent_state := SteadyState\<rparr>)
      | SteadyState \<Rightarrow> (Finished (Ok ()), m)
      | Loading \<Rightarrow> (Finished (Err NotReadyYet), m)
      | StartupFailed reason \<Rightarrow> (Finished (Err (StartupHasFailed reason)), m)
      | ShuttingDown \<Rightarrow> (Finished (Err AgentShuttingDown), m))"

definition steady_end :: "(unit, agent_error) result \<Rightarrow> BrokerManager \<Rightarrow> (unit, agent_error) result \<times> BrokerManager" where
  "steady_end res m =
     (case res of
        Ok _ \<Rightarrow> (Ok (), m)
      | Err e \<Rightarrow> (Err e, if agent_state m = SteadyState then m\<lparr>agent_state := Ready\<rparr> else m))"

definition transition_to_steady_state ::
    "(unit, string) result option \<Rightarrow> BrokerManager \<Rightarrow> (unit, agent_error) result \<times> BrokerManager" where
  "transition_to_steady_state broker m =
     (case steady_begin m of
        (Finished res, m') \<Rightarrow> (res, m')
      | (Broadcasting, m') \<Rightarrow> steady_end (broadcast_begin_monitoring broker) m')"

definition mark_startup_failed :: "string \<Rightarrow> BrokerManager \<Rightarrow> BrokerManager" where
  "mark_startup_failed reason m =
     (if agent_state m = Loading then m\<lparr>agent_state := StartupFailed reason\<rparr> else m)"

definition transition_to_shutting_down :: "BrokerManager \<Rightarrow> BrokerManager" where
  "transition_to_shutting_down m = m\<lparr>agent_state := ShuttingDown\<rparr>"

definition get_startup_timeout :: "BrokerManager \<Rightarrow> u64" where
  "get_startup_timeout m =
     (case map startup_timeout_secs (filter enabled (collectors_config m)) of
        [] \<Rightarrow> 60
      | t # ts \<Rightarrow> fold max ts t)"

section \<open>Waiting for the collectors\<close>

text \<open>
  The loop at poll \<open>k\<close>: \<open>seen k\<close>, \<open>at_pending k\<close> and \<open>at_mark k\<close> are the manager when readiness is
  checked, when the pending collectors are read and when the failure is marked, for which the source
  takes the locks one after the other; \<open>elapsed k\<close> is the time since the start at that poll. \<open>reason\<close>
  renders the message of the failure.
\<close>

partial_function (option) wait_loop ::
    "(nat \<Rightarrow> BrokerManager) \<Rightarrow> (nat \<Rightarrow> BrokerManager) \<Rightarrow> (nat \<Rightarrow> BrokerManager) \<Rightarrow> (nat \<Rightarrow> nat) \<Rightarrow> nat
       \<Rightarrow> (string list \<Rightarrow> string) \<Rightarrow> nat \<Rightarrow> (bool \<times> BrokerManager) option" where
  "wait_loop seen at_pending at_mark elapsed timeout reason k =
     (if all_collectors_ready (seen k) then Some (True, seen k)
      else if elapsed k \<ge> timeout
      then Some (False, mark_startup_failed (reason (pending_collectors (at_pending k))) (at_mark k))
      else wait_loop seen at_pending at_mark elapsed timeout reason (Suc k))"

definition wait_for_collectors_ready ::
    "(nat \<Rightarrow> BrokerManager) \<Rightarrow> (nat \<Rightarrow> BrokerManager) \<Rightarrow> (nat \<Rightarrow> BrokerManager) \<Rightarrow> (nat \<Rightarrow> nat) \<Rightarrow> nat
       \<Rightarrow> (string list \<Rightarrow> string) \<Rightarrow> (bool \<times> BrokerManager) option" where
  "wait_for_collectors_ready seen at_pending at_mark elapsed timeout reason =
     wait_loop seen at_pending at_mark elapsed timeout reason 0"

section \<open>Runs of the agent\<close>

text \<open>
  The calls different tasks make, in any order. \<open>in_flight\<close> counts broadcasts that have begun and not
  ended, \<open>delivered\<close> whether one has succeeded.
\<close>

datatype agent_action =
    Configure CollectorsConfig
  | CollectorReady string
  | ToReady
  | BeginSteady
  | EndSteady "(unit, string) result option"
  | FailStartup string
  | ShutDown

record agent =
  manager :: BrokerManager
  in_flight :: nat
  delivered :: bool

inductive agent_step :: "agent \<Rightarrow> agent_action \<Rightarrow> agent \<Rightarrow> bool" where
  configure: "agent_step a (Configure c) (a\<lparr>manager := set_collectors_config c (manager a)\<rparr>)"
| collector_ready: "agent_step a (CollectorReady i) (a\<lparr>manager := snd (mark_collector_ready i (manager a))\<rparr>)"
| to_ready: "agent_step a ToReady (a\<lparr>manager := snd (transition_to_ready (manager a))\<rparr>)"
| begin_steady: "steady_begin (manager a) = (Broadcasting, m) \<Longrightarrow>
    agent_step a BeginSteady (a\<lparr>manager := m, in_flight := Suc (in_flight a)\<rparr>)"
| refuse_steady: "steady_begin (manager a) = (Finished res, m) \<Longrightarrow>
    agent_step a BeginSteady (a\<lparr>manager := m\<rparr>)"
| end_steady: "in_flight a = Suc n \<Longrightarrow> broadcast_begin_monitoring broker = res \<Longrightarrow>
    agent_step a (EndSteady broker)
      (a\<lparr>manager := snd (steady_end res (manager a)), in_flight := n, delivered := delivered a \<or> is_ok res\<rparr>)"
| fail_startup: "agent_step a (FailStartup reason) (a\<lparr>manager := mark_startup_failed reason (manager a)\<rparr>)"
| shut_down: "agent_step a ShutDown (a\<lparr>manager := transition_to_shutting_down (manager a)\<rparr>)"

inductive_cases agent_stepE: "agent_step a act a'"

inductive agent_run :: "agent \<Rightarrow> agent_action list \<Rightarrow> agent \<Rightarrow> bool" where
  run_Nil: "agent_run a [] a"
| run_snoc: "agent_run a acts a' \<Longrightarrow> agent_step a' act a'' \<Longrightarrow> agent_run a (acts @ [act]) a''"

definition start :: "BrokerManager \<Rightarrow> agent" where
  "start m = \<lparr>manager = m, in_flight = 0, delivered = False\<rparr>"

lemmas agent_defs = transition_to_ready_def steady_begin_def steady_end_def mark_startup_failed_def
  transition_to_shutting_down_def mark_collector_ready_def set_collectors_config_def Let_def

lemma all_ready_iff: "all_ready t \<longleftrightarrow> set (expected_collectors t) \<subseteq> set (ready_collectors t)"
  by (auto simp: all_ready_def list_all_iff)

lemma all_ready_mark: "all_ready t \<Longrightarrow> all_ready (mark_ready i t)"
  by (auto simp: all_ready_iff mark_ready_def)

definition broadcast_inv :: "agent \<Rightarrow> bool" where
  "broadcast_inv a \<longleftrightarrow> (agent_state (manager a) = SteadyState \<longrightarrow> in_flight a = 1 \<or> delivered a)
     \<and> (agent_state (manager a) \<in> {Loading, Ready} \<longrightarrow> in_flight a = 0) \<and> in_flight a \<le> 1"

lemma broadcast_inv_step: "agent_step a act a' \<Longrightarrow> broadcast_inv a \<Longrightarrow> broadcast_inv a'"
  by (induction rule: agent_step.induct)
    (auto simp: broadcast_inv_def agent_defs split: AgentState.splits if_splits sum.splits)

lemma broadcast_inv_run:
  "agent_run (start m) acts a \<Longrightarrow> agent_state m = Loading \<Longrightarrow> broadcast_inv a"
proof (induction "start m" acts a rule: agent_run.induct)
  case run_Nil
  then show ?case by (simp add: broadcast_inv_def start_def)
next
  case (run_snoc acts a act a')
  then show ?case by (blast intro: broadcast_inv_step)
qed

definition configures :: "agent_action \<Rightarrow> bool" where
  "configures act = (case act of Configure _ \<Rightarrow> True | _ \<Rightarrow> False)"

lemma ready_kept:
  assumes "agent_step a act a'" "\<not> configures act" "all_collectors_ready (manager a)"
  shows "all_collectors_ready (manager a')"
  using assms
  by cases (auto simp: configures_def all_collectors_ready_def agent_defs all_ready_mark
      split: AgentState.splits if_splits sum.splits)

text \<open>An agent becomes ready from loading only, by the call that checks the collectors.\<close>

lemma becomes_ready:
  assumes "agent_step a act a'" "agent_state (manager a') \<in> {Ready, SteadyState}"
    and "agent_state (manager a) \<notin> {Ready, SteadyState}"
  shows "act = ToReady \<and> agent_state (manager a) = Loading \<and> all_collectors_ready (manager a)"
  using assms
  by cases (auto simp: all_collectors_ready_def agent_defs split: AgentState.splits if_splits sum.splits)

definition ready_since :: "agent \<Rightarrow> agent_action list \<Rightarrow> agent \<Rightarrow> bool" where
  "ready_since a0 acts a \<longleftrightarrow> (\<exists>before after a1. acts = before @ ToReady # after \<and> agent_run a0 before a1
     \<and> agent_state (manager a1) = Loading \<and> all_collectors_ready (manager a1)
     \<and> (list_ex configures after \<or> all_collectors_ready (manager a)))"

lemma ready_since_step:
  assumes "ready_since a0 acts a" "agent_step a act a'"
  shows "ready_since a0 (acts @ [act]) a'"
proof -
  obtain before after a1 where r: "acts = before @ ToReady # after" "agent_run a0 before a1"
    "agent_state (manager a1) = Loading" "all_collectors_ready (manager a1)"
    "list_ex configures after \<or> all_collectors_ready (manager a)"
    using assms(1) by (auto simp: ready_since_def)
  have "list_ex configures (after @ [act]) \<or> all_collectors_ready (manager a')"
    using r(5) ready_kept [OF assms(2)] by auto
  with r show ?thesis
    unfolding ready_since_def by (intro exI [of _ before] exI [of _ "after @ [act]"] exI [of _ a1]) simp
qed

lemma ready_run:
  "agent_run (start m) acts a \<Longrightarrow> agent_state m = Loading \<Longrightarrow>
     agent_state (manager a) \<in> {Ready, SteadyState} \<Longrightarrow> ready_since (start m) acts a"
proof (induction "start m" acts a rule: agent_run.induct)
  case run_Nil
  then show ?case by (simp add: start_def)
next
  case (run_snoc acts a act a')
  show ?case
  proof (cases "agent_state (manager a) \<in> {Ready, SteadyState}")
    case True
    with run_snoc show ?thesis by (auto intro: ready_since_step)
  next
    case False
    from becomes_ready [OF run_snoc.hyps(3) run_snoc.prems(2) False]
    have act: "act = ToReady" "agent_state (manager a) = Loading" "all_collectors_ready (manager a)" by simp_all
    then have "all_collectors_ready (manager a')"
      using ready_kept [OF run_snoc.hyps(3)] by (simp add: configures_def)
    with act run_snoc.hyps(1) show ?thesis
      unfolding ready_since_def by (intro exI [of _ acts] exI [of _ "[]"] exI [of _ a]) simp
  qed
qed

text \<open>
  Claim C35: however the calls of the agent's tasks interleave, changes of the configuration included,
  an agent that started in loading is ready or in its steady state only after a call that found it
  loading with every collector then expected reported; and they all still count as reported unless
  the configuration was changed after that call. It stays in the steady state only if the broadcast
  that starts the monitoring was delivered or is still under way, and there is never more than one
  such broadcast.
\<close>

theorem agent_states_safe:
  assumes "agent_run (start m) acts a" "agent_state m = Loading"
  shows "(agent_state (manager a) \<in> {Ready, SteadyState} \<longrightarrow>
       (\<exists>before after a1. acts = before @ ToReady # after \<and> agent_run (start m) before a1
          \<and> agent_state (manager a1) = Loading \<and> all_collectors_ready (manager a1)
          \<and> (list_ex configures after \<or> all_collectors_ready (manager a))))
     \<and> (agent_state (manager a) = SteadyState \<longrightarrow> in_flight a = 1 \<or> delivered a) \<and> in_flight a \<le> 1"
  using ready_run [OF assms] broadcast_inv_run [OF assms]
  unfolding ready_since_def broadcast_inv_def by blast

text \<open>
  The condition on the configuration is needed: an agent that is given a new collector while it is
  ready stays ready although that collector has not reported.
\<close>

lemma reconfigured_stays_ready:
  "agent_state m = Ready \<Longrightarrow> enabled c \<Longrightarrow> collector_id c \<notin> set (ready_collectors (readiness_tracker m)) \<Longrightarrow>
     agent_state (set_collectors_config [c] m) = Ready \<and> \<not> all_collectors_ready (set_collectors_config [c] m)"
  by (simp add: set_collectors_config_def all_collectors_ready_def all_ready_def set_expected_def Let_def)

text \<open>The one-way order of the states: what an agent in the first state may still come to.\<close>

fun may_reach :: "AgentState \<Rightarrow> AgentState \<Rightarrow> bool" where
  "may_reach ShuttingDown s' = (s' = ShuttingDown)"
| "may_reach (StartupFailed r) s' = (s' = StartupFailed r \<or> s' = ShuttingDown)"
| "may_reach Loading s' = True"
| "may_reach Ready s' = (s' \<noteq> Loading)"
| "may_reach SteadyState s' = (s' \<noteq> Loading)"

lemma may_reach_refl [simp]: "may_reach s s"
  by (cases s) auto

lemma may_reach_trans: "may_reach s s' \<Longrightarrow> may_reach s' s'' \<Longrightarrow> may_reach s s''"
  by (cases s; cases s') auto

lemma may_reach_ready: "may_reach (agent_state m) (agent_state (snd (transition_to_ready m)))"
  by (cases "agent_state m") (auto simp: transition_to_ready_def Let_def)

lemma may_reach_begin: "may_reach (agent_state m) (agent_state (snd (steady_begin m)))"
  by (cases "agent_state m") (auto simp: steady_begin_def Let_def)

lemma may_reach_end: "may_reach (agent_state m) (agent_state (snd (steady_end res m)))"
  by (cases "agent_state m"; cases res) (auto simp: steady_end_def Let_def)

lemma may_reach_failed: "may_reach (agent_state m) (agent_state (mark_startup_failed reason m))"
  by (cases "agent_state m") (auto simp: mark_startup_failed_def Let_def)

lemma may_reach_shutdown: "may_reach (agent_state m) (agent_state (transition_to_shutting_down m))"
  by (cases "agent_state m") (auto simp: transition_to_shutting_down_def)

lemma state_kept [simp]:
  "agent_state (set_collectors_config c m) = agent_state m"
  "agent_state (snd (mark_collector_ready i m)) = agent_state m"
  by (simp_all add: set_collectors_config_def mark_collector_ready_def Let_def)

lemma agent_step_may_reach:
  assumes "agent_step a act a'"
  shows "may_reach (agent_state (manager a)) (agent_state (manager a'))"
  using assms
proof cases
  case (begin_steady m)
  then show ?thesis using may_reach_begin [of "manager a"] by simp
next
  case (refuse_steady res m)
  then show ?thesis using may_reach_begin [of "manager a"] by simp
qed (simp_all add: may_reach_ready may_reach_end may_reach_failed may_reach_shutdown)

lemma agent_run_may_reach:
  "agent_run a acts a' \<Longrightarrow> may_reach (agent_state (manager a)) (agent_state (manager a'))"
  by (induction rule: agent_run.induct) (auto intro: may_reach_trans agent_step_may_reach)

text \<open>
  The way out is one-way. Whatever calls follow, an agent that is shutting down stays so,
  also if a broadcast that was under way then fails; a failed start can only be followed by the
  shutdown; and no agent returns to loading.
\<close>

lemma agent_exit_final:
  assumes "agent_run a acts a'"
  shows "(agent_state (manager a) = ShuttingDown \<longrightarrow> agent_state (manager a') = ShuttingDown)
     \<and> (is_failed (agent_state (manager a)) \<longrightarrow>
          agent_state (manager a') \<in> {agent_state (manager a), ShuttingDown})
     \<and> (agent_state (manager a') = Loading \<longrightarrow> agent_state (manager a) = Loading)"
  using agent_run_may_reach [OF assms]
  by (cases "agent_state (manager a)") (auto simp: is_failed_def)

section \<open>The wait ends\<close>

lemma wait_loop_first:
  assumes "k \<le> n" "\<forall>j. k \<le> j \<and> j < n \<longrightarrow> \<not> all_collectors_ready (seen j) \<and> elapsed j < timeout"
  shows "wait_loop seen ap am elapsed timeout reason k = wait_loop seen ap am elapsed timeout reason n"
  using assms
proof (induction n)
  case (Suc n)
  show ?case
  proof (cases "k = Suc n")
    case False
    then have "wait_loop seen ap am elapsed timeout reason k = wait_loop seen ap am elapsed timeout reason n"
      using Suc by simp
    also have "\<dots> = wait_loop seen ap am elapsed timeout reason (Suc n)"
    proof -
      have "\<not> all_collectors_ready (seen n)" "elapsed n < timeout"
        using Suc.prems False by auto
      then show ?thesis by (subst wait_loop.simps) simp
    qed
    finally show ?thesis .
  qed simp
qed simp

lemma poll_past_deadline:
  fixes timeout poll_interval :: nat
  assumes "0 < poll_interval" "\<forall>k. k * poll_interval \<le> elapsed k"
  shows "timeout \<le> elapsed (timeout div poll_interval + 1)"
proof -
  have "timeout \<le> (timeout div poll_interval + 1) * poll_interval"
    using div_mult_mod_eq [of timeout poll_interval] mod_less_divisor [OF assms(1), of timeout]
    unfolding distrib_right by linarith
  then show ?thesis using assms(2) order_trans by blast
qed

text \<open>
  Claim C36: the wait for the collectors ends after at most \<open>timeout div poll_interval + 2\<close> polls,
  given a positive poll interval and that each sleep takes at least as long as asked. Its last poll
  is the first one that finds every collector reported or the deadline passed. It answers true exactly
  if some poll finds them all reported and no earlier poll came at or past the deadline, so also at the
  first poll past the deadline; otherwise it answers false and marks a loading agent as failed, with
  the collectors that are pending when they are read.
\<close>

theorem wait_for_collectors_ends:
  assumes "0 < poll_interval" "\<forall>k. k * poll_interval \<le> elapsed k"
  shows "(\<exists>k \<le> timeout div poll_interval + 1.
       (\<forall>j < k. \<not> all_collectors_ready (seen j) \<and> elapsed j < timeout)
       \<and> (all_collectors_ready (seen k) \<or> timeout \<le> elapsed k)
       \<and> wait_for_collectors_ready seen at_pending at_mark elapsed timeout reason =
           Some (if all_collectors_ready (seen k) then (True, seen k)
                 else (False, mark_startup_failed (reason (pending_collectors (at_pending k))) (at_mark k))))
     \<and> ((\<exists>m. wait_for_collectors_ready seen at_pending at_mark elapsed timeout reason = Some (True, m)) \<longleftrightarrow>
        (\<exists>k. all_collectors_ready (seen k) \<and> (\<forall>j < k. elapsed j < timeout)))"
proof -
  let ?stop = "\<lambda>k. all_collectors_ready (seen k) \<or> timeout \<le> elapsed k"
  let ?wait = "wait_for_collectors_ready seen at_pending at_mark elapsed timeout reason"
  have stop: "?stop (timeout div poll_interval + 1)"
    using poll_past_deadline [OF assms] by blast
  define k where "k = (LEAST k. ?stop k)"
  have k: "?stop k" "k \<le> timeout div poll_interval + 1"
    unfolding k_def using LeastI [of ?stop, OF stop] Least_le [of ?stop, OF stop] by blast+
  have before: "\<not> all_collectors_ready (seen j) \<and> elapsed j < timeout" if "j < k" for j
    using not_less_Least [of j ?stop] that unfolding k_def by (meson not_le)
  have "?wait = wait_loop seen at_pending at_mark elapsed timeout reason k"
    unfolding wait_for_collectors_ready_def using before by (intro wait_loop_first) auto
  also have "\<dots> = Some (if all_collectors_ready (seen k) then (True, seen k)
      else (False, mark_startup_failed (reason (pending_collectors (at_pending k))) (at_mark k)))"
    using k(1) by (subst wait_loop.simps) auto
  finally have out: "?wait = \<dots>" .
  have "all_collectors_ready (seen k)" if "all_collectors_ready (seen i)" "\<forall>j < i. elapsed j < timeout" for i
    using that k(1) before [of i] by (metis linorder_neqE_nat not_le)
  then have "(\<exists>m. ?wait = Some (True, m)) \<longleftrightarrow> (\<exists>k. all_collectors_ready (seen k) \<and> (\<forall>j < k. elapsed j < timeout))"
    using before unfolding out by (auto split: if_splits)
  with out before k show ?thesis by blast
qed

section \<open>Examples\<close>

definition one_collector :: BrokerManager where
  "one_collector = \<lparr>agent_state = Loading, readiness_tracker = tracker_new [''procmond''],
     collectors_config = [\<lparr>collector_id = ''procmond'', enabled = True, startup_timeout_secs = 60\<rparr>]\<rparr>"

definition started :: agent where
  "started = \<lparr>manager = one_collector\<lparr>agent_state := SteadyState,
        readiness_tracker := \<lparr>expected_collectors = [''procmond''], ready_collectors = [''procmond'']\<rparr>\<rparr>,
      in_flight = 1, delivered = False\<rparr>"

lemma start_up_run:
  "agent_run (start one_collector) [CollectorReady ''procmond'', ToReady, BeginSteady] started"
  unfolding started_def
proof -
  let ?t = "\<lparr>expected_collectors = [''procmond''], ready_collectors = [''procmond'']\<rparr>"
  let ?a = "\<lambda>s n. \<lparr>manager = one_collector\<lparr>agent_state := s, readiness_tracker := ?t\<rparr>, in_flight = n, delivered = False\<rparr>"
  have s1: "agent_step (start one_collector) (CollectorReady ''procmond'') (?a Loading 0)"
    using collector_ready [of "start one_collector" "''procmond''"]
    by (simp add: start_def one_collector_def mark_collector_ready_def mark_ready_def tracker_new_def Let_def)
  have s2: "agent_step (?a Loading 0) ToReady (?a Ready 0)"
    using to_ready [of "?a Loading 0"] by (simp add: one_collector_def transition_to_ready_def all_ready_def)
  have s3: "agent_step (?a Ready 0) BeginSteady (?a SteadyState 1)"
    using begin_steady [of "?a Ready 0" "manager (?a SteadyState 1)"]
    by (simp add: one_collector_def steady_begin_def)
  show "agent_run (start one_collector) [CollectorReady ''procmond'', ToReady, BeginSteady] (?a SteadyState 1)"
    using run_snoc [OF run_snoc [OF run_snoc [OF run_Nil s1] s2] s3] by simp
qed

theorem agent_states_safe_witness:
  "\<exists>a. agent_run (start one_collector) [CollectorReady ''procmond'', ToReady, BeginSteady] a
     \<and> agent_state (manager a) = SteadyState \<and> all_collectors_ready (manager a)"
proof -
  let ?acts = "[CollectorReady ''procmond'', ToReady, BeginSteady]"
  have "agent_state one_collector = Loading" by (simp add: one_collector_def)
  moreover have st: "agent_state (manager started) = SteadyState" by (simp add: started_def)
  ultimately obtain before after where "?acts = before @ ToReady # after"
      "list_ex configures after \<or> all_collectors_ready (manager started)"
    using agent_states_safe [OF start_up_run] by blast
  moreover have "\<not> list_ex configures ?acts" by (simp add: configures_def)
  ultimately have "all_collectors_ready (manager started)"
    by (auto simp: list_ex_iff dest: arg_cong [where f = set])
  with st start_up_run show ?thesis by blast
qed

lemma agent_exit_final_example:
  "\<exists>a. agent_run (start (transition_to_shutting_down one_collector)) [ToReady] a
     \<and> agent_state (manager a) = ShuttingDown"
proof -
  let ?a = "start (transition_to_shutting_down one_collector)"
  have run: "agent_run ?a ([] @ [ToReady]) (?a\<lparr>manager := snd (transition_to_ready (manager ?a))\<rparr>)"
    by (rule run_snoc [OF run_Nil to_ready])
  have "agent_state (manager ?a) = ShuttingDown"
    by (simp add: start_def transition_to_shutting_down_def)
  with agent_exit_final [OF run] run show ?thesis by auto
qed

theorem wait_for_collectors_ends_witness:
  "wait_for_collectors_ready (\<lambda>_. one_collector) (\<lambda>_. one_collector) (\<lambda>_. one_collector) (\<lambda>k. k * 10) 30
     (\<lambda>_. ''timeout'') = Some (False, mark_startup_failed ''timeout'' one_collector)"
proof -
  have step: "0 < (10 :: nat)" "\<forall>k. k * 10 \<le> (\<lambda>k. k * 10) (k :: nat)" by simp_all
  have "\<not> all_collectors_ready one_collector"
    by (simp add: one_collector_def all_collectors_ready_def all_ready_def tracker_new_def)
  with wait_for_collectors_ends [OF step, where timeout = 30 and seen = "\<lambda>_. one_collector" and
      at_pending = "\<lambda>_. one_collector" and at_mark = "\<lambda>_. one_collector" and reason = "\<lambda>_. ''timeout''"]
  show ?thesis by auto
qed

text \<open>
  A collector that reports after the deadline and before the next poll still counts: the poll at 35
  finds it, although the time to wait was 30.
\<close>

lemma late_poll_answers_true:
  "wait_for_collectors_ready
     (\<lambda>k. if k = 0 then one_collector else manager started) at_pending at_mark (\<lambda>k. k * 35) 30 reason =
   Some (True, manager started)"
proof -
  have "\<not> all_collectors_ready one_collector" "all_collectors_ready (manager started)"
    by (simp_all add: one_collector_def started_def all_collectors_ready_def all_ready_def tracker_new_def)
  then show ?thesis
    unfolding wait_for_collectors_ready_def by (subst wait_loop.simps, subst wait_loop.simps) simp
qed

end
