(* ===== verification/Ipc_Codec.thy ===== *)
theory Ipc_Codec
  imports Prelude
begin

text \<open>
  The framing of the inter-process channel, \<^verbatim>\<open>daemoneye-lib/src/ipc/codec.rs\<close>: a frame is
  the length and the CRC of the message bytes, both 32 bit little-endian, and the bytes.

  The message type is a parameter \<open>'m\<close>. The crates \<open>prost\<close> and \<open>crc32c\<close> are parameters, the
  fields of \<open>message_codec\<close>. A reader is the bytes it will still deliver and what happens after
  them: the peer closes the connection, nothing arrives before the deadline, or the read fails.
  A read that ends early has consumed the bytes it got.
\<close>

section \<open>Data\<close>

datatype io_error = BrokenPipe | ConnectionReset | OtherIo string

datatype IpcError =
    Timeout
  | TooLarge nat nat
  | CrcMismatch u32 u32
  | Io io_error
  | Decode string
  | Encode string
  | PeerClosed
  | InvalidLength u32
  | ServerNotFound string
  | ConnectionRefused string
  | PermissionDenied string
  | ConnectionTimeout string
  | CircuitBreakerOpen

record 'm message_codec =
  encode :: "'m \<Rightarrow> (bytes, string) result"
  decode :: "bytes \<Rightarrow> ('m, string) result"
  crc32c :: "bytes \<Rightarrow> u32"

record IpcCodec =
  max_frame_len :: nat
  read_buf :: bytes

definition IpcCodec_new :: "nat \<Rightarrow> IpcCodec" where
  "IpcCodec_new max_len = \<lparr>max_frame_len = max_len, read_buf = []\<rparr>"

definition IpcCodec_default :: IpcCodec where
  "IpcCodec_default = IpcCodec_new (1024 * 1024)"

section \<open>Writing\<close>

text \<open>How a write ends: completely, or after some bytes by the deadline or by an error.\<close>

datatype write_outcome = Written | WriteStalled nat | WriteFailed nat io_error

record writer =
  sent :: bytes
  next_write :: write_outcome
  next_flush :: write_outcome

definition write_all :: "writer \<Rightarrow> bytes \<Rightarrow> (unit, IpcError) result \<times> writer" where
  "write_all wr bs =
     (case next_write wr of
        Written \<Rightarrow> (Ok (), wr\<lparr>sent := sent wr @ bs\<rparr>)
      | WriteStalled k \<Rightarrow> (Err Timeout, wr\<lparr>sent := sent wr @ take k bs\<rparr>)
      | WriteFailed k e \<Rightarrow> (Err (Io e), wr\<lparr>sent := sent wr @ take k bs\<rparr>))"

definition flush :: "writer \<Rightarrow> (unit, IpcError) result \<times> writer" where
  "flush wr =
     (case next_flush wr of
        Written \<Rightarrow> (Ok (), wr)
      | WriteStalled _ \<Rightarrow> (Err Timeout, wr)
      | WriteFailed _ e \<Rightarrow> (Err (Io e), wr))"

text \<open>\<open>u32::try_from(n).unwrap_or(0)\<close>\<close>

definition u32_or_zero :: "nat \<Rightarrow> u32" where
  "u32_or_zero n = (if n < 2 ^ 32 then word_of_nat n else 0)"

definition build_frame :: "'m message_codec \<Rightarrow> bytes \<Rightarrow> bytes" where
  "build_frame mc message_bytes =
     to_le_bytes (u32_or_zero (length message_bytes)) @ to_le_bytes (crc32c mc message_bytes)
     @ message_bytes"

definition write_message ::
    "'m message_codec \<Rightarrow> IpcCodec \<Rightarrow> writer \<Rightarrow> 'm \<Rightarrow> (unit, IpcError) result \<times> writer" where
  "write_message mc c wr message =
     (case encode mc message of
        Err e \<Rightarrow> (Err (Encode e), wr)
      | Ok message_bytes \<Rightarrow>
          let message_len = length message_bytes in
          if message_len = 0 then (Err (InvalidLength 0), wr)
          else if message_len > max_frame_len c then (Err (TooLarge message_len (max_frame_len c)), wr)
          else case write_all wr (build_frame mc message_bytes) of
                 (Err e, wr') \<Rightarrow> (Err e, wr')
               | (Ok _, wr') \<Rightarrow> flush wr')"

section \<open>Reading\<close>

datatype stream_end = Closed | Stalled | Broken io_error

record reader =
  unread :: bytes
  after :: stream_end

definition end_error :: "stream_end \<Rightarrow> IpcError" where
  "end_error e = (case e of Closed \<Rightarrow> PeerClosed | Stalled \<Rightarrow> Timeout | Broken io \<Rightarrow> Io io)"

definition read_exact :: "nat \<Rightarrow> reader \<Rightarrow> (bytes, IpcError) result \<times> reader" where
  "read_exact n r =
     (if length (unread r) < n then (Err (end_error (after r)), r\<lparr>unread := []\<rparr>)
      else (Ok (take n (unread r)), r\<lparr>unread := drop n (unread r)\<rparr>))"

definition read_message ::
    "'m message_codec \<Rightarrow> IpcCodec \<Rightarrow> reader \<Rightarrow> ('m, IpcError) result \<times> IpcCodec \<times> reader" where
  "read_message mc c r =
     (case read_exact 8 r of
        (Err e, r1) \<Rightarrow> (Err e, c, r1)
      | (Ok header, r1) \<Rightarrow>
          let message_len = unat (from_le_bytes (take 4 header));
              expected = from_le_bytes (drop 4 header) in
          if message_len = 0 then (Err (InvalidLength 0), c, r1)
          else if message_len > max_frame_len c
          then (Err (TooLarge message_len (max_frame_len c)), c, r1)
          else case read_exact message_len r1 of
                 (Err e, r2) \<Rightarrow>
                   (Err e, c\<lparr>read_buf := unread r1 @ replicate (message_len - length (unread r1)) 0\<rparr>, r2)
               | (Ok buf, r2) \<Rightarrow>
                   let c' = c\<lparr>read_buf := buf\<rparr>; actual = crc32c mc buf in
                   if expected \<noteq> actual then (Err (CrcMismatch expected actual), c', r2)
                   else case decode mc buf of
                          Err e \<Rightarrow> (Err (Decode e), c', r2)
                        | Ok m \<Rightarrow> (Ok m, c', r2))"

section \<open>Frames\<close>

text \<open>The messages a codec sends: they encode to between 1 and \<open>max_frame_len\<close> bytes.\<close>

definition sendable :: "'m message_codec \<Rightarrow> nat \<Rightarrow> 'm \<Rightarrow> bool" where
  "sendable mc limit m \<longleftrightarrow> limit < 2 ^ 32 \<and>
     (case encode mc m of
        Err _ \<Rightarrow> False
      | Ok bs \<Rightarrow> 0 < length bs \<and> length bs \<le> limit \<and> decode mc bs = Ok m)"

definition message_frame :: "'m message_codec \<Rightarrow> 'm \<Rightarrow> bytes" where
  "message_frame mc m = (case encode mc m of Err _ \<Rightarrow> [] | Ok bs \<Rightarrow> build_frame mc bs)"

definition take_message :: "'m message_codec \<Rightarrow> nat \<Rightarrow> bytes \<Rightarrow> ('m \<times> bytes) option" where
  "take_message mc limit bs =
     (case read_message mc (IpcCodec_new limit) \<lparr>unread = bs, after = Closed\<rparr> of
        (Ok m, _, r) \<Rightarrow> Some (m, unread r)
      | (Err _, _, _) \<Rightarrow> None)"

lemma unat_u32_or_zero [simp]: "n < 2 ^ 32 \<Longrightarrow> unat (u32_or_zero n) = n"
  by (simp add: u32_or_zero_def unat_of_nat)

text \<open>A header followed by enough bytes, whatever the header claims about the CRC.\<close>

lemma read_message_frame:
  assumes "0 < length bs" "length bs \<le> max_frame_len c" "length bs < 2 ^ 32"
    and "unread r = to_le_bytes (u32_or_zero (length bs)) @ to_le_bytes crc @ bs @ rest"
  shows "read_message mc c r =
     (if crc \<noteq> crc32c mc bs then Err (CrcMismatch crc (crc32c mc bs))
      else case decode mc bs of Err e \<Rightarrow> Err (Decode e) | Ok m \<Rightarrow> Ok m,
      c\<lparr>read_buf := bs\<rparr>, r\<lparr>unread := rest\<rparr>)"
  using assms by (simp add: read_message_def read_exact_def Let_def split: sum.splits)

interpretation ipc: framing "sendable mc limit" "message_frame mc" "take_message mc limit" for mc limit
proof unfold_locales
  fix m :: 'a and rest
  assume "sendable mc limit m"
  then obtain bs where "encode mc m = Ok bs" "0 < length bs" "length bs \<le> limit"
      "decode mc bs = Ok m" "length bs < 2 ^ 32"
    by (auto simp: sendable_def split: sum.splits)
  then show "take_message mc limit (message_frame mc m @ rest) = Some (m, rest)"
    by (simp add: take_message_def message_frame_def build_frame_def read_message_frame IpcCodec_new_def)
qed

text \<open>Reading a number of messages, one call after the other, with one codec.\<close>

fun read_messages ::
    "'m message_codec \<Rightarrow> nat \<Rightarrow> IpcCodec \<Rightarrow> reader \<Rightarrow> ('m, IpcError) result list \<times> IpcCodec \<times> reader" where
  "read_messages mc 0 c r = ([], c, r)"
| "read_messages mc (Suc n) c r =
     (case read_message mc c r of
        (res, c', r') \<Rightarrow> (case read_messages mc n c' r' of (ress, c'', r'') \<Rightarrow> (res # ress, c'', r'')))"

fun write_messages ::
    "'m message_codec \<Rightarrow> IpcCodec \<Rightarrow> 'm list \<Rightarrow> writer \<Rightarrow> (unit, IpcError) result list \<times> writer" where
  "write_messages mc c [] wr = ([], wr)"
| "write_messages mc c (m # ms) wr =
     (case write_message mc c wr m of
        (res, wr') \<Rightarrow> (case write_messages mc c ms wr' of (ress, wr'') \<Rightarrow> (res # ress, wr'')))"

section \<open>A channel\<close>

lemma write_message_sends:
  assumes "sendable mc (max_frame_len c) m" "next_write wr = Written" "next_flush wr = Written"
  shows "write_message mc c wr m = (Ok (), wr\<lparr>sent := sent wr @ message_frame mc m\<rparr>)"
  using assms by (auto simp: sendable_def write_message_def message_frame_def write_all_def flush_def
      Let_def split: sum.splits)

lemma write_messages_send:
  assumes "\<forall>m \<in> set ms. sendable mc (max_frame_len c) m" "next_write wr = Written" "next_flush wr = Written"
  shows "write_messages mc c ms wr =
     (replicate (length ms) (Ok ()), wr\<lparr>sent := sent wr @ concat (map (message_frame mc) ms)\<rparr>)"
  using assms by (induction ms arbitrary: wr) (auto simp: write_message_sends)

lemma read_message_sent:
  assumes "sendable mc limit m" "limit \<le> max_frame_len d" "unread r = message_frame mc m @ rest"
  shows "\<exists>bs. read_message mc d r = (Ok m, d\<lparr>read_buf := bs\<rparr>, r\<lparr>unread := rest\<rparr>)"
proof -
  obtain bs where bs: "encode mc m = Ok bs" "0 < length bs" "length bs \<le> limit" "decode mc bs = Ok m"
      "length bs < 2 ^ 32"
    using assms(1) by (auto simp: sendable_def split: sum.splits)
  then have "read_message mc d r = (Ok m, d\<lparr>read_buf := bs\<rparr>, r\<lparr>unread := rest\<rparr>)"
    using assms(2,3) read_message_frame [of bs d r "crc32c mc bs" rest mc]
    by (simp add: message_frame_def build_frame_def)
  then show ?thesis by blast
qed

lemma read_messages_sent:
  assumes "\<forall>m \<in> set ms. sendable mc limit m" "limit \<le> max_frame_len d"
    and "unread r = concat (map (message_frame mc) ms) @ rest"
  shows "\<exists>bs. read_messages mc (length ms) d r = (map Ok ms, d\<lparr>read_buf := bs\<rparr>, r\<lparr>unread := rest\<rparr>)"
  using assms
proof (induction ms arbitrary: d r)
  case Nil
  then have "d = d\<lparr>read_buf := read_buf d\<rparr>" "r = r\<lparr>unread := rest\<rparr>" by simp_all
  then show ?case by (metis list.map(1) list.size(3) read_messages.simps(1))
next
  case (Cons m ms)
  let ?rest = "concat (map (message_frame mc) ms) @ rest"
  have m: "unread r = message_frame mc m @ ?rest" "sendable mc limit m"
    using Cons.prems by simp_all
  obtain bs where one: "read_message mc d r = (Ok m, d\<lparr>read_buf := bs\<rparr>, r\<lparr>unread := ?rest\<rparr>)"
    using read_message_sent [OF m(2) Cons.prems(2) m(1)] by auto
  moreover obtain bs' where "read_messages mc (length ms) (d\<lparr>read_buf := bs\<rparr>) (r\<lparr>unread := ?rest\<rparr>) =
      (map Ok ms, d\<lparr>read_buf := bs'\<rparr>, r\<lparr>unread := rest\<rparr>)"
    using Cons.IH [of "d\<lparr>read_buf := bs\<rparr>" "r\<lparr>unread := ?rest\<rparr>"] Cons.prems by auto
  ultimately show ?case by auto
qed

text \<open>
  Claim C34: whatever messages one side writes, the other side reads the same messages in the same
  order and is left exactly behind the last frame, provided the messages encode within the limits
  of both sides and the protobuf library decodes what it encoded.
\<close>

theorem channel_roundtrip:
  assumes "\<forall>m \<in> set ms. sendable mc (max_frame_len c) m" "max_frame_len c \<le> max_frame_len d"
    and "wr = \<lparr>sent = [], next_write = Written, next_flush = Written\<rparr>"
  shows "\<exists>wr' d'. write_messages mc c ms wr = (replicate (length ms) (Ok ()), wr')
     \<and> read_messages mc (length ms) d \<lparr>unread = sent wr' @ rest, after = e\<rparr> =
         (map Ok ms, d', \<lparr>unread = rest, after = e\<rparr>)"
proof -
  let ?bytes = "concat (map (message_frame mc) ms)"
  have "write_messages mc c ms wr = (replicate (length ms) (Ok ()), wr\<lparr>sent := ?bytes\<rparr>)"
    using write_messages_send [OF assms(1), of wr] assms(3) by simp
  moreover obtain bs where "read_messages mc (length ms) d \<lparr>unread = ?bytes @ rest, after = e\<rparr> =
      (map Ok ms, d\<lparr>read_buf := bs\<rparr>, \<lparr>unread = rest, after = e\<rparr>)"
    using read_messages_sent [OF assms(1,2), of "\<lparr>unread = ?bytes @ rest, after = e\<rparr>" rest] by auto
  ultimately show ?thesis by auto
qed

text \<open>
  A damaged frame costs one message. If the payload does not have the CRC of its header,
  that read reports the mismatch, with both values, and every later message of the stream is still
  read.
\<close>

lemma damaged_frame_isolated:
  assumes "\<forall>m \<in> set ms. sendable mc limit m" "limit \<le> max_frame_len d"
    and "0 < length bs" "length bs \<le> max_frame_len d" "length bs < 2 ^ 32" "crc \<noteq> crc32c mc bs"
    and "unread r = to_le_bytes (word_of_nat (length bs)) @ to_le_bytes crc @ bs
           @ concat (map (message_frame mc) ms) @ rest"
  shows "\<exists>d'. read_messages mc (Suc (length ms)) d r =
     (Err (CrcMismatch crc (crc32c mc bs)) # map Ok ms, d', r\<lparr>unread := rest\<rparr>)"
proof -
  let ?r = "r\<lparr>unread := concat (map (message_frame mc) ms) @ rest\<rparr>"
  have "word_of_nat (length bs) = u32_or_zero (length bs)"
    using assms(5) by (simp add: u32_or_zero_def)
  then have "read_message mc d r = (Err (CrcMismatch crc (crc32c mc bs)), d\<lparr>read_buf := bs\<rparr>, ?r)"
    using read_message_frame [OF assms(3-5), of r crc _ mc] assms(6,7) by simp
  moreover have "limit \<le> max_frame_len (d\<lparr>read_buf := bs\<rparr>)" "unread ?r = concat (map (message_frame mc) ms) @ rest"
    using assms(2) by simp_all
  note read_messages_sent [OF assms(1) this]
  ultimately show ?thesis by auto
qed

text \<open>
  A peer cannot make the reader take more than its limit: one call consumes a header and at
  most \<open>max_frame_len\<close> bytes of the stream, the buffer never grows beyond the limit, and a length of
  zero or above the limit is refused after the header, before any buffer is filled.
\<close>

lemma read_message_bounded:
  assumes "read_message mc c r = (res, c', r')" "length (read_buf c) \<le> max_frame_len c"
  shows "\<exists>consumed. unread r = consumed @ unread r' \<and> length consumed \<le> 8 + max_frame_len c
     \<and> length (read_buf c') \<le> max_frame_len c \<and> max_frame_len c' = max_frame_len c
     \<and> (8 \<le> length (unread r) \<longrightarrow>
          unat (from_le_bytes (take 4 (unread r))) \<notin> {1..max_frame_len c} \<longrightarrow>
          length consumed = 8 \<and> c' = c \<and> \<not> is_ok res)"
proof (cases "length (unread r) < 8")
  case True
  then show ?thesis
    using assms by (auto simp: read_message_def read_exact_def)
next
  case False
  let ?len = "unat (from_le_bytes (take 4 (unread r)))"
  have split: "unread r = take 8 (unread r) @ drop 8 (unread r)" by simp
  have len: "from_le_bytes (take 4 (take 8 (unread r))) = from_le_bytes (take 4 (unread r))"
    by (simp add: take_take)
  consider "?len = 0" | "max_frame_len c < ?len" | "0 < ?len" "?len \<le> max_frame_len c"
    by linarith
  then show ?thesis
  proof cases
    case 3
    let ?k = "min ?len (length (unread r) - 8)"
    have "unread r' = drop (8 + ?k) (unread r)" "length (read_buf c') \<le> max_frame_len c"
      "max_frame_len c' = max_frame_len c"
      using assms 3 False
      by (auto simp: read_message_def read_exact_def Let_def len add.commute split: if_splits sum.splits)
    moreover have "unread r = take (8 + ?k) (unread r) @ drop (8 + ?k) (unread r)" by simp
    ultimately show ?thesis
      using 3 by (intro exI [of _ "take (8 + ?k) (unread r)"]) auto
  qed (use assms False split in \<open>auto simp: read_message_def read_exact_def Let_def len
         intro!: exI [of _ "take 8 (unread r)"]\<close>)
qed

text \<open>
  A write that is refused because of the size or the encoding sends nothing, and any
  other failing write has sent a prefix of the frame.
\<close>

lemma write_message_failure:
  assumes "write_message mc c wr m = (Err e, wr')"
  shows "\<exists>part. sent wr' = sent wr @ part \<and> prefix part (message_frame mc m)
     \<and> ((\<exists>msg. e = Encode msg) \<or> e = InvalidLength 0 \<or> (\<exists>n. e = TooLarge n (max_frame_len c) \<and> max_frame_len c < n)
          \<longrightarrow> part = [])"
proof (cases "encode mc m")
  case (Inl err)
  then show ?thesis
    using assms by (simp add: write_message_def)
next
  case (Inr bs)
  then have frame: "message_frame mc m = build_frame mc bs"
    by (simp add: message_frame_def)
  have "\<exists>part. sent wr' = sent wr @ part \<and> prefix part (build_frame mc bs)
      \<and> (e \<in> {Timeout} \<union> range Io \<or> part = [])"
    using assms Inr by (auto simp: write_message_def write_all_def flush_def Let_def take_is_prefix
        split: if_splits write_outcome.splits prod.splits)
  then show ?thesis
    unfolding frame by auto
qed

section \<open>Examples\<close>

text \<open>One-byte messages with an additive checksum in place of the CRC.\<close>

definition byte_codec :: "u8 message_codec" where
  "byte_codec =
     \<lparr>encode = (\<lambda>m. Ok [m]),
      decode = (\<lambda>bs. case bs of [m] \<Rightarrow> Ok m | _ \<Rightarrow> Err ''one byte expected''),
      crc32c = (\<lambda>bs. fold (\<lambda>b acc. acc + ucast b) bs 0)\<rparr>"

lemma sendable_byte: "sendable byte_codec 16 m"
  by (simp add: sendable_def byte_codec_def)

theorem channel_roundtrip_witness:
  "\<exists>wr' d'. write_messages byte_codec (IpcCodec_new 16) [1, 2, 3]
       \<lparr>sent = [], next_write = Written, next_flush = Written\<rparr> = (replicate 3 (Ok ()), wr')
     \<and> read_messages byte_codec 3 (IpcCodec_new 16) \<lparr>unread = sent wr' @ [9], after = Stalled\<rparr> =
         ([Ok 1, Ok 2, Ok 3], d', \<lparr>unread = [9], after = Stalled\<rparr>)"
proof -
  have ok: "\<forall>m \<in> set [1, 2, 3]. sendable byte_codec (max_frame_len (IpcCodec_new 16)) m"
    by (simp add: sendable_byte IpcCodec_new_def)
  show ?thesis
    using channel_roundtrip [OF ok order_refl refl, of "[9]" Stalled] by (simp add: numeral_3_eq_3)
qed

lemma damaged_frame_isolated_example:
  "\<exists>d'. read_messages byte_codec 2 (IpcCodec_new 16)
       \<lparr>unread = to_le_bytes 1 @ to_le_bytes 5 @ [7] @ message_frame byte_codec 8, after = Closed\<rparr> =
     ([Err (CrcMismatch 5 7), Ok 8], d', \<lparr>unread = [], after = Closed\<rparr>)"
proof -
  let ?r = "\<lparr>unread = to_le_bytes 1 @ to_le_bytes 5 @ [7] @ message_frame byte_codec 8, after = Closed\<rparr>"
  have crc: "crc32c byte_codec [7] = 7" by (simp add: byte_codec_def)
  have "\<exists>d'. read_messages byte_codec (Suc (length [8 :: u8])) (IpcCodec_new 16) ?r =
      (Err (CrcMismatch 5 (crc32c byte_codec [7])) # map Ok [8], d', ?r\<lparr>unread := []\<rparr>)"
    by (rule damaged_frame_isolated [where limit = 16])
      (simp_all add: sendable_byte IpcCodec_new_def crc)
  then show ?thesis by (simp add: crc numeral_2_eq_2)
qed

lemma read_message_bounded_example:
  "fst (read_message byte_codec (IpcCodec_new 16) \<lparr>unread = to_le_bytes 1000000 @ to_le_bytes 0, after = Closed\<rparr>) =
     Err (TooLarge 1000000 16)
   \<and> \<not> is_ok (fst (read_message byte_codec (IpcCodec_new 16)
        \<lparr>unread = to_le_bytes 1000000 @ to_le_bytes 0, after = Closed\<rparr>))"
proof -
  let ?c = "IpcCodec_new 16"
  let ?r = "\<lparr>unread = to_le_bytes 1000000 @ to_le_bytes 0, after = Closed\<rparr>"
  obtain res c' r' where res: "read_message byte_codec ?c ?r = (res, c', r')"
    by (cases "read_message byte_codec ?c ?r") auto
  have buf: "length (read_buf ?c) \<le> max_frame_len ?c" by (simp add: IpcCodec_new_def)
  have "\<not> is_ok res"
    using read_message_bounded [OF res buf] by (auto simp: IpcCodec_new_def)
  moreover have "fst (read_message byte_codec ?c ?r) = Err (TooLarge 1000000 16)"
    by (simp add: read_message_def read_exact_def IpcCodec_new_def Let_def)
  ultimately show ?thesis by (simp add: res)
qed

lemma write_message_failure_example:
  "fst (write_message byte_codec (IpcCodec_new 0)
       \<lparr>sent = [3], next_write = Written, next_flush = Written\<rparr> 7) = Err (TooLarge 1 0)
   \<and> sent (snd (write_message byte_codec (IpcCodec_new 0)
       \<lparr>sent = [3], next_write = Written, next_flush = Written\<rparr> 7)) = [3]"
proof -
  let ?wr = "\<lparr>sent = [3], next_write = Written, next_flush = Written\<rparr>"
  obtain wr' where fails: "write_message byte_codec (IpcCodec_new 0) ?wr 7 = (Err (TooLarge 1 0), wr')"
    by (simp add: write_message_def byte_codec_def IpcCodec_new_def)
  have "max_frame_len (IpcCodec_new 0) = 0" by (simp add: IpcCodec_new_def)
  then have "sent wr' = [3]"
    using write_message_failure [OF fails] by auto
  then show ?thesis by (simp add: fails)
qed

end
