(* ===== verification/Ordered_Table.thy ===== *)
theory Ordered_Table
  imports Prelude "HOL-Library.Product_Lexorder" "HOL-Library.Multiset"
begin

text \<open>
  Maps in key order: Rust's \<open>BTreeMap\<close>, and the tables and multimap tables a \<open>redb\<close> database holds,
  by their contents. A table is the list of its entries in ascending order of distinct keys; a
  multimap table is a table of pairs of a term and a value.
\<close>

section \<open>Tables\<close>

type_synonym ('k, 'v) otable = "('k \<times> 'v) list"

definition ot_wf :: "('k::linorder, 'v) otable \<Rightarrow> bool" where
  "ot_wf t = sorted_wrt (<) (map fst t)"

definition ot_get :: "('k, 'v) otable \<Rightarrow> 'k \<Rightarrow> 'v option" where
  "ot_get t k = map_of t k"

fun ot_insert :: "'k::linorder \<Rightarrow> 'v \<Rightarrow> ('k, 'v) otable \<Rightarrow> ('k, 'v) otable" where
  "ot_insert k v [] = [(k, v)]"
| "ot_insert k v ((k', v') # t) =
     (if k < k' then (k, v) # (k', v') # t
      else if k = k' then (k, v) # t
      else (k', v') # ot_insert k v t)"

definition ot_remove :: "'k \<Rightarrow> ('k, 'v) otable \<Rightarrow> ('k, 'v) otable" where
  "ot_remove k t = filter (\<lambda>(k', _). k' \<noteq> k) t"

text \<open>\<open>range(lo..hi)\<close> and \<open>range(lo..=hi)\<close>.\<close>

definition ot_range :: "'k::linorder \<Rightarrow> 'k \<Rightarrow> ('k, 'v) otable \<Rightarrow> ('k, 'v) otable" where
  "ot_range lo hi t = filter (\<lambda>(k, _). lo \<le> k \<and> k < hi) t"

definition ot_range_incl :: "'k::linorder \<Rightarrow> 'k \<Rightarrow> ('k, 'v) otable \<Rightarrow> ('k, 'v) otable" where
  "ot_range_incl lo hi t = filter (\<lambda>(k, _). lo \<le> k \<and> k \<le> hi) t"

lemma ot_get_insert: "ot_get (ot_insert k v t) k' = (if k' = k then Some v else ot_get t k')"
  by (induction k v t rule: ot_insert.induct) (auto simp: ot_get_def)

lemma fst_set_ot_insert: "fst ` set (ot_insert k v t) = insert k (fst ` set t)"
  by (induction k v t rule: ot_insert.induct) auto

lemma ot_wf_Cons: "ot_wf ((k, v) # t) \<longleftrightarrow> (\<forall>k' \<in> fst ` set t. k < k') \<and> ot_wf t"
  by (auto simp: ot_wf_def)

lemma ot_wf_Nil [simp]: "ot_wf []"
  by (simp add: ot_wf_def)

lemma ot_wf_insert: "ot_wf t \<Longrightarrow> ot_wf (ot_insert k v t)"
proof (induction k v t rule: ot_insert.induct)
  case (2 k v k' v' t)
  have "\<forall>x \<in> fst ` set (ot_insert k v t). k' < x" if "\<not> k < k'" "k \<noteq> k'"
    using 2 that by (auto simp: fst_set_ot_insert ot_wf_Cons)
  with 2 show ?case
    by (auto simp: ot_wf_Cons)
qed (simp add: ot_wf_def)

lemma ot_wf_filter: "ot_wf t \<Longrightarrow> ot_wf (filter P t)"
  by (induction t) (auto simp: ot_wf_Cons)

lemma ot_get_filter_keys: "ot_get (filter (\<lambda>(k, _). P k) t) k = (if P k then ot_get t k else None)"
  by (induction t) (auto simp: ot_get_def)

interpretation ot: keyed_store ot_wf ot_get ot_insert ot_remove
  by unfold_locales
    (auto simp: ot_get_insert ot_remove_def ot_get_filter_keys [where P = "\<lambda>k'. k' \<noteq> k" for k]
      ot_wf_insert ot_wf_filter)

lemmas ot_laws [simp, map_laws] = ot.get_ins ot.get_rem ot.wf_ins ot.wf_rem

lemma ot_wf_distinct: "ot_wf t \<Longrightarrow> distinct (map fst t)"
  by (simp add: ot_wf_def strict_sorted_iff)

lemma ot_get_iff: "ot_wf t \<Longrightarrow> ot_get t k = Some v \<longleftrightarrow> (k, v) \<in> set t"
  by (simp add: ot_get_def ot_wf_distinct)

lemma ot_get_None_iff: "ot_get t k = None \<longleftrightarrow> k \<notin> fst ` set t"
  by (simp add: ot_get_def map_of_eq_None_iff)

lemma ot_get_Nil [simp]: "ot_get [] k = None"
  by (simp add: ot_get_def)

text \<open>Inserting under a new key adds one entry and keeps the others.\<close>

lemma mset_ot_insert_fresh: "ot_get t k = None \<Longrightarrow> mset (ot_insert k v t) = add_mset (k, v) (mset t)"
  by (induction k v t rule: ot_insert.induct) (auto simp: ot_get_def split: if_splits)

lemma set_ot_insert_fresh: "ot_get t k = None \<Longrightarrow> set (ot_insert k v t) = insert (k, v) (set t)"
  using mset_ot_insert_fresh [of t k v] by (metis set_mset_add_mset_insert set_mset_mset)

text \<open>The last entry of a table has the greatest key.\<close>

lemma ot_last_max: "ot_wf t \<Longrightarrow> k \<in> fst ` set t \<Longrightarrow> k \<le> fst (last t)"
proof (induction t)
  case (Cons e t)
  show ?case
  proof (cases t)
    case Nil
    with Cons.prems show ?thesis by auto
  next
    case (Cons e' t')
    have "fst e < fst (last t)"
      using Cons.prems(1) \<open>t = e' # t'\<close> by (cases e) (auto simp: ot_wf_Cons)
    moreover have "k \<le> fst (last t)" if "k \<in> fst ` set t"
      using Cons.prems(1) Cons.IH that by (cases e) (simp add: ot_wf_Cons)
    moreover have "k = fst e \<or> k \<in> fst ` set t" "last (e # t) = last t"
      using Cons.prems(2) \<open>t = e' # t'\<close> by auto
    ultimately show ?thesis
      by (auto intro: less_imp_le)
  qed
qed simp

section \<open>Multimap tables\<close>

type_synonym ('t, 'k) multimap = "('t \<times> 'k, unit) otable"

definition mm_insert :: "'t::linorder \<Rightarrow> 'k::linorder \<Rightarrow> ('t, 'k) multimap \<Rightarrow> ('t, 'k) multimap" where
  "mm_insert term k m = ot_insert (term, k) () m"

definition mm_get :: "('t, 'k) multimap \<Rightarrow> 't \<Rightarrow> 'k list" where
  "mm_get m term = map (\<lambda>((_, k), _). k) (filter (\<lambda>((t, _), _). t = term) m)"

lemma set_mm_get: "k \<in> set (mm_get m term) \<longleftrightarrow> (term, k) \<in> fst ` set m"
  by (force simp: mm_get_def)

lemma sorted_mm_get: "ot_wf m \<Longrightarrow> sorted_wrt (<) (mm_get m term)"
proof (induction m)
  case (Cons e m)
  obtain t k u where e: "e = ((t, k), u)" by (metis prod.exhaust)
  have "k < k'" if "t = term" "k' \<in> set (mm_get m term)" for k'
    using Cons.prems that by (force simp: e ot_wf_Cons set_mm_get less_prod_def)
  with Cons show ?case
    by (auto simp: e mm_get_def ot_wf_Cons)
qed (simp add: mm_get_def)

lemma fst_set_mm_insert: "fst ` set (mm_insert term k m) = insert (term, k) (fst ` set m)"
  by (simp add: mm_insert_def fst_set_ot_insert)

lemma ot_wf_mm_insert [simp]: "ot_wf m \<Longrightarrow> ot_wf (mm_insert term k m)"
  by (simp add: mm_insert_def)

end
