(* ===== verification/Event_Store.thy ===== *)
theory Event_Store
  imports Ordered_Table
begin

text \<open>
  The agent's event store, \<^verbatim>\<open>daemoneye-lib/src/storage\<close>: the key and value codecs (\<^verbatim>\<open>codec.rs\<close>),
  time buckets (\<^verbatim>\<open>bucket.rs\<close>), secondary indexes (\<^verbatim>\<open>index.rs\<close>) and the operations of \<open>EventStore\<close>
  (\<^verbatim>\<open>mod.rs\<close>) that read and write process events, ingest watermarks and the detection cursor.

  The crates are parameters, the fields of \<open>store_env\<close>. Of \<open>redb\<close> the model uses that a read
  transaction sees the committed contents, that a write transaction works on its own copy of them,
  and that a commit replaces the contents or, when it fails, leaves them (\<open>redb_atomic\<close>). Any of
  these calls may fail; a failing table operation inside a write transaction ends it without a
  commit, which has the same outcome as a failing commit. \<open>postcard\<close> is a pair of functions of
  which the second inverts the first (\<open>postcard_inverts\<close>). BLAKE3 and the Unicode case tables are
  functions nothing is assumed of. Numbers of type \<open>f64\<close> are given by their bits and times by
  nanoseconds since 1970.
\<close>

section \<open>Records and errors\<close>

type_synonym u128 = "128 word"
type_synonym evkey = "u64 \<times> u32"

datatype ProcessStatus = Running | Sleeping | Stopped | Zombie | Traced | Unknown string

record ProcessRecord =
  pid :: u32
  ppid :: "u32 option"
  name :: string
  executable_path :: "string option"
  command_line :: "string option"
  start_time :: "int option"
  cpu_usage :: "u64 option"
  memory_usage :: "u64 option"
  status :: ProcessStatus
  executable_hash :: "string option"
  hash_algorithm :: "string option"
  collection_time :: int
  user_id :: "u32 option"
  group_id :: "u32 option"
  environment_vars :: "(string, string) hash_map"
  metadata :: "(string, string) hash_map"

datatype StorageError =
    MissingDirectory string
  | NotADirectory string
  | DirectoryPermissionDenied string
  | DatabaseCreationFailed string
  | DatabaseError string
  | RedbStorageError string
  | TableError string
  | TransactionError string
  | CommitError string
  | SavepointError string
  | SerializationError string
  | Codec string
  | SchemaVersionMismatch u32 u32
  | DegradedReadOnly string
  | Bucket string string
  | Overflow string
  | IoError string
  | TableNotFound string
  | RecordNotFound string

section \<open>The database\<close>

text \<open>The tables of the database by name, one field for each type of table.\<close>

record Db =
  event_tables :: "(string, (evkey, bytes) otable) hash_map"
  u32_tables :: "(string, (u32, evkey) multimap) hash_map"
  hash_tables :: "(string, (u128, evkey) multimap) hash_map"
  watermark_table :: "(string, u64) hash_map option"
  cursor_table :: "(string, u64) hash_map option"

definition empty_db :: Db where
  "empty_db = \<lparr>event_tables = [], u32_tables = [], hash_tables = [], watermark_table = None, cursor_table = None\<rparr>"

record 'd store_env =
  begin_read :: "'d \<Rightarrow> (Db, StorageError) result"
  begin_write :: "'d \<Rightarrow> (Db, StorageError) result"
  commit :: "'d \<Rightarrow> Db \<Rightarrow> (unit, StorageError) result \<times> 'd"
  contents :: "'d \<Rightarrow> Db"
  to_allocvec :: "ProcessRecord \<Rightarrow> (bytes, string) result"
  from_bytes :: "bytes \<Rightarrow> (ProcessRecord, string) result"
  blake3 :: "bytes \<Rightarrow> bytes"
  to_lowercase :: "string \<Rightarrow> string"

definition redb_atomic :: "'d store_env \<Rightarrow> bool" where
  "redb_atomic env \<longleftrightarrow>
     (\<forall>d t. begin_read env d = Ok t \<longrightarrow> t = contents env d) \<and>
     (\<forall>d t. begin_write env d = Ok t \<longrightarrow> t = contents env d) \<and>
     (\<forall>d t d'. commit env d t = (Ok (), d') \<longrightarrow> contents env d' = t) \<and>
     (\<forall>d t e d'. commit env d t = (Err e, d') \<longrightarrow> contents env d' = contents env d)"

definition postcard_inverts :: "'d store_env \<Rightarrow> bool" where
  "postcard_inverts env \<longleftrightarrow> (\<forall>r b. to_allocvec env r = Ok b \<longrightarrow> from_bytes env b = Ok r)"

text \<open>\<open>open_table\<close> of a write transaction creates a missing table.\<close>

definition opened :: "('k, 'v list) hash_map \<Rightarrow> 'k \<Rightarrow> 'v list" where
  "opened tables k = (case hm_get tables k of None \<Rightarrow> [] | Some t \<Rightarrow> t)"

text \<open>A \<open>for\<close> loop that extends an output vector and stops at the first error.\<close>

fun try_concat :: "('a \<Rightarrow> ('b list, 'e) result) \<Rightarrow> 'a list \<Rightarrow> ('b list, 'e) result" where
  "try_concat f [] = Ok []"
| "try_concat f (x # xs) =
     (case f x of Err e \<Rightarrow> Err e
      | Ok ys \<Rightarrow> (case try_concat f xs of Err e \<Rightarrow> Err e | Ok zs \<Rightarrow> Ok (ys @ zs)))"

section \<open>Codecs\<close>

text \<open>\<open>to_be_bytes\<close> and \<open>from_be_bytes\<close>, and the comparison of byte slices.\<close>

fun be_bytes :: "nat \<Rightarrow> nat \<Rightarrow> bytes" where
  "be_bytes 0 x = []"
| "be_bytes (Suc n) x = be_bytes n (x div 256) @ [word_of_nat (x mod 256)]"

definition be_value :: "bytes \<Rightarrow> nat" where
  "be_value bs = foldl (\<lambda>acc b. acc * 256 + unat b) 0 bs"

fun bytes_less :: "bytes \<Rightarrow> bytes \<Rightarrow> bool" where
  "bytes_less xs [] = False"
| "bytes_less [] (y # ys) = True"
| "bytes_less (x # xs) (y # ys) = (x < y \<or> x = y \<and> bytes_less xs ys)"

definition KEY_WIDTH :: nat where
  "KEY_WIDTH = 16"

definition VALUE_VERSION_V1 :: u8 where
  "VALUE_VERSION_V1 = 1"

definition read_u64_be :: "bytes \<Rightarrow> u64" where
  "read_u64_be dat = (if 8 \<le> length dat then word_of_nat (be_value (take 8 dat)) else 0)"

definition read_u32_be :: "bytes \<Rightarrow> u32" where
  "read_u32_be dat = (if 12 \<le> length dat then word_of_nat (be_value (take 4 (drop 8 dat))) else 0)"

definition key_from_bytes :: "bytes \<Rightarrow> evkey" where
  "key_from_bytes dat = (read_u64_be dat, read_u32_be dat)"

definition key_as_bytes :: "evkey \<Rightarrow> bytes" where
  "key_as_bytes k = be_bytes 8 (unat (fst k)) @ be_bytes 4 (unat (snd k)) @ replicate 4 0"

definition encode_value :: "'d store_env \<Rightarrow> ProcessRecord \<Rightarrow> (bytes, StorageError) result" where
  "encode_value env r = (case to_allocvec env r of Err e \<Rightarrow> Err (Codec e) | Ok payload \<Rightarrow> Ok (VALUE_VERSION_V1 # payload))"

definition decode_value :: "'d store_env \<Rightarrow> bytes \<Rightarrow> (ProcessRecord, StorageError) result" where
  "decode_value env bs =
     (case bs of
        [] \<Rightarrow> Err (Codec ''DeserializeUnexpectedEnd'')
      | version # payload \<Rightarrow>
          if version = VALUE_VERSION_V1
          then (case from_bytes env payload of Err e \<Rightarrow> Err (Codec e) | Ok r \<Rightarrow> Ok r)
          else Err (Bucket ''<value>'' (''unknown value codec version '' @ show_nat (unat version))))"

section \<open>Time buckets\<close>

definition BUCKET_PREFIX :: string where
  "BUCKET_PREFIX = ''processes.events@''"

definition HOURLY_MS :: u64 where
  "HOURLY_MS = 3600000"

definition DAILY_MS :: u64 where
  "DAILY_MS = 86400000"

definition BUCKET_CEILING :: u64 where
  "BUCKET_CEILING = 1000"

definition bucket_id :: "u64 \<Rightarrow> u64 \<Rightarrow> (u64, StorageError) result" where
  "bucket_id ts_ms granularity_ms =
     (if granularity_ms = 0 then Err (Overflow ''bucket_id: zero granularity'') else Ok (ts_ms div granularity_ms))"

definition bucket_table_name :: "u64 \<Rightarrow> string" where
  "bucket_table_name i = BUCKET_PREFIX @ show_nat (unat i)"

definition parse_bucket_name :: "string \<Rightarrow> u64 option" where
  "parse_bucket_name nm = Option.bind (strip_prefix nm BUCKET_PREFIX) parse_u64"

definition choose_granularity :: "u64 \<Rightarrow> u64" where
  "choose_granularity retention_ms = (if BUCKET_CEILING < retention_ms div HOURLY_MS then DAILY_MS else HOURLY_MS)"

definition retention_cutoff :: "u64 \<Rightarrow> u64 \<Rightarrow> u64 \<Rightarrow> (u64, StorageError) result" where
  "retention_cutoff now_ms retention_ms granularity_ms = bucket_id (sat_sub now_ms retention_ms) granularity_ms"

section \<open>Secondary indexes\<close>

definition name_hash128 :: "'d store_env \<Rightarrow> string \<Rightarrow> u128" where
  "name_hash128 env nm =
     word_of_nat (be_value (take 16 (blake3 env (map (\<lambda>c. word_of_nat (of_char c)) (to_lowercase env nm)))))"

text \<open>\<open>char::to_digit(16)\<close> and \<open>u128::from_str_radix(_, 16)\<close>, which drops a leading plus sign.\<close>

definition hex_digit :: "char \<Rightarrow> nat option" where
  "hex_digit c =
     (let n = of_char c :: nat in
      if 48 \<le> n \<and> n \<le> 57 then Some (n - 48)
      else if 97 \<le> n \<and> n \<le> 102 then Some (n - 87)
      else if 65 \<le> n \<and> n \<le> 70 then Some (n - 55) else None)"

fun read_hex :: "nat \<Rightarrow> string \<Rightarrow> nat option" where
  "read_hex acc [] = Some acc"
| "read_hex acc (c # cs) = (case hex_digit c of None \<Rightarrow> None | Some d \<Rightarrow> read_hex (acc * 16 + d) cs)"

definition exe_hash_prefix :: "string \<Rightarrow> u128 option" where
  "exe_hash_prefix hex =
     (if length hex < 32 then None
      else let s = take 32 hex; ds = (if hd s = CHR ''+'' then tl s else s)
           in map_option word_of_nat (read_hex 0 ds))"

definition pid_index_name :: "u64 \<Rightarrow> string" where
  "pid_index_name i = ''idx:pid@'' @ show_nat (unat i)"

definition ppid_index_name :: "u64 \<Rightarrow> string" where
  "ppid_index_name i = ''idx:ppid@'' @ show_nat (unat i)"

definition name_index_name :: "u64 \<Rightarrow> string" where
  "name_index_name i = ''idx:name@'' @ show_nat (unat i)"

definition exe_index_name :: "u64 \<Rightarrow> string" where
  "exe_index_name i = ''idx:exe_hash@'' @ show_nat (unat i)"

definition exe_term :: "ProcessRecord \<Rightarrow> u128 option" where
  "exe_term r = Option.bind (executable_hash r) exe_hash_prefix"

section \<open>Writing events\<close>

text \<open>The open tables of one bucket; the last two may stay closed.\<close>

record BucketTables =
  base :: "(evkey, bytes) otable"
  pid_idx :: "(u32, evkey) multimap"
  name_idx :: "(u128, evkey) multimap"
  ppid_idx :: "(u32, evkey) multimap option"
  exe_idx :: "(u128, evkey) multimap option"

definition free_key :: "(evkey, bytes) otable \<Rightarrow> evkey \<Rightarrow> (evkey, StorageError) result" where
  "free_key t k =
     (if ot_get t k = None then Ok k
      else let here = ot_range_incl (fst k, 0) (fst k, - 1) t;
               highest = (if here = [] then 0 else snd (fst (last here))) in
           if highest = - 1 then Err (Overflow ''event key sequence at one millisecond'')
           else Ok (fst k, highest + 1))"

definition insert_record ::
    "'d store_env \<Rightarrow> BucketTables \<Rightarrow> evkey \<Rightarrow> ProcessRecord \<Rightarrow> (BucketTables, StorageError) result" where
  "insert_record env bt wanted r =
     (case encode_value env r of Err e \<Rightarrow> Err e
      | Ok b \<Rightarrow> (case free_key (base bt) wanted of Err e \<Rightarrow> Err e
        | Ok k \<Rightarrow> Ok \<lparr>base = ot_insert k b (base bt),
                     pid_idx = mm_insert (pid r) k (pid_idx bt),
                     name_idx = mm_insert (name_hash128 env (name r)) k (name_idx bt),
                     ppid_idx = (case ppid r of None \<Rightarrow> ppid_idx bt
                                 | Some p \<Rightarrow> map_option (mm_insert p k) (ppid_idx bt)),
                     exe_idx = (case exe_term r of None \<Rightarrow> exe_idx bt
                                | Some x \<Rightarrow> map_option (mm_insert x k) (exe_idx bt))\<rparr>))"

definition open_bucket :: "Db \<Rightarrow> u64 \<Rightarrow> bool \<Rightarrow> bool \<Rightarrow> BucketTables" where
  "open_bucket t i with_ppid with_exe =
     \<lparr>base = opened (event_tables t) (bucket_table_name i),
      pid_idx = opened (u32_tables t) (pid_index_name i),
      name_idx = opened (hash_tables t) (name_index_name i),
      ppid_idx = (if with_ppid then Some (opened (u32_tables t) (ppid_index_name i)) else None),
      exe_idx = (if with_exe then Some (opened (hash_tables t) (exe_index_name i)) else None)\<rparr>"

definition close_bucket :: "u64 \<Rightarrow> BucketTables \<Rightarrow> Db \<Rightarrow> Db" where
  "close_bucket i bt t =
     t\<lparr>event_tables := hm_insert (bucket_table_name i) (base bt) (event_tables t),
       u32_tables := (case ppid_idx bt of None \<Rightarrow> id | Some x \<Rightarrow> hm_insert (ppid_index_name i) x)
                       (hm_insert (pid_index_name i) (pid_idx bt) (u32_tables t)),
       hash_tables := (case exe_idx bt of None \<Rightarrow> id | Some x \<Rightarrow> hm_insert (exe_index_name i) x)
                        (hm_insert (name_index_name i) (name_idx bt) (hash_tables t))\<rparr>"

text \<open>The clock is the argument \<open>now\<close>, in milliseconds.\<close>

record 'd EventStore =
  db :: 'd
  page_cache_bytes :: nat
  granularity_ms :: u64
  retention_ms :: u64
  mrc_window_ms :: u64
  closed_bucket_writes :: u64

definition DEFAULT_RETENTION_MS :: u64 where
  "DEFAULT_RETENTION_MS = 604800000"

definition DEFAULT_MRC_WINDOW_MS :: u64 where
  "DEFAULT_MRC_WINDOW_MS = 1800000"

definition from_database :: "'d \<Rightarrow> nat \<Rightarrow> 'd EventStore" where
  "from_database d cache =
     \<lparr>db = d, page_cache_bytes = cache, granularity_ms = choose_granularity DEFAULT_RETENTION_MS,
      retention_ms = DEFAULT_RETENTION_MS, mrc_window_ms = DEFAULT_MRC_WINDOW_MS,
      closed_bucket_writes = 0\<rparr>"

definition note_write :: "int \<Rightarrow> u64 \<Rightarrow> 'd EventStore \<Rightarrow> 'd EventStore" where
  "note_write now bucket s =
     (let opn = (if now < 0 \<or> granularity_ms s = 0 then 0 else word_of_int now div granularity_ms s) in
      if bucket < opn then s\<lparr>closed_bucket_writes := closed_bucket_writes s + 1\<rparr> else s)"

definition put_event ::
    "'d store_env \<Rightarrow> int \<Rightarrow> u64 \<Rightarrow> u32 \<Rightarrow> ProcessRecord \<Rightarrow> 'd EventStore
       \<Rightarrow> (unit, StorageError) result \<times> 'd EventStore" where
  "put_event env now ts_ms sq r s =
     (case bucket_id ts_ms (granularity_ms s) of Err e \<Rightarrow> (Err e, s)
      | Ok i \<Rightarrow> (case begin_write env (db s) of Err e \<Rightarrow> (Err e, s)
        | Ok txn \<Rightarrow>
          (case insert_record env (open_bucket txn i (ppid r \<noteq> None) (exe_term r \<noteq> None)) (ts_ms, sq) r of
             Err e \<Rightarrow> (Err e, s)
           | Ok bt \<Rightarrow> (case commit env (db s) (close_bucket i bt txn) of
               (Err e, d) \<Rightarrow> (Err e, s\<lparr>db := d\<rparr>)
             | (Ok _, d) \<Rightarrow> (Ok (), note_write now i (s\<lparr>db := d\<rparr>))))))"

text \<open>A submission of the ingest pipeline, see \<open>Ingest\<close>.\<close>

record IngestRecord =
  collector_id :: string
  source_seq :: u64
  ts_ms :: u64
  seq :: u32
  event_record :: ProcessRecord

fun group_by_bucket ::
    "u64 \<Rightarrow> IngestRecord list \<Rightarrow> (u64, IngestRecord list) otable \<Rightarrow> ((u64, IngestRecord list) otable, StorageError) result" where
  "group_by_bucket g [] m = Ok m"
| "group_by_bucket g (rec # recs) m =
     (case bucket_id (ts_ms rec) g of Err e \<Rightarrow> Err e
      | Ok i \<Rightarrow> group_by_bucket g recs
          (ot_insert i ((case ot_get m i of None \<Rightarrow> [] | Some rs \<Rightarrow> rs) @ [rec]) m))"

fun insert_records ::
    "'d store_env \<Rightarrow> IngestRecord list \<Rightarrow> BucketTables \<Rightarrow> (BucketTables, StorageError) result" where
  "insert_records env [] bt = Ok bt"
| "insert_records env (rec # recs) bt =
     (case insert_record env bt (ts_ms rec, seq rec) (event_record rec) of Err e \<Rightarrow> Err e
      | Ok bt' \<Rightarrow> insert_records env recs bt')"

fun write_buckets ::
    "'d store_env \<Rightarrow> (u64, IngestRecord list) otable \<Rightarrow> Db \<Rightarrow> (Db, StorageError) result" where
  "write_buckets env [] txn = Ok txn"
| "write_buckets env ((i, recs) # groups) txn =
     (case insert_records env recs (open_bucket txn i True True) of Err e \<Rightarrow> Err e
      | Ok bt \<Rightarrow> write_buckets env groups (close_bucket i bt txn))"

definition batch_max :: "IngestRecord list \<Rightarrow> (string, u64) hash_map" where
  "batch_max recs = fold (\<lambda>rec. hm_entry (collector_id rec) 0 (\<lambda>m. max m (source_seq rec))) recs []"

definition raise_mark :: "string \<times> u64 \<Rightarrow> (string, u64) hash_map \<Rightarrow> (string, u64) hash_map" where
  "raise_mark cm table =
     (case hm_get table (fst cm) of
        None \<Rightarrow> hm_insert (fst cm) (snd cm) table
      | Some current \<Rightarrow> if current < snd cm then hm_insert (fst cm) (snd cm) table else table)"

definition persist_watermarks :: "IngestRecord list \<Rightarrow> Db \<Rightarrow> Db" where
  "persist_watermarks recs txn =
     txn\<lparr>watermark_table := Some (fold raise_mark (batch_max recs)
        (case watermark_table txn of None \<Rightarrow> [] | Some table \<Rightarrow> table))\<rparr>"

definition put_batch ::
    "'d store_env \<Rightarrow> int \<Rightarrow> IngestRecord list \<Rightarrow> 'd EventStore \<Rightarrow> (unit, StorageError) result \<times> 'd EventStore" where
  "put_batch env now recs s =
     (if recs = [] then (Ok (), s)
      else case group_by_bucket (granularity_ms s) recs [] of Err e \<Rightarrow> (Err e, s)
      | Ok groups \<Rightarrow> (case begin_write env (db s) of Err e \<Rightarrow> (Err e, s)
        | Ok txn \<Rightarrow> (case write_buckets env groups txn of Err e \<Rightarrow> (Err e, s)
          | Ok txn' \<Rightarrow> (case commit env (db s) (persist_watermarks recs txn') of
              (Err e, d) \<Rightarrow> (Err e, s\<lparr>db := d\<rparr>)
            | (Ok _, d) \<Rightarrow> (Ok (), (case groups of [] \<Rightarrow> id | (oldest, _) # _ \<Rightarrow> note_write now oldest) (s\<lparr>db := d\<rparr>))))))"

section \<open>Marks\<close>

definition ingest_watermarks :: "'d store_env \<Rightarrow> 'd EventStore \<Rightarrow> ((string, u64) hash_map, StorageError) result" where
  "ingest_watermarks env s =
     (case begin_read env (db s) of Err e \<Rightarrow> Err e
      | Ok txn \<Rightarrow> (case watermark_table txn of None \<Rightarrow> Ok [] | Some table \<Rightarrow> Ok table))"

definition evaluated_through_ms :: "'d store_env \<Rightarrow> string \<Rightarrow> 'd EventStore \<Rightarrow> (u64 option, StorageError) result" where
  "evaluated_through_ms env c s =
     (case begin_read env (db s) of Err e \<Rightarrow> Err e
      | Ok txn \<Rightarrow> (case cursor_table txn of None \<Rightarrow> Ok None | Some table \<Rightarrow> Ok (hm_get table c)))"

definition set_evaluated_through_ms ::
    "'d store_env \<Rightarrow> string \<Rightarrow> u64 \<Rightarrow> 'd EventStore \<Rightarrow> (unit, StorageError) result \<times> 'd EventStore" where
  "set_evaluated_through_ms env c through s =
     (case begin_write env (db s) of Err e \<Rightarrow> (Err e, s)
      | Ok txn \<Rightarrow>
        (let table = (case cursor_table txn of None \<Rightarrow> [] | Some table \<Rightarrow> table) in
         case commit env (db s) (txn\<lparr>cursor_table := Some (raise_mark (c, through) table)\<rparr>) of
           (Err e, d) \<Rightarrow> (Err e, s\<lparr>db := d\<rparr>)
         | (Ok _, d) \<Rightarrow> (Ok (), s\<lparr>db := d\<rparr>)))"

section \<open>Reading events\<close>

definition WATERMARK_TABLE :: string where
  "WATERMARK_TABLE = ''ingest_watermarks''"

definition CURSOR_TABLE :: string where
  "CURSOR_TABLE = ''detection_cursor''"

definition list_tables :: "Db \<Rightarrow> string list" where
  "list_tables t = map fst (event_tables t)
     @ (if watermark_table t = None then [] else [WATERMARK_TABLE])
     @ (if cursor_table t = None then [] else [CURSOR_TABLE])"

definition collect_bucket_ids :: "Db \<Rightarrow> u64 list" where
  "collect_bucket_ids t = sort (List.map_filter parse_bucket_name (list_tables t))"

definition fetch :: "'d store_env \<Rightarrow> (evkey, bytes) otable \<Rightarrow> evkey \<Rightarrow> (ProcessRecord list, StorageError) result" where
  "fetch env t k =
     (case ot_get t k of None \<Rightarrow> Ok []
      | Some b \<Rightarrow> (case decode_value env b of Err e \<Rightarrow> Err e | Ok r \<Rightarrow> Ok [r]))"

definition find_by_pid :: "'d store_env \<Rightarrow> u32 \<Rightarrow> 'd EventStore \<Rightarrow> (ProcessRecord list, StorageError) result" where
  "find_by_pid env p s =
     (case begin_read env (db s) of Err e \<Rightarrow> Err e
      | Ok txn \<Rightarrow> try_concat (\<lambda>i.
          case hm_get (u32_tables txn) (pid_index_name i) of None \<Rightarrow> Ok []
          | Some idx \<Rightarrow> (case hm_get (event_tables txn) (bucket_table_name i) of
              None \<Rightarrow> Err (TableError (bucket_table_name i))
            | Some t \<Rightarrow> try_concat (fetch env t) (mm_get idx p))) (collect_bucket_ids txn))"

definition find_by_name :: "'d store_env \<Rightarrow> string \<Rightarrow> 'd EventStore \<Rightarrow> (ProcessRecord list, StorageError) result" where
  "find_by_name env nm s =
     (case begin_read env (db s) of Err e \<Rightarrow> Err e
      | Ok txn \<Rightarrow> try_concat (\<lambda>i.
          case hm_get (hash_tables txn) (name_index_name i) of None \<Rightarrow> Ok []
          | Some idx \<Rightarrow> (case hm_get (event_tables txn) (bucket_table_name i) of
              None \<Rightarrow> Err (TableError (bucket_table_name i))
            | Some t \<Rightarrow> try_concat (\<lambda>k.
                case fetch env t k of Err e \<Rightarrow> Err e
                | Ok rs \<Rightarrow> Ok (filter (\<lambda>r. to_lowercase env (name r) = to_lowercase env nm) rs))
                (mm_get idx (name_hash128 env nm)))) (collect_bucket_ids txn))"

definition get_event :: "'d store_env \<Rightarrow> u64 \<Rightarrow> u32 \<Rightarrow> 'd EventStore \<Rightarrow> (ProcessRecord option, StorageError) result" where
  "get_event env t sq s =
     (case bucket_id t (granularity_ms s) of Err e \<Rightarrow> Err e
      | Ok i \<Rightarrow> (case begin_read env (db s) of Err e \<Rightarrow> Err e
        | Ok txn \<Rightarrow> (case hm_get (event_tables txn) (bucket_table_name i) of None \<Rightarrow> Ok None
          | Some table \<Rightarrow> (case ot_get table (t, sq) of None \<Rightarrow> Ok None
            | Some b \<Rightarrow> (case decode_value env b of Err e \<Rightarrow> Err e | Ok r \<Rightarrow> Ok (Some r))))))"

definition scan_range :: "'d store_env \<Rightarrow> u64 \<Rightarrow> u64 \<Rightarrow> 'd EventStore \<Rightarrow> (ProcessRecord list, StorageError) result" where
  "scan_range env start_ms end_ms s =
     (if end_ms \<le> start_ms then Ok []
      else case bucket_id start_ms (granularity_ms s) of Err e \<Rightarrow> Err e
      | Ok start_bucket \<Rightarrow> (case bucket_id (sat_sub end_ms 1) (granularity_ms s) of Err e \<Rightarrow> Err e
        | Ok end_bucket \<Rightarrow> (case begin_read env (db s) of Err e \<Rightarrow> Err e
          | Ok txn \<Rightarrow> try_concat (\<lambda>i.
              if i < start_bucket \<or> end_bucket < i then Ok []
              else case hm_get (event_tables txn) (bucket_table_name i) of None \<Rightarrow> Ok []
              | Some t \<Rightarrow> try_concat (\<lambda>(_, b).
                  case decode_value env b of Err e \<Rightarrow> Err e | Ok r \<Rightarrow> Ok [r])
                  (ot_range (start_ms, 0) (end_ms, 0) t)) (collect_bucket_ids txn))))"

definition pid_postings :: "'d store_env \<Rightarrow> u32 \<Rightarrow> 'd EventStore \<Rightarrow> (evkey list, StorageError) result" where
  "pid_postings env p s =
     (case begin_read env (db s) of Err e \<Rightarrow> Err e
      | Ok txn \<Rightarrow>
        (case try_concat (\<lambda>i. case hm_get (u32_tables txn) (pid_index_name i) of None \<Rightarrow> Ok []
                              | Some idx \<Rightarrow> Ok (mm_get idx p)) (collect_bucket_ids txn) of
           Err e \<Rightarrow> Err e | Ok out \<Rightarrow> Ok (sort out)))"

definition list_buckets :: "'d store_env \<Rightarrow> 'd EventStore \<Rightarrow> (u64 list, StorageError) result" where
  "list_buckets env s = (case begin_read env (db s) of Err e \<Rightarrow> Err e | Ok txn \<Rightarrow> Ok (collect_bucket_ids txn))"

section \<open>Retention\<close>

fun drop_buckets :: "u64 list \<Rightarrow> Db \<Rightarrow> nat \<times> Db" where
  "drop_buckets [] txn = (0, txn)"
| "drop_buckets (i # ids) txn =
     (let present = (hm_get (event_tables txn) (bucket_table_name i) \<noteq> None);
          txn' = txn\<lparr>event_tables := hm_remove (bucket_table_name i) (event_tables txn),
                     u32_tables := hm_remove (ppid_index_name i) (hm_remove (pid_index_name i) (u32_tables txn)),
                     hash_tables := hm_remove (exe_index_name i) (hm_remove (name_index_name i) (hash_tables txn))\<rparr>
      in case drop_buckets ids txn' of (n, t) \<Rightarrow> ((if present then 1 else 0) + n, t))"

definition drop_expired :: "'d store_env \<Rightarrow> u64 \<Rightarrow> 'd EventStore \<Rightarrow> (nat, StorageError) result \<times> 'd EventStore" where
  "drop_expired env now_ms s =
     (case retention_cutoff now_ms (retention_ms s) (granularity_ms s) of Err e \<Rightarrow> (Err e, s)
      | Ok cutoff \<Rightarrow> (case begin_read env (db s) of Err e \<Rightarrow> (Err e, s)
        | Ok rtxn \<Rightarrow>
          (let expired = filter (\<lambda>i. i < cutoff) (collect_bucket_ids rtxn) in
           if expired = [] then (Ok 0, s)
           else case begin_write env (db s) of Err e \<Rightarrow> (Err e, s)
           | Ok txn \<Rightarrow> (case drop_buckets expired txn of (dropped, txn') \<Rightarrow>
               (case commit env (db s) txn' of
                  (Err e, d) \<Rightarrow> (Err e, s\<lparr>db := d\<rparr>)
                | (Ok _, d) \<Rightarrow> (Ok dropped, s\<lparr>db := d\<rparr>))))))"

end
