(* ===== verification/Event_Store_Inv.thy ===== *)
theory Event_Store_Inv
  imports Event_Store
begin

text \<open>
  The invariant of the event store and what its operations promise: the indexes of a bucket list
  exactly its rows, every write keeps all earlier rows, reads by process, name and time return
  exactly the rows asked for in the order of their keys, and retention drops whole old buckets.
\<close>

section \<open>Codecs\<close>

lemma word_less_succ: "w \<noteq> - 1 \<Longrightarrow> w < w + 1" for w :: "'a::len word"
proof -
  assume "w \<noteq> - 1"
  then have "unat w \<noteq> 2 ^ LENGTH('a) - 1"
    by (metis unsigned_minus_1_eq_mask mask_eq_exp_minus_1 unsigned_word_eqI)
  then have "Suc (unat w) < 2 ^ LENGTH('a)"
    using unsigned_less [of w, where 'a = nat] by linarith
  then show ?thesis
    by (simp add: word_less_nat_alt unat_word_ariths)
qed

lemma length_be_bytes [simp]: "length (be_bytes n x) = n"
  by (induction n x rule: be_bytes.induct) auto

lemma be_value_Nil [simp]: "be_value [] = 0"
  by (simp add: be_value_def)

lemma be_value_snoc: "be_value (bs @ [b]) = be_value bs * 256 + unat b"
  by (simp add: be_value_def)

lemma be_value_be_bytes: "be_value (be_bytes n x) = x mod 256 ^ n"
proof (induction n x rule: be_bytes.induct)
  case (2 n x)
  have "unat (word_of_nat (x mod 256) :: u8) = x mod 256"
    by (simp add: unat_of_nat)
  with 2 show ?case
    by (simp add: be_value_snoc mod_mult2_eq [of x 256 "256 ^ n"])
qed simp

lemma foldl_be_shift: "foldl (\<lambda>acc b. acc * 256 + unat b) a bs = a * 256 ^ length bs + be_value bs"
proof (induction bs rule: rev_induct)
  case (snoc b bs)
  then show ?case
    by (simp add: be_value_snoc algebra_simps)
qed simp

lemma be_value_Cons: "be_value (b # bs) = unat b * 256 ^ length bs + be_value bs"
  using foldl_be_shift [of "unat b" bs] by (simp add: be_value_def)

lemma be_value_less: "be_value bs < 256 ^ length bs"
proof (induction bs rule: rev_induct)
  case (snoc b bs)
  have "unat b < 256"
    using unsigned_less [of b, where 'a = nat] by simp
  with snoc show ?case
    by (simp add: be_value_snoc)
qed simp

lemma be_value_append: "be_value (xs @ ys) = be_value xs * 256 ^ length ys + be_value ys"
  by (induction xs) (auto simp: be_value_Cons algebra_simps power_add)

text \<open>Comparing byte slices of one length compares the numbers they spell.\<close>

lemma bytes_less_value:
  "length xs = length ys \<Longrightarrow> bytes_less xs ys \<longleftrightarrow> be_value xs < be_value ys"
proof (induction xs ys rule: list_induct2)
  case (Cons x xs y ys)
  let ?B = "256 ^ length ys :: nat"
  have bound: "be_value xs < ?B" "be_value ys < ?B"
    using be_value_less [of xs] be_value_less [of ys] Cons.hyps by simp_all
  have less: "unat a * ?B + u < unat b * ?B + v" if "a < b" "u < ?B" for a b :: u8 and u v
  proof -
    have "unat a + 1 \<le> unat b" using that(1) by (simp add: word_less_nat_alt)
    then have "(unat a + 1) * ?B \<le> unat b * ?B" by (rule mult_le_mono1)
    with that(2) show ?thesis by simp
  qed
  consider "x < y" | "x = y" | "y < x" by (rule linorder_cases)
  then show ?case
  proof cases
    case 3
    with less [OF 3 bound(2), of "be_value xs"] Cons show ?thesis
      by (auto simp: be_value_Cons)
  qed (use less bound Cons in \<open>auto simp: be_value_Cons\<close>)
qed simp

lemma be_value_key: "be_value (key_as_bytes k) = (unat (fst k) * 256 ^ 4 + unat (snd k)) * 256 ^ 4"
proof -
  have "unat (fst k) < 256 ^ 8" "unat (snd k) < 256 ^ 4"
    using unsigned_less [of "fst k", where 'a = nat] unsigned_less [of "snd k", where 'a = nat] by simp_all
  moreover have "be_value (replicate 4 0) = 0"
    by (simp add: be_value_def eval_nat_numeral)
  ultimately show ?thesis
    by (simp add: key_as_bytes_def be_value_append be_value_be_bytes del: power_Suc)
qed

lemma length_key_as_bytes [simp]: "length (key_as_bytes k) = KEY_WIDTH"
  by (simp add: key_as_bytes_def KEY_WIDTH_def)

lemma key_roundtrip: "key_from_bytes (key_as_bytes k) = k"
proof -
  have "unat (fst k) < 256 ^ 8" "unat (snd k) < 256 ^ 4"
    using unsigned_less [of "fst k", where 'a = nat] unsigned_less [of "snd k", where 'a = nat] by simp_all
  then show ?thesis
    by (cases k) (simp add: key_from_bytes_def key_as_bytes_def read_u64_be_def read_u32_be_def
        be_value_be_bytes del: power_Suc be_bytes.simps)
qed

lemma key_order: "bytes_less (key_as_bytes k) (key_as_bytes k') \<longleftrightarrow> k < k'"
proof -
  have bound: "unat (snd k) < 4294967296" "unat (snd k') < 4294967296"
    using unsigned_less [of "snd k", where 'a = nat] unsigned_less [of "snd k'", where 'a = nat] by simp_all
  have "bytes_less (key_as_bytes k) (key_as_bytes k') \<longleftrightarrow>
      unat (fst k) * 4294967296 + unat (snd k) < unat (fst k') * 4294967296 + unat (snd k')"
    by (simp add: bytes_less_value be_value_key) arith
  also have "\<dots> \<longleftrightarrow> unat (fst k) < unat (fst k') \<or> unat (fst k) = unat (fst k') \<and> unat (snd k) < unat (snd k')"
    using bound by linarith
  also have "\<dots> \<longleftrightarrow> k < k'"
    by (cases k; cases k') (auto simp: less_prod_def word_less_nat_alt word_le_nat_alt dest: unsigned_word_eqI)
  finally show ?thesis .
qed

lemma decode_encode:
  assumes "postcard_inverts env" "encode_value env r = Ok b"
  shows "decode_value env b = Ok r"
  using assms by (auto simp: postcard_inverts_def encode_value_def decode_value_def split: sum.splits)

section \<open>Names of tables\<close>

lemma parse_bucket_table_name [simp]: "parse_bucket_name (bucket_table_name i) = Some i"
  by (simp add: parse_bucket_name_def bucket_table_name_def parse_u64_show)

lemma table_names_inj [simp]:
  "bucket_table_name i = bucket_table_name j \<longleftrightarrow> i = j"
  "pid_index_name i = pid_index_name j \<longleftrightarrow> i = j"
  "ppid_index_name i = ppid_index_name j \<longleftrightarrow> i = j"
  "name_index_name i = name_index_name j \<longleftrightarrow> i = j"
  "exe_index_name i = exe_index_name j \<longleftrightarrow> i = j"
  by (auto simp: bucket_table_name_def pid_index_name_def ppid_index_name_def name_index_name_def
      exe_index_name_def dest: unsigned_word_eqI)

lemma table_names_distinct [simp]:
  "pid_index_name i \<noteq> ppid_index_name j" "ppid_index_name j \<noteq> pid_index_name i"
  "name_index_name i \<noteq> exe_index_name j" "exe_index_name j \<noteq> name_index_name i"
  by (auto simp: pid_index_name_def ppid_index_name_def name_index_name_def exe_index_name_def)

lemma plain_tables_no_bucket [simp]:
  "parse_bucket_name WATERMARK_TABLE = None" "parse_bucket_name CURSOR_TABLE = None"
  by (simp_all add: parse_bucket_name_def strip_prefix_def WATERMARK_TABLE_def CURSOR_TABLE_def BUCKET_PREFIX_def)


section \<open>Rows and their indexes\<close>

definition bucket_rows :: "Db \<Rightarrow> u64 \<Rightarrow> (evkey, bytes) otable" where
  "bucket_rows t i = opened (event_tables t) (bucket_table_name i)"

definition all_rows :: "Db \<Rightarrow> (evkey, bytes) otable" where
  "all_rows t = concat (map (bucket_rows t) (collect_bucket_ids t))"

definition decoded :: "'d store_env \<Rightarrow> evkey \<times> bytes \<Rightarrow> evkey \<times> ProcessRecord" where
  "decoded env row = (fst row, case decode_value env (snd row) of Ok r \<Rightarrow> r | Err _ \<Rightarrow> undefined)"

text \<open>Everything the store holds: the key of each event and the event, in the order of the keys.\<close>

definition stored :: "'d store_env \<Rightarrow> Db \<Rightarrow> (evkey \<times> ProcessRecord) list" where
  "stored env t = map (decoded env) (all_rows t)"

text \<open>An index lists exactly the rows that have a term, under that term.\<close>

definition indexes ::
    "'d store_env \<Rightarrow> (ProcessRecord \<Rightarrow> 't option) \<Rightarrow> ('t::linorder, evkey) multimap \<Rightarrow> (evkey, bytes) otable \<Rightarrow> bool" where
  "indexes env term_of idx t \<longleftrightarrow> ot_wf idx \<and>
     (\<forall>x k. (x, k) \<in> fst ` set idx \<longleftrightarrow> (\<exists>b r. (k, b) \<in> set t \<and> decode_value env b = Ok r \<and> term_of r = Some x))"

definition tables_inv :: "'d store_env \<Rightarrow> u64 \<Rightarrow> u64 \<Rightarrow> (evkey, bytes) otable \<Rightarrow> (u32, evkey) multimap
    \<Rightarrow> (u128, evkey) multimap \<Rightarrow> (u32, evkey) multimap \<Rightarrow> (u128, evkey) multimap \<Rightarrow> bool" where
  "tables_inv env g i t pids names ppids exes \<longleftrightarrow>
     ot_wf t \<and> (\<forall>(k, b) \<in> set t. fst k div g = i \<and> is_ok (decode_value env b)) \<and>
     indexes env (\<lambda>r. Some (pid r)) pids t \<and>
     indexes env (\<lambda>r. Some (name_hash128 env (name r))) names t \<and>
     indexes env ppid ppids t \<and> indexes env exe_term exes t"

definition bucket_inv :: "'d store_env \<Rightarrow> u64 \<Rightarrow> Db \<Rightarrow> u64 \<Rightarrow> bool" where
  "bucket_inv env g t i = tables_inv env g i (bucket_rows t i)
     (opened (u32_tables t) (pid_index_name i)) (opened (hash_tables t) (name_index_name i))
     (opened (u32_tables t) (ppid_index_name i)) (opened (hash_tables t) (exe_index_name i))"

definition db_inv :: "'d store_env \<Rightarrow> u64 \<Rightarrow> Db \<Rightarrow> bool" where
  "db_inv env g t \<longleftrightarrow> hm_wf (event_tables t) \<and>
     (\<forall>n \<in> fst ` set (event_tables t). n \<in> range bucket_table_name) \<and> (\<forall>i. bucket_inv env g t i)"

lemma opened_insert [simp]: "opened (hm_insert k v m) k' = (if k' = k then v else opened m k')"
  by (simp add: opened_def)

lemma opened_remove [simp]: "opened (hm_remove k m) k' = (if k' = k then [] else opened m k')"
  by (simp add: opened_def)

lemma opened_Nil [simp]: "opened [] k = []"
  by (simp add: opened_def)

lemma indexes_Nil [simp]: "indexes env term_of [] []"
  by (simp add: indexes_def)

lemma tables_inv_Nil [simp]: "tables_inv env g i [] [] [] [] []"
  by (simp add: tables_inv_def)

lemma db_inv_empty: "db_inv env g empty_db"
  by (simp add: db_inv_def empty_db_def bucket_inv_def bucket_rows_def)

text \<open>A row under a new key keeps an index exact, whether the row has a term or not.\<close>

definition index_add :: "('t::linorder) option \<Rightarrow> evkey \<Rightarrow> ('t, evkey) multimap \<Rightarrow> ('t, evkey) multimap" where
  "index_add x k idx = (case x of None \<Rightarrow> idx | Some y \<Rightarrow> mm_insert y k idx)"

lemma index_add_simps [simp]: "index_add None k idx = idx" "index_add (Some y) k idx = mm_insert y k idx"
  by (simp_all add: index_add_def)

lemma indexes_add:
  assumes "indexes env term_of idx t" "ot_get t k = None" "decode_value env b = Ok r"
  shows "indexes env term_of (index_add (term_of r) k idx) (ot_insert k b t)"
proof -
  have fresh: "(k, b') \<notin> set t" for b'
    using assms(2) by (force simp: ot_get_None_iff)
  show ?thesis
    using assms(1,3) fresh
    by (cases "term_of r") (auto simp: indexes_def set_ot_insert_fresh [OF assms(2)] fst_set_mm_insert)
qed

lemma tables_inv_add:
  assumes "tables_inv env g i t pids names ppids exes"
    and "ot_get t k = None" "decode_value env b = Ok r" "fst k div g = i"
  shows "tables_inv env g i (ot_insert k b t) (mm_insert (pid r) k pids)
    (mm_insert (name_hash128 env (name r)) k names) (index_add (ppid r) k ppids) (index_add (exe_term r) k exes)"
proof -
  note inv = assms(1)[unfolded tables_inv_def]
  note add = indexes_add [OF _ assms(2,3)]
  have "indexes env (\<lambda>r. Some (pid r)) (mm_insert (pid r) k pids) (ot_insert k b t)"
    using add [of "\<lambda>r. Some (pid r)" pids] inv by simp
  moreover have "indexes env (\<lambda>r. Some (name_hash128 env (name r))) (mm_insert (name_hash128 env (name r)) k names) (ot_insert k b t)"
    using add [of "\<lambda>r. Some (name_hash128 env (name r))" names] inv by simp
  moreover have "indexes env ppid (index_add (ppid r) k ppids) (ot_insert k b t)"
    using add [of ppid ppids] inv by simp
  moreover have "indexes env exe_term (index_add (exe_term r) k exes) (ot_insert k b t)"
    using add [of exe_term exes] inv by simp
  moreover have "\<forall>(k, b) \<in> set (ot_insert k b t). fst k div g = i \<and> is_ok (decode_value env b)"
    using inv assms(3,4) by (auto simp: set_ot_insert_fresh [OF assms(2)])
  ultimately show ?thesis
    using inv unfolding tables_inv_def by simp
qed

text \<open>The key a row gets is free and keeps its millisecond.\<close>

lemma free_key_fresh:
  assumes "ot_wf t" "free_key t k = Ok k'"
  shows "ot_get t k' = None \<and> fst k' = fst k"
proof (cases "ot_get t k = None")
  case True
  with assms(2) show ?thesis by (auto simp: free_key_def)
next
  case False
  let ?here = "ot_range_incl (fst k, 0) (fst k, - 1) t"
  have mem: "(k0, b) \<in> set ?here \<longleftrightarrow> (k0, b) \<in> set t \<and> fst k0 = fst k" for k0 b
    by (cases k0) (auto simp: ot_range_incl_def less_eq_prod_def)
  obtain b where "(k, b) \<in> set t"
    using False by (auto simp: ot_get_def dest: map_of_SomeD)
  then have ne: "?here \<noteq> []"
    using mem [of k b] by force
  define h where "h = snd (fst (last ?here))"
  have k': "k' = (fst k, h + 1)" and h: "h \<noteq> - 1"
    using assms(2) False ne by (auto simp: free_key_def h_def Let_def split: if_splits)
  have wf: "ot_wf ?here"
    unfolding ot_range_incl_def by (rule ot_wf_filter [OF assms(1)])
  have "fst (last ?here) = (fst k, h)"
    using mem [of "fst (last ?here)" "snd (last ?here)"] last_in_set [OF ne] by (simp add: h_def prod_eq_iff)
  then have max: "k0 \<le> (fst k, h)" if "(k0, b0) \<in> set ?here" for k0 b0
    using ot_last_max [OF wf, of k0] that by force
  have "h < h + 1"
    by (rule word_less_succ [OF h])
  then have "(k', b0) \<notin> set t" for b0
    using max [of k' b0] mem [of k' b0] by (auto simp: k' less_eq_prod_def)
  then show ?thesis
    by (force simp: k' ot_get_None_iff)
qed


section \<open>The live buckets\<close>

definition named_ok :: "Db \<Rightarrow> bool" where
  "named_ok t \<longleftrightarrow> hm_wf (event_tables t) \<and> (\<forall>n \<in> fst ` set (event_tables t). n \<in> range bucket_table_name)"

lemma db_inv_alt: "db_inv env g t \<longleftrightarrow> named_ok t \<and> (\<forall>i. bucket_inv env g t i)"
  by (auto simp: db_inv_def named_ok_def)

lemma map_filter_parse: "List.map_filter parse_bucket_name (list_tables t) = List.map_filter parse_bucket_name (map fst (event_tables t))"
  by (simp add: list_tables_def List.map_filter_def)

lemma map_filter_inverse: "(\<And>x. x \<in> set xs \<Longrightarrow> x \<in> range f) \<Longrightarrow> (\<And>i. g (f i) = Some i) \<Longrightarrow> map f (List.map_filter g xs) = xs"
proof (induction xs)
  case (Cons x xs)
  obtain i where "x = f i" using Cons.prems(1) [of x] by auto
  with Cons show ?case by (simp add: map_filter_simps)
qed (simp add: map_filter_simps)

lemma collect_bucket_ids_facts:
  assumes "named_ok t"
  shows "set (collect_bucket_ids t) = {i. hm_get (event_tables t) (bucket_table_name i) \<noteq> None}" (is ?set)
    and "sorted_wrt (<) (collect_bucket_ids t)" (is ?sorted)
proof -
  let ?ns = "map fst (event_tables t)" and ?is = "List.map_filter parse_bucket_name (map fst (event_tables t))"
  have names: "map bucket_table_name ?is = ?ns"
    using assms by (intro map_filter_inverse) (auto simp: named_ok_def)
  have "distinct ?ns"
    using assms by (simp add: named_ok_def hm_wf_def)
  then have "distinct ?is"
    by (metis names distinct_map)
  then show ?sorted
    by (simp add: collect_bucket_ids_def map_filter_parse strict_sorted_iff)
  have "set ?ns = bucket_table_name ` set ?is"
    using arg_cong [OF names, of set] by (simp only: set_map [of bucket_table_name])
  then have "i \<in> set ?is \<longleftrightarrow> bucket_table_name i \<in> set ?ns" for i
    by auto
  then show ?set
    by (auto simp: collect_bucket_ids_def map_filter_parse hm_get_def map_of_eq_None_iff)
qed

lemma not_live_no_rows: "named_ok t \<Longrightarrow> i \<notin> set (collect_bucket_ids t) \<Longrightarrow> bucket_rows t i = []"
  by (auto simp: collect_bucket_ids_facts bucket_rows_def opened_def)

lemma mset_all_rows:
  assumes "named_ok t"
  shows "mset (all_rows t) = (\<Sum>i \<in> UNIV. mset (bucket_rows t i))"
proof -
  have "distinct (collect_bucket_ids t)"
    using collect_bucket_ids_facts(2) [OF assms] by (simp add: strict_sorted_iff)
  then have "mset (all_rows t) = (\<Sum>i \<in> set (collect_bucket_ids t). mset (bucket_rows t i))"
    by (simp add: all_rows_def mset_concat comp_def sum_list_distinct_conv_sum_set)
  also have "\<dots> = (\<Sum>i \<in> UNIV. mset (bucket_rows t i))"
    by (rule sum.mono_neutral_left) (auto simp: not_live_no_rows [OF assms])
  finally show ?thesis .
qed

lemma set_all_rows:
  assumes "named_ok t"
  shows "set (all_rows t) = (\<Union>i. set (bucket_rows t i))"
  using not_live_no_rows [OF assms] by (fastforce simp: all_rows_def)

text \<open>Rows of an earlier bucket have smaller keys, so the whole store is in key order.\<close>

lemma word_div_mono: "a \<le> b \<Longrightarrow> a div g \<le> b div g" for a b g :: u64
  by (simp add: word_le_nat_alt unat_div div_le_mono)

lemma ot_wf_append: "ot_wf (xs @ ys) \<longleftrightarrow> ot_wf xs \<and> ot_wf ys \<and> (\<forall>k \<in> fst ` set xs. \<forall>k' \<in> fst ` set ys. k < k')"
  by (auto simp: ot_wf_def sorted_wrt_append)

lemma ot_wf_concat:
  assumes "sorted_wrt (<) is" "\<And>i. i \<in> set is \<Longrightarrow> ot_wf (f i)"
    and "\<And>i k b. i \<in> set is \<Longrightarrow> (k, b) \<in> set (f i) \<Longrightarrow> fst k div g = i"
  shows "ot_wf (concat (map f is) :: (evkey, 'v) otable)"
  using assms
proof (induction "is")
  case (Cons i "is")
  have "k < k'" if "(k, b) \<in> set (f i)" "j \<in> set is" "(k', b') \<in> set (f j)" for k b j k' b'
  proof -
    have "fst k div g = i" "fst k' div g = j"
      using Cons.prems(3) [of i k b] Cons.prems(3) [of j k' b'] that by simp_all
    then have "fst k div g < fst k' div g"
      using Cons.prems(1) that(2) by simp
    then have "\<not> fst k' \<le> fst k"
      using word_div_mono [of "fst k'" "fst k" g] by auto
    then show ?thesis by (cases k; cases k') (auto simp: less_prod_def)
  qed
  then show ?case
    using Cons by (auto simp: ot_wf_append)
qed simp

lemma db_inv_bucket:
  assumes "db_inv env g t"
  shows "ot_wf (bucket_rows t i)" "(k, b) \<in> set (bucket_rows t i) \<Longrightarrow> fst k div g = i"
    "(k, b) \<in> set (bucket_rows t i) \<Longrightarrow> is_ok (decode_value env b)"
  using assms by (auto simp: db_inv_def bucket_inv_def tables_inv_def)

lemma ot_wf_all_rows: "db_inv env g t \<Longrightarrow> ot_wf (all_rows t)"
  unfolding all_rows_def
  by (rule ot_wf_concat [where g = g])
    (auto simp: db_inv_alt collect_bucket_ids_facts db_inv_bucket [unfolded db_inv_alt])

lemma map_fst_stored [simp]: "map fst (stored env t) = map fst (all_rows t)"
  by (simp add: stored_def comp_def decoded_def)

lemma ot_wf_stored: "db_inv env g t \<Longrightarrow> ot_wf (stored env t)"
  using ot_wf_all_rows by (fastforce simp: ot_wf_def)

section \<open>One record\<close>

lemma close_bucket_rows:
  "bucket_rows (close_bucket i bt t) j = (if j = i then base bt else bucket_rows t j)"
  by (simp add: bucket_rows_def close_bucket_def)

lemma bucket_inv_close_other: "j \<noteq> i \<Longrightarrow> bucket_inv env g (close_bucket i bt t) j = bucket_inv env g t j"
  by (simp add: bucket_inv_def close_bucket_rows) (simp add: close_bucket_def split: option.split)

lemma bucket_inv_close_same:
  "bucket_inv env g (close_bucket i bt t) i = tables_inv env g i (base bt) (pid_idx bt) (name_idx bt)
     (case ppid_idx bt of None \<Rightarrow> opened (u32_tables t) (ppid_index_name i) | Some x \<Rightarrow> x)
     (case exe_idx bt of None \<Rightarrow> opened (hash_tables t) (exe_index_name i) | Some x \<Rightarrow> x)"
  by (simp add: bucket_inv_def close_bucket_rows) (simp add: close_bucket_def split: option.split)

lemma bucket_inv_open: "bucket_inv env g (close_bucket i (open_bucket t i p e) t) i = bucket_inv env g t i"
  by (simp add: bucket_inv_close_same) (simp add: open_bucket_def bucket_inv_def bucket_rows_def)

lemma named_ok_close: "named_ok t \<Longrightarrow> named_ok (close_bucket i bt t)"
  by (auto simp: named_ok_def close_bucket_def hm_insert_def hm_wf_def dom_update distinct_update)

lemma insert_record_step:
  assumes "insert_record env bt w r = Ok bt'" "postcard_inverts env"
    and "bucket_inv env g (close_bucket i bt t) i" "fst w div g = i"
    and "ppid r \<noteq> None \<longrightarrow> ppid_idx bt \<noteq> None" "exe_term r \<noteq> None \<longrightarrow> exe_idx bt \<noteq> None"
  shows "bucket_inv env g (close_bucket i bt' t) i"
    and "\<exists>k b. base bt' = ot_insert k b (base bt) \<and> ot_get (base bt) k = None \<and> fst k = fst w \<and> decode_value env b = Ok r"
    and "(ppid_idx bt' = None) = (ppid_idx bt = None)" "(exe_idx bt' = None) = (exe_idx bt = None)"
proof -
  obtain b k where b: "encode_value env r = Ok b" and k: "free_key (base bt) w = Ok k"
    and bt': "bt' = \<lparr>base = ot_insert k b (base bt), pid_idx = mm_insert (pid r) k (pid_idx bt),
       name_idx = mm_insert (name_hash128 env (name r)) k (name_idx bt),
       ppid_idx = (case ppid r of None \<Rightarrow> ppid_idx bt | Some p \<Rightarrow> map_option (mm_insert p k) (ppid_idx bt)),
       exe_idx = (case exe_term r of None \<Rightarrow> exe_idx bt | Some x \<Rightarrow> map_option (mm_insert x k) (exe_idx bt))\<rparr>"
    using assms(1) by (auto simp: insert_record_def split: sum.splits)
  have dec: "decode_value env b = Ok r"
    by (rule decode_encode [OF assms(2) b])
  have wf: "ot_wf (base bt)"
    using assms(3) by (simp add: bucket_inv_close_same tables_inv_def)
  have fresh: "ot_get (base bt) k = None" "fst k = fst w"
    using free_key_fresh [OF wf k] by auto
  have kd: "fst k div g = i" using fresh(2) assms(4) by simp
  note inv = tables_inv_add [OF assms(3)[unfolded bucket_inv_close_same] fresh(1) dec kd]
  show "bucket_inv env g (close_bucket i bt' t) i"
    unfolding bucket_inv_close_same bt' using inv assms(5,6)
    by (cases "ppid r"; cases "exe_term r"; cases "ppid_idx bt"; cases "exe_idx bt") simp_all
  show "\<exists>k b. base bt' = ot_insert k b (base bt) \<and> ot_get (base bt) k = None \<and> fst k = fst w \<and> decode_value env b = Ok r"
    using fresh dec by (intro exI [of _ k] exI [of _ b]) (simp add: bt')
  show "(ppid_idx bt' = None) = (ppid_idx bt = None)" "(exe_idx bt' = None) = (exe_idx bt = None)"
    by (simp_all add: bt' split: option.split)
qed


section \<open>A batch\<close>

text \<open>Events with their times, without the numbers that tell apart events of one millisecond.\<close>

definition timed :: "'d store_env \<Rightarrow> (evkey, bytes) otable \<Rightarrow> (u64 \<times> ProcessRecord) multiset" where
  "timed env rows = image_mset (\<lambda>row. (fst (fst row), snd (decoded env row))) (mset rows)"

definition stored_at :: "'d store_env \<Rightarrow> Db \<Rightarrow> (u64 \<times> ProcessRecord) multiset" where
  "stored_at env t = mset (map (\<lambda>((time, _), r). (time, r)) (stored env t))"

definition rec_at :: "IngestRecord \<Rightarrow> u64 \<times> ProcessRecord" where
  "rec_at rec = (ts_ms rec, event_record rec)"

lemma stored_at_timed: "stored_at env t = timed env (all_rows t)"
  by (simp add: stored_at_def timed_def stored_def decoded_def comp_def case_prod_beta)

lemma timed_insert:
  "ot_get t k = None \<Longrightarrow> decode_value env b = Ok r \<Longrightarrow> timed env (ot_insert k b t) = add_mset (fst k, r) (timed env t)"
  by (simp add: timed_def mset_ot_insert_fresh decoded_def)

lemma insert_records_step:
  assumes "insert_records env recs bt = Ok bt'" "postcard_inverts env"
    and "bucket_inv env g (close_bucket i bt t) i" "\<forall>rec \<in> set recs. ts_ms rec div g = i"
    and "ppid_idx bt \<noteq> None" "exe_idx bt \<noteq> None"
  shows "bucket_inv env g (close_bucket i bt' t) i \<and> set (base bt) \<subseteq> set (base bt') \<and>
    timed env (base bt') = timed env (base bt) + mset (map rec_at recs)"
  using assms
proof (induction recs arbitrary: bt)
  case (Cons rec recs)
  obtain bt1 where one: "insert_record env bt (ts_ms rec, seq rec) (event_record rec) = Ok bt1"
    and rest: "insert_records env recs bt1 = Ok bt'"
    using Cons.prems(1) by (auto split: sum.splits)
  have ts: "fst (ts_ms rec, seq rec) div g = i"
    using Cons.prems(4) by simp
  note st = insert_record_step [OF one Cons.prems(2,3) ts, simplified Cons.prems(5,6), simplified]
  obtain k b where kb: "base bt1 = ot_insert k b (base bt)" "ot_get (base bt) k = None"
    "fst k = ts_ms rec" "decode_value env b = Ok (event_record rec)"
    using st(2) by auto
  have "bucket_inv env g (close_bucket i bt' t) i \<and> set (base bt1) \<subseteq> set (base bt') \<and>
      timed env (base bt') = timed env (base bt1) + mset (map rec_at recs)"
    by (rule Cons.IH [OF rest Cons.prems(2) st(1)]) (use Cons.prems(4-6) st(3,4) in auto)
  moreover have "set (base bt) \<subseteq> set (base bt1)"
    using set_ot_insert_fresh [OF kb(2)] by (auto simp: kb(1))
  moreover have "timed env (base bt1) = add_mset (rec_at rec) (timed env (base bt))"
    using timed_insert [OF kb(2,4)] by (simp add: kb(1,3) rec_at_def)
  ultimately show ?case by auto
qed simp

lemma all_rows_close:
  assumes "named_ok t"
  shows "mset (all_rows (close_bucket i bt t)) + mset (bucket_rows t i) = mset (all_rows t) + mset (base bt)"
proof -
  let ?S = "\<Sum>j \<in> UNIV - {i}. mset (bucket_rows t j)"
  have "mset (all_rows t) = mset (bucket_rows t i) + ?S"
    by (simp add: mset_all_rows [OF assms] sum.remove [of UNIV i])
  moreover have "mset (all_rows (close_bucket i bt t)) = mset (base bt) + ?S"
    by (simp add: mset_all_rows [OF named_ok_close [OF assms]] sum.remove [of UNIV i] close_bucket_rows)
  ultimately show ?thesis by simp
qed

lemma db_inv_close:
  assumes "db_inv env g t" "bucket_inv env g (close_bucket i bt t) i"
  shows "db_inv env g (close_bucket i bt t)"
proof -
  have "bucket_inv env g (close_bucket i bt t) j" for j
    using assms bucket_inv_close_other [of j i env g bt t] by (cases "j = i") (simp_all add: db_inv_def)
  then show ?thesis
    using assms(1) named_ok_close [of t i bt] by (simp add: db_inv_alt)
qed

text \<open>What writing a group of records changes.\<close>

definition grew :: "'d store_env \<Rightarrow> Db \<Rightarrow> Db \<Rightarrow> IngestRecord list \<Rightarrow> bool" where
  "grew env t t' recs \<longleftrightarrow> set (all_rows t) \<subseteq> set (all_rows t') \<and>
     stored_at env t' = stored_at env t + mset (map rec_at recs)"

lemma grew_refl [simp]: "grew env t t []"
  by (simp add: grew_def)

lemma grew_trans: "grew env t t' xs \<Longrightarrow> grew env t' t'' ys \<Longrightarrow> grew env t t'' (xs @ ys)"
  by (auto simp: grew_def)

lemma grew_close:
  assumes "named_ok t" "set (bucket_rows t i) \<subseteq> set (base bt)"
    and "timed env (base bt) = timed env (bucket_rows t i) + mset (map rec_at recs)"
  shows "grew env t (close_bucket i bt t) recs"
proof -
  have "timed env (all_rows (close_bucket i bt t)) + timed env (bucket_rows t i) =
      timed env (all_rows t) + timed env (base bt)"
    using arg_cong [OF all_rows_close [OF assms(1), of i bt],
        of "image_mset (\<lambda>row. (fst (fst row), snd (decoded env row)))"]
    by (simp add: timed_def)
  then have "stored_at env (close_bucket i bt t) = stored_at env t + mset (map rec_at recs)"
    by (simp add: stored_at_timed assms(3))
  moreover have "set (all_rows t) \<subseteq> set (all_rows (close_bucket i bt t))"
    unfolding set_all_rows [OF assms(1)] set_all_rows [OF named_ok_close [OF assms(1)]]
    by (rule UN_mono) (use assms(2) in \<open>simp_all add: close_bucket_rows\<close>)
  ultimately show ?thesis
    by (simp add: grew_def)
qed

lemma write_bucket_step:
  assumes "insert_records env recs (open_bucket t i True True) = Ok bt" "postcard_inverts env"
    and "db_inv env g t" "\<forall>rec \<in> set recs. ts_ms rec div g = i"
  shows "db_inv env g (close_bucket i bt t) \<and> grew env t (close_bucket i bt t) recs"
proof -
  have inv: "bucket_inv env g (close_bucket i (open_bucket t i True True) t) i"
    using assms(3) by (simp add: bucket_inv_open db_inv_def)
  have st: "bucket_inv env g (close_bucket i bt t) i \<and> set (base (open_bucket t i True True)) \<subseteq> set (base bt) \<and>
      timed env (base bt) = timed env (base (open_bucket t i True True)) + mset (map rec_at recs)"
    by (rule insert_records_step [OF assms(1,2) inv assms(4)]) (simp_all add: open_bucket_def)
  have base: "base (open_bucket t i True True) = bucket_rows t i"
    by (simp add: open_bucket_def bucket_rows_def)
  show ?thesis
    using db_inv_close [OF assms(3)] grew_close [of t i bt env recs] st assms(3)
    by (simp add: base db_inv_alt)
qed

definition grouped :: "u64 \<Rightarrow> (u64, IngestRecord list) otable \<Rightarrow> bool" where
  "grouped g m \<longleftrightarrow> (\<forall>i rs rec. (i, rs) \<in> set m \<longrightarrow> rec \<in> set rs \<longrightarrow> ts_ms rec div g = i)"

lemma write_buckets_step:
  assumes "write_buckets env groups t = Ok t'" "postcard_inverts env" "db_inv env g t"
    and "grouped g groups"
  shows "db_inv env g t' \<and> grew env t t' (concat (map snd groups))"
  using assms
proof (induction groups arbitrary: t)
  case (Cons ir groups)
  obtain i recs where ir: "ir = (i, recs)" by (cases ir)
  obtain bt where one: "insert_records env recs (open_bucket t i True True) = Ok bt"
    and rest: "write_buckets env groups (close_bucket i bt t) = Ok t'"
    using Cons.prems(1) by (auto simp: ir split: sum.splits)
  have st: "db_inv env g (close_bucket i bt t) \<and> grew env t (close_bucket i bt t) recs"
    by (rule write_bucket_step [OF one Cons.prems(2,3)]) (use Cons.prems(4) in \<open>auto simp: ir grouped_def\<close>)
  have "db_inv env g t' \<and> grew env (close_bucket i bt t) t' (concat (map snd groups))"
    by (rule Cons.IH [OF rest Cons.prems(2)]) (use st Cons.prems(4) in \<open>auto simp: grouped_def\<close>)
  with st grew_trans show ?case
    by (auto simp: ir)
qed simp

lemma write_buckets_marks:
  "write_buckets env groups t = Ok t' \<Longrightarrow>
     watermark_table t' = watermark_table t \<and> cursor_table t' = cursor_table t"
  by (induction env groups t rule: write_buckets.induct) (auto simp: close_bucket_def split: sum.splits)

lemma group_by_bucket_step:
  assumes "group_by_bucket g recs m = Ok m'" "ot_wf m" "grouped g m"
  shows "ot_wf m' \<and> grouped g m' \<and>
    mset (concat (map snd m')) = mset (concat (map snd m)) + mset recs"
  using assms
proof (induction recs arbitrary: m)
  case (Cons rec recs)
  let ?i = "ts_ms rec div g"
  let ?old = "case ot_get m ?i of None \<Rightarrow> [] | Some rs \<Rightarrow> rs"
  let ?m = "ot_insert ?i (?old @ [rec]) m"
  have rest: "group_by_bucket g recs ?m = Ok m'"
    using Cons.prems(1) by (simp add: bucket_id_def split: if_splits)
  have old: "ts_ms x div g = ?i" if "x \<in> set ?old" for x
    using that Cons.prems(3) by (cases "ot_get m ?i") (auto simp: ot_get_iff [OF Cons.prems(2)] grouped_def)
  have "(i, rs) \<in> set ?m \<longleftrightarrow> (if i = ?i then rs = ?old @ [rec] else (i, rs) \<in> set m)" for i rs
    by (auto simp: ot_get_iff [OF Cons.prems(2), symmetric] ot_get_iff [OF ot_wf_insert [OF Cons.prems(2)], symmetric])
  with old Cons.prems(3) have grp: "grouped g ?m"
    unfolding grouped_def by (auto split: if_splits)
  have cat: "mset (concat (map snd (ot_insert i (rs @ [rec]) m))) = add_mset rec (mset (concat (map snd m)))"
    if "ot_wf m" "rs = (case ot_get m i of None \<Rightarrow> [] | Some rs \<Rightarrow> rs)" for rs i
    using that
    by (induction i "rs @ [rec]" m rule: ot_insert.induct)
      (auto simp: ot_get_def ot_wf_Cons split: if_splits option.splits, force dest!: map_of_SomeD)
  show ?case
    using Cons.IH [OF rest ot_wf_insert [OF Cons.prems(2)] grp] cat [OF Cons.prems(2) refl] by simp
qed simp


section \<open>Watermarks\<close>

definition marks :: "Db \<Rightarrow> (string, u64) hash_map" where
  "marks t = (case watermark_table t of None \<Rightarrow> [] | Some table \<Rightarrow> table)"

text \<open>A mark raised to the greatest of some numbers.\<close>

definition raise1 :: "u64 option \<Rightarrow> u64 \<Rightarrow> u64 option" where
  "raise1 old x = Some (case old of None \<Rightarrow> x | Some m \<Rightarrow> max m x)"

definition raised :: "u64 option \<Rightarrow> u64 list \<Rightarrow> u64 option" where
  "raised old xs = foldl raise1 old xs"

definition seqs_of :: "string \<Rightarrow> IngestRecord list \<Rightarrow> u64 list" where
  "seqs_of c recs = map source_seq (filter (\<lambda>rec. collector_id rec = c) recs)"

lemma seqs_of_simps [simp]:
  "seqs_of c [] = []" "seqs_of c (xs @ ys) = seqs_of c xs @ seqs_of c ys"
  "seqs_of c (rec # recs) = (if collector_id rec = c then source_seq rec # seqs_of c recs else seqs_of c recs)"
  by (simp_all add: seqs_of_def)

lemma raised_simps [simp]:
  "raised old [] = old" "raised old (xs @ [x]) = raise1 (raised old xs) x"
  "raised old (x # xs) = raised (raise1 old x) xs" "raised old (xs @ ys) = raised (raised old xs) ys"
  by (simp_all add: raised_def)

lemma raised_None_iff: "raised old xs = None \<longleftrightarrow> old = None \<and> xs = []"
  by (induction xs rule: rev_induct) (auto simp: raise1_def)

lemma raised_bound: "raised old xs = Some m \<Longrightarrow> (\<forall>x \<in> set xs. x \<le> m) \<and> (\<forall>o'. old = Some o' \<longrightarrow> o' \<le> m)"
  by (induction xs arbitrary: m rule: rev_induct)
    (auto simp: raise1_def raised_None_iff le_max_iff_disj split: option.splits)

lemma raised_mem: "raised old xs = Some m \<Longrightarrow> m \<in> set xs \<or> old = Some m"
  by (induction xs arbitrary: m rule: rev_induct) (auto simp: raise1_def max_def split: option.splits if_splits)

lemma raised_raised: "raised (Some m) xs = raise1 (Some m) (case raised None xs of None \<Rightarrow> 0 | Some x \<Rightarrow> x)"
  by (induction xs rule: rev_induct) (auto simp: raise1_def max.assoc split: option.splits)

lemma batch_max_snoc: "batch_max (recs @ [rec]) = hm_entry (collector_id rec) 0 (\<lambda>m. max m (source_seq rec)) (batch_max recs)"
  by (simp add: batch_max_def)

lemma batch_max_facts: "hm_wf (batch_max recs) \<and> hm_get (batch_max recs) c = raised None (seqs_of c recs)"
proof (induction recs rule: rev_induct)
  case (snoc rec recs)
  then show ?case
    by (cases "collector_id rec = c") (auto simp: batch_max_snoc hm_get_entry raise1_def split: option.splits)
qed (simp add: batch_max_def)

lemma hm_get_raise_mark:
  "hm_get (raise_mark (c', m) table) c = (if c' = c then raise1 (hm_get table c) m else hm_get table c)"
  by (auto simp: raise_mark_def raise1_def max_def split: option.split)

lemma fold_raise_mark:
  "hm_wf ms \<Longrightarrow> hm_get (fold raise_mark ms table) c =
     (case hm_get ms c of None \<Rightarrow> hm_get table c | Some x \<Rightarrow> raise1 (hm_get table c) x)"
proof (induction ms arbitrary: table)
  case (Cons cm ms)
  obtain c' m where cm: "cm = (c', m)" by (cases cm)
  have wf: "hm_wf ms" and new: "hm_get ms c' = None"
    using Cons.prems by (auto simp: cm hm_wf_def hm_get_def map_of_eq_None_iff)
  show ?case
    using new by (auto simp: cm Cons.IH [OF wf] hm_get_raise_mark hm_get_def [of "(c', m) # ms"]
        simp flip: hm_get_def split: option.split)
qed simp

lemma persist_watermarks_get:
  "hm_get (marks (persist_watermarks recs t)) c = raised (hm_get (marks t) c) (seqs_of c recs)"
proof -
  have "hm_get (marks (persist_watermarks recs t)) c =
      (case raised None (seqs_of c recs) of None \<Rightarrow> hm_get (marks t) c | Some x \<Rightarrow> raise1 (hm_get (marks t) c) x)"
    using batch_max_facts [of recs c]
    by (cases "raised None (seqs_of c recs)") (simp_all add: marks_def persist_watermarks_def fold_raise_mark)
  also have "\<dots> = raised (hm_get (marks t) c) (seqs_of c recs)"
    using raised_raised [of _ "seqs_of c recs"] raised_None_iff [of None "seqs_of c recs"]
    by (cases "hm_get (marks t) c") (auto simp: raise1_def split: option.split)
  finally show ?thesis .
qed

lemma persist_watermarks_rows [simp]:
  "db_inv env g (persist_watermarks recs t) = db_inv env g t"
  "all_rows (persist_watermarks recs t) = all_rows t"
  "stored_at env (persist_watermarks recs t) = stored_at env t"
  "grew env u (persist_watermarks recs t) rs = grew env u t rs"
  "cursor_table (persist_watermarks recs t) = cursor_table t"
proof -
  have ids: "collect_bucket_ids (persist_watermarks recs t) = collect_bucket_ids t"
    by (simp add: collect_bucket_ids_def map_filter_parse) (simp add: persist_watermarks_def)
  show rows: "all_rows (persist_watermarks recs t) = all_rows t"
    by (simp add: all_rows_def ids bucket_rows_def [abs_def]) (simp add: persist_watermarks_def)
  show "db_inv env g (persist_watermarks recs t) = db_inv env g t"
    by (simp add: db_inv_def bucket_inv_def bucket_rows_def persist_watermarks_def)
  show at: "stored_at env (persist_watermarks recs t) = stored_at env t"
    by (simp add: stored_at_timed rows)
  show "grew env u (persist_watermarks recs t) rs = grew env u t rs"
    by (simp add: grew_def rows at)
  show "cursor_table (persist_watermarks recs t) = cursor_table t"
    by (simp add: persist_watermarks_def)
qed


section \<open>Operations that write\<close>

definition store_inv :: "'d store_env \<Rightarrow> 'd EventStore \<Rightarrow> bool" where
  "store_inv env s \<longleftrightarrow> granularity_ms s \<noteq> 0 \<and> db_inv env (granularity_ms s) (contents env (db s))"

definition same_config :: "'d EventStore \<Rightarrow> 'd EventStore \<Rightarrow> bool" where
  "same_config s s' \<longleftrightarrow> granularity_ms s' = granularity_ms s \<and> retention_ms s' = retention_ms s \<and>
     mrc_window_ms s' = mrc_window_ms s \<and> page_cache_bytes s' = page_cache_bytes s"

lemma redb_atomicD:
  assumes "redb_atomic env"
  shows "begin_read env d = Ok t \<Longrightarrow> t = contents env d" "begin_write env d = Ok t \<Longrightarrow> t = contents env d"
    "commit env d t = (Ok u, d') \<Longrightarrow> contents env d' = t"
    "commit env d t = (Err e, d') \<Longrightarrow> contents env d' = contents env d"
  using assms unfolding redb_atomic_def by (auto simp: unit_eq [of u])

lemma note_write_simps [simp]:
  "db (note_write now i s) = db s" "same_config s (note_write now i s)"
  "granularity_ms (note_write now i s) = granularity_ms s"
  by (simp_all add: note_write_def same_config_def Let_def)

lemma same_config_db [simp]: "same_config s (s\<lparr>db := d\<rparr>)" "same_config s s"
  by (simp_all add: same_config_def)

lemma same_config_note: "same_config s s' \<Longrightarrow> same_config s (note_write now i s')"
  by (simp add: note_write_def same_config_def Let_def)

lemma put_batch_Err:
  assumes "redb_atomic env" "put_batch env now recs s = (Err e, s')"
  shows "contents env (db s') = contents env (db s)" "same_config s s'"
  using assms(2) redb_atomicD(4) [OF assms(1)]
  by (auto simp: put_batch_def split: if_splits sum.splits prod.splits)

lemma put_batch_OkE:
  assumes "put_batch env now recs s = (Ok u, s')" "recs \<noteq> []"
  obtains groups txn t' d where "group_by_bucket (granularity_ms s) recs [] = Ok groups"
    "begin_write env (db s) = Ok txn" "write_buckets env groups txn = Ok t'"
    "commit env (db s) (persist_watermarks recs t') = (Ok (), d)" "db s' = d" "same_config s s'"
proof -
  obtain groups where g: "group_by_bucket (granularity_ms s) recs [] = Ok groups"
    using assms by (auto simp: put_batch_def split: if_splits sum.splits prod.splits)
  obtain txn where txn: "begin_write env (db s) = Ok txn"
    using assms g by (auto simp: put_batch_def split: if_splits sum.splits prod.splits)
  obtain t' where t': "write_buckets env groups txn = Ok t'"
    using assms g txn by (auto simp: put_batch_def split: if_splits sum.splits prod.splits)
  obtain d where d: "commit env (db s) (persist_watermarks recs t') = (Ok (), d)"
    using assms g txn t' by (auto simp: put_batch_def split: if_splits sum.splits prod.splits)
  have "s' = (case groups of [] \<Rightarrow> id | (oldest, _) # _ \<Rightarrow> note_write now oldest) (s\<lparr>db := d\<rparr>)"
    using assms g txn t' d by (simp add: put_batch_def)
  then have "db s' = d" "same_config s s'"
    by (auto simp: same_config_note split: list.splits)
  with g txn t' d show ?thesis by (intro that [of groups txn t' d])
qed

lemma put_batch_Ok:
  assumes "redb_atomic env" "postcard_inverts env" "store_inv env s" "put_batch env now recs s = (Ok u, s')"
  shows "store_inv env s'" "grew env (contents env (db s)) (contents env (db s')) recs"
    "hm_get (marks (contents env (db s'))) c = raised (hm_get (marks (contents env (db s))) c) (seqs_of c recs)"
    "cursor_table (contents env (db s')) = cursor_table (contents env (db s))" "same_config s s'"
proof -
  let ?t = "contents env (db s)" and ?t' = "contents env (db s')"
  have "store_inv env s' \<and> grew env ?t ?t' recs \<and> hm_get (marks ?t') c = raised (hm_get (marks ?t) c) (seqs_of c recs)
      \<and> cursor_table ?t' = cursor_table ?t \<and> same_config s s'"
  proof (cases "recs = []")
    case True
    with assms(3,4) show ?thesis by (simp add: put_batch_def)
  next
    case False
    obtain groups txn t' d where g: "group_by_bucket (granularity_ms s) recs [] = Ok groups"
      and w: "begin_write env (db s) = Ok txn" "write_buckets env groups txn = Ok t'"
      and d: "commit env (db s) (persist_watermarks recs t') = (Ok (), d)" "db s' = d" "same_config s s'"
      by (rule put_batch_OkE [OF assms(4) False])
    have t: "write_buckets env groups ?t = Ok t'"
      using w redb_atomicD(2) [OF assms(1)] by auto
    have grp: "grouped (granularity_ms s) groups" "mset (concat (map snd groups)) = mset recs"
      using group_by_bucket_step [OF g] by (auto simp: grouped_def)
    have st: "db_inv env (granularity_ms s) t'" "grew env ?t t' (concat (map snd groups))"
      using write_buckets_step [OF t assms(2) _ grp(1)] assms(3) by (auto simp: store_inv_def)
    have t': "?t' = persist_watermarks recs t'"
      using redb_atomicD(3) [OF assms(1) d(1)] d(2) by simp
    have "grew env ?t t' recs"
      using st(2) grp(2) by (simp add: grew_def mset_map)
    moreover have "marks t' = marks ?t" "cursor_table t' = cursor_table ?t"
      using write_buckets_marks [OF t] by (simp_all add: marks_def)
    ultimately show ?thesis
      using st(1) assms(3) d(3) by (simp add: t' persist_watermarks_get store_inv_def same_config_def)
  qed
  then show "store_inv env s'" "grew env ?t ?t' recs" "hm_get (marks ?t') c = raised (hm_get (marks ?t) c) (seqs_of c recs)"
    "cursor_table ?t' = cursor_table ?t" "same_config s s'"
    by blast+
qed

lemma put_event_Ok:
  assumes "redb_atomic env" "postcard_inverts env" "store_inv env s" "put_event env now t sq r s = (Ok u, s')"
  shows "store_inv env s'" "stored_at env (contents env (db s')) = add_mset (t, r) (stored_at env (contents env (db s)))"
    "set (all_rows (contents env (db s))) \<subseteq> set (all_rows (contents env (db s')))"
proof -
  let ?c = "contents env (db s)" and ?g = "granularity_ms s" and ?i = "t div granularity_ms s"
  let ?o = "open_bucket ?c ?i (ppid r \<noteq> None) (exe_term r \<noteq> None)"
  obtain txn where txn: "begin_write env (db s) = Ok txn"
    using assms(4) by (auto simp: put_event_def bucket_id_def split: if_splits sum.splits prod.splits)
  note tc = redb_atomicD(2) [OF assms(1) txn]
  obtain bt where bt: "insert_record env ?o (t, sq) r = Ok bt"
    using assms(3,4) txn by (auto simp: put_event_def bucket_id_def store_inv_def tc split: if_splits sum.splits prod.splits)
  obtain d where d: "commit env (db s) (close_bucket ?i bt ?c) = (Ok (), d)"
    and s': "s' = note_write now ?i (s\<lparr>db := d\<rparr>)"
    using assms(3,4) txn bt by (auto simp: put_event_def bucket_id_def store_inv_def tc split: if_splits sum.splits prod.splits)
  have c': "contents env (db s') = close_bucket ?i bt ?c"
    using redb_atomicD(3) [OF assms(1) d] by (simp add: s')
  have inv: "bucket_inv env ?g (close_bucket ?i ?o ?c) ?i" and nm: "named_ok ?c"
    using assms(3) by (simp_all add: bucket_inv_open store_inv_def db_inv_alt)
  note st = insert_record_step [OF bt assms(2) inv, simplified]
  have st': "bucket_inv env ?g (close_bucket ?i bt ?c) ?i"
    "\<exists>k b. base bt = ot_insert k b (base ?o) \<and> ot_get (base ?o) k = None \<and> fst k = t \<and> decode_value env b = Ok r"
    using st(1,2) by (auto simp: open_bucket_def)
  obtain k b where kb: "base bt = ot_insert k b (bucket_rows ?c ?i)" "ot_get (bucket_rows ?c ?i) k = None"
    "fst k = t" "decode_value env b = Ok r"
    using st'(2) by (auto simp: open_bucket_def bucket_rows_def)
  have "granularity_ms s' = ?g" by (simp add: s')
  then show "store_inv env s'"
    using db_inv_close [OF _ st'(1)] assms(3) by (simp add: store_inv_def c')
  define rec where "rec = \<lparr>collector_id = [], source_seq = 0, ts_ms = t, seq = sq, event_record = r\<rparr>"
  have "grew env ?c (close_bucket ?i bt ?c) [rec]"
    by (rule grew_close [OF nm])
      (use set_ot_insert_fresh [OF kb(2)] timed_insert [OF kb(2,4)] kb(3) in \<open>auto simp: kb(1) rec_at_def rec_def\<close>)
  then show "stored_at env (contents env (db s')) = add_mset (t, r) (stored_at env ?c)"
    "set (all_rows ?c) \<subseteq> set (all_rows (contents env (db s')))"
    by (simp_all add: grew_def c' rec_at_def rec_def)
qed


lemma put_event_inv:
  assumes "redb_atomic env" "postcard_inverts env" "store_inv env s"
  shows "store_inv env (snd (put_event env now t sq r s))"
proof (cases "put_event env now t sq r s")
  case (Pair res s')
  show ?thesis
  proof (cases res)
    case (Inl e)
    then have "contents env (db s') = contents env (db s)" "same_config s s'"
      using Pair redb_atomicD(4) [OF assms(1)]
      by (auto simp: put_event_def split: if_splits sum.splits prod.splits)
    with assms(3) show ?thesis by (simp add: Pair store_inv_def same_config_def)
  qed (use put_event_Ok(1) [OF assms] Pair in auto)
qed

section \<open>Operations that read\<close>

lemma try_concat_Ok: "(\<And>x. x \<in> set xs \<Longrightarrow> f x = Ok (g x)) \<Longrightarrow> try_concat f xs = Ok (concat (map g xs))"
  by (induction xs) auto

lemma ot_eqI: "ot_wf t \<Longrightarrow> ot_wf u \<Longrightarrow> set t = set u \<Longrightarrow> t = u"
  unfolding ot_wf_def strict_sorted_iff
  by (rule map_sorted_distinct_set_unique [where f = fst]) (simp_all add: distinct_map)

lemma filter_concat_map: "filter P (concat (map f xs)) = concat (map (\<lambda>x. filter P (f x)) xs)"
  by (induction xs) auto

lemma stored_concat: "stored env t = concat (map (\<lambda>i. map (decoded env) (bucket_rows t i)) (collect_bucket_ids t))"
  by (simp add: stored_def all_rows_def map_concat comp_def)

lemma decode_decoded: "is_ok (decode_value env b) \<Longrightarrow> decode_value env b = Ok (snd (decoded env (k, b)))"
  by (auto simp: decoded_def elim: is_okE)

text \<open>The postings of a term are the keys of the rows with that term.\<close>

lemma mm_get_indexes:
  assumes "indexes env term_of idx t" "ot_wf t" "\<forall>(k, b) \<in> set t. is_ok (decode_value env b)"
  shows "mm_get idx x = map fst (filter (\<lambda>row. term_of (snd (decoded env row)) = Some x) t)"
proof (rule strict_sorted_equal)
  show "sorted_wrt (<) (mm_get idx x)"
    using assms(1) by (simp add: indexes_def sorted_mm_get)
  show "sorted_wrt (<) (map fst (filter (\<lambda>row. term_of (snd (decoded env row)) = Some x) t))"
    using ot_wf_filter [OF assms(2)] by (simp add: ot_wf_def)
  have dec: "decode_value env b = Ok (snd (decoded env (k, b)))" if "(k, b) \<in> set t" for k b
    using assms(3) that by (intro decode_decoded) auto
  have "k \<in> set (mm_get idx x) \<longleftrightarrow> (\<exists>b. (k, b) \<in> set t \<and> term_of (snd (decoded env (k, b))) = Some x)" for k
  proof -
    have "k \<in> set (mm_get idx x) \<longleftrightarrow> (\<exists>b r. (k, b) \<in> set t \<and> decode_value env b = Ok r \<and> term_of r = Some x)"
      using assms(1) unfolding set_mm_get indexes_def by blast
    then show ?thesis using dec by fastforce
  qed
  then show "set (mm_get idx x) = set (map fst (filter (\<lambda>row. term_of (snd (decoded env row)) = Some x) t))"
    by (simp add: set_eq_iff image_iff)
qed

lemma fetch_row:
  assumes "ot_wf t" "\<forall>(k, b) \<in> set t. is_ok (decode_value env b)" "row \<in> set t"
  shows "fetch env t (fst row) = Ok [snd (decoded env row)]"
proof (cases row)
  case (Pair k b)
  then have "ot_get t k = Some b" "decode_value env b = Ok (snd (decoded env (k, b)))"
    using assms by (auto simp: ot_get_iff decode_decoded)
  then show ?thesis by (simp add: fetch_def Pair)
qed

lemma fetch_postings:
  assumes "indexes env term_of idx t" "ot_wf t" "\<forall>(k, b) \<in> set t. is_ok (decode_value env b)"
  shows "try_concat (\<lambda>k. case fetch env t k of Err e \<Rightarrow> Err e | Ok rs \<Rightarrow> Ok (filter P rs)) (mm_get idx x) =
    Ok (map snd (filter (\<lambda>(_, r). term_of r = Some x \<and> P r) (map (decoded env) t)))"
proof -
  let ?rows = "filter (\<lambda>row. term_of (snd (decoded env row)) = Some x) t"
  have "try_concat (\<lambda>k. case fetch env t k of Err e \<Rightarrow> Err e | Ok rs \<Rightarrow> Ok (filter P rs)) (map fst ?rows) =
      Ok (concat (map (\<lambda>row. filter P [snd (decoded env row)]) ?rows))"
  proof -
    have "try_concat (\<lambda>k. case fetch env t k of Err e \<Rightarrow> Err e | Ok rs \<Rightarrow> Ok (filter P rs)) (map fst rows) =
        Ok (concat (map (\<lambda>row. filter P [snd (decoded env row)]) rows))" if "set rows \<subseteq> set t" for rows
      using that by (induction rows) (auto simp: fetch_row [OF assms(2,3)])
    then show ?thesis by (metis filter_is_subset)
  qed
  moreover have "concat (map (\<lambda>row. filter P [snd (decoded env row)]) ?rows) =
      map snd (filter (\<lambda>(_, r). term_of r = Some x \<and> P r) (map (decoded env) t))"
    by (induction t) (auto simp: case_prod_beta)
  ultimately show ?thesis
    by (simp add: mm_get_indexes [OF assms])
qed

lemma db_inv_indexes:
  assumes "db_inv env g t"
  shows "indexes env (\<lambda>r. Some (pid r)) (opened (u32_tables t) (pid_index_name i)) (bucket_rows t i)"
    "indexes env (\<lambda>r. Some (name_hash128 env (name r))) (opened (hash_tables t) (name_index_name i)) (bucket_rows t i)"
    "\<forall>(k, b) \<in> set (bucket_rows t i). is_ok (decode_value env b)"
  using assms by (auto simp: db_inv_def bucket_inv_def tables_inv_def)

lemma live_table:
  "db_inv env g t \<Longrightarrow> i \<in> set (collect_bucket_ids t) \<Longrightarrow>
     hm_get (event_tables t) (bucket_table_name i) = Some (bucket_rows t i)"
  by (auto simp: db_inv_alt collect_bucket_ids_facts bucket_rows_def opened_def)

lemma find_by_pid_rows:
  assumes "db_inv env g t"
  shows "try_concat (\<lambda>i.
      case hm_get (u32_tables t) (pid_index_name i) of None \<Rightarrow> Ok []
      | Some idx \<Rightarrow> (case hm_get (event_tables t) (bucket_table_name i) of
          None \<Rightarrow> Err (TableError (bucket_table_name i))
        | Some tb \<Rightarrow> try_concat (fetch env tb) (mm_get idx p))) (collect_bucket_ids t) =
    Ok (map snd (filter (\<lambda>(_, r). pid r = p) (stored env t)))"
proof -
  let ?out = "\<lambda>i. map snd (filter (\<lambda>(_, r). pid r = p) (map (decoded env) (bucket_rows t i)))"
  have fetch: "(\<lambda>k. case fetch env tb k of Err e \<Rightarrow> Err e | Ok rs \<Rightarrow> Ok (filter (\<lambda>_. True) rs)) = fetch env tb" for tb
    by (rule ext) (simp split: sum.split)
  have posts: "try_concat (fetch env (bucket_rows t i)) (mm_get (opened (u32_tables t) (pid_index_name i)) p) = Ok (?out i)" for i
    using fetch_postings [OF db_inv_indexes(1) [OF assms] db_inv_bucket(1) [OF assms] db_inv_indexes(3) [OF assms],
        of "\<lambda>_. True" i p] by (simp add: fetch)
  have "try_concat (\<lambda>i.
      case hm_get (u32_tables t) (pid_index_name i) of None \<Rightarrow> Ok []
      | Some idx \<Rightarrow> (case hm_get (event_tables t) (bucket_table_name i) of
          None \<Rightarrow> Err (TableError (bucket_table_name i))
        | Some tb \<Rightarrow> try_concat (fetch env tb) (mm_get idx p))) (collect_bucket_ids t) =
    Ok (concat (map ?out (collect_bucket_ids t)))"
  proof (rule try_concat_Ok)
    fix i assume "i \<in> set (collect_bucket_ids t)"
    then show "(case hm_get (u32_tables t) (pid_index_name i) of None \<Rightarrow> Ok []
      | Some idx \<Rightarrow> (case hm_get (event_tables t) (bucket_table_name i) of
          None \<Rightarrow> Err (TableError (bucket_table_name i))
        | Some tb \<Rightarrow> try_concat (fetch env tb) (mm_get idx p))) = Ok (?out i)"
      using posts [of i] live_table [OF assms, of i]
      by (cases "hm_get (u32_tables t) (pid_index_name i)") (simp_all add: opened_def mm_get_def)
  qed
  then show ?thesis
    by (simp add: stored_concat filter_concat_map map_concat comp_def)
qed


lemma find_by_name_rows:
  assumes "db_inv env g t"
  shows "try_concat (\<lambda>i.
      case hm_get (hash_tables t) (name_index_name i) of None \<Rightarrow> Ok []
      | Some idx \<Rightarrow> (case hm_get (event_tables t) (bucket_table_name i) of
          None \<Rightarrow> Err (TableError (bucket_table_name i))
        | Some tb \<Rightarrow> try_concat (\<lambda>k.
            case fetch env tb k of Err e \<Rightarrow> Err e
            | Ok rs \<Rightarrow> Ok (filter (\<lambda>r. to_lowercase env (name r) = to_lowercase env nm) rs))
            (mm_get idx (name_hash128 env nm)))) (collect_bucket_ids t) =
    Ok (map snd (filter (\<lambda>(_, r). to_lowercase env (name r) = to_lowercase env nm) (stored env t)))"
proof -
  let ?P = "\<lambda>r. to_lowercase env (name r) = to_lowercase env nm"
  let ?out = "\<lambda>i. map snd (filter (\<lambda>(_, r). ?P r) (map (decoded env) (bucket_rows t i)))"
  let ?f = "\<lambda>tb k. case fetch env tb k of Err e \<Rightarrow> Err e | Ok rs \<Rightarrow> Ok (filter ?P rs)"
  have hash: "name_hash128 env (name r) = name_hash128 env nm \<and> ?P r \<longleftrightarrow> ?P r" for r
    by (auto simp: name_hash128_def)
  have posts: "try_concat (?f (bucket_rows t i)) (mm_get (opened (hash_tables t) (name_index_name i)) (name_hash128 env nm)) = Ok (?out i)" for i
    using fetch_postings [OF db_inv_indexes(2) [OF assms] db_inv_bucket(1) [OF assms] db_inv_indexes(3) [OF assms],
        of ?P i "name_hash128 env nm"] by (simp add: hash)
  have "try_concat (\<lambda>i.
      case hm_get (hash_tables t) (name_index_name i) of None \<Rightarrow> Ok []
      | Some idx \<Rightarrow> (case hm_get (event_tables t) (bucket_table_name i) of
          None \<Rightarrow> Err (TableError (bucket_table_name i))
        | Some tb \<Rightarrow> try_concat (?f tb) (mm_get idx (name_hash128 env nm)))) (collect_bucket_ids t) =
    Ok (concat (map ?out (collect_bucket_ids t)))"
  proof (rule try_concat_Ok)
    fix i assume "i \<in> set (collect_bucket_ids t)"
    then show "(case hm_get (hash_tables t) (name_index_name i) of None \<Rightarrow> Ok []
      | Some idx \<Rightarrow> (case hm_get (event_tables t) (bucket_table_name i) of
          None \<Rightarrow> Err (TableError (bucket_table_name i))
        | Some tb \<Rightarrow> try_concat (?f tb) (mm_get idx (name_hash128 env nm)))) = Ok (?out i)"
      using posts [of i] live_table [OF assms, of i]
      by (cases "hm_get (hash_tables t) (name_index_name i)") (simp_all add: opened_def mm_get_def)
  qed
  then show ?thesis
    by (simp add: stored_concat filter_concat_map map_concat comp_def)
qed

lemma decode_rows:
  "(\<And>k b. (k, b) \<in> set rows \<Longrightarrow> is_ok (decode_value env b)) \<Longrightarrow>
     try_concat (\<lambda>(_, b). case decode_value env b of Err e \<Rightarrow> Err e | Ok r \<Rightarrow> Ok [r]) rows =
       Ok (map snd (map (decoded env) rows))"
proof -
  assume ok: "\<And>k b. (k, b) \<in> set rows \<Longrightarrow> is_ok (decode_value env b)"
  have "try_concat (\<lambda>(_, b). case decode_value env b of Err e \<Rightarrow> Err e | Ok r \<Rightarrow> Ok [r]) rows =
      Ok (concat (map (\<lambda>row. [snd (decoded env row)]) rows))"
  proof (rule try_concat_Ok)
    fix row assume "row \<in> set rows"
    then have "decode_value env (snd row) = Ok (snd (decoded env (fst row, snd row)))"
      using ok [of "fst row" "snd row"] by (intro decode_decoded) simp
    then show "(case row of (_, b) \<Rightarrow> case decode_value env b of Err e \<Rightarrow> Err e | Ok r \<Rightarrow> Ok [r]) = Ok [snd (decoded env row)]"
      by (simp add: case_prod_beta)
  qed
  then show ?thesis by (simp add: concat_map_singleton comp_def)
qed

lemma ot_range_times: "ot_range (a, 0) (b, 0) t = filter (\<lambda>row. a \<le> fst (fst row) \<and> fst (fst row) < b) t"
  for t :: "(evkey, 'v) otable"
  unfolding ot_range_def by (rule filter_cong [OF refl]) (auto simp: less_eq_prod_def less_prod_def)

lemma scan_range_rows:
  assumes "db_inv env g t" "g \<noteq> 0" "a < b"
  shows "try_concat (\<lambda>i.
      if i < a div g \<or> sat_sub b 1 div g < i then Ok []
      else case hm_get (event_tables t) (bucket_table_name i) of None \<Rightarrow> Ok []
      | Some tb \<Rightarrow> try_concat (\<lambda>(_, v). case decode_value env v of Err e \<Rightarrow> Err e | Ok r \<Rightarrow> Ok [r])
          (ot_range (a, 0) (b, 0) tb)) (collect_bucket_ids t) =
    Ok (map snd (filter (\<lambda>((time, _), _). a \<le> time \<and> time < b) (stored env t)))"
proof -
  let ?in = "\<lambda>row. a \<le> fst (fst row) \<and> fst (fst row) < b"
  let ?out = "\<lambda>i. map snd (map (decoded env) (filter ?in (bucket_rows t i)))"
  have last: "time \<le> sat_sub b 1 \<longleftrightarrow> time < b" for time
    using assms(3) by (auto simp: word_le_nat_alt word_less_nat_alt unat_sat_sub)
  have "try_concat (\<lambda>i.
      if i < a div g \<or> sat_sub b 1 div g < i then Ok []
      else case hm_get (event_tables t) (bucket_table_name i) of None \<Rightarrow> Ok []
      | Some tb \<Rightarrow> try_concat (\<lambda>(_, v). case decode_value env v of Err e \<Rightarrow> Err e | Ok r \<Rightarrow> Ok [r])
          (ot_range (a, 0) (b, 0) tb)) (collect_bucket_ids t) = Ok (concat (map ?out (collect_bucket_ids t)))"
  proof (rule try_concat_Ok)
    fix i assume live: "i \<in> set (collect_bucket_ids t)"
    have dec: "try_concat (\<lambda>(_, v). case decode_value env v of Err e \<Rightarrow> Err e | Ok r \<Rightarrow> Ok [r])
        (filter ?in (bucket_rows t i)) = Ok (?out i)"
      by (rule decode_rows) (use db_inv_bucket(3) [OF assms(1)] in auto)
    have none: "filter ?in (bucket_rows t i) = []" if "i < a div g \<or> sat_sub b 1 div g < i"
    proof -
      have "\<not> ?in row" if row: "row \<in> set (bucket_rows t i)" for row
      proof
        assume inside: "?in row"
        have "fst (fst row) div g = i"
          using db_inv_bucket(2) [OF assms(1), of "fst row" "snd row" i] row by simp
        moreover have "a div g \<le> fst (fst row) div g" "fst (fst row) div g \<le> sat_sub b 1 div g"
          using inside by (simp_all add: word_div_mono last)
        ultimately show False using \<open>i < a div g \<or> sat_sub b 1 div g < i\<close> by auto
      qed
      then show ?thesis by (simp add: filter_empty_conv)
    qed
    show "(if i < a div g \<or> sat_sub b 1 div g < i then Ok []
      else case hm_get (event_tables t) (bucket_table_name i) of None \<Rightarrow> Ok []
      | Some tb \<Rightarrow> try_concat (\<lambda>(_, v). case decode_value env v of Err e \<Rightarrow> Err e | Ok r \<Rightarrow> Ok [r])
          (ot_range (a, 0) (b, 0) tb)) = Ok (?out i)"
      using none dec by (simp add: live_table [OF assms(1) live] ot_range_times)
  qed
  moreover have "?out i = map snd (filter (\<lambda>((time, _), _). a \<le> time \<and> time < b) (map (decoded env) (bucket_rows t i)))" for i
    by (simp add: filter_map comp_def decoded_def case_prod_beta)
  ultimately show ?thesis
    by (simp add: stored_concat filter_concat_map map_concat comp_def)
qed

section \<open>Retention\<close>

lemma drop_buckets_facts:
  assumes "named_ok t" "drop_buckets is t = (n, t')"
  shows "named_ok t' \<and> watermark_table t' = watermark_table t \<and> cursor_table t' = cursor_table t \<and>
    (\<forall>j. bucket_rows t' j = (if j \<in> set is then [] else bucket_rows t j)) \<and>
    (\<forall>j. j \<notin> set is \<longrightarrow> bucket_inv env g t' j = bucket_inv env g t j) \<and>
    (\<forall>j. j \<in> set is \<longrightarrow> bucket_inv env g t' j)"
  using assms
proof (induction "is" arbitrary: t n)
  case (Cons i "is")
  define u where "u = t\<lparr>event_tables := hm_remove (bucket_table_name i) (event_tables t),
     u32_tables := hm_remove (ppid_index_name i) (hm_remove (pid_index_name i) (u32_tables t)),
     hash_tables := hm_remove (exe_index_name i) (hm_remove (name_index_name i) (hash_tables t))\<rparr>"
  obtain n' where rest: "drop_buckets is u = (n', t')"
    using Cons.prems(2) by (auto simp: u_def Let_def split: prod.splits)
  have named: "named_ok u"
    using Cons.prems(1) by (auto simp: named_ok_def u_def hm_wf_def hm_remove_def AList.delete_eq intro: distinct_map_filter)
  have rows: "bucket_rows u j = (if j = i then [] else bucket_rows t j)" for j
    by (simp add: bucket_rows_def u_def)
  have inv: "bucket_inv env g u j = (if j = i then True else bucket_inv env g t j)" for j
    by (simp add: bucket_inv_def rows) (simp add: u_def)
  show ?case
    using Cons.IH [OF named rest] rows inv by (auto simp: u_def)
qed simp


lemma drop_expired_rows:
  assumes "db_inv env g t" "drop_buckets (filter (\<lambda>i. i < lim) (collect_bucket_ids t)) t = (n, t')"
  shows "db_inv env g t'" "all_rows t' = filter (\<lambda>row. lim \<le> fst (fst row) div g) (all_rows t)"
    "watermark_table t' = watermark_table t" "cursor_table t' = cursor_table t"
proof -
  have named: "named_ok t" using assms(1) by (simp add: db_inv_alt)
  note facts = drop_buckets_facts [OF named assms(2), of env g]
  show inv: "db_inv env g t'"
    using facts assms(1) by (auto simp: db_inv_alt)
  show "watermark_table t' = watermark_table t" "cursor_table t' = cursor_table t"
    using facts by simp_all
  have rows: "set (bucket_rows t' i) = {row \<in> set (bucket_rows t i). lim \<le> fst (fst row) div g}" for i
  proof -
    have bid: "fst (fst row) div g = i" if "row \<in> set (bucket_rows t i)" for row
      using db_inv_bucket(2) [OF assms(1), of "fst row" "snd row" i] that by simp
    have "bucket_rows t' i = (if i < lim then [] else bucket_rows t i)"
      using facts not_live_no_rows [OF named, of i] by auto
    then show ?thesis using bid by force
  qed
  show "all_rows t' = filter (\<lambda>row. lim \<le> fst (fst row) div g) (all_rows t)"
    by (rule ot_eqI [OF ot_wf_all_rows [OF inv] ot_wf_filter [OF ot_wf_all_rows [OF assms(1)]]])
      (use facts named rows in \<open>auto simp: set_all_rows\<close>)
qed

lemma word_div_less: "a div g < b div g \<Longrightarrow> a < b" for a b g :: u64
  using word_div_mono [of b a g] by (meson leD not_le)

lemma drop_expired_Ok:
  assumes "redb_atomic env" "store_inv env s" "drop_expired env now s = (Ok n, s')"
  shows "store_inv env s'" "same_config s s'"
    "all_rows (contents env (db s')) =
       filter (\<lambda>row. sat_sub now (retention_ms s) div granularity_ms s \<le> fst (fst row) div granularity_ms s)
         (all_rows (contents env (db s)))"
    "marks (contents env (db s')) = marks (contents env (db s))"
proof -
  let ?g = "granularity_ms s" and ?t = "contents env (db s)"
  let ?cut = "sat_sub now (retention_ms s) div ?g"
  let ?ex = "filter (\<lambda>i. i < ?cut) (collect_bucket_ids ?t)"
  have inv: "db_inv env ?g ?t" and g: "?g \<noteq> 0"
    using assms(2) by (simp_all add: store_inv_def)
  obtain rt where "begin_read env (db s) = Ok rt"
    using assms(3) g by (auto simp: drop_expired_def retention_cutoff_def bucket_id_def split: sum.splits)
  then have rt: "begin_read env (db s) = Ok ?t"
    using redb_atomicD(1) [OF assms(1)] by simp
  obtain n' t' where dr: "drop_buckets ?ex ?t = (n', t')"
    by (cases "drop_buckets ?ex ?t")
  have rest: "s' = s \<and> ?ex = [] \<or> same_config s s' \<and> contents env (db s') = t'"
  proof (cases "?ex = []")
    case True
    with assms(3) g rt show ?thesis
      by (simp add: drop_expired_def retention_cutoff_def bucket_id_def)
  next
    case False
    obtain txn where "begin_write env (db s) = Ok txn"
      using assms(3) g rt False by (auto simp: drop_expired_def retention_cutoff_def bucket_id_def split: sum.splits)
    then have txn: "begin_write env (db s) = Ok ?t"
      using redb_atomicD(2) [OF assms(1)] by simp
    obtain d where d: "commit env (db s) t' = (Ok (), d)" "s' = s\<lparr>db := d\<rparr>"
      using assms(3) g rt False txn dr
      by (auto simp: drop_expired_def retention_cutoff_def bucket_id_def split: sum.splits prod.splits)
    then show ?thesis
      using redb_atomicD(3) [OF assms(1) d(1)] by simp
  qed
  note rows = drop_expired_rows [OF inv dr]
  have same: "t' = ?t" if "?ex = []"
    using dr that by simp
  have c': "contents env (db s') = t'" "same_config s s'"
    using rest same by auto
  show "same_config s s'" by (rule c'(2))
  show "store_inv env s'"
    using rows(1) c' g by (simp add: store_inv_def same_config_def)
  show "all_rows (contents env (db s')) = filter (\<lambda>row. ?cut \<le> fst (fst row) div ?g) (all_rows ?t)"
    using rows(2) c' by simp
  show "marks (contents env (db s')) = marks ?t"
    using rows(3) c' by (simp add: marks_def)
qed


section \<open>Properties\<close>

text \<open>A concrete database, held in memory, and a codec that knows one record.\<close>

definition demo_record :: ProcessRecord where
  "demo_record = \<lparr>pid = 7, ppid = Some 1, name = ''sh'', executable_path = None, command_line = None,
     start_time = None, cpu_usage = None, memory_usage = None, status = Running, executable_hash = None,
     hash_algorithm = None, collection_time = 5000000, user_id = None, group_id = None,
     environment_vars = [], metadata = []\<rparr>"

definition memory_env :: "Db store_env" where
  "memory_env = \<lparr>begin_read = Ok, begin_write = Ok, commit = (\<lambda>d t. (Ok (), t)), contents = (\<lambda>d. d),
     to_allocvec = (\<lambda>r. if r = demo_record then Ok [] else Err ''unknown''),
     from_bytes = (\<lambda>b. Ok demo_record), blake3 = (\<lambda>b. b), to_lowercase = map to_ascii_lowercase\<rparr>"

definition demo_store :: "Db EventStore" where
  "demo_store = from_database empty_db 0"

definition demo_rec :: IngestRecord where
  "demo_rec = \<lparr>collector_id = ''procmond'', source_seq = 4, ts_ms = 5, seq = 0, event_record = demo_record\<rparr>"

lemma memory_env_ok: "redb_atomic memory_env" "postcard_inverts memory_env"
  by (auto simp: redb_atomic_def postcard_inverts_def memory_env_def split: if_splits)

lemma demo_store_inv: "store_inv memory_env demo_store"
  by (simp add: store_inv_def demo_store_def from_database_def memory_env_def db_inv_empty
      choose_granularity_def HOURLY_MS_def DAILY_MS_def)

definition demo_full :: "Db EventStore" where
  "demo_full = snd (put_event memory_env 0 5 0 demo_record demo_store)"

lemma demo_full_inv: "store_inv memory_env demo_full"
  unfolding demo_full_def by (rule put_event_inv [OF memory_env_ok demo_store_inv])

text \<open>
  Claim C13: a group commit is all or nothing. When \<open>put_batch\<close> succeeds, every row stored before is
  still there under its key, exactly the batch's records are added, each under its own millisecond,
  and the watermark of every collector is raised to the batch's maximum; when it fails, the database
  holds what it held. Either way the indexes stay exact (\<open>store_inv\<close>).
\<close>

theorem put_batch_all_or_nothing:
  assumes "redb_atomic env" "postcard_inverts env" "store_inv env s"
  shows "case put_batch env now recs s of
     (Ok _, s') \<Rightarrow> store_inv env s' \<and>
       set (stored env (contents env (db s))) \<subseteq> set (stored env (contents env (db s'))) \<and>
       stored_at env (contents env (db s')) = stored_at env (contents env (db s)) + mset (map rec_at recs) \<and>
       (\<forall>c. hm_get (marks (contents env (db s'))) c = raised (hm_get (marks (contents env (db s))) c) (seqs_of c recs))
   | (Err _, s') \<Rightarrow> store_inv env s' \<and> contents env (db s') = contents env (db s)"
proof (cases "put_batch env now recs s")
  case (Pair res s')
  show ?thesis
  proof (cases res)
    case (Inl e)
    show ?thesis
      using put_batch_Err [OF assms(1) Pair [unfolded Inl]] assms(3)
      by (simp add: Pair Inl store_inv_def same_config_def)
  next
    case (Inr u)
    have "set (stored env (contents env (db s))) \<subseteq> set (stored env (contents env (db s')))"
      using put_batch_Ok(2) [OF assms Pair [unfolded Inr]] by (auto simp: grew_def stored_def)
    with put_batch_Ok [OF assms Pair [unfolded Inr]] show ?thesis
      by (simp add: Pair Inr grew_def)
  qed
qed

theorem put_batch_all_or_nothing_witness:
  "case put_batch memory_env 0 [demo_rec, demo_rec] demo_store of
     (Ok _, s') \<Rightarrow> store_inv memory_env s' \<and>
       set (stored memory_env (contents memory_env (db demo_store))) \<subseteq> set (stored memory_env (contents memory_env (db s'))) \<and>
       stored_at memory_env (contents memory_env (db s')) =
         stored_at memory_env (contents memory_env (db demo_store)) + mset (map rec_at [demo_rec, demo_rec]) \<and>
       (\<forall>c. hm_get (marks (contents memory_env (db s'))) c =
          raised (hm_get (marks (contents memory_env (db demo_store))) c) (seqs_of c [demo_rec, demo_rec]))
   | (Err _, s') \<Rightarrow> store_inv memory_env s' \<and> contents memory_env (db s') = contents memory_env (db demo_store)"
  by (rule put_batch_all_or_nothing [OF memory_env_ok demo_store_inv])

text \<open>
  Lookups by process number and by name return exactly the stored events that match, in
  the order of their keys, although they read postings and rows bucket by bucket. For names nothing
  is assumed of the hash: a collision puts foreign keys under a term, and they are filtered out.
\<close>

lemma lookups_exact:
  assumes "redb_atomic env" "store_inv env s"
  shows "find_by_pid env p s = (case begin_read env (db s) of Err e \<Rightarrow> Err e
      | Ok t \<Rightarrow> Ok (map snd (filter (\<lambda>(_, r). pid r = p) (stored env t)))) \<and>
    find_by_name env nm s = (case begin_read env (db s) of Err e \<Rightarrow> Err e
      | Ok t \<Rightarrow> Ok (map snd (filter (\<lambda>(_, r). to_lowercase env (name r) = to_lowercase env nm) (stored env t))))"
proof (cases "begin_read env (db s)")
  case (Inr t)
  then have inv: "db_inv env (granularity_ms s) t"
    using redb_atomicD(1) [OF assms(1)] assms(2) by (simp add: store_inv_def)
  show ?thesis
    by (simp add: find_by_pid_def find_by_name_def Inr find_by_pid_rows [OF inv] find_by_name_rows [OF inv])
qed (simp add: find_by_pid_def find_by_name_def)

text \<open>
  A range scan returns exactly the stored events whose time lies in the half-open interval,
  in the order of their keys, although it opens only the buckets that overlap the interval.
\<close>

lemma scan_range_exact:
  assumes "redb_atomic env" "store_inv env s"
  shows "scan_range env a b s =
     (if b \<le> a then Ok []
      else case begin_read env (db s) of Err e \<Rightarrow> Err e
      | Ok t \<Rightarrow> Ok (map snd (filter (\<lambda>((time, _), _). a \<le> time \<and> time < b) (stored env t)))) \<and>
    ot_wf (stored env (contents env (db s)))"
proof -
  have inv: "db_inv env (granularity_ms s) (contents env (db s))" and g: "granularity_ms s \<noteq> 0"
    using assms(2) by (simp_all add: store_inv_def)
  have "scan_range env a b s = (case begin_read env (db s) of Err e \<Rightarrow> Err e
      | Ok t \<Rightarrow> Ok (map snd (filter (\<lambda>((time, _), _). a \<le> time \<and> time < b) (stored env t))))" if "a < b"
  proof (cases "begin_read env (db s)")
    case (Inr t)
    with redb_atomicD(1) [OF assms(1)] have t: "t = contents env (db s)" by simp
    from that Inr g show ?thesis
      by (simp add: scan_range_def bucket_id_def t scan_range_rows [OF inv g that])
  qed (use that g in \<open>simp add: scan_range_def bucket_id_def\<close>)
  then show ?thesis
    using ot_wf_stored [OF inv] by (auto simp: scan_range_def)
qed

text \<open>
  Claim C29: queries return exactly the stored events they ask for, in the order of their keys. Lookups
  by process number and by name read postings and rows bucket by bucket, and keys that a hash
  collision puts under a name are filtered out; a range scan takes the half-open interval although it
  opens only the buckets that overlap it. A failed read is reported.
\<close>

theorem queries_exact:
  assumes "redb_atomic env" "store_inv env s"
  shows "find_by_pid env p s = (case begin_read env (db s) of Err e \<Rightarrow> Err e
      | Ok t \<Rightarrow> Ok (map snd (filter (\<lambda>(_, r). pid r = p) (stored env t)))) \<and>
    find_by_name env nm s = (case begin_read env (db s) of Err e \<Rightarrow> Err e
      | Ok t \<Rightarrow> Ok (map snd (filter (\<lambda>(_, r). to_lowercase env (name r) = to_lowercase env nm) (stored env t)))) \<and>
    scan_range env a b s =
     (if b \<le> a then Ok []
      else case begin_read env (db s) of Err e \<Rightarrow> Err e
      | Ok t \<Rightarrow> Ok (map snd (filter (\<lambda>((time, _), _). a \<le> time \<and> time < b) (stored env t)))) \<and>
    ot_wf (stored env (contents env (db s)))"
  using lookups_exact [OF assms] scan_range_exact [OF assms] by blast

theorem queries_exact_witness:
  "find_by_pid memory_env 7 demo_full =
     Ok (map snd (filter (\<lambda>(_, r). pid r = 7) (stored memory_env (contents memory_env (db demo_full))))) \<and>
   scan_range memory_env 3 9 demo_full =
     Ok (map snd (filter (\<lambda>((time, _), _). 3 \<le> time \<and> time < 9) (stored memory_env (contents memory_env (db demo_full)))))"
  using queries_exact [OF memory_env_ok(1) demo_full_inv, of 7 "''sh''" 3 9] by (simp add: memory_env_def)

text \<open>
  Retention never drops an event inside the retention window. What a successful
  \<open>drop_expired\<close> keeps is exactly the events of the buckets not entirely older than the window, and
  every event it drops is older than the window; the watermarks stay, so a dropped event is not
  accepted again, and the indexes lose the dropped events with their buckets. A failed run changes
  nothing.
\<close>

lemma retention_keeps_window:
  assumes "redb_atomic env" "store_inv env s"
  shows "case drop_expired env now s of
     (Ok _, s') \<Rightarrow> store_inv env s' \<and>
       stored env (contents env (db s')) =
         filter (\<lambda>((time, _), _). sat_sub now (retention_ms s) div granularity_ms s \<le> time div granularity_ms s)
           (stored env (contents env (db s))) \<and>
       (\<forall>row. row \<in> set (stored env (contents env (db s))) - set (stored env (contents env (db s')))
          \<longrightarrow> fst (fst row) < sat_sub now (retention_ms s)) \<and>
       marks (contents env (db s')) = marks (contents env (db s))
   | (Err _, s') \<Rightarrow> contents env (db s') = contents env (db s)"
proof (cases "drop_expired env now s")
  case (Pair res s')
  show ?thesis
  proof (cases res)
    case (Inl e)
    then have "contents env (db s') = contents env (db s)"
      using Pair redb_atomicD(4) [OF assms(1)]
      by (auto simp: drop_expired_def Let_def split: if_splits sum.splits prod.splits)
    then show ?thesis by (simp add: Pair Inl)
  next
    case (Inr n)
    note dropped = drop_expired_Ok [OF assms Pair [unfolded Inr]]
    have rows: "stored env (contents env (db s')) =
         filter (\<lambda>((time, _), _). sat_sub now (retention_ms s) div granularity_ms s \<le> time div granularity_ms s)
           (stored env (contents env (db s)))"
      by (simp add: stored_def dropped(3) filter_map comp_def case_prod_beta decoded_def)
    have old: "fst (fst row) < sat_sub now (retention_ms s)"
      if "row \<in> set (stored env (contents env (db s))) - set (stored env (contents env (db s')))" for row
      using that word_div_less [of "fst (fst row)" "granularity_ms s" "sat_sub now (retention_ms s)"]
      unfolding rows by (auto simp: not_le case_prod_beta)
    show ?thesis
      unfolding Pair Inr prod.case sum.case
      by (intro conjI allI impI dropped(1,4) rows) (rule old)
  qed
qed

lemma retention_keeps_window_example:
  "case drop_expired memory_env 700000000 demo_full of
     (Ok _, s') \<Rightarrow> store_inv memory_env s' \<and>
       stored memory_env (contents memory_env (db s')) =
         filter (\<lambda>((time, _), _). sat_sub 700000000 (retention_ms demo_full) div granularity_ms demo_full
             \<le> time div granularity_ms demo_full)
           (stored memory_env (contents memory_env (db demo_full))) \<and>
       (\<forall>row. row \<in> set (stored memory_env (contents memory_env (db demo_full)))
            - set (stored memory_env (contents memory_env (db s')))
          \<longrightarrow> fst (fst row) < sat_sub 700000000 (retention_ms demo_full)) \<and>
       marks (contents memory_env (db s')) = marks (contents memory_env (db demo_full))
   | (Err _, s') \<Rightarrow> contents memory_env (db s') = contents memory_env (db demo_full)"
  by (rule retention_keeps_window [OF memory_env_ok(1) demo_full_inv])

text \<open>
  The byte order of encoded keys, which the database sorts by, is the order of time and
  number, and an encoded key of the fixed width decodes to the key.
\<close>

lemma key_codec_ordered:
  "length (key_as_bytes k) = KEY_WIDTH \<and> key_from_bytes (key_as_bytes k) = k \<and>
   (bytes_less (key_as_bytes k) (key_as_bytes k') \<longleftrightarrow> fst k < fst k' \<or> fst k = fst k' \<and> snd k < snd k')"
  by (simp add: key_roundtrip key_order less_prod_def) auto

end
