(* ===== verification/Ingest.thy ===== *)
theory Ingest
  imports Event_Store_Inv
begin

text \<open>
  The ingest pipeline, \<^verbatim>\<open>daemoneye-lib/src/storage/ingest/mod.rs\<close>: one writer task takes messages
  from a channel, groups records into batches, drops what its watermarks tell it was delivered
  before, commits each batch to the event store, and answers flush requests.

  When a batch ends depends on time. The argument \<open>arrivals\<close> gives, for each batch, how many messages
  arrive before its window ends, and \<open>clock\<close> the time at its commit; every statement holds for all
  of them. The answers to flush requests are collected in the order they are sent.
\<close>

section \<open>Data\<close>

definition EPOCH_SHIFT :: nat where
  "EPOCH_SHIFT = 32"

definition EPOCH_SIZE :: u64 where
  "EPOCH_SIZE = push_bit EPOCH_SHIFT 1"

definition MAX_PENDING_GAPS :: nat where
  "MAX_PENDING_GAPS = 1024"

datatype IngestError = Closed | InvalidTimestamp int | CommitFailed

text \<open>\<open>DateTime::timestamp_millis\<close> rounds towards the past.\<close>

definition timestamp_millis :: "int \<Rightarrow> int" where
  "timestamp_millis t = t div 1000000"

definition IngestRecord_new :: "string \<Rightarrow> u64 \<Rightarrow> u32 \<Rightarrow> ProcessRecord \<Rightarrow> (IngestRecord, IngestError) result" where
  "IngestRecord_new c sseq sq r =
     (let millis = timestamp_millis (collection_time r) in
      if millis < 0 then Err (InvalidTimestamp millis)
      else Ok \<lparr>collector_id = c, source_seq = sseq, ts_ms = word_of_int millis, seq = sq, event_record = r\<rparr>)"

record IngestConfig =
  channel_capacity :: nat
  batch_records :: nat
  batch_window_ms :: nat

definition IngestConfig_default :: IngestConfig where
  "IngestConfig_default = \<lparr>channel_capacity = 4096, batch_records = 2000, batch_window_ms = 7\<rparr>"

record IngestMetrics =
  commits :: u64
  records_written :: u64
  duplicates_discarded :: u64
  saturation_alerts :: u64
  sequence_gaps_detected :: u64

definition IngestMetrics_default :: IngestMetrics where
  "IngestMetrics_default = \<lparr>commits = 0, records_written = 0, duplicates_discarded = 0,
     saturation_alerts = 0, sequence_gaps_detected = 0\<rparr>"

record SequenceGap =
  gap_collector_id :: string
  expected_seq :: u64
  observed_seq :: u64

record FlushReport =
  gaps :: "SequenceGap list"

datatype WriterMessage = Record IngestRecord | Flush

record WriterState =
  watermarks :: "(string, u64) hash_map"
  pending_gaps :: "SequenceGap list"
  commit_failed :: bool

definition answer_flush :: "WriterState \<Rightarrow> (FlushReport, IngestError) result \<times> WriterState" where
  "answer_flush st =
     (let st' = st\<lparr>pending_gaps := [], commit_failed := False\<rparr> in
      if commit_failed st then (Err CommitFailed, st') else (Ok \<lparr>gaps = pending_gaps st\<rparr>, st'))"

section \<open>Sequence numbers\<close>

definition is_contiguous :: "u64 \<Rightarrow> u64 \<Rightarrow> bool" where
  "is_contiguous lst observed =
     (let nxt = (if lst = - 1 then None else Some (lst + 1));
          epoch = drop_bit EPOCH_SHIFT lst;
          next_epoch = (if epoch = - 1 then None
                        else if unat (epoch + 1) * unat EPOCH_SIZE < 2 ^ 64 then Some ((epoch + 1) * EPOCH_SIZE)
                        else None) in
      Some observed = nxt \<or> Some observed = next_epoch)"

fun observe_loop ::
    "(string, u64) hash_map \<Rightarrow> WriterState \<Rightarrow> IngestMetrics \<Rightarrow> IngestRecord list
       \<Rightarrow> (string, u64) hash_map \<times> WriterState \<times> IngestMetrics" where
  "observe_loop running st m [] = (running, st, m)"
| "observe_loop running st m (rec # recs) =
     (let previous = (case hm_get running (collector_id rec) of
                        None \<Rightarrow> hm_get (watermarks st) (collector_id rec) | Some x \<Rightarrow> Some x);
          (st', m') = (case previous of
             None \<Rightarrow> (st, m)
           | Some lst \<Rightarrow>
               if is_contiguous lst (source_seq rec) then (st, m)
               else (if length (pending_gaps st) < MAX_PENDING_GAPS
                     then st\<lparr>pending_gaps := pending_gaps st @ [\<lparr>gap_collector_id = collector_id rec,
                        expected_seq = sat_add lst 1, observed_seq = source_seq rec\<rparr>]\<rparr> else st,
                     m\<lparr>sequence_gaps_detected := sequence_gaps_detected m + 1\<rparr>));
          running' = (case hm_get running (collector_id rec) of
             Some seen \<Rightarrow> hm_insert (collector_id rec) (max seen (source_seq rec)) running
           | None \<Rightarrow> hm_insert (collector_id rec) (source_seq rec) running)
      in observe_loop running' st' m' recs)"

definition observe_sequence ::
    "WriterState \<Rightarrow> IngestRecord list \<Rightarrow> IngestMetrics \<Rightarrow> (string, u64) hash_map \<times> WriterState \<times> IngestMetrics" where
  "observe_sequence st to_write m = observe_loop [] st m to_write"

section \<open>Batches\<close>

text \<open>The filter of a batch: the survivors and the number of discarded records.\<close>

fun filter_batch ::
    "(string, u64) hash_map \<Rightarrow> (string \<times> u64) list \<Rightarrow> IngestRecord list \<Rightarrow> IngestRecord list \<times> nat" where
  "filter_batch wm seen [] = ([], 0)"
| "filter_batch wm seen (rec # batch) =
     (let key = (collector_id rec, source_seq rec);
          already_committed = (case hm_get wm (collector_id rec) of None \<Rightarrow> False | Some x \<Rightarrow> source_seq rec \<le> x);
          within_batch_dup = (key \<in> set seen);
          (keep, n) = filter_batch wm (if key \<in> set seen then seen else key # seen) batch
      in if already_committed \<or> within_batch_dup then (keep, Suc n) else (rec # keep, n))"

record 'd Writer =
  store :: "'d EventStore"
  writer_state :: WriterState
  metrics :: IngestMetrics

definition commit_batch :: "'d store_env \<Rightarrow> int \<Rightarrow> IngestRecord list \<Rightarrow> 'd Writer \<Rightarrow> 'd Writer" where
  "commit_batch env now batch w =
     (case filter_batch (watermarks (writer_state w)) [] batch of (to_write, discarded) \<Rightarrow>
        let m0 = (metrics w)\<lparr>duplicates_discarded := duplicates_discarded (metrics w) + word_of_nat discarded\<rparr> in
        if to_write = [] then w\<lparr>metrics := m0\<rparr>
        else case observe_sequence (writer_state w) to_write m0 of (committed_marks, st, m) \<Rightarrow>
          (case put_batch env now to_write (store w) of
             (Ok _, s) \<Rightarrow> \<lparr>store = s,
                writer_state = st\<lparr>watermarks := fold (\<lambda>(c, mark). hm_entry c mark (\<lambda>e. max e mark)) committed_marks (watermarks st)\<rparr>,
                metrics = m\<lparr>commits := commits m + 1,
                            records_written := records_written m + word_of_nat (length to_write)\<rparr>\<rparr>
           | (Err _, s) \<Rightarrow> \<lparr>store = s, writer_state = st\<lparr>commit_failed := True\<rparr>, metrics = m\<rparr>))"

text \<open>
  Filling a batch: \<open>n\<close> messages arrive before the window ends. The result is the batch, whether a
  flush request ended it, and the messages left.
\<close>

fun fill_batch ::
    "nat \<Rightarrow> nat \<Rightarrow> IngestRecord list \<Rightarrow> WriterMessage list \<Rightarrow> IngestRecord list \<times> bool \<times> WriterMessage list" where
  "fill_batch cap 0 batch msgs = (batch, False, msgs)"
| "fill_batch cap (Suc n) batch msgs =
     (if length batch < cap
      then (case msgs of
              [] \<Rightarrow> (batch, False, [])
            | Record rec # msgs' \<Rightarrow> fill_batch cap n (batch @ [rec]) msgs'
            | Flush # msgs' \<Rightarrow> (batch, True, msgs'))
      else (batch, False, msgs))"

definition next_batch ::
    "nat \<Rightarrow> nat \<Rightarrow> WriterMessage \<Rightarrow> WriterMessage list \<Rightarrow> IngestRecord list \<times> bool \<times> WriterMessage list" where
  "next_batch cap n fst_msg msgs =
     (case fst_msg of Record rec \<Rightarrow> fill_batch cap n [rec] msgs | Flush \<Rightarrow> ([], True, msgs))"

lemma fill_batch_length: "length (snd (snd (fill_batch cap n batch msgs))) \<le> length msgs"
  by (induction cap n batch msgs rule: fill_batch.induct)
    (auto simp: le_SucI split: list.split WriterMessage.split)

lemma next_batch_length: "next_batch cap n msg msgs = (b, f, rest) \<Longrightarrow> length rest \<le> length msgs"
  using fill_batch_length by (fastforce simp: next_batch_def split: WriterMessage.splits dest: arg_cong [where f = snd])

definition writer_step ::
    "'d store_env \<Rightarrow> int \<Rightarrow> IngestRecord list \<times> bool \<Rightarrow> 'd Writer
       \<Rightarrow> (FlushReport, IngestError) result list \<times> 'd Writer" where
  "writer_step env now bf w =
     (let w' = commit_batch env now (fst bf) w in
      if snd bf then (case answer_flush (writer_state w') of (reply, st) \<Rightarrow> ([reply], w'\<lparr>writer_state := st\<rparr>))
      else ([], w'))"

text \<open>The loop of the writer, from batch number \<open>i\<close> on.\<close>

function writer_loop ::
    "'d store_env \<Rightarrow> IngestConfig \<Rightarrow> (nat \<Rightarrow> nat) \<Rightarrow> (nat \<Rightarrow> int) \<Rightarrow> nat \<Rightarrow> WriterMessage list \<Rightarrow> 'd Writer
       \<Rightarrow> (FlushReport, IngestError) result list \<times> 'd Writer" where
  "writer_loop env cfg arrivals clock i [] w = ([], w)"
| "writer_loop env cfg arrivals clock i (msg # msgs) w =
     (case next_batch (batch_records cfg) (arrivals i) msg msgs of (batch, fl, rest) \<Rightarrow>
        (case writer_step env (clock i) (batch, fl) w of (replies, w') \<Rightarrow>
           (case writer_loop env cfg arrivals clock (Suc i) rest w' of (replies', w'') \<Rightarrow>
              (replies @ replies', w''))))"
  by pat_completeness auto
termination
  by (relation "measure (\<lambda>(env, cfg, arrivals, clock, i, msgs, w). length msgs)")
    (auto dest!: next_batch_length [OF sym])

definition start_writer :: "'d store_env \<Rightarrow> 'd EventStore \<Rightarrow> 'd Writer" where
  "start_writer env s =
     \<lparr>store = s,
      writer_state = \<lparr>watermarks = (case ingest_watermarks env s of Ok m \<Rightarrow> m | Err _ \<Rightarrow> []),
                      pending_gaps = [], commit_failed = False\<rparr>,
      metrics = IngestMetrics_default\<rparr>"

definition run_writer ::
    "'d store_env \<Rightarrow> IngestConfig \<Rightarrow> (nat \<Rightarrow> nat) \<Rightarrow> (nat \<Rightarrow> int) \<Rightarrow> WriterMessage list \<Rightarrow> 'd EventStore
       \<Rightarrow> (FlushReport, IngestError) result list \<times> 'd Writer" where
  "run_writer env cfg arrivals clock msgs s = writer_loop env cfg arrivals clock 0 msgs (start_writer env s)"

text \<open>
  The producer's side. The queue holds the messages sent and not yet taken, in the order they were
  sent; a sender that waits for room in a full channel counts as sent, after an alert.
\<close>

record Channel =
  queue :: "WriterMessage list"
  closed :: bool

definition send :: "WriterMessage \<Rightarrow> Channel \<Rightarrow> (unit, IngestError) result \<times> Channel" where
  "send msg ch = (if closed ch then (Err Closed, ch) else (Ok (), ch\<lparr>queue := queue ch @ [msg]\<rparr>))"

definition submit ::
    "IngestConfig \<Rightarrow> IngestRecord \<Rightarrow> Channel \<Rightarrow> IngestMetrics \<Rightarrow> (unit, IngestError) result \<times> Channel \<times> IngestMetrics" where
  "submit cfg rec ch m =
     (let m' = (if \<not> closed ch \<and> channel_capacity cfg \<le> length (queue ch)
                then m\<lparr>saturation_alerts := saturation_alerts m + 1\<rparr> else m) in
      case send (Record rec) ch of (res, ch') \<Rightarrow> (res, ch', m'))"

section \<open>What the gate accepts\<close>

definition beyond :: "u64 option \<Rightarrow> u64 \<Rightarrow> bool" where
  "beyond mark x = (case mark of None \<Rightarrow> True | Some y \<Rightarrow> y < x)"

definition rec_key :: "IngestRecord \<Rightarrow> string \<times> u64" where
  "rec_key rec = (collector_id rec, source_seq rec)"

text \<open>The reference gate takes records one by one and accepts what lies above the mark of its collector.\<close>

fun accept :: "(string \<Rightarrow> u64 option) \<Rightarrow> IngestRecord list \<Rightarrow> IngestRecord list" where
  "accept m [] = []"
| "accept m (rec # recs) =
     (if beyond (m (collector_id rec)) (source_seq rec) then [rec] else [])
       @ accept (m(collector_id rec := raise1 (m (collector_id rec)) (source_seq rec))) recs"

fun gaps_of :: "(string \<Rightarrow> u64 option) \<Rightarrow> IngestRecord list \<Rightarrow> SequenceGap list" where
  "gaps_of m [] = []"
| "gaps_of m (rec # recs) =
     (case m (collector_id rec) of
        None \<Rightarrow> []
      | Some lst \<Rightarrow> if is_contiguous lst (source_seq rec) then []
          else [\<lparr>gap_collector_id = collector_id rec, expected_seq = sat_add lst 1, observed_seq = source_seq rec\<rparr>])
     @ gaps_of (m(collector_id rec := raise1 (m (collector_id rec)) (source_seq rec))) recs"

definition in_order :: "IngestRecord list \<Rightarrow> bool" where
  "in_order recs \<longleftrightarrow> (\<forall>c. sorted (seqs_of c recs))"

text \<open>Marks after some records were seen.\<close>

definition after_recs :: "(string \<Rightarrow> u64 option) \<Rightarrow> IngestRecord list \<Rightarrow> string \<Rightarrow> u64 option" where
  "after_recs m recs = (\<lambda>c. raised (m c) (seqs_of c recs))"

lemma after_recs_simps [simp]:
  "after_recs m [] = m"
  "after_recs m (xs @ ys) = after_recs (after_recs m xs) ys"
  "after_recs m (rec # recs) = after_recs (m(collector_id rec := raise1 (m (collector_id rec)) (source_seq rec))) recs"
  by (auto simp: after_recs_def fun_eq_iff)

lemma raise1_not_above: "\<not> beyond m x \<Longrightarrow> raise1 m x = m"
  by (auto simp: beyond_def raise1_def max_def split: option.splits)

lemma above_raised: "beyond (raised m xs) x \<longleftrightarrow> beyond m x \<and> (\<forall>y \<in> set xs. y < x)"
  by (induction xs arbitrary: m) (auto simp: beyond_def raise1_def split: option.splits)

lemma accept_append: "accept m (xs @ ys) = accept m xs @ accept (after_recs m xs) ys"
  by (induction xs arbitrary: m) auto

lemma gaps_of_append: "gaps_of m (xs @ ys) = gaps_of m xs @ gaps_of (after_recs m xs) ys"
  by (induction xs arbitrary: m) auto

lemma after_accept [simp]: "after_recs m (accept m recs) = after_recs m recs"
proof (induction recs arbitrary: m)
  case (Cons rec recs)
  then show ?case
    by (cases "beyond (m (collector_id rec)) (source_seq rec)") (simp_all add: raise1_not_above fun_upd_def)
qed simp

text \<open>The survivors of a batch are above the marks, have distinct keys, and keep their order.\<close>

lemma filter_batch_facts:
  "filter_batch wm seen batch = (keep, n) \<Longrightarrow>
     subseq keep batch \<and> distinct (map rec_key keep) \<and>
     (\<forall>rec \<in> set keep. beyond (hm_get wm (collector_id rec)) (source_seq rec) \<and> rec_key rec \<notin> set seen)"
proof (induction wm seen batch arbitrary: keep n rule: filter_batch.induct)
  case (2 wm seen rec batch)
  let ?key = "(collector_id rec, source_seq rec)"
  let ?seen = "if ?key \<in> set seen then seen else ?key # seen"
  obtain keep' n' where rest: "filter_batch wm ?seen batch = (keep', n')"
    by (cases "filter_batch wm ?seen batch")
  note IH = "2.IH" [OF refl refl refl rest]
  have "keep = keep' \<or> keep = rec # keep' \<and> beyond (hm_get wm (collector_id rec)) (source_seq rec) \<and> ?key \<notin> set seen"
    using "2.prems" rest by (auto simp: beyond_def split: if_splits option.splits)
  moreover have "rec_key rec \<in> set ?seen" "set seen \<subseteq> set ?seen"
    by (auto simp: rec_key_def)
  ultimately show ?case
    using IH by (elim disjE conjE) (force simp: rec_key_def [of rec])+
qed simp

lemma filter_batch_in_order:
  assumes "in_order (xs @ batch)" "set seen = rec_key ` set xs"
  shows "fst (filter_batch wm seen batch) = accept (after_recs (hm_get wm) xs) batch"
  using assms
proof (induction batch arbitrary: xs seen)
  case (Cons rec batch)
  let ?c = "collector_id rec" and ?s = "source_seq rec"
  let ?seen = "if (?c, ?s) \<in> set seen then seen else (?c, ?s) # seen"
  have ord: "in_order ((xs @ [rec]) @ batch)" using Cons.prems(1) by simp
  have keys: "set ?seen = rec_key ` set (xs @ [rec])"
    using Cons.prems(2) by (auto simp: rec_key_def)
  have "y \<le> ?s" if "y \<in> set (seqs_of ?c xs)" for y
    using Cons.prems(1) that by (auto simp: in_order_def sorted_append)
  moreover have mem: "(?c, ?s) \<in> set seen \<longleftrightarrow> ?s \<in> set (seqs_of ?c xs)"
    unfolding Cons.prems(2) by (simp add: rec_key_def seqs_of_def image_iff) metis
  ultimately have gate: "beyond (after_recs (hm_get wm) xs ?c) ?s \<longleftrightarrow> beyond (hm_get wm ?c) ?s \<and> (?c, ?s) \<notin> set seen"
    unfolding after_recs_def above_raised by (metis order_le_less less_irrefl)
  have rest: "fst (filter_batch wm ?seen batch) = accept (after_recs (hm_get wm) (xs @ [rec])) batch"
    by (rule Cons.IH [OF ord keys])
  then show ?case
    using gate by (cases "filter_batch wm ?seen batch")
      (auto simp: beyond_def Let_def split: option.splits if_splits)
qed simp


section \<open>Gaps\<close>

text \<open>The mark a record is compared with, before and after records of the batch were walked.\<close>

definition prev_mark :: "(string, u64) hash_map \<Rightarrow> (string, u64) hash_map \<Rightarrow> string \<Rightarrow> u64 option" where
  "prev_mark running wm c = (case hm_get running c of None \<Rightarrow> hm_get wm c | Some x \<Rightarrow> Some x)"

definition capped :: "SequenceGap list \<Rightarrow> SequenceGap list \<Rightarrow> SequenceGap list" where
  "capped pending new = pending @ take (MAX_PENDING_GAPS - length pending) new"

lemma capped_Nil [simp]: "capped pending [] = pending"
  by (simp add: capped_def)

lemma capped_append: "capped pending (xs @ ys) = capped (capped pending xs) ys"
  by (simp add: capped_def min_def)

lemma capped_single: "capped pending [g] = (if length pending < MAX_PENDING_GAPS then pending @ [g] else pending)"
  by (simp add: capped_def)

lemma observe_loop_facts:
  assumes "observe_loop running st m recs = (running', st', m')" "hm_wf running"
    and "\<forall>rec \<in> set recs. beyond (hm_get (watermarks st) (collector_id rec)) (source_seq rec)"
    and "\<forall>c x. hm_get running c = Some x \<longrightarrow> beyond (hm_get (watermarks st) c) x"
  shows "watermarks st' = watermarks st \<and> commit_failed st' = commit_failed st \<and> hm_wf running' \<and>
    pending_gaps st' = capped (pending_gaps st) (gaps_of (prev_mark running (watermarks st)) recs) \<and>
    duplicates_discarded m' = duplicates_discarded m \<and>
    (\<forall>c. hm_get running' c = raised (hm_get running c) (seqs_of c recs))"
  using assms
proof (induction recs arbitrary: running st m)
  case (Cons rec recs)
  let ?c = "collector_id rec" and ?s = "source_seq rec" and ?wm = "watermarks st"
  define prev where "prev = prev_mark running ?wm ?c"
  define new where "new = (case prev of None \<Rightarrow> []
      | Some lst \<Rightarrow> if is_contiguous lst ?s then []
          else [\<lparr>gap_collector_id = ?c, expected_seq = sat_add lst 1, observed_seq = ?s\<rparr>])"
  define st1 where "st1 = st\<lparr>pending_gaps := capped (pending_gaps st) new\<rparr>"
  define run1 where "run1 = hm_insert ?c (case hm_get running ?c of None \<Rightarrow> ?s | Some x \<Rightarrow> max x ?s) running"
  obtain m1 where m1: "observe_loop run1 st1 m1 recs = (running', st', m')"
    "duplicates_discarded m1 = duplicates_discarded m"
    using Cons.prems(1)
    by (auto simp: Let_def st1_def run1_def new_def prev_def prev_mark_def capped_single
        split: option.splits if_splits)
  have marks: "prev_mark run1 ?wm = (prev_mark running ?wm)(?c := raise1 (prev_mark running ?wm ?c) ?s)"
    using Cons.prems(3,4)
    by (auto simp: fun_eq_iff prev_mark_def run1_def raise1_def beyond_def max_def split: option.splits)
  have gaps: "gaps_of (prev_mark running ?wm) (rec # recs) = new @ gaps_of (prev_mark run1 ?wm) recs"
    unfolding marks by (simp add: new_def prev_def)
  have run: "hm_get run1 c = raised (hm_get running c) (seqs_of c [rec])" for c
    by (simp add: run1_def raise1_def split: option.split)
  have keep: "\<forall>c x. hm_get run1 c = Some x \<longrightarrow> beyond (hm_get (watermarks st1) c) x"
    using Cons.prems(3,4) by (auto simp: run1_def st1_def beyond_def max_def split: option.splits if_splits)
  have wf: "hm_wf run1" using Cons.prems(2) by (simp add: run1_def)
  have ab: "\<forall>rec \<in> set recs. beyond (hm_get (watermarks st1) (collector_id rec)) (source_seq rec)"
    using Cons.prems(3) by (simp add: st1_def)
  note IH = Cons.IH [OF m1(1) wf ab keep]
  show ?case
    using IH m1(2) gaps run by (auto simp: st1_def capped_append)
qed simp

lemma observe_sequence_facts:
  assumes "observe_sequence st recs m = (committed, st', m')"
    and "\<forall>rec \<in> set recs. beyond (hm_get (watermarks st) (collector_id rec)) (source_seq rec)"
  shows "watermarks st' = watermarks st" "commit_failed st' = commit_failed st" "hm_wf committed"
    "pending_gaps st' = capped (pending_gaps st) (gaps_of (hm_get (watermarks st)) recs)"
    "duplicates_discarded m' = duplicates_discarded m"
    "hm_get committed c = raised None (seqs_of c recs)"
  using observe_loop_facts [OF assms(1)[unfolded observe_sequence_def] hm_wf_Nil assms(2)]
  by (auto simp: prev_mark_def [abs_def])

lemma advance_marks:
  "hm_wf ms \<Longrightarrow> hm_get (fold (\<lambda>(c, mark). hm_entry c mark (\<lambda>e. max e mark)) ms wm) c =
     (case hm_get ms c of None \<Rightarrow> hm_get wm c | Some x \<Rightarrow> raise1 (hm_get wm c) x)"
proof (induction ms arbitrary: wm)
  case (Cons cm ms)
  obtain c' x where cm: "cm = (c', x)" by (cases cm)
  have wf: "hm_wf ms" and new: "hm_get ms c' = None"
    using Cons.prems by (auto simp: cm hm_wf_def hm_get_def map_of_eq_None_iff)
  have "hm_get (hm_entry c' x (\<lambda>e. max e x) wm) c = (if c' = c then raise1 (hm_get wm c) x else hm_get wm c)"
    by (auto simp: hm_get_entry raise1_def split: option.split)
  with new show ?case
    by (auto simp: cm Cons.IH [OF wf] hm_get_def [of "(c', x) # ms"] simp flip: hm_get_def split: option.split)
qed simp

section \<open>One batch\<close>

definition mark_of :: "'d Writer \<Rightarrow> string \<Rightarrow> u64 option" where
  "mark_of w c = hm_get (watermarks (writer_state w)) c"

definition disk :: "'d store_env \<Rightarrow> 'd Writer \<Rightarrow> Db" where
  "disk env w = contents env (db (store w))"

definition disk_marks :: "'d store_env \<Rightarrow> 'd Writer \<Rightarrow> string \<Rightarrow> u64 option" where
  "disk_marks env w = hm_get (marks (disk env w))"

text \<open>The marks in memory are the marks on disk, as they are from the start when they could be read.\<close>

definition writer_inv :: "'d store_env \<Rightarrow> 'd Writer \<Rightarrow> bool" where
  "writer_inv env w \<longleftrightarrow> store_inv env (store w) \<and> mark_of w = disk_marks env w"

definition survivors :: "'d Writer \<Rightarrow> IngestRecord list \<Rightarrow> IngestRecord list" where
  "survivors w batch = fst (filter_batch (watermarks (writer_state w)) [] batch)"

text \<open>
  What a batch added: all of its survivors or nothing. The marks in memory and on disk are raised alike,
  whether or not they agreed before.
\<close>

definition batch_done :: "'d store_env \<Rightarrow> 'd Writer \<Rightarrow> 'd Writer \<Rightarrow> IngestRecord list \<Rightarrow> bool" where
  "batch_done env w w' added \<longleftrightarrow> store_inv env (store w') \<and> grew env (disk env w) (disk env w') added \<and>
     mark_of w' = after_recs (mark_of w) added \<and> disk_marks env w' = after_recs (disk_marks env w) added \<and>
     same_config (store w) (store w') \<and> cursor_table (disk env w') = cursor_table (disk env w)"

lemma batch_done_inv: "writer_inv env w \<Longrightarrow> batch_done env w w' added \<Longrightarrow> writer_inv env w'"
  by (simp add: writer_inv_def batch_done_def)

lemma survivors_facts:
  "subseq (survivors w batch) batch" "distinct (map rec_key (survivors w batch))"
  "rec \<in> set (survivors w batch) \<Longrightarrow> beyond (mark_of w (collector_id rec)) (source_seq rec)"
  using filter_batch_facts [of "watermarks (writer_state w)" "[]" batch]
  by (cases "filter_batch (watermarks (writer_state w)) [] batch", force simp: survivors_def mark_of_def)+

lemma commit_batch_cases:
  assumes "redb_atomic env" "postcard_inverts env" "store_inv env (store w)" "w' = commit_batch env now batch w"
  shows "batch_done env w w' (survivors w batch) \<and> commit_failed (writer_state w') = commit_failed (writer_state w) \<and>
      pending_gaps (writer_state w') = capped (pending_gaps (writer_state w)) (gaps_of (mark_of w) (survivors w batch))
    \<or> batch_done env w w' [] \<and> commit_failed (writer_state w')"
proof -
  obtain keep n where keep: "filter_batch (watermarks (writer_state w)) [] batch = (keep, n)"
    by (cases "filter_batch (watermarks (writer_state w)) [] batch")
  have sv: "survivors w batch = keep" by (simp add: survivors_def keep)
  show ?thesis
  proof (cases "keep = []")
    case True
    then have "store w' = store w" "writer_state w' = writer_state w"
      by (simp_all add: assms(4) commit_batch_def keep)
    then show ?thesis
      using assms(3) True by (simp add: sv batch_done_def mark_of_def [abs_def] disk_marks_def disk_def)
  next
    case False
    define m0 where "m0 = (metrics w)\<lparr>duplicates_discarded := duplicates_discarded (metrics w) + word_of_nat n\<rparr>"
    obtain cm st m where ob: "observe_sequence (writer_state w) keep m0 = (cm, st, m)"
      by (cases "observe_sequence (writer_state w) keep m0")
    have ab: "\<forall>rec \<in> set keep. beyond (hm_get (watermarks (writer_state w)) (collector_id rec)) (source_seq rec)"
      using filter_batch_facts [OF keep] by simp
    note obs = observe_sequence_facts [OF ob ab]
    obtain res s where put: "put_batch env now keep (store w) = (res, s)"
      by (cases "put_batch env now keep (store w)")
    show ?thesis
    proof (cases res)
      case (Inl e)
      have w': "w' = \<lparr>store = s, writer_state = st\<lparr>commit_failed := True\<rparr>, metrics = m\<rparr>"
        using keep False ob put Inl by (simp add: assms(4) commit_batch_def m0_def)
      show ?thesis
        using put_batch_Err [OF assms(1) put [unfolded Inl]] assms(3) obs(1)
        by (simp add: w' batch_done_def mark_of_def [abs_def] disk_marks_def disk_def store_inv_def same_config_def)
    next
      case (Inr u)
      have w': "store w' = s" "writer_state w' = st\<lparr>watermarks := fold (\<lambda>(c, mark). hm_entry c mark (\<lambda>e. max e mark)) cm (watermarks st)\<rparr>"
        using keep False ob put Inr by (simp_all add: assms(4) commit_batch_def m0_def)
      note ok = put_batch_Ok [OF assms(1-3) put [unfolded Inr]]
      have marks: "mark_of w' c = raised (mark_of w c) (seqs_of c keep)" for c
        using raised_raised [of _ "seqs_of c keep"] raised_None_iff [of None "seqs_of c keep"]
        by (cases "mark_of w c")
          (auto simp: w' mark_of_def advance_marks [OF obs(3)] obs(1,6) raise1_def split: option.split)
      have "batch_done env w w' keep"
        using ok marks
        by (simp add: batch_done_def w' disk_marks_def disk_def after_recs_def fun_eq_iff)
      then show ?thesis
        using obs(2,4) by (simp add: sv w' mark_of_def [abs_def])
    qed
  qed
qed


section \<open>The loop\<close>

definition records_of :: "WriterMessage list \<Rightarrow> IngestRecord list" where
  "records_of msgs = concat (map (\<lambda>msg. case msg of Record rec \<Rightarrow> [rec] | Flush \<Rightarrow> []) msgs)"

lemma records_of_simps [simp]:
  "records_of [] = []" "records_of (Record rec # msgs) = rec # records_of msgs"
  "records_of (Flush # msgs) = records_of msgs" "records_of (xs @ ys) = records_of xs @ records_of ys"
  "records_of (map Record recs) = recs"
  by (simp_all add: records_of_def comp_def)

lemma fill_batch_records:
  "fill_batch cap n batch msgs = (b, fl, rest) \<Longrightarrow> b @ records_of rest = batch @ records_of msgs"
  by (induction cap n batch msgs rule: fill_batch.induct)
    (auto split: list.splits WriterMessage.splits if_splits)

lemma next_batch_records:
  "next_batch cap n msg msgs = (b, fl, rest) \<Longrightarrow> b @ records_of rest = records_of (msg # msgs)"
  by (auto simp: next_batch_def dest: fill_batch_records split: WriterMessage.splits)

text \<open>While no flush request was taken, the rest still ends with the one at the end.\<close>

lemma fill_batch_flush:
  "fill_batch cap n batch (map Record recs @ [Flush]) = (b, fl, rest) \<Longrightarrow>
     (if fl then rest = [] else \<exists>recs'. rest = map Record recs' @ [Flush])"
proof (induction recs arbitrary: n batch)
  case Nil
  then show ?case by (cases n) (auto split: if_splits intro: exI [of _ "[]"])
next
  case (Cons rec recs)
  then show ?case
    by (cases n) (auto split: if_splits intro: exI [of _ "rec # recs"])
qed

lemma next_batch_flush:
  assumes "map Record recs @ [Flush] = msg # msgs" "next_batch cap n msg msgs = (b, fl, rest)"
  shows "if fl then rest = [] else \<exists>recs'. rest = map Record recs' @ [Flush]"
proof (cases recs)
  case Nil
  with assms show ?thesis by (auto simp: next_batch_def)
next
  case (Cons rec recs')
  with assms have "fill_batch cap n [rec] (map Record recs' @ [Flush]) = (b, fl, rest)"
    by (auto simp: next_batch_def)
  then show ?thesis by (rule fill_batch_flush)
qed

text \<open>What any number of batches adds, whatever fails and however records are batched.\<close>

definition run_added :: "'d store_env \<Rightarrow> 'd Writer \<Rightarrow> 'd Writer \<Rightarrow> IngestRecord list \<Rightarrow> bool" where
  "run_added env w w' added \<longleftrightarrow> batch_done env w w' added \<and> distinct (map rec_key added) \<and>
     (\<forall>rec \<in> set added. beyond (mark_of w (collector_id rec)) (source_seq rec))"

lemma above_after: "beyond (after_recs m recs c) x \<Longrightarrow> beyond (m c) x"
  by (simp add: after_recs_def above_raised)

lemma distinct_keys_append:
  assumes "distinct (map rec_key xs)" "distinct (map rec_key ys)"
    and "\<forall>y \<in> set ys. beyond (after_recs m xs (collector_id y)) (source_seq y)"
  shows "distinct (map rec_key (xs @ ys))"
proof -
  have "rec_key x \<noteq> rec_key y" if "x \<in> set xs" "y \<in> set ys" for x y
  proof
    assume eq: "rec_key x = rec_key y"
    have "beyond (after_recs m xs (collector_id y)) (source_seq y)"
      using assms(3) that(2) by blast
    then have "source_seq x < source_seq y"
      using that(1) eq by (auto simp: after_recs_def above_raised seqs_of_def rec_key_def)
    with eq show False by (simp add: rec_key_def)
  qed
  then have "rec_key ` set xs \<inter> rec_key ` set ys = {}" by blast
  with assms(1,2) show ?thesis by simp
qed

lemma batch_done_trans: "batch_done env w w' xs \<Longrightarrow> batch_done env w' w'' ys \<Longrightarrow> batch_done env w w'' (xs @ ys)"
  by (auto simp: batch_done_def same_config_def intro: grew_trans)

text \<open>
  What a client of a gate relies on: what is added in two steps is added together, and the marks are
  raised by what was added. Then deliveries that pass the gate step by step are distinct overall.
\<close>

locale delivery_gate =
  fixes mark :: "'s \<Rightarrow> string \<Rightarrow> u64 option"
    and adds :: "'s \<Rightarrow> 's \<Rightarrow> IngestRecord list \<Rightarrow> bool"
  assumes adds_trans: "adds s s' xs \<Longrightarrow> adds s' s'' ys \<Longrightarrow> adds s s'' (xs @ ys)"
    and adds_mark: "adds s s' xs \<Longrightarrow> mark s' = after_recs (mark s) xs"
begin

lemma adds_once:
  assumes "adds s s' xs" "adds s' s'' ys" "distinct (map rec_key xs)" "distinct (map rec_key ys)"
    and "\<forall>x \<in> set xs. beyond (mark s (collector_id x)) (source_seq x)"
    and "\<forall>y \<in> set ys. beyond (mark s' (collector_id y)) (source_seq y)"
  shows "adds s s'' (xs @ ys)" "distinct (map rec_key (xs @ ys))"
    "\<forall>rec \<in> set (xs @ ys). beyond (mark s (collector_id rec)) (source_seq rec)"
proof -
  have marks: "mark s' = after_recs (mark s) xs"
    by (rule adds_mark [OF assms(1)])
  show "adds s s'' (xs @ ys)"
    by (rule adds_trans [OF assms(1,2)])
  show "distinct (map rec_key (xs @ ys))"
    using assms(3,4,6) by (intro distinct_keys_append [of _ _ "mark s"]) (simp_all add: marks)
  show "\<forall>rec \<in> set (xs @ ys). beyond (mark s (collector_id rec)) (source_seq rec)"
    using assms(5,6) above_after by (auto simp: marks)
qed

end

interpretation writer_gate: delivery_gate mark_of "batch_done env" for env
  by unfold_locales (rule batch_done_trans, auto simp: batch_done_def)

lemma run_added_trans:
  "run_added env w w' xs \<Longrightarrow> run_added env w' w'' ys \<Longrightarrow> run_added env w w'' (xs @ ys)"
  using writer_gate.adds_once [of env w w' xs w'' ys] by (simp add: run_added_def)

lemma run_added_refl: "store_inv env (store w) \<Longrightarrow> run_added env w w []"
  by (simp add: run_added_def batch_done_def)

lemma batch_done_answered:
  "batch_done env w (w1\<lparr>writer_state := (writer_state w1)\<lparr>pending_gaps := g, commit_failed := f\<rparr>\<rparr>) added =
     batch_done env w w1 added"
  by (simp add: batch_done_def mark_of_def [abs_def] disk_marks_def disk_def)

lemma writer_step_run:
  assumes "redb_atomic env" "postcard_inverts env" "store_inv env (store w)" "writer_step env now (batch, fl) w = (replies, w')"
  shows "\<exists>added. subseq added batch \<and> run_added env w w' added"
proof -
  define w1 where "w1 = commit_batch env now batch w"
  have same: "store w' = store w1" "watermarks (writer_state w') = watermarks (writer_state w1)"
    using assms(4) by (auto simp: writer_step_def w1_def answer_flush_def Let_def split: if_splits)
  have lift: "batch_done env w w' added = batch_done env w w1 added" for added
    by (simp add: batch_done_def mark_of_def [abs_def] disk_marks_def disk_def same)
  from commit_batch_cases [OF assms(1-3) w1_def] survivors_facts [where w = w and batch = batch]
  show ?thesis
    by (elim disjE) (auto simp: run_added_def lift)
qed

lemma writer_loop_run:
  assumes "redb_atomic env" "postcard_inverts env" "store_inv env (store w)"
    and "writer_loop env cfg arrivals clock i msgs w = (replies, w')"
  shows "\<exists>added. subseq added (records_of msgs) \<and> run_added env w w' added"
  using assms
proof (induction env cfg arrivals clock i msgs w arbitrary: replies rule: writer_loop.induct)
  case (1 env cfg arrivals clock i w)
  then show ?case by (auto intro: exI [of _ "[]"] run_added_refl)
next
  case (2 env cfg arrivals clock i msg msgs w)
  obtain batch fl rest where nb: "next_batch (batch_records cfg) (arrivals i) msg msgs = (batch, fl, rest)"
    by (rule prod_cases3)
  obtain r1 w1 where st: "writer_step env (clock i) (batch, fl) w = (r1, w1)" by (rule prod.exhaust)
  obtain r2 where lp: "writer_loop env cfg arrivals clock (Suc i) rest w1 = (r2, w')"
    using "2.prems"(4) by (auto simp: nb st split: prod.splits)
  obtain xs where xs: "subseq xs batch" "run_added env w w1 xs"
    using writer_step_run [OF "2.prems"(1-3) st] by blast
  have inv: "store_inv env (store w1)" using xs(2) by (simp add: run_added_def batch_done_def)
  obtain ys where ys: "subseq ys (records_of rest)" "run_added env w1 w' ys"
    using "2.IH" [OF nb [symmetric] refl st [symmetric] "2.prems"(1,2) inv lp] by blast
  show ?case
    using run_added_trans [OF xs(2) ys(2)] xs(1) ys(1) next_batch_records [OF nb]
    by (metis list_emb_append_mono)
qed


section \<open>In order\<close>

lemma in_order_append: "in_order (xs @ ys) \<longleftrightarrow> in_order xs \<and> in_order ys \<and>
    (\<forall>c. \<forall>x \<in> set (seqs_of c xs). \<forall>y \<in> set (seqs_of c ys). x \<le> y)"
  by (auto simp: in_order_def sorted_append)

lemma survivors_in_order: "in_order batch \<Longrightarrow> survivors w batch = accept (mark_of w) batch"
  using filter_batch_in_order [of "[]" batch "[]" "watermarks (writer_state w)"]
  by (simp add: survivors_def mark_of_def [abs_def])

text \<open>
  Records in order, then a flush: the answer is the only one, and when it is \<open>Ok\<close>, every batch was
  committed and the records added are those the reference gate accepts.
\<close>

lemma writer_loop_flush:
  assumes "redb_atomic env" "postcard_inverts env" "store_inv env (store w)" "in_order recs"
    and "writer_loop env cfg arrivals clock i (map Record recs @ [Flush]) w = (replies, w')"
  shows "\<exists>reply. replies = [reply] \<and> pending_gaps (writer_state w') = [] \<and> \<not> commit_failed (writer_state w') \<and>
    (case reply of
       Ok rep \<Rightarrow> \<not> commit_failed (writer_state w) \<and> batch_done env w w' (accept (mark_of w) recs) \<and>
         gaps rep = capped (pending_gaps (writer_state w)) (gaps_of (mark_of w) (accept (mark_of w) recs))
     | Err e \<Rightarrow> e = CommitFailed)"
  using assms
proof (induction "length recs" arbitrary: recs i w replies rule: less_induct)
  case less
  obtain msg msgs where msgs: "map Record recs @ [Flush] = msg # msgs"
    by (metis Nil_is_append_conv list.exhaust not_Cons_self2)
  obtain batch fl rest where nb: "next_batch (batch_records cfg) (arrivals i) msg msgs = (batch, fl, rest)"
    by (rule prod_cases3)
  define w1 where "w1 = commit_batch env (clock i) batch w"
  have recs: "batch @ records_of rest = recs"
    using next_batch_records [OF nb] by (simp flip: msgs)
  have ord: "in_order batch" "in_order (records_of rest)"
    using less.prems(4) by (auto simp: in_order_append simp flip: recs)
  have sv: "survivors w batch = accept (mark_of w) batch"
    by (rule survivors_in_order [OF ord(1)])
  note one = commit_batch_cases [OF less.prems(1-3) w1_def, unfolded sv]
  show ?case
  proof (cases fl)
    case True
    then have rest: "rest = []"
      using next_batch_flush [OF msgs nb] by simp
    obtain reply st where ans: "answer_flush (writer_state w1) = (reply, st)" by (rule prod.exhaust)
    have w': "replies = [reply]" "w' = w1\<lparr>writer_state := st\<rparr>"
      using less.prems(5) by (simp_all add: msgs nb writer_step_def True rest ans flip: w1_def)
    show ?thesis
      using one ans recs
      by (auto simp: w' batch_done_answered rest answer_flush_def Let_def split: if_splits)
  next
    case False
    obtain recs' where rest: "rest = map Record recs' @ [Flush]"
      using next_batch_flush [OF msgs nb] False by auto
    have eq: "recs = batch @ recs'" using recs by (simp add: rest)
    have "length rest \<le> length msgs" by (rule next_batch_length [OF nb])
    then have shorter: "length recs' < length recs"
      using arg_cong [OF msgs, of length] by (simp add: rest)
    have inv: "store_inv env (store w1)" using one by (auto simp: batch_done_def)
    have lp: "writer_loop env cfg arrivals clock (Suc i) (map Record recs' @ [Flush]) w1 = (replies, w')"
      using less.prems(5) by (simp add: msgs nb writer_step_def False rest split: prod.splits flip: w1_def)
    note IH = less.hyps [OF shorter less.prems(1,2) inv _ lp]
    have "in_order recs'" using ord(2) by (simp add: rest)
    note IH' = IH [OF this]
    show ?thesis
      using one
    proof (elim disjE conjE)
      assume fail: "commit_failed (writer_state w1)"
      with IH' show ?thesis by (auto split: sum.splits)
    next
      assume added: "batch_done env w w1 (accept (mark_of w) batch)"
        and cf: "commit_failed (writer_state w1) = commit_failed (writer_state w)"
        and pg: "pending_gaps (writer_state w1) = capped (pending_gaps (writer_state w)) (gaps_of (mark_of w) (accept (mark_of w) batch))"
      have mk: "mark_of w1 = after_recs (mark_of w) batch"
        using added by (simp add: batch_done_def)
      have acc: "accept (mark_of w) recs = accept (mark_of w) batch @ accept (mark_of w1) recs'"
        by (simp add: eq accept_append mk)
      have gp: "gaps_of (mark_of w) (accept (mark_of w) recs) =
          gaps_of (mark_of w) (accept (mark_of w) batch) @ gaps_of (mark_of w1) (accept (mark_of w1) recs')"
        by (simp add: acc gaps_of_append mk)
      obtain reply where reply: "replies = [reply]"
        "pending_gaps (writer_state w') = []" "\<not> commit_failed (writer_state w')"
        "case reply of
           Ok rep \<Rightarrow> \<not> commit_failed (writer_state w1) \<and> batch_done env w1 w' (accept (mark_of w1) recs') \<and>
             gaps rep = capped (pending_gaps (writer_state w1)) (gaps_of (mark_of w1) (accept (mark_of w1) recs'))
         | Err e \<Rightarrow> e = CommitFailed"
        using IH' by blast
      show ?thesis
      proof (intro exI [of _ reply] conjI reply(1-3))
        show "case reply of
           Ok rep \<Rightarrow> \<not> commit_failed (writer_state w) \<and> batch_done env w w' (accept (mark_of w) recs) \<and>
             gaps rep = capped (pending_gaps (writer_state w)) (gaps_of (mark_of w) (accept (mark_of w) recs))
         | Err e \<Rightarrow> e = CommitFailed"
          using reply(4) batch_done_trans [OF added, of w']
          by (cases reply) (simp_all add: acc gp [unfolded acc] capped_append cf pg)
      qed
    qed
  qed
qed


section \<open>Properties\<close>

text \<open>The agent's sessions one after the other: each starts a writer on the store the last one left.\<close>

fun run_sessions ::
    "'d store_env \<Rightarrow> IngestConfig \<Rightarrow> ((nat \<Rightarrow> nat) \<times> (nat \<Rightarrow> int) \<times> WriterMessage list) list \<Rightarrow> 'd EventStore \<Rightarrow> 'd EventStore" where
  "run_sessions env cfg [] s = s"
| "run_sessions env cfg ((arrivals, clock, msgs) # sessions) s =
     run_sessions env cfg sessions (store (snd (run_writer env cfg arrivals clock msgs s)))"

lemma start_writer_facts:
  assumes "redb_atomic env" "store_inv env s" "is_ok (ingest_watermarks env s)"
  shows "writer_inv env (start_writer env s)" "mark_of (start_writer env s) = hm_get (marks (contents env (db s)))"
    "disk env (start_writer env s) = contents env (db s)" "store (start_writer env s) = s"
proof -
  obtain t where "begin_read env (db s) = Ok t"
    using assms(3) by (cases "begin_read env (db s)") (auto simp: ingest_watermarks_def)
  then have "ingest_watermarks env s = Ok (marks (contents env (db s)))"
    using redb_atomicD(1) [OF assms(1)] by (auto simp: ingest_watermarks_def marks_def split: option.splits)
  then show marks: "mark_of (start_writer env s) = hm_get (marks (contents env (db s)))"
    by (simp add: mark_of_def [abs_def] start_writer_def)
  show "disk env (start_writer env s) = contents env (db s)" "store (start_writer env s) = s"
    by (simp_all add: disk_def start_writer_def)
  then show "writer_inv env (start_writer env s)"
    using assms(2) marks by (simp add: writer_inv_def disk_marks_def)
qed

text \<open>What some sessions did to a store.\<close>

definition store_mark :: "'d store_env \<Rightarrow> 'd EventStore \<Rightarrow> string \<Rightarrow> u64 option" where
  "store_mark env s = hm_get (marks (contents env (db s)))"

definition store_adds :: "'d store_env \<Rightarrow> 'd EventStore \<Rightarrow> 'd EventStore \<Rightarrow> IngestRecord list \<Rightarrow> bool" where
  "store_adds env s s' added \<longleftrightarrow> store_inv env s' \<and> grew env (contents env (db s)) (contents env (db s')) added \<and>
     store_mark env s' = after_recs (store_mark env s) added"

interpretation store_gate: delivery_gate "store_mark env" "store_adds env" for env
  by unfold_locales (auto simp: store_adds_def intro: grew_trans)

text \<open>What one session adds, whether or not the writer could read the watermarks at its start.\<close>

lemma session_run:
  assumes "redb_atomic env" "postcard_inverts env" "store_inv env s"
    and run: "run_writer env cfg arrivals clock msgs s = (replies, w')"
  obtains added where "subseq added (records_of msgs)" "store_adds env s (store w') added"
    "distinct (map rec_key added)"
    "is_ok (ingest_watermarks env s) \<Longrightarrow>
       \<forall>rec \<in> set added. beyond (store_mark env s (collector_id rec)) (source_seq rec)"
proof -
  let ?w = "start_writer env s"
  have st: "store ?w = s" by (simp add: start_writer_def)
  obtain added where added: "subseq added (records_of msgs)" "run_added env ?w w' added"
    using writer_loop_run [OF assms(1,2) _ run [unfolded run_writer_def]] assms(3) by (auto simp: st)
  have marks: "mark_of ?w = store_mark env s" if "is_ok (ingest_watermarks env s)"
    using start_writer_facts(2) [OF assms(1,3) that] by (simp add: store_mark_def)
  show thesis
    using added marks by (intro that [of added])
      (simp_all add: run_added_def batch_done_def store_adds_def store_mark_def disk_marks_def disk_def st)
qed

text \<open>Every session could read the watermarks when its writer started.\<close>

fun reads_marks ::
    "'d store_env \<Rightarrow> IngestConfig \<Rightarrow> ((nat \<Rightarrow> nat) \<times> (nat \<Rightarrow> int) \<times> WriterMessage list) list \<Rightarrow> 'd EventStore \<Rightarrow> bool" where
  "reads_marks env cfg [] s = True"
| "reads_marks env cfg ((arrivals, clock, msgs) # sessions) s =
     (is_ok (ingest_watermarks env s)
      \<and> reads_marks env cfg sessions (store (snd (run_writer env cfg arrivals clock msgs s))))"

lemma sessions_run:
  assumes "redb_atomic env" "postcard_inverts env" "store_inv env s"
  shows "\<exists>addeds. list_all2 (\<lambda>(_, _, msgs) added. subseq added (records_of msgs) \<and> distinct (map rec_key added)) sessions addeds \<and>
    store_adds env s (run_sessions env cfg sessions s) (concat addeds) \<and>
    (reads_marks env cfg sessions s \<longrightarrow> distinct (map rec_key (concat addeds)) \<and>
      (\<forall>rec \<in> set (concat addeds). beyond (store_mark env s (collector_id rec)) (source_seq rec)))"
  using assms(3)
proof (induction sessions arbitrary: s)
  case Nil
  then show ?case by (intro exI [of _ "[]"]) (simp add: store_adds_def)
next
  case (Cons x sessions)
  obtain arrivals clock msgs where x: "x = (arrivals, clock, msgs)" by (rule prod_cases3)
  obtain replies w' where run: "run_writer env cfg arrivals clock msgs s = (replies, w')" by (rule prod.exhaust)
  obtain added where added: "subseq added (records_of msgs)" "store_adds env s (store w') added" "distinct (map rec_key added)"
    "is_ok (ingest_watermarks env s) \<Longrightarrow>
       \<forall>rec \<in> set added. beyond (store_mark env s (collector_id rec)) (source_seq rec)"
    using session_run [OF assms(1,2) Cons.prems run] by blast
  have "store_inv env (store w')" using added(2) by (simp add: store_adds_def)
  from Cons.IH [OF this] obtain addeds where addeds:
    "list_all2 (\<lambda>(_, _, msgs) added. subseq added (records_of msgs) \<and> distinct (map rec_key added)) sessions addeds"
    "store_adds env (store w') (run_sessions env cfg sessions (store w')) (concat addeds)"
    "reads_marks env cfg sessions (store w') \<longrightarrow> distinct (map rec_key (concat addeds)) \<and>
      (\<forall>rec \<in> set (concat addeds). beyond (store_mark env (store w') (collector_id rec)) (source_seq rec))"
    by blast
  note once = store_gate.adds_once [OF added(2) addeds(2) added(3)]
  show ?case
  proof (intro exI [of _ "added # addeds"] conjI impI)
    show "list_all2 (\<lambda>(_, _, msgs) added. subseq added (records_of msgs) \<and> distinct (map rec_key added)) (x # sessions) (added # addeds)"
      using addeds(1) added(1,3) by (simp add: x)
    show "store_adds env s (run_sessions env cfg (x # sessions) s) (concat (added # addeds))"
      using store_gate.adds_trans [OF added(2) addeds(2)] by (simp add: x run)
  next
    assume "reads_marks env cfg (x # sessions) s"
    then have "is_ok (ingest_watermarks env s)" "reads_marks env cfg sessions (store w')"
      by (simp_all add: x run)
    then show "distinct (map rec_key (concat (added # addeds)))"
      "\<forall>rec \<in> set (concat (added # addeds)). beyond (store_mark env s (collector_id rec)) (source_seq rec)"
      using once(2,3) added(4) addeds(3) by simp_all
  qed
qed

text \<open>
  Claim C10: no delivery is stored twice. Over any number of sessions of the agent, whatever the
  messages, the batching and the commits that fail, each session adds a subsequence of the records submitted to
  it, in which no pair of collector and sequence number occurs twice; exactly those are added to the
  store, and the indexes stay exact. When every session could read the watermarks at its start, no pair occurs
  twice over all sessions either, and none lies at or below the watermark the store started with. A session that
  could not read them starts with none and accepts deliveries of earlier sessions again.
\<close>

theorem ingest_exactly_once:
  assumes "redb_atomic env" "postcard_inverts env" "store_inv env s"
  shows "\<exists>addeds. list_all2 (\<lambda>(_, _, msgs) added. subseq added (records_of msgs) \<and> distinct (map rec_key added)) sessions addeds \<and>
    stored_at env (contents env (db (run_sessions env cfg sessions s))) =
      stored_at env (contents env (db s)) + mset (map rec_at (concat addeds)) \<and>
    store_inv env (run_sessions env cfg sessions s) \<and>
    (reads_marks env cfg sessions s \<longrightarrow> distinct (map rec_key (concat addeds)) \<and>
      (\<forall>rec. rec \<in> set (concat addeds) \<longrightarrow>
         beyond (hm_get (marks (contents env (db s))) (collector_id rec)) (source_seq rec)))"
  using sessions_run [OF assms, of sessions cfg]
  by (auto simp: store_adds_def store_mark_def grew_def)

definition demo_sessions :: "((nat \<Rightarrow> nat) \<times> (nat \<Rightarrow> int) \<times> WriterMessage list) list" where
  "demo_sessions = [(\<lambda>_. 3, \<lambda>_. 0, [Record demo_rec, Record demo_rec, Flush]), (\<lambda>_. 1, \<lambda>_. 0, [Record demo_rec, Flush])]"

theorem ingest_exactly_once_witness:
  "\<exists>addeds. list_all2 (\<lambda>(_, _, msgs) added. subseq added (records_of msgs) \<and> distinct (map rec_key added)) demo_sessions addeds \<and>
    stored_at memory_env (contents memory_env (db (run_sessions memory_env IngestConfig_default demo_sessions demo_store))) =
      stored_at memory_env (contents memory_env (db demo_store)) + mset (map rec_at (concat addeds)) \<and>
    store_inv memory_env (run_sessions memory_env IngestConfig_default demo_sessions demo_store) \<and>
    distinct (map rec_key (concat addeds)) \<and>
    (\<forall>rec. rec \<in> set (concat addeds) \<longrightarrow>
       beyond (hm_get (marks (contents memory_env (db demo_store))) (collector_id rec)) (source_seq rec))"
proof -
  have "reads_marks memory_env IngestConfig_default demo_sessions demo_store"
    by (simp add: demo_sessions_def ingest_watermarks_def memory_env_def split: option.split)
  then show ?thesis
    using ingest_exactly_once [OF memory_env_ok demo_store_inv, of demo_sessions IngestConfig_default] by blast
qed

text \<open>
  The limit of this claim: when the watermarks are unreadable at the start of a session, a record of any
  sequence number, stored before or not, is stored once more.
\<close>

lemma unreadable_marks_store_again:
  assumes "redb_atomic env" "postcard_inverts env" "store_inv env s"
    and "ingest_watermarks env s = Err e" "put_batch env (clock 0) [rec] s = (Ok (), s')"
  shows "stored_at env (contents env (db (run_sessions env cfg [(\<lambda>_. 0, clock, [Record rec])] s))) =
    stored_at env (contents env (db s)) + {#rec_at rec#}"
proof -
  have "store (snd (run_writer env cfg (\<lambda>_. 0) clock [Record rec] s)) = s'"
    using assms(4,5)
    by (simp add: run_writer_def start_writer_def next_batch_def writer_step_def commit_batch_def
        observe_sequence_def Let_def)
  then show ?thesis
    using put_batch_Ok(2) [OF assms(1-3,5)] by (simp add: grew_def)
qed

text \<open>
  A successful flush is a barrier. When the writer takes records that arrive in order and
  then a flush request, it answers exactly once; if the answer is \<open>Ok\<close>, the store holds, on top of
  what it held, exactly the records a gate would accept that looks at them one by one, whatever the
  batching, and the answer lists the gaps of that sequence since the last flush, up to the limit. If
  a commit failed, the answer is \<open>CommitFailed\<close>, and the next flush starts anew.
\<close>

lemma flush_is_barrier:
  assumes "redb_atomic env" "postcard_inverts env" "writer_inv env w" "in_order recs"
  shows "case writer_loop env cfg arrivals clock i (map Record recs @ [Flush]) w of (replies, w') \<Rightarrow>
    \<exists>reply. replies = [reply] \<and> pending_gaps (writer_state w') = [] \<and> \<not> commit_failed (writer_state w') \<and>
    (case reply of
       Ok rep \<Rightarrow>
         stored_at env (disk env w') = stored_at env (disk env w) + mset (map rec_at (accept (mark_of w) recs)) \<and>
         mark_of w' = after_recs (mark_of w) recs \<and>
         gaps rep = capped (pending_gaps (writer_state w)) (gaps_of (mark_of w) (accept (mark_of w) recs))
     | Err e \<Rightarrow> e = CommitFailed)"
proof (cases "writer_loop env cfg arrivals clock i (map Record recs @ [Flush]) w")
  case (Pair replies w')
  have "store_inv env (store w)" using assms(3) by (simp add: writer_inv_def)
  from writer_loop_flush [OF assms(1,2) this assms(4) Pair] show ?thesis
    by (auto simp: Pair batch_done_def grew_def split: sum.split)
qed


lemma demo_writer_inv: "writer_inv memory_env (start_writer memory_env demo_store)"
  by (rule start_writer_facts [OF memory_env_ok(1) demo_store_inv])
    (simp add: ingest_watermarks_def memory_env_def split: option.split)

lemma flush_is_barrier_example:
  "case writer_loop memory_env IngestConfig_default (\<lambda>_. 1) (\<lambda>_. 0) 0 (map Record [demo_rec, demo_rec] @ [Flush])
      (start_writer memory_env demo_store) of (replies, w') \<Rightarrow>
    \<exists>reply. replies = [reply] \<and> pending_gaps (writer_state w') = [] \<and> \<not> commit_failed (writer_state w') \<and>
    (case reply of
       Ok rep \<Rightarrow>
         stored_at memory_env (disk memory_env w') = stored_at memory_env (disk memory_env (start_writer memory_env demo_store))
           + mset (map rec_at (accept (mark_of (start_writer memory_env demo_store)) [demo_rec, demo_rec])) \<and>
         mark_of w' = after_recs (mark_of (start_writer memory_env demo_store)) [demo_rec, demo_rec] \<and>
         gaps rep = capped (pending_gaps (writer_state (start_writer memory_env demo_store)))
           (gaps_of (mark_of (start_writer memory_env demo_store))
              (accept (mark_of (start_writer memory_env demo_store)) [demo_rec, demo_rec]))
     | Err e \<Rightarrow> e = CommitFailed)"
  by (rule flush_is_barrier [OF memory_env_ok demo_writer_inv]) (simp add: in_order_def)

end
