(* ===== verification/Detection_Cycle.thy ===== *)
theory Detection_Cycle
  imports Ingest
begin

text \<open>
  The agent's detection cycle, \<^verbatim>\<open>daemoneye-agent/src/detection_cycle.rs\<close> and the cycle in the main loop of
  \<^verbatim>\<open>daemoneye-agent/src/main.rs\<close>: number the collected records, ingest them, choose the window of time
  the rules are evaluated over, carry an ingest failure until a window has passed its records, and
  record how far evaluation has come.

  The rules, their evaluation and the delivery of alerts are not modelled. What the cycle uses of
  them is whether every alert was stored, the argument \<open>persisted\<close>. The evaluation itself is the set
  of stored events inside the window, so a rule that fails or runs out of time in the executor counts as
  evaluated. Errors stand for the texts the code keeps of them.
\<close>

section \<open>Numbering a cycle's records\<close>

definition PROCMOND_COLLECTOR_ID :: string where
  "PROCMOND_COLLECTOR_ID = ''procmond''"

datatype CycleIngestError = IngestFailed IngestError | TooManyRows | OrdinalExhausted | Storage StorageError

definition cycle_seq :: "u32 \<Rightarrow> u32 \<Rightarrow> u64" where
  "cycle_seq cycle_ordinal row_index = or (push_bit EPOCH_SHIFT (ucast cycle_ordinal)) (ucast row_index)"

definition ingest_row :: "string \<Rightarrow> u32 \<Rightarrow> nat \<Rightarrow> ProcessRecord \<Rightarrow> (IngestRecord, CycleIngestError) result" where
  "ingest_row c cycle_ordinal index r =
     (if 2 ^ 32 \<le> index then Err TooManyRows
      else let row_index = word_of_nat index in
        case IngestRecord_new c (cycle_seq cycle_ordinal row_index) row_index r of
          Err e \<Rightarrow> Err (IngestFailed e) | Ok row \<Rightarrow> Ok row)"

definition next_cycle_ordinal :: "'d store_env \<Rightarrow> 'd EventStore \<Rightarrow> string \<Rightarrow> (u32, CycleIngestError) result" where
  "next_cycle_ordinal env s c =
     (case ingest_watermarks env s of Err e \<Rightarrow> Err (Storage e)
      | Ok ms \<Rightarrow> (case hm_get ms c of None \<Rightarrow> Ok 0
        | Some mark \<Rightarrow>
            let epoch = drop_bit EPOCH_SHIFT mark in
            if 2 ^ 32 \<le> unat epoch then Err OrdinalExhausted
            else let committed = ucast epoch :: u32 in
              if committed = - 1 then Err OrdinalExhausted else Ok (committed + 1)))"

section \<open>Ingesting a cycle\<close>

record IngestOutcome =
  high_water_ms :: u64
  low_water_ms :: u64
  submitted :: nat
  outcome_gaps :: "SequenceGap list"
  failure :: "CycleIngestError option"

definition IngestOutcome_empty :: IngestOutcome where
  "IngestOutcome_empty = \<lparr>high_water_ms = 0, low_water_ms = - 1, submitted = 0, outcome_gaps = [], failure = None\<rparr>"

definition failed :: "CycleIngestError \<Rightarrow> IngestOutcome \<Rightarrow> IngestOutcome" where
  "failed e o' = o'\<lparr>failure := Some e\<rparr>"

record 'd Pipeline =
  writer :: "'d Writer"
  channel :: Channel

definition submit_row :: "IngestConfig \<Rightarrow> IngestRecord \<Rightarrow> 'd Pipeline \<Rightarrow> (unit, IngestError) result \<times> 'd Pipeline" where
  "submit_row cfg row p =
     (case submit cfg row (channel p) (metrics (writer p)) of (res, ch, m) \<Rightarrow>
        (res, p\<lparr>writer := (writer p)\<lparr>metrics := m\<rparr>, channel := ch\<rparr>))"

text \<open>The loop over the records; the outcome has a failure exactly when the loop returned early.\<close>

fun submit_rows ::
    "IngestConfig \<Rightarrow> string \<Rightarrow> u32 \<Rightarrow> nat \<Rightarrow> ProcessRecord list \<Rightarrow> IngestOutcome \<Rightarrow> 'd Pipeline
       \<Rightarrow> IngestOutcome \<times> 'd Pipeline" where
  "submit_rows cfg c ordinal index [] o' p = (o', p)"
| "submit_rows cfg c ordinal index (r # rs) o' p =
     (case ingest_row c ordinal index r of
        Err e \<Rightarrow> (failed e o', p)
      | Ok row \<Rightarrow>
          (let o1 = o'\<lparr>high_water_ms := max (high_water_ms o') (ts_ms row),
                      low_water_ms := min (low_water_ms o') (ts_ms row), submitted := submitted o' + 1\<rparr> in
           case submit_row cfg row p of
             (Err e, p') \<Rightarrow> (failed (IngestFailed e) o1, p')
           | (Ok _, p') \<Rightarrow> submit_rows cfg c ordinal (Suc index) rs o1 p'))"

text \<open>
  After an early return nothing waits for the writer: it has taken \<open>taken\<close> of the queued messages by
  the time the rules are evaluated. After a flush it has taken all of them.
\<close>

definition drain ::
    "'d store_env \<Rightarrow> IngestConfig \<Rightarrow> (nat \<Rightarrow> nat) \<Rightarrow> (nat \<Rightarrow> int) \<Rightarrow> nat \<Rightarrow> 'd Pipeline
       \<Rightarrow> (FlushReport, IngestError) result list \<times> 'd Pipeline" where
  "drain env cfg arrivals clock taken p =
     (case writer_loop env cfg arrivals clock 0 (take taken (queue (channel p))) (writer p) of (replies, w) \<Rightarrow>
        (replies, p\<lparr>writer := w, channel := (channel p)\<lparr>queue := drop taken (queue (channel p))\<rparr>\<rparr>))"

definition ingest_cycle ::
    "'d store_env \<Rightarrow> IngestConfig \<Rightarrow> (nat \<Rightarrow> nat) \<Rightarrow> (nat \<Rightarrow> int) \<Rightarrow> nat \<Rightarrow> string \<Rightarrow> u32 \<Rightarrow> ProcessRecord list
       \<Rightarrow> 'd Pipeline \<Rightarrow> IngestOutcome \<times> 'd Pipeline" where
  "ingest_cycle env cfg arrivals clock taken c ordinal records p =
     (case submit_rows cfg c ordinal 0 records IngestOutcome_empty p of (o', p') \<Rightarrow>
        if failure o' \<noteq> None then (o', snd (drain env cfg arrivals clock taken p'))
        else case send Flush (channel p') of
          (Err e, ch) \<Rightarrow> (failed (IngestFailed e) o', p'\<lparr>channel := ch\<rparr>)
        | (Ok _, ch) \<Rightarrow>
            (case drain env cfg arrivals clock (length (queue ch)) (p'\<lparr>channel := ch\<rparr>) of (replies, p'') \<Rightarrow>
               (case last replies of
                  Ok report \<Rightarrow> (o'\<lparr>outcome_gaps := gaps report\<rparr>, p'')
                | Err e \<Rightarrow> (failed (IngestFailed e) o', p''))))"

section \<open>Windows and carried failures\<close>

record CycleWindow =
  after_ms :: u64
  through_ms :: u64

definition in_window :: "CycleWindow \<Rightarrow> u64 \<Rightarrow> bool" where
  "in_window win t \<longleftrightarrow> after_ms win < t \<and> t \<le> through_ms win"

definition next_window :: "u64 \<Rightarrow> u64 \<Rightarrow> CycleWindow" where
  "next_window previous ingested = \<lparr>after_ms = previous, through_ms = ingested\<rparr>"

record IngestStep =
  step_next_ordinal :: "u32 option"
  step_window :: CycleWindow
  step_gaps :: "SequenceGap list"
  step_failure :: "CycleIngestError option"
  step_rows_through_ms :: u64

definition ingest_step :: "u32 \<Rightarrow> u64 \<Rightarrow> IngestOutcome \<Rightarrow> IngestStep" where
  "ingest_step ordinal previous o' =
     \<lparr>step_next_ordinal = (if ordinal = - 1 then None else Some (ordinal + 1)),
      step_window =
        \<lparr>after_ms = min previous (sat_sub (low_water_ms o') 1),
         through_ms = (if failure o' \<noteq> None then previous else max previous (high_water_ms o'))\<rparr>,
      step_gaps = outcome_gaps o',
      step_failure = failure o',
      step_rows_through_ms = max previous (high_water_ms o')\<rparr>"

record CarriedFailure =
  rows_through_ms :: u64
  carried_error :: CycleIngestError

definition CarriedFailure_after :: "CarriedFailure option \<Rightarrow> IngestStep \<Rightarrow> CarriedFailure option" where
  "CarriedFailure_after previous stp =
     (case step_failure stp of None \<Rightarrow> previous
      | Some e \<Rightarrow> Some \<lparr>rows_through_ms = step_rows_through_ms stp, carried_error = e\<rparr>)"

definition degrades :: "CarriedFailure \<Rightarrow> CycleWindow \<Rightarrow> bool" where
  "degrades cf win \<longleftrightarrow> after_ms win < rows_through_ms cf"

definition is_settled_by :: "CarriedFailure \<Rightarrow> CycleWindow \<Rightarrow> bool" where
  "is_settled_by cf win \<longleftrightarrow> rows_through_ms cf \<le> through_ms win"

section \<open>A cycle of the agent\<close>

text \<open>What the main loop keeps between cycles, apart from the pipeline.\<close>

record Cursor =
  next_ordinal :: "u32 option"
  previous_high_water_ms :: u64
  carried_failure :: "CarriedFailure option"

text \<open>
  The window of a cycle and what its evaluation is told, from the outcome of the ingest; there is no
  outcome when nothing was collected or no ordinal is left.
\<close>

definition plan_cycle ::
    "u64 \<Rightarrow> IngestOutcome option \<Rightarrow> Cursor \<Rightarrow> CycleWindow \<times> SequenceGap list \<times> CycleIngestError option \<times> Cursor" where
  "plan_cycle now_ms outcome cur =
     (let win0 = next_window (previous_high_water_ms cur) (max (previous_high_water_ms cur) now_ms);
          (win, gps, fail, carried, nxt) =
            (case next_ordinal cur of
               None \<Rightarrow> (win0, [], Some OrdinalExhausted, carried_failure cur, None)
             | Some ordinal \<Rightarrow>
                 (case outcome of
                    None \<Rightarrow> (win0, [], None, carried_failure cur, Some ordinal)
                  | Some o' \<Rightarrow>
                      (let stp = ingest_step ordinal (previous_high_water_ms cur) o' in
                       (step_window stp, step_gaps stp, step_failure stp,
                        CarriedFailure_after (carried_failure cur) stp, step_next_ordinal stp))));
          fail' = (case carried of None \<Rightarrow> fail
                   | Some cf \<Rightarrow> if degrades cf win \<and> fail = None then Some (carried_error cf) else fail);
          carried' = (case carried of None \<Rightarrow> None
                      | Some cf \<Rightarrow> if is_settled_by cf win then None else Some cf)
      in (win, gps, fail', cur\<lparr>next_ordinal := nxt, carried_failure := carried'\<rparr>))"

definition finish_cycle :: "bool \<Rightarrow> CycleWindow \<Rightarrow> Cursor \<Rightarrow> Cursor" where
  "finish_cycle persisted win cur =
     cur\<lparr>previous_high_water_ms := (if persisted then through_ms win else after_ms win)\<rparr>"

record 'd Agent =
  pipeline :: "'d Pipeline"
  cursor :: Cursor

definition agent_disk :: "'d store_env \<Rightarrow> 'd Agent \<Rightarrow> Db" where
  "agent_disk env a = disk env (writer (pipeline a))"

text \<open>What happens in one cycle of the loop: what was collected, the times, and how evaluation went.\<close>

record CycleInput =
  processes :: "ProcessRecord list"
  now_ms :: u64
  arrivals :: "nat \<Rightarrow> nat"
  clock :: "nat \<Rightarrow> int"
  taken :: nat
  persisted :: bool

text \<open>What the evaluation of a cycle saw.\<close>

record Evaluation =
  window :: CycleWindow
  seen :: Db
  eval_gaps :: "SequenceGap list"
  eval_failure :: "CycleIngestError option"
  complete :: bool

text \<open>
  The ingest of a cycle: nothing is ingested without records or without an ordinal, while the writer may
  take messages an early return left in the channel.
\<close>

definition ingest_collected ::
    "'d store_env \<Rightarrow> IngestConfig \<Rightarrow> CycleInput \<Rightarrow> 'd Agent \<Rightarrow> IngestOutcome option \<times> 'd Pipeline" where
  "ingest_collected env cfg inp a =
     (case next_ordinal (cursor a) of
        Some ordinal \<Rightarrow>
          if processes inp \<noteq> []
          then (case ingest_cycle env cfg (arrivals inp) (clock inp) (taken inp) PROCMOND_COLLECTOR_ID ordinal
                   (processes inp) (pipeline a) of (o', p) \<Rightarrow> (Some o', p))
          else (None, snd (drain env cfg (arrivals inp) (clock inp) (taken inp) (pipeline a)))
      | None \<Rightarrow> (None, snd (drain env cfg (arrivals inp) (clock inp) (taken inp) (pipeline a))))"

definition record_mark :: "'d store_env \<Rightarrow> bool \<Rightarrow> CycleWindow \<Rightarrow> 'd Pipeline \<Rightarrow> 'd Pipeline" where
  "record_mark env all_stored win p =
     (if all_stored \<and> after_ms win \<noteq> through_ms win
      then p\<lparr>writer := (writer p)\<lparr>store :=
        snd (set_evaluated_through_ms env PROCMOND_COLLECTOR_ID (through_ms win) (store (writer p)))\<rparr>\<rparr>
      else p)"

definition agent_cycle ::
    "'d store_env \<Rightarrow> IngestConfig \<Rightarrow> CycleInput \<Rightarrow> 'd Agent \<Rightarrow> Evaluation \<times> 'd Agent" where
  "agent_cycle env cfg inp a =
     (case ingest_collected env cfg inp a of (outcome, p) \<Rightarrow>
        (case plan_cycle (now_ms inp) outcome (cursor a) of (win, gps, fail, cur) \<Rightarrow>
           (\<lparr>window = win, seen = disk env (writer p), eval_gaps = gps, eval_failure = fail, complete = persisted inp\<rparr>,
            \<lparr>pipeline = record_mark env (persisted inp) win p, cursor = finish_cycle (persisted inp) win cur\<rparr>)))"

fun agent_run ::
    "'d store_env \<Rightarrow> IngestConfig \<Rightarrow> CycleInput list \<Rightarrow> 'd Agent \<Rightarrow> Evaluation list \<times> 'd Agent" where
  "agent_run env cfg [] a = ([], a)"
| "agent_run env cfg (inp # inps) a =
     (case agent_cycle env cfg inp a of (ev, a') \<Rightarrow>
        (case agent_run env cfg inps a' of (evs, a'') \<Rightarrow> (ev # evs, a'')))"

text \<open>The start of the agent on a store: ordinal and mark are read from it.\<close>

definition start_agent :: "'d store_env \<Rightarrow> 'd EventStore \<Rightarrow> ('d Agent, CycleIngestError) result" where
  "start_agent env s =
     (case next_cycle_ordinal env s PROCMOND_COLLECTOR_ID of Err e \<Rightarrow> Err e
      | Ok ordinal \<Rightarrow>
        (case evaluated_through_ms env PROCMOND_COLLECTOR_ID s of Err e \<Rightarrow> Err (Storage e)
         | Ok mark \<Rightarrow> Ok
            \<lparr>pipeline = \<lparr>writer = start_writer env s, channel = \<lparr>queue = [], closed = False\<rparr>\<rparr>,
             cursor = \<lparr>next_ordinal = Some ordinal,
                       previous_high_water_ms = (case mark of None \<Rightarrow> 0 | Some m \<Rightarrow> m),
                       carried_failure = None\<rparr>\<rparr>))"

end
