(* ===== verification/Detection_Cycle_Safety.thy ===== *)
theory Detection_Cycle_Safety
  imports Detection_Cycle
begin

text \<open>
  What the detection cycle promises: the records of a cycle are never taken for duplicates, also after
  failed cycles and restarts; every stored event lies in the window of a completed evaluation or past
  the mark, but for those stamped at the start of 1970 and those of a cycle whose ingest returned early; and
  where the promise ends, after a restart and when failures overlap.
\<close>

section \<open>Sequence numbers of a cycle\<close>

lemma unat_ucast_row: "unat (ucast x :: u64) = unat x" for x :: u32
  using unsigned_less [of x, where 'a = nat]
  by (simp add: unsigned_ucast_eq take_bit_nat_eq_self_iff)

lemma push_bit_EPOCH: "unat (push_bit EPOCH_SHIFT (ucast x :: u64)) = unat x * 2 ^ 32" for x :: u32
proof -
  have "unat x < 2 ^ 32" using unsigned_less [of x, where 'a = nat] by simp
  then have "unat x * 2 ^ 32 < 2 ^ 64" by simp
  then show ?thesis
    by (simp add: EPOCH_SHIFT_def push_bit_eq_mult unat_word_ariths unat_ucast_row)
qed

lemma unat_cycle_seq: "unat (cycle_seq ordinal i) = unat ordinal * 2 ^ 32 + unat i"
proof -
  let ?a = "push_bit EPOCH_SHIFT (ucast ordinal) :: u64" and ?b = "ucast i :: u64"
  have "and ?a ?b = 0"
  proof (rule bit_word_eqI)
    fix n
    show "bit (and ?a ?b) n = bit (0 :: u64) n"
      using bit_imp_le_length [of i n] by (auto simp: bit_simps EPOCH_SHIFT_def)
  qed
  then have "cycle_seq ordinal i = ?a + ?b"
    by (simp add: cycle_seq_def disjunctive_add_eq_or)
  moreover have "unat ordinal < 2 ^ 32" "unat i < 2 ^ 32"
    using unsigned_less [of ordinal, where 'a = nat] unsigned_less [of i, where 'a = nat] by simp_all
  ultimately show ?thesis
    by (simp add: unat_word_ariths push_bit_EPOCH unat_ucast_row)
qed

lemma unat_EPOCH_SIZE: "unat EPOCH_SIZE = 2 ^ 32"
  by (simp add: EPOCH_SIZE_def EPOCH_SHIFT_def push_bit_eq_mult)

lemma is_contiguous_iff:
  "is_contiguous a b \<longleftrightarrow> unat b = unat a + 1 \<or> unat b = (unat a div 2 ^ 32 + 1) * 2 ^ 32"
proof -
  have b: "unat b < 2 ^ 64" using unsigned_less [of b, where 'a = nat] by simp
  have epoch: "unat (drop_bit EPOCH_SHIFT a) = unat a div 2 ^ 32"
    by (simp add: EPOCH_SHIFT_def drop_bit_eq_div unat_div)
  have small: "unat (drop_bit EPOCH_SHIFT a) < 2 ^ 32"
    using unsigned_less [of a, where 'a = nat] by (simp add: epoch less_mult_imp_div_less)
  have ne: "drop_bit EPOCH_SHIFT a \<noteq> - 1"
    using small by (auto simp: unsigned_minus_1_eq_mask mask_eq_exp_minus_1)
  have succ: "unat (drop_bit EPOCH_SHIFT a + 1) = unat a div 2 ^ 32 + 1"
    using small by (simp add: unat_word_ariths epoch)
  have nxt: "(a \<noteq> - 1 \<and> b = a + 1) \<longleftrightarrow> unat b = unat a + 1"
  proof (cases "a = - 1")
    case True
    then show ?thesis using b by (simp add: unsigned_minus_1_eq_mask mask_eq_exp_minus_1)
  next
    case False
    have "unat (a + 1) = unat a + 1"
      using word_less_succ [OF False] by (simp add: word_less_nat_alt unat_word_ariths)
    with False show ?thesis by (metis unsigned_word_eqI)
  qed
  have ep: "((unat a div 2 ^ 32 + 1) * 2 ^ 32 < 2 ^ 64 \<and> b = (drop_bit EPOCH_SHIFT a + 1) * EPOCH_SIZE)
      \<longleftrightarrow> unat b = (unat a div 2 ^ 32 + 1) * 2 ^ 32"
  proof
    assume "(unat a div 2 ^ 32 + 1) * 2 ^ 32 < 2 ^ 64 \<and> b = (drop_bit EPOCH_SHIFT a + 1) * EPOCH_SIZE"
    then show "unat b = (unat a div 2 ^ 32 + 1) * 2 ^ 32"
      by (simp add: unat_mult_lem [THEN iffD1] succ unat_EPOCH_SIZE unat_word_ariths(2))
  next
    assume eq: "unat b = (unat a div 2 ^ 32 + 1) * 2 ^ 32"
    then have lt: "(unat a div 2 ^ 32 + 1) * 2 ^ 32 < 2 ^ 64" using b by simp
    then have "unat ((drop_bit EPOCH_SHIFT a + 1) * EPOCH_SIZE) = (unat a div 2 ^ 32 + 1) * 2 ^ 32"
      by (simp add: unat_word_ariths(2) succ unat_EPOCH_SIZE)
    with eq lt show "(unat a div 2 ^ 32 + 1) * 2 ^ 32 < 2 ^ 64 \<and> b = (drop_bit EPOCH_SHIFT a + 1) * EPOCH_SIZE"
      by (metis unsigned_word_eqI)
  qed
  show ?thesis
    using nxt ep ne by (auto simp: is_contiguous_def Let_def succ unat_EPOCH_SIZE)
qed


section \<open>The rows of a cycle\<close>

text \<open>The time of a row, and a record the store can key: one stamped in 1970 or later.\<close>

definition millis :: "ProcessRecord \<Rightarrow> u64" where
  "millis r = word_of_int (timestamp_millis (collection_time r))"

definition keyable :: "ProcessRecord \<Rightarrow> bool" where
  "keyable r \<longleftrightarrow> 0 \<le> timestamp_millis (collection_time r)"

fun cycle_rows :: "string \<Rightarrow> u32 \<Rightarrow> nat \<Rightarrow> ProcessRecord list \<Rightarrow> IngestRecord list" where
  "cycle_rows c ordinal i [] = []"
| "cycle_rows c ordinal i (r # rs) =
     \<lparr>collector_id = c, source_seq = cycle_seq ordinal (word_of_nat i), ts_ms = millis r, seq = word_of_nat i, event_record = r\<rparr>
       # cycle_rows c ordinal (Suc i) rs"

lemma ingest_row_keyable:
  "keyable r \<Longrightarrow> i < 2 ^ 32 \<Longrightarrow> ingest_row c ordinal i r = Ok (hd (cycle_rows c ordinal i [r]))"
  by (auto simp: ingest_row_def IngestRecord_new_def keyable_def millis_def Let_def)

lemma map_rec_at_rows: "map rec_at (cycle_rows c ordinal i rs) = map (\<lambda>r. (millis r, r)) rs"
  by (induction rs arbitrary: i) (simp_all add: rec_at_def)

lemma cycle_rows_collector: "row \<in> set (cycle_rows c ordinal i rs) \<Longrightarrow> collector_id row = c"
  by (induction rs arbitrary: i) auto

lemma cycle_rows_seqs:
  "seqs_of c (cycle_rows c ordinal i rs) = map (\<lambda>j. cycle_seq ordinal (word_of_nat j)) [i ..< i + length rs]"
proof (induction rs arbitrary: i)
  case (Cons r rs)
  have "[i ..< i + length (r # rs)] = i # [Suc i ..< Suc i + length rs]"
    by (simp add: upt_rec del: upt_Suc)
  with Cons show ?case by simp
qed simp

lemma cycle_rows_other: "c' \<noteq> c \<Longrightarrow> seqs_of c' (cycle_rows c ordinal i rs) = []"
  by (induction rs arbitrary: i) simp_all

lemma unat_row: "j < 2 ^ 32 \<Longrightarrow> unat (cycle_seq ordinal (word_of_nat j)) = unat ordinal * 2 ^ 32 + j"
  by (simp add: unat_cycle_seq unat_of_nat)

lemma cycle_rows_in_order:
  assumes "i + length rs \<le> 2 ^ 32"
  shows "in_order (cycle_rows c ordinal i rs)"
proof -
  have "sorted (map (\<lambda>j. cycle_seq ordinal (word_of_nat j)) [i ..< i + length rs])"
    unfolding sorted_wrt_map
    by (rule sorted_wrt_mono_rel [OF _ sorted_wrt_upt [of i "i + length rs"]])
      (use assms in \<open>auto simp: word_le_nat_alt unat_row\<close>)
  then have "sorted (seqs_of c' (cycle_rows c ordinal i rs))" for c'
    by (cases "c' = c") (simp_all add: cycle_rows_seqs cycle_rows_other)
  then show ?thesis by (simp add: in_order_def)
qed

text \<open>Rows numbered past the mark are all accepted.\<close>

lemma beyond_raise1: "beyond (raise1 m x) y \<longleftrightarrow> beyond m y \<and> x < y"
  by (auto simp: beyond_def raise1_def split: option.split)

lemma accept_cycle_rows:
  assumes "i + length rs \<le> 2 ^ 32" "beyond (m c) (cycle_seq ordinal (word_of_nat i)) \<or> rs = []"
  shows "accept m (cycle_rows c ordinal i rs) = cycle_rows c ordinal i rs"
  using assms
proof (induction rs arbitrary: i m)
  case (Cons r rs)
  let ?s = "cycle_seq ordinal (word_of_nat i)"
  have lt: "?s < cycle_seq ordinal (word_of_nat (Suc i))" if "rs \<noteq> []"
    using Cons.prems(1) that by (cases rs) (simp_all add: word_less_nat_alt unat_row del: of_nat_Suc)
  have "beyond (m c) (cycle_seq ordinal (word_of_nat (Suc i)))" if "rs \<noteq> []"
    using Cons.prems(2) lt [OF that] by (auto simp: beyond_def split: option.splits)
  with lt have "beyond ((m(c := raise1 (m c) ?s)) c) (cycle_seq ordinal (word_of_nat (Suc i))) \<or> rs = []"
    by (auto simp: beyond_raise1)
  then have "accept (m(c := raise1 (m c) ?s)) (cycle_rows c ordinal (Suc i) rs) = cycle_rows c ordinal (Suc i) rs"
    using Cons.prems(1) by (intro Cons.IH) simp_all
  with Cons.prems(2) show ?case by simp
qed simp

text \<open>Inside a cycle there are no gaps, so a cycle reports at most the one before its first row.\<close>

lemma gaps_cycle_rows:
  assumes "i + length rs \<le> 2 ^ 32" "m c = Some lst" "is_contiguous lst (cycle_seq ordinal (word_of_nat i)) \<or> rs = []"
    "beyond (m c) (cycle_seq ordinal (word_of_nat i)) \<or> rs = []"
  shows "gaps_of m (cycle_rows c ordinal i rs) = []"
  using assms
proof (induction rs arbitrary: i m lst)
  case (Cons r rs)
  let ?s = "cycle_seq ordinal (word_of_nat i)" and ?t = "cycle_seq ordinal (word_of_nat (Suc i))"
  have step: "unat ?t = unat ?s + 1" if "rs \<noteq> []"
    using Cons.prems(1) that by (cases rs) (simp_all add: unat_row del: of_nat_Suc)
  have now: "raise1 (m c) ?s = Some ?s"
    using Cons.prems(2,4) by (auto simp: raise1_def beyond_def max_def)
  have "gaps_of (m(c := Some ?s)) (cycle_rows c ordinal (Suc i) rs) = []"
    by (rule Cons.IH [of "Suc i" _ ?s])
      (use Cons.prems(1) step in \<open>auto simp: is_contiguous_iff beyond_def word_less_nat_alt simp del: of_nat_Suc\<close>)
  then show ?case
    using Cons.prems(2,3) now by simp
qed simp


section \<open>Ingesting a cycle\<close>

definition pipe_inv :: "'d store_env \<Rightarrow> 'd Pipeline \<Rightarrow> bool" where
  "pipe_inv env p \<longleftrightarrow> writer_inv env (writer p) \<and> queue (channel p) = [] \<and> \<not> closed (channel p) \<and>
     pending_gaps (writer_state (writer p)) = [] \<and> \<not> commit_failed (writer_state (writer p))"

definition bounds_ok :: "IngestOutcome \<Rightarrow> ProcessRecord list \<Rightarrow> bool" where
  "bounds_ok o' rs \<longleftrightarrow> (\<forall>r \<in> set rs. low_water_ms o' \<le> millis r \<and> millis r \<le> high_water_ms o')"

text \<open>Only the alerts for a full channel differ in the writer while rows are submitted.\<close>

definition same_writer :: "'d Pipeline \<Rightarrow> 'd Pipeline \<Rightarrow> bool" where
  "same_writer p p' \<longleftrightarrow> store (writer p') = store (writer p) \<and> writer_state (writer p') = writer_state (writer p)"

lemma same_writer_facts:
  assumes "same_writer p p'"
  shows "writer_inv env (writer p') = writer_inv env (writer p)" "mark_of (writer p') = mark_of (writer p)"
    "batch_done env (writer p') w added = batch_done env (writer p) w added"
  using assms
  by (simp_all add: same_writer_def writer_inv_def mark_of_def [abs_def] disk_def disk_marks_def batch_done_def)

lemma submit_row_open:
  assumes "\<not> closed (channel p)"
  shows "\<exists>p'. submit_row cfg row p = (Ok (), p') \<and> same_writer p p' \<and>
    channel p' = (channel p)\<lparr>queue := queue (channel p) @ [Record row]\<rparr>"
  using assms by (auto simp: submit_row_def submit_def send_def same_writer_def)

lemma submit_rows_facts:
  assumes "submit_rows cfg c ordinal i rs o' p = (o1, p1)" "\<not> closed (channel p)"
    and "\<forall>r \<in> set rs. keyable r" "i + length rs \<le> 2 ^ 32"
  shows "failure o1 = failure o' \<and> same_writer p p1 \<and>
    channel p1 = (channel p)\<lparr>queue := queue (channel p) @ map Record (cycle_rows c ordinal i rs)\<rparr> \<and>
    bounds_ok o1 rs \<and> low_water_ms o1 \<le> low_water_ms o' \<and> high_water_ms o' \<le> high_water_ms o1"
  using assms
proof (induction rs arbitrary: i o' p)
  case (Cons r rs)
  let ?row = "hd (cycle_rows c ordinal i [r])"
  let ?o = "o'\<lparr>high_water_ms := max (high_water_ms o') (millis r), low_water_ms := min (low_water_ms o') (millis r),
     submitted := submitted o' + 1\<rparr>"
  have row: "ingest_row c ordinal i r = Ok ?row"
    using Cons.prems(3,4) by (intro ingest_row_keyable) auto
  obtain p' where sub: "submit_row cfg ?row p = (Ok (), p')" and same: "same_writer p p'"
    and ch: "channel p' = (channel p)\<lparr>queue := queue (channel p) @ [Record ?row]\<rparr>"
    using submit_row_open [OF Cons.prems(2)] by blast
  have rest: "submit_rows cfg c ordinal (Suc i) rs ?o p' = (o1, p1)"
    using Cons.prems(1) row sub by (simp add: Let_def)
  have open_ch: "\<not> closed (channel p')" using Cons.prems(2) by (simp add: ch)
  note IH = Cons.IH [OF rest open_ch]
  have IH': "failure o1 = failure o' \<and> same_writer p' p1 \<and>
    channel p1 = (channel p')\<lparr>queue := queue (channel p') @ map Record (cycle_rows c ordinal (Suc i) rs)\<rparr> \<and>
    bounds_ok o1 rs \<and> low_water_ms o1 \<le> low_water_ms ?o \<and> high_water_ms ?o \<le> high_water_ms o1"
    using IH Cons.prems(3,4) by simp
  then show ?case
    using same by (auto simp: ch bounds_ok_def same_writer_def)
qed (simp add: same_writer_def bounds_ok_def)

lemma set_subseq: "subseq xs ys \<Longrightarrow> set xs \<subseteq> set ys"
  by (auto dest: list_emb_set)

lemma ingest_cycle_facts:
  assumes "redb_atomic env" "postcard_inverts env" "pipe_inv env p"
    and "\<forall>r \<in> set rs. keyable r" "length rs \<le> 2 ^ 32" "beyond (mark_of (writer p) c) (cycle_seq ordinal 0)"
    and "ingest_cycle env cfg arr clk tk c ordinal rs p = (o1, p1)"
  shows "\<exists>added. set added \<subseteq> set (cycle_rows c ordinal 0 rs) \<and> batch_done env (writer p) (writer p1) added \<and>
    pipe_inv env p1 \<and> bounds_ok o1 rs \<and>
    (failure o1 = None \<longrightarrow> added = cycle_rows c ordinal 0 rs \<and>
       outcome_gaps o1 = take MAX_PENDING_GAPS (gaps_of (mark_of (writer p)) (cycle_rows c ordinal 0 rs)))"
proof -
  let ?rows = "cycle_rows c ordinal 0 rs"
  obtain o2 p2 where sub: "submit_rows cfg c ordinal 0 rs IngestOutcome_empty p = (o2, p2)" by (rule prod.exhaust)
  have op: "\<not> closed (channel p)" "queue (channel p) = []" using assms(3) by (simp_all add: pipe_inv_def)
  note rows = submit_rows_facts [OF sub op(1) assms(4)]
  have st: "failure o2 = None" "same_writer p p2" "channel p2 = (channel p)\<lparr>queue := map Record ?rows\<rparr>" "bounds_ok o2 rs"
    using rows assms(5) op by (simp_all add: IngestOutcome_empty_def)
  define p3 where "p3 = p2\<lparr>channel := (channel p)\<lparr>queue := map Record ?rows @ [Flush]\<rparr>\<rparr>"
  obtain replies w where lp: "writer_loop env cfg arr clk 0 (map Record ?rows @ [Flush]) (writer p2) = (replies, w)"
    by (rule prod.exhaust)
  have dr: "drain env cfg arr clk (Suc (length ?rows)) p3 =
      (replies, p3\<lparr>writer := w, channel := (channel p3)\<lparr>queue := []\<rparr>\<rparr>)"
    using lp by (simp add: drain_def p3_def)
  note sw = same_writer_facts [OF st(2)]
  have inv: "writer_inv env (writer p2)"
    using assms(3) by (simp add: sw pipe_inv_def)
  have ord: "in_order ?rows" using assms(5) by (intro cycle_rows_in_order) simp
  have acc: "accept (mark_of (writer p)) ?rows = ?rows"
    using assms(5,6) by (intro accept_cycle_rows) simp_all
  obtain reply where reply: "replies = [reply]" "pending_gaps (writer_state w) = []" "\<not> commit_failed (writer_state w)"
    and ok: "case reply of
       Ok rep \<Rightarrow> \<not> commit_failed (writer_state (writer p2)) \<and> batch_done env (writer p2) w (accept (mark_of (writer p2)) ?rows) \<and>
         gaps rep = capped (pending_gaps (writer_state (writer p2))) (gaps_of (mark_of (writer p2)) (accept (mark_of (writer p2)) ?rows))
     | Err e \<Rightarrow> e = CommitFailed"
    using writer_loop_flush [OF assms(1,2) _ ord lp] inv by (auto simp: writer_inv_def)
  obtain added where added: "subseq added ?rows" "run_added env (writer p2) w added"
    using writer_loop_run [OF assms(1,2) _ lp] inv by (auto simp: writer_inv_def)
  have bd: "batch_done env (writer p) w added"
    using added(2) by (simp add: run_added_def sw)
  define p4 where "p4 = p3\<lparr>writer := w, channel := (channel p3)\<lparr>queue := []\<rparr>\<rparr>"
  have p4: "writer p4 = w" "pipe_inv env p4"
    using batch_done_inv [OF _ bd] assms(3) reply(2,3) op(1) by (simp_all add: p4_def p3_def pipe_inv_def)
  have end': "(o1, p1) = (case reply of
      Ok report \<Rightarrow> (o2\<lparr>outcome_gaps := gaps report\<rparr>, p4) | Err e \<Rightarrow> (failed (IngestFailed e) o2, p4))"
    using assms(7) sub st(1,3) op(1) dr
    by (simp add: ingest_cycle_def send_def p3_def [symmetric] reply(1) p4_def [symmetric])
  show ?thesis
  proof (cases reply)
    case (Inl e)
    then have "o1 = failed (IngestFailed e) o2" "p1 = p4" using end' by simp_all
    then show ?thesis
      using bd p4 st(4) set_subseq [OF added(1)] by (auto simp: failed_def bounds_ok_def)
  next
    case (Inr rep)
    then have o1: "o1 = o2\<lparr>outcome_gaps := gaps rep\<rparr>" "p1 = p4" using end' by simp_all
    have "batch_done env (writer p) w ?rows" and gp: "gaps rep = take MAX_PENDING_GAPS (gaps_of (mark_of (writer p)) ?rows)"
      using ok assms(3) st(2) by (simp_all add: Inr sw acc capped_def pipe_inv_def same_writer_def)
    then show ?thesis
      using p4 st(4) by (intro exI [of _ ?rows]) (simp add: o1 bounds_ok_def)
  qed
qed


section \<open>The mark on disk\<close>

lemma cursor_update_simps [simp]:
  "all_rows (t\<lparr>cursor_table := x\<rparr>) = all_rows t" "marks (t\<lparr>cursor_table := x\<rparr>) = marks t"
  "db_inv env g (t\<lparr>cursor_table := x\<rparr>) = db_inv env g t" "stored env (t\<lparr>cursor_table := x\<rparr>) = stored env t"
proof -
  have "collect_bucket_ids (t\<lparr>cursor_table := x\<rparr>) = collect_bucket_ids t"
    by (simp add: collect_bucket_ids_def map_filter_parse)
  then show rows: "all_rows (t\<lparr>cursor_table := x\<rparr>) = all_rows t"
    by (simp add: all_rows_def bucket_rows_def [abs_def])
  then show "stored env (t\<lparr>cursor_table := x\<rparr>) = stored env t"
    by (simp add: stored_def)
  show "db_inv env g (t\<lparr>cursor_table := x\<rparr>) = db_inv env g t"
    by (simp add: db_inv_def bucket_inv_def bucket_rows_def)
qed (simp add: marks_def)

definition recorded :: "Db \<Rightarrow> string \<Rightarrow> u64 option" where
  "recorded t c = (case cursor_table t of None \<Rightarrow> None | Some table \<Rightarrow> hm_get table c)"

lemma set_evaluated_facts:
  assumes "redb_atomic env" "set_evaluated_through_ms env c m s = (res, s')"
  shows "same_config s s' \<and> (\<exists>x. contents env (db s') = (contents env (db s))\<lparr>cursor_table := x\<rparr>) \<and>
    recorded (contents env (db s')) c =
      (case res of Ok _ \<Rightarrow> raise1 (recorded (contents env (db s)) c) m | Err _ \<Rightarrow> recorded (contents env (db s)) c)"
proof (cases res)
  case (Inl e)
  then have "contents env (db s') = contents env (db s)" "same_config s s'"
    using assms(2) redb_atomicD(4) [OF assms(1)]
    by (auto simp: set_evaluated_through_ms_def Let_def split: sum.splits prod.splits)
  moreover have "contents env (db s) = (contents env (db s))\<lparr>cursor_table := cursor_table (contents env (db s))\<rparr>"
    by simp
  ultimately show ?thesis by (metis Inl sum.case(1))
next
  case (Inr u)
  obtain txn where txn: "begin_write env (db s) = Ok txn"
    using assms(2) Inr by (auto simp: set_evaluated_through_ms_def split: sum.splits)
  note t = redb_atomicD(2) [OF assms(1) txn]
  let ?x = "Some (raise_mark (c, m) (case cursor_table txn of None \<Rightarrow> [] | Some table \<Rightarrow> table))"
  obtain d where d: "commit env (db s) (txn\<lparr>cursor_table := ?x\<rparr>) = (Ok (), d)" "s' = s\<lparr>db := d\<rparr>"
    using assms(2) Inr txn by (auto simp: set_evaluated_through_ms_def Let_def split: sum.splits prod.splits)
  have "contents env (db s') = (contents env (db s))\<lparr>cursor_table := ?x\<rparr>"
    using redb_atomicD(3) [OF assms(1) d(1)] by (simp add: d(2) t)
  then show ?thesis
    by (auto simp: Inr d(2) recorded_def hm_get_raise_mark t split: option.split)
qed

lemma writer_inv_cursor:
  assumes "writer_inv env w" "contents env (db s') = (contents env (db (store w)))\<lparr>cursor_table := x\<rparr>"
    "same_config (store w) s'"
  shows "writer_inv env (w\<lparr>store := s'\<rparr>)"
  using assms by (simp add: writer_inv_def store_inv_def same_config_def mark_of_def [abs_def] disk_marks_def disk_def)

section \<open>New rows\<close>

text \<open>A row that was not there before holds one of the added records at its time.\<close>

lemma grew_new_rows:
  assumes "grew env t t' added" "db_inv env g t" "db_inv env g t'"
    and "row \<in> set (stored env t')" "row \<notin> set (stored env t)"
  shows "(fst (fst row), snd row) \<in> rec_at ` set added"
proof -
  let ?f = "\<lambda>((time, _), r). (time, r)"
  have dist: "distinct (stored env t)" "distinct (stored env t')"
    by (rule distinct_map [THEN iffD1, THEN conjunct1, OF ot_wf_distinct [OF ot_wf_stored [OF assms(2)]]])
      (rule distinct_map [THEN iffD1, THEN conjunct1, OF ot_wf_distinct [OF ot_wf_stored [OF assms(3)]]])
  have "set (stored env t) \<subseteq> set (stored env t')"
    using assms(1) by (auto simp: grew_def stored_def)
  then have sub: "mset (stored env t) \<subseteq># mset (stored env t')"
    using dist by (simp add: mset_set_set [symmetric])
  obtain N where eq: "mset (stored env t') = mset (stored env t) + N"
    using sub by (metis mset_subset_eq_exists_conv)
  have "image_mset ?f (mset (stored env t')) = image_mset ?f (mset (stored env t)) + mset (map rec_at added)"
    using assms(1) by (simp add: grew_def stored_at_def)
  then have "image_mset ?f N = mset (map rec_at added)"
    by (simp only: eq image_mset_union add_left_cancel)
  moreover have "row \<in># N"
    using assms(4,5) eq by (metis set_mset_mset union_iff)
  then have "?f row \<in># image_mset ?f N"
    unfolding in_image_mset by (rule imageI)
  ultimately have "?f row \<in># mset (map rec_at added)"
    by (simp only:)
  then show ?thesis
    by (simp add: case_prod_beta)
qed


section \<open>One cycle\<close>

definition agent_inv :: "'d store_env \<Rightarrow> 'd Agent \<Rightarrow> bool" where
  "agent_inv env a \<longleftrightarrow> pipe_inv env (pipeline a) \<and>
     (\<forall>ordinal. next_ordinal (cursor a) = Some ordinal \<longrightarrow>
        beyond (mark_of (writer (pipeline a)) PROCMOND_COLLECTOR_ID) (cycle_seq ordinal 0))"

text \<open>Records whose submission does not end early: all stamped in 1970 or later, and at most $2^{32}$.\<close>

definition well_stamped :: "ProcessRecord list \<Rightarrow> bool" where
  "well_stamped rs \<longleftrightarrow> list_all keyable rs \<and> length rs \<le> 2 ^ 32"

definition input_ok :: "CycleInput \<Rightarrow> bool" where
  "input_ok inp \<longleftrightarrow> well_stamped (processes inp)"

definition collected :: "'d Agent \<Rightarrow> CycleInput \<Rightarrow> ProcessRecord list" where
  "collected a inp = (if next_ordinal (cursor a) = None then [] else processes inp)"

lemma ingest_collected_facts:
  assumes "redb_atomic env" "postcard_inverts env" "agent_inv env a" "input_ok inp"
    and "ingest_collected env cfg inp a = (outcome, p)"
  shows "\<exists>added. set (map rec_at added) \<subseteq> (\<lambda>r. (millis r, r)) ` set (collected a inp) \<and>
      batch_done env (writer (pipeline a)) (writer p) added \<and> pipe_inv env p \<and>
      (\<forall>ordinal row. next_ordinal (cursor a) = Some ordinal \<longrightarrow> row \<in> set added \<longrightarrow>
         collector_id row = PROCMOND_COLLECTOR_ID \<and> unat (source_seq row) < (unat ordinal + 1) * 2 ^ 32) \<and>
      (case outcome of None \<Rightarrow> added = [] \<and> collected a inp = []
       | Some o' \<Rightarrow> next_ordinal (cursor a) \<noteq> None \<and> processes inp \<noteq> [] \<and> bounds_ok o' (processes inp) \<and>
           (failure o' = None \<longrightarrow>
              added = cycle_rows PROCMOND_COLLECTOR_ID (the (next_ordinal (cursor a))) 0 (processes inp) \<and>
              outcome_gaps o' = take MAX_PENDING_GAPS (gaps_of (mark_of (writer (pipeline a))) added)))"
proof (cases "next_ordinal (cursor a) = None \<or> processes inp = []")
  case True
  then have out: "outcome = None" "p = snd (drain env cfg (arrivals inp) (clock inp) (taken inp) (pipeline a))" "collected a inp = []"
    using assms(5) by (auto simp: ingest_collected_def collected_def split: option.splits)
  have "p = pipeline a"
    using assms(3) by (cases "pipeline a", cases "channel (pipeline a)")
      (simp add: out(2) drain_def agent_inv_def pipe_inv_def)
  with out show ?thesis
    using assms(3) by (intro exI [of _ "[]"]) (simp add: agent_inv_def pipe_inv_def batch_done_def writer_inv_def)
next
  case False
  then obtain ordinal where ord: "next_ordinal (cursor a) = Some ordinal" and ne: "processes inp \<noteq> []" by auto
  let ?rows = "cycle_rows PROCMOND_COLLECTOR_ID ordinal 0 (processes inp)"
  obtain o' where ing: "ingest_cycle env cfg (arrivals inp) (clock inp) (taken inp) PROCMOND_COLLECTOR_ID ordinal
      (processes inp) (pipeline a) = (o', p)" and out: "outcome = Some o'"
    using assms(5) ord ne by (auto simp: ingest_collected_def split: prod.splits)
  have pre: "pipe_inv env (pipeline a)" "\<forall>r \<in> set (processes inp). keyable r" "length (processes inp) \<le> 2 ^ 32"
    "beyond (mark_of (writer (pipeline a)) PROCMOND_COLLECTOR_ID) (cycle_seq ordinal 0)"
    using assms(3,4) ord by (simp_all add: agent_inv_def input_ok_def well_stamped_def list_all_iff)
  obtain added where added: "set added \<subseteq> set ?rows" "batch_done env (writer (pipeline a)) (writer p) added"
    "pipe_inv env p" "bounds_ok o' (processes inp)"
    "failure o' = None \<longrightarrow> added = ?rows \<and> outcome_gaps o' = take MAX_PENDING_GAPS (gaps_of (mark_of (writer (pipeline a))) ?rows)"
    using ingest_cycle_facts [OF assms(1,2) pre ing] by (elim exE conjE) (rule that)
  have num: "unat (source_seq row) < (unat ordinal + 1) * 2 ^ 32" if "row \<in> set ?rows" for row
  proof -
    have "source_seq row \<in> set (seqs_of PROCMOND_COLLECTOR_ID ?rows)"
      using that by (auto simp: seqs_of_def dest: cycle_rows_collector)
    then show ?thesis
      using pre(3) by (auto simp: cycle_rows_seqs unat_row)
  qed
  have "set (map rec_at ?rows) \<subseteq> (\<lambda>r. (millis r, r)) ` set (processes inp)"
    unfolding map_rec_at_rows by auto
  then have "set (map rec_at added) \<subseteq> (\<lambda>r. (millis r, r)) ` set (collected a inp)"
    using added(1) by (auto simp: collected_def ord)
  then show ?thesis
    using added num cycle_rows_collector [of _ PROCMOND_COLLECTOR_ID ordinal 0 "processes inp"]
    by (intro exI [of _ added]) (auto simp: out ord ne)
qed

text \<open>The window: it never starts after the mark, never ends before it, and reaches what was collected.\<close>

lemma plan_cycle_facts:
  assumes "plan_cycle now outcome cur = (win, gps, fail, cur')"
  shows "after_ms win \<le> previous_high_water_ms cur" "previous_high_water_ms cur \<le> through_ms win"
    "previous_high_water_ms cur' = previous_high_water_ms cur"
    "next_ordinal cur' = (case next_ordinal cur of None \<Rightarrow> None
       | Some ordinal \<Rightarrow> if outcome = None then Some ordinal else if ordinal = - 1 then None else Some (ordinal + 1))"
    "outcome = Some o' \<Longrightarrow> next_ordinal cur \<noteq> None \<Longrightarrow> after_ms win \<le> sat_sub (low_water_ms o') 1 \<and>
       (failure o' = None \<longrightarrow> high_water_ms o' \<le> through_ms win \<and> gps = outcome_gaps o') \<and>
       (failure o' \<noteq> None \<longrightarrow> through_ms win = previous_high_water_ms cur)"
    "fail = None \<Longrightarrow> next_ordinal cur \<noteq> None \<and> (\<forall>o'. outcome = Some o' \<longrightarrow> failure o' = None)"
  using assms
  by (auto simp: plan_cycle_def next_window_def ingest_step_def CarriedFailure_after_def Let_def
      split: option.splits if_splits)

lemma reached:
  assumes "x \<noteq> 0" "low \<le> x" "aft \<le> sat_sub low 1"
  shows "aft < x"
proof -
  have "0 < x" using assms(1) by (simp add: word_neq_0_conv)
  with assms(2,3) show ?thesis
    by (auto simp: word_less_nat_alt word_le_nat_alt unat_sat_sub)
qed


text \<open>What a window reaches: everything past the mark before, and everything it was widened to.\<close>

lemma window_reaches:
  assumes "plan_cycle now outcome cur = (win, gps, fail, cur')"
  shows "previous_high_water_ms cur < t \<Longrightarrow>
      previous_high_water_ms (finish_cycle all_stored win cur') < t \<or> all_stored \<and> in_window win t"
    "outcome = Some o' \<Longrightarrow> next_ordinal cur \<noteq> None \<Longrightarrow> t \<noteq> 0 \<Longrightarrow> low_water_ms o' \<le> t \<Longrightarrow>
      previous_high_water_ms (finish_cycle all_stored win cur') < t \<or> all_stored \<and> in_window win t"
proof -
  note win = plan_cycle_facts [OF assms]
  show "previous_high_water_ms (finish_cycle all_stored win cur') < t \<or> all_stored \<and> in_window win t"
    if "previous_high_water_ms cur < t"
    using that win(1,2) by (auto simp: finish_cycle_def in_window_def)
  show "previous_high_water_ms (finish_cycle all_stored win cur') < t \<or> all_stored \<and> in_window win t"
    if o': "outcome = Some o'" "next_ordinal cur \<noteq> None" and t: "t \<noteq> 0" "low_water_ms o' \<le> t"
    using reached [OF t] win(5) [OF o'] by (auto simp: finish_cycle_def in_window_def)
qed

lemma record_mark_kept:
  assumes "redb_atomic env" "store_inv env (store (writer p))"
  shows "store_inv env (store (writer (record_mark env done_all win p)))"
    "stored env (disk env (writer (record_mark env done_all win p))) = stored env (disk env (writer p))"
    "channel (record_mark env done_all win p) = channel p"
proof -
  obtain res s' where set_ev: "set_evaluated_through_ms env PROCMOND_COLLECTOR_ID (through_ms win) (store (writer p)) = (res, s')"
    by (rule prod.exhaust)
  obtain x where x: "same_config (store (writer p)) s'"
    "contents env (db s') = (contents env (db (store (writer p))))\<lparr>cursor_table := x\<rparr>"
    using set_evaluated_facts [OF assms(1) set_ev] by blast
  show "store_inv env (store (writer (record_mark env done_all win p)))"
    using assms(2) x by (simp add: record_mark_def set_ev store_inv_def same_config_def)
  show "stored env (disk env (writer (record_mark env done_all win p))) = stored env (disk env (writer p))"
    by (simp add: record_mark_def set_ev disk_def x(2))
qed (simp add: record_mark_def)

lemma record_mark_facts:
  assumes "redb_atomic env" "pipe_inv env p"
  shows "pipe_inv env (record_mark env done_all win p)"
    "mark_of (writer (record_mark env done_all win p)) = mark_of (writer p)"
    "stored env (disk env (writer (record_mark env done_all win p))) = stored env (disk env (writer p))"
    "\<not> done_all \<Longrightarrow> record_mark env done_all win p = p"
proof -
  obtain res s' where set_ev: "set_evaluated_through_ms env PROCMOND_COLLECTOR_ID (through_ms win) (store (writer p)) = (res, s')"
    by (rule prod.exhaust)
  obtain x where x: "same_config (store (writer p)) s'"
    "contents env (db s') = (contents env (db (store (writer p))))\<lparr>cursor_table := x\<rparr>"
    using set_evaluated_facts [OF assms(1) set_ev] by blast
  have inv: "writer_inv env ((writer p)\<lparr>store := s'\<rparr>)"
    using assms(2) by (intro writer_inv_cursor [OF _ x(2,1)]) (simp add: pipe_inv_def)
  show "pipe_inv env (record_mark env done_all win p)"
    using assms(2) inv by (simp add: record_mark_def set_ev pipe_inv_def)
  show "mark_of (writer (record_mark env done_all win p)) = mark_of (writer p)"
    by (simp add: record_mark_def mark_of_def [abs_def])
  show "stored env (disk env (writer (record_mark env done_all win p))) = stored env (disk env (writer p))"
    by (simp add: record_mark_def set_ev disk_def x(2))
qed (simp add: record_mark_def)

text \<open>The numbers of a cycle are past those of every cycle before.\<close>

lemma next_ordinal_beyond:
  assumes "beyond (m c) (cycle_seq ordinal 0)" "ordinal \<noteq> - 1"
    and "\<And>row. row \<in> set added \<Longrightarrow> unat (source_seq row) < (unat ordinal + 1) * 2 ^ 32"
  shows "beyond (after_recs m added c) (cycle_seq (ordinal + 1) 0)"
proof -
  have suc: "unat (ordinal + 1) = unat ordinal + 1"
    using word_less_succ [OF assms(2)] by (simp add: word_less_nat_alt unat_word_ariths)
  have "cycle_seq ordinal 0 < cycle_seq (ordinal + 1) 0"
    by (simp add: word_less_nat_alt unat_cycle_seq suc)
  then have "beyond (m c) (cycle_seq (ordinal + 1) 0)"
    using assms(1) by (auto simp: beyond_def split: option.splits)
  moreover have "source_seq row < cycle_seq (ordinal + 1) 0" if "row \<in> set added" for row
    using assms(3) [OF that] by (simp add: word_less_nat_alt unat_cycle_seq suc)
  ultimately show ?thesis
    by (auto simp: after_recs_def above_raised seqs_of_def)
qed

lemma agent_cycle_facts:
  assumes "redb_atomic env" "postcard_inverts env" "agent_inv env a" "input_ok inp"
    and "agent_cycle env cfg inp a = (ev, a')"
  shows "agent_inv env a'"
    "stored env (agent_disk env a') = stored env (seen ev)" "complete ev = persisted inp"
    "\<And>t. previous_high_water_ms (cursor a) < t \<Longrightarrow>
        previous_high_water_ms (cursor a') < t \<or> complete ev \<and> in_window (window ev) t"
    "\<And>r. r \<in> set (collected a inp) \<Longrightarrow> millis r \<noteq> 0 \<Longrightarrow>
        previous_high_water_ms (cursor a') < millis r \<or> complete ev \<and> in_window (window ev) (millis r)"
    "\<exists>added. set (map rec_at added) \<subseteq> (\<lambda>r. (millis r, r)) ` set (collected a inp) \<and>
       grew env (agent_disk env a) (seen ev) added \<and>
       (eval_failure ev = None \<longrightarrow> mset (map rec_at added) = mset (map (\<lambda>r. (millis r, r)) (processes inp)))"
    "db_inv env (granularity_ms (store (writer (pipeline a)))) (seen ev)"
    "eval_failure ev = None \<Longrightarrow> processes inp \<noteq> [] \<Longrightarrow>
       eval_gaps ev = take MAX_PENDING_GAPS (gaps_of (mark_of (writer (pipeline a)))
         (cycle_rows PROCMOND_COLLECTOR_ID (the (next_ordinal (cursor a))) 0 (processes inp)))"
proof -
  obtain outcome p where ing: "ingest_collected env cfg inp a = (outcome, p)" by (rule prod.exhaust)
  obtain win gps fail cur where plan: "plan_cycle (now_ms inp) outcome (cursor a) = (win, gps, fail, cur)"
    by (rule prod_cases4)
  have ev: "ev = \<lparr>window = win, seen = disk env (writer p), eval_gaps = gps, eval_failure = fail, complete = persisted inp\<rparr>"
    and a': "a' = \<lparr>pipeline = record_mark env (persisted inp) win p, cursor = finish_cycle (persisted inp) win cur\<rparr>"
    using assms(5) by (simp_all add: agent_cycle_def ing plan)
  obtain added where added: "set (map rec_at added) \<subseteq> (\<lambda>r. (millis r, r)) ` set (collected a inp)"
      "batch_done env (writer (pipeline a)) (writer p) added" "pipe_inv env p"
      "\<forall>ordinal row. next_ordinal (cursor a) = Some ordinal \<longrightarrow> row \<in> set added \<longrightarrow>
         collector_id row = PROCMOND_COLLECTOR_ID \<and> unat (source_seq row) < (unat ordinal + 1) * 2 ^ 32"
      "case outcome of None \<Rightarrow> added = [] \<and> collected a inp = []
       | Some o' \<Rightarrow> next_ordinal (cursor a) \<noteq> None \<and> processes inp \<noteq> [] \<and> bounds_ok o' (processes inp) \<and>
           (failure o' = None \<longrightarrow>
              added = cycle_rows PROCMOND_COLLECTOR_ID (the (next_ordinal (cursor a))) 0 (processes inp) \<and>
              outcome_gaps o' = take MAX_PENDING_GAPS (gaps_of (mark_of (writer (pipeline a))) added))"
    using ingest_collected_facts [OF assms(1-4) ing] by (elim exE conjE) (rule that)
  note win = plan_cycle_facts [OF plan]
  note rm = record_mark_facts [OF assms(1) added(3)]
  show "stored env (agent_disk env a') = stored env (seen ev)" "complete ev = persisted inp"
    by (simp_all add: agent_disk_def a' ev rm(3))
  note cov = window_reaches [OF plan, where all_stored = "persisted inp"]
  show "previous_high_water_ms (cursor a') < t \<or> complete ev \<and> in_window (window ev) t"
    if "previous_high_water_ms (cursor a) < t" for t
    using cov(1) [OF that] by (simp add: a' ev)
  show "previous_high_water_ms (cursor a') < millis r \<or> complete ev \<and> in_window (window ev) (millis r)"
    if r: "r \<in> set (collected a inp)" and pos: "millis r \<noteq> 0" for r
  proof (cases outcome)
    case None
    with added(5) r show ?thesis by simp
  next
    case (Some o')
    have "low_water_ms o' \<le> millis r" "next_ordinal (cursor a) \<noteq> None"
      using added(5) r by (auto simp: Some bounds_ok_def collected_def split: if_splits)
    then show ?thesis
      using cov(2) [OF Some _ pos] by (simp add: a' ev)
  qed
  have "mset (map rec_at added) = mset (map (\<lambda>r. (millis r, r)) (processes inp))" if "fail = None"
  proof (cases outcome)
    case None
    then show ?thesis
      using added(5) win(6) [OF that] by (auto simp: collected_def split: if_splits)
  next
    case (Some o')
    then show ?thesis
      using added(5) win(6) [OF that] by (simp add: map_rec_at_rows del: mset_map)
  qed
  then show "\<exists>added. set (map rec_at added) \<subseteq> (\<lambda>r. (millis r, r)) ` set (collected a inp) \<and>
       grew env (agent_disk env a) (seen ev) added \<and>
       (eval_failure ev = None \<longrightarrow> mset (map rec_at added) = mset (map (\<lambda>r. (millis r, r)) (processes inp)))"
    using added(1,2) by (intro exI [of _ added]) (simp add: ev agent_disk_def batch_done_def)
  show "db_inv env (granularity_ms (store (writer (pipeline a)))) (seen ev)"
    using added(2) by (auto simp: ev batch_done_def store_inv_def same_config_def disk_def)
  show "eval_gaps ev = take MAX_PENDING_GAPS (gaps_of (mark_of (writer (pipeline a)))
      (cycle_rows PROCMOND_COLLECTOR_ID (the (next_ordinal (cursor a))) 0 (processes inp)))"
    if no_fail: "eval_failure ev = None" and some: "processes inp \<noteq> []"
  proof -
    have f: "fail = None" using no_fail by (simp add: ev)
    obtain o' where o': "outcome = Some o'" "failure o' = None"
      using win(6) [OF f] added(5) some by (cases outcome) (auto simp: collected_def split: if_splits)
    show ?thesis
      using added(5) win(5) [OF o'(1)] win(6) [OF f] o' by (simp add: ev)
  qed
  show "agent_inv env a'"
  proof -
    have "beyond (mark_of (writer p) PROCMOND_COLLECTOR_ID) (cycle_seq ordinal' 0)"
      if nxt: "next_ordinal cur = Some ordinal'" for ordinal'
    proof -
      obtain ordinal where ord: "next_ordinal (cursor a) = Some ordinal"
        using win(4) nxt by (auto split: option.splits)
      have before: "beyond (mark_of (writer (pipeline a)) PROCMOND_COLLECTOR_ID) (cycle_seq ordinal 0)"
        using assms(3) ord by (simp add: agent_inv_def)
      have mk: "mark_of (writer p) = after_recs (mark_of (writer (pipeline a))) added"
        using added(2) by (simp add: batch_done_def)
      show ?thesis
      proof (cases outcome)
        case None
        then show ?thesis
          using win(4) nxt ord added(5) before by (simp add: mk)
      next
        case (Some o')
        then have "ordinal \<noteq> - 1" "ordinal' = ordinal + 1"
          using win(4) nxt ord by (auto split: if_splits)
        then show ?thesis
          using next_ordinal_beyond [where m = "mark_of (writer (pipeline a))", OF before] added(4) ord by (simp add: mk)
      qed
    qed
    then show ?thesis
      using rm(1,2) by (simp add: agent_inv_def a' finish_cycle_def)
  qed
qed


section \<open>Start and runs\<close>

lemma start_agent_facts:
  assumes "redb_atomic env" "store_inv env s" "start_agent env s = Ok a"
  shows "agent_inv env a" "agent_disk env a = contents env (db s)"
    "previous_high_water_ms (cursor a) =
       (case recorded (contents env (db s)) PROCMOND_COLLECTOR_ID of None \<Rightarrow> 0 | Some m \<Rightarrow> m)"
proof -
  obtain ordinal mark where ord: "next_cycle_ordinal env s PROCMOND_COLLECTOR_ID = Ok ordinal"
    and mark: "evaluated_through_ms env PROCMOND_COLLECTOR_ID s = Ok mark"
    and a: "a = \<lparr>pipeline = \<lparr>writer = start_writer env s, channel = \<lparr>queue = [], closed = False\<rparr>\<rparr>,
       cursor = \<lparr>next_ordinal = Some ordinal, previous_high_water_ms = (case mark of None \<Rightarrow> 0 | Some m \<Rightarrow> m),
                 carried_failure = None\<rparr>\<rparr>"
    using assms(3) by (auto simp: start_agent_def split: sum.splits)
  obtain t where rd: "begin_read env (db s) = Ok t"
    using mark by (auto simp: evaluated_through_ms_def split: sum.splits)
  note t = redb_atomicD(1) [OF assms(1) rd]
  have ok: "is_ok (ingest_watermarks env s)" by (simp add: ingest_watermarks_def rd split: option.split)
  note start = start_writer_facts [OF assms(1,2) ok]
  show "agent_disk env a = contents env (db s)"
    by (simp add: agent_disk_def a start(3))
  show "previous_high_water_ms (cursor a) =
       (case recorded (contents env (db s)) PROCMOND_COLLECTOR_ID of None \<Rightarrow> 0 | Some m \<Rightarrow> m)"
    using mark by (auto simp: a evaluated_through_ms_def rd t recorded_def split: option.splits)
  have "ingest_watermarks env s = Ok (marks (contents env (db s)))"
    by (simp add: ingest_watermarks_def rd t marks_def split: option.split)
  then have nxt: "case hm_get (marks (contents env (db s))) PROCMOND_COLLECTOR_ID of None \<Rightarrow> ordinal = 0
      | Some m \<Rightarrow> ordinal = (ucast (drop_bit EPOCH_SHIFT m) :: u32) + 1 \<and> (ucast (drop_bit EPOCH_SHIFT m) :: u32) \<noteq> - 1"
    using ord by (auto simp: next_cycle_ordinal_def Let_def split: option.splits if_splits)
  have "beyond (hm_get (marks (contents env (db s))) PROCMOND_COLLECTOR_ID) (cycle_seq ordinal 0)"
  proof (cases "hm_get (marks (contents env (db s))) PROCMOND_COLLECTOR_ID")
    case (Some m)
    let ?c = "ucast (drop_bit EPOCH_SHIFT m) :: u32"
    have "unat m < 2 ^ 64" using unsigned_less [of m, where 'a = nat] by simp
    then have "unat ?c = unat m div 2 ^ 32"
      by (simp add: EPOCH_SHIFT_def drop_bit_eq_div unat_div unsigned_ucast_eq take_bit_nat_eq_self_iff less_mult_imp_div_less)
    moreover have "unat (?c + 1) = unat ?c + 1"
      using word_less_succ [of ?c] nxt Some by (simp add: word_less_nat_alt unat_word_ariths)
    ultimately have "unat m < unat (cycle_seq ordinal 0)"
      using nxt Some div_mult_mod_eq [of "unat m" "2 ^ 32"] mod_less_divisor [of "2 ^ 32" "unat m"]
      by (simp add: unat_cycle_seq)
    then show ?thesis by (simp add: Some beyond_def word_less_nat_alt)
  qed (simp add: beyond_def)
  then show "agent_inv env a"
    using start by (simp add: agent_inv_def a pipe_inv_def) (simp add: start_writer_def)
qed

text \<open>While ordinals are left, a restart finds the next one.\<close>

lemma start_agent_Ok:
  assumes "redb_atomic env" "agent_inv env a" "next_ordinal (cursor a) \<noteq> None" "\<forall>d. is_ok (begin_read env d)"
  shows "\<exists>a'. start_agent env (store (writer (pipeline a))) = Ok a'"
proof -
  let ?s = "store (writer (pipeline a))"
  obtain t where rd: "begin_read env (db ?s) = Ok t"
    using assms(4) by (blast elim: is_okE)
  note t = redb_atomicD(1) [OF assms(1) rd]
  obtain ordinal where ord: "next_ordinal (cursor a) = Some ordinal" using assms(3) by blast
  let ?m = "hm_get (marks t) PROCMOND_COLLECTOR_ID"
  have "beyond ?m (cycle_seq ordinal 0)"
    using assms(2) ord by (auto simp: agent_inv_def pipe_inv_def writer_inv_def disk_marks_def disk_def t)
  then have "(ucast (drop_bit EPOCH_SHIFT m) :: u32) \<noteq> - 1" "unat (drop_bit EPOCH_SHIFT m) < 2 ^ 32"
    if "?m = Some m" for m
  proof -
    have less: "unat m < unat ordinal * 2 ^ 32"
      using \<open>beyond ?m (cycle_seq ordinal 0)\<close> that by (simp add: beyond_def word_less_nat_alt unat_cycle_seq)
    have ordb: "unat ordinal < 2 ^ 32" using unsigned_less [of ordinal, where 'a = nat] by simp
    have q: "unat (drop_bit EPOCH_SHIFT m) = unat m div 2 ^ 32"
      by (simp add: EPOCH_SHIFT_def drop_bit_eq_div unat_div)
    have "unat m div 2 ^ 32 < unat ordinal"
      using less by (simp add: less_mult_imp_div_less)
    with ordb q have small: "unat (drop_bit EPOCH_SHIFT m) < 2 ^ 32 - 1" by linarith
    then show "unat (drop_bit EPOCH_SHIFT m) < 2 ^ 32" by simp
    have "unat (ucast (drop_bit EPOCH_SHIFT m) :: u32) = unat (drop_bit EPOCH_SHIFT m)"
      using small by (simp add: unsigned_ucast_eq take_bit_nat_eq_self_iff)
    with small show "(ucast (drop_bit EPOCH_SHIFT m) :: u32) \<noteq> - 1"
      by (auto simp: unsigned_minus_1_eq_mask mask_eq_exp_minus_1)
  qed
  moreover have "ingest_watermarks env ?s = Ok (marks t)"
    by (simp add: ingest_watermarks_def rd marks_def split: option.split)
  ultimately obtain n where "next_cycle_ordinal env ?s PROCMOND_COLLECTOR_ID = Ok n"
    by (cases ?m) (auto simp: next_cycle_ordinal_def Let_def)
  moreover obtain mark where "evaluated_through_ms env PROCMOND_COLLECTOR_ID ?s = Ok mark"
    by (cases "cursor_table t") (auto simp: evaluated_through_ms_def rd)
  ultimately show ?thesis by (simp add: start_agent_def)
qed

lemma agent_run_inv:
  assumes "redb_atomic env" "postcard_inverts env" "agent_inv env a" "list_all input_ok inps"
    and "agent_run env cfg inps a = (evs, a')"
  shows "agent_inv env a'"
  using assms(3-5)
proof (induction inps arbitrary: a evs)
  case (Cons inp inps)
  obtain ev a1 where one: "agent_cycle env cfg inp a = (ev, a1)" by (rule prod.exhaust)
  obtain evs' where rest: "agent_run env cfg inps a1 = (evs', a')"
    using Cons.prems(3) by (auto simp: one split: prod.splits)
  show ?case
    using Cons.IH [OF _ _ rest] agent_cycle_facts(1) [OF assms(1,2) Cons.prems(1) _ one] Cons.prems(2) by simp
qed simp

text \<open>An event was evaluated: a completed evaluation saw it inside its window.\<close>

definition evaluated :: "'d store_env \<Rightarrow> Evaluation list \<Rightarrow> evkey \<times> ProcessRecord \<Rightarrow> bool" where
  "evaluated env evs row \<longleftrightarrow>
     list_ex (\<lambda>ev. complete ev \<and> row \<in> set (stored env (seen ev)) \<and> in_window (window ev) (fst (fst row))) evs"

subsection \<open>Without an assumption on what was collected\<close>

text \<open>
  What holds whatever the records: the rows a cycle queues are those of its records, and what is in the
  store afterwards came from them or was in the queue before.
\<close>

definition row_of :: "ProcessRecord list \<Rightarrow> IngestRecord \<Rightarrow> bool" where
  "row_of rs rec \<longleftrightarrow> event_record rec \<in> set rs \<and> ts_ms rec = millis (event_record rec)"

lemma ingest_row_of: "ingest_row c ordinal i r = Ok row \<Longrightarrow> row_of [r] row"
  by (auto simp: ingest_row_def IngestRecord_new_def row_of_def millis_def Let_def split: if_splits sum.splits)

lemma submit_rows_queue:
  assumes "submit_rows cfg c ordinal i rs o' p = (o1, p1)" "\<not> closed (channel p)"
  shows "same_writer p p1 \<and> (\<exists>new. channel p1 = (channel p)\<lparr>queue := queue (channel p) @ map Record new\<rparr> \<and> list_all (row_of rs) new)"
  using assms
proof (induction rs arbitrary: i o' p)
  case Nil
  then show ?case by (auto simp: same_writer_def intro: exI [of _ "[]"])
next
  case (Cons r rs)
  show ?case
  proof (cases "ingest_row c ordinal i r")
    case (Inl e)
    with Cons.prems show ?thesis by (auto simp: same_writer_def intro: exI [of _ "[]"])
  next
    case (Inr row)
    obtain p' where p': "submit_row cfg row p = (Ok (), p')" "same_writer p p'"
      "channel p' = (channel p)\<lparr>queue := queue (channel p) @ [Record row]\<rparr>"
      using submit_row_open [OF Cons.prems(2)] by blast
    obtain o2 where rest: "submit_rows cfg c ordinal (Suc i) rs o2 p' = (o1, p1)"
      using Cons.prems(1) by (simp add: Inr p'(1) Let_def)
    have "\<not> closed (channel p')" using Cons.prems(2) by (simp add: p'(3))
    from Cons.IH [OF rest this] obtain new where new: "same_writer p' p1"
      "channel p1 = (channel p')\<lparr>queue := queue (channel p') @ map Record new\<rparr>" "list_all (row_of rs) new"
      by blast
    have "list_all (row_of (r # rs)) (row # new)"
      using new(3) ingest_row_of [OF Inr] by (auto simp: list_all_iff row_of_def)
    then show ?thesis
      using new(1,2) p'(2,3) by (intro conjI exI [of _ "row # new"]) (simp_all add: same_writer_def)
  qed
qed

lemma drain_added:
  assumes "redb_atomic env" "postcard_inverts env" "store_inv env (store (writer p))"
    and "drain env cfg arr clk n p = (replies, p')"
  shows "\<exists>added. set added \<subseteq> set (records_of (queue (channel p))) \<and> batch_done env (writer p) (writer p') added"
    "channel p' = (channel p)\<lparr>queue := drop n (queue (channel p))\<rparr>"
proof -
  obtain w where lp: "writer_loop env cfg arr clk 0 (take n (queue (channel p))) (writer p) = (replies, w)"
    and p': "p' = p\<lparr>writer := w, channel := (channel p)\<lparr>queue := drop n (queue (channel p))\<rparr>\<rparr>"
    using assms(4) by (auto simp: drain_def split: prod.splits)
  obtain added where added: "subseq added (records_of (take n (queue (channel p))))" "run_added env (writer p) w added"
    using writer_loop_run [OF assms(1-3) lp] by blast
  have "set (records_of (take n (queue (channel p)))) \<subseteq> set (records_of (queue (channel p)))"
    by (metis Un_upper1 append_take_drop_id records_of_simps(4) set_append)
  then show "\<exists>added. set added \<subseteq> set (records_of (queue (channel p))) \<and> batch_done env (writer p) (writer p') added"
    using added set_subseq [OF added(1)] by (intro exI [of _ added]) (auto simp: p' run_added_def)
  show "channel p' = (channel p)\<lparr>queue := drop n (queue (channel p))\<rparr>"
    by (simp add: p')
qed

lemma ingest_cycle_added:
  assumes "redb_atomic env" "postcard_inverts env" "store_inv env (store (writer p))" "\<not> closed (channel p)"
    and "ingest_cycle env cfg arr clk tk c ordinal rs p = (o1, p1)"
  shows "\<exists>added. list_all (\<lambda>rec. rec \<in> set (records_of (queue (channel p))) \<or> row_of rs rec) added \<and>
      batch_done env (writer p) (writer p1) added"
    "\<not> closed (channel p1)"
    "list_all (\<lambda>rec. rec \<in> set (records_of (queue (channel p))) \<or> row_of rs rec) (records_of (queue (channel p1)))"
    "well_stamped rs \<Longrightarrow> queue (channel p1) = [] \<and> bounds_ok o1 rs"
proof -
  obtain o2 p2 where sub: "submit_rows cfg c ordinal 0 rs IngestOutcome_empty p = (o2, p2)" by (rule prod.exhaust)
  obtain new where new: "same_writer p p2" "channel p2 = (channel p)\<lparr>queue := queue (channel p) @ map Record new\<rparr>"
    "list_all (row_of rs) new"
    using submit_rows_queue [OF sub assms(4)] by blast
  define early where "early \<longleftrightarrow> failure o2 \<noteq> None"
  define p3 where "p3 = (if early then p2 else p2\<lparr>channel := (channel p2)\<lparr>queue := queue (channel p2) @ [Flush]\<rparr>\<rparr>)"
  define n where "n = (if early then tk else length (queue (channel p3)))"
  obtain replies p4 where dr: "drain env cfg arr clk n p3 = (replies, p4)" by (rule prod.exhaust)
  have fin: "p1 = p4" "low_water_ms o1 = low_water_ms o2" "high_water_ms o1 = high_water_ms o2"
    using assms(4,5) new(2) dr
    by (auto simp: ingest_cycle_def sub send_def n_def p3_def early_def failed_def split: sum.splits if_splits)
  have p3: "store (writer p3) = store (writer p)" "same_writer p p3" "\<not> closed (channel p3)"
    "set (records_of (queue (channel p3))) = set (records_of (queue (channel p))) \<union> set new"
    using new(1,2) assms(4) by (simp_all add: p3_def same_writer_def)
  note dra = drain_added [OF assms(1,2) _ dr]
  have inv: "store_inv env (store (writer p3))" using assms(3) by (simp add: p3(1))
  obtain added where added: "set added \<subseteq> set (records_of (queue (channel p3)))" "batch_done env (writer p3) (writer p4) added"
    using dra(1) [OF inv] by blast
  show "\<exists>added. list_all (\<lambda>rec. rec \<in> set (records_of (queue (channel p))) \<or> row_of rs rec) added \<and>
      batch_done env (writer p) (writer p1) added"
    using added new(3) same_writer_facts(3) [OF p3(2)]
    by (intro exI [of _ added]) (auto simp: fin p3(4) list_all_iff)
  have ch: "channel p1 = (channel p3)\<lparr>queue := drop n (queue (channel p3))\<rparr>"
    using dra(2) [OF inv] by (simp add: fin)
  show "\<not> closed (channel p1)" using p3(3) by (simp add: ch)
  have "set (records_of (drop n (queue (channel p3)))) \<subseteq> set (records_of (queue (channel p3)))"
    by (metis Un_upper2 append_take_drop_id records_of_simps(4) set_append)
  then show "list_all (\<lambda>rec. rec \<in> set (records_of (queue (channel p))) \<or> row_of rs rec) (records_of (queue (channel p1)))"
    using new(3) by (auto simp: ch p3(4) list_all_iff)
  show "queue (channel p1) = [] \<and> bounds_ok o1 rs" if ok: "well_stamped rs"
  proof -
    have "failure o2 = None" "bounds_ok o2 rs"
      using submit_rows_facts [OF sub assms(4)] ok by (auto simp: well_stamped_def list_all_iff IngestOutcome_empty_def)
    then show ?thesis
      by (simp add: ch n_def early_def bounds_ok_def fin(2,3))
  qed
qed

text \<open>The agent between cycles: \<open>B\<close> holds the records of the cycles that returned early.\<close>

definition agent_left :: "'d store_env \<Rightarrow> ProcessRecord set \<Rightarrow> 'd Agent \<Rightarrow> bool" where
  "agent_left env B a \<longleftrightarrow> store_inv env (store (writer (pipeline a))) \<and> \<not> closed (channel (pipeline a)) \<and>
     (\<forall>rec \<in> set (records_of (queue (channel (pipeline a)))). event_record rec \<in> B)"

definition misstamped :: "CycleInput \<Rightarrow> ProcessRecord set" where
  "misstamped inp = (if well_stamped (processes inp) then {} else set (processes inp))"

lemma ingest_collected_added:
  assumes "redb_atomic env" "postcard_inverts env" "agent_left env B a" "ingest_collected env cfg inp a = (outcome, p)"
  shows "\<exists>added. (\<forall>rec \<in> set added. event_record rec \<in> B \<union> misstamped inp \<or> row_of (collected a inp) rec) \<and>
      batch_done env (writer (pipeline a)) (writer p) added"
    "\<not> closed (channel p)" "\<forall>rec \<in> set (records_of (queue (channel p))). event_record rec \<in> B \<union> misstamped inp"
    "outcome = None \<Longrightarrow> collected a inp = []"
    "outcome = Some o' \<Longrightarrow> next_ordinal (cursor a) \<noteq> None \<and> (well_stamped (processes inp) \<longrightarrow> bounds_ok o' (processes inp))"
proof -
  have a: "store_inv env (store (writer (pipeline a)))" "\<not> closed (channel (pipeline a))"
    "\<forall>rec \<in> set (records_of (queue (channel (pipeline a)))). event_record rec \<in> B"
    using assms(3) by (simp_all add: agent_left_def)
  have "(\<exists>added. (\<forall>rec \<in> set added. event_record rec \<in> B \<union> misstamped inp \<or> row_of (collected a inp) rec) \<and>
      batch_done env (writer (pipeline a)) (writer p) added) \<and> \<not> closed (channel p) \<and>
    (\<forall>rec \<in> set (records_of (queue (channel p))). event_record rec \<in> B \<union> misstamped inp) \<and>
    (outcome = None \<longrightarrow> collected a inp = []) \<and>
    (\<forall>o'. outcome = Some o' \<longrightarrow> next_ordinal (cursor a) \<noteq> None \<and> (well_stamped (processes inp) \<longrightarrow> bounds_ok o' (processes inp)))"
  proof (cases "next_ordinal (cursor a) = None \<or> processes inp = []")
    case True
    then have out: "outcome = None" "collected a inp = []"
      "drain env cfg (arrivals inp) (clock inp) (taken inp) (pipeline a) =
         (fst (drain env cfg (arrivals inp) (clock inp) (taken inp) (pipeline a)), p)"
      using assms(4) by (auto simp: ingest_collected_def collected_def split: option.splits)
    note dra = drain_added [OF assms(1,2) a(1) out(3)]
    have "set (records_of (queue (channel p))) \<subseteq> set (records_of (queue (channel (pipeline a))))"
      unfolding dra(2) by simp (metis Un_upper2 append_take_drop_id records_of_simps(4) set_append)
    then show ?thesis
      using dra a(2,3) out(1,2) by (simp add: dra(2)) blast
  next
    case False
    then obtain ordinal o' where ord: "next_ordinal (cursor a) = Some ordinal" "outcome = Some o'"
      and ing: "ingest_cycle env cfg (arrivals inp) (clock inp) (taken inp) PROCMOND_COLLECTOR_ID ordinal
        (processes inp) (pipeline a) = (o', p)"
      using assms(4) by (auto simp: ingest_collected_def split: prod.splits)
    note add = ingest_cycle_added [OF assms(1,2) a(1,2) ing]
    have coll: "collected a inp = processes inp" by (simp add: collected_def ord)
    have left: "\<forall>rec \<in> set (records_of (queue (channel p))). event_record rec \<in> B \<union> misstamped inp"
      using add(3,4) a(3) by (cases "well_stamped (processes inp)") (auto simp: list_all_iff misstamped_def row_of_def)
    obtain added where "list_all (\<lambda>rec. rec \<in> set (records_of (queue (channel (pipeline a)))) \<or> row_of (processes inp) rec) added"
      "batch_done env (writer (pipeline a)) (writer p) added"
      using add(1) by blast
    then show ?thesis
      using left add(2,4) a(3) by (auto simp: coll ord list_all_iff intro!: exI [of _ added])
  qed
  then show "\<exists>added. (\<forall>rec \<in> set added. event_record rec \<in> B \<union> misstamped inp \<or> row_of (collected a inp) rec) \<and>
      batch_done env (writer (pipeline a)) (writer p) added"
    "\<not> closed (channel p)" "\<forall>rec \<in> set (records_of (queue (channel p))). event_record rec \<in> B \<union> misstamped inp"
    "outcome = None \<Longrightarrow> collected a inp = []"
    "outcome = Some o' \<Longrightarrow> next_ordinal (cursor a) \<noteq> None \<and> (well_stamped (processes inp) \<longrightarrow> bounds_ok o' (processes inp))"
    by blast+
qed

text \<open>One cycle, whatever was collected.\<close>

lemma agent_cycle_added:
  assumes "redb_atomic env" "postcard_inverts env" "agent_left env B a" "agent_cycle env cfg inp a = (ev, a')"
  shows "agent_left env (B \<union> misstamped inp) a'"
    "stored env (agent_disk env a') = stored env (seen ev)"
    "db_inv env (granularity_ms (store (writer (pipeline a)))) (seen ev)"
    "\<exists>added. (\<forall>rec \<in> set added. event_record rec \<in> B \<union> misstamped inp \<or> row_of (collected a inp) rec) \<and>
       grew env (agent_disk env a) (seen ev) added"
    "\<And>t. previous_high_water_ms (cursor a) < t \<Longrightarrow>
        previous_high_water_ms (cursor a') < t \<or> complete ev \<and> in_window (window ev) t"
    "\<And>r. r \<in> set (collected a inp) \<Longrightarrow> well_stamped (processes inp) \<Longrightarrow> millis r \<noteq> 0 \<Longrightarrow>
        previous_high_water_ms (cursor a') < millis r \<or> complete ev \<and> in_window (window ev) (millis r)"
proof -
  obtain outcome p where ing: "ingest_collected env cfg inp a = (outcome, p)" by (rule prod.exhaust)
  obtain win gps fail cur where plan: "plan_cycle (now_ms inp) outcome (cursor a) = (win, gps, fail, cur)"
    by (rule prod_cases4)
  have ev: "ev = \<lparr>window = win, seen = disk env (writer p), eval_gaps = gps, eval_failure = fail, complete = persisted inp\<rparr>"
    and a': "a' = \<lparr>pipeline = record_mark env (persisted inp) win p, cursor = finish_cycle (persisted inp) win cur\<rparr>"
    using assms(4) by (simp_all add: agent_cycle_def ing plan)
  note col = ingest_collected_added [OF assms(1-3) ing]
  obtain added where added: "\<forall>rec \<in> set added. event_record rec \<in> B \<union> misstamped inp \<or> row_of (collected a inp) rec"
    "batch_done env (writer (pipeline a)) (writer p) added"
    using col(1) by blast
  have inv: "store_inv env (store (writer p))" using added(2) by (simp add: batch_done_def)
  note rm = record_mark_kept [OF assms(1) inv, of "persisted inp" win]
  show "agent_left env (B \<union> misstamped inp) a'"
    using rm(1,3) col(2,3) by (simp add: agent_left_def a')
  show "stored env (agent_disk env a') = stored env (seen ev)"
    by (simp add: agent_disk_def a' ev rm(2))
  show "db_inv env (granularity_ms (store (writer (pipeline a)))) (seen ev)"
    using added(2) by (auto simp: ev batch_done_def store_inv_def same_config_def disk_def)
  show "\<exists>added. (\<forall>rec \<in> set added. event_record rec \<in> B \<union> misstamped inp \<or> row_of (collected a inp) rec) \<and>
       grew env (agent_disk env a) (seen ev) added"
    using added by (intro exI [of _ added]) (simp add: ev agent_disk_def batch_done_def)
  note cov = window_reaches [OF plan, where all_stored = "persisted inp"]
  show "previous_high_water_ms (cursor a') < t \<or> complete ev \<and> in_window (window ev) t"
    if "previous_high_water_ms (cursor a) < t" for t
    using cov(1) [OF that] by (simp add: a' ev)
  show "previous_high_water_ms (cursor a') < millis r \<or> complete ev \<and> in_window (window ev) (millis r)"
    if r: "r \<in> set (collected a inp)" "well_stamped (processes inp)" "millis r \<noteq> 0" for r
  proof (cases outcome)
    case None
    with col(4) r(1) show ?thesis by simp
  next
    case (Some o')
    have "low_water_ms o' \<le> millis r" "next_ordinal (cursor a) \<noteq> None"
      using col(5) [OF Some] r(1,2) by (auto simp: bounds_ok_def collected_def split: if_splits)
    then show ?thesis
      using cov(2) [OF Some _ r(3)] by (simp add: a' ev)
  qed
qed

lemma agent_run_covers:
  assumes "redb_atomic env" "postcard_inverts env" "agent_left env B a"
    and "agent_run env cfg inps a = (evs, a')" "row \<in> set (stored env (agent_disk env a'))"
  shows "row \<in> set (stored env (agent_disk env a)) \<and> fst (fst row) \<le> previous_high_water_ms (cursor a) \<or>
    previous_high_water_ms (cursor a') < fst (fst row) \<or> evaluated env evs row \<or>
    fst (fst row) = 0 \<or> snd row \<in> B \<or> list_ex (\<lambda>inp. snd row \<in> misstamped inp) inps"
  using assms(3-5)
proof (induction inps arbitrary: a evs B)
  case Nil
  then show ?case by auto
next
  case (Cons inp inps)
  obtain ev a1 where one: "agent_cycle env cfg inp a = (ev, a1)" by (rule prod.exhaust)
  obtain evs' where rest: "agent_run env cfg inps a1 = (evs', a')" and evs: "evs = ev # evs'"
    using Cons.prems(2) by (auto simp: one split: prod.splits)
  note cyc = agent_cycle_added [OF assms(1,2) Cons.prems(1) one]
  let ?t = "fst (fst row)"
  from Cons.IH [OF cyc(1) rest Cons.prems(3)]
  consider "row \<in> set (stored env (seen ev))" "?t \<le> previous_high_water_ms (cursor a1)"
    | "previous_high_water_ms (cursor a') < ?t \<or> evaluated env evs' row"
    | "?t = 0 \<or> snd row \<in> B \<union> misstamped inp \<or> list_ex (\<lambda>inp. snd row \<in> misstamped inp) inps"
    by (auto simp: cyc(2))
  then show ?case
  proof cases
    case 1
    have cov: "complete ev \<and> in_window (window ev) ?t \<Longrightarrow> evaluated env evs row"
      using 1(1) by (simp add: evaluated_def evs)
    show ?thesis
    proof (cases "row \<in> set (stored env (agent_disk env a))")
      case True
      then show ?thesis
        using cyc(5) [of ?t] 1(2) cov by (auto simp: not_le [symmetric])
    next
      case False
      obtain added where added: "\<forall>rec \<in> set added. event_record rec \<in> B \<union> misstamped inp \<or> row_of (collected a inp) rec"
        "grew env (agent_disk env a) (seen ev) added"
        using cyc(4) by blast
      have inv: "db_inv env (granularity_ms (store (writer (pipeline a)))) (agent_disk env a)"
        using Cons.prems(1) by (simp add: agent_left_def store_inv_def agent_disk_def disk_def)
      have "(?t, snd row) \<in> rec_at ` set added"
        by (rule grew_new_rows [OF added(2) inv cyc(3) 1(1) False])
      then have "snd row \<in> B \<union> misstamped inp \<or> snd row \<in> set (collected a inp) \<and> ?t = millis (snd row)"
        using added(1) by (auto simp: rec_at_def row_of_def)
      moreover have "snd row \<in> misstamped inp"
        if "snd row \<in> set (collected a inp)" "\<not> well_stamped (processes inp)"
        using that by (auto simp: misstamped_def collected_def split: if_splits)
      moreover have "?t = 0 \<or> evaluated env evs row"
        if "snd row \<in> set (collected a inp)" "?t = millis (snd row)" "well_stamped (processes inp)"
        using cyc(6) [OF that(1,3)] that(2) 1(2) cov by (metis leD)
      ultimately show ?thesis
        by (cases "well_stamped (processes inp)") auto
    qed
  qed (auto simp: evs evaluated_def)
qed

section \<open>Properties\<close>

definition demo_start :: "Db Agent" where
  "demo_start = \<lparr>pipeline = \<lparr>writer = start_writer memory_env demo_store, channel = \<lparr>queue = [], closed = False\<rparr>\<rparr>,
     cursor = \<lparr>next_ordinal = Some 0, previous_high_water_ms = 0, carried_failure = None\<rparr>\<rparr>"

definition demo_input :: "bool \<Rightarrow> CycleInput" where
  "demo_input all_stored = \<lparr>processes = [demo_record], now_ms = 9, arrivals = (\<lambda>_. 1), clock = (\<lambda>_. 9),
     taken = 0, persisted = all_stored\<rparr>"

lemma demo_start: "start_agent memory_env demo_store = Ok demo_start"
  by (simp add: start_agent_def next_cycle_ordinal_def ingest_watermarks_def evaluated_through_ms_def
      memory_env_def demo_store_def from_database_def empty_db_def demo_start_def)

lemma demo_input_ok: "input_ok (demo_input b)"
  by (simp add: input_ok_def well_stamped_def demo_input_def keyable_def timestamp_millis_def demo_record_def)

text \<open>
  Claim C7: no stored event escapes evaluation unnoticed. When the agent runs any number of cycles on a store,
  with any records, clocks that step back, group commits that fail and alerts that cannot be
  stored, then every event in the store is older than the mark the agent started from, or was seen
  inside the window of an evaluation all of whose alerts were stored, or still lies past the mark, where
  the next window starts, with two exceptions: an event stamped exactly at the start of 1970, which no window
  contains, and an event of a cycle whose ingest returned early, because one of its records was stamped before
  1970 or there were more than $2^{32}$ of them: nothing waits for the rows it had submitted.
\<close>

theorem every_event_evaluated:
  assumes "redb_atomic env" "postcard_inverts env" "store_inv env s" "start_agent env s = Ok a"
  shows "case agent_run env cfg inps a of (evs, a') \<Rightarrow>
    \<forall>row. row \<in> set (stored env (agent_disk env a')) \<longrightarrow>
      row \<in> set (stored env (contents env (db s))) \<and> fst (fst row) \<le> previous_high_water_ms (cursor a) \<or>
      evaluated env evs row \<or> previous_high_water_ms (cursor a') < fst (fst row) \<or>
      fst (fst row) = 0 \<or> list_ex (\<lambda>inp. snd row \<in> misstamped inp) inps"
proof (cases "agent_run env cfg inps a")
  case (Pair evs a')
  note start = start_agent_facts [OF assms(1,3,4)]
  have "agent_left env {} a"
    using start(1) by (simp add: agent_left_def agent_inv_def pipe_inv_def writer_inv_def)
  from agent_run_covers [OF assms(1,2) this Pair] show ?thesis
    unfolding Pair prod.case start(2) by blast
qed

text \<open>Three cycles; the last one collects a record stamped before 1970 after another one.\<close>

definition early_input :: CycleInput where
  "early_input = (demo_input True)\<lparr>processes := [demo_record, demo_record\<lparr>collection_time := - 1\<rparr>]\<rparr>"

theorem every_event_evaluated_witness:
  "case agent_run memory_env IngestConfig_default [demo_input False, demo_input True, early_input] demo_start of (evs, a') \<Rightarrow>
    \<forall>row. row \<in> set (stored memory_env (agent_disk memory_env a')) \<longrightarrow>
      row \<in> set (stored memory_env (contents memory_env (db demo_store))) \<and>
        fst (fst row) \<le> previous_high_water_ms (cursor demo_start) \<or>
      evaluated memory_env evs row \<or> previous_high_water_ms (cursor a') < fst (fst row) \<or>
      fst (fst row) = 0 \<or>
      list_ex (\<lambda>inp. snd row \<in> misstamped inp) [demo_input False, demo_input True, early_input]"
  by (rule every_event_evaluated [OF memory_env_ok demo_store_inv demo_start])

text \<open>
  The two exceptions are real. A window is open to the left, so none contains the time 0, with which the
  collector stamps what it observed before 1970; and after an early return the rows submitted before may
  be in the channel still when the window is evaluated.
\<close>

lemma stamp_zero_never_evaluated: "evaluated env evs row \<Longrightarrow> fst (fst row) \<noteq> 0"
  by (auto simp: evaluated_def list_ex_iff in_window_def)

lemma early_return_leaves_rows:
  assumes "\<not> closed (channel p)" "keyable r" "\<not> keyable bad"
  shows "case ingest_cycle env cfg arr clk 0 c ordinal [r, bad] p of (o', p') \<Rightarrow>
    failure o' \<noteq> None \<and> disk env (writer p') = disk env (writer p) \<and>
    queue (channel p') = queue (channel p) @ map Record (cycle_rows c ordinal 0 [r])"
proof -
  define row where "row = hd (cycle_rows c ordinal 0 [r])"
  have row: "ingest_row c ordinal 0 r = Ok row" "cycle_rows c ordinal 0 [r] = [row]"
    using ingest_row_keyable [OF assms(2), of 0] by (simp_all add: row_def)
  obtain e where bad: "ingest_row c ordinal (Suc 0) bad = Err e"
    using assms(3) by (simp add: ingest_row_def IngestRecord_new_def keyable_def Let_def)
  obtain p1 where p1: "submit_row cfg row p = (Ok (), p1)" "same_writer p p1"
    "channel p1 = (channel p)\<lparr>queue := queue (channel p) @ [Record row]\<rparr>"
    using submit_row_open [OF assms(1)] by blast
  show ?thesis
    unfolding row(2) using p1(2)
    by (simp add: ingest_cycle_def row(1) p1(1,3) bad Let_def failed_def drain_def same_writer_def disk_def)
qed

lemma demo_put: "\<exists>s'. put_batch memory_env now [demo_rec\<lparr>source_seq := x, seq := i\<rparr>] demo_store = (Ok (), s')"
  by (simp add: put_batch_def bucket_id_def memory_env_def insert_record_def encode_value_def free_key_def
      open_bucket_def demo_store_def from_database_def choose_granularity_def HOURLY_MS_def DAILY_MS_def
      demo_rec_def empty_db_def)

lemma demo_commit:
  "\<not> commit_failed (writer_state (commit_batch memory_env now [demo_rec\<lparr>source_seq := x, seq := i\<rparr>]
     ((start_writer memory_env demo_store)\<lparr>metrics := m\<rparr>)))"
proof -
  obtain s' where "put_batch memory_env now [demo_rec\<lparr>source_seq := x, seq := i\<rparr>] demo_store = (Ok (), s')"
    using demo_put by blast
  then show ?thesis
    by (simp add: commit_batch_def observe_sequence_def start_writer_def ingest_watermarks_def memory_env_def
        demo_store_def from_database_def empty_db_def Let_def)
qed

lemma demo_row: "ingest_row PROCMOND_COLLECTOR_ID o' 0 demo_record = Ok (demo_rec\<lparr>source_seq := cycle_seq o' 0, seq := 0\<rparr>)"
  by (simp add: ingest_row_def IngestRecord_new_def timestamp_millis_def demo_record_def demo_rec_def PROCMOND_COLLECTOR_ID_def)

lemma demo_cycle: "eval_failure (fst (agent_cycle memory_env IngestConfig_default (demo_input True) demo_start)) = None"
  using demo_commit [of 9 0 "cycle_seq 0 0" "metrics (start_writer memory_env demo_store)"]
  by (simp add: agent_cycle_def ingest_collected_def demo_start_def demo_input_def ingest_cycle_def
    demo_row submit_row_def submit_def send_def Let_def IngestOutcome_empty_def IngestConfig_default_def next_batch_def
    drain_def writer_step_def answer_flush_def plan_cycle_def ingest_step_def CarriedFailure_after_def)

text \<open>
  Fresh records are never taken for duplicates. After any number of cycles, failed ones
  included, and after any restart, a cycle whose evaluation reports no ingest failure has added exactly
  the records it collected, each at its time; and it reports no gap when the last committed row
  belongs to the cycle before.
\<close>

lemma cycle_records_stored:
  assumes "redb_atomic env" "postcard_inverts env" "store_inv env s" "start_agent env s = Ok a" "list_all input_ok inps"
    and "agent_run env cfg inps a = (evs, a1)" "input_ok inp" "agent_cycle env cfg inp a1 = (ev, a2)" "eval_failure ev = None"
  shows "stored_at env (seen ev) =
      stored_at env (agent_disk env a1) + mset (map (\<lambda>r. (millis r, r)) (processes inp)) \<and>
    (processes inp \<noteq> [] \<longrightarrow>
      mark_of (writer (pipeline a1)) PROCMOND_COLLECTOR_ID = Some m \<longrightarrow>
      unat m div 2 ^ 32 + 1 = unat (the (next_ordinal (cursor a1))) \<longrightarrow> eval_gaps ev = [])"
proof -
  have inv: "agent_inv env a1"
    by (rule agent_run_inv [OF assms(1,2) start_agent_facts(1) [OF assms(1,3,4)] assms(5,6)])
  note cyc = agent_cycle_facts [OF assms(1,2) inv assms(7,8)]
  have stored: "stored_at env (seen ev) =
      stored_at env (agent_disk env a1) + mset (map (\<lambda>r. (millis r, r)) (processes inp))"
    using cyc(6) assms(9) by (auto simp: grew_def)
  have "eval_gaps ev = []"
    if some: "processes inp \<noteq> []" and mk: "mark_of (writer (pipeline a1)) PROCMOND_COLLECTOR_ID = Some m"
      and nxt: "unat m div 2 ^ 32 + 1 = unat (the (next_ordinal (cursor a1)))"
  proof -
    let ?ord = "the (next_ordinal (cursor a1))"
    have cont: "is_contiguous m (cycle_seq ?ord (word_of_nat 0))"
      using nxt by (simp add: is_contiguous_iff unat_cycle_seq)
    have "unat m < unat ?ord * 2 ^ 32"
      using nxt div_mult_mod_eq [of "unat m" "2 ^ 32"] mod_less_divisor [of "2 ^ 32" "unat m"]
      by (simp flip: nxt)
    then have bey: "beyond (mark_of (writer (pipeline a1)) PROCMOND_COLLECTOR_ID) (cycle_seq ?ord (word_of_nat 0))"
      by (simp add: mk beyond_def word_less_nat_alt unat_cycle_seq)
    have len: "0 + length (processes inp) \<le> 2 ^ 32" using assms(7) by (simp add: input_ok_def well_stamped_def)
    show ?thesis
      unfolding cyc(8) [OF assms(9) some]
      using gaps_cycle_rows [of 0 "processes inp" "mark_of (writer (pipeline a1))" PROCMOND_COLLECTOR_ID m ?ord] len mk cont bey
      by simp
  qed
  with stored show ?thesis by blast
qed

lemma cycle_records_stored_example:
  "stored_at memory_env (seen (fst (agent_cycle memory_env IngestConfig_default (demo_input True) demo_start))) =
      stored_at memory_env (agent_disk memory_env demo_start) + mset (map (\<lambda>r. (millis r, r)) [demo_record])"
proof -
  have "agent_run memory_env IngestConfig_default [] demo_start = ([], demo_start)" by simp
  from cycle_records_stored [OF memory_env_ok demo_store_inv demo_start _ this demo_input_ok surjective_pairing demo_cycle, of 3]
  show ?thesis by (simp add: demo_input_def del: mset_map)
qed

text \<open>
  A restart does not come back to a window whose alerts were not stored. The mark on disk
  never moves backwards, so when the records of a cycle were stamped at or before it, because the
  clock stepped back, and an alert of their window could not be stored, the running agent would
  evaluate them again, but an agent restarted on the store starts past them.
\<close>

lemma restart_skips_withheld_window:
  assumes "redb_atomic env" "postcard_inverts env" "agent_inv env a" "input_ok inp" "\<forall>d. is_ok (begin_read env d)"
    and "next_ordinal (cursor a) = Some ordinal" "ordinal \<noteq> - 1"
    and "recorded (agent_disk env a) PROCMOND_COLLECTOR_ID = Some (previous_high_water_ms (cursor a))"
    and "\<not> persisted inp" "r \<in> set (processes inp)" "millis r \<le> previous_high_water_ms (cursor a)"
    and "millis r \<noteq> 0"
  shows "case agent_cycle env cfg inp a of (ev, a1) \<Rightarrow>
    \<exists>a2. start_agent env (store (writer (pipeline a1))) = Ok a2 \<and> \<not> complete ev \<and> in_window (window ev) (millis r) \<and>
      previous_high_water_ms (cursor a1) < millis r \<and> millis r \<le> previous_high_water_ms (cursor a2)"
proof -
  obtain ev a1 where run: "agent_cycle env cfg inp a = (ev, a1)" by (rule prod.exhaust)
  note cyc = agent_cycle_facts [OF assms(1-4) run]
  obtain outcome p where ing: "ingest_collected env cfg inp a = (outcome, p)" by (rule prod.exhaust)
  obtain win gps fail cur where plan: "plan_cycle (now_ms inp) outcome (cursor a) = (win, gps, fail, cur)"
    by (rule prod_cases4)
  have ev: "window ev = win" and a1: "pipeline a1 = p" "previous_high_water_ms (cursor a1) = after_ms win"
    "next_ordinal (cursor a1) = next_ordinal cur"
    using run assms(9) by (auto simp: agent_cycle_def ing plan record_mark_def finish_cycle_def)
  have r: "r \<in> set (collected a inp)" using assms(6,10) by (simp add: collected_def)
  have low: "after_ms win < millis r"
    using cyc(5) [OF r assms(12)] assms(9) by (simp add: cyc(3) a1(2))
  have high: "millis r \<le> through_ms win"
    using plan_cycle_facts(2) [OF plan] assms(11) by simp
  obtain added where bd: "batch_done env (writer (pipeline a)) (writer p) added"
    using ingest_collected_facts [OF assms(1-4) ing] by blast
  have "next_ordinal cur \<noteq> None"
    using plan_cycle_facts(4) [OF plan] assms(6,7) by (simp split: if_splits)
  then obtain a2 where a2: "start_agent env (store (writer (pipeline a1))) = Ok a2"
    using start_agent_Ok [OF assms(1) cyc(1)] assms(5) a1(3) by auto
  have "recorded (disk env (writer p)) PROCMOND_COLLECTOR_ID = Some (previous_high_water_ms (cursor a))"
    using bd assms(8) by (simp add: batch_done_def recorded_def agent_disk_def)
  moreover have "store_inv env (store (writer p))"
    using bd by (simp add: batch_done_def)
  ultimately have "previous_high_water_ms (cursor a2) = previous_high_water_ms (cursor a)"
    using start_agent_facts(3) [OF assms(1) _ a2] by (simp add: a1 disk_def)
  with low high assms(9,11) a2 show ?thesis
    by (simp add: run cyc(3) in_window_def ev a1(2))
qed

definition marked_store :: "Db EventStore" where
  "marked_store = from_database (empty_db\<lparr>cursor_table := Some [(''procmond'', 9)]\<rparr>) 0"

definition marked_agent :: "Db Agent" where
  "marked_agent = \<lparr>pipeline = \<lparr>writer = start_writer memory_env marked_store, channel = \<lparr>queue = [], closed = False\<rparr>\<rparr>,
     cursor = \<lparr>next_ordinal = Some 0, previous_high_water_ms = 9, carried_failure = None\<rparr>\<rparr>"

lemma marked_store_inv: "store_inv memory_env marked_store"
  using demo_store_inv by (simp add: store_inv_def marked_store_def demo_store_def from_database_def memory_env_def)

lemma marked_agent: "start_agent memory_env marked_store = Ok marked_agent"
  by (simp add: start_agent_def next_cycle_ordinal_def ingest_watermarks_def evaluated_through_ms_def
      memory_env_def marked_store_def from_database_def empty_db_def marked_agent_def hm_get_def PROCMOND_COLLECTOR_ID_def)

lemma restart_skips_withheld_window_example:
  "case agent_cycle memory_env IngestConfig_default (demo_input False) marked_agent of (ev, a1) \<Rightarrow>
    \<exists>a2. start_agent memory_env (store (writer (pipeline a1))) = Ok a2 \<and> \<not> complete ev \<and>
      in_window (window ev) (millis demo_record) \<and>
      previous_high_water_ms (cursor a1) < millis demo_record \<and> millis demo_record \<le> previous_high_water_ms (cursor a2)"
proof (rule restart_skips_withheld_window [OF memory_env_ok _ demo_input_ok, where ordinal = 0])
  note start = start_agent_facts [OF memory_env_ok(1) marked_store_inv marked_agent]
  show "agent_inv memory_env marked_agent" by (rule start)
  show "recorded (agent_disk memory_env marked_agent) PROCMOND_COLLECTOR_ID = Some (previous_high_water_ms (cursor marked_agent))"
    unfolding start(2)
    by (simp add: recorded_def marked_store_def marked_agent_def from_database_def memory_env_def hm_get_def PROCMOND_COLLECTOR_ID_def)
qed (simp_all add: memory_env_def marked_agent_def demo_input_def millis_def timestamp_millis_def demo_record_def)

text \<open>Cycles whose ingest had given outcomes, and whose alerts were all stored.\<close>

fun plan_run :: "IngestOutcome list \<Rightarrow> Cursor \<Rightarrow> (CycleWindow \<times> CycleIngestError option) list" where
  "plan_run [] cur = []"
| "plan_run (o' # os) cur =
     (case plan_cycle 0 (Some o') cur of (win, _, fail, cur') \<Rightarrow> (win, fail) # plan_run os (finish_cycle True win cur'))"

definition outcome_of :: "u64 \<Rightarrow> u64 \<Rightarrow> CycleIngestError option \<Rightarrow> IngestOutcome" where
  "outcome_of low high fail = \<lparr>high_water_ms = high, low_water_ms = low, submitted = 2, outcome_gaps = [], failure = fail\<rparr>"

text \<open>
  A second failed cycle can hide the first. A failed ingest is carried so that every window
  that may hold rows of the attempt is reported as degraded, until one has passed the attempt's
  furthest row. A later failed attempt replaces what is carried: here one that reached 500
  milliseconds, replaced after the clock stepped back by one that reached 200. The last window runs
  from 250 to 600, over rows of the first attempt, and is reported as complete.
\<close>

lemma second_failure_hides_first:
  "plan_run
     [outcome_of 101 500 (Some (IngestFailed CommitFailed)), outcome_of 150 200 (Some (IngestFailed CommitFailed)),
      outcome_of 210 250 None, outcome_of 260 600 None]
     \<lparr>next_ordinal = Some 0, previous_high_water_ms = 100, carried_failure = None\<rparr> =
   [(\<lparr>after_ms = 100, through_ms = 100\<rparr>, Some (IngestFailed CommitFailed)),
    (\<lparr>after_ms = 100, through_ms = 100\<rparr>, Some (IngestFailed CommitFailed)),
    (\<lparr>after_ms = 100, through_ms = 250\<rparr>, Some (IngestFailed CommitFailed)),
    (\<lparr>after_ms = 250, through_ms = 600\<rparr>, None)]"
  by (simp add: plan_cycle_def outcome_of_def ingest_step_def CarriedFailure_after_def degrades_def is_settled_by_def
      finish_cycle_def sat_sub_def)

end
