(* ===== verification/Rejection_Log.thy ===== *)
theory Rejection_Log
  imports Audit_Ledger
begin

text \<open>
  The agent's record of what it refused: \<^verbatim>\<open>daemoneye-lib/src/rejection_log.rs\<close> and the reasons of
  \<^verbatim>\<open>daemoneye-lib/src/detection/rejection.rs\<close>. Every refused rule and every refused registration
  appends one record, chained to the record before it by the hash input of the audit ledger; the log
  keeps the newest \<open>MAX_REJECTION_RECORDS\<close> records.

  The hash and the rendering of timestamps are those of \<open>ledger_env\<close>; nothing is assumed of them.
\<close>

section \<open>Why a rule was refused\<close>

datatype SqlPosition = Known u64 u64 | UnknownPosition

definition SqlPosition_display :: "SqlPosition \<Rightarrow> string" where
  "SqlPosition_display p = (case p of
     Known line column \<Rightarrow> ''line '' @ show_nat (unat line) @ '', column '' @ show_nat (unat column)
   | UnknownPosition \<Rightarrow> ''position unavailable'')"

datatype SqlRejection =
    ParseFailed string
  | MultipleStatements nat
  | NotASelect string
  | FunctionNotAllowed string SqlPosition
  | SubqueryTooDeep u32 u32
  | TooManyOf string nat nat
  | UnsupportedFromItem string
  | MissingFrom
  | CastNotAllowed string
  | OperatorNotAllowed string SqlPosition
  | UnsupportedClause string

definition SqlRejection_display :: "SqlRejection \<Rightarrow> string" where
  "SqlRejection_display r = (case r of
     ParseFailed message \<Rightarrow> ''SQL failed to parse: '' @ message
   | MultipleStatements count \<Rightarrow> ''only a single SQL statement is allowed, found '' @ show_nat count
   | NotASelect kind \<Rightarrow> ''only SELECT statements are allowed, found '' @ kind
   | FunctionNotAllowed function position \<Rightarrow>
       ''function `'' @ function @ ''` is not on the detection function allowlist (''
       @ SqlPosition_display position @ '')''
   | SubqueryTooDeep depth max_depth \<Rightarrow>
       ''subquery nesting depth '' @ show_nat (unat depth) @ '' exceeds the configured maximum of ''
       @ show_nat (unat max_depth)
   | TooManyOf construct found limit \<Rightarrow>
       construct @ '' count '' @ show_nat found @ '' exceeds the maximum of '' @ show_nat limit
   | UnsupportedFromItem construct \<Rightarrow> ''unsupported FROM item: '' @ construct
   | MissingFrom \<Rightarrow> ''SELECT statement must have a FROM clause''
   | CastNotAllowed construct \<Rightarrow> construct @ '' is not allowed in a detection rule''
   | OperatorNotAllowed operator position \<Rightarrow>
       ''operator `'' @ operator
       @ ''` is not allowed in a detection rule; use REGEXP, whose pattern is bounded (''
       @ SqlPosition_display position @ '')''
   | UnsupportedClause clause \<Rightarrow>
       ''the planner cannot lower '' @ clause
       @ '', so this rule is refused rather than silently matching a different set of rows'')"

datatype RegexConstruct = Backreference | Lookahead | Lookbehind

definition RegexConstruct_display :: "RegexConstruct \<Rightarrow> string" where
  "RegexConstruct_display c = (case c of
     Backreference \<Rightarrow> ''a backreference'' | Lookahead \<Rightarrow> ''lookahead'' | Lookbehind \<Rightarrow> ''lookbehind'')"

datatype RegexRejection =
    CompiledTooBig string nat
  | UnsupportedConstruct string RegexConstruct
  | InvalidSyntax string string

definition RegexRejection_display :: "RegexRejection \<Rightarrow> string" where
  "RegexRejection_display r = (case r of
     CompiledTooBig pattern limit \<Rightarrow>
       ''pattern `'' @ pattern @ ''` compiles to more than the '' @ show_nat limit @ ''-byte limit''
   | UnsupportedConstruct pattern construct \<Rightarrow>
       ''pattern `'' @ pattern @ ''` uses '' @ RegexConstruct_display construct
       @ '', which the detection regex engine cannot compile''
   | InvalidSyntax pattern message \<Rightarrow> ''pattern `'' @ pattern @ ''` is not valid: '' @ message)"

section \<open>Records\<close>

definition ACTOR :: string where
  "ACTOR = ''daemoneye-agent''"

definition MAX_REJECTION_RECORDS :: nat where
  "MAX_REJECTION_RECORDS = 1024"

datatype RegistrationGate =
  NoTokenPresented | TokenMismatch | UnknownCollector | MalformedRequest | AlreadyRegistered

definition RegistrationGate_display :: "RegistrationGate \<Rightarrow> string" where
  "RegistrationGate_display g = (case g of
     NoTokenPresented \<Rightarrow> ''no spawn token presented''
   | TokenMismatch \<Rightarrow> ''spawn token did not match''
   | UnknownCollector \<Rightarrow> ''no spawn token issued for this collector identity''
   | MalformedRequest \<Rightarrow> ''registration request failed field validation''
   | AlreadyRegistered \<Rightarrow> ''collector identity is already registered'')"

datatype RejectionReason =
    RuleSql string SqlRejection
  | RuleRegex string RegexRejection
  | RuleOther string string
  | Registration string RegistrationGate

definition reason_action :: "RejectionReason \<Rightarrow> string" where
  "reason_action r = (case r of
     RuleSql _ _ \<Rightarrow> ''rule-load.sql-rejected''
   | RuleRegex _ _ \<Rightarrow> ''rule-load.regex-rejected''
   | RuleOther _ _ \<Rightarrow> ''rule-load.rejected''
   | Registration _ _ \<Rightarrow> ''registration.rejected'')"

definition RejectionReason_display :: "RejectionReason \<Rightarrow> string" where
  "RejectionReason_display r = (case r of
     RuleSql rule_id rejection \<Rightarrow> ''rule `'' @ rule_id @ ''` rejected: '' @ SqlRejection_display rejection
   | RuleRegex rule_id rejection \<Rightarrow> ''rule `'' @ rule_id @ ''` rejected: '' @ RegexRejection_display rejection
   | RuleOther rule_id message \<Rightarrow> ''rule `'' @ rule_id @ ''` rejected: '' @ message
   | Registration collector_id gate \<Rightarrow>
       ''registration of collector `'' @ collector_id @ ''` rejected: '' @ RegistrationGate_display gate)"

record 'ts RejectionRecord =
  sequence :: u64
  timestamp :: 'ts
  reason :: RejectionReason
  payload_hash :: string
  previous_hash :: "string option"
  entry_hash :: string

definition hash_input :: "'ts ledger_env \<Rightarrow> 'ts RejectionRecord \<Rightarrow> string" where
  "hash_input env r =
     compute_entry_hash_input env (sequence r) (timestamp r) ACTOR (reason_action (reason r))
       (payload_hash r) (previous_hash r)"

section \<open>The log\<close>

record 'ts RejectionLog =
  records :: "'ts RejectionRecord list"
  next_sequence :: u64

definition RejectionLog_new :: "'ts RejectionLog" where
  "RejectionLog_new = \<lparr>records = [], next_sequence = 0\<rparr>"

definition last_hash :: "'ts RejectionRecord list \<Rightarrow> string option" where
  "last_hash rs = (if rs = [] then None else Some (entry_hash (last rs)))"

text \<open>\<open>while self.records.len() > MAX_REJECTION_RECORDS { self.records.pop_front(); }\<close>\<close>

fun evict :: "'ts RejectionRecord list \<Rightarrow> 'ts RejectionRecord list" where
  "evict rs = (if length rs > MAX_REJECTION_RECORDS then evict (tl rs) else rs)"

declare evict.simps [simp del]

definition record_rejection ::
    "'ts ledger_env \<Rightarrow> 'ts \<Rightarrow> RejectionReason \<Rightarrow> 'ts RejectionLog \<Rightarrow> 'ts RejectionRecord \<times> 'ts RejectionLog" where
  "record_rejection env now why l =
     (let sq = next_sequence l;
          prev = last_hash (records l);
          ph = Blake3_hash_string env (RejectionReason_display why);
          r0 = \<lparr>sequence = sq, timestamp = now, reason = why, payload_hash = ph, previous_hash = prev,
                entry_hash = []\<rparr>;
          r = r0\<lparr>entry_hash := Blake3_hash_string env (hash_input env r0)\<rparr> in
      (r, \<lparr>records = evict (records l @ [r]), next_sequence = sat_add sq 1\<rparr>))"

text \<open>The loop of \<open>verify_integrity\<close>, from a position on.\<close>

fun verify_records ::
    "'ts ledger_env \<Rightarrow> nat \<Rightarrow> string option \<Rightarrow> 'ts RejectionRecord list \<Rightarrow> (unit, CryptoError) result" where
  "verify_records env position expected_previous [] = Ok ()"
| "verify_records env position expected_previous (r # rs) =
     (if entry_hash r \<noteq> Blake3_hash_string env (hash_input env r)
      then Err (Hash (''rejection record '' @ show_nat (unat (sequence r)) @ '' hash mismatch''))
      else if \<not> (if position = 0 then (previous_hash r = None) = (sequence r = 0)
                 else previous_hash r = expected_previous)
      then Err (Hash (''rejection chain discontinuity at record '' @ show_nat (unat (sequence r))))
      else verify_records env (Suc position) (Some (entry_hash r)) rs)"

definition verify_rejections :: "'ts ledger_env \<Rightarrow> 'ts RejectionLog \<Rightarrow> (unit, CryptoError) result" where
  "verify_rejections env l = verify_records env 0 None (records l)"

section \<open>Eviction keeps the newest records\<close>

lemma evict_drop: "evict rs = drop (length rs - MAX_REJECTION_RECORDS) rs"
proof (induction rs rule: evict.induct)
  case (1 rs)
  show ?case
  proof (cases "length rs > MAX_REJECTION_RECORDS")
    case True
    then have "evict rs = drop (length (tl rs) - MAX_REJECTION_RECORDS) (tl rs)"
      using 1 by (simp add: evict.simps [of rs])
    also have "\<dots> = drop (length rs - MAX_REJECTION_RECORDS) rs"
      using True by (cases rs) (auto simp: Suc_diff_le less_Suc_eq_le)
    finally show ?thesis .
  qed (simp add: evict.simps [of rs])
qed

text \<open>The chain as the code keeps it, were nothing ever evicted.\<close>

definition chain_step ::
    "'ts ledger_env \<Rightarrow> 'ts RejectionRecord list \<times> u64 \<Rightarrow> 'ts \<times> RejectionReason \<Rightarrow>
     'ts RejectionRecord list \<times> u64" where
  "chain_step env = (\<lambda>(rs, sq) (now, why).
     let r0 = \<lparr>sequence = sq, timestamp = now, reason = why,
               payload_hash = Blake3_hash_string env (RejectionReason_display why),
               previous_hash = last_hash rs, entry_hash = []\<rparr>;
         r = r0\<lparr>entry_hash := Blake3_hash_string env (hash_input env r0)\<rparr>
     in (rs @ [r], sat_add sq 1))"

definition full_chain ::
    "'ts ledger_env \<Rightarrow> ('ts \<times> RejectionReason) list \<Rightarrow> 'ts RejectionRecord list \<times> u64" where
  "full_chain env ws = foldl (chain_step env) ([], 0) ws"

definition record_all ::
    "'ts ledger_env \<Rightarrow> ('ts \<times> RejectionReason) list \<Rightarrow> 'ts RejectionLog" where
  "record_all env ws = foldl (\<lambda>l (now, why). snd (record_rejection env now why l)) RejectionLog_new ws"

lemma record_all_snoc:
  "record_all env (ws @ [(now, why)]) = snd (record_rejection env now why (record_all env ws))"
  by (simp add: record_all_def)

lemma full_chain_snoc: "full_chain env (ws @ [w]) = chain_step env (full_chain env ws) w"
  by (simp add: full_chain_def)

lemma length_full_chain: "length (fst (full_chain env ws)) = length ws"
  by (induction ws rule: rev_induct)
    (auto simp: full_chain_snoc chain_step_def Let_def full_chain_def [of _ "[]"] split: prod.splits)

lemma last_hash_drop: "n < length rs \<or> rs = [] \<Longrightarrow> last_hash (drop n rs) = last_hash rs"
  by (auto simp: last_hash_def)

lemma evict_snoc:
  "evict (drop (length rs - MAX_REJECTION_RECORDS) rs @ [r]) =
     drop (length (rs @ [r]) - MAX_REJECTION_RECORDS) (rs @ [r])"
proof (cases "MAX_REJECTION_RECORDS \<le> length rs")
  case True
  then have "length (drop (length rs - MAX_REJECTION_RECORDS) rs @ [r]) - MAX_REJECTION_RECORDS = 1"
    by simp
  moreover have "length (rs @ [r]) - MAX_REJECTION_RECORDS = Suc (length rs - MAX_REJECTION_RECORDS)"
    using True by (simp add: Suc_diff_le)
  ultimately show ?thesis
    using True by (simp add: evict_drop)
qed (simp add: evict_drop)

lemma record_all_window:
  "records (record_all env ws) =
     drop (length ws - MAX_REJECTION_RECORDS) (fst (full_chain env ws))
   \<and> next_sequence (record_all env ws) = snd (full_chain env ws)"
proof (induction ws rule: rev_induct)
  case Nil
  show ?case by (simp add: record_all_def full_chain_def RejectionLog_new_def)
next
  case (snoc w ws)
  obtain now why where w: "w = (now, why)" by (cases w)
  obtain rs sq where full: "full_chain env ws = (rs, sq)" by (cases "full_chain env ws")
  have len: "length rs = length ws"
    using length_full_chain [of env ws] full by simp
  have lh: "last_hash (drop (length rs - MAX_REJECTION_RECORDS) rs) = last_hash rs"
    by (rule last_hash_drop) (auto simp: MAX_REJECTION_RECORDS_def)
  show ?case
    using snoc.IH
    by (simp add: w full len [symmetric] record_all_snoc record_rejection_def full_chain_snoc
        chain_step_def Let_def lh evict_snoc del: drop_append)
qed

section \<open>The log verifies what it recorded\<close>

definition well_recorded :: "'ts ledger_env \<Rightarrow> 'ts RejectionRecord list \<Rightarrow> nat \<Rightarrow> bool" where
  "well_recorded env rs i \<longleftrightarrow>
     unat (sequence (rs ! i)) = min i (2 ^ 64 - 1)
     \<and> previous_hash (rs ! i) = last_hash (take i rs)
     \<and> entry_hash (rs ! i) = Blake3_hash_string env (hash_input env (rs ! i))"

lemma well_recorded_append:
  "i < length rs \<Longrightarrow> well_recorded env (rs @ [r]) i = well_recorded env rs i"
  by (simp add: well_recorded_def nth_append)

lemma full_chain_recorded:
  "unat (snd (full_chain env ws)) = min (length ws) (2 ^ 64 - 1)
   \<and> (\<forall>i < length ws. well_recorded env (fst (full_chain env ws)) i)
   \<and> map (\<lambda>r. (timestamp r, reason r)) (fst (full_chain env ws)) = ws"
proof (induction ws rule: rev_induct)
  case Nil
  show ?case by (simp add: full_chain_def)
next
  case (snoc w ws)
  obtain now why where w: "w = (now, why)" by (cases w)
  obtain rs sq where full: "full_chain env ws = (rs, sq)" by (cases "full_chain env ws")
  have len: "length rs = length ws"
    using length_full_chain [of env ws] full by simp
  obtain r where step: "chain_step env (rs, sq) w = (rs @ [r], sat_add sq 1)"
    and r: "sequence r = sq" "timestamp r = now" "reason r = why" "previous_hash r = last_hash rs"
      "entry_hash r = Blake3_hash_string env (hash_input env r)"
    by (auto simp: w chain_step_def Let_def hash_input_def)
  have new: "well_recorded env (rs @ [r]) (length rs)"
    using snoc.IH r by (simp add: well_recorded_def full len [symmetric])
  have "unat (sat_add sq 1) = min (Suc (length ws)) (2 ^ 64 - 1)"
    using snoc.IH by (simp add: unat_sat_add full)
  moreover have "well_recorded env (rs @ [r]) i" if "i < Suc (length ws)" for i
    using that new snoc.IH by (cases "i = length rs") (simp_all add: well_recorded_append len full less_Suc_eq)
  ultimately show ?case
    using snoc.IH r step unfolding w by (simp add: full_chain_snoc full)
qed

lemma verify_recorded_suffix:
  assumes "\<forall>i < length rs. well_recorded env rs i" "n \<le> length rs"
    and "position = 0 \<or> expected = last_hash (take n rs)"
  shows "verify_records env position expected (drop n rs) = Ok ()"
  using assms(2,3)
proof (induction "length rs - n" arbitrary: n position expected)
  case (Suc m)
  then have n: "n < length rs" by simp
  let ?r = "rs ! n"
  have r: "unat (sequence ?r) = min n (2 ^ 64 - 1)" "previous_hash ?r = last_hash (take n rs)"
    "entry_hash ?r = Blake3_hash_string env (hash_input env ?r)"
    using assms(1) n by (auto simp: well_recorded_def)
  have zero: "sequence ?r = 0 \<longleftrightarrow> n = 0"
    using r(1) by (simp add: word_unat_eq_iff min_def split: if_splits)
  have none: "previous_hash ?r = None \<longleftrightarrow> n = 0"
    using n by (auto simp: r(2) last_hash_def)
  have "verify_records env (Suc position) (Some (entry_hash ?r)) (drop (Suc n) rs) = Ok ()"
    using Suc.hyps n by (intro Suc.hyps(1)) (auto simp: last_hash_def take_Suc_conv_app_nth)
  moreover have "drop n rs = ?r # drop (Suc n) rs"
    using n by (simp add: Cons_nth_drop_Suc)
  ultimately show ?case
    using Suc.prems(2) r(2,3) zero none by auto
qed simp

lemma sequence_numbers:
  assumes "\<forall>i < length rs. well_recorded env rs i"
  shows "map (\<lambda>r. unat (sequence r)) rs = map (\<lambda>i. min i (2 ^ 64 - 1)) [0..<length rs]"
  using assms by (intro nth_equalityI) (auto simp: well_recorded_def)

text \<open>
  Claim C24: whatever is refused and however often, the log holds exactly the newest 1024 refusals in
  the order they happened, numbered consecutively over the whole life of the log (up to the saturation of
  the 64-bit counter, so that the number of dropped records can be read off), and the integrity check
  accepts it: neither the eviction of the oldest records nor the saturation looks like a broken chain.
  Nothing is assumed of the hash function.
\<close>

theorem rejection_log_window:
  "let l = record_all env ws; n = length ws in
     map (\<lambda>r. (timestamp r, reason r)) (records l) = drop (n - 1024) ws
     \<and> map (\<lambda>r. unat (sequence r)) (records l) = map (\<lambda>i. min i (2 ^ 64 - 1)) [n - 1024..<n]
     \<and> verify_rejections env l = Ok ()"
proof -
  let ?rs = "fst (full_chain env ws)" and ?k = "length ws - MAX_REJECTION_RECORDS"
  have rs: "\<forall>i < length ?rs. well_recorded env ?rs i" "map (\<lambda>r. (timestamp r, reason r)) ?rs = ws"
    using full_chain_recorded [of env ws] by (simp_all add: length_full_chain)
  have window: "records (record_all env ws) = drop ?k ?rs"
    using record_all_window by blast
  have "map (\<lambda>r. (timestamp r, reason r)) (drop ?k ?rs) = drop ?k ws"
    by (simp only: drop_map [symmetric] rs(2))
  moreover have "map (\<lambda>r. unat (sequence r)) (drop ?k ?rs) = map (\<lambda>i. min i (2 ^ 64 - 1)) [?k..<length ws]"
    by (simp only: drop_map [symmetric] sequence_numbers [OF rs(1)] length_full_chain)
      (simp add: drop_map drop_upt)
  moreover have "verify_records env 0 None (drop ?k ?rs) = Ok ()"
    by (rule verify_recorded_suffix [OF rs(1)]) (simp_all add: length_full_chain)
  ultimately show ?thesis
    by (simp add: Let_def window verify_rejections_def MAX_REJECTION_RECORDS_def)
qed

text \<open>
  The payload hash is written but never recomputed: a record whose reason was replaced by another of the
  same kind passes the check.
\<close>

lemma verify_records_reason:
  "reason_action why = reason_action (reason r) \<Longrightarrow>
     verify_records env i prev (as @ r\<lparr>reason := why\<rparr> # bs) = verify_records env i prev (as @ r # bs)"
  by (induction as arbitrary: i prev) (simp_all add: hash_input_def)

lemma changed_reason_verifies:
  assumes "records l = as @ r # bs" "reason_action why = reason_action (reason r)"
  shows "verify_rejections env (l\<lparr>records := as @ r\<lparr>reason := why\<rparr> # bs\<rparr>) = verify_rejections env l"
  using verify_records_reason [OF assms(2)] by (simp add: verify_rejections_def assms(1))

end
