(* ===== verification/Schema_Catalog.thy ===== *)
theory Schema_Catalog
  imports Ordered_Table "HOL-Library.Char_ord" "HOL-Library.List_Lexorder"
begin

text \<open>
  The schema catalog of the detection library, \<^verbatim>\<open>daemoneye-lib/src/detection/catalog.rs\<close>, with the
  descriptor messages of \<^verbatim>\<open>daemoneye-lib/proto/common.proto\<close> and the bounds of
  \<^verbatim>\<open>daemoneye-lib/src/detection_bounds.rs\<close>: the verification of spawn tokens, the bounds a descriptor
  has to meet, who owns a table, and which operations may be pushed to a collector.

  Strings are the bytes of their UTF-8 form, ordered bytewise as Rust orders them. An \<open>i32\<close> that
  carries an enumeration value is an \<open>int\<close>.
\<close>

section \<open>Characters of a byte string\<close>

text \<open>The bytes \<open>0x80\<close> to \<open>0xBF\<close> continue a character; \<open>str::chars\<close> cuts before every other byte.\<close>

definition is_continuation :: "char \<Rightarrow> bool" where
  "is_continuation c \<longleftrightarrow> 128 \<le> (of_char c :: nat) \<and> (of_char c :: nat) < 192"

function utf8_chars :: "string \<Rightarrow> string list" where
  "utf8_chars [] = []"
| "utf8_chars (c # s) = (c # takeWhile is_continuation s) # utf8_chars (dropWhile is_continuation s)"
  by pat_completeness auto
termination
  by (relation "measure length") (auto simp: le_imp_less_Suc length_dropWhile_le)

lemma concat_utf8_chars: "concat (utf8_chars s) = s"
  by (induction s rule: utf8_chars.induct) auto

lemma length_utf8_chars: "length (utf8_chars s) \<le> length s"
proof (induction s rule: utf8_chars.induct)
  case (2 c s)
  then show ?case
    using length_dropWhile_le [of is_continuation s] by simp
qed simp

section \<open>Descriptors\<close>

datatype ColumnType = TyUnspecified | TyString | TyInt | TyUint | TyFloat | TyBool

datatype PredicateOp =
  OpUnspecified | OpEq | OpNe | OpLt | OpLe | OpGt | OpGe | OpIn | OpLike | OpRegexp

definition column_type_i32 :: "ColumnType \<Rightarrow> int" where
  "column_type_i32 t = (case t of
     TyUnspecified \<Rightarrow> 0 | TyString \<Rightarrow> 1 | TyInt \<Rightarrow> 2 | TyUint \<Rightarrow> 3 | TyFloat \<Rightarrow> 4 | TyBool \<Rightarrow> 5)"

definition column_type_try_from :: "int \<Rightarrow> ColumnType option" where
  "column_type_try_from i =
     (if i = 0 then Some TyUnspecified else if i = 1 then Some TyString else if i = 2 then Some TyInt
      else if i = 3 then Some TyUint else if i = 4 then Some TyFloat else if i = 5 then Some TyBool
      else None)"

definition op_i32 :: "PredicateOp \<Rightarrow> int" where
  "op_i32 p = (case p of OpUnspecified \<Rightarrow> 0 | OpEq \<Rightarrow> 1 | OpNe \<Rightarrow> 2 | OpLt \<Rightarrow> 3 | OpLe \<Rightarrow> 4 | OpGt \<Rightarrow> 5
     | OpGe \<Rightarrow> 6 | OpIn \<Rightarrow> 7 | OpLike \<Rightarrow> 8 | OpRegexp \<Rightarrow> 9)"

definition op_try_from :: "int \<Rightarrow> PredicateOp option" where
  "op_try_from i =
     (if i = 0 then Some OpUnspecified else if i = 1 then Some OpEq else if i = 2 then Some OpNe
      else if i = 3 then Some OpLt else if i = 4 then Some OpLe else if i = 5 then Some OpGt
      else if i = 6 then Some OpGe else if i = 7 then Some OpIn else if i = 8 then Some OpLike
      else if i = 9 then Some OpRegexp else None)"

lemma op_try_from_i32 [simp]: "op_try_from (op_i32 p) = Some p"
  by (cases p) (simp_all add: op_try_from_def op_i32_def)

lemma op_i32_inj [simp]: "op_i32 p = op_i32 q \<longleftrightarrow> p = q"
  by (metis op_try_from_i32 option.inject)

record ColumnDescriptor =
  col_name :: string
  column_type :: int
  nullable :: bool
  supported_ops :: "int list"

record TableDescriptor =
  tbl_name :: string
  columns :: "ColumnDescriptor list"

record ConformanceResult =
  res_table :: string
  res_column :: string
  res_op :: int
  passed :: bool

record SchemaDescriptor =
  collector_id :: string
  descriptor_version :: string
  tables :: "TableDescriptor list"
  conformance_results :: "ConformanceResult list"

text \<open>\<open>ConformanceResult::op\<close>, generated by \<open>prost\<close>: an unknown number reads as the default value.\<close>

definition result_op :: "ConformanceResult \<Rightarrow> PredicateOp" where
  "result_op r = (case op_try_from (res_op r) of None \<Rightarrow> OpUnspecified | Some p \<Rightarrow> p)"

definition MAX_TABLES_PER_DESCRIPTOR :: nat where "MAX_TABLES_PER_DESCRIPTOR = 32"
definition MAX_COLUMNS_PER_TABLE :: nat where "MAX_COLUMNS_PER_TABLE = 128"
definition MAX_OPERATIONS_PER_COLUMN :: nat where "MAX_OPERATIONS_PER_COLUMN = 16"
definition MAX_CONFORMANCE_RESULTS :: nat where
  "MAX_CONFORMANCE_RESULTS = MAX_TABLES_PER_DESCRIPTOR * MAX_COLUMNS_PER_TABLE * MAX_OPERATIONS_PER_COLUMN"
definition MAX_IDENTIFIER_LENGTH :: nat where "MAX_IDENTIFIER_LENGTH = 128"

section \<open>Spawn tokens\<close>

definition SPAWN_TOKEN_HEX_LEN :: nat where
  "SPAWN_TOKEN_HEX_LEN = 64"

datatype TokenRejection = NoTokenPresented | UnknownCollector | TokenMismatch

definition TokenRejection_display :: "TokenRejection \<Rightarrow> string" where
  "TokenRejection_display r = (case r of
     NoTokenPresented \<Rightarrow> ''no spawn token presented''
   | UnknownCollector \<Rightarrow> ''no spawn token issued for this collector identity''
   | TokenMismatch \<Rightarrow> ''spawn token did not match'')"

datatype VerifiedRegistration = VerifiedRegistration (verified_id: string)

definition verify_spawn_token ::
    "string \<Rightarrow> string option \<Rightarrow> string option \<Rightarrow> (VerifiedRegistration, TokenRejection) result" where
  "verify_spawn_token cid issued presented =
     (case presented of
        None \<Rightarrow> Err NoTokenPresented
      | Some presented_token \<Rightarrow>
        (case issued of
           None \<Rightarrow> Err UnknownCollector
         | Some issued_token \<Rightarrow>
             if length presented_token \<noteq> SPAWN_TOKEN_HEX_LEN \<or> length issued_token \<noteq> SPAWN_TOKEN_HEX_LEN
             then Err TokenMismatch
             else if presented_token = issued_token then Ok (VerifiedRegistration cid)
             else Err TokenMismatch))"

lemma verify_spawn_token_Ok:
  "verify_spawn_token cid issued presented = Ok v \<longleftrightarrow>
     (\<exists>t. issued = Some t \<and> presented = Some t \<and> length t = SPAWN_TOKEN_HEX_LEN \<and> v = VerifiedRegistration cid)"
  by (auto simp: verify_spawn_token_def split: option.splits)

section \<open>Errors and changes\<close>

datatype CatalogError =
    IdentityMismatch string string
  | TooManyTables nat
  | TooManyColumns string nat
  | TooManyOperations string string nat
  | IdentifierTooLong string nat
  | TooManyConformanceResults nat
  | DuplicateIdentifier string
  | TableOwnedByAnotherCollector string string
  | TableReservedForAnotherCollector string string

definition CatalogError_display :: "CatalogError \<Rightarrow> string" where
  "CatalogError_display e = (case e of
     IdentityMismatch verified claimed \<Rightarrow>
       ''descriptor claims collector `'' @ claimed @ ''` but the token authenticated `'' @ verified @ ''`''
   | TooManyTables found \<Rightarrow>
       ''descriptor names '' @ show_nat found @ '' tables, over the limit of ''
       @ show_nat MAX_TABLES_PER_DESCRIPTOR
   | TooManyColumns t found \<Rightarrow>
       ''table `'' @ t @ ''` declares '' @ show_nat found @ '' columns, over the limit of ''
       @ show_nat MAX_COLUMNS_PER_TABLE
   | TooManyOperations t c found \<Rightarrow>
       ''column `'' @ t @ ''.'' @ c @ ''` declares '' @ show_nat found
       @ '' operations, over the limit of '' @ show_nat MAX_OPERATIONS_PER_COLUMN
   | IdentifierTooLong identifier len \<Rightarrow>
       ''identifier `'' @ identifier @ ''` is '' @ show_nat len @ '' bytes, over the limit of ''
       @ show_nat MAX_IDENTIFIER_LENGTH
   | TooManyConformanceResults found \<Rightarrow>
       ''registration carries '' @ show_nat found @ '' conformance results, over the limit of ''
       @ show_nat MAX_CONFORMANCE_RESULTS
   | DuplicateIdentifier identifier \<Rightarrow> ''identifier `'' @ identifier @ ''` is declared twice''
   | TableOwnedByAnotherCollector t owner \<Rightarrow>
       ''table `'' @ t @ ''` is already owned by collector `'' @ owner @ ''`''
   | TableReservedForAnotherCollector t reserved_for \<Rightarrow>
       ''table `'' @ t @ ''` is reserved for collector `'' @ reserved_for @ ''`'')"

datatype UnknownReference = UnknownTable string | UnknownColumn string string

definition UnknownReference_display :: "UnknownReference \<Rightarrow> string" where
  "UnknownReference_display r = (case r of
     UnknownTable t \<Rightarrow> ''no registered collector serves table `'' @ t @ ''`''
   | UnknownColumn t c \<Rightarrow> ''table `'' @ t @ ''` declares no column `'' @ c @ ''`'')"

record CatalogChange =
  first_registration :: bool
  affected_tables :: "string set"
  removed_references :: "(string \<times> string) set"

definition change_is_empty :: "CatalogChange \<Rightarrow> bool" where
  "change_is_empty ch \<longleftrightarrow> \<not> first_registration ch \<and> affected_tables ch = {}"

section \<open>The catalog\<close>

definition PROCESS_COLLECTOR_ID :: string where "PROCESS_COLLECTOR_ID = ''procmond''"
definition PROCESS_TABLE_NAME :: string where "PROCESS_TABLE_NAME = ''processes''"

definition RESERVED_TABLES :: "(string \<times> string) list" where
  "RESERVED_TABLES = [(PROCESS_TABLE_NAME, PROCESS_COLLECTOR_ID)]"

definition reserved_owner_of :: "string \<Rightarrow> string option" where
  "reserved_owner_of t = map_option snd (List.find (\<lambda>entry. fst entry = t) RESERVED_TABLES)"

type_synonym ConformanceKey = "string \<times> string \<times> string \<times> int"

record SchemaCatalog =
  descriptors :: "(string, SchemaDescriptor) otable"
  owners :: "(string, string) otable"
  conformance :: "ConformanceKey set"

definition SchemaCatalog_new :: SchemaCatalog where
  "SchemaCatalog_new = \<lparr>descriptors = [], owners = [], conformance = {}\<rparr>"

definition catalog_is_empty :: "SchemaCatalog \<Rightarrow> bool" where
  "catalog_is_empty cat \<longleftrightarrow> descriptors cat = []"

subsection \<open>Bounds\<close>

definition check_identifier :: "string \<Rightarrow> (unit, CatalogError) result" where
  "check_identifier identifier =
     (if length identifier \<le> MAX_IDENTIFIER_LENGTH then Ok ()
      else Err (IdentifierTooLong (concat (take 32 (utf8_chars identifier))) (length identifier)))"

fun check_columns :: "string \<Rightarrow> string set \<Rightarrow> ColumnDescriptor list \<Rightarrow> (unit, CatalogError) result" where
  "check_columns t seen [] = Ok ()"
| "check_columns t seen (c # cs) =
     (case check_identifier (col_name c) of
        Err e \<Rightarrow> Err e
      | Ok _ \<Rightarrow>
          if col_name c \<in> seen then Err (DuplicateIdentifier (col_name c))
          else if length (supported_ops c) > MAX_OPERATIONS_PER_COLUMN
          then Err (TooManyOperations t (col_name c) (length (supported_ops c)))
          else check_columns t (insert (col_name c) seen) cs)"

definition check_table :: "TableDescriptor \<Rightarrow> (unit, CatalogError) result" where
  "check_table t =
     (if length (columns t) > MAX_COLUMNS_PER_TABLE
      then Err (TooManyColumns (tbl_name t) (length (columns t)))
      else check_columns (tbl_name t) {} (columns t))"

fun check_tables :: "string set \<Rightarrow> TableDescriptor list \<Rightarrow> (unit, CatalogError) result" where
  "check_tables seen [] = Ok ()"
| "check_tables seen (t # ts) =
     (case check_identifier (tbl_name t) of
        Err e \<Rightarrow> Err e
      | Ok _ \<Rightarrow>
          if tbl_name t \<in> seen then Err (DuplicateIdentifier (tbl_name t))
          else (case check_table t of
                  Err e \<Rightarrow> Err e
                | Ok _ \<Rightarrow> check_tables (insert (tbl_name t) seen) ts))"

definition validate_descriptor :: "SchemaDescriptor \<Rightarrow> (unit, CatalogError) result" where
  "validate_descriptor d =
     (case check_identifier (collector_id d) of
        Err e \<Rightarrow> Err e
      | Ok _ \<Rightarrow>
        (case check_identifier (descriptor_version d) of
           Err e \<Rightarrow> Err e
         | Ok _ \<Rightarrow>
             if length (conformance_results d) > MAX_CONFORMANCE_RESULTS
             then Err (TooManyConformanceResults (length (conformance_results d)))
             else if length (tables d) > MAX_TABLES_PER_DESCRIPTOR
             then Err (TooManyTables (length (tables d)))
             else check_tables {} (tables d)))"

subsection \<open>Ownership and lookup\<close>

fun check_ownership ::
    "SchemaCatalog \<Rightarrow> string \<Rightarrow> TableDescriptor list \<Rightarrow> (unit, CatalogError) result" where
  "check_ownership cat cid [] = Ok ()"
| "check_ownership cat cid (t # ts) =
     (case reserved_owner_of (tbl_name t) of
        Some reserved_for \<Rightarrow>
          if reserved_for \<noteq> cid then Err (TableReservedForAnotherCollector (tbl_name t) reserved_for)
          else check_ownership cat cid ts
      | None \<Rightarrow>
        (case ot_get (owners cat) (tbl_name t) of
           Some owner \<Rightarrow>
             if owner \<noteq> cid then Err (TableOwnedByAnotherCollector (tbl_name t) owner)
             else check_ownership cat cid ts
         | None \<Rightarrow> check_ownership cat cid ts))"

definition check_table_ownership ::
    "SchemaCatalog \<Rightarrow> string \<Rightarrow> SchemaDescriptor \<Rightarrow> (unit, CatalogError) result" where
  "check_table_ownership cat cid d = check_ownership cat cid (tables d)"

definition find_table :: "SchemaDescriptor \<Rightarrow> string \<Rightarrow> TableDescriptor option" where
  "find_table d t = List.find (\<lambda>candidate. tbl_name candidate = t) (tables d)"

definition find_column :: "TableDescriptor \<Rightarrow> string \<Rightarrow> ColumnDescriptor option" where
  "find_column t c = List.find (\<lambda>candidate. col_name candidate = c) (columns t)"

definition cat_table :: "SchemaCatalog \<Rightarrow> string \<Rightarrow> TableDescriptor option" where
  "cat_table cat t =
     (case ot_get (owners cat) t of
        None \<Rightarrow> None
      | Some owner \<Rightarrow>
        (case ot_get (descriptors cat) owner of None \<Rightarrow> None | Some d \<Rightarrow> find_table d t))"

definition cat_column :: "SchemaCatalog \<Rightarrow> string \<Rightarrow> string \<Rightarrow> ColumnDescriptor option" where
  "cat_column cat t c = (case cat_table cat t of None \<Rightarrow> None | Some td \<Rightarrow> find_column td c)"

definition owner_of :: "SchemaCatalog \<Rightarrow> string \<Rightarrow> string option" where
  "owner_of cat t = ot_get (owners cat) t"

definition resolve_reference ::
    "SchemaCatalog \<Rightarrow> string \<Rightarrow> string \<Rightarrow> (ColumnDescriptor, UnknownReference) result" where
  "resolve_reference cat t c =
     (case cat_table cat t of
        None \<Rightarrow> Err (UnknownTable t)
      | Some td \<Rightarrow> (case find_column td c of None \<Rightarrow> Err (UnknownColumn t c) | Some cd \<Rightarrow> Ok cd))"

definition is_advertised :: "SchemaCatalog \<Rightarrow> string \<Rightarrow> string \<Rightarrow> PredicateOp \<Rightarrow> bool" where
  "is_advertised cat t c p =
     (case cat_column cat t c of None \<Rightarrow> False | Some cd \<Rightarrow> op_i32 p \<in> set (supported_ops cd))"

definition is_conformance_passed :: "SchemaCatalog \<Rightarrow> string \<Rightarrow> string \<Rightarrow> PredicateOp \<Rightarrow> bool" where
  "is_conformance_passed cat t c p =
     (case ot_get (owners cat) t of
        None \<Rightarrow> False | Some owner \<Rightarrow> (owner, t, c, op_i32 p) \<in> conformance cat)"

definition is_pushable :: "SchemaCatalog \<Rightarrow> string \<Rightarrow> string \<Rightarrow> PredicateOp \<Rightarrow> bool" where
  "is_pushable cat t c p \<longleftrightarrow> is_advertised cat t c p \<and> is_conformance_passed cat t c p"

subsection \<open>Registration\<close>

definition record_conformance_pass ::
    "string \<Rightarrow> string \<Rightarrow> string \<Rightarrow> PredicateOp \<Rightarrow> SchemaCatalog \<Rightarrow> SchemaCatalog" where
  "record_conformance_pass cid t c p cat =
     cat\<lparr>conformance := insert (cid, t, c, op_i32 p) (conformance cat)\<rparr>"

definition record_carried_result :: "string \<Rightarrow> SchemaCatalog \<Rightarrow> ConformanceResult \<Rightarrow> SchemaCatalog" where
  "record_carried_result cid cat r =
     (if \<not> passed r then cat
      else if \<not> is_advertised cat (res_table r) (res_column r) (result_op r) then cat
      else if ot_get (owners cat) (res_table r) \<noteq> Some cid then cat
      else record_conformance_pass cid (res_table r) (res_column r) (result_op r) cat)"

definition record_carried_results :: "string \<Rightarrow> ConformanceResult list \<Rightarrow> SchemaCatalog \<Rightarrow> SchemaCatalog" where
  "record_carried_results cid results cat = foldl (record_carried_result cid) cat results"

definition reference_set :: "SchemaDescriptor \<Rightarrow> (string \<times> string) set" where
  "reference_set d = set (concat (map (\<lambda>t. map (\<lambda>c. (tbl_name t, col_name c)) (columns t)) (tables d)))"

definition diff :: "SchemaCatalog \<Rightarrow> string \<Rightarrow> SchemaDescriptor \<Rightarrow> CatalogChange" where
  "diff cat cid d =
     (case ot_get (descriptors cat) cid of
        None \<Rightarrow> \<lparr>first_registration = True, affected_tables = set (map tbl_name (tables d)),
                 removed_references = {}\<rparr>
      | Some previous \<Rightarrow>
          let before = reference_set previous; after = reference_set d in
          \<lparr>first_registration = False, affected_tables = fst ` ((before - after) \<union> (after - before)),
           removed_references = before - after\<rparr>)"

definition take_ownership :: "string \<Rightarrow> TableDescriptor list \<Rightarrow> (string, string) otable \<Rightarrow> (string, string) otable" where
  "take_ownership cid ts os =
     foldl (\<lambda>m t. ot_insert (tbl_name t) cid m) (filter (\<lambda>(_, owner). owner \<noteq> cid) os) ts"

definition register ::
    "VerifiedRegistration \<Rightarrow> SchemaDescriptor \<Rightarrow> SchemaCatalog \<Rightarrow>
     (CatalogChange, CatalogError) result \<times> SchemaCatalog" where
  "register verified d cat =
     (let cid = verified_id verified in
      if collector_id d \<noteq> cid then (Err (IdentityMismatch cid (collector_id d)), cat)
      else (case validate_descriptor d of
        Err e \<Rightarrow> (Err e, cat)
      | Ok _ \<Rightarrow>
        (case check_table_ownership cat cid d of
           Err e \<Rightarrow> (Err e, cat)
         | Ok _ \<Rightarrow>
           let results = conformance_results d;
               stored = d\<lparr>conformance_results := []\<rparr>;
               change = diff cat cid stored;
               version_changed = (case ot_get (descriptors cat) cid of
                 None \<Rightarrow> True | Some previous \<Rightarrow> descriptor_version previous \<noteq> descriptor_version stored);
               cat1 = cat\<lparr>owners := take_ownership cid (tables stored) (owners cat)\<rparr>;
               cat2 = cat1\<lparr>descriptors := ot_insert cid stored (descriptors cat)\<rparr>;
               cat3 = (if version_changed \<or> \<not> change_is_empty change
                       then cat2\<lparr>conformance := {entry \<in> conformance cat2. fst entry \<noteq> cid}\<rparr> else cat2)
           in (Ok change, record_carried_results cid results cat3))))"

section \<open>What the checks accept\<close>

definition table_names :: "SchemaDescriptor \<Rightarrow> string set" where
  "table_names d = set (map tbl_name (tables d))"

definition column_within_bounds :: "ColumnDescriptor \<Rightarrow> bool" where
  "column_within_bounds c \<longleftrightarrow>
     length (col_name c) \<le> MAX_IDENTIFIER_LENGTH \<and> length (supported_ops c) \<le> MAX_OPERATIONS_PER_COLUMN"

definition table_within_bounds :: "TableDescriptor \<Rightarrow> bool" where
  "table_within_bounds t \<longleftrightarrow>
     length (tbl_name t) \<le> MAX_IDENTIFIER_LENGTH \<and> length (columns t) \<le> MAX_COLUMNS_PER_TABLE
     \<and> distinct (map col_name (columns t)) \<and> list_all column_within_bounds (columns t)"

definition within_bounds :: "SchemaDescriptor \<Rightarrow> bool" where
  "within_bounds d \<longleftrightarrow>
     length (collector_id d) \<le> MAX_IDENTIFIER_LENGTH \<and> length (descriptor_version d) \<le> MAX_IDENTIFIER_LENGTH
     \<and> length (conformance_results d) \<le> MAX_CONFORMANCE_RESULTS
     \<and> length (tables d) \<le> MAX_TABLES_PER_DESCRIPTOR
     \<and> distinct (map tbl_name (tables d)) \<and> list_all table_within_bounds (tables d)"

lemma check_identifier_Ok: "check_identifier s = Ok u \<longleftrightarrow> length s \<le> MAX_IDENTIFIER_LENGTH"
  by (simp add: check_identifier_def)

lemma check_columns_Ok:
  "check_columns t seen cs = Ok u \<longleftrightarrow>
     list_all column_within_bounds cs \<and> distinct (map col_name cs) \<and> set (map col_name cs) \<inter> seen = {}"
  by (induction t seen cs rule: check_columns.induct)
    (auto simp: check_identifier_def column_within_bounds_def split: sum.splits)

lemma check_table_Ok:
  "check_table t = Ok u \<and> length (tbl_name t) \<le> MAX_IDENTIFIER_LENGTH \<longleftrightarrow> table_within_bounds t"
  by (auto simp: check_table_def check_columns_Ok table_within_bounds_def)

lemma check_tables_Ok:
  "check_tables seen ts = Ok u \<longleftrightarrow>
     list_all table_within_bounds ts \<and> distinct (map tbl_name ts) \<and> set (map tbl_name ts) \<inter> seen = {}"
proof (induction seen ts rule: check_tables.induct)
  case (2 seen t ts)
  show ?case
    using 2 check_table_Ok [of t u] by (auto simp: check_identifier_def split: sum.splits)
qed simp

lemma validate_descriptor_Ok: "validate_descriptor d = Ok u \<longleftrightarrow> within_bounds d"
  by (auto simp: validate_descriptor_def within_bounds_def check_identifier_def check_tables_Ok
      split: sum.splits)

definition may_own :: "SchemaCatalog \<Rightarrow> string \<Rightarrow> string \<Rightarrow> bool" where
  "may_own cat cid t \<longleftrightarrow>
     (case reserved_owner_of t of
        Some r \<Rightarrow> r = cid | None \<Rightarrow> owner_of cat t = None \<or> owner_of cat t = Some cid)"

lemma check_ownership_Ok: "check_ownership cat cid ts = Ok u \<longleftrightarrow> (\<forall>t \<in> set ts. may_own cat cid (tbl_name t))"
  by (induction cat cid ts rule: check_ownership.induct)
    (auto simp: may_own_def owner_of_def split: option.splits)

definition acceptable :: "VerifiedRegistration \<Rightarrow> SchemaDescriptor \<Rightarrow> SchemaCatalog \<Rightarrow> bool" where
  "acceptable v d cat \<longleftrightarrow>
     collector_id d = verified_id v \<and> within_bounds d \<and> (\<forall>t \<in> table_names d. may_own cat (verified_id v) t)"

lemma is_ok_register: "is_ok (fst (register v d cat)) \<longleftrightarrow> acceptable v d cat"
  using validate_descriptor_Ok [of d] check_ownership_Ok [of cat "verified_id v" "tables d"]
  by (auto simp: register_def Let_def acceptable_def table_names_def check_table_ownership_def
      is_ok_def split: sum.splits)

lemma register_refused: "\<not> acceptable v d cat \<Longrightarrow> snd (register v d cat) = cat"
  unfolding is_ok_register [symmetric]
  by (auto simp: register_def Let_def split: sum.splits)

section \<open>What a registration stores\<close>

lemma ot_get_filter_owner:
  assumes "ot_wf os"
  shows "ot_get (filter (\<lambda>(_, owner). owner \<noteq> cid) os) t =
     (if ot_get os t = Some cid then None else ot_get os t)" (is "ot_get ?kept t = _")
proof -
  have "ot_get ?kept t = Some x \<longleftrightarrow> ot_get os t = Some x \<and> x \<noteq> cid" for x
    using assms by (auto simp: ot_get_iff ot_wf_filter)
  then show ?thesis
    by (metis not_None_eq)
qed

lemma take_ownership_get:
  assumes "ot_wf os"
  shows "ot_get (take_ownership cid ts os) t =
    (if t \<in> set (map tbl_name ts) then Some cid
     else if ot_get os t = Some cid then None else ot_get os t)"
proof -
  have "ot_get (foldl (\<lambda>m t. ot_insert (tbl_name t) cid m) m ts) t =
     (if t \<in> set (map tbl_name ts) then Some cid else ot_get m t)" for m
    by (induction ts arbitrary: m) auto
  then show ?thesis
    using assms by (simp add: take_ownership_def ot_get_filter_owner)
qed

lemma ot_wf_take_ownership: "ot_wf os \<Longrightarrow> ot_wf (take_ownership cid ts os)"
proof -
  assume "ot_wf os"
  moreover have "ot_wf m \<Longrightarrow> ot_wf (foldl (\<lambda>m t. ot_insert (tbl_name t) cid m) m ts)" for m
    by (induction ts arbitrary: m) auto
  ultimately show ?thesis
    by (simp add: take_ownership_def ot_wf_filter)
qed

text \<open>Recording passes changes only the set of passes.\<close>

definition carried_passes :: "SchemaCatalog \<Rightarrow> string \<Rightarrow> ConformanceResult list \<Rightarrow> ConformanceKey set" where
  "carried_passes cat cid results =
     {(cid, res_table r, res_column r, op_i32 (result_op r)) | r.
        r \<in> set results \<and> passed r \<and> is_advertised cat (res_table r) (res_column r) (result_op r)
        \<and> ot_get (owners cat) (res_table r) = Some cid}"

lemma is_advertised_conformance [simp]:
  "is_advertised (cat\<lparr>conformance := x\<rparr>) t c p = is_advertised cat t c p"
  by (simp add: is_advertised_def cat_column_def cat_table_def cong: option.case_cong)

lemma record_carried_results:
  "record_carried_results cid results cat =
     cat\<lparr>conformance := conformance cat \<union> carried_passes cat cid results\<rparr>"
proof (induction results arbitrary: cat)
  case Nil
  show ?case by (simp add: record_carried_results_def carried_passes_def)
next
  case (Cons r rs)
  let ?one = "record_carried_result cid cat r"
  have one: "?one = cat\<lparr>conformance := conformance cat \<union> carried_passes cat cid [r]\<rparr>"
    by (auto simp: record_carried_result_def record_conformance_pass_def carried_passes_def)
  have "carried_passes ?one cid rs = carried_passes cat cid rs"
    by (simp add: one carried_passes_def)
  moreover have "carried_passes cat cid (r # rs) = carried_passes cat cid [r] \<union> carried_passes cat cid rs"
    by (auto simp: carried_passes_def)
  ultimately show ?case
    using Cons [of ?one] by (simp add: record_carried_results_def one Un_assoc)
qed

definition keeps_passes :: "SchemaCatalog \<Rightarrow> string \<Rightarrow> SchemaDescriptor \<Rightarrow> bool" where
  "keeps_passes cat cid d \<longleftrightarrow>
     (\<exists>previous. ot_get (descriptors cat) cid = Some previous
        \<and> descriptor_version previous = descriptor_version d \<and> reference_set previous = reference_set d)"

lemma diff_is_empty:
  "change_is_empty (diff cat cid d) \<longleftrightarrow>
     (\<exists>previous. ot_get (descriptors cat) cid = Some previous \<and> reference_set previous = reference_set d)"
  by (auto simp: change_is_empty_def diff_def Let_def split: option.splits)

lemma reference_set_results [simp]: "reference_set (d\<lparr>conformance_results := x\<rparr>) = reference_set d"
  by (simp add: reference_set_def)

lemma register_accepted:
  assumes "acceptable v d cat"
  defines "cid \<equiv> verified_id v" and "stored \<equiv> d\<lparr>conformance_results := []\<rparr>"
  shows "fst (register v d cat) = Ok (diff cat cid stored)"
    and "descriptors (snd (register v d cat)) = ot_insert cid stored (descriptors cat)"
    and "owners (snd (register v d cat)) = take_ownership cid (tables d) (owners cat)"
    and "conformance (snd (register v d cat)) =
      {entry \<in> conformance cat. fst entry \<noteq> cid \<or> keeps_passes cat cid d}
      \<union> carried_passes (snd (register v d cat)) cid (conformance_results d)"
proof -
  let ?cat2 = "cat\<lparr>owners := take_ownership cid (tables d) (owners cat),
    descriptors := ot_insert cid stored (descriptors cat)\<rparr>"
  let ?kept = "{entry \<in> conformance cat. fst entry \<noteq> cid \<or> keeps_passes cat cid d}"
  let ?cat3 = "?cat2\<lparr>conformance := ?kept\<rparr>"
  have checks: "collector_id d = cid" "validate_descriptor d = Ok ()" "check_table_ownership cat cid d = Ok ()"
    using assms by (auto simp: acceptable_def validate_descriptor_Ok check_table_ownership_def
        check_ownership_Ok table_names_def)
  have evicts: "((case ot_get (descriptors cat) cid of
         None \<Rightarrow> True | Some previous \<Rightarrow> descriptor_version previous \<noteq> descriptor_version stored)
       \<or> \<not> change_is_empty (diff cat cid stored)) \<longleftrightarrow> \<not> keeps_passes cat cid d"
    by (auto simp: keeps_passes_def diff_is_empty stored_def split: option.splits)
  have reg: "register v d cat =
    (Ok (diff cat cid stored), record_carried_results cid (conformance_results d) ?cat3)"
  proof (cases "keeps_passes cat cid d")
    case True
    then have "?cat3 = ?cat2" by simp
    with True evicts checks show ?thesis
      unfolding register_def Let_def cid_def [symmetric] stored_def [symmetric]
      by (simp add: stored_def)
  next
    case False
    then have "?kept = {entry \<in> conformance ?cat2. fst entry \<noteq> cid}" by auto
    with False evicts checks show ?thesis
      unfolding register_def Let_def cid_def [symmetric] stored_def [symmetric]
      by (simp add: stored_def)
  qed
  have passes: "carried_passes (?cat2\<lparr>conformance := x\<rparr>) cid rs = carried_passes ?cat2 cid rs" for x rs
    by (simp add: carried_passes_def)
  show "fst (register v d cat) = Ok (diff cat cid stored)"
    "descriptors (snd (register v d cat)) = ot_insert cid stored (descriptors cat)"
    "owners (snd (register v d cat)) = take_ownership cid (tables d) (owners cat)"
    by (simp_all add: reg record_carried_results)
  show "conformance (snd (register v d cat)) =
      ?kept \<union> carried_passes (snd (register v d cat)) cid (conformance_results d)"
    using passes by (simp add: reg record_carried_results)
qed

section \<open>The invariant of the catalog\<close>

definition catalog_inv :: "SchemaCatalog \<Rightarrow> bool" where
  "catalog_inv cat \<longleftrightarrow>
     ot_wf (descriptors cat) \<and> ot_wf (owners cat)
     \<and> (\<forall>cid d. ot_get (descriptors cat) cid = Some d \<longrightarrow>
          collector_id d = cid \<and> within_bounds d \<and> conformance_results d = []
          \<and> (\<forall>t \<in> table_names d. reserved_owner_of t = None \<or> reserved_owner_of t = Some cid))
     \<and> (\<forall>t cid. owner_of cat t = Some cid \<longleftrightarrow>
          (\<exists>d. ot_get (descriptors cat) cid = Some d \<and> t \<in> table_names d))"

lemma catalog_invD:
  assumes "catalog_inv cat"
  shows "ot_wf (descriptors cat)" "ot_wf (owners cat)"
    and "ot_get (descriptors cat) cid = Some d \<Longrightarrow> collector_id d = cid"
    and "ot_get (descriptors cat) cid = Some d \<Longrightarrow> within_bounds d"
    and "ot_get (descriptors cat) cid = Some d \<Longrightarrow> conformance_results d = []"
    and "ot_get (descriptors cat) cid = Some d \<Longrightarrow> t \<in> table_names d \<Longrightarrow>
      reserved_owner_of t = None \<or> reserved_owner_of t = Some cid"
    and "owner_of cat t = Some cid \<longleftrightarrow> (\<exists>d. ot_get (descriptors cat) cid = Some d \<and> t \<in> table_names d)"
  using assms unfolding catalog_inv_def by blast+

lemma catalog_inv_new: "catalog_inv SchemaCatalog_new"
  by (simp add: catalog_inv_def SchemaCatalog_new_def owner_of_def)

lemma reserved_owner:
  assumes "catalog_inv cat" "owner_of cat t = Some cid" "reserved_owner_of t = Some r"
  shows "cid = r"
  using assms catalog_invD(6,7) [OF assms(1)] by (metis option.distinct(1) option.inject)

text \<open>No declared table of an acceptable descriptor is another collector's.\<close>

lemma may_own_not_taken:
  assumes "catalog_inv cat" "may_own cat cid t" "owner_of cat t = Some other"
  shows "other = cid"
  using assms(2,3) reserved_owner [OF assms(1,3)] by (auto simp: may_own_def split: option.splits)

lemma owner_of_register:
  assumes "catalog_inv cat" "acceptable v d cat"
  shows "owner_of (snd (register v d cat)) t =
    (if t \<in> table_names d then Some (verified_id v)
     else if owner_of cat t = Some (verified_id v) then None else owner_of cat t)"
  using catalog_invD(2) [OF assms(1)]
  by (simp add: owner_of_def register_accepted(3) [OF assms(2)] take_ownership_get table_names_def)

lemma within_bounds_stored: "within_bounds d \<Longrightarrow> within_bounds (d\<lparr>conformance_results := []\<rparr>)"
  by (simp add: within_bounds_def)

lemma table_names_results [simp]: "table_names (d\<lparr>conformance_results := x\<rparr>) = table_names d"
  by (simp add: table_names_def)

lemma register_inv:
  assumes inv: "catalog_inv cat"
  shows "catalog_inv (snd (register v d cat))"
proof (cases "acceptable v d cat")
  case False
  with inv show ?thesis by (simp add: register_refused)
next
  case True
  let ?cat' = "snd (register v d cat)" and ?cid = "verified_id v"
  note acc = register_accepted(2,3) [OF True] and I = catalog_invD [OF inv]
  have names: "may_own cat ?cid t" if "t \<in> table_names d" for t
    using True that by (simp add: acceptable_def)
  have reserved: "reserved_owner_of t = None \<or> reserved_owner_of t = Some ?cid" if "t \<in> table_names d" for t
    using names [OF that] by (auto simp: may_own_def split: option.splits)
  have owner: "owner_of ?cat' t = Some cid \<longleftrightarrow>
      (\<exists>e. ot_get (descriptors ?cat') cid = Some e \<and> t \<in> table_names e)" for t cid
  proof (cases "cid = ?cid")
    case True': True
    show ?thesis
      by (simp add: owner_of_register [OF inv True] acc(1) True')
  next
    case False
    then have "(\<exists>e. ot_get (descriptors ?cat') cid = Some e \<and> t \<in> table_names e) \<longleftrightarrow>
        owner_of cat t = Some cid"
      by (simp add: acc(1) I(7))
    moreover have "owner_of cat t \<noteq> Some cid" if "t \<in> table_names d"
      using may_own_not_taken [OF inv names [OF that]] False by auto
    ultimately show ?thesis
      using False by (auto simp: owner_of_register [OF inv True])
  qed
  have entry: "collector_id e = cid \<and> within_bounds e \<and> conformance_results e = []
      \<and> (\<forall>t \<in> table_names e. reserved_owner_of t = None \<or> reserved_owner_of t = Some cid)"
    if "ot_get (descriptors ?cat') cid = Some e" for cid e
  proof (cases "cid = ?cid")
    case True': True
    then have "e = d\<lparr>conformance_results := []\<rparr>"
      using that by (simp add: acc(1))
    with True True' reserved show ?thesis
      by (simp add: acceptable_def within_bounds_stored)
  next
    case False
    with that I(3-6) show ?thesis
      by (simp add: acc(1))
  qed
  have "ot_wf (descriptors ?cat')" "ot_wf (owners ?cat')"
    using I(1,2) by (simp_all add: acc ot_wf_take_ownership)
  with owner entry show ?thesis
    unfolding catalog_inv_def by blast
qed

text \<open>The catalog after a sequence of registrations, accepted or not.\<close>

definition catalog_of :: "(VerifiedRegistration \<times> SchemaDescriptor) list \<Rightarrow> SchemaCatalog" where
  "catalog_of regs = foldl (\<lambda>cat (v, d). snd (register v d cat)) SchemaCatalog_new regs"

lemma catalog_of_snoc: "catalog_of (regs @ [(v, d)]) = snd (register v d (catalog_of regs))"
  by (simp add: catalog_of_def)

lemma catalog_inv_catalog_of: "catalog_inv (catalog_of regs)"
proof (induction regs rule: rev_induct)
  case Nil
  show ?case by (simp add: catalog_of_def catalog_inv_new)
next
  case (snoc r regs)
  then show ?case by (cases r) (simp add: catalog_of_snoc register_inv)
qed

text \<open>
  Claim C20: after any sequence of registrations, the table of owners says exactly which collector's
  current descriptor declares a table, so that no table is served by two collectors and none is orphaned;
  every stored descriptor is filed under the identity it names and meets every bound; and the process table
  belongs to nobody but the process monitor, whichever collector registered first.
\<close>

theorem catalog_ownership:
  "let cat = catalog_of regs in
     (owner_of cat t = Some cid \<longleftrightarrow>
        (\<exists>d. ot_get (descriptors cat) cid = Some d \<and> t \<in> set (map tbl_name (tables d))))
     \<and> list_all (\<lambda>(c, d). collector_id d = c \<and> within_bounds d) (descriptors cat)
     \<and> owner_of cat ''processes'' \<in> {None, Some ''procmond''}"
proof -
  let ?cat = "catalog_of regs"
  note inv = catalog_inv_catalog_of [of regs] and I = catalog_invD [OF catalog_inv_catalog_of [of regs]]
  have "collector_id d = c \<and> within_bounds d" if "(c, d) \<in> set (descriptors ?cat)" for c d
    using that I(3,4) [of c d] by (simp add: ot_get_iff [OF I(1)])
  then have "list_all (\<lambda>(c, d). collector_id d = c \<and> within_bounds d) (descriptors ?cat)"
    by (auto simp: list_all_iff)
  moreover have "reserved_owner_of ''processes'' = Some ''procmond''"
    by (simp add: reserved_owner_of_def RESERVED_TABLES_def PROCESS_TABLE_NAME_def PROCESS_COLLECTOR_ID_def)
  then have "owner_of ?cat ''processes'' \<in> {None, Some ''procmond''}"
    using reserved_owner [OF inv, of "''processes''"] by (cases "owner_of ?cat ''processes''") auto
  ultimately show ?thesis
    by (simp add: Let_def I(7) table_names_def)
qed

section \<open>Registration as a change of one entry\<close>

text \<open>What the catalog promises, as a map from collectors to descriptors: no tables of owners, no passes.\<close>

type_synonym advertised = "string \<rightharpoonup> SchemaDescriptor"

definition view :: "SchemaCatalog \<Rightarrow> advertised" where
  "view cat cid = ot_get (descriptors cat) cid"

definition served_by :: "advertised \<Rightarrow> string \<Rightarrow> string \<Rightarrow> bool" where
  "served_by m t cid \<longleftrightarrow> (case m cid of None \<Rightarrow> False | Some d \<Rightarrow> t \<in> table_names d)"

definition entitled :: "advertised \<Rightarrow> string \<Rightarrow> string \<Rightarrow> bool" where
  "entitled m cid t \<longleftrightarrow>
     (if t = PROCESS_TABLE_NAME then cid = PROCESS_COLLECTOR_ID
      else \<not> (\<exists>other. other \<noteq> cid \<and> served_by m t other))"

definition spec_register :: "VerifiedRegistration \<Rightarrow> SchemaDescriptor \<Rightarrow> advertised \<Rightarrow> advertised" where
  "spec_register v d m =
     (if collector_id d = verified_id v \<and> within_bounds d
         \<and> list_all (\<lambda>t. entitled m (verified_id v) (tbl_name t)) (tables d)
      then m(verified_id v \<mapsto> d\<lparr>conformance_results := []\<rparr>) else m)"

lemma served_by_view: "catalog_inv cat \<Longrightarrow> served_by (view cat) t cid \<longleftrightarrow> owner_of cat t = Some cid"
  by (auto simp: served_by_def view_def catalog_invD(7) split: option.splits)

lemma reserved_owner_of_alt:
  "reserved_owner_of t = (if t = PROCESS_TABLE_NAME then Some PROCESS_COLLECTOR_ID else None)"
  by (simp add: reserved_owner_of_def RESERVED_TABLES_def)

lemma may_own_entitled:
  assumes "catalog_inv cat"
  shows "may_own cat cid t \<longleftrightarrow> entitled (view cat) cid t"
proof (cases "owner_of cat t")
  case None
  then show ?thesis
    by (auto simp: may_own_def entitled_def served_by_view [OF assms] reserved_owner_of_alt)
next
  case (Some other)
  then show ?thesis
    by (auto simp: may_own_def entitled_def served_by_view [OF assms] reserved_owner_of_alt)
qed

lemma acceptable_entitled:
  "catalog_inv cat \<Longrightarrow> acceptable v d cat \<longleftrightarrow>
     collector_id d = verified_id v \<and> within_bounds d
     \<and> list_all (\<lambda>t. entitled (view cat) (verified_id v) (tbl_name t)) (tables d)"
  by (auto simp: acceptable_def may_own_entitled table_names_def list_all_iff)

text \<open>
  Claim C9: seen as a map from collectors to what they advertise, a registration changes exactly the
  entry of the collector whose token was verified, and only when the descriptor names that collector, meets
  every bound and claims no table of another collector and no reserved one; in every other case it is
  refused and nothing changes. The tables of owners the code keeps beside the map never disagree with it.
\<close>

theorem register_refines:
  "let cat = catalog_of regs in
     view (snd (register v d cat)) = spec_register v d (view cat)
     \<and> (is_ok (fst (register v d cat)) \<longleftrightarrow>
          collector_id d = verified_id v \<and> within_bounds d
          \<and> list_all (\<lambda>t. entitled (view cat) (verified_id v) (tbl_name t)) (tables d))
     \<and> (owner_of cat t = Some cid \<longleftrightarrow> served_by (view cat) t cid)"
proof -
  let ?cat = "catalog_of regs"
  note inv = catalog_inv_catalog_of [of regs]
  have "view (snd (register v d ?cat)) = spec_register v d (view ?cat)"
  proof (cases "acceptable v d ?cat")
    case True
    then have "view (snd (register v d ?cat)) = (view ?cat)(verified_id v \<mapsto> d\<lparr>conformance_results := []\<rparr>)"
      by (intro ext) (simp add: view_def register_accepted(2))
    with True show ?thesis
      unfolding spec_register_def acceptable_entitled [OF inv, symmetric] by simp
  next
    case False
    then show ?thesis
      unfolding spec_register_def acceptable_entitled [OF inv, symmetric] by (simp add: register_refused)
  qed
  then show ?thesis
    by (simp add: Let_def is_ok_register acceptable_entitled [OF inv] served_by_view [OF inv])
qed

section \<open>Which operations may be pushed\<close>

definition advertises :: "SchemaDescriptor \<Rightarrow> string \<Rightarrow> string \<Rightarrow> PredicateOp \<Rightarrow> bool" where
  "advertises d t c p =
     (case find_table d t of
        None \<Rightarrow> False
      | Some td \<Rightarrow> (case find_column td c of None \<Rightarrow> False | Some cd \<Rightarrow> op_i32 p \<in> set (supported_ops cd)))"

definition carries_pass :: "SchemaDescriptor \<Rightarrow> string \<Rightarrow> string \<Rightarrow> PredicateOp \<Rightarrow> bool" where
  "carries_pass d t c p =
     list_ex (\<lambda>r. passed r \<and> res_table r = t \<and> res_column r = c \<and> result_op r = p) (conformance_results d)"

lemma is_advertised_owner:
  assumes "owner_of cat t = Some cid" "ot_get (descriptors cat) cid = Some d"
  shows "is_advertised cat t c p = advertises d t c p"
  using assms
  by (simp add: is_advertised_def advertises_def cat_column_def cat_table_def owner_of_def split: option.split)

lemma is_advertised_unowned: "owner_of cat t = None \<Longrightarrow> \<not> is_advertised cat t c p"
  by (simp add: is_advertised_def cat_column_def cat_table_def owner_of_def)

lemma advertises_results [simp]: "advertises (d\<lparr>conformance_results := x\<rparr>) t c p = advertises d t c p"
  by (simp add: advertises_def find_table_def)

lemma is_conformance_passed_owner:
  "owner_of cat t = Some cid \<Longrightarrow> is_conformance_passed cat t c p \<longleftrightarrow> (cid, t, c, op_i32 p) \<in> conformance cat"
  by (simp add: is_conformance_passed_def owner_of_def)

lemma carried_passes_iff:
  assumes "owner_of cat t = Some cid" "ot_get (descriptors cat) cid = Some e"
  shows "(cid, t, c, op_i32 p) \<in> carried_passes cat cid (conformance_results d) \<longleftrightarrow>
     carries_pass d t c p \<and> advertises e t c p"
  using assms by (auto simp: carried_passes_def carries_pass_def list_ex_iff is_advertised_owner owner_of_def)

lemma carried_passes_fst: "entry \<in> carried_passes cat cid rs \<Longrightarrow> fst entry = cid"
  by (auto simp: carried_passes_def)

lemma pushable_own_table:
  assumes "catalog_inv cat" "acceptable v d cat" "t \<in> table_names d"
  shows "is_pushable (snd (register v d cat)) t c p \<longleftrightarrow>
    advertises d t c p \<and>
      (carries_pass d t c p
       \<or> keeps_passes cat (verified_id v) d \<and> (verified_id v, t, c, op_i32 p) \<in> conformance cat)"
proof -
  let ?cat' = "snd (register v d cat)" and ?cid = "verified_id v"
  have owner: "owner_of ?cat' t = Some ?cid"
    by (simp add: owner_of_register [OF assms(1,2)] assms(3))
  have stored: "ot_get (descriptors ?cat') ?cid = Some (d\<lparr>conformance_results := []\<rparr>)"
    by (simp add: register_accepted(2) [OF assms(2)])
  show ?thesis
    unfolding is_pushable_def is_advertised_owner [OF owner stored] is_conformance_passed_owner [OF owner]
      register_accepted(4) [OF assms(2)]
    using carried_passes_iff [OF owner stored, of c p d] by auto
qed

lemma pushable_other_table:
  assumes "catalog_inv cat" "acceptable v d cat" "t \<notin> table_names d" "owner_of cat t \<noteq> Some (verified_id v)"
  shows "is_pushable (snd (register v d cat)) t c p \<longleftrightarrow> is_pushable cat t c p"
proof (cases "owner_of cat t")
  case None
  then have "owner_of (snd (register v d cat)) t = None"
    using assms(3) by (simp add: owner_of_register [OF assms(1,2)])
  with None show ?thesis
    by (simp add: is_pushable_def is_advertised_unowned)
next
  case (Some cid)
  let ?cat' = "snd (register v d cat)"
  from Some assms(4) have other: "cid \<noteq> verified_id v" by simp
  obtain e where e: "ot_get (descriptors cat) cid = Some e"
    using Some catalog_invD(7) [OF assms(1)] by blast
  have owner: "owner_of ?cat' t = Some cid"
    using Some assms(3) other by (simp add: owner_of_register [OF assms(1,2)])
  have stored: "ot_get (descriptors ?cat') cid = Some e"
    using e other by (simp add: register_accepted(2) [OF assms(2)])
  have "(cid, t, c, op_i32 p) \<in> conformance ?cat' \<longleftrightarrow> (cid, t, c, op_i32 p) \<in> conformance cat"
    unfolding register_accepted(4) [OF assms(2)] using other carried_passes_fst by fastforce
  then show ?thesis
    by (simp add: is_pushable_def is_advertised_owner [OF owner stored] is_advertised_owner [OF Some e]
        is_conformance_passed_owner [OF owner] is_conformance_passed_owner [OF Some])
qed

text \<open>
  Claim C17: exactly which operations may be pushed after a registration. On a table the accepted
  descriptor declares: those it advertises and for which it carries a passing result, or for which a pass
  was recorded before and neither the version nor the set of columns changed since. On a table the
  collector dropped: none. On every other table, and after a refused registration: the same as before. A
  result reported as failed never withdraws a pass of the same version.
\<close>

theorem pushable_after_registration:
  "let cat = catalog_of regs; cid = verified_id v in
     is_pushable (snd (register v d cat)) t c p \<longleftrightarrow>
       (if \<not> is_ok (fst (register v d cat)) then is_pushable cat t c p
        else if t \<in> set (map tbl_name (tables d))
        then advertises d t c p \<and>
          (carries_pass d t c p
           \<or> (\<exists>previous. ot_get (descriptors cat) cid = Some previous
                \<and> descriptor_version previous = descriptor_version d
                \<and> reference_set previous = reference_set d
                \<and> (cid, t, c, op_i32 p) \<in> conformance cat))
        else owner_of cat t \<noteq> Some cid \<and> is_pushable cat t c p)"
proof -
  let ?cat = "catalog_of regs"
  note inv = catalog_inv_catalog_of [of regs]
  show ?thesis
  proof (cases "acceptable v d ?cat")
    case False
    then show ?thesis by (simp add: Let_def is_ok_register register_refused)
  next
    case acc: True
    consider "t \<in> table_names d" | "t \<notin> table_names d" "owner_of ?cat t = Some (verified_id v)"
      | "t \<notin> table_names d" "owner_of ?cat t \<noteq> Some (verified_id v)" by blast
    then show ?thesis
    proof cases
      case 1
      then show ?thesis
        unfolding Let_def pushable_own_table [OF inv acc 1]
        by (auto simp: is_ok_register acc keeps_passes_def table_names_def)
    next
      case 2
      then have "owner_of (snd (register v d ?cat)) t = None"
        by (simp add: owner_of_register [OF inv acc])
      with 2 show ?thesis
        by (simp add: Let_def is_ok_register acc is_pushable_def is_advertised_unowned table_names_def)
    next
      case 3
      then show ?thesis
        unfolding Let_def pushable_other_table [OF inv acc 3]
        by (simp add: is_ok_register acc table_names_def)
    qed
  qed
qed

text \<open>Evaluation of the catalog on concrete descriptors.\<close>

lemmas catalog_eval =
  catalog_of_def register_def SchemaCatalog_new_def validate_descriptor_def check_identifier_def
  check_table_def check_table_ownership_def reserved_owner_of_def RESERVED_TABLES_def
  PROCESS_TABLE_NAME_def PROCESS_COLLECTOR_ID_def MAX_IDENTIFIER_LENGTH_def MAX_CONFORMANCE_RESULTS_def
  MAX_TABLES_PER_DESCRIPTOR_def MAX_COLUMNS_PER_TABLE_def MAX_OPERATIONS_PER_COLUMN_def
  take_ownership_def diff_def change_is_empty_def reference_set_def record_carried_results_def
  record_carried_result_def record_conformance_pass_def result_op_def op_try_from_def op_i32_def
  is_pushable_def is_advertised_def is_conformance_passed_def cat_column_def cat_table_def
  find_table_def find_column_def ot_get_def

text \<open>
  A collector whose self-test passed once and then fails under the same version keeps its operation
  pushable.
\<close>

definition name_like :: "bool \<Rightarrow> SchemaDescriptor" where
  "name_like verdict =
     \<lparr>collector_id = ''procmond'', descriptor_version = ''v1'',
      tables = [\<lparr>tbl_name = ''processes'',
        columns = [\<lparr>col_name = ''name'', column_type = 1, nullable = False, supported_ops = [8]\<rparr>]\<rparr>],
      conformance_results = [\<lparr>res_table = ''processes'', res_column = ''name'', res_op = 8, passed = verdict\<rparr>]\<rparr>"

lemma failed_retest_stays_pushable:
  "let v = VerifiedRegistration ''procmond'' in
     is_pushable (catalog_of [(v, name_like True), (v, name_like False)]) ''processes'' ''name'' OpLike"
  by (simp add: Let_def name_like_def catalog_eval)

end
