(* ===== verification/Rule_Planner.thy ===== *)
theory Rule_Planner
  imports Schema_Catalog Rejection_Log
begin

text \<open>
  Lowering a detection rule into the half a collector evaluates and the half the agent keeps:
  \<^verbatim>\<open>daemoneye-lib/src/detection/planner.rs\<close>, with the rule model of
  \<^verbatim>\<open>daemoneye-lib/src/models/rule.rs\<close> and the plan messages of \<^verbatim>\<open>daemoneye-lib/proto/common.proto\<close>.

  The syntax trees are those of the crate \<open>sqlparser\<close>, restricted to the constructors the planner
  distinguishes; everything else is an opaque value of type \<open>'x\<close>. The functions of the crates the planner
  calls are the fields of \<open>sql_env\<close>: the parser, the printer, the generic traversal (as the list of the
  expressions it visits, in its order), whether the rest of a query orders or limits it, the SQL gate of \<^verbatim>\<open>sql_validation.rs\<close> (a walk over the whole tree of the
  crate), the compilation of a pattern by the crate \<open>regex\<close>, and the parsing of a floating-point literal.
\<close>

section \<open>Syntax trees\<close>

datatype BinaryOperator = BAnd | BEq | BNotEq | BLt | BLtEq | BGt | BGtEq | BOther string

datatype SqlValue =
    Number string bool
  | SingleQuotedString string
  | DoubleQuotedString string
  | Boolean bool
  | OtherValue string

text \<open>
  \<open>Function name args\<close>: \<open>None\<close> when the arguments are not a list; an argument is \<open>None\<close> unless it is
  an unnamed expression.
\<close>

datatype 'x Expr =
    Nested "'x Expr"
  | BinaryOp "'x Expr" BinaryOperator "'x Expr"
  | LikeExpr (negated: bool) (any: bool) "'x Expr" (pattern: "'x Expr") (escape_char: "'x option")
  | RLike (negated: bool) "'x Expr" (pattern: "'x Expr") (regexp: bool)
  | InList "'x Expr" "'x Expr list" (negated: bool)
  | Identifier string
  | CompoundIdentifier "string list"
  | Value SqlValue
  | Function string "'x Expr option list option"
  | Subquery 'x
  | InSubquery 'x
  | Exists 'x
  | OtherExpr 'x

datatype TableFactor = TableFactorTable string | OtherFactor

record TableWithJoins =
  relation :: TableFactor
  joins :: nat

datatype 'x SelectItem = UnnamedExpr "'x Expr" | ExprWithAlias "'x Expr" | OtherItem

record 'x Select =
  from_items :: "TableWithJoins list"
  projection_items :: "'x SelectItem list"
  selection :: "'x Expr option"
  select_rest :: 'x

datatype 'x SetExpr = SelectBody "'x Select" | OtherBody 'x

datatype 'x Statement = Query bool "'x SetExpr" 'x | OtherStatement 'x

section \<open>Rules, plans and errors\<close>

text \<open>The descriptive fields of a rule (name, author, times, tags, metadata) are not read by the engine.\<close>

record DetectionRule =
  id_raw :: string
  sql_query :: string
  enabled :: bool

datatype RuleError =
    SqlRejected SqlRejection
  | RegexRejected RegexRejection
  | MissingField string
  | ValidationFailed string
  | RuleNotFound string
  | ExecutionFailed string

definition RuleError_display :: "RuleError \<Rightarrow> string" where
  "RuleError_display e = (case e of
     SqlRejected r \<Rightarrow> ''SQL rejected at rule load: '' @ SqlRejection_display r
   | RegexRejected r \<Rightarrow> ''regex pattern rejected at rule load: '' @ RegexRejection_display r
   | MissingField f \<Rightarrow> ''Missing required field: '' @ f
   | ValidationFailed m \<Rightarrow> ''Rule validation failed: '' @ m
   | RuleNotFound m \<Rightarrow> ''Rule not found: '' @ m
   | ExecutionFailed m \<Rightarrow> ''Rule execution failed: '' @ m)"

text \<open>
  A floating-point literal is the 64 bits of its value; \<open>UnsetLiteral\<close> is a message whose value is
  missing.
\<close>

datatype Literal =
    StringValue string | IntValue int | UintValue u64 | FloatValue u64 | BoolValue bool
  | NullValue bool | UnsetLiteral

record Predicate =
  pred_column :: string
  pred_op :: int
  pred_values :: "Literal list"

record PushdownPlan =
  plan_table :: string
  predicates :: "Predicate list"
  projection :: "string list"
  ttl_ms :: u64

datatype PlanError =
    PlanParse string
  | PlanNotASelect
  | NoTable
  | MultipleTables nat
  | PlanUnknownReference UnknownReference
  | PlanPattern RuleError
  | NonLiteralPattern string
  | CommonTableExpression
  | PlanSubquery
  | LiteralTypeMismatch string string string
  | Unplannable string

definition PlanError_display :: "PlanError \<Rightarrow> string" where
  "PlanError_display e = (case e of
     PlanParse m \<Rightarrow> ''rule SQL does not parse: '' @ m
   | PlanNotASelect \<Rightarrow> ''a detection rule must be a single SELECT statement''
   | NoTable \<Rightarrow> ''a detection rule must read exactly one table, this one reads none''
   | MultipleTables n \<Rightarrow> ''a detection rule must read exactly one table, this one reads '' @ show_nat n
   | PlanUnknownReference r \<Rightarrow> UnknownReference_display r
   | PlanPattern r \<Rightarrow> RuleError_display r
   | NonLiteralPattern p \<Rightarrow>
       ''a REGEXP pattern must be a string literal so it compiles at load under the fixed bounds, this rule has `''
       @ p @ ''`''
   | CommonTableExpression \<Rightarrow>
       ''the planner cannot lower a WITH clause, so this rule is refused rather than planned ''
       @ ''against the catalog table its CTE shadows''
   | PlanSubquery \<Rightarrow>
       ''the executor cannot run a subquery: the derived SQL sees only the rule's own table, so ''
       @ ''this rule is refused at load rather than failing on every cycle''
   | LiteralTypeMismatch column expected literal \<Rightarrow>
       ''`'' @ column @ ''` is declared '' @ expected @ '', so the literal `'' @ literal
       @ ''` cannot compare against it; there is no coercion in either direction''
   | Unplannable m \<Rightarrow> ''the executor cannot plan this rule: '' @ m)"

record CompiledRule =
  rule_id :: string
  plan_collector :: string
  plan :: PushdownPlan
  residual :: "string option"
  references :: "(string \<times> string) set"

section \<open>What the planner is given\<close>

record 'x sql_env =
  parse_statements :: "string \<Rightarrow> ('x Statement list, string) result"
  display_expr :: "'x Expr \<Rightarrow> string"
  visit_expr :: "'x Expr \<Rightarrow> 'x Expr list"
  visit_select :: "'x Select \<Rightarrow> 'x Expr list"
  visit_statement :: "'x Statement \<Rightarrow> 'x Expr list"
  visit_relations :: "'x Statement \<Rightarrow> string list"
  trailing_clause :: "'x \<Rightarrow> bool"
  validate_detection_sql :: "string \<Rightarrow> u32 \<Rightarrow> (unit, SqlRejection) result"
  get_or_compile :: "string \<Rightarrow> (unit, RegexRejection) result"
  parse_f64 :: "string \<Rightarrow> u64 option"

definition validate_sql_with_depth :: "'x sql_env \<Rightarrow> DetectionRule \<Rightarrow> u32 \<Rightarrow> (unit, RuleError) result" where
  "validate_sql_with_depth env rule depth =
     map_sum SqlRejected (\<lambda>u. u) (validate_detection_sql env (sql_query rule) depth)"

fun compile_each :: "'x sql_env \<Rightarrow> string list \<Rightarrow> (unit, RuleError) result" where
  "compile_each env [] = Ok ()"
| "compile_each env (p # ps) =
     (case get_or_compile env p of Err e \<Rightarrow> Err (RegexRejected e) | Ok _ \<Rightarrow> compile_each env ps)"

definition compile_rule_patterns ::
    "'x sql_env \<Rightarrow> DetectionRule \<Rightarrow> string list \<Rightarrow> u32 \<Rightarrow> (unit, RuleError) result" where
  "compile_rule_patterns env rule patterns depth =
     (case validate_sql_with_depth env rule depth of Err e \<Rightarrow> Err e | Ok _ \<Rightarrow> compile_each env patterns)"

section \<open>Reading the tree\<close>

definition ttl_millis :: u64 where
  "ttl_millis = 300000"

definition parse_single_select :: "'x sql_env \<Rightarrow> string \<Rightarrow> ('x Statement, PlanError) result" where
  "parse_single_select env sql =
     (case parse_statements env sql of
        Err m \<Rightarrow> Err (PlanParse m)
      | Ok ss \<Rightarrow> (case ss of [s] \<Rightarrow> Ok s | _ \<Rightarrow> Err PlanNotASelect))"

fun table_list :: "TableWithJoins list \<Rightarrow> (string list, PlanError) result" where
  "table_list [] = Ok []"
| "table_list (i # is) =
     (if joins i \<noteq> 0 then Err (MultipleTables (joins i + 1))
      else (case table_list is of
              Err e \<Rightarrow> Err e
            | Ok ns \<Rightarrow> Ok (case relation i of TableFactorTable n \<Rightarrow> n # ns | OtherFactor \<Rightarrow> ns)))"

definition single_table :: "'x Select \<Rightarrow> (string, PlanError) result" where
  "single_table s =
     (case table_list (from_items s) of
        Err e \<Rightarrow> Err e
      | Ok [] \<Rightarrow> Err NoTable
      | Ok [n] \<Rightarrow> Ok n
      | Ok ns \<Rightarrow> Err (MultipleTables (length ns)))"

definition expr_identifier :: "'x Expr \<Rightarrow> string list" where
  "expr_identifier e = (case e of
     Identifier n \<Rightarrow> [n]
   | CompoundIdentifier parts \<Rightarrow> (if parts = [] then [] else [last parts])
   | _ \<Rightarrow> [])"

text \<open>The names an \<open>IdentifierCollector\<close> gathers over the visited expressions, in the order of a \<open>BTreeSet\<close>.\<close>

definition collect_identifiers :: "'x Expr list \<Rightarrow> string list" where
  "collect_identifiers es = sorted_list_of_set (set (concat (map expr_identifier es)))"

definition collect_tables :: "'x sql_env \<Rightarrow> 'x Statement \<Rightarrow> string list" where
  "collect_tables env st = sorted_list_of_set (set (visit_relations env st))"

definition is_subquery :: "'x Expr \<Rightarrow> bool" where
  "is_subquery e = (case e of Subquery _ \<Rightarrow> True | InSubquery _ \<Rightarrow> True | Exists _ \<Rightarrow> True | _ \<Rightarrow> False)"

definition has_subquery :: "'x sql_env \<Rightarrow> 'x Statement \<Rightarrow> bool" where
  "has_subquery env st = list_ex is_subquery (visit_statement env st)"

fun resolve_each ::
    "SchemaCatalog \<Rightarrow> string \<Rightarrow> string list \<Rightarrow> ((string \<times> string) set, PlanError) result" where
  "resolve_each cat t [] = Ok {}"
| "resolve_each cat t (c # cs) =
     (case resolve_reference cat t c of
        Err e \<Rightarrow> Err (PlanUnknownReference e)
      | Ok _ \<Rightarrow> (case resolve_each cat t cs of Err e \<Rightarrow> Err e | Ok refs \<Rightarrow> Ok (insert (t, c) refs)))"

definition resolve_all_references ::
    "'x sql_env \<Rightarrow> SchemaCatalog \<Rightarrow> 'x Statement \<Rightarrow> string \<Rightarrow> ((string \<times> string) set, PlanError) result" where
  "resolve_all_references env cat st t = resolve_each cat t (collect_identifiers (visit_statement env st))"

subsection \<open>Patterns\<close>

definition REGEX_FUNCTIONS :: "string list" where
  "REGEX_FUNCTIONS = [''regexp'', ''match'']"

definition is_regex_function :: "string \<Rightarrow> bool" where
  "is_regex_function n = list_ex (eq_ignore_ascii_case n) REGEX_FUNCTIONS"

definition regex_function_pattern ::
    "'x sql_env \<Rightarrow> string \<Rightarrow> 'x Expr option list option \<Rightarrow> ('x Expr, PlanError) result" where
  "regex_function_pattern env n args =
     (case args of
        Some [_, Some p] \<Rightarrow> Ok p
      | _ \<Rightarrow> Err (NonLiteralPattern (display_expr env (Function n args))))"

definition pattern_literal :: "'x Expr \<Rightarrow> string option" where
  "pattern_literal e = (case e of
     Value (SingleQuotedString text) \<Rightarrow> Some text
   | Value (DoubleQuotedString text) \<Rightarrow> Some text
   | _ \<Rightarrow> None)"

definition collect_pattern :: "'x sql_env \<Rightarrow> 'x Expr \<Rightarrow> (string list, PlanError) result" where
  "collect_pattern env p =
     (case pattern_literal p of
        Some text \<Rightarrow> Ok [text] | None \<Rightarrow> Err (NonLiteralPattern (display_expr env p)))"

definition visit_pattern :: "'x sql_env \<Rightarrow> 'x Expr \<Rightarrow> (string list, PlanError) result" where
  "visit_pattern env e = (case e of
     RLike _ _ p _ \<Rightarrow> collect_pattern env p
   | Function n args \<Rightarrow>
       if is_regex_function n
       then (case regex_function_pattern env n args of Err er \<Rightarrow> Err er | Ok p \<Rightarrow> collect_pattern env p)
       else Ok []
   | _ \<Rightarrow> Ok [])"

fun collect_patterns :: "'x sql_env \<Rightarrow> 'x Expr list \<Rightarrow> (string list, PlanError) result" where
  "collect_patterns env [] = Ok []"
| "collect_patterns env (e # es) =
     (case visit_pattern env e of
        Err er \<Rightarrow> Err er
      | Ok ps \<Rightarrow> (case collect_patterns env es of Err er \<Rightarrow> Err er | Ok qs \<Rightarrow> Ok (ps @ qs)))"

definition collect_regex_patterns :: "'x sql_env \<Rightarrow> 'x Select \<Rightarrow> (string list, PlanError) result" where
  "collect_regex_patterns env s = collect_patterns env (visit_select env s)"

section \<open>Lowering conjuncts\<close>

fun eligible_conjuncts :: "'x Expr \<Rightarrow> 'x Expr list" where
  "eligible_conjuncts (Nested inner) = eligible_conjuncts inner"
| "eligible_conjuncts (BinaryOp l BAnd r) = eligible_conjuncts l @ eligible_conjuncts r"
| "eligible_conjuncts e = [e]"

fun identifier_name :: "'x Expr \<Rightarrow> string option" where
  "identifier_name (Nested inner) = identifier_name inner"
| "identifier_name (Identifier n) = Some n"
| "identifier_name (CompoundIdentifier parts) = (if parts = [] then None else Some (last parts))"
| "identifier_name _ = None"

definition comparison_op :: "BinaryOperator \<Rightarrow> PredicateOp option" where
  "comparison_op p = (case p of BEq \<Rightarrow> Some OpEq | BNotEq \<Rightarrow> Some OpNe | BLt \<Rightarrow> Some OpLt
     | BLtEq \<Rightarrow> Some OpLe | BGt \<Rightarrow> Some OpGt | BGtEq \<Rightarrow> Some OpGe | _ \<Rightarrow> None)"

definition shape_of :: "'x Expr \<Rightarrow> PredicateOp \<Rightarrow> 'x Expr list \<Rightarrow> (string \<times> PredicateOp \<times> 'x Expr list) option" where
  "shape_of e p vs = map_option (\<lambda>c. (c, p, vs)) (identifier_name e)"

fun predicate_shape :: "'x Expr \<Rightarrow> (string \<times> PredicateOp \<times> 'x Expr list) option" where
  "predicate_shape (Nested inner) = predicate_shape inner"
| "predicate_shape (BinaryOp l bop r) =
     (case identifier_name l of
        None \<Rightarrow> None
      | Some c \<Rightarrow> map_option (\<lambda>p. (c, p, [r])) (comparison_op bop))"
| "predicate_shape (LikeExpr False False e p None) = shape_of e OpLike [p]"
| "predicate_shape (RLike False e p True) = shape_of e OpRegexp [p]"
| "predicate_shape (InList e vs False) = shape_of e OpIn vs"
| "predicate_shape _ = None"

text \<open>\<open>str::parse::<i64>\<close>: an optional sign and digits, within the range of the type.\<close>

definition parse_i64 :: "string \<Rightarrow> int option" where
  "parse_i64 s =
     (let (neg, ds) = (case s of [] \<Rightarrow> (False, []) | c # cs \<Rightarrow>
            if c = CHR ''-'' then (True, cs) else if c = CHR ''+'' then (False, cs) else (False, s)) in
      if ds = [] then None
      else case read_digits 0 ds of
        None \<Rightarrow> None
      | Some n \<Rightarrow> if neg then (if n \<le> 2 ^ 63 then Some (- int n) else None)
                 else (if n < 2 ^ 63 then Some (int n) else None))"

definition lower_literal :: "'x sql_env \<Rightarrow> 'x Expr \<Rightarrow> ColumnType \<Rightarrow> Literal option" where
  "lower_literal env e ty = (case e of
     Value v \<Rightarrow> (case (v, ty) of
         (Number digits _, TyInt) \<Rightarrow> map_option IntValue (parse_i64 digits)
       | (Number digits _, TyUint) \<Rightarrow> map_option UintValue (parse_u64 digits)
       | (Number digits _, TyFloat) \<Rightarrow> map_option FloatValue (parse_f64 env digits)
       | (SingleQuotedString text, TyString) \<Rightarrow> Some (StringValue text)
       | (DoubleQuotedString text, TyString) \<Rightarrow> Some (StringValue text)
       | (Boolean flag, TyBool) \<Rightarrow> Some (BoolValue flag)
       | _ \<Rightarrow> None)
   | _ \<Rightarrow> None)"

fun collect_options :: "'a option list \<Rightarrow> 'a list option" where
  "collect_options [] = Some []"
| "collect_options (x # xs) =
     (case x of None \<Rightarrow> None | Some y \<Rightarrow> map_option (\<lambda>ys. y # ys) (collect_options xs))"

definition lower_conjunct ::
    "'x sql_env \<Rightarrow> SchemaCatalog \<Rightarrow> string \<Rightarrow> 'x Expr \<Rightarrow> Predicate option" where
  "lower_conjunct env cat t e =
     (case predicate_shape e of
        None \<Rightarrow> None
      | Some (c, p, value_exprs) \<Rightarrow>
        (case resolve_reference cat t c of
           Err _ \<Rightarrow> None
         | Ok cd \<Rightarrow>
           (case column_type_try_from (column_type cd) of
              None \<Rightarrow> None
            | Some ty \<Rightarrow>
              (case collect_options (map (\<lambda>v. lower_literal env v ty) value_exprs) of
                 None \<Rightarrow> None
               | Some vs \<Rightarrow>
                   if vs = [] \<or> \<not> is_pushable cat t c p then None
                   else Some \<lparr>pred_column = c, pred_op = op_i32 p, pred_values = vs\<rparr>))))"

text \<open>The loop over the conjuncts: the pushed predicates and the conjuncts that stay.\<close>

fun split_conjuncts ::
    "'x sql_env \<Rightarrow> SchemaCatalog \<Rightarrow> string \<Rightarrow> 'x Expr list \<Rightarrow> Predicate list \<times> 'x Expr list" where
  "split_conjuncts env cat t [] = ([], [])"
| "split_conjuncts env cat t (e # es) =
     (let (ps, rs) = split_conjuncts env cat t es in
      case lower_conjunct env cat t e of Some p \<Rightarrow> (p # ps, rs) | None \<Rightarrow> (ps, e # rs))"

fun join_and :: "string list \<Rightarrow> string" where
  "join_and [] = []"
| "join_and [s] = s"
| "join_and (s # t # ss) = s @ '' AND '' @ join_and (t # ss)"

definition render_residual :: "'x sql_env \<Rightarrow> 'x Expr list \<Rightarrow> string option" where
  "render_residual env rs =
     (if rs = [] then None else Some (join_and (map (\<lambda>e. ''('' @ display_expr env e @ '')'') rs)))"

fun project_items :: "'x sql_env \<Rightarrow> 'x SelectItem list \<Rightarrow> string set option" where
  "project_items env [] = Some {}"
| "project_items env (UnnamedExpr e # is) =
     map_option (\<lambda>cs. set (collect_identifiers (visit_expr env e)) \<union> cs) (project_items env is)"
| "project_items env (ExprWithAlias e # is) =
     map_option (\<lambda>cs. set (collect_identifiers (visit_expr env e)) \<union> cs) (project_items env is)"
| "project_items env (OtherItem # is) = None"

definition build_projection ::
    "'x sql_env \<Rightarrow> 'x Select \<Rightarrow> string \<Rightarrow> Predicate list \<Rightarrow> string option \<Rightarrow> (string list, PlanError) result" where
  "build_projection env s t ps res =
     (case project_items env (projection_items s) of
        None \<Rightarrow> Ok []
      | Some cs \<Rightarrow>
        (case (case res of
                 None \<Rightarrow> Ok {}
               | Some fragment \<Rightarrow>
                   map_sum (\<lambda>e. e) (\<lambda>st. set (collect_identifiers (visit_statement env st)))
                     (parse_single_select env (''SELECT 1 FROM '' @ t @ '' WHERE '' @ fragment))) of
           Err e \<Rightarrow> Err e
         | Ok rcs \<Rightarrow> Ok (sorted_list_of_set (cs \<union> rcs \<union> set (map pred_column ps)))))"

subsection \<open>Literal types\<close>

definition is_scalar_literal :: "'x Expr \<Rightarrow> bool" where
  "is_scalar_literal e = (case e of
     Value (Number _ _) \<Rightarrow> True
   | Value (SingleQuotedString _) \<Rightarrow> True
   | Value (DoubleQuotedString _) \<Rightarrow> True
   | Value (Boolean _) \<Rightarrow> True
   | _ \<Rightarrow> False)"

definition column_type_name :: "ColumnType \<Rightarrow> string" where
  "column_type_name ty = (case ty of TyString \<Rightarrow> ''a string'' | TyInt \<Rightarrow> ''an integer''
     | TyUint \<Rightarrow> ''an unsigned integer'' | TyFloat \<Rightarrow> ''a float'' | TyBool \<Rightarrow> ''a boolean''
     | TyUnspecified \<Rightarrow> ''of an unspecified type'')"

definition literal_comparison :: "'x Expr \<Rightarrow> (string \<times> 'x Expr list) option" where
  "literal_comparison e =
     (case predicate_shape e of
        Some (c, _, vs) \<Rightarrow> Some (c, vs)
      | None \<Rightarrow>
        (case e of
           BinaryOp l bop r \<Rightarrow>
             (case comparison_op bop of
                None \<Rightarrow> None | Some _ \<Rightarrow> map_option (\<lambda>c. (c, [l])) (identifier_name r))
         | _ \<Rightarrow> None))"

definition literal_mismatch ::
    "'x sql_env \<Rightarrow> SchemaCatalog \<Rightarrow> string \<Rightarrow> 'x Expr \<Rightarrow> PlanError option" where
  "literal_mismatch env cat t e =
     (case literal_comparison e of
        None \<Rightarrow> None
      | Some (c, vs) \<Rightarrow>
        (case resolve_reference cat t c of
           Err _ \<Rightarrow> None
         | Ok cd \<Rightarrow>
           (case column_type_try_from (column_type cd) of
              None \<Rightarrow> None
            | Some ty \<Rightarrow>
                map_option (\<lambda>v. LiteralTypeMismatch c (column_type_name ty) (display_expr env v))
                  (List.find (\<lambda>v. is_scalar_literal v \<and> lower_literal env v ty = None) vs))))"

fun first_mismatch ::
    "'x sql_env \<Rightarrow> SchemaCatalog \<Rightarrow> string \<Rightarrow> 'x Expr list \<Rightarrow> (unit, PlanError) result" where
  "first_mismatch env cat t [] = Ok ()"
| "first_mismatch env cat t (e # es) =
     (case literal_mismatch env cat t e of Some er \<Rightarrow> Err er | None \<Rightarrow> first_mismatch env cat t es)"

definition check_literal_types ::
    "'x sql_env \<Rightarrow> SchemaCatalog \<Rightarrow> string \<Rightarrow> 'x Select \<Rightarrow> (unit, PlanError) result" where
  "check_literal_types env cat t s =
     (case selection s of None \<Rightarrow> Ok () | Some w \<Rightarrow> first_mismatch env cat t (visit_expr env w))"

section \<open>Planning a rule\<close>

definition where_conjuncts :: "'x Select \<Rightarrow> 'x Expr list" where
  "where_conjuncts s = (case selection s of None \<Rightarrow> [] | Some w \<Rightarrow> eligible_conjuncts w)"

definition unknown_table :: "SchemaCatalog \<Rightarrow> string list \<Rightarrow> string option" where
  "unknown_table cat ts = List.find (\<lambda>n. owner_of cat n = None) ts"

text \<open>The body of \<open>plan_rule\<close> once the statement is known to be a plain \<open>SELECT\<close>.\<close>

definition plan_select ::
    "'x sql_env \<Rightarrow> SchemaCatalog \<Rightarrow> DetectionRule \<Rightarrow> u32 \<Rightarrow> 'x Statement \<Rightarrow> 'x Select \<Rightarrow>
     (CompiledRule, PlanError) result" where
  "plan_select env cat rule depth st s =
     (case collect_regex_patterns env s of Err e \<Rightarrow> Err e | Ok patterns \<Rightarrow>
     (case compile_rule_patterns env rule patterns depth of Err e \<Rightarrow> Err (PlanPattern e) | Ok _ \<Rightarrow>
     (case single_table s of Err e \<Rightarrow> Err e | Ok t \<Rightarrow>
      let ts = collect_tables env st in
     (case unknown_table cat ts of Some n \<Rightarrow> Err (PlanUnknownReference (UnknownTable n)) | None \<Rightarrow>
      if length ts > 1 then Err (MultipleTables (length ts)) else
     (case owner_of cat t of None \<Rightarrow> Err (PlanUnknownReference (UnknownTable t)) | Some owner \<Rightarrow>
     (case resolve_all_references env cat st t of Err e \<Rightarrow> Err e | Ok refs \<Rightarrow>
      if has_subquery env st then Err PlanSubquery else
     (case check_literal_types env cat t s of Err e \<Rightarrow> Err e | Ok _ \<Rightarrow>
      let (ps, rs) = split_conjuncts env cat t (where_conjuncts s);
          res = render_residual env rs in
     (case build_projection env s t ps res of Err e \<Rightarrow> Err e | Ok proj \<Rightarrow>
      Ok \<lparr>rule_id = id_raw rule, plan_collector = owner,
          plan = \<lparr>plan_table = t, predicates = ps, projection = proj, ttl_ms = ttl_millis\<rparr>,
          residual = res, references = refs\<rparr>))))))))"

definition plan_rule ::
    "'x sql_env \<Rightarrow> SchemaCatalog \<Rightarrow> DetectionRule \<Rightarrow> u32 \<Rightarrow> (CompiledRule, PlanError) result" where
  "plan_rule env cat rule depth =
     (case parse_single_select env (sql_query rule) of
        Err e \<Rightarrow> Err e
      | Ok st \<Rightarrow>
        (case st of
           OtherStatement _ \<Rightarrow> Err PlanNotASelect
         | Query has_with body _ \<Rightarrow>
           (case body of
              OtherBody _ \<Rightarrow> Err PlanNotASelect
            | SelectBody s \<Rightarrow>
                if has_with then Err CommonTableExpression else plan_select env cat rule depth st s)))"

text \<open>
  How the executor reads the residual again (\<^verbatim>\<open>detection/execution/derive.rs\<close>): as the \<open>WHERE\<close> clause of a
  single query. The refusals are not told apart.
\<close>

definition parse_selection :: "'x sql_env \<Rightarrow> string \<Rightarrow> 'x Expr option" where
  "parse_selection env fragment =
     (case parse_statements env (''SELECT 1 FROM t WHERE '' @ fragment) of
        Ok [Query has_with body rest] \<Rightarrow>
          if trailing_clause env rest then None
          else (case body of SelectBody s \<Rightarrow> selection s | OtherBody _ \<Rightarrow> None)
      | _ \<Rightarrow> None)"

section \<open>What a plan contains\<close>

lemma split_conjuncts_eq:
  "split_conjuncts env cat t es =
     (List.map_filter (lower_conjunct env cat t) es, filter (\<lambda>e. lower_conjunct env cat t e = None) es)"
  by (induction es) (auto simp: map_filter_simps split: option.splits)

lemma set_pushed: "p \<in> set (fst (split_conjuncts env cat t es)) \<longleftrightarrow> (\<exists>e \<in> set es. lower_conjunct env cat t e = Some p)"
  by (induction es) (auto simp: case_prod_beta split: option.splits)

lemma resolve_each_Ok:
  "resolve_each cat t cs = Ok refs \<Longrightarrow>
     refs = (\<lambda>c. (t, c)) ` set cs \<and> (\<forall>c \<in> set cs. is_ok (resolve_reference cat t c))"
  by (induction cs arbitrary: refs) (auto split: sum.splits)

lemma lower_conjunct_Some:
  assumes "lower_conjunct env cat t e = Some p"
  obtains opr value_exprs cd ty where
    "predicate_shape e = Some (pred_column p, opr, value_exprs)"
    "resolve_reference cat t (pred_column p) = Ok cd"
    "column_type_try_from (column_type cd) = Some ty"
    "collect_options (map (\<lambda>v. lower_literal env v ty) value_exprs) = Some (pred_values p)"
    "pred_values p \<noteq> []" "pred_op p = op_i32 opr" "is_pushable cat t (pred_column p) opr"
  using assms
  by (auto simp: lower_conjunct_def split: option.splits sum.splits if_splits)

text \<open>The elimination rule of a successful planning run.\<close>

lemma plan_rule_Ok:
  assumes "plan_rule env cat rule depth = Ok c"
  obtains st s x t owner refs proj where
    "parse_single_select env (sql_query rule) = Ok st" "st = Query False (SelectBody s) x"
    "single_table s = Ok t" "owner_of cat t = Some owner"
    "resolve_all_references env cat st t = Ok refs" "\<not> has_subquery env st"
    "build_projection env s t (fst (split_conjuncts env cat t (where_conjuncts s)))
       (render_residual env (snd (split_conjuncts env cat t (where_conjuncts s)))) = Ok proj"
    "c = \<lparr>rule_id = id_raw rule, plan_collector = owner,
          plan = \<lparr>plan_table = t, predicates = fst (split_conjuncts env cat t (where_conjuncts s)),
                  projection = proj, ttl_ms = ttl_millis\<rparr>,
          residual = render_residual env (snd (split_conjuncts env cat t (where_conjuncts s))),
          references = refs\<rparr>"
proof -
  obtain st s x where st: "parse_single_select env (sql_query rule) = Ok st" "st = Query False (SelectBody s) x"
    and sel: "plan_select env cat rule depth st s = Ok c"
    using assms
    by (auto simp: plan_rule_def split: sum.splits Statement.splits SetExpr.splits if_splits)
  show thesis
    using sel
    by (auto simp: plan_select_def Let_def case_prod_beta split: sum.splits option.splits if_splits
        intro!: that [OF st])
qed

lemma plan_references:
  assumes "plan_rule env cat rule depth = Ok c"
  shows "rule_id c = id_raw rule" "ttl_ms (plan c) = ttl_millis"
    and "owner_of cat (plan_table (plan c)) = Some (plan_collector c)"
    and "(t, col) \<in> references c \<Longrightarrow> t = plan_table (plan c) \<and> is_ok (resolve_reference cat t col)"
  using assms
  by (auto elim!: plan_rule_Ok simp: resolve_all_references_def dest!: resolve_each_Ok)

lemma plan_predicates_pushable:
  assumes "plan_rule env cat rule depth = Ok c" "p \<in> set (predicates (plan c))"
  obtains e where "lower_conjunct env cat (plan_table (plan c)) e = Some p"
  using assms by (auto elim!: plan_rule_Ok simp: set_pushed)

section \<open>Splitting a rule loses and adds nothing\<close>

subsection \<open>What SQL means\<close>

definition declared_type :: "SchemaCatalog \<Rightarrow> string \<Rightarrow> string \<Rightarrow> ColumnType option" where
  "declared_type cat t c = (case resolve_reference cat t c of
     Err _ \<Rightarrow> None | Ok cd \<Rightarrow> column_type_try_from (column_type cd))"

text \<open>
  The laws of SQL the split relies on. \<open>col r c\<close> is the value of a column in a row, \<open>val e r\<close> the value of
  an expression, \<open>holds e r\<close> that it is true, and \<open>op_holds\<close> the meaning of an operation on a value and
  literals of the column's declared type. Parentheses do not matter, a conjunction is true where both sides
  are, a column reference stands for the column, and each comparison with literals is the operation it
  is written with.
\<close>

definition sql_values ::
    "('x Expr \<Rightarrow> 'row \<Rightarrow> 'v) \<Rightarrow> ('row \<Rightarrow> string \<Rightarrow> 'v) \<Rightarrow> ('x Expr \<Rightarrow> 'row \<Rightarrow> bool) \<Rightarrow> bool" where
  "sql_values val col holds \<longleftrightarrow>
     (\<forall>e r. holds (Nested e) r = holds e r) \<and> (\<forall>e r. val (Nested e) r = val e r)
     \<and> (\<forall>a b r. holds (BinaryOp a BAnd b) r = (holds a r \<and> holds b r))
     \<and> (\<forall>c r. val (Identifier c) r = col r c) \<and> (\<forall>qs c r. val (CompoundIdentifier (qs @ [c])) r = col r c)"

definition sql_comparisons ::
    "'x sql_env \<Rightarrow> (string \<Rightarrow> ColumnType option) \<Rightarrow> (PredicateOp \<Rightarrow> 'v \<Rightarrow> Literal list \<Rightarrow> bool)
       \<Rightarrow> ('x Expr \<Rightarrow> 'row \<Rightarrow> 'v) \<Rightarrow> ('row \<Rightarrow> string \<Rightarrow> 'v) \<Rightarrow> ('x Expr \<Rightarrow> 'row \<Rightarrow> bool) \<Rightarrow> bool" where
  "sql_comparisons env ctype op_holds val col holds \<longleftrightarrow>
     (\<forall>l c ty x v r. val l = (\<lambda>r. col r c) \<longrightarrow> ctype c = Some ty \<longrightarrow> lower_literal env x ty = Some v \<longrightarrow>
        holds (BinaryOp l BEq x) r = op_holds OpEq (col r c) [v]
        \<and> holds (BinaryOp l BNotEq x) r = op_holds OpNe (col r c) [v]
        \<and> holds (BinaryOp l BLt x) r = op_holds OpLt (col r c) [v]
        \<and> holds (BinaryOp l BLtEq x) r = op_holds OpLe (col r c) [v]
        \<and> holds (BinaryOp l BGt x) r = op_holds OpGt (col r c) [v]
        \<and> holds (BinaryOp l BGtEq x) r = op_holds OpGe (col r c) [v]
        \<and> holds (LikeExpr False False l x None) r = op_holds OpLike (col r c) [v]
        \<and> holds (RLike False l x True) r = op_holds OpRegexp (col r c) [v])
     \<and> (\<forall>l c ty xs vs r. val l = (\<lambda>r. col r c) \<longrightarrow> ctype c = Some ty \<longrightarrow>
          collect_options (map (\<lambda>x. lower_literal env x ty) xs) = Some vs \<longrightarrow>
        holds (InList l xs False) r = op_holds OpIn (col r c) vs)"

text \<open>
  What a conformance pass vouches for: the collector evaluates a predicate over a pushable operation as
  that operation on the column and the literals it was sent.
\<close>

definition collector_conforms ::
    "SchemaCatalog \<Rightarrow> string \<Rightarrow> (PredicateOp \<Rightarrow> 'v \<Rightarrow> Literal list \<Rightarrow> bool) \<Rightarrow> ('row \<Rightarrow> string \<Rightarrow> 'v)
       \<Rightarrow> (Predicate \<Rightarrow> 'row \<Rightarrow> bool) \<Rightarrow> bool" where
  "collector_conforms cat t op_holds col pushed_holds \<longleftrightarrow>
     (\<forall>p opr r. op_try_from (pred_op p) = Some opr \<longrightarrow> is_pushable cat t (pred_column p) opr \<longrightarrow>
        pushed_holds p r = op_holds opr (col r (pred_column p)) (pred_values p))"

text \<open>
  The grammar, for the conjuncts of a rule: a conjunct printed between parentheses is read back as it was,
  and \<open>AND\<close> groups to the left, provided that what stands before it is not grouped more loosely. So the
  text of a disjunction without parentheses is not covered.
\<close>

fun and_level :: "'x Expr \<Rightarrow> bool" where
  "and_level (Nested e) = True"
| "and_level (BinaryOp a bop b) = (bop = BAnd)"
| "and_level _ = False"

definition parenthesized :: "'x sql_env \<Rightarrow> 'x Expr \<Rightarrow> string" where
  "parenthesized env e = ''('' @ display_expr env e @ '')''"

definition sql_grammar :: "'x sql_env \<Rightarrow> 'x Expr list \<Rightarrow> bool" where
  "sql_grammar env conjs \<longleftrightarrow>
     (\<forall>e \<in> set conjs. parse_selection env (parenthesized env e) = Some (Nested e))
     \<and> (\<forall>es w. \<forall>e \<in> set conjs. set es \<subseteq> set conjs \<longrightarrow>
          parse_selection env (join_and (map (parenthesized env) es)) = Some w \<longrightarrow> and_level w \<longrightarrow>
          parse_selection env (join_and (map (parenthesized env) es) @ '' AND '' @ parenthesized env e) =
            Some (BinaryOp w BAnd (Nested e)))"

subsection \<open>The split\<close>

lemma identifier_value:
  "sql_values val col holds \<Longrightarrow> identifier_name l = Some c \<Longrightarrow> val l = (\<lambda>r. col r c)"
proof (induction l rule: identifier_name.induct)
  case (3 parts)
  then have "parts = butlast parts @ [c]" by (auto split: if_splits)
  with 3(1) show ?case by (metis (no_types, lifting) ext sql_values_def)
qed (auto simp: sql_values_def fun_eq_iff)

lemma shape_meaning:
  assumes sem: "sql_values val col holds" "sql_comparisons env ctype op_holds val col holds"
    and "predicate_shape e = Some (c, opr, xs)" "ctype c = Some ty"
    and "collect_options (map (\<lambda>x. lower_literal env x ty) xs) = Some vs"
  shows "holds e r = op_holds opr (col r c) vs"
  using assms(3,5)
proof (induction e rule: predicate_shape.induct)
  case (1 inner)
  then show ?case using sem(1) by (simp add: sql_values_def)
next
  case (2 l bop x)
  then obtain v where "identifier_name l = Some c" "comparison_op bop = Some opr" "lower_literal env x ty = Some v" "vs = [v]"
    by (auto split: option.splits)
  then show ?case
    using sem(2) identifier_value [OF sem(1)] assms(4)
    by (cases bop) (auto simp: sql_comparisons_def comparison_op_def)
next
  case (3 l x)
  then obtain v where "identifier_name l = Some c" "opr = OpLike" "lower_literal env x ty = Some v" "vs = [v]"
    by (auto simp: shape_of_def split: option.splits)
  then show ?case
    using sem(2) identifier_value [OF sem(1)] assms(4) by (simp add: sql_comparisons_def)
next
  case (4 l x)
  then obtain v where "identifier_name l = Some c" "opr = OpRegexp" "lower_literal env x ty = Some v" "vs = [v]"
    by (auto simp: shape_of_def split: option.splits)
  then show ?case
    using sem(2) identifier_value [OF sem(1)] assms(4) by (simp add: sql_comparisons_def)
next
  case (5 l xs')
  then have "identifier_name l = Some c" "opr = OpIn" "xs' = xs"
    by (auto simp: shape_of_def)
  then show ?case
    using sem(2) identifier_value [OF sem(1)] assms(4) "5.prems" by (simp add: sql_comparisons_def)
qed simp_all

text \<open>A pushed predicate means the conjunct it came from.\<close>

lemma lowered_meaning:
  assumes "sql_values val col holds" "sql_comparisons env (declared_type cat t) op_holds val col holds"
    and "collector_conforms cat t op_holds col pushed_holds" "lower_conjunct env cat t e = Some p"
  shows "pushed_holds p r = holds e r"
proof -
  obtain opr xs cd ty where low: "predicate_shape e = Some (pred_column p, opr, xs)"
    "resolve_reference cat t (pred_column p) = Ok cd" "column_type_try_from (column_type cd) = Some ty"
    "collect_options (map (\<lambda>v. lower_literal env v ty) xs) = Some (pred_values p)"
    "pred_op p = op_i32 opr" "is_pushable cat t (pred_column p) opr"
    using assms(4) by (rule lower_conjunct_Some)
  have "declared_type cat t (pred_column p) = Some ty"
    by (simp add: declared_type_def low)
  from shape_meaning [OF assms(1,2) low(1) this low(4), of r] show ?thesis
    using assms(3) low(5,6) by (simp add: collector_conforms_def)
qed

lemma conjuncts_sound:
  assumes "sql_values val col holds"
  shows "holds w r \<longleftrightarrow> (\<forall>e \<in> set (eligible_conjuncts w). holds e r)"
  using assms by (induction w rule: eligible_conjuncts.induct) (auto simp: sql_values_def)

lemma join_and_snoc: "ss \<noteq> [] \<Longrightarrow> join_and (ss @ [s]) = join_and ss @ '' AND '' @ s"
  by (induction ss rule: join_and.induct) auto

text \<open>The text of the residual is read back as a conjunction of what it renders.\<close>

lemma residual_reads_back:
  assumes "sql_grammar env conjs" "sql_values val col holds" "set es \<subseteq> set conjs" "es \<noteq> []"
  shows "\<exists>w. parse_selection env (join_and (map (parenthesized env) es)) = Some w \<and> and_level w
     \<and> (\<forall>r. holds w r \<longleftrightarrow> (\<forall>e \<in> set es. holds e r))"
  using assms(3,4)
proof (induction es rule: rev_induct)
  case (snoc e es)
  show ?case
  proof (cases "es = []")
    case True
    then show ?thesis
      using assms(1,2) snoc.prems by (auto simp: sql_grammar_def sql_values_def)
  next
    case False
    then obtain w where w: "parse_selection env (join_and (map (parenthesized env) es)) = Some w" "and_level w"
      "\<And>r. holds w r \<longleftrightarrow> (\<forall>e \<in> set es. holds e r)"
      using snoc by auto
    have "parse_selection env (join_and (map (parenthesized env) es) @ '' AND '' @ parenthesized env e) =
        Some (BinaryOp w BAnd (Nested e))"
      using assms(1) snoc.prems(1) w(1,2) by (simp add: sql_grammar_def)
    then show ?thesis
      using False assms(2) w(3) by (auto simp: join_and_snoc sql_values_def)
  qed
qed simp

lemma split_list_all:
  "list_all Q (fst (split_conjuncts env cat t es)) \<longleftrightarrow>
     (\<forall>e \<in> set es. \<forall>p. lower_conjunct env cat t e = Some p \<longrightarrow> Q p)"
  by (auto simp: list_all_iff set_pushed)

definition where_holds :: "('x Expr \<Rightarrow> 'row \<Rightarrow> bool) \<Rightarrow> 'x Select \<Rightarrow> 'row \<Rightarrow> bool" where
  "where_holds holds s r = (case selection s of None \<Rightarrow> True | Some w \<Rightarrow> holds w r)"

lemma where_holds_conjuncts:
  assumes "sql_values val col holds"
  shows "where_holds holds s r \<longleftrightarrow> (\<forall>e \<in> set (where_conjuncts s). holds e r)"
  by (cases "selection s")
    (simp_all add: where_holds_def where_conjuncts_def conjuncts_sound [OF assms, symmetric])

definition pushable_predicate :: "SchemaCatalog \<Rightarrow> string \<Rightarrow> Predicate \<Rightarrow> bool" where
  "pushable_predicate cat t p \<longleftrightarrow>
     pred_values p \<noteq> [] \<and> (case op_try_from (pred_op p) of
        None \<Rightarrow> False | Some opr \<Rightarrow> is_pushable cat t (pred_column p) opr)"

lemma lowered_pushable: "lower_conjunct env cat t e = Some p \<Longrightarrow> pushable_predicate cat t p"
  by (erule lower_conjunct_Some) (simp add: pushable_predicate_def)

text \<open>What the plan leaves to the agent, by the text it keeps.\<close>

definition residual_holds :: "'x sql_env \<Rightarrow> ('x Expr \<Rightarrow> 'row \<Rightarrow> bool) \<Rightarrow> string option \<Rightarrow> 'row \<Rightarrow> bool" where
  "residual_holds env holds res r = (case res of None \<Rightarrow> True
     | Some text \<Rightarrow> (case parse_selection env text of None \<Rightarrow> False | Some w \<Rightarrow> holds w r))"

lemma render_residual_holds:
  assumes "sql_grammar env conjs" "sql_values val col holds" "set es \<subseteq> set conjs"
  shows "residual_holds env holds (render_residual env es) r \<longleftrightarrow> (\<forall>e \<in> set es. holds e r)"
proof (cases "es = []")
  case False
  then obtain w where "parse_selection env (join_and (map (parenthesized env) es)) = Some w"
    "\<forall>r. holds w r \<longleftrightarrow> (\<forall>e \<in> set es. holds e r)"
    using residual_reads_back [OF assms] by blast
  with False show ?thesis
    by (simp add: residual_holds_def render_residual_def parenthesized_def [abs_def])
qed (simp add: residual_holds_def render_residual_def)

text \<open>
  Claim C5: splitting a rule is exact. Given the laws of SQL (parentheses, conjunction, columns, and each
  comparison of a column with literals as its operation), a collector that evaluates every predicate over a
  pushable operation as that operation, and a parser that reads a parenthesised conjunct of the rule back and
  groups \<open>AND\<close> as SQL does, a row satisfies the rule's \<open>WHERE\<close> clause exactly when it passes every
  predicate of the plan and the text of the residual, read again as the executor does: the collector
  withholds no row the rule matches, and the agent matches no row the rule does not. Every pushed predicate is
  over an operation the owner advertises and has passed, and the plan is addressed to the owner of its table
  under the rule's own identity.
\<close>

theorem pushdown_split_exact:
  assumes plan: "plan_rule env cat rule depth = Ok c"
    and statement: "parse_single_select env (sql_query rule) = Ok (Query False (SelectBody s) x)"
    and sem: "sql_values val col holds" "sql_comparisons env (declared_type cat (plan_table (plan c))) op_holds val col holds"
    and conforms: "collector_conforms cat (plan_table (plan c)) op_holds col pushed_holds"
    and grammar: "sql_grammar env (where_conjuncts s)"
  shows "(\<forall>r. where_holds holds s r \<longleftrightarrow>
             list_all (\<lambda>p. pushed_holds p r) (predicates (plan c)) \<and> residual_holds env holds (residual c) r)
    \<and> list_all (pushable_predicate cat (plan_table (plan c))) (predicates (plan c))
    \<and> owner_of cat (plan_table (plan c)) = Some (plan_collector c) \<and> rule_id c = id_raw rule"
proof -
  from plan obtain t where t: "plan_table (plan c) = t"
    and ps: "predicates (plan c) = fst (split_conjuncts env cat t (where_conjuncts s))"
    and res: "residual c = render_residual env (snd (split_conjuncts env cat t (where_conjuncts s)))"
    by (rule plan_rule_Ok) (use statement in auto)
  let ?rest = "filter (\<lambda>e. lower_conjunct env cat t e = None) (where_conjuncts s)"
  have rest: "residual_holds env holds (residual c) r \<longleftrightarrow> (\<forall>e \<in> set ?rest. holds e r)" for r
    unfolding res split_conjuncts_eq snd_conv by (rule render_residual_holds [OF grammar sem(1)]) simp
  have "where_holds holds s r \<longleftrightarrow>
      list_all (\<lambda>p. pushed_holds p r) (predicates (plan c)) \<and> residual_holds env holds (residual c) r" for r
  proof -
    have "where_holds holds s r \<longleftrightarrow> (\<forall>e \<in> set (where_conjuncts s). holds e r)"
      by (rule where_holds_conjuncts [OF sem(1)])
    also have "\<dots> \<longleftrightarrow> (\<forall>e \<in> set (where_conjuncts s). \<forall>p. lower_conjunct env cat t e = Some p \<longrightarrow> pushed_holds p r)
        \<and> (\<forall>e \<in> set ?rest. holds e r)"
      using lowered_meaning [OF sem conforms, unfolded t] by auto
    finally show ?thesis
      by (simp add: ps split_list_all rest)
  qed
  moreover have "list_all (pushable_predicate cat t) (predicates (plan c))"
    using lowered_pushable by (auto simp: ps split_list_all)
  ultimately show ?thesis
    using plan_references [OF plan] t by blast
qed

subsection \<open>An example\<close>

text \<open>\<open>SELECT name FROM processes WHERE name LIKE 'a%' AND (name = 'b')\<close>; only \<open>LIKE\<close> has passed.\<close>

definition demo_catalog :: SchemaCatalog where
  "demo_catalog =
     \<lparr>descriptors = [(''procmond'', (name_like True)\<lparr>conformance_results := []\<rparr>)],
      owners = [(''processes'', ''procmond'')], conformance = {(''procmond'', ''processes'', ''name'', 8)}\<rparr>"

definition demo_select :: "unit Select" where
  "demo_select =
     \<lparr>from_items = [\<lparr>relation = TableFactorTable ''processes'', joins = 0\<rparr>],
      projection_items = [UnnamedExpr (Identifier ''name'')],
      selection = Some (BinaryOp
        (LikeExpr False False (Identifier ''name'') (Value (SingleQuotedString ''a%'')) None) BAnd
        (Nested (BinaryOp (Identifier ''name'') BEq (Value (SingleQuotedString ''b''))))),
      select_rest = ()\<rparr>"

text \<open>
  A parser for the texts of the example: the pieces between closing parentheses, the first a conjunct and
  every later one \<open>AND\<close> and a conjunct, grouped to the left.
\<close>

fun demo_pieces :: "string \<Rightarrow> string list" where
  "demo_pieces [] = [[]]"
| "demo_pieces (c # cs) =
     (if c = CHR '')'' then [] # demo_pieces cs
      else (c # hd (demo_pieces cs)) # tl (demo_pieces cs))"

definition demo_conjunct :: "string \<Rightarrow> unit Expr option" where
  "demo_conjunct piece =
     (if piece = ''(name = b'' then Some (BinaryOp (Identifier ''name'') BEq (Value (SingleQuotedString ''b'')))
      else if piece = ''(name LIKE a'' then
        Some (LikeExpr False False (Identifier ''name'') (Value (SingleQuotedString ''a%'')) None)
      else None)"

fun demo_and :: "unit Expr \<Rightarrow> string list \<Rightarrow> unit Expr option" where
  "demo_and w [] = None"
| "demo_and w (p # ps) =
     (if p = [] \<and> ps = [] then Some w
      else if take 5 p = '' AND '' then
        (case demo_conjunct (drop 5 p) of None \<Rightarrow> None | Some e \<Rightarrow> demo_and (BinaryOp w BAnd (Nested e)) ps)
      else None)"

definition demo_parse :: "string \<Rightarrow> unit Expr option" where
  "demo_parse text = (case demo_conjunct (hd (demo_pieces text)) of
     None \<Rightarrow> None | Some e \<Rightarrow> demo_and (Nested e) (tl (demo_pieces text)))"

definition demo_env :: "unit sql_env" where
  "demo_env =
     \<lparr>parse_statements = (\<lambda>text. Ok [Query False (SelectBody
        (if take 22 text = ''SELECT 1 FROM t WHERE '' then demo_select\<lparr>selection := demo_parse (drop 22 text)\<rparr>
         else demo_select)) ()]),
      display_expr = (\<lambda>e. if (case e of LikeExpr _ _ _ _ _ \<Rightarrow> True | _ \<Rightarrow> False) then ''name LIKE a'' else ''name = b''), visit_expr = (\<lambda>e. [e]), visit_select = (\<lambda>_. []),
      visit_statement = (\<lambda>_. [Identifier ''name'']), visit_relations = (\<lambda>_. [''processes'']),
      trailing_clause = (\<lambda>_. False), validate_detection_sql = (\<lambda>_ _. Ok ()), get_or_compile = (\<lambda>_. Ok ()), parse_f64 = (\<lambda>_. None)\<rparr>"

definition demo_rule :: DetectionRule where
  "demo_rule = \<lparr>id_raw = ''r1'', sql_query = ''SELECT'', enabled = True\<rparr>"

definition demo_plan :: CompiledRule where
  "demo_plan =
     \<lparr>rule_id = ''r1'', plan_collector = ''procmond'',
      plan = \<lparr>plan_table = ''processes'',
        predicates = [\<lparr>pred_column = ''name'', pred_op = 8, pred_values = [StringValue ''a%'']\<rparr>],
        projection = [''name''], ttl_ms = 300000\<rparr>,
      residual = Some ''(name = b)'', references = {(''processes'', ''name'')}\<rparr>"

lemmas plan_eval =
  plan_rule_def plan_select_def parse_single_select_def collect_regex_patterns_def single_table_def
  compile_rule_patterns_def validate_sql_with_depth_def collect_tables_def unknown_table_def owner_of_def
  resolve_all_references_def collect_identifiers_def expr_identifier_def resolve_reference_def
  has_subquery_def is_subquery_def check_literal_types_def literal_mismatch_def literal_comparison_def
  where_conjuncts_def lower_conjunct_def shape_of_def comparison_op_def column_type_try_from_def
  lower_literal_def render_residual_def build_projection_def ttl_millis_def

lemma demo_planned: "plan_rule demo_env demo_catalog demo_rule 3 = Ok demo_plan"
  by (simp add: demo_env_def demo_rule_def demo_plan_def demo_select_def demo_catalog_def name_like_def
      plan_eval catalog_eval)

lemma demo_statement: "parse_single_select demo_env (sql_query demo_rule) = Ok (Query False (SelectBody demo_select) ())"
  by (simp add: parse_single_select_def demo_env_def demo_rule_def)

text \<open>A row is its name; only strings are compared.\<close>

fun demo_val :: "unit Expr \<Rightarrow> string \<Rightarrow> string option" where
  "demo_val (Nested e) r = demo_val e r"
| "demo_val (Identifier c) r = Some r"
| "demo_val (CompoundIdentifier cs) r = Some r"
| "demo_val _ r = None"

definition demo_op :: "PredicateOp \<Rightarrow> string option \<Rightarrow> Literal list \<Rightarrow> bool" where
  "demo_op opr v ts = (case (v, ts) of
     (Some s, StringValue t # _) \<Rightarrow>
       if opr = OpEq then s = t
       else if opr = OpNe then s \<noteq> t
       else if opr = OpLike then
         if t \<noteq> [] \<and> last t = CHR ''%'' then prefix (butlast t) s else s = t
       else opr = OpIn \<and> StringValue s \<in> set ts
   | _ \<Rightarrow> False)"

definition demo_compare :: "PredicateOp \<Rightarrow> unit Expr \<Rightarrow> unit Expr list \<Rightarrow> string \<Rightarrow> bool" where
  "demo_compare opr l xs r =
     (case collect_options (map (\<lambda>x. lower_literal demo_env x TyString) xs) of
        None \<Rightarrow> False | Some vs \<Rightarrow> demo_op opr (demo_val l r) vs)"

fun demo_holds :: "unit Expr \<Rightarrow> string \<Rightarrow> bool" where
  "demo_holds (Nested e) r = demo_holds e r"
| "demo_holds (BinaryOp a bop b) r =
     (if bop = BAnd then demo_holds a r \<and> demo_holds b r
      else case comparison_op bop of None \<Rightarrow> False | Some opr \<Rightarrow> demo_compare opr a [b] r)"
| "demo_holds (LikeExpr n any_of l x esc) r = demo_compare OpLike l [x] r"
| "demo_holds (RLike n l x re) r = demo_compare OpRegexp l [x] r"
| "demo_holds (InList l xs n) r = demo_compare OpIn l xs r"
| "demo_holds _ r = False"

definition demo_pushed :: "Predicate \<Rightarrow> string \<Rightarrow> bool" where
  "demo_pushed p r = (case op_try_from (pred_op p) of
     None \<Rightarrow> False | Some opr \<Rightarrow> demo_op opr (Some r) (pred_values p))"

lemma demo_sql_values: "sql_values demo_val (\<lambda>r c. Some r) demo_holds"
  by (simp add: sql_values_def)

lemma demo_type: "declared_type demo_catalog ''processes'' c = Some ty \<Longrightarrow> ty = TyString"
  by (auto simp: declared_type_def demo_catalog_def name_like_def resolve_reference_def column_type_try_from_def
      catalog_eval split: if_splits)

lemma demo_comparisons:
  "sql_comparisons demo_env (declared_type demo_catalog ''processes'') demo_op demo_val (\<lambda>r c. Some r) demo_holds"
  by (auto simp: sql_comparisons_def demo_compare_def comparison_op_def dest!: demo_type)

lemma demo_collector: "collector_conforms demo_catalog ''processes'' demo_op (\<lambda>r c. Some r) demo_pushed"
  by (simp add: collector_conforms_def demo_pushed_def)

lemma demo_pieces_nonempty [simp]: "demo_pieces s \<noteq> []"
  by (cases s) auto

lemma demo_pieces_append:
  "demo_pieces (s @ t) =
     butlast (demo_pieces s) @ (last (demo_pieces s) @ hd (demo_pieces t)) # tl (demo_pieces t)"
proof (induction s)
  case (Cons c s)
  then show ?case
    by (cases "demo_pieces s") simp_all
qed simp

lemma demo_and_snoc:
  "demo_and w ps = Some v \<Longrightarrow> demo_conjunct g = Some e \<Longrightarrow>
     ps \<noteq> [] \<and> last ps = [] \<and> demo_and w (butlast ps @ ['' AND '' @ g, []]) = Some (BinaryOp v BAnd (Nested e))"
  by (induction w ps rule: demo_and.induct) (auto split: if_splits option.splits)

lemma demo_parse_snoc:
  assumes "demo_parse text = Some w" "demo_conjunct g = Some e" "demo_pieces t = ['' AND '' @ g, []]"
  shows "demo_parse (text @ t) = Some (BinaryOp w BAnd (Nested e))"
proof -
  obtain p ps where ps: "demo_pieces text = p # ps"
    using demo_pieces_nonempty by (meson list.exhaust)
  obtain e' where e': "demo_conjunct p = Some e'" "demo_and (Nested e') ps = Some w"
    using assms(1) ps by (auto simp: demo_parse_def split: option.splits)
  from demo_and_snoc [OF e'(2) assms(2)] show ?thesis
    using ps e'(1) by (simp add: demo_parse_def demo_pieces_append assms(3))
qed

lemma demo_parse_selection: "parse_selection demo_env text = demo_parse text"
  by (simp add: parse_selection_def demo_env_def)

lemma demo_grammar: "sql_grammar demo_env (where_conjuncts demo_select)"
proof -
  have "e \<in> set (where_conjuncts demo_select) \<Longrightarrow> \<exists>g. demo_conjunct g = Some e
      \<and> demo_pieces ('' AND '' @ parenthesized demo_env e) = ['' AND '' @ g, []]
      \<and> demo_parse (parenthesized demo_env e) = Some (Nested e)" for e
    by (auto simp: where_conjuncts_def demo_select_def demo_conjunct_def parenthesized_def demo_env_def demo_parse_def)
  then show ?thesis
    unfolding sql_grammar_def demo_parse_selection by (blast intro: demo_parse_snoc)
qed

theorem pushdown_split_exact_witness:
  "plan_rule demo_env demo_catalog demo_rule 3 = Ok demo_plan
   \<and> (\<forall>r. where_holds demo_holds demo_select r \<longleftrightarrow>
         list_all (\<lambda>p. demo_pushed p r) (predicates (plan demo_plan))
         \<and> residual_holds demo_env demo_holds (residual demo_plan) r)
   \<and> list_all (pushable_predicate demo_catalog ''processes'') (predicates (plan demo_plan))"
proof -
  have t: "plan_table (plan demo_plan) = ''processes''"
    by (simp add: demo_plan_def)
  show ?thesis
    using pushdown_split_exact [OF demo_planned demo_statement demo_sql_values demo_comparisons [folded t]
        demo_collector [folded t] demo_grammar]
      demo_planned
    unfolding t by blast
qed

end
