(* ===== verification/Pushdown_Tasks.thy ===== *)
theory Pushdown_Tasks
  imports Rule_Planner
begin

text \<open>
  The collector's side of a pushed task, \<^verbatim>\<open>collector-core/src/pushdown.rs\<close>: validation of a plan
  against the descriptor the collector registered, and the lifetime of the tasks it accepted; with the wire
  form of descriptors, \<^verbatim>\<open>daemoneye-eventbus/src/rpc/descriptor.rs\<close>, and their conversion by
  \<^verbatim>\<open>daemoneye-agent/src/collector_admission.rs\<close>.

  Times are nanoseconds since the epoch. The compilation of a pattern (the crate \<open>regex\<close> behind the pattern
  cache) is a parameter.
\<close>

section \<open>Descriptors on the wire\<close>

record WireColumn =
  wc_name :: string
  wc_type :: ColumnType
  wc_nullable :: bool
  wc_ops :: "PredicateOp list"

record WireTable =
  wt_name :: string
  wt_columns :: "WireColumn list"

record WireResult =
  wr_table :: string
  wr_column :: string
  wr_op :: PredicateOp
  wr_passed :: bool

record WireDescriptor =
  wd_collector_id :: string
  wd_version :: string
  wd_tables :: "WireTable list"
  wd_results :: "WireResult list"

definition op_wire_name :: "PredicateOp \<Rightarrow> string" where
  "op_wire_name p = (case p of
     OpUnspecified \<Rightarrow> ''PREDICATE_OP_UNSPECIFIED'' | OpEq \<Rightarrow> ''PREDICATE_OP_EQ'' | OpNe \<Rightarrow> ''PREDICATE_OP_NE''
   | OpLt \<Rightarrow> ''PREDICATE_OP_LT'' | OpLe \<Rightarrow> ''PREDICATE_OP_LE'' | OpGt \<Rightarrow> ''PREDICATE_OP_GT''
   | OpGe \<Rightarrow> ''PREDICATE_OP_GE'' | OpIn \<Rightarrow> ''PREDICATE_OP_IN'' | OpLike \<Rightarrow> ''PREDICATE_OP_LIKE''
   | OpRegexp \<Rightarrow> ''PREDICATE_OP_REGEXP'')"

definition op_from_string :: "string \<Rightarrow> PredicateOp" where
  "op_from_string s =
     (if s = ''PREDICATE_OP_EQ'' then OpEq else if s = ''PREDICATE_OP_NE'' then OpNe
      else if s = ''PREDICATE_OP_LT'' then OpLt else if s = ''PREDICATE_OP_LE'' then OpLe
      else if s = ''PREDICATE_OP_GT'' then OpGt else if s = ''PREDICATE_OP_GE'' then OpGe
      else if s = ''PREDICATE_OP_IN'' then OpIn else if s = ''PREDICATE_OP_LIKE'' then OpLike
      else if s = ''PREDICATE_OP_REGEXP'' then OpRegexp else OpUnspecified)"

lemma op_wire_roundtrip: "op_from_string (op_wire_name p) = p"
  by (cases p) (simp_all add: op_wire_name_def op_from_string_def)

definition type_wire_name :: "ColumnType \<Rightarrow> string" where
  "type_wire_name t = (case t of
     TyUnspecified \<Rightarrow> ''COLUMN_TYPE_UNSPECIFIED'' | TyString \<Rightarrow> ''COLUMN_TYPE_STRING'' | TyInt \<Rightarrow> ''COLUMN_TYPE_INT''
   | TyUint \<Rightarrow> ''COLUMN_TYPE_UINT'' | TyFloat \<Rightarrow> ''COLUMN_TYPE_FLOAT'' | TyBool \<Rightarrow> ''COLUMN_TYPE_BOOL'')"

definition type_from_string :: "string \<Rightarrow> ColumnType" where
  "type_from_string s =
     (if s = ''COLUMN_TYPE_STRING'' then TyString else if s = ''COLUMN_TYPE_INT'' then TyInt
      else if s = ''COLUMN_TYPE_UINT'' then TyUint else if s = ''COLUMN_TYPE_FLOAT'' then TyFloat
      else if s = ''COLUMN_TYPE_BOOL'' then TyBool else TyUnspecified)"

lemma type_wire_roundtrip: "type_from_string (type_wire_name t) = t"
  by (cases t) (simp_all add: type_wire_name_def type_from_string_def)

text \<open>Both sides have the same operations, so the three conversions only refuse the unset value.\<close>

definition descriptor_op :: "PredicateOp \<Rightarrow> PredicateOp option" where
  "descriptor_op p = (case p of OpEq \<Rightarrow> Some OpEq | OpNe \<Rightarrow> Some OpNe | OpLt \<Rightarrow> Some OpLt | OpLe \<Rightarrow> Some OpLe
     | OpGt \<Rightarrow> Some OpGt | OpGe \<Rightarrow> Some OpGe | OpIn \<Rightarrow> Some OpIn | OpLike \<Rightarrow> Some OpLike
     | OpRegexp \<Rightarrow> Some OpRegexp | OpUnspecified \<Rightarrow> None)"

definition proto_op :: "PredicateOp \<Rightarrow> PredicateOp option" where
  "proto_op p = (case p of OpEq \<Rightarrow> Some OpEq | OpNe \<Rightarrow> Some OpNe | OpLt \<Rightarrow> Some OpLt | OpLe \<Rightarrow> Some OpLe
     | OpGt \<Rightarrow> Some OpGt | OpGe \<Rightarrow> Some OpGe | OpIn \<Rightarrow> Some OpIn | OpLike \<Rightarrow> Some OpLike
     | OpRegexp \<Rightarrow> Some OpRegexp | OpUnspecified \<Rightarrow> None)"

definition proto_column_type :: "ColumnType \<Rightarrow> ColumnType option" where
  "proto_column_type t = (case t of TyString \<Rightarrow> Some TyString | TyInt \<Rightarrow> Some TyInt | TyUint \<Rightarrow> Some TyUint
     | TyFloat \<Rightarrow> Some TyFloat | TyBool \<Rightarrow> Some TyBool | TyUnspecified \<Rightarrow> None)"

definition column_type_value :: "ColumnType \<Rightarrow> int" where
  "column_type_value t =
     column_type_i32 (case proto_column_type t of Some ty \<Rightarrow> ty | None \<Rightarrow> TyUnspecified)"

definition op_value :: "PredicateOp \<Rightarrow> int" where
  "op_value p = op_i32 (case proto_op p of Some q \<Rightarrow> q | None \<Rightarrow> OpUnspecified)"

definition to_proto_column :: "WireColumn \<Rightarrow> ColumnDescriptor" where
  "to_proto_column w =
     \<lparr>col_name = wc_name w, column_type = column_type_value (wc_type w), nullable = wc_nullable w,
      supported_ops = map op_value (wc_ops w)\<rparr>"

definition to_proto_conformance_result :: "WireResult \<Rightarrow> ConformanceResult" where
  "to_proto_conformance_result w =
     \<lparr>res_table = wr_table w, res_column = wr_column w, res_op = op_value (wr_op w), passed = wr_passed w\<rparr>"

definition to_proto_table :: "WireTable \<Rightarrow> TableDescriptor" where
  "to_proto_table w = \<lparr>tbl_name = wt_name w, columns = map to_proto_column (wt_columns w)\<rparr>"

definition to_proto_descriptor :: "WireDescriptor \<Rightarrow> SchemaDescriptor" where
  "to_proto_descriptor w =
     \<lparr>collector_id = wd_collector_id w, descriptor_version = wd_version w,
      tables = map to_proto_table (wd_tables w),
      conformance_results = map to_proto_conformance_result (wd_results w)\<rparr>"

section \<open>Tasks\<close>

definition MAX_PREDICATES_PER_PLAN :: nat where "MAX_PREDICATES_PER_PLAN = 64"
definition MAX_PROJECTION_COLUMNS :: nat where "MAX_PROJECTION_COLUMNS = MAX_COLUMNS_PER_TABLE"
definition MAX_IN_VALUES :: nat where "MAX_IN_VALUES = 256"
definition PUSHDOWN_TASK_TTL_MS :: nat where "PUSHDOWN_TASK_TTL_MS = 5 * 60 * 1000"

text \<open>The filters of other kinds of tasks are absent from a pushdown task and not read.\<close>

record DetectionTask =
  task_id_of :: string
  pushdown_plan :: "PushdownPlan option"

definition new_pushdown :: "string \<Rightarrow> PushdownPlan \<Rightarrow> DetectionTask" where
  "new_pushdown tid pl = \<lparr>task_id_of = tid, pushdown_plan = Some pl\<rparr>"

datatype PushdownRejection =
    MissingPlan
  | MissingTaskId
  | PlanIdentifierTooLong nat
  | PlanUnknownTable string
  | PlanUnknownColumn string string
  | UnspecifiedOperation string
  | UnsupportedOperation string string
  | InvalidArity string string nat
  | PlanLiteralTypeMismatch string string string
  | NullLiteralOnNonNullable string
  | PatternRejected string RegexRejection
  | PlanTooLarge string nat nat
  | InvalidTtl u64

datatype TaskStatus = TaskUnknown | TaskActive | TaskExpired

record AcceptedTask =
  accepted_plan :: PushdownPlan
  deadline :: nat

record PushdownTasks =
  task_descriptor :: WireDescriptor
  accepted :: "(string, AcceptedTask) hash_map"

definition PushdownTasks_new :: "WireDescriptor \<Rightarrow> PushdownTasks" where
  "PushdownTasks_new w = \<lparr>task_descriptor = w, accepted = []\<rparr>"

text \<open>\<open>SystemTime::checked_add\<close>: a time is representable below $2^{63}$ seconds.\<close>

definition checked_add_time :: "nat \<Rightarrow> nat \<Rightarrow> nat option" where
  "checked_add_time now d = (if now + d < 2 ^ 63 * 1000000000 then Some (now + d) else None)"

subsection \<open>Structural bounds\<close>

definition check_count :: "string \<Rightarrow> nat \<Rightarrow> nat \<Rightarrow> (unit, PushdownRejection) result" where
  "check_count what n limit = (if n > limit then Err (PlanTooLarge what n limit) else Ok ())"

definition check_plan_identifier :: "string \<Rightarrow> (unit, PushdownRejection) result" where
  "check_plan_identifier s =
     (if length s > MAX_IDENTIFIER_LENGTH then Err (PlanIdentifierTooLong (length s)) else Ok ())"

text \<open>A \<open>for\<close> loop whose body may return an error.\<close>

fun for_each :: "('a \<Rightarrow> (unit, 'e) result) \<Rightarrow> 'a list \<Rightarrow> (unit, 'e) result" where
  "for_each f [] = Ok ()"
| "for_each f (x # xs) = (case f x of Err e \<Rightarrow> Err e | Ok _ \<Rightarrow> for_each f xs)"

text \<open>The duration in nanoseconds.\<close>

definition validate_ttl :: "u64 \<Rightarrow> (nat, PushdownRejection) result" where
  "validate_ttl ms =
     (if ms = 0 \<or> unat ms > PUSHDOWN_TASK_TTL_MS then Err (InvalidTtl ms) else Ok (unat ms * 1000000))"

definition validate_bounds :: "DetectionTask \<Rightarrow> (unit, PushdownRejection) result" where
  "validate_bounds task =
     (case pushdown_plan task of None \<Rightarrow> Err MissingPlan | Some pl \<Rightarrow>
      if task_id_of task = [] then Err MissingTaskId else
     (case check_plan_identifier (task_id_of task) of Err e \<Rightarrow> Err e | Ok _ \<Rightarrow>
     (case check_count ''predicates'' (length (predicates pl)) MAX_PREDICATES_PER_PLAN of Err e \<Rightarrow> Err e | Ok _ \<Rightarrow>
     (case check_count ''projected columns'' (length (projection pl)) MAX_PROJECTION_COLUMNS of
        Err e \<Rightarrow> Err e | Ok _ \<Rightarrow>
     (case check_plan_identifier (plan_table pl) of Err e \<Rightarrow> Err e | Ok _ \<Rightarrow>
     (case for_each (\<lambda>p. check_plan_identifier (pred_column p)) (predicates pl) of Err e \<Rightarrow> Err e | Ok _ \<Rightarrow>
     (case for_each check_plan_identifier (projection pl) of Err e \<Rightarrow> Err e | Ok _ \<Rightarrow>
      map_sum (\<lambda>e. e) (\<lambda>_. ()) (validate_ttl (ttl_ms pl)))))))))"

subsection \<open>Against the descriptor\<close>

definition find_wire_column :: "WireTable \<Rightarrow> string \<Rightarrow> (WireColumn, PushdownRejection) result" where
  "find_wire_column t c =
     (case List.find (\<lambda>candidate. wc_name candidate = c) (wt_columns t) of
        None \<Rightarrow> Err (PlanUnknownColumn (wt_name t) c) | Some w \<Rightarrow> Ok w)"

definition predicate_op :: "Predicate \<Rightarrow> PredicateOp" where
  "predicate_op p = (case op_try_from (pred_op p) of None \<Rightarrow> OpUnspecified | Some q \<Rightarrow> q)"

definition literal_kind :: "Literal \<Rightarrow> string" where
  "literal_kind l = (case l of StringValue _ \<Rightarrow> ''string'' | IntValue _ \<Rightarrow> ''int'' | UintValue _ \<Rightarrow> ''uint''
     | FloatValue _ \<Rightarrow> ''float'' | BoolValue _ \<Rightarrow> ''bool'' | NullValue _ \<Rightarrow> ''null'' | UnsetLiteral \<Rightarrow> ''unset'')"

definition literal_matches_type :: "Literal \<Rightarrow> ColumnType \<Rightarrow> bool" where
  "literal_matches_type l t = (case (t, l) of
     (TyString, StringValue _) \<Rightarrow> True | (TyInt, IntValue _) \<Rightarrow> True | (TyUint, UintValue _) \<Rightarrow> True
   | (TyFloat, FloatValue _) \<Rightarrow> True | (TyBool, BoolValue _) \<Rightarrow> True | _ \<Rightarrow> False)"

definition check_literal :: "WireColumn \<Rightarrow> Literal \<Rightarrow> (unit, PushdownRejection) result" where
  "check_literal w l =
     (case l of
        UnsetLiteral \<Rightarrow> Err (PlanLiteralTypeMismatch (wc_name w) (type_wire_name (wc_type w)) ''unset'')
      | NullValue _ \<Rightarrow> if wc_nullable w then Ok () else Err (NullLiteralOnNonNullable (wc_name w))
      | _ \<Rightarrow> if literal_matches_type l (wc_type w) then Ok ()
             else Err (PlanLiteralTypeMismatch (wc_name w) (type_wire_name (wc_type w)) (literal_kind l)))"

definition validate_predicate :: "WireTable \<Rightarrow> Predicate \<Rightarrow> (unit, PushdownRejection) result" where
  "validate_predicate t p =
     (case check_plan_identifier (pred_column p) of Err e \<Rightarrow> Err e | Ok _ \<Rightarrow>
     (case find_wire_column t (pred_column p) of Err e \<Rightarrow> Err e | Ok w \<Rightarrow>
     (case descriptor_op (predicate_op p) of None \<Rightarrow> Err (UnspecifiedOperation (pred_column p)) | Some q \<Rightarrow>
      if q \<notin> set (wc_ops w) then Err (UnsupportedOperation (pred_column p) (op_wire_name q)) else
      let n = length (pred_values p) in
     (case (if q = OpIn
            then (case check_count ''IN values'' n MAX_IN_VALUES of Err e \<Rightarrow> Err e | Ok _ \<Rightarrow> Ok (n \<ge> 1))
            else Ok (n = 1)) of
        Err e \<Rightarrow> Err e
      | Ok arity_ok \<Rightarrow>
          if \<not> arity_ok then Err (InvalidArity (pred_column p) (op_wire_name q) n)
          else for_each (check_literal w) (pred_values p)))))"

definition validate_plan :: "WireDescriptor \<Rightarrow> PushdownPlan \<Rightarrow> (unit, PushdownRejection) result" where
  "validate_plan d pl =
     (case List.find (\<lambda>candidate. wt_name candidate = plan_table pl) (wd_tables d) of
        None \<Rightarrow> Err (PlanUnknownTable (plan_table pl))
      | Some t \<Rightarrow>
        (case for_each (validate_predicate t) (predicates pl) of
           Err e \<Rightarrow> Err e
         | Ok _ \<Rightarrow> for_each (\<lambda>c. map_sum (\<lambda>e. e) (\<lambda>_. ()) (find_wire_column t c)) (projection pl)))"

subsection \<open>Patterns\<close>

definition is_ascii_punctuation :: "char \<Rightarrow> bool" where
  "is_ascii_punctuation c \<longleftrightarrow> (let n = (of_char c :: nat) in
     33 \<le> n \<and> n \<le> 47 \<or> 58 \<le> n \<and> n \<le> 64 \<or> 91 \<le> n \<and> n \<le> 96 \<or> 123 \<le> n \<and> n \<le> 126)"

definition like_char :: "char \<Rightarrow> string" where
  "like_char c =
     (if c = CHR ''%'' then ''.*'' else if c = CHR ''_'' then ''.''
      else if is_ascii_punctuation c then [CHR 0x5C, c] else [c])"

definition like_to_regex :: "string \<Rightarrow> string" where
  "like_to_regex s = ''(?s)^'' @ concat (map like_char s) @ ''$''"

definition pattern_text :: "Predicate \<Rightarrow> (string, PushdownRejection) result" where
  "pattern_text p =
     (case pred_values p of
        StringValue text # _ \<Rightarrow> Ok text
      | l # _ \<Rightarrow> Err (PlanLiteralTypeMismatch (pred_column p) (type_wire_name TyString) (literal_kind l))
      | [] \<Rightarrow> Err (PlanLiteralTypeMismatch (pred_column p) (type_wire_name TyString) ''unset''))"

definition pattern_source :: "Predicate \<Rightarrow> (string, PushdownRejection) result" where
  "pattern_source p =
     (case pattern_text p of Err e \<Rightarrow> Err e | Ok source \<Rightarrow>
      (case predicate_op p of
         OpLike \<Rightarrow> Ok (like_to_regex source)
       | OpRegexp \<Rightarrow> Ok source
       | _ \<Rightarrow> Err (UnspecifiedOperation (pred_column p))))"

definition compile_pattern ::
    "(string \<Rightarrow> (unit, RegexRejection) result) \<Rightarrow> Predicate \<Rightarrow> (unit, PushdownRejection) result" where
  "compile_pattern compile p =
     (if predicate_op p \<noteq> OpLike \<and> predicate_op p \<noteq> OpRegexp then Ok ()
      else (case pattern_source p of Err e \<Rightarrow> Err e | Ok source \<Rightarrow>
        map_sum (PatternRejected (pred_column p)) (\<lambda>_. ()) (compile source)))"

definition compile_patterns ::
    "(string \<Rightarrow> (unit, RegexRejection) result) \<Rightarrow> PushdownPlan \<Rightarrow> (unit, PushdownRejection) result" where
  "compile_patterns compile pl = for_each (compile_pattern compile) (predicates pl)"

subsection \<open>Acceptance and lifetime\<close>

definition record_task :: "string \<Rightarrow> PushdownPlan \<Rightarrow> nat \<Rightarrow> nat \<Rightarrow> PushdownTasks \<Rightarrow> PushdownTasks" where
  "record_task tid pl dl now ts =
     ts\<lparr>accepted := hm_insert tid \<lparr>accepted_plan = pl, deadline = dl\<rparr>
                     (filter (\<lambda>(_, t). deadline t > now) (accepted ts))\<rparr>"

definition accept ::
    "(string \<Rightarrow> (unit, RegexRejection) result) \<Rightarrow> DetectionTask \<Rightarrow> nat \<Rightarrow> PushdownTasks \<Rightarrow>
     (unit, PushdownRejection) result \<times> PushdownTasks" where
  "accept compile task now ts =
     (case validate_bounds task of Err e \<Rightarrow> (Err e, ts) | Ok _ \<Rightarrow>
     (case pushdown_plan task of None \<Rightarrow> (Err MissingPlan, ts) | Some pl \<Rightarrow>
     (case validate_plan (task_descriptor ts) pl of Err e \<Rightarrow> (Err e, ts) | Ok _ \<Rightarrow>
     (case compile_patterns compile pl of Err e \<Rightarrow> (Err e, ts) | Ok _ \<Rightarrow>
     (case validate_ttl (ttl_ms pl) of Err e \<Rightarrow> (Err e, ts) | Ok ttl \<Rightarrow>
     (case checked_add_time now ttl of None \<Rightarrow> (Err (InvalidTtl (ttl_ms pl)), ts) | Some dl \<Rightarrow>
      (Ok (), record_task (task_id_of task) pl dl now ts)))))))"

definition task_status :: "string \<Rightarrow> nat \<Rightarrow> PushdownTasks \<Rightarrow> TaskStatus" where
  "task_status tid now ts =
     (case hm_get (accepted ts) tid of
        None \<Rightarrow> TaskUnknown | Some t \<Rightarrow> if deadline t > now then TaskActive else TaskExpired)"

definition active_plan :: "string \<Rightarrow> nat \<Rightarrow> PushdownTasks \<Rightarrow> PushdownPlan option" where
  "active_plan tid now ts =
     (case hm_get (accepted ts) tid of
        None \<Rightarrow> None | Some t \<Rightarrow> if deadline t > now then Some (accepted_plan t) else None)"

definition active_count :: "nat \<Rightarrow> PushdownTasks \<Rightarrow> nat" where
  "active_count now ts = length (filter (\<lambda>(_, t). deadline t > now) (accepted ts))"

section \<open>A task is accepted whole or refused whole, and ends with its lifetime\<close>

lemma for_each_Ok: "for_each f xs = Ok u \<longleftrightarrow> (\<forall>x \<in> set xs. is_ok (f x))"
  by (induction xs) (auto split: sum.splits)

lemma is_ok_for_each: "is_ok (for_each f xs) \<longleftrightarrow> (\<forall>x \<in> set xs. is_ok (f x))"
  using for_each_Ok [of f xs] by (metis is_okE is_ok_simps(1))

lemma is_ok_map_sum [simp]: "is_ok (map_sum f g r) = is_ok r"
  by (cases r) simp_all

text \<open>The \<open>?\<close> operator after a check: both steps have to succeed.\<close>

lemma is_ok_bind_unit: "is_ok (case r of Err e \<Rightarrow> Err e | Ok u \<Rightarrow> f u) \<longleftrightarrow> is_ok r \<and> is_ok (f ())"
  by (cases r) simp_all

definition column_of :: "WireTable \<Rightarrow> string \<Rightarrow> WireColumn option" where
  "column_of t c = List.find (\<lambda>w. wc_name w = c) (wt_columns t)"

definition table_of :: "WireDescriptor \<Rightarrow> string \<Rightarrow> WireTable option" where
  "table_of d n = List.find (\<lambda>t. wt_name t = n) (wd_tables d)"

text \<open>What a predicate has to be, stated without an order of checks.\<close>

definition predicate_conforms :: "WireTable \<Rightarrow> Predicate \<Rightarrow> bool" where
  "predicate_conforms t p \<longleftrightarrow>
     length (pred_column p) \<le> MAX_IDENTIFIER_LENGTH
     \<and> (\<exists>w. column_of t (pred_column p) = Some w
          \<and> predicate_op p \<noteq> OpUnspecified \<and> predicate_op p \<in> set (wc_ops w)
          \<and> list_all (\<lambda>l. is_ok (check_literal w l)) (pred_values p))
     \<and> (if predicate_op p = OpIn then 1 \<le> length (pred_values p) \<and> length (pred_values p) \<le> MAX_IN_VALUES
        else length (pred_values p) = 1)"

lemma descriptor_op_eq: "descriptor_op p = (if p = OpUnspecified then None else Some p)"
  by (cases p) (simp_all add: descriptor_op_def)

lemma proto_op_eq: "proto_op p = (if p = OpUnspecified then None else Some p)"
  by (cases p) (simp_all add: proto_op_def)

lemma is_ok_validate_predicate: "is_ok (validate_predicate t p) \<longleftrightarrow> predicate_conforms t p"
  by (auto simp: validate_predicate_def predicate_conforms_def check_plan_identifier_def find_wire_column_def
      column_of_def descriptor_op_eq Let_def check_count_def is_ok_for_each list_all_iff
      split: option.splits sum.splits if_splits)

definition bounds_hold :: "string \<Rightarrow> PushdownPlan \<Rightarrow> bool" where
  "bounds_hold tid pl \<longleftrightarrow>
     tid \<noteq> [] \<and> length tid \<le> MAX_IDENTIFIER_LENGTH
     \<and> length (predicates pl) \<le> MAX_PREDICATES_PER_PLAN \<and> length (projection pl) \<le> MAX_PROJECTION_COLUMNS
     \<and> length (plan_table pl) \<le> MAX_IDENTIFIER_LENGTH
     \<and> list_all (\<lambda>p. length (pred_column p) \<le> MAX_IDENTIFIER_LENGTH) (predicates pl)
     \<and> list_all (\<lambda>c. length c \<le> MAX_IDENTIFIER_LENGTH) (projection pl)
     \<and> ttl_ms pl \<noteq> 0 \<and> unat (ttl_ms pl) \<le> PUSHDOWN_TASK_TTL_MS"

lemma is_ok_check_plan_identifier: "is_ok (check_plan_identifier s) \<longleftrightarrow> length s \<le> MAX_IDENTIFIER_LENGTH"
  by (simp add: check_plan_identifier_def)

lemma is_ok_validate_bounds:
  "is_ok (validate_bounds task) \<longleftrightarrow>
     (\<exists>pl. pushdown_plan task = Some pl \<and> bounds_hold (task_id_of task) pl)"
proof (cases "pushdown_plan task")
  case (Some pl)
  have ttl: "is_ok (validate_ttl ms) \<longleftrightarrow> ms \<noteq> 0 \<and> unat ms \<le> PUSHDOWN_TASK_TTL_MS" for ms
    by (auto simp: validate_ttl_def)
  show ?thesis
    by (auto simp: validate_bounds_def Some bounds_hold_def is_ok_bind_unit is_ok_for_each
        is_ok_check_plan_identifier check_count_def ttl list_all_iff)
qed (simp add: validate_bounds_def)

definition admissible ::
    "(string \<Rightarrow> (unit, RegexRejection) result) \<Rightarrow> WireDescriptor \<Rightarrow> string \<Rightarrow> PushdownPlan \<Rightarrow> bool" where
  "admissible compile d tid pl \<longleftrightarrow>
     bounds_hold tid pl
     \<and> (\<exists>t. table_of d (plan_table pl) = Some t \<and> list_all (predicate_conforms t) (predicates pl)
          \<and> list_all (\<lambda>c. column_of t c \<noteq> None) (projection pl))
     \<and> list_all (\<lambda>p. is_ok (compile_pattern compile p)) (predicates pl)"

lemma is_ok_validate_plan:
  "is_ok (validate_plan d pl) \<longleftrightarrow>
     (\<exists>t. table_of d (plan_table pl) = Some t \<and> list_all (predicate_conforms t) (predicates pl)
        \<and> list_all (\<lambda>c. column_of t c \<noteq> None) (projection pl))"
proof (cases "table_of d (plan_table pl)")
  case (Some t)
  have col: "is_ok (find_wire_column t c) \<longleftrightarrow> column_of t c \<noteq> None" for c
    by (auto simp: find_wire_column_def column_of_def split: option.splits)
  have loops: "is_ok (for_each (validate_predicate t) (predicates pl)) \<longleftrightarrow>
      list_all (predicate_conforms t) (predicates pl)"
    "is_ok (for_each (\<lambda>c. map_sum (\<lambda>e. e) (\<lambda>_. ()) (find_wire_column t c)) (projection pl)) \<longleftrightarrow>
      list_all (\<lambda>c. column_of t c \<noteq> None) (projection pl)"
    by (simp_all add: is_ok_for_each is_ok_validate_predicate list_all_iff col)
  show ?thesis
    using Some loops unfolding validate_plan_def table_of_def by (auto split: sum.splits)
qed (simp add: validate_plan_def table_of_def)

lemma accept_cases:
  obtains (accepted) pl dl where "pushdown_plan task = Some pl" "admissible compile (task_descriptor ts) (task_id_of task) pl"
      "checked_add_time now (unat (ttl_ms pl) * 1000000) = Some dl"
      "accept compile task now ts = (Ok (), record_task (task_id_of task) pl dl now ts)"
  | (refused) e where "accept compile task now ts = (Err e, ts)"
      "\<not> (\<exists>pl dl. pushdown_plan task = Some pl \<and> admissible compile (task_descriptor ts) (task_id_of task) pl
          \<and> checked_add_time now (unat (ttl_ms pl) * 1000000) = Some dl)"
proof (cases "validate_bounds task")
  case (Inl e)
  with refused [of e] is_ok_validate_bounds [of task] show thesis
    by (auto simp: accept_def admissible_def)
next
  case (Inr u)
  then obtain pl where pl: "pushdown_plan task = Some pl" "bounds_hold (task_id_of task) pl"
    using is_ok_validate_bounds [of task] by auto
  then have ttl: "validate_ttl (ttl_ms pl) = Ok (unat (ttl_ms pl) * 1000000)"
    by (auto simp: validate_ttl_def bounds_hold_def)
  let ?pats = "list_all (\<lambda>p. is_ok (compile_pattern compile p)) (predicates pl)"
  have pats: "is_ok (compile_patterns compile pl) \<longleftrightarrow> ?pats"
    by (simp add: compile_patterns_def is_ok_for_each list_all_iff)
  have adm: "admissible compile (task_descriptor ts) (task_id_of task) pl \<longleftrightarrow>
      is_ok (validate_plan (task_descriptor ts) pl) \<and> is_ok (compile_patterns compile pl)"
    by (simp add: admissible_def pl is_ok_validate_plan pats)
  have acc: "accept compile task now ts =
     (case validate_plan (task_descriptor ts) pl of Err e \<Rightarrow> (Err e, ts) | Ok _ \<Rightarrow>
     (case compile_patterns compile pl of Err e \<Rightarrow> (Err e, ts) | Ok _ \<Rightarrow>
     (case checked_add_time now (unat (ttl_ms pl) * 1000000) of None \<Rightarrow> (Err (InvalidTtl (ttl_ms pl)), ts) | Some dl \<Rightarrow>
      (Ok (), record_task (task_id_of task) pl dl now ts))))"
    by (simp add: accept_def Inr pl ttl cong: sum.case_cong)
  consider (vp) e where "validate_plan (task_descriptor ts) pl = Err e"
    | (cp) e where "is_ok (validate_plan (task_descriptor ts) pl)" "compile_patterns compile pl = Err e"
    | (ok) "is_ok (validate_plan (task_descriptor ts) pl)" "is_ok (compile_patterns compile pl)"
    by (metis is_ok_def old.sum.exhaust old.sum.simps(5,6))
  then show thesis
  proof cases
    case vp
    with refused [of e] adm pl show thesis by (simp add: acc)
  next
    case cp
    with refused [of e] adm pl show thesis by (auto simp: acc elim!: is_okE)
  next
    case ok
    with accepted [OF pl(1)] refused adm pl show thesis
      by (cases "checked_add_time now (unat (ttl_ms pl) * 1000000)") (auto simp: acc elim!: is_okE)
  qed
qed

lemma option_restrict_eqI:
  assumes "\<And>t. x = Some t \<longleftrightarrow> y = Some t \<and> P t"
  shows "x = (case y of None \<Rightarrow> None | Some t \<Rightarrow> if P t then Some t else None)"
proof (cases x)
  case None
  then show ?thesis
    using assms by (cases y) auto
next
  case (Some t)
  then show ?thesis
    using assms [of t] by simp
qed

lemma hm_get_filter_live:
  assumes "hm_wf m"
  shows "hm_get (filter (\<lambda>(_, t). deadline t > now) m) k =
    (case hm_get m k of None \<Rightarrow> None | Some t \<Rightarrow> if deadline t > now then Some t else None)"
  using assms by (intro option_restrict_eqI) (auto simp: hm_get_iff hm_wf_filter)

lemma active_plan_record:
  assumes "hm_wf (accepted ts)"
  shows "active_plan tid' (now + k) (record_task tid pl dl now ts) =
    (if tid' = tid then (if now + k < dl then Some pl else None) else active_plan tid' (now + k) ts)"
  using assms by (auto simp: active_plan_def record_task_def hm_get_filter_live split: option.splits)

text \<open>The tasks a collector holds after it was sent some.\<close>

definition accept_all ::
    "(string \<Rightarrow> (unit, RegexRejection) result) \<Rightarrow> WireDescriptor \<Rightarrow> (DetectionTask \<times> nat) list \<Rightarrow> PushdownTasks" where
  "accept_all compile d sent =
     foldl (\<lambda>ts (task, now). snd (accept compile task now ts)) (PushdownTasks_new d) sent"

lemma accept_keeps:
  "hm_wf (accepted ts) \<Longrightarrow> hm_wf (accepted (snd (accept compile task now ts)))
     \<and> task_descriptor (snd (accept compile task now ts)) = task_descriptor ts"
  by (rule accept_cases [of task compile ts now]) (auto simp: record_task_def hm_wf_filter)

lemma accept_all_wf:
  "hm_wf (accepted (accept_all compile d sent)) \<and> task_descriptor (accept_all compile d sent) = d"
proof (induction sent rule: rev_induct)
  case Nil
  show ?case by (simp add: accept_all_def PushdownTasks_new_def)
next
  case (snoc s sent)
  then show ?case
    using accept_keeps [of "accept_all compile d sent"] by (cases s) (simp add: accept_all_def)
qed

text \<open>
  Claim C21: a collector accepts a task exactly when it carries a plan within every bound, on a table
  of the collector's own descriptor, whose predicates each name a declared column and an advertised operation with
  literals of the declared type and number, whose projected columns are declared and whose patterns compile
  under the collector's bounds. An accepted task can be evaluated, with exactly the plan that was validated,
  until its time to live (at most five minutes) has passed and not a moment longer; a refused one changes
  nothing, and no other task is affected in either case.
\<close>

theorem accepted_task_lifetime:
  "let ts = accept_all compile d sent; (r, ts') = accept compile task now ts in
     (is_ok r \<longleftrightarrow>
        (\<exists>pl. pushdown_plan task = Some pl \<and> admissible compile d (task_id_of task) pl
           \<and> now + unat (ttl_ms pl) * 1000000 < 2 ^ 63 * 1000000000))
     \<and> active_plan tid (now + k) ts' =
         (if is_ok r \<and> tid = task_id_of task
          then (case pushdown_plan task of None \<Rightarrow> None
                | Some pl \<Rightarrow> if k < unat (ttl_ms pl) * 1000000 then Some pl else None)
          else active_plan tid (now + k) ts)"
proof -
  let ?ts = "accept_all compile d sent"
  have wf: "hm_wf (accepted ?ts)" and d: "task_descriptor ?ts = d"
    using accept_all_wf by blast+
  have add: "checked_add_time now n = Some dl \<longleftrightarrow> dl = now + n \<and> now + n < 2 ^ 63 * 1000000000" for n dl
    by (auto simp: checked_add_time_def)
  show ?thesis
  proof (cases rule: accept_cases [of task compile ?ts now])
    case (accepted pl dl)
    then show ?thesis
      unfolding Let_def accepted(4) prod.case add
      by (simp add: d active_plan_record [OF wf])
  next
    case (refused e)
    then show ?thesis
      unfolding Let_def refused(1) prod.case add by (simp add: d)
  qed
qed

section \<open>The plans of the planner and the bounds of the collector\<close>

lemma find_map_eq: "List.find P (map f xs) = map_option f (List.find (\<lambda>x. P (f x)) xs)"
  by (induction xs) auto

lemma op_value_eq: "op_value p = op_i32 p"
  by (simp add: op_value_def proto_op_eq)

lemma column_type_roundtrip: "column_type_try_from (column_type_value t) = Some t"
  by (cases t) (simp_all add: column_type_value_def proto_column_type_def column_type_i32_def
      column_type_try_from_def)

lemma find_table_proto:
  "find_table (to_proto_descriptor w\<lparr>conformance_results := x\<rparr>) t = map_option to_proto_table (table_of w t)"
  by (simp add: find_table_def table_of_def to_proto_descriptor_def find_map_eq to_proto_table_def)

lemma find_column_proto: "find_column (to_proto_table t) c = map_option to_proto_column (column_of t c)"
  by (simp add: find_column_def column_of_def to_proto_table_def find_map_eq to_proto_column_def)

lemma predicate_shape_arity:
  "predicate_shape e = Some (c, p, vs) \<Longrightarrow> p \<noteq> OpUnspecified \<and> (p = OpIn \<or> length vs = 1)"
  by (induction e rule: predicate_shape.induct)
    (auto simp: shape_of_def comparison_op_def split: option.splits BinaryOperator.splits)

lemma collect_options_Some:
  "collect_options xs = Some ys \<Longrightarrow> length ys = length xs \<and> (\<forall>y \<in> set ys. Some y \<in> set xs)"
  by (induction xs arbitrary: ys) (auto split: option.splits)

lemma lower_literal_type: "lower_literal env v ty = Some l \<Longrightarrow> literal_matches_type l ty"
  by (auto simp: lower_literal_def literal_matches_type_def
      split: Expr.splits SqlValue.splits ColumnType.splits)

lemma matching_literal_ok: "literal_matches_type l (wc_type w) \<Longrightarrow> is_ok (check_literal w l)"
  by (auto simp: check_literal_def literal_matches_type_def split: Literal.splits ColumnType.splits)

lemma projection_distinct:
  assumes "plan_rule env cat rule depth = Ok c"
  shows "distinct (projection (plan c))"
  using assms
  by (rule plan_rule_Ok) (auto simp: build_projection_def split: option.splits sum.splits)

text \<open>The catalog holds what the collector advertises.\<close>

definition serves :: "SchemaCatalog \<Rightarrow> WireDescriptor \<Rightarrow> string \<Rightarrow> bool" where
  "serves cat w cid \<longleftrightarrow>
     catalog_inv cat \<and> ot_get (descriptors cat) cid = Some (to_proto_descriptor w\<lparr>conformance_results := []\<rparr>)"

lemma servesD:
  "serves cat w cid \<Longrightarrow> catalog_inv cat"
  "serves cat w cid \<Longrightarrow> ot_get (descriptors cat) cid = Some (to_proto_descriptor w\<lparr>conformance_results := []\<rparr>)"
  by (simp_all add: serves_def)

lemma table_served:
  assumes serves: "serves cat w cid" and "owner_of cat t = Some cid"
  obtains wt where "table_of w t = Some wt" "cat_table cat t = Some (to_proto_table wt)"
proof -
  note inv = servesD(1) [OF serves] and stored = servesD(2) [OF serves]
  have cat: "cat_table cat t = map_option to_proto_table (table_of w t)"
    using assms stored by (simp add: cat_table_def owner_of_def find_table_proto)
  have "t \<in> table_names (to_proto_descriptor w)"
    using assms stored catalog_invD(7) [OF inv, of t cid] by simp
  then have "table_of w t \<noteq> None"
    by (auto simp: table_names_def to_proto_descriptor_def to_proto_table_def table_of_def find_None_iff)
  with cat that show thesis by auto
qed

lemma table_bounded:
  assumes serves: "serves cat w cid" and "table_of w t = Some wt"
  shows "length t \<le> MAX_IDENTIFIER_LENGTH" "length (wt_columns wt) \<le> MAX_COLUMNS_PER_TABLE"
    and "column_of wt c = Some wc \<Longrightarrow> length c \<le> MAX_IDENTIFIER_LENGTH"
proof -
  have "wt \<in> set (wd_tables w)" "wt_name wt = t"
    using assms by (auto simp: table_of_def find_Some_iff)
  moreover have "within_bounds (to_proto_descriptor w\<lparr>conformance_results := []\<rparr>)"
    by (rule catalog_invD(4) [OF servesD [OF serves]])
  ultimately have "table_within_bounds (to_proto_table wt)" "wt_name wt = t"
    by (auto simp: within_bounds_def to_proto_descriptor_def list_all_iff)
  then show "length t \<le> MAX_IDENTIFIER_LENGTH" "length (wt_columns wt) \<le> MAX_COLUMNS_PER_TABLE"
    and "column_of wt c = Some wc \<Longrightarrow> length c \<le> MAX_IDENTIFIER_LENGTH"
    by (auto simp: table_within_bounds_def to_proto_table_def column_within_bounds_def list_all_iff
        to_proto_column_def column_of_def find_Some_iff)
qed

lemma column_served:
  assumes "cat_table cat t = Some (to_proto_table wt)" "resolve_reference cat t c = Ok cd"
  obtains wc where "column_of wt c = Some wc" "cd = to_proto_column wc"
  using assms by (auto simp: resolve_reference_def find_column_proto split: option.splits)

lemma lowered_conforms:
  assumes serves: "serves cat w cid" and wt: "table_of w t = Some wt" "cat_table cat t = Some (to_proto_table wt)"
    and low: "lower_conjunct env cat t e = Some p"
  shows "predicate_conforms wt p \<longleftrightarrow> (predicate_op p = OpIn \<longrightarrow> length (pred_values p) \<le> MAX_IN_VALUES)"
proof -
  from low obtain opr vs cd ty where shape: "predicate_shape e = Some (pred_column p, opr, vs)"
    and cd: "resolve_reference cat t (pred_column p) = Ok cd"
    and ty: "column_type_try_from (column_type cd) = Some ty"
    and vals: "collect_options (map (\<lambda>v. lower_literal env v ty) vs) = Some (pred_values p)"
    and ne: "pred_values p \<noteq> []" and opr: "pred_op p = op_i32 opr" and push: "is_pushable cat t (pred_column p) opr"
    by (rule lower_conjunct_Some)
  obtain wc where wc: "column_of wt (pred_column p) = Some wc" "cd = to_proto_column wc"
    by (rule column_served [OF wt(2) cd])
  have op: "predicate_op p = opr"
    by (simp add: predicate_op_def opr)
  have ty': "ty = wc_type wc"
    using ty by (simp add: wc(2) to_proto_column_def column_type_roundtrip)
  have "opr \<in> set (wc_ops wc)"
    using push wt(2) wc by (auto simp: is_pushable_def is_advertised_def cat_column_def find_column_proto
        to_proto_column_def op_value_eq)
  moreover have "list_all (\<lambda>l. is_ok (check_literal wc l)) (pred_values p)"
  proof -
    have "literal_matches_type l (wc_type wc)" if "l \<in> set (pred_values p)" for l
      using collect_options_Some [OF vals] that
      by (auto simp: ty' intro: lower_literal_type [OF sym])
    then show ?thesis
      by (auto simp: list_all_iff intro: matching_literal_ok)
  qed
  moreover have "length (pred_values p) = length vs"
    using collect_options_Some [OF vals] by simp
  moreover have "1 \<le> length (pred_values p)"
    using ne by (cases "pred_values p") simp_all
  ultimately show ?thesis
    using predicate_shape_arity [OF shape] wc table_bounded(3) [OF serves wt(1) wc(1)]
    by (auto simp: predicate_conforms_def op)
qed

definition plan_fits :: "string \<Rightarrow> PushdownPlan \<Rightarrow> bool" where
  "plan_fits tid pl \<longleftrightarrow>
     length tid \<le> MAX_IDENTIFIER_LENGTH \<and> length (predicates pl) \<le> MAX_PREDICATES_PER_PLAN
     \<and> list_all (\<lambda>p. predicate_op p = OpIn \<longrightarrow> length (pred_values p) \<le> MAX_IN_VALUES) (predicates pl)"

definition projects_known :: "WireDescriptor \<Rightarrow> PushdownPlan \<Rightarrow> bool" where
  "projects_known w pl = (case table_of w (plan_table pl) of
     None \<Rightarrow> False | Some wt \<Rightarrow> list_all (\<lambda>c. column_of wt c \<noteq> None) (projection pl))"

lemma projection_bounded:
  assumes serves: "serves cat w cid" and plan: "plan_rule env cat rule depth = Ok c"
    and wt: "table_of w (plan_table (plan c)) = Some wt"
    and known: "list_all (\<lambda>col. column_of wt col \<noteq> None) (projection (plan c))"
  shows "length (projection (plan c)) \<le> MAX_PROJECTION_COLUMNS"
    and "list_all (\<lambda>c. length c \<le> MAX_IDENTIFIER_LENGTH) (projection (plan c))"
proof -
  have "set (projection (plan c)) \<subseteq> set (map wc_name (wt_columns wt))"
    using known by (fastforce simp: column_of_def find_Some_iff list_all_iff)
  then have "card (set (projection (plan c))) \<le> card (set (map wc_name (wt_columns wt)))"
    by (intro card_mono) simp_all
  also have "\<dots> \<le> length (wt_columns wt)"
    using card_length [of "map wc_name (wt_columns wt)"] by simp
  finally show "length (projection (plan c)) \<le> MAX_PROJECTION_COLUMNS"
    using table_bounded(2) [OF serves wt] distinct_card [OF projection_distinct [OF plan]]
    by (simp add: MAX_PROJECTION_COLUMNS_def)
  show "list_all (\<lambda>c. length c \<le> MAX_IDENTIFIER_LENGTH) (projection (plan c))"
    using known table_bounded(3) [OF serves wt] by (auto simp: list_all_iff)
qed

lemma references_projected:
  assumes serves: "serves cat w cid" and plan: "plan_rule env cat rule depth = Ok c" "plan_collector c = cid"
    and proj: "set (projection (plan c)) \<subseteq> snd ` references c"
  shows "projects_known w (plan c)"
proof -
  obtain wt where wt: "table_of w (plan_table (plan c)) = Some wt"
    "cat_table cat (plan_table (plan c)) = Some (to_proto_table wt)"
    using plan_references(3) [OF plan(1)] by (auto simp: plan(2) intro: table_served [OF serves])
  have "column_of wt col \<noteq> None" if projected: "col \<in> set (projection (plan c))" for col
  proof -
    obtain t where "(t, col) \<in> references c"
      using projected proj by fastforce
    from plan_references(4) [OF plan(1) this] have "is_ok (resolve_reference cat (plan_table (plan c)) col)"
      by auto
    then obtain cd where "resolve_reference cat (plan_table (plan c)) col = Ok cd"
      by (rule is_okE)
    then obtain wc where "column_of wt col = Some wc"
      by (rule column_served [OF wt(2)])
    then show ?thesis by simp
  qed
  then show ?thesis
    by (simp add: projects_known_def wt(1) list_all_iff)
qed

lemma plan_admissible:
  assumes serves: "serves cat w cid" and plan: "plan_rule env cat rule depth = Ok c" "plan_collector c = cid"
  shows "admissible compile w tid (plan c) \<longleftrightarrow>
    tid \<noteq> [] \<and> plan_fits tid (plan c) \<and> projects_known w (plan c)
    \<and> list_all (\<lambda>p. is_ok (compile_pattern compile p)) (predicates (plan c))"
proof -
  let ?pl = "plan c" and ?t = "plan_table (plan c)"
  obtain wt where wt: "table_of w ?t = Some wt" "cat_table cat ?t = Some (to_proto_table wt)"
    using plan_references(3) [OF plan(1)] by (auto simp: plan(2) intro: table_served [OF serves])
  have conform: "predicate_conforms wt p \<longleftrightarrow> (predicate_op p = OpIn \<longrightarrow> length (pred_values p) \<le> MAX_IN_VALUES)"
    if "p \<in> set (predicates ?pl)" for p
    using plan_predicates_pushable [OF plan(1) that] lowered_conforms [OF serves wt] by blast
  have column: "length (pred_column p) \<le> MAX_IDENTIFIER_LENGTH" if pushed: "p \<in> set (predicates ?pl)" for p
  proof -
    obtain e where "lower_conjunct env cat ?t e = Some p"
      by (rule plan_predicates_pushable [OF plan(1) pushed])
    then obtain cd where "resolve_reference cat ?t (pred_column p) = Ok cd"
      by (rule lower_conjunct_Some)
    then obtain wc where "column_of wt (pred_column p) = Some wc"
      by (rule column_served [OF wt(2)])
    then show ?thesis
      by (rule table_bounded(3) [OF serves wt(1)])
  qed
  have known: "projects_known w ?pl \<longleftrightarrow> list_all (\<lambda>c. column_of wt c \<noteq> None) (projection ?pl)"
    by (simp add: projects_known_def wt(1))
  have "list_all (predicate_conforms wt) (predicates ?pl) \<longleftrightarrow>
      list_all (\<lambda>p. predicate_op p = OpIn \<longrightarrow> length (pred_values p) \<le> MAX_IN_VALUES) (predicates ?pl)"
    using conform by (simp add: list_all_iff)
  moreover have "bounds_hold tid ?pl \<longleftrightarrow>
      tid \<noteq> [] \<and> length tid \<le> MAX_IDENTIFIER_LENGTH \<and> length (predicates ?pl) \<le> MAX_PREDICATES_PER_PLAN"
    if "projects_known w ?pl"
    using projection_bounded [OF serves plan(1) wt(1) that [unfolded known]] table_bounded(1) [OF serves wt(1)] column
    by (auto simp: bounds_hold_def plan_references(2) [OF plan(1)] ttl_millis_def PUSHDOWN_TASK_TTL_MS_def list_all_iff)
  ultimately show ?thesis
    using wt known by (auto simp: admissible_def plan_fits_def)
qed

text \<open>
  Claim C11: the planner and the collector agree, up to what the planner does not check. Let the
  catalog, after any registrations, hold the descriptor a collector advertises. A task carrying a plan of the planner
  for that collector is accepted by it, at any time before the year 146 billion, exactly when the task
  identifier is not empty and has at most 128 bytes, the plan has at most 64 predicates and no \<open>IN\<close> list has
  more than 256 values, every pushed \<open>LIKE\<close> and \<open>REGEXP\<close> pattern compiles under the collector's limits, and
  the projected columns are columns of the table, which they are when they are among the rule's references.
  Table, operations, literal types, arities and time to live are never a reason to refuse; but a rule with more
  pushable conjuncts than that, or a \<open>LIKE\<close> pattern too large to compile, is planned by the agent and refused by
  the collector.
\<close>

theorem planned_task_accepted:
  assumes stored: "ot_get (descriptors (catalog_of regs)) cid = Some (to_proto_descriptor w\<lparr>conformance_results := []\<rparr>)"
    and plan: "plan_rule env (catalog_of regs) rule depth = Ok c" "plan_collector c = cid"
    and now: "now < 2 ^ 62 * 1000000000"
  shows "(is_ok (fst (accept compile (new_pushdown tid (plan c)) now (accept_all compile w sent))) \<longleftrightarrow>
      tid \<noteq> [] \<and> plan_fits tid (plan c) \<and> projects_known w (plan c)
      \<and> list_all (\<lambda>p. is_ok (compile_pattern compile p)) (predicates (plan c)))
    \<and> (set (projection (plan c)) \<subseteq> snd ` references c \<longrightarrow> projects_known w (plan c))"
proof -
  let ?ts = "accept_all compile w sent" and ?task = "new_pushdown tid (plan c)"
  have serves: "serves (catalog_of regs) w cid"
    using stored catalog_inv_catalog_of by (simp add: serves_def)
  have "now + unat (ttl_ms (plan c)) * 1000000 < 2 ^ 63 * 1000000000"
    using now by (simp add: plan_references(2) [OF plan(1)] ttl_millis_def)
  then have "checked_add_time now (unat (ttl_ms (plan c)) * 1000000) \<noteq> None"
    by (simp add: checked_add_time_def)
  then have "is_ok (fst (accept compile ?task now ?ts)) \<longleftrightarrow> admissible compile w tid (plan c)"
    using accept_all_wf [of compile w sent]
    by (cases rule: accept_cases [of ?task compile ?ts now]) (auto simp: new_pushdown_def)
  then show ?thesis
    using plan_admissible [OF serves plan] references_projected [OF serves plan] by simp
qed

definition demo_wire :: WireDescriptor where
  "demo_wire =
     \<lparr>wd_collector_id = ''procmond'', wd_version = ''v1'',
      wd_tables = [\<lparr>wt_name = ''processes'',
        wt_columns = [\<lparr>wc_name = ''name'', wc_type = TyString, wc_nullable = False, wc_ops = [OpLike]\<rparr>]\<rparr>],
      wd_results = [\<lparr>wr_table = ''processes'', wr_column = ''name'', wr_op = OpLike, wr_passed = True\<rparr>]\<rparr>"

lemma demo_wire_proto: "to_proto_descriptor demo_wire = name_like True"
  by (simp add: demo_wire_def name_like_def to_proto_descriptor_def to_proto_table_def to_proto_column_def
      to_proto_conformance_result_def op_value_eq op_i32_def column_type_value_def proto_column_type_def
      column_type_i32_def)

lemma demo_registered: "catalog_of [(VerifiedRegistration ''procmond'', name_like True)] = demo_catalog"
  by (simp add: demo_catalog_def name_like_def Let_def catalog_eval)

lemma demo_pattern: "list_all (\<lambda>p. is_ok (compile_pattern compile p)) (predicates (plan demo_plan)) \<longleftrightarrow>
    is_ok (compile (like_to_regex ''a%''))"
  by (simp add: demo_plan_def compile_pattern_def pattern_source_def pattern_text_def predicate_op_def op_try_from_def)

theorem planned_task_accepted_witness:
  "is_ok (fst (accept (\<lambda>_. Ok ()) (new_pushdown ''r1@procmond'' (plan demo_plan)) 0
     (accept_all (\<lambda>_. Ok ()) demo_wire [])))
   \<and> \<not> is_ok (fst (accept (\<lambda>_. Err (CompiledTooBig ''a%'' 1)) (new_pushdown ''r1@procmond'' (plan demo_plan)) 0
       (accept_all (\<lambda>_. Err (CompiledTooBig ''a%'' 1)) demo_wire [])))"
proof -
  let ?regs = "[(VerifiedRegistration ''procmond'', name_like True)]"
  have fits: "plan_fits ''r1@procmond'' (plan demo_plan)"
    by (simp add: plan_fits_def demo_plan_def MAX_IDENTIFIER_LENGTH_def MAX_PREDICATES_PER_PLAN_def
        MAX_IN_VALUES_def predicate_op_def op_try_from_def)
  have stored: "ot_get (descriptors (catalog_of ?regs)) ''procmond'' = Some (to_proto_descriptor demo_wire\<lparr>conformance_results := []\<rparr>)"
    unfolding demo_registered demo_wire_proto by (simp add: demo_catalog_def ot_get_def)
  have planned: "plan_rule demo_env (catalog_of ?regs) demo_rule 3 = Ok demo_plan"
    unfolding demo_registered by (rule demo_planned)
  have rest: "plan_collector demo_plan = ''procmond''" "set (projection (plan demo_plan)) \<subseteq> snd ` references demo_plan"
    by (simp_all add: demo_plan_def)
  note judged = planned_task_accepted [OF stored planned rest(1), where tid = "''r1@procmond''" and now = 0
      and sent = "[]"]
  show ?thesis
    using judged [where compile = "\<lambda>_. Ok ()"] judged [where compile = "\<lambda>_. Err (CompiledTooBig ''a%'' 1)"]
      rest(2) fits
    by (simp add: demo_pattern)
qed

end
