(* ===== verification/Rule_Engine.thy ===== *)
theory Rule_Engine
  imports Pushdown_Tasks
begin

text \<open>
  The detection engine as the keeper of rule state: \<^verbatim>\<open>daemoneye-lib/src/detection/mod.rs\<close>,
  \<^verbatim>\<open>rule_health.rs\<close>, \<^verbatim>\<open>generation.rs\<close>, \<^verbatim>\<open>runnable.rs\<close>, \<^verbatim>\<open>task_renewal.rs\<close> and \<^verbatim>\<open>pattern_latency.rs\<close>.
  Which rules are loaded, planned, trusted and covered by a task, as collectors register, rules are
  loaded and removed, tasks expire and patterns turn out to be slow.

  The parameters are those of the planner, and in \<open>engine_env\<close>: the dry run of a plan by the executor's
  own planner (the crate \<open>datafusion\<close>), the times at which refusals are recorded, and the debug
  rendering of a duration. Times are nanoseconds since the epoch.
\<close>

section \<open>Rule health\<close>

datatype UnhealthyCause = Reference | TaskExpiry | LatencyBreach

definition cause_resists :: "UnhealthyCause \<Rightarrow> bool" where
  "cause_resists c = (case c of Reference \<Rightarrow> False | TaskExpiry \<Rightarrow> False | LatencyBreach \<Rightarrow> True)"

datatype RuleHealth = HealthUnknown | Healthy | Unhealthy string UnhealthyCause

definition resists_auto_recovery :: "RuleHealth \<Rightarrow> bool" where
  "resists_auto_recovery h = (case h of Unhealthy _ c \<Rightarrow> cause_resists c | _ \<Rightarrow> False)"

record TrackedRule =
  tracked_references :: "(string \<times> string) set"
  tracked_health :: RuleHealth

type_synonym RuleHealthRegistry = "(string, TrackedRule) otable"

definition health_of :: "RuleHealthRegistry \<Rightarrow> string \<Rightarrow> RuleHealth option" where
  "health_of reg r = map_option tracked_health (ot_get reg r)"

definition resists :: "RuleHealthRegistry \<Rightarrow> string \<Rightarrow> bool" where
  "resists reg r = (case health_of reg r of None \<Rightarrow> False | Some h \<Rightarrow> resists_auto_recovery h)"

definition track :: "string \<Rightarrow> (string \<times> string) set \<Rightarrow> RuleHealthRegistry \<Rightarrow> RuleHealthRegistry" where
  "track r refs reg =
     ot_insert r \<lparr>tracked_references = refs,
       tracked_health = (case health_of reg r of
         Some h \<Rightarrow> if resists_auto_recovery h then h else Healthy | None \<Rightarrow> Healthy)\<rparr> reg"

definition forget_health :: "string \<Rightarrow> RuleHealthRegistry \<Rightarrow> RuleHealthRegistry" where
  "forget_health r reg = ot_remove r reg"

definition mark_unhealthy ::
    "string \<Rightarrow> string \<Rightarrow> UnhealthyCause \<Rightarrow> RuleHealthRegistry \<Rightarrow> bool \<times> RuleHealthRegistry" where
  "mark_unhealthy r why cause reg =
     (case ot_get reg r of
        Some rule \<Rightarrow>
          if \<not> cause_resists cause \<and> resists_auto_recovery (tracked_health rule) then (True, reg)
          else (True, ot_insert r (rule\<lparr>tracked_health := Unhealthy why cause\<rparr>) reg)
      | None \<Rightarrow>
          if \<not> cause_resists cause then (False, reg)
          else (True, ot_insert r \<lparr>tracked_references = {}, tracked_health = Unhealthy why cause\<rparr> reg))"

definition touches :: "TrackedRule \<Rightarrow> CatalogChange \<Rightarrow> bool" where
  "touches rule ch \<longleftrightarrow> (\<exists>e \<in> tracked_references rule. fst e \<in> affected_tables ch)"

definition unresolved :: "SchemaCatalog \<Rightarrow> string \<times> string \<Rightarrow> UnknownReference option" where
  "unresolved cat e = (case resolve_reference cat (fst e) (snd e) of Err u \<Rightarrow> Some u | Ok _ \<Rightarrow> None)"

definition first_unresolved :: "SchemaCatalog \<Rightarrow> TrackedRule \<Rightarrow> string option" where
  "first_unresolved cat rule =
     (case List.map_filter (unresolved cat) (sorted_list_of_set (tracked_references rule)) of
        [] \<Rightarrow> None | u # _ \<Rightarrow> Some (UnknownReference_display u))"

text \<open>One rule of the pass: the rule, whether it has to be planned again, whether it became unhealthy.\<close>

definition revalidate_rule ::
    "SchemaCatalog \<Rightarrow> CatalogChange \<Rightarrow> TrackedRule \<Rightarrow> TrackedRule \<times> bool \<times> bool" where
  "revalidate_rule cat ch rule =
     (if resists_auto_recovery (tracked_health rule) then (rule, False, False)
      else if \<not> first_registration ch \<and> \<not> touches rule ch then (rule, False, False)
      else (case first_unresolved cat rule of
        Some why \<Rightarrow>
          (rule\<lparr>tracked_health := Unhealthy why Reference\<rparr>, False,
           (case tracked_health rule of Unhealthy _ _ \<Rightarrow> False | _ \<Rightarrow> True))
      | None \<Rightarrow> (rule\<lparr>tracked_health := Healthy\<rparr>, True, False)))"

record ReplanOutcome =
  to_replan :: "string list"
  newly_unhealthy :: "string list"

definition revalidate ::
    "SchemaCatalog \<Rightarrow> CatalogChange \<Rightarrow> RuleHealthRegistry \<Rightarrow> ReplanOutcome \<times> RuleHealthRegistry" where
  "revalidate cat ch reg =
     (if change_is_empty ch then (\<lparr>to_replan = [], newly_unhealthy = []\<rparr>, reg)
      else
        (\<lparr>to_replan = map fst (filter (\<lambda>(_, rule). fst (snd (revalidate_rule cat ch rule))) reg),
          newly_unhealthy = map fst (filter (\<lambda>(_, rule). snd (snd (revalidate_rule cat ch rule))) reg)\<rparr>,
         map (\<lambda>(r, rule). (r, fst (revalidate_rule cat ch rule))) reg))"

section \<open>Generations\<close>

record Generations =
  last_issued :: u64
  held :: "(string, u64) hash_map"

definition issue_generation :: "string \<Rightarrow> Generations \<Rightarrow> Generations" where
  "issue_generation r g =
     (let n = sat_add (last_issued g) 1 in \<lparr>last_issued = n, held = hm_insert r n (held g)\<rparr>)"

definition forget_generation :: "string \<Rightarrow> Generations \<Rightarrow> Generations" where
  "forget_generation r g = g\<lparr>held := hm_remove r (held g)\<rparr>"

definition current_generation :: "Generations \<Rightarrow> string \<Rightarrow> u64 option" where
  "current_generation g r = hm_get (held g) r"

section \<open>Tasks\<close>

definition task_id :: "string \<Rightarrow> string \<Rightarrow> string" where
  "task_id r cid = r @ ''@'' @ cid"

definition RENEWAL_INTERVAL :: nat where
  "RENEWAL_INTERVAL = 100 * 1000000000"

record PendingRenewal =
  pending_task_id :: string
  pending_collector :: string
  pending_task :: DetectionTask

record Entry =
  entry_rule :: string
  entry_collector :: string
  entry_task :: DetectionTask
  entry_ttl :: nat
  confirmed_at :: nat
  renewals :: u64

type_synonym TaskRenewalLedger = "(string, Entry) otable"

definition entry_pending :: "Entry \<Rightarrow> PendingRenewal" where
  "entry_pending e =
     \<lparr>pending_task_id = task_id (entry_rule e) (entry_collector e), pending_collector = entry_collector e,
      pending_task = entry_task e\<rparr>"

definition entry_expired :: "nat \<Rightarrow> Entry \<Rightarrow> bool" where
  "entry_expired now e =
     (case checked_add_time (confirmed_at e) (entry_ttl e) of None \<Rightarrow> True | Some dl \<Rightarrow> dl \<le> now)"

definition entry_due :: "nat \<Rightarrow> Entry \<Rightarrow> bool" where
  "entry_due now e =
     (case checked_add_time (confirmed_at e) RENEWAL_INTERVAL of None \<Rightarrow> True | Some nx \<Rightarrow> nx \<le> now)"

definition issue_task :: "CompiledRule \<Rightarrow> nat \<Rightarrow> TaskRenewalLedger \<Rightarrow> PendingRenewal \<times> TaskRenewalLedger" where
  "issue_task c now l =
     (let tid = task_id (rule_id c) (plan_collector c);
          e = \<lparr>entry_rule = rule_id c, entry_collector = plan_collector c,
               entry_task = new_pushdown tid (plan c), entry_ttl = unat (ttl_ms (plan c)) * 1000000,
               confirmed_at = now, renewals = 0\<rparr> in
      (entry_pending e, ot_insert tid e l))"

definition due_tasks :: "nat \<Rightarrow> TaskRenewalLedger \<Rightarrow> PendingRenewal list" where
  "due_tasks now l = map (\<lambda>(_, e). entry_pending e) (filter (\<lambda>(_, e). entry_due now e) l)"

definition ledger_record_renewal :: "string \<Rightarrow> nat \<Rightarrow> TaskRenewalLedger \<Rightarrow> bool \<times> TaskRenewalLedger" where
  "ledger_record_renewal tid now l =
     (case ot_get l tid of
        None \<Rightarrow> (False, l)
      | Some e \<Rightarrow> (True, ot_insert tid (e\<lparr>confirmed_at := now, renewals := sat_add (renewals e) 1\<rparr>) l))"

definition expire_tasks :: "nat \<Rightarrow> TaskRenewalLedger \<Rightarrow> string list \<times> TaskRenewalLedger" where
  "expire_tasks now l =
     (map (\<lambda>(_, e). entry_rule e) (filter (\<lambda>(_, e). entry_expired now e) l),
      filter (\<lambda>(_, e). \<not> entry_expired now e) l)"

definition forget_rule_tasks :: "string \<Rightarrow> TaskRenewalLedger \<Rightarrow> TaskRenewalLedger" where
  "forget_rule_tasks r l = filter (\<lambda>(_, e). entry_rule e \<noteq> r) l"

definition is_tracked :: "string \<Rightarrow> TaskRenewalLedger \<Rightarrow> bool" where
  "is_tracked tid l \<longleftrightarrow> ot_get l tid \<noteq> None"

definition tracked_rule_ids :: "TaskRenewalLedger \<Rightarrow> string list" where
  "tracked_rule_ids l = remdups (sort (map (\<lambda>(_, e). entry_rule e) l))"

section \<open>The engine\<close>

record 'c EvaluationSummary =
  summary_rule :: string
  summary_generation :: u64
  completeness :: 'c
  alert_count :: nat

record ('c, 'ts) DetectionEngine =
  rules :: "(string, DetectionRule) hash_map"
  compiled :: "(string, CompiledRule) hash_map"
  deferred :: "string list"
  catalog :: SchemaCatalog
  health :: RuleHealthRegistry
  generations :: Generations
  tasks :: TaskRenewalLedger
  max_subquery_depth :: u32
  pattern_latency_threshold :: nat
  rejections :: "'ts RejectionLog"
  last_evaluations :: "(string, 'c EvaluationSummary) otable"

text \<open>\<open>utc_now n\<close> is the time at which the rejection with number \<open>n\<close> is recorded.\<close>

record ('x, 'ts) engine_env =
  sql_of :: "'x sql_env"
  check_plannable :: "CompiledRule \<Rightarrow> TableDescriptor \<Rightarrow> (unit, string) result"
  ledger_of :: "'ts ledger_env"
  utc_now :: "u64 \<Rightarrow> 'ts"
  debug_duration :: "nat \<Rightarrow> string"

datatype DetectionEngineError =
    SqlValidationError string
  | ExecutionError string
  | PlanRejected string
  | RuleLatched string string

definition with_config :: "u32 \<Rightarrow> u64 \<Rightarrow> ('c, 'ts) DetectionEngine" where
  "with_config depth threshold_ms =
     \<lparr>rules = [], compiled = [], deferred = [], catalog = SchemaCatalog_new, health = [],
      generations = \<lparr>last_issued = 0, held = []\<rparr>, tasks = [], max_subquery_depth = depth,
      pattern_latency_threshold = unat threshold_ms * 1000000, rejections = RejectionLog_new,
      last_evaluations = []\<rparr>"

definition log_rejection ::
    "('x, 'ts) engine_env \<Rightarrow> RejectionReason \<Rightarrow> ('c, 'ts) DetectionEngine \<Rightarrow> ('c, 'ts) DetectionEngine" where
  "log_rejection env why eng =
     eng\<lparr>rejections := snd (record_rejection (ledger_of env) (utc_now env (next_sequence (rejections eng)))
          why (rejections eng))\<rparr>"

subsection \<open>Planning\<close>

definition plan_loaded ::
    "('x, 'ts) engine_env \<Rightarrow> DetectionRule \<Rightarrow> ('c, 'ts) DetectionEngine \<Rightarrow> (CompiledRule, PlanError) result" where
  "plan_loaded env rule eng =
     (case plan_rule (sql_of env) (catalog eng) rule (max_subquery_depth eng) of
        Err e \<Rightarrow> Err e
      | Ok c \<Rightarrow>
        (case cat_table (catalog eng) (plan_table (plan c)) of
           None \<Rightarrow> Ok c
         | Some td \<Rightarrow>
           (case check_plannable env c td of Err m \<Rightarrow> Err (Unplannable m) | Ok _ \<Rightarrow> Ok c)))"

definition record_plan ::
    "string \<Rightarrow> CompiledRule \<Rightarrow> ('c, 'ts) DetectionEngine \<Rightarrow> ('c, 'ts) DetectionEngine" where
  "record_plan r c eng =
     (let eng1 = eng\<lparr>health := track r (references c) (health eng)\<rparr> in
      if resists (health eng1) r then eng1
      else eng1\<lparr>compiled := hm_insert r c (compiled eng)\<rparr>)"

definition plan_and_record ::
    "('x, 'ts) engine_env \<Rightarrow> string \<Rightarrow> ('c, 'ts) DetectionEngine \<Rightarrow>
     (unit, PlanError) result \<times> ('c, 'ts) DetectionEngine" where
  "plan_and_record env r eng =
     (case hm_get (rules eng) r of
        None \<Rightarrow> (Ok (), eng)
      | Some rule \<Rightarrow>
        (case plan_loaded env rule eng of Err e \<Rightarrow> (Err e, eng) | Ok c \<Rightarrow> (Ok (), record_plan r c eng)))"

definition reject_rule ::
    "('x, 'ts) engine_env \<Rightarrow> string \<Rightarrow> string \<Rightarrow> ('c, 'ts) DetectionEngine \<Rightarrow> ('c, 'ts) DetectionEngine" where
  "reject_rule env r message eng =
     (let eng1 = log_rejection env (RuleOther r message) eng in
      eng1\<lparr>rules := hm_remove r (rules eng1), compiled := hm_remove r (compiled eng1),
           health := forget_health r (health eng1), generations := forget_generation r (generations eng1),
           last_evaluations := ot_remove r (last_evaluations eng1)\<rparr>)"

subsection \<open>Registration of a collector\<close>

definition drain_rule ::
    "('x, 'ts) engine_env \<Rightarrow> ('c, 'ts) DetectionEngine \<Rightarrow> string \<Rightarrow> ('c, 'ts) DetectionEngine" where
  "drain_rule env eng r =
     (case plan_and_record env r eng of
        (Ok _, eng') \<Rightarrow> eng' | (Err e, eng') \<Rightarrow> reject_rule env r (PlanError_display e) eng')"

definition replan_rule ::
    "('x, 'ts) engine_env \<Rightarrow> ('c, 'ts) DetectionEngine \<Rightarrow> string \<Rightarrow> ('c, 'ts) DetectionEngine" where
  "replan_rule env eng r =
     (case plan_and_record env r eng of
        (Ok _, eng') \<Rightarrow> eng'
      | (Err e, eng') \<Rightarrow>
          log_rejection env (RuleOther r (PlanError_display e)) (eng'\<lparr>compiled := hm_remove r (compiled eng')\<rparr>))"

definition drop_plan :: "('c, 'ts) DetectionEngine \<Rightarrow> string \<Rightarrow> ('c, 'ts) DetectionEngine" where
  "drop_plan eng r = eng\<lparr>compiled := hm_remove r (compiled eng)\<rparr>"

definition register_collector ::
    "('x, 'ts) engine_env \<Rightarrow> VerifiedRegistration \<Rightarrow> SchemaDescriptor \<Rightarrow> ('c, 'ts) DetectionEngine \<Rightarrow>
     (CatalogChange, CatalogError) result \<times> ('c, 'ts) DetectionEngine" where
  "register_collector env v d eng =
     (case register v d (catalog eng) of
        (Err e, cat) \<Rightarrow> (Err e, eng\<lparr>catalog := cat\<rparr>)
      | (Ok change, cat) \<Rightarrow>
          let eng1 = foldl (drain_rule env) (eng\<lparr>catalog := cat, deferred := []\<rparr>) (deferred eng);
              (outcome, reg) = revalidate (catalog eng1) change (health eng1);
              eng2 = foldl drop_plan (eng1\<lparr>health := reg\<rparr>) (newly_unhealthy outcome);
              eng3 = foldl (replan_rule env) eng2 (to_replan outcome)
          in (Ok change, eng3))"

subsection \<open>Loading and removing rules\<close>

definition rule_rejection :: "string \<Rightarrow> RuleError \<Rightarrow> RejectionReason" where
  "rule_rejection r e = (case e of
     SqlRejected rejection \<Rightarrow> RuleSql r rejection
   | RegexRejected rejection \<Rightarrow> RuleRegex r rejection
   | _ \<Rightarrow> RuleOther r (RuleError_display e))"

definition load_rule ::
    "('x, 'ts) engine_env \<Rightarrow> DetectionRule \<Rightarrow> ('c, 'ts) DetectionEngine \<Rightarrow>
     (unit, DetectionEngineError) result \<times> ('c, 'ts) DetectionEngine" where
  "load_rule env rule eng =
     (case validate_sql_with_depth (sql_of env) rule (max_subquery_depth eng) of
        Err e \<Rightarrow>
          (Err (SqlValidationError (RuleError_display e)), log_rejection env (rule_rejection (id_raw rule) e) eng)
      | Ok _ \<Rightarrow>
        (let r = id_raw rule in
         case (if catalog_is_empty (catalog eng) then Ok None
               else map_sum (\<lambda>e. e) Some (plan_loaded env rule eng)) of
           Err e \<Rightarrow>
             (Err (PlanRejected (PlanError_display e)), log_rejection env (RuleOther r (PlanError_display e)) eng)
         | Ok planned \<Rightarrow>
             let eng1 = eng\<lparr>rules := hm_insert r rule (rules eng),
                           generations := issue_generation r (generations eng),
                           last_evaluations := ot_remove r (last_evaluations eng),
                           tasks := forget_rule_tasks r (tasks eng),
                           health := forget_health r (health eng)\<rparr> in
             (Ok (), case planned of
                Some c \<Rightarrow> record_plan r c eng1
              | None \<Rightarrow> eng1\<lparr>deferred := deferred eng1 @ [r]\<rparr>)))"

definition remove_rule ::
    "string \<Rightarrow> ('c, 'ts) DetectionEngine \<Rightarrow> DetectionRule option \<times> ('c, 'ts) DetectionEngine" where
  "remove_rule r eng =
     (hm_get (rules eng) r,
      eng\<lparr>rules := hm_remove r (rules eng), compiled := hm_remove r (compiled eng),
          health := forget_health r (health eng), generations := forget_generation r (generations eng),
          last_evaluations := ot_remove r (last_evaluations eng),
          tasks := forget_rule_tasks r (tasks eng), deferred := filter (\<lambda>x. x \<noteq> r) (deferred eng)\<rparr>)"

definition record_evaluation ::
    "'c EvaluationSummary \<Rightarrow> ('c, 'ts) DetectionEngine \<Rightarrow> ('c, 'ts) DetectionEngine" where
  "record_evaluation s eng =
     (if current_generation (generations eng) (summary_rule s) = Some (summary_generation s)
      then eng\<lparr>last_evaluations := ot_insert (summary_rule s) s (last_evaluations eng)\<rparr> else eng)"

definition set_rule_enabled ::
    "string \<Rightarrow> bool \<Rightarrow> ('c, 'ts) DetectionEngine \<Rightarrow>
     (unit, DetectionEngineError) result \<times> ('c, 'ts) DetectionEngine" where
  "set_rule_enabled r on eng =
     (case (if on then health_of (health eng) r else None) of
        Some (Unhealthy why cause) \<Rightarrow>
          if cause_resists cause then (Err (RuleLatched r why), eng)
          else (case hm_get (rules eng) r of
                  None \<Rightarrow> (Err (ExecutionError (''Rule not found: '' @ r)), eng)
                | Some rule \<Rightarrow> (Ok (), eng\<lparr>rules := hm_insert r (rule\<lparr>enabled := on\<rparr>) (rules eng)\<rparr>))
      | _ \<Rightarrow>
          (case hm_get (rules eng) r of
             None \<Rightarrow> (Err (ExecutionError (''Rule not found: '' @ r)), eng)
           | Some rule \<Rightarrow> (Ok (), eng\<lparr>rules := hm_insert r (rule\<lparr>enabled := on\<rparr>) (rules eng)\<rparr>)))"

definition PATTERN_LATENCY_REASON_PREFIX :: string where
  "PATTERN_LATENCY_REASON_PREFIX =
     ''the pattern's measured execution time breached the configured latency budget''"

text \<open>\<open>if let Some(rule) = self.rules.get_mut(rule_id) { rule.enabled = false; }\<close>\<close>

definition disable_rule :: "string \<Rightarrow> ('c, 'ts) DetectionEngine \<Rightarrow> ('c, 'ts) DetectionEngine" where
  "disable_rule r eng =
     (case hm_get (rules eng) r of
        None \<Rightarrow> eng | Some rule \<Rightarrow> eng\<lparr>rules := hm_insert r (rule\<lparr>enabled := False\<rparr>) (rules eng)\<rparr>)"

definition observe_pattern_latency ::
    "('x, 'ts) engine_env \<Rightarrow> string \<Rightarrow> u64 \<Rightarrow> nat \<Rightarrow> ('c, 'ts) DetectionEngine \<Rightarrow>
     bool \<times> ('c, 'ts) DetectionEngine" where
  "observe_pattern_latency env r generation observed eng =
     (if current_generation (generations eng) r \<noteq> Some generation then (False, eng)
      else if observed \<le> pattern_latency_threshold eng then (False, eng)
      else if resists (health eng) r then (True, eng)
      else
        let why = PATTERN_LATENCY_REASON_PREFIX @ '': '' @ debug_duration env observed
                  @ '' observed against a '' @ debug_duration env (pattern_latency_threshold eng) @ '' budget'';
            eng1 = disable_rule r eng;
            eng2 = drop_plan eng1 r;
            eng3 = eng2\<lparr>health := snd (mark_unhealthy r why LatencyBreach (health eng2))\<rparr>
        in (True, log_rejection env (RuleOther r why) eng3))"

subsection \<open>Who may run\<close>

definition is_eligible :: "('c, 'ts) DetectionEngine \<Rightarrow> string \<Rightarrow> bool" where
  "is_eligible eng r =
     (case hm_get (rules eng) r of
        None \<Rightarrow> False
      | Some rule \<Rightarrow>
          if \<not> enabled rule \<or> hm_get (compiled eng) r = None then False
          else \<not> resists (health eng) r)"

record RunnableRule =
  run_rule :: DetectionRule
  run_compiled :: CompiledRule
  run_descriptor :: TableDescriptor
  run_generation :: u64
  run_threshold :: nat

definition snapshot_runnable :: "('c, 'ts) DetectionEngine \<Rightarrow> string \<Rightarrow> RunnableRule option" where
  "snapshot_runnable eng r =
     (case hm_get (rules eng) r of None \<Rightarrow> None | Some rule \<Rightarrow>
     (case hm_get (compiled eng) r of None \<Rightarrow> None | Some c \<Rightarrow>
     (case (current_generation (generations eng) r, cat_table (catalog eng) (plan_table (plan c))) of
        (Some g, Some td) \<Rightarrow>
          Some \<lparr>run_rule = rule, run_compiled = c, run_descriptor = td, run_generation = g,
                run_threshold = pattern_latency_threshold eng\<rparr>
      | _ \<Rightarrow> None)))"

definition runnable_rules :: "('c, 'ts) DetectionEngine \<Rightarrow> RunnableRule list" where
  "runnable_rules eng =
     List.map_filter (snapshot_runnable eng) (filter (is_eligible eng) (sort (map fst (compiled eng))))"

definition is_runnable :: "('c, 'ts) DetectionEngine \<Rightarrow> string \<Rightarrow> u64 \<Rightarrow> bool" where
  "is_runnable eng r g \<longleftrightarrow> current_generation (generations eng) r = Some g \<and> is_eligible eng r"

subsection \<open>Keeping tasks alive\<close>

definition TASK_EXPIRED_REASON :: string where
  "TASK_EXPIRED_REASON =
     ''the pushed half stopped running: no renewal landed before the task TTL elapsed''"

record RenewalCycle =
  expired_rules :: "string list"
  due :: "PendingRenewal list"

definition coverable_rule_ids :: "('c, 'ts) DetectionEngine \<Rightarrow> string list" where
  "coverable_rule_ids eng = sort (filter (is_eligible eng) (map fst (compiled eng)))"

definition prune_task :: "('c, 'ts) DetectionEngine \<Rightarrow> string \<Rightarrow> ('c, 'ts) DetectionEngine" where
  "prune_task eng r =
     (if \<not> is_eligible eng r then eng\<lparr>tasks := forget_rule_tasks r (tasks eng)\<rparr> else eng)"

definition lapse_rule :: "('c, 'ts) DetectionEngine \<Rightarrow> string \<Rightarrow> ('c, 'ts) DetectionEngine" where
  "lapse_rule eng r =
     drop_plan (eng\<lparr>health := snd (mark_unhealthy r TASK_EXPIRED_REASON TaskExpiry (health eng))\<rparr>) r"

definition cover_rule ::
    "nat \<Rightarrow> PendingRenewal list \<times> ('c, 'ts) DetectionEngine \<Rightarrow> string \<Rightarrow>
     PendingRenewal list \<times> ('c, 'ts) DetectionEngine" where
  "cover_rule now = (\<lambda>(out, eng) r.
     case hm_get (compiled eng) r of
       None \<Rightarrow> (out, eng)
     | Some c \<Rightarrow>
         if is_tracked (task_id (rule_id c) (plan_collector c)) (tasks eng) then (out, eng)
         else let (p, l) = issue_task c now (tasks eng) in (out @ [p], eng\<lparr>tasks := l\<rparr>))"

definition renewal_cycle ::
    "nat \<Rightarrow> ('c, 'ts) DetectionEngine \<Rightarrow> RenewalCycle \<times> ('c, 'ts) DetectionEngine" where
  "renewal_cycle now eng =
     (let eng1 = foldl prune_task eng (tracked_rule_ids (tasks eng));
          (expired, l) = expire_tasks now (tasks eng1);
          eng2 = foldl lapse_rule (eng1\<lparr>tasks := l\<rparr>) expired;
          (issued, eng3) = foldl (cover_rule now) ([], eng2) (coverable_rule_ids eng2);
          out = foldl (\<lambda>out p. if list_ex (\<lambda>q. pending_task_id q = pending_task_id p) out then out else out @ [p])
                  issued (due_tasks now (tasks eng3))
      in (\<lparr>expired_rules = expired, due = out\<rparr>, eng3))"

definition issue_tasks_for_collector ::
    "string \<Rightarrow> nat \<Rightarrow> ('c, 'ts) DetectionEngine \<Rightarrow> PendingRenewal list \<times> ('c, 'ts) DetectionEngine" where
  "issue_tasks_for_collector cid now eng =
     (let owned = filter (\<lambda>c. plan_collector c = cid)
            (List.map_filter (hm_get (compiled eng)) (coverable_rule_ids eng));
          (out, l) = foldl (\<lambda>(out, l) c. let (p, l') = issue_task c now l in (out @ [p], l')) ([], tasks eng) owned
      in (out, eng\<lparr>tasks := l\<rparr>))"

definition record_renewal :: "string \<Rightarrow> nat \<Rightarrow> ('c, 'ts) DetectionEngine \<Rightarrow> bool \<times> ('c, 'ts) DetectionEngine" where
  "record_renewal tid now eng =
     (let (ok, l) = ledger_record_renewal tid now (tasks eng) in (ok, eng\<lparr>tasks := l\<rparr>))"

section \<open>What a changed catalog leaves resolvable\<close>

lemma find_distinct: "distinct (map f xs) \<Longrightarrow> x \<in> set xs \<Longrightarrow> List.find (\<lambda>y. f y = f x) xs = Some x"
  by (induction xs) (auto simp: image_iff)

lemma find_table_unique: "within_bounds d \<Longrightarrow> t \<in> set (tables d) \<Longrightarrow> find_table d (tbl_name t) = Some t"
  by (simp add: within_bounds_def find_table_def find_distinct)

lemma find_column_None: "find_column t c = None \<longleftrightarrow> c \<notin> set (map col_name (columns t))"
  by (auto simp: find_column_def find_None_iff)

lemma is_ok_resolve:
  "is_ok (resolve_reference cat t c) \<longleftrightarrow>
     (\<exists>td. cat_table cat t = Some td \<and> c \<in> set (map col_name (columns td)))"
proof (cases "cat_table cat t")
  case (Some td)
  then show ?thesis
    using find_column_None [of td c] by (cases "find_column td c") (auto simp: resolve_reference_def)
qed (simp add: resolve_reference_def)

lemma resolve_reference_iff:
  assumes "catalog_inv cat"
  shows "is_ok (resolve_reference cat t c) \<longleftrightarrow>
    (\<exists>cid d. ot_get (descriptors cat) cid = Some d \<and> (t, c) \<in> reference_set d)"
proof
  assume "is_ok (resolve_reference cat t c)"
  then obtain td where td: "cat_table cat t = Some td" "c \<in> set (map col_name (columns td))"
    by (auto simp: is_ok_resolve)
  then obtain cid d where "ot_get (descriptors cat) cid = Some d" "find_table d t = Some td"
    by (auto simp: cat_table_def split: option.splits)
  moreover from this have "td \<in> set (tables d)" "tbl_name td = t"
    by (auto simp: find_table_def find_Some_iff)
  ultimately show "\<exists>cid d. ot_get (descriptors cat) cid = Some d \<and> (t, c) \<in> reference_set d"
    using td(2) by (auto simp: reference_set_def)
next
  assume "\<exists>cid d. ot_get (descriptors cat) cid = Some d \<and> (t, c) \<in> reference_set d"
  then obtain cid d td where d: "ot_get (descriptors cat) cid = Some d"
    and td: "td \<in> set (tables d)" "tbl_name td = t" "c \<in> set (map col_name (columns td))"
    by (auto simp: reference_set_def)
  have "owner_of cat t = Some cid"
    using catalog_invD(7) [OF assms, of t cid] d td by (auto simp: table_names_def)
  moreover have "find_table d t = Some td"
    using find_table_unique [OF catalog_invD(4) [OF assms d] td(1)] td(2) by simp
  ultimately have "cat_table cat t = Some td"
    using d by (simp add: cat_table_def owner_of_def)
  with td(3) show "is_ok (resolve_reference cat t c)"
    by (simp add: is_ok_resolve)
qed

definition resolves :: "SchemaCatalog \<Rightarrow> CompiledRule \<Rightarrow> bool" where
  "resolves cat c \<longleftrightarrow> (\<forall>(t, col) \<in> references c. is_ok (resolve_reference cat t col))"

lemma untouched_resolves:
  assumes inv: "catalog_inv cat" and reg: "register v d cat = (Ok ch, cat')"
    and "\<not> first_registration ch" "t \<notin> affected_tables ch" and old: "is_ok (resolve_reference cat t c)"
  shows "is_ok (resolve_reference cat' t c)"
proof -
  let ?cid = "verified_id v" and ?stored = "d\<lparr>conformance_results := []\<rparr>"
  have acc: "acceptable v d cat"
    using is_ok_register [of v d cat] reg by simp
  have inv': "catalog_inv cat'"
    using register_inv [OF inv, of v d] reg by simp
  have ch: "ch = diff cat ?cid ?stored" and desc: "descriptors cat' = ot_insert ?cid ?stored (descriptors cat)"
    using register_accepted(1,2) [OF acc] reg by simp_all
  obtain cid e where e: "ot_get (descriptors cat) cid = Some e" "(t, c) \<in> reference_set e"
    using old resolve_reference_iff [OF inv] by blast
  show ?thesis
  proof (cases "cid = ?cid")
    case True
    then have "(t, c) \<in> reference_set ?stored"
      using assms(3,4) e by (force simp: ch diff_def Let_def)
    then show ?thesis
      unfolding resolve_reference_iff [OF inv'] desc by (intro exI [of _ ?cid]) auto
  next
    case False
    with e show ?thesis
      unfolding resolve_reference_iff [OF inv'] desc by (intro exI [of _ cid]) auto
  qed
qed

section \<open>The invariant of the engine\<close>

definition struct_ok :: "('c, 'ts) DetectionEngine \<Rightarrow> bool" where
  "struct_ok eng \<longleftrightarrow>
     hm_wf (rules eng) \<and> hm_wf (compiled eng) \<and> hm_wf (held (generations eng)) \<and> ot_wf (health eng)
     \<and> ot_wf (tasks eng) \<and> catalog_inv (catalog eng)
     \<and> (catalog_is_empty (catalog eng) \<or> deferred eng = [])"

text \<open>What holds of one rule identity.\<close>

definition slot_ok :: "('c, 'ts) DetectionEngine \<Rightarrow> string \<Rightarrow> bool" where
  "slot_ok eng r \<longleftrightarrow>
     (\<forall>rule. hm_get (rules eng) r = Some rule \<longrightarrow> id_raw rule = r)
     \<and> (hm_get (rules eng) r = None \<longleftrightarrow> current_generation (generations eng) r = None)
     \<and> (\<forall>c. hm_get (compiled eng) r = Some c \<longrightarrow>
          hm_get (rules eng) r \<noteq> None \<and> rule_id c = r \<and> \<not> catalog_is_empty (catalog eng) \<and> finite (references c)
          \<and> (\<exists>tr. ot_get (health eng) r = Some tr \<and> tracked_health tr = Healthy
                \<and> tracked_references tr = references c))"

definition resolved :: "('c, 'ts) DetectionEngine \<Rightarrow> bool" where
  "resolved eng \<longleftrightarrow> (\<forall>r c. hm_get (compiled eng) r = Some c \<longrightarrow> resolves (catalog eng) c)"

definition engine_inv :: "('c, 'ts) DetectionEngine \<Rightarrow> bool" where
  "engine_inv eng \<longleftrightarrow> struct_ok eng \<and> (\<forall>r. slot_ok eng r) \<and> resolved eng"

lemma slot_okD:
  assumes "slot_ok eng r"
  shows "hm_get (rules eng) r = Some rule \<Longrightarrow> id_raw rule = r"
    and "hm_get (rules eng) r = None \<longleftrightarrow> current_generation (generations eng) r = None"
    and "hm_get (compiled eng) r = Some c \<Longrightarrow> hm_get (rules eng) r \<noteq> None"
    and "hm_get (compiled eng) r = Some c \<Longrightarrow> rule_id c = r"
    and "hm_get (compiled eng) r = Some c \<Longrightarrow> \<not> catalog_is_empty (catalog eng)"
    and "hm_get (compiled eng) r = Some c \<Longrightarrow> \<exists>tr. ot_get (health eng) r = Some tr \<and> tracked_health tr = Healthy
      \<and> tracked_references tr = references c"
    and "hm_get (compiled eng) r = Some c \<Longrightarrow> finite (references c)"
  using assms unfolding slot_ok_def by blast+

lemma slot_ok_cong:
  assumes "hm_get (rules eng') r = hm_get (rules eng) r"
    "current_generation (generations eng') r = current_generation (generations eng) r"
    "hm_get (compiled eng') r = hm_get (compiled eng) r" "ot_get (health eng') r = ot_get (health eng) r"
    "catalog_is_empty (catalog eng') = catalog_is_empty (catalog eng)"
  shows "slot_ok eng' r = slot_ok eng r"
  using assms by (simp add: slot_ok_def)

lemma resolved_sub:
  assumes "resolved eng" "catalog eng' = catalog eng"
    "\<And>r c. hm_get (compiled eng') r = Some c \<Longrightarrow> hm_get (compiled eng) r = Some c"
  shows "resolved eng'"
  using assms unfolding resolved_def by metis

text \<open>Writing to the log changes nothing the invariant reads.\<close>

lemma log_rejection_simps [simp]:
  "rules (log_rejection env why eng) = rules eng" "compiled (log_rejection env why eng) = compiled eng"
  "deferred (log_rejection env why eng) = deferred eng" "catalog (log_rejection env why eng) = catalog eng"
  "health (log_rejection env why eng) = health eng" "generations (log_rejection env why eng) = generations eng"
  "tasks (log_rejection env why eng) = tasks eng"
  "max_subquery_depth (log_rejection env why eng) = max_subquery_depth eng"
  "pattern_latency_threshold (log_rejection env why eng) = pattern_latency_threshold eng"
  "last_evaluations (log_rejection env why eng) = last_evaluations eng"
  by (simp_all add: log_rejection_def)

lemma log_rejection_inv [simp]:
  "struct_ok (log_rejection env why eng) = struct_ok eng" "slot_ok (log_rejection env why eng) r = slot_ok eng r"
  "resolved (log_rejection env why eng) = resolved eng" "engine_inv (log_rejection env why eng) = engine_inv eng"
  by (simp_all add: struct_ok_def slot_ok_def resolved_def engine_inv_def)

subsection \<open>Plans\<close>

lemma plan_loaded_Ok:
  assumes "plan_loaded env rule eng = Ok c" "struct_ok eng"
  shows "rule_id c = id_raw rule" "resolves (catalog eng) c" "\<not> catalog_is_empty (catalog eng)" "finite (references c)"
proof -
  have plan: "plan_rule (sql_of env) (catalog eng) rule (max_subquery_depth eng) = Ok c"
    using assms(1) by (auto simp: plan_loaded_def split: sum.splits option.splits)
  show "rule_id c = id_raw rule"
    by (rule plan_references(1) [OF plan])
  show "resolves (catalog eng) c"
    using plan_references(4) [OF plan] by (auto simp: resolves_def)
  have inv: "catalog_inv (catalog eng)"
    using assms(2) by (simp add: struct_ok_def)
  show "finite (references c)"
    using plan by (rule plan_rule_Ok) (auto simp: resolve_all_references_def dest!: resolve_each_Ok)
  show "\<not> catalog_is_empty (catalog eng)"
    using plan_references(3) [OF plan] catalog_invD(7) [OF inv] by (auto simp: catalog_is_empty_def)
qed

lemma track_get:
  "ot_get (track r refs reg) r' =
     (if r' = r then Some \<lparr>tracked_references = refs,
        tracked_health = (if resists reg r then the (health_of reg r) else Healthy)\<rparr>
      else ot_get reg r')"
  by (auto simp: track_def resists_def split: option.splits)

lemma resists_track: "resists (track r refs reg) r' = resists reg r'"
  by (auto simp: resists_def health_of_def track_get resists_auto_recovery_def split: option.splits)

lemma record_plan_simps [simp]:
  "rules (record_plan r c eng) = rules eng" "deferred (record_plan r c eng) = deferred eng"
  "catalog (record_plan r c eng) = catalog eng" "generations (record_plan r c eng) = generations eng"
  "tasks (record_plan r c eng) = tasks eng" "health (record_plan r c eng) = track r (references c) (health eng)"
  "max_subquery_depth (record_plan r c eng) = max_subquery_depth eng"
  "pattern_latency_threshold (record_plan r c eng) = pattern_latency_threshold eng"
  by (simp_all add: record_plan_def Let_def)

lemma record_plan_compiled:
  "hm_get (compiled (record_plan r c eng)) r' =
     (if r' = r \<and> \<not> resists (health eng) r then Some c else hm_get (compiled eng) r')"
  by (simp add: record_plan_def Let_def resists_track)

lemma struct_ok_record_plan: "struct_ok eng \<Longrightarrow> struct_ok (record_plan r c eng)"
  by (simp add: struct_ok_def record_plan_def Let_def track_def)

lemma record_plan_slot:
  assumes "slot_ok eng r'" "r' \<noteq> r"
  shows "slot_ok (record_plan r c eng) r'"
  using assms slot_ok_cong [of "record_plan r c eng" r' eng] by (simp add: record_plan_compiled track_get)

text \<open>The slot that is planned: it is not planned already, or its health is sound.\<close>

lemma record_plan_slot_same:
  assumes "\<And>rule. hm_get (rules eng) r = Some rule \<Longrightarrow> id_raw rule = r"
    and "hm_get (rules eng) r = None \<longleftrightarrow> current_generation (generations eng) r = None"
    and "hm_get (rules eng) r \<noteq> None" "rule_id c = r" "\<not> catalog_is_empty (catalog eng)" "finite (references c)"
    and "resists (health eng) r \<Longrightarrow> hm_get (compiled eng) r = None"
  shows "slot_ok (record_plan r c eng) r"
  using assms by (auto simp: slot_ok_def record_plan_compiled track_get)

lemma slot_not_resists: "slot_ok eng r \<Longrightarrow> hm_get (compiled eng) r \<noteq> None \<Longrightarrow> \<not> resists (health eng) r"
  by (auto simp: slot_ok_def resists_def health_of_def resists_auto_recovery_def)

lemma plan_and_record_cases:
  obtains (kept) "snd (plan_and_record env r eng) = eng"
  | (planned) rule c where "hm_get (rules eng) r = Some rule" "plan_loaded env rule eng = Ok c"
      "plan_and_record env r eng = (Ok (), record_plan r c eng)"
proof (cases "hm_get (rules eng) r")
  case None
  then show thesis
    by (intro kept) (simp add: plan_and_record_def)
next
  case (Some rule)
  then show thesis
    using kept planned [OF Some]
    by (cases "plan_loaded env rule eng") (simp_all add: plan_and_record_def)
qed

lemma plan_and_record_inv:
  assumes "struct_ok eng" "\<And>r. slot_ok eng r" "plan_and_record env r eng = (res, eng')"
  shows "struct_ok eng'" "slot_ok eng' r'"
    and "hm_get (compiled eng') r' = Some c \<Longrightarrow> resolves (catalog eng) c \<or> hm_get (compiled eng) r' = Some c"
    and "catalog eng' = catalog eng" "deferred eng' = deferred eng" "rules eng' = rules eng"
proof -
  consider "eng' = eng" | rule c where "hm_get (rules eng) r = Some rule" "plan_loaded env rule eng = Ok c"
      "eng' = record_plan r c eng"
    by (rule plan_and_record_cases [of env r eng]) (use assms(3) in simp_all)
  then have "struct_ok eng' \<and> slot_ok eng' r'
    \<and> (hm_get (compiled eng') r' = Some c \<longrightarrow> resolves (catalog eng) c \<or> hm_get (compiled eng) r' = Some c)
    \<and> catalog eng' = catalog eng \<and> deferred eng' = deferred eng \<and> rules eng' = rules eng"
  proof cases
    case 1
    with assms show ?thesis by simp
  next
    case (2 rule p)
    note p = plan_loaded_Ok [OF 2(2) assms(1)]
    note slot = slot_okD [OF assms(2) [of r]]
    have "slot_ok eng' r"
      unfolding 2(3)
    proof (rule record_plan_slot_same [OF slot(1,2)])
      show "rule_id p = r"
        using p(1) slot(1) [OF 2(1)] by simp
      show "hm_get (compiled eng) r = None" if "resists (health eng) r"
        using slot_not_resists [OF assms(2) [of r]] that by blast
    qed (use 2(1) p slot(1) in simp_all)
    then have "slot_ok eng' r'"
      using record_plan_slot [OF assms(2) [of r'], of r p] 2(3) by (cases "r' = r") simp_all
    then show ?thesis
      using p(2) assms(1) by (auto simp: 2(3) struct_ok_record_plan record_plan_compiled split: if_splits)
  qed
  then show "struct_ok eng'" "slot_ok eng' r'"
    and "hm_get (compiled eng') r' = Some c \<Longrightarrow> resolves (catalog eng) c \<or> hm_get (compiled eng) r' = Some c"
    and "catalog eng' = catalog eng" "deferred eng' = deferred eng" "rules eng' = rules eng"
    by blast+
qed

subsection \<open>Registration\<close>

text \<open>The states between the change of the catalog and the end of the registration.\<close>

definition planning :: "SchemaCatalog \<Rightarrow> (string \<Rightarrow> CompiledRule \<Rightarrow> bool) \<Rightarrow> ('c, 'ts) DetectionEngine \<Rightarrow> bool" where
  "planning cat old eng \<longleftrightarrow>
     struct_ok eng \<and> (\<forall>r. slot_ok eng r) \<and> catalog eng = cat
     \<and> (\<forall>r c. hm_get (compiled eng) r = Some c \<longrightarrow> resolves cat c \<or> old r c)"

lemma planningD:
  assumes "planning cat old eng"
  shows "struct_ok eng" "slot_ok eng r" "catalog eng = cat"
    and "hm_get (compiled eng) r = Some c \<Longrightarrow> resolves cat c \<or> old r c"
  using assms by (auto simp: planning_def)

lemma planning_plan_and_record:
  assumes "planning cat old eng"
  shows "planning cat old (snd (plan_and_record env r eng))"
proof -
  obtain res eng' where eq: "plan_and_record env r eng = (res, eng')" by (cases "plan_and_record env r eng")
  note D = planningD [OF assms] and P = plan_and_record_inv [OF planningD(1,2) [OF assms] eq]
  have "resolves cat c \<or> old r' c" if "hm_get (compiled eng') r' = Some c" for r' c
    using P(3) [OF that] D(3,4) by auto
  then show ?thesis
    using P(1,2,4) D(3) by (simp add: planning_def eq)
qed

text \<open>Dropping a plan, or a whole rule, keeps every slot sound.\<close>

lemma drop_plan_simps [simp]:
  "rules (drop_plan eng r) = rules eng" "deferred (drop_plan eng r) = deferred eng"
  "catalog (drop_plan eng r) = catalog eng" "generations (drop_plan eng r) = generations eng"
  "tasks (drop_plan eng r) = tasks eng" "health (drop_plan eng r) = health eng"
  "compiled (drop_plan eng r) = hm_remove r (compiled eng)"
  "pattern_latency_threshold (drop_plan eng r) = pattern_latency_threshold eng"
  by (simp_all add: drop_plan_def)

lemma slot_ok_unplanned:
  "hm_get (compiled eng) r = None \<Longrightarrow>
     slot_ok eng r \<longleftrightarrow> (\<forall>rule. hm_get (rules eng) r = Some rule \<longrightarrow> id_raw rule = r)
       \<and> (hm_get (rules eng) r = None \<longleftrightarrow> current_generation (generations eng) r = None)"
  by (simp add: slot_ok_def)

text \<open>A step that leaves the identity \<open>r\<close> without a plan and the others as they were.\<close>

lemma planning_unplan:
  assumes "planning cat old eng" "struct_ok eng'" "catalog eng' = catalog eng"
    and "hm_get (compiled eng') r = None" "slot_ok eng' r"
    and "\<And>r'. r' \<noteq> r \<Longrightarrow> hm_get (rules eng') r' = hm_get (rules eng) r'
        \<and> current_generation (generations eng') r' = current_generation (generations eng) r'
        \<and> hm_get (compiled eng') r' = hm_get (compiled eng) r' \<and> ot_get (health eng') r' = ot_get (health eng) r'"
  shows "planning cat old eng'"
proof -
  note D = planningD [OF assms(1)]
  have slot: "slot_ok eng' r'" for r'
  proof (cases "r' = r")
    case False
    then show ?thesis
      using slot_ok_cong [of eng' r' eng] assms(3) assms(6) [OF False] D(2) by simp
  qed (simp add: assms(5))
  moreover have "resolves cat c \<or> old r' c" if "hm_get (compiled eng') r' = Some c" for r' c
    using that assms(4,6) D(4) by (cases "r' = r") simp_all
  ultimately show ?thesis
    using assms(2,3) D(3) by (simp add: planning_def)
qed

lemma planning_drop_plan:
  assumes "planning cat old eng"
  shows "planning cat old (drop_plan eng r)"
proof (rule planning_unplan [OF assms])
  show "struct_ok (drop_plan eng r)"
    using planningD(1) [OF assms] by (simp add: struct_ok_def)
  show "slot_ok (drop_plan eng r) r"
    using slot_okD(1,2) [OF planningD(2) [OF assms, of r]] by (simp add: slot_ok_unplanned)
qed simp_all

lemma planning_log_rejection [simp]: "planning cat old (log_rejection env why eng) = planning cat old eng"
  by (simp add: planning_def)

lemma planning_reject_rule:
  assumes "planning cat old eng"
  shows "planning cat old (reject_rule env r message eng)"
proof (rule planning_unplan [OF assms])
  show "struct_ok (reject_rule env r message eng)"
    using planningD(1) [OF assms]
    by (simp add: struct_ok_def reject_rule_def Let_def forget_health_def forget_generation_def)
  show "slot_ok (reject_rule env r message eng) r"
    by (simp add: slot_ok_def reject_rule_def Let_def forget_generation_def current_generation_def)
qed (simp_all add: reject_rule_def Let_def forget_generation_def current_generation_def forget_health_def)

lemma planning_drain: "planning cat old eng \<Longrightarrow> planning cat old (drain_rule env eng r)"
  using planning_plan_and_record [of cat old eng env r] planning_reject_rule
  by (auto simp: drain_rule_def split: prod.splits sum.splits)

lemma planning_replan: "planning cat old eng \<Longrightarrow> planning cat old (replan_rule env eng r)"
  using planning_plan_and_record [of cat old eng env r] planning_drop_plan [of cat old _ r]
  by (auto simp: replan_rule_def drop_plan_def split: prod.splits sum.splits)

lemma ot_get_map_values: "ot_get (map (\<lambda>(k, v). (k, f v)) t) k = map_option f (ot_get t k)"
  by (induction t) (auto simp: ot_get_def)

lemma ot_wf_map_values: "ot_wf (map (\<lambda>(k, v). (k, f v)) t) = ot_wf t"
proof -
  have "map fst (map (\<lambda>(k, v). (k, f v)) t) = map fst t"
    by (induction t) auto
  then show ?thesis
    by (simp only: ot_wf_def)
qed

lemma first_unresolved_None:
  assumes "finite (tracked_references tr)" "first_unresolved cat tr = None" "(t, c) \<in> tracked_references tr"
  shows "is_ok (resolve_reference cat t c)"
proof (rule ccontr)
  assume "\<not> is_ok (resolve_reference cat t c)"
  then have "unresolved cat (t, c) \<noteq> None"
    by (auto simp: unresolved_def is_ok_def split: sum.splits)
  then have "List.map_filter (unresolved cat) (sorted_list_of_set (tracked_references tr)) \<noteq> []"
    using assms(1,3) by (auto simp: map_filter_def filter_empty_conv intro!: bexI [of _ "(t, c)"])
  with assms(2) show False
    by (auto simp: first_unresolved_def split: list.splits)
qed

lemma foldl_drop_plan:
  "foldl drop_plan eng rs = eng\<lparr>compiled := compiled (foldl drop_plan eng rs)\<rparr>
   \<and> hm_get (compiled (foldl drop_plan eng rs)) r = (if r \<in> set rs then None else hm_get (compiled eng) r)
   \<and> (hm_wf (compiled eng) \<longrightarrow> hm_wf (compiled (foldl drop_plan eng rs)))"
proof (induction rs arbitrary: eng)
  case (Cons x xs)
  show ?case
    using Cons [of "drop_plan eng x"] by (auto simp: drop_plan_def)
qed simp

text \<open>What the pass does to a rule that holds a plan, and so is healthy.\<close>

lemma revalidate_rule_healthy:
  assumes "tracked_health tr = Healthy" "finite (tracked_references tr)"
  obtains (skipped) "\<not> first_registration ch" "\<not> touches tr ch" "revalidate_rule cat ch tr = (tr, False, False)"
  | (sound) "\<forall>(t, c) \<in> tracked_references tr. is_ok (resolve_reference cat t c)"
      "revalidate_rule cat ch tr = (tr, True, False)"
  | (broken) why where "revalidate_rule cat ch tr = (tr\<lparr>tracked_health := Unhealthy why Reference\<rparr>, False, True)"
proof (cases "\<not> first_registration ch \<and> \<not> touches tr ch")
  case True
  with skipped assms show thesis
    by (simp add: revalidate_rule_def resists_auto_recovery_def)
next
  case False
  show thesis
  proof (cases "first_unresolved cat tr")
    case None
    have "tr\<lparr>tracked_health := Healthy\<rparr> = tr"
      using assms(1) by (cases tr) simp
    then have "revalidate_rule cat ch tr = (tr, True, False)"
      using False None assms(1) by (simp add: revalidate_rule_def resists_auto_recovery_def)
    with sound first_unresolved_None [OF assms(2) None] show thesis by blast
  next
    case (Some why)
    with False assms(1) broken show thesis
      by (simp add: revalidate_rule_def resists_auto_recovery_def)
  qed
qed

lemma planning_revalidate:
  assumes P: "planning cat old eng" and rv: "revalidate cat ch (health eng) = (outcome, reg)"
    and untouched: "\<And>r c. old r c \<Longrightarrow> change_is_empty ch \<or> \<not> first_registration ch
        \<and> \<not> (\<exists>e \<in> references c. fst e \<in> affected_tables ch) \<Longrightarrow> resolves cat c"
  shows "planning cat (\<lambda>_ _. False) (foldl drop_plan (eng\<lparr>health := reg\<rparr>) (newly_unhealthy outcome))"
    (is "planning _ _ ?eng'")
proof (cases "change_is_empty ch")
  case True
  then have "?eng' = eng"
    using rv by (auto simp: revalidate_def)
  moreover have "resolves cat c" if "hm_get (compiled eng) r = Some c" for r c
    using planningD(4) [OF P that] untouched True by blast
  ultimately show ?thesis
    using P by (simp add: planning_def)
next
  case False
  note D = planningD [OF P]
  have reg: "reg = map (\<lambda>(r, rule). (r, fst (revalidate_rule cat ch rule))) (health eng)"
    and out: "newly_unhealthy outcome =
      map fst (filter (\<lambda>(_, rule). snd (snd (revalidate_rule cat ch rule))) (health eng))"
    using rv False by (auto simp: revalidate_def)
  have wf: "ot_wf (health eng)"
    using D(1) by (simp add: struct_ok_def)
  have newly: "r \<in> set (newly_unhealthy outcome)"
    if "ot_get (health eng) r = Some tr" "snd (snd (revalidate_rule cat ch tr))" for r tr
    using that by (force simp: out ot_get_iff [OF wf])
  have fields: "?eng' = eng\<lparr>health := reg, compiled := compiled ?eng'\<rparr>"
    and comp: "hm_get (compiled ?eng') r = (if r \<in> set (newly_unhealthy outcome) then None else hm_get (compiled eng) r)"
    and cwf: "hm_wf (compiled ?eng')" for r
    using foldl_drop_plan [of "eng\<lparr>health := reg\<rparr>" "newly_unhealthy outcome" r] D(1)
    by (auto simp: struct_ok_def)
  have sel: "rules ?eng' = rules eng" "generations ?eng' = generations eng" "catalog ?eng' = cat"
    "health ?eng' = reg" "tasks ?eng' = tasks eng" "deferred ?eng' = deferred eng"
    by (subst fields, simp add: D(3))+
  have planned: "(\<exists>tr. ot_get reg r = Some tr \<and> tracked_health tr = Healthy \<and> tracked_references tr = references c)
      \<and> resolves cat c" if "hm_get (compiled ?eng') r = Some c" for r c
  proof -
    have old_c: "hm_get (compiled eng) r = Some c" and r: "r \<notin> set (newly_unhealthy outcome)"
      using that comp [of r] by (auto split: if_splits)
    obtain tr where tr: "ot_get (health eng) r = Some tr" "tracked_health tr = Healthy" "tracked_references tr = references c"
      using slot_okD(6) [OF D(2) old_c] by blast
    have get: "ot_get reg r = Some (fst (revalidate_rule cat ch tr))"
      by (simp add: reg ot_get_map_values tr(1))
    have fin: "finite (tracked_references tr)"
      using slot_okD(7) [OF D(2) old_c] tr(3) by simp
    show ?thesis
    proof (cases rule: revalidate_rule_healthy [OF tr(2) fin, of ch cat])
      case 1
      then have "resolves cat c"
        using D(4) [OF old_c] untouched [of r c] tr(3) by (auto simp: touches_def)
      with 1 get tr show ?thesis by simp
    next
      case 2
      with get tr show ?thesis by (simp add: resolves_def)
    next
      case (3 why)
      with newly [OF tr(1)] r show ?thesis by simp
    qed
  qed
  have "slot_ok ?eng' r" for r
    using slot_okD [OF D(2) [of r]] planned [of r] comp [of r]
    unfolding slot_ok_def sel by (auto simp: D(3) split: if_splits)
  moreover have "struct_ok ?eng'"
    using D(1) cwf unfolding struct_ok_def sel by (simp add: reg ot_wf_map_values D(3))
  ultimately show ?thesis
    using planned sel(3) by (simp add: planning_def)
qed

lemma ot_insert_not_Nil: "ot_insert k v t \<noteq> []"
  by (cases t) (auto split: if_splits)

lemma engine_invD:
  assumes "engine_inv eng"
  shows "struct_ok eng" "slot_ok eng r" "hm_get (compiled eng) r = Some c \<Longrightarrow> resolves (catalog eng) c"
  using assms by (auto simp: engine_inv_def resolved_def)

lemma planning_engine_inv: "planning (catalog eng) (\<lambda>_ _. False) eng \<longleftrightarrow> engine_inv eng"
  by (auto simp: planning_def engine_inv_def resolved_def)

lemma planning_catalog: "planning cat old eng \<Longrightarrow> catalog eng = cat"
  by (simp add: planning_def)

lemma register_collector_refused:
  "register v d (catalog eng) = (Err e, cat) \<Longrightarrow> register_collector env v d eng = (Err e, eng)"
  using register_refused [of v d "catalog eng"] is_ok_register [of v d "catalog eng"]
  by (simp add: register_collector_def)

lemma register_collector_inv:
  assumes inv: "engine_inv eng"
  shows "engine_inv (snd (register_collector env v d eng))"
proof (cases "register v d (catalog eng)")
  case reg: (Pair res cat)
  note I = engine_invD [OF inv]
  have cinv: "catalog_inv (catalog eng)"
    using I(1) by (simp add: struct_ok_def)
  show ?thesis
  proof (cases res)
    case (Inl e)
    with reg inv show ?thesis by (simp add: register_collector_refused)
  next
    case (Inr ch)
    let ?old = "\<lambda>r c. hm_get (compiled eng) r = Some c"
    let ?s0 = "eng\<lparr>catalog := cat, deferred := []\<rparr>"
    let ?s1 = "foldl (drain_rule env) ?s0 (deferred eng)"
    obtain outcome hr where rv: "revalidate (catalog ?s1) ch (health ?s1) = (outcome, hr)"
      by (cases "revalidate (catalog ?s1) ch (health ?s1)")
    let ?s2 = "foldl drop_plan (?s1\<lparr>health := hr\<rparr>) (newly_unhealthy outcome)"
    let ?s3 = "foldl (replan_rule env) ?s2 (to_replan outcome)"
    have acc: "acceptable v d (catalog eng)"
      using is_ok_register [of v d "catalog eng"] reg Inr by simp
    have ne: "\<not> catalog_is_empty cat"
      using register_accepted(2) [OF acc] reg by (simp add: catalog_is_empty_def ot_insert_not_Nil)
    have "catalog_inv cat"
      using register_inv [OF cinv, of v d] reg by simp
    then have "struct_ok ?s0"
      using I(1) by (simp add: struct_ok_def)
    moreover have "slot_ok ?s0 r" for r
      using I(2) [of r] ne by (auto simp: slot_ok_def)
    ultimately have "planning cat ?old ?s0"
      by (simp add: planning_def)
    then have s1: "planning cat ?old ?s1"
      by (rule foldl_invariant) (rule planning_drain)
    have untouched: "resolves cat c"
      if "?old r c" "change_is_empty ch \<or> \<not> first_registration ch
        \<and> \<not> (\<exists>e \<in> references c. fst e \<in> affected_tables ch)" for r c
    proof -
      have "\<not> first_registration ch" "\<And>t col. (t, col) \<in> references c \<Longrightarrow> t \<notin> affected_tables ch"
        using that(2) by (auto simp: change_is_empty_def)
      then show ?thesis
        using I(3) [OF that(1)] untouched_resolves [OF cinv reg [unfolded Inr]]
        by (auto simp: resolves_def)
    qed
    have "planning cat (\<lambda>_ _. False) ?s2"
      by (rule planning_revalidate [OF s1 rv [unfolded planning_catalog [OF s1]]]) (rule untouched)
    then have "planning cat (\<lambda>_ _. False) ?s3"
      by (rule foldl_invariant) (rule planning_replan)
    then have "engine_inv ?s3"
      using planning_catalog planning_engine_inv by metis
    moreover have "snd (register_collector env v d eng) = ?s3"
      using reg rv by (simp add: register_collector_def Inr)
    ultimately show ?thesis by simp
  qed
qed

subsection \<open>The other operations\<close>

lemma slot_ok_tasks [simp]: "slot_ok (eng\<lparr>tasks := l\<rparr>) r = slot_ok eng r"
  by (rule slot_ok_cong) simp_all

lemma slot_ok_evaluations [simp]: "slot_ok (eng\<lparr>last_evaluations := m\<rparr>) r = slot_ok eng r"
  by (rule slot_ok_cong) simp_all

lemma engine_inv_tasks: "engine_inv eng \<Longrightarrow> ot_wf l \<Longrightarrow> engine_inv (eng\<lparr>tasks := l\<rparr>)"
  by (simp add: engine_inv_def struct_ok_def resolved_def)

lemma engine_inv_evaluations: "engine_inv eng \<Longrightarrow> engine_inv (eng\<lparr>last_evaluations := m\<rparr>)"
  by (simp add: engine_inv_def struct_ok_def resolved_def)

lemma engine_inv_enabled:
  assumes "engine_inv eng" "hm_get (rules eng) r = Some rule"
  shows "engine_inv (eng\<lparr>rules := hm_insert r (rule\<lparr>enabled := on\<rparr>) (rules eng)\<rparr>)" (is "engine_inv ?eng'")
proof -
  note I = engine_invD [OF assms(1)]
  have "slot_ok ?eng' r'" for r'
    using I(2) [of r'] assms(2) by (auto simp: slot_ok_def)
  moreover have "struct_ok ?eng'" "resolved ?eng'"
    using assms(1) by (simp_all add: engine_inv_def struct_ok_def resolved_def)
  ultimately show ?thesis
    by (simp add: engine_inv_def)
qed

lemma set_rule_enabled_cases:
  obtains (same) "snd (set_rule_enabled r on eng) = eng"
  | (changed) rule where "hm_get (rules eng) r = Some rule"
      "on \<longrightarrow> \<not> resists (health eng) r"
      "snd (set_rule_enabled r on eng) = eng\<lparr>rules := hm_insert r (rule\<lparr>enabled := on\<rparr>) (rules eng)\<rparr>"
proof (cases "on \<and> resists (health eng) r")
  case True
  then obtain why cause where "health_of (health eng) r = Some (Unhealthy why cause)" "cause_resists cause"
    by (auto simp: resists_def resists_auto_recovery_def split: option.splits RuleHealth.splits)
  with True same show thesis by (simp add: set_rule_enabled_def)
next
  case False
  then have "set_rule_enabled r on eng =
    (case hm_get (rules eng) r of
       None \<Rightarrow> (Err (ExecutionError (''Rule not found: '' @ r)), eng)
     | Some rule \<Rightarrow> (Ok (), eng\<lparr>rules := hm_insert r (rule\<lparr>enabled := on\<rparr>) (rules eng)\<rparr>))"
    by (auto simp: set_rule_enabled_def resists_def resists_auto_recovery_def
        split: option.splits RuleHealth.splits)
  with False same changed show thesis
    by (cases "hm_get (rules eng) r") auto
qed

lemma set_rule_enabled_inv: "engine_inv eng \<Longrightarrow> engine_inv (snd (set_rule_enabled r on eng))"
  by (rule set_rule_enabled_cases [of r on eng]) (simp_all add: engine_inv_enabled)

lemma unplan_inv:
  assumes "engine_inv eng" "struct_ok eng'" "catalog eng' = catalog eng"
    and "hm_get (compiled eng') r = None" "slot_ok eng' r"
    and "\<And>r'. r' \<noteq> r \<Longrightarrow> hm_get (rules eng') r' = hm_get (rules eng) r'
        \<and> current_generation (generations eng') r' = current_generation (generations eng) r'
        \<and> hm_get (compiled eng') r' = hm_get (compiled eng) r' \<and> ot_get (health eng') r' = ot_get (health eng) r'"
  shows "engine_inv eng'"
  using planning_unplan [OF _ assms(2-6), of "catalog eng" "\<lambda>_ _. False"] assms(1,3)
  by (metis planning_engine_inv)

lemma ot_wf_forget_rule_tasks: "ot_wf l \<Longrightarrow> ot_wf (forget_rule_tasks r l)"
  by (simp add: forget_rule_tasks_def ot_wf_filter)

lemma remove_rule_inv:
  assumes "engine_inv eng"
  shows "engine_inv (snd (remove_rule r eng))"
proof (rule unplan_inv [OF assms, where r = r])
  show "struct_ok (snd (remove_rule r eng))"
    using engine_invD(1) [OF assms]
    by (auto simp: struct_ok_def remove_rule_def forget_health_def forget_generation_def ot_wf_forget_rule_tasks)
  show "slot_ok (snd (remove_rule r eng)) r"
    by (simp add: slot_ok_def remove_rule_def forget_generation_def current_generation_def)
qed (simp_all add: remove_rule_def forget_generation_def current_generation_def forget_health_def)

lemma mark_unhealthy_get:
  "r' \<noteq> r \<Longrightarrow> ot_get (snd (mark_unhealthy r why cause reg)) r' = ot_get reg r'"
  "ot_wf reg \<Longrightarrow> ot_wf (snd (mark_unhealthy r why cause reg))"
  by (auto simp: mark_unhealthy_def split: option.splits)

lemma lapse_rule_inv:
  assumes "engine_inv eng"
  shows "engine_inv (lapse_rule eng r)"
proof (rule unplan_inv [OF assms, where r = r])
  show "struct_ok (lapse_rule eng r)"
    using engine_invD(1) [OF assms] by (simp add: struct_ok_def lapse_rule_def mark_unhealthy_get)
  show "slot_ok (lapse_rule eng r) r"
    using slot_okD(1,2) [OF engine_invD(2) [OF assms, of r]] by (simp add: slot_ok_unplanned lapse_rule_def)
qed (simp_all add: lapse_rule_def mark_unhealthy_get)

lemma disable_rule_simps [simp]:
  "compiled (disable_rule r eng) = compiled eng" "deferred (disable_rule r eng) = deferred eng"
  "catalog (disable_rule r eng) = catalog eng" "health (disable_rule r eng) = health eng"
  "generations (disable_rule r eng) = generations eng" "tasks (disable_rule r eng) = tasks eng"
  by (simp_all add: disable_rule_def split: option.splits)

lemma disable_rule_inv: "engine_inv eng \<Longrightarrow> engine_inv (disable_rule r eng)"
  by (simp add: disable_rule_def engine_inv_enabled split: option.splits)

definition breach_rule :: "string \<Rightarrow> string \<Rightarrow> ('c, 'ts) DetectionEngine \<Rightarrow> ('c, 'ts) DetectionEngine" where
  "breach_rule r why eng =
     drop_plan (disable_rule r eng) r\<lparr>health := snd (mark_unhealthy r why LatencyBreach (health eng))\<rparr>"

lemma observe_pattern_latency_cases:
  obtains (same) "snd (observe_pattern_latency env r g observed eng) = eng"
      "fst (observe_pattern_latency env r g observed eng) \<longrightarrow>
         current_generation (generations eng) r = Some g \<and> resists (health eng) r"
  | (breach) why where "current_generation (generations eng) r = Some g" "\<not> resists (health eng) r"
      "observe_pattern_latency env r g observed eng =
        (True, log_rejection env (RuleOther r why) (breach_rule r why eng))"
proof -
  let ?res = "observe_pattern_latency env r g observed eng"
  let ?why = "PATTERN_LATENCY_REASON_PREFIX @ '': '' @ debug_duration env observed
                  @ '' observed against a '' @ debug_duration env (pattern_latency_threshold eng) @ '' budget''"
  consider "current_generation (generations eng) r \<noteq> Some g \<or> observed \<le> pattern_latency_threshold eng"
    | "current_generation (generations eng) r = Some g" "\<not> observed \<le> pattern_latency_threshold eng" "resists (health eng) r"
    | "current_generation (generations eng) r = Some g" "\<not> observed \<le> pattern_latency_threshold eng" "\<not> resists (health eng) r"
    by blast
  then show thesis
  proof cases
    case 1
    then have "?res = (False, eng)" by (auto simp: observe_pattern_latency_def)
    with same show thesis by simp
  next
    case 2
    then have "?res = (True, eng)" by (simp add: observe_pattern_latency_def)
    with same 2 show thesis by simp
  next
    case 3
    then show thesis
      by (intro breach [of ?why])
        (simp_all add: observe_pattern_latency_def Let_def breach_rule_def)
  qed
qed

lemma observe_pattern_latency_inv:
  assumes "engine_inv eng"
  shows "engine_inv (snd (observe_pattern_latency env r g observed eng))"
proof (cases rule: observe_pattern_latency_cases [of env r g observed eng])
  case same
  with assms show ?thesis by simp
next
  case (breach why)
  have inv: "engine_inv (disable_rule r eng)"
    by (rule disable_rule_inv [OF assms])
  have "engine_inv (breach_rule r why eng)"
  proof (rule unplan_inv [OF inv, where r = r])
    show "struct_ok (breach_rule r why eng)"
      using engine_invD(1) [OF inv] by (simp add: struct_ok_def breach_rule_def mark_unhealthy_get)
    show "slot_ok (breach_rule r why eng) r"
      using slot_okD(1,2) [OF engine_invD(2) [OF inv, of r]] by (simp add: slot_ok_unplanned breach_rule_def)
  qed (simp_all add: breach_rule_def mark_unhealthy_get)
  then show ?thesis
    by (simp add: breach(3))
qed

text \<open>Loading: the engine with the new rule entered and its history forgotten.\<close>

definition enter_rule :: "DetectionRule \<Rightarrow> ('c, 'ts) DetectionEngine \<Rightarrow> ('c, 'ts) DetectionEngine" where
  "enter_rule rule eng =
     eng\<lparr>rules := hm_insert (id_raw rule) rule (rules eng),
         generations := issue_generation (id_raw rule) (generations eng),
         last_evaluations := ot_remove (id_raw rule) (last_evaluations eng),
         tasks := forget_rule_tasks (id_raw rule) (tasks eng),
         health := forget_health (id_raw rule) (health eng)\<rparr>"

lemma enter_rule_simps [simp]:
  "compiled (enter_rule rule eng) = compiled eng" "deferred (enter_rule rule eng) = deferred eng"
  "catalog (enter_rule rule eng) = catalog eng"
  "rules (enter_rule rule eng) = hm_insert (id_raw rule) rule (rules eng)"
  "health (enter_rule rule eng) = ot_remove (id_raw rule) (health eng)"
  "generations (enter_rule rule eng) = issue_generation (id_raw rule) (generations eng)"
  "tasks (enter_rule rule eng) = forget_rule_tasks (id_raw rule) (tasks eng)"
  by (simp_all add: enter_rule_def forget_health_def)

lemma current_issue_generation:
  "current_generation (issue_generation r g) r' =
     (if r' = r then Some (sat_add (last_issued g) 1) else current_generation g r')"
  by (simp add: issue_generation_def Let_def current_generation_def)

lemma load_rule_cases:
  obtains (refused) e why where "load_rule env rule eng = (Err e, log_rejection env why eng)"
  | (planned) c where "plan_loaded env rule eng = Ok c" "\<not> catalog_is_empty (catalog eng)"
      "load_rule env rule eng = (Ok (), record_plan (id_raw rule) c (enter_rule rule eng))"
  | (deferred) "catalog_is_empty (catalog eng)"
      "load_rule env rule eng =
        (Ok (), (enter_rule rule eng)\<lparr>deferred := deferred eng @ [id_raw rule]\<rparr>)"
proof (cases "validate_sql_with_depth (sql_of env) rule (max_subquery_depth eng)")
  case (Inl e)
  then show thesis
    by (intro refused) (simp add: load_rule_def)
next
  case valid: (Inr u)
  show thesis
  proof (cases "catalog_is_empty (catalog eng)")
    case True
    then have "load_rule env rule eng = (Ok (), (enter_rule rule eng)\<lparr>deferred := deferred eng @ [id_raw rule]\<rparr>)"
      using valid by (simp add: load_rule_def Let_def enter_rule_def)
    with True deferred show thesis by blast
  next
    case False
    show thesis
    proof (cases "plan_loaded env rule eng")
      case (Inl e)
      then show thesis
        using False valid by (intro refused) (simp add: load_rule_def Let_def)
    next
      case (Inr c)
      then have "load_rule env rule eng = (Ok (), record_plan (id_raw rule) c (enter_rule rule eng))"
        using False valid by (simp add: load_rule_def Let_def enter_rule_def)
      with False Inr planned show thesis by blast
    qed
  qed
qed

lemma struct_ok_enter_rule: "struct_ok eng \<Longrightarrow> struct_ok (enter_rule rule eng)"
  by (simp add: struct_ok_def ot_wf_forget_rule_tasks issue_generation_def Let_def)

lemma enter_rule_slot:
  assumes "slot_ok eng r" "r \<noteq> id_raw rule"
  shows "slot_ok (enter_rule rule eng) r"
  using assms slot_ok_cong [of "enter_rule rule eng" r eng] by (simp add: current_issue_generation)

lemma resists_forgotten: "\<not> resists (ot_remove r reg) r"
  by (simp add: resists_def health_of_def)

lemma load_rule_inv:
  assumes inv: "engine_inv eng"
  shows "engine_inv (snd (load_rule env rule eng))"
proof (cases rule: load_rule_cases [of env rule eng])
  case (refused e why)
  with inv show ?thesis by simp
next
  case (planned c)
  note I = engine_invD [OF inv] and p = plan_loaded_Ok [OF planned(1) engine_invD(1) [OF inv]]
  let ?eng' = "record_plan (id_raw rule) c (enter_rule rule eng)"
  have "slot_ok ?eng' r" for r
  proof (cases "r = id_raw rule")
    case True
    show ?thesis
      unfolding True
      by (rule record_plan_slot_same) (use p in \<open>simp_all add: current_issue_generation resists_forgotten\<close>)
  next
    case False
    then show ?thesis
      by (intro record_plan_slot enter_rule_slot I(2))
  qed
  moreover have "resolved ?eng'"
    using I(3) p(2) by (auto simp: resolved_def record_plan_compiled resists_forgotten split: if_splits)
  ultimately show ?thesis
    using I(1) by (simp add: planned(3) engine_inv_def struct_ok_record_plan struct_ok_enter_rule)
next
  case deferred
  note I = engine_invD [OF inv]
  let ?eng' = "(enter_rule rule eng)\<lparr>deferred := deferred eng @ [id_raw rule]\<rparr>"
  have unplanned: "hm_get (compiled eng) r = None" for r
    using slot_okD(5) [OF I(2) [of r]] deferred(1) by (cases "hm_get (compiled eng) r") auto
  have "slot_ok ?eng' r" for r
    using slot_okD(1,2) [OF I(2) [of r]]
    by (simp add: slot_ok_unplanned unplanned current_issue_generation)
  moreover have "struct_ok ?eng'"
    using struct_ok_enter_rule [OF I(1)] deferred(1) by (simp add: struct_ok_def)
  ultimately show ?thesis
    by (simp add: deferred(2) engine_inv_def resolved_def unplanned)
qed

lemma prune_task_inv: "engine_inv eng \<Longrightarrow> engine_inv (prune_task eng r)"
  using engine_inv_tasks [of eng "forget_rule_tasks r (tasks eng)"] engine_invD(1) [of eng]
  by (auto simp: prune_task_def struct_ok_def ot_wf_forget_rule_tasks)

lemma ot_wf_issue_task: "ot_wf l \<Longrightarrow> ot_wf (snd (issue_task c now l))"
  by (simp add: issue_task_def Let_def)

lemma cover_rule_inv: "engine_inv (snd s) \<Longrightarrow> engine_inv (snd (cover_rule now s r))"
  using engine_inv_tasks [of "snd s"] engine_invD(1) [of "snd s"] ot_wf_issue_task [of "tasks (snd s)"]
  by (auto simp: cover_rule_def struct_ok_def Let_def case_prod_beta split: option.splits)

lemma renewal_cycle_parts:
  obtains eng1 expired l eng2 issued eng3 out where
    "eng1 = foldl prune_task eng (tracked_rule_ids (tasks eng))" "expire_tasks now (tasks eng1) = (expired, l)"
    "eng2 = foldl lapse_rule (eng1\<lparr>tasks := l\<rparr>) expired"
    "foldl (cover_rule now) ([], eng2) (coverable_rule_ids eng2) = (issued, eng3)"
    "out = foldl (\<lambda>out p. if list_ex (\<lambda>q. pending_task_id q = pending_task_id p) out then out else out @ [p])
                  issued (due_tasks now (tasks eng3))"
    "renewal_cycle now eng = (\<lparr>expired_rules = expired, due = out\<rparr>, eng3)"
proof -
  let ?eng1 = "foldl prune_task eng (tracked_rule_ids (tasks eng))"
  obtain expired l where l: "expire_tasks now (tasks ?eng1) = (expired, l)"
    by fastforce
  let ?eng2 = "foldl lapse_rule (?eng1\<lparr>tasks := l\<rparr>) expired"
  obtain issued eng3 where c: "foldl (cover_rule now) ([], ?eng2) (coverable_rule_ids ?eng2) = (issued, eng3)"
    by fastforce
  show thesis
    by (rule that [OF refl l refl c refl]) (simp add: renewal_cycle_def Let_def l c)
qed

lemma renewal_cycle_inv:
  assumes "engine_inv eng"
  shows "engine_inv (snd (renewal_cycle now eng))"
proof -
  obtain eng1 expired l eng2 issued eng3 out where
    e1: "eng1 = foldl prune_task eng (tracked_rule_ids (tasks eng))" and l: "expire_tasks now (tasks eng1) = (expired, l)"
    and e2: "eng2 = foldl lapse_rule (eng1\<lparr>tasks := l\<rparr>) expired"
    and e3: "foldl (cover_rule now) ([], eng2) (coverable_rule_ids eng2) = (issued, eng3)"
    and out: "renewal_cycle now eng = (\<lparr>expired_rules = expired, due = out\<rparr>, eng3)"
    by (rule renewal_cycle_parts)
  have "engine_inv eng1"
    unfolding e1 using assms by (rule foldl_invariant) (rule prune_task_inv)
  moreover from this have "ot_wf l"
    using engine_invD(1) [of eng1] l by (auto simp: struct_ok_def expire_tasks_def ot_wf_filter)
  ultimately have "engine_inv (eng1\<lparr>tasks := l\<rparr>)"
    by (rule engine_inv_tasks)
  then have "engine_inv eng2"
    unfolding e2 by (rule foldl_invariant) (rule lapse_rule_inv)
  then have "engine_inv (snd (foldl (cover_rule now) ([], eng2) (coverable_rule_ids eng2)))"
    by (intro foldl_invariant [where P = "\<lambda>s. engine_inv (snd s)"]) (simp_all add: cover_rule_inv)
  then show ?thesis
    by (simp add: e3 out)
qed

lemma issue_tasks_inv: 
  assumes "engine_inv eng"
  shows "engine_inv (snd (issue_tasks_for_collector cid now eng))"
proof -
  let ?step = "\<lambda>(out, l) c. let (p, l') = issue_task c now l in (out @ [p], l')"
  have "ot_wf (snd (foldl ?step ([], tasks eng) owned))" for owned
    by (rule foldl_invariant [where P = "\<lambda>s. ot_wf (snd s)"])
      (use engine_invD(1) [OF assms] in \<open>auto simp: struct_ok_def issue_task_def Let_def\<close>)
  then show ?thesis
    using engine_inv_tasks [OF assms] by (simp add: issue_tasks_for_collector_def Let_def case_prod_beta)
qed

lemma record_renewal_inv: "engine_inv eng \<Longrightarrow> engine_inv (snd (record_renewal tid now eng))"
  using engine_inv_tasks [of eng] engine_invD(1) [of eng]
  by (auto simp: record_renewal_def ledger_record_renewal_def struct_ok_def split: option.splits)

lemma record_evaluation_inv: "engine_inv eng \<Longrightarrow> engine_inv (record_evaluation s eng)"
  by (simp add: record_evaluation_def engine_inv_evaluations)

end
