(* ===== verification/Rule_Engine_Runs.thy ===== *)
theory Rule_Engine_Runs
  imports Rule_Engine
begin

text \<open>
  Runs of the detection engine: what holds after any sequence of the operations of
  \<^verbatim>\<open>Rule_Engine\<close>, started from an engine that was just built. Every plan is of a loaded rule whose
  references still resolve; a rule that was switched off for its latency stays off until it is loaded
  again; a report about a replaced rule is ignored; and every rule that may run has a live task after
  a renewal cycle.
\<close>

section \<open>Sequences of operations\<close>

datatype 'c engine_op =
    RegisterCollector VerifiedRegistration SchemaDescriptor
  | LoadRule DetectionRule
  | RemoveRule string
  | RecordEvaluation "'c EvaluationSummary"
  | SetRuleEnabled string bool
  | ObservePatternLatency string u64 nat
  | RenewTasks nat
  | IssueTasksForCollector string nat
  | RecordRenewal string nat

primrec exec_op ::
    "('x, 'ts) engine_env \<Rightarrow> 'c engine_op \<Rightarrow> ('c, 'ts) DetectionEngine \<Rightarrow> ('c, 'ts) DetectionEngine" where
  "exec_op env (RegisterCollector v d) eng = snd (register_collector env v d eng)"
| "exec_op env (LoadRule rule) eng = snd (load_rule env rule eng)"
| "exec_op env (RemoveRule r) eng = snd (remove_rule r eng)"
| "exec_op env (RecordEvaluation s) eng = record_evaluation s eng"
| "exec_op env (SetRuleEnabled r on) eng = snd (set_rule_enabled r on eng)"
| "exec_op env (ObservePatternLatency r g t) eng = snd (observe_pattern_latency env r g t eng)"
| "exec_op env (RenewTasks t) eng = snd (renewal_cycle t eng)"
| "exec_op env (IssueTasksForCollector cid t) eng = snd (issue_tasks_for_collector cid t eng)"
| "exec_op env (RecordRenewal tid t) eng = snd (record_renewal tid t eng)"

definition run_ops ::
    "('x, 'ts) engine_env \<Rightarrow> 'c engine_op list \<Rightarrow> ('c, 'ts) DetectionEngine \<Rightarrow> ('c, 'ts) DetectionEngine" where
  "run_ops env ops eng = foldl (\<lambda>eng op. exec_op env op eng) eng ops"

lemma run_ops_simps [simp]:
  "run_ops env [] eng = eng" "run_ops env (op # ops) eng = run_ops env ops (exec_op env op eng)"
  by (simp_all add: run_ops_def)

definition loads :: "string \<Rightarrow> 'c engine_op \<Rightarrow> bool" where
  "loads r op = (case op of LoadRule rule \<Rightarrow> id_raw rule = r | _ \<Rightarrow> False)"

section \<open>The invariant\<close>

lemma exec_op_inv: "engine_inv eng \<Longrightarrow> engine_inv (exec_op env op eng)"
  by (cases op) (simp_all add: register_collector_inv load_rule_inv remove_rule_inv record_evaluation_inv
      set_rule_enabled_inv observe_pattern_latency_inv renewal_cycle_inv issue_tasks_inv record_renewal_inv)

lemma with_config_inv: "engine_inv (with_config depth ms)"
  by (simp add: with_config_def engine_inv_def struct_ok_def slot_ok_def resolved_def catalog_inv_new
      current_generation_def)

interpretation sound_engine: lasting engine_inv "exec_op env" "\<lambda>_. True" for env
  by unfold_locales (rule exec_op_inv)

lemma run_ops_inv: "engine_inv (run_ops env ops (with_config depth ms))"
  using sound_engine.run [OF with_config_inv, of ops env depth ms] by (simp add: run_ops_def list_all_iff)

lemma eligible_slot:
  assumes "engine_inv eng" "is_eligible eng r"
  obtains rule c g where "hm_get (rules eng) r = Some rule" "hm_get (compiled eng) r = Some c" "id_raw rule = r"
    "enabled rule" "rule_id c = r" "current_generation (generations eng) r = Some g"
    "health_of (health eng) r = Some Healthy" "resolves (catalog eng) c"
proof -
  note S = engine_invD [OF assms(1)]
  obtain rule c where rule: "hm_get (rules eng) r = Some rule" "enabled rule" "hm_get (compiled eng) r = Some c"
    using assms(2) by (auto simp: is_eligible_def split: option.splits if_splits)
  note slot = slot_okD [OF S(2) [of r]]
  obtain g where "current_generation (generations eng) r = Some g"
    using slot(2) rule(1) by (cases "current_generation (generations eng) r") auto
  moreover have "health_of (health eng) r = Some Healthy"
    using slot(6) [OF rule(3)] by (auto simp: health_of_def)
  ultimately show thesis
    using that rule slot(1) [OF rule(1)] slot(4) [OF rule(3)] S(3) [OF rule(3)] by blast
qed

lemma compiled_ids:
  assumes "engine_inv eng"
  shows "distinct (map fst (compiled eng))"
    and "set (filter (is_eligible eng) (map fst (compiled eng))) = {r. is_eligible eng r}"
proof -
  have wf: "hm_wf (compiled eng)"
    using engine_invD(1) [OF assms] by (simp add: struct_ok_def)
  then show "distinct (map fst (compiled eng))"
    by (simp add: hm_wf_def)
  show "set (filter (is_eligible eng) (map fst (compiled eng))) = {r. is_eligible eng r}"
  proof (intro equalityI subsetI)
    fix r
    assume "r \<in> {r. is_eligible eng r}"
    moreover from this obtain c where "hm_get (compiled eng) r = Some c"
      by (auto simp: is_eligible_def split: option.splits if_splits)
    ultimately show "r \<in> set (filter (is_eligible eng) (map fst (compiled eng)))"
      by (force simp: hm_get_iff [OF wf])
  qed auto
qed

lemma snapshot_eligible:
  assumes "engine_inv eng" "is_eligible eng r" "snapshot_runnable eng r = Some rr"
  shows "id_raw (run_rule rr) = r" "hm_get (rules eng) r = Some (run_rule rr)" "enabled (run_rule rr)"
    and "hm_get (compiled eng) r = Some (run_compiled rr)" "is_runnable eng r (run_generation rr)"
    and "health_of (health eng) r = Some Healthy" "resolves (catalog eng) (run_compiled rr)"
    and "cat_table (catalog eng) (plan_table (plan (run_compiled rr))) = Some (run_descriptor rr)"
proof -
  obtain rule c g where slot: "hm_get (rules eng) r = Some rule" "hm_get (compiled eng) r = Some c" "id_raw rule = r"
    "enabled rule" "current_generation (generations eng) r = Some g"
    "health_of (health eng) r = Some Healthy" "resolves (catalog eng) c"
    using assms(1,2) by (rule eligible_slot)
  obtain td where td: "cat_table (catalog eng) (plan_table (plan c)) = Some td"
    using assms(3) slot by (auto simp: snapshot_runnable_def split: option.splits)
  have rr: "run_rule rr = rule" "run_compiled rr = c" "run_descriptor rr = td" "run_generation rr = g"
    using assms(3) slot td by (auto simp: snapshot_runnable_def)
  show "id_raw (run_rule rr) = r" "hm_get (rules eng) r = Some (run_rule rr)" "enabled (run_rule rr)"
    and "hm_get (compiled eng) r = Some (run_compiled rr)" "is_runnable eng r (run_generation rr)"
    and "health_of (health eng) r = Some Healthy" "resolves (catalog eng) (run_compiled rr)"
    and "cat_table (catalog eng) (plan_table (plan (run_compiled rr))) = Some (run_descriptor rr)"
    using slot td assms(2) by (simp_all add: rr is_runnable_def)
qed

lemma snapshot_exists:
  assumes "engine_inv eng" "is_eligible eng r" "hm_get (compiled eng) r = Some c"
  shows "snapshot_runnable eng r \<noteq> None \<longleftrightarrow> cat_table (catalog eng) (plan_table (plan c)) \<noteq> None"
  by (rule eligible_slot [OF assms(1,2)]) (auto simp: snapshot_runnable_def assms(3) split: option.splits)

lemma map_filter_keys:
  "(\<And>x y. x \<in> set xs \<Longrightarrow> f x = Some y \<Longrightarrow> g y = x) \<Longrightarrow>
     map g (List.map_filter f xs) = filter (\<lambda>x. f x \<noteq> None) xs"
  by (induction xs) (auto simp: map_filter_simps split: option.splits)

lemma runnable_ids:
  assumes "engine_inv eng"
  shows "map (\<lambda>rr. id_raw (run_rule rr)) (runnable_rules eng) =
    filter (\<lambda>r. snapshot_runnable eng r \<noteq> None) (filter (is_eligible eng) (sort (map fst (compiled eng))))"
  unfolding runnable_rules_def by (rule map_filter_keys) (auto dest: snapshot_eligible(1) [OF assms])

lemma runnable_id_set:
  assumes "engine_inv eng"
  shows "set (map (\<lambda>rr. id_raw (run_rule rr)) (runnable_rules eng)) =
    {r. is_eligible eng r \<and> (\<exists>c. hm_get (compiled eng) r = Some c \<and> cat_table (catalog eng) (plan_table (plan c)) \<noteq> None)}"
proof -
  have "snapshot_runnable eng r \<noteq> None \<longleftrightarrow>
      (\<exists>c. hm_get (compiled eng) r = Some c \<and> cat_table (catalog eng) (plan_table (plan c)) \<noteq> None)"
    if "is_eligible eng r" for r
    using snapshot_exists [OF assms that] that
    by (cases "hm_get (compiled eng) r") (auto simp: is_eligible_def split: option.splits)
  then show ?thesis
    using compiled_ids(2) [OF assms] by (auto simp: runnable_ids [OF assms])
qed

lemma sorted_distinct_less: "sorted xs \<Longrightarrow> distinct xs \<Longrightarrow> sorted_wrt (<) (xs :: 'a :: linorder list)"
  by (simp add: strict_sorted_iff)

text \<open>
  Claim C6: after any sequence of operations on an engine that was just built, the snapshots handed to
  the executor are of pairwise different rules in the order of their ids, exactly those of the eligible
  rules whose table some collector serves. Each carries the loaded rule and the plan held for it, the
  generation under which reports about it count, and the table as it is served now; its rule is enabled
  and healthy, and every column it refers to resolves in the catalog. Once a collector has registered no
  rule waits to be planned.
\<close>

theorem runnable_rules_sound:
  "let eng = run_ops env ops (with_config depth ms);
       ids = map (\<lambda>rr. id_raw (run_rule rr)) (runnable_rules eng) in
     sorted_wrt (<) ids
     \<and> set ids = {r. is_eligible eng r
         \<and> (\<exists>c. hm_get (compiled eng) r = Some c \<and> cat_table (catalog eng) (plan_table (plan c)) \<noteq> None)}
     \<and> list_all (\<lambda>rr. let r = id_raw (run_rule rr); c = run_compiled rr in
          hm_get (rules eng) r = Some (run_rule rr) \<and> hm_get (compiled eng) r = Some c
          \<and> enabled (run_rule rr) \<and> is_runnable eng r (run_generation rr) \<and> health_of (health eng) r = Some Healthy
          \<and> {e \<in> references c. \<not> is_ok (resolve_reference (catalog eng) (fst e) (snd e))} = {}
          \<and> cat_table (catalog eng) (plan_table (plan c)) = Some (run_descriptor rr)) (runnable_rules eng)
     \<and> (catalog_is_empty (catalog eng) \<or> deferred eng = [])"
proof -
  let ?eng = "run_ops env ops (with_config depth ms)"
  note inv = run_ops_inv [of env ops depth ms]
  have "sorted_wrt (<) (map (\<lambda>rr. id_raw (run_rule rr)) (runnable_rules ?eng))"
    using compiled_ids(1) [OF inv]
    by (auto simp: runnable_ids [OF inv] intro!: sorted_distinct_less sorted_wrt_filter)
  moreover have "hm_get (rules ?eng) (id_raw (run_rule rr)) = Some (run_rule rr)
      \<and> hm_get (compiled ?eng) (id_raw (run_rule rr)) = Some (run_compiled rr) \<and> enabled (run_rule rr)
      \<and> is_runnable ?eng (id_raw (run_rule rr)) (run_generation rr)
      \<and> health_of (health ?eng) (id_raw (run_rule rr)) = Some Healthy
      \<and> {e \<in> references (run_compiled rr). \<not> is_ok (resolve_reference (catalog ?eng) (fst e) (snd e))} = {}
      \<and> cat_table (catalog ?eng) (plan_table (plan (run_compiled rr))) = Some (run_descriptor rr)"
    if mem: "rr \<in> set (runnable_rules ?eng)" for rr
  proof -
    obtain r where "is_eligible ?eng r" "snapshot_runnable ?eng r = Some rr"
      using mem by (auto simp: runnable_rules_def map_filter_def)
    note snap = snapshot_eligible [OF inv this]
    show ?thesis
      using snap by (auto simp: resolves_def)
  qed
  moreover have "catalog_is_empty (catalog ?eng) \<or> deferred ?eng = []"
    using engine_invD(1) [OF inv] by (simp add: struct_ok_def)
  ultimately show ?thesis
    using runnable_id_set [OF inv] by (simp add: Let_def list_all_iff)
qed

section \<open>What the long operations preserve\<close>

text \<open>A property kept by the steps of a registration, and of a renewal cycle, is kept by the whole.\<close>

lemma register_collector_preserves:
  assumes "P eng" "\<And>eng cat. P eng \<Longrightarrow> P (eng\<lparr>catalog := cat, deferred := []\<rparr>)"
    and planned: "\<And>eng r. P eng \<Longrightarrow> P (snd (plan_and_record env r eng))"
    and rejected: "\<And>eng r m. P eng \<Longrightarrow> P (reject_rule env r m eng)"
    and dropped: "\<And>eng r. P eng \<Longrightarrow> P (drop_plan eng r)"
    and logged: "\<And>eng why. P eng \<Longrightarrow> P (log_rejection env why eng)"
    and judged: "\<And>eng cat ch. P eng \<Longrightarrow> P (eng\<lparr>health := snd (revalidate cat ch (health eng))\<rparr>)"
  shows "P (snd (register_collector env v d eng))"
proof (cases "register v d (catalog eng)")
  case reg: (Pair res cat)
  have drain: "P (drain_rule env s r)" if "P s" for s r
    using planned [OF that, of r] rejected
    by (auto simp: drain_rule_def split: prod.splits sum.splits)
  have replan: "P (replan_rule env s r)" if "P s" for s r
    using planned [OF that, of r] dropped [of _ r] logged
    by (auto simp: replan_rule_def drop_plan_def split: prod.splits sum.splits)
  show ?thesis
  proof (cases res)
    case (Inl e)
    with reg assms(1) show ?thesis by (simp add: register_collector_refused)
  next
    case (Inr ch)
    let ?s1 = "foldl (drain_rule env) (eng\<lparr>catalog := cat, deferred := []\<rparr>) (deferred eng)"
    let ?rv = "revalidate (catalog ?s1) ch (health ?s1)"
    let ?s2 = "foldl drop_plan (?s1\<lparr>health := snd ?rv\<rparr>) (newly_unhealthy (fst ?rv))"
    have "P ?s1"
      using assms(2) [OF assms(1)] by (rule foldl_invariant) (rule drain)
    then have "P (?s1\<lparr>health := snd ?rv\<rparr>)"
      by (rule judged)
    then have "P ?s2"
      by (rule foldl_invariant) (rule dropped)
    then have "P (foldl (replan_rule env) ?s2 (to_replan (fst ?rv)))"
      by (rule foldl_invariant) (rule replan)
    then show ?thesis
      using reg by (simp add: register_collector_def Inr case_prod_beta Let_def)
  qed
qed

lemma renewal_cycle_preserves:
  assumes "P eng" "\<And>eng r. P eng \<Longrightarrow> P (lapse_rule eng r)" "\<And>eng l. P eng \<Longrightarrow> P (eng\<lparr>tasks := l\<rparr>)"
  shows "P (snd (renewal_cycle now eng))"
proof -
  obtain eng1 expired l eng2 issued eng3 out where
    e1: "eng1 = foldl prune_task eng (tracked_rule_ids (tasks eng))"
    and e2: "eng2 = foldl lapse_rule (eng1\<lparr>tasks := l\<rparr>) expired"
    and e3: "foldl (cover_rule now) ([], eng2) (coverable_rule_ids eng2) = (issued, eng3)"
    and out: "renewal_cycle now eng = (\<lparr>expired_rules = expired, due = out\<rparr>, eng3)"
    by (rule renewal_cycle_parts)
  have "P eng1"
    unfolding e1 using assms(1) by (rule foldl_invariant) (simp add: prune_task_def assms(3))
  then have "P (eng1\<lparr>tasks := l\<rparr>)"
    by (rule assms(3))
  then have "P eng2"
    unfolding e2 by (rule foldl_invariant) (rule assms(2))
  then have "P (snd (foldl (cover_rule now) ([], eng2) (coverable_rule_ids eng2)))"
    by (intro foldl_invariant [where P = "\<lambda>s. P (snd s)"])
      (auto simp: cover_rule_def Let_def case_prod_beta assms(3) split: option.splits)
  then show ?thesis
    by (simp add: e3 out)
qed

lemma plan_and_record_simps [simp]:
  "generations (snd (plan_and_record env r eng)) = generations eng"
  "pattern_latency_threshold (snd (plan_and_record env r eng)) = pattern_latency_threshold eng"
  "tasks (snd (plan_and_record env r eng)) = tasks eng"
  by (rule plan_and_record_cases [of env r eng]; simp)+

lemma exec_op_threshold: "pattern_latency_threshold (exec_op env op eng) = pattern_latency_threshold eng"
proof (cases op)
  case (RegisterCollector v d)
  show ?thesis
    unfolding RegisterCollector exec_op.simps
    by (rule register_collector_preserves) (simp_all add: reject_rule_def Let_def)
next
  case (RenewTasks t)
  show ?thesis
    unfolding RenewTasks exec_op.simps
    by (rule renewal_cycle_preserves) (simp_all add: lapse_rule_def)
next
  case (LoadRule rule)
  then show ?thesis
    by (cases rule: load_rule_cases [of env rule eng]) (simp_all add: enter_rule_def)
next
  case (SetRuleEnabled r on)
  then show ?thesis
    by (cases rule: set_rule_enabled_cases [of r on eng]) simp_all
qed (simp_all add: remove_rule_def record_evaluation_def observe_pattern_latency_def Let_def disable_rule_def
      issue_tasks_for_collector_def record_renewal_def case_prod_beta split: option.splits)

interpretation fixed_budget: lasting "\<lambda>eng. pattern_latency_threshold eng = d" "exec_op env" "\<lambda>_. True" for d env
  by unfold_locales (simp add: exec_op_threshold)

lemma run_ops_threshold: "pattern_latency_threshold (run_ops env ops eng) = pattern_latency_threshold eng"
  using fixed_budget.run [of eng _ ops env, OF refl] by (simp add: run_ops_def list_all_iff)

section \<open>A rule switched off for its latency\<close>

text \<open>The rule has no plan, and it is not loaded at all or its health resists every recovery but a load.\<close>

definition shut_out :: "string \<Rightarrow> ('c, 'ts) DetectionEngine \<Rightarrow> bool" where
  "shut_out r eng \<longleftrightarrow> hm_get (compiled eng) r = None \<and> (hm_get (rules eng) r = None \<or> resists (health eng) r)"

lemma shut_out_cong:
  assumes "shut_out r eng" "hm_get (compiled eng') r = None" "hm_get (rules eng') r = None \<longleftrightarrow> hm_get (rules eng) r = None"
    "resists (health eng) r \<Longrightarrow> resists (health eng') r"
  shows "shut_out r eng'"
  using assms by (auto simp: shut_out_def)

lemma shut_out_log [simp]: "shut_out r (log_rejection env why eng) = shut_out r eng"
  by (simp add: shut_out_def)

lemma shut_out_drop_plan: "shut_out r eng \<Longrightarrow> shut_out r (drop_plan eng r')"
  by (auto simp: shut_out_def)

lemma shut_out_catalog: "shut_out r eng \<Longrightarrow> shut_out r (eng\<lparr>catalog := cat, deferred := rs\<rparr>)"
  by (simp add: shut_out_def)

lemma shut_out_tasks [simp]: "shut_out r (eng\<lparr>tasks := l\<rparr>) = shut_out r eng"
  by (simp add: shut_out_def)

lemma shut_out_plan_and_record: "shut_out r eng \<Longrightarrow> shut_out r (snd (plan_and_record env r' eng))"
  by (rule plan_and_record_cases [of env r' eng])
    (auto simp: shut_out_def record_plan_compiled resists_track)

lemma shut_out_reject_rule: "shut_out r eng \<Longrightarrow> shut_out r (reject_rule env r' message eng)"
  by (auto simp: shut_out_def reject_rule_def Let_def forget_health_def resists_def health_of_def)

lemma resists_revalidate: "resists reg r \<Longrightarrow> resists (snd (revalidate cat ch reg)) r"
  by (auto simp: revalidate_def resists_def health_of_def ot_get_map_values revalidate_rule_def split: option.splits)

lemma resists_mark_unhealthy: "resists reg r \<Longrightarrow> resists (snd (mark_unhealthy r' why cause reg)) r"
  by (auto simp: mark_unhealthy_def resists_def health_of_def resists_auto_recovery_def split: option.splits)

lemma shut_out_health:
  "shut_out r eng \<Longrightarrow> (resists (health eng) r \<Longrightarrow> resists reg r) \<Longrightarrow> shut_out r (eng\<lparr>health := reg\<rparr>)"
  by (auto simp: shut_out_def)

lemma shut_out_register_collector: "shut_out r eng \<Longrightarrow> shut_out r (snd (register_collector env v d eng))"
  by (rule register_collector_preserves)
    (simp_all add: shut_out_plan_and_record shut_out_reject_rule shut_out_drop_plan shut_out_health
      resists_revalidate shut_out_catalog)

lemma shut_out_load_other:
  assumes "shut_out r eng" "id_raw rule \<noteq> r"
  shows "shut_out r (snd (load_rule env rule eng))"
proof -
  have "resists (ot_remove (id_raw rule) reg) r = resists reg r" for reg
    using assms(2) by (simp add: resists_def health_of_def)
  then show ?thesis
    using assms
    by (cases rule: load_rule_cases [of env rule eng])
      (auto simp: shut_out_def record_plan_compiled resists_track)
qed

lemma shut_out_remove: "shut_out r eng \<Longrightarrow> shut_out r (snd (remove_rule r' eng))"
  by (auto simp: shut_out_def remove_rule_def forget_health_def resists_def health_of_def)

lemma shut_out_set_enabled: "shut_out r eng \<Longrightarrow> shut_out r (snd (set_rule_enabled r' on eng))"
  by (rule set_rule_enabled_cases [of r' on eng]) (auto simp: shut_out_def)

lemma disable_rule_loaded [simp]: "hm_get (rules (disable_rule r' eng)) r = None \<longleftrightarrow> hm_get (rules eng) r = None"
  by (auto simp: disable_rule_def split: option.splits)

lemma shut_out_observe: "shut_out r eng \<Longrightarrow> shut_out r (snd (observe_pattern_latency env r' g t eng))"
  by (rule observe_pattern_latency_cases [of env r' g t eng])
    (auto simp: shut_out_def breach_rule_def resists_mark_unhealthy)

lemma shut_out_lapse: "shut_out r eng \<Longrightarrow> shut_out r (lapse_rule eng r')"
  unfolding lapse_rule_def by (intro shut_out_drop_plan shut_out_health resists_mark_unhealthy)

lemma exec_op_shut_out:
  assumes "shut_out r eng" "\<not> loads r op"
  shows "shut_out r (exec_op env op eng)"
proof (cases op)
  case (RenewTasks t)
  then show ?thesis
    using renewal_cycle_preserves [of "shut_out r", OF assms(1) shut_out_lapse] by simp
next
  case (RecordEvaluation s)
  then show ?thesis
    using assms(1) by (simp add: record_evaluation_def shut_out_def)
qed (use assms in \<open>auto simp: loads_def shut_out_register_collector shut_out_load_other shut_out_remove
      shut_out_set_enabled shut_out_observe issue_tasks_for_collector_def record_renewal_def case_prod_beta Let_def\<close>)

interpretation latched: lasting "shut_out r" "exec_op env" "\<lambda>op. \<not> loads r op" for r env
  by unfold_locales (rule exec_op_shut_out)

lemma shut_out_ineligible: "shut_out r eng \<Longrightarrow> \<not> is_eligible eng r"
  by (auto simp: shut_out_def is_eligible_def split: option.splits)

lemma shut_out_enable:
  "shut_out r eng \<Longrightarrow> \<not> is_ok (fst (set_rule_enabled r True eng)) \<and> snd (set_rule_enabled r True eng) = eng"
  by (auto simp: shut_out_def set_rule_enabled_def resists_def resists_auto_recovery_def
      split: option.splits RuleHealth.splits)

lemma observed_breach:
  assumes "engine_inv eng" "current_generation (generations eng) r = Some g" "pattern_latency_threshold eng < observed"
  shows "shut_out r (snd (observe_pattern_latency env r g observed eng))"
proof (cases "resists (health eng) r")
  case True
  then have "hm_get (compiled eng) r = None"
    using slot_not_resists [OF engine_invD(2) [OF assms(1)], of r] by blast
  with True show ?thesis
    using assms(2,3) by (simp add: observe_pattern_latency_def shut_out_def)
next
  case False
  have "resists (snd (mark_unhealthy r why LatencyBreach reg)) r" for why reg
    by (auto simp: mark_unhealthy_def resists_def health_of_def resists_auto_recovery_def cause_resists_def
        split: option.splits)
  then show ?thesis
    using False assms(2,3) by (simp add: observe_pattern_latency_def Let_def shut_out_def)
qed

text \<open>
  Claim C8: when a measurement of a rule's current generation exceeds the latency budget, the rule is out
  of service until it is loaded again. Whatever other operations follow, in any order and number
  (registrations and the planning they cause, renewals, further measurements, attempts to enable it,
  its removal, loads of other rules), the rule is not eligible, no snapshot of it is handed to the
  executor, and enabling it is refused and changes nothing.
\<close>

theorem breached_rule_stays_out:
  assumes "current_generation (generations (run_ops env before (with_config depth ms))) r = Some g"
    and "unat ms * 1000000 < observed" "list_all (\<lambda>op. \<not> loads r op) ops"
  shows "let eng = run_ops env (before @ ObservePatternLatency r g observed # ops) (with_config depth ms) in
    \<not> is_eligible eng r \<and> r \<notin> set (map (\<lambda>rr. id_raw (run_rule rr)) (runnable_rules eng))
    \<and> \<not> is_ok (fst (set_rule_enabled r True eng)) \<and> snd (set_rule_enabled r True eng) = eng"
proof -
  let ?pre = "run_ops env before (with_config depth ms)"
  let ?eng = "run_ops env (before @ ObservePatternLatency r g observed # ops) (with_config depth ms)"
  have "pattern_latency_threshold ?pre = unat ms * 1000000"
    by (simp add: run_ops_threshold with_config_def)
  then have "shut_out r (exec_op env (ObservePatternLatency r g observed) ?pre)"
    using observed_breach [OF run_ops_inv assms(1)] assms(2) by simp
  then have "shut_out r (run_ops env ops (exec_op env (ObservePatternLatency r g observed) ?pre))"
    using assms(3) unfolding run_ops_def by (rule latched.run)
  then have out: "shut_out r ?eng"
    by (simp add: run_ops_def)
  then have "r \<notin> set (map (\<lambda>rr. id_raw (run_rule rr)) (runnable_rules ?eng))"
    by (simp add: runnable_id_set [OF run_ops_inv] shut_out_ineligible del: set_map)
  then show ?thesis
    using shut_out_ineligible [OF out] shut_out_enable [OF out] by (simp add: Let_def)
qed

section \<open>Generations\<close>

text \<open>What issuing and forgetting keep is kept by every operation: nothing else writes generations.\<close>

definition gen_closed :: "(Generations \<Rightarrow> bool) \<Rightarrow> bool" where
  "gen_closed Q \<longleftrightarrow> (\<forall>r g. Q g \<longrightarrow> Q (issue_generation r g) \<and> Q (forget_generation r g))"

lemma exec_op_generations:
  assumes "gen_closed Q" "Q (generations eng)"
  shows "Q (generations (exec_op env op eng))"
proof (cases op)
  case (RegisterCollector v d)
  show ?thesis
    unfolding RegisterCollector exec_op.simps
    by (rule register_collector_preserves [where P = "\<lambda>e. Q (generations e)"])
      (use assms in \<open>simp_all add: reject_rule_def Let_def gen_closed_def\<close>)
next
  case (RenewTasks t)
  show ?thesis
    unfolding RenewTasks exec_op.simps
    by (rule renewal_cycle_preserves [where P = "\<lambda>e. Q (generations e)"]) (simp_all add: assms lapse_rule_def)
next
  case (LoadRule rule)
  then show ?thesis
    using assms by (cases rule: load_rule_cases [of env rule eng]) (simp_all add: enter_rule_def gen_closed_def)
next
  case (SetRuleEnabled r on)
  then show ?thesis
    using assms(2) by (cases rule: set_rule_enabled_cases [of r on eng]) simp_all
next
  case (ObservePatternLatency r g t)
  then show ?thesis
    using assms(2) by (cases rule: observe_pattern_latency_cases [of env r g t eng]) (simp_all add: breach_rule_def)
qed (use assms in \<open>simp_all add: remove_rule_def gen_closed_def record_evaluation_def
      issue_tasks_for_collector_def record_renewal_def case_prod_beta Let_def\<close>)

lemma run_ops_generations: "gen_closed Q \<Longrightarrow> Q (generations eng) \<Longrightarrow> Q (generations (run_ops env ops eng))"
  unfolding run_ops_def by (rule foldl_invariant [where P = "\<lambda>e. Q (generations e)"]) (simp_all add: exec_op_generations)

lemma issue_generation_simps [simp]:
  "last_issued (issue_generation r g) = sat_add (last_issued g) 1"
  "current_generation (issue_generation r g) r' =
     (if r' = r then Some (sat_add (last_issued g) 1) else current_generation g r')"
  by (simp_all add: issue_generation_def current_generation_def Let_def)

lemma forget_generation_simps [simp]:
  "last_issued (forget_generation r g) = last_issued g"
  "current_generation (forget_generation r g) r' = (if r' = r then None else current_generation g r')"
  by (simp_all add: forget_generation_def current_generation_def)

definition gens_bounded :: "Generations \<Rightarrow> bool" where
  "gens_bounded g \<longleftrightarrow> (\<forall>r n. current_generation g r = Some n \<longrightarrow> n \<le> last_issued g)"

lemma gens_bounded_closed: "gen_closed gens_bounded"
  by (auto simp: gen_closed_def gens_bounded_def intro: order_trans [OF _ sat_add_mono])

text \<open>Generation \<open>n\<close> of rule \<open>r\<close> is in the past.\<close>

definition outdated :: "string \<Rightarrow> u64 \<Rightarrow> Generations \<Rightarrow> bool" where
  "outdated r n g \<longleftrightarrow> n < last_issued g \<and> current_generation g r \<noteq> Some n"

lemma outdated_closed: "gen_closed (outdated r n)"
proof -
  have "sat_add (last_issued g) 1 \<noteq> n" "n < sat_add (last_issued g) 1" if "n < last_issued g" for g
    using that sat_add_mono [of "last_issued g" 1] by auto
  then show ?thesis
    by (auto simp: gen_closed_def outdated_def)
qed

lemma sat_add_less:
  assumes "(x :: u64) \<noteq> -1"
  shows "x < sat_add x 1"
proof -
  have "unat x \<noteq> unat (-1 :: u64)"
    using assms by (simp only: word_unat_eq_iff not_False_eq_True)
  then have "unat x \<noteq> 2 ^ 64 - 1"
    by (simp add: unsigned_minus_1_eq_mask mask_eq_exp_minus_1)
  moreover have "unat x < 2 ^ LENGTH(64)"
    by (rule unsigned_less)
  ultimately show ?thesis
    by (simp add: word_less_nat_alt unat_sat_add)
qed

lemma load_rule_outdates:
  assumes "gens_bounded (generations eng)" "last_issued (generations eng) \<noteq> -1"
    and "current_generation (generations eng) (id_raw rule) = Some n" "is_ok (fst (load_rule env rule eng))"
  shows "outdated (id_raw rule) n (generations (snd (load_rule env rule eng)))"
proof -
  have "n \<le> last_issued (generations eng)"
    using assms(1,3) by (simp add: gens_bounded_def)
  then have "n < sat_add (last_issued (generations eng)) 1"
    using sat_add_less [OF assms(2)] by simp
  then show ?thesis
    using assms(4)
    by (cases rule: load_rule_cases [of env rule eng]) (auto simp: outdated_def enter_rule_def)
qed

text \<open>An engine with one rule, loaded before any collector has registered.\<close>

definition demo_engine_env :: "(unit, nat) engine_env" where
  "demo_engine_env =
     \<lparr>sql_of = demo_env, check_plannable = (\<lambda>_ _. Ok ()),
      ledger_of = \<lparr>blake3_hex = (\<lambda>_. ''00''), to_rfc3339 = (\<lambda>_. ''t''), epoch_seconds = int\<rparr>,
      utc_now = unat, debug_duration = (\<lambda>_. ''d'')\<rparr>"

lemma demo_loaded:
  "load_rule demo_engine_env demo_rule (with_config 3 5) =
     (Ok (), (enter_rule demo_rule (with_config 3 5))\<lparr>deferred := [''r1'']\<rparr>)"
  by (simp add: load_rule_def demo_engine_env_def validate_sql_with_depth_def demo_env_def with_config_def
      catalog_is_empty_def SchemaCatalog_new_def enter_rule_def demo_rule_def Let_def)

lemma demo_generation:
  "current_generation (generations (run_ops demo_engine_env [LoadRule demo_rule] (with_config 3 5))) ''r1'' = Some 1"
  "last_issued (generations (run_ops demo_engine_env [LoadRule demo_rule] (with_config 3 5))) = 1"
  unfolding run_ops_simps exec_op.simps demo_loaded
  by (simp_all add: enter_rule_def demo_rule_def with_config_def sat_add_def)

theorem breached_rule_stays_out_witness:
  "let eng = run_ops demo_engine_env [LoadRule demo_rule, ObservePatternLatency ''r1'' 1 6000000,
       SetRuleEnabled ''r1'' True, RegisterCollector (VerifiedRegistration ''procmond'') (name_like True)]
       (with_config 3 5) in
    \<not> is_eligible eng ''r1'' \<and> ''r1'' \<notin> set (map (\<lambda>rr. id_raw (run_rule rr)) (runnable_rules eng))
    \<and> \<not> is_ok (fst (set_rule_enabled ''r1'' True eng)) \<and> snd (set_rule_enabled ''r1'' True eng) = eng"
  using breached_rule_stays_out [OF demo_generation(1), of 6000000
      "[SetRuleEnabled ''r1'' True, RegisterCollector (VerifiedRegistration ''procmond'') (name_like True)]"]
  by (simp add: loads_def del: run_ops_simps)

text \<open>
  Claim C16: a report about a rule that has been replaced has no effect. When a rule is loaded under an id
  whose rule held generation \<open>n\<close>, and the counter of generations is not exhausted, then from that
  moment on, whatever operations follow (including the removal and the next loads of that id), generation
  \<open>n\<close> is never again the one of that id: an evaluation of it is not recorded, a latency
  measurement of it neither disables the rule nor changes anything, and it does not count as runnable.
\<close>

theorem stale_reports_ignored:
  assumes "current_generation (generations (run_ops env before (with_config depth ms))) (id_raw rule) = Some n"
    and "last_issued (generations (run_ops env before (with_config depth ms))) \<noteq> -1"
    and "is_ok (fst (load_rule env rule (run_ops env before (with_config depth ms))))"
    and "summary_rule s = id_raw rule" "summary_generation s = n"
  shows "let eng = run_ops env (before @ LoadRule rule # ops) (with_config depth ms) in
    record_evaluation s eng = eng \<and> observe_pattern_latency env (id_raw rule) n observed eng = (False, eng)
    \<and> \<not> is_runnable eng (id_raw rule) n"
proof -
  let ?pre = "run_ops env before (with_config depth ms)"
  let ?eng = "run_ops env (before @ LoadRule rule # ops) (with_config depth ms)"
  have "gens_bounded (generations ?pre)"
    by (rule run_ops_generations [OF gens_bounded_closed])
      (simp add: gens_bounded_def with_config_def current_generation_def)
  then have "outdated (id_raw rule) n (generations (exec_op env (LoadRule rule) ?pre))"
    using load_rule_outdates [OF _ assms(2,1,3)] by simp
  then have "outdated (id_raw rule) n (generations (run_ops env ops (exec_op env (LoadRule rule) ?pre)))"
    by (rule run_ops_generations [OF outdated_closed])
  then have "current_generation (generations ?eng) (id_raw rule) \<noteq> Some n"
    by (simp add: outdated_def run_ops_def)
  then show ?thesis
    by (simp add: Let_def record_evaluation_def assms(4,5) observe_pattern_latency_def is_runnable_def)
qed

theorem stale_reports_ignored_witness:
  "let eng = run_ops demo_engine_env [LoadRule demo_rule, LoadRule demo_rule, RemoveRule ''r1'', LoadRule demo_rule]
       (with_config 3 5);
       s = \<lparr>summary_rule = ''r1'', summary_generation = 1, completeness = (), alert_count = 2\<rparr> in
    record_evaluation s eng = eng \<and> observe_pattern_latency demo_engine_env ''r1'' 1 9000000 eng = (False, eng)
    \<and> \<not> is_runnable eng ''r1'' 1"
proof -
  let ?s = "\<lparr>summary_rule = ''r1'', summary_generation = 1, completeness = (), alert_count = 2\<rparr>"
  have r1: "id_raw demo_rule = ''r1''"
    by (simp add: demo_rule_def)
  have "is_ok (fst (load_rule demo_engine_env demo_rule (run_ops demo_engine_env [LoadRule demo_rule]
      (with_config 3 5 :: (unit, nat) DetectionEngine))))"
    by (simp add: demo_loaded load_rule_def demo_engine_env_def validate_sql_with_depth_def demo_env_def with_config_def
        catalog_is_empty_def SchemaCatalog_new_def enter_rule_def Let_def)
  then show ?thesis
    using stale_reports_ignored [of demo_engine_env "[LoadRule demo_rule]" 3 5 demo_rule 1 ?s
        "[RemoveRule ''r1'', LoadRule demo_rule]" 9000000]
    by (simp add: r1 Let_def demo_generation del: run_ops_simps)
qed

section \<open>Every rule that may run has a task\<close>

lemma is_tracked_iff: "is_tracked tid l \<longleftrightarrow> tid \<in> fst ` set l"
  unfolding is_tracked_def by (metis ot_get_None_iff)

text \<open>A task is filed under its own id.\<close>

definition filed :: "TaskRenewalLedger \<Rightarrow> bool" where
  "filed l \<longleftrightarrow> ot_wf l \<and> (\<forall>(tid, e) \<in> set l. tid = task_id (entry_rule e) (entry_collector e))"

lemma filed_new: "filed (tasks (with_config depth ms))"
  by (simp add: filed_def with_config_def)

lemma filed_filter: "filed l \<Longrightarrow> filed (filter P l)"
  by (auto simp: filed_def ot_wf_filter)

lemma filed_insert: "filed l \<Longrightarrow> tid = task_id (entry_rule e) (entry_collector e) \<Longrightarrow> filed (ot_insert tid e l)"
  unfolding filed_def by (auto simp flip: ot_get_iff split: if_splits)

lemma filed_issue: "filed l \<Longrightarrow> filed (snd (issue_task c now l))"
  by (simp add: issue_task_def Let_def filed_insert)

lemma filed_renewal: "filed l \<Longrightarrow> filed (snd (ledger_record_renewal tid now l))"
proof (cases "ot_get l tid")
  case (Some e)
  assume l: "filed l"
  with Some have "tid = task_id (entry_rule e) (entry_collector e)"
    by (auto simp: filed_def ot_get_iff)
  with l Some show ?thesis
    by (simp add: ledger_record_renewal_def filed_insert)
qed (simp add: ledger_record_renewal_def)

lemma filed_cover: "filed (tasks (snd s)) \<Longrightarrow> filed (tasks (snd (cover_rule now s r)))"
  by (auto simp: cover_rule_def Let_def case_prod_beta filed_issue split: option.splits)

lemma lapse_rule_simps [simp]:
  "tasks (lapse_rule eng r) = tasks eng" "rules (lapse_rule eng r) = rules eng"
  by (simp_all add: lapse_rule_def)

lemma foldl_lapse_tasks: "tasks (foldl lapse_rule eng rs) = tasks eng"
  by (rule foldl_invariant [where P = "\<lambda>e. tasks e = tasks eng"]) simp_all

lemma filed_renewal_cycle:
  assumes "filed (tasks eng)"
  shows "filed (tasks (snd (renewal_cycle now eng)))"
proof -
  obtain eng1 expired l eng2 issued eng3 out where
    e1: "eng1 = foldl prune_task eng (tracked_rule_ids (tasks eng))" and l: "expire_tasks now (tasks eng1) = (expired, l)"
    and e2: "eng2 = foldl lapse_rule (eng1\<lparr>tasks := l\<rparr>) expired"
    and e3: "foldl (cover_rule now) ([], eng2) (coverable_rule_ids eng2) = (issued, eng3)"
    and out: "renewal_cycle now eng = (\<lparr>expired_rules = expired, due = out\<rparr>, eng3)"
    by (rule renewal_cycle_parts)
  have "filed (tasks eng1)"
    unfolding e1 by (rule foldl_invariant [where P = "\<lambda>e. filed (tasks e)"])
      (simp_all add: assms prune_task_def forget_rule_tasks_def filed_filter)
  then have "filed l"
    using l by (auto simp: expire_tasks_def filed_filter)
  then have "filed (tasks eng2)"
    by (simp add: e2 foldl_lapse_tasks)
  then have "filed (tasks (snd (foldl (cover_rule now) ([], eng2) (coverable_rule_ids eng2))))"
    by (intro foldl_invariant [where P = "\<lambda>s. filed (tasks (snd s))"]) (simp_all add: filed_cover)
  then show ?thesis
    by (simp add: e3 out)
qed

lemma filed_issue_tasks:
  assumes "filed (tasks eng)"
  shows "filed (tasks (snd (issue_tasks_for_collector cid now eng)))"
proof -
  let ?step = "\<lambda>(out, l) c. let (p, l') = issue_task c now l in (out @ [p], l')"
  have "filed (snd (foldl ?step ([], tasks eng) owned))" for owned
    by (rule foldl_invariant [where P = "\<lambda>s. filed (snd s)"]) (auto simp: assms Let_def filed_issue case_prod_beta)
  then show ?thesis
    by (simp add: issue_tasks_for_collector_def Let_def case_prod_beta)
qed

lemma exec_op_filed:
  assumes "filed (tasks eng)"
  shows "filed (tasks (exec_op env op eng))"
proof (cases op)
  case (RegisterCollector v d)
  show ?thesis
    unfolding RegisterCollector exec_op.simps
    by (intro register_collector_preserves [where P = "\<lambda>e. filed (tasks e)"])
      (simp_all add: assms reject_rule_def Let_def)
next
  case (LoadRule rule)
  then show ?thesis
    using assms by (cases rule: load_rule_cases [of env rule eng])
      (simp_all add: enter_rule_def forget_rule_tasks_def filed_filter)
next
  case (SetRuleEnabled r on)
  then show ?thesis
    using assms by (cases rule: set_rule_enabled_cases [of r on eng]) simp_all
next
  case (ObservePatternLatency r g t)
  then show ?thesis
    using assms by (cases rule: observe_pattern_latency_cases [of env r g t eng]) (simp_all add: breach_rule_def)
qed (simp_all add: assms filed_renewal_cycle filed_issue_tasks remove_rule_def forget_rule_tasks_def filed_filter
      record_evaluation_def record_renewal_def case_prod_beta filed_renewal)

interpretation filed_ledger: lasting "\<lambda>eng. filed (tasks eng)" "exec_op env" "\<lambda>_. True" for env
  by unfold_locales (rule exec_op_filed)

lemma run_ops_filed: "filed (tasks (run_ops env ops (with_config depth ms)))"
  using filed_ledger.run [OF filed_new, of ops env depth ms] by (simp add: run_ops_def list_all_iff)

lemma foldl_dedupe:
  fixes f :: "'a \<Rightarrow> 'b"
  defines "step \<equiv> \<lambda>out p. if list_ex (\<lambda>q. f q = f p) out then out else out @ [p]"
  assumes "distinct (map f ys)"
  shows "distinct (map f (foldl step ys xs)) \<and> f ` set (foldl step ys xs) = f ` set ys \<union> f ` set xs"
  using assms(2)
proof (induction xs arbitrary: ys)
  case (Cons x xs)
  have "list_ex (\<lambda>q. f q = f x) ys \<longleftrightarrow> f x \<in> f ` set ys"
    unfolding list_ex_iff image_iff by metis
  then have "distinct (map f (step ys x))" "f ` set (step ys x) = insert (f x) (f ` set ys)"
    using Cons.prems by (auto simp: step_def)
  with Cons.IH [of "step ys x"] show ?case by auto
qed simp

text \<open>Eligibility does not read the tasks, and a lapse takes it from one rule.\<close>

lemma is_eligible_tasks [simp]: "is_eligible (eng\<lparr>tasks := l\<rparr>) r = is_eligible eng r"
  by (simp add: is_eligible_def split: option.splits)

lemma is_eligible_lapse: "is_eligible (lapse_rule eng r') r \<longleftrightarrow> r \<noteq> r' \<and> is_eligible eng r"
  by (auto simp: is_eligible_def lapse_rule_def resists_def health_of_def mark_unhealthy_get split: option.splits)

lemma foldl_lapse_eligible: "is_eligible (foldl lapse_rule eng rs) r \<longleftrightarrow> r \<notin> set rs \<and> is_eligible eng r"
  by (induction rs arbitrary: eng) (auto simp: is_eligible_lapse)

lemma foldl_prune:
  "foldl prune_task eng rs =
     eng\<lparr>tasks := filter (\<lambda>(_, e). entry_rule e \<notin> set rs \<or> is_eligible eng (entry_rule e)) (tasks eng)\<rparr>"
proof (induction rs arbitrary: eng)
  case (Cons r rs)
  have "prune_task eng r = eng\<lparr>tasks := filter (\<lambda>(_, e). entry_rule e \<noteq> r \<or> is_eligible eng r) (tasks eng)\<rparr>"
    by (simp add: prune_task_def forget_rule_tasks_def case_prod_beta)
  then show ?case
    by (auto simp: Cons intro!: arg_cong [where f = "\<lambda>l. eng\<lparr>tasks := l\<rparr>"] filter_cong)
qed simp

lemma pruned_eligible:
  assumes "(tid, e) \<in> set (tasks (foldl prune_task eng (tracked_rule_ids (tasks eng))))"
  shows "is_eligible eng (entry_rule e)"
  using assms by (auto simp: foldl_prune tracked_rule_ids_def rev_image_eqI)

text \<open>The issue of the missing tasks.\<close>

lemma foldl_cover_tasks_only: "\<exists>l. snd (foldl (cover_rule now) (out, eng) rs) = eng\<lparr>tasks := l\<rparr>"
proof (rule foldl_invariant [where P = "\<lambda>s. \<exists>l. snd s = eng\<lparr>tasks := l\<rparr>"])
  show "\<exists>l. snd (out, eng) = eng\<lparr>tasks := l\<rparr>"
    by (intro exI [of _ "tasks eng"]) simp
qed (auto simp: cover_rule_def Let_def case_prod_beta split: option.splits)

lemma cover_rule_cases:
  obtains (same) "cover_rule now (out, eng) r = (out, eng)"
      "\<And>c. hm_get (compiled eng) r = Some c \<Longrightarrow> task_id (rule_id c) (plan_collector c) \<in> fst ` set (tasks eng)"
  | (issued) c e l where "hm_get (compiled eng) r = Some c" "entry_rule e = rule_id c"
      "pending_task_id (entry_pending e) = task_id (rule_id c) (plan_collector c)"
      "pending_task_id (entry_pending e) \<notin> fst ` set (tasks eng)"
      "cover_rule now (out, eng) r = (out @ [entry_pending e], eng\<lparr>tasks := l\<rparr>)"
      "set l = insert (pending_task_id (entry_pending e), e) (set (tasks eng))"
proof (cases "\<exists>c. hm_get (compiled eng) r = Some c \<and> task_id (rule_id c) (plan_collector c) \<notin> fst ` set (tasks eng)")
  case False
  then show thesis
    by (intro same) (auto simp: cover_rule_def is_tracked_iff split: option.splits)
next
  case True
  then obtain c where c: "hm_get (compiled eng) r = Some c"
      "task_id (rule_id c) (plan_collector c) \<notin> fst ` set (tasks eng)" by blast
  let ?tid = "task_id (rule_id c) (plan_collector c)"
  obtain e where e: "issue_task c now (tasks eng) = (entry_pending e, ot_insert ?tid e (tasks eng))"
    "entry_rule e = rule_id c" "entry_collector e = plan_collector c"
    by (simp add: issue_task_def Let_def)
  have "set (ot_insert ?tid e (tasks eng)) = insert (?tid, e) (set (tasks eng))"
    by (rule set_ot_insert_fresh) (use c(2) in \<open>simp add: ot_get_None_iff\<close>)
  moreover have "pending_task_id (entry_pending e) = ?tid"
    using e by (simp add: entry_pending_def)
  moreover have "cover_rule now (out, eng) r = (out @ [entry_pending e], eng\<lparr>tasks := ot_insert ?tid e (tasks eng)\<rparr>)"
    using c e(1) by (simp add: cover_rule_def is_tracked_iff)
  ultimately show thesis
    using c e(2) issued by metis
qed

definition pending_tracked :: "PendingRenewal list \<times> ('c, 'ts) DetectionEngine \<Rightarrow> bool" where
  "pending_tracked s \<longleftrightarrow> distinct (map pending_task_id (fst s))
     \<and> pending_task_id ` set (fst s) \<subseteq> fst ` set (tasks (snd s))"

lemma cover_rule_step:
  "pending_tracked s \<Longrightarrow> pending_tracked (cover_rule now s r)"
  "fst ` set (tasks (snd s)) \<subseteq> fst ` set (tasks (snd (cover_rule now s r)))"
  by (cases rule: cover_rule_cases [of now "fst s" "snd s" r]; auto simp: pending_tracked_def)+

lemma foldl_cover_pending: "pending_tracked (foldl (cover_rule now) ([], eng) rs)"
  by (rule foldl_invariant [where P = pending_tracked]) (simp_all add: cover_rule_step(1), simp add: pending_tracked_def)

lemma foldl_cover_mono: "fst ` set (tasks (snd s)) \<subseteq> fst ` set (tasks (snd (foldl (cover_rule now) s rs)))"
  by (rule foldl_invariant [where P = "\<lambda>s'. fst ` set (tasks (snd s)) \<subseteq> fst ` set (tasks (snd s'))"])
    (rule subset_refl, erule subset_trans, rule cover_rule_step(2))

lemma foldl_cover_all:
  assumes "r \<in> set rs" "hm_get (compiled eng) r = Some c"
  shows "task_id (rule_id c) (plan_collector c) \<in> fst ` set (tasks (snd (foldl (cover_rule now) (out, eng) rs)))"
  using assms
proof (induction rs arbitrary: out eng)
  case (Cons x rs)
  obtain out' eng' where step: "cover_rule now (out, eng) x = (out', eng')"
    by fastforce
  have same: "compiled eng' = compiled eng"
    using foldl_cover_tasks_only [of now out eng "[x]"] step by auto
  show ?case
  proof (cases "x = r")
    case True
    then have "task_id (rule_id c) (plan_collector c) \<in> fst ` set (tasks eng')"
      using Cons.prems(2) step by (cases rule: cover_rule_cases [of now out eng x]) auto
    then show ?thesis
      using foldl_cover_mono [of "(out', eng')" now rs] step by auto
  next
    case False
    with Cons.IH [of eng' out'] Cons.prems same step show ?thesis by simp
  qed
qed simp

lemma foldl_cover_entries:
  assumes "foldl (cover_rule now) (out, eng) rs = (out', eng')" "(tid, e) \<in> set (tasks eng')"
  shows "(tid, e) \<in> set (tasks eng) \<or> (\<exists>r \<in> set rs. \<exists>c. hm_get (compiled eng) r = Some c \<and> entry_rule e = rule_id c)"
  using assms(1)
proof (induction rs arbitrary: out eng)
  case (Cons x rs)
  obtain out1 eng1 where step: "cover_rule now (out, eng) x = (out1, eng1)"
    by fastforce
  have same: "compiled eng1 = compiled eng"
    using foldl_cover_tasks_only [of now out eng "[x]"] step by auto
  have "foldl (cover_rule now) (out1, eng1) rs = (out', eng')"
    using Cons.prems step by simp
  from Cons.IH [OF this] show ?case
    unfolding same using step by (cases rule: cover_rule_cases [of now out eng x]) auto
qed (use assms(2) in simp)

text \<open>The stages of a renewal cycle on an engine in a sound state.\<close>

lemma renewal_cycle_stages:
  assumes "engine_inv eng" "filed (tasks eng)" "renewal_cycle now eng = (cycle, eng')"
  obtains eng2 issued where
    "foldl (cover_rule now) ([], eng2) (coverable_rule_ids eng2) = (issued, eng')"
    "due cycle = foldl (\<lambda>out p. if list_ex (\<lambda>q. pending_task_id q = pending_task_id p) out then out else out @ [p])
       issued (due_tasks now (tasks eng'))"
    "compiled eng' = compiled eng2" "\<And>r. is_eligible eng' r = is_eligible eng2 r"
    "\<And>r. is_eligible eng2 r \<longleftrightarrow> r \<notin> set (expired_rules cycle) \<and> is_eligible eng r"
    "\<And>tid e. (tid, e) \<in> set (tasks eng2) \<Longrightarrow> is_eligible eng (entry_rule e)"
    "engine_inv eng'" "filed (tasks eng')"
proof -
  obtain eng1 expired l eng2 issued eng3 out where
    e1: "eng1 = foldl prune_task eng (tracked_rule_ids (tasks eng))" and l: "expire_tasks now (tasks eng1) = (expired, l)"
    and e2: "eng2 = foldl lapse_rule (eng1\<lparr>tasks := l\<rparr>) expired"
    and e3: "foldl (cover_rule now) ([], eng2) (coverable_rule_ids eng2) = (issued, eng3)"
    and out: "out = foldl (\<lambda>out p. if list_ex (\<lambda>q. pending_task_id q = pending_task_id p) out then out else out @ [p])
                  issued (due_tasks now (tasks eng3))"
    and cycle: "renewal_cycle now eng = (\<lparr>expired_rules = expired, due = out\<rparr>, eng3)"
    by (rule renewal_cycle_parts)
  have res: "cycle = \<lparr>expired_rules = expired, due = out\<rparr>" "eng' = eng3"
    using cycle assms(3) by simp_all
  obtain l3 where e23: "eng3 = eng2\<lparr>tasks := l3\<rparr>"
    using foldl_cover_tasks_only [of now "[]" eng2 "coverable_rule_ids eng2"] e3 by auto
  have elig2: "is_eligible eng2 r \<longleftrightarrow> r \<notin> set expired \<and> is_eligible eng r" for r
    by (simp add: e2 foldl_lapse_eligible e1 foldl_prune)
  have kept: "is_eligible eng (entry_rule e)" if "(tid, e) \<in> set (tasks eng2)" for tid e
    using that l pruned_eligible [of tid e eng] by (auto simp: e2 foldl_lapse_tasks expire_tasks_def simp flip: e1)
  have "engine_inv eng3" "filed (tasks eng3)"
    using renewal_cycle_inv [OF assms(1), of now] filed_renewal_cycle [OF assms(2), of now] by (simp_all add: cycle)
  then show thesis
    using e3 out elig2 kept by (intro that [of eng2 issued]) (simp_all add: res e23)
qed

text \<open>Who has a task after the cycle.\<close>

lemma renewal_cycle_tracks:
  assumes "engine_inv eng" "filed (tasks eng)" "renewal_cycle now eng = (cycle, eng')"
  shows "is_eligible eng' r \<Longrightarrow> hm_get (compiled eng') r = Some c \<Longrightarrow> is_tracked (task_id r (plan_collector c)) (tasks eng')"
    and "(tid, e) \<in> set (tasks eng') \<Longrightarrow> is_eligible eng' (entry_rule e) \<or> entry_rule e \<in> set (expired_rules cycle)"
    and "r \<in> set (expired_rules cycle) \<Longrightarrow> \<not> is_eligible eng' r"
proof -
  obtain eng2 issued where
    cover: "foldl (cover_rule now) ([], eng2) (coverable_rule_ids eng2) = (issued, eng')"
    and plans: "compiled eng' = compiled eng2" and elig: "\<And>r. is_eligible eng' r = is_eligible eng2 r"
    and elig2: "\<And>r. is_eligible eng2 r \<longleftrightarrow> r \<notin> set (expired_rules cycle) \<and> is_eligible eng r"
    and kept: "\<And>tid e. (tid, e) \<in> set (tasks eng2) \<Longrightarrow> is_eligible eng (entry_rule e)" and inv: "engine_inv eng'"
    by (rule renewal_cycle_stages [OF assms]) (rule that; assumption)
  have coverable: "r \<in> set (coverable_rule_ids eng2) \<longleftrightarrow> is_eligible eng2 r" for r
    using compiled_ids(2) [OF inv] elig by (auto simp: coverable_rule_ids_def plans)
  have ids: "rule_id c = r" if "hm_get (compiled eng2) r = Some c" for r c
    using slot_okD(4) [OF engine_invD(2) [OF inv]] that by (simp add: plans)
  show "is_tracked (task_id r (plan_collector c)) (tasks eng')"
    if "is_eligible eng' r" "hm_get (compiled eng') r = Some c"
    using foldl_cover_all [of r "coverable_rule_ids eng2" eng2 c now "[]"] that coverable [of r] ids [of r c] cover
    by (simp add: is_tracked_iff elig plans)
  show "is_eligible eng' (entry_rule e) \<or> entry_rule e \<in> set (expired_rules cycle)" if "(tid, e) \<in> set (tasks eng')"
    using foldl_cover_entries [OF cover that] kept [of tid e] coverable ids by (auto simp: elig elig2)
  show "\<not> is_eligible eng' r" if "r \<in> set (expired_rules cycle)"
    using that by (simp add: elig elig2)
qed

text \<open>What is sent after the cycle.\<close>

lemma renewal_cycle_due:
  assumes "engine_inv eng" "filed (tasks eng)" "renewal_cycle now eng = (cycle, eng')"
  shows "distinct (map pending_task_id (due cycle))"
    and "{tid. \<exists>e. ot_get (tasks eng') tid = Some e \<and> entry_due now e} \<subseteq> pending_task_id ` set (due cycle)"
    and "pending_task_id ` set (due cycle) \<subseteq> {tid. is_tracked tid (tasks eng')}"
proof -
  obtain eng2 issued where
    cover: "foldl (cover_rule now) ([], eng2) (coverable_rule_ids eng2) = (issued, eng')"
    and out: "due cycle = foldl (\<lambda>out p. if list_ex (\<lambda>q. pending_task_id q = pending_task_id p) out then out else out @ [p])
       issued (due_tasks now (tasks eng'))" and filed: "filed (tasks eng')"
    by (rule renewal_cycle_stages [OF assms]) (rule that; assumption)
  have pend: "pending_tracked (issued, eng')"
    using foldl_cover_pending [of now eng2 "coverable_rule_ids eng2"] by (simp add: cover)
  have ids: "distinct (map pending_task_id (due cycle))"
    "pending_task_id ` set (due cycle) = pending_task_id ` set issued \<union> pending_task_id ` set (due_tasks now (tasks eng'))"
    using foldl_dedupe [of pending_task_id issued "due_tasks now (tasks eng')"] pend
    by (simp_all add: out pending_tracked_def)
  have due: "pending_task_id ` set (due_tasks now (tasks eng')) = {tid. \<exists>e. ot_get (tasks eng') tid = Some e \<and> entry_due now e}"
    using filed by (force simp: due_tasks_def filed_def ot_get_iff entry_pending_def image_iff)
  have "{tid. \<exists>e. ot_get (tasks eng') tid = Some e \<and> entry_due now e} \<subseteq> {tid. is_tracked tid (tasks eng')}"
    by (auto simp: is_tracked_def)
  moreover have "pending_task_id ` set issued \<subseteq> {tid. is_tracked tid (tasks eng')}"
    using pend by (auto simp: pending_tracked_def is_tracked_iff)
  ultimately show "distinct (map pending_task_id (due cycle))"
    "{tid. \<exists>e. ot_get (tasks eng') tid = Some e \<and> entry_due now e} \<subseteq> pending_task_id ` set (due cycle)"
    "pending_task_id ` set (due cycle) \<subseteq> {tid. is_tracked tid (tasks eng')}"
    using ids due by auto
qed

text \<open>
  Claim C12: the outcome of a renewal cycle on an engine in any reachable state. Every rule that may run
  has its task tracked; a tracked task is of a rule that may run, or of one whose pushed half just
  lapsed; a rule that lapsed may not run. The tasks to send carry pairwise different ids, they are all
  tracked, and among them is every tracked task whose renewal is due.
\<close>

theorem renewal_cycle_covers:
  "case renewal_cycle now (run_ops env ops (with_config depth ms)) of (cycle, eng) \<Rightarrow>
     {task_id r (plan_collector c) | r c. is_eligible eng r \<and> hm_get (compiled eng) r = Some c}
        \<subseteq> {tid. is_tracked tid (tasks eng)}
     \<and> entry_rule ` snd ` set (tasks eng) \<subseteq> {r. is_eligible eng r} \<union> set (expired_rules cycle)
     \<and> set (expired_rules cycle) \<inter> {r. is_eligible eng r} = {}
     \<and> distinct (map pending_task_id (due cycle))
     \<and> {tid. \<exists>e. ot_get (tasks eng) tid = Some e \<and> entry_due now e} \<subseteq> set (map pending_task_id (due cycle))
     \<and> set (map pending_task_id (due cycle)) \<subseteq> {tid. is_tracked tid (tasks eng)}"
proof -
  obtain cycle eng where cycle: "renewal_cycle now (run_ops env ops (with_config depth ms)) = (cycle, eng)"
    by fastforce
  note T = renewal_cycle_tracks [OF run_ops_inv run_ops_filed cycle]
    and D = renewal_cycle_due [OF run_ops_inv run_ops_filed cycle]
  have "entry_rule ` snd ` set (tasks eng) \<subseteq> {r. is_eligible eng r} \<union> set (expired_rules cycle)"
    using T(2) by fastforce
  moreover have "set (expired_rules cycle) \<inter> {r. is_eligible eng r} = {}"
    using T(3) by blast
  moreover have "{task_id r (plan_collector c) | r c. is_eligible eng r \<and> hm_get (compiled eng) r = Some c}
      \<subseteq> {tid. is_tracked tid (tasks eng)}"
    using T(1) by blast
  ultimately show ?thesis
    unfolding cycle prod.case set_map using D by blast
qed

section \<open>Where the engine does not do what its comments say\<close>

text \<open>
  The id of a task does not determine its rule and its collector: neither kind of name excludes the
  separator. It does when no collector id contains it.
\<close>

lemma task_id_ambiguous: "task_id ''a'' ''b@c'' = task_id ''a@b'' ''c''"
  by (simp add: task_id_def)

lemma split_at_first: "x \<notin> set xs \<Longrightarrow> x \<notin> set xs' \<Longrightarrow> xs @ x # ys = xs' @ x # ys' \<longleftrightarrow> xs = xs' \<and> ys = ys'"
proof (induction xs arbitrary: xs')
  case Nil
  then show ?case by (cases xs') auto
next
  case (Cons a xs)
  then show ?case by (cases xs') auto
qed

lemma split_at_last:
  assumes "x \<notin> set ys" "x \<notin> set ys'"
  shows "xs @ x # ys = xs' @ x # ys' \<longleftrightarrow> xs = xs' \<and> ys = ys'"
proof -
  have "xs @ x # ys = xs' @ x # ys' \<longleftrightarrow> rev (xs @ x # ys) = rev (xs' @ x # ys')"
    by (simp only: rev_is_rev_conv)
  then show ?thesis
    using split_at_first [of x "rev ys" "rev ys'" "rev xs" "rev xs'"] assms by auto
qed

lemma task_id_injective:
  "CHR ''@'' \<notin> set cid \<Longrightarrow> CHR ''@'' \<notin> set cid' \<Longrightarrow> task_id r cid = task_id r' cid' \<longleftrightarrow> r = r' \<and> cid = cid'"
  by (simp add: task_id_def split_at_last)

text \<open>
  A registration under a new version that carries no conformance results takes back every pass of the
  collector, but an unchanged set of tables is no change of the catalog: the plans are kept, with
  predicates that may no longer be pushed.
\<close>

definition demo_v2 :: SchemaDescriptor where
  "demo_v2 = (name_like True)\<lparr>descriptor_version := ''v2'', conformance_results := []\<rparr>"

definition demo_catalog_v2 :: SchemaCatalog where
  "demo_catalog_v2 = \<lparr>descriptors = [(''procmond'', demo_v2)], owners = [(''processes'', ''procmond'')], conformance = {}\<rparr>"

lemma demo_registrations:
  "register (VerifiedRegistration ''procmond'') (name_like True) SchemaCatalog_new =
     (Ok \<lparr>first_registration = True, affected_tables = {''processes''}, removed_references = {}\<rparr>, demo_catalog)"
  "register (VerifiedRegistration ''procmond'') demo_v2 demo_catalog =
     (Ok \<lparr>first_registration = False, affected_tables = {}, removed_references = {}\<rparr>, demo_catalog_v2)"
  by (simp_all add: demo_catalog_def demo_catalog_v2_def demo_v2_def name_like_def Let_def catalog_eval)

lemma demo_plan_loaded:
  "catalog eng = demo_catalog \<Longrightarrow> max_subquery_depth eng = 3 \<Longrightarrow>
     plan_loaded demo_engine_env demo_rule eng = Ok demo_plan"
  by (simp add: plan_loaded_def demo_engine_env_def demo_planned split: option.splits)

lemma version_change_keeps_plan:
  "let eng = run_ops demo_engine_env
       [RegisterCollector (VerifiedRegistration ''procmond'') (name_like True), LoadRule demo_rule,
        RegisterCollector (VerifiedRegistration ''procmond'') demo_v2] (with_config 3 5 :: (unit, nat) DetectionEngine) in
     is_eligible eng ''r1'' \<and> hm_get (compiled eng) ''r1'' = Some demo_plan
     \<and> \<not> list_all (pushable_predicate (catalog eng) ''processes'') (predicates (plan demo_plan))"
proof -
  let ?eng = "with_config 3 5\<lparr>catalog := demo_catalog\<rparr> :: (unit, nat) DetectionEngine"
  have first: "snd (register_collector demo_engine_env (VerifiedRegistration ''procmond'') (name_like True) (with_config 3 5))
      = ?eng"
    by (simp add: register_collector_def with_config_def demo_registrations(1) revalidate_def change_is_empty_def)
  let ?planned = "record_plan ''r1'' demo_plan (enter_rule demo_rule ?eng)"
  have load: "load_rule demo_engine_env demo_rule ?eng = (Ok (), ?planned)"
    using demo_plan_loaded [of ?eng]
    by (simp add: load_rule_def enter_rule_def with_config_def demo_catalog_def catalog_is_empty_def Let_def
        demo_engine_env_def demo_env_def demo_rule_def validate_sql_with_depth_def)
  have fields: "catalog ?planned = demo_catalog" "deferred ?planned = []" "\<not> resists (health (enter_rule demo_rule ?eng)) ''r1''"
    by (simp_all add: with_config_def resists_def health_of_def demo_rule_def)
  let ?final = "?planned\<lparr>catalog := demo_catalog_v2, deferred := []\<rparr>"
  have second: "snd (register_collector demo_engine_env (VerifiedRegistration ''procmond'') demo_v2 ?planned) = ?final"
    using fields(1,2) by (simp add: register_collector_def demo_registrations(2) revalidate_def change_is_empty_def)
  have "hm_get (compiled ?planned) ''r1'' = Some demo_plan" "hm_get (rules ?planned) ''r1'' = Some demo_rule"
    "\<not> resists (health ?planned) ''r1''"
    using fields(3) by (simp_all add: record_plan_compiled resists_track, simp add: demo_rule_def)
  then have "is_eligible ?final ''r1'' \<and> hm_get (compiled ?final) ''r1'' = Some demo_plan"
    by (simp add: is_eligible_def demo_rule_def)
  moreover have "\<not> list_all (pushable_predicate (catalog ?final) ''processes'') (predicates (plan demo_plan))"
    by (simp add: demo_plan_def pushable_predicate_def demo_catalog_v2_def demo_v2_def name_like_def owner_of_def catalog_eval)
  ultimately show ?thesis
    by (simp add: first load second Let_def)
qed

text \<open>
  A rule whose task expired loses its plan. A collector that comes back and registers the schema it had
  changes nothing in the catalog, so nothing is judged or planned again: the rule stays out of service.
\<close>

lemma unchanged_registration_restores_nothing:
  assumes "register v d (catalog eng) = (Ok change, cat)" "change_is_empty change" "deferred eng = []"
  shows "snd (register_collector env v d eng) = eng\<lparr>catalog := cat, deferred := []\<rparr>
    \<and> is_eligible (snd (register_collector env v d eng)) r = is_eligible eng r"
proof -
  have "snd (register_collector env v d eng) = eng\<lparr>catalog := cat, deferred := []\<rparr>"
    using assms by (simp add: register_collector_def revalidate_def)
  then show ?thesis
    by (simp add: is_eligible_def cong: option.case_cong)
qed

lemma same_tables_no_change:
  assumes "ot_get (descriptors cat) cid = Some previous" "reference_set previous = reference_set d"
  shows "change_is_empty (diff cat cid d)"
  using assms by (simp add: diff_def change_is_empty_def)

text \<open>
  A rule that refers to no column, such as one that counts the rows of a table, is judged again only by
  the first registration of some collector: no change of its table reaches it.
\<close>

lemma columnless_rule_not_judged:
  "tracked_references rule = {} \<Longrightarrow> \<not> first_registration change \<Longrightarrow> revalidate_rule cat change rule = (rule, False, False)"
  by (simp add: revalidate_rule_def touches_def)

text \<open>A plan that can no longer be made is dropped, and the health of its rule stays what it was.\<close>

lemma failed_replan_keeps_health:
  assumes "hm_get (rules eng) r = Some rule" "plan_loaded env rule eng = Err e"
  shows "hm_get (compiled (replan_rule env eng r)) r = None \<and> health (replan_rule env eng r) = health eng"
  using assms by (simp add: replan_rule_def plan_and_record_def)

end
