(* ===== verification/Spawn_Tokens.thy ===== *)
theory Spawn_Tokens
  imports Schema_Catalog
begin

text \<open>
  The one-time credentials of collectors: \<^verbatim>\<open>daemoneye-eventbus/src/process_manager/spawn_token.rs\<close>, as
  it is built for Unix. A token is issued when the agent spawns a collector, handed over in a file
  whose path is an argument of the new process, read back there and compared by
  \<open>verify_spawn_token\<close> when the collector registers.

  Paths and texts are byte strings (UTF-8). The file system is explicit state: the files with their
  contents and the directory entries with what \<open>lstat\<close> reports. The parameter \<open>io_env\<close> says which
  system call fails and what the process may not choose (its user, its file mode mask, how much of a
  failed write reached the file); the bytes drawn from \<open>rand::random\<close> are an argument of \<open>issue\<close>.
\<close>

section \<open>Text\<close>

text \<open>\<open>str::trim\<close>: the characters of the Unicode property \<open>White_Space\<close>, each as its UTF-8 bytes.\<close>

definition unicode_space :: "string list" where
  "unicode_space =
     map (\<lambda>c. [char_of (c :: nat)]) [9, 10, 11, 12, 13, 32]
     @ map (map char_of) ([[194, 133], [194, 160], [225, 154, 128]]
         @ map (\<lambda>c. [226, 128, c]) [128, 129, 130, 131, 132, 133, 134, 135, 136, 137, 138, 168, 169, 175]
         @ [[226, 129, 159], [227, 128, 128 :: nat]])"

definition trim_start :: "string list \<Rightarrow> string list" where
  "trim_start cs = dropWhile (\<lambda>c. c \<in> set unicode_space) cs"

definition str_trim :: "string \<Rightarrow> string" where
  "str_trim s = concat (rev (trim_start (rev (trim_start (utf8_chars s)))))"

definition is_ascii_lower_hex :: "char \<Rightarrow> bool" where
  "is_ascii_lower_hex c \<longleftrightarrow> c \<in> set ''0123456789abcdef''"

definition is_ascii_uppercase :: "char \<Rightarrow> bool" where
  "is_ascii_uppercase c \<longleftrightarrow> 65 \<le> (of_char c :: nat) \<and> (of_char c :: nat) \<le> 90"

definition is_ascii_alphanumeric :: "char \<Rightarrow> bool" where
  "is_ascii_alphanumeric c \<longleftrightarrow> is_ascii_lowercase c \<or> is_ascii_uppercase c \<or> is_ascii_digit c"

section \<open>The file system\<close>

text \<open>Reading a file that is not UTF-8 is one of the faults of the read.\<close>

datatype IoError = NotFound | AlreadyExists | OtherIo string

record DirEntry =
  is_symlink :: bool
  leads_to_something :: bool
  dir_uid :: u32
  dir_mode :: u32

record filesystem =
  files :: "(string, string) hash_map"
  dirs :: "(string, DirEntry) hash_map"

datatype io_call = RemoveFile string | CreateNew string | WriteAll string | SyncAll string | ReadToString string
  | CreateDir string | Lstat string

record io_env =
  fault :: "io_call \<Rightarrow> string option"
  written :: nat
  euid :: u32
  umask :: u32

definition attempt :: "io_env \<Rightarrow> io_call \<Rightarrow> (unit, IoError) result" where
  "attempt io call = (case fault io call of None \<Rightarrow> Ok () | Some m \<Rightarrow> Err (OtherIo m))"

definition remove_file :: "io_env \<Rightarrow> string \<Rightarrow> filesystem \<Rightarrow> (unit, IoError) result \<times> filesystem" where
  "remove_file io p fs =
     (case attempt io (RemoveFile p) of
        Err e \<Rightarrow> (Err e, fs)
      | Ok _ \<Rightarrow> if hm_get (files fs) p = None then (Err NotFound, fs)
                else (Ok (), fs\<lparr>files := hm_remove p (files fs)\<rparr>))"

text \<open>\<open>OpenOptions::create_new\<close>: an existing entry is an error.\<close>

definition create_new :: "io_env \<Rightarrow> string \<Rightarrow> filesystem \<Rightarrow> (unit, IoError) result \<times> filesystem" where
  "create_new io p fs =
     (case attempt io (CreateNew p) of
        Err e \<Rightarrow> (Err e, fs)
      | Ok _ \<Rightarrow> if hm_get (files fs) p \<noteq> None then (Err AlreadyExists, fs)
                else (Ok (), fs\<lparr>files := hm_insert p [] (files fs)\<rparr>))"

definition write_all :: "io_env \<Rightarrow> string \<Rightarrow> string \<Rightarrow> filesystem \<Rightarrow> (unit, IoError) result \<times> filesystem" where
  "write_all io p s fs =
     (case attempt io (WriteAll p) of
        Err e \<Rightarrow> (Err e, fs\<lparr>files := hm_insert p (take (written io) s) (files fs)\<rparr>)
      | Ok _ \<Rightarrow> (Ok (), fs\<lparr>files := hm_insert p s (files fs)\<rparr>))"

definition read_to_string :: "io_env \<Rightarrow> string \<Rightarrow> filesystem \<Rightarrow> (string, IoError) result" where
  "read_to_string io p fs =
     (case attempt io (ReadToString p) of
        Err e \<Rightarrow> Err e
      | Ok _ \<Rightarrow> (case hm_get (files fs) p of None \<Rightarrow> Err NotFound | Some s \<Rightarrow> Ok s))"

text \<open>\<open>PathBuf::join\<close> with a relative component.\<close>

definition path_join :: "string \<Rightarrow> string \<Rightarrow> string" where
  "path_join dir name =
     (if dir = [] then name else if last dir = CHR ''/'' then dir @ name else dir @ ''/'' @ name)"

section \<open>The store\<close>

definition SPAWN_TOKEN_ARG :: string where
  "SPAWN_TOKEN_ARG = ''--spawn-token-file''"

definition SPAWN_TOKEN_BYTES :: nat where
  "SPAWN_TOKEN_BYTES = 32"

definition TOKEN_HEX_LEN :: nat where
  "TOKEN_HEX_LEN = SPAWN_TOKEN_BYTES * 2"

definition TOKEN_FILE_SUFFIX :: string where
  "TOKEN_FILE_SUFFIX = ''.spawn-token''"

definition TOKEN_DIR_NAME :: string where
  "TOKEN_DIR_NAME = ''spawn-tokens''"

datatype SpawnTokenError =
    InvalidCollectorId string
  | InsecureDirectory string u32
  | SymlinkedDirectory string
  | ForeignDirectory string u32 u32
  | Malformed string
  | TokenIo IoError

type_synonym IssuedToken = string

definition command_args :: "IssuedToken \<Rightarrow> string list" where
  "command_args path = [SPAWN_TOKEN_ARG, path]"

record SpawnTokenStore =
  directory :: string
  tokens :: "(string, string) hash_map"

definition token_path :: "SpawnTokenStore \<Rightarrow> string \<Rightarrow> (string, SpawnTokenError) result" where
  "token_path store cid =
     (if cid \<noteq> [] \<and> length cid \<le> 64
         \<and> list_all (\<lambda>c. is_ascii_alphanumeric c \<or> c = CHR ''-'' \<or> c = CHR ''_'') cid
      then Ok (path_join (directory store) (cid @ TOKEN_FILE_SUFFIX))
      else Err (InvalidCollectorId cid))"

definition HEX :: string where
  "HEX = ''0123456789abcdef''"

definition hex_digit :: "u8 \<Rightarrow> char" where
  "hex_digit n = (if unat n < length HEX then HEX ! unat n else CHR ''0'')"

definition random_token :: "u8 list \<Rightarrow> string" where
  "random_token bytes = concat (map (\<lambda>b. [hex_digit (drop_bit 4 b), hex_digit (and b 0x0f)]) bytes)"

definition remove_token_file :: "io_env \<Rightarrow> string \<Rightarrow> filesystem \<Rightarrow> (unit, SpawnTokenError) result \<times> filesystem" where
  "remove_token_file io p fs =
     (case remove_file io p fs of
        (Err NotFound, fs') \<Rightarrow> (Ok (), fs')
      | (Err e, fs') \<Rightarrow> (Err (TokenIo e), fs')
      | (Ok _, fs') \<Rightarrow> (Ok (), fs'))"

definition write_owner_only :: "io_env \<Rightarrow> string \<Rightarrow> string \<Rightarrow> filesystem \<Rightarrow> (unit, SpawnTokenError) result \<times> filesystem" where
  "write_owner_only io p token fs =
     (case create_new io p fs of
        (Err e, fs1) \<Rightarrow> (Err (TokenIo e), fs1)
      | (Ok _, fs1) \<Rightarrow>
        (case write_all io p token fs1 of
           (Err e, fs2) \<Rightarrow> (Err (TokenIo e), fs2)
         | (Ok _, fs2) \<Rightarrow>
           (case attempt io (SyncAll p) of Err e \<Rightarrow> (Err (TokenIo e), fs2) | Ok _ \<Rightarrow> (Ok (), fs2))))"

definition issue ::
    "io_env \<Rightarrow> u8 list \<Rightarrow> string \<Rightarrow> filesystem \<times> SpawnTokenStore \<Rightarrow>
     (IssuedToken, SpawnTokenError) result \<times> filesystem \<times> SpawnTokenStore" where
  "issue io bytes cid = (\<lambda>(fs, store).
     case token_path store cid of
       Err e \<Rightarrow> (Err e, fs, store)
     | Ok path \<Rightarrow>
       let token = random_token bytes in
       (case remove_token_file io path fs of
          (Err e, fs1) \<Rightarrow> (Err e, fs1, store)
        | (Ok _, fs1) \<Rightarrow>
          (case write_owner_only io path token fs1 of
             (Err e, fs2) \<Rightarrow> (Err e, fs2, store)
           | (Ok _, fs2) \<Rightarrow> (Ok path, fs2, store\<lparr>tokens := hm_insert cid token (tokens store)\<rparr>))))"

definition expected_token :: "SpawnTokenStore \<Rightarrow> string \<Rightarrow> string option" where
  "expected_token store cid = hm_get (tokens store) cid"

definition revoke :: "io_env \<Rightarrow> string \<Rightarrow> filesystem \<times> SpawnTokenStore \<Rightarrow> filesystem \<times> SpawnTokenStore" where
  "revoke io cid = (\<lambda>(fs, store).
     let store' = store\<lparr>tokens := hm_remove cid (tokens store)\<rparr> in
     case token_path store' cid of
       Err e \<Rightarrow> (fs, store')
     | Ok path \<Rightarrow> (snd (remove_token_file io path fs), store'))"

subsection \<open>Opening the store\<close>

definition token_directory :: "string \<Rightarrow> (string, SpawnTokenError) result" where
  "token_directory socket_directory = Ok (path_join socket_directory TOKEN_DIR_NAME)"

text \<open>
  \<open>Path::exists\<close> follows links; creating over a dangling link fails. The modes \<open>0o700\<close>, \<open>0o777\<close> and
  \<open>0o077\<close> are 0x1C0, 0x1FF and 0x3F.
\<close>

definition create_private_dir :: "io_env \<Rightarrow> string \<Rightarrow> filesystem \<Rightarrow> (unit, SpawnTokenError) result \<times> filesystem" where
  "create_private_dir io dir fs =
     (case hm_get (dirs fs) dir of
        Some d \<Rightarrow> if leads_to_something d then (Ok (), fs) else (Err (TokenIo AlreadyExists), fs)
      | None \<Rightarrow>
        (case attempt io (CreateDir dir) of
           Err e \<Rightarrow> (Err (TokenIo e), fs)
         | Ok _ \<Rightarrow>
           (Ok (), fs\<lparr>dirs := hm_insert dir \<lparr>is_symlink = False, leads_to_something = True, dir_uid = euid io,
                dir_mode = and 0x1C0 (not (umask io))\<rparr> (dirs fs)\<rparr>)))"

definition trailing_zeros :: "u32 \<Rightarrow> nat" where
  "trailing_zeros m = length (takeWhile (\<lambda>n. \<not> bit m n) [0..<32])"

definition check_private_dir :: "io_env \<Rightarrow> string \<Rightarrow> filesystem \<Rightarrow> (unit, SpawnTokenError) result" where
  "check_private_dir io dir fs =
     (case attempt io (Lstat dir) of
        Err e \<Rightarrow> Err (TokenIo e)
      | Ok _ \<Rightarrow>
        (case hm_get (dirs fs) dir of
           None \<Rightarrow> Err (TokenIo NotFound)
         | Some d \<Rightarrow>
             if is_symlink d then Err (SymlinkedDirectory dir)
             else if dir_uid d \<noteq> euid io then Err (ForeignDirectory dir (dir_uid d) (euid io))
             else let mode = and (dir_mode d) 0x1FF in
               if trailing_zeros mode \<ge> 6 then Ok () else Err (InsecureDirectory dir mode)))"

definition SpawnTokenStore_new ::
    "io_env \<Rightarrow> string \<Rightarrow> filesystem \<Rightarrow> (SpawnTokenStore, SpawnTokenError) result \<times> filesystem" where
  "SpawnTokenStore_new io socket_directory fs =
     (case token_directory socket_directory of
        Err e \<Rightarrow> (Err e, fs)
      | Ok dir \<Rightarrow>
        (case create_private_dir io dir fs of
           (Err e, fs') \<Rightarrow> (Err e, fs')
         | (Ok _, fs') \<Rightarrow>
           (case check_private_dir io dir fs' of
              Err e \<Rightarrow> (Err e, fs')
            | Ok _ \<Rightarrow> (Ok \<lparr>directory = dir, tokens = []\<rparr>, fs'))))"

subsection \<open>Reading a token back\<close>

definition read_token_file :: "io_env \<Rightarrow> string \<Rightarrow> filesystem \<Rightarrow> (string, SpawnTokenError) result" where
  "read_token_file io path fs =
     (case read_to_string io path fs of
        Err e \<Rightarrow> Err (TokenIo e)
      | Ok raw \<Rightarrow>
        let token = str_trim raw in
        if length token = TOKEN_HEX_LEN \<and> list_all is_ascii_lower_hex token then Ok token
        else Err (Malformed path))"

text \<open>\<open>str::split_once('=')\<close>.\<close>

definition split_once :: "char \<Rightarrow> string \<Rightarrow> (string \<times> string) option" where
  "split_once c s =
     (if c \<in> set s then Some (takeWhile (\<lambda>x. x \<noteq> c) s, tl (dropWhile (\<lambda>x. x \<noteq> c) s)) else None)"

definition inline_path :: "string \<Rightarrow> string option" where
  "inline_path argument =
     (case split_once CHR ''='' argument of
        None \<Rightarrow> None | Some (flag, v) \<Rightarrow> if flag = SPAWN_TOKEN_ARG then Some v else None)"

fun spawn_token_from_args :: "io_env \<Rightarrow> filesystem \<Rightarrow> string list \<Rightarrow> string option" where
  "spawn_token_from_args io fs [] = None"
| "spawn_token_from_args io fs (argument # rest) =
     (if argument = SPAWN_TOKEN_ARG then
        (case rest of
           [] \<Rightarrow> None
         | path # _ \<Rightarrow> (case read_token_file io path fs of Ok token \<Rightarrow> Some token | Err _ \<Rightarrow> None))
      else
        (case inline_path argument of
           None \<Rightarrow> spawn_token_from_args io fs rest
         | Some path \<Rightarrow> (case read_token_file io path fs of Ok token \<Rightarrow> Some token | Err _ \<Rightarrow> None)))"

section \<open>The directory\<close>

lemma trailing_zeros_ge: "n \<le> 32 \<Longrightarrow> n \<le> trailing_zeros m \<longleftrightarrow> (\<forall>k < n. \<not> bit m k)"
proof -
  assume n: "n \<le> 32"
  have "n \<le> length (takeWhile P [0..<32]) \<longleftrightarrow> (\<forall>k < n. P k)" for P :: "nat \<Rightarrow> bool"
  proof
    assume "n \<le> length (takeWhile P [0..<32])"
    then show "\<forall>k < n. P k"
      using nth_length_takeWhile set_takeWhileD by (metis add_0 in_set_conv_nth length_upt less_le_trans
          nth_upt takeWhile_nth n diff_zero)
  next
    assume "\<forall>k < n. P k"
    then show "n \<le> length (takeWhile P [0..<32])"
      using n by (intro length_takeWhile_less_P_nth) auto
  qed
  then show ?thesis by (simp add: trailing_zeros_def)
qed

lemma owner_only_mode: "trailing_zeros (and m 0x1FF) \<ge> 6 \<longleftrightarrow> and m 0x3F = (0 :: u32)"
proof -
  have low: "bit (0x1FF :: u32) k" "bit (0x3F :: u32) k" if "k < 6" for k
  proof -
    have "(0x1FF :: u32) = mask 9" "(0x3F :: u32) = mask 6"
      by (simp_all add: mask_eq_exp_minus_1)
    then show "bit (0x1FF :: u32) k" "bit (0x3F :: u32) k"
      using that by (simp_all only: bit_mask_iff) auto
  qed
  have "bit (0x3F :: u32) k \<longleftrightarrow> k < 6" for k
  proof -
    have "(0x3F :: u32) = mask 6"
      by (simp add: mask_eq_exp_minus_1)
    then show ?thesis
      by (simp only: bit_mask_iff) auto
  qed
  then have "and m 0x3F = 0 \<longleftrightarrow> (\<forall>k < 6. \<not> bit m k)"
    by (auto simp: bit_eq_iff bit_and_iff)
  then show ?thesis
    using low by (auto simp: trailing_zeros_ge bit_and_iff)
qed

lemma SpawnTokenStore_new_private:
  assumes "SpawnTokenStore_new io sock fs = (Ok store, fs')"
  shows "directory store = path_join sock TOKEN_DIR_NAME" "tokens store = []"
    and "\<exists>d. hm_get (dirs fs') (directory store) = Some d \<and> \<not> is_symlink d \<and> dir_uid d = euid io
      \<and> and (dir_mode d) 0x3F = 0"
proof -
  have dir: "check_private_dir io (directory store) fs' = Ok ()" "directory store = path_join sock TOKEN_DIR_NAME"
    "tokens store = []"
    using assms by (auto simp: SpawnTokenStore_new_def token_directory_def split: prod.splits sum.splits)
  then show "directory store = path_join sock TOKEN_DIR_NAME" "tokens store = []"
    by simp_all
  show "\<exists>d. hm_get (dirs fs') (directory store) = Some d \<and> \<not> is_symlink d \<and> dir_uid d = euid io
      \<and> and (dir_mode d) 0x3F = 0"
    using dir(1) owner_only_mode
    by (auto simp: check_private_dir_def Let_def split: sum.splits option.splits if_splits)
qed

section \<open>The shape of a token\<close>

lemma hex_digit_lower: "unat n < 16 \<Longrightarrow> is_ascii_lower_hex (hex_digit n)"
  using nth_mem [of "unat n" HEX] by (simp add: hex_digit_def is_ascii_lower_hex_def HEX_def del: nth_mem)

lemma nibbles: "unat (drop_bit 4 b) < 16" "unat (and b 0x0f) < 16" for b :: u8
proof -
  have "unat b < 256"
    using unsigned_less [of b, where ?'a = nat] by simp
  then show "unat (drop_bit 4 b) < 16"
    by (simp add: drop_bit_eq_div unat_div_distrib)
  have "(0x0f :: u8) = mask 4"
    by (simp add: mask_eq_exp_minus_1)
  then have "and b 0x0f = take_bit 4 b"
    by (simp add: take_bit_eq_mask)
  then show "unat (and b 0x0f) < 16"
    by (simp add: take_bit_eq_mod unat_mod_distrib)
qed

lemma random_token_shape:
  "length (random_token bytes) = 2 * length bytes" "list_all is_ascii_lower_hex (random_token bytes)"
  by (induction bytes) (auto simp: random_token_def hex_digit_lower nibbles)

lemma utf8_chars_ascii: "list_all (\<lambda>c. (of_char c :: nat) < 128) s \<Longrightarrow> utf8_chars s = map (\<lambda>c. [c]) s"
proof (induction s)
  case (Cons c s)
  then have "takeWhile is_continuation s = []" "dropWhile is_continuation s = s"
    by (cases s; simp add: is_continuation_def)+
  with Cons show ?case by simp
qed simp

lemma lower_hex_plain:
  assumes "is_ascii_lower_hex c"
  shows "(of_char c :: nat) < 128" "[c] \<notin> set unicode_space"
  using assms by (auto simp: is_ascii_lower_hex_def unicode_space_def char_of_def)

lemma str_trim_hex:
  assumes "list_all is_ascii_lower_hex s"
  shows "str_trim s = s"
proof -
  have "utf8_chars s = map (\<lambda>c. [c]) s"
    using assms by (intro utf8_chars_ascii) (auto simp: list_all_iff lower_hex_plain)
  moreover have "trim_start (map (\<lambda>c. [c]) t) = map (\<lambda>c. [c]) t" if "set t \<subseteq> set s" for t
    using assms that by (cases t) (auto simp: trim_start_def list_all_iff lower_hex_plain)
  moreover have "concat (map (\<lambda>c. [c]) s) = s"
    by (induction s) auto
  ultimately show ?thesis
    by (simp add: str_trim_def rev_map)
qed

section \<open>From the store to the collector and back\<close>

lemma attempt_Ok: "attempt io call = Ok u \<longleftrightarrow> fault io call = None"
  by (simp add: attempt_def split: option.splits)

lemma path_join_inj [simp]: "path_join dir a = path_join dir b \<longleftrightarrow> a = b"
  by (simp add: path_join_def)

lemma token_path_tokens [simp]: "token_path (store\<lparr>tokens := m\<rparr>) cid = token_path store cid"
  by (simp add: token_path_def)

lemma token_path_inj:
  "token_path store cid = Ok p \<Longrightarrow> token_path store' cid' = Ok p \<Longrightarrow> directory store = directory store' \<Longrightarrow> cid = cid'"
  by (auto simp: token_path_def split: if_splits)

text \<open>Both file operations touch one path only.\<close>

lemma remove_token_file_other: "p \<noteq> q \<Longrightarrow> hm_get (files (snd (remove_token_file io q fs))) p = hm_get (files fs) p"
  by (auto simp: remove_token_file_def remove_file_def split: sum.splits IoError.splits)

lemma write_owner_only_other:
  "p \<noteq> q \<Longrightarrow> hm_get (files (snd (write_owner_only io q token fs))) p = hm_get (files fs) p"
  by (auto simp: write_owner_only_def create_new_def write_all_def split: sum.splits)

lemma write_owner_only_Ok:
  "write_owner_only io p token fs = (Ok (), fs') \<Longrightarrow> hm_get (files fs') p = Some token"
  by (auto simp: write_owner_only_def create_new_def write_all_def split: sum.splits if_splits)

lemma issue_cases:
  obtains (refused) e where "issue io bytes cid (fs, store) = (Err e, fs, store)" "token_path store cid = Err e"
  | (failed) path e fs' where "issue io bytes cid (fs, store) = (Err e, fs', store)" "token_path store cid = Ok path"
      "\<And>p. p \<noteq> path \<Longrightarrow> hm_get (files fs') p = hm_get (files fs) p"
  | (issued) path fs' where "token_path store cid = Ok path"
      "issue io bytes cid (fs, store) =
        (Ok path, fs', store\<lparr>tokens := hm_insert cid (random_token bytes) (tokens store)\<rparr>)"
      "hm_get (files fs') path = Some (random_token bytes)"
      "\<And>p. p \<noteq> path \<Longrightarrow> hm_get (files fs') p = hm_get (files fs) p"
proof (cases "token_path store cid")
  case (Inl e)
  with refused show thesis by (simp add: issue_def)
next
  case path: (Inr path)
  obtain r1 fs1 where rm: "remove_token_file io path fs = (r1, fs1)" by fastforce
  obtain r2 fs2 where wr: "write_owner_only io path (random_token bytes) fs1 = (r2, fs2)" by fastforce
  have other: "hm_get (files fs1) p = hm_get (files fs) p" "hm_get (files fs2) p = hm_get (files fs) p" if "p \<noteq> path" for p
    using remove_token_file_other [OF that, of io fs] write_owner_only_other [OF that, of io "random_token bytes" fs1]
    by (simp_all add: rm wr)
  show thesis
  proof (cases r1)
    case (Inl e)
    with path rm failed [of e fs1 path] other(1) show thesis by (simp add: issue_def Let_def)
  next
    case ok: (Inr u)
    show thesis
    proof (cases r2)
      case (Inl e)
      with ok path rm wr failed [of e fs2 path] other(2) show thesis by (simp add: issue_def Let_def)
    next
      case (Inr u)
      with ok path rm wr issued [of path fs2] other(2) write_owner_only_Ok [of io path _ fs1 fs2]
      show thesis by (simp add: issue_def Let_def)
    qed
  qed
qed

lemma revoke_other:
  assumes "revoke io cid' (fs, store) = (fs', store')" "cid \<noteq> cid'" "token_path store cid = Ok path"
  shows "expected_token store' cid = expected_token store cid" "token_path store' cid = token_path store cid"
    "hm_get (files fs') path = hm_get (files fs) path"
proof -
  have store': "store' = store\<lparr>tokens := hm_remove cid' (tokens store)\<rparr>"
    using assms(1) by (auto simp: revoke_def Let_def split: sum.splits)
  then show "expected_token store' cid = expected_token store cid" "token_path store' cid = token_path store cid"
    using assms(2) by (simp_all add: expected_token_def)
  have "path \<noteq> q" if "token_path store' cid' = Ok q" for q
    using that token_path_inj [OF assms(3)] assms(2) store' by auto
  then show "hm_get (files fs') path = hm_get (files fs) path"
    using assms(1) store' by (auto simp: revoke_def Let_def remove_token_file_other split: sum.splits)
qed

text \<open>What the agent does to the store after the token in question was issued.\<close>

datatype store_op = IssueOp io_env "u8 list" string | RevokeOp io_env string

primrec op_collector :: "store_op \<Rightarrow> string" where
  "op_collector (IssueOp io bytes cid) = cid"
| "op_collector (RevokeOp io cid) = cid"

primrec exec_store_op :: "store_op \<Rightarrow> filesystem \<times> SpawnTokenStore \<Rightarrow> filesystem \<times> SpawnTokenStore" where
  "exec_store_op (IssueOp io bytes cid) s = snd (issue io bytes cid s)"
| "exec_store_op (RevokeOp io cid) s = revoke io cid s"

text \<open>The token of \<open>cid\<close> is \<open>token\<close>, on file and in the store.\<close>

definition holds_token :: "string \<Rightarrow> string \<Rightarrow> string \<Rightarrow> filesystem \<times> SpawnTokenStore \<Rightarrow> bool" where
  "holds_token cid path token = (\<lambda>(fs, store).
     token_path store cid = Ok path \<and> expected_token store cid = Some token \<and> hm_get (files fs) path = Some token)"

lemma holds_token_issue:
  assumes "holds_token cid path token (fs, store)" "cid' \<noteq> cid"
  shows "holds_token cid path token (snd (issue io bytes cid' (fs, store)))"
proof -
  have path: "token_path store cid = Ok path"
    using assms(1) by (simp add: holds_token_def)
  have keep: "path \<noteq> q" if "token_path store cid' = Ok q" for q
    using token_path_inj [OF path] that assms(2) by blast
  show ?thesis
    using assms keep
    by (cases rule: issue_cases [of io bytes cid' fs store])
      (auto simp: holds_token_def expected_token_def)
qed

lemma holds_token_revoke:
  assumes "holds_token cid path token (fs, store)" "cid' \<noteq> cid"
  shows "holds_token cid path token (revoke io cid' (fs, store))"
proof -
  obtain fs' store' where rv: "revoke io cid' (fs, store) = (fs', store')" by fastforce
  have path: "token_path store cid = Ok path"
    using assms(1) by (simp add: holds_token_def)
  have "cid \<noteq> cid'"
    using assms(2) by simp
  note R = revoke_other [OF rv this path]
  show ?thesis
    using assms(1) R by (simp add: rv holds_token_def)
qed

interpretation kept_token: lasting "holds_token cid path token" exec_store_op "\<lambda>op. op_collector op \<noteq> cid"
  for cid path token
proof
  fix s op
  assume "holds_token cid path token s" "op_collector op \<noteq> cid"
  then show "holds_token cid path token (exec_store_op op s)"
    by (cases s; cases op) (simp_all add: holds_token_issue holds_token_revoke)
qed

lemma read_held_token:
  assumes "holds_token cid path (random_token bytes) (fs, store)" "length bytes = SPAWN_TOKEN_BYTES"
    and "fault io (ReadToString path) = None"
  shows "read_token_file io path fs = Ok (random_token bytes)"
  using assms random_token_shape [of bytes]
  by (simp add: read_token_file_def read_to_string_def attempt_def holds_token_def str_trim_hex TOKEN_HEX_LEN_def)

lemma spawn_token_from_args_flag:
  "list_all (\<lambda>a. a \<noteq> SPAWN_TOKEN_ARG \<and> inline_path a = None) args \<Longrightarrow>
     spawn_token_from_args io fs (args @ command_args path @ rest) =
       (case read_token_file io path fs of Ok token \<Rightarrow> Some token | Err _ \<Rightarrow> None)"
  by (induction args) (simp_all add: command_args_def)

text \<open>
  Claim C15: a token reaches the collector it was issued for. After a successful issue, and whatever
  tokens of other collectors are issued, revoked or fail to be written since, a process whose arguments
  contain the two the agent appends, and no earlier occurrence of the flag, reads exactly the token
  the store expects of that collector, unless the read itself fails; and presenting it authenticates
  the collector.
\<close>

theorem token_roundtrip:
  assumes "issue io bytes cid (fs, store) = (Ok path, issued)" "length bytes = SPAWN_TOKEN_BYTES"
    and "list_all (\<lambda>op. op_collector op \<noteq> cid) ops"
    and "foldl (\<lambda>s op. exec_store_op op s) issued ops = (fs', store')"
    and "list_all (\<lambda>a. a \<noteq> SPAWN_TOKEN_ARG \<and> inline_path a = None) args"
    and "fault io' (ReadToString path) = None"
  shows "spawn_token_from_args io' fs' (args @ command_args path @ rest) = Some (random_token bytes)
    \<and> expected_token store' cid = Some (random_token bytes)
    \<and> verify_spawn_token cid (expected_token store' cid)
        (spawn_token_from_args io' fs' (args @ command_args path @ rest)) = Ok (VerifiedRegistration cid)"
proof -
  have "holds_token cid path (random_token bytes) issued"
    using assms(1)
    by (cases rule: issue_cases [of io bytes cid fs store])
      (auto simp: holds_token_def expected_token_def)
  then have held: "holds_token cid path (random_token bytes) (fs', store')"
    using kept_token.run [OF _ assms(3)] by (simp flip: assms(4))
  then have "expected_token store' cid = Some (random_token bytes)"
    by (simp add: holds_token_def)
  moreover have "length (random_token bytes) = SPAWN_TOKEN_HEX_LEN"
    by (simp add: random_token_shape assms(2) SPAWN_TOKEN_BYTES_def SPAWN_TOKEN_HEX_LEN_def)
  moreover have "spawn_token_from_args io' fs' (args @ command_args path @ rest) = Some (random_token bytes)"
    by (simp add: spawn_token_from_args_flag [OF assms(5)] read_held_token [OF held assms(2,6)])
  ultimately show ?thesis
    by (simp add: verify_spawn_token_Ok)
qed

definition quiet_io :: io_env where
  "quiet_io = \<lparr>fault = (\<lambda>_. None), written = 0, euid = 0, umask = 0\<rparr>"

definition sample_store :: SpawnTokenStore where
  "sample_store = \<lparr>directory = ''/run/spawn-tokens'', tokens = []\<rparr>"

definition sample_path :: string where
  "sample_path = ''/run/spawn-tokens/procmond.spawn-token''"

definition sample_bytes :: "u8 list" where
  "sample_bytes = replicate 32 171"

definition sample_issued :: "filesystem \<times> SpawnTokenStore" where
  "sample_issued = snd (issue quiet_io sample_bytes ''procmond'' (\<lparr>files = [], dirs = []\<rparr>, sample_store))"

definition sample_later :: "filesystem \<times> SpawnTokenStore" where
  "sample_later = foldl (\<lambda>s op. exec_store_op op s) sample_issued
     [IssueOp quiet_io (replicate 32 7) ''netmond'', RevokeOp quiet_io ''netmond'']"

lemma sample_issue:
  "issue quiet_io sample_bytes ''procmond'' (\<lparr>files = [], dirs = []\<rparr>, sample_store) = (Ok sample_path, sample_issued)"
proof -
  have "token_path sample_store ''procmond'' = Ok sample_path"
    by (simp add: token_path_def sample_store_def sample_path_def path_join_def TOKEN_FILE_SUFFIX_def
        is_ascii_alphanumeric_def is_ascii_lowercase_def)
  then have "fst (issue quiet_io sample_bytes ''procmond'' (\<lparr>files = [], dirs = []\<rparr>, sample_store)) = Ok sample_path"
    by (simp add: issue_def Let_def remove_token_file_def remove_file_def write_owner_only_def create_new_def
        write_all_def attempt_def quiet_io_def)
  then show ?thesis
    by (metis sample_issued_def prod.collapse)
qed

theorem token_roundtrip_witness:
  "spawn_token_from_args quiet_io (fst sample_later) ([''procmond'', ''--verbose''] @ command_args sample_path @ [])
      = Some (random_token sample_bytes)
   \<and> expected_token (snd sample_later) ''procmond'' = Some (random_token sample_bytes)
   \<and> verify_spawn_token ''procmond'' (expected_token (snd sample_later) ''procmond'')
       (spawn_token_from_args quiet_io (fst sample_later) ([''procmond'', ''--verbose''] @ command_args sample_path @ []))
      = Ok (VerifiedRegistration ''procmond'')"
proof (rule token_roundtrip [OF sample_issue])
  show "foldl (\<lambda>s op. exec_store_op op s) sample_issued
     [IssueOp quiet_io (replicate 32 7) ''netmond'', RevokeOp quiet_io ''netmond''] = (fst sample_later, snd sample_later)"
    by (simp only: sample_later_def prod.collapse)
qed (simp_all add: sample_bytes_def SPAWN_TOKEN_BYTES_def SPAWN_TOKEN_ARG_def inline_path_def split_once_def quiet_io_def)

text \<open>A token that was revoked, or replaced by another, no longer authenticates.\<close>

lemma revoked_token_refused:
  "revoke io cid (fs, store) = (fs', store') \<Longrightarrow>
     \<not> is_ok (verify_spawn_token cid (expected_token store' cid) presented)"
  by (auto simp: revoke_def Let_def verify_spawn_token_def expected_token_def split: sum.splits option.splits)

lemma replaced_token_refused:
  assumes "issue io bytes cid (fs, store) = (Ok path, fs', store')" "t \<noteq> random_token bytes"
  shows "\<not> is_ok (verify_spawn_token cid (expected_token store' cid) (Some t))"
  using assms
  by (cases rule: issue_cases [of io bytes cid fs store])
    (auto simp: verify_spawn_token_def expected_token_def split: option.splits)

text \<open>Every identity the store knows can be the name of a token file.\<close>

definition file_safe :: "string \<Rightarrow> bool" where
  "file_safe cid \<longleftrightarrow> cid \<noteq> [] \<and> length cid \<le> 64
     \<and> list_all (\<lambda>c. is_ascii_alphanumeric c \<or> c = CHR ''-'' \<or> c = CHR ''_'') cid"

definition store_ok :: "SpawnTokenStore \<Rightarrow> bool" where
  "store_ok store \<longleftrightarrow> (\<forall>cid t. expected_token store cid = Some t \<longrightarrow> file_safe cid)"

lemma token_path_safe: "is_ok (token_path store cid) \<longleftrightarrow> file_safe cid"
  by (simp add: token_path_def file_safe_def)

lemma store_ok_issue: "store_ok store \<Longrightarrow> store_ok (snd (snd (issue io bytes cid (fs, store))))"
  using token_path_safe [of store cid]
  by (cases rule: issue_cases [of io bytes cid fs store]) (auto simp: store_ok_def expected_token_def)

lemma store_ok_revoke: "store_ok store \<Longrightarrow> store_ok (snd (revoke io cid (fs, store)))"
  by (auto simp: store_ok_def expected_token_def revoke_def Let_def split: sum.splits)

lemma store_ok_new: "store_ok \<lparr>directory = d, tokens = []\<rparr>"
  by (simp add: store_ok_def expected_token_def)

interpretation safe_store: lasting "\<lambda>s. store_ok (snd s)" exec_store_op "\<lambda>_. True"
proof
  fix s :: "filesystem \<times> SpawnTokenStore" and op
  assume "store_ok (snd s)"
  then show "store_ok (snd (exec_store_op op s))"
    by (cases s; cases op) (simp_all add: store_ok_issue store_ok_revoke)
qed

end
