(* ===== verification/Collector_Registry.thy ===== *)
theory Collector_Registry
  imports Rule_Engine Spawn_Tokens Topic
begin

text \<open>
  The registry of collectors and the gate in front of it: \<^verbatim>\<open>daemoneye-agent/src/collector_registry.rs\<close>
  and \<^verbatim>\<open>daemoneye-agent/src/collector_admission.rs\<close>. A registration is checked for its shape, for a
  collector of that name, for the spawn token, and for its schema descriptor, in this order, and every
  refusal is recorded in the registry's own rejection log.

  The policy \<open>Unauthenticated\<close> exists in test builds only and is left out. The lock of the registry is
  held during a whole registration, so an operation is one step. Durations and times are nanoseconds.
  The parameter is the engine's environment.
\<close>

section \<open>Data\<close>

text \<open>The declared capabilities and attributes, which nothing here reads, are of a type of their own.\<close>

record 'm RegistrationRequest =
  req_collector_id :: string
  req_collector_type :: string
  req_hostname :: string
  req_version :: "string option"
  req_pid :: "u32 option"
  req_details :: 'm
  req_heartbeat_interval_ms :: "u64 option"
  req_descriptor :: "WireDescriptor option"
  req_spawn_token :: "string option"

record RegistrationResponse =
  resp_collector_id :: string
  accepted :: bool
  resp_heartbeat_interval_ms :: u64
  assigned_topics :: "string list"
  resp_message :: "string option"

datatype AdmissionError = TokenRefused TokenRejection | DescriptorRefused CatalogError

definition AdmissionError_display :: "AdmissionError \<Rightarrow> string" where
  "AdmissionError_display e = (case e of
     TokenRefused r \<Rightarrow> TokenRejection_display r | DescriptorRefused d \<Rightarrow> CatalogError_display d)"

definition gate_for_admission :: "AdmissionError \<Rightarrow> RegistrationGate" where
  "gate_for_admission e = (case e of
     TokenRefused r \<Rightarrow> (case r of
       TokenRejection.NoTokenPresented \<Rightarrow> RegistrationGate.NoTokenPresented
     | TokenRejection.UnknownCollector \<Rightarrow> RegistrationGate.UnknownCollector
     | TokenRejection.TokenMismatch \<Rightarrow> RegistrationGate.TokenMismatch)
   | DescriptorRefused _ \<Rightarrow> MalformedRequest)"

record ('c, 'ts) CollectorAdmission =
  token_store :: SpawnTokenStore
  engine :: "('c, 'ts) DetectionEngine"
  pending_reissue :: "string set"

datatype ('c, 'ts) AdmissionPolicy = Gated "('c, 'ts) CollectorAdmission" | ClosedGate

datatype RegistryError =
    AlreadyRegisteredError string
  | NotFoundError string
  | Validation string
  | NotAdmitted string RegistrationGate

definition registry_error_of :: "AdmissionError \<Rightarrow> RegistryError" where
  "registry_error_of e = NotAdmitted (AdmissionError_display e) (gate_for_admission e)"

definition gate_for :: "RegistryError \<Rightarrow> RegistrationGate" where
  "gate_for e = (case e of
     AlreadyRegisteredError _ \<Rightarrow> RegistrationGate.AlreadyRegistered
   | NotAdmitted _ gate \<Rightarrow> gate
   | Validation _ \<Rightarrow> MalformedRequest
   | NotFoundError _ \<Rightarrow> MalformedRequest)"

record 'm CollectorRecord =
  registration :: "'m RegistrationRequest"
  registered_at :: nat
  last_heartbeat :: nat
  heartbeat_interval :: nat
  missed_heartbeats :: u32

datatype HeartbeatStatus = HeartbeatHealthy | HeartbeatDegraded u32 | HeartbeatFailed u32 nat

definition needs_recovery :: "HeartbeatStatus \<Rightarrow> bool" where
  "needs_recovery s = (case s of HeartbeatFailed _ _ \<Rightarrow> True | _ \<Rightarrow> False)"

definition MAX_MISSED_HEARTBEATS :: u32 where
  "MAX_MISSED_HEARTBEATS = 3"

definition DEFAULT_HEARTBEAT_INTERVAL :: nat where
  "DEFAULT_HEARTBEAT_INTERVAL = 30 * 1000000000"

definition MAX_HOSTNAME_LENGTH :: nat where
  "MAX_HOSTNAME_LENGTH = 253"

record ('m, 'c, 'ts) CollectorRegistry =
  records :: "(string, 'm CollectorRecord) hash_map"
  default_heartbeat :: nat
  registry_rejections :: "'ts RejectionLog"
  admission :: "('c, 'ts) AdmissionPolicy"

definition CollectorRegistry_new :: "nat \<Rightarrow> ('c, 'ts) AdmissionPolicy \<Rightarrow> ('m, 'c, 'ts) CollectorRegistry" where
  "CollectorRegistry_new hb policy =
     \<lparr>records = [], default_heartbeat = hb, registry_rejections = RejectionLog_new, admission = policy\<rparr>"

definition with_admission :: "('c, 'ts) CollectorAdmission \<Rightarrow> ('m, 'c, 'ts) CollectorRegistry" where
  "with_admission a = CollectorRegistry_new DEFAULT_HEARTBEAT_INTERVAL (Gated a)"

definition closed_registry :: "('m, 'c, 'ts) CollectorRegistry" where
  "closed_registry = CollectorRegistry_new DEFAULT_HEARTBEAT_INTERVAL ClosedGate"

section \<open>Admission\<close>

definition verify_request :: "('c, 'ts) CollectorAdmission \<Rightarrow> 'm RegistrationRequest \<Rightarrow> (VerifiedRegistration, AdmissionError) result" where
  "verify_request a req =
     map_sum TokenRefused (\<lambda>v. v)
       (verify_spawn_token (req_collector_id req) (expected_token (token_store a) (req_collector_id req))
          (req_spawn_token req))"

definition admit ::
    "('x, 'ts) engine_env \<Rightarrow> 'm RegistrationRequest \<Rightarrow> ('c, 'ts) CollectorAdmission \<Rightarrow>
     (unit, AdmissionError) result \<times> ('c, 'ts) CollectorAdmission" where
  "admit env req a =
     (case verify_request a req of
        Err e \<Rightarrow> (Err e, a)
      | Ok verified \<Rightarrow>
        (case (case req_descriptor req of
                 None \<Rightarrow> (Ok (), a)
               | Some wire \<Rightarrow>
                 (case register_collector env verified (to_proto_descriptor wire) (engine a) of
                    (Err e, eng) \<Rightarrow> (Err (DescriptorRefused e), a\<lparr>engine := eng\<rparr>)
                  | (Ok _, eng) \<Rightarrow> (Ok (), a\<lparr>engine := eng\<rparr>))) of
           (Err e, a1) \<Rightarrow> (Err e, a1)
         | (Ok _, a1) \<Rightarrow> (Ok (), a1\<lparr>pending_reissue := insert (req_collector_id req) (pending_reissue a1)\<rparr>)))"

definition drain_pending_reissue :: "('c, 'ts) CollectorAdmission \<Rightarrow> string list \<times> ('c, 'ts) CollectorAdmission" where
  "drain_pending_reissue a = (sorted_list_of_set (pending_reissue a), a\<lparr>pending_reissue := {}\<rparr>)"

section \<open>Registration\<close>

definition check_bounded_field :: "string \<Rightarrow> string \<Rightarrow> nat \<Rightarrow> (unit, RegistryError) result" where
  "check_bounded_field field v max_bytes =
     (if str_trim v = [] then Err (Validation (field @ '' cannot be empty''))
      else if length v > max_bytes
      then Err (Validation (field @ '' exceeds the '' @ show_nat max_bytes @ ''-byte bound''))
      else Ok ())"

definition validate_registration :: "'m RegistrationRequest \<Rightarrow> (unit, RegistryError) result" where
  "validate_registration req =
     (case check_bounded_field ''collector_id'' (req_collector_id req) MAX_IDENTIFIER_LENGTH of
        Err e \<Rightarrow> Err e
      | Ok _ \<Rightarrow>
        (case check_bounded_field ''collector_type'' (req_collector_type req) MAX_IDENTIFIER_LENGTH of
           Err e \<Rightarrow> Err e
         | Ok _ \<Rightarrow> check_bounded_field ''hostname'' (req_hostname req) MAX_HOSTNAME_LENGTH))"

text \<open>The longest run of whole characters within the bound.\<close>

fun bounded_chars :: "nat \<Rightarrow> string list \<Rightarrow> string list" where
  "bounded_chars offset [] = []"
| "bounded_chars offset (c # cs) =
     (if offset + length c \<le> MAX_IDENTIFIER_LENGTH then c # bounded_chars (offset + length c) cs else [])"

definition bounded_id :: "string \<Rightarrow> string" where
  "bounded_id cid = concat (bounded_chars 0 (utf8_chars cid))"

definition record_registration_rejection ::
    "('x, 'ts) engine_env \<Rightarrow> string \<Rightarrow> RegistrationGate \<Rightarrow> ('m, 'c, 'ts) CollectorRegistry \<Rightarrow>
     ('m, 'c, 'ts) CollectorRegistry" where
  "record_registration_rejection env cid gate reg =
     reg\<lparr>registry_rejections := snd (record_rejection (ledger_of env)
          (utc_now env (next_sequence (registry_rejections reg))) (Registration (bounded_id cid) gate)
          (registry_rejections reg))\<rparr>"

definition duration_millis :: "u64 \<Rightarrow> nat" where
  "duration_millis ms = unat ms * 1000000"

definition as_millis_u64 :: "nat \<Rightarrow> u64" where
  "as_millis_u64 d = (if d div 1000000 < 2 ^ 64 then word_of_nat (d div 1000000) else -1)"

definition topics_for :: "string \<Rightarrow> string list" where
  "topics_for cid = [''control.collector.'' @ cid, ''events.collector.'' @ cid]"

definition enter_record ::
    "nat \<Rightarrow> 'm RegistrationRequest \<Rightarrow> ('m, 'c, 'ts) CollectorRegistry \<Rightarrow>
     (RegistrationResponse, RegistryError) result \<times> ('m, 'c, 'ts) CollectorRegistry" where
  "enter_record now req reg =
     (let cid = req_collector_id req;
          interval = (case req_heartbeat_interval_ms req of None \<Rightarrow> default_heartbeat reg | Some ms \<Rightarrow> duration_millis ms);
          rec = \<lparr>registration = req, registered_at = now, last_heartbeat = now, heartbeat_interval = interval,
                 missed_heartbeats = 0\<rparr>
      in (Ok \<lparr>resp_collector_id = cid, accepted = True, resp_heartbeat_interval_ms = as_millis_u64 interval,
              assigned_topics = topics_for cid, resp_message = None\<rparr>,
          reg\<lparr>records := hm_insert cid rec (records reg)\<rparr>))"

definition register_inner ::
    "('x, 'ts) engine_env \<Rightarrow> nat \<Rightarrow> 'm RegistrationRequest \<Rightarrow> ('m, 'c, 'ts) CollectorRegistry \<Rightarrow>
     (RegistrationResponse, RegistryError) result \<times> ('m, 'c, 'ts) CollectorRegistry" where
  "register_inner env now req reg =
     (case validate_registration req of
        Err e \<Rightarrow> (Err e, reg)
      | Ok _ \<Rightarrow>
        if hm_get (records reg) (req_collector_id req) \<noteq> None
        then (Err (AlreadyRegisteredError (req_collector_id req)), reg)
        else (case admission reg of
          Gated a \<Rightarrow>
            (case admit env req a of
               (Err e, a') \<Rightarrow> (Err (registry_error_of e), reg\<lparr>admission := Gated a'\<rparr>)
             | (Ok _, a') \<Rightarrow> enter_record now req (reg\<lparr>admission := Gated a'\<rparr>))
        | ClosedGate \<Rightarrow>
            (Err (NotAdmitted ''collector registration cannot be authenticated: no spawn-token store''
               RegistrationGate.NoTokenPresented), reg)))"

definition register_request ::
    "('x, 'ts) engine_env \<Rightarrow> nat \<Rightarrow> 'm RegistrationRequest \<Rightarrow> ('m, 'c, 'ts) CollectorRegistry \<Rightarrow>
     (RegistrationResponse, RegistryError) result \<times> ('m, 'c, 'ts) CollectorRegistry" where
  "register_request env now req reg =
     (case register_inner env now req reg of
        (Ok resp, reg') \<Rightarrow> (Ok resp, reg')
      | (Err e, reg') \<Rightarrow> (Err e, record_registration_rejection env (req_collector_id req) (gate_for e) reg'))"

definition deregister :: "string \<Rightarrow> ('m, 'c, 'ts) CollectorRegistry \<Rightarrow> (unit, RegistryError) result \<times> ('m, 'c, 'ts) CollectorRegistry" where
  "deregister cid reg =
     (case hm_get (records reg) cid of
        Some _ \<Rightarrow> (Ok (), reg\<lparr>records := hm_remove cid (records reg)\<rparr>)
      | None \<Rightarrow> (Err (NotFoundError cid), reg))"

section \<open>Heartbeats\<close>

definition DURATION_MAX :: nat where
  "DURATION_MAX = (2 ^ 64 - 1) * 1000000000 + 999999999"

definition grace_period :: "nat \<Rightarrow> nat" where
  "grace_period d = min DURATION_MAX (d + d div 10)"

definition update_heartbeat ::
    "nat \<Rightarrow> string \<Rightarrow> ('m, 'c, 'ts) CollectorRegistry \<Rightarrow> (unit, RegistryError) result \<times> ('m, 'c, 'ts) CollectorRegistry" where
  "update_heartbeat now cid reg =
     (case hm_get (records reg) cid of
        Some rec \<Rightarrow>
          (Ok (), reg\<lparr>records := hm_insert cid (rec\<lparr>last_heartbeat := now, missed_heartbeats := 0\<rparr>) (records reg)\<rparr>)
      | None \<Rightarrow> (Err (NotFoundError cid), reg))"

text \<open>One record of the pass: \<open>duration_since\<close> of a time in the future is taken as zero.\<close>

definition check_record :: "nat \<Rightarrow> 'm CollectorRecord \<Rightarrow> HeartbeatStatus option \<times> 'm CollectorRecord" where
  "check_record now rec =
     (let elapsed = now - last_heartbeat rec in
      if elapsed > grace_period (heartbeat_interval rec) then
        let rec' = rec\<lparr>missed_heartbeats := sat_add (missed_heartbeats rec) 1\<rparr> in
        (Some (if missed_heartbeats rec' \<ge> MAX_MISSED_HEARTBEATS then HeartbeatFailed (missed_heartbeats rec') elapsed
               else HeartbeatDegraded (missed_heartbeats rec')), rec')
      else (None, rec))"

definition check_heartbeats ::
    "nat \<Rightarrow> ('m, 'c, 'ts) CollectorRegistry \<Rightarrow> (string \<times> HeartbeatStatus) list \<times> ('m, 'c, 'ts) CollectorRegistry" where
  "check_heartbeats now reg =
     (List.map_filter (\<lambda>(cid, rec). map_option (Pair cid) (fst (check_record now rec))) (records reg),
      reg\<lparr>records := map (\<lambda>(cid, rec). (cid, snd (check_record now rec))) (records reg)\<rparr>)"

definition collectors_needing_recovery ::
    "nat \<Rightarrow> ('m, 'c, 'ts) CollectorRegistry \<Rightarrow> (string \<times> HeartbeatStatus) list \<times> ('m, 'c, 'ts) CollectorRegistry" where
  "collectors_needing_recovery now reg =
     (let (results, reg') = check_heartbeats now reg in (filter (\<lambda>(_, s). needs_recovery s) results, reg'))"

definition record_status :: "nat \<Rightarrow> 'm CollectorRecord \<Rightarrow> HeartbeatStatus" where
  "record_status now rec =
     (let elapsed = now - last_heartbeat rec in
      if elapsed \<le> grace_period (heartbeat_interval rec) \<and> missed_heartbeats rec = 0 then HeartbeatHealthy
      else if missed_heartbeats rec \<ge> MAX_MISSED_HEARTBEATS then HeartbeatFailed (missed_heartbeats rec) elapsed
      else if missed_heartbeats rec > 0 then HeartbeatDegraded (missed_heartbeats rec)
      else HeartbeatHealthy)"

definition heartbeat_status :: "nat \<Rightarrow> string \<Rightarrow> ('m, 'c, 'ts) CollectorRegistry \<Rightarrow> HeartbeatStatus option" where
  "heartbeat_status now cid reg = map_option (record_status now) (hm_get (records reg) cid)"

definition reset_missed_heartbeats ::
    "string \<Rightarrow> ('m, 'c, 'ts) CollectorRegistry \<Rightarrow> (unit, RegistryError) result \<times> ('m, 'c, 'ts) CollectorRegistry" where
  "reset_missed_heartbeats cid reg =
     (case hm_get (records reg) cid of
        Some rec \<Rightarrow> (Ok (), reg\<lparr>records := hm_insert cid (rec\<lparr>missed_heartbeats := 0\<rparr>) (records reg)\<rparr>)
      | None \<Rightarrow> (Err (NotFoundError cid), reg))"

definition list_records :: "('m, 'c, 'ts) CollectorRegistry \<Rightarrow> 'm CollectorRecord list" where
  "list_records reg = map snd (records reg)"

definition get_record :: "string \<Rightarrow> ('m, 'c, 'ts) CollectorRegistry \<Rightarrow> 'm CollectorRecord option" where
  "get_record cid reg = hm_get (records reg) cid"

definition list_collector_ids :: "('m, 'c, 'ts) CollectorRegistry \<Rightarrow> string list" where
  "list_collector_ids reg = map fst (records reg)"

section \<open>Who is admitted, and which gate refuses\<close>

definition field_ok :: "nat \<Rightarrow> string \<Rightarrow> bool" where
  "field_ok n v \<longleftrightarrow> str_trim v \<noteq> [] \<and> length v \<le> n"

definition well_formed :: "'m RegistrationRequest \<Rightarrow> bool" where
  "well_formed req \<longleftrightarrow> field_ok MAX_IDENTIFIER_LENGTH (req_collector_id req)
     \<and> field_ok MAX_IDENTIFIER_LENGTH (req_collector_type req) \<and> field_ok MAX_HOSTNAME_LENGTH (req_hostname req)"

definition descriptor_ok :: "SchemaCatalog \<Rightarrow> 'm RegistrationRequest \<Rightarrow> bool" where
  "descriptor_ok cat req = (case req_descriptor req of
     None \<Rightarrow> True | Some wire \<Rightarrow> acceptable (VerifiedRegistration (req_collector_id req)) (to_proto_descriptor wire) cat)"

text \<open>The specification: the first gate that refuses the request, if one does.\<close>

definition refusing_gate ::
    "(string, 'm CollectorRecord) hash_map \<Rightarrow> ('c, 'ts) CollectorAdmission \<Rightarrow> 'm RegistrationRequest \<Rightarrow> RegistrationGate option" where
  "refusing_gate recs a req =
     (if \<not> well_formed req then Some MalformedRequest
      else if hm_get recs (req_collector_id req) \<noteq> None then Some RegistrationGate.AlreadyRegistered
      else case (req_spawn_token req, expected_token (token_store a) (req_collector_id req)) of
        (None, _) \<Rightarrow> Some RegistrationGate.NoTokenPresented
      | (Some _, None) \<Rightarrow> Some RegistrationGate.UnknownCollector
      | (Some t, Some issued) \<Rightarrow>
          if t \<noteq> issued \<or> length t \<noteq> SPAWN_TOKEN_HEX_LEN then Some RegistrationGate.TokenMismatch
          else if descriptor_ok (catalog (engine a)) req then None else Some MalformedRequest)"

lemma check_bounded_field_Err: "check_bounded_field f v n = Err e \<Longrightarrow> gate_for e = MalformedRequest"
  by (auto simp: check_bounded_field_def gate_for_def split: if_splits)

lemma validate_registration_Ok: "validate_registration req = Ok u \<longleftrightarrow> well_formed req"
  by (auto simp: validate_registration_def well_formed_def check_bounded_field_def field_ok_def)

lemma validate_registration_Err: "validate_registration req = Err e \<Longrightarrow> gate_for e = MalformedRequest"
  by (auto simp: validate_registration_def dest: check_bounded_field_Err split: sum.splits)

lemma is_ok_register_collector:
  "is_ok (fst (register_collector env v d eng)) \<longleftrightarrow> acceptable v d (catalog eng)"
  using is_ok_register [of v d "catalog eng"]
  by (cases "register v d (catalog eng)") (auto simp: register_collector_def Let_def case_prod_beta split: sum.splits)

lemma register_collector_Err: "register_collector env v d eng = (Err e, eng') \<Longrightarrow> eng' = eng"
proof (cases "register v d (catalog eng)")
  case (Pair res cat)
  assume "register_collector env v d eng = (Err e, eng')"
  then show "eng' = eng"
    using Pair register_collector_refused [of v d eng _ cat env]
    by (cases res) (auto simp: register_collector_def Let_def case_prod_beta)
qed

text \<open>What the gate does with a request, in terms of the specification.\<close>

definition token_ok :: "('c, 'ts) CollectorAdmission \<Rightarrow> 'm RegistrationRequest \<Rightarrow> bool" where
  "token_ok a req \<longleftrightarrow> (\<exists>t. expected_token (token_store a) (req_collector_id req) = Some t
     \<and> req_spawn_token req = Some t \<and> length t = SPAWN_TOKEN_HEX_LEN)"

lemma admit_cases:
  obtains (token) r where "admit env req a = (Err (TokenRefused r), a)" "\<not> token_ok a req"
      "verify_spawn_token (req_collector_id req) (expected_token (token_store a) (req_collector_id req))
         (req_spawn_token req) = Err r"
  | (descriptor) d where "admit env req a = (Err (DescriptorRefused d), a)" "token_ok a req"
      "\<not> descriptor_ok (catalog (engine a)) req"
  | (admitted) eng where "token_ok a req" "descriptor_ok (catalog (engine a)) req"
      "admit env req a =
        (Ok (), a\<lparr>engine := eng, pending_reissue := insert (req_collector_id req) (pending_reissue a)\<rparr>)"
      "eng = (case req_descriptor req of None \<Rightarrow> engine a | Some wire \<Rightarrow>
         snd (register_collector env (VerifiedRegistration (req_collector_id req)) (to_proto_descriptor wire) (engine a)))"
proof (cases "verify_spawn_token (req_collector_id req) (expected_token (token_store a) (req_collector_id req))
    (req_spawn_token req)")
  case (Inl r)
  moreover from this have "\<not> token_ok a req"
    by (auto simp: token_ok_def verify_spawn_token_def)
  ultimately show thesis
    by (intro token) (simp_all add: admit_def verify_request_def)
next
  case (Inr v)
  then have v: "v = VerifiedRegistration (req_collector_id req)" and tok: "token_ok a req"
    using verify_spawn_token_Ok by (force simp: token_ok_def)+
  show thesis
  proof (cases "req_descriptor req")
    case None
    with Inr tok show thesis
      by (intro admitted [of "engine a"]) (simp_all add: admit_def verify_request_def descriptor_ok_def)
  next
    case (Some wire)
    let ?d = "to_proto_descriptor wire"
    obtain res eng where rc: "register_collector env v ?d (engine a) = (res, eng)" by fastforce
    have ok: "is_ok res \<longleftrightarrow> acceptable v ?d (catalog (engine a))"
      using is_ok_register_collector [of env v ?d "engine a"] rc by simp
    show thesis
    proof (cases res)
      case (Inl e)
      then have "eng = engine a"
        using rc register_collector_Err by blast
      with Inl Inr Some rc ok tok v show thesis
        by (intro descriptor [of e]) (simp_all add: admit_def verify_request_def descriptor_ok_def)
    next
      case okr: (Inr ch)
      with Inr Some rc ok tok v show thesis
        by (intro admitted [of eng]) (simp_all add: admit_def verify_request_def descriptor_ok_def)
    qed
  qed
qed

lemma token_gate:
  assumes "verify_spawn_token (req_collector_id req) (expected_token (token_store a) (req_collector_id req))
      (req_spawn_token req) = Err r" "well_formed req" "hm_get recs (req_collector_id req) = None"
  shows "refusing_gate recs a req = Some (gate_for_admission (TokenRefused r))"
  using assms
  by (auto simp: refusing_gate_def verify_spawn_token_def gate_for_admission_def split: option.splits if_splits)

lemma refusing_gate_admitted:
  assumes "well_formed req" "hm_get recs (req_collector_id req) = None" "token_ok a req"
  shows "refusing_gate recs a req = (if descriptor_ok (catalog (engine a)) req then None else Some MalformedRequest)"
  using assms by (auto simp: refusing_gate_def token_ok_def)

lemma register_inner_cases:
  fixes reg :: "('m, 'c, 'ts) CollectorRegistry"
  assumes gated: "admission reg = Gated a"
  obtains (refused) e where "register_inner env now req reg = (Err e, reg)"
      "refusing_gate (records reg) a req = Some (gate_for e)"
  | (admitted) eng where "refusing_gate (records reg) a req = None"
      "register_inner env now req reg = enter_record now req
        (reg\<lparr>admission := Gated (a\<lparr>engine := eng, pending_reissue := insert (req_collector_id req) (pending_reissue a)\<rparr>)\<rparr>)"
      "eng = (case req_descriptor req of None \<Rightarrow> engine a | Some wire \<Rightarrow>
         snd (register_collector env (VerifiedRegistration (req_collector_id req)) (to_proto_descriptor wire) (engine a)))"
proof (cases "validate_registration req")
  case (Inl e)
  moreover from this have "\<not> well_formed req"
    using validate_registration_Ok [of req] by simp
  ultimately show thesis
    using validate_registration_Err [OF Inl]
    by (intro refused [of e]) (simp_all add: register_inner_def refusing_gate_def)
next
  case valid: (Inr u)
  then have wf: "well_formed req"
    using validate_registration_Ok by blast
  have same: "reg\<lparr>admission := Gated a\<rparr> = reg"
    by (simp flip: gated)
  show thesis
  proof (cases "hm_get (records reg) (req_collector_id req)")
    case (Some rec)
    with valid wf show thesis
      by (intro refused [of "AlreadyRegisteredError (req_collector_id req)"])
        (simp_all add: register_inner_def refusing_gate_def gate_for_def)
  next
    case None
    show thesis
    proof (cases rule: admit_cases [of env req a])
      case (token r)
      with valid wf None show thesis
        using token_gate [OF token(3) wf None]
        by (intro refused [of "registry_error_of (TokenRefused r)"])
          (simp_all add: register_inner_def gated same registry_error_of_def gate_for_def)
    next
      case (descriptor d)
      with valid wf None show thesis
        using refusing_gate_admitted [OF wf None descriptor(2)]
        by (intro refused [of "registry_error_of (DescriptorRefused d)"])
          (simp_all add: register_inner_def gated same registry_error_of_def gate_for_def gate_for_admission_def)
    next
      case (admitted eng)
      then show thesis
        using valid None refusing_gate_admitted [OF wf None admitted(1)]
        by (intro that(2) [of eng]) (simp_all add: register_inner_def gated)
    qed
  qed
qed

text \<open>
  Claim C4: a registration passes exactly when no gate of the specification refuses it: the fields are
  not blank and within their bounds, no collector of that name is registered, the token presented is
  the one issued last for that name and has its full length, and the descriptor, if there is one, is
  acceptable to the catalog. A refusal leaves the registry, the catalog, the rules and the debts of
  tasks as they were and appends one record, with the first gate that refuses and the name cut to its
  bound. An admission enters the collector, owes it its tasks, hands its descriptor to the engine, leaves
  the tokens alone and records no refusal.
\<close>

theorem registration_gates:
  "let cid = req_collector_id req; gated = reg\<lparr>admission := Gated a\<rparr> in
   case (register_request env now req gated, refusing_gate (records reg) a req) of
     ((Err e, reg'), gate) \<Rightarrow>
        gate = Some (gate_for e) \<and> reg' = record_registration_rejection env cid (gate_for e) gated
   | ((Ok resp, reg'), gate) \<Rightarrow>
        gate = None \<and> resp_collector_id resp = cid \<and> accepted resp
        \<and> registry_rejections reg' = registry_rejections reg
        \<and> (\<forall>c. get_record c reg' = (if c = cid then Some \<lparr>registration = req, registered_at = now,
             last_heartbeat = now, heartbeat_interval =
               (case req_heartbeat_interval_ms req of None \<Rightarrow> default_heartbeat reg | Some ms \<Rightarrow> duration_millis ms),
             missed_heartbeats = 0\<rparr>
             else get_record c reg))
        \<and> admission reg' = Gated (a\<lparr>engine := (case req_descriptor req of None \<Rightarrow> engine a | Some wire \<Rightarrow>
               snd (register_collector env (VerifiedRegistration cid) (to_proto_descriptor wire) (engine a))),
             pending_reissue := insert cid (pending_reissue a)\<rparr>)"
proof -
  have "admission (reg\<lparr>admission := Gated a\<rparr>) = Gated a" by simp
  then show ?thesis
  proof (cases rule: register_inner_cases [of _ a env now req])
    case (refused e)
    then show ?thesis
      by (simp add: register_request_def)
  next
    case (admitted eng)
    then show ?thesis
      by (simp add: register_request_def enter_record_def Let_def get_record_def cong: option.case_cong)
  qed
qed

section \<open>The topics of an admitted collector\<close>

lemma file_safe_no_dot: "file_safe cid \<Longrightarrow> CHR ''.'' \<notin> set cid"
  by (auto simp: file_safe_def list_all_iff is_ascii_alphanumeric_def is_ascii_lowercase_def is_ascii_uppercase_def
      is_ascii_digit_def)

lemma topics_for_valid:
  assumes "file_safe cid"
  shows "list_all (\<lambda>t. is_ok (Topic_new t)) (topics_for cid) \<longleftrightarrow> list_all is_topic_char cid"
proof -
  have dot: "CHR ''.'' \<notin> set cid" and ne: "cid \<noteq> []"
    using file_safe_no_dot [OF assms] assms by (simp_all add: file_safe_def)
  have split: "split_on CHR ''.'' (''control.collector.'' @ cid) = [''control'', ''collector'', cid]"
    "split_on CHR ''.'' (''events.collector.'' @ cid) = [''events'', ''collector'', cid]"
    using split_on_append [of "CHR ''.''" "''control''" "''collector.'' @ cid"]
      split_on_append [of "CHR ''.''" "''events''" "''collector.'' @ cid"]
      split_on_append [of "CHR ''.''" "''collector''" cid] split_on_single [OF dot] by simp_all
  show ?thesis
    using ne
    by (simp add: topics_for_def Topic_new_language split is_topic_char_def is_ascii_lowercase_def del: append_Cons)
qed

text \<open>
  Claim C23: the topics assigned to an admitted collector are valid topic names exactly when its name has
  no uppercase letter. The token store, whatever tokens it issued and revoked, knows only names over ASCII
  letters of both cases, digits, \<open>-\<close> and \<open>_\<close>; topic names do not admit uppercase letters.
\<close>

theorem assigned_topics_valid:
  "let a' = a\<lparr>token_store := snd (foldl (\<lambda>s op. exec_store_op op s) (fs, \<lparr>directory = d, tokens = []\<rparr>) ops)\<rparr> in
   case register_request env now req (reg\<lparr>admission := Gated a'\<rparr>) of
     (Ok resp, _) \<Rightarrow> list_all (\<lambda>t. is_ok (Topic_new t)) (assigned_topics resp)
       \<longleftrightarrow> list_all (\<lambda>c. \<not> is_ascii_uppercase c) (resp_collector_id resp)
   | (Err _, _) \<Rightarrow> True"
proof -
  define a' where "a' = a\<lparr>token_store := snd (foldl (\<lambda>s op. exec_store_op op s) (fs, \<lparr>directory = d, tokens = []\<rparr>) ops)\<rparr>"
  have store: "store_ok (token_store a')"
    unfolding a'_def using safe_store.run [of "(fs, \<lparr>directory = d, tokens = []\<rparr>)" ops]
    by (simp add: store_ok_new list_all_iff)
  have "admission (reg\<lparr>admission := Gated a'\<rparr>) = Gated a'" by simp
  then have "case register_request env now req (reg\<lparr>admission := Gated a'\<rparr>) of
     (Ok resp, _) \<Rightarrow> list_all (\<lambda>t. is_ok (Topic_new t)) (assigned_topics resp)
       \<longleftrightarrow> list_all (\<lambda>c. \<not> is_ascii_uppercase c) (resp_collector_id resp)
   | (Err _, _) \<Rightarrow> True"
  proof (cases rule: register_inner_cases [of _ a' env now req])
    case (refused e)
    then show ?thesis by (simp add: register_request_def)
  next
    case (admitted eng)
    then have "\<exists>t. expected_token (token_store a') (req_collector_id req) = Some t"
      by (auto simp: refusing_gate_def split: if_splits option.splits)
    then have safe: "file_safe (req_collector_id req)"
      using store by (auto simp: store_ok_def)
    then have "list_all is_topic_char (req_collector_id req) \<longleftrightarrow>
        list_all (\<lambda>c. \<not> is_ascii_uppercase c) (req_collector_id req)"
      by (auto simp: file_safe_def list_all_iff is_topic_char_def is_ascii_alphanumeric_def is_ascii_lowercase_def
          is_ascii_uppercase_def is_ascii_digit_def)
    with admitted topics_for_valid [OF safe] show ?thesis
      by (simp add: register_request_def enter_record_def Let_def)
  qed
  then show ?thesis by (simp add: a'_def Let_def)
qed

section \<open>A registry that could not open its gate\<close>

lemma closed_admits_nothing:
  assumes "admission reg = ClosedGate"
  shows "\<not> is_ok (fst (register_request env now req reg)) \<and> records (snd (register_request env now req reg)) = records reg
    \<and> admission (snd (register_request env now req reg)) = ClosedGate"
  using assms
  by (auto simp: register_request_def register_inner_def record_registration_rejection_def split: sum.splits)

text \<open>The gate recorded for a malformed request is not the missing token.\<close>

lemma closed_malformed_gate:
  assumes "admission reg = ClosedGate" "\<not> well_formed req"
  shows "snd (register_request env now req reg) = record_registration_rejection env (req_collector_id req) MalformedRequest reg"
proof -
  obtain e where e: "validate_registration req = Err e"
    using assms(2) validate_registration_Ok [of req] by (cases "validate_registration req") auto
  then show ?thesis
    using validate_registration_Err [OF e] by (simp add: register_request_def register_inner_def)
qed

section \<open>What is retained of a refused name\<close>

lemma bounded_chars_length:
  "offset \<le> MAX_IDENTIFIER_LENGTH \<Longrightarrow> offset + length (concat (bounded_chars offset cs)) \<le> MAX_IDENTIFIER_LENGTH"
  by (induction offset cs rule: bounded_chars.induct) auto

lemma bounded_id_length: "length (bounded_id cid) \<le> MAX_IDENTIFIER_LENGTH"
  using bounded_chars_length [of 0] by (simp add: bounded_id_def)

lemma bounded_chars_all:
  "offset + length (concat cs) \<le> MAX_IDENTIFIER_LENGTH \<Longrightarrow> bounded_chars offset cs = cs"
  by (induction offset cs rule: bounded_chars.induct) auto

lemma bounded_id_short: "length cid \<le> MAX_IDENTIFIER_LENGTH \<Longrightarrow> bounded_id cid = cid"
  by (simp add: bounded_id_def bounded_chars_all concat_utf8_chars)

lemma bounded_id_prefix: "prefix (bounded_id cid) cid"
proof -
  have "prefix (concat (bounded_chars offset cs)) (concat cs)" for offset cs
    by (induction offset cs rule: bounded_chars.induct) (auto simp: prefix_def)
  then show ?thesis
    using concat_utf8_chars [of cid] by (metis bounded_id_def)
qed

section \<open>Missed heartbeats\<close>

text \<open>
  The count of a collector is the number of checks that found it overdue since its last heartbeat,
  however often the checks come. It is not the number of intervals that passed.
\<close>

definition overdue :: "'m CollectorRecord \<Rightarrow> nat \<Rightarrow> bool" where
  "overdue rec t \<longleftrightarrow> grace_period (heartbeat_interval rec) < t - last_heartbeat rec"

lemma check_record_simps:
  "snd (check_record t rec) =
     (if overdue rec t then rec\<lparr>missed_heartbeats := sat_add (missed_heartbeats rec) 1\<rparr> else rec)"
  by (simp add: check_record_def overdue_def Let_def)

lemma checks_count:
  "unat (missed_heartbeats (foldl (\<lambda>rec t. snd (check_record t rec)) rec ts)) =
     min (unat (missed_heartbeats rec) + length (filter (overdue rec) ts)) (2 ^ 32 - 1)"
proof (induction ts arbitrary: rec)
  case Nil
  have "unat (missed_heartbeats rec) < 2 ^ LENGTH(32)"
    by (rule unsigned_less)
  then show ?case by simp
next
  case (Cons t ts)
  have "overdue (rec\<lparr>missed_heartbeats := n\<rparr>) = overdue rec" for n
    by (simp add: overdue_def fun_eq_iff)
  with Cons.IH [of "snd (check_record t rec)"] show ?case
    by (auto simp: check_record_simps unat_sat_add)
qed

lemma get_record_check:
  "get_record cid (snd (check_heartbeats t reg)) = map_option (\<lambda>rec. snd (check_record t rec)) (get_record cid reg)"
proof -
  have "hm_get (map (\<lambda>(c, rec). (c, f rec)) m) cid = map_option f (hm_get m cid)" for f m
    by (induction m) (auto simp: hm_get_def)
  then show ?thesis
    by (simp add: check_heartbeats_def get_record_def)
qed

text \<open>
  Asking for the collectors that need recovery is itself a check: asking three times at the same moment
  turns one missed heartbeat into a failed collector.
\<close>

lemma asking_fails_collector:
  assumes "get_record cid reg = Some rec" "missed_heartbeats rec = 0" "overdue rec t"
  defines "ask \<equiv> \<lambda>r. snd (collectors_needing_recovery t r)"
  shows "heartbeat_status t cid reg = Some HeartbeatHealthy
    \<and> heartbeat_status t cid (ask (ask (ask reg))) = Some (HeartbeatFailed 3 (t - last_heartbeat rec))"
proof -
  have get: "get_record cid (ask r) = map_option (\<lambda>rec. snd (check_record t rec)) (get_record cid r)" for r
    by (simp add: ask_def collectors_needing_recovery_def case_prod_beta get_record_check)
  have od: "overdue (rec\<lparr>missed_heartbeats := n\<rparr>) t" for n
    using assms(3) by (simp add: overdue_def)
  have "get_record cid (ask (ask (ask reg))) = Some (rec\<lparr>missed_heartbeats := 3\<rparr>)"
    by (simp add: get assms(1,2,3) check_record_simps od sat_add_def)
  then show ?thesis
    using assms(1,2,3)
    by (simp add: heartbeat_status_def get_record_def record_status_def Let_def overdue_def MAX_MISSED_HEARTBEATS_def)
qed

section \<open>The operations the agent calls\<close>

text \<open>
  The agent registers, deregisters and records heartbeats; it asks for the status of a collector. The
  passes that count missed heartbeats are called by tests only.
\<close>

datatype 'm registry_op =
    RegisterOp nat "'m RegistrationRequest"
  | DeregisterOp string
  | HeartbeatOp nat string
  | ResetOp string

primrec exec_registry_op ::
    "('x, 'ts) engine_env \<Rightarrow> 'm registry_op \<Rightarrow> ('m, 'c, 'ts) CollectorRegistry \<Rightarrow> ('m, 'c, 'ts) CollectorRegistry" where
  "exec_registry_op env (RegisterOp now req) reg = snd (register_request env now req reg)"
| "exec_registry_op env (DeregisterOp cid) reg = snd (deregister cid reg)"
| "exec_registry_op env (HeartbeatOp now cid) reg = snd (update_heartbeat now cid reg)"
| "exec_registry_op env (ResetOp cid) reg = snd (reset_missed_heartbeats cid reg)"

definition run_registry ::
    "('x, 'ts) engine_env \<Rightarrow> 'm registry_op list \<Rightarrow> ('m, 'c, 'ts) CollectorRegistry \<Rightarrow> ('m, 'c, 'ts) CollectorRegistry" where
  "run_registry env ops reg = foldl (\<lambda>r op. exec_registry_op env op r) reg ops"

definition none_missed :: "('m, 'c, 'ts) CollectorRegistry \<Rightarrow> bool" where
  "none_missed reg \<longleftrightarrow> (\<forall>cid rec. get_record cid reg = Some rec \<longrightarrow> missed_heartbeats rec = 0)"

lemma enter_record_none_missed: "none_missed reg \<Longrightarrow> none_missed (snd (enter_record now req reg))"
  by (simp add: none_missed_def get_record_def enter_record_def Let_def)

lemma none_missed_frame [simp]:
  "none_missed (reg\<lparr>admission := p\<rparr>) = none_missed reg"
  "none_missed (record_registration_rejection env cid g reg) = none_missed reg"
  by (simp_all add: none_missed_def get_record_def record_registration_rejection_def)

lemma register_inner_none_missed:
  assumes "none_missed reg"
  shows "none_missed (snd (register_inner env now req reg))"
proof (cases "admission reg")
  case (Gated a)
  with assms show ?thesis
    by (cases rule: register_inner_cases [OF Gated, of env now req]) (simp_all add: enter_record_none_missed)
next
  case ClosedGate
  with assms show ?thesis
    by (simp add: register_inner_def split: sum.splits)
qed

lemma register_request_none_missed: "none_missed reg \<Longrightarrow> none_missed (snd (register_request env now req reg))"
  using register_inner_none_missed [of reg env now req]
  by (auto simp: register_request_def split: prod.splits sum.splits)

lemma exec_registry_op_none_missed: "none_missed reg \<Longrightarrow> none_missed (exec_registry_op env op reg)"
proof (cases op)
  case (RegisterOp now req)
  moreover assume "none_missed reg"
  ultimately show ?thesis by (simp add: register_request_none_missed)
qed (auto simp: deregister_def update_heartbeat_def reset_missed_heartbeats_def none_missed_def get_record_def
      split: option.splits)

interpretation registry_run: lasting none_missed "exec_registry_op env" "\<lambda>_. True" for env
  by unfold_locales (rule exec_registry_op_none_missed)

lemma none_missed_new: "none_missed (with_admission a)"
  by (simp add: none_missed_def with_admission_def CollectorRegistry_new_def get_record_def)

lemma run_registry_none_missed: "none_missed (run_registry env ops (with_admission a))"
  using registry_run.run [OF none_missed_new, of ops env a] by (simp add: run_registry_def list_all_iff)

text \<open>
  Claim C22: in a registry that only the agent's own operations have touched, every registered collector
  is reported healthy, however long ago its last heartbeat was: the status reads the count of missed
  heartbeats before it reads the time, and nothing the agent calls ever raises that count.
\<close>

theorem silent_collector_healthy:
  "heartbeat_status t cid (run_registry env ops (with_admission a)) =
     map_option (\<lambda>_. HeartbeatHealthy) (get_record cid (run_registry env ops (with_admission a)))"
proof (cases "get_record cid (run_registry env ops (with_admission a))")
  case None
  then show ?thesis
    by (simp add: heartbeat_status_def get_record_def)
next
  case (Some rec)
  then have "missed_heartbeats rec = 0"
    using run_registry_none_missed [of env ops a] by (auto simp: none_missed_def)
  then have "record_status t rec = HeartbeatHealthy"
    by (simp add: record_status_def Let_def MAX_MISSED_HEARTBEATS_def)
  with Some show ?thesis
    by (simp add: heartbeat_status_def get_record_def)
qed

text \<open>A collector that is still on record cannot register again, whatever token it presents.\<close>

lemma registered_name_refused:
  assumes "get_record (req_collector_id req) reg \<noteq> None" "well_formed req"
  shows "fst (register_request env now req reg) = Err (AlreadyRegisteredError (req_collector_id req))"
  using assms validate_registration_Ok [of req "()"]
  by (simp add: register_request_def register_inner_def get_record_def)

text \<open>An admission with an uppercase name, and the topics it is given.\<close>

definition sample_request :: "unit RegistrationRequest" where
  "sample_request =
     \<lparr>req_collector_id = ''NetMon'', req_collector_type = ''netmond'', req_hostname = ''h'', req_version = None,
      req_pid = None, req_details = (), req_heartbeat_interval_ms = None, req_descriptor = None,
      req_spawn_token = Some (random_token sample_bytes)\<rparr>"

definition sample_admission :: "('c, 'ts) CollectorAdmission" where
  "sample_admission =
     \<lparr>token_store = sample_store\<lparr>tokens := [(''NetMon'', random_token sample_bytes)]\<rparr>,
      engine = with_config 3 5, pending_reissue = {}\<rparr>"

lemma plain_text_not_blank: "list_all is_ascii_alphanumeric s \<Longrightarrow> s \<noteq> [] \<Longrightarrow> str_trim s \<noteq> []"
proof -
  assume s: "list_all is_ascii_alphanumeric s" "s \<noteq> []"
  have sp: "[c] \<notin> set unicode_space" "(of_char c :: nat) < 128" if "is_ascii_alphanumeric c" for c
    using that by (auto simp: is_ascii_alphanumeric_def is_ascii_lowercase_def is_ascii_uppercase_def is_ascii_digit_def
        unicode_space_def)
  have chars: "utf8_chars s = map (\<lambda>c. [c]) s"
    using s(1) sp(2) by (intro utf8_chars_ascii) (auto simp: list_all_iff)
  have keep: "trim_start (map (\<lambda>c. [c]) t) = map (\<lambda>c. [c]) t" if "set t \<subseteq> set s" for t
    using s(1) that sp(1) by (cases t) (auto simp: trim_start_def list_all_iff)
  have "concat (map (\<lambda>c. [c]) s) = s"
    by (induction s) auto
  then show "str_trim s \<noteq> []"
    using s(2) keep by (simp add: str_trim_def chars rev_map)
qed

lemma uppercase_name_admitted:
  fixes env :: "('x, 'ts) engine_env"
  shows "case register_request env now sample_request
      (with_admission sample_admission :: (unit, 'c, 'ts) CollectorRegistry) of
     (Ok resp, _) \<Rightarrow> \<not> list_all (\<lambda>t. is_ok (Topic_new t)) (assigned_topics resp)
   | (Err _, _) \<Rightarrow> False"
proof -
  let ?reg = "with_admission sample_admission :: (unit, 'c, 'ts) CollectorRegistry"
  have "well_formed sample_request"
    by (simp add: well_formed_def field_ok_def sample_request_def plain_text_not_blank is_ascii_alphanumeric_def
        is_ascii_lowercase_def is_ascii_uppercase_def MAX_IDENTIFIER_LENGTH_def MAX_HOSTNAME_LENGTH_def)
  then have none: "refusing_gate (records ?reg) (sample_admission :: ('c, 'ts) CollectorAdmission) sample_request = None"
    by (simp add: refusing_gate_def with_admission_def CollectorRegistry_new_def sample_admission_def sample_request_def
        expected_token_def hm_get_def random_token_shape sample_bytes_def SPAWN_TOKEN_HEX_LEN_def descriptor_ok_def)
  have safe: "file_safe ''NetMon''"
    by (simp add: file_safe_def is_ascii_alphanumeric_def is_ascii_lowercase_def is_ascii_uppercase_def)
  have "\<not> list_all (\<lambda>t. is_ok (Topic_new t)) (topics_for ''NetMon'')"
    by (simp add: topics_for_valid [OF safe] is_topic_char_def is_ascii_lowercase_def is_ascii_digit_def)
  moreover have gated: "admission ?reg = Gated sample_admission"
    by (simp add: with_admission_def CollectorRegistry_new_def)
  moreover have "req_collector_id sample_request = ''NetMon''"
    by (simp add: sample_request_def)
  ultimately show ?thesis
    using none
    by (cases rule: register_inner_cases [OF gated, of env now sample_request])
      (simp_all add: register_request_def enter_record_def Let_def)
qed

end
