(* ===== verification/Simple_Icons.thy ===== *)
theory Simple_Icons
  imports Prelude
begin

text \<open>
  The icon tables bundled into \<^verbatim>\<open>docs/whichlang.js\<close>: the export list \<open>simple_icons_exports\<close>
  in its order, and the icon objects in the order of their declarations. Of an icon object the
  page code reads the slug, the title inside the \<open>svg\<close> text, the path and the colour; the
  path data is left out, so the drawing of an icon is the parameter \<open>path\<close> of \<open>icon_svg\<close>. Titles are
  kept as the UTF-8 bytes of the source.

  The lemmas show that every exported name is declared, and that names and slugs are distinct:
  each table is compared piece by piece, in the order of the byte codes.
\<close>

section \<open>Icons\<close>

datatype SimpleIcon = SimpleIcon (slug: string) (svg_title: string) (icon_hex: string)

definition icon_svg :: "(SimpleIcon \<Rightarrow> string) \<Rightarrow> SimpleIcon \<Rightarrow> string" where
  "icon_svg path icon =
     ''<svg role='' @ [CHR 0x22] @ ''img'' @ [CHR 0x22] @ '' viewBox='' @ [CHR 0x22] @ ''0 0 24 24''
     @ [CHR 0x22] @ '' xmlns='' @ [CHR 0x22] @ ''http://www.w3.org/2000/svg'' @ [CHR 0x22]
     @ ''><title>'' @ svg_title icon @ ''</title><path d='' @ [CHR 0x22] @ path icon
     @ [CHR 0x22] @ ''/></svg>''"

section \<open>The export list\<close>

definition exports_0 :: "string list" where
  "exports_0 =
    [''si1001tracklists'', ''si1and1'', ''si1dot1dot1dot1'', ''si1panel'', ''si1password'',
     ''si2fas'', ''si2k'', ''si30secondsofcode'', ''si365datascience'', ''si3m'', ''si42'',
     ''si4chan'', ''si4d'', ''si500px'', ''si7zip'', ''si99designs'', ''si9gag'', ''siAbbott'',
     ''siAbbrobotstudio'', ''siAbbvie'', ''siAboutdotme'', ''siAbstract'', ''siAbusedotch'',
     ''siAcademia'', ''siAccenture'', ''siAccusoft'', ''siAccuweather'', ''siAcer'', ''siAcm'',
     ''siActigraph'', ''siActivision'', ''siActivitypub'', ''siActix'', ''siActualbudget'',
     ''siAcura'', ''siAdafruit'', ''siAdblock'', ''siAdblockplus'', ''siAddydotio'',
     ''siAdguard'', ''siAdidas'', ''siAdminer'', ''siAdonisjs'', ''siAdp'', ''siAdroll'',
     ''siAdventofcode'', ''siAdyen'', ''siAegisauthenticator'', ''siAerlingus'', ''siAeroflot'',
     ''siAeromexico'', ''siAerospike'', ''siAew'', ''siAfdian'', ''siAffine'', ''siAffinity'',
     ''siAffinitydesigner'', ''siAffinityphoto'', ''siAffinitypublisher'', ''siAframe'',
     ''siAfterpay'', ''siAftership'', ''siAgora'', ''siAib'', ''siAidungeon'', ''siAiohttp'',
     ''siAiqfome'', ''siAirasia'', ''siAirbnb'', ''siAirbrake'', ''siAirbus'', ''siAirbyte'',
     ''siAircall'', ''siAircanada'', ''siAirchina'', ''siAirfrance'', ''siAirindia'',
     ''siAirplayaudio'', ''siAirplayvideo'', ''siAirserbia'', ''siAirtable'', ''siAirtel'',
     ''siAirtransat'', ''siAjv'', ''siAkamai'', ''siAkasaair'', ''siAkaunting'', ''siAkiflow'',
     ''siAlacritty'', ''siAlamy'', ''siAlbertheijn'', ''siAlby'', ''siAlchemy'', ''siAldinord'',
     ''siAldisud'', ''siAlfaromeo'', ''siAlfred'', ''siAlgolia'', ''siAlgorand'',
     ''siAlibabacloud'', ''siAlibabadotcom'', ''siAlienware'', ''siAliexpress'', ''siAlipay'',
     ''siAllegro'', ''siAlliedmodders'', ''siAllocine'', ''siAlltrails'', ''siAlmalinux'',
     ''siAlpinedotjs'', ''siAlpinelinux'', ''siAlternativeto'', ''siAlteryx'',
     ''siAltiumdesigner'', ''siAlwaysdata'', ''siAlx'', ''siAmazon'', ''siAmazonalexa'',
     ''siAmazonapigateway'', ''siAmazoncloudwatch'', ''siAmazoncognito'', ''siAmazondocumentdb'',
     ''siAmazondynamodb'', ''siAmazonec2'', ''siAmazonecs'', ''siAmazoneks'',
     ''siAmazonelasticache'', ''siAmazonfiretv'', ''siAmazongames'', ''siAmazoniam'',
     ''siAmazonlumberyard'', ''siAmazonluna'', ''siAmazonmusic'', ''siAmazonpay'',
     ''siAmazonprime'', ''siAmazonrds'', ''siAmazonredshift'', ''siAmazonroute53'',
     ''siAmazons3'', ''siAmazonsimpleemailservice'', ''siAmazonsqs'', ''siAmazonwebservices'',
     ''siAmd'', ''siAmeba'', ''siAmericanairlines'', ''siAmericanexpress'', ''siAmg'', ''siAmp'',
     ''siAmul'', ''siAna'']"

definition exports_1 :: "string list" where
  "exports_1 =
    [''siAnaconda'', ''siAnalogue'', ''siAndela'', ''siAndroid'', ''siAndroidauto'',
     ''siAndroidstudio'', ''siAngular'', ''siAnilist'', ''siAnimalplanet'', ''siAnkermake'',
     ''siAnki'', ''siAnsible'', ''siAnswer'', ''siAnsys'', ''siAnta'', ''siAntdesign'',
     ''siAntena3'', ''siAnthropic'', ''siAntv'', ''siAnycubic'', ''siAnydesk'', ''siAnytype'',
     ''siAol'', ''siApache'', ''siApacheairflow'', ''siApacheant'', ''siApachecassandra'',
     ''siApachecloudstack'', ''siApachecordova'', ''siApachecouchdb'',
     ''siApachedolphinscheduler'', ''siApachedruid'', ''siApacheecharts'', ''siApacheflink'',
     ''siApachefreemarker'', ''siApachegroovy'', ''siApacheguacamole'', ''siApachehadoop'',
     ''siApachehbase'', ''siApachehive'', ''siApachejmeter'', ''siApachekafka'',
     ''siApachekylin'', ''siApachelucene'', ''siApachemaven'', ''siApachenetbeanside'',
     ''siApachenifi'', ''siApacheopenoffice'', ''siApacheparquet'', ''siApachepulsar'',
     ''siApacherocketmq'', ''siApachesolr'', ''siApachespark'', ''siApachestorm'',
     ''siApachesuperset'', ''siApachetomcat'', ''siAparat'', ''siApifox'', ''siApmterminals'',
     ''siApollographql'', ''siApostrophe'', ''siAppgallery'', ''siAppian'', ''siAppium'',
     ''siApple'', ''siApplearcade'', ''siApplemusic'', ''siApplenews'', ''siApplepay'',
     ''siApplepodcasts'', ''siAppletv'', ''siAppsignal'', ''siAppsmith'', ''siAppstore'',
     ''siAppveyor'', ''siAppwrite'', ''siAqua'', ''siAral'', ''siArangodb'', ''siArc'',
     ''siArcgis'', ''siArchicad'', ''siArchiveofourown'', ''siArchlinux'', ''siArdour'',
     ''siArduino'', ''siArgo'', ''siArgos'', ''siAriakit'', ''siArkecosystem'', ''siArlo'',
     ''siArm'', ''siArmkeil'', ''siArstechnica'', ''siArtifacthub'', ''siArtixlinux'',
     ''siArtstation'', ''siArxiv'', ''siAsahilinux'', ''siAsana'', ''siAsciidoctor'',
     ''siAsciinema'', ''siAsda'', ''siAseprite'', ''siAssemblyscript'', ''siAsterisk'',
     ''siAstonmartin'', ''siAstra'', ''siAstral'', ''siAstro'', ''siAsus'', ''siAtandt'',
     ''siAtari'', ''siAtlasos'', ''siAtlassian'', ''siAuchan'', ''siAudacity'', ''siAudi'',
     ''siAudible'', ''siAudiobookshelf'', ''siAudioboom'', ''siAudiomack'', ''siAudiotechnica'',
     ''siAurelia'', ''siAuth0'', ''siAuthelia'', ''siAuthentik'', ''siAuthy'', ''siAutocad'',
     ''siAutocannon'', ''siAutodesk'', ''siAutodeskmaya'', ''siAutodeskrevit'', ''siAutohotkey'',
     ''siAutoit'', ''siAutomattic'', ''siAutoprefixer'', ''siAutozone'', ''siAvajs'', ''siAvast'',
     ''siAvianca'', ''siAvira'', ''siAwesomelists'', ''siAwesomewm'', ''siAwsamplify'',
     ''siAwselasticloadbalancing'', ''siAwsfargate'', ''siAwslambda'', ''siAwsorganizations'',
     ''siAwssecretsmanager'']"

definition exports_2 :: "string list" where
  "exports_2 =
    [''siAwwwards'', ''siAxios'', ''siBabel'', ''siBabelio'', ''siBabylondotjs'', ''siBackblaze'',
     ''siBackbone'', ''siBackbonedotjs'', ''siBackendless'', ''siBackstage'', ''siBadoo'',
     ''siBaidu'', ''siBakalari'', ''siBamboo'', ''siBambulab'', ''siBandcamp'', ''siBandlab'',
     ''siBandrautomation'', ''siBandsintown'', ''siBankofamerica'', ''siBarclays'',
     ''siBaremetrics'', ''siBarmenia'', ''siBasecamp'', ''siBaserow'', ''siBasicattentiontoken'',
     ''siBastyon'', ''siBat'', ''siBata'', ''siBattledotnet'', ''siBazel'', ''siBeatport'',
     ''siBeats'', ''siBeatsbydre'', ''siBeatstars'', ''siBeekeeperstudio'', ''siBehance'',
     ''siBeijingsubway'', ''siBem'', ''siBentley'', ''siBento'', ''siBentobox'', ''siBentoml'',
     ''siBereal'', ''siBetfair'', ''siBetterdiscord'', ''siBetterstack'', ''siBevy'',
     ''siBigbasket'', ''siBigbluebutton'', ''siBigcartel'', ''siBigcommerce'', ''siBilibili'',
     ''siBillboard'', ''siBim'', ''siBinance'', ''siBiolink'', ''siBiome'', ''siBisecthosting'',
     ''siBit'', ''siBitbucket'', ''siBitcoin'', ''siBitcoincash'', ''siBitcoinsv'',
     ''siBitcomet'', ''siBitdefender'', ''siBitly'', ''siBitrise'', ''siBittorrent'',
     ''siBitwarden'', ''siBitwig'', ''siBlackberry'', ''siBlackmagicdesign'', ''siBlazemeter'',
     ''siBlazor'', ''siBlender'', ''siBlockbench'', ''siBlockchaindotcom'', ''siBlogger'',
     ''siBloglovin'', ''siBlueprint'', ''siBluesky'', ''siBluesound'', ''siBluetooth'',
     ''siBmcsoftware'', ''siBmw'', ''siBnbchain'', ''siBoardgamegeek'', ''siBoat'',
     ''siBoehringeringelheim'', ''siBoeing'', ''siBombardier'', ''siBookalope'', ''siBookbub'',
     ''siBookmeter'', ''siBookmyshow'', ''siBookstack'', ''siBoost'', ''siBoosty'', ''siBoots'',
     ''siBootstrap'', ''siBorgbackup'', ''siBosch'', ''siBose'', ''siBotblecms'', ''siBoulanger'',
     ''siBower'', ''siBox'', ''siBoxysvg'', ''siBraintree'', ''siBrandfolder'', ''siBrave'',
     ''siBreaker'', ''siBrenntag'', ''siBrevo'', ''siBrex'', ''siBricks'', ''siBritishairways'',
     ''siBroadcom'', ''siBruno'', ''siBsd'', ''siBspwm'', ''siBt'', ''siBuddy'', ''siBudibase'',
     ''siBuefy'', ''siBuffer'', ''siBugatti'', ''siBugcrowd'', ''siBugsnag'', ''siBuhl'',
     ''siBuildkite'', ''siBuiltbybit'', ''siBukalapak'', ''siBulma'', ''siBun'', ''siBungie'',
     ''siBunq'', ''siBurgerking'', ''siBurpsuite'', ''siBurton'', ''siBuymeacoffee'',
     ''siBuysellads'', ''siBuzzfeed'', ''siBvg'', ''siByjus'', ''siBytedance'', ''siC'',
     ''siCachet'', ''siCaddy'']"

definition exports_3 :: "string list" where
  "exports_3 =
    [''siCadillac'', ''siCafepress'', ''siCairographics'', ''siCairometro'', ''siCaixabank'',
     ''siCakephp'', ''siCaldotcom'', ''siCalendly'', ''siCalibreweb'', ''siCampaignmonitor'',
     ''siCamunda'', ''siCanonical'', ''siCanva'', ''siCanvas'', ''siCapacitor'', ''siCaprover'',
     ''siCardano'', ''siCarlsberggroup'', ''siCarrd'', ''siCarrefour'', ''siCarthrottle'',
     ''siCarto'', ''siCashapp'', ''siCastbox'', ''siCastorama'', ''siCastro'', ''siCaterpillar'',
     ''siCbc'', ''siCbs'', ''siCcc'', ''siCcleaner'', ''siCdprojekt'', ''siCe'', ''siCelery'',
     ''siCelestron'', ''siCentos'', ''siCeph'', ''siCesium'', ''siChai'', ''siChainguard'',
     ''siChainlink'', ''siChakraui'', ''siChannel4'', ''siCharles'', ''siChartdotjs'',
     ''siChartmogul'', ''siChase'', ''siChatbot'', ''siChatwoot'', ''siCheckio'', ''siCheckmarx'',
     ''siCheckmk'', ''siChedraui'', ''siCheerio'', ''siChef'', ''siChemex'', ''siChessdotcom'',
     ''siChevrolet'', ''siChianetwork'', ''siChinaeasternairlines'', ''siChinasouthernairlines'',
     ''siChocolatey'', ''siChromatic'', ''siChromecast'', ''siChromewebstore'', ''siChrysler'',
     ''siChupachups'', ''siCilium'', ''siCinema4d'', ''siCinnamon'', ''siCircle'', ''siCircleci'',
     ''siCircuitverse'', ''siCirrusci'', ''siCisco'', ''siCitrix'', ''siCitroen'', ''siCivicrm'',
     ''siCivo'', ''siClarifai'', ''siClaris'', ''siClarivate'', ''siClaude'', ''siClerk'',
     ''siClevercloud'', ''siClickhouse'', ''siClickup'', ''siClion'', ''siClockify'',
     ''siClojure'', ''siCloud66'', ''siCloudbees'', ''siCloudcannon'', ''siCloudera'',
     ''siCloudflare'', ''siCloudflarepages'', ''siCloudflareworkers'', ''siCloudfoundry'',
     ''siCloudinary'', ''siCloudron'', ''siCloudsmith'', ''siCloudways'', ''siClubforce'',
     ''siClubhouse'', ''siClyp'', ''siCmake'', ''siCncf'', ''siCnet'', ''siCnn'', ''siCocacola'',
     ''siCockpit'', ''siCockroachlabs'', ''siCocoapods'', ''siCocos'', ''siCoda'', ''siCodacy'',
     ''siCodeberg'', ''siCodeblocks'', ''siCodecademy'', ''siCodeceptjs'', ''siCodechef'',
     ''siCodeclimate'', ''siCodecov'', ''siCodecrafters'', ''siCodefactor'', ''siCodeforces'',
     ''siCodefresh'', ''siCodeigniter'', ''siCodeium'', ''siCodemagic'', ''siCodementor'',
     ''siCodemirror'', ''siCodenewbie'', ''siCodepen'', ''siCodeproject'', ''siCoder'',
     ''siCodersrank'', ''siCoderwall'', ''siCodesandbox'', ''siCodeship'', ''siCodesignal'',
     ''siCodestream'', ''siCodewars'', ''siCodingame'', ''siCodingninjas'', ''siCodio'',
     ''siCoffeescript'', ''siCoggle'', ''siCognizant'', ''siCohost'']"

definition exports_4 :: "string list" where
  "exports_4 =
    [''siCoinbase'', ''siCoinmarketcap'', ''siCollaboraonline'', ''siComicfury'', ''siComma'',
     ''siCommerzbank'', ''siCommitlint'', ''siCommodore'', ''siCommonlisp'',
     ''siCommonworkflowlanguage'', ''siCompilerexplorer'', ''siComposer'', ''siComptia'',
     ''siComsol'', ''siConan'', ''siConcourse'', ''siCondaforge'', ''siConekta'',
     ''siConfluence'', ''siConstruct3'', ''siConsul'', ''siContabo'', ''siContactlesspayment'',
     ''siContainerd'', ''siContao'', ''siContentful'', ''siContentstack'', ''siContinente'',
     ''siContributorcovenant'', ''siConventionalcommits'', ''siConvertio'', ''siCookiecutter'',
     ''siCoolermaster'', ''siCoop'', ''siCopaairlines'', ''siCoppel'', ''siCora'',
     ''siCoreldraw'', ''siCoronaengine'', ''siCoronarenderer'', ''siCorsair'', ''siCouchbase'',
     ''siCounterstrike'', ''siCountingworkspro'', ''siCoursera'', ''siCoveralls'', ''siCoze'',
     ''siCpanel'', ''siCplusplus'', ''siCplusplusbuilder'', ''siCraftcms'', ''siCraftsman'',
     ''siCratedb'', ''siCrayon'', ''siCreality'', ''siCreatereactapp'', ''siCreativecommons'',
     ''siCreativetechnology'', ''siCredly'', ''siCrehana'', ''siCrewai'', ''siCrewunited'',
     ''siCriticalrole'', ''siCrowdin'', ''siCrowdsource'', ''siCrunchbase'', ''siCrunchyroll'',
     ''siCryengine'', ''siCryptomator'', ''siCryptpad'', ''siCrystal'', ''siCsdn'', ''siCss'',
     ''siCss3'', ''siCssdesignawards'', ''siCssmodules'', ''siCsswizardry'', ''siCts'',
     ''siCucumber'', ''siCultura'', ''siCurl'', ''siCurseforge'', ''siCustomink'',
     ''siCyberdefenders'', ''siCycling74'', ''siCypress'', ''siCytoscapedotjs'', ''siD'',
     ''siD3'', ''siDacia'', ''siDaf'', ''siDailydotdev'', ''siDailymotion'', ''siDaisyui'',
     ''siDapr'', ''siDarkreader'', ''siDart'', ''siDarty'', ''siDaserste'', ''siDash'',
     ''siDashlane'', ''siDask'', ''siDassaultsystemes'', ''siDatabricks'', ''siDatacamp'',
     ''siDatadog'', ''siDatadotai'', ''siDatagrip'', ''siDataiku'', ''siDatastax'', ''siDatefns'',
     ''siDatev'', ''siDatocms'', ''siDatto'', ''siDavinciresolve'', ''siDazhongdianping'',
     ''siDazn'', ''siDbeaver'', ''siDblp'', ''siDbt'', ''siDcentertainment'', ''siDebian'',
     ''siDebridlink'', ''siDecapcms'', ''siDecentraland'', ''siDedge'', ''siDeepcool'',
     ''siDeepgram'', ''siDeepin'', ''siDeepl'', ''siDeepnote'', ''siDeliveroo'', ''siDell'',
     ''siDelonghi'', ''siDelphi'', ''siDelta'', ''siDeluge'', ''siDeno'', ''siDenon'',
     ''siDependabot'', ''siDependencycheck'', ''siDepositphotos'', ''siDerspiegel'',
     ''siDeutschebahn'', ''siDeutschebank'', ''siDeutschepost'', ''siDeutschetelekom'',
     ''siDeutschewelle'', ''siDevbox'', ''siDevdotto'']"

definition exports_5 :: "string list" where
  "exports_5 =
    [''siDevexpress'', ''siDeviantart'', ''siDevpost'', ''siDevrant'', ''siDgraph'', ''siDhl'',
     ''siDiagramsdotnet'', ''siDialogflow'', ''siDiaspora'', ''siDictionarydotcom'', ''siDigg'',
     ''siDigikeyelectronics'', ''siDigitalocean'', ''siDinersclub'', ''siDior'', ''siDirectus'',
     ''siDiscogs'', ''siDiscord'', ''siDiscourse'', ''siDiscover'', ''siDisqus'', ''siDisroot'',
     ''siDistrokid'', ''siDjango'', ''siDji'', ''siDlib'', ''siDlna'', ''siDm'', ''siDocker'',
     ''siDocsdotrs'', ''siDocsify'', ''siDoctrine'', ''siDocusaurus'', ''siDogecoin'', ''siDoi'',
     ''siDolby'', ''siDoordash'', ''siDota2'', ''siDotenv'', ''siDotnet'', ''siDouban'',
     ''siDoubanread'', ''siDovecot'', ''siDovetail'', ''siDowndetector'', ''siDoxygen'',
     ''siDpd'', ''siDragonframe'', ''siDraugiemdotlv'', ''siDreamstime'', ''siDribbble'',
     ''siDrizzle'', ''siDrone'', ''siDrooble'', ''siDropbox'', ''siDrupal'', ''siDsautomobiles'',
     ''siDts'', ''siDtube'', ''siDucati'', ''siDuckdb'', ''siDuckduckgo'',
     ''siDungeonsanddragons'', ''siDunked'', ''siDunzo'', ''siDuolingo'', ''siDuplicati'',
     ''siDvc'', ''siDwavesystems'', ''siDwm'', ''siDynatrace'', ''siE'', ''siE3'', ''siEa'',
     ''siEac'', ''siEagle'', ''siEasyeda'', ''siEasyjet'', ''siEbay'', ''siEbox'',
     ''siEclipseadoptium'', ''siEclipseche'', ''siEclipseide'', ''siEclipsejetty'',
     ''siEclipsemosquitto'', ''siEclipsevertdotx'', ''siEcosia'', ''siEcovacs'', ''siEdeka'',
     ''siEdgeimpulse'', ''siEditorconfig'', ''siEdotleclerc'', ''siEducative'', ''siEdx'',
     ''siEgghead'', ''siEgnyte'', ''siEight'', ''siEightsleep'', ''siEjs'', ''siElastic'',
     ''siElasticcloud'', ''siElasticsearch'', ''siElasticstack'', ''siElavon'', ''siElectron'',
     ''siElectronbuilder'', ''siElectronfiddle'', ''siElegoo'', ''siElement'', ''siElementary'',
     ''siElementor'', ''siElevenlabs'', ''siEleventy'', ''siElgato'', ''siElixir'', ''siElm'',
     ''siElsevier'', ''siEmbarcadero'', ''siEmbark'', ''siEmberdotjs'', ''siEmby'',
     ''siEmirates'', ''siEmlakjet'', ''siEmpirekred'', ''siEndeavouros'', ''siEngadget'',
     ''siEnpass'', ''siEnterprisedb'', ''siEnvato'', ''siEnvoyproxy'', ''siEpel'',
     ''siEpicgames'', ''siEpson'', ''siEquinixmetal'', ''siEraser'', ''siEricsson'', ''siErlang'',
     ''siErpnext'', ''siEsbuild'', ''siEsea'', ''siEslgaming'', ''siEslint'',
     ''siEsotericsoftware'', ''siEsphome'', ''siEspressif'', ''siEsri'', ''siEtcd'',
     ''siEthereum'', ''siEthers'', ''siEthiopianairlines'']"

definition exports_6 :: "string list" where
  "exports_6 =
    [''siEtihadairways'', ''siEtsy'', ''siEuropeanunion'', ''siEventbrite'', ''siEventstore'',
     ''siEvernote'', ''siExcalidraw'', ''siExercism'', ''siExordo'', ''siExoscale'',
     ''siExpedia'', ''siExpensify'', ''siExpertsexchange'', ''siExpo'', ''siExpress'',
     ''siExpressdotcom'', ''siExpressvpn'', ''siEyeem'', ''siF1'', ''siF5'', ''siFacebook'',
     ''siFacebookgaming'', ''siFacebooklive'', ''siFaceit'', ''siFacepunch'', ''siFairphone'',
     ''siFalco'', ''siFalcon'', ''siFampay'', ''siFandango'', ''siFandom'', ''siFanfou'',
     ''siFantom'', ''siFarcaster'', ''siFareharbor'', ''siFarfetch'', ''siFastapi'',
     ''siFastify'', ''siFastlane'', ''siFastly'', ''siFathom'', ''siFauna'', ''siFavro'',
     ''siFcc'', ''siFdroid'', ''siFedex'', ''siFedora'', ''siFeedly'', ''siFerrari'',
     ''siFerrarinv'', ''siFerretdb'', ''siFfmpeg'', ''siFi'', ''siFiat'', ''siFidoalliance'',
     ''siFifa'', ''siFig'', ''siFigma'', ''siFigshare'', ''siFila'', ''siFilament'',
     ''siFiledotio'', ''siFilen'', ''siFiles'', ''siFilezilla'', ''siFineco'', ''siFing'',
     ''siFirebase'', ''siFirefish'', ''siFireflyiii'', ''siFirefox'', ''siFirefoxbrowser'',
     ''siFireship'', ''siFirewalla'', ''siFirst'', ''siFishshell'', ''siFitbit'', ''siFivem'',
     ''siFiverr'', ''siFizz'', ''siFlashforge'', ''siFlask'', ''siFlat'', ''siFlathub'',
     ''siFlatpak'', ''siFlickr'', ''siFlightaware'', ''siFlipboard'', ''siFlipkart'',
     ''siFloatplane'', ''siFlood'', ''siFluentbit'', ''siFluentd'', ''siFluke'', ''siFlutter'',
     ''siFlux'', ''siFlydotio'', ''siFlyway'', ''siFmod'', ''siFnac'', ''siFolium'', ''siFonoma'',
     ''siFontawesome'', ''siFontbase'', ''siFontforge'', ''siFoobar2000'', ''siFoodpanda'',
     ''siFord'', ''siForgejo'', ''siFormik'', ''siFormspree'', ''siFormstack'', ''siFortinet'',
     ''siFortran'', ''siFossa'', ''siFossilscm'', ''siFoundryvirtualtabletop'', ''siFoursquare'',
     ''siFox'', ''siFoxtel'', ''siFozzy'', ''siFramer'', ''siFramework'', ''siFramework7'',
     ''siFranprix'', ''siFrappe'', ''siFraunhofergesellschaft'', ''siFreebsd'', ''siFreecad'',
     ''siFreecodecamp'', ''siFreedesktopdotorg'', ''siFreelancer'', ''siFreelancermap'',
     ''siFreenas'', ''siFreenet'', ''siFreepik'', ''siFresh'', ''siFrontendmentor'',
     ''siFrontify'', ''siFsecure'', ''siFsharp'', ''siFubo'', ''siFueler'', ''siFugacloud'',
     ''siFujifilm'', ''siFujitsu'', ''siFuraffinity'', ''siFurrynetwork'', ''siFusionauth'',
     ''siFuturelearn'']"

definition exports_7 :: "string list" where
  "exports_7 =
    [''siFyle'', ''siG2'', ''siG2a'', ''siG2g'', ''siGalaxus'', ''siGamebanana'',
     ''siGamedeveloper'', ''siGamejolt'', ''siGameloft'', ''siGamemaker'', ''siGamescience'',
     ''siGarmin'', ''siGatling'', ''siGatsby'', ''siGcore'', ''siGdal'', ''siGeeksforgeeks'',
     ''siGeneralelectric'', ''siGeneralmotors'', ''siGenius'', ''siGentoo'', ''siGeocaching'',
     ''siGeode'', ''siGeopandas'', ''siGerrit'', ''siGetx'', ''siGhost'', ''siGhostery'',
     ''siGimp'', ''siGin'', ''siGiphy'', ''siGit'', ''siGitbook'', ''siGitconnected'',
     ''siGitea'', ''siGitee'', ''siGitextensions'', ''siGitforwindows'', ''siGithub'',
     ''siGithubactions'', ''siGithubcopilot'', ''siGithubpages'', ''siGithubsponsors'',
     ''siGitignoredotio'', ''siGitkraken'', ''siGitlab'', ''siGitlfs'', ''siGitpod'',
     ''siGitter'', ''siGlassdoor'', ''siGldotinet'', ''siGlide'', ''siGlitch'', ''siGlobus'',
     ''siGlovo'', ''siGltf'', ''siGmail'', ''siGmx'', ''siGnome'', ''siGnometerminal'', ''siGnu'',
     ''siGnubash'', ''siGnuemacs'', ''siGnuicecat'', ''siGnuprivacyguard'', ''siGnusocial'',
     ''siGo'', ''siGocd'', ''siGodaddy'', ''siGodotengine'', ''siGofundme'', ''siGogdotcom'',
     ''siGojek'', ''siGoland'', ''siGoldenline'', ''siGoldmansachs'', ''siGoodreads'',
     ''siGoogle'', ''siGoogleadmob'', ''siGoogleads'', ''siGoogleadsense'', ''siGoogleanalytics'',
     ''siGoogleappsscript'', ''siGoogleassistant'', ''siGoogleauthenticator'',
     ''siGooglebigquery'', ''siGooglebigtable'', ''siGooglecalendar'',
     ''siGooglecampaignmanager360'', ''siGooglecardboard'', ''siGooglechat'', ''siGooglechrome'',
     ''siGooglechronicle'', ''siGoogleclassroom'', ''siGooglecloud'', ''siGooglecloudcomposer'',
     ''siGooglecloudspanner'', ''siGooglecloudstorage'', ''siGooglecolab'',
     ''siGooglecontaineroptimizedos'', ''siGoogledataflow'', ''siGoogledataproc'',
     ''siGoogledatastudio'', ''siGoogledisplayandvideo360'', ''siGoogledocs'', ''siGoogledrive'',
     ''siGoogleearth'', ''siGoogleearthengine'', ''siGooglefit'', ''siGooglefonts'',
     ''siGoogleforms'', ''siGooglegemini'', ''siGooglehome'', ''siGooglekeep'', ''siGooglelens'',
     ''siGooglemaps'', ''siGooglemarketingplatform'', ''siGooglemeet'', ''siGooglemessages'',
     ''siGooglenearby'', ''siGooglenews'', ''siGooglepay'', ''siGooglephotos'', ''siGoogleplay'',
     ''siGooglepubsub'', ''siGooglescholar'', ''siGooglesearchconsole'', ''siGooglesheets'',
     ''siGoogleslides'', ''siGooglestreetview'', ''siGoogletagmanager'', ''siGoogletasks'',
     ''siGoogletranslate'', ''siGotomeeting'', ''siGrab'', ''siGradio'', ''siGradle'',
     ''siGradleplaypublisher'', ''siGrafana'', ''siGrammarly'', ''siGrandfrais'',
     ''siGrapheneos'', ''siGraphite'', ''siGraphql'', ''siGrav'', ''siGravatar'', ''siGraylog'',
     ''siGreasyfork'', ''siGreatlearning'', ''siGreenhouse'']"

definition exports_8 :: "string list" where
  "exports_8 =
    [''siGreensock'', ''siGriddotai'', ''siGridsome'', ''siGrocy'', ''siGroupme'', ''siGroupon'',
     ''siGrubhub'', ''siGrunt'', ''siGsk'', ''siGsmarenadotcom'', ''siGstreamer'', ''siGtk'',
     ''siGuangzhoumetro'', ''siGuilded'', ''siGuitarpro'', ''siGulp'', ''siGumroad'',
     ''siGumtree'', ''siGunicorn'', ''siGurobi'', ''siGusto'', ''siGutenberg'', ''siH3'',
     ''siHabr'', ''siHackaday'', ''siHackclub'', ''siHackerearth'', ''siHackernoon'',
     ''siHackerone'', ''siHackerrank'', ''siHackster'', ''siHackthebox'', ''siHal'',
     ''siHandlebarsdotjs'', ''siHandm'', ''siHandshake'', ''siHandshake_protocol'',
     ''siHappycow'', ''siHarbor'', ''siHarmonyos'', ''siHashicorp'', ''siHashnode'',
     ''siHaskell'', ''siHasura'', ''siHatenabookmark'', ''siHaveibeenpwned'', ''siHaxe'',
     ''siHbo'', ''siHcl'', ''siHdfcbank'', ''siHeadlessui'', ''siHeadphonezone'', ''siHeadspace'',
     ''siHearth'', ''siHearthisdotat'', ''siHedera'', ''siHelium'', ''siHelix'', ''siHellofresh'',
     ''siHellyhansen'', ''siHelm'', ''siHelpdesk'', ''siHelpscout'', ''siHepsiemlak'', ''siHere'',
     ''siHermes'', ''siHeroku'', ''siHetzner'', ''siHevy'', ''siHexlet'', ''siHexo'', ''siHey'',
     ''siHibernate'', ''siHibob'', ''siHilton'', ''siHiltonhotelsandresorts'', ''siHitachi'',
     ''siHive'', ''siHive_blockchain'', ''siHivemq'', ''siHomarr'', ''siHomeadvisor'',
     ''siHomeassistant'', ''siHomeassistantcommunitystore'', ''siHomebrew'', ''siHomebridge'',
     ''siHomepage'', ''siHomify'', ''siHonda'', ''siHoney'', ''siHoneybadger'', ''siHoneygain'',
     ''siHono'', ''siHonor'', ''siHootsuite'', ''siHoppscotch'', ''siHostinger'',
     ''siHotelsdotcom'', ''siHotjar'', ''siHotwire'', ''siHoudini'', ''siHouzz'', ''siHp'',
     ''siHsbc'', ''siHtc'', ''siHtcvive'', ''siHtml5'', ''siHtmlacademy'', ''siHtmx'', ''siHtop'',
     ''siHttpie'', ''siHuawei'', ''siHubspot'', ''siHuggingface'', ''siHugo'', ''siHumblebundle'',
     ''siHumhub'', ''siHungryjacks'', ''siHusqvarna'', ''siHyper'', ''siHyperskill'',
     ''siHyperx'', ''siHypothesis'', ''siHyprland'', ''siHyundai'', ''siI18next'', ''siI3'',
     ''siIata'', ''siIbeacon'', ''siIberia'', ''siIced'', ''siIceland'', ''siIcicibank'',
     ''siIcinga'', ''siIcloud'', ''siIcomoon'', ''siIcon'', ''siIconfinder'', ''siIconify'',
     ''siIconjar'', ''siIcons8'', ''siIcq'', ''siIeee'', ''siIfixit'', ''siIfood'', ''siIfttt'',
     ''siIgdb'', ''siIgn'', ''siIheartradio'', ''siIkea'']"

definition exports_9 :: "string list" where
  "exports_9 =
    [''siIledefrancemobilites'', ''siImagedotsc'', ''siImagej'', ''siImdb'', ''siImessage'',
     ''siImgur'', ''siImmer'', ''siImmich'', ''siImou'', ''siImprovmx'', ''siIndeed'',
     ''siIndiansuperleague'', ''siIndiehackers'', ''siIndigo'', ''siInductiveautomation'',
     ''siInertia'', ''siInfiniti'', ''siInfluxdb'', ''siInfomaniak'', ''siInfoq'',
     ''siInformatica'', ''siInfosys'', ''siInfracost'', ''siIngress'', ''siInkdrop'',
     ''siInkscape'', ''siInoreader'', ''siInsomnia'', ''siInspire'', ''siInsta360'',
     ''siInstacart'', ''siInstagram'', ''siInstapaper'', ''siInstatus'', ''siInstructables'',
     ''siInstructure'', ''siIntel'', ''siIntellijidea'', ''siInteractiondesignfoundation'',
     ''siInteractjs'', ''siInterbase'', ''siIntercom'', ''siIntermarche'', ''siInternetarchive'',
     ''siInternetcomputer'', ''siIntigriti'', ''siIntuit'', ''siInvision'', ''siInvoiceninja'',
     ''siIobroker'', ''siIonic'', ''siIonos'', ''siIos'', ''siIota'', ''siIpfs'', ''siIris'',
     ''siIrobot'', ''siIsc2'', ''siIssuu'', ''siIstio'', ''siItchdotio'', ''siIterm2'',
     ''siItunes'', ''siItvx'', ''siIveco'', ''siJabber'', ''siJaeger'', ''siJaguar'',
     ''siJamboard'', ''siJameson'', ''siJamstack'', ''siJapanairlines'', ''siJasmine'',
     ''siJavascript'', ''siJbl'', ''siJcb'', ''siJeep'', ''siJekyll'', ''siJellyfin'',
     ''siJenkins'', ''siJest'', ''siJet'', ''siJetblue'', ''siJetbrains'', ''siJetpackcompose'',
     ''siJfrog'', ''siJfrogpipelines'', ''siJhipster'', ''siJinja'', ''siJio'', ''siJira'',
     ''siJirasoftware'', ''siJitpack'', ''siJitsi'', ''siJohndeere'', ''siJoomla'', ''siJoplin'',
     ''siJordan'', ''siJouav'', ''siJovian'', ''siJpeg'', ''siJquery'', ''siJrgroup'',
     ''siJsdelivr'', ''siJsfiddle'', ''siJson'', ''siJsonwebtokens'', ''siJsr'', ''siJss'',
     ''siJuce'', ''siJuejin'', ''siJuke'', ''siJulia'', ''siJunipernetworks'', ''siJunit5'',
     ''siJupyter'', ''siJusteat'', ''siJustgiving'', ''siK3s'', ''siK6'', ''siKaggle'',
     ''siKagi'', ''siKahoot'', ''siKaios'', ''siKakao'', ''siKakaotalk'', ''siKalilinux'',
     ''siKamailio'', ''siKaniko'', ''siKarlsruherverkehrsverbund'', ''siKasasmart'',
     ''siKashflow'', ''siKaspersky'', ''siKatana'', ''siKaufland'', ''siKde'', ''siKdenlive'',
     ''siKdeplasma'', ''siKedro'', ''siKeenetic'', ''siKeepachangelog'', ''siKeepassxc'',
     ''siKeeper'', ''siKeeweb'', ''siKentico'', ''siKeras'', ''siKeybase'', ''siKeycdn'',
     ''siKeycloak'', ''siKeystone'']"

definition exports_10 :: "string list" where
  "exports_10 =
    [''siKfc'', ''siKhanacademy'', ''siKhronosgroup'', ''siKia'', ''siKibana'', ''siKicad'',
     ''siKick'', ''siKickstarter'', ''siKik'', ''siKingstontechnology'', ''siKinopoisk'',
     ''siKinsta'', ''siKirby'', ''siKit'', ''siKitsu'', ''siKlarna'', ''siKleinanzeigen'',
     ''siKlm'', ''siKlook'', ''siKnative'', ''siKnexdotjs'', ''siKnime'', ''siKnip'',
     ''siKnowledgebase'', ''siKnown'', ''siKoa'', ''siKoc'', ''siKodak'', ''siKodi'',
     ''siKoenigsegg'', ''siKofax'', ''siKofi'', ''siKomoot'', ''siKonami'', ''siKong'',
     ''siKongregate'', ''siKonva'', ''siKotlin'', ''siKoyeb'', ''siKrita'', ''siKtm'', ''siKtor'',
     ''siKuaishou'', ''siKubernetes'', ''siKubuntu'', ''siKucoin'', ''siKueski'', ''siKuma'',
     ''siKununu'', ''siKuula'', ''siKx'', ''siKyocera'', ''siLabview'', ''siLada'',
     ''siLamborghini'', ''siLandrover'', ''siLangchain'', ''siLangflow'', ''siLanggraph'',
     ''siLanguagetool'', ''siLapce'', ''siLaragon'', ''siLaravel'', ''siLaravelhorizon'',
     ''siLaravelnova'', ''siLastdotfm'', ''siLastpass'', ''siLatex'', ''siLaunchpad'',
     ''siLazarus'', ''siLazyvim'', ''siLbry'', ''siLeaderprice'', ''siLeaflet'',
     ''siLeagueoflegends'', ''siLeanpub'', ''siLeetcode'', ''siLefthook'', ''siLegacygames'',
     ''siLeica'', ''siLemmy'', ''siLemonsqueezy'', ''siLenovo'', ''siLens'', ''siLeptos'',
     ''siLequipe'', ''siLerna'', ''siLeroymerlin'', ''siLeslibraires'', ''siLess'',
     ''siLetsencrypt'', ''siLetterboxd'', ''siLevelsdotfyi'', ''siLg'', ''siLiberadotchat'',
     ''siLiberapay'', ''siLibrariesdotio'', ''siLibrarything'', ''siLibreoffice'',
     ''siLibreofficebase'', ''siLibreofficecalc'', ''siLibreofficedraw'',
     ''siLibreofficeimpress'', ''siLibreofficemath'', ''siLibreofficewriter'',
     ''siLibretranslate'', ''siLibretube'', ''siLibrewolf'', ''siLibuv'', ''siLichess'',
     ''siLidl'', ''siLifx'', ''siLightburn'', ''siLighthouse'', ''siLightning'', ''siLimesurvey'',
     ''siLine'', ''siLineageos'', ''siLinear'', ''siLining'', ''siLinkerd'', ''siLinkfire'',
     ''siLinksys'', ''siLinktree'', ''siLinphone'', ''siLintcode'', ''siLinux'',
     ''siLinuxcontainers'', ''siLinuxfoundation'', ''siLinuxmint'',
     ''siLinuxprofessionalinstitute'', ''siLinuxserver'', ''siLionair'', ''siLiquibase'',
     ''siListmonk'', ''siLit'', ''siLitecoin'', ''siLiteral'', ''siLitiengine'', ''siLivechat'',
     ''siLivejournal'', ''siLivewire'', ''siLlvm'', ''siLmms'', ''siLobsters'', ''siLocal'',
     ''siLodash'', ''siLogitech'', ''siLogitechg'', ''siLogmein'']"

definition exports_11 :: "string list" where
  "exports_11 =
    [''siLogseq'', ''siLogstash'', ''siLooker'', ''siLoom'', ''siLoop'', ''siLoopback'',
     ''siLootcrate'', ''siLospec'', ''siLotpolishairlines'', ''siLottiefiles'', ''siLtspice'',
     ''siLua'', ''siLubuntu'', ''siLucia'', ''siLucid'', ''siLucide'', ''siLudwig'',
     ''siLufthansa'', ''siLumen'', ''siLunacy'', ''siLutris'', ''siLvgl'', ''siLydia'',
     ''siLyft'', ''siMaas'', ''siMacos'', ''siMacpaw'', ''siMacys'', ''siMagasinsu'', ''siMagic'',
     ''siMagisk'', ''siMahindra'', ''siMailboxdotorg'', ''siMailchimp'', ''siMaildotcom'',
     ''siMaildotru'', ''siMailgun'', ''siMailtrap'', ''siMainwp'', ''siMajorleaguehacking'',
     ''siMake'', ''siMakerbot'', ''siMalt'', ''siMalwarebytes'', ''siMambaui'', ''siMamp'',
     ''siMan'', ''siManageiq'', ''siManjaro'', ''siMantine'', ''siMapbox'', ''siMapillary'',
     ''siMaplibre'', ''siMaptiler'', ''siMariadb'', ''siMariadbfoundation'', ''siMarkdown'',
     ''siMarko'', ''siMarriott'', ''siMarvelapp'', ''siMaserati'', ''siMastercard'',
     ''siMastercomfig'', ''siMastodon'', ''siMaterialdesign'', ''siMaterialdesignicons'',
     ''siMaterialformkdocs'', ''siMatillion'', ''siMatomo'', ''siMatrix'', ''siMatterdotjs'',
     ''siMattermost'', ''siMatternet'', ''siMautic'', ''siMax'', ''siMaxplanckgesellschaft'',
     ''siMaytag'', ''siMazda'', ''siMaze'', ''siMcafee'', ''siMcdonalds'', ''siMclaren'',
     ''siMdbook'', ''siMdnwebdocs'', ''siMdx'', ''siMediafire'', ''siMediamarkt'',
     ''siMediapipe'', ''siMediatek'', ''siMedibangpaint'', ''siMedium'', ''siMedusa'',
     ''siMeetup'', ''siMega'', ''siMeilisearch'', ''siMeituan'', ''siMeizu'', ''siMendeley'',
     ''siMentorcruise'', ''siMercadopago'', ''siMercedes'', ''siMerck'', ''siMercurial'',
     ''siMermaid'', ''siMessenger'', ''siMeta'', ''siMetabase'', ''siMetacritic'',
     ''siMetafilter'', ''siMetasploit'', ''siMeteor'', ''siMetro'', ''siMetrodelaciudaddemexico'',
     ''siMetrodemadrid'', ''siMetrodeparis'', ''siMewe'', ''siMg'', ''siMicrobit'',
     ''siMicrodotblog'', ''siMicroeditor'', ''siMicropython'', ''siMicrostation'',
     ''siMicrostrategy'', ''siMidi'', ''siMigadu'', ''siMihoyo'', ''siMikrotik'', ''siMilanote'',
     ''siMilvus'', ''siMinds'', ''siMinetest'', ''siMingww64'', ''siMini'', ''siMinio'',
     ''siMintlify'', ''siMinutemailer'', ''siMiraheze'', ''siMiro'', ''siMisskey'',
     ''siMitsubishi'', ''siMix'', ''siMixcloud'', ''siMixpanel'', ''siMlb'', ''siMlflow'',
     ''siMobx'', ''siMobxstatetree'', ''siMocha'', ''siMockserviceworker'', ''siModal'']"

definition exports_12 :: "string list" where
  "exports_12 =
    [''siModin'', ''siModrinth'', ''siModx'', ''siMojeek'', ''siMoleculer'', ''siMomenteo'',
     ''siMonero'', ''siMoneygram'', ''siMongodb'', ''siMongoose'', ''siMongoosedotws'',
     ''siMonica'', ''siMonkeytie'', ''siMonkeytype'', ''siMonogame'', ''siMonoprix'',
     ''siMonster'', ''siMonzo'', ''siMoo'', ''siMoodle'', ''siMoonrepo'', ''siMoq'', ''siMoqups'',
     ''siMorrisons'', ''siMoscowmetro'', ''siMotorola'', ''siMovistar'', ''siMozilla'', ''siMpv'',
     ''siMqtt'', ''siMsi'', ''siMsibusiness'', ''siMta'', ''siMtr'', ''siMubi'', ''siMui'',
     ''siMulesoft'', ''siMuller'', ''siMullvad'', ''siMultisim'', ''siMumble'', ''siMuo'',
     ''siMural'', ''siMusescore'', ''siMusicbrainz'', ''siMxlinux'', ''siMyanimelist'',
     ''siMyget'', ''siMyob'', ''siMyspace'', ''siMysql'', ''siN26'', ''siN8n'', ''siNamebase'',
     ''siNamecheap'', ''siNamemc'', ''siNamesilo'', ''siNamuwiki'', ''siNano'', ''siNanostores'',
     ''siNapster'', ''siNasa'', ''siNationalgrid'', ''siNationalrail'', ''siNativescript'',
     ''siNatsdotio'', ''siNaver'', ''siNba'', ''siNbb'', ''siNbc'', ''siNdr'', ''siNear'',
     ''siNebula'', ''siNec'', ''siNeo4j'', ''siNeovim'', ''siNeptune'', ''siNestjs'',
     ''siNetapp'', ''siNetbsd'', ''siNetcup'', ''siNetdata'', ''siNeteasecloudmusic'',
     ''siNetflix'', ''siNetgear'', ''siNetlify'', ''siNette'', ''siNetto'', ''siNeutralinojs'',
     ''siNewbalance'', ''siNewegg'', ''siNewjapanprowrestling'', ''siNewrelic'',
     ''siNewyorktimes'', ''siNexon'', ''siNextbilliondotai'', ''siNextcloud'', ''siNextdns'',
     ''siNextdoor'', ''siNextdotjs'', ''siNextflow'', ''siNextra'', ''siNextui'', ''siNexusmods'',
     ''siNfc'', ''siNfcore'', ''siNginx'', ''siNginxproxymanager'', ''siNgrok'', ''siNgrx'',
     ''siNhl'', ''siNicehash'', ''siNiconico'', ''siNike'', ''siNikon'', ''siNim'', ''siNissan'',
     ''siNixos'', ''siNodedotjs'', ''siNodemon'', ''siNodered'', ''siNokia'', ''siNomad'',
     ''siNorco'', ''siNordicsemiconductor'', ''siNordvpn'', ''siNormalizedotcss'', ''siNorton'',
     ''siNorwegian'', ''siNotepadplusplus'', ''siNotion'', ''siNotist'', ''siNounproject'',
     ''siNovu'', ''siNow'', ''siNpm'', ''siNrwl'', ''siNsis'', ''siNtfy'', ''siNubank'',
     ''siNucleo'', ''siNuget'', ''siNuke'', ''siNumba'', ''siNumpy'', ''siNunjucks'',
     ''siNushell'', ''siNutanix'', ''siNuxt'', ''siNvidia'']"

definition exports_13 :: "string list" where
  "exports_13 =
    [''siNvm'', ''siNx'', ''siNxp'', ''siNzxt'', ''siO2'', ''siObb'', ''siObservable'',
     ''siObsidian'', ''siObsstudio'', ''siObtainium'', ''siOcaml'', ''siOclc'', ''siOclif'',
     ''siOctanerender'', ''siOctave'', ''siOctobercms'', ''siOctoprint'', ''siOctopusdeploy'',
     ''siOculus'', ''siOdin'', ''siOdnoklassniki'', ''siOdoo'', ''siOdysee'', ''siOhdear'',
     ''siOkcupid'', ''siOkta'', ''siOkx'', ''siOllama'', ''siOmadacloud'', ''siOneplus'',
     ''siOnlyfans'', ''siOnlyoffice'', ''siOnnx'', ''siOnstar'', ''siOpel'', ''siOpen3d'',
     ''siOpenaccess'', ''siOpenai'', ''siOpenaigym'', ''siOpenapiinitiative'', ''siOpenbadges'',
     ''siOpenbsd'', ''siOpenbugbounty'', ''siOpencollective'', ''siOpencontainersinitiative'',
     ''siOpencv'', ''siOpenfaas'', ''siOpengl'', ''siOpenhab'', ''siOpenid'', ''siOpenjdk'',
     ''siOpenjsfoundation'', ''siOpenlayers'', ''siOpenmediavault'', ''siOpenmined'',
     ''siOpennebula'', ''siOpenproject'', ''siOpenscad'', ''siOpensea'', ''siOpensearch'',
     ''siOpensourcehardware'', ''siOpensourceinitiative'', ''siOpenssl'', ''siOpenstack'',
     ''siOpenstreetmap'', ''siOpensuse'', ''siOpentelemetry'', ''siOpentext'', ''siOpentofu'',
     ''siOpenverse'', ''siOpenvpn'', ''siOpenwrt'', ''siOpenzeppelin'', ''siOpenzfs'',
     ''siOpera'', ''siOperagx'', ''siOpnsense'', ''siOppo'', ''siOpsgenie'', ''siOpslevel'',
     ''siOptimism'', ''siOrange'', ''siOrcid'', ''siOreilly'', ''siOrg'', ''siOrganicmaps'',
     ''siOrigin'', ''siOsano'', ''siOsf'', ''siOsgeo'', ''siOshkosh'', ''siOsmc'', ''siOsu'',
     ''siOtto'', ''siOutline'', ''siOvercast'', ''siOverleaf'', ''siOvh'', ''siOwasp'',
     ''siOwncloud'', ''siOxygen'', ''siOyo'', ''siP5dotjs'', ''siPackagist'', ''siPacker'',
     ''siPackt'', ''siPaddle'', ''siPaddlepaddle'', ''siPaddypower'', ''siPagekit'',
     ''siPagerduty'', ''siPagespeedinsights'', ''siPagseguro'', ''siPalantir'',
     ''siPaloaltonetworks'', ''siPaloaltosoftware'', ''siPanasonic'', ''siPandas'', ''siPandora'',
     ''siPantheon'', ''siPaperlessngx'', ''siPaperspace'', ''siPaperswithcode'',
     ''siParadoxinteractive'', ''siParamountplus'', ''siParitysubstrate'', ''siParrotsecurity'',
     ''siParsedotly'', ''siPassport'', ''siPastebin'', ''siPatreon'', ''siPaychex'', ''siPayhip'',
     ''siPayloadcms'', ''siPayoneer'', ''siPaypal'', ''siPaytm'', ''siPcgamingwiki'', ''siPdm'',
     ''siPdq'', ''siPeakdesign'', ''siPearson'', ''siPeerlist'', ''siPeertube'',
     ''siPegasusairlines'', ''siPelican'', ''siPeloton'', ''siPenny'', ''siPenpot'', ''siPercy'']"

definition exports_14 :: "string list" where
  "exports_14 =
    [''siPerforce'', ''siPerl'', ''siPerplexity'', ''siPersistent'', ''siPersonio'',
     ''siPetsathome'', ''siPeugeot'', ''siPexels'', ''siPfsense'', ''siPhabricator'',
     ''siPhilipshue'', ''siPhoenixframework'', ''siPhonepe'', ''siPhosphoricons'',
     ''siPhotobucket'', ''siPhotocrowd'', ''siPhoton'', ''siPhotopea'', ''siPhp'', ''siPhpbb'',
     ''siPhpmyadmin'', ''siPhpstorm'', ''siPiaggiogroup'', ''siPiapro'', ''siPicardsurgeles'',
     ''siPicartodottv'', ''siPicnic'', ''siPicpay'', ''siPicrew'', ''siPicsart'', ''siPicxy'',
     ''siPihole'', ''siPimcore'', ''siPinboard'', ''siPinescript'', ''siPinetwork'',
     ''siPingdom'', ''siPino'', ''siPinterest'', ''siPioneerdj'', ''siPiped'', ''siPipx'',
     ''siPivotaltracker'', ''siPiwigo'', ''siPix'', ''siPixabay'', ''siPixelfed'', ''siPixiv'',
     ''siPixlr'', ''siPkgsrc'', ''siPlanet'', ''siPlanetscale'', ''siPlangrid'',
     ''siPlatformdotsh'', ''siPlatformio'', ''siPlatzi'', ''siPlausibleanalytics'',
     ''siPlaycanvas'', ''siPlayerdotme'', ''siPlayerfm'', ''siPlaystation'', ''siPlaystation2'',
     ''siPlaystation3'', ''siPlaystation4'', ''siPlaystation5'', ''siPlaystationportable'',
     ''siPlaystationvita'', ''siPleroma'', ''siPlesk'', ''siPlex'', ''siPlotly'', ''siPlume'',
     ''siPluralsight'', ''siPlurk'', ''siPluscodes'', ''siPm2'', ''siPnpm'', ''siPocket'',
     ''siPocketbase'', ''siPocketcasts'', ''siPodcastaddict'', ''siPodcastindex'', ''siPodman'',
     ''siPoe'', ''siPoetry'', ''siPointy'', ''siPolars'', ''siPolestar'', ''siPolkadot'',
     ''siPoly'', ''siPolygon'', ''siPolymerproject'', ''siPolywork'', ''siPond5'', ''siPopos'',
     ''siPorkbun'', ''siPorsche'', ''siPortainer'', ''siPortswigger'', ''siPosit'', ''siPostcss'',
     ''siPostgresql'', ''siPosthog'', ''siPostman'', ''siPostmates'', ''siPowers'', ''siPrdotco'',
     ''siPreact'', ''siPrecommit'', ''siPrefect'', ''siPremierleague'', ''siPrepbytes'',
     ''siPrestashop'', ''siPresto'', ''siPrettier'', ''siPretzel'', ''siPrevention'', ''siPrezi'',
     ''siPrime'', ''siPrimefaces'', ''siPrimeng'', ''siPrimereact'', ''siPrimevideo'',
     ''siPrimevue'', ''siPrintables'', ''siPrisma'', ''siPrismic'', ''siPrivatedivision'',
     ''siPrivateinternetaccess'', ''siProbot'', ''siProcessingfoundation'', ''siProcesswire'',
     ''siProducthunt'', ''siProgate'', ''siProgress'', ''siPrometheus'', ''siPronounsdotpage'',
     ''siProsieben'', ''siProteus'', ''siProtocolsdotio'', ''siProtodotio'', ''siProton'',
     ''siProtoncalendar'', ''siProtondb'', ''siProtondrive'', ''siProtonmail'', ''siProtonvpn'',
     ''siProtools'', ''siProtractor'', ''siProxmox'']"

definition exports_15 :: "string list" where
  "exports_15 =
    [''siPterodactyl'', ''siPubg'', ''siPublons'', ''siPubmed'', ''siPug'', ''siPulumi'',
     ''siPuma'', ''siPuppet'', ''siPuppeteer'', ''siPurescript'', ''siPurgecss'', ''siPurism'',
     ''siPushbullet'', ''siPusher'', ''siPwa'', ''siPycharm'', ''siPycqa'', ''siPydantic'',
     ''siPyg'', ''siPypi'', ''siPypy'', ''siPyscaffold'', ''siPysyft'', ''siPytest'',
     ''siPython'', ''siPythonanywhere'', ''siPytorch'', ''siPyup'', ''siQantas'', ''siQase'',
     ''siQatarairways'', ''siQbittorrent'', ''siQemu'', ''siQgis'', ''siQi'', ''siQiita'',
     ''siQiskit'', ''siQiwi'', ''siQlik'', ''siQmk'', ''siQnap'', ''siQq'', ''siQt'',
     ''siQualcomm'', ''siQualtrics'', ''siQualys'', ''siQuantcast'', ''siQuantconnect'',
     ''siQuarkus'', ''siQuarto'', ''siQuasar'', ''siQubesos'', ''siQuest'', ''siQuickbooks'',
     ''siQuicklook'', ''siQuicktime'', ''siQuicktype'', ''siQuip'', ''siQuizlet'', ''siQuora'',
     ''siQwant'', ''siQwik'', ''siQwiklabs'', ''siQzone'', ''siR'', ''siR3'', ''siRabbitmq'',
     ''siRacket'', ''siRadar'', ''siRadarr'', ''siRadixui'', ''siRadstudio'', ''siRailway'',
     ''siRainmeter'', ''siRakuten'', ''siRam'', ''siRancher'', ''siRapid'', ''siRarible'',
     ''siRasa'', ''siRaspberrypi'', ''siRavelry'', ''siRay'', ''siRaycast'', ''siRaylib'',
     ''siRazer'', ''siRazorpay'', ''siRclone'', ''siReact'', ''siReactbootstrap'',
     ''siReacthookform'', ''siReactiveresume'', ''siReactivex'', ''siReactos'', ''siReactquery'',
     ''siReactrouter'', ''siReacttable'', ''siReaddotcv'', ''siReadme'', ''siReadthedocs'',
     ''siReason'', ''siReasonstudios'', ''siRecoil'', ''siRed'', ''siRedash'', ''siRedbubble'',
     ''siRedbull'', ''siRedcandlegames'', ''siReddit'', ''siRedhat'', ''siRedhatopenshift'',
     ''siRedis'', ''siRedmine'', ''siRedox'', ''siRedragon'', ''siRedsys'', ''siRedux'',
     ''siReduxsaga'', ''siRedwoodjs'', ''siReebok'', ''siRefine'', ''siRefinedgithub'',
     ''siRelay'', ''siRelianceindustrieslimited'', ''siRemark'', ''siRemedyentertainment'',
     ''siRemix'', ''siRemovedotbg'', ''siRenault'', ''siRender'', ''siRenovate'', ''siRenpy'',
     ''siRenren'', ''siReplicate'', ''siReplit'', ''siRepublicofgamers'', ''siRescript'',
     ''siRescuetime'', ''siResearchgate'', ''siResend'', ''siResharper'',
     ''siResurrectionremixos'', ''siRetool'', ''siRetroarch'', ''siRetropie'', ''siRevanced'',
     ''siRevealdotjs'', ''siReverbnation'', ''siRevoltdotchat'', ''siRevolut'']"

definition exports_16 :: "string list" where
  "exports_16 =
    [''siRewe'', ''siRezgo'', ''siRhinoceros'', ''siRich'', ''siRider'', ''siRimacautomobili'',
     ''siRime'', ''siRing'', ''siRiotgames'', ''siRipple'', ''siRiscv'', ''siRiseup'',
     ''siRitzcarlton'', ''siRive'', ''siRoadmapdotsh'', ''siRoamresearch'', ''siRobinhood'',
     ''siRoblox'', ''siRobloxstudio'', ''siRoboflow'', ''siRobotframework'', ''siRocket'',
     ''siRocketdotchat'', ''siRocksdb'', ''siRockstargames'', ''siRockwellautomation'',
     ''siRockylinux'', ''siRoku'', ''siRoll20'', ''siRollsroyce'', ''siRollupdotjs'', ''siRook'',
     ''siRoon'', ''siRootme'', ''siRoots'', ''siRootsbedrock'', ''siRootssage'', ''siRos'',
     ''siRossmann'', ''siRotaryinternational'', ''siRottentomatoes'', ''siRoundcube'',
     ''siRsocket'', ''siRss'', ''siRstudioide'', ''siRte'', ''siRtl'', ''siRtlzwei'', ''siRtm'',
     ''siRubocop'', ''siRuby'', ''siRubygems'', ''siRubymine'', ''siRubyonrails'',
     ''siRubysinatra'', ''siRuff'', ''siRumahweb'', ''siRumble'', ''siRundeck'', ''siRunkeeper'',
     ''siRunkit'', ''siRunrundotit'', ''siRust'', ''siRustdesk'', ''siRxdb'', ''siRyanair'',
     ''siRye'', ''siS7airlines'', ''siSabanci'', ''siSafari'', ''siSage'', ''siSahibinden'',
     ''siSailfishos'', ''siSailsdotjs'', ''siSalesforce'', ''siSalla'', ''siSaltproject'',
     ''siSamsclub'', ''siSamsung'', ''siSamsungpay'', ''siSandisk'',
     ''siSanfranciscomunicipalrailway'', ''siSanic'', ''siSanity'', ''siSaopaulometro'',
     ''siSap'', ''siSartorius'', ''siSass'', ''siSat1'', ''siSatellite'', ''siSaturn'',
     ''siSaucelabs'', ''siSaudia'', ''siScala'', ''siScalar'', ''siScaleway'', ''siScania'',
     ''siSchneiderelectric'', ''siScikitlearn'', ''siScilab'', ''siScipy'', ''siScopus'',
     ''siScpfoundation'', ''siScrapbox'', ''siScrapy'', ''siScratch'', ''siScreencastify'',
     ''siScribd'', ''siScrimba'', ''siScrollreveal'', ''siScrumalliance'', ''siScrutinizerci'',
     ''siScylladb'', ''siSeagate'', ''siSearxng'', ''siSeat'', ''siSeatgeek'',
     ''siSecurityscorecard'', ''siSefaria'', ''siSega'', ''siSelenium'', ''siSellfy'',
     ''siSemanticrelease'', ''siSemanticscholar'', ''siSemanticui'', ''siSemanticuireact'',
     ''siSemanticweb'', ''siSemaphoreci'', ''siSemrush'', ''siSemver'', ''siSencha'',
     ''siSendgrid'', ''siSennheiser'', ''siSensu'', ''siSentry'', ''siSepa'', ''siSequelize'',
     ''siServerfault'', ''siServerless'', ''siSession'', ''siSessionize'', ''siSetapp'',
     ''siSfml'', ''siShadcnui'', ''siShadow'', ''siShanghaimetro'', ''siSharex'', ''siSharp'',
     ''siShazam'', ''siShell'']"

definition exports_17 :: "string list" where
  "exports_17 =
    [''siShelly'', ''siShenzhenmetro'', ''siShieldsdotio'', ''siShikimori'', ''siShopee'',
     ''siShopify'', ''siShopware'', ''siShortcut'', ''siShowpad'', ''siShowtime'',
     ''siShowwcase'', ''siShutterstock'', ''siSidekiq'', ''siSidequest'', ''siSiemens'',
     ''siSifive'', ''siSignal'', ''siSilverairways'', ''siSimilarweb'', ''siSimkl'',
     ''siSimpleanalytics'', ''siSimpleicons'', ''siSimplelogin'', ''siSimplenote'', ''siSimplex'',
     ''siSinaweibo'', ''siSingaporeairlines'', ''siSinglestore'', ''siSitecore'', ''siSitepoint'',
     ''siSiyuan'', ''siSkaffold'', ''siSketch'', ''siSketchfab'', ''siSketchup'',
     ''siSkillshare'', ''siSkoda'', ''siSky'', ''siSkypack'', ''siSlack'', ''siSlackware'',
     ''siSlashdot'', ''siSlickpic'', ''siSlides'', ''siSlideshare'', ''siSlint'', ''siSmart'',
     ''siSmartthings'', ''siSmashingmagazine'', ''siSmrt'', ''siSmugmug'', ''siSnapchat'',
     ''siSnapcraft'', ''siSnapdragon'', ''siSncf'', ''siSnort'', ''siSnowflake'', ''siSnowpack'',
     ''siSnyk'', ''siSocialblade'', ''siSociety6'', ''siSocket'', ''siSocketdotio'',
     ''siSoftcatala'', ''siSoftpedia'', ''siSogou'', ''siSolana'', ''siSolid'', ''siSolidity'',
     ''siSololearn'', ''siSolus'', ''siSonar'', ''siSonarcloud'', ''siSonarlint'',
     ''siSonarqube'', ''siSonarr'', ''siSonatype'', ''siSongkick'', ''siSongoda'',
     ''siSonicwall'', ''siSonos'', ''siSony'', ''siSoriana'', ''siSoundcharts'', ''siSoundcloud'',
     ''siSourceengine'', ''siSourceforge'', ''siSourcehut'', ''siSourcetree'',
     ''siSouthwestairlines'', ''siSpacemacs'', ''siSpaceship'', ''siSpacex'', ''siSpacy'',
     ''siSparkar'', ''siSparkasse'', ''siSparkfun'', ''siSparkpost'', ''siSpdx'',
     ''siSpeakerdeck'', ''siSpectrum'', ''siSpeedtest'', ''siSpeedypage'', ''siSphinx'',
     ''siSpigotmc'', ''siSpine'', ''siSpinnaker'', ''siSplunk'', ''siSpoj'', ''siSpond'',
     ''siSpotify'', ''siSpotlight'', ''siSpreadshirt'', ''siSpreaker'', ''siSpring'',
     ''siSpring_creators'', ''siSpringboot'', ''siSpringsecurity'', ''siSpyderide'',
     ''siSqlalchemy'', ''siSqlite'', ''siSquare'', ''siSquareenix'', ''siSquarespace'',
     ''siSrgssr'', ''siSsrn'', ''siSst'', ''siStackbit'', ''siStackblitz'', ''siStackedit'',
     ''siStackexchange'', ''siStackhawk'', ''siStackoverflow'', ''siStackshare'', ''siStadia'',
     ''siStaffbase'', ''siStagetimer'', ''siStandardjs'', ''siStandardresume'', ''siStarbucks'',
     ''siStardock'', ''siStarlingbank'', ''siStarship'', ''siStartdotgg'', ''siStartpage'',
     ''siStartrek'', ''siStarz'', ''siStatamic'', ''siStatista'', ''siStatuspage'']"

definition exports_18 :: "string list" where
  "exports_18 =
    [''siStatuspal'', ''siSteam'', ''siSteamdb'', ''siSteamdeck'', ''siSteamworks'',
     ''siSteelseries'', ''siSteem'', ''siSteemit'', ''siSteinberg'', ''siStellar'', ''siStencil'',
     ''siStencyl'', ''siStimulus'', ''siStmicroelectronics'', ''siStockx'', ''siStopstalk'',
     ''siStoryblok'', ''siStorybook'', ''siStrapi'', ''siStrava'', ''siStreamlabs'',
     ''siStreamlit'', ''siStreamrunners'', ''siStremio'', ''siStripe'', ''siStrongswan'',
     ''siStryker'', ''siStubhub'', ''siStudio3t'', ''siStyledcomponents'', ''siStylelint'',
     ''siStyleshare'', ''siStylus'', ''siSubaru'', ''siSublimetext'', ''siSubstack'',
     ''siSubtitleedit'', ''siSubversion'', ''siSuckless'', ''siSui'', ''siSumologic'', ''siSuno'',
     ''siSunrise'', ''siSupabase'', ''siSupercrease'', ''siSupermicro'', ''siSuperuser'',
     ''siSurfshark'', ''siSurrealdb'', ''siSurveymonkey'', ''siSuse'', ''siSuzuki'', ''siSvelte'',
     ''siSvg'', ''siSvgdotjs'', ''siSvgo'', ''siSvgtrace'', ''siSwagger'', ''siSwarm'',
     ''siSway'', ''siSwc'', ''siSwift'', ''siSwiggy'', ''siSwiper'', ''siSwr'', ''siSymantec'',
     ''siSymbolab'', ''siSymfony'', ''siSymphony'', ''siSympy'', ''siSyncthing'', ''siSynology'',
     ''siSystem76'', ''siTabelog'', ''siTablecheck'', ''siTacobell'', ''siTado'',
     ''siTaichigraphics'', ''siTaichilang'', ''siTails'', ''siTailscale'', ''siTailwindcss'',
     ''siTaipy'', ''siTaketwointeractivesoftware'', ''siTalend'', ''siTalenthouse'', ''siTalos'',
     ''siTamiya'', ''siTampermonkey'', ''siTaobao'', ''siTapas'', ''siTarget'', ''siTarom'',
     ''siTask'', ''siTasmota'', ''siTata'', ''siTauri'', ''siTaxbuzz'', ''siTcs'', ''siTeal'',
     ''siTeamcity'', ''siTeamspeak'', ''siTeamviewer'', ''siTechcrunch'', ''siTed'',
     ''siTeepublic'', ''siTeespring'', ''siTekton'', ''siTele5'', ''siTelefonica'',
     ''siTelegram'', ''siTelegraph'', ''siTelequebec'', ''siTemporal'', ''siTensorflow'',
     ''siTeradata'', ''siTeratail'', ''siTermius'', ''siTerraform'', ''siTesco'', ''siTesla'',
     ''siTestcafe'', ''siTestin'', ''siTestinglibrary'', ''siTestrail'', ''siTether'',
     ''siTextpattern'', ''siTga'', ''siThangs'', ''siThanos'', ''siThealgorithms'',
     ''siTheboringcompany'', ''siTheconversation'', ''siThefinals'', ''siTheguardian'',
     ''siTheirishtimes'', ''siThemighty'', ''siThemodelsresource'', ''siThemoviedatabase'',
     ''siThenorthface'', ''siTheodinproject'', ''siTheregister'', ''siThesoundsresource'',
     ''siThespritersresource'', ''siThewashingtonpost'', ''siTheweatherchannel'',
     ''siThingiverse'', ''siThinkpad'', ''siThirdweb'', ''siThreadless'']"

definition exports_19 :: "string list" where
  "exports_19 =
    [''siThreads'', ''siThreedotjs'', ''siThreema'', ''siThumbtack'', ''siThunderbird'',
     ''siThunderstore'', ''siThurgauerkantonalbank'', ''siThymeleaf'', ''siTicketmaster'',
     ''siTicktick'', ''siTidal'', ''siTiddlywiki'', ''siTide'', ''siTidyverse'', ''siTietoevry'',
     ''siTiktok'', ''siTildapublishing'', ''siTile'', ''siTimescale'', ''siTina'', ''siTinder'',
     ''siTindie'', ''siTinkercad'', ''siTinygrad'', ''siTinyletter'', ''siTistory'', ''siTldraw'',
     ''siTmux'', ''siTodoist'', ''siToggl'', ''siToggltrack'', ''siTokyometro'', ''siToll'',
     ''siToml'', ''siTomorrowland'', ''siTomtom'', ''siTon'', ''siTopcoder'', ''siTopdotgg'',
     ''siToptal'', ''siTorbrowser'', ''siTorizon'', ''siTorproject'', ''siToshiba'', ''siTotvs'',
     ''siTourbox'', ''siTower'', ''siToyota'', ''siTplink'', ''siTqdm'', ''siTraccar'',
     ''siTradingview'', ''siTraefikmesh'', ''siTraefikproxy'', ''siTrailforks'',
     ''siTrainerroad'', ''siTrakt'', ''siTransifex'', ''siTransmission'',
     ''siTransportforireland'', ''siTransportforlondon'', ''siTravisci'', ''siTreehouse'',
     ''siTrello'', ''siTrendmicro'', ''siTreyarch'', ''siTricentis'', ''siTrilium'',
     ''siTriller'', ''siTrillertv'', ''siTrimble'', ''siTrino'', ''siTripadvisor'',
     ''siTripdotcom'', ''siTrivago'', ''siTrivy'', ''siTrove'', ''siTrpc'', ''siTruenas'',
     ''siTrueup'', ''siTrulia'', ''siTrustedshops'', ''siTrustpilot'', ''siTryhackme'',
     ''siTryitonline'', ''siTsnode'', ''siTubi'', ''siTui'', ''siTumblr'', ''siTunein'',
     ''siTurbo'', ''siTurborepo'', ''siTurbosquid'', ''siTurkishairlines'', ''siTurso'',
     ''siTuta'', ''siTv4play'', ''siTvtime'', ''siTwilio'', ''siTwinkly'', ''siTwinmotion'',
     ''siTwitch'', ''siTypeform'', ''siTypeorm'', ''siTyper'', ''siTypescript'', ''siTypo3'',
     ''siTypst'', ''siUber'', ''siUbereats'', ''siUbiquiti'', ''siUbisoft'', ''siUblockorigin'',
     ''siUbuntu'', ''siUbuntumate'', ''siUdacity'', ''siUdemy'', ''siUdotsdotnews'', ''siUfc'',
     ''siUikit'', ''siUipath'', ''siUkca'', ''siUltralytics'', ''siUlule'', ''siUmami'',
     ''siUmbraco'', ''siUml'', ''siUnacademy'', ''siUnderarmour'', ''siUnderscoredotjs'',
     ''siUndertale'', ''siUnicode'', ''siUnilever'', ''siUniqlo'', ''siUniqlo_ja'',
     ''siUnitedairlines'', ''siUnitednations'', ''siUnity'', ''siUnjs'', ''siUnlicense'',
     ''siUnocss'', ''siUnpkg'', ''siUnraid'', ''siUnrealengine'', ''siUnsplash'', ''siUntappd'',
     ''siUpcloud'', ''siUphold'', ''siUplabs'', ''siUpptime'']"

definition exports_20 :: "string list" where
  "exports_20 =
    [''siUps'', ''siUpstash'', ''siUptimekuma'', ''siUpwork'', ''siUsps'', ''siUtorrent'',
     ''siUv'', ''siV'', ''siV0'', ''siV2ex'', ''siV8'', ''siVaadin'', ''siVagrant'', ''siVala'',
     ''siValorant'', ''siValve'', ''siVapor'', ''siVault'', ''siVaultwarden'', ''siVauxhall'',
     ''siVbulletin'', ''siVectary'', ''siVectorlogozone'', ''siVectorworks'', ''siVeeam'',
     ''siVeed'', ''siVeepee'', ''siVega'', ''siVegas'', ''siVelocity'', ''siVelog'',
     ''siVencord'', ''siVenmo'', ''siVercel'', ''siVerdaccio'', ''siVeritas'', ''siVerizon'',
     ''siVespa'', ''siVestel'', ''siVexxhost'', ''siVfairs'', ''siViadeo'', ''siViaplay'',
     ''siViber'', ''siViblo'', ''siVictoriametrics'', ''siVictronenergy'', ''siVim'', ''siVimeo'',
     ''siVimeolivestream'', ''siVirgin'', ''siVirginatlantic'', ''siVirginmedia'',
     ''siVirtualbox'', ''siVirustotal'', ''siVisa'', ''siVisx'', ''siVite'', ''siVitepress'',
     ''siVitess'', ''siVitest'', ''siVivaldi'', ''siVivawallet'', ''siVivino'', ''siVivint'',
     ''siVivo'', ''siVk'', ''siVlcmediaplayer'', ''siVmware'', ''siVodafone'', ''siVoidlinux'',
     ''siVoipdotms'', ''siVolkswagen'', ''siVolvo'', ''siVonage'', ''siVorondesign'',
     ''siVowpalwabbit'', ''siVox'', ''siVrchat'', ''siVsco'', ''siVscodium'', ''siVtex'',
     ''siVuedotjs'', ''siVuetify'', ''siVulkan'', ''siVultr'', ''siVyond'', ''siW3schools'',
     ''siWacom'', ''siWagmi'', ''siWagtail'', ''siWails'', ''siWakatime'', ''siWalkman'',
     ''siWallabag'', ''siWalletconnect'', ''siWalmart'', ''siWantedly'', ''siWappalyzer'',
     ''siWarnerbros'', ''siWarp'', ''siWasabi'', ''siWasmcloud'', ''siWasmer'', ''siWatchtower'',
     ''siWattpad'', ''siWayland'', ''siWaze'', ''siWazirx'', ''siWearos'', ''siWeasyl'',
     ''siWeb3dotjs'', ''siWebassembly'', ''siWebauthn'', ''siWebcomponentsdotorg'',
     ''siWebdotde'', ''siWebdriverio'', ''siWebex'', ''siWebflow'', ''siWebgl'', ''siWebgpu'',
     ''siWeblate'', ''siWebmin'', ''siWebmoney'', ''siWebpack'', ''siWebrtc'', ''siWebstorm'',
     ''siWebtoon'', ''siWebtrees'', ''siWechat'', ''siWegame'', ''siWeightsandbiases'',
     ''siWelcometothejungle'', ''siWellfound'', ''siWellsfargo'', ''siWemo'',
     ''siWesterndigital'', ''siWesternunion'', ''siWetransfer'', ''siWezterm'', ''siWgpu'',
     ''siWhatsapp'', ''siWheniwork'', ''siWikibooks'', ''siWikidata'', ''siWikidotgg'',
     ''siWikidotjs'', ''siWikimediacommons'', ''siWikimediafoundation'', ''siWikipedia'']"

definition exports_21 :: "string list" where
  "exports_21 =
    [''siWikiquote'', ''siWikiversity'', ''siWikivoyage'', ''siWinamp'', ''siWine'', ''siWipro'',
     ''siWire'', ''siWireguard'', ''siWireshark'', ''siWise'', ''siWish'', ''siWistia'',
     ''siWix'', ''siWizzair'', ''siWolfram'', ''siWolframlanguage'', ''siWolframmathematica'',
     ''siWondershare'', ''siWondersharefilmora'', ''siWoo'', ''siWoocommerce'', ''siWordpress'',
     ''siWorkplace'', ''siWorldhealthorganization'', ''siWpengine'', ''siWpexplorer'',
     ''siWprocket'', ''siWritedotas'', ''siWwe'', ''siWwise'', ''siWxt'', ''siWykop'', ''siWyze'',
     ''siX'', ''siXampp'', ''siXcode'', ''siXdadevelopers'', ''siXdotorg'', ''siXendit'',
     ''siXero'', ''siXfce'', ''siXiaohongshu'', ''siXiaomi'', ''siXing'', ''siXml'', ''siXmpp'',
     ''siXo'', ''siXrp'', ''siXsplit'', ''siXstate'', ''siXubuntu'', ''siYabai'', ''siYale'',
     ''siYamahacorporation'', ''siYamahamotorcorporation'', ''siYaml'', ''siYandexcloud'',
     ''siYarn'', ''siYcombinator'', ''siYelp'', ''siYeti'', ''siYii'', ''siYoast'', ''siYolo'',
     ''siYouhodler'', ''siYoutube'', ''siYoutubegaming'', ''siYoutubekids'', ''siYoutubemusic'',
     ''siYoutubeshorts'', ''siYoutubestudio'', ''siYoutubetv'', ''siYr'', ''siYubico'',
     ''siYunohost'', ''siZabka'', ''siZaim'', ''siZalando'', ''siZalo'', ''siZap'', ''siZapier'',
     ''siZara'', ''siZazzle'', ''siZcash'', ''siZcool'', ''siZdf'', ''siZebpay'',
     ''siZebratechnologies'', ''siZedindustries'', ''siZelle'', ''siZend'', ''siZendesk'',
     ''siZenn'', ''siZenodo'', ''siZensar'', ''siZerodha'', ''siZerotier'', ''siZettlr'',
     ''siZhihu'', ''siZig'', ''siZigbee'', ''siZigbee2mqtt'', ''siZiggo'', ''siZilch'',
     ''siZillow'', ''siZincsearch'', ''siZingat'', ''siZod'', ''siZoho'', ''siZoiper'',
     ''siZomato'', ''siZoom'', ''siZorin'', ''siZotero'', ''siZsh'', ''siZulip'', ''siZyte'']"

definition simple_icons_exports :: "string list" where
  "simple_icons_exports = concat
    [exports_0, exports_1, exports_2, exports_3, exports_4, exports_5, exports_6, exports_7,
     exports_8, exports_9, exports_10, exports_11, exports_12, exports_13, exports_14, exports_15,
     exports_16, exports_17, exports_18, exports_19, exports_20, exports_21]"

section \<open>The icon objects\<close>

definition icons_0 :: "(string \<times> SimpleIcon) list" where
  "icons_0 =
    [(''siDotenv'', SimpleIcon ''dotenv'' ''.ENV'' ''ECD53F''),
     (''siDotnet'', SimpleIcon ''dotnet'' ''.NET'' ''512BD4''),
     (''siE'', SimpleIcon ''e'' ''/e/'' ''000000''),
     (''si1dot1dot1dot1'', SimpleIcon ''1dot1dot1dot1'' ''1.1.1.1'' ''221E68''),
     (''si1and1'', SimpleIcon ''1and1'' ''1&amp;1'' ''003D8F''),
     (''si1001tracklists'', SimpleIcon ''1001tracklists'' ''1001Tracklists'' ''40AEF0''),
     (''si1panel'', SimpleIcon ''1panel'' ''1Panel'' ''0854C1''),
     (''si1password'', SimpleIcon ''1password'' ''1Password'' ''3B66BC''),
     (''si2fas'', SimpleIcon ''2fas'' ''2FAS'' ''EC1C24''),
     (''si2k'', SimpleIcon ''2k'' ''2K'' ''DD0700''),
     (''si30secondsofcode'', SimpleIcon ''30secondsofcode'' ''30 seconds of code'' ''5395FD''),
     (''si365datascience'', SimpleIcon ''365datascience'' ''365 Data Science'' ''000C1F''),
     (''si3m'', SimpleIcon ''3m'' ''3M'' ''FF0000''),
     (''si42'', SimpleIcon ''42'' ''42'' ''000000''),
     (''si4chan'', SimpleIcon ''4chan'' ''4chan'' ''006600''),
     (''si4d'', SimpleIcon ''4d'' ''4D'' ''004088''),
     (''si500px'', SimpleIcon ''500px'' ''500px'' ''222222''),
     (''si7zip'', SimpleIcon ''7zip'' ''7Zip'' ''000000''),
     (''si99designs'', SimpleIcon ''99designs'' ''99designs'' ''FE5F50''),
     (''si9gag'', SimpleIcon ''9gag'' ''9GAG'' ''000000''),
     (''siAframe'', SimpleIcon ''aframe'' ''A-Frame'' ''EF2D5E''),
     (''siAbbrobotstudio'', SimpleIcon ''abbrobotstudio'' ''ABB RobotStudio'' ''FF9E0F''),
     (''siAbbott'', SimpleIcon ''abbott'' ''Abbott'' ''008FC7''),
     (''siAbbvie'', SimpleIcon ''abbvie'' ''Abbvie'' ''071D49''),
     (''siAboutdotme'', SimpleIcon ''aboutdotme'' ''About.me'' ''333333''),
     (''siAbstract'', SimpleIcon ''abstract'' ''Abstract'' ''191A1B''),
     (''siAbusedotch'', SimpleIcon ''abusedotch'' ''abuse.ch'' ''00465B''),
     (''siAcademia'', SimpleIcon ''academia'' ''Academia'' ''41454A''),
     (''siAccenture'', SimpleIcon ''accenture'' ''Accenture'' ''A100FF''),
     (''siAccusoft'', SimpleIcon ''accusoft'' ''Accusoft'' ''A9225C''),
     (''siAccuweather'', SimpleIcon ''accuweather'' ''AccuWeather'' ''FF6600''),
     (''siAcer'', SimpleIcon ''acer'' ''Acer'' ''83B81A''),
     (''siAcm'', SimpleIcon ''acm'' ''ACM'' ''0085CA''),
     (''siActigraph'', SimpleIcon ''actigraph'' ''ActiGraph'' ''0B2C4A''),
     (''siActivision'', SimpleIcon ''activision'' ''Activision'' ''000000''),
     (''siActivitypub'', SimpleIcon ''activitypub'' ''ActivityPub'' ''F1007E''),
     (''siActix'', SimpleIcon ''actix'' ''Actix'' ''000000''),
     (''siActualbudget'', SimpleIcon ''actualbudget'' ''Actual Budget'' ''6B46C1''),
     (''siAcura'', SimpleIcon ''acura'' ''Acura'' ''000000''),
     (''siAdafruit'', SimpleIcon ''adafruit'' ''Adafruit'' ''000000''),
     (''siAdblock'', SimpleIcon ''adblock'' ''AdBlock'' ''F40D12''),
     (''siAdblockplus'', SimpleIcon ''adblockplus'' ''Adblock Plus'' ''C70D2C''),
     (''siAddydotio'', SimpleIcon ''addydotio'' ''addy.io'' ''19216C''),
     (''siAdguard'', SimpleIcon ''adguard'' ''AdGuard'' ''68BC71''),
     (''siAdidas'', SimpleIcon ''adidas'' ''Adidas'' ''000000''),
     (''siAdminer'', SimpleIcon ''adminer'' ''Adminer'' ''34567C''),
     (''siAdonisjs'', SimpleIcon ''adonisjs'' ''AdonisJS'' ''5A45FF''),
     (''siAdp'', SimpleIcon ''adp'' ''ADP'' ''D0271D''),
     (''siAdroll'', SimpleIcon ''adroll'' ''Adroll'' ''0DBDFF''),
     (''siAdventofcode'', SimpleIcon ''adventofcode'' ''Advent Of Code'' ''FFFF66'')]"

definition icons_1 :: "(string \<times> SimpleIcon) list" where
  "icons_1 =
    [(''siAdyen'', SimpleIcon ''adyen'' ''Adyen'' ''0ABF53''),
     (''siAegisauthenticator'', SimpleIcon ''aegisauthenticator'' ''Aegis Authenticator'' ''005E9D''),
     (''siAerlingus'', SimpleIcon ''aerlingus'' ''Aer Lingus'' ''006272''),
     (''siAeroflot'', SimpleIcon ''aeroflot'' ''Aeroflot'' ''02458D''),
     (''siAeromexico'', SimpleIcon ''aeromexico'' ''Aerom&#233;xico'' ''0B2343''),
     (''siAerospike'', SimpleIcon ''aerospike'' ''Aerospike'' ''C22127''),
     (''siAew'', SimpleIcon ''aew'' ''AEW'' ''000000''),
     (''siAfdian'', SimpleIcon ''afdian'' ''AFDIAN'' ''946CE6''),
     (''siAffine'', SimpleIcon ''affine'' ''AFFiNE'' ''1E96EB''),
     (''siAffinity'', SimpleIcon ''affinity'' ''Affinity'' ''222324''),
     (''siAffinitydesigner'', SimpleIcon ''affinitydesigner'' ''Affinity Designer'' ''134881''),
     (''siAffinityphoto'', SimpleIcon ''affinityphoto'' ''Affinity Photo'' ''4E3188''),
     (''siAffinitypublisher'', SimpleIcon ''affinitypublisher'' ''Affinity Publisher'' ''891B26''),
     (''siAfterpay'', SimpleIcon ''afterpay'' ''Afterpay'' ''B2FCE4''),
     (''siAftership'', SimpleIcon ''aftership'' ''AfterShip'' ''FF6B2B''),
     (''siAgora'', SimpleIcon ''agora'' ''Agora'' ''099DFD''),
     (''siAidungeon'', SimpleIcon ''aidungeon'' ''AI Dungeon'' ''000000''),
     (''siAib'', SimpleIcon ''aib'' ''AIB'' ''7F2B7B''),
     (''siAiohttp'', SimpleIcon ''aiohttp'' ''AIOHTTP'' ''2C5BB4''),
     (''siAiqfome'', SimpleIcon ''aiqfome'' ''Aiqfome'' ''7A1FA2''),
     (''siAircanada'', SimpleIcon ''aircanada'' ''Air Canada'' ''F01428''),
     (''siAirchina'', SimpleIcon ''airchina'' ''Air China'' ''E30E17''),
     (''siAirfrance'', SimpleIcon ''airfrance'' ''Air France'' ''002157''),
     (''siAirindia'', SimpleIcon ''airindia'' ''Air India'' ''DA0E29''),
     (''siAirserbia'', SimpleIcon ''airserbia'' ''Air Serbia'' ''0E203F''),
     (''siAirtransat'', SimpleIcon ''airtransat'' ''Air Transat'' ''172B54''),
     (''siAirasia'', SimpleIcon ''airasia'' ''AirAsia'' ''FF0000''),
     (''siAirbnb'', SimpleIcon ''airbnb'' ''Airbnb'' ''FF5A5F''),
     (''siAirbrake'', SimpleIcon ''airbrake'' ''Airbrake'' ''FFA500''),
     (''siAirbus'', SimpleIcon ''airbus'' ''Airbus'' ''00205B''),
     (''siAirbyte'', SimpleIcon ''airbyte'' ''Airbyte'' ''615EFF''),
     (''siAircall'', SimpleIcon ''aircall'' ''Aircall'' ''00B388''),
     (''siAirplayaudio'', SimpleIcon ''airplayaudio'' ''AirPlay Audio'' ''000000''),
     (''siAirplayvideo'', SimpleIcon ''airplayvideo'' ''AirPlay Video'' ''000000''),
     (''siAirtable'', SimpleIcon ''airtable'' ''Airtable'' ''18BFFF''),
     (''siAirtel'', SimpleIcon ''airtel'' ''Airtel'' ''E40000''),
     (''siAjv'', SimpleIcon ''ajv'' ''Ajv'' ''23C8D2''),
     (''siAkamai'', SimpleIcon ''akamai'' ''Akamai'' ''0096D6''),
     (''siAkasaair'', SimpleIcon ''akasaair'' ''Akasa Air'' ''FF6300''),
     (''siAkaunting'', SimpleIcon ''akaunting'' ''Akaunting'' ''6DA252''),
     (''siAkiflow'', SimpleIcon ''akiflow'' ''Akiflow'' ''AF38F9''),
     (''siAlacritty'', SimpleIcon ''alacritty'' ''Alacritty'' ''F46D01''),
     (''siAlamy'', SimpleIcon ''alamy'' ''Alamy'' ''00FF7B''),
     (''siAlbertheijn'', SimpleIcon ''albertheijn'' ''Albert Heijn'' ''04ACE6''),
     (''siAlby'', SimpleIcon ''alby'' ''Alby'' ''FFDF6F''),
     (''siAlchemy'', SimpleIcon ''alchemy'' ''Alchemy'' ''0C0C0E''),
     (''siAldinord'', SimpleIcon ''aldinord'' ''Aldi Nord'' ''2490D7''),
     (''siAldisud'', SimpleIcon ''aldisud'' ''Aldi S&#252;d'' ''00005F''),
     (''siAlfaromeo'', SimpleIcon ''alfaromeo'' ''Alfa Romeo'' ''981E32''),
     (''siAlfred'', SimpleIcon ''alfred'' ''Alfred'' ''5C1F87'')]"

definition icons_2 :: "(string \<times> SimpleIcon) list" where
  "icons_2 =
    [(''siAlgolia'', SimpleIcon ''algolia'' ''Algolia'' ''003DFF''),
     (''siAlgorand'', SimpleIcon ''algorand'' ''Algorand'' ''000000''),
     (''siAlibabacloud'', SimpleIcon ''alibabacloud'' ''Alibaba Cloud'' ''FF6A00''),
     (''siAlibabadotcom'', SimpleIcon ''alibabadotcom'' ''Alibaba.com'' ''FF6A00''),
     (''siAlienware'', SimpleIcon ''alienware'' ''Alienware'' ''541BAE''),
     (''siAliexpress'', SimpleIcon ''aliexpress'' ''AliExpress'' ''FF4747''),
     (''siAlipay'', SimpleIcon ''alipay'' ''Alipay'' ''1677FF''),
     (''siAllegro'', SimpleIcon ''allegro'' ''Allegro'' ''FF5A00''),
     (''siAlliedmodders'', SimpleIcon ''alliedmodders'' ''AlliedModders'' ''1578D3''),
     (''siAllocine'', SimpleIcon ''allocine'' ''AlloCin&#233;'' ''FECC00''),
     (''siAlltrails'', SimpleIcon ''alltrails'' ''AllTrails'' ''142800''),
     (''siAlmalinux'', SimpleIcon ''almalinux'' ''AlmaLinux'' ''000000''),
     (''siAlpinelinux'', SimpleIcon ''alpinelinux'' ''Alpine Linux'' ''0D597F''),
     (''siAlpinedotjs'', SimpleIcon ''alpinedotjs'' ''Alpine.js'' ''8BC0D0''),
     (''siAlternativeto'', SimpleIcon ''alternativeto'' ''AlternativeTo'' ''0289D5''),
     (''siAlteryx'', SimpleIcon ''alteryx'' ''Alteryx'' ''0078C0''),
     (''siAltiumdesigner'', SimpleIcon ''altiumdesigner'' ''Altium Designer'' ''A5915F''),
     (''siAlwaysdata'', SimpleIcon ''alwaysdata'' ''Alwaysdata'' ''E9568E''),
     (''siAlx'', SimpleIcon ''alx'' ''ALX'' ''002B56''),
     (''siAmazon'', SimpleIcon ''amazon'' ''Amazon'' ''FF9900''),
     (''siAmazonalexa'', SimpleIcon ''amazonalexa'' ''Amazon Alexa'' ''00CAFF''),
     (''siAmazonapigateway'', SimpleIcon ''amazonapigateway'' ''Amazon API Gateway'' ''FF4F8B''),
     (''siAmazoncloudwatch'', SimpleIcon ''amazoncloudwatch'' ''Amazon CloudWatch'' ''FF4F8B''),
     (''siAmazoncognito'', SimpleIcon ''amazoncognito'' ''Amazon Cognito'' ''DD344C''),
     (''siAmazondocumentdb'', SimpleIcon ''amazondocumentdb'' ''Amazon DocumentDB'' ''C925D1''),
     (''siAmazondynamodb'', SimpleIcon ''amazondynamodb'' ''Amazon DynamoDB'' ''4053D6''),
     (''siAmazonec2'', SimpleIcon ''amazonec2'' ''Amazon EC2'' ''FF9900''),
     (''siAmazonecs'', SimpleIcon ''amazonecs'' ''Amazon ECS'' ''FF9900''),
     (''siAmazoneks'', SimpleIcon ''amazoneks'' ''Amazon EKS'' ''FF9900''),
     (''siAmazonelasticache'', SimpleIcon ''amazonelasticache'' ''Amazon ElastiCache'' ''C925D1''),
     (''siAmazonfiretv'', SimpleIcon ''amazonfiretv'' ''Amazon Fire TV'' ''FC4C02''),
     (''siAmazongames'', SimpleIcon ''amazongames'' ''Amazon Games'' ''FF9900''),
     (''siAmazoniam'', SimpleIcon ''amazoniam'' ''Amazon Identity Access Management'' ''DD344C''),
     (''siAmazonlumberyard'', SimpleIcon ''amazonlumberyard'' ''Amazon Lumberyard'' ''66459B''),
     (''siAmazonluna'', SimpleIcon ''amazonluna'' ''Amazon Luna'' ''9146FF''),
     (''siAmazonmusic'', SimpleIcon ''amazonmusic'' ''Amazon Music'' ''46C3D0''),
     (''siAmazonpay'', SimpleIcon ''amazonpay'' ''Amazon Pay'' ''FF9900''),
     (''siAmazonprime'', SimpleIcon ''amazonprime'' ''Amazon Prime'' ''00A8E1''),
     (''siAmazonrds'', SimpleIcon ''amazonrds'' ''Amazon RDS'' ''527FFF''),
     (''siAmazonredshift'', SimpleIcon ''amazonredshift'' ''Amazon Redshift'' ''8C4FFF''),
     (''siAmazonroute53'', SimpleIcon ''amazonroute53'' ''Amazon Route 53'' ''8C4FFF''),
     (''siAmazons3'', SimpleIcon ''amazons3'' ''Amazon S3'' ''569A31''),
     (''siAmazonsimpleemailservice'', SimpleIcon ''amazonsimpleemailservice'' ''Amazon Simple Email Service'' ''DD344C''),
     (''siAmazonsqs'', SimpleIcon ''amazonsqs'' ''Amazon SQS'' ''FF4F8B''),
     (''siAmazonwebservices'', SimpleIcon ''amazonwebservices'' ''Amazon Web Services'' ''232F3E''),
     (''siAmd'', SimpleIcon ''amd'' ''AMD'' ''ED1C24''),
     (''siAmeba'', SimpleIcon ''ameba'' ''Ameba'' ''2D8C3C''),
     (''siAmericanairlines'', SimpleIcon ''americanairlines'' ''American Airlines'' ''0078D2''),
     (''siAmericanexpress'', SimpleIcon ''americanexpress'' ''American Express'' ''2E77BC''),
     (''siAmg'', SimpleIcon ''amg'' ''AMG'' ''000000'')]"

definition icons_3 :: "(string \<times> SimpleIcon) list" where
  "icons_3 =
    [(''siAmp'', SimpleIcon ''amp'' ''AMP'' ''005AF0''),
     (''siAmul'', SimpleIcon ''amul'' ''Amul'' ''ED1D24''),
     (''siAna'', SimpleIcon ''ana'' ''ANA'' ''13448F''),
     (''siAnaconda'', SimpleIcon ''anaconda'' ''Anaconda'' ''44A833''),
     (''siAnalogue'', SimpleIcon ''analogue'' ''Analogue'' ''1A1A1A''),
     (''siAndela'', SimpleIcon ''andela'' ''Andela'' ''173B3F''),
     (''siAndroid'', SimpleIcon ''android'' ''Android'' ''34A853''),
     (''siAndroidauto'', SimpleIcon ''androidauto'' ''Android Auto'' ''3DDC84''),
     (''siAndroidstudio'', SimpleIcon ''androidstudio'' ''Android Studio'' ''3DDC84''),
     (''siAngular'', SimpleIcon ''angular'' ''Angular'' ''0F0F11''),
     (''siAnilist'', SimpleIcon ''anilist'' ''AniList'' ''02A9FF''),
     (''siAnimalplanet'', SimpleIcon ''animalplanet'' ''Animal Planet'' ''0073FF''),
     (''siAnkermake'', SimpleIcon ''ankermake'' ''AnkerMake'' ''88F387''),
     (''siAnki'', SimpleIcon ''anki'' ''Anki'' ''80C2EE''),
     (''siAnsible'', SimpleIcon ''ansible'' ''Ansible'' ''EE0000''),
     (''siAnswer'', SimpleIcon ''answer'' ''Answer'' ''0033FF''),
     (''siAnsys'', SimpleIcon ''ansys'' ''Ansys'' ''FFB71B''),
     (''siAntdesign'', SimpleIcon ''antdesign'' ''Ant Design'' ''0170FE''),
     (''siAnta'', SimpleIcon ''anta'' ''Anta'' ''D70010''),
     (''siAntena3'', SimpleIcon ''antena3'' ''Antena 3'' ''FF7328''),
     (''siAnthropic'', SimpleIcon ''anthropic'' ''Anthropic'' ''191919''),
     (''siAntv'', SimpleIcon ''antv'' ''AntV'' ''8B5DFF''),
     (''siAnycubic'', SimpleIcon ''anycubic'' ''Anycubic'' ''476695''),
     (''siAnydesk'', SimpleIcon ''anydesk'' ''AnyDesk'' ''EF443B''),
     (''siAnytype'', SimpleIcon ''anytype'' ''Anytype'' ''FF6A7B''),
     (''siAol'', SimpleIcon ''aol'' ''AOL'' ''3399FF''),
     (''siApache'', SimpleIcon ''apache'' ''Apache'' ''D22128''),
     (''siApacheairflow'', SimpleIcon ''apacheairflow'' ''Apache Airflow'' ''017CEE''),
     (''siApacheant'', SimpleIcon ''apacheant'' ''Apache Ant'' ''A81C7D''),
     (''siApachecassandra'', SimpleIcon ''apachecassandra'' ''Apache Cassandra'' ''1287B1''),
     (''siApachecloudstack'', SimpleIcon ''apachecloudstack'' ''Apache CloudStack'' ''2AA5DC''),
     (''siApachecordova'', SimpleIcon ''apachecordova'' ''Apache Cordova'' ''E8E8E8''),
     (''siApachecouchdb'', SimpleIcon ''apachecouchdb'' ''Apache CouchDB'' ''E42528''),
     (''siApachedolphinscheduler'', SimpleIcon ''apachedolphinscheduler'' ''Apache DolphinScheduler'' ''85CDF0''),
     (''siApachedruid'', SimpleIcon ''apachedruid'' ''Apache Druid'' ''29F1FB''),
     (''siApacheecharts'', SimpleIcon ''apacheecharts'' ''Apache ECharts'' ''AA344D''),
     (''siApacheflink'', SimpleIcon ''apacheflink'' ''Apache Flink'' ''E6526F''),
     (''siApachefreemarker'', SimpleIcon ''apachefreemarker'' ''Apache FreeMarker'' ''326CAC''),
     (''siApachegroovy'', SimpleIcon ''apachegroovy'' ''Apache Groovy'' ''4298B8''),
     (''siApacheguacamole'', SimpleIcon ''apacheguacamole'' ''Apache Guacamole'' ''578B34''),
     (''siApachehadoop'', SimpleIcon ''apachehadoop'' ''Apache Hadoop'' ''66CCFF''),
     (''siApachehbase'', SimpleIcon ''apachehbase'' ''Apache HBase'' ''BE160C''),
     (''siApachehive'', SimpleIcon ''apachehive'' ''Apache Hive'' ''FDEE21''),
     (''siApachejmeter'', SimpleIcon ''apachejmeter'' ''Apache JMeter'' ''D22128''),
     (''siApachekafka'', SimpleIcon ''apachekafka'' ''Apache Kafka'' ''231F20''),
     (''siApachekylin'', SimpleIcon ''apachekylin'' ''Apache Kylin'' ''F09D13''),
     (''siApachelucene'', SimpleIcon ''apachelucene'' ''Apache Lucene'' ''019B8F''),
     (''siApachemaven'', SimpleIcon ''apachemaven'' ''Apache Maven'' ''C71A36''),
     (''siApachenetbeanside'', SimpleIcon ''apachenetbeanside'' ''Apache NetBeans IDE'' ''1B6AC6''),
     (''siApachenifi'', SimpleIcon ''apachenifi'' ''Apache NiFi'' ''728E9B'')]"

definition icons_4 :: "(string \<times> SimpleIcon) list" where
  "icons_4 =
    [(''siApacheopenoffice'', SimpleIcon ''apacheopenoffice'' ''Apache OpenOffice'' ''0E85CD''),
     (''siApacheparquet'', SimpleIcon ''apacheparquet'' ''Apache Parquet'' ''50ABF1''),
     (''siApachepulsar'', SimpleIcon ''apachepulsar'' ''Apache Pulsar'' ''188FFF''),
     (''siApacherocketmq'', SimpleIcon ''apacherocketmq'' ''Apache RocketMQ'' ''D77310''),
     (''siApachesolr'', SimpleIcon ''apachesolr'' ''Apache Solr'' ''D9411E''),
     (''siApachespark'', SimpleIcon ''apachespark'' ''Apache Spark'' ''E25A1C''),
     (''siApachestorm'', SimpleIcon ''apachestorm'' ''Apache Storm'' ''225593''),
     (''siApachesuperset'', SimpleIcon ''apachesuperset'' ''Apache Superset'' ''20A6C9''),
     (''siApachetomcat'', SimpleIcon ''apachetomcat'' ''Apache Tomcat'' ''F8DC75''),
     (''siAparat'', SimpleIcon ''aparat'' ''Aparat'' ''ED145B''),
     (''siApifox'', SimpleIcon ''apifox'' ''Apifox'' ''F44A53''),
     (''siApmterminals'', SimpleIcon ''apmterminals'' ''APM Terminals'' ''FF6441''),
     (''siApollographql'', SimpleIcon ''apollographql'' ''Apollo GraphQL'' ''311C87''),
     (''siApostrophe'', SimpleIcon ''apostrophe'' ''Apostrophe'' ''6236FF''),
     (''siAppstore'', SimpleIcon ''appstore'' ''App Store'' ''0D96F6''),
     (''siAppgallery'', SimpleIcon ''appgallery'' ''AppGallery'' ''FF0000''),
     (''siAppian'', SimpleIcon ''appian'' ''Appian'' ''2322F0''),
     (''siAppium'', SimpleIcon ''appium'' ''Appium'' ''EE376D''),
     (''siApple'', SimpleIcon ''apple'' ''Apple'' ''000000''),
     (''siApplearcade'', SimpleIcon ''applearcade'' ''Apple Arcade'' ''000000''),
     (''siApplemusic'', SimpleIcon ''applemusic'' ''Apple Music'' ''FA243C''),
     (''siApplenews'', SimpleIcon ''applenews'' ''Apple News'' ''FD415E''),
     (''siApplepay'', SimpleIcon ''applepay'' ''Apple Pay'' ''000000''),
     (''siApplepodcasts'', SimpleIcon ''applepodcasts'' ''Apple Podcasts'' ''9933CC''),
     (''siAppletv'', SimpleIcon ''appletv'' ''Apple TV'' ''000000''),
     (''siAppsignal'', SimpleIcon ''appsignal'' ''AppSignal'' ''21375A''),
     (''siAppsmith'', SimpleIcon ''appsmith'' ''Appsmith'' ''2A2F3D''),
     (''siAppveyor'', SimpleIcon ''appveyor'' ''AppVeyor'' ''00B3E0''),
     (''siAppwrite'', SimpleIcon ''appwrite'' ''Appwrite'' ''FD366E''),
     (''siAqua'', SimpleIcon ''aqua'' ''Aqua'' ''1904DA''),
     (''siAral'', SimpleIcon ''aral'' ''ARAL'' ''0063CB''),
     (''siArangodb'', SimpleIcon ''arangodb'' ''ArangoDB'' ''DDE072''),
     (''siArc'', SimpleIcon ''arc'' ''Arc'' ''FCBFBD''),
     (''siArcgis'', SimpleIcon ''arcgis'' ''ArcGIS'' ''2C7AC3''),
     (''siArchlinux'', SimpleIcon ''archlinux'' ''Arch Linux'' ''1793D1''),
     (''siArchicad'', SimpleIcon ''archicad'' ''Archicad'' ''2D50A5''),
     (''siArchiveofourown'', SimpleIcon ''archiveofourown'' ''Archive of Our Own'' ''990000''),
     (''siArdour'', SimpleIcon ''ardour'' ''Ardour'' ''C61C3E''),
     (''siArduino'', SimpleIcon ''arduino'' ''Arduino'' ''00878F''),
     (''siArgo'', SimpleIcon ''argo'' ''Argo'' ''EF7B4D''),
     (''siArgos'', SimpleIcon ''argos'' ''Argos'' ''DA291C''),
     (''siAriakit'', SimpleIcon ''ariakit'' ''Ariakit'' ''007ACC''),
     (''siArkecosystem'', SimpleIcon ''arkecosystem'' ''ARK Ecosystem'' ''C9292C''),
     (''siArlo'', SimpleIcon ''arlo'' ''Arlo'' ''49B48A''),
     (''siArm'', SimpleIcon ''arm'' ''Arm'' ''0091BD''),
     (''siArmkeil'', SimpleIcon ''armkeil'' ''Arm Keil'' ''394049''),
     (''siArstechnica'', SimpleIcon ''arstechnica'' ''Ars Technica'' ''FF4E00''),
     (''siArtifacthub'', SimpleIcon ''artifacthub'' ''Artifact Hub'' ''417598''),
     (''siArtixlinux'', SimpleIcon ''artixlinux'' ''Artix Linux'' ''10A0CC''),
     (''siArtstation'', SimpleIcon ''artstation'' ''ArtStation'' ''13AFF0'')]"

definition icons_5 :: "(string \<times> SimpleIcon) list" where
  "icons_5 =
    [(''siArxiv'', SimpleIcon ''arxiv'' ''arXiv'' ''B31B1B''),
     (''siAsahilinux'', SimpleIcon ''asahilinux'' ''Asahi Linux'' ''A61200''),
     (''siAsana'', SimpleIcon ''asana'' ''Asana'' ''F06A6A''),
     (''siAsciidoctor'', SimpleIcon ''asciidoctor'' ''Asciidoctor'' ''E40046''),
     (''siAsciinema'', SimpleIcon ''asciinema'' ''asciinema'' ''D40000''),
     (''siAsda'', SimpleIcon ''asda'' ''ASDA'' ''68A51C''),
     (''siAseprite'', SimpleIcon ''aseprite'' ''Aseprite'' ''7D929E''),
     (''siAssemblyscript'', SimpleIcon ''assemblyscript'' ''AssemblyScript'' ''007AAC''),
     (''siAsterisk'', SimpleIcon ''asterisk'' ''Asterisk'' ''F68F1E''),
     (''siAstonmartin'', SimpleIcon ''astonmartin'' ''Aston Martin'' ''00665E''),
     (''siAstra'', SimpleIcon ''astra'' ''Astra'' ''5C2EDE''),
     (''siAstral'', SimpleIcon ''astral'' ''Astral'' ''261230''),
     (''siAstro'', SimpleIcon ''astro'' ''Astro'' ''BC52EE''),
     (''siAsus'', SimpleIcon ''asus'' ''ASUS'' ''000000''),
     (''siAtandt'', SimpleIcon ''atandt'' ''AT&amp;T'' ''009FDB''),
     (''siAtari'', SimpleIcon ''atari'' ''Atari'' ''E4202E''),
     (''siAtlasos'', SimpleIcon ''atlasos'' ''AtlasOS'' ''1A91FF''),
     (''siAtlassian'', SimpleIcon ''atlassian'' ''Atlassian'' ''0052CC''),
     (''siAuchan'', SimpleIcon ''auchan'' ''Auchan'' ''D6180B''),
     (''siAudacity'', SimpleIcon ''audacity'' ''Audacity'' ''0000CC''),
     (''siAudi'', SimpleIcon ''audi'' ''Audi'' ''BB0A30''),
     (''siAudible'', SimpleIcon ''audible'' ''Audible'' ''F8991C''),
     (''siAudiotechnica'', SimpleIcon ''audiotechnica'' ''Audio-Technica'' ''000000''),
     (''siAudiobookshelf'', SimpleIcon ''audiobookshelf'' ''Audiobookshelf'' ''82612C''),
     (''siAudioboom'', SimpleIcon ''audioboom'' ''Audioboom'' ''007CE2''),
     (''siAudiomack'', SimpleIcon ''audiomack'' ''Audiomack'' ''FFA200''),
     (''siAurelia'', SimpleIcon ''aurelia'' ''Aurelia'' ''ED2B88''),
     (''siAuth0'', SimpleIcon ''auth0'' ''Auth0'' ''EB5424''),
     (''siAuthelia'', SimpleIcon ''authelia'' ''Authelia'' ''113155''),
     (''siAuthentik'', SimpleIcon ''authentik'' ''Authentik'' ''FD4B2D''),
     (''siAuthy'', SimpleIcon ''authy'' ''Authy'' ''EC1C24''),
     (''siAutocad'', SimpleIcon ''autocad'' ''AutoCAD'' ''E51050''),
     (''siAutocannon'', SimpleIcon ''autocannon'' ''AutoCannon'' ''3BA4B7''),
     (''siAutodesk'', SimpleIcon ''autodesk'' ''Autodesk'' ''000000''),
     (''siAutodeskmaya'', SimpleIcon ''autodeskmaya'' ''Autodesk Maya'' ''37A5CC''),
     (''siAutodeskrevit'', SimpleIcon ''autodeskrevit'' ''Autodesk Revit'' ''186BFF''),
     (''siAutohotkey'', SimpleIcon ''autohotkey'' ''AutoHotkey'' ''334455''),
     (''siAutoit'', SimpleIcon ''autoit'' ''AutoIt'' ''5D83AC''),
     (''siAutomattic'', SimpleIcon ''automattic'' ''Automattic'' ''3499CD''),
     (''siAutoprefixer'', SimpleIcon ''autoprefixer'' ''Autoprefixer'' ''DD3735''),
     (''siAutozone'', SimpleIcon ''autozone'' ''AutoZone'' ''D52B1E''),
     (''siAvajs'', SimpleIcon ''avajs'' ''avajs'' ''4B4B77''),
     (''siAvast'', SimpleIcon ''avast'' ''Avast'' ''FF7800''),
     (''siAvianca'', SimpleIcon ''avianca'' ''avianca'' ''FF0000''),
     (''siAvira'', SimpleIcon ''avira'' ''Avira'' ''E02027''),
     (''siAwesomelists'', SimpleIcon ''awesomelists'' ''Awesome Lists'' ''FC60A8''),
     (''siAwesomewm'', SimpleIcon ''awesomewm'' ''awesomeWM'' ''535D6C''),
     (''siAwsamplify'', SimpleIcon ''awsamplify'' ''AWS Amplify'' ''FF9900''),
     (''siAwselasticloadbalancing'', SimpleIcon ''awselasticloadbalancing'' ''AWS Elastic Load Balancing'' ''8C4FFF''),
     (''siAwsfargate'', SimpleIcon ''awsfargate'' ''AWS Fargate'' ''FF9900'')]"

definition icons_6 :: "(string \<times> SimpleIcon) list" where
  "icons_6 =
    [(''siAwslambda'', SimpleIcon ''awslambda'' ''AWS Lambda'' ''FF9900''),
     (''siAwsorganizations'', SimpleIcon ''awsorganizations'' ''AWS Organizations'' ''E7157B''),
     (''siAwssecretsmanager'', SimpleIcon ''awssecretsmanager'' ''AWS Secrets Manager'' ''DD344C''),
     (''siAwwwards'', SimpleIcon ''awwwards'' ''Awwwards'' ''222222''),
     (''siAxios'', SimpleIcon ''axios'' ''Axios'' ''5A29E4''),
     (''siBandrautomation'', SimpleIcon ''bandrautomation'' ''B&amp;R Automation'' ''FF8800''),
     (''siBabel'', SimpleIcon ''babel'' ''Babel'' ''F9DC3E''),
     (''siBabelio'', SimpleIcon ''babelio'' ''Babelio'' ''FBB91E''),
     (''siBabylondotjs'', SimpleIcon ''babylondotjs'' ''Babylon.js'' ''BB464B''),
     (''siBackblaze'', SimpleIcon ''backblaze'' ''Backblaze'' ''E21E29''),
     (''siBackbone'', SimpleIcon ''backbone'' ''Backbone'' ''000000''),
     (''siBackbonedotjs'', SimpleIcon ''backbonedotjs'' ''Backbone.js'' ''0071B5''),
     (''siBackendless'', SimpleIcon ''backendless'' ''Backendless'' ''1D77BD''),
     (''siBackstage'', SimpleIcon ''backstage'' ''Backstage'' ''9BF0E1''),
     (''siBadoo'', SimpleIcon ''badoo'' ''Badoo'' ''783BF9''),
     (''siBaidu'', SimpleIcon ''baidu'' ''Baidu'' ''2932E1''),
     (''siBakalari'', SimpleIcon ''bakalari'' ''Bakal&#225;&#345;i'' ''00A2E2''),
     (''siBamboo'', SimpleIcon ''bamboo'' ''Bamboo'' ''0052CC''),
     (''siBambulab'', SimpleIcon ''bambulab'' ''Bambu Lab'' ''00AE42''),
     (''siBandcamp'', SimpleIcon ''bandcamp'' ''Bandcamp'' ''408294''),
     (''siBandlab'', SimpleIcon ''bandlab'' ''BandLab'' ''F12C18''),
     (''siBandsintown'', SimpleIcon ''bandsintown'' ''Bandsintown'' ''00CEC8''),
     (''siBankofamerica'', SimpleIcon ''bankofamerica'' ''Bank of America'' ''012169''),
     (''siBarclays'', SimpleIcon ''barclays'' ''Barclays'' ''00AEEF''),
     (''siBaremetrics'', SimpleIcon ''baremetrics'' ''Baremetrics'' ''6078FF''),
     (''siBarmenia'', SimpleIcon ''barmenia'' ''Barmenia'' ''009FE3''),
     (''siBasecamp'', SimpleIcon ''basecamp'' ''Basecamp'' ''1D2D35''),
     (''siBaserow'', SimpleIcon ''baserow'' ''Baserow'' ''5190EF''),
     (''siBasicattentiontoken'', SimpleIcon ''basicattentiontoken'' ''Basic Attention Token'' ''80247B''),
     (''siBastyon'', SimpleIcon ''bastyon'' ''Bastyon'' ''00A4FF''),
     (''siBat'', SimpleIcon ''bat'' ''bat'' ''31369E''),
     (''siBata'', SimpleIcon ''bata'' ''Bata'' ''DD282E''),
     (''siBattledotnet'', SimpleIcon ''battledotnet'' ''Battle.net'' ''4381C3''),
     (''siBazel'', SimpleIcon ''bazel'' ''Bazel'' ''43A047''),
     (''siBeatport'', SimpleIcon ''beatport'' ''Beatport'' ''01FF95''),
     (''siBeats'', SimpleIcon ''beats'' ''Beats'' ''005571''),
     (''siBeatsbydre'', SimpleIcon ''beatsbydre'' ''Beats by Dre'' ''E01F3D''),
     (''siBeatstars'', SimpleIcon ''beatstars'' ''BeatStars'' ''EB0000''),
     (''siBeekeeperstudio'', SimpleIcon ''beekeeperstudio'' ''Beekeeper Studio'' ''FAD83B''),
     (''siBehance'', SimpleIcon ''behance'' ''Behance'' ''1769FF''),
     (''siBeijingsubway'', SimpleIcon ''beijingsubway'' ''Beijing Subway'' ''004A9D''),
     (''siBem'', SimpleIcon ''bem'' ''BEM'' ''000000''),
     (''siBentley'', SimpleIcon ''bentley'' ''Bentley'' ''333333''),
     (''siBento'', SimpleIcon ''bento'' ''Bento'' ''768CFF''),
     (''siBentobox'', SimpleIcon ''bentobox'' ''BentoBox'' ''F15541''),
     (''siBentoml'', SimpleIcon ''bentoml'' ''BentoML'' ''000000''),
     (''siBereal'', SimpleIcon ''bereal'' ''BeReal'' ''000000''),
     (''siBetfair'', SimpleIcon ''betfair'' ''Betfair'' ''FFB80B''),
     (''siBetterstack'', SimpleIcon ''betterstack'' ''Better Stack'' ''000000''),
     (''siBetterdiscord'', SimpleIcon ''betterdiscord'' ''BetterDiscord'' ''3E82E5'')]"

definition icons_7 :: "(string \<times> SimpleIcon) list" where
  "icons_7 =
    [(''siBevy'', SimpleIcon ''bevy'' ''Bevy'' ''232326''),
     (''siBigcartel'', SimpleIcon ''bigcartel'' ''Big Cartel'' ''222222''),
     (''siBigbasket'', SimpleIcon ''bigbasket'' ''bigbasket'' ''A5CD39''),
     (''siBigbluebutton'', SimpleIcon ''bigbluebutton'' ''BigBlueButton'' ''283274''),
     (''siBigcommerce'', SimpleIcon ''bigcommerce'' ''BigCommerce'' ''121118''),
     (''siBilibili'', SimpleIcon ''bilibili'' ''Bilibili'' ''00A1D6''),
     (''siBillboard'', SimpleIcon ''billboard'' ''Billboard'' ''000000''),
     (''siBim'', SimpleIcon ''bim'' ''BIM'' ''EB1928''),
     (''siBinance'', SimpleIcon ''binance'' ''Binance'' ''F0B90B''),
     (''siBiolink'', SimpleIcon ''biolink'' ''Bio Link'' ''000000''),
     (''siBiome'', SimpleIcon ''biome'' ''Biome'' ''60A5FA''),
     (''siBisecthosting'', SimpleIcon ''bisecthosting'' ''BisectHosting'' ''0D1129''),
     (''siBit'', SimpleIcon ''bit'' ''Bit'' ''592EC1''),
     (''siBitbucket'', SimpleIcon ''bitbucket'' ''Bitbucket'' ''0052CC''),
     (''siBitcoin'', SimpleIcon ''bitcoin'' ''Bitcoin'' ''F7931A''),
     (''siBitcoincash'', SimpleIcon ''bitcoincash'' ''Bitcoin Cash'' ''0AC18E''),
     (''siBitcoinsv'', SimpleIcon ''bitcoinsv'' ''Bitcoin SV'' ''EAB300''),
     (''siBitcomet'', SimpleIcon ''bitcomet'' ''BitComet'' ''F49923''),
     (''siBitdefender'', SimpleIcon ''bitdefender'' ''Bitdefender'' ''ED1C24''),
     (''siBitly'', SimpleIcon ''bitly'' ''Bitly'' ''EE6123''),
     (''siBitrise'', SimpleIcon ''bitrise'' ''Bitrise'' ''683D87''),
     (''siBittorrent'', SimpleIcon ''bittorrent'' ''BitTorrent'' ''050505''),
     (''siBitwarden'', SimpleIcon ''bitwarden'' ''Bitwarden'' ''175DDC''),
     (''siBitwig'', SimpleIcon ''bitwig'' ''Bitwig'' ''FF5A00''),
     (''siBlackberry'', SimpleIcon ''blackberry'' ''Blackberry'' ''000000''),
     (''siBlackmagicdesign'', SimpleIcon ''blackmagicdesign'' ''Blackmagic Design'' ''FFA200''),
     (''siBlazemeter'', SimpleIcon ''blazemeter'' ''Blazemeter'' ''CA2133''),
     (''siBlazor'', SimpleIcon ''blazor'' ''Blazor'' ''512BD4''),
     (''siBlender'', SimpleIcon ''blender'' ''Blender'' ''E87D0D''),
     (''siBlockbench'', SimpleIcon ''blockbench'' ''Blockbench'' ''1E93D9''),
     (''siBlockchaindotcom'', SimpleIcon ''blockchaindotcom'' ''Blockchain.com'' ''121D33''),
     (''siBlogger'', SimpleIcon ''blogger'' ''Blogger'' ''FF5722''),
     (''siBloglovin'', SimpleIcon ''bloglovin'' ''Bloglovin'' ''000000''),
     (''siBlueprint'', SimpleIcon ''blueprint'' ''Blueprint'' ''137CBD''),
     (''siBluesky'', SimpleIcon ''bluesky'' ''Bluesky'' ''0285FF''),
     (''siBluesound'', SimpleIcon ''bluesound'' ''Bluesound'' ''0F131E''),
     (''siBluetooth'', SimpleIcon ''bluetooth'' ''Bluetooth'' ''0082FC''),
     (''siBmcsoftware'', SimpleIcon ''bmcsoftware'' ''BMC Software'' ''FE5000''),
     (''siBmw'', SimpleIcon ''bmw'' ''BMW'' ''0066B1''),
     (''siBnbchain'', SimpleIcon ''bnbchain'' ''BNB Chain'' ''F0B90B''),
     (''siBoardgamegeek'', SimpleIcon ''boardgamegeek'' ''BoardGameGeek'' ''FF5100''),
     (''siBoat'', SimpleIcon ''boat'' ''boAt'' ''E20722''),
     (''siBoehringeringelheim'', SimpleIcon ''boehringeringelheim'' ''Boehringer Ingelheim'' ''00E47C''),
     (''siBoeing'', SimpleIcon ''boeing'' ''Boeing'' ''1D439C''),
     (''siBombardier'', SimpleIcon ''bombardier'' ''Bombardier'' ''000000''),
     (''siBookalope'', SimpleIcon ''bookalope'' ''Bookalope'' ''DC2829''),
     (''siBookbub'', SimpleIcon ''bookbub'' ''BookBub'' ''F44336''),
     (''siBookmeter'', SimpleIcon ''bookmeter'' ''Bookmeter'' ''64BC4B''),
     (''siBookmyshow'', SimpleIcon ''bookmyshow'' ''BookMyShow'' ''C4242B''),
     (''siBookstack'', SimpleIcon ''bookstack'' ''BookStack'' ''0288D1'')]"

definition icons_8 :: "(string \<times> SimpleIcon) list" where
  "icons_8 =
    [(''siBoost'', SimpleIcon ''boost'' ''Boost'' ''F7901E''),
     (''siBoosty'', SimpleIcon ''boosty'' ''Boosty'' ''F15F2C''),
     (''siBoots'', SimpleIcon ''boots'' ''Boots'' ''05054B''),
     (''siBootstrap'', SimpleIcon ''bootstrap'' ''Bootstrap'' ''7952B3''),
     (''siBorgbackup'', SimpleIcon ''borgbackup'' ''BorgBackup'' ''00DD00''),
     (''siBosch'', SimpleIcon ''bosch'' ''Bosch'' ''EA0016''),
     (''siBose'', SimpleIcon ''bose'' ''Bose'' ''000000''),
     (''siBotblecms'', SimpleIcon ''botblecms'' ''Botble CMS'' ''205081''),
     (''siBoulanger'', SimpleIcon ''boulanger'' ''boulanger'' ''FD5300''),
     (''siBower'', SimpleIcon ''bower'' ''Bower'' ''EF5734''),
     (''siBox'', SimpleIcon ''box'' ''Box'' ''0061D5''),
     (''siBoxysvg'', SimpleIcon ''boxysvg'' ''Boxy SVG'' ''3584E3''),
     (''siBraintree'', SimpleIcon ''braintree'' ''Braintree'' ''000000''),
     (''siBrandfolder'', SimpleIcon ''brandfolder'' ''Brandfolder'' ''40D1F5''),
     (''siBrave'', SimpleIcon ''brave'' ''Brave'' ''FB542B''),
     (''siBreaker'', SimpleIcon ''breaker'' ''Breaker'' ''003DAD''),
     (''siBrenntag'', SimpleIcon ''brenntag'' ''Brenntag'' ''1A0033''),
     (''siBrevo'', SimpleIcon ''brevo'' ''Brevo'' ''0B996E''),
     (''siBrex'', SimpleIcon ''brex'' ''Brex'' ''212121''),
     (''siBricks'', SimpleIcon ''bricks'' ''Bricks'' ''FFD54D''),
     (''siBritishairways'', SimpleIcon ''britishairways'' ''British Airways'' ''2E5C99''),
     (''siBroadcom'', SimpleIcon ''broadcom'' ''Broadcom'' ''E31837''),
     (''siBruno'', SimpleIcon ''bruno'' ''Bruno'' ''F4AA41''),
     (''siBsd'', SimpleIcon ''bsd'' ''BSD'' ''AB2B28''),
     (''siBspwm'', SimpleIcon ''bspwm'' ''bspwm'' ''2E2E2E''),
     (''siBt'', SimpleIcon ''bt'' ''BT'' ''6400AA''),
     (''siBuddy'', SimpleIcon ''buddy'' ''Buddy'' ''1A86FD''),
     (''siBudibase'', SimpleIcon ''budibase'' ''Budibase'' ''000000''),
     (''siBuefy'', SimpleIcon ''buefy'' ''Buefy'' ''7957D5''),
     (''siBuffer'', SimpleIcon ''buffer'' ''Buffer'' ''231F20''),
     (''siBugatti'', SimpleIcon ''bugatti'' ''Bugatti'' ''000000''),
     (''siBugcrowd'', SimpleIcon ''bugcrowd'' ''Bugcrowd'' ''F26822''),
     (''siBugsnag'', SimpleIcon ''bugsnag'' ''Bugsnag'' ''4949E4''),
     (''siBuhl'', SimpleIcon ''buhl'' ''Buhl'' ''023E84''),
     (''siBuildkite'', SimpleIcon ''buildkite'' ''Buildkite'' ''14CC80''),
     (''siBuiltbybit'', SimpleIcon ''builtbybit'' ''BuiltByBit'' ''2D87C3''),
     (''siBukalapak'', SimpleIcon ''bukalapak'' ''Bukalapak'' ''E31E52''),
     (''siBulma'', SimpleIcon ''bulma'' ''Bulma'' ''00D1B2''),
     (''siBun'', SimpleIcon ''bun'' ''Bun'' ''000000''),
     (''siBungie'', SimpleIcon ''bungie'' ''Bungie'' ''0075BB''),
     (''siBunq'', SimpleIcon ''bunq'' ''bunq'' ''3394D7''),
     (''siBurgerking'', SimpleIcon ''burgerking'' ''Burger King'' ''D62300''),
     (''siBurpsuite'', SimpleIcon ''burpsuite'' ''Burp Suite'' ''FF6633''),
     (''siBurton'', SimpleIcon ''burton'' ''Burton'' ''000000''),
     (''siBuymeacoffee'', SimpleIcon ''buymeacoffee'' ''Buy Me A Coffee'' ''FFDD00''),
     (''siBuysellads'', SimpleIcon ''buysellads'' ''BuySellAds'' ''EB4714''),
     (''siBuzzfeed'', SimpleIcon ''buzzfeed'' ''BuzzFeed'' ''EE3322''),
     (''siBvg'', SimpleIcon ''bvg'' ''BVG'' ''F0D722''),
     (''siByjus'', SimpleIcon ''byjus'' (''Byju'' @ [CHR 0x27] @ ''s'') ''813588''),
     (''siBytedance'', SimpleIcon ''bytedance'' ''ByteDance'' ''3C8CFF'')]"

definition icons_9 :: "(string \<times> SimpleIcon) list" where
  "icons_9 =
    [(''siC'', SimpleIcon ''c'' ''C'' ''A8B9CC''),
     (''siCplusplus'', SimpleIcon ''cplusplus'' ''C++'' ''00599C''),
     (''siCplusplusbuilder'', SimpleIcon ''cplusplusbuilder'' ''C++ Builder'' ''E62431''),
     (''siCachet'', SimpleIcon ''cachet'' ''Cachet'' ''7ED321''),
     (''siCaddy'', SimpleIcon ''caddy'' ''Caddy'' ''1F88C0''),
     (''siCadillac'', SimpleIcon ''cadillac'' ''Cadillac'' ''000000''),
     (''siCafepress'', SimpleIcon ''cafepress'' ''CafePress'' ''58A616''),
     (''siCairographics'', SimpleIcon ''cairographics'' ''Cairo Graphics'' ''F39914''),
     (''siCairometro'', SimpleIcon ''cairometro'' ''Cairo Metro'' ''C10C0C''),
     (''siCaixabank'', SimpleIcon ''caixabank'' ''CaixaBank'' ''007EAE''),
     (''siCakephp'', SimpleIcon ''cakephp'' ''CakePHP'' ''D33C43''),
     (''siCaldotcom'', SimpleIcon ''caldotcom'' ''Cal.com'' ''292929''),
     (''siCalendly'', SimpleIcon ''calendly'' ''Calendly'' ''006BFF''),
     (''siCalibreweb'', SimpleIcon ''calibreweb'' ''Calibre-Web'' ''45B29D''),
     (''siCampaignmonitor'', SimpleIcon ''campaignmonitor'' ''Campaign Monitor'' ''111324''),
     (''siCamunda'', SimpleIcon ''camunda'' ''Camunda'' ''FC5D0D''),
     (''siCanonical'', SimpleIcon ''canonical'' ''Canonical'' ''E95420''),
     (''siCanva'', SimpleIcon ''canva'' ''Canva'' ''00C4CC''),
     (''siCanvas'', SimpleIcon ''canvas'' ''Canvas'' ''E72429''),
     (''siCapacitor'', SimpleIcon ''capacitor'' ''Capacitor'' ''119EFF''),
     (''siCaprover'', SimpleIcon ''caprover'' ''CapRover'' ''ED5B26''),
     (''siCarthrottle'', SimpleIcon ''carthrottle'' ''Car Throttle'' ''FF9C42''),
     (''siCardano'', SimpleIcon ''cardano'' ''Cardano'' ''0133AD''),
     (''siCarlsberggroup'', SimpleIcon ''carlsberggroup'' ''Carlsberg Group'' ''00321E''),
     (''siCarrd'', SimpleIcon ''carrd'' ''Carrd'' ''596CAF''),
     (''siCarrefour'', SimpleIcon ''carrefour'' ''Carrefour'' ''004E9F''),
     (''siCarto'', SimpleIcon ''carto'' ''Carto'' ''EB1510''),
     (''siCashapp'', SimpleIcon ''cashapp'' ''Cash App'' ''00C244''),
     (''siCastbox'', SimpleIcon ''castbox'' ''Castbox'' ''F55B23''),
     (''siCastorama'', SimpleIcon ''castorama'' ''Castorama'' ''0078D7''),
     (''siCastro'', SimpleIcon ''castro'' ''Castro'' ''00B265''),
     (''siCaterpillar'', SimpleIcon ''caterpillar'' ''Caterpillar'' ''FFCD11''),
     (''siCbc'', SimpleIcon ''cbc'' ''CBC'' ''E60505''),
     (''siCbs'', SimpleIcon ''cbs'' ''CBS'' ''033963''),
     (''siCcc'', SimpleIcon ''ccc'' ''CCC'' ''000000''),
     (''siCcleaner'', SimpleIcon ''ccleaner'' ''CCleaner'' ''CB2D29''),
     (''siCdprojekt'', SimpleIcon ''cdprojekt'' ''CD Projekt'' ''DC0D15''),
     (''siCe'', SimpleIcon ''ce'' ''CE'' ''000000''),
     (''siCelery'', SimpleIcon ''celery'' ''Celery'' ''37814A''),
     (''siCelestron'', SimpleIcon ''celestron'' ''Celestron'' ''F47216''),
     (''siCentos'', SimpleIcon ''centos'' ''CentOS'' ''262577''),
     (''siCeph'', SimpleIcon ''ceph'' ''Ceph'' ''EF5C55''),
     (''siCesium'', SimpleIcon ''cesium'' ''Cesium'' ''6CADDF''),
     (''siChai'', SimpleIcon ''chai'' ''Chai'' ''A30701''),
     (''siChainguard'', SimpleIcon ''chainguard'' ''Chainguard'' ''4445E7''),
     (''siChainlink'', SimpleIcon ''chainlink'' ''Chainlink'' ''375BD2''),
     (''siChakraui'', SimpleIcon ''chakraui'' ''Chakra UI'' ''319795''),
     (''siChannel4'', SimpleIcon ''channel4'' ''Channel 4'' ''AAFF89''),
     (''siCharles'', SimpleIcon ''charles'' ''Charles'' ''F3F5F5''),
     (''siChartdotjs'', SimpleIcon ''chartdotjs'' ''Chart.js'' ''FF6384'')]"

definition icons_10 :: "(string \<times> SimpleIcon) list" where
  "icons_10 =
    [(''siChartmogul'', SimpleIcon ''chartmogul'' ''ChartMogul'' ''13324B''),
     (''siChase'', SimpleIcon ''chase'' ''Chase'' ''117ACA''),
     (''siChatbot'', SimpleIcon ''chatbot'' ''ChatBot'' ''0066FF''),
     (''siChatwoot'', SimpleIcon ''chatwoot'' ''Chatwoot'' ''1F93FF''),
     (''siCheckio'', SimpleIcon ''checkio'' ''CheckiO'' ''008DB6''),
     (''siCheckmarx'', SimpleIcon ''checkmarx'' ''Checkmarx'' ''54B848''),
     (''siCheckmk'', SimpleIcon ''checkmk'' ''Checkmk'' ''15D1A0''),
     (''siChedraui'', SimpleIcon ''chedraui'' ''Chedraui'' ''E0832F''),
     (''siCheerio'', SimpleIcon ''cheerio'' ''Cheerio'' ''E88C1F''),
     (''siChef'', SimpleIcon ''chef'' ''Chef'' ''F09820''),
     (''siChemex'', SimpleIcon ''chemex'' ''Chemex'' ''4D2B1A''),
     (''siChessdotcom'', SimpleIcon ''chessdotcom'' ''Chess.com'' ''81B64C''),
     (''siChevrolet'', SimpleIcon ''chevrolet'' ''Chevrolet'' ''CD9834''),
     (''siChianetwork'', SimpleIcon ''chianetwork'' ''Chia Network'' ''5ECE71''),
     (''siChinaeasternairlines'', SimpleIcon ''chinaeasternairlines'' ''China Eastern Airlines'' ''1A2477''),
     (''siChinasouthernairlines'', SimpleIcon ''chinasouthernairlines'' ''China Southern Airlines'' ''008BCB''),
     (''siChocolatey'', SimpleIcon ''chocolatey'' ''Chocolatey'' ''80B5E3''),
     (''siChromatic'', SimpleIcon ''chromatic'' ''Chromatic'' ''FC521F''),
     (''siChromewebstore'', SimpleIcon ''chromewebstore'' ''Chrome Web Store'' ''4285F4''),
     (''siChromecast'', SimpleIcon ''chromecast'' ''Chromecast'' ''999999''),
     (''siChrysler'', SimpleIcon ''chrysler'' ''Chrysler'' ''000000''),
     (''siChupachups'', SimpleIcon ''chupachups'' ''Chupa Chups'' ''CF103E''),
     (''siCilium'', SimpleIcon ''cilium'' ''Cilium'' ''F8C517''),
     (''siCinema4d'', SimpleIcon ''cinema4d'' ''Cinema 4D'' ''011A6A''),
     (''siCinnamon'', SimpleIcon ''cinnamon'' ''Cinnamon'' ''DC682E''),
     (''siCircle'', SimpleIcon ''circle'' ''Circle'' ''8669AE''),
     (''siCircleci'', SimpleIcon ''circleci'' ''CircleCI'' ''343434''),
     (''siCircuitverse'', SimpleIcon ''circuitverse'' ''CircuitVerse'' ''42B883''),
     (''siCirrusci'', SimpleIcon ''cirrusci'' ''Cirrus CI'' ''4051B5''),
     (''siCisco'', SimpleIcon ''cisco'' ''Cisco'' ''1BA0D7''),
     (''siCitrix'', SimpleIcon ''citrix'' ''Citrix'' ''452170''),
     (''siCitroen'', SimpleIcon ''citroen'' ''Citro&#235;n'' ''DA291C''),
     (''siCivicrm'', SimpleIcon ''civicrm'' ''CiviCRM'' ''81C459''),
     (''siCivo'', SimpleIcon ''civo'' ''Civo'' ''239DFF''),
     (''siClarifai'', SimpleIcon ''clarifai'' ''Clarifai'' ''1955FF''),
     (''siClaris'', SimpleIcon ''claris'' ''Claris'' ''000000''),
     (''siClarivate'', SimpleIcon ''clarivate'' ''Clarivate'' ''93FF9E''),
     (''siClaude'', SimpleIcon ''claude'' ''Claude'' ''D97757''),
     (''siClerk'', SimpleIcon ''clerk'' ''Clerk'' ''6C47FF''),
     (''siClevercloud'', SimpleIcon ''clevercloud'' ''Clever Cloud'' ''171C36''),
     (''siClickhouse'', SimpleIcon ''clickhouse'' ''ClickHouse'' ''FFCC01''),
     (''siClickup'', SimpleIcon ''clickup'' ''ClickUp'' ''7B68EE''),
     (''siClion'', SimpleIcon ''clion'' ''CLion'' ''000000''),
     (''siClockify'', SimpleIcon ''clockify'' ''Clockify'' ''03A9F4''),
     (''siClojure'', SimpleIcon ''clojure'' ''Clojure'' ''5881D8''),
     (''siCloud66'', SimpleIcon ''cloud66'' ''Cloud 66'' ''3C72B9''),
     (''siCloudfoundry'', SimpleIcon ''cloudfoundry'' ''Cloud Foundry'' ''0C9ED5''),
     (''siCloudbees'', SimpleIcon ''cloudbees'' ''CloudBees'' ''1997B5''),
     (''siCloudcannon'', SimpleIcon ''cloudcannon'' ''CloudCannon'' ''407AFC''),
     (''siCloudera'', SimpleIcon ''cloudera'' ''Cloudera'' ''F96702'')]"

definition icons_11 :: "(string \<times> SimpleIcon) list" where
  "icons_11 =
    [(''siCloudflare'', SimpleIcon ''cloudflare'' ''Cloudflare'' ''F38020''),
     (''siCloudflarepages'', SimpleIcon ''cloudflarepages'' ''Cloudflare Pages'' ''F38020''),
     (''siCloudflareworkers'', SimpleIcon ''cloudflareworkers'' ''Cloudflare Workers'' ''F38020''),
     (''siCloudinary'', SimpleIcon ''cloudinary'' ''Cloudinary'' ''3448C5''),
     (''siCloudron'', SimpleIcon ''cloudron'' ''Cloudron'' ''03A9F4''),
     (''siCloudsmith'', SimpleIcon ''cloudsmith'' ''Cloudsmith'' ''2A6FE1''),
     (''siCloudways'', SimpleIcon ''cloudways'' ''Cloudways'' ''2C39BD''),
     (''siClubforce'', SimpleIcon ''clubforce'' ''Clubforce'' ''191176''),
     (''siClubhouse'', SimpleIcon ''clubhouse'' ''Clubhouse'' ''FFE450''),
     (''siClyp'', SimpleIcon ''clyp'' ''Clyp'' ''3CBDB1''),
     (''siCmake'', SimpleIcon ''cmake'' ''CMake'' ''064F8C''),
     (''siCncf'', SimpleIcon ''cncf'' ''CNCF'' ''231F20''),
     (''siCnet'', SimpleIcon ''cnet'' ''CNET'' ''E71D1D''),
     (''siCnn'', SimpleIcon ''cnn'' ''CNN'' ''CC0000''),
     (''siCoop'', SimpleIcon ''coop'' ''Co-op'' ''00B1E7''),
     (''siCocacola'', SimpleIcon ''cocacola'' ''Coca-Cola'' ''D00013''),
     (''siCockpit'', SimpleIcon ''cockpit'' ''Cockpit'' ''0066CC''),
     (''siCockroachlabs'', SimpleIcon ''cockroachlabs'' ''Cockroach Labs'' ''6933FF''),
     (''siCocoapods'', SimpleIcon ''cocoapods'' ''CocoaPods'' ''EE3322''),
     (''siCocos'', SimpleIcon ''cocos'' ''Cocos'' ''55C2E1''),
     (''siCoda'', SimpleIcon ''coda'' ''Coda'' ''F46A54''),
     (''siCodacy'', SimpleIcon ''codacy'' ''Codacy'' ''222F29''),
     (''siCodeclimate'', SimpleIcon ''codeclimate'' ''Code Climate'' ''000000''),
     (''siCodeblocks'', SimpleIcon ''codeblocks'' ''Code::Blocks'' ''41AD48''),
     (''siCodeberg'', SimpleIcon ''codeberg'' ''Codeberg'' ''2185D0''),
     (''siCodecademy'', SimpleIcon ''codecademy'' ''Codecademy'' ''1F4056''),
     (''siCodeceptjs'', SimpleIcon ''codeceptjs'' ''CodeceptJS'' ''F6E05E''),
     (''siCodechef'', SimpleIcon ''codechef'' ''CodeChef'' ''5B4638''),
     (''siCodecov'', SimpleIcon ''codecov'' ''Codecov'' ''F01F7A''),
     (''siCodecrafters'', SimpleIcon ''codecrafters'' ''CodeCrafters'' ''171920''),
     (''siCodefactor'', SimpleIcon ''codefactor'' ''CodeFactor'' ''F44A6A''),
     (''siCodeforces'', SimpleIcon ''codeforces'' ''Codeforces'' ''1F8ACB''),
     (''siCodefresh'', SimpleIcon ''codefresh'' ''Codefresh'' ''08B1AB''),
     (''siCodeigniter'', SimpleIcon ''codeigniter'' ''CodeIgniter'' ''EF4223''),
     (''siCodeium'', SimpleIcon ''codeium'' ''Codeium'' ''09B6A2''),
     (''siCodemagic'', SimpleIcon ''codemagic'' ''Codemagic'' ''F45E3F''),
     (''siCodementor'', SimpleIcon ''codementor'' ''Codementor'' ''003648''),
     (''siCodemirror'', SimpleIcon ''codemirror'' ''CodeMirror'' ''D30707''),
     (''siCodenewbie'', SimpleIcon ''codenewbie'' ''CodeNewbie'' ''9013FE''),
     (''siCodepen'', SimpleIcon ''codepen'' ''CodePen'' ''000000''),
     (''siCodeproject'', SimpleIcon ''codeproject'' ''CodeProject'' ''FF9900''),
     (''siCoder'', SimpleIcon ''coder'' ''Coder'' ''000000''),
     (''siCodersrank'', SimpleIcon ''codersrank'' ''CodersRank'' ''67A4AC''),
     (''siCoderwall'', SimpleIcon ''coderwall'' ''Coderwall'' ''3E8DCC''),
     (''siCodesandbox'', SimpleIcon ''codesandbox'' ''CodeSandbox'' ''151515''),
     (''siCodeship'', SimpleIcon ''codeship'' ''Codeship'' ''004466''),
     (''siCodesignal'', SimpleIcon ''codesignal'' ''CodeSignal'' ''1062FB''),
     (''siCodestream'', SimpleIcon ''codestream'' ''CodeStream'' ''008C99''),
     (''siCodewars'', SimpleIcon ''codewars'' ''Codewars'' ''B1361E''),
     (''siCodingninjas'', SimpleIcon ''codingninjas'' ''Coding Ninjas'' ''DD6620'')]"

definition icons_12 :: "(string \<times> SimpleIcon) list" where
  "icons_12 =
    [(''siCodingame'', SimpleIcon ''codingame'' ''CodinGame'' ''F2BB13''),
     (''siCodio'', SimpleIcon ''codio'' ''Codio'' ''4574E0''),
     (''siCoffeescript'', SimpleIcon ''coffeescript'' ''CoffeeScript'' ''2F2625''),
     (''siCoggle'', SimpleIcon ''coggle'' ''Coggle'' ''9ED56B''),
     (''siCognizant'', SimpleIcon ''cognizant'' ''Cognizant'' ''1A4CA1''),
     (''siCohost'', SimpleIcon ''cohost'' ''cohost'' ''83254F''),
     (''siCoinbase'', SimpleIcon ''coinbase'' ''Coinbase'' ''0052FF''),
     (''siCoinmarketcap'', SimpleIcon ''coinmarketcap'' ''CoinMarketCap'' ''17181B''),
     (''siCollaboraonline'', SimpleIcon ''collaboraonline'' ''Collabora Online'' ''5C2983''),
     (''siComicfury'', SimpleIcon ''comicfury'' ''ComicFury'' ''79BD42''),
     (''siComma'', SimpleIcon ''comma'' ''comma'' ''51FF00''),
     (''siCommerzbank'', SimpleIcon ''commerzbank'' ''Commerzbank'' ''FFCC33''),
     (''siCommitlint'', SimpleIcon ''commitlint'' ''commitlint'' ''000000''),
     (''siCommodore'', SimpleIcon ''commodore'' ''Commodore'' ''1E2A4E''),
     (''siCommonlisp'', SimpleIcon ''commonlisp'' ''Common Lisp'' ''000000''),
     (''siCommonworkflowlanguage'', SimpleIcon ''commonworkflowlanguage'' ''Common Workflow Language'' ''B5314C''),
     (''siCompilerexplorer'', SimpleIcon ''compilerexplorer'' ''Compiler Explorer'' ''67C52A''),
     (''siComposer'', SimpleIcon ''composer'' ''Composer'' ''885630''),
     (''siComptia'', SimpleIcon ''comptia'' ''CompTIA'' ''C8202F''),
     (''siComsol'', SimpleIcon ''comsol'' ''Comsol'' ''368CCB''),
     (''siConan'', SimpleIcon ''conan'' ''Conan'' ''6699CB''),
     (''siConcourse'', SimpleIcon ''concourse'' ''Concourse'' ''3398DC''),
     (''siCondaforge'', SimpleIcon ''condaforge'' ''Conda-Forge'' ''000000''),
     (''siConekta'', SimpleIcon ''conekta'' ''Conekta'' ''0A1837''),
     (''siConfluence'', SimpleIcon ''confluence'' ''Confluence'' ''172B4D''),
     (''siConstruct3'', SimpleIcon ''construct3'' ''Construct 3'' ''00FFDA''),
     (''siConsul'', SimpleIcon ''consul'' ''Consul'' ''F24C53''),
     (''siContabo'', SimpleIcon ''contabo'' ''Contabo'' ''00AAEB''),
     (''siContactlesspayment'', SimpleIcon ''contactlesspayment'' ''Contactless Payment'' ''000000''),
     (''siContainerd'', SimpleIcon ''containerd'' ''containerd'' ''575757''),
     (''siContao'', SimpleIcon ''contao'' ''Contao'' ''F47C00''),
     (''siContentful'', SimpleIcon ''contentful'' ''Contentful'' ''2478CC''),
     (''siContentstack'', SimpleIcon ''contentstack'' ''Contentstack'' ''E74C3D''),
     (''siContinente'', SimpleIcon ''continente'' ''Continente'' ''E31E24''),
     (''siContributorcovenant'', SimpleIcon ''contributorcovenant'' ''Contributor Covenant'' ''5E0D73''),
     (''siConventionalcommits'', SimpleIcon ''conventionalcommits'' ''Conventional Commits'' ''FE5196''),
     (''siConvertio'', SimpleIcon ''convertio'' ''Convertio'' ''FF3333''),
     (''siCookiecutter'', SimpleIcon ''cookiecutter'' ''Cookiecutter'' ''D4AA00''),
     (''siCoolermaster'', SimpleIcon ''coolermaster'' ''Cooler Master'' ''1E1E28''),
     (''siCopaairlines'', SimpleIcon ''copaairlines'' ''Copa Airlines'' ''0032A0''),
     (''siCoppel'', SimpleIcon ''coppel'' ''Coppel'' ''0266AE''),
     (''siCora'', SimpleIcon ''cora'' ''Cora'' ''E61845''),
     (''siCoreldraw'', SimpleIcon ''coreldraw'' ''CorelDRAW'' ''000000''),
     (''siCoronaengine'', SimpleIcon ''coronaengine'' ''Corona Engine'' ''F96F29''),
     (''siCoronarenderer'', SimpleIcon ''coronarenderer'' ''Corona Renderer'' ''E6502A''),
     (''siCorsair'', SimpleIcon ''corsair'' ''Corsair'' ''000000''),
     (''siCouchbase'', SimpleIcon ''couchbase'' ''Couchbase'' ''EA2328''),
     (''siCounterstrike'', SimpleIcon ''counterstrike'' ''Counter-Strike'' ''000000''),
     (''siCountingworkspro'', SimpleIcon ''countingworkspro'' ''CountingWorks PRO'' ''2E3084''),
     (''siCoursera'', SimpleIcon ''coursera'' ''Coursera'' ''0056D2'')]"

definition icons_13 :: "(string \<times> SimpleIcon) list" where
  "icons_13 =
    [(''siCoveralls'', SimpleIcon ''coveralls'' ''Coveralls'' ''3F5767''),
     (''siCoze'', SimpleIcon ''coze'' ''Coze'' ''4D53E8''),
     (''siCpanel'', SimpleIcon ''cpanel'' ''cPanel'' ''FF6C2C''),
     (''siCraftcms'', SimpleIcon ''craftcms'' ''Craft CMS'' ''E5422B''),
     (''siCraftsman'', SimpleIcon ''craftsman'' ''Craftsman'' ''D6001C''),
     (''siCratedb'', SimpleIcon ''cratedb'' ''CrateDB'' ''009DC7''),
     (''siCrayon'', SimpleIcon ''crayon'' ''Crayon'' ''FF6A4C''),
     (''siCreality'', SimpleIcon ''creality'' ''Creality'' ''000000''),
     (''siCreatereactapp'', SimpleIcon ''createreactapp'' ''Create React App'' ''09D3AC''),
     (''siCreativecommons'', SimpleIcon ''creativecommons'' ''Creative Commons'' ''ED592F''),
     (''siCreativetechnology'', SimpleIcon ''creativetechnology'' ''Creative Technology'' ''000000''),
     (''siCredly'', SimpleIcon ''credly'' ''Credly'' ''FF6B00''),
     (''siCrehana'', SimpleIcon ''crehana'' ''Crehana'' ''4B22F4''),
     (''siCrewunited'', SimpleIcon ''crewunited'' ''Crew United'' ''000000''),
     (''siCrewai'', SimpleIcon ''crewai'' ''CrewAI'' ''FF5A50''),
     (''siCriticalrole'', SimpleIcon ''criticalrole'' ''Critical Role'' ''000000''),
     (''siCrowdin'', SimpleIcon ''crowdin'' ''Crowdin'' ''2E3340''),
     (''siCrowdsource'', SimpleIcon ''crowdsource'' ''Crowdsource'' ''4285F4''),
     (''siCrunchbase'', SimpleIcon ''crunchbase'' ''Crunchbase'' ''0288D1''),
     (''siCrunchyroll'', SimpleIcon ''crunchyroll'' ''Crunchyroll'' ''F47521''),
     (''siCryengine'', SimpleIcon ''cryengine'' ''CRYENGINE'' ''000000''),
     (''siCryptomator'', SimpleIcon ''cryptomator'' ''Cryptomator'' ''49B04A''),
     (''siCryptpad'', SimpleIcon ''cryptpad'' ''CryptPad'' ''0087FF''),
     (''siCrystal'', SimpleIcon ''crystal'' ''Crystal'' ''000000''),
     (''siCsdn'', SimpleIcon ''csdn'' ''CSDN'' ''FC5531''),
     (''siCss'', SimpleIcon ''css'' ''CSS'' ''663399''),
     (''siCssdesignawards'', SimpleIcon ''cssdesignawards'' ''CSS Design Awards'' ''280FEE''),
     (''siCssmodules'', SimpleIcon ''cssmodules'' ''CSS Modules'' ''000000''),
     (''siCsswizardry'', SimpleIcon ''csswizardry'' ''CSS Wizardry'' ''F43059''),
     (''siCss3'', SimpleIcon ''css3'' ''CSS3'' ''1572B6''),
     (''siCts'', SimpleIcon ''cts'' ''CTS'' ''E53236''),
     (''siCucumber'', SimpleIcon ''cucumber'' ''Cucumber'' ''23D96C''),
     (''siCultura'', SimpleIcon ''cultura'' ''Cultura'' ''1D2C54''),
     (''siCurl'', SimpleIcon ''curl'' ''curl'' ''073551''),
     (''siCurseforge'', SimpleIcon ''curseforge'' ''CurseForge'' ''F16436''),
     (''siCustomink'', SimpleIcon ''customink'' ''Custom Ink'' ''4051B5''),
     (''siCyberdefenders'', SimpleIcon ''cyberdefenders'' ''CyberDefenders'' ''335EEA''),
     (''siCycling74'', SimpleIcon ''cycling74'' (''Cycling '' @ [CHR 0x27] @ ''74'') ''111111''),
     (''siCypress'', SimpleIcon ''cypress'' ''Cypress'' ''69D3A7''),
     (''siCytoscapedotjs'', SimpleIcon ''cytoscapedotjs'' ''Cytoscape.js'' ''F7DF1E''),
     (''siD'', SimpleIcon ''d'' ''D'' ''B03931''),
     (''siDedge'', SimpleIcon ''dedge'' ''D-EDGE'' ''432975''),
     (''siDwavesystems'', SimpleIcon ''dwavesystems'' ''D-Wave Systems'' ''008CD7''),
     (''siD3'', SimpleIcon ''d3'' ''D3'' ''F9A03C''),
     (''siDacia'', SimpleIcon ''dacia'' ''Dacia'' ''646B52''),
     (''siDaf'', SimpleIcon ''daf'' ''DAF'' ''00529B''),
     (''siDailydotdev'', SimpleIcon ''dailydotdev'' ''daily.dev'' ''CE3DF3''),
     (''siDailymotion'', SimpleIcon ''dailymotion'' ''Dailymotion'' ''0A0A0A''),
     (''siDaisyui'', SimpleIcon ''daisyui'' ''DaisyUI'' ''1AD1A5''),
     (''siDapr'', SimpleIcon ''dapr'' ''Dapr'' ''0D2192'')]"

definition icons_14 :: "(string \<times> SimpleIcon) list" where
  "icons_14 =
    [(''siDarkreader'', SimpleIcon ''darkreader'' ''Dark Reader'' ''141E24''),
     (''siDart'', SimpleIcon ''dart'' ''Dart'' ''0175C2''),
     (''siDarty'', SimpleIcon ''darty'' ''Darty'' ''EB1B23''),
     (''siDaserste'', SimpleIcon ''daserste'' ''Das Erste'' ''001A4B''),
     (''siDash'', SimpleIcon ''dash'' ''Dash'' ''008DE4''),
     (''siDashlane'', SimpleIcon ''dashlane'' ''Dashlane'' ''0E353D''),
     (''siDask'', SimpleIcon ''dask'' ''Dask'' ''FC6E6B''),
     (''siDassaultsystemes'', SimpleIcon ''dassaultsystemes'' ''Dassault Syst&#232;mes'' ''005386''),
     (''siDatadotai'', SimpleIcon ''datadotai'' ''data.ai'' ''000000''),
     (''siDatabricks'', SimpleIcon ''databricks'' ''Databricks'' ''FF3621''),
     (''siDatacamp'', SimpleIcon ''datacamp'' ''DataCamp'' ''03EF62''),
     (''siDatadog'', SimpleIcon ''datadog'' ''Datadog'' ''632CA6''),
     (''siDatagrip'', SimpleIcon ''datagrip'' ''DataGrip'' ''000000''),
     (''siDataiku'', SimpleIcon ''dataiku'' ''Dataiku'' ''2AB1AC''),
     (''siDatastax'', SimpleIcon ''datastax'' ''DataStax'' ''000000''),
     (''siDatefns'', SimpleIcon ''datefns'' ''date-fns'' ''770C56''),
     (''siDatev'', SimpleIcon ''datev'' ''DATEV'' ''9BD547''),
     (''siDatocms'', SimpleIcon ''datocms'' ''DatoCMS'' ''FF7751''),
     (''siDatto'', SimpleIcon ''datto'' ''Datto'' ''199ED9''),
     (''siDavinciresolve'', SimpleIcon ''davinciresolve'' ''DaVinci Resolve'' ''233A51''),
     (''siDazhongdianping'', SimpleIcon ''dazhongdianping'' ''Dazhong Dianping'' ''FF6633''),
     (''siDazn'', SimpleIcon ''dazn'' ''DAZN'' ''F8F8F5''),
     (''siDbeaver'', SimpleIcon ''dbeaver'' ''DBeaver'' ''382923''),
     (''siDblp'', SimpleIcon ''dblp'' ''dblp'' ''004F9F''),
     (''siDbt'', SimpleIcon ''dbt'' ''dbt'' ''FF694B''),
     (''siDcentertainment'', SimpleIcon ''dcentertainment'' ''DC Entertainment'' ''0078F0''),
     (''siDelonghi'', SimpleIcon ''delonghi'' (''De'' @ [CHR 0x27] @ ''Longhi'') ''072240''),
     (''siDebian'', SimpleIcon ''debian'' ''Debian'' ''A81D33''),
     (''siDebridlink'', SimpleIcon ''debridlink'' ''Debrid-Link'' ''264E70''),
     (''siDecapcms'', SimpleIcon ''decapcms'' ''Decap CMS'' ''FF0082''),
     (''siDecentraland'', SimpleIcon ''decentraland'' ''Decentraland'' ''FF2D55''),
     (''siDeepcool'', SimpleIcon ''deepcool'' ''DeepCool'' ''068584''),
     (''siDeepgram'', SimpleIcon ''deepgram'' ''Deepgram'' ''13EF93''),
     (''siDeepin'', SimpleIcon ''deepin'' ''deepin'' ''007CFF''),
     (''siDeepl'', SimpleIcon ''deepl'' ''DeepL'' ''0F2B46''),
     (''siDeepnote'', SimpleIcon ''deepnote'' ''Deepnote'' ''3793EF''),
     (''siDeliveroo'', SimpleIcon ''deliveroo'' ''Deliveroo'' ''00CCBC''),
     (''siDell'', SimpleIcon ''dell'' ''Dell'' ''007DB8''),
     (''siDelphi'', SimpleIcon ''delphi'' ''Delphi'' ''E62431''),
     (''siDelta'', SimpleIcon ''delta'' ''Delta'' ''003366''),
     (''siDeluge'', SimpleIcon ''deluge'' ''Deluge'' ''094491''),
     (''siDeno'', SimpleIcon ''deno'' ''Deno'' ''70FFAF''),
     (''siDenon'', SimpleIcon ''denon'' ''Denon'' ''0B131A''),
     (''siDependabot'', SimpleIcon ''dependabot'' ''Dependabot'' ''025E8C''),
     (''siDepositphotos'', SimpleIcon ''depositphotos'' ''Depositphotos'' ''000000''),
     (''siDerspiegel'', SimpleIcon ''derspiegel'' ''Der Spiegel'' ''E64415''),
     (''siDeutschebahn'', SimpleIcon ''deutschebahn'' ''Deutsche Bahn'' ''F01414''),
     (''siDeutschebank'', SimpleIcon ''deutschebank'' ''Deutsche Bank'' ''0018A8''),
     (''siDeutschepost'', SimpleIcon ''deutschepost'' ''Deutsche Post'' ''FFCC00''),
     (''siDeutschetelekom'', SimpleIcon ''deutschetelekom'' ''Deutsche Telekom'' ''E20074'')]"

definition icons_15 :: "(string \<times> SimpleIcon) list" where
  "icons_15 =
    [(''siDeutschewelle'', SimpleIcon ''deutschewelle'' ''Deutsche Welle'' ''05B2FC''),
     (''siDevdotto'', SimpleIcon ''devdotto'' ''dev.to'' ''0A0A0A''),
     (''siDevbox'', SimpleIcon ''devbox'' ''Devbox'' ''280459''),
     (''siDevexpress'', SimpleIcon ''devexpress'' ''DevExpress'' ''FF7200''),
     (''siDeviantart'', SimpleIcon ''deviantart'' ''DeviantArt'' ''05CC47''),
     (''siDevpost'', SimpleIcon ''devpost'' ''Devpost'' ''003E54''),
     (''siDevrant'', SimpleIcon ''devrant'' ''devRant'' ''F99A66''),
     (''siDgraph'', SimpleIcon ''dgraph'' ''Dgraph'' ''E50695''),
     (''siDhl'', SimpleIcon ''dhl'' ''DHL'' ''FFCC00''),
     (''siDiagramsdotnet'', SimpleIcon ''diagramsdotnet'' ''diagrams.net'' ''F08705''),
     (''siDialogflow'', SimpleIcon ''dialogflow'' ''Dialogflow'' ''FF9800''),
     (''siDiaspora'', SimpleIcon ''diaspora'' ''Diaspora'' ''000000''),
     (''siDictionarydotcom'', SimpleIcon ''dictionarydotcom'' ''Dictionary.com'' ''0049D7''),
     (''siDigg'', SimpleIcon ''digg'' ''Digg'' ''000000''),
     (''siDigikeyelectronics'', SimpleIcon ''digikeyelectronics'' ''Digi-Key Electronics'' ''CC0000''),
     (''siDigitalocean'', SimpleIcon ''digitalocean'' ''DigitalOcean'' ''0080FF''),
     (''siDinersclub'', SimpleIcon ''dinersclub'' ''Diners Club'' ''004C97''),
     (''siDior'', SimpleIcon ''dior'' ''Dior'' ''000000''),
     (''siDirectus'', SimpleIcon ''directus'' ''Directus'' ''263238''),
     (''siDiscogs'', SimpleIcon ''discogs'' ''Discogs'' ''333333''),
     (''siDiscord'', SimpleIcon ''discord'' ''Discord'' ''5865F2''),
     (''siDiscourse'', SimpleIcon ''discourse'' ''Discourse'' ''000000''),
     (''siDiscover'', SimpleIcon ''discover'' ''Discover'' ''FF6000''),
     (''siDisqus'', SimpleIcon ''disqus'' ''Disqus'' ''2E9FFF''),
     (''siDisroot'', SimpleIcon ''disroot'' ''Disroot'' ''50162D''),
     (''siDistrokid'', SimpleIcon ''distrokid'' ''Distrokid'' ''231F20''),
     (''siDjango'', SimpleIcon ''django'' ''Django'' ''092E20''),
     (''siDji'', SimpleIcon ''dji'' ''DJI'' ''000000''),
     (''siDlib'', SimpleIcon ''dlib'' ''Dlib'' ''008000''),
     (''siDlna'', SimpleIcon ''dlna'' ''DLNA'' ''48A842''),
     (''siDm'', SimpleIcon ''dm'' ''dm'' ''002878''),
     (''siDocker'', SimpleIcon ''docker'' ''Docker'' ''2496ED''),
     (''siDocsdotrs'', SimpleIcon ''docsdotrs'' ''Docs.rs'' ''000000''),
     (''siDocsify'', SimpleIcon ''docsify'' ''Docsify'' ''2ECE53''),
     (''siDoctrine'', SimpleIcon ''doctrine'' ''Doctrine'' ''FC6A31''),
     (''siDocusaurus'', SimpleIcon ''docusaurus'' ''Docusaurus'' ''3ECC5F''),
     (''siDogecoin'', SimpleIcon ''dogecoin'' ''Dogecoin'' ''C2A633''),
     (''siDoi'', SimpleIcon ''doi'' ''DOI'' ''FAB70C''),
     (''siDolby'', SimpleIcon ''dolby'' ''Dolby'' ''000000''),
     (''siDoordash'', SimpleIcon ''doordash'' ''DoorDash'' ''FF3008''),
     (''siDota2'', SimpleIcon ''dota2'' ''Dota 2'' ''BF2E1A''),
     (''siDouban'', SimpleIcon ''douban'' ''Douban'' ''2D963D''),
     (''siDoubanread'', SimpleIcon ''doubanread'' ''Douban Read'' ''389EAC''),
     (''siDovecot'', SimpleIcon ''dovecot'' ''Dovecot'' ''54BCAB''),
     (''siDovetail'', SimpleIcon ''dovetail'' ''Dovetail'' ''190041''),
     (''siDowndetector'', SimpleIcon ''downdetector'' ''Downdetector'' ''FF160A''),
     (''siDoxygen'', SimpleIcon ''doxygen'' ''Doxygen'' ''2C4AA8''),
     (''siDpd'', SimpleIcon ''dpd'' ''DPD'' ''DC0032''),
     (''siDragonframe'', SimpleIcon ''dragonframe'' ''Dragonframe'' ''D4911E''),
     (''siDraugiemdotlv'', SimpleIcon ''draugiemdotlv'' ''Draugiem.lv'' ''FF6600'')]"

definition icons_16 :: "(string \<times> SimpleIcon) list" where
  "icons_16 =
    [(''siDreamstime'', SimpleIcon ''dreamstime'' ''Dreamstime'' ''50A901''),
     (''siDribbble'', SimpleIcon ''dribbble'' ''Dribbble'' ''EA4C89''),
     (''siDrizzle'', SimpleIcon ''drizzle'' ''Drizzle'' ''C5F74F''),
     (''siDrone'', SimpleIcon ''drone'' ''Drone'' ''212121''),
     (''siDrooble'', SimpleIcon ''drooble'' ''Drooble'' ''19C4BE''),
     (''siDropbox'', SimpleIcon ''dropbox'' ''Dropbox'' ''0061FF''),
     (''siDrupal'', SimpleIcon ''drupal'' ''Drupal'' ''0678BE''),
     (''siDsautomobiles'', SimpleIcon ''dsautomobiles'' ''DS Automobiles'' ''1D1717''),
     (''siDts'', SimpleIcon ''dts'' ''DTS'' ''F98B2B''),
     (''siDtube'', SimpleIcon ''dtube'' ''DTube'' ''F01A30''),
     (''siDucati'', SimpleIcon ''ducati'' ''Ducati'' ''CC0000''),
     (''siDuckdb'', SimpleIcon ''duckdb'' ''DuckDB'' ''FFF000''),
     (''siDuckduckgo'', SimpleIcon ''duckduckgo'' ''DuckDuckGo'' ''DE5833''),
     (''siDungeonsanddragons'', SimpleIcon ''dungeonsanddragons'' ''Dungeons &amp; Dragons'' ''ED1C24''),
     (''siDunked'', SimpleIcon ''dunked'' ''Dunked'' ''2DA9D7''),
     (''siDunzo'', SimpleIcon ''dunzo'' ''Dunzo'' ''00D290''),
     (''siDuolingo'', SimpleIcon ''duolingo'' ''Duolingo'' ''58CC02''),
     (''siDuplicati'', SimpleIcon ''duplicati'' ''Duplicati'' ''1E3A8A''),
     (''siDvc'', SimpleIcon ''dvc'' ''DVC'' ''13ADC7''),
     (''siDwm'', SimpleIcon ''dwm'' ''dwm'' ''1177AA''),
     (''siDynatrace'', SimpleIcon ''dynatrace'' ''Dynatrace'' ''1496FF''),
     (''siEdotleclerc'', SimpleIcon ''edotleclerc'' ''E.Leclerc'' ''0066CC''),
     (''siE3'', SimpleIcon ''e3'' ''E3'' ''E73D2F''),
     (''siEa'', SimpleIcon ''ea'' ''EA'' ''000000''),
     (''siEac'', SimpleIcon ''eac'' ''EAC'' ''000000''),
     (''siEagle'', SimpleIcon ''eagle'' ''Eagle'' ''0072EF''),
     (''siEasyeda'', SimpleIcon ''easyeda'' ''EasyEDA'' ''1765F6''),
     (''siEasyjet'', SimpleIcon ''easyjet'' ''easyJet'' ''FF6600''),
     (''siEbay'', SimpleIcon ''ebay'' ''eBay'' ''E53238''),
     (''siEbox'', SimpleIcon ''ebox'' ''EBOX'' ''BE2323''),
     (''siEclipseadoptium'', SimpleIcon ''eclipseadoptium'' ''Eclipse Adoptium'' ''FF1464''),
     (''siEclipseche'', SimpleIcon ''eclipseche'' ''Eclipse Che'' ''525C86''),
     (''siEclipseide'', SimpleIcon ''eclipseide'' ''Eclipse IDE'' ''2C2255''),
     (''siEclipsejetty'', SimpleIcon ''eclipsejetty'' ''Eclipse Jetty'' ''FC390E''),
     (''siEclipsemosquitto'', SimpleIcon ''eclipsemosquitto'' ''Eclipse Mosquitto'' ''3C5280''),
     (''siEclipsevertdotx'', SimpleIcon ''eclipsevertdotx'' ''Eclipse Vert.x'' ''782A90''),
     (''siEcosia'', SimpleIcon ''ecosia'' ''Ecosia'' ''008009''),
     (''siEcovacs'', SimpleIcon ''ecovacs'' ''Ecovacs'' ''1E384B''),
     (''siEdeka'', SimpleIcon ''edeka'' ''EDEKA'' ''1B66B3''),
     (''siEdgeimpulse'', SimpleIcon ''edgeimpulse'' ''Edge Impulse'' ''3B47C2''),
     (''siEditorconfig'', SimpleIcon ''editorconfig'' ''EditorConfig'' ''FEFEFE''),
     (''siEducative'', SimpleIcon ''educative'' ''Educative'' ''4951F5''),
     (''siEdx'', SimpleIcon ''edx'' ''edX'' ''02262B''),
     (''siEgghead'', SimpleIcon ''egghead'' ''egghead'' ''FCFBFA''),
     (''siEgnyte'', SimpleIcon ''egnyte'' ''Egnyte'' ''00968F''),
     (''siEight'', SimpleIcon ''eight'' ''Eight'' ''0054FF''),
     (''siEightsleep'', SimpleIcon ''eightsleep'' ''Eight Sleep'' ''262729''),
     (''siEjs'', SimpleIcon ''ejs'' ''EJS'' ''B4CA65''),
     (''siElastic'', SimpleIcon ''elastic'' ''Elastic'' ''005571''),
     (''siElasticcloud'', SimpleIcon ''elasticcloud'' ''Elastic Cloud'' ''005571'')]"

definition icons_17 :: "(string \<times> SimpleIcon) list" where
  "icons_17 =
    [(''siElasticstack'', SimpleIcon ''elasticstack'' ''Elastic Stack'' ''005571''),
     (''siElasticsearch'', SimpleIcon ''elasticsearch'' ''Elasticsearch'' ''005571''),
     (''siElavon'', SimpleIcon ''elavon'' ''Elavon'' ''0C2074''),
     (''siElectron'', SimpleIcon ''electron'' ''Electron'' ''47848F''),
     (''siElectronfiddle'', SimpleIcon ''electronfiddle'' ''Electron Fiddle'' ''E79537''),
     (''siElectronbuilder'', SimpleIcon ''electronbuilder'' ''electron-builder'' ''000000''),
     (''siElegoo'', SimpleIcon ''elegoo'' ''Elegoo'' ''2C3A83''),
     (''siElement'', SimpleIcon ''element'' ''Element'' ''0DBD8B''),
     (''siElementary'', SimpleIcon ''elementary'' ''elementary'' ''64BAFF''),
     (''siElementor'', SimpleIcon ''elementor'' ''Elementor'' ''92003B''),
     (''siElevenlabs'', SimpleIcon ''elevenlabs'' ''ElevenLabs'' ''000000''),
     (''siEleventy'', SimpleIcon ''eleventy'' ''Eleventy'' ''222222''),
     (''siElgato'', SimpleIcon ''elgato'' ''Elgato'' ''101010''),
     (''siElixir'', SimpleIcon ''elixir'' ''Elixir'' ''4B275F''),
     (''siElm'', SimpleIcon ''elm'' ''Elm'' ''1293D8''),
     (''siElsevier'', SimpleIcon ''elsevier'' ''Elsevier'' ''FF6C00''),
     (''siEmbarcadero'', SimpleIcon ''embarcadero'' ''Embarcadero'' ''ED1F35''),
     (''siEmbark'', SimpleIcon ''embark'' ''Embark'' ''000000''),
     (''siEmberdotjs'', SimpleIcon ''emberdotjs'' ''Ember.js'' ''E04E39''),
     (''siEmby'', SimpleIcon ''emby'' ''Emby'' ''52B54B''),
     (''siEmirates'', SimpleIcon ''emirates'' ''Emirates'' ''D71921''),
     (''siEmlakjet'', SimpleIcon ''emlakjet'' ''Emlakjet'' ''0AE524''),
     (''siEmpirekred'', SimpleIcon ''empirekred'' ''Empire Kred'' ''72BE50''),
     (''siEndeavouros'', SimpleIcon ''endeavouros'' ''EndeavourOS'' ''7F7FFF''),
     (''siEngadget'', SimpleIcon ''engadget'' ''Engadget'' ''000000''),
     (''siEnpass'', SimpleIcon ''enpass'' ''Enpass'' ''0D47A1''),
     (''siEnterprisedb'', SimpleIcon ''enterprisedb'' ''EnterpriseDB'' ''FF3E00''),
     (''siEnvato'', SimpleIcon ''envato'' ''Envato'' ''87E64B''),
     (''siEnvoyproxy'', SimpleIcon ''envoyproxy'' ''Envoy Proxy'' ''AC6199''),
     (''siEpel'', SimpleIcon ''epel'' ''EPEL'' ''FC0000''),
     (''siEpicgames'', SimpleIcon ''epicgames'' ''Epic Games'' ''313131''),
     (''siEpson'', SimpleIcon ''epson'' ''Epson'' ''003399''),
     (''siEquinixmetal'', SimpleIcon ''equinixmetal'' ''Equinix Metal'' ''ED2224''),
     (''siEraser'', SimpleIcon ''eraser'' ''Eraser'' ''EC2C40''),
     (''siEricsson'', SimpleIcon ''ericsson'' ''Ericsson'' ''0082F0''),
     (''siErlang'', SimpleIcon ''erlang'' ''Erlang'' ''A90533''),
     (''siErpnext'', SimpleIcon ''erpnext'' ''ERPNext'' ''0089FF''),
     (''siEsbuild'', SimpleIcon ''esbuild'' ''esbuild'' ''FFCF00''),
     (''siEsea'', SimpleIcon ''esea'' ''ESEA'' ''0E9648''),
     (''siEslgaming'', SimpleIcon ''eslgaming'' ''ESLGaming'' ''FFFF09''),
     (''siEslint'', SimpleIcon ''eslint'' ''ESLint'' ''4B32C3''),
     (''siEsotericsoftware'', SimpleIcon ''esotericsoftware'' ''Esoteric Software'' ''3FA9F5''),
     (''siEsphome'', SimpleIcon ''esphome'' ''ESPHome'' ''000000''),
     (''siEspressif'', SimpleIcon ''espressif'' ''Espressif'' ''E7352C''),
     (''siEsri'', SimpleIcon ''esri'' ''ESRI'' ''000000''),
     (''siEtcd'', SimpleIcon ''etcd'' ''etcd'' ''419EDA''),
     (''siEthereum'', SimpleIcon ''ethereum'' ''Ethereum'' ''3C3C3D''),
     (''siEthers'', SimpleIcon ''ethers'' ''Ethers'' ''2535A0''),
     (''siEthiopianairlines'', SimpleIcon ''ethiopianairlines'' ''Ethiopian Airlines'' ''648B1A''),
     (''siEtihadairways'', SimpleIcon ''etihadairways'' ''Etihad Airways'' ''BD8B13'')]"

definition icons_18 :: "(string \<times> SimpleIcon) list" where
  "icons_18 =
    [(''siEtsy'', SimpleIcon ''etsy'' ''Etsy'' ''F16521''),
     (''siEuropeanunion'', SimpleIcon ''europeanunion'' ''European Union'' ''003399''),
     (''siEventstore'', SimpleIcon ''eventstore'' ''Event Store'' ''5AB552''),
     (''siEventbrite'', SimpleIcon ''eventbrite'' ''Eventbrite'' ''F05537''),
     (''siEvernote'', SimpleIcon ''evernote'' ''Evernote'' ''00A82D''),
     (''siExcalidraw'', SimpleIcon ''excalidraw'' ''Excalidraw'' ''6965DB''),
     (''siExercism'', SimpleIcon ''exercism'' ''Exercism'' ''009CAB''),
     (''siExordo'', SimpleIcon ''exordo'' ''Exordo'' ''DAA449''),
     (''siExoscale'', SimpleIcon ''exoscale'' ''Exoscale'' ''DA291C''),
     (''siExpedia'', SimpleIcon ''expedia'' ''Expedia'' ''191E3B''),
     (''siExpensify'', SimpleIcon ''expensify'' ''Expensify'' ''0185FF''),
     (''siExpertsexchange'', SimpleIcon ''expertsexchange'' ''Experts Exchange'' ''00AAE7''),
     (''siExpo'', SimpleIcon ''expo'' ''Expo'' ''1C2024''),
     (''siExpress'', SimpleIcon ''express'' ''Express'' ''000000''),
     (''siExpressdotcom'', SimpleIcon ''expressdotcom'' ''Express.com'' ''000000''),
     (''siExpressvpn'', SimpleIcon ''expressvpn'' ''ExpressVPN'' ''DA3940''),
     (''siEyeem'', SimpleIcon ''eyeem'' ''EyeEm'' ''000000''),
     (''siFdroid'', SimpleIcon ''fdroid'' ''F-Droid'' ''1976D2''),
     (''siFsecure'', SimpleIcon ''fsecure'' ''F-Secure'' ''00BAFF''),
     (''siFsharp'', SimpleIcon ''fsharp'' ''F#'' ''378BBA''),
     (''siF1'', SimpleIcon ''f1'' ''F1'' ''E10600''),
     (''siF5'', SimpleIcon ''f5'' ''F5'' ''E4002B''),
     (''siFacebook'', SimpleIcon ''facebook'' ''Facebook'' ''0866FF''),
     (''siFacebookgaming'', SimpleIcon ''facebookgaming'' ''Facebook Gaming'' ''005FED''),
     (''siFacebooklive'', SimpleIcon ''facebooklive'' ''Facebook Live'' ''ED4242''),
     (''siFaceit'', SimpleIcon ''faceit'' ''FACEIT'' ''FF5500''),
     (''siFacepunch'', SimpleIcon ''facepunch'' ''Facepunch'' ''EC1C24''),
     (''siFairphone'', SimpleIcon ''fairphone'' ''Fairphone'' ''4495D1''),
     (''siFalco'', SimpleIcon ''falco'' ''Falco'' ''00AEC7''),
     (''siFalcon'', SimpleIcon ''falcon'' ''Falcon'' ''F0AD4E''),
     (''siFampay'', SimpleIcon ''fampay'' ''FamPay'' ''FFAD00''),
     (''siFandango'', SimpleIcon ''fandango'' ''Fandango'' ''FF7300''),
     (''siFandom'', SimpleIcon ''fandom'' ''Fandom'' ''FA005A''),
     (''siFanfou'', SimpleIcon ''fanfou'' ''Fanfou'' ''00CCFF''),
     (''siFantom'', SimpleIcon ''fantom'' ''Fantom'' ''0928FF''),
     (''siFarcaster'', SimpleIcon ''farcaster'' ''Farcaster'' ''855DCD''),
     (''siFareharbor'', SimpleIcon ''fareharbor'' ''FareHarbor'' ''0A6ECE''),
     (''siFarfetch'', SimpleIcon ''farfetch'' ''FARFETCH'' ''000000''),
     (''siFastapi'', SimpleIcon ''fastapi'' ''FastAPI'' ''009688''),
     (''siFastify'', SimpleIcon ''fastify'' ''Fastify'' ''000000''),
     (''siFastlane'', SimpleIcon ''fastlane'' ''Fastlane'' ''00F200''),
     (''siFastly'', SimpleIcon ''fastly'' ''Fastly'' ''FF282D''),
     (''siFathom'', SimpleIcon ''fathom'' ''Fathom'' ''9187FF''),
     (''siFauna'', SimpleIcon ''fauna'' ''Fauna'' ''3A1AB6''),
     (''siFavro'', SimpleIcon ''favro'' ''Favro'' ''512DA8''),
     (''siFcc'', SimpleIcon ''fcc'' ''FCC'' ''1C3664''),
     (''siFedex'', SimpleIcon ''fedex'' ''FedEx'' ''4D148C''),
     (''siFedora'', SimpleIcon ''fedora'' ''Fedora'' ''51A2DA''),
     (''siFeedly'', SimpleIcon ''feedly'' ''Feedly'' ''2BB24C''),
     (''siFerrari'', SimpleIcon ''ferrari'' ''Ferrari'' ''D40000'')]"

definition icons_19 :: "(string \<times> SimpleIcon) list" where
  "icons_19 =
    [(''siFerrarinv'', SimpleIcon ''ferrarinv'' ''Ferrari N.V.'' ''EB2E2C''),
     (''siFerretdb'', SimpleIcon ''ferretdb'' ''FerretDB'' ''042133''),
     (''siFfmpeg'', SimpleIcon ''ffmpeg'' ''FFmpeg'' ''007808''),
     (''siFi'', SimpleIcon ''fi'' ''Fi'' ''00B899''),
     (''siFiat'', SimpleIcon ''fiat'' ''Fiat'' ''941711''),
     (''siFidoalliance'', SimpleIcon ''fidoalliance'' ''Fido Alliance'' ''FFBF3B''),
     (''siFifa'', SimpleIcon ''fifa'' ''FIFA'' ''326295''),
     (''siFig'', SimpleIcon ''fig'' ''Fig'' ''000000''),
     (''siFigma'', SimpleIcon ''figma'' ''Figma'' ''F24E1E''),
     (''siFigshare'', SimpleIcon ''figshare'' ''figshare'' ''556472''),
     (''siFila'', SimpleIcon ''fila'' ''Fila'' ''002D62''),
     (''siFilament'', SimpleIcon ''filament'' ''Filament'' ''FDAE4B''),
     (''siFiledotio'', SimpleIcon ''filedotio'' ''File.io'' ''3D3C9D''),
     (''siFilen'', SimpleIcon ''filen'' ''Filen'' ''000000''),
     (''siFiles'', SimpleIcon ''files'' ''Files'' ''4285F4''),
     (''siFilezilla'', SimpleIcon ''filezilla'' ''FileZilla'' ''BF0000''),
     (''siFineco'', SimpleIcon ''fineco'' ''Fineco'' ''00549F''),
     (''siFing'', SimpleIcon ''fing'' ''Fing'' ''009AEE''),
     (''siFirebase'', SimpleIcon ''firebase'' ''Firebase'' ''DD2C00''),
     (''siFirefish'', SimpleIcon ''firefish'' ''Firefish'' ''F07A5B''),
     (''siFireflyiii'', SimpleIcon ''fireflyiii'' ''Firefly III'' ''CD5029''),
     (''siFirefox'', SimpleIcon ''firefox'' ''Firefox'' ''FF7139''),
     (''siFirefoxbrowser'', SimpleIcon ''firefoxbrowser'' ''Firefox Browser'' ''FF7139''),
     (''siFireship'', SimpleIcon ''fireship'' ''Fireship'' ''EB844E''),
     (''siFirewalla'', SimpleIcon ''firewalla'' ''Firewalla'' ''C8332D''),
     (''siFirst'', SimpleIcon ''first'' ''FIRST'' ''0066B3''),
     (''siFishshell'', SimpleIcon ''fishshell'' ''fish shell'' ''34C534''),
     (''siFitbit'', SimpleIcon ''fitbit'' ''Fitbit'' ''00B0B9''),
     (''siFivem'', SimpleIcon ''fivem'' ''FiveM'' ''F40552''),
     (''siFiverr'', SimpleIcon ''fiverr'' ''Fiverr'' ''1DBF73''),
     (''siFizz'', SimpleIcon ''fizz'' ''Fizz'' ''00D672''),
     (''siFlashforge'', SimpleIcon ''flashforge'' ''Flashforge'' ''000000''),
     (''siFlask'', SimpleIcon ''flask'' ''Flask'' ''000000''),
     (''siFlat'', SimpleIcon ''flat'' ''Flat'' ''3481FE''),
     (''siFlathub'', SimpleIcon ''flathub'' ''Flathub'' ''000000''),
     (''siFlatpak'', SimpleIcon ''flatpak'' ''Flatpak'' ''4A90D9''),
     (''siFlickr'', SimpleIcon ''flickr'' ''Flickr'' ''0063DC''),
     (''siFlightaware'', SimpleIcon ''flightaware'' ''Flightaware'' ''19315B''),
     (''siFlipboard'', SimpleIcon ''flipboard'' ''Flipboard'' ''E12828''),
     (''siFlipkart'', SimpleIcon ''flipkart'' ''Flipkart'' ''2874F0''),
     (''siFloatplane'', SimpleIcon ''floatplane'' ''Floatplane'' ''00AEEF''),
     (''siFlood'', SimpleIcon ''flood'' ''Flood'' ''4285F4''),
     (''siFluentbit'', SimpleIcon ''fluentbit'' ''Fluent Bit'' ''49BDA5''),
     (''siFluentd'', SimpleIcon ''fluentd'' ''Fluentd'' ''0E83C8''),
     (''siFluke'', SimpleIcon ''fluke'' ''Fluke'' ''FFC20E''),
     (''siFlutter'', SimpleIcon ''flutter'' ''Flutter'' ''02569B''),
     (''siFlux'', SimpleIcon ''flux'' ''Flux'' ''5468FF''),
     (''siFlydotio'', SimpleIcon ''flydotio'' ''Fly.io'' ''24175B''),
     (''siFlyway'', SimpleIcon ''flyway'' ''Flyway'' ''CC0200''),
     (''siFmod'', SimpleIcon ''fmod'' ''FMOD'' ''000000'')]"

definition icons_20 :: "(string \<times> SimpleIcon) list" where
  "icons_20 =
    [(''siFnac'', SimpleIcon ''fnac'' ''Fnac'' ''E1A925''),
     (''siFolium'', SimpleIcon ''folium'' ''Folium'' ''77B829''),
     (''siFonoma'', SimpleIcon ''fonoma'' ''Fonoma'' ''02B78F''),
     (''siFontawesome'', SimpleIcon ''fontawesome'' ''Font Awesome'' ''538DD7''),
     (''siFontbase'', SimpleIcon ''fontbase'' ''FontBase'' ''3D03A7''),
     (''siFontforge'', SimpleIcon ''fontforge'' ''FontForge'' ''F2712B''),
     (''siFoobar2000'', SimpleIcon ''foobar2000'' ''foobar2000'' ''000000''),
     (''siFoodpanda'', SimpleIcon ''foodpanda'' ''foodpanda'' ''D70F64''),
     (''siFord'', SimpleIcon ''ford'' ''Ford'' ''00274E''),
     (''siForgejo'', SimpleIcon ''forgejo'' ''Forgejo'' ''FB923C''),
     (''siFormik'', SimpleIcon ''formik'' ''Formik'' ''2563EB''),
     (''siFormspree'', SimpleIcon ''formspree'' ''Formspree'' ''E5122E''),
     (''siFormstack'', SimpleIcon ''formstack'' ''Formstack'' ''21B573''),
     (''siFortinet'', SimpleIcon ''fortinet'' ''Fortinet'' ''EE3124''),
     (''siFortran'', SimpleIcon ''fortran'' ''Fortran'' ''734F96''),
     (''siFossa'', SimpleIcon ''fossa'' ''Fossa'' ''289E6D''),
     (''siFossilscm'', SimpleIcon ''fossilscm'' ''Fossil SCM'' ''548294''),
     (''siFoundryvirtualtabletop'', SimpleIcon ''foundryvirtualtabletop'' ''Foundry Virtual Tabletop'' ''FE6A1F''),
     (''siFoursquare'', SimpleIcon ''foursquare'' ''Foursquare'' ''3333FF''),
     (''siFox'', SimpleIcon ''fox'' ''FOX'' ''000000''),
     (''siFoxtel'', SimpleIcon ''foxtel'' ''Foxtel'' ''EB5205''),
     (''siFozzy'', SimpleIcon ''fozzy'' ''Fozzy'' ''F15B29''),
     (''siFramer'', SimpleIcon ''framer'' ''Framer'' ''0055FF''),
     (''siFramework'', SimpleIcon ''framework'' ''Framework'' ''000000''),
     (''siFramework7'', SimpleIcon ''framework7'' ''Framework7'' ''EE350F''),
     (''siFranprix'', SimpleIcon ''franprix'' ''Franprix'' ''EC6237''),
     (''siFrappe'', SimpleIcon ''frappe'' ''Frappe'' ''0089FF''),
     (''siFraunhofergesellschaft'', SimpleIcon ''fraunhofergesellschaft'' ''Fraunhofer-Gesellschaft'' ''179C7D''),
     (''siFreebsd'', SimpleIcon ''freebsd'' ''FreeBSD'' ''AB2B28''),
     (''siFreecad'', SimpleIcon ''freecad'' ''FreeCAD'' ''729FCF''),
     (''siFreecodecamp'', SimpleIcon ''freecodecamp'' ''freeCodeCamp'' ''0A0A23''),
     (''siFreedesktopdotorg'', SimpleIcon ''freedesktopdotorg'' ''freedesktop.org'' ''3B80AE''),
     (''siFreelancer'', SimpleIcon ''freelancer'' ''Freelancer'' ''29B2FE''),
     (''siFreelancermap'', SimpleIcon ''freelancermap'' ''freelancermap'' ''00CFD6''),
     (''siFreenas'', SimpleIcon ''freenas'' ''FreeNAS'' ''343434''),
     (''siFreenet'', SimpleIcon ''freenet'' ''freenet'' ''84BC34''),
     (''siFreepik'', SimpleIcon ''freepik'' ''Freepik'' ''1273EB''),
     (''siFresh'', SimpleIcon ''fresh'' ''Fresh'' ''FFDB1E''),
     (''siFrontendmentor'', SimpleIcon ''frontendmentor'' ''Frontend Mentor'' ''3F54A3''),
     (''siFrontify'', SimpleIcon ''frontify'' ''Frontify'' ''2D3232''),
     (''siFubo'', SimpleIcon ''fubo'' ''Fubo'' ''C83D1E''),
     (''siFueler'', SimpleIcon ''fueler'' ''Fueler'' ''09C9E3''),
     (''siFugacloud'', SimpleIcon ''fugacloud'' ''Fuga Cloud'' ''242F4B''),
     (''siFujifilm'', SimpleIcon ''fujifilm'' ''Fujifilm'' ''FB0020''),
     (''siFujitsu'', SimpleIcon ''fujitsu'' ''Fujitsu'' ''FF0000''),
     (''siFuraffinity'', SimpleIcon ''furaffinity'' ''Fur Affinity'' ''36566F''),
     (''siFurrynetwork'', SimpleIcon ''furrynetwork'' ''Furry Network'' ''2E75B4''),
     (''siFusionauth'', SimpleIcon ''fusionauth'' ''FusionAuth'' ''F58320''),
     (''siFuturelearn'', SimpleIcon ''futurelearn'' ''FutureLearn'' ''DE00A5''),
     (''siFyle'', SimpleIcon ''fyle'' ''Fyle'' ''FF2E63'')]"

definition icons_21 :: "(string \<times> SimpleIcon) list" where
  "icons_21 =
    [(''siG2'', SimpleIcon ''g2'' ''G2'' ''FF492C''),
     (''siG2a'', SimpleIcon ''g2a'' ''G2A'' ''F05F00''),
     (''siG2g'', SimpleIcon ''g2g'' ''G2G'' ''ED1C24''),
     (''siGalaxus'', SimpleIcon ''galaxus'' ''Galaxus'' ''000000''),
     (''siGamedeveloper'', SimpleIcon ''gamedeveloper'' ''Game Developer'' ''E60012''),
     (''siGamejolt'', SimpleIcon ''gamejolt'' ''Game Jolt'' ''CCFF00''),
     (''siGamescience'', SimpleIcon ''gamescience'' ''Game Science'' ''000000''),
     (''siGamebanana'', SimpleIcon ''gamebanana'' ''GameBanana'' ''FCEF40''),
     (''siGameloft'', SimpleIcon ''gameloft'' ''Gameloft'' ''000000''),
     (''siGamemaker'', SimpleIcon ''gamemaker'' ''Gamemaker'' ''000000''),
     (''siGarmin'', SimpleIcon ''garmin'' ''Garmin'' ''000000''),
     (''siGatling'', SimpleIcon ''gatling'' ''Gatling'' ''FF9E2A''),
     (''siGatsby'', SimpleIcon ''gatsby'' ''Gatsby'' ''663399''),
     (''siGcore'', SimpleIcon ''gcore'' ''Gcore'' ''FF4C00''),
     (''siGdal'', SimpleIcon ''gdal'' ''GDAL'' ''5CAE58''),
     (''siGeeksforgeeks'', SimpleIcon ''geeksforgeeks'' ''GeeksforGeeks'' ''2F8D46''),
     (''siGeneralelectric'', SimpleIcon ''generalelectric'' ''General Electric'' ''0870D8''),
     (''siGeneralmotors'', SimpleIcon ''generalmotors'' ''General Motors'' ''0170CE''),
     (''siGenius'', SimpleIcon ''genius'' ''Genius'' ''FFFF64''),
     (''siGentoo'', SimpleIcon ''gentoo'' ''Gentoo'' ''54487A''),
     (''siGeocaching'', SimpleIcon ''geocaching'' ''Geocaching'' ''00874D''),
     (''siGeode'', SimpleIcon ''geode'' ''Geode'' ''8D7ACF''),
     (''siGeopandas'', SimpleIcon ''geopandas'' ''GeoPandas'' ''139C5A''),
     (''siGerrit'', SimpleIcon ''gerrit'' ''Gerrit'' ''EEEEEE''),
     (''siGetx'', SimpleIcon ''getx'' ''GetX'' ''8A2BE2''),
     (''siGhost'', SimpleIcon ''ghost'' ''Ghost'' ''15171A''),
     (''siGhostery'', SimpleIcon ''ghostery'' ''Ghostery'' ''00AEF0''),
     (''siGimp'', SimpleIcon ''gimp'' ''GIMP'' ''5C5543''),
     (''siGin'', SimpleIcon ''gin'' ''Gin'' ''008ECF''),
     (''siGiphy'', SimpleIcon ''giphy'' ''GIPHY'' ''FF6666''),
     (''siGit'', SimpleIcon ''git'' ''Git'' ''F05032''),
     (''siGitextensions'', SimpleIcon ''gitextensions'' ''Git Extensions'' ''212121''),
     (''siGitforwindows'', SimpleIcon ''gitforwindows'' ''Git for Windows'' ''80B3FF''),
     (''siGitlfs'', SimpleIcon ''gitlfs'' ''Git LFS'' ''F64935''),
     (''siGitbook'', SimpleIcon ''gitbook'' ''GitBook'' ''BBDDE5''),
     (''siGitconnected'', SimpleIcon ''gitconnected'' ''Gitconnected'' ''2E69AE''),
     (''siGitea'', SimpleIcon ''gitea'' ''Gitea'' ''609926''),
     (''siGitee'', SimpleIcon ''gitee'' ''Gitee'' ''C71D23''),
     (''siGithub'', SimpleIcon ''github'' ''GitHub'' ''181717''),
     (''siGithubactions'', SimpleIcon ''githubactions'' ''GitHub Actions'' ''2088FF''),
     (''siGithubcopilot'', SimpleIcon ''githubcopilot'' ''GitHub Copilot'' ''000000''),
     (''siGithubpages'', SimpleIcon ''githubpages'' ''GitHub Pages'' ''222222''),
     (''siGithubsponsors'', SimpleIcon ''githubsponsors'' ''GitHub Sponsors'' ''EA4AAA''),
     (''siGitignoredotio'', SimpleIcon ''gitignoredotio'' ''gitignore.io'' ''204ECF''),
     (''siGitkraken'', SimpleIcon ''gitkraken'' ''GitKraken'' ''179287''),
     (''siGitlab'', SimpleIcon ''gitlab'' ''GitLab'' ''FC6D26''),
     (''siGitpod'', SimpleIcon ''gitpod'' ''Gitpod'' ''FFAE33''),
     (''siGitter'', SimpleIcon ''gitter'' ''Gitter'' ''ED1965''),
     (''siGldotinet'', SimpleIcon ''gldotinet'' ''GL.iNet'' ''636363''),
     (''siGlassdoor'', SimpleIcon ''glassdoor'' ''Glassdoor'' ''00A162'')]"

definition icons_22 :: "(string \<times> SimpleIcon) list" where
  "icons_22 =
    [(''siGlide'', SimpleIcon ''glide'' ''Glide'' ''18BED4''),
     (''siGlitch'', SimpleIcon ''glitch'' ''Glitch'' ''3333FF''),
     (''siGlobus'', SimpleIcon ''globus'' ''Globus'' ''CA6201''),
     (''siGlovo'', SimpleIcon ''glovo'' ''Glovo'' ''F2CC38''),
     (''siGltf'', SimpleIcon ''gltf'' ''glTF'' ''87C540''),
     (''siGmail'', SimpleIcon ''gmail'' ''Gmail'' ''EA4335''),
     (''siGmx'', SimpleIcon ''gmx'' ''GMX'' ''1C449B''),
     (''siGnome'', SimpleIcon ''gnome'' ''GNOME'' ''4A86CF''),
     (''siGnometerminal'', SimpleIcon ''gnometerminal'' ''GNOME Terminal'' ''241F31''),
     (''siGnu'', SimpleIcon ''gnu'' ''GNU'' ''A42E2B''),
     (''siGnubash'', SimpleIcon ''gnubash'' ''GNU Bash'' ''4EAA25''),
     (''siGnuemacs'', SimpleIcon ''gnuemacs'' ''GNU Emacs'' ''7F5AB6''),
     (''siGnuicecat'', SimpleIcon ''gnuicecat'' ''GNU IceCat'' ''002F5B''),
     (''siGnuprivacyguard'', SimpleIcon ''gnuprivacyguard'' ''GNU Privacy Guard'' ''0093DD''),
     (''siGnusocial'', SimpleIcon ''gnusocial'' ''GNU social'' ''A22430''),
     (''siGo'', SimpleIcon ''go'' ''Go'' ''00ADD8''),
     (''siGocd'', SimpleIcon ''gocd'' ''GoCD'' ''94399E''),
     (''siGodaddy'', SimpleIcon ''godaddy'' ''GoDaddy'' ''1BDBDB''),
     (''siGodotengine'', SimpleIcon ''godotengine'' ''Godot Engine'' ''478CBF''),
     (''siGofundme'', SimpleIcon ''gofundme'' ''GoFundMe'' ''00B964''),
     (''siGogdotcom'', SimpleIcon ''gogdotcom'' ''GOG.com'' ''86328A''),
     (''siGojek'', SimpleIcon ''gojek'' ''Gojek'' ''00AA13''),
     (''siGoland'', SimpleIcon ''goland'' ''GoLand'' ''000000''),
     (''siGoldenline'', SimpleIcon ''goldenline'' ''GoldenLine'' ''FFE005''),
     (''siGoldmansachs'', SimpleIcon ''goldmansachs'' ''Goldman Sachs'' ''7399C6''),
     (''siGoodreads'', SimpleIcon ''goodreads'' ''Goodreads'' ''372213''),
     (''siGoogle'', SimpleIcon ''google'' ''Google'' ''4285F4''),
     (''siGoogleadmob'', SimpleIcon ''googleadmob'' ''Google AdMob'' ''EA4335''),
     (''siGoogleads'', SimpleIcon ''googleads'' ''Google Ads'' ''4285F4''),
     (''siGoogleadsense'', SimpleIcon ''googleadsense'' ''Google AdSense'' ''4285F4''),
     (''siGoogleanalytics'', SimpleIcon ''googleanalytics'' ''Google Analytics'' ''E37400''),
     (''siGoogleappsscript'', SimpleIcon ''googleappsscript'' ''Google Apps Script'' ''4285F4''),
     (''siGoogleassistant'', SimpleIcon ''googleassistant'' ''Google Assistant'' ''4285F4''),
     (''siGoogleauthenticator'', SimpleIcon ''googleauthenticator'' ''Google Authenticator'' ''4285F4''),
     (''siGooglebigquery'', SimpleIcon ''googlebigquery'' ''Google BigQuery'' ''669DF6''),
     (''siGooglebigtable'', SimpleIcon ''googlebigtable'' ''Google Bigtable'' ''669DF6''),
     (''siGooglecalendar'', SimpleIcon ''googlecalendar'' ''Google Calendar'' ''4285F4''),
     (''siGooglecampaignmanager360'', SimpleIcon ''googlecampaignmanager360'' ''Google Campaign Manager 360'' ''1E8E3E''),
     (''siGooglecardboard'', SimpleIcon ''googlecardboard'' ''Google Cardboard'' ''FF7143''),
     (''siGooglechat'', SimpleIcon ''googlechat'' ''Google Chat'' ''34A853''),
     (''siGooglechrome'', SimpleIcon ''googlechrome'' ''Google Chrome'' ''4285F4''),
     (''siGooglechronicle'', SimpleIcon ''googlechronicle'' ''Google Chronicle'' ''4285F4''),
     (''siGoogleclassroom'', SimpleIcon ''googleclassroom'' ''Google Classroom'' ''0F9D58''),
     (''siGooglecloud'', SimpleIcon ''googlecloud'' ''Google Cloud'' ''4285F4''),
     (''siGooglecloudcomposer'', SimpleIcon ''googlecloudcomposer'' ''Google Cloud Composer'' ''4285F4''),
     (''siGooglecloudspanner'', SimpleIcon ''googlecloudspanner'' ''Google Cloud Spanner'' ''4285F4''),
     (''siGooglecloudstorage'', SimpleIcon ''googlecloudstorage'' ''Google Cloud Storage'' ''AECBFA''),
     (''siGooglecolab'', SimpleIcon ''googlecolab'' ''Google Colab'' ''F9AB00''),
     (''siGooglecontaineroptimizedos'', SimpleIcon ''googlecontaineroptimizedos'' ''Google Container Optimized OS'' ''4285F4''),
     (''siGoogledatastudio'', SimpleIcon ''googledatastudio'' ''Google Data Studio'' ''669DF6'')]"

definition icons_23 :: "(string \<times> SimpleIcon) list" where
  "icons_23 =
    [(''siGoogledataflow'', SimpleIcon ''googledataflow'' ''Google Dataflow'' ''AECBFA''),
     (''siGoogledataproc'', SimpleIcon ''googledataproc'' ''Google Dataproc'' ''AECBFA''),
     (''siGoogledisplayandvideo360'', SimpleIcon ''googledisplayandvideo360'' ''Google Display &amp; Video 360'' ''34A853''),
     (''siGoogledocs'', SimpleIcon ''googledocs'' ''Google Docs'' ''4285F4''),
     (''siGoogledrive'', SimpleIcon ''googledrive'' ''Google Drive'' ''4285F4''),
     (''siGoogleearth'', SimpleIcon ''googleearth'' ''Google Earth'' ''4285F4''),
     (''siGoogleearthengine'', SimpleIcon ''googleearthengine'' ''Google Earth Engine'' ''4285F4''),
     (''siGooglefit'', SimpleIcon ''googlefit'' ''Google Fit'' ''4285F4''),
     (''siGooglefonts'', SimpleIcon ''googlefonts'' ''Google Fonts'' ''4285F4''),
     (''siGoogleforms'', SimpleIcon ''googleforms'' ''Google Forms'' ''7248B9''),
     (''siGooglegemini'', SimpleIcon ''googlegemini'' ''Google Gemini'' ''8E75B2''),
     (''siGooglehome'', SimpleIcon ''googlehome'' ''Google Home'' ''4285F4''),
     (''siGooglekeep'', SimpleIcon ''googlekeep'' ''Google Keep'' ''FFBB00''),
     (''siGooglelens'', SimpleIcon ''googlelens'' ''Google Lens'' ''4285F4''),
     (''siGooglemaps'', SimpleIcon ''googlemaps'' ''Google Maps'' ''4285F4''),
     (''siGooglemarketingplatform'', SimpleIcon ''googlemarketingplatform'' ''Google Marketing Platform'' ''4285F4''),
     (''siGooglemeet'', SimpleIcon ''googlemeet'' ''Google Meet'' ''00897B''),
     (''siGooglemessages'', SimpleIcon ''googlemessages'' ''Google Messages'' ''1A73E8''),
     (''siGooglenearby'', SimpleIcon ''googlenearby'' ''Google Nearby'' ''4285F4''),
     (''siGooglenews'', SimpleIcon ''googlenews'' ''Google News'' ''174EA6''),
     (''siGooglepay'', SimpleIcon ''googlepay'' ''Google Pay'' ''4285F4''),
     (''siGooglephotos'', SimpleIcon ''googlephotos'' ''Google Photos'' ''4285F4''),
     (''siGoogleplay'', SimpleIcon ''googleplay'' ''Google Play'' ''414141''),
     (''siGooglepubsub'', SimpleIcon ''googlepubsub'' ''Google Pub/Sub'' ''AECBFA''),
     (''siGooglescholar'', SimpleIcon ''googlescholar'' ''Google Scholar'' ''4285F4''),
     (''siGooglesearchconsole'', SimpleIcon ''googlesearchconsole'' ''Google Search Console'' ''458CF5''),
     (''siGooglesheets'', SimpleIcon ''googlesheets'' ''Google Sheets'' ''34A853''),
     (''siGoogleslides'', SimpleIcon ''googleslides'' ''Google Slides'' ''FBBC04''),
     (''siGooglestreetview'', SimpleIcon ''googlestreetview'' ''Google Street View'' ''FEC111''),
     (''siGoogletagmanager'', SimpleIcon ''googletagmanager'' ''Google Tag Manager'' ''246FDB''),
     (''siGoogletasks'', SimpleIcon ''googletasks'' ''Google Tasks'' ''2684FC''),
     (''siGoogletranslate'', SimpleIcon ''googletranslate'' ''Google Translate'' ''4285F4''),
     (''siGotomeeting'', SimpleIcon ''gotomeeting'' ''GoToMeeting'' ''F68D2E''),
     (''siGrab'', SimpleIcon ''grab'' ''Grab'' ''00B14F''),
     (''siGradio'', SimpleIcon ''gradio'' ''Gradio'' ''F97316''),
     (''siGradle'', SimpleIcon ''gradle'' ''Gradle'' ''02303A''),
     (''siGradleplaypublisher'', SimpleIcon ''gradleplaypublisher'' ''Gradle Play Publisher'' ''82B816''),
     (''siGrafana'', SimpleIcon ''grafana'' ''Grafana'' ''F46800''),
     (''siGrammarly'', SimpleIcon ''grammarly'' ''Grammarly'' ''027E6F''),
     (''siGrandfrais'', SimpleIcon ''grandfrais'' ''Grand Frais'' ''ED2D2F''),
     (''siGrapheneos'', SimpleIcon ''grapheneos'' ''GrapheneOS'' ''0053A3''),
     (''siGraphite'', SimpleIcon ''graphite'' ''Graphite'' ''000000''),
     (''siGraphql'', SimpleIcon ''graphql'' ''GraphQL'' ''E10098''),
     (''siGrav'', SimpleIcon ''grav'' ''Grav'' ''221E1F''),
     (''siGravatar'', SimpleIcon ''gravatar'' ''Gravatar'' ''1E8CBE''),
     (''siGraylog'', SimpleIcon ''graylog'' ''Graylog'' ''FF3633''),
     (''siGreasyfork'', SimpleIcon ''greasyfork'' ''Greasy Fork'' ''670000''),
     (''siGreatlearning'', SimpleIcon ''greatlearning'' ''Great Learning'' ''0E39A9''),
     (''siGreenhouse'', SimpleIcon ''greenhouse'' ''Greenhouse'' ''24A47F''),
     (''siGreensock'', SimpleIcon ''greensock'' ''GreenSock'' ''88CE02'')]"

definition icons_24 :: "(string \<times> SimpleIcon) list" where
  "icons_24 =
    [(''siGriddotai'', SimpleIcon ''griddotai'' ''Grid.ai'' ''78FF96''),
     (''siGridsome'', SimpleIcon ''gridsome'' ''Gridsome'' ''00A672''),
     (''siGrocy'', SimpleIcon ''grocy'' ''Grocy'' ''337AB7''),
     (''siGroupme'', SimpleIcon ''groupme'' ''GroupMe'' ''00AFF0''),
     (''siGroupon'', SimpleIcon ''groupon'' ''Groupon'' ''53A318''),
     (''siGrubhub'', SimpleIcon ''grubhub'' ''Grubhub'' ''F63440''),
     (''siGrunt'', SimpleIcon ''grunt'' ''Grunt'' ''FAA918''),
     (''siGsk'', SimpleIcon ''gsk'' ''GSK'' ''F36633''),
     (''siGsmarenadotcom'', SimpleIcon ''gsmarenadotcom'' ''GSMArena.com'' ''D50000''),
     (''siGstreamer'', SimpleIcon ''gstreamer'' ''GStreamer'' ''FF3131''),
     (''siGtk'', SimpleIcon ''gtk'' ''GTK'' ''7FE719''),
     (''siGuangzhoumetro'', SimpleIcon ''guangzhoumetro'' ''Guangzhou Metro'' ''C51935''),
     (''siGuilded'', SimpleIcon ''guilded'' ''Guilded'' ''F5C400''),
     (''siGuitarpro'', SimpleIcon ''guitarpro'' ''Guitar Pro'' ''569FFF''),
     (''siGulp'', SimpleIcon ''gulp'' ''gulp'' ''CF4647''),
     (''siGumroad'', SimpleIcon ''gumroad'' ''Gumroad'' ''FF90E8''),
     (''siGumtree'', SimpleIcon ''gumtree'' ''Gumtree'' ''72EF36''),
     (''siGunicorn'', SimpleIcon ''gunicorn'' ''Gunicorn'' ''499848''),
     (''siGurobi'', SimpleIcon ''gurobi'' ''Gurobi'' ''EE3524''),
     (''siGusto'', SimpleIcon ''gusto'' ''Gusto'' ''F45D48''),
     (''siGutenberg'', SimpleIcon ''gutenberg'' ''Gutenberg'' ''000000''),
     (''siHandm'', SimpleIcon ''handm'' ''H&amp;M'' ''E50010''),
     (''siH3'', SimpleIcon ''h3'' ''H3'' ''1E54B7''),
     (''siHabr'', SimpleIcon ''habr'' ''Habr'' ''65A3BE''),
     (''siHackclub'', SimpleIcon ''hackclub'' ''Hack Club'' ''EC3750''),
     (''siHackthebox'', SimpleIcon ''hackthebox'' ''Hack The Box'' ''9FEF00''),
     (''siHackaday'', SimpleIcon ''hackaday'' ''Hackaday'' ''1A1A1A''),
     (''siHackernoon'', SimpleIcon ''hackernoon'' ''Hacker Noon'' ''00FE00''),
     (''siHackerearth'', SimpleIcon ''hackerearth'' ''HackerEarth'' ''2C3454''),
     (''siHackerone'', SimpleIcon ''hackerone'' ''HackerOne'' ''494649''),
     (''siHackerrank'', SimpleIcon ''hackerrank'' ''HackerRank'' ''00EA64''),
     (''siHackster'', SimpleIcon ''hackster'' ''Hackster'' ''2E9FE6''),
     (''siHal'', SimpleIcon ''hal'' ''HAL'' ''B03532''),
     (''siHandlebarsdotjs'', SimpleIcon ''handlebarsdotjs'' ''Handlebars.js'' ''000000''),
     (''siHandshake'', SimpleIcon ''handshake'' ''Handshake'' ''D3FB52''),
     (''siHandshake_protocol'', SimpleIcon ''handshake_protocol'' ''Handshake'' ''000000''),
     (''siHappycow'', SimpleIcon ''happycow'' ''HappyCow'' ''7C4EC4''),
     (''siHarbor'', SimpleIcon ''harbor'' ''Harbor'' ''60B932''),
     (''siHarmonyos'', SimpleIcon ''harmonyos'' ''HarmonyOS'' ''000000''),
     (''siHashicorp'', SimpleIcon ''hashicorp'' ''HashiCorp'' ''000000''),
     (''siHashnode'', SimpleIcon ''hashnode'' ''Hashnode'' ''2962FF''),
     (''siHaskell'', SimpleIcon ''haskell'' ''Haskell'' ''5D4F85''),
     (''siHasura'', SimpleIcon ''hasura'' ''Hasura'' ''1EB4D4''),
     (''siHatenabookmark'', SimpleIcon ''hatenabookmark'' ''Hatena Bookmark'' ''00A4DE''),
     (''siHaveibeenpwned'', SimpleIcon ''haveibeenpwned'' ''haveibeenpwned'' ''2A6379''),
     (''siHaxe'', SimpleIcon ''haxe'' ''Haxe'' ''EA8220''),
     (''siHbo'', SimpleIcon ''hbo'' ''HBO'' ''000000''),
     (''siHcl'', SimpleIcon ''hcl'' ''HCL'' ''006BB6''),
     (''siHdfcbank'', SimpleIcon ''hdfcbank'' ''HDFC Bank'' ''004B8D''),
     (''siHeadlessui'', SimpleIcon ''headlessui'' ''Headless UI'' ''66E3FF'')]"

definition icons_25 :: "(string \<times> SimpleIcon) list" where
  "icons_25 =
    [(''siHeadphonezone'', SimpleIcon ''headphonezone'' ''Headphone Zone'' ''3C07FF''),
     (''siHeadspace'', SimpleIcon ''headspace'' ''Headspace'' ''F47D31''),
     (''siHearth'', SimpleIcon ''hearth'' ''Hearth'' ''A33035''),
     (''siHearthisdotat'', SimpleIcon ''hearthisdotat'' ''hearthis.at'' ''000000''),
     (''siHedera'', SimpleIcon ''hedera'' ''Hedera'' ''222222''),
     (''siHelium'', SimpleIcon ''helium'' ''Helium'' ''0ACF83''),
     (''siHelix'', SimpleIcon ''helix'' ''Helix'' ''281733''),
     (''siHellofresh'', SimpleIcon ''hellofresh'' ''HelloFresh'' ''99CC33''),
     (''siHellyhansen'', SimpleIcon ''hellyhansen'' ''Helly Hansen'' ''DA2128''),
     (''siHelm'', SimpleIcon ''helm'' ''Helm'' ''0F1689''),
     (''siHelpscout'', SimpleIcon ''helpscout'' ''Help Scout'' ''1292EE''),
     (''siHelpdesk'', SimpleIcon ''helpdesk'' ''HelpDesk'' ''2FC774''),
     (''siHepsiemlak'', SimpleIcon ''hepsiemlak'' ''Hepsiemlak'' ''E1251B''),
     (''siHere'', SimpleIcon ''here'' ''HERE'' ''00AFAA''),
     (''siHermes'', SimpleIcon ''hermes'' ''Hermes'' ''0091CD''),
     (''siHeroku'', SimpleIcon ''heroku'' ''Heroku'' ''430098''),
     (''siHetzner'', SimpleIcon ''hetzner'' ''Hetzner'' ''D50C2D''),
     (''siHevy'', SimpleIcon ''hevy'' ''Hevy'' ''000000''),
     (''siHexlet'', SimpleIcon ''hexlet'' ''Hexlet'' ''116EF5''),
     (''siHexo'', SimpleIcon ''hexo'' ''Hexo'' ''0E83CD''),
     (''siHey'', SimpleIcon ''hey'' ''HEY'' ''5522FA''),
     (''siHibob'', SimpleIcon ''hibob'' ''Hi Bob'' ''E42C51''),
     (''siHibernate'', SimpleIcon ''hibernate'' ''Hibernate'' ''59666C''),
     (''siHilton'', SimpleIcon ''hilton'' ''Hilton'' ''231F20''),
     (''siHiltonhotelsandresorts'', SimpleIcon ''hiltonhotelsandresorts'' ''Hilton Hotels &amp; Resorts'' ''1E4380''),
     (''siHitachi'', SimpleIcon ''hitachi'' ''Hitachi'' ''E60027''),
     (''siHive'', SimpleIcon ''hive'' ''Hive'' ''FF7A00''),
     (''siHive_blockchain'', SimpleIcon ''hive_blockchain'' ''Hive'' ''E31337''),
     (''siHivemq'', SimpleIcon ''hivemq'' ''HiveMQ'' ''FFC000''),
     (''siHomarr'', SimpleIcon ''homarr'' ''Homarr'' ''FA5252''),
     (''siHomeassistant'', SimpleIcon ''homeassistant'' ''Home Assistant'' ''18BCF2''),
     (''siHomeassistantcommunitystore'', SimpleIcon ''homeassistantcommunitystore'' ''Home Assistant Community Store'' ''41BDF5''),
     (''siHomeadvisor'', SimpleIcon ''homeadvisor'' ''HomeAdvisor'' ''F68315''),
     (''siHomebrew'', SimpleIcon ''homebrew'' ''Homebrew'' ''FBB040''),
     (''siHomebridge'', SimpleIcon ''homebridge'' ''Homebridge'' ''491F59''),
     (''siHomepage'', SimpleIcon ''homepage'' ''Homepage'' ''009BD5''),
     (''siHomify'', SimpleIcon ''homify'' ''homify'' ''7DCDA3''),
     (''siHonda'', SimpleIcon ''honda'' ''Honda'' ''E40521''),
     (''siHoney'', SimpleIcon ''honey'' ''Honey'' ''FF6801''),
     (''siHoneybadger'', SimpleIcon ''honeybadger'' ''Honeybadger'' ''EA5937''),
     (''siHoneygain'', SimpleIcon ''honeygain'' ''Honeygain'' ''F9C900''),
     (''siHono'', SimpleIcon ''hono'' ''Hono'' ''E36002''),
     (''siHonor'', SimpleIcon ''honor'' ''Honor'' ''000000''),
     (''siHootsuite'', SimpleIcon ''hootsuite'' ''Hootsuite'' ''FF4C46''),
     (''siHoppscotch'', SimpleIcon ''hoppscotch'' ''Hoppscotch'' ''09090B''),
     (''siHostinger'', SimpleIcon ''hostinger'' ''Hostinger'' ''673DE6''),
     (''siHotelsdotcom'', SimpleIcon ''hotelsdotcom'' ''Hotels.com'' ''EF3346''),
     (''siHotjar'', SimpleIcon ''hotjar'' ''Hotjar'' ''FF3C00''),
     (''siHotwire'', SimpleIcon ''hotwire'' ''Hotwire'' ''FFE801''),
     (''siHoudini'', SimpleIcon ''houdini'' ''Houdini'' ''FF4713'')]"

definition icons_26 :: "(string \<times> SimpleIcon) list" where
  "icons_26 =
    [(''siHouzz'', SimpleIcon ''houzz'' ''Houzz'' ''4DBC15''),
     (''siHp'', SimpleIcon ''hp'' ''HP'' ''0096D6''),
     (''siHsbc'', SimpleIcon ''hsbc'' ''HSBC'' ''DB0011''),
     (''siHtc'', SimpleIcon ''htc'' ''HTC'' ''A5CF4C''),
     (''siHtcvive'', SimpleIcon ''htcvive'' ''HTC Vive'' ''00B2E3''),
     (''siHtmlacademy'', SimpleIcon ''htmlacademy'' ''HTML Academy'' ''302683''),
     (''siHtml5'', SimpleIcon ''html5'' ''HTML5'' ''E34F26''),
     (''siHtmx'', SimpleIcon ''htmx'' ''htmx'' ''3366CC''),
     (''siHtop'', SimpleIcon ''htop'' ''htop'' ''009020''),
     (''siHttpie'', SimpleIcon ''httpie'' ''HTTPie'' ''73DC8C''),
     (''siHuawei'', SimpleIcon ''huawei'' ''Huawei'' ''FF0000''),
     (''siHubspot'', SimpleIcon ''hubspot'' ''HubSpot'' ''FF7A59''),
     (''siHuggingface'', SimpleIcon ''huggingface'' ''Hugging Face'' ''FFD21E''),
     (''siHugo'', SimpleIcon ''hugo'' ''Hugo'' ''FF4088''),
     (''siHumblebundle'', SimpleIcon ''humblebundle'' ''Humble Bundle'' ''CC2929''),
     (''siHumhub'', SimpleIcon ''humhub'' ''HumHub'' ''1B8291''),
     (''siHungryjacks'', SimpleIcon ''hungryjacks'' (''Hungry Jack'' @ [CHR 0x27] @ ''s'') ''D0021B''),
     (''siHusqvarna'', SimpleIcon ''husqvarna'' ''Husqvarna'' ''273A60''),
     (''siHyper'', SimpleIcon ''hyper'' ''Hyper'' ''000000''),
     (''siHyperskill'', SimpleIcon ''hyperskill'' ''Hyperskill'' ''8C5AFF''),
     (''siHyperx'', SimpleIcon ''hyperx'' ''HyperX'' ''E21836''),
     (''siHypothesis'', SimpleIcon ''hypothesis'' ''Hypothesis'' ''BD1C2B''),
     (''siHyprland'', SimpleIcon ''hyprland'' ''Hyprland'' ''58E1FF''),
     (''siHyundai'', SimpleIcon ''hyundai'' ''Hyundai'' ''002C5E''),
     (''siI18next'', SimpleIcon ''i18next'' ''i18next'' ''26A69A''),
     (''siI3'', SimpleIcon ''i3'' ''i3'' ''52C0FF''),
     (''siIata'', SimpleIcon ''iata'' ''Iata'' ''004E81''),
     (''siIbeacon'', SimpleIcon ''ibeacon'' ''iBeacon'' ''3D7EBB''),
     (''siIberia'', SimpleIcon ''iberia'' ''Iberia'' ''D7192D''),
     (''siIced'', SimpleIcon ''iced'' ''Iced'' ''3645FF''),
     (''siIceland'', SimpleIcon ''iceland'' ''Iceland'' ''CC092F''),
     (''siIcicibank'', SimpleIcon ''icicibank'' ''ICICI Bank'' ''AE282E''),
     (''siIcinga'', SimpleIcon ''icinga'' ''Icinga'' ''06062C''),
     (''siIcloud'', SimpleIcon ''icloud'' ''iCloud'' ''3693F3''),
     (''siIcomoon'', SimpleIcon ''icomoon'' ''IcoMoon'' ''825794''),
     (''siIcon'', SimpleIcon ''icon'' ''ICON'' ''31B8BB''),
     (''siIconfinder'', SimpleIcon ''iconfinder'' ''Iconfinder'' ''1A1B1F''),
     (''siIconify'', SimpleIcon ''iconify'' ''Iconify'' ''1769AA''),
     (''siIconjar'', SimpleIcon ''iconjar'' ''IconJar'' ''16A5F3''),
     (''siIcons8'', SimpleIcon ''icons8'' ''Icons8'' ''1FB141''),
     (''siIcq'', SimpleIcon ''icq'' ''ICQ'' ''24FF00''),
     (''siIeee'', SimpleIcon ''ieee'' ''IEEE'' ''00629B''),
     (''siIfixit'', SimpleIcon ''ifixit'' ''iFixit'' ''0071CE''),
     (''siIfood'', SimpleIcon ''ifood'' ''iFood'' ''EA1D2C''),
     (''siIfttt'', SimpleIcon ''ifttt'' ''IFTTT'' ''000000''),
     (''siIgdb'', SimpleIcon ''igdb'' ''IGDB'' ''9147FF''),
     (''siIgn'', SimpleIcon ''ign'' ''IGN'' ''BF1313''),
     (''siIheartradio'', SimpleIcon ''iheartradio'' ''iHeartRadio'' ''C6002B''),
     (''siIkea'', SimpleIcon ''ikea'' ''IKEA'' ''0058A3''),
     (''siIledefrancemobilites'', SimpleIcon ''iledefrancemobilites'' ''&#206;le-de-France Mobilit&#233;s'' ''67B4E7'')]"

definition icons_27 :: "(string \<times> SimpleIcon) list" where
  "icons_27 =
    [(''siImagedotsc'', SimpleIcon ''imagedotsc'' ''Image.sc'' ''039CB2''),
     (''siImagej'', SimpleIcon ''imagej'' ''ImageJ'' ''00D8E0''),
     (''siImdb'', SimpleIcon ''imdb'' ''IMDb'' ''F5C518''),
     (''siImessage'', SimpleIcon ''imessage'' ''iMessage'' ''34DA50''),
     (''siImgur'', SimpleIcon ''imgur'' ''Imgur'' ''1BB76E''),
     (''siImmer'', SimpleIcon ''immer'' ''Immer'' ''00E7C3''),
     (''siImmich'', SimpleIcon ''immich'' ''Immich'' ''4250AF''),
     (''siImou'', SimpleIcon ''imou'' ''Imou'' ''E89313''),
     (''siImprovmx'', SimpleIcon ''improvmx'' ''ImprovMX'' ''2FBEFF''),
     (''siIndeed'', SimpleIcon ''indeed'' ''Indeed'' ''003A9B''),
     (''siIndiansuperleague'', SimpleIcon ''indiansuperleague'' ''Indian Super League'' ''ED2F21''),
     (''siIndiehackers'', SimpleIcon ''indiehackers'' ''Indie Hackers'' ''0E2439''),
     (''siIndigo'', SimpleIcon ''indigo'' ''IndiGo'' ''09009B''),
     (''siInductiveautomation'', SimpleIcon ''inductiveautomation'' ''Inductive Automation'' ''445C6D''),
     (''siInertia'', SimpleIcon ''inertia'' ''Inertia'' ''9553E9''),
     (''siInfiniti'', SimpleIcon ''infiniti'' ''INFINITI'' ''020B24''),
     (''siInfluxdb'', SimpleIcon ''influxdb'' ''InfluxDB'' ''22ADF6''),
     (''siInfomaniak'', SimpleIcon ''infomaniak'' ''Infomaniak'' ''0098FF''),
     (''siInfoq'', SimpleIcon ''infoq'' ''InfoQ'' ''2C6CAF''),
     (''siInformatica'', SimpleIcon ''informatica'' ''Informatica'' ''FF4D00''),
     (''siInfosys'', SimpleIcon ''infosys'' ''Infosys'' ''007CC3''),
     (''siInfracost'', SimpleIcon ''infracost'' ''Infracost'' ''DB44B8''),
     (''siIngress'', SimpleIcon ''ingress'' ''Ingress'' ''783CBD''),
     (''siInkdrop'', SimpleIcon ''inkdrop'' ''Inkdrop'' ''7A78D7''),
     (''siInkscape'', SimpleIcon ''inkscape'' ''Inkscape'' ''000000''),
     (''siInoreader'', SimpleIcon ''inoreader'' ''Inoreader'' ''1875F3''),
     (''siInsomnia'', SimpleIcon ''insomnia'' ''Insomnia'' ''4000BF''),
     (''siInspire'', SimpleIcon ''inspire'' ''INSPIRE'' ''00E5FF''),
     (''siInsta360'', SimpleIcon ''insta360'' ''Insta360'' ''FFEE00''),
     (''siInstacart'', SimpleIcon ''instacart'' ''Instacart'' ''43B02A''),
     (''siInstagram'', SimpleIcon ''instagram'' ''Instagram'' ''FF0069''),
     (''siInstapaper'', SimpleIcon ''instapaper'' ''Instapaper'' ''1F1F1F''),
     (''siInstatus'', SimpleIcon ''instatus'' ''Instatus'' ''4EE3C2''),
     (''siInstructables'', SimpleIcon ''instructables'' ''Instructables'' ''FABF15''),
     (''siInstructure'', SimpleIcon ''instructure'' ''Instructure'' ''2A7BA0''),
     (''siIntel'', SimpleIcon ''intel'' ''Intel'' ''0071C5''),
     (''siIntellijidea'', SimpleIcon ''intellijidea'' ''IntelliJ IDEA'' ''000000''),
     (''siInteractiondesignfoundation'', SimpleIcon ''interactiondesignfoundation'' ''Interaction Design Foundation'' ''2B2B2B''),
     (''siInteractjs'', SimpleIcon ''interactjs'' ''InteractJS'' ''2599ED''),
     (''siInterbase'', SimpleIcon ''interbase'' ''Interbase'' ''E62431''),
     (''siIntercom'', SimpleIcon ''intercom'' ''Intercom'' ''6AFDEF''),
     (''siIntermarche'', SimpleIcon ''intermarche'' ''Intermarche'' ''E2001A''),
     (''siInternetarchive'', SimpleIcon ''internetarchive'' ''Internet Archive'' ''666666''),
     (''siInternetcomputer'', SimpleIcon ''internetcomputer'' ''Internet Computer'' ''3B00B9''),
     (''siIntigriti'', SimpleIcon ''intigriti'' ''Intigriti'' ''161A36''),
     (''siIntuit'', SimpleIcon ''intuit'' ''Intuit'' ''236CFF''),
     (''siInvision'', SimpleIcon ''invision'' ''InVision'' ''FF3366''),
     (''siInvoiceninja'', SimpleIcon ''invoiceninja'' ''Invoice Ninja'' ''000000''),
     (''siIobroker'', SimpleIcon ''iobroker'' ''ioBroker'' ''3399CC''),
     (''siIonic'', SimpleIcon ''ionic'' ''Ionic'' ''3880FF'')]"

definition icons_28 :: "(string \<times> SimpleIcon) list" where
  "icons_28 =
    [(''siIonos'', SimpleIcon ''ionos'' ''Ionos'' ''003D8F''),
     (''siIos'', SimpleIcon ''ios'' ''iOS'' ''000000''),
     (''siIota'', SimpleIcon ''iota'' ''IOTA'' ''131F37''),
     (''siIpfs'', SimpleIcon ''ipfs'' ''IPFS'' ''65C2CB''),
     (''siIris'', SimpleIcon ''iris'' ''IRIS'' ''25313C''),
     (''siIrobot'', SimpleIcon ''irobot'' ''iRobot'' ''6CB86A''),
     (''siIsc2'', SimpleIcon ''isc2'' ''ISC2'' ''468145''),
     (''siIssuu'', SimpleIcon ''issuu'' ''Issuu'' ''F36D5D''),
     (''siIstio'', SimpleIcon ''istio'' ''Istio'' ''466BB0''),
     (''siItchdotio'', SimpleIcon ''itchdotio'' ''Itch.io'' ''FA5C5C''),
     (''siIterm2'', SimpleIcon ''iterm2'' ''iTerm2'' ''000000''),
     (''siItunes'', SimpleIcon ''itunes'' ''iTunes'' ''FB5BC5''),
     (''siItvx'', SimpleIcon ''itvx'' ''ITVx'' ''DEEB52''),
     (''siIveco'', SimpleIcon ''iveco'' ''IVECO'' ''1554FF''),
     (''siJabber'', SimpleIcon ''jabber'' ''Jabber'' ''CC0000''),
     (''siJaeger'', SimpleIcon ''jaeger'' ''Jaeger'' ''66CFE3''),
     (''siJaguar'', SimpleIcon ''jaguar'' ''Jaguar'' ''FFFFFF''),
     (''siJamboard'', SimpleIcon ''jamboard'' ''Jamboard'' ''F37C20''),
     (''siJameson'', SimpleIcon ''jameson'' ''Jameson'' ''004027''),
     (''siJamstack'', SimpleIcon ''jamstack'' ''Jamstack'' ''F0047F''),
     (''siJapanairlines'', SimpleIcon ''japanairlines'' ''Japan Airlines'' ''C00000''),
     (''siJasmine'', SimpleIcon ''jasmine'' ''Jasmine'' ''8A4182''),
     (''siJavascript'', SimpleIcon ''javascript'' ''JavaScript'' ''F7DF1E''),
     (''siJbl'', SimpleIcon ''jbl'' ''JBL'' ''FF3300''),
     (''siJcb'', SimpleIcon ''jcb'' ''JCB'' ''0B4EA2''),
     (''siJeep'', SimpleIcon ''jeep'' ''Jeep'' ''000000''),
     (''siJekyll'', SimpleIcon ''jekyll'' ''Jekyll'' ''CC0000''),
     (''siJellyfin'', SimpleIcon ''jellyfin'' ''Jellyfin'' ''00A4DC''),
     (''siJenkins'', SimpleIcon ''jenkins'' ''Jenkins'' ''D24939''),
     (''siJest'', SimpleIcon ''jest'' ''Jest'' ''C21325''),
     (''siJet'', SimpleIcon ''jet'' ''JET'' ''FBBA00''),
     (''siJetblue'', SimpleIcon ''jetblue'' ''JetBlue'' ''001E59''),
     (''siJetbrains'', SimpleIcon ''jetbrains'' ''JetBrains'' ''000000''),
     (''siJetpackcompose'', SimpleIcon ''jetpackcompose'' ''Jetpack Compose'' ''4285F4''),
     (''siJfrog'', SimpleIcon ''jfrog'' ''JFrog'' ''40BE46''),
     (''siJfrogpipelines'', SimpleIcon ''jfrogpipelines'' ''JFrog Pipelines'' ''40BE46''),
     (''siJhipster'', SimpleIcon ''jhipster'' ''JHipster'' ''3E8ACC''),
     (''siJinja'', SimpleIcon ''jinja'' ''Jinja'' ''B41717''),
     (''siJio'', SimpleIcon ''jio'' ''Jio'' ''0A2885''),
     (''siJira'', SimpleIcon ''jira'' ''Jira'' ''0052CC''),
     (''siJirasoftware'', SimpleIcon ''jirasoftware'' ''Jira Software'' ''0052CC''),
     (''siJitpack'', SimpleIcon ''jitpack'' ''JitPack'' ''000000''),
     (''siJitsi'', SimpleIcon ''jitsi'' ''Jitsi'' ''97979A''),
     (''siJohndeere'', SimpleIcon ''johndeere'' ''John Deere'' ''367C2B''),
     (''siJoomla'', SimpleIcon ''joomla'' ''Joomla'' ''5091CD''),
     (''siJoplin'', SimpleIcon ''joplin'' ''Joplin'' ''1071D3''),
     (''siJordan'', SimpleIcon ''jordan'' ''Jordan'' ''000000''),
     (''siJouav'', SimpleIcon ''jouav'' ''JOUAV'' ''E1B133''),
     (''siJovian'', SimpleIcon ''jovian'' ''Jovian'' ''0D61FF''),
     (''siJpeg'', SimpleIcon ''jpeg'' ''JPEG'' ''8A8A8A'')]"

definition icons_29 :: "(string \<times> SimpleIcon) list" where
  "icons_29 =
    [(''siJquery'', SimpleIcon ''jquery'' ''jQuery'' ''0769AD''),
     (''siJrgroup'', SimpleIcon ''jrgroup'' ''JR Group'' ''44AF35''),
     (''siJsdelivr'', SimpleIcon ''jsdelivr'' ''jsDelivr'' ''E84D3D''),
     (''siJsfiddle'', SimpleIcon ''jsfiddle'' ''JSFiddle'' ''0084FF''),
     (''siJson'', SimpleIcon ''json'' ''JSON'' ''000000''),
     (''siJsonwebtokens'', SimpleIcon ''jsonwebtokens'' ''JSON Web Tokens'' ''000000''),
     (''siJsr'', SimpleIcon ''jsr'' ''JSR'' ''F7DF1E''),
     (''siJss'', SimpleIcon ''jss'' ''JSS'' ''F7DF1E''),
     (''siJuce'', SimpleIcon ''juce'' ''JUCE'' ''8DC63F''),
     (''siJuejin'', SimpleIcon ''juejin'' ''Juejin'' ''007FFF''),
     (''siJuke'', SimpleIcon ''juke'' ''JUKE'' ''6CD74A''),
     (''siJulia'', SimpleIcon ''julia'' ''Julia'' ''9558B2''),
     (''siJunipernetworks'', SimpleIcon ''junipernetworks'' ''Juniper Networks'' ''84B135''),
     (''siJunit5'', SimpleIcon ''junit5'' ''JUnit5'' ''25A162''),
     (''siJupyter'', SimpleIcon ''jupyter'' ''Jupyter'' ''F37626''),
     (''siJusteat'', SimpleIcon ''justeat'' ''Just Eat'' ''F36D00''),
     (''siJustgiving'', SimpleIcon ''justgiving'' ''JustGiving'' ''AD29B6''),
     (''siK3s'', SimpleIcon ''k3s'' ''K3s'' ''FFC61C''),
     (''siK6'', SimpleIcon ''k6'' ''k6'' ''7D64FF''),
     (''siKaggle'', SimpleIcon ''kaggle'' ''Kaggle'' ''20BEFF''),
     (''siKagi'', SimpleIcon ''kagi'' ''Kagi'' ''FFB319''),
     (''siKahoot'', SimpleIcon ''kahoot'' ''Kahoot!'' ''46178F''),
     (''siKaios'', SimpleIcon ''kaios'' ''KaiOS'' ''6F02B5''),
     (''siKakao'', SimpleIcon ''kakao'' ''Kakao'' ''FFCD00''),
     (''siKakaotalk'', SimpleIcon ''kakaotalk'' ''KakaoTalk'' ''FFCD00''),
     (''siKalilinux'', SimpleIcon ''kalilinux'' ''Kali Linux'' ''557C94''),
     (''siKamailio'', SimpleIcon ''kamailio'' ''Kamailio'' ''506365''),
     (''siKaniko'', SimpleIcon ''kaniko'' ''Kaniko'' ''FFA600''),
     (''siKarlsruherverkehrsverbund'', SimpleIcon ''karlsruherverkehrsverbund'' ''Karlsruher Verkehrsverbund'' ''9B2321''),
     (''siKasasmart'', SimpleIcon ''kasasmart'' ''Kasa Smart'' ''4ACBD6''),
     (''siKashflow'', SimpleIcon ''kashflow'' ''KashFlow'' ''E5426E''),
     (''siKaspersky'', SimpleIcon ''kaspersky'' ''Kaspersky'' ''006D5C''),
     (''siKatana'', SimpleIcon ''katana'' ''Katana'' ''000000''),
     (''siKaufland'', SimpleIcon ''kaufland'' ''Kaufland'' ''E10915''),
     (''siKde'', SimpleIcon ''kde'' ''KDE'' ''1D99F3''),
     (''siKdeplasma'', SimpleIcon ''kdeplasma'' ''KDE Plasma'' ''1D99F3''),
     (''siKdenlive'', SimpleIcon ''kdenlive'' ''Kdenlive'' ''527EB2''),
     (''siKedro'', SimpleIcon ''kedro'' ''Kedro'' ''FFC900''),
     (''siKeenetic'', SimpleIcon ''keenetic'' ''Keenetic'' ''009EE2''),
     (''siKeepachangelog'', SimpleIcon ''keepachangelog'' ''Keep a Changelog'' ''E05735''),
     (''siKeepassxc'', SimpleIcon ''keepassxc'' ''KeePassXC'' ''6CAC4D''),
     (''siKeeper'', SimpleIcon ''keeper'' ''Keeper'' ''FFC700''),
     (''siKeeweb'', SimpleIcon ''keeweb'' ''KeeWeb'' ''528BFF''),
     (''siKentico'', SimpleIcon ''kentico'' ''Kentico'' ''F05A22''),
     (''siKeras'', SimpleIcon ''keras'' ''Keras'' ''D00000''),
     (''siKeybase'', SimpleIcon ''keybase'' ''Keybase'' ''33A0FF''),
     (''siKeycdn'', SimpleIcon ''keycdn'' ''KeyCDN'' ''047AED''),
     (''siKeycloak'', SimpleIcon ''keycloak'' ''Keycloak'' ''4D4D4D''),
     (''siKeystone'', SimpleIcon ''keystone'' ''Keystone'' ''166BFF''),
     (''siKfc'', SimpleIcon ''kfc'' ''KFC'' ''F40027'')]"

definition icons_30 :: "(string \<times> SimpleIcon) list" where
  "icons_30 =
    [(''siKhanacademy'', SimpleIcon ''khanacademy'' ''Khan Academy'' ''14BF96''),
     (''siKhronosgroup'', SimpleIcon ''khronosgroup'' ''Khronos Group'' ''CC3333''),
     (''siKia'', SimpleIcon ''kia'' ''Kia'' ''05141F''),
     (''siKibana'', SimpleIcon ''kibana'' ''Kibana'' ''005571''),
     (''siKicad'', SimpleIcon ''kicad'' ''KiCad'' ''314CB0''),
     (''siKick'', SimpleIcon ''kick'' ''Kick'' ''53FC19''),
     (''siKickstarter'', SimpleIcon ''kickstarter'' ''Kickstarter'' ''05CE78''),
     (''siKik'', SimpleIcon ''kik'' ''Kik'' ''82BC23''),
     (''siKingstontechnology'', SimpleIcon ''kingstontechnology'' ''Kingston Technology'' ''000000''),
     (''siKinopoisk'', SimpleIcon ''kinopoisk'' ''Kinopoisk'' ''FF5500''),
     (''siKinsta'', SimpleIcon ''kinsta'' ''Kinsta'' ''5333ED''),
     (''siKirby'', SimpleIcon ''kirby'' ''Kirby'' ''000000''),
     (''siKit'', SimpleIcon ''kit'' ''Kit'' ''000000''),
     (''siKitsu'', SimpleIcon ''kitsu'' ''Kitsu'' ''FD755C''),
     (''siKlarna'', SimpleIcon ''klarna'' ''Klarna'' ''FFB3C7''),
     (''siKleinanzeigen'', SimpleIcon ''kleinanzeigen'' ''Kleinanzeigen'' ''1D4B00''),
     (''siKlm'', SimpleIcon ''klm'' ''KLM'' ''00A1DE''),
     (''siKlook'', SimpleIcon ''klook'' ''Klook'' ''FF5722''),
     (''siKnative'', SimpleIcon ''knative'' ''Knative'' ''0865AD''),
     (''siKnexdotjs'', SimpleIcon ''knexdotjs'' ''Knex.js'' ''D26B38''),
     (''siKnime'', SimpleIcon ''knime'' ''KNIME'' ''FDD800''),
     (''siKnip'', SimpleIcon ''knip'' ''Knip'' ''F56E0F''),
     (''siKnowledgebase'', SimpleIcon ''knowledgebase'' ''KnowledgeBase'' ''9146FF''),
     (''siKnown'', SimpleIcon ''known'' ''Known'' ''333333''),
     (''siKofi'', SimpleIcon ''kofi'' ''Ko-fi'' ''FF6433''),
     (''siKoa'', SimpleIcon ''koa'' ''Koa'' ''33333D''),
     (''siKoc'', SimpleIcon ''koc'' ''Koc'' ''F9423A''),
     (''siKodak'', SimpleIcon ''kodak'' ''Kodak'' ''ED0000''),
     (''siKodi'', SimpleIcon ''kodi'' ''Kodi'' ''17B2E7''),
     (''siKoenigsegg'', SimpleIcon ''koenigsegg'' ''Koenigsegg'' ''000000''),
     (''siKofax'', SimpleIcon ''kofax'' ''Kofax'' ''00558C''),
     (''siKomoot'', SimpleIcon ''komoot'' ''Komoot'' ''6AA127''),
     (''siKonami'', SimpleIcon ''konami'' ''Konami'' ''B60014''),
     (''siKong'', SimpleIcon ''kong'' ''Kong'' ''003459''),
     (''siKongregate'', SimpleIcon ''kongregate'' ''Kongregate'' ''F04438''),
     (''siKonva'', SimpleIcon ''konva'' ''Konva'' ''0D83CD''),
     (''siKotlin'', SimpleIcon ''kotlin'' ''Kotlin'' ''7F52FF''),
     (''siKoyeb'', SimpleIcon ''koyeb'' ''Koyeb'' ''121212''),
     (''siKrita'', SimpleIcon ''krita'' ''Krita'' ''3BABFF''),
     (''siKtm'', SimpleIcon ''ktm'' ''KTM'' ''FF6600''),
     (''siKtor'', SimpleIcon ''ktor'' ''Ktor'' ''087CFA''),
     (''siKuaishou'', SimpleIcon ''kuaishou'' ''Kuaishou'' ''FF4906''),
     (''siKubernetes'', SimpleIcon ''kubernetes'' ''Kubernetes'' ''326CE5''),
     (''siKubuntu'', SimpleIcon ''kubuntu'' ''Kubuntu'' ''0079C1''),
     (''siKucoin'', SimpleIcon ''kucoin'' ''KuCoin'' ''01BC8D''),
     (''siKueski'', SimpleIcon ''kueski'' ''Kueski'' ''0075FF''),
     (''siKuma'', SimpleIcon ''kuma'' ''Kuma'' ''290B53''),
     (''siKununu'', SimpleIcon ''kununu'' ''Kununu'' ''FFC62E''),
     (''siKuula'', SimpleIcon ''kuula'' ''Kuula'' ''4092B4''),
     (''siKx'', SimpleIcon ''kx'' ''KX'' ''101820'')]"

definition icons_31 :: "(string \<times> SimpleIcon) list" where
  "icons_31 =
    [(''siKyocera'', SimpleIcon ''kyocera'' ''Kyocera'' ''DF0522''),
     (''siLequipe'', SimpleIcon ''lequipe'' (''L'' @ [CHR 0x27] @ ''&#201;quipe'') ''E42829''),
     (''siLabview'', SimpleIcon ''labview'' ''LabVIEW'' ''FFDB00''),
     (''siLada'', SimpleIcon ''lada'' ''LADA'' ''ED6B21''),
     (''siLamborghini'', SimpleIcon ''lamborghini'' ''Lamborghini'' ''B6A272''),
     (''siLandrover'', SimpleIcon ''landrover'' ''Land Rover'' ''005A2B''),
     (''siLangchain'', SimpleIcon ''langchain'' ''LangChain'' ''1C3C3C''),
     (''siLangflow'', SimpleIcon ''langflow'' ''Langflow'' ''000000''),
     (''siLanggraph'', SimpleIcon ''langgraph'' ''LangGraph'' ''1C3C3C''),
     (''siLanguagetool'', SimpleIcon ''languagetool'' ''LanguageTool'' ''45A1FC''),
     (''siLapce'', SimpleIcon ''lapce'' ''Lapce'' ''3B82F6''),
     (''siLaragon'', SimpleIcon ''laragon'' ''Laragon'' ''0E83CD''),
     (''siLaravel'', SimpleIcon ''laravel'' ''Laravel'' ''FF2D20''),
     (''siLaravelhorizon'', SimpleIcon ''laravelhorizon'' ''Laravel Horizon'' ''405263''),
     (''siLaravelnova'', SimpleIcon ''laravelnova'' ''Laravel Nova'' ''252D37''),
     (''siLastdotfm'', SimpleIcon ''lastdotfm'' ''Last.fm'' ''D51007''),
     (''siLastpass'', SimpleIcon ''lastpass'' ''LastPass'' ''D32D27''),
     (''siLatex'', SimpleIcon ''latex'' ''LaTeX'' ''008080''),
     (''siLaunchpad'', SimpleIcon ''launchpad'' ''Launchpad'' ''F8C300''),
     (''siLazarus'', SimpleIcon ''lazarus'' ''Lazarus'' ''000000''),
     (''siLazyvim'', SimpleIcon ''lazyvim'' ''LazyVim'' ''2E7DE9''),
     (''siLbry'', SimpleIcon ''lbry'' ''LBRY'' ''2F9176''),
     (''siLeaderprice'', SimpleIcon ''leaderprice'' ''Leader Price'' ''E50005''),
     (''siLeaflet'', SimpleIcon ''leaflet'' ''Leaflet'' ''199900''),
     (''siLeagueoflegends'', SimpleIcon ''leagueoflegends'' ''League of Legends'' ''C28F2C''),
     (''siLeanpub'', SimpleIcon ''leanpub'' ''Leanpub'' ''262425''),
     (''siLeetcode'', SimpleIcon ''leetcode'' ''LeetCode'' ''FFA116''),
     (''siLefthook'', SimpleIcon ''lefthook'' ''Lefthook'' ''FF1E1E''),
     (''siLegacygames'', SimpleIcon ''legacygames'' ''Legacy Games'' ''144B9E''),
     (''siLeica'', SimpleIcon ''leica'' ''Leica'' ''E20612''),
     (''siLemmy'', SimpleIcon ''lemmy'' ''Lemmy'' ''000000''),
     (''siLemonsqueezy'', SimpleIcon ''lemonsqueezy'' ''Lemon Squeezy'' ''FFC233''),
     (''siLenovo'', SimpleIcon ''lenovo'' ''Lenovo'' ''E2231A''),
     (''siLens'', SimpleIcon ''lens'' ''Lens'' ''3D90CE''),
     (''siLeptos'', SimpleIcon ''leptos'' ''Leptos'' ''EF3939''),
     (''siLerna'', SimpleIcon ''lerna'' ''Lerna'' ''C084FC''),
     (''siLeroymerlin'', SimpleIcon ''leroymerlin'' ''Leroy Merlin'' ''78BE20''),
     (''siLeslibraires'', SimpleIcon ''leslibraires'' ''Les libraires'' ''CF4A0C''),
     (''siLess'', SimpleIcon ''less'' ''Less'' ''1D365D''),
     (''siLetsencrypt'', SimpleIcon ''letsencrypt'' (''Let'' @ [CHR 0x27] @ ''s Encrypt'') ''003A70''),
     (''siLetterboxd'', SimpleIcon ''letterboxd'' ''Letterboxd'' ''202830''),
     (''siLevelsdotfyi'', SimpleIcon ''levelsdotfyi'' ''levels.fyi'' ''788B95''),
     (''siLg'', SimpleIcon ''lg'' ''LG'' ''A50034''),
     (''siLining'', SimpleIcon ''lining'' ''Li-Ning'' ''C5242C''),
     (''siLiberadotchat'', SimpleIcon ''liberadotchat'' ''Libera.Chat'' ''FF55DD''),
     (''siLiberapay'', SimpleIcon ''liberapay'' ''Liberapay'' ''F6C915''),
     (''siLibrariesdotio'', SimpleIcon ''librariesdotio'' ''Libraries.io'' ''337AB7''),
     (''siLibrarything'', SimpleIcon ''librarything'' ''LibraryThing'' ''251A15''),
     (''siLibreoffice'', SimpleIcon ''libreoffice'' ''LibreOffice'' ''18A303''),
     (''siLibreofficebase'', SimpleIcon ''libreofficebase'' ''LibreOffice Base'' ''7324A9'')]"

definition icons_32 :: "(string \<times> SimpleIcon) list" where
  "icons_32 =
    [(''siLibreofficecalc'', SimpleIcon ''libreofficecalc'' ''LibreOffice Calc'' ''007C3C''),
     (''siLibreofficedraw'', SimpleIcon ''libreofficedraw'' ''LibreOffice Draw'' ''CB6D30''),
     (''siLibreofficeimpress'', SimpleIcon ''libreofficeimpress'' ''LibreOffice Impress'' ''D0120D''),
     (''siLibreofficemath'', SimpleIcon ''libreofficemath'' ''LibreOffice Math'' ''C10018''),
     (''siLibreofficewriter'', SimpleIcon ''libreofficewriter'' ''LibreOffice Writer'' ''083FA6''),
     (''siLibretranslate'', SimpleIcon ''libretranslate'' ''LibreTranslate'' ''1565C0''),
     (''siLibretube'', SimpleIcon ''libretube'' ''LibreTube'' ''FF9699''),
     (''siLibrewolf'', SimpleIcon ''librewolf'' ''LibreWolf'' ''00ACFF''),
     (''siLibuv'', SimpleIcon ''libuv'' ''libuv'' ''403C3D''),
     (''siLichess'', SimpleIcon ''lichess'' ''Lichess'' ''000000''),
     (''siLidl'', SimpleIcon ''lidl'' ''Lidl'' ''0050AA''),
     (''siLifx'', SimpleIcon ''lifx'' ''LIFX'' ''000000''),
     (''siLightburn'', SimpleIcon ''lightburn'' ''LightBurn'' ''57182D''),
     (''siLighthouse'', SimpleIcon ''lighthouse'' ''Lighthouse'' ''F44B21''),
     (''siLightning'', SimpleIcon ''lightning'' ''Lightning'' ''792EE5''),
     (''siLimesurvey'', SimpleIcon ''limesurvey'' ''LimeSurvey'' ''14AE5C''),
     (''siLine'', SimpleIcon ''line'' ''LINE'' ''00C300''),
     (''siLineageos'', SimpleIcon ''lineageos'' ''LineageOS'' ''167C80''),
     (''siLinear'', SimpleIcon ''linear'' ''Linear'' ''5E6AD2''),
     (''siLinkerd'', SimpleIcon ''linkerd'' ''Linkerd'' ''2BEDA7''),
     (''siLinkfire'', SimpleIcon ''linkfire'' ''Linkfire'' ''FF3850''),
     (''siLinksys'', SimpleIcon ''linksys'' ''Linksys'' ''000000''),
     (''siLinktree'', SimpleIcon ''linktree'' ''Linktree'' ''43E55E''),
     (''siLinphone'', SimpleIcon ''linphone'' ''Linphone'' ''FF5E00''),
     (''siLintcode'', SimpleIcon ''lintcode'' ''LintCode'' ''13B4FF''),
     (''siLinux'', SimpleIcon ''linux'' ''Linux'' ''FCC624''),
     (''siLinuxcontainers'', SimpleIcon ''linuxcontainers'' ''Linux Containers'' ''333333''),
     (''siLinuxfoundation'', SimpleIcon ''linuxfoundation'' ''Linux Foundation'' ''003778''),
     (''siLinuxmint'', SimpleIcon ''linuxmint'' ''Linux Mint'' ''86BE43''),
     (''siLinuxprofessionalinstitute'', SimpleIcon ''linuxprofessionalinstitute'' ''Linux Professional Institute'' ''FDC300''),
     (''siLinuxserver'', SimpleIcon ''linuxserver'' ''LinuxServer'' ''DA3B8A''),
     (''siLionair'', SimpleIcon ''lionair'' ''Lion Air'' ''ED3237''),
     (''siLiquibase'', SimpleIcon ''liquibase'' ''Liquibase'' ''2962FF''),
     (''siListmonk'', SimpleIcon ''listmonk'' ''listmonk'' ''0055D4''),
     (''siLit'', SimpleIcon ''lit'' ''Lit'' ''324FFF''),
     (''siLitecoin'', SimpleIcon ''litecoin'' ''Litecoin'' ''A6A9AA''),
     (''siLiteral'', SimpleIcon ''literal'' ''Literal'' ''000000''),
     (''siLitiengine'', SimpleIcon ''litiengine'' ''LITIENGINE'' ''00A5BC''),
     (''siLivechat'', SimpleIcon ''livechat'' ''LiveChat'' ''FF5100''),
     (''siLivejournal'', SimpleIcon ''livejournal'' ''LiveJournal'' ''00B0EA''),
     (''siLivewire'', SimpleIcon ''livewire'' ''Livewire'' ''4E56A6''),
     (''siLlvm'', SimpleIcon ''llvm'' ''LLVM'' ''262D3A''),
     (''siLmms'', SimpleIcon ''lmms'' ''LMMS'' ''10B146''),
     (''siLobsters'', SimpleIcon ''lobsters'' ''Lobsters'' ''AC130D''),
     (''siLocal'', SimpleIcon ''local'' ''Local'' ''51BB7B''),
     (''siLodash'', SimpleIcon ''lodash'' ''Lodash'' ''3492FF''),
     (''siLogitech'', SimpleIcon ''logitech'' ''Logitech'' ''00B8FC''),
     (''siLogitechg'', SimpleIcon ''logitechg'' ''Logitech G'' ''00B8FC''),
     (''siLogmein'', SimpleIcon ''logmein'' ''LogMeIn'' ''45B6F2''),
     (''siLogseq'', SimpleIcon ''logseq'' ''Logseq'' ''85C8C8'')]"

definition icons_33 :: "(string \<times> SimpleIcon) list" where
  "icons_33 =
    [(''siLogstash'', SimpleIcon ''logstash'' ''Logstash'' ''005571''),
     (''siLooker'', SimpleIcon ''looker'' ''Looker'' ''4285F4''),
     (''siLoom'', SimpleIcon ''loom'' ''Loom'' ''625DF5''),
     (''siLoop'', SimpleIcon ''loop'' ''Loop'' ''F29400''),
     (''siLoopback'', SimpleIcon ''loopback'' ''LoopBack'' ''3F5DFF''),
     (''siLootcrate'', SimpleIcon ''lootcrate'' ''Loot Crate'' ''1E1E1E''),
     (''siLospec'', SimpleIcon ''lospec'' ''Lospec'' ''EAEAEA''),
     (''siLotpolishairlines'', SimpleIcon ''lotpolishairlines'' ''LOT Polish Airlines'' ''11397E''),
     (''siLottiefiles'', SimpleIcon ''lottiefiles'' ''LottieFiles'' ''00DDB3''),
     (''siLtspice'', SimpleIcon ''ltspice'' ''LTspice'' ''900028''),
     (''siLua'', SimpleIcon ''lua'' ''Lua'' ''2C2D72''),
     (''siLubuntu'', SimpleIcon ''lubuntu'' ''Lubuntu'' ''0068C8''),
     (''siLucia'', SimpleIcon ''lucia'' ''Lucia'' ''5F57FF''),
     (''siLucid'', SimpleIcon ''lucid'' ''Lucid'' ''282C33''),
     (''siLucide'', SimpleIcon ''lucide'' ''Lucide'' ''F56565''),
     (''siLudwig'', SimpleIcon ''ludwig'' ''Ludwig'' ''FFFFFF''),
     (''siLufthansa'', SimpleIcon ''lufthansa'' ''Lufthansa'' ''05164D''),
     (''siLumen'', SimpleIcon ''lumen'' ''Lumen'' ''E74430''),
     (''siLunacy'', SimpleIcon ''lunacy'' ''Lunacy'' ''179DE3''),
     (''siLutris'', SimpleIcon ''lutris'' ''Lutris'' ''FF9900''),
     (''siLvgl'', SimpleIcon ''lvgl'' ''LVGL'' ''343839''),
     (''siLydia'', SimpleIcon ''lydia'' ''Lydia'' ''0180FF''),
     (''siLyft'', SimpleIcon ''lyft'' ''Lyft'' ''FF00BF''),
     (''siMaas'', SimpleIcon ''maas'' ''MAAS'' ''E95420''),
     (''siMacos'', SimpleIcon ''macos'' ''macOS'' ''000000''),
     (''siMacpaw'', SimpleIcon ''macpaw'' ''MacPaw'' ''000000''),
     (''siMacys'', SimpleIcon ''macys'' (''Macy'' @ [CHR 0x27] @ ''s'') ''E21A2C''),
     (''siMagasinsu'', SimpleIcon ''magasinsu'' ''Magasins U'' ''E71B34''),
     (''siMagic'', SimpleIcon ''magic'' ''Magic'' ''6851FF''),
     (''siMagisk'', SimpleIcon ''magisk'' ''Magisk'' ''00AF9C''),
     (''siMahindra'', SimpleIcon ''mahindra'' ''Mahindra'' ''DD052B''),
     (''siMaildotcom'', SimpleIcon ''maildotcom'' ''mail.com'' ''004788''),
     (''siMaildotru'', SimpleIcon ''maildotru'' ''Mail.Ru'' ''005FF9''),
     (''siMailboxdotorg'', SimpleIcon ''mailboxdotorg'' ''mailbox.org'' ''76BB21''),
     (''siMailchimp'', SimpleIcon ''mailchimp'' ''MailChimp'' ''FFE01B''),
     (''siMailgun'', SimpleIcon ''mailgun'' ''Mailgun'' ''F06B66''),
     (''siMailtrap'', SimpleIcon ''mailtrap'' ''Mailtrap'' ''22D172''),
     (''siMainwp'', SimpleIcon ''mainwp'' ''MainWP'' ''7FB100''),
     (''siMajorleaguehacking'', SimpleIcon ''majorleaguehacking'' ''Major League Hacking'' ''265A8F''),
     (''siMake'', SimpleIcon ''make'' ''Make'' ''6D00CC''),
     (''siMakerbot'', SimpleIcon ''makerbot'' ''MakerBot'' ''FF1E0D''),
     (''siMalt'', SimpleIcon ''malt'' ''Malt'' ''FC5757''),
     (''siMalwarebytes'', SimpleIcon ''malwarebytes'' ''Malwarebytes'' ''0D3ECC''),
     (''siMambaui'', SimpleIcon ''mambaui'' ''Mamba UI'' ''6D28D9''),
     (''siMamp'', SimpleIcon ''mamp'' ''MAMP'' ''02749C''),
     (''siMan'', SimpleIcon ''man'' ''MAN'' ''E40045''),
     (''siManageiq'', SimpleIcon ''manageiq'' ''ManageIQ'' ''EF2929''),
     (''siManjaro'', SimpleIcon ''manjaro'' ''Manjaro'' ''35BF5C''),
     (''siMantine'', SimpleIcon ''mantine'' ''Mantine'' ''339AF0''),
     (''siMapbox'', SimpleIcon ''mapbox'' ''Mapbox'' ''000000'')]"

definition icons_34 :: "(string \<times> SimpleIcon) list" where
  "icons_34 =
    [(''siMapillary'', SimpleIcon ''mapillary'' ''Mapillary'' ''00AF66''),
     (''siMaplibre'', SimpleIcon ''maplibre'' ''MapLibre'' ''396CB2''),
     (''siMaptiler'', SimpleIcon ''maptiler'' ''MapTiler'' ''323357''),
     (''siMariadb'', SimpleIcon ''mariadb'' ''MariaDB'' ''003545''),
     (''siMariadbfoundation'', SimpleIcon ''mariadbfoundation'' ''MariaDB Foundation'' ''1F305F''),
     (''siMarkdown'', SimpleIcon ''markdown'' ''Markdown'' ''000000''),
     (''siMarko'', SimpleIcon ''marko'' ''Marko'' ''2596BE''),
     (''siMarriott'', SimpleIcon ''marriott'' ''Marriott'' ''A70023''),
     (''siMarvelapp'', SimpleIcon ''marvelapp'' ''MarvelApp'' ''1FB6FF''),
     (''siMaserati'', SimpleIcon ''maserati'' ''Maserati'' ''0C2340''),
     (''siMastercard'', SimpleIcon ''mastercard'' ''MasterCard'' ''EB001B''),
     (''siMastercomfig'', SimpleIcon ''mastercomfig'' ''mastercomfig'' ''009688''),
     (''siMastodon'', SimpleIcon ''mastodon'' ''Mastodon'' ''6364FF''),
     (''siMaterialdesign'', SimpleIcon ''materialdesign'' ''Material Design'' ''757575''),
     (''siMaterialdesignicons'', SimpleIcon ''materialdesignicons'' ''Material Design Icons'' ''2196F3''),
     (''siMaterialformkdocs'', SimpleIcon ''materialformkdocs'' ''Material for MkDocs'' ''526CFE''),
     (''siMatillion'', SimpleIcon ''matillion'' ''Matillion'' ''19E57F''),
     (''siMatomo'', SimpleIcon ''matomo'' ''Matomo'' ''3152A0''),
     (''siMatrix'', SimpleIcon ''matrix'' ''Matrix'' ''000000''),
     (''siMatterdotjs'', SimpleIcon ''matterdotjs'' ''Matter.js'' ''4B5562''),
     (''siMattermost'', SimpleIcon ''mattermost'' ''Mattermost'' ''0058CC''),
     (''siMatternet'', SimpleIcon ''matternet'' ''Matternet'' ''261C29''),
     (''siMautic'', SimpleIcon ''mautic'' ''Mautic'' ''4E5E9E''),
     (''siMax'', SimpleIcon ''max'' ''Max'' ''525252''),
     (''siMaxplanckgesellschaft'', SimpleIcon ''maxplanckgesellschaft'' ''Max-Planck-Gesellschaft'' ''006C66''),
     (''siMaytag'', SimpleIcon ''maytag'' ''Maytag'' ''002E5F''),
     (''siMazda'', SimpleIcon ''mazda'' ''Mazda'' ''101010''),
     (''siMaze'', SimpleIcon ''maze'' ''Maze'' ''000000''),
     (''siMcafee'', SimpleIcon ''mcafee'' ''McAfee'' ''C01818''),
     (''siMcdonalds'', SimpleIcon ''mcdonalds'' (''McDonald'' @ [CHR 0x27] @ ''s'') ''FBC817''),
     (''siMclaren'', SimpleIcon ''mclaren'' ''McLaren'' ''FF0000''),
     (''siMdbook'', SimpleIcon ''mdbook'' ''mdBook'' ''000000''),
     (''siMdnwebdocs'', SimpleIcon ''mdnwebdocs'' ''MDN Web Docs'' ''000000''),
     (''siMdx'', SimpleIcon ''mdx'' ''MDX'' ''1B1F24''),
     (''siMediafire'', SimpleIcon ''mediafire'' ''MediaFire'' ''1299F3''),
     (''siMediamarkt'', SimpleIcon ''mediamarkt'' ''MediaMarkt'' ''DF0000''),
     (''siMediapipe'', SimpleIcon ''mediapipe'' ''MediaPipe'' ''0097A7''),
     (''siMediatek'', SimpleIcon ''mediatek'' ''MediaTek'' ''EC9430''),
     (''siMedibangpaint'', SimpleIcon ''medibangpaint'' ''MediBang Paint'' ''00DBDE''),
     (''siMedium'', SimpleIcon ''medium'' ''Medium'' ''000000''),
     (''siMedusa'', SimpleIcon ''medusa'' ''Medusa'' ''000000''),
     (''siMeetup'', SimpleIcon ''meetup'' ''Meetup'' ''ED1C40''),
     (''siMega'', SimpleIcon ''mega'' ''MEGA'' ''D9272E''),
     (''siMeilisearch'', SimpleIcon ''meilisearch'' ''Meilisearch'' ''FF5CAA''),
     (''siMeituan'', SimpleIcon ''meituan'' ''Meituan'' ''FFD100''),
     (''siMeizu'', SimpleIcon ''meizu'' ''Meizu'' ''FF4132''),
     (''siMendeley'', SimpleIcon ''mendeley'' ''Mendeley'' ''9D1620''),
     (''siMentorcruise'', SimpleIcon ''mentorcruise'' ''MentorCruise'' ''172E59''),
     (''siMercadopago'', SimpleIcon ''mercadopago'' ''Mercado Pago'' ''00B1EA''),
     (''siMercedes'', SimpleIcon ''mercedes'' ''Mercedes'' ''242424'')]"

definition icons_35 :: "(string \<times> SimpleIcon) list" where
  "icons_35 =
    [(''siMerck'', SimpleIcon ''merck'' ''Merck'' ''007A73''),
     (''siMercurial'', SimpleIcon ''mercurial'' ''Mercurial'' ''999999''),
     (''siMermaid'', SimpleIcon ''mermaid'' ''Mermaid'' ''FF3670''),
     (''siMessenger'', SimpleIcon ''messenger'' ''Messenger'' ''00B2FF''),
     (''siMeta'', SimpleIcon ''meta'' ''Meta'' ''0467DF''),
     (''siMetabase'', SimpleIcon ''metabase'' ''Metabase'' ''509EE3''),
     (''siMetacritic'', SimpleIcon ''metacritic'' ''Metacritic'' ''000000''),
     (''siMetafilter'', SimpleIcon ''metafilter'' ''MetaFilter'' ''065A8F''),
     (''siMetasploit'', SimpleIcon ''metasploit'' ''Metasploit'' ''2596CD''),
     (''siMeteor'', SimpleIcon ''meteor'' ''Meteor'' ''DE4F4F''),
     (''siMetro'', SimpleIcon ''metro'' ''Metro'' ''EF4242''),
     (''siMetrodelaciudaddemexico'', SimpleIcon ''metrodelaciudaddemexico'' ''Metro de la Ciudad de M&#233;xico'' ''F77E1C''),
     (''siMetrodemadrid'', SimpleIcon ''metrodemadrid'' ''Metro de Madrid'' ''255E9C''),
     (''siMetrodeparis'', SimpleIcon ''metrodeparis'' ''M&#233;tro de Paris'' ''003E95''),
     (''siMewe'', SimpleIcon ''mewe'' ''MeWe'' ''17377F''),
     (''siMg'', SimpleIcon ''mg'' ''MG'' ''FF0000''),
     (''siMicroeditor'', SimpleIcon ''microeditor'' ''Micro Editor'' ''2E3192''),
     (''siMicrobit'', SimpleIcon ''microbit'' ''micro:bit'' ''00ED00''),
     (''siMicrodotblog'', SimpleIcon ''microdotblog'' ''Micro.blog'' ''FF8800''),
     (''siMicropython'', SimpleIcon ''micropython'' ''MicroPython'' ''2B2728''),
     (''siMicrostation'', SimpleIcon ''microstation'' ''Microstation'' ''62BB47''),
     (''siMicrostrategy'', SimpleIcon ''microstrategy'' ''MicroStrategy'' ''D9232E''),
     (''siMidi'', SimpleIcon ''midi'' ''MIDI'' ''000000''),
     (''siMigadu'', SimpleIcon ''migadu'' ''Migadu'' ''0043CE''),
     (''siMihoyo'', SimpleIcon ''mihoyo'' ''miHoYo'' ''4EA4DD''),
     (''siMikrotik'', SimpleIcon ''mikrotik'' ''MikroTik'' ''293239''),
     (''siMilanote'', SimpleIcon ''milanote'' ''Milanote'' ''31303A''),
     (''siMilvus'', SimpleIcon ''milvus'' ''Milvus'' ''00A1EA''),
     (''siMinds'', SimpleIcon ''minds'' ''Minds'' ''FED12F''),
     (''siMinetest'', SimpleIcon ''minetest'' ''Minetest'' ''53AC56''),
     (''siMingww64'', SimpleIcon ''mingww64'' ''MinGW-w64'' ''000000''),
     (''siMini'', SimpleIcon ''mini'' ''Mini'' ''000000''),
     (''siMinio'', SimpleIcon ''minio'' ''MinIO'' ''C72E49''),
     (''siMintlify'', SimpleIcon ''mintlify'' ''Mintlify'' ''18E299''),
     (''siMinutemailer'', SimpleIcon ''minutemailer'' ''Minutemailer'' ''30B980''),
     (''siMiraheze'', SimpleIcon ''miraheze'' ''Miraheze'' ''FFFC00''),
     (''siMiro'', SimpleIcon ''miro'' ''Miro'' ''050038''),
     (''siMisskey'', SimpleIcon ''misskey'' ''Misskey'' ''A1CA03''),
     (''siMitsubishi'', SimpleIcon ''mitsubishi'' ''Mitsubishi'' ''E60012''),
     (''siMix'', SimpleIcon ''mix'' ''Mix'' ''FF8126''),
     (''siMixcloud'', SimpleIcon ''mixcloud'' ''Mixcloud'' ''5000FF''),
     (''siMixpanel'', SimpleIcon ''mixpanel'' ''Mixpanel'' ''7856FF''),
     (''siMlb'', SimpleIcon ''mlb'' ''MLB'' ''041E42''),
     (''siMlflow'', SimpleIcon ''mlflow'' ''MLflow'' ''0194E2''),
     (''siMobx'', SimpleIcon ''mobx'' ''MobX'' ''FF9955''),
     (''siMobxstatetree'', SimpleIcon ''mobxstatetree'' ''MobX-State-Tree'' ''FF7102''),
     (''siMocha'', SimpleIcon ''mocha'' ''Mocha'' ''8D6748''),
     (''siMockserviceworker'', SimpleIcon ''mockserviceworker'' ''Mock Service Worker'' ''FF6A33''),
     (''siModal'', SimpleIcon ''modal'' ''Modal'' ''7FEE64''),
     (''siModin'', SimpleIcon ''modin'' ''Modin'' ''001729'')]"

definition icons_36 :: "(string \<times> SimpleIcon) list" where
  "icons_36 =
    [(''siModrinth'', SimpleIcon ''modrinth'' ''Modrinth'' ''00AF5C''),
     (''siModx'', SimpleIcon ''modx'' ''MODX'' ''102C53''),
     (''siMojeek'', SimpleIcon ''mojeek'' ''Mojeek'' ''7AB93C''),
     (''siMoleculer'', SimpleIcon ''moleculer'' ''Moleculer'' ''3CAFCE''),
     (''siMomenteo'', SimpleIcon ''momenteo'' ''Momenteo'' ''5A6AB1''),
     (''siMonero'', SimpleIcon ''monero'' ''Monero'' ''FF6600''),
     (''siMoneygram'', SimpleIcon ''moneygram'' ''MoneyGram'' ''DA291C''),
     (''siMongodb'', SimpleIcon ''mongodb'' ''MongoDB'' ''47A248''),
     (''siMongoose'', SimpleIcon ''mongoose'' ''Mongoose'' ''880000''),
     (''siMongoosedotws'', SimpleIcon ''mongoosedotws'' ''Mongoose'' ''F04D35''),
     (''siMonica'', SimpleIcon ''monica'' ''Monica'' ''2C2B29''),
     (''siMonkeytie'', SimpleIcon ''monkeytie'' ''monkey tie'' ''1A52C2''),
     (''siMonkeytype'', SimpleIcon ''monkeytype'' ''Monkeytype'' ''E2B714''),
     (''siMonogame'', SimpleIcon ''monogame'' ''MonoGame'' ''E73C00''),
     (''siMonoprix'', SimpleIcon ''monoprix'' ''Monoprix'' ''FB1911''),
     (''siMonster'', SimpleIcon ''monster'' ''Monster'' ''6D4C9F''),
     (''siMonzo'', SimpleIcon ''monzo'' ''Monzo'' ''14233C''),
     (''siMoo'', SimpleIcon ''moo'' ''Moo'' ''00945E''),
     (''siMoodle'', SimpleIcon ''moodle'' ''Moodle'' ''F98012''),
     (''siMoonrepo'', SimpleIcon ''moonrepo'' ''Moonrepo'' ''6F53F3''),
     (''siMoq'', SimpleIcon ''moq'' ''Moq'' ''F4BE00''),
     (''siMoqups'', SimpleIcon ''moqups'' ''Moqups'' ''006BE5''),
     (''siMorrisons'', SimpleIcon ''morrisons'' ''Morrisons'' ''007531''),
     (''siMoscowmetro'', SimpleIcon ''moscowmetro'' ''Moscow Metro'' ''D9232E''),
     (''siMotorola'', SimpleIcon ''motorola'' ''Motorola'' ''E1140A''),
     (''siMovistar'', SimpleIcon ''movistar'' ''Movistar'' ''019DF4''),
     (''siMozilla'', SimpleIcon ''mozilla'' ''Mozilla'' ''000000''),
     (''siMpv'', SimpleIcon ''mpv'' ''mpv'' ''691F69''),
     (''siMqtt'', SimpleIcon ''mqtt'' ''MQTT'' ''660066''),
     (''siMsi'', SimpleIcon ''msi'' ''MSI'' ''FF0000''),
     (''siMsibusiness'', SimpleIcon ''msibusiness'' ''MSI Business'' ''9A8555''),
     (''siMta'', SimpleIcon ''mta'' ''MTA'' ''0039A6''),
     (''siMtr'', SimpleIcon ''mtr'' ''MTR'' ''AC2E45''),
     (''siMubi'', SimpleIcon ''mubi'' ''MUBI'' ''000000''),
     (''siMui'', SimpleIcon ''mui'' ''MUI'' ''007FFF''),
     (''siMulesoft'', SimpleIcon ''mulesoft'' ''Mulesoft'' ''00A0DF''),
     (''siMuller'', SimpleIcon ''muller'' ''M&#252;ller'' ''F46519''),
     (''siMullvad'', SimpleIcon ''mullvad'' ''Mullvad'' ''294D73''),
     (''siMultisim'', SimpleIcon ''multisim'' ''Multisim'' ''57B685''),
     (''siMumble'', SimpleIcon ''mumble'' ''Mumble'' ''000000''),
     (''siMuo'', SimpleIcon ''muo'' ''MUO'' ''C60D0D''),
     (''siMural'', SimpleIcon ''mural'' ''Mural'' ''FF4B4B''),
     (''siMusescore'', SimpleIcon ''musescore'' ''MuseScore'' ''1A70B8''),
     (''siMusicbrainz'', SimpleIcon ''musicbrainz'' ''MusicBrainz'' ''BA478F''),
     (''siMxlinux'', SimpleIcon ''mxlinux'' ''MX Linux'' ''000000''),
     (''siMyanimelist'', SimpleIcon ''myanimelist'' ''MyAnimeList'' ''2E51A2''),
     (''siMyget'', SimpleIcon ''myget'' ''MyGet'' ''0C79CE''),
     (''siMyob'', SimpleIcon ''myob'' ''MYOB'' ''6100A5''),
     (''siMyspace'', SimpleIcon ''myspace'' ''Myspace'' ''030303''),
     (''siMysql'', SimpleIcon ''mysql'' ''MySQL'' ''4479A1'')]"

definition icons_37 :: "(string \<times> SimpleIcon) list" where
  "icons_37 =
    [(''siN26'', SimpleIcon ''n26'' ''N26'' ''48AC98''),
     (''siN8n'', SimpleIcon ''n8n'' ''n8n'' ''EA4B71''),
     (''siNamebase'', SimpleIcon ''namebase'' ''Namebase'' ''0068FF''),
     (''siNamecheap'', SimpleIcon ''namecheap'' ''Namecheap'' ''DE3723''),
     (''siNamemc'', SimpleIcon ''namemc'' ''NameMC'' ''12161A''),
     (''siNamesilo'', SimpleIcon ''namesilo'' ''NameSilo'' ''031B4E''),
     (''siNamuwiki'', SimpleIcon ''namuwiki'' ''Namu Wiki'' ''008275''),
     (''siNano'', SimpleIcon ''nano'' ''Nano'' ''4A90E2''),
     (''siNanostores'', SimpleIcon ''nanostores'' ''Nano Stores'' ''000000''),
     (''siNapster'', SimpleIcon ''napster'' ''Napster'' ''2259FF''),
     (''siNasa'', SimpleIcon ''nasa'' ''NASA'' ''E03C31''),
     (''siNationalgrid'', SimpleIcon ''nationalgrid'' ''National Grid'' ''00148C''),
     (''siNationalrail'', SimpleIcon ''nationalrail'' ''National Rail'' ''003366''),
     (''siNativescript'', SimpleIcon ''nativescript'' ''NativeScript'' ''65ADF1''),
     (''siNatsdotio'', SimpleIcon ''natsdotio'' ''NATS.io'' ''27AAE1''),
     (''siNaver'', SimpleIcon ''naver'' ''Naver'' ''03C75A''),
     (''siNba'', SimpleIcon ''nba'' ''NBA'' ''253B73''),
     (''siNbb'', SimpleIcon ''nbb'' ''NBB'' ''FF7100''),
     (''siNbc'', SimpleIcon ''nbc'' ''NBC'' ''222222''),
     (''siNdr'', SimpleIcon ''ndr'' ''NDR'' ''0C1754''),
     (''siNear'', SimpleIcon ''near'' ''NEAR'' ''000000''),
     (''siNebula'', SimpleIcon ''nebula'' ''Nebula'' ''2CADFE''),
     (''siNec'', SimpleIcon ''nec'' ''NEC'' ''1414A0''),
     (''siNeo4j'', SimpleIcon ''neo4j'' ''Neo4j'' ''4581C3''),
     (''siNeovim'', SimpleIcon ''neovim'' ''Neovim'' ''57A143''),
     (''siNeptune'', SimpleIcon ''neptune'' ''Neptune'' ''5B69C2''),
     (''siNestjs'', SimpleIcon ''nestjs'' ''NestJS'' ''E0234E''),
     (''siNetapp'', SimpleIcon ''netapp'' ''NetApp'' ''0067C5''),
     (''siNetbsd'', SimpleIcon ''netbsd'' ''NetBSD'' ''FF6600''),
     (''siNetcup'', SimpleIcon ''netcup'' ''netcup'' ''056473''),
     (''siNetdata'', SimpleIcon ''netdata'' ''Netdata'' ''00AB44''),
     (''siNeteasecloudmusic'', SimpleIcon ''neteasecloudmusic'' ''NetEase Cloud Music'' ''D43C33''),
     (''siNetflix'', SimpleIcon ''netflix'' ''Netflix'' ''E50914''),
     (''siNetgear'', SimpleIcon ''netgear'' ''NETGEAR'' ''2C262D''),
     (''siNetlify'', SimpleIcon ''netlify'' ''Netlify'' ''00C7B7''),
     (''siNette'', SimpleIcon ''nette'' ''Nette'' ''3484D2''),
     (''siNetto'', SimpleIcon ''netto'' ''Netto'' ''FFE500''),
     (''siNeutralinojs'', SimpleIcon ''neutralinojs'' ''Neutralinojs'' ''F89901''),
     (''siNewbalance'', SimpleIcon ''newbalance'' ''New Balance'' ''CF0A2C''),
     (''siNewjapanprowrestling'', SimpleIcon ''newjapanprowrestling'' ''New Japan Pro-Wrestling'' ''FF160B''),
     (''siNewrelic'', SimpleIcon ''newrelic'' ''New Relic'' ''1CE783''),
     (''siNewyorktimes'', SimpleIcon ''newyorktimes'' ''New York Times'' ''000000''),
     (''siNewegg'', SimpleIcon ''newegg'' ''Newegg'' ''E05E00''),
     (''siNexon'', SimpleIcon ''nexon'' ''NEXON'' ''000000''),
     (''siNextdotjs'', SimpleIcon ''nextdotjs'' ''Next.js'' ''000000''),
     (''siNextbilliondotai'', SimpleIcon ''nextbilliondotai'' ''NextBillion.ai'' ''8D5A9E''),
     (''siNextcloud'', SimpleIcon ''nextcloud'' ''Nextcloud'' ''0082C9''),
     (''siNextdns'', SimpleIcon ''nextdns'' ''NextDNS'' ''007BFF''),
     (''siNextdoor'', SimpleIcon ''nextdoor'' ''Nextdoor'' ''8ED500''),
     (''siNextflow'', SimpleIcon ''nextflow'' ''Nextflow'' ''0DC09D'')]"

definition icons_38 :: "(string \<times> SimpleIcon) list" where
  "icons_38 =
    [(''siNextra'', SimpleIcon ''nextra'' ''Nextra'' ''000000''),
     (''siNextui'', SimpleIcon ''nextui'' ''NextUI'' ''000000''),
     (''siNexusmods'', SimpleIcon ''nexusmods'' ''Nexus Mods'' ''E6832B''),
     (''siNfcore'', SimpleIcon ''nfcore'' ''nf-core'' ''24B064''),
     (''siNfc'', SimpleIcon ''nfc'' ''NFC'' ''002E5F''),
     (''siNginx'', SimpleIcon ''nginx'' ''NGINX'' ''009639''),
     (''siNginxproxymanager'', SimpleIcon ''nginxproxymanager'' ''Nginx Proxy Manager'' ''F15833''),
     (''siNgrok'', SimpleIcon ''ngrok'' ''ngrok'' ''1F1E37''),
     (''siNgrx'', SimpleIcon ''ngrx'' ''NgRx'' ''BA2BD2''),
     (''siNhl'', SimpleIcon ''nhl'' ''NHL'' ''000000''),
     (''siNicehash'', SimpleIcon ''nicehash'' ''NiceHash'' ''FBC342''),
     (''siNiconico'', SimpleIcon ''niconico'' ''niconico'' ''231815''),
     (''siNike'', SimpleIcon ''nike'' ''Nike'' ''111111''),
     (''siNikon'', SimpleIcon ''nikon'' ''Nikon'' ''FFE100''),
     (''siNim'', SimpleIcon ''nim'' ''Nim'' ''FFE953''),
     (''siNissan'', SimpleIcon ''nissan'' ''Nissan'' ''C3002F''),
     (''siNixos'', SimpleIcon ''nixos'' ''NixOS'' ''5277C3''),
     (''siNodered'', SimpleIcon ''nodered'' ''Node-RED'' ''8F0000''),
     (''siNodedotjs'', SimpleIcon ''nodedotjs'' ''Node.js'' ''5FA04E''),
     (''siNodemon'', SimpleIcon ''nodemon'' ''Nodemon'' ''76D04B''),
     (''siNokia'', SimpleIcon ''nokia'' ''Nokia'' ''005AFF''),
     (''siNomad'', SimpleIcon ''nomad'' ''Nomad'' ''00CA8E''),
     (''siNorco'', SimpleIcon ''norco'' ''Norco'' ''00FF00''),
     (''siNordicsemiconductor'', SimpleIcon ''nordicsemiconductor'' ''Nordic Semiconductor'' ''00A9CE''),
     (''siNordvpn'', SimpleIcon ''nordvpn'' ''NordVPN'' ''4687FF''),
     (''siNormalizedotcss'', SimpleIcon ''normalizedotcss'' ''Normalize.css'' ''E3695F''),
     (''siNorton'', SimpleIcon ''norton'' ''Norton'' ''FFE01A''),
     (''siNorwegian'', SimpleIcon ''norwegian'' ''Norwegian'' ''D81939''),
     (''siNotepadplusplus'', SimpleIcon ''notepadplusplus'' ''Notepad++'' ''90E59A''),
     (''siNotion'', SimpleIcon ''notion'' ''Notion'' ''000000''),
     (''siNotist'', SimpleIcon ''notist'' ''Notist'' ''333333''),
     (''siNounproject'', SimpleIcon ''nounproject'' ''Noun Project'' ''000000''),
     (''siNovu'', SimpleIcon ''novu'' ''Novu'' ''000000''),
     (''siNow'', SimpleIcon ''now'' ''NOW'' ''001211''),
     (''siNpm'', SimpleIcon ''npm'' ''npm'' ''CB3837''),
     (''siNrwl'', SimpleIcon ''nrwl'' ''Nrwl'' ''96D7E8''),
     (''siNsis'', SimpleIcon ''nsis'' ''NSIS'' ''01B0F0''),
     (''siNtfy'', SimpleIcon ''ntfy'' ''ntfy'' ''317F6F''),
     (''siNubank'', SimpleIcon ''nubank'' ''Nubank'' ''820AD1''),
     (''siNucleo'', SimpleIcon ''nucleo'' ''Nucleo'' ''252B2D''),
     (''siNuget'', SimpleIcon ''nuget'' ''NuGet'' ''004880''),
     (''siNuke'', SimpleIcon ''nuke'' ''Nuke'' ''000000''),
     (''siNumba'', SimpleIcon ''numba'' ''Numba'' ''00A3E0''),
     (''siNumpy'', SimpleIcon ''numpy'' ''NumPy'' ''013243''),
     (''siNunjucks'', SimpleIcon ''nunjucks'' ''Nunjucks'' ''1C4913''),
     (''siNushell'', SimpleIcon ''nushell'' ''Nushell'' ''4E9A06''),
     (''siNutanix'', SimpleIcon ''nutanix'' ''Nutanix'' ''024DA1''),
     (''siNuxt'', SimpleIcon ''nuxt'' ''Nuxt'' ''00DC82''),
     (''siNvidia'', SimpleIcon ''nvidia'' ''NVIDIA'' ''76B900''),
     (''siNvm'', SimpleIcon ''nvm'' ''nvm'' ''F4DD4B'')]"

definition icons_39 :: "(string \<times> SimpleIcon) list" where
  "icons_39 =
    [(''siNx'', SimpleIcon ''nx'' ''Nx'' ''143055''),
     (''siNxp'', SimpleIcon ''nxp'' ''NXP'' ''000000''),
     (''siNzxt'', SimpleIcon ''nzxt'' ''NZXT'' ''000000''),
     (''siOreilly'', SimpleIcon ''oreilly'' (''O'' @ [CHR 0x27] @ ''Reilly'') ''D3002D''),
     (''siO2'', SimpleIcon ''o2'' ''O2'' ''0050FF''),
     (''siObb'', SimpleIcon ''obb'' ''&#214;BB'' ''E40327''),
     (''siObsstudio'', SimpleIcon ''obsstudio'' ''OBS Studio'' ''302E31''),
     (''siObservable'', SimpleIcon ''observable'' ''Observable'' ''353E58''),
     (''siObsidian'', SimpleIcon ''obsidian'' ''Obsidian'' ''7C3AED''),
     (''siObtainium'', SimpleIcon ''obtainium'' ''Obtainium'' ''D2BCFD''),
     (''siOcaml'', SimpleIcon ''ocaml'' ''OCaml'' ''EC6813''),
     (''siOclc'', SimpleIcon ''oclc'' ''OCLC'' ''007DBA''),
     (''siOclif'', SimpleIcon ''oclif'' ''oclif'' ''000000''),
     (''siOctanerender'', SimpleIcon ''octanerender'' ''Octane Render'' ''000000''),
     (''siOctave'', SimpleIcon ''octave'' ''Octave'' ''0790C0''),
     (''siOctobercms'', SimpleIcon ''octobercms'' ''October CMS'' ''DB6A26''),
     (''siOctoprint'', SimpleIcon ''octoprint'' ''OctoPrint'' ''13C100''),
     (''siOctopusdeploy'', SimpleIcon ''octopusdeploy'' ''Octopus Deploy'' ''2F93E0''),
     (''siOculus'', SimpleIcon ''oculus'' ''Oculus'' ''1C1E20''),
     (''siOdin'', SimpleIcon ''odin'' ''Odin'' ''3882D2''),
     (''siOdnoklassniki'', SimpleIcon ''odnoklassniki'' ''Odnoklassniki'' ''EE8208''),
     (''siOdoo'', SimpleIcon ''odoo'' ''Odoo'' ''714B67''),
     (''siOdysee'', SimpleIcon ''odysee'' ''Odysee'' ''EF1970''),
     (''siOhdear'', SimpleIcon ''ohdear'' ''Oh Dear'' ''FF3900''),
     (''siOkcupid'', SimpleIcon ''okcupid'' ''okcupid'' ''0500BE''),
     (''siOkta'', SimpleIcon ''okta'' ''Okta'' ''007DC1''),
     (''siOkx'', SimpleIcon ''okx'' ''OKX'' ''000000''),
     (''siOllama'', SimpleIcon ''ollama'' ''Ollama'' ''000000''),
     (''siOmadacloud'', SimpleIcon ''omadacloud'' ''Omada Cloud'' ''10C1D0''),
     (''siOneplus'', SimpleIcon ''oneplus'' ''OnePlus'' ''F5010C''),
     (''siOnlyfans'', SimpleIcon ''onlyfans'' ''OnlyFans'' ''00AFF0''),
     (''siOnlyoffice'', SimpleIcon ''onlyoffice'' ''ONLYOFFICE'' ''444444''),
     (''siOnnx'', SimpleIcon ''onnx'' ''ONNX'' ''005CED''),
     (''siOnstar'', SimpleIcon ''onstar'' ''OnStar'' ''003D7D''),
     (''siOpel'', SimpleIcon ''opel'' ''Opel'' ''F7FF14''),
     (''siOpenaccess'', SimpleIcon ''openaccess'' ''Open Access'' ''F68212''),
     (''siOpenbadges'', SimpleIcon ''openbadges'' ''Open Badges'' ''073B5A''),
     (''siOpenbugbounty'', SimpleIcon ''openbugbounty'' ''Open Bug Bounty'' ''F67909''),
     (''siOpencollective'', SimpleIcon ''opencollective'' ''Open Collective'' ''7FADF2''),
     (''siOpencontainersinitiative'', SimpleIcon ''opencontainersinitiative'' ''Open Containers Initiative'' ''262261''),
     (''siOpensourcehardware'', SimpleIcon ''opensourcehardware'' ''Open Source Hardware'' ''0099B0''),
     (''siOpensourceinitiative'', SimpleIcon ''opensourceinitiative'' ''Open Source Initiative'' ''3DA639''),
     (''siOpen3d'', SimpleIcon ''open3d'' ''Open3D'' ''000000''),
     (''siOpenai'', SimpleIcon ''openai'' ''OpenAI'' ''412991''),
     (''siOpenaigym'', SimpleIcon ''openaigym'' ''OpenAI Gym'' ''0081A5''),
     (''siOpenapiinitiative'', SimpleIcon ''openapiinitiative'' ''OpenAPI Initiative'' ''6BA539''),
     (''siOpenbsd'', SimpleIcon ''openbsd'' ''OpenBSD'' ''F2CA30''),
     (''siOpencv'', SimpleIcon ''opencv'' ''OpenCV'' ''5C3EE8''),
     (''siOpenfaas'', SimpleIcon ''openfaas'' ''OpenFaaS'' ''3B5EE9''),
     (''siOpengl'', SimpleIcon ''opengl'' ''OpenGL'' ''5586A4'')]"

definition icons_40 :: "(string \<times> SimpleIcon) list" where
  "icons_40 =
    [(''siOpenhab'', SimpleIcon ''openhab'' ''openHAB'' ''E64A19''),
     (''siOpenid'', SimpleIcon ''openid'' ''OpenID'' ''F78C40''),
     (''siOpenjdk'', SimpleIcon ''openjdk'' ''OpenJDK'' ''000000''),
     (''siOpenjsfoundation'', SimpleIcon ''openjsfoundation'' ''OpenJS Foundation'' ''0075C9''),
     (''siOpenlayers'', SimpleIcon ''openlayers'' ''Openlayers'' ''1F6B75''),
     (''siOpenmediavault'', SimpleIcon ''openmediavault'' ''openmediavault'' ''5DACDF''),
     (''siOpenmined'', SimpleIcon ''openmined'' ''OpenMined'' ''ED986C''),
     (''siOpennebula'', SimpleIcon ''opennebula'' ''OpenNebula'' ''0097C2''),
     (''siOpenproject'', SimpleIcon ''openproject'' ''OpenProject'' ''0770B8''),
     (''siOpenscad'', SimpleIcon ''openscad'' ''OpenSCAD'' ''F9D72C''),
     (''siOpensea'', SimpleIcon ''opensea'' ''OpenSea'' ''2081E2''),
     (''siOpensearch'', SimpleIcon ''opensearch'' ''OpenSearch'' ''005EB8''),
     (''siOpenssl'', SimpleIcon ''openssl'' ''OpenSSL'' ''721412''),
     (''siOpenstack'', SimpleIcon ''openstack'' ''OpenStack'' ''ED1944''),
     (''siOpenstreetmap'', SimpleIcon ''openstreetmap'' ''OpenStreetMap'' ''7EBC6F''),
     (''siOpensuse'', SimpleIcon ''opensuse'' ''openSUSE'' ''73BA25''),
     (''siOpentelemetry'', SimpleIcon ''opentelemetry'' ''OpenTelemetry'' ''000000''),
     (''siOpentext'', SimpleIcon ''opentext'' ''OpenText'' ''000000''),
     (''siOpentofu'', SimpleIcon ''opentofu'' ''OpenTofu'' ''FFDA18''),
     (''siOpenverse'', SimpleIcon ''openverse'' ''Openverse'' ''FFE033''),
     (''siOpenvpn'', SimpleIcon ''openvpn'' ''OpenVPN'' ''EA7E20''),
     (''siOpenwrt'', SimpleIcon ''openwrt'' ''OpenWrt'' ''00B5E2''),
     (''siOpenzeppelin'', SimpleIcon ''openzeppelin'' ''OpenZeppelin'' ''4E5EE4''),
     (''siOpenzfs'', SimpleIcon ''openzfs'' ''OpenZFS'' ''2A667F''),
     (''siOpera'', SimpleIcon ''opera'' ''Opera'' ''FF1B2D''),
     (''siOperagx'', SimpleIcon ''operagx'' ''Opera GX'' ''EE2950''),
     (''siOpnsense'', SimpleIcon ''opnsense'' ''OPNSense'' ''D94F00''),
     (''siOppo'', SimpleIcon ''oppo'' ''OPPO'' ''2D683D''),
     (''siOpsgenie'', SimpleIcon ''opsgenie'' ''Opsgenie'' ''172B4D''),
     (''siOpslevel'', SimpleIcon ''opslevel'' ''OpsLevel'' ''0A53E0''),
     (''siOptimism'', SimpleIcon ''optimism'' ''Optimism'' ''FF0420''),
     (''siOrange'', SimpleIcon ''orange'' ''Orange'' ''FF7900''),
     (''siOrcid'', SimpleIcon ''orcid'' ''ORCID'' ''A6CE39''),
     (''siOrg'', SimpleIcon ''org'' ''Org'' ''77AA99''),
     (''siOrganicmaps'', SimpleIcon ''organicmaps'' ''Organic Maps'' ''006C35''),
     (''siOrigin'', SimpleIcon ''origin'' ''Origin'' ''F56C2D''),
     (''siOsano'', SimpleIcon ''osano'' ''Osano'' ''7764FA''),
     (''siOsf'', SimpleIcon ''osf'' ''OSF'' ''2CB9F1''),
     (''siOsgeo'', SimpleIcon ''osgeo'' ''OSGeo'' ''4CB05B''),
     (''siOshkosh'', SimpleIcon ''oshkosh'' ''Oshkosh'' ''E6830F''),
     (''siOsmc'', SimpleIcon ''osmc'' ''OSMC'' ''17394A''),
     (''siOsu'', SimpleIcon ''osu'' ''osu!'' ''FF66AA''),
     (''siOtto'', SimpleIcon ''otto'' ''Otto'' ''D4021D''),
     (''siOutline'', SimpleIcon ''outline'' ''Outline'' ''000000''),
     (''siOvercast'', SimpleIcon ''overcast'' ''Overcast'' ''FC7E0F''),
     (''siOverleaf'', SimpleIcon ''overleaf'' ''Overleaf'' ''47A141''),
     (''siOvh'', SimpleIcon ''ovh'' ''OVH'' ''123F6D''),
     (''siOwasp'', SimpleIcon ''owasp'' ''OWASP'' ''000000''),
     (''siDependencycheck'', SimpleIcon ''dependencycheck'' ''OWASP Dependency-Check'' ''F78D0A''),
     (''siOwncloud'', SimpleIcon ''owncloud'' ''ownCloud'' ''041E42'')]"

definition icons_41 :: "(string \<times> SimpleIcon) list" where
  "icons_41 =
    [(''siOxygen'', SimpleIcon ''oxygen'' ''Oxygen'' ''3A209E''),
     (''siOyo'', SimpleIcon ''oyo'' ''OYO'' ''EE2E24''),
     (''siP5dotjs'', SimpleIcon ''p5dotjs'' ''p5.js'' ''ED225D''),
     (''siPackagist'', SimpleIcon ''packagist'' ''Packagist'' ''F28D1A''),
     (''siPacker'', SimpleIcon ''packer'' ''Packer'' ''02A8EF''),
     (''siPackt'', SimpleIcon ''packt'' ''Packt'' ''F37143''),
     (''siPaddle'', SimpleIcon ''paddle'' ''Paddle'' ''FDDD35''),
     (''siPaddlepaddle'', SimpleIcon ''paddlepaddle'' ''PaddlePaddle'' ''0062B0''),
     (''siPaddypower'', SimpleIcon ''paddypower'' ''Paddy Power'' ''004833''),
     (''siPagekit'', SimpleIcon ''pagekit'' ''Pagekit'' ''212121''),
     (''siPagerduty'', SimpleIcon ''pagerduty'' ''PagerDuty'' ''06AC38''),
     (''siPagespeedinsights'', SimpleIcon ''pagespeedinsights'' ''PageSpeed Insights'' ''4285F4''),
     (''siPagseguro'', SimpleIcon ''pagseguro'' ''PagSeguro'' ''FFC801''),
     (''siPalantir'', SimpleIcon ''palantir'' ''Palantir'' ''101113''),
     (''siPaloaltonetworks'', SimpleIcon ''paloaltonetworks'' ''Palo Alto Networks'' ''F04E23''),
     (''siPaloaltosoftware'', SimpleIcon ''paloaltosoftware'' ''Palo Alto Software'' ''83DA77''),
     (''siPanasonic'', SimpleIcon ''panasonic'' ''Panasonic'' ''0049AB''),
     (''siPandas'', SimpleIcon ''pandas'' ''pandas'' ''150458''),
     (''siPandora'', SimpleIcon ''pandora'' ''Pandora'' ''224099''),
     (''siPantheon'', SimpleIcon ''pantheon'' ''Pantheon'' ''FFDC28''),
     (''siPaperlessngx'', SimpleIcon ''paperlessngx'' ''Paperless-ngx'' ''17541F''),
     (''siPaperswithcode'', SimpleIcon ''paperswithcode'' ''Papers With Code'' ''21CBCE''),
     (''siPaperspace'', SimpleIcon ''paperspace'' ''Paperspace'' ''000000''),
     (''siParadoxinteractive'', SimpleIcon ''paradoxinteractive'' ''Paradox Interactive'' ''101010''),
     (''siParamountplus'', SimpleIcon ''paramountplus'' ''Paramount+'' ''0064FF''),
     (''siParitysubstrate'', SimpleIcon ''paritysubstrate'' ''Parity Substrate'' ''282828''),
     (''siParrotsecurity'', SimpleIcon ''parrotsecurity'' ''Parrot Security'' ''15E0ED''),
     (''siParsedotly'', SimpleIcon ''parsedotly'' ''Parse.ly'' ''5BA745''),
     (''siPassport'', SimpleIcon ''passport'' ''Passport'' ''34E27A''),
     (''siPastebin'', SimpleIcon ''pastebin'' ''Pastebin'' ''02456C''),
     (''siPatreon'', SimpleIcon ''patreon'' ''Patreon'' ''000000''),
     (''siPaychex'', SimpleIcon ''paychex'' ''Paychex'' ''004B8D''),
     (''siPayhip'', SimpleIcon ''payhip'' ''Payhip'' ''5C6AC4''),
     (''siPayloadcms'', SimpleIcon ''payloadcms'' ''Payload CMS'' ''000000''),
     (''siPayoneer'', SimpleIcon ''payoneer'' ''Payoneer'' ''FF4800''),
     (''siPaypal'', SimpleIcon ''paypal'' ''PayPal'' ''003087''),
     (''siPaytm'', SimpleIcon ''paytm'' ''Paytm'' ''20336B''),
     (''siPcgamingwiki'', SimpleIcon ''pcgamingwiki'' ''PCGamingWiki'' ''556DB3''),
     (''siPdm'', SimpleIcon ''pdm'' ''PDM'' ''AC75D7''),
     (''siPdq'', SimpleIcon ''pdq'' ''PDQ'' ''231F20''),
     (''siPeakdesign'', SimpleIcon ''peakdesign'' ''Peak Design'' ''1C1B1C''),
     (''siPearson'', SimpleIcon ''pearson'' ''Pearson'' ''000000''),
     (''siPeerlist'', SimpleIcon ''peerlist'' ''Peerlist'' ''00AA45''),
     (''siPeertube'', SimpleIcon ''peertube'' ''PeerTube'' ''F1680D''),
     (''siPegasusairlines'', SimpleIcon ''pegasusairlines'' ''Pegasus Airlines'' ''FDC43E''),
     (''siPelican'', SimpleIcon ''pelican'' ''Pelican'' ''14A0C4''),
     (''siPeloton'', SimpleIcon ''peloton'' ''Peloton'' ''181A1D''),
     (''siPenny'', SimpleIcon ''penny'' ''Penny'' ''CD1414''),
     (''siPenpot'', SimpleIcon ''penpot'' ''Penpot'' ''000000''),
     (''siPercy'', SimpleIcon ''percy'' ''Percy'' ''9E66BF'')]"

definition icons_42 :: "(string \<times> SimpleIcon) list" where
  "icons_42 =
    [(''siPerforce'', SimpleIcon ''perforce'' ''Perforce'' ''404040''),
     (''siPerl'', SimpleIcon ''perl'' ''Perl'' ''0073A1''),
     (''siPerplexity'', SimpleIcon ''perplexity'' ''Perplexity'' ''1FB8CD''),
     (''siPersistent'', SimpleIcon ''persistent'' ''Persistent'' ''FD5F07''),
     (''siPersonio'', SimpleIcon ''personio'' ''Personio'' ''000000''),
     (''siPetsathome'', SimpleIcon ''petsathome'' ''Pets at Home'' ''00AA28''),
     (''siPeugeot'', SimpleIcon ''peugeot'' ''Peugeot'' ''000000''),
     (''siPexels'', SimpleIcon ''pexels'' ''Pexels'' ''05A081''),
     (''siPfsense'', SimpleIcon ''pfsense'' ''pfSense'' ''212121''),
     (''siPhabricator'', SimpleIcon ''phabricator'' ''Phabricator'' ''4A5F88''),
     (''siPhilipshue'', SimpleIcon ''philipshue'' ''Philips Hue'' ''0065D3''),
     (''siPhoenixframework'', SimpleIcon ''phoenixframework'' ''Phoenix Framework'' ''FD4F00''),
     (''siPhonepe'', SimpleIcon ''phonepe'' ''PhonePe'' ''5F259F''),
     (''siPhosphoricons'', SimpleIcon ''phosphoricons'' ''Phosphor Icons'' ''3C402B''),
     (''siPhotobucket'', SimpleIcon ''photobucket'' ''Photobucket'' ''1C47CB''),
     (''siPhotocrowd'', SimpleIcon ''photocrowd'' ''Photocrowd'' ''3DAD4B''),
     (''siPhoton'', SimpleIcon ''photon'' ''Photon'' ''004480''),
     (''siPhotopea'', SimpleIcon ''photopea'' ''Photopea'' ''18A497''),
     (''siPhp'', SimpleIcon ''php'' ''PHP'' ''777BB4''),
     (''siPhpbb'', SimpleIcon ''phpbb'' ''phpBB'' ''009BDF''),
     (''siPhpmyadmin'', SimpleIcon ''phpmyadmin'' ''phpMyAdmin'' ''6C78AF''),
     (''siPhpstorm'', SimpleIcon ''phpstorm'' ''PhpStorm'' ''000000''),
     (''siPinetwork'', SimpleIcon ''pinetwork'' ''Pi Network'' ''F4AF47''),
     (''siPihole'', SimpleIcon ''pihole'' ''Pi-hole'' ''96060C''),
     (''siPiaggiogroup'', SimpleIcon ''piaggiogroup'' ''Piaggio Group'' ''000000''),
     (''siPiapro'', SimpleIcon ''piapro'' ''Piapro'' ''E4007B''),
     (''siPicardsurgeles'', SimpleIcon ''picardsurgeles'' ''Picard Surgel&#233;s'' ''2D4999''),
     (''siPicartodottv'', SimpleIcon ''picartodottv'' ''Picarto.TV'' ''1DA456''),
     (''siPicnic'', SimpleIcon ''picnic'' ''Picnic'' ''E1171E''),
     (''siPicpay'', SimpleIcon ''picpay'' ''PicPay'' ''21C25E''),
     (''siPicrew'', SimpleIcon ''picrew'' ''Picrew'' ''FFBD16''),
     (''siPicsart'', SimpleIcon ''picsart'' ''Picsart'' ''C209C1''),
     (''siPicxy'', SimpleIcon ''picxy'' ''Picxy'' ''2E3192''),
     (''siPimcore'', SimpleIcon ''pimcore'' ''Pimcore'' ''6428B4''),
     (''siPinboard'', SimpleIcon ''pinboard'' ''Pinboard'' ''0000FF''),
     (''siPinescript'', SimpleIcon ''pinescript'' ''Pine Script'' ''00B453''),
     (''siPingdom'', SimpleIcon ''pingdom'' ''Pingdom'' ''FFF000''),
     (''siPino'', SimpleIcon ''pino'' ''pino'' ''687634''),
     (''siPinterest'', SimpleIcon ''pinterest'' ''Pinterest'' ''BD081C''),
     (''siPioneerdj'', SimpleIcon ''pioneerdj'' ''Pioneer DJ'' ''1A1928''),
     (''siPiped'', SimpleIcon ''piped'' ''Piped'' ''F84330''),
     (''siPipx'', SimpleIcon ''pipx'' ''pipx'' ''2CFFAA''),
     (''siPivotaltracker'', SimpleIcon ''pivotaltracker'' ''Pivotal Tracker'' ''517A9E''),
     (''siPiwigo'', SimpleIcon ''piwigo'' ''Piwigo'' ''FF7700''),
     (''siPix'', SimpleIcon ''pix'' ''Pix'' ''77B6A8''),
     (''siPixabay'', SimpleIcon ''pixabay'' ''Pixabay'' ''2EC66D''),
     (''siPixelfed'', SimpleIcon ''pixelfed'' ''Pixelfed'' ''6366F1''),
     (''siPixiv'', SimpleIcon ''pixiv'' ''pixiv'' ''0096FA''),
     (''siPixlr'', SimpleIcon ''pixlr'' ''Pixlr'' ''3EBBDF''),
     (''siPkgsrc'', SimpleIcon ''pkgsrc'' ''pkgsrc'' ''FF6600'')]"

definition icons_43 :: "(string \<times> SimpleIcon) list" where
  "icons_43 =
    [(''siPlanet'', SimpleIcon ''planet'' ''Planet'' ''009DB1''),
     (''siPlanetscale'', SimpleIcon ''planetscale'' ''PlanetScale'' ''000000''),
     (''siPlangrid'', SimpleIcon ''plangrid'' ''PlanGrid'' ''0085DE''),
     (''siPlatformdotsh'', SimpleIcon ''platformdotsh'' ''Platform.sh'' ''1A182A''),
     (''siPlatformio'', SimpleIcon ''platformio'' ''PlatformIO'' ''F5822A''),
     (''siPlatzi'', SimpleIcon ''platzi'' ''Platzi'' ''98CA3F''),
     (''siPlausibleanalytics'', SimpleIcon ''plausibleanalytics'' ''Plausible Analytics'' ''5850EC''),
     (''siPlaycanvas'', SimpleIcon ''playcanvas'' ''PlayCanvas'' ''E05F2C''),
     (''siPlayerfm'', SimpleIcon ''playerfm'' ''Player FM'' ''C8122A''),
     (''siPlayerdotme'', SimpleIcon ''playerdotme'' ''Player.me'' ''C0379A''),
     (''siPlaystation'', SimpleIcon ''playstation'' ''PlayStation'' ''0070D1''),
     (''siPlaystation2'', SimpleIcon ''playstation2'' ''PlayStation 2'' ''003791''),
     (''siPlaystation3'', SimpleIcon ''playstation3'' ''PlayStation 3'' ''003791''),
     (''siPlaystation4'', SimpleIcon ''playstation4'' ''PlayStation 4'' ''003791''),
     (''siPlaystation5'', SimpleIcon ''playstation5'' ''PlayStation 5'' ''003791''),
     (''siPlaystationportable'', SimpleIcon ''playstationportable'' ''PlayStation Portable'' ''003791''),
     (''siPlaystationvita'', SimpleIcon ''playstationvita'' ''PlayStation Vita'' ''003791''),
     (''siPleroma'', SimpleIcon ''pleroma'' ''Pleroma'' ''FBA457''),
     (''siPlesk'', SimpleIcon ''plesk'' ''Plesk'' ''52BBE6''),
     (''siPlex'', SimpleIcon ''plex'' ''Plex'' ''EBAF00''),
     (''siPlotly'', SimpleIcon ''plotly'' ''Plotly'' ''3F4F75''),
     (''siPlume'', SimpleIcon ''plume'' ''Plume'' ''7C5CDF''),
     (''siPluralsight'', SimpleIcon ''pluralsight'' ''Pluralsight'' ''F15B2A''),
     (''siPlurk'', SimpleIcon ''plurk'' ''Plurk'' ''FF574D''),
     (''siPluscodes'', SimpleIcon ''pluscodes'' ''Plus Codes'' ''4285F4''),
     (''siPm2'', SimpleIcon ''pm2'' ''PM2'' ''2B037A''),
     (''siPnpm'', SimpleIcon ''pnpm'' ''pnpm'' ''F69220''),
     (''siPocket'', SimpleIcon ''pocket'' ''Pocket'' ''EF3F56''),
     (''siPocketcasts'', SimpleIcon ''pocketcasts'' ''Pocket Casts'' ''F43E37''),
     (''siPocketbase'', SimpleIcon ''pocketbase'' ''PocketBase'' ''B8DBE4''),
     (''siPodcastaddict'', SimpleIcon ''podcastaddict'' ''Podcast Addict'' ''F4842D''),
     (''siPodcastindex'', SimpleIcon ''podcastindex'' ''Podcast Index'' ''F90000''),
     (''siPodman'', SimpleIcon ''podman'' ''Podman'' ''892CA0''),
     (''siPoe'', SimpleIcon ''poe'' ''Poe'' ''5D5CDE''),
     (''siPoetry'', SimpleIcon ''poetry'' ''Poetry'' ''60A5FA''),
     (''siPointy'', SimpleIcon ''pointy'' ''Pointy'' ''009DE0''),
     (''siPolars'', SimpleIcon ''polars'' ''Polars'' ''CD792C''),
     (''siPolestar'', SimpleIcon ''polestar'' ''Polestar'' ''000000''),
     (''siPolkadot'', SimpleIcon ''polkadot'' ''Polkadot'' ''E6007A''),
     (''siPoly'', SimpleIcon ''poly'' ''Poly'' ''EB3C00''),
     (''siPolygon'', SimpleIcon ''polygon'' ''Polygon'' ''7B3FE4''),
     (''siPolymerproject'', SimpleIcon ''polymerproject'' ''Polymer Project'' ''FF4470''),
     (''siPolywork'', SimpleIcon ''polywork'' ''Polywork'' ''543DE0''),
     (''siPond5'', SimpleIcon ''pond5'' ''Pond5'' ''000000''),
     (''siPopos'', SimpleIcon ''popos'' ''Pop!_OS'' ''48B9C7''),
     (''siPorkbun'', SimpleIcon ''porkbun'' ''Porkbun'' ''EF7878''),
     (''siPorsche'', SimpleIcon ''porsche'' ''Porsche'' ''B12B28''),
     (''siPortainer'', SimpleIcon ''portainer'' ''Portainer'' ''13BEF9''),
     (''siPortswigger'', SimpleIcon ''portswigger'' ''PortSwigger'' ''FF6633''),
     (''siPosit'', SimpleIcon ''posit'' ''Posit'' ''447099'')]"

definition icons_44 :: "(string \<times> SimpleIcon) list" where
  "icons_44 =
    [(''siPostcss'', SimpleIcon ''postcss'' ''PostCSS'' ''DD3A0A''),
     (''siPostgresql'', SimpleIcon ''postgresql'' ''PostgreSQL'' ''4169E1''),
     (''siPosthog'', SimpleIcon ''posthog'' ''PostHog'' ''000000''),
     (''siPostman'', SimpleIcon ''postman'' ''Postman'' ''FF6C37''),
     (''siPostmates'', SimpleIcon ''postmates'' ''Postmates'' ''FFDF18''),
     (''siPowers'', SimpleIcon ''powers'' ''POWERS'' ''E74536''),
     (''siPrdotco'', SimpleIcon ''prdotco'' ''pr.co'' ''0080FF''),
     (''siPrecommit'', SimpleIcon ''precommit'' ''pre-commit'' ''FAB040''),
     (''siPreact'', SimpleIcon ''preact'' ''Preact'' ''673AB8''),
     (''siPrefect'', SimpleIcon ''prefect'' ''Prefect'' ''070E10''),
     (''siPremierleague'', SimpleIcon ''premierleague'' ''Premier League'' ''360D3A''),
     (''siPrepbytes'', SimpleIcon ''prepbytes'' ''PrepBytes'' ''5A87C6''),
     (''siPrestashop'', SimpleIcon ''prestashop'' ''PrestaShop'' ''DF0067''),
     (''siPresto'', SimpleIcon ''presto'' ''Presto'' ''5890FF''),
     (''siPrettier'', SimpleIcon ''prettier'' ''Prettier'' ''F7B93E''),
     (''siPretzel'', SimpleIcon ''pretzel'' ''Pretzel'' ''1BB3A4''),
     (''siPrevention'', SimpleIcon ''prevention'' ''Prevention'' ''44C1C5''),
     (''siPrezi'', SimpleIcon ''prezi'' ''Prezi'' ''3181FF''),
     (''siPrime'', SimpleIcon ''prime'' ''Prime'' ''00A8E1''),
     (''siPrimevideo'', SimpleIcon ''primevideo'' ''Prime Video'' ''1F2E3E''),
     (''siPrimefaces'', SimpleIcon ''primefaces'' ''PrimeFaces'' ''263238''),
     (''siPrimeng'', SimpleIcon ''primeng'' ''PrimeNG'' ''DD0031''),
     (''siPrimereact'', SimpleIcon ''primereact'' ''PrimeReact'' ''03C4E8''),
     (''siPrimevue'', SimpleIcon ''primevue'' ''PrimeVue'' ''41B883''),
     (''siPrintables'', SimpleIcon ''printables'' ''Printables'' ''FA6831''),
     (''siPrisma'', SimpleIcon ''prisma'' ''Prisma'' ''2D3748''),
     (''siPrismic'', SimpleIcon ''prismic'' ''Prismic'' ''5163BA''),
     (''siPrivatedivision'', SimpleIcon ''privatedivision'' ''Private Division'' ''000000''),
     (''siPrivateinternetaccess'', SimpleIcon ''privateinternetaccess'' ''Private Internet Access'' ''1E811F''),
     (''siProtools'', SimpleIcon ''protools'' ''Pro Tools'' ''7ACB10''),
     (''siProbot'', SimpleIcon ''probot'' ''Probot'' ''00B0D8''),
     (''siProcessingfoundation'', SimpleIcon ''processingfoundation'' ''Processing Foundation'' ''006699''),
     (''siProcesswire'', SimpleIcon ''processwire'' ''ProcessWire'' ''2480E6''),
     (''siProducthunt'', SimpleIcon ''producthunt'' ''Product Hunt'' ''DA552F''),
     (''siProgate'', SimpleIcon ''progate'' ''Progate'' ''380953''),
     (''siProgress'', SimpleIcon ''progress'' ''Progress'' ''5CE500''),
     (''siPrometheus'', SimpleIcon ''prometheus'' ''Prometheus'' ''E6522C''),
     (''siPronounsdotpage'', SimpleIcon ''pronounsdotpage'' ''Pronouns.page'' ''C71585''),
     (''siProsieben'', SimpleIcon ''prosieben'' ''ProSieben'' ''E6000F''),
     (''siProteus'', SimpleIcon ''proteus'' ''Proteus'' ''1C79B3''),
     (''siProtodotio'', SimpleIcon ''protodotio'' ''Proto.io'' ''34A7C1''),
     (''siProtocolsdotio'', SimpleIcon ''protocolsdotio'' ''protocols.io'' ''4D9FE7''),
     (''siProton'', SimpleIcon ''proton'' ''Proton'' ''6D4AFF''),
     (''siProtoncalendar'', SimpleIcon ''protoncalendar'' ''Proton Calendar'' ''50B0E9''),
     (''siProtondrive'', SimpleIcon ''protondrive'' ''Proton Drive'' ''EB508D''),
     (''siProtonmail'', SimpleIcon ''protonmail'' ''Proton Mail'' ''6D4AFF''),
     (''siProtonvpn'', SimpleIcon ''protonvpn'' ''Proton VPN'' ''66DEB1''),
     (''siProtondb'', SimpleIcon ''protondb'' ''ProtonDB'' ''F50057''),
     (''siProtractor'', SimpleIcon ''protractor'' ''Protractor'' ''ED163A''),
     (''siProxmox'', SimpleIcon ''proxmox'' ''Proxmox'' ''E57000'')]"

definition icons_45 :: "(string \<times> SimpleIcon) list" where
  "icons_45 =
    [(''siPterodactyl'', SimpleIcon ''pterodactyl'' ''Pterodactyl'' ''10539F''),
     (''siPubg'', SimpleIcon ''pubg'' ''PUBG'' ''F4B942''),
     (''siPublons'', SimpleIcon ''publons'' ''Publons'' ''336699''),
     (''siPubmed'', SimpleIcon ''pubmed'' ''PubMed'' ''326599''),
     (''siPug'', SimpleIcon ''pug'' ''Pug'' ''A86454''),
     (''siPulumi'', SimpleIcon ''pulumi'' ''Pulumi'' ''8A3391''),
     (''siPuma'', SimpleIcon ''puma'' ''Puma'' ''242B2F''),
     (''siPuppet'', SimpleIcon ''puppet'' ''Puppet'' ''FFAE1A''),
     (''siPuppeteer'', SimpleIcon ''puppeteer'' ''Puppeteer'' ''40B5A4''),
     (''siPurescript'', SimpleIcon ''purescript'' ''PureScript'' ''14161A''),
     (''siPurgecss'', SimpleIcon ''purgecss'' ''PurgeCSS'' ''14161A''),
     (''siPurism'', SimpleIcon ''purism'' ''Purism'' ''2D2D2D''),
     (''siPushbullet'', SimpleIcon ''pushbullet'' ''Pushbullet'' ''4AB367''),
     (''siPusher'', SimpleIcon ''pusher'' ''Pusher'' ''300D4F''),
     (''siPwa'', SimpleIcon ''pwa'' ''PWA'' ''5A0FC8''),
     (''siPycharm'', SimpleIcon ''pycharm'' ''PyCharm'' ''000000''),
     (''siPycqa'', SimpleIcon ''pycqa'' ''PyCQA'' ''201B44''),
     (''siPydantic'', SimpleIcon ''pydantic'' ''Pydantic'' ''E92063''),
     (''siPyg'', SimpleIcon ''pyg'' ''PyG'' ''3C2179''),
     (''siPypi'', SimpleIcon ''pypi'' ''PyPI'' ''3775A9''),
     (''siPypy'', SimpleIcon ''pypy'' ''PyPy'' ''193440''),
     (''siPyscaffold'', SimpleIcon ''pyscaffold'' ''PyScaffold'' ''005CA0''),
     (''siPysyft'', SimpleIcon ''pysyft'' ''PySyft'' ''F1BF7A''),
     (''siPytest'', SimpleIcon ''pytest'' ''Pytest'' ''0A9EDC''),
     (''siPython'', SimpleIcon ''python'' ''Python'' ''3776AB''),
     (''siPythonanywhere'', SimpleIcon ''pythonanywhere'' ''PythonAnywhere'' ''1D9FD7''),
     (''siPytorch'', SimpleIcon ''pytorch'' ''PyTorch'' ''EE4C2C''),
     (''siPyup'', SimpleIcon ''pyup'' ''PyUp'' ''9F55FF''),
     (''siQantas'', SimpleIcon ''qantas'' ''Qantas'' ''E40000''),
     (''siQase'', SimpleIcon ''qase'' ''Qase'' ''4F46DC''),
     (''siQatarairways'', SimpleIcon ''qatarairways'' ''Qatar Airways'' ''5C0D34''),
     (''siQbittorrent'', SimpleIcon ''qbittorrent'' ''qbittorrent'' ''2F67BA''),
     (''siQemu'', SimpleIcon ''qemu'' ''QEMU'' ''FF6600''),
     (''siQgis'', SimpleIcon ''qgis'' ''Qgis'' ''589632''),
     (''siQi'', SimpleIcon ''qi'' ''Qi'' ''000000''),
     (''siQiita'', SimpleIcon ''qiita'' ''Qiita'' ''55C500''),
     (''siQiskit'', SimpleIcon ''qiskit'' ''Qiskit'' ''6929C4''),
     (''siQiwi'', SimpleIcon ''qiwi'' ''QIWI'' ''FF8C00''),
     (''siQlik'', SimpleIcon ''qlik'' ''Qlik'' ''009848''),
     (''siQmk'', SimpleIcon ''qmk'' ''QMK'' ''333333''),
     (''siQnap'', SimpleIcon ''qnap'' ''QNAP'' ''0C2E82''),
     (''siQq'', SimpleIcon ''qq'' ''QQ'' ''1EBAFC''),
     (''siQt'', SimpleIcon ''qt'' ''Qt'' ''41CD52''),
     (''siQualcomm'', SimpleIcon ''qualcomm'' ''Qualcomm'' ''3253DC''),
     (''siQualtrics'', SimpleIcon ''qualtrics'' ''Qualtrics'' ''00B4EF''),
     (''siQualys'', SimpleIcon ''qualys'' ''Qualys'' ''ED2E26''),
     (''siQuantcast'', SimpleIcon ''quantcast'' ''Quantcast'' ''000000''),
     (''siQuantconnect'', SimpleIcon ''quantconnect'' ''QuantConnect'' ''F98309''),
     (''siQuarkus'', SimpleIcon ''quarkus'' ''Quarkus'' ''4695EB''),
     (''siQuarto'', SimpleIcon ''quarto'' ''Quarto'' ''39729E'')]"

definition icons_46 :: "(string \<times> SimpleIcon) list" where
  "icons_46 =
    [(''siQuasar'', SimpleIcon ''quasar'' ''Quasar'' ''050A14''),
     (''siQubesos'', SimpleIcon ''qubesos'' ''Qubes OS'' ''3874D8''),
     (''siQuest'', SimpleIcon ''quest'' ''Quest'' ''FB4F14''),
     (''siQuickbooks'', SimpleIcon ''quickbooks'' ''QuickBooks'' ''2CA01C''),
     (''siQuicklook'', SimpleIcon ''quicklook'' ''QuickLook'' ''0078D3''),
     (''siQuicktime'', SimpleIcon ''quicktime'' ''QuickTime'' ''1C69F0''),
     (''siQuicktype'', SimpleIcon ''quicktype'' ''quicktype'' ''159588''),
     (''siQuip'', SimpleIcon ''quip'' ''Quip'' ''F27557''),
     (''siQuizlet'', SimpleIcon ''quizlet'' ''Quizlet'' ''4255FF''),
     (''siQuora'', SimpleIcon ''quora'' ''Quora'' ''B92B27''),
     (''siQwant'', SimpleIcon ''qwant'' ''Qwant'' ''282B2F''),
     (''siQwik'', SimpleIcon ''qwik'' ''Qwik'' ''AC7EF4''),
     (''siQwiklabs'', SimpleIcon ''qwiklabs'' ''Qwiklabs'' ''F5CD0E''),
     (''siQzone'', SimpleIcon ''qzone'' ''Qzone'' ''FECE00''),
     (''siR'', SimpleIcon ''r'' ''R'' ''276DC3''),
     (''siR3'', SimpleIcon ''r3'' ''R3'' ''EC1D24''),
     (''siRabbitmq'', SimpleIcon ''rabbitmq'' ''RabbitMQ'' ''FF6600''),
     (''siRacket'', SimpleIcon ''racket'' ''Racket'' ''9F1D20''),
     (''siRadstudio'', SimpleIcon ''radstudio'' ''RAD Studio'' ''E62431''),
     (''siRadar'', SimpleIcon ''radar'' ''Radar'' ''007AFF''),
     (''siRadarr'', SimpleIcon ''radarr'' ''radarr'' ''FFCB3D''),
     (''siRadixui'', SimpleIcon ''radixui'' ''Radix UI'' ''161618''),
     (''siRailway'', SimpleIcon ''railway'' ''Railway'' ''0B0D0E''),
     (''siRainmeter'', SimpleIcon ''rainmeter'' ''Rainmeter'' ''19519B''),
     (''siRakuten'', SimpleIcon ''rakuten'' ''Rakuten'' ''BF0000''),
     (''siRam'', SimpleIcon ''ram'' ''Ram'' ''000000''),
     (''siRancher'', SimpleIcon ''rancher'' ''Rancher'' ''0075A8''),
     (''siRapid'', SimpleIcon ''rapid'' ''Rapid'' ''0055DA''),
     (''siRarible'', SimpleIcon ''rarible'' ''Rarible'' ''FEDA03''),
     (''siRasa'', SimpleIcon ''rasa'' ''Rasa'' ''5A17EE''),
     (''siRaspberrypi'', SimpleIcon ''raspberrypi'' ''Raspberry Pi'' ''A22846''),
     (''siRavelry'', SimpleIcon ''ravelry'' ''Ravelry'' ''EE6E62''),
     (''siRay'', SimpleIcon ''ray'' ''Ray'' ''028CF0''),
     (''siRaycast'', SimpleIcon ''raycast'' ''Raycast'' ''FF6363''),
     (''siRaylib'', SimpleIcon ''raylib'' ''Raylib'' ''000000''),
     (''siRazer'', SimpleIcon ''razer'' ''Razer'' ''00FF00''),
     (''siRazorpay'', SimpleIcon ''razorpay'' ''Razorpay'' ''0C2451''),
     (''siRclone'', SimpleIcon ''rclone'' ''Rclone'' ''3F79AD''),
     (''siReact'', SimpleIcon ''react'' ''React'' ''61DAFB''),
     (''siReactbootstrap'', SimpleIcon ''reactbootstrap'' ''React Bootstrap'' ''41E0FD''),
     (''siReacthookform'', SimpleIcon ''reacthookform'' ''React Hook Form'' ''EC5990''),
     (''siReactquery'', SimpleIcon ''reactquery'' ''React Query'' ''FF4154''),
     (''siReactrouter'', SimpleIcon ''reactrouter'' ''React Router'' ''CA4245''),
     (''siReacttable'', SimpleIcon ''reacttable'' ''React Table'' ''FF4154''),
     (''siReactiveresume'', SimpleIcon ''reactiveresume'' ''Reactive Resume'' ''000000''),
     (''siReactivex'', SimpleIcon ''reactivex'' ''ReactiveX'' ''B7178C''),
     (''siReactos'', SimpleIcon ''reactos'' ''ReactOS'' ''0088CC''),
     (''siReadthedocs'', SimpleIcon ''readthedocs'' ''Read the Docs'' ''8CA1AF''),
     (''siReaddotcv'', SimpleIcon ''readdotcv'' ''Read.cv'' ''111111''),
     (''siReadme'', SimpleIcon ''readme'' ''ReadMe'' ''018EF5'')]"

definition icons_47 :: "(string \<times> SimpleIcon) list" where
  "icons_47 =
    [(''siReason'', SimpleIcon ''reason'' ''Reason'' ''DD4B39''),
     (''siReasonstudios'', SimpleIcon ''reasonstudios'' ''Reason Studios'' ''FFFFFF''),
     (''siRecoil'', SimpleIcon ''recoil'' ''Recoil'' ''3578E5''),
     (''siRed'', SimpleIcon ''red'' ''Red'' ''B32629''),
     (''siRedbull'', SimpleIcon ''redbull'' ''Red Bull'' ''DB0A40''),
     (''siRedcandlegames'', SimpleIcon ''redcandlegames'' ''Red Candle Games'' ''D23735''),
     (''siRedhat'', SimpleIcon ''redhat'' ''Red Hat'' ''EE0000''),
     (''siRedhatopenshift'', SimpleIcon ''redhatopenshift'' ''Red Hat Open Shift'' ''EE0000''),
     (''siRedash'', SimpleIcon ''redash'' ''Redash'' ''FF7964''),
     (''siRedbubble'', SimpleIcon ''redbubble'' ''Redbubble'' ''E41321''),
     (''siReddit'', SimpleIcon ''reddit'' ''Reddit'' ''FF4500''),
     (''siRedis'', SimpleIcon ''redis'' ''Redis'' ''FF4438''),
     (''siRedmine'', SimpleIcon ''redmine'' ''Redmine'' ''B32024''),
     (''siRedox'', SimpleIcon ''redox'' ''Redox'' ''000000''),
     (''siRedragon'', SimpleIcon ''redragon'' ''Redragon'' ''E60012''),
     (''siRedsys'', SimpleIcon ''redsys'' ''Redsys'' ''DC7C26''),
     (''siRedux'', SimpleIcon ''redux'' ''Redux'' ''764ABC''),
     (''siReduxsaga'', SimpleIcon ''reduxsaga'' ''Redux-Saga'' ''999999''),
     (''siRedwoodjs'', SimpleIcon ''redwoodjs'' ''RedwoodJS'' ''BF4722''),
     (''siReebok'', SimpleIcon ''reebok'' ''Reebok'' ''E41D1B''),
     (''siRefine'', SimpleIcon ''refine'' ''Refine'' ''14141F''),
     (''siRefinedgithub'', SimpleIcon ''refinedgithub'' ''Refined GitHub'' ''9E95B7''),
     (''siRelay'', SimpleIcon ''relay'' ''Relay'' ''F26B00''),
     (''siRelianceindustrieslimited'', SimpleIcon ''relianceindustrieslimited'' ''Reliance Industries Limited'' ''D1AB66''),
     (''siRemark'', SimpleIcon ''remark'' ''remark'' ''000000''),
     (''siRemedyentertainment'', SimpleIcon ''remedyentertainment'' ''Remedy Entertainment'' ''D6001C''),
     (''siRemix'', SimpleIcon ''remix'' ''Remix'' ''000000''),
     (''siRemovedotbg'', SimpleIcon ''removedotbg'' ''remove.bg'' ''54616C''),
     (''siRenpy'', SimpleIcon ''renpy'' (''Ren'' @ [CHR 0x27] @ ''Py'') ''FF7F7F''),
     (''siRenault'', SimpleIcon ''renault'' ''Renault'' ''FFCC33''),
     (''siRender'', SimpleIcon ''render'' ''Render'' ''000000''),
     (''siRenovate'', SimpleIcon ''renovate'' ''Renovate'' ''308BE3''),
     (''siRenren'', SimpleIcon ''renren'' ''Renren'' ''217DC6''),
     (''siReplicate'', SimpleIcon ''replicate'' ''Replicate'' ''000000''),
     (''siReplit'', SimpleIcon ''replit'' ''Replit'' ''F26207''),
     (''siRepublicofgamers'', SimpleIcon ''republicofgamers'' ''Republic of Gamers'' ''FF0029''),
     (''siRescript'', SimpleIcon ''rescript'' ''ReScript'' ''E6484F''),
     (''siRescuetime'', SimpleIcon ''rescuetime'' ''RescueTime'' ''161A3B''),
     (''siResearchgate'', SimpleIcon ''researchgate'' ''ResearchGate'' ''00CCBB''),
     (''siResend'', SimpleIcon ''resend'' ''Resend'' ''000000''),
     (''siResharper'', SimpleIcon ''resharper'' ''ReSharper'' ''000000''),
     (''siResurrectionremixos'', SimpleIcon ''resurrectionremixos'' ''Resurrection Remix OS'' ''000000''),
     (''siRetool'', SimpleIcon ''retool'' ''Retool'' ''3D3D3D''),
     (''siRetroarch'', SimpleIcon ''retroarch'' ''RetroArch'' ''000000''),
     (''siRetropie'', SimpleIcon ''retropie'' ''RetroPie'' ''CC0000''),
     (''siRevanced'', SimpleIcon ''revanced'' ''ReVanced'' ''9ED5FF''),
     (''siRevealdotjs'', SimpleIcon ''revealdotjs'' ''reveal.js'' ''F2E142''),
     (''siReverbnation'', SimpleIcon ''reverbnation'' ''ReverbNation'' ''E43526''),
     (''siRevoltdotchat'', SimpleIcon ''revoltdotchat'' ''Revolt.chat'' ''FF4655''),
     (''siRevolut'', SimpleIcon ''revolut'' ''Revolut'' ''191C1F'')]"

definition icons_48 :: "(string \<times> SimpleIcon) list" where
  "icons_48 =
    [(''siRewe'', SimpleIcon ''rewe'' ''REWE'' ''CC071E''),
     (''siRezgo'', SimpleIcon ''rezgo'' ''Rezgo'' ''F76C00''),
     (''siRhinoceros'', SimpleIcon ''rhinoceros'' ''Rhinoceros'' ''801010''),
     (''siRich'', SimpleIcon ''rich'' ''Rich'' ''FAE742''),
     (''siRider'', SimpleIcon ''rider'' ''Rider'' ''000000''),
     (''siRimacautomobili'', SimpleIcon ''rimacautomobili'' ''Rimac Automobili'' ''0A222E''),
     (''siRime'', SimpleIcon ''rime'' ''Rime'' ''000000''),
     (''siRing'', SimpleIcon ''ring'' ''Ring'' ''1C9AD6''),
     (''siRiotgames'', SimpleIcon ''riotgames'' ''Riot Games'' ''EB0029''),
     (''siRipple'', SimpleIcon ''ripple'' ''Ripple'' ''0085C0''),
     (''siRiscv'', SimpleIcon ''riscv'' ''RISC-V'' ''283272''),
     (''siRiseup'', SimpleIcon ''riseup'' ''Riseup'' ''FF0000''),
     (''siRitzcarlton'', SimpleIcon ''ritzcarlton'' ''Ritz Carlton'' ''000000''),
     (''siRive'', SimpleIcon ''rive'' ''Rive'' ''1D1D1D''),
     (''siRoadmapdotsh'', SimpleIcon ''roadmapdotsh'' ''roadmap.sh'' ''000000''),
     (''siRoamresearch'', SimpleIcon ''roamresearch'' ''Roam Research'' ''343A40''),
     (''siRobinhood'', SimpleIcon ''robinhood'' ''Robinhood'' ''CCFF00''),
     (''siRoblox'', SimpleIcon ''roblox'' ''Roblox'' ''000000''),
     (''siRobloxstudio'', SimpleIcon ''robloxstudio'' ''Roblox Studio'' ''00A2FF''),
     (''siRoboflow'', SimpleIcon ''roboflow'' ''Roboflow'' ''6706CE''),
     (''siRobotframework'', SimpleIcon ''robotframework'' ''Robot Framework'' ''000000''),
     (''siRocket'', SimpleIcon ''rocket'' ''Rocket'' ''D33847''),
     (''siRocketdotchat'', SimpleIcon ''rocketdotchat'' ''Rocket.Chat'' ''F5455C''),
     (''siRocksdb'', SimpleIcon ''rocksdb'' ''RocksDB'' ''2A2A2A''),
     (''siRockstargames'', SimpleIcon ''rockstargames'' ''Rockstar Games'' ''FCAF17''),
     (''siRockwellautomation'', SimpleIcon ''rockwellautomation'' ''Rockwell Automation'' ''CD163F''),
     (''siRockylinux'', SimpleIcon ''rockylinux'' ''Rocky Linux'' ''10B981''),
     (''siRoku'', SimpleIcon ''roku'' ''Roku'' ''662D91''),
     (''siRoll20'', SimpleIcon ''roll20'' ''Roll20'' ''E10085''),
     (''siRollsroyce'', SimpleIcon ''rollsroyce'' ''Rolls-Royce'' ''281432''),
     (''siRollupdotjs'', SimpleIcon ''rollupdotjs'' ''rollup.js'' ''EC4A3F''),
     (''siRook'', SimpleIcon ''rook'' ''Rook'' ''2AC6EA''),
     (''siRoon'', SimpleIcon ''roon'' ''Roon'' ''2039F3''),
     (''siRootme'', SimpleIcon ''rootme'' ''Root Me'' ''000000''),
     (''siRoots'', SimpleIcon ''roots'' ''Roots'' ''525DDC''),
     (''siRootsbedrock'', SimpleIcon ''rootsbedrock'' ''Roots Bedrock'' ''525DDC''),
     (''siRootssage'', SimpleIcon ''rootssage'' ''Roots Sage'' ''525DDC''),
     (''siRos'', SimpleIcon ''ros'' ''ROS'' ''22314E''),
     (''siRossmann'', SimpleIcon ''rossmann'' ''Rossmann'' ''C3002D''),
     (''siRotaryinternational'', SimpleIcon ''rotaryinternational'' ''Rotary International'' ''F7A81B''),
     (''siRottentomatoes'', SimpleIcon ''rottentomatoes'' ''Rotten Tomatoes'' ''FA320A''),
     (''siRoundcube'', SimpleIcon ''roundcube'' ''Roundcube'' ''37BEFF''),
     (''siRsocket'', SimpleIcon ''rsocket'' ''RSocket'' ''EF0092''),
     (''siRss'', SimpleIcon ''rss'' ''RSS'' ''FFA500''),
     (''siRstudioide'', SimpleIcon ''rstudioide'' ''RStudio IDE'' ''75AADB''),
     (''siRte'', SimpleIcon ''rte'' ''RT&#201;'' ''00A7B3''),
     (''siRtl'', SimpleIcon ''rtl'' ''RTL'' ''FA002E''),
     (''siRtlzwei'', SimpleIcon ''rtlzwei'' ''RTLZWEI'' ''00BCF6''),
     (''siRtm'', SimpleIcon ''rtm'' ''RTM'' ''36474F''),
     (''siRubocop'', SimpleIcon ''rubocop'' ''RuboCop'' ''000000'')]"

definition icons_49 :: "(string \<times> SimpleIcon) list" where
  "icons_49 =
    [(''siRuby'', SimpleIcon ''ruby'' ''Ruby'' ''CC342D''),
     (''siRubyonrails'', SimpleIcon ''rubyonrails'' ''Ruby on Rails'' ''D30001''),
     (''siRubysinatra'', SimpleIcon ''rubysinatra'' ''Ruby Sinatra'' ''000000''),
     (''siRubygems'', SimpleIcon ''rubygems'' ''RubyGems'' ''E9573F''),
     (''siRubymine'', SimpleIcon ''rubymine'' ''RubyMine'' ''000000''),
     (''siRuff'', SimpleIcon ''ruff'' ''Ruff'' ''D7FF64''),
     (''siRumahweb'', SimpleIcon ''rumahweb'' ''Rumahweb'' ''2EB4E3''),
     (''siRumble'', SimpleIcon ''rumble'' ''Rumble'' ''85C742''),
     (''siRundeck'', SimpleIcon ''rundeck'' ''Rundeck'' ''F73F39''),
     (''siRunkeeper'', SimpleIcon ''runkeeper'' ''Runkeeper'' ''001E62''),
     (''siRunkit'', SimpleIcon ''runkit'' ''RunKit'' ''491757''),
     (''siRunrundotit'', SimpleIcon ''runrundotit'' ''Runrun.it'' ''DB3729''),
     (''siRust'', SimpleIcon ''rust'' ''Rust'' ''000000''),
     (''siRustdesk'', SimpleIcon ''rustdesk'' ''RustDesk'' ''024EFF''),
     (''siRxdb'', SimpleIcon ''rxdb'' ''RxDB'' ''8D1F89''),
     (''siRyanair'', SimpleIcon ''ryanair'' ''Ryanair'' ''073590''),
     (''siRye'', SimpleIcon ''rye'' ''Rye'' ''000000''),
     (''siS7airlines'', SimpleIcon ''s7airlines'' ''S7 Airlines'' ''C4D600''),
     (''siSabanci'', SimpleIcon ''sabanci'' ''Sabanci'' ''004B93''),
     (''siSafari'', SimpleIcon ''safari'' ''Safari'' ''006CFF''),
     (''siSage'', SimpleIcon ''sage'' ''Sage'' ''00D639''),
     (''siSahibinden'', SimpleIcon ''sahibinden'' ''Sahibinden'' ''FFE800''),
     (''siSailfishos'', SimpleIcon ''sailfishos'' ''Sailfish OS'' ''053766''),
     (''siSailsdotjs'', SimpleIcon ''sailsdotjs'' ''Sails.js'' ''14ACC2''),
     (''siSalesforce'', SimpleIcon ''salesforce'' ''Salesforce'' ''00A1E0''),
     (''siSalla'', SimpleIcon ''salla'' ''Salla'' ''BAF3E6''),
     (''siSaltproject'', SimpleIcon ''saltproject'' ''Salt Project'' ''57BCAD''),
     (''siSamsclub'', SimpleIcon ''samsclub'' (''Sam'' @ [CHR 0x27] @ ''s Club'') ''0067A0''),
     (''siSamsung'', SimpleIcon ''samsung'' ''Samsung'' ''1428A0''),
     (''siSamsungpay'', SimpleIcon ''samsungpay'' ''Samsung Pay'' ''1428A0''),
     (''siSanfranciscomunicipalrailway'', SimpleIcon ''sanfranciscomunicipalrailway'' ''San Francisco Municipal Railway'' ''BA0C2F''),
     (''siSandisk'', SimpleIcon ''sandisk'' ''SanDisk'' ''ED1C24''),
     (''siSanic'', SimpleIcon ''sanic'' ''Sanic'' ''FF0D68''),
     (''siSanity'', SimpleIcon ''sanity'' ''Sanity'' ''F03E2F''),
     (''siSaopaulometro'', SimpleIcon ''saopaulometro'' ''S&#227;o Paulo Metro'' ''004382''),
     (''siSap'', SimpleIcon ''sap'' ''SAP'' ''0FAAFF''),
     (''siSartorius'', SimpleIcon ''sartorius'' ''Sartorius'' ''FFED00''),
     (''siSass'', SimpleIcon ''sass'' ''Sass'' ''CC6699''),
     (''siSat1'', SimpleIcon ''sat1'' ''Sat.1'' ''047DA3''),
     (''siSatellite'', SimpleIcon ''satellite'' ''Satellite'' ''000000''),
     (''siSaturn'', SimpleIcon ''saturn'' ''Saturn'' ''EB680B''),
     (''siSaucelabs'', SimpleIcon ''saucelabs'' ''Sauce Labs'' ''3DDC91''),
     (''siSaudia'', SimpleIcon ''saudia'' ''Saudia'' ''026938''),
     (''siScala'', SimpleIcon ''scala'' ''Scala'' ''DC322F''),
     (''siScalar'', SimpleIcon ''scalar'' ''Scalar'' ''1A1A1A''),
     (''siScaleway'', SimpleIcon ''scaleway'' ''Scaleway'' ''4F0599''),
     (''siScania'', SimpleIcon ''scania'' ''Scania'' ''041E42''),
     (''siSchneiderelectric'', SimpleIcon ''schneiderelectric'' ''Schneider Electric'' ''3DCD58''),
     (''siScikitlearn'', SimpleIcon ''scikitlearn'' ''scikit-learn'' ''F7931E''),
     (''siScilab'', SimpleIcon ''scilab'' ''Scilab'' ''CD1925'')]"

definition icons_50 :: "(string \<times> SimpleIcon) list" where
  "icons_50 =
    [(''siScipy'', SimpleIcon ''scipy'' ''SciPy'' ''8CAAE6''),
     (''siScopus'', SimpleIcon ''scopus'' ''Scopus'' ''E9711C''),
     (''siScpfoundation'', SimpleIcon ''scpfoundation'' ''SCP Foundation'' ''FFFFFF''),
     (''siScrapbox'', SimpleIcon ''scrapbox'' ''Scrapbox'' ''06B632''),
     (''siScrapy'', SimpleIcon ''scrapy'' ''Scrapy'' ''60A839''),
     (''siScratch'', SimpleIcon ''scratch'' ''Scratch'' ''4D97FF''),
     (''siScreencastify'', SimpleIcon ''screencastify'' ''Screencastify'' ''FF8282''),
     (''siScribd'', SimpleIcon ''scribd'' ''Scribd'' ''1E7B85''),
     (''siScrimba'', SimpleIcon ''scrimba'' ''Scrimba'' ''2B283A''),
     (''siScrollreveal'', SimpleIcon ''scrollreveal'' ''ScrollReveal'' ''FFCB36''),
     (''siScrumalliance'', SimpleIcon ''scrumalliance'' ''Scrum Alliance'' ''009FDA''),
     (''siScrutinizerci'', SimpleIcon ''scrutinizerci'' ''Scrutinizer CI'' ''8A9296''),
     (''siScylladb'', SimpleIcon ''scylladb'' ''ScyllaDB'' ''6CD5E7''),
     (''siSeagate'', SimpleIcon ''seagate'' ''Seagate'' ''6EBE49''),
     (''siSearxng'', SimpleIcon ''searxng'' ''SearXNG'' ''3050FF''),
     (''siSeat'', SimpleIcon ''seat'' ''SEAT'' ''33302E''),
     (''siSeatgeek'', SimpleIcon ''seatgeek'' ''SeatGeek'' ''FF5B49''),
     (''siSecurityscorecard'', SimpleIcon ''securityscorecard'' ''SecurityScorecard'' ''7033FD''),
     (''siSefaria'', SimpleIcon ''sefaria'' ''Sefaria'' ''212E50''),
     (''siSega'', SimpleIcon ''sega'' ''Sega'' ''0089CF''),
     (''siSelenium'', SimpleIcon ''selenium'' ''Selenium'' ''43B02A''),
     (''siSellfy'', SimpleIcon ''sellfy'' ''Sellfy'' ''21B352''),
     (''siSemanticscholar'', SimpleIcon ''semanticscholar'' ''Semantic Scholar'' ''1857B6''),
     (''siSemanticui'', SimpleIcon ''semanticui'' ''Semantic UI'' ''00B5AD''),
     (''siSemanticuireact'', SimpleIcon ''semanticuireact'' ''Semantic UI React'' ''35BDB2''),
     (''siSemanticweb'', SimpleIcon ''semanticweb'' ''Semantic Web'' ''005A9C''),
     (''siSemanticrelease'', SimpleIcon ''semanticrelease'' ''semantic-release'' ''494949''),
     (''siSemaphoreci'', SimpleIcon ''semaphoreci'' ''Semaphore CI'' ''19A974''),
     (''siSemrush'', SimpleIcon ''semrush'' ''Semrush'' ''FF642D''),
     (''siSemver'', SimpleIcon ''semver'' ''SemVer'' ''3F4551''),
     (''siSencha'', SimpleIcon ''sencha'' ''Sencha'' ''86BC40''),
     (''siSendgrid'', SimpleIcon ''sendgrid'' ''SendGrid'' ''51A9E3''),
     (''siSennheiser'', SimpleIcon ''sennheiser'' ''Sennheiser'' ''000000''),
     (''siSensu'', SimpleIcon ''sensu'' ''Sensu'' ''89C967''),
     (''siSentry'', SimpleIcon ''sentry'' ''Sentry'' ''362D59''),
     (''siSepa'', SimpleIcon ''sepa'' ''SEPA'' ''2350A9''),
     (''siSequelize'', SimpleIcon ''sequelize'' ''Sequelize'' ''52B0E7''),
     (''siServerfault'', SimpleIcon ''serverfault'' ''Server Fault'' ''E7282D''),
     (''siServerless'', SimpleIcon ''serverless'' ''Serverless'' ''FD5750''),
     (''siSession'', SimpleIcon ''session'' ''Session'' ''000000''),
     (''siSessionize'', SimpleIcon ''sessionize'' ''Sessionize'' ''1AB394''),
     (''siSetapp'', SimpleIcon ''setapp'' ''Setapp'' ''E6C3A5''),
     (''siSfml'', SimpleIcon ''sfml'' ''SFML'' ''8CC445''),
     (''siShadcnui'', SimpleIcon ''shadcnui'' ''shadcn/ui'' ''000000''),
     (''siShadow'', SimpleIcon ''shadow'' ''Shadow'' ''0A0C0D''),
     (''siShanghaimetro'', SimpleIcon ''shanghaimetro'' ''Shanghai Metro'' ''EC1C24''),
     (''siSharex'', SimpleIcon ''sharex'' ''ShareX'' ''2885F1''),
     (''siSharp'', SimpleIcon ''sharp'' ''sharp'' ''99CC00''),
     (''siShazam'', SimpleIcon ''shazam'' ''Shazam'' ''0088FF''),
     (''siShell'', SimpleIcon ''shell'' ''Shell'' ''FFD500'')]"

definition icons_51 :: "(string \<times> SimpleIcon) list" where
  "icons_51 =
    [(''siShelly'', SimpleIcon ''shelly'' ''Shelly'' ''4495D1''),
     (''siShenzhenmetro'', SimpleIcon ''shenzhenmetro'' ''Shenzhen Metro'' ''009943''),
     (''siShieldsdotio'', SimpleIcon ''shieldsdotio'' ''Shields.io'' ''000000''),
     (''siShikimori'', SimpleIcon ''shikimori'' ''Shikimori'' ''343434''),
     (''siShopee'', SimpleIcon ''shopee'' ''Shopee'' ''EE4D2D''),
     (''siShopify'', SimpleIcon ''shopify'' ''Shopify'' ''7AB55C''),
     (''siShopware'', SimpleIcon ''shopware'' ''Shopware'' ''189EFF''),
     (''siShortcut'', SimpleIcon ''shortcut'' ''Shortcut'' ''58B1E4''),
     (''siShowpad'', SimpleIcon ''showpad'' ''Showpad'' ''2D2E83''),
     (''siShowtime'', SimpleIcon ''showtime'' ''Showtime'' ''B10000''),
     (''siShowwcase'', SimpleIcon ''showwcase'' ''Showwcase'' ''0A0D14''),
     (''siShutterstock'', SimpleIcon ''shutterstock'' ''Shutterstock'' ''EE2B24''),
     (''siSidekiq'', SimpleIcon ''sidekiq'' ''Sidekiq'' ''B1003E''),
     (''siSidequest'', SimpleIcon ''sidequest'' ''SideQuest'' ''101227''),
     (''siSiemens'', SimpleIcon ''siemens'' ''Siemens'' ''009999''),
     (''siSifive'', SimpleIcon ''sifive'' ''SiFive'' ''252323''),
     (''siSignal'', SimpleIcon ''signal'' ''Signal'' ''3B45FD''),
     (''siSilverairways'', SimpleIcon ''silverairways'' ''Silver Airways'' ''D0006F''),
     (''siSimilarweb'', SimpleIcon ''similarweb'' ''Similarweb'' ''092540''),
     (''siSimkl'', SimpleIcon ''simkl'' ''Simkl'' ''000000''),
     (''siSimpleanalytics'', SimpleIcon ''simpleanalytics'' ''Simple Analytics'' ''FF4F64''),
     (''siSimpleicons'', SimpleIcon ''simpleicons'' ''Simple Icons'' ''111111''),
     (''siSimplelogin'', SimpleIcon ''simplelogin'' ''SimpleLogin'' ''EA319F''),
     (''siSimplenote'', SimpleIcon ''simplenote'' ''Simplenote'' ''3361CC''),
     (''siSimplex'', SimpleIcon ''simplex'' ''SimpleX'' ''000000''),
     (''siSinaweibo'', SimpleIcon ''sinaweibo'' ''Sina Weibo'' ''E6162D''),
     (''siSingaporeairlines'', SimpleIcon ''singaporeairlines'' ''Singapore Airlines'' ''F99F1C''),
     (''siSinglestore'', SimpleIcon ''singlestore'' ''SingleStore'' ''AA00FF''),
     (''siSitecore'', SimpleIcon ''sitecore'' ''Sitecore'' ''EB1F1F''),
     (''siSitepoint'', SimpleIcon ''sitepoint'' ''SitePoint'' ''258AAF''),
     (''siSiyuan'', SimpleIcon ''siyuan'' ''SiYuan'' ''D23F31''),
     (''siSkaffold'', SimpleIcon ''skaffold'' ''Skaffold'' ''2AA2D6''),
     (''siSketch'', SimpleIcon ''sketch'' ''Sketch'' ''F7B500''),
     (''siSketchfab'', SimpleIcon ''sketchfab'' ''Sketchfab'' ''1CAAD9''),
     (''siSketchup'', SimpleIcon ''sketchup'' ''SketchUp'' ''005F9E''),
     (''siSkillshare'', SimpleIcon ''skillshare'' ''Skillshare'' ''00FF84''),
     (''siSkoda'', SimpleIcon ''skoda'' ''&#352;KODA'' ''0E3A2F''),
     (''siSky'', SimpleIcon ''sky'' ''Sky'' ''0072C9''),
     (''siSkypack'', SimpleIcon ''skypack'' ''Skypack'' ''3167FF''),
     (''siSlack'', SimpleIcon ''slack'' ''Slack'' ''4A154B''),
     (''siSlackware'', SimpleIcon ''slackware'' ''Slackware'' ''000000''),
     (''siSlashdot'', SimpleIcon ''slashdot'' ''Slashdot'' ''026664''),
     (''siSlickpic'', SimpleIcon ''slickpic'' ''SlickPic'' ''FF880F''),
     (''siSlides'', SimpleIcon ''slides'' ''Slides'' ''E4637C''),
     (''siSlideshare'', SimpleIcon ''slideshare'' ''SlideShare'' ''008ED2''),
     (''siSlint'', SimpleIcon ''slint'' ''Slint'' ''2379F4''),
     (''siSmart'', SimpleIcon ''smart'' ''smart'' ''D7E600''),
     (''siSmartthings'', SimpleIcon ''smartthings'' ''SmartThings'' ''15BFFF''),
     (''siSmashingmagazine'', SimpleIcon ''smashingmagazine'' ''Smashing Magazine'' ''E85C33''),
     (''siSmrt'', SimpleIcon ''smrt'' ''SMRT'' ''EE2E24'')]"

definition icons_52 :: "(string \<times> SimpleIcon) list" where
  "icons_52 =
    [(''siSmugmug'', SimpleIcon ''smugmug'' ''SmugMug'' ''6DB944''),
     (''siSnapchat'', SimpleIcon ''snapchat'' ''Snapchat'' ''FFFC00''),
     (''siSnapcraft'', SimpleIcon ''snapcraft'' ''Snapcraft'' ''82BEA0''),
     (''siSnapdragon'', SimpleIcon ''snapdragon'' ''Snapdragon'' ''C33139''),
     (''siSncf'', SimpleIcon ''sncf'' ''SNCF'' ''CA0939''),
     (''siSnort'', SimpleIcon ''snort'' ''Snort'' ''F6A7AA''),
     (''siSnowflake'', SimpleIcon ''snowflake'' ''Snowflake'' ''29B5E8''),
     (''siSnowpack'', SimpleIcon ''snowpack'' ''Snowpack'' ''2E5E82''),
     (''siSnyk'', SimpleIcon ''snyk'' ''Snyk'' ''4C4A73''),
     (''siSocialblade'', SimpleIcon ''socialblade'' ''Social Blade'' ''B3382C''),
     (''siSociety6'', SimpleIcon ''society6'' ''Society6'' ''000000''),
     (''siSocket'', SimpleIcon ''socket'' ''Socket'' ''C93CD7''),
     (''siSocketdotio'', SimpleIcon ''socketdotio'' ''Socket.io'' ''010101''),
     (''siSoftcatala'', SimpleIcon ''softcatala'' ''Softcatal&#224;'' ''BA2626''),
     (''siSoftpedia'', SimpleIcon ''softpedia'' ''Softpedia'' ''002873''),
     (''siSogou'', SimpleIcon ''sogou'' ''Sogou'' ''FB6022''),
     (''siSolana'', SimpleIcon ''solana'' ''Solana'' ''9945FF''),
     (''siSolid'', SimpleIcon ''solid'' ''Solid'' ''2C4F7C''),
     (''siSolidity'', SimpleIcon ''solidity'' ''Solidity'' ''363636''),
     (''siSololearn'', SimpleIcon ''sololearn'' ''Sololearn'' ''149EF2''),
     (''siSolus'', SimpleIcon ''solus'' ''Solus'' ''5294E2''),
     (''siSonar'', SimpleIcon ''sonar'' ''Sonar'' ''FD3456''),
     (''siSonarcloud'', SimpleIcon ''sonarcloud'' ''SonarCloud'' ''F3702A''),
     (''siSonarlint'', SimpleIcon ''sonarlint'' ''SonarLint'' ''CB2029''),
     (''siSonarqube'', SimpleIcon ''sonarqube'' ''SonarQube'' ''4E9BCD''),
     (''siSonarr'', SimpleIcon ''sonarr'' ''sonarr'' ''2596BE''),
     (''siSonatype'', SimpleIcon ''sonatype'' ''Sonatype'' ''1B1C30''),
     (''siSongkick'', SimpleIcon ''songkick'' ''Songkick'' ''F80046''),
     (''siSongoda'', SimpleIcon ''songoda'' ''Songoda'' ''FC494A''),
     (''siSonicwall'', SimpleIcon ''sonicwall'' ''SonicWall'' ''FF791A''),
     (''siSonos'', SimpleIcon ''sonos'' ''Sonos'' ''000000''),
     (''siSony'', SimpleIcon ''sony'' ''Sony'' ''FFFFFF''),
     (''siSoriana'', SimpleIcon ''soriana'' ''Soriana'' ''D52B1E''),
     (''siSoundcharts'', SimpleIcon ''soundcharts'' ''Soundcharts'' ''0C1528''),
     (''siSoundcloud'', SimpleIcon ''soundcloud'' ''SoundCloud'' ''FF5500''),
     (''siSourceengine'', SimpleIcon ''sourceengine'' ''Source Engine'' ''F79A10''),
     (''siSourceforge'', SimpleIcon ''sourceforge'' ''SourceForge'' ''FF6600''),
     (''siSourcehut'', SimpleIcon ''sourcehut'' ''SourceHut'' ''000000''),
     (''siSourcetree'', SimpleIcon ''sourcetree'' ''Sourcetree'' ''0052CC''),
     (''siSouthwestairlines'', SimpleIcon ''southwestairlines'' ''Southwest Airlines'' ''304CB2''),
     (''siSpacemacs'', SimpleIcon ''spacemacs'' ''Spacemacs'' ''9266CC''),
     (''siSpaceship'', SimpleIcon ''spaceship'' ''Spaceship'' ''394EFF''),
     (''siSpacex'', SimpleIcon ''spacex'' ''SpaceX'' ''000000''),
     (''siSpacy'', SimpleIcon ''spacy'' ''spaCy'' ''09A3D5''),
     (''siSparkar'', SimpleIcon ''sparkar'' ''Spark AR'' ''FF5C83''),
     (''siSparkasse'', SimpleIcon ''sparkasse'' ''Sparkasse'' ''FF0000''),
     (''siSparkfun'', SimpleIcon ''sparkfun'' ''SparkFun'' ''E53525''),
     (''siSparkpost'', SimpleIcon ''sparkpost'' ''SparkPost'' ''FA6423''),
     (''siSpdx'', SimpleIcon ''spdx'' ''SPDX'' ''4398CC''),
     (''siSpeakerdeck'', SimpleIcon ''speakerdeck'' ''Speaker Deck'' ''009287'')]"

definition icons_53 :: "(string \<times> SimpleIcon) list" where
  "icons_53 =
    [(''siSpectrum'', SimpleIcon ''spectrum'' ''Spectrum'' ''7B16FF''),
     (''siSpeedtest'', SimpleIcon ''speedtest'' ''Speedtest'' ''141526''),
     (''siSpeedypage'', SimpleIcon ''speedypage'' ''SpeedyPage'' ''1C71F9''),
     (''siSpoj'', SimpleIcon ''spoj'' ''Sphere Online Judge'' ''337AB7''),
     (''siSphinx'', SimpleIcon ''sphinx'' ''Sphinx'' ''000000''),
     (''siSpigotmc'', SimpleIcon ''spigotmc'' ''SpigotMC'' ''ED8106''),
     (''siSpine'', SimpleIcon ''spine'' ''Spine'' ''FF4000''),
     (''siSpinnaker'', SimpleIcon ''spinnaker'' ''Spinnaker'' ''139BB4''),
     (''siSplunk'', SimpleIcon ''splunk'' ''Splunk'' ''000000''),
     (''siSpond'', SimpleIcon ''spond'' ''Spond'' ''EE4353''),
     (''siSpotify'', SimpleIcon ''spotify'' ''Spotify'' ''1ED760''),
     (''siSpotlight'', SimpleIcon ''spotlight'' ''Spotlight'' ''352A71''),
     (''siSpreadshirt'', SimpleIcon ''spreadshirt'' ''Spreadshirt'' ''00B2A5''),
     (''siSpreaker'', SimpleIcon ''spreaker'' ''Spreaker'' ''F5C300''),
     (''siSpring'', SimpleIcon ''spring'' ''Spring'' ''6DB33F''),
     (''siSpring_creators'', SimpleIcon ''spring_creators'' ''Spring'' ''000000''),
     (''siSpringboot'', SimpleIcon ''springboot'' ''Spring Boot'' ''6DB33F''),
     (''siSpringsecurity'', SimpleIcon ''springsecurity'' ''Spring Security'' ''6DB33F''),
     (''siSpyderide'', SimpleIcon ''spyderide'' ''Spyder IDE'' ''8C0000''),
     (''siSqlalchemy'', SimpleIcon ''sqlalchemy'' ''SQLAlchemy'' ''D71F00''),
     (''siSqlite'', SimpleIcon ''sqlite'' ''SQLite'' ''003B57''),
     (''siSquare'', SimpleIcon ''square'' ''Square'' ''3E4348''),
     (''siSquareenix'', SimpleIcon ''squareenix'' ''Square Enix'' ''ED1C24''),
     (''siSquarespace'', SimpleIcon ''squarespace'' ''Squarespace'' ''000000''),
     (''siSrgssr'', SimpleIcon ''srgssr'' ''SRG SSR'' ''AF001E''),
     (''siSsrn'', SimpleIcon ''ssrn'' ''SSRN'' ''154881''),
     (''siSst'', SimpleIcon ''sst'' ''SST'' ''E27152''),
     (''siStackexchange'', SimpleIcon ''stackexchange'' ''Stack Exchange'' ''1E5397''),
     (''siStackoverflow'', SimpleIcon ''stackoverflow'' ''Stack Overflow'' ''F58025''),
     (''siStackbit'', SimpleIcon ''stackbit'' ''Stackbit'' ''207BEA''),
     (''siStackblitz'', SimpleIcon ''stackblitz'' ''StackBlitz'' ''1269D3''),
     (''siStackedit'', SimpleIcon ''stackedit'' ''StackEdit'' ''606060''),
     (''siStackhawk'', SimpleIcon ''stackhawk'' ''StackHawk'' ''00CBC6''),
     (''siStackshare'', SimpleIcon ''stackshare'' ''StackShare'' ''0690FA''),
     (''siStadia'', SimpleIcon ''stadia'' ''Stadia'' ''CD2640''),
     (''siStaffbase'', SimpleIcon ''staffbase'' ''Staffbase'' ''00A4FD''),
     (''siStagetimer'', SimpleIcon ''stagetimer'' ''Stagetimer'' ''00A66C''),
     (''siStandardresume'', SimpleIcon ''standardresume'' ''Standard Resume'' ''2A3FFB''),
     (''siStandardjs'', SimpleIcon ''standardjs'' ''StandardJS'' ''F3DF49''),
     (''siStartrek'', SimpleIcon ''startrek'' ''Star Trek'' ''FFE200''),
     (''siStarbucks'', SimpleIcon ''starbucks'' ''Starbucks'' ''006241''),
     (''siStardock'', SimpleIcon ''stardock'' ''Stardock'' ''004B8D''),
     (''siStarlingbank'', SimpleIcon ''starlingbank'' ''Starling Bank'' ''6935D3''),
     (''siStarship'', SimpleIcon ''starship'' ''Starship'' ''DD0B78''),
     (''siStartdotgg'', SimpleIcon ''startdotgg'' ''start.gg'' ''2E75BA''),
     (''siStartpage'', SimpleIcon ''startpage'' ''Startpage'' ''6563FF''),
     (''siStarz'', SimpleIcon ''starz'' ''STARZ'' ''082125''),
     (''siStatamic'', SimpleIcon ''statamic'' ''Statamic'' ''FF269E''),
     (''siStatista'', SimpleIcon ''statista'' ''Statista'' ''001327''),
     (''siStatuspage'', SimpleIcon ''statuspage'' ''Statuspage'' ''172B4D'')]"

definition icons_54 :: "(string \<times> SimpleIcon) list" where
  "icons_54 =
    [(''siStatuspal'', SimpleIcon ''statuspal'' ''Statuspal'' ''4934BF''),
     (''siSteam'', SimpleIcon ''steam'' ''Steam'' ''000000''),
     (''siSteamdeck'', SimpleIcon ''steamdeck'' ''Steam Deck'' ''1A9FFF''),
     (''siSteamdb'', SimpleIcon ''steamdb'' ''SteamDB'' ''000000''),
     (''siSteamworks'', SimpleIcon ''steamworks'' ''Steamworks'' ''1E1E1E''),
     (''siSteelseries'', SimpleIcon ''steelseries'' ''Steelseries'' ''FF5200''),
     (''siSteem'', SimpleIcon ''steem'' ''Steem'' ''171FC9''),
     (''siSteemit'', SimpleIcon ''steemit'' ''Steemit'' ''06D6A9''),
     (''siSteinberg'', SimpleIcon ''steinberg'' ''Steinberg'' ''C90827''),
     (''siStellar'', SimpleIcon ''stellar'' ''Stellar'' ''7D00FF''),
     (''siStencil'', SimpleIcon ''stencil'' ''Stencil'' ''5530FF''),
     (''siStencyl'', SimpleIcon ''stencyl'' ''Stencyl'' ''8E1C04''),
     (''siStimulus'', SimpleIcon ''stimulus'' ''Stimulus'' ''77E8B9''),
     (''siStmicroelectronics'', SimpleIcon ''stmicroelectronics'' ''STMicroelectronics'' ''03234B''),
     (''siStockx'', SimpleIcon ''stockx'' ''StockX'' ''006340''),
     (''siStopstalk'', SimpleIcon ''stopstalk'' ''StopStalk'' ''536DFE''),
     (''siStoryblok'', SimpleIcon ''storyblok'' ''Storyblok'' ''09B3AF''),
     (''siStorybook'', SimpleIcon ''storybook'' ''Storybook'' ''FF4785''),
     (''siStrapi'', SimpleIcon ''strapi'' ''Strapi'' ''4945FF''),
     (''siStrava'', SimpleIcon ''strava'' ''Strava'' ''FC4C02''),
     (''siStreamlabs'', SimpleIcon ''streamlabs'' ''Streamlabs'' ''80F5D2''),
     (''siStreamlit'', SimpleIcon ''streamlit'' ''Streamlit'' ''FF4B4B''),
     (''siStreamrunners'', SimpleIcon ''streamrunners'' ''StreamRunners'' ''6644F8''),
     (''siStremio'', SimpleIcon ''stremio'' ''Stremio'' ''685CEE''),
     (''siStripe'', SimpleIcon ''stripe'' ''Stripe'' ''635BFF''),
     (''siStrongswan'', SimpleIcon ''strongswan'' ''strongSwan'' ''E00033''),
     (''siStryker'', SimpleIcon ''stryker'' ''Stryker'' ''E74C3C''),
     (''siStubhub'', SimpleIcon ''stubhub'' ''StubHub'' ''003168''),
     (''siStudio3t'', SimpleIcon ''studio3t'' ''Studio 3T'' ''17AF66''),
     (''siStyledcomponents'', SimpleIcon ''styledcomponents'' ''styled-components'' ''DB7093''),
     (''siStylelint'', SimpleIcon ''stylelint'' ''stylelint'' ''263238''),
     (''siStyleshare'', SimpleIcon ''styleshare'' ''StyleShare'' ''212121''),
     (''siStylus'', SimpleIcon ''stylus'' ''Stylus'' ''333333''),
     (''siSubaru'', SimpleIcon ''subaru'' ''Subaru'' ''013C74''),
     (''siSublimetext'', SimpleIcon ''sublimetext'' ''Sublime Text'' ''FF9800''),
     (''siSubstack'', SimpleIcon ''substack'' ''Substack'' ''FF6719''),
     (''siSubtitleedit'', SimpleIcon ''subtitleedit'' ''Subtitle Edit'' ''CC2424''),
     (''siSubversion'', SimpleIcon ''subversion'' ''Subversion'' ''809CC9''),
     (''siSuckless'', SimpleIcon ''suckless'' ''suckless'' ''1177AA''),
     (''siSui'', SimpleIcon ''sui'' ''Sui'' ''4DA2FF''),
     (''siSumologic'', SimpleIcon ''sumologic'' ''Sumo Logic'' ''000099''),
     (''siSuno'', SimpleIcon ''suno'' ''Suno'' ''000000''),
     (''siSunrise'', SimpleIcon ''sunrise'' ''Sunrise'' ''DA291C''),
     (''siSupabase'', SimpleIcon ''supabase'' ''Supabase'' ''3FCF8E''),
     (''siSuperuser'', SimpleIcon ''superuser'' ''Super User'' ''38A1CE''),
     (''siSupercrease'', SimpleIcon ''supercrease'' ''Supercrease'' ''000000''),
     (''siSupermicro'', SimpleIcon ''supermicro'' ''Supermicro'' ''151F6D''),
     (''siSurfshark'', SimpleIcon ''surfshark'' ''Surfshark'' ''1EBFBF''),
     (''siSurrealdb'', SimpleIcon ''surrealdb'' ''SurrealDB'' ''FF00A0''),
     (''siSurveymonkey'', SimpleIcon ''surveymonkey'' ''SurveyMonkey'' ''00BF6F'')]"

definition icons_55 :: "(string \<times> SimpleIcon) list" where
  "icons_55 =
    [(''siSuse'', SimpleIcon ''suse'' ''SUSE'' ''0C322C''),
     (''siSuzuki'', SimpleIcon ''suzuki'' ''Suzuki'' ''E30613''),
     (''siSvelte'', SimpleIcon ''svelte'' ''Svelte'' ''FF3E00''),
     (''siSvg'', SimpleIcon ''svg'' ''SVG'' ''FFB13B''),
     (''siSvgdotjs'', SimpleIcon ''svgdotjs'' ''SVG.js'' ''FF0066''),
     (''siSvgo'', SimpleIcon ''svgo'' ''SVGO'' ''3E7FC1''),
     (''siSvgtrace'', SimpleIcon ''svgtrace'' ''SvgTrace'' ''F453C4''),
     (''siSwagger'', SimpleIcon ''swagger'' ''Swagger'' ''85EA2D''),
     (''siSwarm'', SimpleIcon ''swarm'' ''Swarm'' ''FFA633''),
     (''siSway'', SimpleIcon ''sway'' ''Sway'' ''68751C''),
     (''siSwc'', SimpleIcon ''swc'' ''SWC'' ''F8C457''),
     (''siSwift'', SimpleIcon ''swift'' ''Swift'' ''F05138''),
     (''siSwiggy'', SimpleIcon ''swiggy'' ''Swiggy'' ''FC8019''),
     (''siSwiper'', SimpleIcon ''swiper'' ''Swiper'' ''6332F6''),
     (''siSwr'', SimpleIcon ''swr'' ''SWR'' ''000000''),
     (''siSymantec'', SimpleIcon ''symantec'' ''Symantec'' ''FDB511''),
     (''siSymbolab'', SimpleIcon ''symbolab'' ''Symbolab'' ''DB3F59''),
     (''siSymfony'', SimpleIcon ''symfony'' ''Symfony'' ''000000''),
     (''siSymphony'', SimpleIcon ''symphony'' ''Symphony'' ''0098FF''),
     (''siSympy'', SimpleIcon ''sympy'' ''SymPy'' ''3B5526''),
     (''siSyncthing'', SimpleIcon ''syncthing'' ''Syncthing'' ''0891D1''),
     (''siSynology'', SimpleIcon ''synology'' ''Synology'' ''B5B5B6''),
     (''siSystem76'', SimpleIcon ''system76'' ''System76'' ''585048''),
     (''siTabelog'', SimpleIcon ''tabelog'' ''Tabelog'' ''F2CC38''),
     (''siTablecheck'', SimpleIcon ''tablecheck'' ''TableCheck'' ''7935D2''),
     (''siTacobell'', SimpleIcon ''tacobell'' ''Taco Bell'' ''38096C''),
     (''siTado'', SimpleIcon ''tado'' ''tado&#176;'' ''FFA900''),
     (''siTaichigraphics'', SimpleIcon ''taichigraphics'' ''Taichi Graphics'' ''000000''),
     (''siTaichilang'', SimpleIcon ''taichilang'' ''Taichi Lang'' ''000000''),
     (''siTails'', SimpleIcon ''tails'' ''Tails'' ''56347C''),
     (''siTailscale'', SimpleIcon ''tailscale'' ''Tailscale'' ''242424''),
     (''siTailwindcss'', SimpleIcon ''tailwindcss'' ''Tailwind CSS'' ''06B6D4''),
     (''siTaipy'', SimpleIcon ''taipy'' ''Taipy'' ''FF371A''),
     (''siTaketwointeractivesoftware'', SimpleIcon ''taketwointeractivesoftware'' ''Take-Two Interactive Software'' ''000000''),
     (''siTalend'', SimpleIcon ''talend'' ''Talend'' ''FF6D70''),
     (''siTalenthouse'', SimpleIcon ''talenthouse'' ''Talenthouse'' ''000000''),
     (''siTalos'', SimpleIcon ''talos'' ''Talos'' ''FF7300''),
     (''siTamiya'', SimpleIcon ''tamiya'' ''Tamiya'' ''000000''),
     (''siTampermonkey'', SimpleIcon ''tampermonkey'' ''Tampermonkey'' ''00485B''),
     (''siTaobao'', SimpleIcon ''taobao'' ''Taobao'' ''E94F20''),
     (''siTapas'', SimpleIcon ''tapas'' ''Tapas'' ''FFCE00''),
     (''siTarget'', SimpleIcon ''target'' ''Target'' ''CC0000''),
     (''siTarom'', SimpleIcon ''tarom'' ''TAROM'' ''003366''),
     (''siTask'', SimpleIcon ''task'' ''Task'' ''29BEB0''),
     (''siTasmota'', SimpleIcon ''tasmota'' ''Tasmota'' ''1FA3EC''),
     (''siTata'', SimpleIcon ''tata'' ''Tata'' ''486AAE''),
     (''siTcs'', SimpleIcon ''tcs'' ''Tata Consultancy Services'' ''EE3984''),
     (''siTauri'', SimpleIcon ''tauri'' ''Tauri'' ''24C8D8''),
     (''siTaxbuzz'', SimpleIcon ''taxbuzz'' ''TaxBuzz'' ''ED8B0B''),
     (''siTeal'', SimpleIcon ''teal'' ''Teal'' ''005149'')]"

definition icons_56 :: "(string \<times> SimpleIcon) list" where
  "icons_56 =
    [(''siTeamcity'', SimpleIcon ''teamcity'' ''TeamCity'' ''000000''),
     (''siTeamspeak'', SimpleIcon ''teamspeak'' ''TeamSpeak'' ''4B69B6''),
     (''siTeamviewer'', SimpleIcon ''teamviewer'' ''TeamViewer'' ''050A52''),
     (''siTechcrunch'', SimpleIcon ''techcrunch'' ''TechCrunch'' ''029F00''),
     (''siTed'', SimpleIcon ''ted'' ''TED'' ''E62B1E''),
     (''siTeepublic'', SimpleIcon ''teepublic'' ''TeePublic'' ''4E64DF''),
     (''siTeespring'', SimpleIcon ''teespring'' ''Teespring'' ''ED2761''),
     (''siTekton'', SimpleIcon ''tekton'' ''Tekton'' ''FD495C''),
     (''siTele5'', SimpleIcon ''tele5'' ''TELE 5'' ''FF00FF''),
     (''siTelequebec'', SimpleIcon ''telequebec'' ''T&#233;l&#233;-Qu&#233;bec'' ''1343FB''),
     (''siTelefonica'', SimpleIcon ''telefonica'' ''Telef&#243;nica'' ''0066FF''),
     (''siTelegram'', SimpleIcon ''telegram'' ''Telegram'' ''26A5E4''),
     (''siTelegraph'', SimpleIcon ''telegraph'' ''Telegraph'' ''FAFAFA''),
     (''siTemporal'', SimpleIcon ''temporal'' ''Temporal'' ''000000''),
     (''siTensorflow'', SimpleIcon ''tensorflow'' ''TensorFlow'' ''FF6F00''),
     (''siTeradata'', SimpleIcon ''teradata'' ''Teradata'' ''F37440''),
     (''siTeratail'', SimpleIcon ''teratail'' ''teratail'' ''F4C51C''),
     (''siTermius'', SimpleIcon ''termius'' ''Termius'' ''000000''),
     (''siTerraform'', SimpleIcon ''terraform'' ''Terraform'' ''844FBA''),
     (''siTesco'', SimpleIcon ''tesco'' ''Tesco'' ''00539F''),
     (''siTesla'', SimpleIcon ''tesla'' ''Tesla'' ''CC0000''),
     (''siTestcafe'', SimpleIcon ''testcafe'' ''TestCafe'' ''36B6E5''),
     (''siTestin'', SimpleIcon ''testin'' ''Testin'' ''007DD7''),
     (''siTestinglibrary'', SimpleIcon ''testinglibrary'' ''Testing Library'' ''E33332''),
     (''siTestrail'', SimpleIcon ''testrail'' ''TestRail'' ''65C179''),
     (''siTether'', SimpleIcon ''tether'' ''Tether'' ''50AF95''),
     (''siTextpattern'', SimpleIcon ''textpattern'' ''Textpattern'' ''FFDA44''),
     (''siTga'', SimpleIcon ''tga'' ''TGA'' ''0014FF''),
     (''siThangs'', SimpleIcon ''thangs'' ''Thangs'' ''FFBC00''),
     (''siThanos'', SimpleIcon ''thanos'' ''Thanos'' ''6D41FF''),
     (''siThealgorithms'', SimpleIcon ''thealgorithms'' ''The Algorithms'' ''00BCB4''),
     (''siTheboringcompany'', SimpleIcon ''theboringcompany'' ''The Boring Company'' ''000000''),
     (''siTheconversation'', SimpleIcon ''theconversation'' ''The Conversation'' ''D8352A''),
     (''siThefinals'', SimpleIcon ''thefinals'' ''THE FINALS'' ''D31F3C''),
     (''siTheguardian'', SimpleIcon ''theguardian'' ''The Guardian'' ''052962''),
     (''siTheirishtimes'', SimpleIcon ''theirishtimes'' ''The Irish Times'' ''000000''),
     (''siThemighty'', SimpleIcon ''themighty'' ''The Mighty'' ''D0072A''),
     (''siThemodelsresource'', SimpleIcon ''themodelsresource'' ''The Models Resource'' ''3A75BD''),
     (''siThemoviedatabase'', SimpleIcon ''themoviedatabase'' ''The Movie Database'' ''01B4E4''),
     (''siThenorthface'', SimpleIcon ''thenorthface'' ''The North Face'' ''000000''),
     (''siTheodinproject'', SimpleIcon ''theodinproject'' ''The Odin Project'' ''A9792B''),
     (''siTheregister'', SimpleIcon ''theregister'' ''The Register'' ''FF0000''),
     (''siThesoundsresource'', SimpleIcon ''thesoundsresource'' ''The Sounds Resource'' ''39BE6B''),
     (''siThespritersresource'', SimpleIcon ''thespritersresource'' ''The Spriters Resource'' ''BE3939''),
     (''siThewashingtonpost'', SimpleIcon ''thewashingtonpost'' ''The Washington Post'' ''231F20''),
     (''siTheweatherchannel'', SimpleIcon ''theweatherchannel'' ''The Weather Channel'' ''003399''),
     (''siThingiverse'', SimpleIcon ''thingiverse'' ''Thingiverse'' ''248BFB''),
     (''siThinkpad'', SimpleIcon ''thinkpad'' ''ThinkPad'' ''EE2624''),
     (''siThirdweb'', SimpleIcon ''thirdweb'' ''thirdweb'' ''F213A4''),
     (''siThreadless'', SimpleIcon ''threadless'' ''Threadless'' ''0099FF'')]"

definition icons_57 :: "(string \<times> SimpleIcon) list" where
  "icons_57 =
    [(''siThreads'', SimpleIcon ''threads'' ''Threads'' ''000000''),
     (''siThreedotjs'', SimpleIcon ''threedotjs'' ''Three.js'' ''000000''),
     (''siThreema'', SimpleIcon ''threema'' ''Threema'' ''3FE669''),
     (''siThumbtack'', SimpleIcon ''thumbtack'' ''Thumbtack'' ''009FD9''),
     (''siThunderbird'', SimpleIcon ''thunderbird'' ''Thunderbird'' ''0A84FF''),
     (''siThunderstore'', SimpleIcon ''thunderstore'' ''Thunderstore'' ''23FFB0''),
     (''siThurgauerkantonalbank'', SimpleIcon ''thurgauerkantonalbank'' ''Thurgauer Kantonalbank'' ''006D41''),
     (''siThymeleaf'', SimpleIcon ''thymeleaf'' ''Thymeleaf'' ''005F0F''),
     (''siTicketmaster'', SimpleIcon ''ticketmaster'' ''Ticketmaster'' ''026CDF''),
     (''siTicktick'', SimpleIcon ''ticktick'' ''TickTick'' ''4772FA''),
     (''siTidal'', SimpleIcon ''tidal'' ''Tidal'' ''000000''),
     (''siTiddlywiki'', SimpleIcon ''tiddlywiki'' ''TiddlyWiki'' ''111111''),
     (''siTide'', SimpleIcon ''tide'' ''Tide'' ''4050FB''),
     (''siTidyverse'', SimpleIcon ''tidyverse'' ''Tidyverse'' ''1A162D''),
     (''siTietoevry'', SimpleIcon ''tietoevry'' ''TietoEVRY'' ''063752''),
     (''siTiktok'', SimpleIcon ''tiktok'' ''TikTok'' ''000000''),
     (''siTildapublishing'', SimpleIcon ''tildapublishing'' ''Tilda Publishing'' ''FFA282''),
     (''siTile'', SimpleIcon ''tile'' ''Tile'' ''000000''),
     (''siTimescale'', SimpleIcon ''timescale'' ''Timescale'' ''FDB515''),
     (''siTina'', SimpleIcon ''tina'' ''Tina'' ''EC4815''),
     (''siTinder'', SimpleIcon ''tinder'' ''Tinder'' ''FF6B6B''),
     (''siTindie'', SimpleIcon ''tindie'' ''Tindie'' ''17AEB9''),
     (''siTinkercad'', SimpleIcon ''tinkercad'' ''Tinkercad'' ''1477D1''),
     (''siTinygrad'', SimpleIcon ''tinygrad'' ''tinygrad'' ''FFFFFF''),
     (''siTinyletter'', SimpleIcon ''tinyletter'' ''TinyLetter'' ''ED1C24''),
     (''siTistory'', SimpleIcon ''tistory'' ''Tistory'' ''000000''),
     (''siTldraw'', SimpleIcon ''tldraw'' ''tldraw'' ''FAFAFA''),
     (''siTmux'', SimpleIcon ''tmux'' ''tmux'' ''1BB91F''),
     (''siTodoist'', SimpleIcon ''todoist'' ''Todoist'' ''E44332''),
     (''siToggl'', SimpleIcon ''toggl'' ''Toggl'' ''FFDE91''),
     (''siToggltrack'', SimpleIcon ''toggltrack'' ''Toggl Track'' ''E57CD8''),
     (''siTokyometro'', SimpleIcon ''tokyometro'' ''Tokyo Metro'' ''149DD3''),
     (''siToll'', SimpleIcon ''toll'' ''Toll'' ''007A68''),
     (''siToml'', SimpleIcon ''toml'' ''TOML'' ''9C4121''),
     (''siTomorrowland'', SimpleIcon ''tomorrowland'' ''Tomorrowland'' ''000000''),
     (''siTomtom'', SimpleIcon ''tomtom'' ''TomTom'' ''DF1B12''),
     (''siTon'', SimpleIcon ''ton'' ''TON'' ''0098EA''),
     (''siTopdotgg'', SimpleIcon ''topdotgg'' ''Top.gg'' ''FF3366''),
     (''siTopcoder'', SimpleIcon ''topcoder'' ''Topcoder'' ''29A7DF''),
     (''siToptal'', SimpleIcon ''toptal'' ''Toptal'' ''3863A0''),
     (''siTorbrowser'', SimpleIcon ''torbrowser'' ''Tor Browser'' ''7D4698''),
     (''siTorproject'', SimpleIcon ''torproject'' ''Tor Project'' ''7D4698''),
     (''siTorizon'', SimpleIcon ''torizon'' ''Torizon'' ''FAAF00''),
     (''siToshiba'', SimpleIcon ''toshiba'' ''Toshiba'' ''FF0000''),
     (''siTotvs'', SimpleIcon ''totvs'' ''TOTVS'' ''363636''),
     (''siTourbox'', SimpleIcon ''tourbox'' ''TourBox'' ''231F20''),
     (''siTower'', SimpleIcon ''tower'' ''Tower'' ''00CAF4''),
     (''siToyota'', SimpleIcon ''toyota'' ''Toyota'' ''EB0A1E''),
     (''siTplink'', SimpleIcon ''tplink'' ''TP-Link'' ''4ACBD6''),
     (''siTqdm'', SimpleIcon ''tqdm'' ''tqdm'' ''FFC107'')]"

definition icons_58 :: "(string \<times> SimpleIcon) list" where
  "icons_58 =
    [(''siTraccar'', SimpleIcon ''traccar'' ''Traccar'' ''000000''),
     (''siTradingview'', SimpleIcon ''tradingview'' ''TradingView'' ''131622''),
     (''siTraefikmesh'', SimpleIcon ''traefikmesh'' ''Traefik Mesh'' ''9D0FB0''),
     (''siTraefikproxy'', SimpleIcon ''traefikproxy'' ''Traefik Proxy'' ''24A1C1''),
     (''siTrailforks'', SimpleIcon ''trailforks'' ''Trailforks'' ''FFCD00''),
     (''siTrainerroad'', SimpleIcon ''trainerroad'' ''TrainerRoad'' ''DA291C''),
     (''siTrakt'', SimpleIcon ''trakt'' ''Trakt'' ''ED1C24''),
     (''siTransifex'', SimpleIcon ''transifex'' ''Transifex'' ''0064AB''),
     (''siTransmission'', SimpleIcon ''transmission'' ''Transmission'' ''D70008''),
     (''siTransportforireland'', SimpleIcon ''transportforireland'' ''Transport for Ireland'' ''00B274''),
     (''siTransportforlondon'', SimpleIcon ''transportforlondon'' ''Transport for London'' ''113B92''),
     (''siTravisci'', SimpleIcon ''travisci'' ''Travis CI'' ''3EAAAF''),
     (''siTreehouse'', SimpleIcon ''treehouse'' ''Treehouse'' ''5FCF80''),
     (''siTrello'', SimpleIcon ''trello'' ''Trello'' ''0052CC''),
     (''siTrendmicro'', SimpleIcon ''trendmicro'' ''Trend Micro'' ''D71921''),
     (''siTreyarch'', SimpleIcon ''treyarch'' ''Treyarch'' ''000000''),
     (''siTricentis'', SimpleIcon ''tricentis'' ''Tricentis'' ''12438C''),
     (''siTrilium'', SimpleIcon ''trilium'' ''Trilium'' ''000000''),
     (''siTriller'', SimpleIcon ''triller'' ''Triller'' ''FF0089''),
     (''siTrillertv'', SimpleIcon ''trillertv'' ''TrillerTV'' ''E61414''),
     (''siTrimble'', SimpleIcon ''trimble'' ''Trimble'' ''0063A3''),
     (''siTrino'', SimpleIcon ''trino'' ''Trino'' ''DD00A1''),
     (''siTripdotcom'', SimpleIcon ''tripdotcom'' ''Trip.com'' ''287DFA''),
     (''siTripadvisor'', SimpleIcon ''tripadvisor'' ''Tripadvisor'' ''34E0A1''),
     (''siTrivago'', SimpleIcon ''trivago'' ''trivago'' ''E32851''),
     (''siTrivy'', SimpleIcon ''trivy'' ''Trivy'' ''1904DA''),
     (''siTrove'', SimpleIcon ''trove'' ''Trove'' ''2D004B''),
     (''siTrpc'', SimpleIcon ''trpc'' ''tRPC'' ''2596BE''),
     (''siTruenas'', SimpleIcon ''truenas'' ''TrueNAS'' ''0095D5''),
     (''siTrueup'', SimpleIcon ''trueup'' ''TrueUp'' ''4E71DA''),
     (''siTrulia'', SimpleIcon ''trulia'' ''trulia'' ''0A0B09''),
     (''siTrustedshops'', SimpleIcon ''trustedshops'' ''Trusted Shops'' ''FFDC0F''),
     (''siTrustpilot'', SimpleIcon ''trustpilot'' ''Trustpilot'' ''00B67A''),
     (''siTryitonline'', SimpleIcon ''tryitonline'' ''Try It Online'' ''303030''),
     (''siTryhackme'', SimpleIcon ''tryhackme'' ''TryHackMe'' ''212C42''),
     (''siTsnode'', SimpleIcon ''tsnode'' ''ts-node'' ''3178C6''),
     (''siTubi'', SimpleIcon ''tubi'' ''Tubi'' ''7408FF''),
     (''siTui'', SimpleIcon ''tui'' ''TUI'' ''D40E14''),
     (''siTumblr'', SimpleIcon ''tumblr'' ''Tumblr'' ''36465D''),
     (''siTunein'', SimpleIcon ''tunein'' ''TuneIn'' ''14D8CC''),
     (''siTurbo'', SimpleIcon ''turbo'' ''Turbo'' ''5CD8E5''),
     (''siTurborepo'', SimpleIcon ''turborepo'' ''Turborepo'' ''EF4444''),
     (''siTurbosquid'', SimpleIcon ''turbosquid'' ''TurboSquid'' ''FF8135''),
     (''siTurkishairlines'', SimpleIcon ''turkishairlines'' ''Turkish Airlines'' ''C70A0C''),
     (''siTurso'', SimpleIcon ''turso'' ''Turso'' ''4FF8D2''),
     (''siTuta'', SimpleIcon ''tuta'' ''Tuta'' ''850122''),
     (''siTvtime'', SimpleIcon ''tvtime'' ''TV Time'' ''FFD400''),
     (''siTv4play'', SimpleIcon ''tv4play'' ''TV4 Play'' ''E0001C''),
     (''siTwilio'', SimpleIcon ''twilio'' ''Twilio'' ''F22F46''),
     (''siTwinkly'', SimpleIcon ''twinkly'' ''Twinkly'' ''FCC15E'')]"

definition icons_59 :: "(string \<times> SimpleIcon) list" where
  "icons_59 =
    [(''siTwinmotion'', SimpleIcon ''twinmotion'' ''Twinmotion'' ''000000''),
     (''siTwitch'', SimpleIcon ''twitch'' ''Twitch'' ''9146FF''),
     (''siTypeform'', SimpleIcon ''typeform'' ''Typeform'' ''262627''),
     (''siTypeorm'', SimpleIcon ''typeorm'' ''TypeORM'' ''FE0803''),
     (''siTyper'', SimpleIcon ''typer'' ''Typer'' ''000000''),
     (''siTypescript'', SimpleIcon ''typescript'' ''TypeScript'' ''3178C6''),
     (''siTypo3'', SimpleIcon ''typo3'' ''TYPO3'' ''FF8700''),
     (''siTypst'', SimpleIcon ''typst'' ''Typst'' ''239DAD''),
     (''siUdotsdotnews'', SimpleIcon ''udotsdotnews'' ''U.S. News'' ''005EA6''),
     (''siUber'', SimpleIcon ''uber'' ''Uber'' ''000000''),
     (''siUbereats'', SimpleIcon ''ubereats'' ''Uber Eats'' ''06C167''),
     (''siUbiquiti'', SimpleIcon ''ubiquiti'' ''Ubiquiti'' ''0559C9''),
     (''siUbisoft'', SimpleIcon ''ubisoft'' ''Ubisoft'' ''000000''),
     (''siUblockorigin'', SimpleIcon ''ublockorigin'' ''uBlock Origin'' ''800000''),
     (''siUbuntu'', SimpleIcon ''ubuntu'' ''Ubuntu'' ''E95420''),
     (''siUbuntumate'', SimpleIcon ''ubuntumate'' ''Ubuntu MATE'' ''84A454''),
     (''siUdacity'', SimpleIcon ''udacity'' ''Udacity'' ''02B3E4''),
     (''siUdemy'', SimpleIcon ''udemy'' ''Udemy'' ''A435F0''),
     (''siUfc'', SimpleIcon ''ufc'' ''UFC'' ''D20A0A''),
     (''siUikit'', SimpleIcon ''uikit'' ''UIkit'' ''2396F3''),
     (''siUipath'', SimpleIcon ''uipath'' ''UiPath'' ''FA4616''),
     (''siUkca'', SimpleIcon ''ukca'' ''UKCA'' ''000000''),
     (''siUltralytics'', SimpleIcon ''ultralytics'' ''Ultralytics'' ''111F68''),
     (''siUlule'', SimpleIcon ''ulule'' ''Ulule'' ''18A5D6''),
     (''siUmami'', SimpleIcon ''umami'' ''Umami'' ''000000''),
     (''siUmbraco'', SimpleIcon ''umbraco'' ''Umbraco'' ''3544B1''),
     (''siUml'', SimpleIcon ''uml'' ''UML'' ''FABD14''),
     (''siUnacademy'', SimpleIcon ''unacademy'' ''Unacademy'' ''08BD80''),
     (''siUnderarmour'', SimpleIcon ''underarmour'' ''Under Armour'' ''1D1D1D''),
     (''siUnderscoredotjs'', SimpleIcon ''underscoredotjs'' ''Underscore.js'' ''0371B5''),
     (''siUndertale'', SimpleIcon ''undertale'' ''Undertale'' ''E71D29''),
     (''siUnicode'', SimpleIcon ''unicode'' ''Unicode'' ''5455FE''),
     (''siUnilever'', SimpleIcon ''unilever'' ''Unilever'' ''1F36C7''),
     (''siUniqlo'', SimpleIcon ''uniqlo'' ''Uniqlo'' ''FF0000''),
     (''siUniqlo_ja'', SimpleIcon ''uniqlo_ja'' ''Uniqlo'' ''FF0000''),
     (''siUnitedairlines'', SimpleIcon ''unitedairlines'' ''United Airlines'' ''002244''),
     (''siUnitednations'', SimpleIcon ''unitednations'' ''United Nations'' ''009EDB''),
     (''siUnity'', SimpleIcon ''unity'' ''Unity'' ''FFFFFF''),
     (''siUnjs'', SimpleIcon ''unjs'' ''UnJS'' ''ECDC5A''),
     (''siUnlicense'', SimpleIcon ''unlicense'' ''Unlicense'' ''808080''),
     (''siUnocss'', SimpleIcon ''unocss'' ''UnoCSS'' ''333333''),
     (''siUnpkg'', SimpleIcon ''unpkg'' ''unpkg'' ''000000''),
     (''siUnraid'', SimpleIcon ''unraid'' ''Unraid'' ''F15A2C''),
     (''siUnrealengine'', SimpleIcon ''unrealengine'' ''Unreal Engine'' ''0E1128''),
     (''siUnsplash'', SimpleIcon ''unsplash'' ''Unsplash'' ''000000''),
     (''siUntappd'', SimpleIcon ''untappd'' ''Untappd'' ''FFC000''),
     (''siUpcloud'', SimpleIcon ''upcloud'' ''UpCloud'' ''7B00FF''),
     (''siUphold'', SimpleIcon ''uphold'' ''Uphold'' ''49CC68''),
     (''siUplabs'', SimpleIcon ''uplabs'' ''UpLabs'' ''3930D8''),
     (''siUpptime'', SimpleIcon ''upptime'' ''Upptime'' ''1ABC9C'')]"

definition icons_60 :: "(string \<times> SimpleIcon) list" where
  "icons_60 =
    [(''siUps'', SimpleIcon ''ups'' ''UPS'' ''150400''),
     (''siUpstash'', SimpleIcon ''upstash'' ''Upstash'' ''00E9A3''),
     (''siUptimekuma'', SimpleIcon ''uptimekuma'' ''Uptime Kuma'' ''5CDD8B''),
     (''siUpwork'', SimpleIcon ''upwork'' ''Upwork'' ''6FDA44''),
     (''siUsps'', SimpleIcon ''usps'' ''USPS'' ''333366''),
     (''siUtorrent'', SimpleIcon ''utorrent'' ''uTorrent'' ''76B83F''),
     (''siUv'', SimpleIcon ''uv'' ''uv'' ''DE5FE9''),
     (''siV'', SimpleIcon ''v'' ''V'' ''5D87BF''),
     (''siV0'', SimpleIcon ''v0'' ''v0'' ''000000''),
     (''siV2ex'', SimpleIcon ''v2ex'' ''V2EX'' ''1F1F1F''),
     (''siV8'', SimpleIcon ''v8'' ''V8'' ''4B8BF5''),
     (''siVaadin'', SimpleIcon ''vaadin'' ''Vaadin'' ''00B4F0''),
     (''siVagrant'', SimpleIcon ''vagrant'' ''Vagrant'' ''1868F2''),
     (''siVala'', SimpleIcon ''vala'' ''Vala'' ''7239B3''),
     (''siValorant'', SimpleIcon ''valorant'' ''Valorant'' ''FA4454''),
     (''siValve'', SimpleIcon ''valve'' ''Valve'' ''F74843''),
     (''siVapor'', SimpleIcon ''vapor'' ''Vapor'' ''0D0D0D''),
     (''siVault'', SimpleIcon ''vault'' ''Vault'' ''FFEC6E''),
     (''siVaultwarden'', SimpleIcon ''vaultwarden'' ''Vaultwarden'' ''000000''),
     (''siVauxhall'', SimpleIcon ''vauxhall'' ''Vauxhall'' ''EB001E''),
     (''siVbulletin'', SimpleIcon ''vbulletin'' ''vBulletin'' ''184D66''),
     (''siVectary'', SimpleIcon ''vectary'' ''Vectary'' ''6100FF''),
     (''siVectorlogozone'', SimpleIcon ''vectorlogozone'' ''Vector Logo Zone'' ''184D66''),
     (''siVectorworks'', SimpleIcon ''vectorworks'' ''Vectorworks'' ''000000''),
     (''siVeeam'', SimpleIcon ''veeam'' ''Veeam'' ''00B336''),
     (''siVeed'', SimpleIcon ''veed'' ''VEED'' ''B6FF60''),
     (''siVeepee'', SimpleIcon ''veepee'' ''Veepee'' ''EC008C''),
     (''siVega'', SimpleIcon ''vega'' ''Vega'' ''2450B2''),
     (''siVegas'', SimpleIcon ''vegas'' ''VEGAS'' ''1A1A1A''),
     (''siVelocity'', SimpleIcon ''velocity'' ''Velocity'' ''1BBAE0''),
     (''siVelog'', SimpleIcon ''velog'' ''Velog'' ''20C997''),
     (''siVencord'', SimpleIcon ''vencord'' ''Vencord'' ''D3859B''),
     (''siVenmo'', SimpleIcon ''venmo'' ''Venmo'' ''008CFF''),
     (''siVercel'', SimpleIcon ''vercel'' ''Vercel'' ''000000''),
     (''siVerdaccio'', SimpleIcon ''verdaccio'' ''Verdaccio'' ''4B5E40''),
     (''siVeritas'', SimpleIcon ''veritas'' ''Veritas'' ''B1181E''),
     (''siVerizon'', SimpleIcon ''verizon'' ''Verizon'' ''CD040B''),
     (''siVespa'', SimpleIcon ''vespa'' ''Vespa'' ''85B09A''),
     (''siVestel'', SimpleIcon ''vestel'' ''Vestel'' ''DD052B''),
     (''siVexxhost'', SimpleIcon ''vexxhost'' ''VEXXHOST'' ''2A1659''),
     (''siVfairs'', SimpleIcon ''vfairs'' ''vFairs'' ''EF4678''),
     (''siViadeo'', SimpleIcon ''viadeo'' ''Viadeo'' ''F07355''),
     (''siViaplay'', SimpleIcon ''viaplay'' ''Viaplay'' ''FE365F''),
     (''siViber'', SimpleIcon ''viber'' ''Viber'' ''7360F2''),
     (''siViblo'', SimpleIcon ''viblo'' ''Viblo'' ''5387C6''),
     (''siVictoriametrics'', SimpleIcon ''victoriametrics'' ''VictoriaMetrics'' ''621773''),
     (''siVictronenergy'', SimpleIcon ''victronenergy'' ''Victron Energy'' ''0066B2''),
     (''siVim'', SimpleIcon ''vim'' ''Vim'' ''019733''),
     (''siVimeo'', SimpleIcon ''vimeo'' ''Vimeo'' ''1AB7EA''),
     (''siVimeolivestream'', SimpleIcon ''vimeolivestream'' ''Vimeo Livestream'' ''0A0A20'')]"

definition icons_61 :: "(string \<times> SimpleIcon) list" where
  "icons_61 =
    [(''siVirgin'', SimpleIcon ''virgin'' ''Virgin'' ''E10A0A''),
     (''siVirginatlantic'', SimpleIcon ''virginatlantic'' ''Virgin Atlantic'' ''DA0530''),
     (''siVirginmedia'', SimpleIcon ''virginmedia'' ''Virgin Media'' ''ED1A37''),
     (''siVirtualbox'', SimpleIcon ''virtualbox'' ''VirtualBox'' ''2F61B4''),
     (''siVirustotal'', SimpleIcon ''virustotal'' ''VirusTotal'' ''394EFF''),
     (''siVisa'', SimpleIcon ''visa'' ''Visa'' ''1A1F71''),
     (''siVisx'', SimpleIcon ''visx'' ''visx'' ''FF1231''),
     (''siVite'', SimpleIcon ''vite'' ''Vite'' ''646CFF''),
     (''siVitepress'', SimpleIcon ''vitepress'' ''VitePress'' ''5C73E7''),
     (''siVitess'', SimpleIcon ''vitess'' ''Vitess'' ''F16728''),
     (''siVitest'', SimpleIcon ''vitest'' ''Vitest'' ''6E9F18''),
     (''siVivawallet'', SimpleIcon ''vivawallet'' ''Viva Wallet'' ''1F263A''),
     (''siVivaldi'', SimpleIcon ''vivaldi'' ''Vivaldi'' ''EF3939''),
     (''siVivino'', SimpleIcon ''vivino'' ''Vivino'' ''A61A30''),
     (''siVivint'', SimpleIcon ''vivint'' ''Vivint'' ''212721''),
     (''siVivo'', SimpleIcon ''vivo'' ''vivo'' ''415FFF''),
     (''siVk'', SimpleIcon ''vk'' ''VK'' ''0077FF''),
     (''siVlcmediaplayer'', SimpleIcon ''vlcmediaplayer'' ''VLC media player'' ''FF8800''),
     (''siVmware'', SimpleIcon ''vmware'' ''VMware'' ''607078''),
     (''siVodafone'', SimpleIcon ''vodafone'' ''Vodafone'' ''E60000''),
     (''siVoidlinux'', SimpleIcon ''voidlinux'' ''Void Linux'' ''478061''),
     (''siVoipdotms'', SimpleIcon ''voipdotms'' ''VoIP.ms'' ''E1382D''),
     (''siVolkswagen'', SimpleIcon ''volkswagen'' ''Volkswagen'' ''151F5D''),
     (''siVolvo'', SimpleIcon ''volvo'' ''Volvo'' ''003057''),
     (''siVonage'', SimpleIcon ''vonage'' ''Vonage'' ''000000''),
     (''siVorondesign'', SimpleIcon ''vorondesign'' ''Voron Design'' ''ED3023''),
     (''siVowpalwabbit'', SimpleIcon ''vowpalwabbit'' ''Vowpal Wabbit'' ''FF81F9''),
     (''siVox'', SimpleIcon ''vox'' ''VOX'' ''DA074A''),
     (''siVrchat'', SimpleIcon ''vrchat'' ''VRChat'' ''000000''),
     (''siVsco'', SimpleIcon ''vsco'' ''VSCO'' ''000000''),
     (''siVscodium'', SimpleIcon ''vscodium'' ''VSCodium'' ''2F80ED''),
     (''siVtex'', SimpleIcon ''vtex'' ''VTEX'' ''ED125F''),
     (''siVuedotjs'', SimpleIcon ''vuedotjs'' ''Vue.js'' ''4FC08D''),
     (''siVuetify'', SimpleIcon ''vuetify'' ''Vuetify'' ''1867C0''),
     (''siVulkan'', SimpleIcon ''vulkan'' ''Vulkan'' ''A41E22''),
     (''siVultr'', SimpleIcon ''vultr'' ''Vultr'' ''007BFC''),
     (''siVyond'', SimpleIcon ''vyond'' ''Vyond'' ''D95E26''),
     (''siW3schools'', SimpleIcon ''w3schools'' ''W3Schools'' ''04AA6D''),
     (''siWacom'', SimpleIcon ''wacom'' ''Wacom'' ''000000''),
     (''siWagmi'', SimpleIcon ''wagmi'' ''Wagmi'' ''000000''),
     (''siWagtail'', SimpleIcon ''wagtail'' ''Wagtail'' ''43B1B0''),
     (''siWails'', SimpleIcon ''wails'' ''Wails'' ''DF0000''),
     (''siWakatime'', SimpleIcon ''wakatime'' ''WakaTime'' ''000000''),
     (''siWalkman'', SimpleIcon ''walkman'' ''WALKMAN'' ''000000''),
     (''siWallabag'', SimpleIcon ''wallabag'' ''Wallabag'' ''3F6184''),
     (''siWalletconnect'', SimpleIcon ''walletconnect'' ''WalletConnect'' ''3B99FC''),
     (''siWalmart'', SimpleIcon ''walmart'' ''Walmart'' ''0071CE''),
     (''siWantedly'', SimpleIcon ''wantedly'' ''Wantedly'' ''21BDDB''),
     (''siWappalyzer'', SimpleIcon ''wappalyzer'' ''Wappalyzer'' ''4608AD''),
     (''siWarnerbros'', SimpleIcon ''warnerbros'' ''Warner Bros.'' ''004DB4'')]"

definition icons_62 :: "(string \<times> SimpleIcon) list" where
  "icons_62 =
    [(''siWarp'', SimpleIcon ''warp'' ''Warp'' ''01A4FF''),
     (''siWasabi'', SimpleIcon ''wasabi'' ''Wasabi'' ''01CD3E''),
     (''siWasmcloud'', SimpleIcon ''wasmcloud'' ''wasmCloud'' ''00BC8E''),
     (''siWasmer'', SimpleIcon ''wasmer'' ''Wasmer'' ''4946DD''),
     (''siWatchtower'', SimpleIcon ''watchtower'' ''Watchtower'' ''416271''),
     (''siWattpad'', SimpleIcon ''wattpad'' ''Wattpad'' ''FF500A''),
     (''siWayland'', SimpleIcon ''wayland'' ''Wayland'' ''FFBC00''),
     (''siWaze'', SimpleIcon ''waze'' ''Waze'' ''33CCFF''),
     (''siWazirx'', SimpleIcon ''wazirx'' ''WazirX'' ''3067F0''),
     (''siWearos'', SimpleIcon ''wearos'' ''Wear OS'' ''4285F4''),
     (''siWeasyl'', SimpleIcon ''weasyl'' ''Weasyl'' ''990000''),
     (''siWebdotde'', SimpleIcon ''webdotde'' ''WEB.DE'' ''FFD800''),
     (''siWeb3dotjs'', SimpleIcon ''web3dotjs'' ''Web3.js'' ''F16822''),
     (''siWebassembly'', SimpleIcon ''webassembly'' ''WebAssembly'' ''654FF0''),
     (''siWebauthn'', SimpleIcon ''webauthn'' ''WebAuthn'' ''3423A6''),
     (''siWebcomponentsdotorg'', SimpleIcon ''webcomponentsdotorg'' ''webcomponents.org'' ''29ABE2''),
     (''siWebdriverio'', SimpleIcon ''webdriverio'' ''WebdriverIO'' ''EA5906''),
     (''siWebex'', SimpleIcon ''webex'' ''Webex'' ''000000''),
     (''siWebflow'', SimpleIcon ''webflow'' ''Webflow'' ''146EF5''),
     (''siWebgl'', SimpleIcon ''webgl'' ''WebGL'' ''990000''),
     (''siWebgpu'', SimpleIcon ''webgpu'' ''WebGPU'' ''005A9C''),
     (''siWeblate'', SimpleIcon ''weblate'' ''Weblate'' ''2ECCAA''),
     (''siWebmin'', SimpleIcon ''webmin'' ''Webmin'' ''7DA0D0''),
     (''siWebmoney'', SimpleIcon ''webmoney'' ''WebMoney'' ''036CB5''),
     (''siWebpack'', SimpleIcon ''webpack'' ''Webpack'' ''8DD6F9''),
     (''siWebrtc'', SimpleIcon ''webrtc'' ''WebRTC'' ''333333''),
     (''siWebstorm'', SimpleIcon ''webstorm'' ''WebStorm'' ''000000''),
     (''siWebtoon'', SimpleIcon ''webtoon'' ''WEBTOON'' ''00D564''),
     (''siWebtrees'', SimpleIcon ''webtrees'' ''webtrees'' ''2694E8''),
     (''siWechat'', SimpleIcon ''wechat'' ''WeChat'' ''07C160''),
     (''siWegame'', SimpleIcon ''wegame'' ''WeGame'' ''FAAB00''),
     (''siWeightsandbiases'', SimpleIcon ''weightsandbiases'' ''Weights &amp; Biases'' ''FFBE00''),
     (''siWelcometothejungle'', SimpleIcon ''welcometothejungle'' ''Welcome to the Jungle'' ''FFCD00''),
     (''siWellfound'', SimpleIcon ''wellfound'' ''Wellfound'' ''000000''),
     (''siWellsfargo'', SimpleIcon ''wellsfargo'' ''Wells Fargo'' ''D71E28''),
     (''siWemo'', SimpleIcon ''wemo'' ''WEMO'' ''72D44C''),
     (''siWesterndigital'', SimpleIcon ''westerndigital'' ''Western Digital'' ''995DFF''),
     (''siWesternunion'', SimpleIcon ''westernunion'' ''Western Union'' ''FFDD00''),
     (''siWetransfer'', SimpleIcon ''wetransfer'' ''WeTransfer'' ''409FFF''),
     (''siWezterm'', SimpleIcon ''wezterm'' ''WezTerm'' ''4E49EE''),
     (''siWgpu'', SimpleIcon ''wgpu'' ''wgpu'' ''40E0D0''),
     (''siWhatsapp'', SimpleIcon ''whatsapp'' ''WhatsApp'' ''25D366''),
     (''siWheniwork'', SimpleIcon ''wheniwork'' ''When I Work'' ''51A33D''),
     (''siWikidotgg'', SimpleIcon ''wikidotgg'' ''wiki.gg'' ''FF1985''),
     (''siWikidotjs'', SimpleIcon ''wikidotjs'' ''Wiki.js'' ''1976D2''),
     (''siWikibooks'', SimpleIcon ''wikibooks'' ''Wikibooks'' ''006699''),
     (''siWikidata'', SimpleIcon ''wikidata'' ''Wikidata'' ''006699''),
     (''siWikimediacommons'', SimpleIcon ''wikimediacommons'' ''Wikimedia Commons'' ''006699''),
     (''siWikimediafoundation'', SimpleIcon ''wikimediafoundation'' ''Wikimedia Foundation'' ''000000''),
     (''siWikipedia'', SimpleIcon ''wikipedia'' ''Wikipedia'' ''000000'')]"

definition icons_63 :: "(string \<times> SimpleIcon) list" where
  "icons_63 =
    [(''siWikiquote'', SimpleIcon ''wikiquote'' ''Wikiquote'' ''006699''),
     (''siWikiversity'', SimpleIcon ''wikiversity'' ''Wikiversity'' ''00649A''),
     (''siWikivoyage'', SimpleIcon ''wikivoyage'' ''Wikivoyage'' ''006699''),
     (''siWinamp'', SimpleIcon ''winamp'' ''Winamp'' ''F93821''),
     (''siWine'', SimpleIcon ''wine'' ''Wine'' ''800000''),
     (''siWipro'', SimpleIcon ''wipro'' ''Wipro'' ''341C53''),
     (''siWire'', SimpleIcon ''wire'' ''Wire'' ''000000''),
     (''siWireguard'', SimpleIcon ''wireguard'' ''WireGuard'' ''88171A''),
     (''siWireshark'', SimpleIcon ''wireshark'' ''Wireshark'' ''1679A7''),
     (''siWise'', SimpleIcon ''wise'' ''Wise'' ''9FE870''),
     (''siWish'', SimpleIcon ''wish'' ''Wish'' ''32E476''),
     (''siWistia'', SimpleIcon ''wistia'' ''Wistia'' ''58B7FE''),
     (''siWix'', SimpleIcon ''wix'' ''Wix'' ''0C6EFC''),
     (''siWizzair'', SimpleIcon ''wizzair'' ''Wizz Air'' ''C6007E''),
     (''siWolfram'', SimpleIcon ''wolfram'' ''Wolfram'' ''DD1100''),
     (''siWolframlanguage'', SimpleIcon ''wolframlanguage'' ''Wolfram Language'' ''DD1100''),
     (''siWolframmathematica'', SimpleIcon ''wolframmathematica'' ''Wolfram Mathematica'' ''DD1100''),
     (''siWondershare'', SimpleIcon ''wondershare'' ''Wondershare'' ''000000''),
     (''siWondersharefilmora'', SimpleIcon ''wondersharefilmora'' ''Wondershare Filmora'' ''07273D''),
     (''siWoo'', SimpleIcon ''woo'' ''Woo'' ''96588A''),
     (''siWoocommerce'', SimpleIcon ''woocommerce'' ''WooCommerce'' ''96588A''),
     (''siWordpress'', SimpleIcon ''wordpress'' ''WordPress'' ''21759B''),
     (''siWorkplace'', SimpleIcon ''workplace'' ''Workplace'' ''4526CE''),
     (''siWorldhealthorganization'', SimpleIcon ''worldhealthorganization'' ''World Health Organization'' ''0093D5''),
     (''siWpengine'', SimpleIcon ''wpengine'' ''WP Engine'' ''0ECAD4''),
     (''siWprocket'', SimpleIcon ''wprocket'' ''WP Rocket'' ''F56640''),
     (''siWpexplorer'', SimpleIcon ''wpexplorer'' ''WPExplorer'' ''2563EB''),
     (''siWritedotas'', SimpleIcon ''writedotas'' ''Write.as'' ''5AC4EE''),
     (''siWwe'', SimpleIcon ''wwe'' ''WWE'' ''000000''),
     (''siWwise'', SimpleIcon ''wwise'' ''Wwise'' ''00549F''),
     (''siWxt'', SimpleIcon ''wxt'' ''WXT'' ''67D55E''),
     (''siWykop'', SimpleIcon ''wykop'' ''Wykop'' ''367DA9''),
     (''siWyze'', SimpleIcon ''wyze'' ''Wyze'' ''1DF0BB''),
     (''siX'', SimpleIcon ''x'' ''X'' ''000000''),
     (''siXdotorg'', SimpleIcon ''xdotorg'' ''X.Org'' ''F28834''),
     (''siXampp'', SimpleIcon ''xampp'' ''XAMPP'' ''FB7A24''),
     (''siXcode'', SimpleIcon ''xcode'' ''Xcode'' ''147EFB''),
     (''siXdadevelopers'', SimpleIcon ''xdadevelopers'' ''XDA Developers'' ''EA7100''),
     (''siXendit'', SimpleIcon ''xendit'' ''Xendit'' ''4573FF''),
     (''siXero'', SimpleIcon ''xero'' ''Xero'' ''13B5EA''),
     (''siXfce'', SimpleIcon ''xfce'' ''XFCE'' ''2284F2''),
     (''siXiaohongshu'', SimpleIcon ''xiaohongshu'' ''Xiaohongshu'' ''FF2442''),
     (''siXiaomi'', SimpleIcon ''xiaomi'' ''Xiaomi'' ''FF6900''),
     (''siXing'', SimpleIcon ''xing'' ''Xing'' ''006567''),
     (''siXml'', SimpleIcon ''xml'' ''XML'' ''005FAD''),
     (''siXmpp'', SimpleIcon ''xmpp'' ''XMPP'' ''002B5C''),
     (''siXo'', SimpleIcon ''xo'' ''XO'' ''5ED9C7''),
     (''siXrp'', SimpleIcon ''xrp'' ''XRP'' ''25A768''),
     (''siXsplit'', SimpleIcon ''xsplit'' ''XSplit'' ''0095DE''),
     (''siXstate'', SimpleIcon ''xstate'' ''XState'' ''2C3E50'')]"

definition icons_64 :: "(string \<times> SimpleIcon) list" where
  "icons_64 =
    [(''siXubuntu'', SimpleIcon ''xubuntu'' ''Xubuntu'' ''0044AA''),
     (''siYcombinator'', SimpleIcon ''ycombinator'' ''Y Combinator'' ''F0652F''),
     (''siYabai'', SimpleIcon ''yabai'' ''yabai'' ''00364B''),
     (''siYale'', SimpleIcon ''yale'' ''Yale'' ''FFD900''),
     (''siYamahacorporation'', SimpleIcon ''yamahacorporation'' ''Yamaha Corporation'' ''4B1E78''),
     (''siYamahamotorcorporation'', SimpleIcon ''yamahamotorcorporation'' ''Yamaha Motor Corporation'' ''E60012''),
     (''siYaml'', SimpleIcon ''yaml'' ''YAML'' ''CB171E''),
     (''siYandexcloud'', SimpleIcon ''yandexcloud'' ''Yandex Cloud'' ''5282FF''),
     (''siYarn'', SimpleIcon ''yarn'' ''Yarn'' ''2C8EBB''),
     (''siYelp'', SimpleIcon ''yelp'' ''Yelp'' ''FF1A1A''),
     (''siYeti'', SimpleIcon ''yeti'' ''Yeti'' ''00263C''),
     (''siYii'', SimpleIcon ''yii'' ''Yii'' ''40B3D8''),
     (''siYoast'', SimpleIcon ''yoast'' ''Yoast'' ''A61E69''),
     (''siYolo'', SimpleIcon ''yolo'' ''YOLO'' ''111F68''),
     (''siYouhodler'', SimpleIcon ''youhodler'' ''YouHodler'' ''546DF9''),
     (''siYoutube'', SimpleIcon ''youtube'' ''YouTube'' ''FF0000''),
     (''siYoutubegaming'', SimpleIcon ''youtubegaming'' ''YouTube Gaming'' ''FF0000''),
     (''siYoutubekids'', SimpleIcon ''youtubekids'' ''YouTube Kids'' ''FF0000''),
     (''siYoutubemusic'', SimpleIcon ''youtubemusic'' ''YouTube Music'' ''FF0000''),
     (''siYoutubeshorts'', SimpleIcon ''youtubeshorts'' ''YouTube Shorts'' ''FF0000''),
     (''siYoutubestudio'', SimpleIcon ''youtubestudio'' ''YouTube Studio'' ''FF0000''),
     (''siYoutubetv'', SimpleIcon ''youtubetv'' ''YouTube TV'' ''FF0000''),
     (''siYr'', SimpleIcon ''yr'' ''Yr'' ''00B9F1''),
     (''siYubico'', SimpleIcon ''yubico'' ''Yubico'' ''84BD00''),
     (''siYunohost'', SimpleIcon ''yunohost'' ''YunoHost'' ''000000''),
     (''siZabka'', SimpleIcon ''zabka'' ''&#379;abka'' ''006420''),
     (''siZaim'', SimpleIcon ''zaim'' ''Zaim'' ''50A135''),
     (''siZalando'', SimpleIcon ''zalando'' ''Zalando'' ''FF6900''),
     (''siZalo'', SimpleIcon ''zalo'' ''Zalo'' ''0068FF''),
     (''siZap'', SimpleIcon ''zap'' ''ZAP'' ''00549E''),
     (''siZapier'', SimpleIcon ''zapier'' ''Zapier'' ''FF4F00''),
     (''siZara'', SimpleIcon ''zara'' ''Zara'' ''000000''),
     (''siZazzle'', SimpleIcon ''zazzle'' ''Zazzle'' ''212121''),
     (''siZcash'', SimpleIcon ''zcash'' ''Zcash'' ''F3B724''),
     (''siZcool'', SimpleIcon ''zcool'' ''ZCOOL'' ''FFF200''),
     (''siZdf'', SimpleIcon ''zdf'' ''ZDF'' ''FA7D19''),
     (''siZebpay'', SimpleIcon ''zebpay'' ''ZebPay'' ''2072EF''),
     (''siZebratechnologies'', SimpleIcon ''zebratechnologies'' ''Zebra Technologies'' ''000000''),
     (''siZedindustries'', SimpleIcon ''zedindustries'' ''Zed Industries'' ''084CCF''),
     (''siZelle'', SimpleIcon ''zelle'' ''Zelle'' ''6D1ED4''),
     (''siZend'', SimpleIcon ''zend'' ''Zend'' ''0679EA''),
     (''siZendesk'', SimpleIcon ''zendesk'' ''Zendesk'' ''03363D''),
     (''siZenn'', SimpleIcon ''zenn'' ''Zenn'' ''3EA8FF''),
     (''siZenodo'', SimpleIcon ''zenodo'' ''Zenodo'' ''1682D4''),
     (''siZensar'', SimpleIcon ''zensar'' ''Zensar'' ''000000''),
     (''siZerodha'', SimpleIcon ''zerodha'' ''Zerodha'' ''387ED1''),
     (''siZerotier'', SimpleIcon ''zerotier'' ''ZeroTier'' ''FFB441''),
     (''siZettlr'', SimpleIcon ''zettlr'' ''Zettlr'' ''1CB27E''),
     (''siZhihu'', SimpleIcon ''zhihu'' ''Zhihu'' ''0084FF''),
     (''siZig'', SimpleIcon ''zig'' ''Zig'' ''F7A41D'')]"

definition icons_65 :: "(string \<times> SimpleIcon) list" where
  "icons_65 =
    [(''siZigbee'', SimpleIcon ''zigbee'' ''Zigbee'' ''EB0443''),
     (''siZigbee2mqtt'', SimpleIcon ''zigbee2mqtt'' ''Zigbee2MQTT'' ''FFC135''),
     (''siZiggo'', SimpleIcon ''ziggo'' ''Ziggo'' ''F48C00''),
     (''siZilch'', SimpleIcon ''zilch'' ''Zilch'' ''00D287''),
     (''siZillow'', SimpleIcon ''zillow'' ''Zillow'' ''006AFF''),
     (''siZincsearch'', SimpleIcon ''zincsearch'' ''ZincSearch'' ''5BA37F''),
     (''siZingat'', SimpleIcon ''zingat'' ''Zingat'' ''009CFB''),
     (''siZod'', SimpleIcon ''zod'' ''Zod'' ''3E67B1''),
     (''siZoho'', SimpleIcon ''zoho'' ''Zoho'' ''E42527''),
     (''siZoiper'', SimpleIcon ''zoiper'' ''Zoiper'' ''F47920''),
     (''siZomato'', SimpleIcon ''zomato'' ''Zomato'' ''E23744''),
     (''siZoom'', SimpleIcon ''zoom'' ''Zoom'' ''0B5CFF''),
     (''siZorin'', SimpleIcon ''zorin'' ''Zorin'' ''15A6F0''),
     (''siZotero'', SimpleIcon ''zotero'' ''Zotero'' ''CC2936''),
     (''siZsh'', SimpleIcon ''zsh'' ''Zsh'' ''F15A24''),
     (''siZulip'', SimpleIcon ''zulip'' ''Zulip'' ''6492FE''),
     (''siZyte'', SimpleIcon ''zyte'' ''Zyte'' ''B02CCE'')]"

definition icon_declarations :: "(string \<times> SimpleIcon) list" where
  "icon_declarations = concat
    [icons_0, icons_1, icons_2, icons_3, icons_4, icons_5, icons_6, icons_7, icons_8, icons_9,
     icons_10, icons_11, icons_12, icons_13, icons_14, icons_15, icons_16, icons_17, icons_18,
     icons_19, icons_20, icons_21, icons_22, icons_23, icons_24, icons_25, icons_26, icons_27,
     icons_28, icons_29, icons_30, icons_31, icons_32, icons_33, icons_34, icons_35, icons_36,
     icons_37, icons_38, icons_39, icons_40, icons_41, icons_42, icons_43, icons_44, icons_45,
     icons_46, icons_47, icons_48, icons_49, icons_50, icons_51, icons_52, icons_53, icons_54,
     icons_55, icons_56, icons_57, icons_58, icons_59, icons_60, icons_61, icons_62, icons_63,
     icons_64, icons_65]"

section \<open>Comparing strings\<close>

text \<open>The order of the byte codes, decided bit by bit from the top.\<close>

definition char_lt :: "char \<Rightarrow> char \<Rightarrow> bool" where
  "char_lt c d = (case (c, d) of (Char a0 a1 a2 a3 a4 a5 a6 a7, Char b0 b1 b2 b3 b4 b5 b6 b7) \<Rightarrow>
     if a7 \<noteq> b7 then b7 else if a6 \<noteq> b6 then b6 else if a5 \<noteq> b5 then b5
     else if a4 \<noteq> b4 then b4 else if a3 \<noteq> b3 then b3 else if a2 \<noteq> b2 then b2
     else if a1 \<noteq> b1 then b1 else \<not> a0 \<and> b0)"

fun str_lt :: "string \<Rightarrow> string \<Rightarrow> bool" where
  "str_lt _ [] = False"
| "str_lt [] (d # ds) = True"
| "str_lt (c # cs) (d # ds) = (if c = d then str_lt cs ds else char_lt c d)"

fun ascending :: "string list \<Rightarrow> bool" where
  "ascending (a # b # r) = (str_lt a b \<and> ascending (b # r))"
| "ascending _ = True"

lemma char_lt_irrefl [simp]: "\<not> char_lt c c"
  by (cases c) (simp add: char_lt_def)

lemma char_lt_trans: "char_lt a b \<Longrightarrow> char_lt b c \<Longrightarrow> char_lt a c"
  by (cases a; cases b; cases c) (auto simp: char_lt_def split: if_splits)

lemma char_lt_asym: "char_lt a b \<Longrightarrow> \<not> char_lt b a"
  using char_lt_trans char_lt_irrefl by blast

lemma str_lt_irrefl [simp]: "\<not> str_lt s s"
  by (induction s) auto

lemma str_lt_trans: "str_lt a b \<Longrightarrow> str_lt b c \<Longrightarrow> str_lt a c"
proof (induction a b arbitrary: c rule: str_lt.induct)
  case (3 x xs y ys)
  then show ?case
    by (cases c) (auto split: if_splits intro: char_lt_trans dest: char_lt_asym)
qed (auto elim: str_lt.elims)

lemma ascending_Cons_less: "ascending (a # r) \<Longrightarrow> b \<in> set r \<Longrightarrow> str_lt a b"
proof (induction r arbitrary: a)
  case (Cons c r)
  then show ?case
    by (cases "b = c") (auto intro: str_lt_trans)
qed simp

lemma ascending_distinct: "ascending xs \<Longrightarrow> distinct xs"
proof (induction xs)
  case (Cons a r)
  then show ?case
    using ascending_Cons_less [OF Cons.prems, of a] str_lt_irrefl [of a] by (cases r) auto
qed simp

lemma ascending_append:
  "ascending xs \<Longrightarrow> ascending ys \<Longrightarrow> xs \<noteq> [] \<Longrightarrow> ys \<noteq> [] \<Longrightarrow> str_lt (last xs) (hd ys) \<Longrightarrow>
     ascending (xs @ ys)"
  by (induction xs rule: ascending.induct) (cases ys; auto)+

text \<open>A list of non-empty ascending pieces, each ending below the start of the next.\<close>

fun linked :: "string list list \<Rightarrow> bool" where
  "linked (xs # ys # r) = (str_lt (last xs) (hd ys) \<and> linked (ys # r))"
| "linked _ = True"

lemma ascending_concat:
  "\<forall>xs \<in> set xss. ascending xs \<and> xs \<noteq> [] \<Longrightarrow> linked xss \<Longrightarrow> ascending (concat xss)"
proof (induction xss rule: linked.induct)
  case (1 xs ys r)
  then have "ascending (ys @ concat r)" "ascending xs" "xs \<noteq> []" "ys \<noteq> []" "str_lt (last xs) (hd ys)"
    by simp_all
  then show ?case
    by (simp add: ascending_append hd_append)
qed simp_all

section \<open>Every exported name is declared\<close>

fun insert_name :: "string \<Rightarrow> string list \<Rightarrow> string list" where
  "insert_name x [] = [x]"
| "insert_name x (y # ys) = (if str_lt x y then x # y # ys else y # insert_name x ys)"

definition sort_names :: "string list \<Rightarrow> string list" where
  "sort_names xs = foldr insert_name xs []"

lemma set_insert_name [simp]: "set (insert_name x ys) = insert x (set ys)"
  by (induction ys) auto

lemma set_sort_names [simp]: "set (sort_names xs) = set xs"
  by (induction xs) (auto simp: sort_names_def)

text \<open>One walk along both lists; enough for the inclusion of the first in the second.\<close>

fun subsumed :: "string list \<Rightarrow> string list \<Rightarrow> bool" where
  "subsumed [] ys = True"
| "subsumed (x # xs) [] = False"
| "subsumed (x # xs) (y # ys) = (if x = y then subsumed xs ys else subsumed (x # xs) ys)"

lemma subsumed_subset: "subsumed xs ys \<Longrightarrow> set xs \<subseteq> set ys"
  by (induction xs ys rule: subsumed.induct) (auto split: if_splits)

lemma exports_0_ascending: "ascending exports_0"
  by code_simp

lemma exports_1_ascending: "ascending exports_1"
  by code_simp

lemma exports_2_ascending: "ascending exports_2"
  by code_simp

lemma exports_3_ascending: "ascending exports_3"
  by code_simp

lemma exports_4_ascending: "ascending exports_4"
  by code_simp

lemma exports_5_ascending: "ascending exports_5"
  by code_simp

lemma exports_6_ascending: "ascending exports_6"
  by code_simp

lemma exports_7_ascending: "ascending exports_7"
  by code_simp

lemma exports_8_ascending: "ascending exports_8"
  by code_simp

lemma exports_9_ascending: "ascending exports_9"
  by code_simp

lemma exports_10_ascending: "ascending exports_10"
  by code_simp

lemma exports_11_ascending: "ascending exports_11"
  by code_simp

lemma exports_12_ascending: "ascending exports_12"
  by code_simp

lemma exports_13_ascending: "ascending exports_13"
  by code_simp

lemma exports_14_ascending: "ascending exports_14"
  by code_simp

lemma exports_15_ascending: "ascending exports_15"
  by code_simp

lemma exports_16_ascending: "ascending exports_16"
  by code_simp

lemma exports_17_ascending: "ascending exports_17"
  by code_simp

lemma exports_18_ascending: "ascending exports_18"
  by code_simp

lemma exports_19_ascending: "ascending exports_19"
  by code_simp

lemma exports_20_ascending: "ascending exports_20"
  by code_simp

lemma exports_21_ascending: "ascending exports_21"
  by code_simp

lemmas exports_ascending =
  exports_0_ascending exports_1_ascending exports_2_ascending exports_3_ascending
  exports_4_ascending exports_5_ascending exports_6_ascending exports_7_ascending
  exports_8_ascending exports_9_ascending exports_10_ascending exports_11_ascending
  exports_12_ascending exports_13_ascending exports_14_ascending exports_15_ascending
  exports_16_ascending exports_17_ascending exports_18_ascending exports_19_ascending
  exports_20_ascending exports_21_ascending

lemma exports_0_declared:
  "subsumed exports_0 (sort_names (map fst (icons_0 @ icons_1 @ icons_2 @ icons_3)))"
  by code_simp

lemma exports_1_declared:
  "subsumed exports_1 (sort_names (map fst (icons_3 @ icons_4 @ icons_5 @ icons_6)))"
  by code_simp

lemma exports_2_declared:
  "subsumed exports_2 (sort_names (map fst (icons_6 @ icons_7 @ icons_8 @ icons_9)))"
  by code_simp

lemma exports_3_declared:
  "subsumed exports_3 (sort_names (map fst (icons_9 @ icons_10 @ icons_11 @ icons_12)))"
  by code_simp

lemma exports_4_declared:
  "subsumed exports_4 (sort_names (map fst (icons_9 @ icons_11 @ icons_12 @ icons_13 @ icons_14 @ icons_15 @ icons_40)))"
  by code_simp

lemma exports_5_declared:
  "subsumed exports_5 (sort_names (map fst (icons_0 @ icons_13 @ icons_15 @ icons_16 @ icons_17)))"
  by code_simp

lemma exports_6_declared:
  "subsumed exports_6 (sort_names (map fst (icons_17 @ icons_18 @ icons_19 @ icons_20)))"
  by code_simp

lemma exports_7_declared:
  "subsumed exports_7 (sort_names (map fst (icons_20 @ icons_21 @ icons_22 @ icons_23)))"
  by code_simp

lemma exports_8_declared:
  "subsumed exports_8 (sort_names (map fst (icons_23 @ icons_24 @ icons_25 @ icons_26)))"
  by code_simp

lemma exports_9_declared:
  "subsumed exports_9 (sort_names (map fst (icons_26 @ icons_27 @ icons_28 @ icons_29)))"
  by code_simp

lemma exports_10_declared:
  "subsumed exports_10 (sort_names (map fst (icons_29 @ icons_30 @ icons_31 @ icons_32)))"
  by code_simp

lemma exports_11_declared:
  "subsumed exports_11 (sort_names (map fst (icons_32 @ icons_33 @ icons_34 @ icons_35)))"
  by code_simp

lemma exports_12_declared:
  "subsumed exports_12 (sort_names (map fst (icons_35 @ icons_36 @ icons_37 @ icons_38)))"
  by code_simp

lemma exports_13_declared:
  "subsumed exports_13 (sort_names (map fst (icons_38 @ icons_39 @ icons_40 @ icons_41)))"
  by code_simp

lemma exports_14_declared:
  "subsumed exports_14 (sort_names (map fst (icons_42 @ icons_43 @ icons_44)))"
  by code_simp

lemma exports_15_declared:
  "subsumed exports_15 (sort_names (map fst (icons_45 @ icons_46 @ icons_47)))"
  by code_simp

lemma exports_16_declared:
  "subsumed exports_16 (sort_names (map fst (icons_48 @ icons_49 @ icons_50)))"
  by code_simp

lemma exports_17_declared:
  "subsumed exports_17 (sort_names (map fst (icons_51 @ icons_52 @ icons_53)))"
  by code_simp

lemma exports_18_declared:
  "subsumed exports_18 (sort_names (map fst (icons_54 @ icons_55 @ icons_56)))"
  by code_simp

lemma exports_19_declared:
  "subsumed exports_19 (sort_names (map fst (icons_57 @ icons_58 @ icons_59)))"
  by code_simp

lemma exports_20_declared:
  "subsumed exports_20 (sort_names (map fst (icons_60 @ icons_61 @ icons_62)))"
  by code_simp

lemma exports_21_declared:
  "subsumed exports_21 (sort_names (map fst (icons_63 @ icons_64 @ icons_65)))"
  by code_simp

lemmas exports_declared =
  exports_0_declared exports_1_declared exports_2_declared exports_3_declared
  exports_4_declared exports_5_declared exports_6_declared exports_7_declared
  exports_8_declared exports_9_declared exports_10_declared exports_11_declared
  exports_12_declared exports_13_declared exports_14_declared exports_15_declared
  exports_16_declared exports_17_declared exports_18_declared exports_19_declared
  exports_20_declared exports_21_declared

lemma exports_0_length: "length exports_0 = 150"
  by (simp add: exports_0_def)

lemma exports_1_length: "length exports_1 = 150"
  by (simp add: exports_1_def)

lemma exports_2_length: "length exports_2 = 150"
  by (simp add: exports_2_def)

lemma exports_3_length: "length exports_3 = 150"
  by (simp add: exports_3_def)

lemma exports_4_length: "length exports_4 = 150"
  by (simp add: exports_4_def)

lemma exports_5_length: "length exports_5 = 150"
  by (simp add: exports_5_def)

lemma exports_6_length: "length exports_6 = 150"
  by (simp add: exports_6_def)

lemma exports_7_length: "length exports_7 = 150"
  by (simp add: exports_7_def)

lemma exports_8_length: "length exports_8 = 150"
  by (simp add: exports_8_def)

lemma exports_9_length: "length exports_9 = 150"
  by (simp add: exports_9_def)

lemma exports_10_length: "length exports_10 = 150"
  by (simp add: exports_10_def)

lemma exports_11_length: "length exports_11 = 150"
  by (simp add: exports_11_def)

lemma exports_12_length: "length exports_12 = 150"
  by (simp add: exports_12_def)

lemma exports_13_length: "length exports_13 = 150"
  by (simp add: exports_13_def)

lemma exports_14_length: "length exports_14 = 150"
  by (simp add: exports_14_def)

lemma exports_15_length: "length exports_15 = 150"
  by (simp add: exports_15_def)

lemma exports_16_length: "length exports_16 = 150"
  by (simp add: exports_16_def)

lemma exports_17_length: "length exports_17 = 150"
  by (simp add: exports_17_def)

lemma exports_18_length: "length exports_18 = 150"
  by (simp add: exports_18_def)

lemma exports_19_length: "length exports_19 = 150"
  by (simp add: exports_19_def)

lemma exports_20_length: "length exports_20 = 150"
  by (simp add: exports_20_def)

lemma exports_21_length: "length exports_21 = 117"
  by (simp add: exports_21_def)

lemmas exports_length =
  exports_0_length exports_1_length exports_2_length exports_3_length exports_4_length
  exports_5_length exports_6_length exports_7_length exports_8_length exports_9_length
  exports_10_length exports_11_length exports_12_length exports_13_length exports_14_length
  exports_15_length exports_16_length exports_17_length exports_18_length exports_19_length
  exports_20_length exports_21_length

text \<open>The variable of an icon is named after its slug, with the first letter capitalised.\<close>

definition capital :: "char \<Rightarrow> char" where
  "capital c = (case c of Char a0 a1 a2 a3 a4 a5 a6 a7 \<Rightarrow>
     if a5 \<and> a6 then Char a0 a1 a2 a3 a4 False a6 a7 else c)"

definition icon_var :: "string \<Rightarrow> string" where
  "icon_var s = ''si'' @ (case s of [] \<Rightarrow> [] | c # cs \<Rightarrow> capital c # cs)"

text \<open>Slugs consist of small letters, digits and underscores.\<close>

definition slug_char :: "char \<Rightarrow> bool" where
  "slug_char c = (case c of Char a0 a1 a2 a3 a4 a5 a6 a7 \<Rightarrow>
     \<not> a7 \<and> (if a6 then a5 \<or> (a0 \<and> a1 \<and> a2 \<and> a3 \<and> a4)
             else a5 \<and> a4 \<and> (a3 \<longrightarrow> \<not> a2 \<and> \<not> a1)))"

definition named_by_slug :: "(string \<times> SimpleIcon) list \<Rightarrow> bool" where
  "named_by_slug ds = list_all (\<lambda>(n, i). n = icon_var (slug i) \<and> list_all slug_char (slug i)) ds"

lemma icons_0_named: "named_by_slug icons_0"
  by (simp add: named_by_slug_def icons_0_def icon_var_def capital_def slug_char_def)

lemma icons_0_length: "length icons_0 = 50"
  by (simp add: icons_0_def)

lemma icons_1_named: "named_by_slug icons_1"
  by (simp add: named_by_slug_def icons_1_def icon_var_def capital_def slug_char_def)

lemma icons_1_length: "length icons_1 = 50"
  by (simp add: icons_1_def)

lemma icons_2_named: "named_by_slug icons_2"
  by (simp add: named_by_slug_def icons_2_def icon_var_def capital_def slug_char_def)

lemma icons_2_length: "length icons_2 = 50"
  by (simp add: icons_2_def)

lemma icons_3_named: "named_by_slug icons_3"
  by (simp add: named_by_slug_def icons_3_def icon_var_def capital_def slug_char_def)

lemma icons_3_length: "length icons_3 = 50"
  by (simp add: icons_3_def)

lemma icons_4_named: "named_by_slug icons_4"
  by (simp add: named_by_slug_def icons_4_def icon_var_def capital_def slug_char_def)

lemma icons_4_length: "length icons_4 = 50"
  by (simp add: icons_4_def)

lemma icons_5_named: "named_by_slug icons_5"
  by (simp add: named_by_slug_def icons_5_def icon_var_def capital_def slug_char_def)

lemma icons_5_length: "length icons_5 = 50"
  by (simp add: icons_5_def)

lemma icons_6_named: "named_by_slug icons_6"
  by (simp add: named_by_slug_def icons_6_def icon_var_def capital_def slug_char_def)

lemma icons_6_length: "length icons_6 = 50"
  by (simp add: icons_6_def)

lemma icons_7_named: "named_by_slug icons_7"
  by (simp add: named_by_slug_def icons_7_def icon_var_def capital_def slug_char_def)

lemma icons_7_length: "length icons_7 = 50"
  by (simp add: icons_7_def)

lemma icons_8_named: "named_by_slug icons_8"
  by (simp add: named_by_slug_def icons_8_def icon_var_def capital_def slug_char_def)

lemma icons_8_length: "length icons_8 = 50"
  by (simp add: icons_8_def)

lemma icons_9_named: "named_by_slug icons_9"
  by (simp add: named_by_slug_def icons_9_def icon_var_def capital_def slug_char_def)

lemma icons_9_length: "length icons_9 = 50"
  by (simp add: icons_9_def)

lemma icons_10_named: "named_by_slug icons_10"
  by (simp add: named_by_slug_def icons_10_def icon_var_def capital_def slug_char_def)

lemma icons_10_length: "length icons_10 = 50"
  by (simp add: icons_10_def)

lemma icons_11_named: "named_by_slug icons_11"
  by (simp add: named_by_slug_def icons_11_def icon_var_def capital_def slug_char_def)

lemma icons_11_length: "length icons_11 = 50"
  by (simp add: icons_11_def)

lemma icons_12_named: "named_by_slug icons_12"
  by (simp add: named_by_slug_def icons_12_def icon_var_def capital_def slug_char_def)

lemma icons_12_length: "length icons_12 = 50"
  by (simp add: icons_12_def)

lemma icons_13_named: "named_by_slug icons_13"
  by (simp add: named_by_slug_def icons_13_def icon_var_def capital_def slug_char_def)

lemma icons_13_length: "length icons_13 = 50"
  by (simp add: icons_13_def)

lemma icons_14_named: "named_by_slug icons_14"
  by (simp add: named_by_slug_def icons_14_def icon_var_def capital_def slug_char_def)

lemma icons_14_length: "length icons_14 = 50"
  by (simp add: icons_14_def)

lemma icons_15_named: "named_by_slug icons_15"
  by (simp add: named_by_slug_def icons_15_def icon_var_def capital_def slug_char_def)

lemma icons_15_length: "length icons_15 = 50"
  by (simp add: icons_15_def)

lemma icons_16_named: "named_by_slug icons_16"
  by (simp add: named_by_slug_def icons_16_def icon_var_def capital_def slug_char_def)

lemma icons_16_length: "length icons_16 = 50"
  by (simp add: icons_16_def)

lemma icons_17_named: "named_by_slug icons_17"
  by (simp add: named_by_slug_def icons_17_def icon_var_def capital_def slug_char_def)

lemma icons_17_length: "length icons_17 = 50"
  by (simp add: icons_17_def)

lemma icons_18_named: "named_by_slug icons_18"
  by (simp add: named_by_slug_def icons_18_def icon_var_def capital_def slug_char_def)

lemma icons_18_length: "length icons_18 = 50"
  by (simp add: icons_18_def)

lemma icons_19_named: "named_by_slug icons_19"
  by (simp add: named_by_slug_def icons_19_def icon_var_def capital_def slug_char_def)

lemma icons_19_length: "length icons_19 = 50"
  by (simp add: icons_19_def)

lemma icons_20_named: "named_by_slug icons_20"
  by (simp add: named_by_slug_def icons_20_def icon_var_def capital_def slug_char_def)

lemma icons_20_length: "length icons_20 = 50"
  by (simp add: icons_20_def)

lemma icons_21_named: "named_by_slug icons_21"
  by (simp add: named_by_slug_def icons_21_def icon_var_def capital_def slug_char_def)

lemma icons_21_length: "length icons_21 = 50"
  by (simp add: icons_21_def)

lemma icons_22_named: "named_by_slug icons_22"
  by (simp add: named_by_slug_def icons_22_def icon_var_def capital_def slug_char_def)

lemma icons_22_length: "length icons_22 = 50"
  by (simp add: icons_22_def)

lemma icons_23_named: "named_by_slug icons_23"
  by (simp add: named_by_slug_def icons_23_def icon_var_def capital_def slug_char_def)

lemma icons_23_length: "length icons_23 = 50"
  by (simp add: icons_23_def)

lemma icons_24_named: "named_by_slug icons_24"
  by (simp add: named_by_slug_def icons_24_def icon_var_def capital_def slug_char_def)

lemma icons_24_length: "length icons_24 = 50"
  by (simp add: icons_24_def)

lemma icons_25_named: "named_by_slug icons_25"
  by (simp add: named_by_slug_def icons_25_def icon_var_def capital_def slug_char_def)

lemma icons_25_length: "length icons_25 = 50"
  by (simp add: icons_25_def)

lemma icons_26_named: "named_by_slug icons_26"
  by (simp add: named_by_slug_def icons_26_def icon_var_def capital_def slug_char_def)

lemma icons_26_length: "length icons_26 = 50"
  by (simp add: icons_26_def)

lemma icons_27_named: "named_by_slug icons_27"
  by (simp add: named_by_slug_def icons_27_def icon_var_def capital_def slug_char_def)

lemma icons_27_length: "length icons_27 = 50"
  by (simp add: icons_27_def)

lemma icons_28_named: "named_by_slug icons_28"
  by (simp add: named_by_slug_def icons_28_def icon_var_def capital_def slug_char_def)

lemma icons_28_length: "length icons_28 = 50"
  by (simp add: icons_28_def)

lemma icons_29_named: "named_by_slug icons_29"
  by (simp add: named_by_slug_def icons_29_def icon_var_def capital_def slug_char_def)

lemma icons_29_length: "length icons_29 = 50"
  by (simp add: icons_29_def)

lemma icons_30_named: "named_by_slug icons_30"
  by (simp add: named_by_slug_def icons_30_def icon_var_def capital_def slug_char_def)

lemma icons_30_length: "length icons_30 = 50"
  by (simp add: icons_30_def)

lemma icons_31_named: "named_by_slug icons_31"
  by (simp add: named_by_slug_def icons_31_def icon_var_def capital_def slug_char_def)

lemma icons_31_length: "length icons_31 = 50"
  by (simp add: icons_31_def)

lemma icons_32_named: "named_by_slug icons_32"
  by (simp add: named_by_slug_def icons_32_def icon_var_def capital_def slug_char_def)

lemma icons_32_length: "length icons_32 = 50"
  by (simp add: icons_32_def)

lemma icons_33_named: "named_by_slug icons_33"
  by (simp add: named_by_slug_def icons_33_def icon_var_def capital_def slug_char_def)

lemma icons_33_length: "length icons_33 = 50"
  by (simp add: icons_33_def)

lemma icons_34_named: "named_by_slug icons_34"
  by (simp add: named_by_slug_def icons_34_def icon_var_def capital_def slug_char_def)

lemma icons_34_length: "length icons_34 = 50"
  by (simp add: icons_34_def)

lemma icons_35_named: "named_by_slug icons_35"
  by (simp add: named_by_slug_def icons_35_def icon_var_def capital_def slug_char_def)

lemma icons_35_length: "length icons_35 = 50"
  by (simp add: icons_35_def)

lemma icons_36_named: "named_by_slug icons_36"
  by (simp add: named_by_slug_def icons_36_def icon_var_def capital_def slug_char_def)

lemma icons_36_length: "length icons_36 = 50"
  by (simp add: icons_36_def)

lemma icons_37_named: "named_by_slug icons_37"
  by (simp add: named_by_slug_def icons_37_def icon_var_def capital_def slug_char_def)

lemma icons_37_length: "length icons_37 = 50"
  by (simp add: icons_37_def)

lemma icons_38_named: "named_by_slug icons_38"
  by (simp add: named_by_slug_def icons_38_def icon_var_def capital_def slug_char_def)

lemma icons_38_length: "length icons_38 = 50"
  by (simp add: icons_38_def)

lemma icons_39_named: "named_by_slug icons_39"
  by (simp add: named_by_slug_def icons_39_def icon_var_def capital_def slug_char_def)

lemma icons_39_length: "length icons_39 = 50"
  by (simp add: icons_39_def)

lemma icons_40_named: "named_by_slug icons_40"
  by (simp add: named_by_slug_def icons_40_def icon_var_def capital_def slug_char_def)

lemma icons_40_length: "length icons_40 = 50"
  by (simp add: icons_40_def)

lemma icons_41_named: "named_by_slug icons_41"
  by (simp add: named_by_slug_def icons_41_def icon_var_def capital_def slug_char_def)

lemma icons_41_length: "length icons_41 = 50"
  by (simp add: icons_41_def)

lemma icons_42_named: "named_by_slug icons_42"
  by (simp add: named_by_slug_def icons_42_def icon_var_def capital_def slug_char_def)

lemma icons_42_length: "length icons_42 = 50"
  by (simp add: icons_42_def)

lemma icons_43_named: "named_by_slug icons_43"
  by (simp add: named_by_slug_def icons_43_def icon_var_def capital_def slug_char_def)

lemma icons_43_length: "length icons_43 = 50"
  by (simp add: icons_43_def)

lemma icons_44_named: "named_by_slug icons_44"
  by (simp add: named_by_slug_def icons_44_def icon_var_def capital_def slug_char_def)

lemma icons_44_length: "length icons_44 = 50"
  by (simp add: icons_44_def)

lemma icons_45_named: "named_by_slug icons_45"
  by (simp add: named_by_slug_def icons_45_def icon_var_def capital_def slug_char_def)

lemma icons_45_length: "length icons_45 = 50"
  by (simp add: icons_45_def)

lemma icons_46_named: "named_by_slug icons_46"
  by (simp add: named_by_slug_def icons_46_def icon_var_def capital_def slug_char_def)

lemma icons_46_length: "length icons_46 = 50"
  by (simp add: icons_46_def)

lemma icons_47_named: "named_by_slug icons_47"
  by (simp add: named_by_slug_def icons_47_def icon_var_def capital_def slug_char_def)

lemma icons_47_length: "length icons_47 = 50"
  by (simp add: icons_47_def)

lemma icons_48_named: "named_by_slug icons_48"
  by (simp add: named_by_slug_def icons_48_def icon_var_def capital_def slug_char_def)

lemma icons_48_length: "length icons_48 = 50"
  by (simp add: icons_48_def)

lemma icons_49_named: "named_by_slug icons_49"
  by (simp add: named_by_slug_def icons_49_def icon_var_def capital_def slug_char_def)

lemma icons_49_length: "length icons_49 = 50"
  by (simp add: icons_49_def)

lemma icons_50_named: "named_by_slug icons_50"
  by (simp add: named_by_slug_def icons_50_def icon_var_def capital_def slug_char_def)

lemma icons_50_length: "length icons_50 = 50"
  by (simp add: icons_50_def)

lemma icons_51_named: "named_by_slug icons_51"
  by (simp add: named_by_slug_def icons_51_def icon_var_def capital_def slug_char_def)

lemma icons_51_length: "length icons_51 = 50"
  by (simp add: icons_51_def)

lemma icons_52_named: "named_by_slug icons_52"
  by (simp add: named_by_slug_def icons_52_def icon_var_def capital_def slug_char_def)

lemma icons_52_length: "length icons_52 = 50"
  by (simp add: icons_52_def)

lemma icons_53_named: "named_by_slug icons_53"
  by (simp add: named_by_slug_def icons_53_def icon_var_def capital_def slug_char_def)

lemma icons_53_length: "length icons_53 = 50"
  by (simp add: icons_53_def)

lemma icons_54_named: "named_by_slug icons_54"
  by (simp add: named_by_slug_def icons_54_def icon_var_def capital_def slug_char_def)

lemma icons_54_length: "length icons_54 = 50"
  by (simp add: icons_54_def)

lemma icons_55_named: "named_by_slug icons_55"
  by (simp add: named_by_slug_def icons_55_def icon_var_def capital_def slug_char_def)

lemma icons_55_length: "length icons_55 = 50"
  by (simp add: icons_55_def)

lemma icons_56_named: "named_by_slug icons_56"
  by (simp add: named_by_slug_def icons_56_def icon_var_def capital_def slug_char_def)

lemma icons_56_length: "length icons_56 = 50"
  by (simp add: icons_56_def)

lemma icons_57_named: "named_by_slug icons_57"
  by (simp add: named_by_slug_def icons_57_def icon_var_def capital_def slug_char_def)

lemma icons_57_length: "length icons_57 = 50"
  by (simp add: icons_57_def)

lemma icons_58_named: "named_by_slug icons_58"
  by (simp add: named_by_slug_def icons_58_def icon_var_def capital_def slug_char_def)

lemma icons_58_length: "length icons_58 = 50"
  by (simp add: icons_58_def)

lemma icons_59_named: "named_by_slug icons_59"
  by (simp add: named_by_slug_def icons_59_def icon_var_def capital_def slug_char_def)

lemma icons_59_length: "length icons_59 = 50"
  by (simp add: icons_59_def)

lemma icons_60_named: "named_by_slug icons_60"
  by (simp add: named_by_slug_def icons_60_def icon_var_def capital_def slug_char_def)

lemma icons_60_length: "length icons_60 = 50"
  by (simp add: icons_60_def)

lemma icons_61_named: "named_by_slug icons_61"
  by (simp add: named_by_slug_def icons_61_def icon_var_def capital_def slug_char_def)

lemma icons_61_length: "length icons_61 = 50"
  by (simp add: icons_61_def)

lemma icons_62_named: "named_by_slug icons_62"
  by (simp add: named_by_slug_def icons_62_def icon_var_def capital_def slug_char_def)

lemma icons_62_length: "length icons_62 = 50"
  by (simp add: icons_62_def)

lemma icons_63_named: "named_by_slug icons_63"
  by (simp add: named_by_slug_def icons_63_def icon_var_def capital_def slug_char_def)

lemma icons_63_length: "length icons_63 = 50"
  by (simp add: icons_63_def)

lemma icons_64_named: "named_by_slug icons_64"
  by (simp add: named_by_slug_def icons_64_def icon_var_def capital_def slug_char_def)

lemma icons_64_length: "length icons_64 = 50"
  by (simp add: icons_64_def)

lemma icons_65_named: "named_by_slug icons_65"
  by (simp add: named_by_slug_def icons_65_def icon_var_def capital_def slug_char_def)

lemma icons_65_length: "length icons_65 = 17"
  by (simp add: icons_65_def)

lemmas icons_named =
  icons_0_named icons_1_named icons_2_named icons_3_named icons_4_named icons_5_named
  icons_6_named icons_7_named icons_8_named icons_9_named icons_10_named icons_11_named
  icons_12_named icons_13_named icons_14_named icons_15_named icons_16_named icons_17_named
  icons_18_named icons_19_named icons_20_named icons_21_named icons_22_named icons_23_named
  icons_24_named icons_25_named icons_26_named icons_27_named icons_28_named icons_29_named
  icons_30_named icons_31_named icons_32_named icons_33_named icons_34_named icons_35_named
  icons_36_named icons_37_named icons_38_named icons_39_named icons_40_named icons_41_named
  icons_42_named icons_43_named icons_44_named icons_45_named icons_46_named icons_47_named
  icons_48_named icons_49_named icons_50_named icons_51_named icons_52_named icons_53_named
  icons_54_named icons_55_named icons_56_named icons_57_named icons_58_named icons_59_named
  icons_60_named icons_61_named icons_62_named icons_63_named icons_64_named icons_65_named

lemmas icons_length =
  icons_0_length icons_1_length icons_2_length icons_3_length icons_4_length icons_5_length
  icons_6_length icons_7_length icons_8_length icons_9_length icons_10_length
  icons_11_length icons_12_length icons_13_length icons_14_length icons_15_length
  icons_16_length icons_17_length icons_18_length icons_19_length icons_20_length
  icons_21_length icons_22_length icons_23_length icons_24_length icons_25_length
  icons_26_length icons_27_length icons_28_length icons_29_length icons_30_length
  icons_31_length icons_32_length icons_33_length icons_34_length icons_35_length
  icons_36_length icons_37_length icons_38_length icons_39_length icons_40_length
  icons_41_length icons_42_length icons_43_length icons_44_length icons_45_length
  icons_46_length icons_47_length icons_48_length icons_49_length icons_50_length
  icons_51_length icons_52_length icons_53_length icons_54_length icons_55_length
  icons_56_length icons_57_length icons_58_length icons_59_length icons_60_length
  icons_61_length icons_62_length icons_63_length icons_64_length icons_65_length

section \<open>The tables as a whole\<close>

lemma length_exports: "length simple_icons_exports = 3267"
  by (simp add: simple_icons_exports_def exports_length)

lemma length_declarations: "length icon_declarations = 3267"
  by (simp add: icon_declarations_def icons_length)

lemma not_Nil_length: "length xs = Suc n \<Longrightarrow> xs \<noteq> []"
  by auto

lemma exports_linked: "linked [exports_0, exports_1, exports_2, exports_3, exports_4, exports_5, exports_6, exports_7,
          exports_8, exports_9, exports_10, exports_11, exports_12, exports_13, exports_14,
          exports_15, exports_16, exports_17, exports_18, exports_19, exports_20, exports_21]"
  by code_simp

lemma exports_pieces_not_Nil:
  "exports_0 \<noteq> [] \<and> exports_1 \<noteq> [] \<and> exports_2 \<noteq> [] \<and>
    exports_3 \<noteq> [] \<and> exports_4 \<noteq> [] \<and> exports_5 \<noteq> [] \<and>
    exports_6 \<noteq> [] \<and> exports_7 \<noteq> [] \<and> exports_8 \<noteq> [] \<and>
    exports_9 \<noteq> [] \<and> exports_10 \<noteq> [] \<and> exports_11 \<noteq> [] \<and>
    exports_12 \<noteq> [] \<and> exports_13 \<noteq> [] \<and> exports_14 \<noteq> [] \<and>
    exports_15 \<noteq> [] \<and> exports_16 \<noteq> [] \<and> exports_17 \<noteq> [] \<and>
    exports_18 \<noteq> [] \<and> exports_19 \<noteq> [] \<and> exports_20 \<noteq> [] \<and>
    exports_21 \<noteq> []"
  using exports_length by auto

lemma ascending_exports: "ascending simple_icons_exports"
  unfolding simple_icons_exports_def
  by (rule ascending_concat [OF _ exports_linked])
    (simp add: exports_ascending exports_pieces_not_Nil)

lemma distinct_exports: "distinct simple_icons_exports"
  by (rule ascending_distinct [OF ascending_exports])

lemma subsumed_declared:
  assumes "subsumed xs (sort_names (map fst ds))" "set ds \<subseteq> set icon_declarations"
  shows "set xs \<subseteq> fst ` set icon_declarations"
  using subsumed_subset [OF assms(1)] assms(2) by auto

lemma exports_0_subset: "set exports_0 \<subseteq> fst ` set icon_declarations"
  by (rule subsumed_declared [OF exports_0_declared]) (auto simp: icon_declarations_def)

lemma exports_1_subset: "set exports_1 \<subseteq> fst ` set icon_declarations"
  by (rule subsumed_declared [OF exports_1_declared]) (auto simp: icon_declarations_def)

lemma exports_2_subset: "set exports_2 \<subseteq> fst ` set icon_declarations"
  by (rule subsumed_declared [OF exports_2_declared]) (auto simp: icon_declarations_def)

lemma exports_3_subset: "set exports_3 \<subseteq> fst ` set icon_declarations"
  by (rule subsumed_declared [OF exports_3_declared]) (auto simp: icon_declarations_def)

lemma exports_4_subset: "set exports_4 \<subseteq> fst ` set icon_declarations"
  by (rule subsumed_declared [OF exports_4_declared]) (auto simp: icon_declarations_def)

lemma exports_5_subset: "set exports_5 \<subseteq> fst ` set icon_declarations"
  by (rule subsumed_declared [OF exports_5_declared]) (auto simp: icon_declarations_def)

lemma exports_6_subset: "set exports_6 \<subseteq> fst ` set icon_declarations"
  by (rule subsumed_declared [OF exports_6_declared]) (auto simp: icon_declarations_def)

lemma exports_7_subset: "set exports_7 \<subseteq> fst ` set icon_declarations"
  by (rule subsumed_declared [OF exports_7_declared]) (auto simp: icon_declarations_def)

lemma exports_8_subset: "set exports_8 \<subseteq> fst ` set icon_declarations"
  by (rule subsumed_declared [OF exports_8_declared]) (auto simp: icon_declarations_def)

lemma exports_9_subset: "set exports_9 \<subseteq> fst ` set icon_declarations"
  by (rule subsumed_declared [OF exports_9_declared]) (auto simp: icon_declarations_def)

lemma exports_10_subset: "set exports_10 \<subseteq> fst ` set icon_declarations"
  by (rule subsumed_declared [OF exports_10_declared]) (auto simp: icon_declarations_def)

lemma exports_11_subset: "set exports_11 \<subseteq> fst ` set icon_declarations"
  by (rule subsumed_declared [OF exports_11_declared]) (auto simp: icon_declarations_def)

lemma exports_12_subset: "set exports_12 \<subseteq> fst ` set icon_declarations"
  by (rule subsumed_declared [OF exports_12_declared]) (auto simp: icon_declarations_def)

lemma exports_13_subset: "set exports_13 \<subseteq> fst ` set icon_declarations"
  by (rule subsumed_declared [OF exports_13_declared]) (auto simp: icon_declarations_def)

lemma exports_14_subset: "set exports_14 \<subseteq> fst ` set icon_declarations"
  by (rule subsumed_declared [OF exports_14_declared]) (auto simp: icon_declarations_def)

lemma exports_15_subset: "set exports_15 \<subseteq> fst ` set icon_declarations"
  by (rule subsumed_declared [OF exports_15_declared]) (auto simp: icon_declarations_def)

lemma exports_16_subset: "set exports_16 \<subseteq> fst ` set icon_declarations"
  by (rule subsumed_declared [OF exports_16_declared]) (auto simp: icon_declarations_def)

lemma exports_17_subset: "set exports_17 \<subseteq> fst ` set icon_declarations"
  by (rule subsumed_declared [OF exports_17_declared]) (auto simp: icon_declarations_def)

lemma exports_18_subset: "set exports_18 \<subseteq> fst ` set icon_declarations"
  by (rule subsumed_declared [OF exports_18_declared]) (auto simp: icon_declarations_def)

lemma exports_19_subset: "set exports_19 \<subseteq> fst ` set icon_declarations"
  by (rule subsumed_declared [OF exports_19_declared]) (auto simp: icon_declarations_def)

lemma exports_20_subset: "set exports_20 \<subseteq> fst ` set icon_declarations"
  by (rule subsumed_declared [OF exports_20_declared]) (auto simp: icon_declarations_def)

lemma exports_21_subset: "set exports_21 \<subseteq> fst ` set icon_declarations"
  by (rule subsumed_declared [OF exports_21_declared]) (auto simp: icon_declarations_def)

lemma exports_subset: "set simple_icons_exports \<subseteq> fst ` set icon_declarations"
  unfolding simple_icons_exports_def
  using exports_0_subset exports_1_subset exports_2_subset exports_3_subset exports_4_subset
    exports_5_subset exports_6_subset exports_7_subset exports_8_subset exports_9_subset
    exports_10_subset exports_11_subset exports_12_subset exports_13_subset exports_14_subset
    exports_15_subset exports_16_subset exports_17_subset exports_18_subset exports_19_subset
    exports_20_subset exports_21_subset
  by (simp only: set_concat list.set UN_insert UN_empty Un_subset_iff empty_subsetI simp_thms)

lemma declared_names:
  "distinct (map fst icon_declarations)" "set simple_icons_exports = fst ` set icon_declarations"
proof -
  let ?E = "set simple_icons_exports" and ?D = "set (map fst icon_declarations)"
  have sub: "?E \<subseteq> ?D"
    using exports_subset by simp
  have E: "card ?E = 3267"
    using distinct_exports length_exports by (simp only: distinct_card)
  have D: "card ?D \<le> 3267"
    using card_length [of "map fst icon_declarations"] by (simp only: length_map length_declarations)
  have eq: "?E = ?D"
    using sub D E by (intro card_seteq) simp_all
  then show "?E = fst ` set icon_declarations"
    by simp
  have "card ?D = length (map fst icon_declarations)"
    using E eq by (simp only: length_map length_declarations)
  then show "distinct (map fst icon_declarations)"
    by (rule card_distinct)
qed

lemma declared_by_slug:
  assumes "(n, i) \<in> set icon_declarations"
  shows "n = icon_var (slug i)" "list_all slug_char (slug i)"
proof -
  have "named_by_slug icon_declarations"
    unfolding icon_declarations_def named_by_slug_def
    using icons_named [unfolded named_by_slug_def] by (simp only: concat.simps list_all_append list.pred_inject(1) simp_thms)
  then have "\<forall>(n, i) \<in> set icon_declarations. n = icon_var (slug i) \<and> list_all slug_char (slug i)"
    by (simp only: named_by_slug_def list_all_iff)
  with assms show "n = icon_var (slug i)" "list_all slug_char (slug i)"
    by auto
qed

lemma distinct_slugs: "distinct (map (slug \<circ> snd) icon_declarations)"
proof -
  have "map fst icon_declarations = map icon_var (map (slug \<circ> snd) icon_declarations)"
    using declared_by_slug(1) by (auto simp: comp_def)
  then show ?thesis
    using declared_names(1) by (metis distinct_map)
qed

lemma si_rust_declared: "(''siRust'', SimpleIcon ''rust'' ''Rust'' ''000000'') \<in> set icon_declarations"
proof -
  have "(''siRust'', SimpleIcon ''rust'' ''Rust'' ''000000'') \<in> set icons_49"
    by (simp add: icons_49_def)
  then show ?thesis
    by (simp add: icon_declarations_def)
qed

end
