(* ===== verification/Whichlang.thy ===== *)
theory Whichlang
  imports Simple_Icons
begin

text \<open>
  The page script \<^verbatim>\<open>docs/whichlang.js\<close> after its icon tables: the table \<open>config.icons\<close>
  from slugs to drawings, and the loop that puts a banner above a code block according to the
  classes of the block. Class names are ASCII. A property of a plain object that is not its own
  is looked up in \<open>Object.prototype\<close>; an exception ends the script, and the banners of the
  blocks before it stay.
\<close>

section \<open>Values\<close>

datatype js_error = TypeError string

text \<open>
  What the variable \<open>icon\<close> can hold: \<open>undefined\<close>, a drawing from the icon table with its
  attributes, an \<open>i\<close> element with classes, an \<open>img\<close> element with a source, or a member of
  \<open>Object.prototype\<close>.
\<close>

record svg_element =
  svg_text :: string
  svg_width :: string
  svg_height :: string
  svg_fill :: string

datatype js_icon =
    Undefined
  | Svg svg_element
  | FontIcon "string list"
  | Img string
  | PrototypeMember string

section \<open>Configuration\<close>

definition svg :: "(SimpleIcon \<Rightarrow> string) \<Rightarrow> SimpleIcon \<Rightarrow> svg_element" where
  "svg path icon =
     \<lparr>svg_text = icon_svg path icon, svg_width = ''20'', svg_height = ''20'',
      svg_fill = CHR ''#'' # icon_hex icon\<rparr>"

record Config =
  explicitBanner :: bool
  icons :: "(string, svg_element) hash_map"

text \<open>\<open>Object.values\<close> of the exports: the getters read the variables of the same name.\<close>

definition export_values :: "SimpleIcon list" where
  "export_values = List.map_filter (map_of icon_declarations) simple_icons_exports"

definition add_icons ::
    "(SimpleIcon \<Rightarrow> string) \<Rightarrow> SimpleIcon list \<Rightarrow> (string, svg_element) hash_map
       \<Rightarrow> (string, svg_element) hash_map" where
  "add_icons path values m = fold (\<lambda>icon m. hm_insert (slug icon) (svg path icon) m) values m"

definition config :: "(SimpleIcon \<Rightarrow> string) \<Rightarrow> Config" where
  "config path = \<lparr>explicitBanner = False, icons = add_icons path export_values []\<rparr>"

definition object_prototype :: "string list" where
  "object_prototype =
     [''constructor'', ''__defineGetter__'', ''__defineSetter__'', ''hasOwnProperty'',
      ''__lookupGetter__'', ''__lookupSetter__'', ''isPrototypeOf'', ''propertyIsEnumerable'',
      ''toString'', ''valueOf'', ''__proto__'', ''toLocaleString'']"

text \<open>\<open>config.icons[key]\<close>\<close>

definition lookup_icon :: "Config \<Rightarrow> string \<Rightarrow> js_icon" where
  "lookup_icon cfg key =
     (case hm_get (icons cfg) key of
        Some e \<Rightarrow> Svg e
      | None \<Rightarrow> if key \<in> set object_prototype then PrototypeMember key else Undefined)"

section \<open>Strings\<close>

definition upper_char :: "char \<Rightarrow> char" where
  "upper_char c = (if is_ascii_lowercase c then char_of (of_char c - 32 :: nat) else c)"

definition lower_char :: "char \<Rightarrow> char" where
  "lower_char c =
     (if 65 \<le> (of_char c :: nat) \<and> (of_char c :: nat) \<le> 90 then char_of (of_char c + 32 :: nat) else c)"

definition toUpperCase :: "string \<Rightarrow> string" where
  "toUpperCase s = map upper_char s"

definition toLowerCase :: "string \<Rightarrow> string" where
  "toLowerCase s = map lower_char s"

definition is_js_space :: "char \<Rightarrow> bool" where
  "is_js_space c \<longleftrightarrow> (of_char c :: nat) \<in> {9, 10, 11, 12, 13, 32}"

definition trim :: "string \<Rightarrow> string" where
  "trim s = dropWhile is_js_space (rev (dropWhile is_js_space (rev s)))"

section \<open>The code blocks\<close>

record BannerData =
  banner_icon :: js_icon
  banner_language :: "string option"
  banner_filePath :: "string option"

text \<open>The element made for a banner: the clone in the icon span and the text of the path span.\<close>

record Banner =
  icon_span :: "js_icon option"
  filepath_span :: "string option"

definition codeBlockBanner :: "BannerData \<Rightarrow> (Banner, js_error) result" where
  "codeBlockBanner bannerData =
     (case banner_icon bannerData of
        PrototypeMember m \<Rightarrow> Err (TypeError ''cloneNode is not a function'')
      | Undefined \<Rightarrow> Ok \<lparr>icon_span = None, filepath_span = banner_filePath bannerData\<rparr>
      | i \<Rightarrow> Ok \<lparr>icon_span = Some i, filepath_span = banner_filePath bannerData\<rparr>)"

definition transformHljsIdentifier :: "string \<Rightarrow> string" where
  "transformHljsIdentifier hljsIdentifier = toUpperCase hljsIdentifier"

definition languageNameByHljsClass :: "string \<Rightarrow> string option" where
  "languageNameByHljsClass className =
     (let hljsIdentifier = (case strip_prefix className ''language-'' of
                              None \<Rightarrow> className | Some s \<Rightarrow> s) in
      if className = hljsIdentifier then None
      else Some (transformHljsIdentifier hljsIdentifier))"

text \<open>\<open>split("=", 2)\<close> keeps the first two pieces and drops the rest.\<close>

definition parseAttribute :: "string \<Rightarrow> string list" where
  "parseAttribute input = take 2 (split_on CHR ''='' input)"

record block_state =
  language :: "string option"
  filePath :: "string option"
  icon :: js_icon
  forceCurrentIcon :: bool
  createBanner :: bool

text \<open>The case \<open>"icon"\<close> of the switch; reading a method of an undefined value throws.\<close>

definition set_icon :: "Config \<Rightarrow> string option \<Rightarrow> block_state \<Rightarrow> (block_state, js_error) result" where
  "set_icon cfg val st =
     (case val of
        None \<Rightarrow> Err (TypeError ''startsWith of undefined'')
      | Some v \<Rightarrow>
          let i = (if starts_with v ''%'' then lookup_icon cfg (drop 1 v)
                   else if starts_with v ''.''
                   then FontIcon (filter (\<lambda>x. trim x \<noteq> []) (split_on CHR ''.'' v))
                   else if starts_with v ''@'' then Img (drop 1 v)
                   else Undefined) in
          Ok (st\<lparr>icon := i, forceCurrentIcon := True\<rparr>))"

definition set_banner :: "string option \<Rightarrow> block_state \<Rightarrow> block_state" where
  "set_banner val st =
     (if val = Some ''yes'' then st\<lparr>createBanner := True\<rparr>
      else if val = Some ''no'' then st\<lparr>createBanner := False\<rparr>
      else st)"

definition class_step :: "Config \<Rightarrow> string \<Rightarrow> block_state \<Rightarrow> (block_state, js_error) result" where
  "class_step cfg cls st =
     (let st = st\<lparr>language := (case language st of
                               None \<Rightarrow> languageNameByHljsClass cls | Some l \<Rightarrow> Some l)\<rparr>;
          pair = parseAttribute cls;
          key = hd pair;
          val = (if length pair < 2 then None else Some (pair ! 1)) in
      if key = ''icon'' then set_icon cfg val st
      else if key = ''fp'' \<or> key = ''filepath'' then Ok (st\<lparr>filePath := val\<rparr>)
      else if key = ''banner'' then Ok (set_banner val st)
      else Ok st)"

fun class_loop :: "Config \<Rightarrow> string list \<Rightarrow> block_state \<Rightarrow> (block_state, js_error) result" where
  "class_loop cfg [] st = Ok st"
| "class_loop cfg (cls # classes) st =
     (case class_step cfg cls st of Err e \<Rightarrow> Err e | Ok st' \<Rightarrow> class_loop cfg classes st')"

definition initial_block :: "Config \<Rightarrow> block_state" where
  "initial_block cfg =
     \<lparr>language = None, filePath = None, icon = Undefined, forceCurrentIcon = False,
      createBanner = \<not> explicitBanner cfg\<rparr>"

definition finish_block :: "Config \<Rightarrow> block_state \<Rightarrow> (Banner option, js_error) result" where
  "finish_block cfg st =
     (if \<not> createBanner st then Ok None
      else let i = (if icon st = Undefined \<and> \<not> forceCurrentIcon st
                    then case language st of
                           None \<Rightarrow> icon st
                         | Some l \<Rightarrow> lookup_icon cfg (toLowerCase l)
                    else icon st) in
        if i \<noteq> Undefined \<or> filePath st \<noteq> None
        then map_sum id Some (codeBlockBanner
               \<lparr>banner_icon = i, banner_language = language st, banner_filePath = filePath st\<rparr>)
        else Ok None)"

definition block_banner :: "Config \<Rightarrow> string list \<Rightarrow> (Banner option, js_error) result" where
  "block_banner cfg classes =
     (case class_loop cfg classes (initial_block cfg) of
        Err e \<Rightarrow> Err e
      | Ok st \<Rightarrow> finish_block cfg st)"

text \<open>The banners of the page's code blocks up to the first exception, and that exception.\<close>

fun page_banners :: "Config \<Rightarrow> string list list \<Rightarrow> Banner option list \<times> js_error option" where
  "page_banners cfg [] = ([], None)"
| "page_banners cfg (block # blocks) =
     (case block_banner cfg block of
        Err e \<Rightarrow> ([], Some e)
      | Ok b \<Rightarrow> (case page_banners cfg blocks of (bs, e) \<Rightarrow> (b # bs, e)))"

section \<open>The icon table\<close>

lemma icon_values:
  "set export_values = snd ` set icon_declarations" "distinct (map slug export_values)"
proof -
  define f where "f = (\<lambda>n. the (map_of icon_declarations n))"
  have dom: "map_of icon_declarations n = Some (f n)" if "n \<in> set simple_icons_exports" for n
  proof -
    have "n \<in> fst ` set icon_declarations"
      using that by (simp only: declared_names(2))
    then have "map_of icon_declarations n \<noteq> None"
      by (simp only: map_of_eq_None_iff not_not)
    then show ?thesis
      by (simp add: f_def)
  qed
  have "List.map_filter (map_of icon_declarations) ns = map f ns"
    if "set ns \<subseteq> set simple_icons_exports" for ns
    using that by (induction ns) (auto simp: map_filter_simps dom)
  then have vals: "export_values = map f simple_icons_exports"
    by (simp add: export_values_def)
  have pairs: "map_of icon_declarations n = Some i \<longleftrightarrow> (n, i) \<in> set icon_declarations" for n i
    using declared_names(1) by (rule map_of_eq_Some_iff)
  show "set export_values = snd ` set icon_declarations"
  proof (intro equalityI subsetI)
    fix i
    assume "i \<in> set export_values"
    then obtain n where "n \<in> set simple_icons_exports" "i = f n"
      unfolding vals by auto
    then have "(n, i) \<in> set icon_declarations"
      using dom pairs by blast
    then show "i \<in> snd ` set icon_declarations"
      by (rule rev_image_eqI) simp
  next
    fix i
    assume "i \<in> snd ` set icon_declarations"
    then obtain n where n: "(n, i) \<in> set icon_declarations"
      by auto
    then have ex: "n \<in> set simple_icons_exports"
      unfolding declared_names(2) by (rule rev_image_eqI) simp
    moreover have "f n = i"
      using dom [OF ex] n pairs [of n i] by simp
    ultimately show "i \<in> set export_values"
      unfolding vals by auto
  qed
  have inj: "inj_on (slug \<circ> snd) (set icon_declarations)"
    using distinct_slugs by (simp add: distinct_map)
  have "inj_on (\<lambda>n. slug (f n)) (set simple_icons_exports)"
  proof (rule inj_onI)
    fix a b
    assume ab: "a \<in> set simple_icons_exports" "b \<in> set simple_icons_exports" "slug (f a) = slug (f b)"
    then have "(a, f a) \<in> set icon_declarations" "(b, f b) \<in> set icon_declarations"
      using dom pairs by blast+
    with inj_onD [OF inj, of "(a, f a)" "(b, f b)"] ab(3) show "a = b"
      by simp
  qed
  then show "distinct (map slug export_values)"
    unfolding vals using distinct_exports by (simp add: distinct_map comp_def)
qed

lemma add_icons_get:
  "distinct (map slug is) \<Longrightarrow> hm_get (add_icons path is m) key =
     (case find (\<lambda>i. slug i = key) is of Some i \<Rightarrow> Some (svg path i) | None \<Rightarrow> hm_get m key)"
proof (induction "is" arbitrary: m)
  case Nil
  then show ?case by (simp add: add_icons_def)
next
  case (Cons i "is")
  have none: "find (\<lambda>j. slug j = slug i) is = None"
    using Cons.prems by (simp add: find_None_iff) (metis imageI)
  show ?case
    using Cons none by (auto simp: add_icons_def split: option.splits)
qed

lemma config_icons_iff:
  "hm_get (icons (config path)) key = Some e \<longleftrightarrow>
     (\<exists>n i. (n, i) \<in> set icon_declarations \<and> slug i = key \<and> e = svg path i)"
proof -
  let ?found = "find (\<lambda>i. slug i = key) export_values"
  have get: "hm_get (icons (config path)) key = map_option (svg path) ?found"
    using icon_values(2) by (simp add: config_def add_icons_get split: option.splits)
  have sound: "i \<in> set export_values \<and> slug i = key" if "?found = Some i" for i
    using that by (auto simp: find_Some_iff)
  have "?found = Some i" if i: "i \<in> set export_values" "slug i = key" for i
  proof -
    obtain j where j: "?found = Some j"
      using i find_None_iff [of "\<lambda>i. slug i = key" export_values] by (cases ?found) auto
    have "inj_on slug (set export_values)"
      using icon_values(2) by (simp add: distinct_map)
    with j sound [OF j] i show ?thesis
      by (auto dest: inj_onD)
  qed
  then have iff: "?found = Some i \<longleftrightarrow> i \<in> snd ` set icon_declarations \<and> slug i = key" for i
    using sound unfolding icon_values(1) by blast
  show ?thesis
    unfolding get by (auto simp: iff image_iff) force+
qed

text \<open>
  Claim C38: the icon table of the page holds for every icon object of the bundle its own drawing
  under its slug, and nothing else: of the 3267 icons none overwrites another, and every exported
  name has an icon object.
\<close>

theorem config_icons_exact:
  "hm_get (icons (config path)) key = Some e \<longleftrightarrow>
     (\<exists>n i. (n, i) \<in> set icon_declarations \<and> slug i = key \<and> e = svg path i)"
  by (rule config_icons_iff)

lemma explicitBanner_config [simp]: "explicitBanner (config path) = False"
  by (simp add: config_def)

section \<open>Attributes\<close>

lemma lower_upper_slug: "slug_char c \<Longrightarrow> lower_char (upper_char c) = c"
proof (cases c)
  case (Char a0 a1 a2 a3 a4 a5 a6 a7)
  then show "slug_char c \<Longrightarrow> lower_char (upper_char c) = c"
    by (cases a0; cases a1; cases a2; cases a3; cases a4; cases a5; cases a6; cases a7)
      (simp_all add: slug_char_def lower_char_def upper_char_def is_ascii_lowercase_def char_of_def bit_0)
qed

lemma slug_not_equals: "slug_char c \<Longrightarrow> c \<noteq> CHR ''=''"
  by (auto simp: slug_char_def)

lemma split_on_hd: "hd (split_on c s) = takeWhile (\<lambda>x. x \<noteq> c) s"
  by (induction s) (auto split: list.splits)

lemma length_split_on: "length (split_on c s) = 1 \<longleftrightarrow> c \<notin> set s"
  by (induction s) (auto split: list.splits)

text \<open>The key and the value the switch reads of a class.\<close>

definition attr_key :: "string \<Rightarrow> string" where
  "attr_key cls = hd (parseAttribute cls)"

definition attr_value :: "string \<Rightarrow> string option" where
  "attr_value cls = (let pair = parseAttribute cls in if length pair < 2 then None else Some (pair ! 1))"

lemma attr_key_takeWhile: "attr_key cls = takeWhile (\<lambda>x. x \<noteq> CHR ''='') cls"
  by (simp add: attr_key_def parseAttribute_def split_on_hd [symmetric] hd_take)

lemma attr_value_None: "attr_value cls = None \<longleftrightarrow> CHR ''='' \<notin> set cls"
proof -
  have "length (split_on CHR ''='' cls) \<noteq> 0"
    by simp
  then have "length (split_on CHR ''='' cls) < 2 \<longleftrightarrow> CHR ''='' \<notin> set cls"
    using length_split_on [of "CHR ''=''" cls] by linarith
  then show ?thesis
    by (simp add: attr_value_def parseAttribute_def Let_def min_less_iff_disj)
qed

lemma bare_attribute: "attr_key cls = k \<and> attr_value cls = None \<longleftrightarrow> cls = k \<and> CHR ''='' \<notin> set k"
proof (cases "CHR ''='' \<in> set cls")
  case True
  then show ?thesis
    by (auto simp: attr_value_None)
next
  case False
  then have "attr_key cls = cls"
    unfolding attr_key_takeWhile by (intro takeWhile_eq_all_conv [THEN iffD2]) auto
  with False show ?thesis
    by (auto simp: attr_value_None)
qed

lemma class_step_attr:
  "class_step cfg cls st =
     (let st = st\<lparr>language := (case language st of None \<Rightarrow> languageNameByHljsClass cls | Some l \<Rightarrow> Some l)\<rparr> in
      if attr_key cls = ''icon'' then set_icon cfg (attr_value cls) st
      else if attr_key cls \<in> {''fp'', ''filepath''} then Ok (st\<lparr>filePath := attr_value cls\<rparr>)
      else if attr_key cls = ''banner'' then Ok (set_banner (attr_value cls) st)
      else Ok st)"
  by (simp add: class_step_def attr_key_def attr_value_def Let_def)

section \<open>What the classes of a block mean\<close>

text \<open>The first language class, the last path, icon and banner attributes.\<close>

definition block_language :: "string list \<Rightarrow> string option" where
  "block_language classes = (case List.map_filter languageNameByHljsClass classes of [] \<Rightarrow> None | l # _ \<Rightarrow> Some l)"

definition with_key :: "string set \<Rightarrow> string list \<Rightarrow> string option list" where
  "with_key ks classes = map attr_value (filter (\<lambda>cls. attr_key cls \<in> ks) classes)"

definition icon_of_value :: "Config \<Rightarrow> string \<Rightarrow> js_icon" where
  "icon_of_value cfg v =
     (if starts_with v ''%'' then lookup_icon cfg (drop 1 v)
      else if starts_with v ''.'' then FontIcon (filter (\<lambda>x. trim x \<noteq> []) (split_on CHR ''.'' v))
      else if starts_with v ''@'' then Img (drop 1 v)
      else Undefined)"

definition last_or :: "'b \<Rightarrow> ('a \<Rightarrow> 'b) \<Rightarrow> 'a list \<Rightarrow> 'b" where
  "last_or d f xs = (if xs = [] then d else f (last xs))"

lemma last_or_simps [simp]: "last_or d f [] = d" "last_or d f (xs @ [x]) = f x"
  by (simp_all add: last_or_def)

definition banner_choice :: "bool \<Rightarrow> string option list \<Rightarrow> bool" where
  "banner_choice dflt vals =
     last_or dflt (\<lambda>v. v = Some ''yes'') (filter (\<lambda>v. v \<in> {Some ''yes'', Some ''no''}) vals)"

definition block_meaning :: "Config \<Rightarrow> string list \<Rightarrow> block_state" where
  "block_meaning cfg classes =
     \<lparr>language = block_language classes,
      filePath = last_or None id (with_key {''fp'', ''filepath''} classes),
      icon = last_or Undefined (\<lambda>v. icon_of_value cfg (the v)) (with_key {''icon''} classes),
      forceCurrentIcon = (with_key {''icon''} classes \<noteq> []),
      createBanner = banner_choice (\<not> explicitBanner cfg) (with_key {''banner''} classes)\<rparr>"

lemma class_loop_append:
  "class_loop cfg (xs @ ys) st =
     (case class_loop cfg xs st of Err e \<Rightarrow> Err e | Ok st' \<Rightarrow> class_loop cfg ys st')"
  by (induction xs arbitrary: st) (auto split: sum.splits)

lemma with_key_snoc:
  "with_key ks (xs @ [c]) = with_key ks xs @ (if attr_key c \<in> ks then [attr_value c] else [])"
  by (simp add: with_key_def)

lemma block_language_snoc:
  "block_language (xs @ [c]) =
     (case block_language xs of None \<Rightarrow> languageNameByHljsClass c | Some l \<Rightarrow> Some l)"
  by (auto simp: block_language_def map_filter_def split: list.splits option.splits)

lemma banner_choice_snoc:
  "banner_choice d (vs @ [v]) =
     (if v = Some ''yes'' then True else if v = Some ''no'' then False else banner_choice d vs)"
  by (auto simp: banner_choice_def)

lemma class_loop_meaning:
  "''icon'' \<notin> set classes \<Longrightarrow>
     class_loop cfg classes (initial_block cfg) = Ok (block_meaning cfg classes)"
proof (induction classes rule: rev_induct)
  case Nil
  then show ?case
    by (simp add: initial_block_def block_meaning_def block_language_def with_key_def
        banner_choice_def map_filter_simps)
next
  case (snoc c xs)
  have "class_step cfg c (block_meaning cfg xs) = Ok (block_meaning cfg (xs @ [c]))"
    using snoc.prems bare_attribute [of c "''icon''"]
    by (auto simp: class_step_attr block_meaning_def with_key_snoc block_language_snoc
        banner_choice_snoc set_icon_def set_banner_def icon_of_value_def Let_def
        split: option.splits)
  with snoc show ?case
    by (simp add: class_loop_append)
qed

text \<open>
  The script understands the classes of a code block as documented: the first
  \<open>language-\<close> class names the language, and the last \<open>fp\<close>, \<open>icon\<close> and valid \<open>banner\<close>
  attributes win, whatever other classes stand between them. The one exception is a class that is
  the bare word \<open>icon\<close>, on which the script throws.
\<close>

lemma block_attributes:
  "class_loop cfg classes (initial_block cfg) =
     (if ''icon'' \<in> set classes then Err (TypeError ''startsWith of undefined'')
      else Ok (block_meaning cfg classes))"
proof (cases "''icon'' \<in> set classes")
  case True
  then obtain xs ys where split: "classes = xs @ ''icon'' # ys" "''icon'' \<notin> set xs"
    by (meson split_list_first)
  have "class_step cfg ''icon'' st = Err (TypeError ''startsWith of undefined'')" for st
    using bare_attribute [of "''icon''" "''icon''"] by (simp add: class_step_attr set_icon_def)
  with split class_loop_meaning [OF split(2), of cfg] True show ?thesis
    by (simp add: class_loop_append)
qed (simp add: class_loop_meaning)

text \<open>
  A code block in a language that has an icon, with no attributes of its own, gets a
  banner with exactly that icon and an empty path.
\<close>

lemma language_icon_banner:
  assumes "(n, i) \<in> set icon_declarations"
    and "block_language classes = languageNameByHljsClass (''language-'' @ slug i)"
    and "\<forall>cls \<in> set classes. attr_key cls \<notin> {''icon'', ''fp'', ''filepath'', ''banner''}"
  shows "block_banner (config path) classes =
     Ok (Some \<lparr>icon_span = Some (Svg (svg path i)), filepath_span = None\<rparr>)"
proof -
  have none: "with_key ks classes = []" if "ks \<subseteq> {''icon'', ''fp'', ''filepath'', ''banner''}" for ks
    using that assms(3) by (auto simp: with_key_def filter_empty_conv)
  have "attr_key ''icon'' = ''icon''"
    by (simp add: attr_key_takeWhile)
  then have bare: "''icon'' \<notin> set classes"
    using assms(3) by auto
  have round: "toLowerCase (toUpperCase (slug i)) = slug i"
    using declared_by_slug(2) [OF assms(1)]
    by (simp add: toLowerCase_def toUpperCase_def list_all_iff lower_upper_slug map_idI)
  have lang: "languageNameByHljsClass (''language-'' @ slug i) = Some (toUpperCase (slug i))"
  proof -
    have "''language-'' @ slug i \<noteq> slug i" by simp
    then show ?thesis
      unfolding languageNameByHljsClass_def strip_prefix_append
      by (simp add: transformHljsIdentifier_def)
  qed
  have look: "lookup_icon (config path) (slug i) = Svg (svg path i)"
    using config_icons_iff [of path "slug i" "svg path i"] assms(1)
    by (auto simp: lookup_icon_def)
  have meaning: "block_meaning (config path) classes =
      \<lparr>language = Some (toUpperCase (slug i)), filePath = None, icon = Undefined,
       forceCurrentIcon = False, createBanner = True\<rparr>"
    using none by (simp add: block_meaning_def assms(2) [unfolded lang] banner_choice_def)
  show ?thesis
    unfolding block_banner_def class_loop_meaning [OF bare] meaning
    by (simp add: finish_block_def round look codeBlockBanner_def)
qed

lemma language_icon_banner_example:
  "block_banner (config (\<lambda>_. ''M0 0h24v24z'')) [''hljs'', ''language-rust''] =
     Ok (Some \<lparr>icon_span = Some (Svg (svg (\<lambda>_. ''M0 0h24v24z'') (SimpleIcon ''rust'' ''Rust'' ''000000''))),
       filepath_span = None\<rparr>)"
proof (rule language_icon_banner [OF si_rust_declared])
  show "block_language [''hljs'', ''language-rust''] =
      languageNameByHljsClass (''language-'' @ slug (SimpleIcon ''rust'' ''Rust'' ''000000''))"
    by (simp add: block_language_def map_filter_simps languageNameByHljsClass_def strip_prefix_def)
  show "\<forall>cls \<in> set [''hljs'', ''language-rust'']. attr_key cls \<notin> {''icon'', ''fp'', ''filepath'', ''banner''}"
    by (simp add: attr_key_takeWhile)
qed

text \<open>
  Claim C39: the icon table is a plain object, so names it inherits count as icons: a block that asks
  for \<open>icon=%toString\<close> ends the script with an exception, and no later block gets its banner.
\<close>

theorem inherited_name_throws:
  "page_banners (config path) ([''icon=%toString''] # blocks) =
     ([], Some (TypeError ''cloneNode is not a function''))"
proof -
  have "hm_get (icons (config path)) ''toString'' = None"
  proof (rule ccontr)
    assume "hm_get (icons (config path)) ''toString'' \<noteq> None"
    then obtain n i where "(n, i) \<in> set icon_declarations" "slug i = ''toString''"
      using config_icons_iff [of path "''toString''"] by blast
    then show False
      using declared_by_slug(2) by (force simp: slug_char_def)
  qed
  then have look: "lookup_icon (config path) ''toString'' = PrototypeMember ''toString''"
    by (simp add: lookup_icon_def object_prototype_def)
  have attr: "attr_key ''icon=%toString'' = ''icon''" "attr_value ''icon=%toString'' = Some ''%toString''"
    by (simp_all add: attr_key_takeWhile attr_value_def parseAttribute_def)
  have bare: "''icon'' \<notin> set [''icon=%toString'']"
    by simp
  have "block_banner (config path) [''icon=%toString''] =
      Err (TypeError ''cloneNode is not a function'')"
    unfolding block_banner_def class_loop_meaning [OF bare]
    by (simp add: block_meaning_def with_key_def attr last_or_def icon_of_value_def starts_with_def look
        finish_block_def codeBlockBanner_def banner_choice_def)
  then show ?thesis
    by simp
qed

end
