(* ===== verification/Mermaid_Init.thy ===== *)
theory Mermaid_Init
  imports Prelude
begin












end
