(* ===== verification/Spec2Isabelle.thy ===== *)
theory Spec2Isabelle
  imports Prelude Mailbox Topic Wal Wal_Safety Wal_Concurrency Security Event_Bus_Connector
    Lifecycle Monitor_Collector Queue_Manager Rate_Limiter Trigger_Queue Audit_Ledger Agent_State Ipc_Codec
    Ordered_Table Event_Store Event_Store_Inv Ingest Detection_Cycle Detection_Cycle_Safety
    Rejection_Log Schema_Catalog Rule_Planner Pushdown_Tasks Rule_Engine Rule_Engine_Runs
    Spawn_Tokens Collector_Registry Simple_Icons Whichlang Mermaid_Init
begin

text \<open>
  \<^bold>\<open>Verification of DaemonEye.\<close>

  DaemonEye watches the processes of a machine. The process monitor \<^verbatim>\<open>procmond\<close> scans the process
  table, compares each scan with the one before, redacts secrets in the events, writes them to a
  write-ahead log and publishes them through a connector to the event bus of the agent
  (\<^verbatim>\<open>daemoneye-eventbus\<close>), which routes them by topic, limits the rate of its clients and queues
  messages for clients that are offline. Collectors (\<^verbatim>\<open>collector-core\<close>) submit analysis triggers to a
  priority queue. The agent (\<^verbatim>\<open>daemoneye-agent\<close>) starts the collectors with a token each, admits those
  that present it and the schema of what they collect, waits for them and tells them to begin;
  commands and results travel in frames over a local socket (\<^verbatim>\<open>daemoneye-lib/src/ipc\<close>). Its detection
  engine (\<^verbatim>\<open>daemoneye-lib/src/detection\<close>) plans the rules against those schemas and sends the part of a
  rule a collector can evaluate to it as a task that has to be renewed. In each cycle of its main
  loop the agent stores the collected records (\<^verbatim>\<open>daemoneye-lib/src/storage\<close>) and evaluates the
  detection rules on a window of them (\<^verbatim>\<open>detection_cycle.rs\<close>). Administrative actions are recorded in a hash-chained ledger (\<^verbatim>\<open>daemoneye-lib/src/crypto.rs\<close>). The documentation
  pages carry scripts for code block banners and diagrams (\<^verbatim>\<open>docs/whichlang.js\<close>,
  \<^verbatim>\<open>docs/mermaid-init.js\<close>).

  \<^bold>\<open>Theories and sources.\<close> Paths are relative to \<^verbatim>\<open>src/\<close>.

  \<^item> \<open>Prelude\<close>: machine integers, \<open>Result\<close>, strings as bytes, decimal and little-endian
    encodings, hash maps as association lists; the contracts \<open>framing\<close> (length-prefixed records),
    \<open>keyed_store\<close> and \<open>lasting\<close> (an invariant that guarded operations keep over every run).
  \<^item> \<open>Mailbox\<close>: the contract of the message queues; that a run of operations loses, duplicates
    and reorders nothing follows from a law per operation.
  \<^item> \<open>Topic\<close>, \<^verbatim>\<open>daemoneye-eventbus/src/topic.rs\<close>: topics, patterns, routing, access rights. The
    matching loop is proved equal to the declarative meaning of patterns; routing refines the set
    of live subscriptions (\<open>subscription_router\<close>).
  \<^item> \<open>Wal\<close>, \<open>Wal_Safety\<close>, \<open>Wal_Concurrency\<close>, \<^verbatim>\<open>procmond/src/wal.rs\<close>: the log with its files,
    rotation, scan, replay and clean-up, under failing system calls. The invariant \<open>wal_inv\<close> is kept
    by every operation; writes append what replay can read (\<open>append_log\<close>), clean-up forgets nothing above
    the published number (\<open>durable_log\<close>), files that are damaged or cut short are replayed up to the damage.
    Concurrent writers are an inductive step relation.
  \<^item> \<open>Security\<close>, \<^verbatim>\<open>procmond/src/security.rs\<close>: process events and the redaction of secrets.
  \<^item> \<open>Event_Bus_Connector\<close>, \<^verbatim>\<open>procmond/src/event_bus_connector\<close> and the start-up of
    \<^verbatim>\<open>procmond/src/main.rs\<close>: publishing, buffering, reconnection and replay on top of \<open>Wal\<close> and
    \<open>Security\<close>. The property that spans these components is delivery at least once, over any
    number of crashes between calls, for events the log can read back; it rests on the \<open>durable_log\<close>
    contract of the log.
  \<^item> \<open>Lifecycle\<close>, \<^verbatim>\<open>procmond/src/lifecycle.rs\<close>: the comparison of scans. The reports of one update are
    characterised by the two tables, and following them gives the process table.
  \<^item> \<open>Monitor_Collector\<close>, \<^verbatim>\<open>procmond/src/monitor_collector.rs\<close> (\<open>collect_and_analyze_internal\<close>): joins the
    tracker with the connector; every detected change of a running process whose event has no metadata
    ends in the log or at the broker.
  \<^item> \<open>Queue_Manager\<close>, \<^verbatim>\<open>daemoneye-eventbus/src/queue_manager.rs\<close>: the queues of offline clients, with
    the draining as separate steps; an instance of \<open>mailboxes\<close>.
  \<^item> \<open>Rate_Limiter\<close>, \<^verbatim>\<open>daemoneye-eventbus/src/rate_limiter.rs\<close>: token buckets; upper bound on what is
    granted (contract \<open>metered\<close>, for clients and for topics) and recovery after a pause.
  \<^item> \<open>Trigger_Queue\<close>, \<^verbatim>\<open>collector-core/src/trigger/queue.rs\<close>: the two-lane queue of triggers; an
    instance of \<open>mailboxes\<close>.
  \<^item> \<open>Audit_Ledger\<close>, \<^verbatim>\<open>daemoneye-lib/src/crypto.rs\<close>: hash inputs, the chain and its verification.
  \<^item> \<open>Agent_State\<close>, \<^verbatim>\<open>daemoneye-agent/src/broker_manager/state.rs\<close> and \<^verbatim>\<open>state_machine.rs\<close>: the start-up
    state machine as an inductive step relation, and the waiting loop.
  \<^item> \<open>Ipc_Codec\<close>, \<^verbatim>\<open>daemoneye-lib/src/ipc/codec.rs\<close>: writing and reading frames with every error.
  \<^item> \<open>Ordered_Table\<close>: tables and multimaps ordered by key, as the database offers them; an instance
    of \<open>keyed_store\<close>.
  \<^item> \<open>Event_Store\<close>, \<open>Event_Store_Inv\<close>, \<^verbatim>\<open>daemoneye-lib/src/storage\<close> (\<^verbatim>\<open>mod.rs\<close>, \<^verbatim>\<open>bucket.rs\<close>, \<^verbatim>\<open>codec.rs\<close>,
    \<^verbatim>\<open>index.rs\<close>): process records in time buckets with their indexes. The invariant \<open>store_inv\<close> (every
    row in its bucket, every index exact) is kept by every operation; group commits are atomic,
    lookups and scans refine the filtered list of stored events, retention drops old events only.
  \<^item> \<open>Ingest\<close>, \<^verbatim>\<open>daemoneye-lib/src/storage/ingest/mod.rs\<close>: the writer that batches submitted records, with
    duplicate filter, gap detection and flush. The contract \<open>delivery_gate\<close> (nothing passes a
    watermark twice) holds of the writer within a session, and of the store across restarts that can read
    the watermarks.
  \<^item> \<open>Detection_Cycle\<close>, \<open>Detection_Cycle_Safety\<close>, \<^verbatim>\<open>daemoneye-agent/src/detection_cycle.rs\<close> and the loop of
    \<^verbatim>\<open>daemoneye-agent/src/main.rs\<close>: a cycle numbers and ingests its records, plans its window, carries
    failures and moves the mark. The property that spans store, ingest and agent is that every
    stored event was in the window of an evaluation or still lies ahead, with the exceptions below.
  \<^item> \<open>Rejection_Log\<close>, \<^verbatim>\<open>daemoneye-lib/src/rejection_log.rs\<close> and \<^verbatim>\<open>detection/rejection.rs\<close>: the bounded hash
    chain of refused rules and registrations; it holds the newest refusals and verifies.
  \<^item> \<open>Schema_Catalog\<close>, \<^verbatim>\<open>daemoneye-lib/src/detection/catalog.rs\<close>: verification of tokens, the descriptors of
    the collectors, who owns which table, and which operations passed their test. Registration refines
    a map from collectors to what they advertise, and what may be pushed after it is characterised.
  \<^item> \<open>Rule_Planner\<close>, \<^verbatim>\<open>daemoneye-lib/src/detection/planner.rs\<close>: the split of a rule into the predicates a
    collector evaluates and the residual the agent evaluates; the split is exact, also after the residual
    text is parsed again as \<^verbatim>\<open>execution/derive.rs\<close> does (\<open>parse_selection\<close>).
  \<^item> \<open>Pushdown_Tasks\<close>, \<^verbatim>\<open>collector-core/src/pushdown.rs\<close> and the wire types of
    \<^verbatim>\<open>daemoneye-eventbus/src/rpc/descriptor.rs\<close>: the acceptance of tasks by a collector. The property that
    spans planner, catalog and collector says which planned tasks are accepted.
  \<^item> \<open>Rule_Engine\<close>, \<open>Rule_Engine_Runs\<close>, \<^verbatim>\<open>daemoneye-lib/src/detection\<close> (\<^verbatim>\<open>mod.rs\<close>, \<^verbatim>\<open>rule_health.rs\<close>,
    \<^verbatim>\<open>generation.rs\<close>, \<^verbatim>\<open>runnable.rs\<close>, \<^verbatim>\<open>task_renewal.rs\<close>, \<^verbatim>\<open>pattern_latency.rs\<close>): every operation of the engine.
    The invariant \<open>engine_inv\<close> (a plan is of a loaded, healthy rule whose references resolve) is kept by
    each; over runs, a rule that was too slow stays out until it is loaded again, reports about a
    replaced rule are ignored, and a renewal cycle leaves every rule that may run with a task.
  \<^item> \<open>Spawn_Tokens\<close>, \<^verbatim>\<open>daemoneye-eventbus/src/process_manager/spawn_token.rs\<close>: the store of tokens over an
    explicit file system; a token reaches the process it was issued for and authenticates it.
  \<^item> \<open>Collector_Registry\<close>, \<^verbatim>\<open>daemoneye-agent/src/collector_admission.rs\<close> and \<^verbatim>\<open>collector_registry.rs\<close>: the gates
    of a registration, on top of \<open>Spawn_Tokens\<close> and \<open>Rule_Engine\<close>, are proved to be those of a
    specification, in its order; heartbeats; the topics an admitted collector gets, against \<open>Topic\<close>.
  \<^item> \<open>Simple_Icons\<close>, \<open>Whichlang\<close>, \<open>Mermaid_Init\<close>, \<^verbatim>\<open>docs/whichlang.js\<close> and \<^verbatim>\<open>docs/mermaid-init.js\<close>: the
    bundled icon tables, the banners of code blocks with the exceptions the script can throw, and
    the theme of the diagrams.

  \<^bold>\<open>How the code is modelled.\<close> A struct is a record, an enum a datatype, and each function one
  definition with its early returns as branches; errors are values of \<open>result\<close>. State is passed
  explicitly. Hash maps are association lists in iteration order, so what depends on that order is
  visible. \<open>u32\<close> and \<open>u64\<close> are words and wrap or saturate as the code does; \<open>usize\<close> is a natural
  number where it counts elements in memory. An \<open>await\<close> at which the code releases a lock splits a
  function into steps (draining a queue, the broadcast of the agent, a write to the log), and the
  interleavings of the steps are quantified over.

  \<^bold>\<open>Parameters.\<close> Code outside the repository is an argument: \<open>postcard\<close>, \<open>prost\<close> and the checksums
  in codec records, with the hypothesis that decoding inverts encoding, except that \<open>postcard\<close> cannot read
  back a process event with metadata, a \<open>serde_json::Value\<close> (\<open>Wal_Safety.postcard_ok\<close>); BLAKE3, about which
  the tamper evidence says that the two ledgers exhibit two texts with one hash if they disagree; system calls as a
  function that tells which fail, and after how many bytes; the rounding of floating-point numbers,
  with the relative error bound and exactness of IEEE 754 away from underflow and overflow, which the
  quantities of the rate limiter do not reach; Unicode case conversion. Paths are strings, \<open>display\<close> shows
  them unchanged, and distinct strings name distinct files. The broker, seen from
  the connector and the agent, is the sequence of outcomes of the attempts to reach it. The
  database \<open>redb\<close> is a record of its operations with the hypothesis that a read sees the committed
  contents and that a commit happens as a whole or not at all; each may fail. Whether every alert of
  a window was stored is an input of a cycle of the agent. The parser, the printer and the traversals
  of \<open>sqlparser\<close>, the gate for SQL text, the compiler of regular expressions and the dry run by
  \<open>datafusion\<close> are arguments of the planner and the engine; that the split of a rule is exact rests on
  the SQL meaning of parentheses, \<open>AND\<close>, columns and comparisons with literals (\<open>sql_values\<close>,
  \<open>sql_comparisons\<close>), on a parser that reads a parenthesised conjunct of the rule back and groups \<open>AND\<close> to
  the left (\<open>sql_grammar\<close>), and on a collector that evaluates each predicate over a pushable operation as that
  operation (\<open>collector_conforms\<close>). The
  bytes of a token are an argument, and no property assumes that they are unpredictable.

  \<^bold>\<open>Loops.\<close> All loops but one are structural or have a termination proof, so there is no fuel. The
  agent's waiting loop is a \<open>partial_function\<close> into \<open>option\<close>, and it is proved to end after at most
  \<open>timeout div poll_interval + 2\<close> polls.

  \<^bold>\<open>Where guarantees end.\<close> Several theorems are counterexamples on the model: an event with metadata,
  which is acknowledged and never replayed; a write acknowledged behind the torn end of a file after a restart;
  the clean-up of the log after out-of-order appends and after a failed rotation; numbers that start again after a
  restart; a delivery stored again by a session that could not read the watermarks; events stamped 0 ms,
  which no window holds, and events of a cycle whose ingest returned early, which no evaluation waits for; an
  agent that stays ready when its configuration gains a collector, and one that is told its collectors are
  ready by a poll past the deadline; overlapping drains of one queue; a ledger without its oldest entries that still
  verifies; a window that a restarted agent does not evaluate again after the clock stepped back; a
  failed ingest that is forgotten when a second one follows; the end of a process, which is never
  published, and the start of a very young one, which is never reported;
  the limit of a client that depends on its first topic; a secret in the form
  \<open>--password=secret\<close>; plans that keep predicates whose test was taken back by a new version; rules
  too large for the collector they are planned for, or with a \<open>LIKE\<close> pattern only the collector compiles; task ids that two rules share; a silent collector
  that is always reported healthy, one that cannot register again after a crash, and one whose topics
  are not topic names; a refusal whose reason can be changed; access levels that depend on the order of a hash map; an icon named like a
  member of \<open>Object.prototype\<close>.

  \<^bold>\<open>Not modelled.\<close> The bytes of a returned write to the log are taken to be in the file; the code never
  flushes it, so a process that is killed may lose the last of them, and what is then left of the file is
  covered by the statement about files cut short. An evaluation is the set of stored rows in its window: a
  rule that fails or runs out of time in the executor counts as evaluated. The sockets and tasks of the broker, the remote procedure calls over it and the
  distribution of tasks with the joining of their results are concurrent input and output around the
  modelled routing, queues, rate limiter and registry. The actor loop of the process monitor, the
  process manager and the process collectors are system calls. The validation of SQL text, the trigger
  conditions and the execution of rules walk over syntax trees of \<open>sqlparser\<close> and run in \<open>datafusion\<close>, and
  the read providers of the storage serve the latter; their outcomes are parameters. The cache of
  compiled patterns is left out. The schema check of the store and its rule, alert and scan tables are
  left out; configuration, telemetry, alert sinks, binary hashing and the command line are input and
  output; the diagram library is third-party code. The path data of the icons is a parameter of
  \<open>Whichlang\<close>.
\<close>

end
